(* ===== verification/Prelude.thy ===== *)
theory Prelude
  imports Main "HOL-Library.Multiset" "HOL-Library.AList" "HOL-Library.Char_ord" "HOL-Library.List_Lexorder"
begin

text \<open>
  What every component shares: the proof collections, Go's time values and durations,
  the regular expressions of \<^verbatim>\<open>internal/health/receipt.go\<close>, Go maps as association
  lists with distinct keys, sorted strings, decimal printing, and files as documents.
\<close>

named_theorems go_defs \<open>definitions unfolded by the component proofs\<close>

section \<open>Results\<close>

text \<open>A Go function that returns \<open>(value, error)\<close> returns \<open>Inl error\<close> or \<open>Inr value\<close>.\<close>

fun is_ok :: "'e + 'a \<Rightarrow> bool" where
  "is_ok (Inl _) = False"
| "is_ok (Inr _) = True"

lemma is_ok_iff: "is_ok r \<longleftrightarrow> (\<exists>v. r = Inr v)"
  by (cases r) auto

section \<open>Time\<close>

text \<open>
  A \<^verbatim>\<open>time.Time\<close> is the number of nanoseconds since Go's zero time, 0001-01-01T00:00:00Z:
  \<^verbatim>\<open>IsZero\<close> is equality with 0, \<^verbatim>\<open>Truncate\<close> rounds down since the zero time, comparisons compare
  instants and \<^verbatim>\<open>UTC\<close> is the identity.  A \<^verbatim>\<open>time.Duration\<close> is a signed number of nanoseconds;
  \<^verbatim>\<open>Sub\<close> saturates at the 64-bit range, as Go's does.
\<close>

type_synonym time = int
type_synonym duration = int

definition second :: duration where "second = 1000000000"
definition minute :: duration where "minute = 60 * second"

definition time_zero :: time where "time_zero = 0"

definition IsZero :: "time \<Rightarrow> bool" where "IsZero t \<longleftrightarrow> t = 0"

definition time_Truncate :: "time \<Rightarrow> duration \<Rightarrow> time" where
  "time_Truncate t d = (if d \<le> 0 then t else t - t mod d)"

definition time_Sub :: "time \<Rightarrow> time \<Rightarrow> duration" where
  "time_Sub a b = max (- (2 ^ 63)) (min (2 ^ 63 - 1) (a - b))"

text \<open>\<^verbatim>\<open>Time.Unix\<close>: whole seconds since 1970-01-01T00:00:00Z; and back.\<close>

definition unix_epoch_seconds :: int where "unix_epoch_seconds = 62135596800"

definition time_Unix :: "time \<Rightarrow> int" where
  "time_Unix t = t div second - unix_epoch_seconds"

definition from_Unix :: "int \<Rightarrow> time" where
  "from_Unix s = (s + unix_epoch_seconds) * second"

text \<open>\<^verbatim>\<open>Time.MarshalJSON\<close> fails outside the years 0 to 9999.\<close>

definition json_time_ok :: "time \<Rightarrow> bool" where
  "json_time_ok t \<longleftrightarrow> - (366 * 86400 * second) \<le> t \<and> t < 3652059 * 86400 * second"

lemmas time_defs [go_defs] = IsZero_def time_zero_def minute_def second_def

lemma time_Truncate_le: "0 < d \<Longrightarrow> time_Truncate t d \<le> t"
  by (simp add: time_Truncate_def)

lemma time_Truncate_gt: "0 < d \<Longrightarrow> t < time_Truncate t d + d"
  using pos_mod_bound [of d t] by (simp add: time_Truncate_def)

lemma time_Truncate_mono: "0 < d \<Longrightarrow> t \<le> u \<Longrightarrow> time_Truncate t d \<le> time_Truncate u d"
proof -
  assume d: "0 < d" and tu: "t \<le> u"
  have "time_Truncate v d = d * (v div d)" for v
    using d by (simp add: time_Truncate_def minus_mod_eq_mult_div)
  then show ?thesis using d tu zdiv_mono1 [OF tu d] by simp
qed

lemma time_Truncate_mod: "0 < d \<Longrightarrow> time_Truncate t d mod d = 0"
  by (simp add: time_Truncate_def)

lemma time_Truncate_idem [simp]: "time_Truncate (time_Truncate t d) d = time_Truncate t d"
  by (cases "0 < d") (auto simp: time_Truncate_def mod_diff_left_eq)

lemma time_Truncate_eqI: "0 < d \<Longrightarrow> t mod d = 0 \<Longrightarrow> t \<le> u \<Longrightarrow> u < t + d \<Longrightarrow> time_Truncate u d = t"
proof -
  assume d: "0 < d" and t: "t mod d = 0" and u: "t \<le> u" "u < t + d"
  have "u mod d = (t + (u - t)) mod d" by simp
  also have "\<dots> = (u - t) mod d" using t by (metis add_0 mod_add_left_eq)
  also have "\<dots> = u - t" using u by (simp add: mod_pos_pos_trivial)
  finally show ?thesis using d by (simp add: time_Truncate_def)
qed

section \<open>The patterns of receipt.go\<close>

definition is_lower_hex :: "char \<Rightarrow> bool" where
  "is_lower_hex c \<longleftrightarrow>
     (let n = (of_char c :: nat) in (48 \<le> n \<and> n \<le> 57) \<or> (97 \<le> n \<and> n \<le> 102))"

definition is_digit :: "char \<Rightarrow> bool" where
  "is_digit c \<longleftrightarrow> (let n = (of_char c :: nat) in 48 \<le> n \<and> n \<le> 57)"

definition hex_string :: "nat \<Rightarrow> string \<Rightarrow> bool" where
  "hex_string n s \<longleftrightarrow> length s = n \<and> list_all is_lower_hex s"

definition sha256Pattern :: "string \<Rightarrow> bool" where
  "sha256Pattern s \<longleftrightarrow> hex_string 64 s"

definition commitPattern :: "string \<Rightarrow> bool" where
  "commitPattern s \<longleftrightarrow> hex_string 40 s"

text \<open>\<open>uuidPattern\<close>: 8-4-4-4-12 hexadecimal digits, version 1 to 5, variant 8, 9, a or b.\<close>

definition uuidPattern :: "string \<Rightarrow> bool" where
  "uuidPattern s \<longleftrightarrow>
     length s = 36 \<and>
     s ! 8 = CHR ''-'' \<and> s ! 13 = CHR ''-'' \<and> s ! 18 = CHR ''-'' \<and> s ! 23 = CHR ''-'' \<and>
     list_all is_lower_hex (take 8 s) \<and>
     list_all is_lower_hex (take 4 (drop 9 s)) \<and>
     s ! 14 \<in> set ''12345'' \<and> list_all is_lower_hex (take 3 (drop 15 s)) \<and>
     s ! 19 \<in> set ''89ab'' \<and> list_all is_lower_hex (take 3 (drop 20 s)) \<and>
     list_all is_lower_hex (drop 24 s)"

definition catalogOperationIDPattern :: "string \<Rightarrow> bool" where
  "catalogOperationIDPattern s \<longleftrightarrow>
     length s = 15 \<and> take 7 s = ''dpr-op-'' \<and> list_all is_digit (drop 7 s)"

definition releaseTagPattern :: "string \<Rightarrow> bool" where
  "releaseTagPattern s \<longleftrightarrow>
     length s = 11 \<and> s ! 0 = CHR ''v'' \<and> list_all is_digit (take 4 (drop 1 s)) \<and>
     s ! 5 = CHR ''.'' \<and> list_all is_digit (take 2 (drop 6 s)) \<and>
     s ! 8 = CHR ''.'' \<and> list_all is_digit (drop 9 s)"

lemma sha256Pattern_nonempty: "sha256Pattern s \<Longrightarrow> s \<noteq> []"
  by (auto simp: sha256Pattern_def hex_string_def)

section \<open>White space\<close>

text \<open>\<^verbatim>\<open>strings.TrimSpace(s) == ""\<close>: only Unicode white space, in UTF-8.\<close>

fun blank_bytes :: "nat list \<Rightarrow> bool" where
  "blank_bytes [] \<longleftrightarrow> True"
| "blank_bytes (b # bs) \<longleftrightarrow>
     (if b = 32 \<or> (9 \<le> b \<and> b \<le> 13) then blank_bytes bs
      else case bs of
        [] \<Rightarrow> False
      | c # cs \<Rightarrow>
          (if b = 194 \<and> (c = 133 \<or> c = 160) then blank_bytes cs
           else case cs of
             [] \<Rightarrow> False
           | d # ds \<Rightarrow>
               (if (b = 225 \<and> c = 154 \<and> d = 128) \<or>
                   (b = 226 \<and> c = 128 \<and> ((128 \<le> d \<and> d \<le> 138) \<or> d = 168 \<or> d = 169 \<or> d = 175)) \<or>
                   (b = 226 \<and> c = 129 \<and> d = 159) \<or> (b = 227 \<and> c = 128 \<and> d = 128)
                then blank_bytes ds else False)))"

definition blank :: "string \<Rightarrow> bool" where
  "blank s \<longleftrightarrow> blank_bytes (List.map of_char s)"

section \<open>Decimal printing (\<open>%d\<close>)\<close>

fun nat_dec :: "nat \<Rightarrow> string" where
  "nat_dec n = (if n < 10 then [char_of (48 + n)] else nat_dec (n div 10) @ [char_of (48 + n mod 10)])"

declare nat_dec.simps [simp del]

definition int_dec :: "int \<Rightarrow> string" where
  "int_dec i = (if i < 0 then ''-'' @ nat_dec (nat (- i)) else nat_dec (nat i))"

section \<open>Go maps\<close>

text \<open>
  A Go map is an association list with distinct keys: the list fixes one of the orders in
  which \<^verbatim>\<open>range\<close> may visit it.  Lookups are \<open>map_of\<close>, assignment \<open>AList.update\<close> and
  \<^verbatim>\<open>delete\<close> \<open>AList.delete\<close>.
\<close>

type_synonym ('k, 'v) gomap = "('k \<times> 'v) list"

abbreviation gm_keys :: "('k, 'v) gomap \<Rightarrow> 'k list" where
  "gm_keys m \<equiv> List.map fst m"

abbreviation gm_wf :: "('k, 'v) gomap \<Rightarrow> bool" where
  "gm_wf m \<equiv> distinct (gm_keys m)"

abbreviation gm_get :: "('k, 'v) gomap \<Rightarrow> 'k \<Rightarrow> 'v option" where
  "gm_get \<equiv> map_of"

abbreviation gm_put :: "'k \<Rightarrow> 'v \<Rightarrow> ('k, 'v) gomap \<Rightarrow> ('k, 'v) gomap" where
  "gm_put \<equiv> AList.update"

lemma gm_get_put [simp]: "gm_get (gm_put k v m) j = (if j = k then Some v else gm_get m j)"
  by (simp add: update_conv')

lemma gm_wf_put [intro, simp]: "gm_wf m \<Longrightarrow> gm_wf (gm_put k v m)"
  by (rule distinct_update)

lemma gm_get_in: "gm_get m k = Some v \<Longrightarrow> (k, v) \<in> set m"
  by (rule map_of_SomeD)

lemma gm_in_get: "gm_wf m \<Longrightarrow> (k, v) \<in> set m \<Longrightarrow> gm_get m k = Some v"
  by simp

lemma gm_keys_put_present: "gm_get m k = Some v \<Longrightarrow> gm_keys (gm_put k w m) = gm_keys m"
  by (induction m) (auto split: if_splits)

text \<open>Updating a present key maps the association list pointwise.\<close>

lemma gm_put_present:
  "gm_wf m \<Longrightarrow> gm_get m k = Some v \<Longrightarrow>
    gm_put k w m = List.map (\<lambda>(j, x). (j, if j = k then w else x)) m"
proof (induction m)
  case Nil
  then show ?case by simp
next
  case (Cons p m)
  obtain j x where p: "p = (j, x)" by (cases p)
  show ?case
  proof (cases "j = k")
    case True
    with Cons.prems p have "k \<notin> fst ` set m" by auto
    then have "List.map (\<lambda>(i, y). (i, if i = k then w else y)) m = m"
      by (intro map_idI) (auto simp: image_iff)
    with True p show ?thesis by simp
  next
    case False
    with Cons p show ?thesis by simp
  qed
qed

lemma gm_in_put:
  "gm_wf m \<Longrightarrow> (j, x) \<in> set (gm_put k v m) \<longleftrightarrow> (if j = k then x = v else (j, x) \<in> set m)"
  by (metis gm_get_in gm_get_put gm_in_get gm_wf_put option.inject)

text \<open>Copying a map entry by entry into an empty one, in the order \<^verbatim>\<open>range\<close> visits it.\<close>

definition gm_copy :: "('k, 'v) gomap \<Rightarrow> ('k, 'v) gomap" where
  "gm_copy m = foldl (\<lambda>acc (k, v). gm_put k v acc) [] m"

lemma gm_put_absent: "k \<notin> set (gm_keys m) \<Longrightarrow> gm_put k v m = m @ [(k, v)]"
  by (induction m) auto

lemma foldl_put_absent:
  "gm_wf (acc @ m) \<Longrightarrow> foldl (\<lambda>acc (k, v). gm_put k v acc) acc m = acc @ m"
proof (induction m arbitrary: acc)
  case Nil
  then show ?case by simp
next
  case (Cons p m)
  then show ?case by (cases p) (simp add: gm_put_absent)
qed

lemma gm_copy_eq [simp]: "gm_wf m \<Longrightarrow> gm_copy m = m"
  by (simp add: gm_copy_def foldl_put_absent)

section \<open>Sorting\<close>

text \<open>
  \<^verbatim>\<open>sort.Strings\<close> is \<open>sort\<close> on strings ordered bytewise (\<open>List_Lexorder\<close> over \<open>Char_ord\<close>);
  \<^verbatim>\<open>sort.Slice\<close> by a string field is \<open>sort_key\<close>, whose result is unique where the keys differ.
\<close>

lemma sort_perm_eq: "mset xs = mset ys \<Longrightarrow> sort xs = sort (ys :: 'a :: linorder list)"
  by (metis mset_sort sort_key_id_if_sorted sorted_list_of_multiset_mset)

lemma filter_distinct_map: "distinct (List.map f xs) \<Longrightarrow> distinct (List.map f (filter P xs))"
  by (rule distinct_map_filter)

section \<open>Files holding one JSON document\<close>

text \<open>
  A file is absent, holds bytes that do not decode into the expected type (truncated,
  oversized, unknown fields, trailing data, an I/O error on read), or holds the encoding of
  one value.  The model keeps the decoded value: \<^verbatim>\<open>encoding/json\<close> is taken to round-trip the
  records stored.
\<close>

datatype 'a stored = Absent | Garbage | Doc 'a

end
