(* ===== verification/Encoding.thy ===== *)
theory Encoding
  imports Prelude
begin

text \<open>
  Decimal printing and the length-prefixed text \<^verbatim>\<open>fmt.Fprintf(hash, "%d:%s", len(f), f)\<close> that
  the sources hash for operation identities and queue digests: the text determines the
  list of fields, so two different lists never feed the same bytes to the hash.
\<close>

definition lp_field :: "string \<Rightarrow> string" where
  "lp_field s = nat_dec (length s) @ '':'' @ s"

definition lp_encode :: "string list \<Rightarrow> string" where
  "lp_encode fs = concat (List.map lp_field fs)"

section \<open>Decimal printing is injective and prints digits\<close>

definition digit_value :: "char \<Rightarrow> nat" where
  "digit_value c = of_char c - 48"

definition dec_value :: "string \<Rightarrow> nat" where
  "dec_value s = foldl (\<lambda>acc c. 10 * acc + digit_value c) 0 s"

lemma is_digit_char_of: "n < 10 \<Longrightarrow> is_digit (char_of (48 + n :: nat))"
  by (simp add: is_digit_def Let_def)

lemma digit_value_char_of: "n < 10 \<Longrightarrow> digit_value (char_of (48 + n)) = n"
  by (simp add: digit_value_def)

lemma nat_dec_digits: "list_all is_digit (nat_dec n)"
proof (induction n rule: nat_dec.induct)
  case (1 n)
  show ?case
  proof (cases "n < 10")
    case True
    then show ?thesis by (simp add: nat_dec.simps [of n] is_digit_char_of)
  next
    case False
    with "1.IH" show ?thesis by (simp add: nat_dec.simps [of n] is_digit_char_of)
  qed
qed

lemma dec_value_nat_dec [simp]: "dec_value (nat_dec n) = n"
proof (induction n rule: nat_dec.induct)
  case (1 n)
  show ?case
  proof (cases "n < 10")
    case True
    then show ?thesis by (simp add: nat_dec.simps [of n] dec_value_def digit_value_char_of)
  next
    case False
    with "1.IH" have "dec_value (nat_dec n) = 10 * (n div 10) + n mod 10"
      by (simp add: nat_dec.simps [of n] dec_value_def digit_value_char_of)
    then show ?thesis by simp
  qed
qed

lemma nat_dec_inject [simp]: "nat_dec m = nat_dec n \<longleftrightarrow> m = n"
  by (metis dec_value_nat_dec)

lemma nat_dec_not_colon: "CHR '':'' \<notin> set (nat_dec n)"
  using nat_dec_digits [of n] by (auto simp: list_all_iff is_digit_def)

lemma nat_dec_nonempty [simp]: "nat_dec n \<noteq> []"
  by (subst nat_dec.simps) simp

section \<open>The length-prefixed text determines its fields\<close>

lemma split_at_separator:
  "c \<notin> set a \<Longrightarrow> c \<notin> set b \<Longrightarrow> a @ c # r = b @ c # s \<longleftrightarrow> a = b \<and> r = s"
proof (induction a arbitrary: b)
  case Nil
  then show ?case by (cases b) auto
next
  case (Cons x a)
  then show ?case by (cases b) auto
qed

lemma lp_field_append_inject: "lp_field x @ r = lp_field y @ s \<longleftrightarrow> x = y \<and> r = s"
proof
  assume eq: "lp_field x @ r = lp_field y @ s"
  then have "nat_dec (length x) = nat_dec (length y) \<and> x @ r = y @ s"
    using split_at_separator [of "CHR '':''" "nat_dec (length x)" "nat_dec (length y)"]
    by (simp add: lp_field_def nat_dec_not_colon)
  then have "length x = length y" "x @ r = y @ s" by auto
  then show "x = y \<and> r = s" using append_eq_append_conv by blast
qed simp

lemma lp_field_nonempty [simp]: "lp_field x \<noteq> []"
  by (simp add: lp_field_def)

lemma lp_encode_simps [simp]:
  "lp_encode [] = []"
  "lp_encode (f # fs) = lp_field f @ lp_encode fs"
  by (simp_all add: lp_encode_def)

lemma lp_encode_inject: "lp_encode xs = lp_encode ys \<longleftrightarrow> xs = ys"
proof
  assume "lp_encode xs = lp_encode ys"
  then show "xs = ys"
  proof (induction xs arbitrary: ys)
    case Nil
    then show ?case by (cases ys) auto
  next
    case (Cons x xs)
    then show ?case by (cases ys) (auto simp: lp_field_append_inject)
  qed
qed simp

end
