(* ===== verification/Sha256.thy ===== *)
theory Sha256
  imports Prelude "HOL-Library.Word"
begin

text \<open>
  Go's \<^verbatim>\<open>crypto/sha256\<close> and \<^verbatim>\<open>encoding/hex\<close>, as the sources use them: one-shot hashing
  of a byte string, the lower-case hexadecimal text of the digest, and the first eight
  digest bytes read as a big-endian 64-bit integer (FIPS 180-4, on 32-bit words that wrap
  around).  The one fact the rest of the development needs is that a digest prints as
  64 lower-case hexadecimal digits; nothing assumes that the hash is injective.
\<close>

unbundle bit_operations_syntax

type_synonym u32 = "32 word"

definition sha_k :: "u32 list" where
  "sha_k = [
    1116352408, 1899447441, 3049323471, 3921009573, 961987163, 1508970993,
    2453635748, 2870763221, 3624381080, 310598401, 607225278, 1426881987,
    1925078388, 2162078206, 2614888103, 3248222580, 3835390401, 4022224774,
    264347078, 604807628, 770255983, 1249150122, 1555081692, 1996064986,
    2554220882, 2821834349, 2952996808, 3210313671, 3336571891, 3584528711,
    113926993, 338241895, 666307205, 773529912, 1294757372, 1396182291,
    1695183700, 1986661051, 2177026350, 2456956037, 2730485921, 2820302411,
    3259730800, 3345764771, 3516065817, 3600352804, 4094571909, 275423344,
    430227734, 506948616, 659060556, 883997877, 958139571, 1322822218,
    1537002063, 1747873779, 1955562222, 2024104815, 2227730452, 2361852424,
    2428436474, 2756734187, 3204031479, 3329325298]"

record sha_state =
  sh_a :: u32
  sh_b :: u32
  sh_c :: u32
  sh_d :: u32
  sh_e :: u32
  sh_f :: u32
  sh_g :: u32
  sh_h :: u32

definition sha_init :: sha_state where
  "sha_init = \<lparr>sh_a = 1779033703, sh_b = 3144134277, sh_c = 1013904242, sh_d = 2773480762,
    sh_e = 1359893119, sh_f = 2600822924, sh_g = 528734635, sh_h = 1541459225\<rparr>"

definition rotr :: "nat \<Rightarrow> u32 \<Rightarrow> u32" where
  "rotr n x = drop_bit n x OR push_bit (32 - n) x"

fun sha_extend :: "nat \<Rightarrow> u32 list \<Rightarrow> u32 list" where
  "sha_extend 0 w = w"
| "sha_extend (Suc n) w =
     (let x = w ! (length w - 15);
          y = w ! (length w - 2);
          s0 = rotr 7 x XOR rotr 18 x XOR drop_bit 3 x;
          s1 = rotr 17 y XOR rotr 19 y XOR drop_bit 10 y
      in sha_extend n (w @ [s1 + w ! (length w - 7) + s0 + w ! (length w - 16)]))"

definition sha_round :: "sha_state \<Rightarrow> u32 \<times> u32 \<Rightarrow> sha_state" where
  "sha_round s kw =
     (let s1 = rotr 6 (sh_e s) XOR rotr 11 (sh_e s) XOR rotr 25 (sh_e s);
          ch = (sh_e s AND sh_f s) XOR (NOT (sh_e s) AND sh_g s);
          t1 = sh_h s + s1 + ch + fst kw + snd kw;
          s0 = rotr 2 (sh_a s) XOR rotr 13 (sh_a s) XOR rotr 22 (sh_a s);
          maj = (sh_a s AND sh_b s) XOR (sh_a s AND sh_c s) XOR (sh_b s AND sh_c s);
          t2 = s0 + maj
      in \<lparr>sh_a = t1 + t2, sh_b = sh_a s, sh_c = sh_b s, sh_d = sh_c s,
          sh_e = sh_d s + t1, sh_f = sh_e s, sh_g = sh_f s, sh_h = sh_g s\<rparr>)"

definition sha_block :: "sha_state \<Rightarrow> u32 list \<Rightarrow> sha_state" where
  "sha_block s w =
     (let t = foldl sha_round s (zip sha_k (sha_extend 48 w))
      in \<lparr>sh_a = sh_a s + sh_a t, sh_b = sh_b s + sh_b t, sh_c = sh_c s + sh_c t,
          sh_d = sh_d s + sh_d t, sh_e = sh_e s + sh_e t, sh_f = sh_f s + sh_f t,
          sh_g = sh_g s + sh_g t, sh_h = sh_h s + sh_h t\<rparr>)"

text \<open>Bytes are natural numbers below 256; a string is the list of its bytes.\<close>

definition bytes_of :: "string \<Rightarrow> nat list" where
  "bytes_of s = List.map of_char s"

fun be_bytes :: "nat \<Rightarrow> nat \<Rightarrow> nat list" where
  "be_bytes 0 n = []"
| "be_bytes (Suc k) n = be_bytes k (n div 256) @ [n mod 256]"

definition be_value :: "nat list \<Rightarrow> nat" where
  "be_value bs = foldl (\<lambda>acc b. acc * 256 + b) 0 bs"

definition sha_pad :: "nat list \<Rightarrow> nat list" where
  "sha_pad bs =
     (let n = length bs;
          z = (if n mod 64 < 56 then 55 - n mod 64 else 119 - n mod 64)
      in bs @ [128] @ replicate z 0 @ be_bytes 8 (8 * n mod 2 ^ 64))"

fun sha_words :: "nat list \<Rightarrow> u32 list" where
  "sha_words (a # b # c # d # rest) = of_nat (be_value [a, b, c, d]) # sha_words rest"
| "sha_words _ = []"

function sha_blocks :: "sha_state \<Rightarrow> u32 list \<Rightarrow> sha_state" where
  "sha_blocks s w = (if length w < 16 then s else sha_blocks (sha_block s (take 16 w)) (drop 16 w))"
  by pat_completeness auto
termination
  by (relation "measure (\<lambda>(s, w). length w)") auto

declare sha_blocks.simps [simp del]

text \<open>\<^verbatim>\<open>sha256.Sum256\<close>: the 32 digest bytes.\<close>

definition sha256_sum :: "string \<Rightarrow> nat list" where
  "sha256_sum s =
     (let t = sha_blocks sha_init (sha_words (sha_pad (bytes_of s)))
      in List.maps (\<lambda>w. be_bytes 4 (unat w))
           [sh_a t, sh_b t, sh_c t, sh_d t, sh_e t, sh_f t, sh_g t, sh_h t])"

text \<open>\<^verbatim>\<open>hex.EncodeToString\<close>.\<close>

definition hex_digit :: "nat \<Rightarrow> char" where
  "hex_digit n = (if n < 10 then char_of (48 + n) else char_of (87 + n))"

definition hex_encode :: "nat list \<Rightarrow> string" where
  "hex_encode bs = List.maps (\<lambda>b. [hex_digit (b div 16), hex_digit (b mod 16)]) bs"

definition sha256_hex :: "string \<Rightarrow> string" where
  "sha256_hex s = hex_encode (sha256_sum s)"

text \<open>\<^verbatim>\<open>binary.BigEndian.Uint64(hash[:8])\<close>.\<close>

definition sha256_u64 :: "string \<Rightarrow> nat" where
  "sha256_u64 s = be_value (take 8 (sha256_sum s))"

section \<open>A digest prints as 64 lower-case hexadecimal digits\<close>

lemma length_be_bytes [simp]: "length (be_bytes k n) = k"
  by (induction k n rule: be_bytes.induct) auto

lemma be_bytes_bound: "b \<in> set (be_bytes k n) \<Longrightarrow> b < 256"
  by (induction k n rule: be_bytes.induct) auto

lemma length_sha256_sum [simp]: "length (sha256_sum s) = 32"
  by (simp add: sha256_sum_def Let_def)

lemma sha256_sum_bound: "b \<in> set (sha256_sum s) \<Longrightarrow> b < 256"
  by (auto simp: sha256_sum_def Let_def dest: be_bytes_bound)

lemma is_lower_hex_digit: "n < 16 \<Longrightarrow> is_lower_hex (hex_digit n)"
  by (simp add: is_lower_hex_def hex_digit_def)

lemma length_hex_encode [simp]: "length (hex_encode bs) = 2 * length bs"
  by (induction bs) (auto simp: hex_encode_def)

lemma hex_encode_lower:
  "(\<And>b. b \<in> set bs \<Longrightarrow> b < 256) \<Longrightarrow> list_all is_lower_hex (hex_encode bs)"
proof (induction bs)
  case Nil
  then show ?case by (simp add: hex_encode_def)
next
  case (Cons b bs)
  then have "b < 256" by simp
  then have "is_lower_hex (hex_digit (b div 16))" "is_lower_hex (hex_digit (b mod 16))"
    by (auto intro!: is_lower_hex_digit)
  with Cons show ?case by (simp add: hex_encode_def)
qed

lemma sha256Pattern_sha256_hex [simp]: "sha256Pattern (sha256_hex s)"
  using hex_encode_lower [of "sha256_sum s"]
  by (auto simp: sha256Pattern_def hex_string_def sha256_hex_def dest: sha256_sum_bound)

end
