(* ===== verification/Interfaces.thy ===== *)
theory Interfaces
  imports Prelude "HOL-Library.Word"
begin

text \<open>
  The contracts that several components share, as locales: operations that keep an
  invariant, operations that never go back in an order, tokens that fence each other, and
  stores committed by compare-and-swap on a generation.  A client lemma is proved here once;
  each component interprets the locale on its own definitions.
\<close>

section \<open>Operations that keep an invariant\<close>

text \<open>\<open>step a s\<close> is the state after operation \<open>a\<close>, failed operations included.\<close>

locale invariant_steps =
  fixes step :: "'a \<Rightarrow> 's \<Rightarrow> 's"
    and inv :: "'s \<Rightarrow> bool"
  assumes step_inv: "inv s \<Longrightarrow> inv (step a s)"
begin

lemma run_inv: "inv s \<Longrightarrow> inv (fold step ops s)"
  by (induction ops arbitrary: s) (auto intro: step_inv)

end

text \<open>A relation every step respects relates the two ends of every run.\<close>

locale ordered_steps = invariant_steps +
  fixes le :: "'s \<Rightarrow> 's \<Rightarrow> bool"
  assumes le_refl: "le s s"
    and le_trans: "le s t \<Longrightarrow> le t u \<Longrightarrow> le s u"
    and step_le: "inv s \<Longrightarrow> le s (step a s)"
begin

lemma run_le: "inv s \<Longrightarrow> le s (fold step ops s)"
proof (induction ops arbitrary: s)
  case Nil
  then show ?case by (simp add: le_refl)
next
  case (Cons a ops)
  then have "le s (step a s)" "le (step a s) (fold step ops (step a s))"
    by (auto intro: step_le step_inv)
  then show ?case by (auto intro: le_trans)
qed

lemma run_le_between: "inv s \<Longrightarrow> le (fold step ops s) (fold step (ops @ more) s)"
  by (simp add: run_le run_inv)

end

section \<open>Fencing tokens\<close>

text \<open>
  A token is accepted only while it is the current one of its key, and a key has at most
  one current token.  So issuing a token fences every other token of the key.
\<close>

locale fencing =
  fixes current :: "'s \<Rightarrow> 'c \<Rightarrow> bool"
    and accepts :: "'s \<Rightarrow> 'c \<Rightarrow> time \<Rightarrow> bool"
    and same_key :: "'c \<Rightarrow> 'c \<Rightarrow> bool"
  assumes accepts_current: "accepts s c now \<Longrightarrow> current s c"
    and current_unique: "current s c \<Longrightarrow> current s d \<Longrightarrow> same_key c d \<Longrightarrow> c = d"
begin

lemma fenced: "current s d \<Longrightarrow> same_key c d \<Longrightarrow> c \<noteq> d \<Longrightarrow> \<not> accepts s c now"
  using accepts_current current_unique by blast

lemma at_most_one_accepted: "accepts s c t \<Longrightarrow> accepts s d u \<Longrightarrow> same_key c d \<Longrightarrow> c = d"
  using accepts_current current_unique by blast

end

section \<open>Compare-and-swap stores\<close>

text \<open>
  A store keeps contents under a 64-bit generation.  A commit names the generation it read;
  it answers with an error or \<open>None\<close>, and with the store, which a commit that fails late
  may already have replaced.
\<close>

locale cas_store =
  fixes generation :: "'d \<Rightarrow> 64 word"
    and contents :: "'d \<Rightarrow> 'v option"
    and payload :: "'s \<Rightarrow> 'v"
    and commit :: "'d \<Rightarrow> 64 word \<Rightarrow> 's \<Rightarrow> 'e option \<times> 'd"
  assumes commit_conflict: "generation d \<noteq> g \<Longrightarrow> fst (commit d g s) \<noteq> None \<and> snd (commit d g s) = d"
    and commit_effect: "snd (commit d g s) = d \<or>
      generation (snd (commit d g s)) = g + 1 \<and> contents (snd (commit d g s)) = Some (payload s)"
    and commit_success: "fst (commit d g s) = None \<Longrightarrow>
      generation (snd (commit d g s)) = g + 1 \<and> contents (snd (commit d g s)) = Some (payload s)"
begin

lemma next_generation: "(g + 1 :: 64 word) \<noteq> g"
  by simp

text \<open>Once a commit has taken effect, every other commit of the generation it read fails and
  changes nothing: of several writers that read the same generation at most one has an effect.\<close>

lemma no_lost_update:
  assumes "snd (commit d g s) \<noteq> d \<or> fst (commit d g s) = None"
  shows "fst (commit (snd (commit d g s)) g t) \<noteq> None \<and>
    snd (commit (snd (commit d g s)) g t) = snd (commit d g s)"
proof -
  have "generation (snd (commit d g s)) = g + 1"
    using assms commit_effect commit_success by blast
  then have "generation (snd (commit d g s)) \<noteq> g" using next_generation by metis
  then show ?thesis by (rule commit_conflict)
qed

end

end
