(* ===== verification/Operation_Quota.thy ===== *)
theory Operation_Quota
  imports Encoding Sha256 Interfaces
begin

text \<open>
  \<^verbatim>\<open>internal/health/operation_quota.go\<close>: request quotas kept per opaque scope in one directory.
  The world of an authority is that directory: one state file per scope and the pending
  transaction file.  Every write takes its outcome from a list of I/O outcomes; when the list
  is used up every further write fails without effect, so a list that ends early is a crash
  at that point.  The directory lock serialises whole operations.
\<close>

section \<open>Data\<close>

record OperationQuotaPolicy =
  qp_ScopeSHA256 :: string
  qp_MaxConcurrent :: int
  qp_RequestsPerWindow :: int
  qp_Window :: duration
  qp_MinimumInterval :: duration

record OperationQuotaEvidenceRef =
  qe_ArtifactPath :: string
  qe_SHA256 :: string
  qe_JSONPointer :: string
  qe_EvidenceKind :: string

record OperationQuotaClaim =
  qc_ScopeSHA256 :: string
  qc_AttemptID :: string
  qc_Generation :: "64 word"
  qc_ExpiresAt :: time

record operationQuotaLease =
  ql_Generation :: "64 word"
  ql_ExpiresAt :: time

record operationQuotaState =
  qs_SchemaVersion :: string
  qs_ScopeSHA256 :: string
  qs_PolicySHA256 :: string
  qs_WindowStarted :: time
  qs_RequestsUsed :: int
  qs_LastClaimAt :: time
  qs_Generation :: "64 word"
  qs_UpdatedAt :: time
  qs_Active :: "(string, operationQuotaLease) gomap"

record operationQuotaTransaction =
  qt_SchemaVersion :: string
  qt_Kind :: string
  qt_AttemptID :: string
  qt_States :: "operationQuotaState list"

definition OperationQuotaStateSchemaVersion :: string where
  "OperationQuotaStateSchemaVersion = ''datapan.health-operation-quota-state.v1''"

definition operationQuotaTransactionSchemaVersion :: string where
  "operationQuotaTransactionSchemaVersion = ''datapan.health-operation-quota-transaction.v1''"

definition maxOperationQuotaStateBytes :: nat where "maxOperationQuotaStateBytes = 64 * 1024"
definition maxOperationQuotaConcurrent :: nat where "maxOperationQuotaConcurrent = 256"
definition maxOperationQuotaLease :: duration where "maxOperationQuotaLease = 10 * minute"
definition maxOperationQuotaScopesPerCall :: nat where "maxOperationQuotaScopesPerCall = 16"
definition maxOperationQuotaTransactionSize :: nat where "maxOperationQuotaTransactionSize = 2 * 1024 * 1024"

text \<open>
  \<open>QuotaFailure\<close> is \<^verbatim>\<open>operationQuotaFailure\<close>: a bounded category and the private cause.
  \<open>WindowDraining\<close> unwraps to \<open>QuotaTransition\<close>.
\<close>

datatype lock_cause = Canceled | DeadlineExceeded | OtherCause

datatype quota_error =
    QuotaUnavailable
  | QuotaExhausted
  | QuotaFenced
  | QuotaTransition
  | WindowDraining
  | QuotaFailure string "lock_cause option"

text \<open>\<^verbatim>\<open>errors.Is\<close> for the quota errors.\<close>

fun quota_error_is :: "quota_error \<Rightarrow> quota_error \<Rightarrow> bool" where
  "quota_error_is WindowDraining target \<longleftrightarrow> target = WindowDraining \<or> target = QuotaTransition"
| "quota_error_is (QuotaFailure category cause) target \<longleftrightarrow>
     target = QuotaFailure category cause \<or> target = QuotaUnavailable"
| "quota_error_is e target \<longleftrightarrow> target = e"

section \<open>Patterns\<close>

definition quotaAttemptIDPattern :: "string \<Rightarrow> bool" where
  "quotaAttemptIDPattern s \<longleftrightarrow> uuidPattern s \<or> hex_string 64 s"

definition quotaScopeKindPattern :: "string \<Rightarrow> bool" where
  "quotaScopeKindPattern s \<longleftrightarrow> s \<in> set [''global'', ''provider'', ''credential'', ''api'', ''organization'']"

definition quotaEvidencePointerPattern :: "string \<Rightarrow> bool" where
  "quotaEvidencePointerPattern s \<longleftrightarrow>
     s = ''#'' \<or> (take 2 s = ''#/'' \<and> list_all (\<lambda>c. c \<noteq> CHR 0x0A) (drop 2 s))"

definition validOperationQuotaEvidenceKind :: "string \<Rightarrow> bool" where
  "validOperationQuotaEvidenceKind kind \<longleftrightarrow>
     kind \<in> set [''operation_document'', ''operation_manifest'', ''source_profile'', ''reviewed_policy'',
       ''runtime_binding'', ''synthetic_fixture'']"

section \<open>Policies\<close>

definition validOperationQuotaPolicy :: "OperationQuotaPolicy \<Rightarrow> bool" where
  "validOperationQuotaPolicy policy \<longleftrightarrow>
     sha256Pattern (qp_ScopeSHA256 policy) \<and>
     1 \<le> qp_MaxConcurrent policy \<and> qp_MaxConcurrent policy \<le> int maxOperationQuotaConcurrent \<and>
     1 \<le> qp_RequestsPerWindow policy \<and> qp_RequestsPerWindow policy \<le> 1000000 \<and>
     second \<le> qp_Window policy \<and> qp_Window policy \<le> 365 * 24 * 60 * minute \<and>
     0 \<le> qp_MinimumInterval policy \<and> qp_MinimumInterval policy \<le> qp_Window policy"

text \<open>The JSON text of the policy; the scope of a valid policy needs no escapes.\<close>

definition operationQuotaPolicyJSON :: "OperationQuotaPolicy \<Rightarrow> string" where
  "operationQuotaPolicyJSON policy =
     ''{\"scope_sha256\":\"'' @ qp_ScopeSHA256 policy @
     ''\",\"max_concurrent\":'' @ int_dec (qp_MaxConcurrent policy) @
     '',\"requests_per_window\":'' @ int_dec (qp_RequestsPerWindow policy) @
     '',\"window_ns\":'' @ int_dec (qp_Window policy) @
     '',\"minimum_interval_ns\":'' @ int_dec (qp_MinimumInterval policy) @ ''}''"

definition operationQuotaPolicyDigest :: "OperationQuotaPolicy \<Rightarrow> string" where
  "operationQuotaPolicyDigest policy = sha256_hex (operationQuotaPolicyJSON policy)"

definition quota_scope_identity :: "string \<Rightarrow> string \<Rightarrow> string" where
  "quota_scope_identity scopeKind scopeKey =
     ''datapan.quota-scope.v1'' @ [CHR 0x00] @ scopeKind @ [CHR 0x00] @ scopeKey"

definition OperationQuotaScopeDigest :: "string \<Rightarrow> string \<Rightarrow> string" where
  "OperationQuotaScopeDigest scopeKind scopeKey = sha256_hex (quota_scope_identity scopeKind scopeKey)"

definition evidence_ref_ok :: "OperationQuotaEvidenceRef \<Rightarrow> bool" where
  "evidence_ref_ok ref \<longleftrightarrow> \<not> blank (qe_ArtifactPath ref) \<and> sha256Pattern (qe_SHA256 ref) \<and>
     quotaEvidencePointerPattern (qe_JSONPointer ref) \<and> validOperationQuotaEvidenceKind (qe_EvidenceKind ref)"

definition OperationQuotaPolicyFromEvidence ::
  "string \<Rightarrow> string \<Rightarrow> string \<Rightarrow> string \<Rightarrow> string \<Rightarrow> string \<Rightarrow> int \<Rightarrow> int \<Rightarrow> int \<Rightarrow> int
    \<Rightarrow> OperationQuotaEvidenceRef list \<Rightarrow> quota_error + OperationQuotaPolicy" where
  "OperationQuotaPolicyFromEvidence requestPlanStatus runtimeBindingStatus admissionStatus scopeKind scopeKey
       declaredScopeSHA256 maxConcurrent requestsPerWindow windowSeconds minimumIntervalSeconds evidenceRefs =
     (let maximumWindowSeconds = (365 * 24 * 60 * minute) div second
      in if requestPlanStatus \<noteq> ''complete'' \<or> runtimeBindingStatus \<noteq> ''bound'' \<or>
            admissionStatus \<noteq> ''admitted'' \<or> \<not> quotaScopeKindPattern scopeKind \<or> blank scopeKey \<or>
            evidenceRefs = [] \<or> windowSeconds < 1 \<or> windowSeconds > maximumWindowSeconds \<or>
            minimumIntervalSeconds < 0 \<or> minimumIntervalSeconds > windowSeconds
         then Inl QuotaUnavailable
         else if \<not> list_all evidence_ref_ok evidenceRefs then Inl QuotaUnavailable
         else
           let policy = \<lparr>qp_ScopeSHA256 = OperationQuotaScopeDigest scopeKind scopeKey,
                 qp_MaxConcurrent = maxConcurrent, qp_RequestsPerWindow = requestsPerWindow,
                 qp_Window = windowSeconds * second, qp_MinimumInterval = minimumIntervalSeconds * second\<rparr>
           in if qp_ScopeSHA256 policy \<noteq> declaredScopeSHA256 \<or> \<not> validOperationQuotaPolicy policy
              then Inl QuotaUnavailable
              else Inr policy)"

fun policies_by_scope ::
  "OperationQuotaPolicy list \<Rightarrow> (string, OperationQuotaPolicy) gomap
    \<Rightarrow> quota_error + (string, OperationQuotaPolicy) gomap" where
  "policies_by_scope [] byScope = Inr byScope"
| "policies_by_scope (policy # policies) byScope =
     (if \<not> validOperationQuotaPolicy policy then Inl QuotaUnavailable
      else case gm_get byScope (qp_ScopeSHA256 policy) of
        Some previous \<Rightarrow>
          (if operationQuotaPolicyDigest previous \<noteq> operationQuotaPolicyDigest policy then Inl QuotaTransition
           else policies_by_scope policies byScope)
      | None \<Rightarrow> policies_by_scope policies (gm_put (qp_ScopeSHA256 policy) policy byScope))"

definition normalizeOperationQuotaPolicies ::
  "OperationQuotaPolicy list \<Rightarrow> quota_error + OperationQuotaPolicy list" where
  "normalizeOperationQuotaPolicies policies =
     (if policies = [] \<or> length policies > maxOperationQuotaScopesPerCall then Inl QuotaUnavailable
      else case policies_by_scope policies [] of
        Inl e \<Rightarrow> Inl e
      | Inr byScope \<Rightarrow> Inr (sort_key qp_ScopeSHA256 (List.map snd byScope)))"

section \<open>One scope\<close>

definition operationQuotaActive ::
  "(string, operationQuotaLease) gomap \<Rightarrow> time \<Rightarrow> (string, operationQuotaLease) gomap" where
  "operationQuotaActive active now = filter (\<lambda>(attemptID, lease). ql_ExpiresAt lease > now) active"

definition quota_lease_ok :: "64 word \<Rightarrow> string \<times> operationQuotaLease \<Rightarrow> bool" where
  "quota_lease_ok generation = (\<lambda>(attemptID, lease). quotaAttemptIDPattern attemptID \<and>
     ql_Generation lease \<noteq> 0 \<and> ql_Generation lease \<le> generation \<and> \<not> IsZero (ql_ExpiresAt lease))"

definition validOperationQuotaState :: "operationQuotaState \<Rightarrow> bool" where
  "validOperationQuotaState state \<longleftrightarrow>
     qs_SchemaVersion state = OperationQuotaStateSchemaVersion \<and> sha256Pattern (qs_ScopeSHA256 state) \<and>
     sha256Pattern (qs_PolicySHA256 state) \<and> \<not> IsZero (qs_WindowStarted state) \<and>
     0 \<le> qs_RequestsUsed state \<and> qs_RequestsUsed state \<le> 1000000 \<and> qs_Generation state \<noteq> 0 \<and>
     \<not> IsZero (qs_UpdatedAt state) \<and> length (qs_Active state) \<le> maxOperationQuotaConcurrent \<and>
     list_all (quota_lease_ok (qs_Generation state)) (qs_Active state)"

text \<open>The state a claim starts from: a new one, the stored one, or the stored one in a new window.\<close>

definition quota_claim_base ::
  "operationQuotaState option \<Rightarrow> OperationQuotaPolicy \<Rightarrow> time \<Rightarrow> quota_error + operationQuotaState" where
  "quota_claim_base stored policy now =
     (let windowStart = time_Truncate now (qp_Window policy);
          policyHash = operationQuotaPolicyDigest policy
      in case stored of
        None \<Rightarrow> Inr \<lparr>qs_SchemaVersion = OperationQuotaStateSchemaVersion,
            qs_ScopeSHA256 = qp_ScopeSHA256 policy, qs_PolicySHA256 = policyHash,
            qs_WindowStarted = windowStart, qs_RequestsUsed = 0, qs_LastClaimAt = time_zero,
            qs_Generation = 0, qs_UpdatedAt = time_zero, qs_Active = []\<rparr>
      | Some state \<Rightarrow>
          (if qs_ScopeSHA256 state \<noteq> qp_ScopeSHA256 policy \<or> now < qs_UpdatedAt state
           then Inl QuotaUnavailable
           else if qs_WindowStarted state \<noteq> windowStart
           then (if operationQuotaActive (qs_Active state) now \<noteq> []
                 then Inl (if qs_PolicySHA256 state = policyHash then WindowDraining else QuotaTransition)
                 else Inr (state\<lparr>qs_WindowStarted := windowStart, qs_PolicySHA256 := policyHash,
                        qs_RequestsUsed := 0\<rparr>))
           else if qs_PolicySHA256 state \<noteq> policyHash then Inl QuotaTransition
           else Inr state))"

definition nextOperationQuotaClaim ::
  "operationQuotaState option \<Rightarrow> OperationQuotaPolicy \<Rightarrow> string \<Rightarrow> time \<Rightarrow> duration
    \<Rightarrow> quota_error + (operationQuotaState \<times> OperationQuotaClaim)" where
  "nextOperationQuotaClaim stored policy attemptID now lease =
     (case quota_claim_base stored policy now of
        Inl e \<Rightarrow> Inl e
      | Inr state \<Rightarrow>
          (let active = operationQuotaActive (qs_Active state) now
           in if gm_get active attemptID \<noteq> None then Inl QuotaFenced
              else if int (length active) \<ge> qp_MaxConcurrent policy \<or>
                      qs_RequestsUsed state \<ge> qp_RequestsPerWindow policy
              then Inl QuotaExhausted
              else if \<not> IsZero (qs_LastClaimAt state) \<and>
                      time_Sub now (qs_LastClaimAt state) < qp_MinimumInterval policy
              then Inl QuotaExhausted
              else
                let generation = qs_Generation state + 1;
                    claim = \<lparr>qc_ScopeSHA256 = qp_ScopeSHA256 policy, qc_AttemptID = attemptID,
                      qc_Generation = generation, qc_ExpiresAt = now + lease\<rparr>
                in Inr (state\<lparr>qs_Generation := generation,
                      qs_Active := gm_put attemptID
                        \<lparr>ql_Generation = qc_Generation claim, ql_ExpiresAt = qc_ExpiresAt claim\<rparr> active,
                      qs_RequestsUsed := qs_RequestsUsed state + 1, qs_LastClaimAt := now,
                      qs_UpdatedAt := now\<rparr>, claim)))"

section \<open>Encoded sizes\<close>

text \<open>
  Lengths of \<^verbatim>\<open>encoding/json\<close> texts: strings without escapes, decimal integers, and UTC times in
  RFC 3339 with the fraction's trailing zeros dropped.
\<close>

fun fraction_digits :: "nat \<Rightarrow> nat \<Rightarrow> nat" where
  "fraction_digits 0 n = 0"
| "fraction_digits (Suc k) n = (if n mod 10 \<noteq> 0 then Suc k else fraction_digits k (n div 10))"

definition json_time_length :: "time \<Rightarrow> nat" where
  "json_time_length t =
     (let digits = fraction_digits 9 (nat (t mod second))
      in 22 + (if digits = 0 then 0 else 1 + digits))"

definition json_string_length :: "string \<Rightarrow> nat" where
  "json_string_length s = length s + 2"

definition json_word_length :: "64 word \<Rightarrow> nat" where
  "json_word_length w = length (nat_dec (unat w))"

definition json_list_length :: "nat list \<Rightarrow> nat" where
  "json_list_length items = 2 + sum_list items + (length items - 1)"

definition json_field_length :: "string \<Rightarrow> nat \<Rightarrow> nat" where
  "json_field_length name n = json_string_length name + 1 + n"

definition quota_lease_length :: "operationQuotaLease \<Rightarrow> nat" where
  "quota_lease_length lease = json_list_length
     [json_field_length ''generation'' (json_word_length (ql_Generation lease)),
      json_field_length ''expires_at'' (json_time_length (ql_ExpiresAt lease))]"

definition quota_state_length :: "operationQuotaState \<Rightarrow> nat" where
  "quota_state_length state = json_list_length
     [json_field_length ''schema_version'' (json_string_length (qs_SchemaVersion state)),
      json_field_length ''scope_sha256'' (json_string_length (qs_ScopeSHA256 state)),
      json_field_length ''policy_sha256'' (json_string_length (qs_PolicySHA256 state)),
      json_field_length ''window_started_at'' (json_time_length (qs_WindowStarted state)),
      json_field_length ''requests_used'' (length (int_dec (qs_RequestsUsed state))),
      json_field_length ''last_claim_at'' (json_time_length (qs_LastClaimAt state)),
      json_field_length ''generation'' (json_word_length (qs_Generation state)),
      json_field_length ''updated_at'' (json_time_length (qs_UpdatedAt state)),
      json_field_length ''active'' (json_list_length
        (List.map (\<lambda>(attemptID, lease). json_field_length attemptID (quota_lease_length lease)) (qs_Active state)))]"

definition quota_transaction_length :: "operationQuotaTransaction \<Rightarrow> nat" where
  "quota_transaction_length t = json_list_length
     [json_field_length ''schema_version'' (json_string_length (qt_SchemaVersion t)),
      json_field_length ''kind'' (json_string_length (qt_Kind t)),
      json_field_length ''attempt_id'' (json_string_length (qt_AttemptID t)),
      json_field_length ''states'' (json_list_length (List.map quota_state_length (qt_States t)))]"

text \<open>\<^verbatim>\<open>json.Marshal\<close> fails on a time outside the years 0 to 9999.\<close>

definition quota_state_json_ok :: "operationQuotaState \<Rightarrow> bool" where
  "quota_state_json_ok state \<longleftrightarrow> json_time_ok (qs_WindowStarted state) \<and> json_time_ok (qs_LastClaimAt state) \<and>
     json_time_ok (qs_UpdatedAt state) \<and>
     list_all (\<lambda>(attemptID, lease). json_time_ok (ql_ExpiresAt lease)) (qs_Active state)"

section \<open>The directory\<close>

record quota_disk =
  qd_states :: "string \<Rightarrow> operationQuotaState stored"
  qd_txn :: "operationQuotaTransaction stored"

text \<open>A write (or the removal of the transaction file) succeeds, fails without effect, or takes
  effect and then fails.\<close>

datatype io_outcome = Io_ok | Io_fail | Io_late

type_synonym ios = "io_outcome list"

fun io_effect :: "ios \<Rightarrow> 'd \<Rightarrow> 'd \<Rightarrow> bool \<times> 'd \<times> ios" where
  "io_effect [] old new = (False, old, [])"
| "io_effect (Io_ok # ios) old new = (True, new, ios)"
| "io_effect (Io_fail # ios) old new = (False, old, ios)"
| "io_effect (Io_late # ios) old new = (False, new, ios)"

text \<open>\<open>Inr None\<close> is \<^verbatim>\<open>found == false\<close>.\<close>

definition readOperationQuotaState :: "quota_disk \<Rightarrow> string \<Rightarrow> quota_error + operationQuotaState option" where
  "readOperationQuotaState disk scope =
     (case qd_states disk scope of
        Absent \<Rightarrow> Inr None
      | Garbage \<Rightarrow> Inl QuotaUnavailable
      | Doc state \<Rightarrow> (if validOperationQuotaState state then Inr (Some state) else Inl QuotaUnavailable))"

definition writeOperationQuotaState ::
  "operationQuotaState \<Rightarrow> quota_disk \<Rightarrow> ios \<Rightarrow> bool \<times> quota_disk \<times> ios" where
  "writeOperationQuotaState state disk ios =
     (if \<not> validOperationQuotaState state \<or> \<not> quota_state_json_ok state \<or>
         quota_state_length state > maxOperationQuotaStateBytes
      then (False, disk, ios)
      else io_effect ios disk
        (disk\<lparr>qd_states := (qd_states disk)(qs_ScopeSHA256 state := Doc state)\<rparr>))"

fun quota_states_ok :: "string \<Rightarrow> string \<Rightarrow> string list \<Rightarrow> operationQuotaState list \<Rightarrow> bool" where
  "quota_states_ok kind attemptID seen [] \<longleftrightarrow> True"
| "quota_states_ok kind attemptID seen (state # states) \<longleftrightarrow>
     validOperationQuotaState state \<and> qs_ScopeSHA256 state \<notin> set seen \<and>
     \<not> (kind = ''reserve'' \<and> gm_get (qs_Active state) attemptID = None) \<and>
     \<not> (kind = ''release'' \<and> gm_get (qs_Active state) attemptID \<noteq> None) \<and>
     quota_states_ok kind attemptID (qs_ScopeSHA256 state # seen) states"

definition validOperationQuotaTransaction :: "operationQuotaTransaction \<Rightarrow> bool" where
  "validOperationQuotaTransaction t \<longleftrightarrow>
     qt_SchemaVersion t = operationQuotaTransactionSchemaVersion \<and>
     (qt_Kind t = ''reserve'' \<or> qt_Kind t = ''release'') \<and> quotaAttemptIDPattern (qt_AttemptID t) \<and>
     qt_States t \<noteq> [] \<and> length (qt_States t) \<le> maxOperationQuotaScopesPerCall \<and>
     quota_states_ok (qt_Kind t) (qt_AttemptID t) [] (qt_States t)"

definition writeOperationQuotaTransaction ::
  "operationQuotaTransaction \<Rightarrow> quota_disk \<Rightarrow> ios \<Rightarrow> bool \<times> quota_disk \<times> ios" where
  "writeOperationQuotaTransaction t disk ios =
     (if \<not> validOperationQuotaTransaction t \<or> \<not> list_all quota_state_json_ok (qt_States t) \<or>
         quota_transaction_length t > maxOperationQuotaTransactionSize
      then (False, disk, ios)
      else io_effect ios disk (disk\<lparr>qd_txn := Doc t\<rparr>))"

definition readOperationQuotaTransaction :: "quota_disk \<Rightarrow> quota_error + operationQuotaTransaction option" where
  "readOperationQuotaTransaction disk =
     (case qd_txn disk of
        Absent \<Rightarrow> Inr None
      | Garbage \<Rightarrow> Inl QuotaUnavailable
      | Doc t \<Rightarrow> (if validOperationQuotaTransaction t then Inr (Some t) else Inl QuotaUnavailable))"

fun write_states :: "operationQuotaState list \<Rightarrow> quota_disk \<Rightarrow> ios \<Rightarrow> bool \<times> quota_disk \<times> ios" where
  "write_states [] disk ios = (True, disk, ios)"
| "write_states (state # states) disk ios =
     (case writeOperationQuotaState state disk ios of
        (False, disk', ios') \<Rightarrow> (False, disk', ios')
      | (True, disk', ios') \<Rightarrow> write_states states disk' ios')"

definition removeOperationQuotaTransaction :: "quota_disk \<Rightarrow> ios \<Rightarrow> bool \<times> quota_disk \<times> ios" where
  "removeOperationQuotaTransaction disk ios =
     (if qd_txn disk = Absent then (False, disk, ios)
      else io_effect ios disk (disk\<lparr>qd_txn := Absent\<rparr>))"

definition commitOperationQuotaTransaction ::
  "operationQuotaTransaction \<Rightarrow> quota_disk \<Rightarrow> ios \<Rightarrow> bool \<times> quota_disk \<times> ios" where
  "commitOperationQuotaTransaction t disk ios =
     (if \<not> validOperationQuotaTransaction t then (False, disk, ios)
      else case write_states (qt_States t) disk ios of
        (False, disk', ios') \<Rightarrow> (False, disk', ios')
      | (True, disk', ios') \<Rightarrow> removeOperationQuotaTransaction disk' ios')"

definition recoverOperationQuotaTransaction :: "quota_disk \<Rightarrow> ios \<Rightarrow> bool \<times> quota_disk \<times> ios" where
  "recoverOperationQuotaTransaction disk ios =
     (case readOperationQuotaTransaction disk of
        Inl e \<Rightarrow> (False, disk, ios)
      | Inr None \<Rightarrow> (True, disk, ios)
      | Inr (Some t) \<Rightarrow> commitOperationQuotaTransaction t disk ios)"

text \<open>Durable write of a transaction: the write-ahead record, then the states, then its removal.\<close>

definition persist_transaction ::
  "operationQuotaTransaction \<Rightarrow> quota_disk \<Rightarrow> ios \<Rightarrow> bool \<times> quota_disk \<times> ios" where
  "persist_transaction t disk ios =
     (case writeOperationQuotaTransaction t disk ios of
        (False, disk', ios') \<Rightarrow> (False, disk', ios')
      | (True, disk', ios') \<Rightarrow> commitOperationQuotaTransaction t disk' ios')"

section \<open>Acquiring and releasing\<close>

text \<open>
  What the caller's context and the operating system do around the lock: the context's error on
  entry and at the lock, whether the lock file opens, the cause of a failed wait for the lock
  (\<^verbatim>\<open>flockExclusiveContext\<close> polls until it gets the lock or the context ends).
\<close>

record quota_env =
  qv_entry :: "lock_cause option"
  qv_ctx :: "lock_cause option"
  qv_open :: bool
  qv_flock :: "lock_cause option"

definition lock_error :: "quota_env \<Rightarrow> quota_error option" where
  "lock_error env =
     (case qv_ctx env of
        Some cause \<Rightarrow> Some (QuotaFailure ''canceled'' (Some cause))
      | None \<Rightarrow>
          (if \<not> qv_open env then Some (QuotaFailure ''io'' (Some OtherCause))
           else case qv_flock env of
             None \<Rightarrow> None
           | Some DeadlineExceeded \<Rightarrow> Some (QuotaFailure ''deadline'' (Some DeadlineExceeded))
           | Some Canceled \<Rightarrow> Some (QuotaFailure ''canceled'' (Some Canceled))
           | Some OtherCause \<Rightarrow> Some (QuotaFailure ''lock'' (Some OtherCause))))"

text \<open>The error \<^verbatim>\<open>apply\<close> returns is wrapped by nothing; a failed lock returns before it.\<close>

definition withAuthorityLockContext ::
  "quota_env \<Rightarrow> (quota_error + 'a) \<times> quota_disk \<times> ios \<Rightarrow> quota_disk \<Rightarrow> ios
    \<Rightarrow> (quota_error + 'a) \<times> quota_disk \<times> ios" where
  "withAuthorityLockContext env applied disk ios =
     (case lock_error env of Some e \<Rightarrow> (Inl e, disk, ios) | None \<Rightarrow> applied)"

fun quota_candidates ::
  "quota_disk \<Rightarrow> OperationQuotaPolicy list \<Rightarrow> string \<Rightarrow> time \<Rightarrow> duration
    \<Rightarrow> quota_error + (operationQuotaState \<times> OperationQuotaClaim) list" where
  "quota_candidates disk [] attemptID now lease = Inr []"
| "quota_candidates disk (policy # policies) attemptID now lease =
     (case readOperationQuotaState disk (qp_ScopeSHA256 policy) of
        Inl e \<Rightarrow> Inl QuotaUnavailable
      | Inr stored \<Rightarrow>
          (case nextOperationQuotaClaim stored policy attemptID now lease of
             Inl e \<Rightarrow> Inl e
           | Inr c \<Rightarrow>
               (case quota_candidates disk policies attemptID now lease of
                  Inl e \<Rightarrow> Inl e
                | Inr cs \<Rightarrow> Inr (c # cs))))"

definition reserve_locked ::
  "OperationQuotaPolicy list \<Rightarrow> string \<Rightarrow> time \<Rightarrow> duration \<Rightarrow> quota_disk \<Rightarrow> ios
    \<Rightarrow> (quota_error + OperationQuotaClaim list) \<times> quota_disk \<times> ios" where
  "reserve_locked policies attemptID now lease disk ios =
     (case recoverOperationQuotaTransaction disk ios of
        (False, disk1, ios1) \<Rightarrow> (Inl QuotaUnavailable, disk1, ios1)
      | (True, disk1, ios1) \<Rightarrow>
          (if IsZero now then (Inl QuotaUnavailable, disk1, ios1)
           else case quota_candidates disk1 policies attemptID now lease of
             Inl e \<Rightarrow> (Inl e, disk1, ios1)
           | Inr cs \<Rightarrow>
               (case persist_transaction
                       \<lparr>qt_SchemaVersion = operationQuotaTransactionSchemaVersion, qt_Kind = ''reserve'',
                        qt_AttemptID = attemptID, qt_States = List.map fst cs\<rparr> disk1 ios1 of
                  (False, disk2, ios2) \<Rightarrow> (Inl QuotaUnavailable, disk2, ios2)
                | (True, disk2, ios2) \<Rightarrow> (Inr (List.map snd cs), disk2, ios2))))"

text \<open>\<open>clock\<close> is what the clock reads under the lock.  A receiver, context or clock that is
  \<^verbatim>\<open>nil\<close> cannot be expressed.\<close>

definition acquireManyWithClockContext ::
  "quota_env \<Rightarrow> OperationQuotaPolicy list \<Rightarrow> string \<Rightarrow> duration \<Rightarrow> time \<Rightarrow> quota_disk \<Rightarrow> ios
    \<Rightarrow> (quota_error + OperationQuotaClaim list) \<times> quota_disk \<times> ios" where
  "acquireManyWithClockContext env policies attemptID lease clock disk ios =
     (if qv_entry env \<noteq> None \<or> \<not> quotaAttemptIDPattern attemptID \<or> lease \<le> 0 \<or> lease > maxOperationQuotaLease
      then (Inl QuotaUnavailable, disk, ios)
      else case normalizeOperationQuotaPolicies policies of
        Inl e \<Rightarrow> (Inl e, disk, ios)
      | Inr policies' \<Rightarrow>
          withAuthorityLockContext env (reserve_locked policies' attemptID clock lease disk ios) disk ios)"

definition AcquireManyContext ::
  "quota_env \<Rightarrow> OperationQuotaPolicy list \<Rightarrow> string \<Rightarrow> time \<Rightarrow> duration \<Rightarrow> quota_disk \<Rightarrow> ios
    \<Rightarrow> (quota_error + OperationQuotaClaim list) \<times> quota_disk \<times> ios" where
  "AcquireManyContext env policies attemptID now lease disk ios =
     (if IsZero now then (Inl QuotaUnavailable, disk, ios)
      else acquireManyWithClockContext env policies attemptID lease now disk ios)"

text \<open>\<^verbatim>\<open>context.Background()\<close> never ends.\<close>

definition background :: "quota_env \<Rightarrow> quota_env" where
  "background env = env\<lparr>qv_entry := None, qv_ctx := None,
     qv_flock := (case qv_flock env of None \<Rightarrow> None | Some _ \<Rightarrow> Some OtherCause)\<rparr>"

definition AcquireMany ::
  "quota_env \<Rightarrow> OperationQuotaPolicy list \<Rightarrow> string \<Rightarrow> time \<Rightarrow> duration \<Rightarrow> quota_disk \<Rightarrow> ios
    \<Rightarrow> (quota_error + OperationQuotaClaim list) \<times> quota_disk \<times> ios" where
  "AcquireMany env = AcquireManyContext (background env)"

definition Acquire ::
  "quota_env \<Rightarrow> OperationQuotaPolicy \<Rightarrow> string \<Rightarrow> time \<Rightarrow> duration \<Rightarrow> quota_disk \<Rightarrow> ios
    \<Rightarrow> (quota_error + OperationQuotaClaim) \<times> quota_disk \<times> ios" where
  "Acquire env policy attemptID now lease disk ios =
     (case AcquireMany env [policy] attemptID now lease disk ios of
        (Inl e, rest) \<Rightarrow> (Inl e, rest)
      | (Inr claims, rest) \<Rightarrow> (Inr (hd claims), rest))"

fun release_claims_ok :: "string \<Rightarrow> string option \<Rightarrow> OperationQuotaClaim list \<Rightarrow> bool" where
  "release_claims_ok attemptID previous [] \<longleftrightarrow> True"
| "release_claims_ok attemptID previous (claim # claims) \<longleftrightarrow>
     sha256Pattern (qc_ScopeSHA256 claim) \<and> quotaAttemptIDPattern (qc_AttemptID claim) \<and>
     qc_AttemptID claim = attemptID \<and> qc_Generation claim \<noteq> 0 \<and> \<not> IsZero (qc_ExpiresAt claim) \<and>
     previous \<noteq> Some (qc_ScopeSHA256 claim) \<and>
     release_claims_ok attemptID (Some (qc_ScopeSHA256 claim)) claims"

definition released_state ::
  "quota_disk \<Rightarrow> OperationQuotaClaim \<Rightarrow> time \<Rightarrow> quota_error + operationQuotaState" where
  "released_state disk claim now =
     (case readOperationQuotaState disk (qc_ScopeSHA256 claim) of
        Inr (Some state) \<Rightarrow>
          (if qs_ScopeSHA256 state \<noteq> qc_ScopeSHA256 claim \<or> now < qs_UpdatedAt state
           then Inl QuotaUnavailable
           else case gm_get (qs_Active state) (qc_AttemptID claim) of
             None \<Rightarrow> Inl QuotaFenced
           | Some current \<Rightarrow>
               (if ql_Generation current \<noteq> qc_Generation claim \<or> ql_ExpiresAt current \<noteq> qc_ExpiresAt claim \<or>
                   \<not> now < ql_ExpiresAt current
                then Inl QuotaFenced
                else Inr (state\<lparr>qs_Active := AList.delete (qc_AttemptID claim) (qs_Active state),
                       qs_Generation := qs_Generation state + 1, qs_UpdatedAt := now\<rparr>)))
      | _ \<Rightarrow> Inl QuotaUnavailable)"

fun released_states ::
  "quota_disk \<Rightarrow> OperationQuotaClaim list \<Rightarrow> time \<Rightarrow> quota_error + operationQuotaState list" where
  "released_states disk [] now = Inr []"
| "released_states disk (claim # claims) now =
     (case released_state disk claim now of
        Inl e \<Rightarrow> Inl e
      | Inr state \<Rightarrow>
          (case released_states disk claims now of
             Inl e \<Rightarrow> Inl e
           | Inr states \<Rightarrow> Inr (state # states)))"

definition release_locked ::
  "OperationQuotaClaim list \<Rightarrow> time \<Rightarrow> quota_disk \<Rightarrow> ios \<Rightarrow> (quota_error + unit) \<times> quota_disk \<times> ios" where
  "release_locked claims now disk ios =
     (case recoverOperationQuotaTransaction disk ios of
        (False, disk1, ios1) \<Rightarrow> (Inl QuotaUnavailable, disk1, ios1)
      | (True, disk1, ios1) \<Rightarrow>
          (if IsZero now then (Inl QuotaUnavailable, disk1, ios1)
           else case released_states disk1 claims now of
             Inl e \<Rightarrow> (Inl e, disk1, ios1)
           | Inr states \<Rightarrow>
               (case persist_transaction
                       \<lparr>qt_SchemaVersion = operationQuotaTransactionSchemaVersion, qt_Kind = ''release'',
                        qt_AttemptID = qc_AttemptID (hd claims), qt_States = states\<rparr> disk1 ios1 of
                  (False, disk2, ios2) \<Rightarrow> (Inl QuotaUnavailable, disk2, ios2)
                | (True, disk2, ios2) \<Rightarrow> (Inr (), disk2, ios2))))"

definition releaseManyWithClockContext ::
  "quota_env \<Rightarrow> OperationQuotaClaim list \<Rightarrow> time \<Rightarrow> quota_disk \<Rightarrow> ios
    \<Rightarrow> (quota_error + unit) \<times> quota_disk \<times> ios" where
  "releaseManyWithClockContext env claims clock disk ios =
     (if qv_entry env \<noteq> None \<or> claims = [] \<or> length claims > maxOperationQuotaScopesPerCall
      then (Inl QuotaUnavailable, disk, ios)
      else
        let claims' = sort_key qc_ScopeSHA256 claims
        in if \<not> release_claims_ok (qc_AttemptID (hd claims')) None claims'
           then (Inl QuotaUnavailable, disk, ios)
           else withAuthorityLockContext env (release_locked claims' clock disk ios) disk ios)"

definition ReleaseManyContext ::
  "quota_env \<Rightarrow> OperationQuotaClaim list \<Rightarrow> time \<Rightarrow> quota_disk \<Rightarrow> ios
    \<Rightarrow> (quota_error + unit) \<times> quota_disk \<times> ios" where
  "ReleaseManyContext env claims now disk ios =
     (if IsZero now then (Inl QuotaUnavailable, disk, ios)
      else releaseManyWithClockContext env claims now disk ios)"

definition ReleaseMany ::
  "quota_env \<Rightarrow> OperationQuotaClaim list \<Rightarrow> time \<Rightarrow> quota_disk \<Rightarrow> ios
    \<Rightarrow> (quota_error + unit) \<times> quota_disk \<times> ios" where
  "ReleaseMany env = ReleaseManyContext (background env)"

definition Release ::
  "quota_env \<Rightarrow> OperationQuotaClaim \<Rightarrow> time \<Rightarrow> quota_disk \<Rightarrow> ios
    \<Rightarrow> (quota_error + unit) \<times> quota_disk \<times> ios" where
  "Release env claim = ReleaseMany env [claim]"

section \<open>Opening the directory\<close>

text \<open>What the file system answers: the absolute path, whether the directory can be made, its kind
  (a directory, a symbolic link), whether its mode can be set.\<close>

record root_probe =
  rp_abs :: "string option"
  rp_mkdir :: bool
  rp_lstat :: "(bool \<times> bool) option"
  rp_chmod :: bool

definition OpenOperationQuotaAuthority :: "root_probe \<Rightarrow> string \<Rightarrow> string + string" where
  "OpenOperationQuotaAuthority probe root =
     (if blank root then Inl ''operation quota state directory is invalid''
      else case rp_abs probe of
        None \<Rightarrow> Inl ''operation quota state directory is invalid''
      | Some path \<Rightarrow>
          (if \<not> rp_mkdir probe then Inl ''operation quota state directory is unavailable''
           else case rp_lstat probe of
             None \<Rightarrow> Inl ''operation quota state directory is unsafe''
           | Some (is_dir, is_link) \<Rightarrow>
               (if \<not> is_dir \<or> is_link then Inl ''operation quota state directory is unsafe''
                else if \<not> rp_chmod probe then Inl ''operation quota state directory is unavailable''
                else Inr path)))"

end
