(* ===== verification/Operation_Quota_Facts.thy ===== *)
theory Operation_Quota_Facts
  imports Operation_Quota
begin

text \<open>
  Correctness of \<open>Operation_Quota\<close>: a reservation or release over several scopes takes effect
  as a whole or not at all wherever its I/O stops, the budgets, the spacing and the concurrency
  of a scope are never exceeded over any history, and claims are fenced.
\<close>

section \<open>What a directory means\<close>

text \<open>A pending transaction is in force: the next operation completes it before it reads.\<close>

definition settled_states :: "quota_disk \<Rightarrow> string \<Rightarrow> operationQuotaState stored" where
  "settled_states disk scope =
     (case readOperationQuotaTransaction disk of
        Inr (Some t) \<Rightarrow>
          (case find (\<lambda>state. qs_ScopeSHA256 state = scope) (qt_States t) of
             Some state \<Rightarrow> Doc state
           | None \<Rightarrow> qd_states disk scope)
      | _ \<Rightarrow> qd_states disk scope)"

definition settled :: "quota_disk \<Rightarrow> quota_disk" where
  "settled disk = \<lparr>qd_states = settled_states disk, qd_txn = Absent\<rparr>"

definition install ::
  "operationQuotaState list \<Rightarrow> (string \<Rightarrow> operationQuotaState stored) \<Rightarrow> string \<Rightarrow> operationQuotaState stored" where
  "install states base scope =
     (case find (\<lambda>state. qs_ScopeSHA256 state = scope) states of Some state \<Rightarrow> Doc state | None \<Rightarrow> base scope)"

lemma settled_states_Some:
  "readOperationQuotaTransaction disk = Inr (Some t) \<Longrightarrow> settled_states disk = install (qt_States t) (qd_states disk)"
  by (simp add: settled_states_def install_def fun_eq_iff)

lemma settled_states_plain:
  "qd_txn disk = Absent \<or> qd_txn disk = Garbage \<Longrightarrow> settled_states disk = qd_states disk"
  by (auto simp: settled_states_def readOperationQuotaTransaction_def fun_eq_iff)

lemma readTransaction_Some:
  "readOperationQuotaTransaction disk = Inr (Some t) \<longleftrightarrow> qd_txn disk = Doc t \<and> validOperationQuotaTransaction t"
  by (auto simp: readOperationQuotaTransaction_def split: stored.splits)

text \<open>A guarded write: nothing, an effect with an error, or an effect; an effect only past the guard.\<close>

lemma guarded_io_cases:
  assumes "r = (if guard then (False, old, ios) else io_effect ios old new)"
  obtains (none) ios' where "r = (False, old, ios')"
  | (late) ios' where "r = (False, new, ios')" "\<not> guard"
  | (full) ios' where "r = (True, new, ios')" "\<not> guard"
  using assms by (cases guard; cases "(ios, old, new)" rule: io_effect.cases) auto

lemma quota_states_ok_scopes:
  "quota_states_ok kind a seen states \<Longrightarrow> distinct (List.map qs_ScopeSHA256 states) \<and>
    set (List.map qs_ScopeSHA256 states) \<inter> set seen = {} \<and> list_all validOperationQuotaState states"
  by (induction kind a seen states rule: quota_states_ok.induct) auto

lemma transaction_scopes:
  "validOperationQuotaTransaction t \<Longrightarrow>
    distinct (List.map qs_ScopeSHA256 (qt_States t)) \<and> list_all validOperationQuotaState (qt_States t)"
  using quota_states_ok_scopes by (auto simp: validOperationQuotaTransaction_def)

lemma find_scope:
  "distinct (List.map qs_ScopeSHA256 states) \<Longrightarrow> state \<in> set states \<Longrightarrow>
    find (\<lambda>s. qs_ScopeSHA256 s = qs_ScopeSHA256 state) states = Some state"
  by (induction states) (auto simp: image_iff)

lemma find_scope_None: "find (\<lambda>s. qs_ScopeSHA256 s = scope) states = None \<longleftrightarrow> scope \<notin> qs_ScopeSHA256 ` set states"
  by (auto simp: find_None_iff)

lemma write_state_cases:
  obtains (none) ios' where "writeOperationQuotaState state disk ios = (False, disk, ios')"
  | (late) ios' where "writeOperationQuotaState state disk ios =
        (False, disk\<lparr>qd_states := (qd_states disk)(qs_ScopeSHA256 state := Doc state)\<rparr>, ios')"
  | (full) ios' where "writeOperationQuotaState state disk ios =
        (True, disk\<lparr>qd_states := (qd_states disk)(qs_ScopeSHA256 state := Doc state)\<rparr>, ios')"
  by (rule guarded_io_cases [OF writeOperationQuotaState_def [of state disk ios]]) (use that in blast)+

text \<open>Rewriting some states of the pending transaction changes nothing of what is in force.\<close>

lemma install_over:
  assumes "distinct (List.map qs_ScopeSHA256 states)" "state \<in> set states"
  shows "install states (base(qs_ScopeSHA256 state := Doc state)) = install states base"
  using find_scope [OF assms] by (auto simp: install_def fun_eq_iff split: option.splits)

lemma write_states_effect:
  assumes "write_states todo disk ios = (b, disk', ios'')"
    and "set todo \<subseteq> set states" "distinct (List.map qs_ScopeSHA256 states)"
  shows "qd_txn disk' = qd_txn disk \<and> install states (qd_states disk') = install states (qd_states disk) \<and>
    (b \<longrightarrow> (\<forall>state \<in> set todo. qd_states disk' (qs_ScopeSHA256 state) = Doc state)) \<and>
    (\<forall>s. qd_states disk' s = qd_states disk s \<or> (\<exists>state \<in> set todo. qd_states disk' s = Doc state \<and> qs_ScopeSHA256 state = s))"
  using assms(1,2)
proof (induction todo disk ios rule: write_states.induct)
  case (1 disk ios)
  then show ?case by simp
next
  case (2 state todo disk ios)
  have io: "install states ((qd_states disk)(qs_ScopeSHA256 state := Doc state)) = install states (qd_states disk)"
    using 2(3) assms(3) by (simp add: install_over)
  have same: "qs_ScopeSHA256 x = qs_ScopeSHA256 y \<Longrightarrow> x \<in> set states \<Longrightarrow> y \<in> set states \<Longrightarrow> x = y" for x y
    using find_scope [OF assms(3)] by (metis option.inject)
  show ?case
  proof (cases rule: write_state_cases [of state disk ios])
    case (none ios')
    then show ?thesis using 2 by simp
  next
    case (late ios')
    then show ?thesis using 2 io by auto
  next
    case (full ios')
    define d where "d = disk\<lparr>qd_states := (qd_states disk)(qs_ScopeSHA256 state := Doc state)\<rparr>"
    have d: "qd_txn d = qd_txn disk" "qd_states d = (qd_states disk)(qs_ScopeSHA256 state := Doc state)"
      by (simp_all add: d_def)
    note full = full [folded d_def]
    have w: "write_states todo d ios' = (b, disk', ios'')" "set todo \<subseteq> set states"
      using 2(2,3) full by simp_all
    from 2(1) [OF full [symmetric] refl refl w] d io same 2(3) show ?thesis
      by (auto, (metis fun_upd_apply subsetD)+)
  qed
qed

lemma remove_cases:
  assumes "removeOperationQuotaTransaction disk ios = (b, disk', ios')"
  shows "\<not> b \<and> disk' = disk \<or> qd_txn disk \<noteq> Absent \<and> disk' = disk\<lparr>qd_txn := Absent\<rparr>"
  by (rule guarded_io_cases [OF removeOperationQuotaTransaction_def [of disk ios]]) (use assms in auto)

lemma settled_simps [simp]: "qd_states (settled disk) = settled_states disk" "qd_txn (settled disk) = Absent"
  by (simp_all add: settled_def)

lemma settled_plain: "qd_txn disk = Absent \<Longrightarrow> settled disk = disk"
  by (simp add: settled_def settled_states_plain)

lemma commit_effect:
  assumes "commitOperationQuotaTransaction t disk ios = (b, disk', ios')"
    and "readOperationQuotaTransaction disk = Inr (Some t)"
  shows "settled disk' = settled disk" "b \<Longrightarrow> disk' = settled disk"
proof -
  have v: "qd_txn disk = Doc t" "validOperationQuotaTransaction t" using assms(2) by (auto simp: readTransaction_Some)
  note scopes = transaction_scopes [OF v(2)]
  obtain b1 d ios1 where w: "write_states (qt_States t) disk ios = (b1, d, ios1)"
    by (cases "write_states (qt_States t) disk ios")
  note e = write_states_effect [OF w subset_refl conjunct1 [OF scopes]]
  have st: "settled_states disk = install (qt_States t) (qd_states disk)" by (rule settled_states_Some [OF assms(2)])
  have rd: "readOperationQuotaTransaction d = Inr (Some t)" using e v by (simp add: readTransaction_Some)
  have sd: "settled_states d = settled_states disk" using e st settled_states_Some [OF rd] by simp
  have full: "qd_states d = settled_states d" if b1
  proof -
    have "qd_states d s = install (qt_States t) (qd_states d) s" for s
    proof (cases "find (\<lambda>x. qs_ScopeSHA256 x = s) (qt_States t)")
      case (Some x)
      then have "x \<in> set (qt_States t)" "qs_ScopeSHA256 x = s" by (auto simp: find_Some_iff)
      then show ?thesis using e that Some by (auto simp: install_def)
    qed (simp add: install_def)
    then show ?thesis using settled_states_Some [OF rd] by auto
  qed
  have fin: "\<not> b \<and> disk' = d \<or> b1 \<and> disk' = d\<lparr>qd_txn := Absent\<rparr>"
    using assms(1) v(2) w remove_cases [of d ios1 b disk' ios']
    by (cases b1) (auto simp: commitOperationQuotaTransaction_def)
  have abs: "settled_states (d\<lparr>qd_txn := Absent\<rparr>) = qd_states d" by (simp add: settled_states_plain)
  from fin full sd abs show "settled disk' = settled disk" by (auto simp: settled_def)
  from fin full sd show "disk' = settled disk" if b using that by (auto simp: settled_def)
qed

lemma recover_effect:
  assumes "recoverOperationQuotaTransaction disk ios = (b, disk', ios')"
  shows "settled disk' = settled disk" "b \<Longrightarrow> disk' = settled disk"
proof -
  consider (bad) "\<not> b" "disk' = disk" | (clean) "qd_txn disk = Absent" "disk' = disk"
    | (pending) t where "readOperationQuotaTransaction disk = Inr (Some t)"
        "commitOperationQuotaTransaction t disk ios = (b, disk', ios')"
    using assms
    by (auto simp: recoverOperationQuotaTransaction_def readOperationQuotaTransaction_def
        split: stored.splits if_splits)
  then have "settled disk' = settled disk \<and> (b \<longrightarrow> disk' = settled disk)"
    by cases (auto simp: settled_plain dest: commit_effect)
  then show "settled disk' = settled disk" "b \<Longrightarrow> disk' = settled disk" by auto
qed

lemma persist_effect:
  assumes "persist_transaction t disk ios = (b, disk', ios')" "qd_txn disk = Absent"
  shows "\<not> b \<and> settled disk' = disk \<or>
    validOperationQuotaTransaction t \<and> settled_states disk' = install (qt_States t) (qd_states disk)"
    and "b \<Longrightarrow> qd_txn disk' = Absent"
proof -
  let ?new = "disk\<lparr>qd_txn := Doc t\<rparr>"
  consider (none) ios1 where "writeOperationQuotaTransaction t disk ios = (False, disk, ios1)"
    | (late) ios1 where "writeOperationQuotaTransaction t disk ios = (False, ?new, ios1)" "validOperationQuotaTransaction t"
    | (full) ios1 where "writeOperationQuotaTransaction t disk ios = (True, ?new, ios1)" "validOperationQuotaTransaction t"
    by (rule guarded_io_cases [OF writeOperationQuotaTransaction_def [of t disk ios]]) (use that in blast)+
  then have "(\<not> b \<and> settled disk' = disk \<or>
      validOperationQuotaTransaction t \<and> settled_states disk' = install (qt_States t) (qd_states disk)) \<and>
      (b \<longrightarrow> qd_txn disk' = Absent)"
  proof cases
    case none
    then show ?thesis using assms settled_plain by (auto simp: persist_transaction_def)
  next
    case late
    have "readOperationQuotaTransaction ?new = Inr (Some t)" using late by (simp add: readTransaction_Some)
    from settled_states_Some [OF this] late assms(1) show ?thesis by (auto simp: persist_transaction_def)
  next
    case full
    have rd: "readOperationQuotaTransaction ?new = Inr (Some t)" using full by (simp add: readTransaction_Some)
    have c: "commitOperationQuotaTransaction t ?new ios1 = (b, disk', ios')"
      using assms(1) full by (simp add: persist_transaction_def)
    have "settled_states disk' = settled_states ?new" using commit_effect(1) [OF c rd] by (metis settled_simps(1))
    moreover have "b \<longrightarrow> qd_txn disk' = Absent" using commit_effect(2) [OF c rd] by auto
    ultimately show ?thesis using settled_states_Some [OF rd] full by simp
  qed
  then show "\<not> b \<and> settled disk' = disk \<or>
    validOperationQuotaTransaction t \<and> settled_states disk' = install (qt_States t) (qd_states disk)"
    "b \<Longrightarrow> qd_txn disk' = Absent" by auto
qed

section \<open>Reservations and releases are atomic\<close>

definition after_install :: "operationQuotaState list \<Rightarrow> quota_disk \<Rightarrow> quota_disk" where
  "after_install states disk = \<lparr>qd_states = install states (qd_states disk), qd_txn = Absent\<rparr>"

lemma after_install_simps [simp]:
  "qd_states (after_install states disk) = install states (qd_states disk)"
  "qd_txn (after_install states disk) = Absent"
  by (simp_all add: after_install_def)

text \<open>The shape reservation and release share: recover, compute a transaction, persist it.\<close>

definition locked_transaction ::
  "time \<Rightarrow> (quota_disk \<Rightarrow> quota_error + (operationQuotaTransaction \<times> 'a)) \<Rightarrow> quota_disk \<Rightarrow> ios
    \<Rightarrow> (quota_error + 'a) \<times> quota_disk \<times> ios" where
  "locked_transaction now f disk ios =
     (case recoverOperationQuotaTransaction disk ios of
        (False, disk1, ios1) \<Rightarrow> (Inl QuotaUnavailable, disk1, ios1)
      | (True, disk1, ios1) \<Rightarrow>
          (if IsZero now then (Inl QuotaUnavailable, disk1, ios1)
           else case f disk1 of
             Inl e \<Rightarrow> (Inl e, disk1, ios1)
           | Inr (t, r) \<Rightarrow>
               (case persist_transaction t disk1 ios1 of
                  (False, disk2, ios2) \<Rightarrow> (Inl QuotaUnavailable, disk2, ios2)
                | (True, disk2, ios2) \<Rightarrow> (Inr r, disk2, ios2))))"

definition reserve_transaction ::
  "OperationQuotaPolicy list \<Rightarrow> string \<Rightarrow> time \<Rightarrow> duration \<Rightarrow> quota_disk
    \<Rightarrow> quota_error + (operationQuotaTransaction \<times> OperationQuotaClaim list)" where
  "reserve_transaction policies a now lease disk =
     (case quota_candidates disk policies a now lease of Inl e \<Rightarrow> Inl e
      | Inr cs \<Rightarrow> Inr (\<lparr>qt_SchemaVersion = operationQuotaTransactionSchemaVersion, qt_Kind = ''reserve'',
          qt_AttemptID = a, qt_States = List.map fst cs\<rparr>, List.map snd cs))"

definition release_transaction ::
  "OperationQuotaClaim list \<Rightarrow> time \<Rightarrow> quota_disk \<Rightarrow> quota_error + (operationQuotaTransaction \<times> unit)" where
  "release_transaction claims now disk =
     (case released_states disk claims now of Inl e \<Rightarrow> Inl e
      | Inr states \<Rightarrow> Inr (\<lparr>qt_SchemaVersion = operationQuotaTransactionSchemaVersion, qt_Kind = ''release'',
          qt_AttemptID = qc_AttemptID (hd claims), qt_States = states\<rparr>, ()))"

lemma reserve_locked_transaction:
  "reserve_locked policies a now lease = locked_transaction now (reserve_transaction policies a now lease)"
  by (intro ext) (auto simp: reserve_locked_def locked_transaction_def reserve_transaction_def
      split: sum.splits prod.splits bool.splits)

lemma release_locked_transaction:
  "release_locked claims now = locked_transaction now (release_transaction claims now)"
  by (intro ext) (auto simp: release_locked_def locked_transaction_def release_transaction_def
      split: sum.splits prod.splits bool.splits)

lemma locked_cases:
  assumes "locked_transaction now f disk ios = (res, disk', ios')"
  obtains (refused) e where "res = Inl e" "settled disk' = settled disk"
  | (installed) t r where "f (settled disk) = Inr (t, r)" "\<not> IsZero now" "validOperationQuotaTransaction t"
      "settled disk' = after_install (qt_States t) (settled disk)"
      "res = Inr r \<and> disk' = settled disk' \<or> res = Inl QuotaUnavailable"
proof -
  obtain b disk1 ios1 where rec: "recoverOperationQuotaTransaction disk ios = (b, disk1, ios1)"
    by (cases "recoverOperationQuotaTransaction disk ios")
  note re = recover_effect [OF rec]
  show ?thesis
  proof (cases "b \<and> \<not> IsZero now \<and> is_ok (f disk1)")
    case False
    then show ?thesis
      using assms rec re(1) refused
      by (cases b; cases "IsZero now"; cases "f disk1") (auto simp: locked_transaction_def)
  next
    case True
    then obtain t r where f: "f disk1 = Inr (t, r)" by (auto simp: is_ok_iff)
    have d1: "disk1 = settled disk" using re(2) True by simp
    obtain b2 disk2 ios2 where p: "persist_transaction t disk1 ios1 = (b2, disk2, ios2)"
      by (cases "persist_transaction t disk1 ios1")
    have eq: "disk2 = disk'" "res = (if b2 then Inr r else Inl QuotaUnavailable)"
      using assms rec True f p by (cases b2; simp add: locked_transaction_def)+
    note pe = persist_effect [OF p]
    show ?thesis
    proof (cases "validOperationQuotaTransaction t \<and> settled_states disk' = install (qt_States t) (qd_states disk1)")
      case True
      then have "settled disk' = after_install (qt_States t) (settled disk)"
        using d1 by (simp add: settled_def after_install_def)
      moreover have "b2 \<Longrightarrow> disk' = settled disk'" using pe(2) d1 eq(1) settled_plain by simp
      ultimately show ?thesis
        using installed [of t r] f d1 True \<open>b \<and> \<not> IsZero now \<and> is_ok (f disk1)\<close> eq(2) by auto
    next
      case False
      then have "\<not> b2" "settled disk' = settled disk" using pe(1) d1 eq(1) by auto
      then show ?thesis using refused eq(2) by simp
    qed
  qed
qed

text \<open>The whole operations, on the directory as the lock finds it.\<close>

lemma acquire_cases:
  assumes "acquireManyWithClockContext env policies a lease now disk ios = (res, disk', ios')"
  obtains (refused) e where "res = Inl e" "settled disk' = settled disk"
  | (reserved) policies' cs where "normalizeOperationQuotaPolicies policies = Inr policies'"
      "quota_candidates (settled disk) policies' a now lease = Inr cs" "\<not> IsZero now" "0 < lease"
      "quotaAttemptIDPattern a" "list_all validOperationQuotaState (List.map fst cs)"
      "distinct (List.map qs_ScopeSHA256 (List.map fst cs))"
      "settled disk' = after_install (List.map fst cs) (settled disk)"
      "res = Inr (List.map snd cs) \<and> disk' = settled disk' \<or> res = Inl QuotaUnavailable"
proof -
  consider (no) e where "res = Inl e" "disk' = disk"
    | (run) policies' where "normalizeOperationQuotaPolicies policies = Inr policies'" "0 < lease"
        "quotaAttemptIDPattern a" "reserve_locked policies' a now lease disk ios = (res, disk', ios')"
    using assms
    by (auto simp: acquireManyWithClockContext_def withAuthorityLockContext_def
        split: if_splits sum.splits option.splits)
  then show ?thesis
  proof cases
    case no
    then show ?thesis using refused by simp
  next
    case run
    from run(4) have lt: "locked_transaction now (reserve_transaction policies' a now lease) disk ios = (res, disk', ios')"
      by (simp add: reserve_locked_transaction)
    then show ?thesis
    proof (cases rule: locked_cases)
      case (installed t r)
      then obtain cs where cs: "quota_candidates (settled disk) policies' a now lease = Inr cs"
        "qt_States t = List.map fst cs" "r = List.map snd cs"
        by (auto simp: reserve_transaction_def split: sum.splits)
      with run installed transaction_scopes [OF installed(3)] show ?thesis
        by (intro reserved [of policies' cs]) simp_all
    next
      case refused': (refused e)
      then show ?thesis by (rule refused)
    qed
  qed
qed

lemma release_cases:
  assumes "releaseManyWithClockContext env claims now disk ios = (res, disk', ios')"
  obtains (refused) e where "res = Inl e" "settled disk' = settled disk"
  | (released) states where "released_states (settled disk) (sort_key qc_ScopeSHA256 claims) now = Inr states"
      "claims \<noteq> []" "release_claims_ok (qc_AttemptID (hd (sort_key qc_ScopeSHA256 claims))) None (sort_key qc_ScopeSHA256 claims)"
      "distinct (List.map qs_ScopeSHA256 states)" "list_all validOperationQuotaState states"
      "settled disk' = after_install states (settled disk)"
      "res = Inr () \<and> disk' = settled disk' \<or> res = Inl QuotaUnavailable"
proof -
  let ?claims = "sort_key qc_ScopeSHA256 claims"
  consider (no) e where "res = Inl e" "disk' = disk"
    | (run) "release_claims_ok (qc_AttemptID (hd ?claims)) None ?claims" "claims \<noteq> []"
        "release_locked ?claims now disk ios = (res, disk', ios')"
    using assms
    by (auto simp: releaseManyWithClockContext_def withAuthorityLockContext_def Let_def
        split: if_splits option.splits)
  then show ?thesis
  proof cases
    case no
    then show ?thesis using refused by simp
  next
    case run
    from run(3) have lt: "locked_transaction now (release_transaction ?claims now) disk ios = (res, disk', ios')"
      by (simp add: release_locked_transaction)
    then show ?thesis
    proof (cases rule: locked_cases)
      case (installed t r)
      then obtain states where "released_states (settled disk) ?claims now = Inr states" "qt_States t = states"
        by (auto simp: release_transaction_def split: sum.splits)
      with run installed transaction_scopes [OF installed(3)] show ?thesis
        by (intro released [of states]) simp_all
    next
      case refused': (refused e)
      then show ?thesis by (rule refused)
    qed
  qed
qed

text \<open>C14: reserving several scopes is all or nothing wherever the I/O stops, a crash at any write
  included.  With \<open>settled\<close> for the directory once a pending transaction is completed, which is how the
  next operation will see it, an acquisition either leaves it as it was and reports an error, or it
  installs in one step the next states of all its scopes, computed from the directory as it was; then it
  reports all the claims, or an error when the crash came after the write-ahead record was in place.
  Releases are all or nothing in the same way.\<close>

theorem quota_transactions_are_atomic:
  "(case acquireManyWithClockContext env policies a lease now disk ios of (res, disk', _) \<Rightarrow>
      (settled disk' = settled disk \<and> res \<in> range Inl) \<or>
      (\<exists>policies' cs. normalizeOperationQuotaPolicies policies = Inr policies' \<and>
         quota_candidates (settled disk) policies' a now lease = Inr cs \<and>
         settled disk' = after_install (List.map fst cs) (settled disk) \<and>
         res \<in> {Inr (List.map snd cs), Inl QuotaUnavailable})) \<and>
   (case releaseManyWithClockContext env claims now disk ios of (res, disk', _) \<Rightarrow>
      (settled disk' = settled disk \<and> res \<in> range Inl) \<or>
      (\<exists>states. released_states (settled disk) (sort_key qc_ScopeSHA256 claims) now = Inr states \<and>
         settled disk' = after_install states (settled disk) \<and> res \<in> {Inr (), Inl QuotaUnavailable}))"
proof (intro conjI)
  obtain res disk' ios' where r: "acquireManyWithClockContext env policies a lease now disk ios = (res, disk', ios')"
    by (cases "acquireManyWithClockContext env policies a lease now disk ios")
  show "case acquireManyWithClockContext env policies a lease now disk ios of (res, disk', _) \<Rightarrow>
      (settled disk' = settled disk \<and> res \<in> range Inl) \<or>
      (\<exists>policies' cs. normalizeOperationQuotaPolicies policies = Inr policies' \<and>
         quota_candidates (settled disk) policies' a now lease = Inr cs \<and>
         settled disk' = after_install (List.map fst cs) (settled disk) \<and>
         res \<in> {Inr (List.map snd cs), Inl QuotaUnavailable})"
    unfolding r by (cases rule: acquire_cases [OF r]) auto
next
  obtain res disk' ios' where r: "releaseManyWithClockContext env claims now disk ios = (res, disk', ios')"
    by (cases "releaseManyWithClockContext env claims now disk ios")
  show "case releaseManyWithClockContext env claims now disk ios of (res, disk', _) \<Rightarrow>
      (settled disk' = settled disk \<and> res \<in> range Inl) \<or>
      (\<exists>states. released_states (settled disk) (sort_key qc_ScopeSHA256 claims) now = Inr states \<and>
         settled disk' = after_install states (settled disk) \<and> res \<in> {Inr (), Inl QuotaUnavailable})"
    unfolding r by (cases rule: release_cases [OF r]) auto
qed

section \<open>Budgets over a whole history\<close>

subsection \<open>Normalised policies\<close>

lemma policies_by_scope_ok:
  assumes "policies_by_scope ps m = Inr m'" "gm_wf m" "\<forall>(s, p) \<in> set m. s = qp_ScopeSHA256 p \<and> validOperationQuotaPolicy p"
  shows "gm_wf m' \<and> (\<forall>(s, p) \<in> set m'. s = qp_ScopeSHA256 p \<and> validOperationQuotaPolicy p) \<and>
    snd ` set m' \<subseteq> snd ` set m \<union> set ps \<and> qp_ScopeSHA256 ` set ps \<subseteq> fst ` set m' \<and> fst ` set m \<subseteq> fst ` set m'"
  using assms
proof (induction ps m rule: policies_by_scope.induct)
  case (1 m)
  then show ?case by auto
next
  case (2 p ps m)
  have v: "validOperationQuotaPolicy p" using "2.prems"(1) by (auto split: if_splits)
  show ?case
  proof (cases "gm_get m (qp_ScopeSHA256 p)")
    case None
    let ?m = "gm_put (qp_ScopeSHA256 p) p m"
    have m: "?m = m @ [(qp_ScopeSHA256 p, p)]" using None by (intro gm_put_absent) (auto simp: map_of_eq_None_iff)
    have "policies_by_scope ps ?m = Inr m'" using "2.prems"(1) v None by simp
    from "2.IH"(1) [OF _ None this] "2.prems"(2,3) v show ?thesis unfolding m
      using None by (auto simp: map_of_eq_None_iff)
  next
    case (Some q)
    then have r: "policies_by_scope ps m = Inr m'" using "2.prems"(1) v by (auto split: if_splits)
    have d: "\<not> operationQuotaPolicyDigest q \<noteq> operationQuotaPolicyDigest p"
      using "2.prems"(1) v Some by (auto split: if_splits)
    from "2.IH"(2) [OF _ Some d r] "2.prems"(2,3) v Some show ?thesis
      by (auto dest!: map_of_SomeD) (metis fst_conv image_eqI subsetD)
  qed
qed

lemma normalize_ok:
  assumes "normalizeOperationQuotaPolicies policies = Inr ps"
  shows "distinct (List.map qp_ScopeSHA256 ps)" "set ps \<subseteq> set policies" "list_all validOperationQuotaPolicy ps"
    "sorted (List.map qp_ScopeSHA256 ps)" "qp_ScopeSHA256 ` set ps = qp_ScopeSHA256 ` set policies"
proof -
  obtain m where m: "policies_by_scope policies [] = Inr m" "ps = sort_key qp_ScopeSHA256 (List.map snd m)"
    using assms by (auto simp: normalizeOperationQuotaPolicies_def split: if_splits sum.splits)
  note ok = policies_by_scope_ok [OF m(1)]
  have keys: "List.map qp_ScopeSHA256 (List.map snd m) = gm_keys m" using ok by (auto intro!: map_cong)
  have "mset (List.map qp_ScopeSHA256 ps) = mset (List.map qp_ScopeSHA256 (List.map snd m))"
    unfolding m(2) mset_map by simp
  then have "mset (List.map qp_ScopeSHA256 ps) = mset (gm_keys m)" unfolding keys .
  with ok show "distinct (List.map qp_ScopeSHA256 ps)" by (metis mset_eq_imp_distinct_iff list.simps(8) distinct.simps(1) empty_iff list.set(1) ballI)
  show sub: "set ps \<subseteq> set policies" and "list_all validOperationQuotaPolicy ps"
    using ok m(2) by (auto simp: list_all_iff)
  show "sorted (List.map qp_ScopeSHA256 ps)" by (simp add: m(2))
  have "qp_ScopeSHA256 ` set ps = fst ` set m" using keys m(2) by (metis list.set_map set_sort)
  moreover have "qp_ScopeSHA256 ` set policies \<subseteq> fst ` set m" using ok by simp
  ultimately show "qp_ScopeSHA256 ` set ps = qp_ScopeSHA256 ` set policies"
    using image_mono [OF sub, of qp_ScopeSHA256] by simp
qed

subsection \<open>One scope's part of an acquisition\<close>

lemma quota_claim_base_Inr:
  assumes "quota_claim_base stored p now = Inr st"
  shows "qs_ScopeSHA256 st = qp_ScopeSHA256 p" "qs_WindowStarted st = time_Truncate now (qp_Window p)"
    "qs_PolicySHA256 st = operationQuotaPolicyDigest p"
    "stored = None \<Longrightarrow> qs_RequestsUsed st = 0 \<and> qs_Active st = [] \<and> qs_LastClaimAt st = time_zero"
    "stored = Some old \<Longrightarrow> qs_UpdatedAt old \<le> now \<and> qs_Active st = qs_Active old \<and> qs_LastClaimAt st = qs_LastClaimAt old \<and>
       qs_ScopeSHA256 old = qp_ScopeSHA256 p \<and> qs_Generation st = qs_Generation old \<and>
       (qs_WindowStarted old = time_Truncate now (qp_Window p) \<and> qs_RequestsUsed st = qs_RequestsUsed old \<and>
          qs_PolicySHA256 old = operationQuotaPolicyDigest p \<or>
        qs_WindowStarted old \<noteq> time_Truncate now (qp_Window p) \<and> qs_RequestsUsed st = 0 \<and>
          operationQuotaActive (qs_Active old) now = [])"
  using assms by (auto simp: quota_claim_base_def Let_def split: option.splits if_splits)

lemma next_claim_Inr:
  assumes "nextOperationQuotaClaim stored p a now lease = Inr (st, c)"
  obtains base where "quota_claim_base stored p now = Inr base"
    "gm_get (operationQuotaActive (qs_Active base) now) a = None"
    "int (length (operationQuotaActive (qs_Active base) now)) < qp_MaxConcurrent p"
    "qs_RequestsUsed base < qp_RequestsPerWindow p"
    "IsZero (qs_LastClaimAt base) \<or> qp_MinimumInterval p \<le> time_Sub now (qs_LastClaimAt base)"
    "c = \<lparr>qc_ScopeSHA256 = qp_ScopeSHA256 p, qc_AttemptID = a, qc_Generation = qs_Generation base + 1,
       qc_ExpiresAt = now + lease\<rparr>"
    "st = base\<lparr>qs_Generation := qs_Generation base + 1,
       qs_Active := gm_put a \<lparr>ql_Generation = qs_Generation base + 1, ql_ExpiresAt = now + lease\<rparr>
         (operationQuotaActive (qs_Active base) now),
       qs_RequestsUsed := qs_RequestsUsed base + 1, qs_LastClaimAt := now, qs_UpdatedAt := now\<rparr>"
proof -
  obtain base where "quota_claim_base stored p now = Inr base"
    using assms by (auto simp: nextOperationQuotaClaim_def split: sum.splits)
  with assms that [of base] show ?thesis
    by (auto simp: nextOperationQuotaClaim_def Let_def not_le not_less split: if_splits)
qed

lemma quota_candidates_list:
  "quota_candidates disk ps a now lease = Inr cs \<Longrightarrow>
    list_all2 (\<lambda>p (st, c). \<exists>stored. readOperationQuotaState disk (qp_ScopeSHA256 p) = Inr stored \<and>
      nextOperationQuotaClaim stored p a now lease = Inr (st, c)) ps cs"
  by (induction ps arbitrary: cs) (auto split: sum.splits)

lemma next_claim_scopes:
  "nextOperationQuotaClaim stored p a now lease = Inr (st, c) \<Longrightarrow>
    qs_ScopeSHA256 st = qp_ScopeSHA256 p \<and> qc_ScopeSHA256 c = qp_ScopeSHA256 p"
  by (erule next_claim_Inr) (auto dest: quota_claim_base_Inr(1))

lemma list_all2_scopes:
  "list_all2 (\<lambda>p (st, c). \<exists>stored. readOperationQuotaState disk (qp_ScopeSHA256 p) = Inr stored \<and>
      nextOperationQuotaClaim stored p a now lease = Inr (st, c)) ps cs \<Longrightarrow>
    List.map (qs_ScopeSHA256 \<circ> fst) cs = List.map qp_ScopeSHA256 ps \<and> List.map (qc_ScopeSHA256 \<circ> snd) cs = List.map qp_ScopeSHA256 ps"
  by (induction rule: list_all2_induct) (auto dest: next_claim_scopes)

lemma filter_key_distinct:
  "distinct (List.map f xs) \<Longrightarrow> x \<in> set xs \<Longrightarrow> filter (\<lambda>y. f y = f x) xs = [x]"
  by (induction xs) (auto simp: filter_empty_conv image_iff dest: sym)

lemma acquire_scope:
  assumes "normalizeOperationQuotaPolicies policies = Inr ps" "quota_candidates disk ps a now lease = Inr cs"
  obtains (other) "install (List.map fst cs) base s = base s" "filter (\<lambda>c. qc_ScopeSHA256 c = s) (List.map snd cs) = []"
  | (mine) p st c stored where "p \<in> set policies" "validOperationQuotaPolicy p" "qp_ScopeSHA256 p = s"
      "readOperationQuotaState disk s = Inr stored" "nextOperationQuotaClaim stored p a now lease = Inr (st, c)"
      "install (List.map fst cs) base s = Doc st" "filter (\<lambda>c. qc_ScopeSHA256 c = s) (List.map snd cs) = [c]"
      "qs_ScopeSHA256 st = s" "st \<in> set (List.map fst cs)"
proof -
  note l2 = quota_candidates_list [OF assms(2)] and norm = normalize_ok [OF assms(1)]
  note sc = list_all2_scopes [OF l2]
  show ?thesis
  proof (cases "s \<in> qp_ScopeSHA256 ` set ps")
    case False
    then have "s \<notin> set (List.map (qs_ScopeSHA256 \<circ> fst) cs)" "s \<notin> set (List.map (qc_ScopeSHA256 \<circ> snd) cs)"
      using sc by auto
    then have "find (\<lambda>st. qs_ScopeSHA256 st = s) (List.map fst cs) = None"
      "filter (\<lambda>c. qc_ScopeSHA256 c = s) (List.map snd cs) = []"
      unfolding find_scope_None by (auto simp: filter_empty_conv)
    then have "install (List.map fst cs) base s = base s" "filter (\<lambda>c. qc_ScopeSHA256 c = s) (List.map snd cs) = []"
      by (simp_all add: install_def)
    then show ?thesis by (rule other)
  next
    case True
    then obtain p where p: "p \<in> set ps" "qp_ScopeSHA256 p = s" by auto
    then obtain i where i: "i < length ps" "ps ! i = p" by (auto simp: in_set_conv_nth)
    obtain st c where stc: "cs ! i = (st, c)" by (cases "cs ! i")
    have len: "length cs = length ps" using l2 by (simp add: list_all2_lengthD)
    then have inc: "(st, c) \<in> set cs" using i(1) stc by (metis nth_mem)
    obtain stored where st: "readOperationQuotaState disk s = Inr stored" "nextOperationQuotaClaim stored p a now lease = Inr (st, c)"
      using list_all2_nthD [OF l2 i(1)] i(2) p(2) stc by auto
    note scope = next_claim_scopes [OF st(2)]
    have "distinct (List.map qs_ScopeSHA256 (List.map fst cs))" "distinct (List.map qc_ScopeSHA256 (List.map snd cs))"
      using sc norm(1) by (simp_all add: comp_def)
    moreover have "st \<in> set (List.map fst cs)" "c \<in> set (List.map snd cs)" using inc by force+
    ultimately show ?thesis
      using mine [OF _ _ p(2) st] p norm(2,3) scope find_scope [of "List.map fst cs" st] filter_key_distinct [of qc_ScopeSHA256 "List.map snd cs" c]
      by (auto simp: install_def list_all_iff)
  qed
qed

end
