(* ===== verification/Operation_Quota_History.thy ===== *)
theory Operation_Quota_History
  imports Operation_Quota_Facts
begin

text \<open>
  The quotas over whole histories of acquisitions and releases with failures and crashes: the
  request budget, the spacing and the concurrency of a scope, releases, policy changes and the
  encoded sizes.
\<close>

section \<open>Budgets and concurrency\<close>

subsection \<open>The invariant of one scope\<close>

text \<open>A grant is a claim an acquisition reported, with the time under the lock.\<close>

type_synonym grant = "OperationQuotaClaim \<times> time"

definition granted_in :: "OperationQuotaPolicy \<Rightarrow> grant list \<Rightarrow> time \<Rightarrow> int" where
  "granted_in p grants w = int (length (filter (\<lambda>(c, t). time_Truncate t (qp_Window p) = w) grants))"

definition spaced :: "OperationQuotaPolicy \<Rightarrow> grant \<Rightarrow> grant \<Rightarrow> bool" where
  "spaced p = (\<lambda>(c, t) (d, u). t + qp_MinimumInterval p \<le> u)"

definition grant_held :: "OperationQuotaPolicy \<Rightarrow> operationQuotaState \<Rightarrow> grant list \<Rightarrow> OperationQuotaClaim list \<Rightarrow> bool" where
  "grant_held p st grants back \<longleftrightarrow> (\<forall>(c, t) \<in> set grants. c \<notin> set back \<longrightarrow> qs_UpdatedAt st < qc_ExpiresAt c \<longrightarrow>
     gm_get (qs_Active st) (qc_AttemptID c) =
       Some \<lparr>ql_Generation = qc_Generation c, ql_ExpiresAt = qc_ExpiresAt c\<rparr>)"

definition state_inv ::
  "OperationQuotaPolicy \<Rightarrow> time \<Rightarrow> operationQuotaState \<Rightarrow> grant list \<Rightarrow> OperationQuotaClaim list \<Rightarrow> bool" where
  "state_inv p T st grants back \<longleftrightarrow>
     validOperationQuotaState st \<and> qs_ScopeSHA256 st = qp_ScopeSHA256 p \<and> gm_wf (qs_Active st) \<and>
     int (length (qs_Active st)) \<le> qp_MaxConcurrent p \<and>
     qs_RequestsUsed st \<le> qp_RequestsPerWindow p \<and>
     qs_WindowStarted st = time_Truncate (qs_LastClaimAt st) (qp_Window p) \<and> \<not> IsZero (qs_LastClaimAt st) \<and>
     qs_LastClaimAt st \<le> qs_UpdatedAt st \<and> qs_UpdatedAt st \<le> T \<and>
     (\<forall>(c, t) \<in> set grants. t \<le> qs_LastClaimAt st \<and> qc_ScopeSHA256 c = qp_ScopeSHA256 p) \<and>
     granted_in p grants (qs_WindowStarted st) \<le> qs_RequestsUsed st \<and>
     (\<forall>w. granted_in p grants w \<le> qp_RequestsPerWindow p) \<and> sorted_wrt (spaced p) grants \<and>
     grant_held p st grants back"

definition scope_inv ::
  "OperationQuotaPolicy \<Rightarrow> time \<Rightarrow> operationQuotaState stored \<Rightarrow> grant list \<Rightarrow> OperationQuotaClaim list \<Rightarrow> bool" where
  "scope_inv p T ds grants back =
     (case ds of Absent \<Rightarrow> grants = [] | Garbage \<Rightarrow> False | Doc st \<Rightarrow> state_inv p T st grants back)"

lemma granted_in_append: "granted_in p (gs @ [(c, t)]) w = granted_in p gs w + (if time_Truncate t (qp_Window p) = w then 1 else 0)"
  by (simp add: granted_in_def)

lemma granted_in_fewer: "granted_in p gs w \<le> granted_in p (gs @ [g]) w"
  by (cases g) (simp add: granted_in_append)

lemma state_inv_fewer:
  assumes "state_inv p T st (gs @ [g]) back"
  shows "state_inv p T st gs back"
proof -
  have "\<forall>w. granted_in p gs w \<le> qp_RequestsPerWindow p"
    using assms granted_in_fewer order_trans unfolding state_inv_def by blast
  moreover have "granted_in p gs (qs_WindowStarted st) \<le> qs_RequestsUsed st"
    using assms granted_in_fewer order_trans unfolding state_inv_def by blast
  ultimately show ?thesis using assms by (auto simp: state_inv_def grant_held_def sorted_wrt_append)
qed

lemma state_inv_later:
  "state_inv p T st gs back \<Longrightarrow> T \<le> T' \<Longrightarrow> set back \<subseteq> set back' \<Longrightarrow> state_inv p T' st gs back'"
  by (auto simp: state_inv_def grant_held_def)

lemma scope_inv_later:
  "scope_inv p T ds gs back \<Longrightarrow> T \<le> T' \<Longrightarrow> set back \<subseteq> set back' \<Longrightarrow> scope_inv p T' ds gs back'"
  by (auto simp: scope_inv_def intro: state_inv_later split: stored.splits)

lemma active_filter_simps:
  "gm_wf m \<Longrightarrow> gm_wf (operationQuotaActive m now)"
  "gm_wf m \<Longrightarrow> gm_get m a = Some l \<Longrightarrow> now < ql_ExpiresAt l \<Longrightarrow> gm_get (operationQuotaActive m now) a = Some l"
  "length (operationQuotaActive m now) \<le> length m"
proof -
  show "gm_wf m \<Longrightarrow> gm_wf (operationQuotaActive m now)"
    by (simp add: operationQuotaActive_def distinct_map_filter)
  show "length (operationQuotaActive m now) \<le> length m" by (simp add: operationQuotaActive_def)
  show "gm_wf m \<Longrightarrow> gm_get m a = Some l \<Longrightarrow> now < ql_ExpiresAt l \<Longrightarrow> gm_get (operationQuotaActive m now) a = Some l"
    by (rule gm_in_get) (auto simp: operationQuotaActive_def distinct_map_filter dest: gm_get_in)
qed

text \<open>The state a claim starts from respects the invariant and leaves room in its window.\<close>

lemma base_facts:
  assumes "scope_inv p T ds gs back" "readOperationQuotaState d s = Inr stored" "qd_states d s = ds"
    "quota_claim_base stored p now = Inr base" "validOperationQuotaPolicy p"
  shows "\<forall>(c, t) \<in> set gs. t \<le> now \<and> qc_ScopeSHA256 c = qp_ScopeSHA256 p"
    "granted_in p gs (time_Truncate now (qp_Window p)) \<le> qs_RequestsUsed base"
    "\<forall>w. granted_in p gs w \<le> qp_RequestsPerWindow p" "sorted_wrt (spaced p) gs"
    "gm_wf (qs_Active base)"
    "\<forall>(c, t) \<in> set gs. t \<le> qs_LastClaimAt base \<and> (c \<notin> set back \<longrightarrow> now < qc_ExpiresAt c \<longrightarrow>
       gm_get (qs_Active base) (qc_AttemptID c) = Some \<lparr>ql_Generation = qc_Generation c, ql_ExpiresAt = qc_ExpiresAt c\<rparr>)"
    "IsZero (qs_LastClaimAt base) \<Longrightarrow> gs = []"
proof -
  have win: "0 < qp_Window p" using assms(5) by (simp add: validOperationQuotaPolicy_def second_def)
  consider (fresh) "stored = None" "gs = []" | (old) st where "stored = Some st" "state_inv p T st gs back"
    using assms(1-3)
    by (auto simp: scope_inv_def readOperationQuotaState_def split: stored.splits if_splits)
  then have "(\<forall>(c, t) \<in> set gs. t \<le> now \<and> qc_ScopeSHA256 c = qp_ScopeSHA256 p) \<and>
    granted_in p gs (time_Truncate now (qp_Window p)) \<le> qs_RequestsUsed base \<and>
    (\<forall>w. granted_in p gs w \<le> qp_RequestsPerWindow p) \<and> sorted_wrt (spaced p) gs \<and> gm_wf (qs_Active base) \<and>
    (\<forall>(c, t) \<in> set gs. t \<le> qs_LastClaimAt base \<and> (c \<notin> set back \<longrightarrow> now < qc_ExpiresAt c \<longrightarrow>
       gm_get (qs_Active base) (qc_AttemptID c) = Some \<lparr>ql_Generation = qc_Generation c, ql_ExpiresAt = qc_ExpiresAt c\<rparr>)) \<and>
    (IsZero (qs_LastClaimAt base) \<longrightarrow> gs = [])"
  proof cases
    case fresh
    then show ?thesis
      using quota_claim_base_Inr(4) [OF assms(4)] assms(5)
      by (simp add: granted_in_def validOperationQuotaPolicy_def)
  next
    case old
    note b = quota_claim_base_Inr(5) [OF assms(4) old(1)]
    note inv = old(2) [unfolded state_inv_def]
    have last: "qs_LastClaimAt st \<le> now" using b inv by auto
    have "granted_in p gs (time_Truncate now (qp_Window p)) \<le> qs_RequestsUsed base"
    proof (cases "qs_WindowStarted st = time_Truncate now (qp_Window p)")
      case True
      then show ?thesis using b inv by auto
    next
      case False
      then have "time_Truncate (qs_LastClaimAt st) (qp_Window p) < time_Truncate now (qp_Window p)"
        using time_Truncate_mono [OF win last] inv by auto
      moreover have "time_Truncate t (qp_Window p) \<le> time_Truncate (qs_LastClaimAt st) (qp_Window p)" if "(c, t) \<in> set gs" for c t
        using inv that by (intro time_Truncate_mono [OF win]) auto
      ultimately have "filter (\<lambda>(c, t). time_Truncate t (qp_Window p) = time_Truncate now (qp_Window p)) gs = []"
        by (force simp: filter_empty_conv)
      then show ?thesis using b False by (simp add: granted_in_def)
    qed
    then show ?thesis using b inv last by (auto simp: grant_held_def)
  qed
  then show "\<forall>(c, t) \<in> set gs. t \<le> now \<and> qc_ScopeSHA256 c = qp_ScopeSHA256 p"
    "granted_in p gs (time_Truncate now (qp_Window p)) \<le> qs_RequestsUsed base"
    "\<forall>w. granted_in p gs w \<le> qp_RequestsPerWindow p" "sorted_wrt (spaced p) gs" "gm_wf (qs_Active base)"
    "\<forall>(c, t) \<in> set gs. t \<le> qs_LastClaimAt base \<and> (c \<notin> set back \<longrightarrow> now < qc_ExpiresAt c \<longrightarrow>
       gm_get (qs_Active base) (qc_AttemptID c) = Some \<lparr>ql_Generation = qc_Generation c, ql_ExpiresAt = qc_ExpiresAt c\<rparr>)"
    "IsZero (qs_LastClaimAt base) \<Longrightarrow> gs = []"
    by blast+
qed
lemma time_Sub_ge: "0 \<le> m \<Longrightarrow> m \<le> time_Sub a b \<Longrightarrow> b + m \<le> a"
  by (auto simp: time_Sub_def)

lemma next_claim_keeps:
  assumes "scope_inv p T ds gs back" "readOperationQuotaState d s = Inr stored" "qd_states d s = ds"
    "nextOperationQuotaClaim stored p a now lease = Inr (st, c)" "validOperationQuotaPolicy p"
    "validOperationQuotaState st" "\<not> IsZero now"
  shows "state_inv p now st (gs @ [(c, now)]) back"
proof -
  obtain base where base: "quota_claim_base stored p now = Inr base"
    and dup: "gm_get (operationQuotaActive (qs_Active base) now) a = None"
    and room: "int (length (operationQuotaActive (qs_Active base) now)) < qp_MaxConcurrent p"
      "qs_RequestsUsed base < qp_RequestsPerWindow p"
    and gap: "IsZero (qs_LastClaimAt base) \<or> qp_MinimumInterval p \<le> time_Sub now (qs_LastClaimAt base)"
    and c: "c = \<lparr>qc_ScopeSHA256 = qp_ScopeSHA256 p, qc_AttemptID = a, qc_Generation = qs_Generation base + 1,
       qc_ExpiresAt = now + lease\<rparr>"
    and st: "st = base\<lparr>qs_Generation := qs_Generation base + 1,
       qs_Active := gm_put a \<lparr>ql_Generation = qs_Generation base + 1, ql_ExpiresAt = now + lease\<rparr>
         (operationQuotaActive (qs_Active base) now),
       qs_RequestsUsed := qs_RequestsUsed base + 1, qs_LastClaimAt := now, qs_UpdatedAt := now\<rparr>"
    using assms(4) by (rule next_claim_Inr)
  note f = base_facts [OF assms(1-3) base assms(5)] and b = quota_claim_base_Inr [OF base]
  let ?act = "operationQuotaActive (qs_Active base) now"
  have put: "gm_put a l ?act = ?act @ [(a, l)]" for l
    using dup by (intro gm_put_absent) (auto simp: map_of_eq_None_iff)
  have wf: "gm_wf (gm_put a l ?act)" for l using active_filter_simps(1) [OF f(5)] by (rule gm_wf_put)
  have "sorted_wrt (spaced p) (gs @ [(c, now)])"
  proof -
    have "spaced p (d, t) (c, now)" if "(d, t) \<in> set gs" for d t
    proof -
      have "\<not> IsZero (qs_LastClaimAt base)" using f(7) that by auto
      then have "qs_LastClaimAt base + qp_MinimumInterval p \<le> now"
        using gap time_Sub_ge assms(5) by (auto simp: validOperationQuotaPolicy_def)
      then show ?thesis using f(6) that by (auto simp: spaced_def)
    qed
    then show ?thesis using f(4) by (auto simp: sorted_wrt_append)
  qed
  moreover have "granted_in p (gs @ [(c, now)]) (qs_WindowStarted st) \<le> qs_RequestsUsed st"
    using f(2) b(2) by (simp add: granted_in_append st)
  moreover have "\<forall>w. granted_in p (gs @ [(c, now)]) w \<le> qp_RequestsPerWindow p"
    using f(2,3) room(2) by (auto simp: granted_in_append)
  moreover have "grant_held p st (gs @ [(c, now)]) back"
  proof -
    have "gm_get (qs_Active st) (qc_AttemptID d) = Some \<lparr>ql_Generation = qc_Generation d, ql_ExpiresAt = qc_ExpiresAt d\<rparr>"
      if "(d, t) \<in> set gs" "d \<notin> set back" "now < qc_ExpiresAt d" for d t
    proof -
      have "gm_get ?act (qc_AttemptID d) = Some \<lparr>ql_Generation = qc_Generation d, ql_ExpiresAt = qc_ExpiresAt d\<rparr>"
        using f(6) that by (intro active_filter_simps(2) [OF f(5)]) auto
      then show ?thesis using dup by (auto simp: st)
    qed
    then show ?thesis by (auto simp: grant_held_def st c simp del: map_of_eq_Some_iff)
  qed
  ultimately show ?thesis
    using assms(6,7) b(1,2) wf room f(1) by (auto simp: state_inv_def st c put)
qed

lemma released_state_scope: "released_state d c now = Inr st \<Longrightarrow> qs_ScopeSHA256 st = qc_ScopeSHA256 c"
  by (auto simp: released_state_def split: sum.splits option.splits if_splits)

lemma released_state_Inr:
  assumes "released_state d c now = Inr st"
  obtains old l where "qd_states d (qc_ScopeSHA256 c) = Doc old" "qs_ScopeSHA256 old = qc_ScopeSHA256 c"
    "qs_UpdatedAt old \<le> now" "gm_get (qs_Active old) (qc_AttemptID c) = Some l"
    "ql_Generation l = qc_Generation c" "ql_ExpiresAt l = qc_ExpiresAt c" "now < ql_ExpiresAt l"
    "st = old\<lparr>qs_Active := AList.delete (qc_AttemptID c) (qs_Active old), qs_Generation := qs_Generation old + 1,
      qs_UpdatedAt := now\<rparr>"
  using assms
  by (auto simp: released_state_def readOperationQuotaState_def split: sum.splits option.splits stored.splits if_splits)

lemma released_state_keeps:
  assumes "scope_inv p T ds gs back" "released_state d c now = Inr st" "qd_states d (qc_ScopeSHA256 c) = ds"
    "c \<in> set back" "validOperationQuotaState st"
  shows "state_inv p now st gs back"
proof -
  obtain old l where old: "ds = Doc old" "qs_ScopeSHA256 old = qc_ScopeSHA256 c" "qs_UpdatedAt old \<le> now"
    "gm_get (qs_Active old) (qc_AttemptID c) = Some l" "ql_Generation l = qc_Generation c" "ql_ExpiresAt l = qc_ExpiresAt c"
    and st: "st = old\<lparr>qs_Active := AList.delete (qc_AttemptID c) (qs_Active old), qs_Generation := qs_Generation old + 1,
      qs_UpdatedAt := now\<rparr>"
    using assms(2,3) by (auto elim: released_state_Inr)
  have inv: "state_inv p T old gs back" using assms(1) old(1) by (simp add: scope_inv_def)
  have "grant_held p st gs back"
  proof -
    have "gm_get (qs_Active st) (qc_AttemptID d) = Some \<lparr>ql_Generation = qc_Generation d, ql_ExpiresAt = qc_ExpiresAt d\<rparr>"
      if d: "(d, t) \<in> set gs" "d \<notin> set back" "now < qc_ExpiresAt d" for d t
    proof -
      have g: "gm_get (qs_Active old) (qc_AttemptID d) = Some \<lparr>ql_Generation = qc_Generation d, ql_ExpiresAt = qc_ExpiresAt d\<rparr>"
        using inv d old(3) by (force simp: state_inv_def grant_held_def simp del: map_of_eq_Some_iff)
      have "qc_AttemptID d \<noteq> qc_AttemptID c"
      proof
        assume "qc_AttemptID d = qc_AttemptID c"
        then have "d = c" using g old inv d(1) by (cases d; cases c) (auto simp: state_inv_def)
        with d(2) assms(4) show False by simp
      qed
      then show ?thesis using g by (simp add: st delete_conv')
    qed
    then show ?thesis by (auto simp: grant_held_def st simp del: map_of_eq_Some_iff)
  qed
  moreover have "length (AList.delete (qc_AttemptID c) (qs_Active old)) \<le> length (qs_Active old)"
    by (rule length_delete_le)
  ultimately show ?thesis
    using inv assms(5) old(3) by (auto simp: state_inv_def st distinct_delete)
qed
subsection \<open>Histories\<close>

text \<open>An operation of some worker, with the outcomes of its lock and its I/O; the history keeps what
  acquisitions granted and which claims anybody tried to give back.\<close>

datatype quota_op =
    AcquireOp quota_env "OperationQuotaPolicy list" string duration time ios
  | ReleaseOp quota_env "OperationQuotaClaim list" time ios

type_synonym history = "quota_disk \<times> grant list \<times> OperationQuotaClaim list"

fun quota_step :: "quota_op \<Rightarrow> history \<Rightarrow> history" where
  "quota_step (AcquireOp env policies a lease now ios) (disk, grants, back) =
     (case acquireManyWithClockContext env policies a lease now disk ios of
        (Inl e, disk', _) \<Rightarrow> (disk', grants, back)
      | (Inr claims, disk', _) \<Rightarrow> (disk', grants @ List.map (\<lambda>c. (c, now)) claims, back))"
| "quota_step (ReleaseOp env claims now ios) (disk, grants, back) =
     (case releaseManyWithClockContext env claims now disk ios of
        (_, disk', _) \<Rightarrow> (disk', grants, back @ claims))"

fun op_time :: "quota_op \<Rightarrow> time" where
  "op_time (AcquireOp env policies a lease now ios) = now"
| "op_time (ReleaseOp env claims now ios) = now"

text \<open>Whoever names the scope of \<open>p\<close> names it with the policy \<open>p\<close>.\<close>

fun uses_policy :: "OperationQuotaPolicy \<Rightarrow> quota_op \<Rightarrow> bool" where
  "uses_policy p (AcquireOp env policies a lease now ios) \<longleftrightarrow>
     list_all (\<lambda>q. qp_ScopeSHA256 q = qp_ScopeSHA256 p \<longrightarrow> q = p) policies"
| "uses_policy p (ReleaseOp env claims now ios) \<longleftrightarrow> True"

definition grants_of :: "OperationQuotaPolicy \<Rightarrow> grant list \<Rightarrow> grant list" where
  "grants_of p grants = filter (\<lambda>(c, t). qc_ScopeSHA256 c = qp_ScopeSHA256 p) grants"

definition history_inv :: "OperationQuotaPolicy \<Rightarrow> time \<Rightarrow> history \<Rightarrow> bool" where
  "history_inv p T = (\<lambda>(disk, grants, back).
     scope_inv p T (settled_states disk (qp_ScopeSHA256 p)) (grants_of p grants) back)"

lemma grants_of_claims:
  "grants_of p (List.map (\<lambda>c. (c, now)) cs) =
    List.map (\<lambda>c. (c, now)) (filter (\<lambda>c. qc_ScopeSHA256 c = qp_ScopeSHA256 p) cs)"
  by (induction cs) (auto simp: grants_of_def)

lemma acquire_keeps:
  assumes "history_inv p T (disk, grants, back)" "validOperationQuotaPolicy p"
    "list_all (\<lambda>q. qp_ScopeSHA256 q = qp_ScopeSHA256 p \<longrightarrow> q = p) policies" "now \<le> T"
  shows "history_inv p T (quota_step (AcquireOp env policies a lease now ios) (disk, grants, back))"
proof -
  obtain res disk' ios' where r: "acquireManyWithClockContext env policies a lease now disk ios = (res, disk', ios')"
    by (cases "acquireManyWithClockContext env policies a lease now disk ios")
  let ?s = "qp_ScopeSHA256 p" and ?gs = "grants_of p grants"
  have inv: "scope_inv p T (settled_states disk ?s) ?gs back" using assms(1) by (simp add: history_inv_def)
  from r show ?thesis
  proof (cases rule: acquire_cases)
    case (refused e)
    then have "settled_states disk' = settled_states disk" by (metis settled_simps(1))
    with r refused inv show ?thesis by (simp add: history_inv_def)
  next
    case (reserved ps cs)
    have sd: "settled_states disk' = install (List.map fst cs) (settled_states disk)"
      using reserved(8) by (metis after_install_simps(1) settled_simps(1))
    have kept: "scope_inv p T (settled_states disk' ?s) (?gs @ List.map (\<lambda>c. (c, now)) (filter (\<lambda>c. qc_ScopeSHA256 c = ?s) (List.map snd cs))) back \<and>
      scope_inv p T (settled_states disk' ?s) ?gs back"
      using reserved(1,2)
    proof (cases rule: acquire_scope [where base = "settled_states disk" and s = ?s])
      case other
      then show ?thesis using inv sd by simp
    next
      case (mine q st c stored)
      have q: "q = p" using mine(1,3) assms(3) by (auto simp: list_all_iff)
      have v: "validOperationQuotaState st" using mine(9) reserved(6) by (auto simp: list_all_iff)
      have "state_inv p now st (?gs @ [(c, now)]) back"
        by (rule next_claim_keeps [OF inv mine(4) settled_simps(1) [THEN fun_cong] mine(5) [unfolded q] assms(2) v reserved(3)])
      then have s: "state_inv p T st (?gs @ [(c, now)]) back" by (rule state_inv_later) (use assms(4) in auto)
      with state_inv_fewer [OF s] mine sd show ?thesis by (simp add: scope_inv_def)
    qed
    have gr: "grants_of p (grants @ List.map (\<lambda>c. (c, now)) (List.map snd cs)) =
        ?gs @ List.map (\<lambda>c. (c, now)) (filter (\<lambda>c. qc_ScopeSHA256 c = ?s) (List.map snd cs))"
      unfolding grants_of_claims [symmetric] by (simp add: grants_of_def)
    from reserved(9) show ?thesis
    proof (elim disjE conjE)
      assume "res = Inr (List.map snd cs)"
      then show ?thesis using r kept gr by (simp add: history_inv_def)
    next
      assume "res = Inl QuotaUnavailable"
      then show ?thesis using r kept by (simp add: history_inv_def)
    qed
  qed
qed

lemma released_states_scope:
  assumes "released_states d claims now = Inr states" "distinct (List.map qs_ScopeSHA256 states)"
  shows "install states base s = base s \<or>
    (\<exists>c \<in> set claims. \<exists>st \<in> set states. released_state d c now = Inr st \<and> qs_ScopeSHA256 st = s \<and> install states base s = Doc st)"
  using assms
proof (induction d claims now arbitrary: states rule: released_states.induct)
  case (1 d now)
  then show ?case by (simp add: install_def)
next
  case (2 d c claims now)
  then obtain st sts where st: "released_state d c now = Inr st" "released_states d claims now = Inr sts" "states = st # sts"
    by (auto split: sum.splits)
  with 2 have IH: "install sts base s = base s \<or> (\<exists>c \<in> set claims. \<exists>st \<in> set sts.
      released_state d c now = Inr st \<and> qs_ScopeSHA256 st = s \<and> install sts base s = Doc st)" by auto
  then show ?case using st by (cases "qs_ScopeSHA256 st = s") (auto simp: install_def)
qed

lemma release_keeps:
  assumes "history_inv p T (disk, grants, back)" "now \<le> T"
  shows "history_inv p T (quota_step (ReleaseOp env claims now ios) (disk, grants, back))"
proof -
  obtain res disk' ios' where r: "releaseManyWithClockContext env claims now disk ios = (res, disk', ios')"
    by (cases "releaseManyWithClockContext env claims now disk ios")
  let ?s = "qp_ScopeSHA256 p" and ?gs = "grants_of p grants"
  have inv: "scope_inv p T (settled_states disk ?s) ?gs (back @ claims)"
    using assms(1) by (auto simp: history_inv_def intro: scope_inv_later)
  from r have "scope_inv p T (settled_states disk' ?s) ?gs (back @ claims)"
  proof (cases rule: release_cases)
    case (refused e)
    then have "settled_states disk' = settled_states disk" by (metis settled_simps(1))
    with inv show ?thesis by simp
  next
    case (released states)
    have sd: "settled_states disk' = install states (settled_states disk)"
      using released(6) by (metis after_install_simps(1) settled_simps(1))
    from released_states_scope [OF released(1,4), of "settled_states disk" ?s]
    show ?thesis
    proof (elim disjE bexE conjE)
      assume "install states (settled_states disk) ?s = settled_states disk ?s"
      then show ?thesis using inv sd by simp
    next
      fix c st
      assume c: "c \<in> set (sort_key qc_ScopeSHA256 claims)" and st: "st \<in> set states" "released_state (settled disk) c now = Inr st"
        "qs_ScopeSHA256 st = ?s" "install states (settled_states disk) ?s = Doc st"
      have v: "validOperationQuotaState st" using released(5) st(1) by (simp add: list_all_iff)
      have cs: "qc_ScopeSHA256 c = ?s"
        using released_state_scope [OF st(2)] st(3) by simp
      have "state_inv p now st ?gs (back @ claims)"
        by (rule released_state_keeps [OF inv st(2) _ _ v]) (use c cs in simp_all)
      then have "state_inv p T st ?gs (back @ claims)" by (rule state_inv_later) (use assms(2) in auto)
      then show ?thesis using st(4) sd by (simp add: scope_inv_def)
    qed
  qed
  then show ?thesis using r by (simp add: history_inv_def)
qed

definition empty_directory :: quota_disk where
  "empty_directory = \<lparr>qd_states = (\<lambda>_. Absent), qd_txn = Absent\<rparr>"

definition history_of :: "quota_op list \<Rightarrow> history" where
  "history_of ops = fold quota_step ops (empty_directory, [], [])"

lemma history_holds:
  assumes "validOperationQuotaPolicy p" "list_all (uses_policy p) ops" "list_all (\<lambda>op. op_time op \<le> T) ops"
  shows "history_inv p T (history_of ops)"
proof -
  have "history_inv p T h \<Longrightarrow> list_all (uses_policy p) ops \<Longrightarrow> list_all (\<lambda>op. op_time op \<le> T) ops \<Longrightarrow>
      history_inv p T (fold quota_step ops h)" for h
  proof (induction ops arbitrary: h)
    case (Cons op ops)
    obtain disk grants bk where h: "h = (disk, grants, bk)" by (cases h)
    have "history_inv p T (quota_step op h)"
    proof (cases op)
      case (AcquireOp env policies a lease now ios)
      then show ?thesis using Cons.prems h by (simp only: h) (intro acquire_keeps assms(1); simp)
    next
      case (ReleaseOp env claims now ios)
      then show ?thesis using Cons.prems h by (simp only: h) (intro release_keeps; simp)
    qed
    then show ?case using Cons by simp
  qed simp
  moreover have "history_inv p T (empty_directory, [], [])"
    by (simp add: history_inv_def scope_inv_def grants_of_def settled_states_plain empty_directory_def)
  ultimately show ?thesis using assms(2,3) by (simp add: history_of_def)
qed

text \<open>C15: a request budget holds over every history: whatever workers acquire and release, whichever
  scopes they combine, whatever fails and wherever they crash, as long as the scope is always used with
  its policy, the grants reported in any one window of the scope never exceed the policy's requests per
  window, and any two grants are at least the minimum interval apart.\<close>

theorem quota_budget_holds:
  assumes "validOperationQuotaPolicy p" and "list_all (uses_policy p) ops"
  shows "granted_in p (grants_of p (fst (snd (history_of ops)))) w \<le> qp_RequestsPerWindow p \<and>
    sorted_wrt (spaced p) (grants_of p (fst (snd (history_of ops))))"
proof -
  define T where "T = Max (set (0 # List.map op_time ops))"
  have "list_all (\<lambda>op. op_time op \<le> T) ops" by (auto simp: T_def list_all_iff)
  from history_holds [OF assms this] obtain ds bk where
    "scope_inv p T ds (grants_of p (fst (snd (history_of ops)))) bk"
    by (auto simp: history_inv_def split: prod.splits)
  then show ?thesis
    using assms(1) by (auto simp: scope_inv_def state_inv_def granted_in_def validOperationQuotaPolicy_def split: stored.splits)
qed

text \<open>C16: concurrency holds over every history: at any time from the last operation on, the claims of a
  scope that were granted, have not expired and that nobody tried to give back never number more than
  the policy's limit.\<close>

theorem quota_concurrency_holds:
  assumes "validOperationQuotaPolicy p" and "list_all (uses_policy p) ops"
    and "list_all (\<lambda>op. op_time op \<le> now) ops"
  shows "int (card {c. (\<exists>t. (c, t) \<in> set (grants_of p (fst (snd (history_of ops))))) \<and>
      c \<notin> set (snd (snd (history_of ops))) \<and> now < qc_ExpiresAt c}) \<le> qp_MaxConcurrent p"
proof -
  let ?gs = "grants_of p (fst (snd (history_of ops)))" and ?given = "snd (snd (history_of ops))"
  let ?held = "{c. (\<exists>t. (c, t) \<in> set ?gs) \<and> c \<notin> set ?given \<and> now < qc_ExpiresAt c}"
  obtain ds where inv: "scope_inv p now ds ?gs ?given"
    using history_holds [OF assms] by (auto simp: history_inv_def split: prod.splits)
  show ?thesis
  proof (cases ds)
    case (Doc st)
    then have st: "state_inv p now st ?gs ?given" using inv by (simp add: scope_inv_def)
    let ?f = "\<lambda>c. (qc_AttemptID c, \<lparr>ql_Generation = qc_Generation c, ql_ExpiresAt = qc_ExpiresAt c\<rparr>)"
    have "?f ` ?held \<subseteq> set (qs_Active st)"
      using st by (force simp: state_inv_def grant_held_def)
    moreover have "inj_on ?f ?held"
    proof (rule inj_onI)
      fix c d assume "c \<in> ?held" "d \<in> ?held" "?f c = ?f d"
      moreover then have "qc_ScopeSHA256 c = qc_ScopeSHA256 d" by (auto simp: grants_of_def)
      ultimately show "c = d" by (cases c; cases d) simp
    qed
    ultimately have "card ?held \<le> length (qs_Active st)"
      using card_inj_on_le [of ?f ?held "set (qs_Active st)"] card_length [of "qs_Active st"] by force
    then show ?thesis using st by (simp add: state_inv_def)
  next
    case Absent
    then have "?held = {}" using inv by (auto simp: scope_inv_def)
    then have "card ?held = 0" by (simp only: card.empty)
    then show ?thesis using assms(1) unfolding validOperationQuotaPolicy_def by linarith
  next
    case Garbage
    then show ?thesis using inv by (simp add: scope_inv_def)
  qed
qed
section \<open>Releases\<close>

lemma released_states_list:
  "released_states d claims now = Inr states \<Longrightarrow> list_all2 (\<lambda>c st. released_state d c now = Inr st) claims states"
  by (induction d claims now arbitrary: states rule: released_states.induct) (auto split: sum.splits)

text \<open>C17: a release that is reported gave back exactly leases that were current: each claim matched the
  live lease of its attempt in generation and expiry, and in its scope the lease is removed and the
  generation and update time advance; requests used, the window, the last claim time and every other
  lease stay, so no request is refunded and no other worker's lease is touched.\<close>

theorem quota_release_is_fenced:
  assumes "releaseManyWithClockContext env claims now disk ios = (Inr (), disk', ios')" and "c \<in> set claims"
  shows "\<exists>st l. settled_states disk (qc_ScopeSHA256 c) = Doc st \<and>
    gm_get (qs_Active st) (qc_AttemptID c) = Some l \<and> ql_Generation l = qc_Generation c \<and>
    ql_ExpiresAt l = qc_ExpiresAt c \<and> now < ql_ExpiresAt l \<and> qs_UpdatedAt st \<le> now \<and>
    settled_states disk' (qc_ScopeSHA256 c) =
      Doc (st\<lparr>qs_Active := AList.delete (qc_AttemptID c) (qs_Active st),
              qs_Generation := qs_Generation st + 1, qs_UpdatedAt := now\<rparr>)"
  using assms(1)
proof (cases rule: release_cases)
  case (released states)
  note l2 = released_states_list [OF released(1)]
  have "c \<in> set (sort_key qc_ScopeSHA256 claims)" using assms(2) by simp
  then obtain i where i: "i < length (sort_key qc_ScopeSHA256 claims)" "sort_key qc_ScopeSHA256 claims ! i = c"
    by (auto simp only: in_set_conv_nth)
  have st': "states ! i \<in> set states" "released_state (settled disk) c now = Inr (states ! i)"
    using list_all2_nthD [OF l2 i(1)] i list_all2_lengthD [OF l2] by (simp_all only: nth_mem)
  have "settled_states disk' = install states (settled_states disk)"
    using released(6) by (metis after_install_simps(1) settled_simps(1))
  then have "settled_states disk' (qc_ScopeSHA256 c) = Doc (states ! i)"
    using find_scope [OF released(4) st'(1)] released_state_scope [OF st'(2)] by (simp add: install_def)
  moreover from st'(2) obtain old l where "settled_states disk (qc_ScopeSHA256 c) = Doc old"
    "qs_UpdatedAt old \<le> now" "gm_get (qs_Active old) (qc_AttemptID c) = Some l"
    "ql_Generation l = qc_Generation c" "ql_ExpiresAt l = qc_ExpiresAt c" "now < ql_ExpiresAt l"
    "states ! i = old\<lparr>qs_Active := AList.delete (qc_AttemptID c) (qs_Active old), qs_Generation := qs_Generation old + 1,
      qs_UpdatedAt := now\<rparr>"
    by (rule released_state_Inr) simp
  ultimately show ?thesis by (intro exI [of _ old] exI [of _ l]) simp
qed simp

section \<open>Policy changes\<close>

text \<open>C18: a scope changes its policy only at rest: an acquisition granted under a policy other than the
  one the scope was last used with happens in another window than the scope's current one, at a time at
  which every lease of the scope has expired; until then it is refused.\<close>

theorem quota_policy_changes_drained:
  assumes "acquireManyWithClockContext env policies a lease now disk ios = (Inr claims, disk', ios')"
    and "p \<in> set policies" and "settled_states disk (qp_ScopeSHA256 p) = Doc st"
    and "qs_PolicySHA256 st \<noteq> operationQuotaPolicyDigest p"
    and "\<And>q. q \<in> set policies \<Longrightarrow> qp_ScopeSHA256 q = qp_ScopeSHA256 p \<Longrightarrow> q = p"
  shows "qs_WindowStarted st \<noteq> time_Truncate now (qp_Window p) \<and> qs_UpdatedAt st \<le> now \<and>
    list_all (\<lambda>(attempt, l). ql_ExpiresAt l \<le> now) (qs_Active st)"
  using assms(1)
proof (cases rule: acquire_cases)
  case (reserved ps cs)
  from normalize_ok(5) [OF reserved(1)] assms(2) have in_ps: "qp_ScopeSHA256 p \<in> qp_ScopeSHA256 ` set ps" by blast
  note l2 = quota_candidates_list [OF reserved(2)]
  from in_ps obtain q where q: "q \<in> set ps" "qp_ScopeSHA256 q = qp_ScopeSHA256 p" by force
  with normalize_ok(2) [OF reserved(1)] assms(5) have "q = p" by blast
  with q(1) obtain i where i: "i < length ps" "ps ! i = p" by (auto simp: in_set_conv_nth)
  obtain stored st' c where "readOperationQuotaState (settled disk) (qp_ScopeSHA256 p) = Inr stored"
    "nextOperationQuotaClaim stored p a now lease = Inr (st', c)"
    using list_all2_nthD [OF l2 i(1)] i(2) by (cases "cs ! i") auto
  moreover then have "stored = Some st"
    using assms(3) by (auto simp: readOperationQuotaState_def split: if_splits)
  ultimately have "nextOperationQuotaClaim (Some st) p a now lease = Inr (st', c)" by simp
  then obtain base where "quota_claim_base (Some st) p now = Inr base" by (rule next_claim_Inr)
  from quota_claim_base_Inr(5) [OF this refl] assms(4) show ?thesis
    by (auto simp: operationQuotaActive_def filter_empty_conv list_all_iff not_less)
qed simp

section \<open>Sizes\<close>

lemma length_nat_dec: "n < 10 ^ k \<Longrightarrow> 0 < k \<Longrightarrow> length (nat_dec n) \<le> k"
proof (induction n arbitrary: k rule: nat_dec.induct)
  case (1 n)
  show ?case
  proof (cases "n < 10")
    case True
    then show ?thesis using 1(3) by (simp add: nat_dec.simps [of n])
  next
    case False
    then obtain j where j: "k = Suc j" "0 < j" using 1(2,3) by (cases k; cases "k - 1") auto
    then have "n div 10 < 10 ^ j" using 1(2) by (simp add: less_mult_imp_div_less mult.commute)
    with 1(1) [OF False, of j] j False show ?thesis by (simp add: nat_dec.simps [of n])
  qed
qed

lemma json_word_length_le: "json_word_length w \<le> 20"
proof -
  have "unat w < 2 ^ LENGTH(64)" by (rule unsigned_less)
  then have "unat w < 2 ^ 64" by simp
  also have "(2 ^ 64 :: nat) \<le> 10 ^ 20" by simp
  finally show ?thesis unfolding json_word_length_def by (rule length_nat_dec) simp
qed

lemma fraction_digits_le: "fraction_digits k n \<le> k"
  by (induction k n rule: fraction_digits.induct) auto

lemma json_time_length_le: "json_time_length t \<le> 32"
  using fraction_digits_le [of 9 "nat (t mod second)"] by (simp add: json_time_length_def Let_def)

lemma quota_lease_length_le: "quota_lease_length l \<le> 81"
  using json_word_length_le [of "ql_Generation l"] json_time_length_le [of "ql_ExpiresAt l"]
  by (simp add: quota_lease_length_def json_list_length_def json_field_length_def json_string_length_def)

lemma attempt_length: "quotaAttemptIDPattern a \<Longrightarrow> length a \<le> 64"
  by (auto simp: quotaAttemptIDPattern_def uuidPattern_def hex_string_def)

lemma quota_state_length_le:
  assumes "validOperationQuotaState st"
  shows "quota_state_length st \<le> 39000"
proof -
  have leases: "sum_list (List.map (\<lambda>(a, l). json_field_length a (quota_lease_length l)) m) \<le> 148 * length m"
    if "list_all (quota_lease_ok g) m" for g m
    using that
  proof (induction m)
    case (Cons x m)
    obtain a l where x: "x = (a, l)" by (cases x)
    then have "length a \<le> 64" using Cons.prems by (auto simp: quota_lease_ok_def attempt_length)
    then have "json_field_length a (quota_lease_length l) \<le> 148"
      using quota_lease_length_le [of l] by (simp add: json_field_length_def json_string_length_def)
    with Cons x show ?case by simp
  qed simp
  have n: "length (qs_Active st) \<le> 256" using assms by (simp add: validOperationQuotaState_def maxOperationQuotaConcurrent_def)
  have "sum_list (List.map (\<lambda>(a, l). json_field_length a (quota_lease_length l)) (qs_Active st)) \<le> 37888"
    using leases [of "qs_Generation st" "qs_Active st"] n assms by (auto simp: validOperationQuotaState_def)
  moreover have "length (int_dec (qs_RequestsUsed st)) \<le> 7"
    using assms length_nat_dec [of "nat (qs_RequestsUsed st)" 7] by (auto simp: int_dec_def validOperationQuotaState_def)
  moreover have "length (qs_SchemaVersion st) \<le> 40" "length (qs_ScopeSHA256 st) = 64" "length (qs_PolicySHA256 st) = 64"
    using assms by (auto simp: validOperationQuotaState_def OperationQuotaStateSchemaVersion_def sha256Pattern_def hex_string_def)
  ultimately show ?thesis
    using n json_time_length_le [of "qs_WindowStarted st"] json_time_length_le [of "qs_LastClaimAt st"]
      json_time_length_le [of "qs_UpdatedAt st"] json_word_length_le [of "qs_Generation st"]
    by (simp add: quota_state_length_def json_list_length_def json_field_length_def json_string_length_def)
qed

lemma quota_transaction_length_le:
  assumes "validOperationQuotaTransaction t"
  shows "quota_transaction_length t \<le> 625000"
proof -
  have n: "length (qt_States t) \<le> 16" "list_all validOperationQuotaState (qt_States t)"
    using assms transaction_scopes [OF assms] by (auto simp: validOperationQuotaTransaction_def maxOperationQuotaScopesPerCall_def)
  have "sum_list (List.map quota_state_length sts) \<le> 39000 * length sts" if "list_all validOperationQuotaState sts" for sts
    using that
  proof (induction sts)
    case (Cons st sts)
    then show ?case using quota_state_length_le [of st] by simp
  qed simp
  from this [OF n(2)] n(1) have "sum_list (List.map quota_state_length (qt_States t)) \<le> 624000" by linarith
  moreover have "length (qt_Kind t) = 7" "length (qt_AttemptID t) \<le> 64" "length (qt_SchemaVersion t) \<le> 60"
    using assms attempt_length by (auto simp: validOperationQuotaTransaction_def operationQuotaTransactionSchemaVersion_def)
  ultimately show ?thesis
    using n(1) by (simp add: quota_transaction_length_def json_list_length_def json_field_length_def json_string_length_def)
qed

text \<open>C19: the size limits refuse nothing valid: every valid state encodes in at most 64 KiB and every
  valid transaction, even of sixteen full scopes, in at most 2 MiB, so a write of valid data whose times
  are in the encodable years fails only for its I/O.\<close>

theorem quota_sizes_suffice:
  assumes "validOperationQuotaTransaction t" and "list_all quota_state_json_ok (qt_States t)"
  shows "writeOperationQuotaTransaction t disk ios = io_effect ios disk (disk\<lparr>qd_txn := Doc t\<rparr>) \<and>
    list_all (\<lambda>st. writeOperationQuotaState st disk ios =
      io_effect ios disk (disk\<lparr>qd_states := (qd_states disk)(qs_ScopeSHA256 st := Doc st)\<rparr>)) (qt_States t)"
proof -
  have "\<not> quota_transaction_length t > maxOperationQuotaTransactionSize"
    using quota_transaction_length_le [OF assms(1)] by (simp add: maxOperationQuotaTransactionSize_def)
  moreover have "\<not> quota_state_length st > maxOperationQuotaStateBytes" if "validOperationQuotaState st" for st
    using quota_state_length_le [OF that] by (simp add: maxOperationQuotaStateBytes_def)
  ultimately show ?thesis
    using assms transaction_scopes [OF assms(1)]
    by (simp add: writeOperationQuotaTransaction_def writeOperationQuotaState_def list_all_iff)
qed
section \<open>Examples\<close>

definition example_quota :: OperationQuotaPolicy where
  "example_quota = \<lparr>qp_ScopeSHA256 = replicate 64 (CHR ''a''), qp_MaxConcurrent = 2, qp_RequestsPerWindow = 3,
     qp_Window = minute, qp_MinimumInterval = second\<rparr>"

definition example_attempt :: string where "example_attempt = replicate 64 (CHR ''c'')"

definition quiet_env :: quota_env where
  "quiet_env = \<lparr>qv_entry = None, qv_ctx = None, qv_open = True, qv_flock = None\<rparr>"

definition example_claim_state :: operationQuotaState where
  "example_claim_state = \<lparr>qs_SchemaVersion = OperationQuotaStateSchemaVersion,
     qs_ScopeSHA256 = qp_ScopeSHA256 example_quota, qs_PolicySHA256 = operationQuotaPolicyDigest example_quota,
     qs_WindowStarted = 10 * minute, qs_RequestsUsed = 1, qs_LastClaimAt = 10 * minute, qs_Generation = 1,
     qs_UpdatedAt = 10 * minute,
     qs_Active = [(example_attempt, \<lparr>ql_Generation = 1, ql_ExpiresAt = 10 * minute + 5 * second\<rparr>)]\<rparr>"

definition example_quota_claim :: OperationQuotaClaim where
  "example_quota_claim = \<lparr>qc_ScopeSHA256 = qp_ScopeSHA256 example_quota, qc_AttemptID = example_attempt,
     qc_Generation = 1, qc_ExpiresAt = 10 * minute + 5 * second\<rparr>"

definition example_directory :: quota_disk where
  "example_directory = \<lparr>qd_states = (\<lambda>_. Absent)(qp_ScopeSHA256 example_quota := Doc example_claim_state), qd_txn = Absent\<rparr>"

lemma example_quota_valid: "validOperationQuotaPolicy example_quota"
  by (simp add: validOperationQuotaPolicy_def example_quota_def sha256Pattern_def hex_string_def is_lower_hex_def
      list_all_iff maxOperationQuotaConcurrent_def go_defs)

lemma example_attempt_ok [simp]: "quotaAttemptIDPattern example_attempt"
  by (simp add: quotaAttemptIDPattern_def example_attempt_def hex_string_def is_lower_hex_def list_all_iff)

lemma example_claim_state_valid: "validOperationQuotaState example_claim_state" "quota_state_json_ok example_claim_state"
proof -
  have "sha256Pattern (qp_ScopeSHA256 example_quota)" using example_quota_valid by (simp add: validOperationQuotaPolicy_def)
  then show "validOperationQuotaState example_claim_state"
    by (simp add: validOperationQuotaState_def example_claim_state_def operationQuotaPolicyDigest_def
        maxOperationQuotaConcurrent_def quota_lease_ok_def go_defs)
  show "quota_state_json_ok example_claim_state"
    by (simp add: quota_state_json_ok_def example_claim_state_def json_time_ok_def go_defs)
qed

lemma example_next:
  "nextOperationQuotaClaim None example_quota example_attempt (10 * minute) (5 * second) =
    Inr (example_claim_state, example_quota_claim)"
  by (simp add: nextOperationQuotaClaim_def quota_claim_base_def Let_def operationQuotaActive_def
      example_claim_state_def example_quota_claim_def)
     (simp add: example_quota_def time_Truncate_def go_defs)

text \<open>With working I/O an acquisition of one scope that its state allows is granted.\<close>

lemma acquire_one:
  assumes "validOperationQuotaPolicy p" "qd_txn disk = Absent"
    "readOperationQuotaState disk (qp_ScopeSHA256 p) = Inr stored"
    "nextOperationQuotaClaim stored p a now lease = Inr (st, c)" "validOperationQuotaState st" "quota_state_json_ok st"
    "gm_get (qs_Active st) a \<noteq> None" "quotaAttemptIDPattern a" "0 < lease" "lease \<le> maxOperationQuotaLease" "\<not> IsZero now"
  shows "acquireManyWithClockContext quiet_env [p] a lease now disk [Io_ok, Io_ok, Io_ok] =
    (Inr [c], disk\<lparr>qd_states := (qd_states disk)(qs_ScopeSHA256 st := Doc st)\<rparr>, [])"
proof -
  let ?t = "\<lparr>qt_SchemaVersion = operationQuotaTransactionSchemaVersion, qt_Kind = ''reserve'',
     qt_AttemptID = a, qt_States = [st]\<rparr>"
  have t: "validOperationQuotaTransaction ?t"
    using assms by (simp add: validOperationQuotaTransaction_def maxOperationQuotaScopesPerCall_def)
  have small: "\<not> quota_transaction_length ?t > maxOperationQuotaTransactionSize"
    "\<not> quota_state_length st > maxOperationQuotaStateBytes"
    using quota_transaction_length_le [OF t] quota_state_length_le [OF assms(5)]
    by (simp_all add: maxOperationQuotaTransactionSize_def maxOperationQuotaStateBytes_def)
  have p: "persist_transaction ?t disk [Io_ok, Io_ok, Io_ok] =
      (True, disk\<lparr>qd_states := (qd_states disk)(qs_ScopeSHA256 st := Doc st)\<rparr>, [])"
    using t assms small
    by (simp add: persist_transaction_def writeOperationQuotaTransaction_def commitOperationQuotaTransaction_def
        writeOperationQuotaState_def removeOperationQuotaTransaction_def)
  have "normalizeOperationQuotaPolicies [p] = Inr [p]"
    using assms(1) by (simp add: normalizeOperationQuotaPolicies_def maxOperationQuotaScopesPerCall_def)
  moreover have "recoverOperationQuotaTransaction disk ios = (True, disk, ios)" for ios
    using assms(2) by (simp add: recoverOperationQuotaTransaction_def readOperationQuotaTransaction_def)
  ultimately show ?thesis
    using p assms by (simp add: acquireManyWithClockContext_def quiet_env_def withAuthorityLockContext_def lock_error_def
        reserve_locked_def)
qed

lemma example_times [simp]: "\<not> IsZero (10 * minute)" "0 < 5 * second" "5 * second \<le> maxOperationQuotaLease"
  by (simp_all add: go_defs maxOperationQuotaLease_def)

lemma example_acquired:
  "acquireManyWithClockContext quiet_env [example_quota] example_attempt (5 * second) (10 * minute) empty_directory
     [Io_ok, Io_ok, Io_ok] = (Inr [example_quota_claim], example_directory, [])"
proof -
  have "example_directory = empty_directory\<lparr>qd_states := (qd_states empty_directory)(qs_ScopeSHA256 example_claim_state := Doc example_claim_state)\<rparr>"
    by (simp add: example_directory_def empty_directory_def example_claim_state_def)
  moreover have "readOperationQuotaState empty_directory s = Inr None" "qd_txn empty_directory = Absent" for s
    by (simp_all add: readOperationQuotaState_def empty_directory_def)
  ultimately show ?thesis
    using acquire_one [OF example_quota_valid _ _ example_next example_claim_state_valid]
    by (simp add: example_claim_state_def)
qed

definition example_ops :: "quota_op list" where
  "example_ops = [AcquireOp quiet_env [example_quota] example_attempt (5 * second) (10 * minute) [Io_ok, Io_ok, Io_ok]]"

lemma example_history: "history_of example_ops = (example_directory, [(example_quota_claim, 10 * minute)], [])"
  by (simp add: history_of_def example_ops_def example_acquired)

theorem quota_budget_holds_witness:
  "granted_in example_quota (grants_of example_quota [(example_quota_claim, 10 * minute)]) (10 * minute) \<le> 3"
proof -
  have "list_all (uses_policy example_quota) example_ops" by (simp add: example_ops_def)
  from quota_budget_holds [OF example_quota_valid this, of "10 * minute"] show ?thesis
    by (simp add: example_history) (simp add: example_quota_def)
qed

theorem quota_concurrency_holds_witness:
  "int (card {c. (\<exists>t. (c, t) \<in> set (grants_of example_quota [(example_quota_claim, 10 * minute)])) \<and>
     c \<notin> set [] \<and> 10 * minute + second < qc_ExpiresAt c}) \<le> 2"
proof -
  have "list_all (uses_policy example_quota) example_ops" "list_all (\<lambda>op. op_time op \<le> 10 * minute + second) example_ops"
    by (simp_all add: example_ops_def second_def)
  from quota_concurrency_holds [OF example_quota_valid this] show ?thesis
    unfolding example_history by (simp add: example_quota_def)
qed

lemma example_released:
  "fst (releaseManyWithClockContext quiet_env [example_quota_claim] (10 * minute + second) example_directory
     [Io_ok, Io_ok, Io_ok]) = Inr ()"
proof -
  let ?st = "example_claim_state\<lparr>qs_Active := [], qs_Generation := 2, qs_UpdatedAt := 10 * minute + second\<rparr>"
  let ?t = "\<lparr>qt_SchemaVersion = operationQuotaTransactionSchemaVersion, qt_Kind = ''release'',
     qt_AttemptID = example_attempt, qt_States = [?st]\<rparr>"
  have st: "validOperationQuotaState ?st" "quota_state_json_ok ?st"
    using example_claim_state_valid
    by (auto simp: validOperationQuotaState_def quota_state_json_ok_def json_time_ok_def go_defs)
  then have t: "validOperationQuotaTransaction ?t"
    by (simp add: validOperationQuotaTransaction_def maxOperationQuotaScopesPerCall_def)
  have small: "\<not> quota_transaction_length ?t > maxOperationQuotaTransactionSize"
    "\<not> quota_state_length ?st > maxOperationQuotaStateBytes"
    using quota_transaction_length_le [OF t] quota_state_length_le [OF st(1)]
    by (simp_all add: maxOperationQuotaTransactionSize_def maxOperationQuotaStateBytes_def)
  have p: "fst (persist_transaction ?t example_directory [Io_ok, Io_ok, Io_ok])"
    using t st small
    by (simp add: persist_transaction_def writeOperationQuotaTransaction_def commitOperationQuotaTransaction_def
        writeOperationQuotaState_def removeOperationQuotaTransaction_def)
  have rel: "released_states example_directory [example_quota_claim] (10 * minute + second) = Inr [?st]"
    using example_claim_state_valid(1)
    by (simp add: released_state_def readOperationQuotaState_def example_directory_def example_quota_claim_def)
       (simp add: example_claim_state_def second_def)
  have ok: "release_claims_ok example_attempt None [example_quota_claim]" "qc_AttemptID example_quota_claim = example_attempt"
    using example_quota_valid by (simp_all add: example_quota_claim_def validOperationQuotaPolicy_def go_defs)
  have "recoverOperationQuotaTransaction example_directory ios = (True, example_directory, ios)" for ios
    by (simp add: recoverOperationQuotaTransaction_def readOperationQuotaTransaction_def example_directory_def)
  moreover have "\<not> IsZero (10 * minute + second)" by (simp add: go_defs)
  ultimately have "fst (release_locked [example_quota_claim] (10 * minute + second) example_directory [Io_ok, Io_ok, Io_ok]) = Inr ()"
    using p rel ok(2) by (auto simp add: release_locked_def split: prod.splits bool.splits)
  then show ?thesis
    using ok by (simp add: releaseManyWithClockContext_def quiet_env_def withAuthorityLockContext_def lock_error_def
        maxOperationQuotaScopesPerCall_def)
qed

theorem quota_release_is_fenced_witness:
  "\<exists>st. settled_states example_directory (qp_ScopeSHA256 example_quota) = Doc st \<and>
     settled_states (fst (snd (releaseManyWithClockContext quiet_env [example_quota_claim] (10 * minute + second)
       example_directory [Io_ok, Io_ok, Io_ok]))) (qp_ScopeSHA256 example_quota) =
     Doc (st\<lparr>qs_Active := AList.delete example_attempt (qs_Active st), qs_Generation := qs_Generation st + 1,
        qs_UpdatedAt := 10 * minute + second\<rparr>)"
proof -
  let ?run = "releaseManyWithClockContext quiet_env [example_quota_claim] (10 * minute + second) example_directory
    [Io_ok, Io_ok, Io_ok]"
  have r: "?run = (Inr (), fst (snd ?run), snd (snd ?run))" using example_released by (metis prod.collapse)
  have "example_quota_claim \<in> set [example_quota_claim]" by simp
  from quota_release_is_fenced [OF r this] show ?thesis by (auto simp: example_quota_claim_def)
qed

text \<open>The scope of \<open>example_quota\<close>, last used earlier under another policy, one with digest \<open>h\<close>.\<close>

definition retired_state :: "string \<Rightarrow> operationQuotaState" where
  "retired_state h = \<lparr>qs_SchemaVersion = OperationQuotaStateSchemaVersion,
     qs_ScopeSHA256 = qp_ScopeSHA256 example_quota, qs_PolicySHA256 = h,
     qs_WindowStarted = minute, qs_RequestsUsed = 1, qs_LastClaimAt = minute, qs_Generation = 1,
     qs_UpdatedAt = minute, qs_Active = [(example_attempt, \<lparr>ql_Generation = 1, ql_ExpiresAt = 2 * minute\<rparr>)]\<rparr>"

definition retired_directory :: "string \<Rightarrow> quota_disk" where
  "retired_directory h = \<lparr>qd_states = (\<lambda>_. Absent)(qp_ScopeSHA256 example_quota := Doc (retired_state h)), qd_txn = Absent\<rparr>"

definition revived_state :: operationQuotaState where
  "revived_state = example_claim_state\<lparr>qs_Generation := 2,
     qs_Active := [(example_attempt, \<lparr>ql_Generation = 2, ql_ExpiresAt = 10 * minute + 5 * second\<rparr>)]\<rparr>"

lemma retired_state_valid: "sha256Pattern h \<Longrightarrow> validOperationQuotaState (retired_state h)"
  using example_quota_valid
  by (simp add: validOperationQuotaState_def retired_state_def maxOperationQuotaConcurrent_def quota_lease_ok_def
      validOperationQuotaPolicy_def go_defs)

lemma revived_state_valid: "validOperationQuotaState revived_state" "quota_state_json_ok revived_state"
  using example_claim_state_valid
  by (auto simp: validOperationQuotaState_def revived_state_def example_claim_state_def quota_state_json_ok_def
      quota_lease_ok_def maxOperationQuotaConcurrent_def)

lemma revived_next:
  "nextOperationQuotaClaim (Some (retired_state h)) example_quota example_attempt (10 * minute) (5 * second) =
    Inr (revived_state, example_quota_claim\<lparr>qc_Generation := 2\<rparr>)"
  by (simp add: nextOperationQuotaClaim_def quota_claim_base_def Let_def operationQuotaActive_def retired_state_def
      revived_state_def example_claim_state_def example_quota_claim_def)
     (simp add: example_quota_def time_Truncate_def time_Sub_def go_defs)

lemma example_policy_change:
  assumes "sha256Pattern h"
  shows "fst (acquireManyWithClockContext quiet_env [example_quota] example_attempt (5 * second) (10 * minute)
    (retired_directory h) [Io_ok, Io_ok, Io_ok]) = Inr [example_quota_claim\<lparr>qc_Generation := 2\<rparr>]"
proof -
  have "readOperationQuotaState (retired_directory h) (qp_ScopeSHA256 example_quota) = Inr (Some (retired_state h))"
    "qd_txn (retired_directory h) = Absent"
    using retired_state_valid [OF assms] by (simp_all add: readOperationQuotaState_def retired_directory_def)
  then show ?thesis
    using acquire_one [OF example_quota_valid _ _ revived_next revived_state_valid] by (simp add: revived_state_def)
qed

theorem quota_policy_changes_drained_witness:
  "\<exists>h. h \<noteq> operationQuotaPolicyDigest example_quota \<and> qs_UpdatedAt (retired_state h) \<le> 10 * minute \<and>
     list_all (\<lambda>(attempt, l). ql_ExpiresAt l \<le> 10 * minute) (qs_Active (retired_state h))"
proof -
  have hex: "sha256Pattern (replicate 64 (CHR ''e''))" "sha256Pattern (replicate 64 (CHR ''f''))"
    by (simp_all add: sha256Pattern_def hex_string_def is_lower_hex_def list_all_iff)
  have "replicate 64 (CHR ''e'') \<noteq> replicate 64 (CHR ''f'')" by simp
  then obtain h where h: "sha256Pattern h" "h \<noteq> operationQuotaPolicyDigest example_quota" using hex by metis
  let ?run = "acquireManyWithClockContext quiet_env [example_quota] example_attempt (5 * second) (10 * minute)
    (retired_directory h) [Io_ok, Io_ok, Io_ok]"
  have r: "?run = (Inr [example_quota_claim\<lparr>qc_Generation := 2\<rparr>], fst (snd ?run), snd (snd ?run))"
    using example_policy_change [OF h(1)] by (metis prod.collapse)
  have st: "settled_states (retired_directory h) (qp_ScopeSHA256 example_quota) = Doc (retired_state h)"
    by (simp add: settled_states_plain retired_directory_def)
  have "qs_PolicySHA256 (retired_state h) \<noteq> operationQuotaPolicyDigest example_quota"
    using h(2) by (simp add: retired_state_def)
  from quota_policy_changes_drained [OF r _ st this] h(2) show ?thesis by auto
qed

lemma example_transaction_valid:
  "validOperationQuotaTransaction \<lparr>qt_SchemaVersion = operationQuotaTransactionSchemaVersion, qt_Kind = ''reserve'',
     qt_AttemptID = example_attempt, qt_States = [example_claim_state]\<rparr>"
  using example_claim_state_valid(1)
  by (simp add: validOperationQuotaTransaction_def maxOperationQuotaScopesPerCall_def)
     (simp add: example_claim_state_def)

theorem quota_sizes_suffice_witness:
  "writeOperationQuotaTransaction \<lparr>qt_SchemaVersion = operationQuotaTransactionSchemaVersion, qt_Kind = ''reserve'',
     qt_AttemptID = example_attempt, qt_States = [example_claim_state]\<rparr> empty_directory [Io_late] =
   (False, empty_directory\<lparr>qd_txn := Doc \<lparr>qt_SchemaVersion = operationQuotaTransactionSchemaVersion, qt_Kind = ''reserve'',
     qt_AttemptID = example_attempt, qt_States = [example_claim_state]\<rparr>\<rparr>, [])"
  using quota_sizes_suffice [OF example_transaction_valid, of empty_directory "[Io_late]"] example_claim_state_valid(2)
  by simp

end
