(* ===== verification/Canary.thy ===== *)
theory Canary
  imports Sha256 Interfaces
begin

text \<open>
  \<^verbatim>\<open>internal/health/receipt.go\<close>, \<^verbatim>\<open>canary.go\<close> and \<^verbatim>\<open>canary_admission.go\<close>: probe receipts, the pinned
  probe catalog, the canary configuration that may be loaded against it, and the admission of
  a receipt to publication.  Files are byte strings; JSON decoders and the JSON Schema engine
  are parameters.
\<close>

section \<open>Receipts\<close>

record Operation =
  ro_OperationKey :: string
  ro_DatasetID :: string
  ro_OperationName :: string
  ro_Provider :: string
  ro_EndpointHost :: string
  ro_EndpointPath :: string
  ro_DependencyClass :: string

record Registry =
  rr_DatasetID :: string
  rr_DatasetRevision :: string
  rr_RegistrySHA256 :: string
  rr_ManifestSHA256 :: string

record Policy =
  po_Key :: string
  po_Version :: int
  po_Authority :: string
  po_MaxLevel :: string

record Execution =
  rx_CLIVersion :: string
  rx_Attempted :: bool
  rx_TimeoutMS :: int
  rx_RequestBudget :: int
  rx_SafeParameterNames :: "string list"

record Observation =
  ob_MaxLevel :: string
  ob_LatencyMS :: int
  ob_HTTPStatus :: int
  ob_ProviderCode :: string
  ob_ProviderMessageClass :: string
  ob_SemanticStatus :: string
  ob_BodyShape :: string
  ob_DataPresence :: string
  ob_SchemaStatus :: string
  ob_FreshnessStatus :: string

record Assessment =
  as_Outcome :: string
  as_Category :: string
  as_Retryable :: bool
  as_ReasonCode :: string
  as_NextActions :: "string list"

record Redaction =
  rd_CredentialsRemoved :: bool
  rd_QueryValuesRemoved :: bool
  rd_ResponseRowsRemoved :: bool

record Receipt =
  r_SchemaVersion :: string
  r_ProbeID :: string
  r_ObservedAt :: time
  r_Operation :: Operation
  r_Registry :: Registry
  r_Policy :: "Policy option"
  r_Execution :: Execution
  r_Observation :: Observation
  r_Assessment :: Assessment
  r_Redaction :: Redaction

definition SchemaVersion :: string where "SchemaVersion = ''datapan.health-probe.v1''"

definition validOutcome :: "string \<Rightarrow> bool" where
  "validOutcome v \<longleftrightarrow> v = ''healthy'' \<or> v = ''unhealthy'' \<or> v = ''skipped'' \<or> v = ''indeterminate''"

definition validCategory :: "string \<Rightarrow> bool" where
  "validCategory v \<longleftrightarrow> v \<in> set [''healthy'', ''transport_failure'', ''timeout'', ''rate_limited'',
     ''credential_missing'', ''credential_rejected'', ''parameter_blocked'', ''provider_failure'',
     ''semantic_failure'', ''schema_drift'', ''unsupported'', ''skipped'', ''indeterminate'']"

definition Receipt_Validate :: "Receipt \<Rightarrow> string option" where
  "Receipt_Validate r =
     (if r_SchemaVersion r \<noteq> SchemaVersion \<or> \<not> uuidPattern (r_ProbeID r) \<or> IsZero (r_ObservedAt r)
      then Some ''receipt identity is invalid''
      else if \<not> sha256Pattern (ro_OperationKey (r_Operation r)) \<or> ro_DatasetID (r_Operation r) = '''' \<or>
          ro_OperationName (r_Operation r) = '''' \<or> ro_Provider (r_Operation r) = '''' \<or>
          ro_DependencyClass (r_Operation r) = ''''
      then Some ''receipt operation is invalid''
      else if rr_DatasetID (r_Registry r) = '''' \<or> \<not> sha256Pattern (rr_RegistrySHA256 (r_Registry r)) \<or>
          rx_CLIVersion (r_Execution r) = '''' \<or> rx_TimeoutMS (r_Execution r) < 1 \<or>
          rx_RequestBudget (r_Execution r) < 0 \<or> ob_LatencyMS (r_Observation r) < 0
      then Some ''receipt execution or provenance is invalid''
      else if \<not> validOutcome (as_Outcome (r_Assessment r)) \<or> \<not> validCategory (as_Category (r_Assessment r)) \<or>
          as_ReasonCode (r_Assessment r) = ''''
      then Some ''receipt assessment is invalid''
      else if \<not> rd_CredentialsRemoved (r_Redaction r) \<or> \<not> rd_QueryValuesRemoved (r_Redaction r) \<or>
          \<not> rd_ResponseRowsRemoved (r_Redaction r)
      then Some ''receipt redaction assertions are required''
      else None)"

text \<open>\<^verbatim>\<open>ReadReceipt\<close>: no file or an unreadable one is \<open>None\<close>; \<open>schema_ok\<close> is the schema engine on the
  bytes, \<open>decode\<close> the strict decoder with \<^verbatim>\<open>ensureEOF\<close>.\<close>

definition DecodeReceipt ::
  "(string \<Rightarrow> bool) \<Rightarrow> (string \<Rightarrow> Receipt option) \<Rightarrow> string option \<Rightarrow> string + Receipt" where
  "DecodeReceipt schema_ok decode raw =
     (case raw of
        None \<Rightarrow> Inl ''read error''
      | Some bytes \<Rightarrow>
          (if length bytes > 64 * 1024 then Inl ''receipt exceeds 64 KiB''
           else if \<not> schema_ok bytes then Inl ''schema''
           else case decode bytes of
             None \<Rightarrow> Inl ''invalid health receipt''
           | Some receipt \<Rightarrow>
               (case Receipt_Validate receipt of Some e \<Rightarrow> Inl e | None \<Rightarrow> Inr receipt)))"

section \<open>The catalog\<close>

record CatalogEntry =
  ce_OperationID :: string
  ce_Policy :: Policy
  ce_Aliases_DatasetID :: string
  ce_Aliases_OperationName :: string
  ce_Aliases_UpstreamOperationSeq :: string
  ce_Aliases_CLIOperationKey :: string
  ce_Provider :: string
  ce_Endpoint_Host :: string
  ce_Endpoint_Path :: string
  ce_Endpoint_DependencyClass :: string
  ce_Eligibility_Status :: string
  ce_TimeoutCeilingMS :: int
  ce_RequestBudget :: int
  ce_SafeParameters :: "string list"

record Catalog =
  ct_SchemaVersion :: string
  ct_Authority :: string
  ct_SourceRegistry_SHA256 :: string
  ct_Contract_Schema :: string
  ct_Contract_OperationKeyAlgorithm :: string
  ct_Contract_PolicyAuthority :: string
  ct_Entries :: "CatalogEntry list"
  ct_byID :: "(string, CatalogEntry) gomap"

definition ByID :: "Catalog \<Rightarrow> string \<Rightarrow> CatalogEntry option" where
  "ByID c operationID = gm_get (ct_byID c) operationID"

definition Probeable :: "CatalogEntry \<Rightarrow> bool" where
  "Probeable e \<longleftrightarrow> ce_Eligibility_Status e = ''eligible'' \<or> ce_Eligibility_Status e = ''credential_required''"

definition catalog_entry_ok :: "CatalogEntry \<Rightarrow> bool" where
  "catalog_entry_ok e \<longleftrightarrow> ce_OperationID e \<noteq> '''' \<and> po_Key (ce_Policy e) = ce_OperationID e \<and>
     po_Version (ce_Policy e) \<ge> 1 \<and> po_Authority (ce_Policy e) = ''datapan-registry'' \<and>
     po_MaxLevel (ce_Policy e) \<noteq> '''' \<and> sha256Pattern (ce_Aliases_CLIOperationKey e) \<and>
     ce_Aliases_DatasetID e \<noteq> '''' \<and> ce_Aliases_OperationName e \<noteq> '''' \<and> ce_Provider e \<noteq> '''' \<and>
     ce_Endpoint_Host e \<noteq> '''' \<and> ce_Endpoint_Path e \<noteq> '''' \<and> ce_Endpoint_DependencyClass e \<noteq> '''' \<and>
     Probeable e \<and> 1000 \<le> ce_TimeoutCeilingMS e \<and> ce_TimeoutCeilingMS e \<le> 30000 \<and>
     ce_RequestBudget e = 1 \<and> ce_SafeParameters e \<noteq> []"

definition repeated_name :: "string list \<Rightarrow> bool" where
  "repeated_name names = (let s = sort names in list_ex (\<lambda>i. s ! i = s ! (i - 1)) [1..<length s])"

fun catalog_entries ::
  "CatalogEntry list \<Rightarrow> (string, CatalogEntry) gomap \<Rightarrow> string + (string, CatalogEntry) gomap" where
  "catalog_entries [] byID = Inr byID"
| "catalog_entries (e # es) byID =
     (if \<not> catalog_entry_ok e then Inl ''invalid catalog entry''
      else if gm_get byID (ce_OperationID e) \<noteq> None then Inl ''duplicate catalog operation''
      else if '''' \<in> set (ce_SafeParameters e) then Inl ''invalid catalog parameter''
      else if repeated_name (ce_SafeParameters e) then Inl ''duplicate catalog parameter''
      else catalog_entries es (gm_put (ce_OperationID e) e byID))"

definition LoadCatalog ::
  "(string \<Rightarrow> Catalog option) \<Rightarrow> string option \<Rightarrow> string \<Rightarrow> string + Catalog" where
  "LoadCatalog decode raw wantSHA256 =
     (case raw of
        None \<Rightarrow> Inl ''read error''
      | Some bytes \<Rightarrow>
          (if sha256_hex bytes \<noteq> wantSHA256 then Inl ''catalog digest does not match pin''
           else case decode bytes of
             None \<Rightarrow> Inl ''decode error''
           | Some catalog \<Rightarrow>
               (if ct_SchemaVersion catalog \<noteq> ''datapan.health-probe-catalog.v1'' \<or>
                   ct_Authority catalog \<noteq> ''datapan-registry'' \<or>
                   \<not> sha256Pattern (ct_SourceRegistry_SHA256 catalog) \<or>
                   ct_Contract_Schema catalog \<noteq> ''https://schemas.datapan.dev/datapan.health-probe.v1.schema.json'' \<or>
                   ct_Contract_OperationKeyAlgorithm catalog \<noteq> ''datapan-cli-health-operation-key-v1'' \<or>
                   ct_Contract_PolicyAuthority catalog \<noteq> ''datapan-registry''
                then Inl ''unsupported catalog contract''
                else case catalog_entries (ct_Entries catalog) [] of
                  Inl e \<Rightarrow> Inl e
                | Inr byID \<Rightarrow> Inr (catalog\<lparr>ct_byID := byID\<rparr>))))"

section \<open>The canary configuration\<close>

record ConsumptionProvenance =
  cp_RegistryDatasetRevision :: string
  cp_SourceRegistrySHA256 :: string
  cp_ReleaseTag :: string
  cp_ReleaseManifestSHA256 :: string

record Canary =
  ca_OperationID :: string
  ca_GatusEndpointKey :: string
  ca_Tier :: string
  ca_IntervalMinutes :: int
  ca_HeartbeatMinutes :: int
  ca_ConsecutiveFailuresBeforeIncident :: int
  ca_MissedSchedulesBeforeHeartbeat :: int

record CanaryConfig =
  cc_CatalogPath :: string
  cc_CatalogSHA256 :: string
  cc_ConsumptionProvenance :: ConsumptionProvenance
  cc_GlobalConcurrency :: int
  cc_JitterSeconds :: int
  cc_Canaries :: "Canary list"
  cc_catalog :: Catalog

definition acceptedCanaryCatalogSHA256 :: string where
  "acceptedCanaryCatalogSHA256 = ''0503ddd9c93c31781c7920ccccdaf55aa5f3ed7e8061cb7dd16f0d8eb95611d2''"

definition acceptedRegistryDatasetID :: string where
  "acceptedRegistryDatasetID = ''StatPan/datapan-registry''"

definition acceptedCanaryProvenance :: ConsumptionProvenance where
  "acceptedCanaryProvenance =
     \<lparr>cp_RegistryDatasetRevision = ''1715bb67c11f97a601c85b9f2a3c45ff50968224'',
      cp_SourceRegistrySHA256 = ''0520d0db0d9ee07b7cbccce0c08439d0b02be901bf10e8491187d96e59d7a0d0'',
      cp_ReleaseTag = ''1715bb67c11f97a601c85b9f2a3c45ff50968224'',
      cp_ReleaseManifestSHA256 = ''d63b22b378a3af30564fea5f8a39fcd96b2c4b4f76392ec0f7c191652a58d2b5''\<rparr>"

definition gatus_char :: "char \<Rightarrow> bool" where
  "gatus_char c \<longleftrightarrow> (let n = (of_char c :: nat) in (97 \<le> n \<and> n \<le> 122) \<or> (48 \<le> n \<and> n \<le> 57) \<or> n = 45)"

definition gatusKeyPattern :: "string \<Rightarrow> bool" where
  "gatusKeyPattern s \<longleftrightarrow>
     (let a = takeWhile (\<lambda>c. c \<noteq> CHR ''_'') s; b = dropWhile (\<lambda>c. c \<noteq> CHR ''_'') s
      in a \<noteq> [] \<and> list_all gatus_char a \<and> b \<noteq> [] \<and> tl b \<noteq> [] \<and> list_all gatus_char (tl b))"

definition validConsumptionProvenance :: "ConsumptionProvenance \<Rightarrow> bool" where
  "validConsumptionProvenance p \<longleftrightarrow> commitPattern (cp_RegistryDatasetRevision p) \<and>
     sha256Pattern (cp_SourceRegistrySHA256 p) \<and>
     (releaseTagPattern (cp_ReleaseTag p) \<or> cp_ReleaseTag p = cp_RegistryDatasetRevision p) \<and>
     sha256Pattern (cp_ReleaseManifestSHA256 p)"

definition validCadence :: "Canary \<Rightarrow> bool" where
  "validCadence c \<longleftrightarrow> ca_ConsecutiveFailuresBeforeIncident c = 2 \<and> ca_MissedSchedulesBeforeHeartbeat c = 2 \<and>
     ca_HeartbeatMinutes c = ca_IntervalMinutes c * ca_MissedSchedulesBeforeHeartbeat c \<and>
     (if ca_Tier c = ''A'' then ca_IntervalMinutes c = 5
      else if ca_Tier c = ''B'' then ca_IntervalMinutes c = 10
      else if ca_Tier c = ''C'' then ca_IntervalMinutes c = 15
      else False)"

fun canaries_ok :: "int \<Rightarrow> Catalog \<Rightarrow> string list \<Rightarrow> Canary list \<Rightarrow> bool" where
  "canaries_ok jitter catalog seen [] \<longleftrightarrow> True"
| "canaries_ok jitter catalog seen (c # cs) \<longleftrightarrow>
     catalogOperationIDPattern (ca_OperationID c) \<and> gatusKeyPattern (ca_GatusEndpointKey c) \<and> validCadence c \<and>
     ca_OperationID c \<notin> set seen \<and> \<not> jitter \<ge> ca_IntervalMinutes c * 60 \<and>
     (case ByID catalog (ca_OperationID c) of None \<Rightarrow> False | Some e \<Rightarrow> Probeable e) \<and>
     canaries_ok jitter catalog (ca_OperationID c # seen) cs"

text \<open>\<open>files\<close> reads a path; \<open>resolve\<close> is the catalog's path relative to the configuration's.\<close>

definition LoadCanaryConfig ::
  "(string \<Rightarrow> CanaryConfig option) \<Rightarrow> (string \<Rightarrow> Catalog option) \<Rightarrow> (string \<Rightarrow> string option)
    \<Rightarrow> (string \<Rightarrow> string \<Rightarrow> string) \<Rightarrow> string \<Rightarrow> string + CanaryConfig" where
  "LoadCanaryConfig decode decode_catalog files resolve path =
     (case files path of
        None \<Rightarrow> Inl ''read error''
      | Some bytes \<Rightarrow>
          (case decode bytes of
             None \<Rightarrow> Inl ''invalid canary configuration''
           | Some config \<Rightarrow>
               (if cc_GlobalConcurrency config < 1 \<or> cc_GlobalConcurrency config > 32 \<or> cc_JitterSeconds config < 0 \<or>
                   \<not> sha256Pattern (cc_CatalogSHA256 config) \<or> cc_CatalogPath config = '''' \<or>
                   \<not> validConsumptionProvenance (cc_ConsumptionProvenance config)
                then Inl ''invalid canary configuration''
                else
                  let catalogPath = (if hd (cc_CatalogPath config) = CHR ''/'' then cc_CatalogPath config
                                     else resolve path (cc_CatalogPath config))
                  in case LoadCatalog decode_catalog (files catalogPath) (cc_CatalogSHA256 config) of
                       Inl e \<Rightarrow> Inl ''invalid canary configuration''
                     | Inr catalog \<Rightarrow>
                         (if cc_CatalogSHA256 config \<noteq> acceptedCanaryCatalogSHA256 \<or>
                             cc_ConsumptionProvenance config \<noteq> acceptedCanaryProvenance \<or>
                             cp_SourceRegistrySHA256 (cc_ConsumptionProvenance config) \<noteq> ct_SourceRegistry_SHA256 catalog
                          then Inl ''invalid canary configuration''
                          else if \<not> canaries_ok (cc_JitterSeconds config) catalog [] (cc_Canaries config) \<or>
                             cc_Canaries config = []
                          then Inl ''invalid canary configuration''
                          else Inr (config\<lparr>cc_CatalogPath := catalogPath, cc_catalog := catalog\<rparr>)))))"

definition CanaryFor :: "CanaryConfig \<Rightarrow> Receipt \<Rightarrow> Canary option" where
  "CanaryFor c receipt =
     find (\<lambda>canary. case ByID (cc_catalog c) (ca_OperationID canary) of
        None \<Rightarrow> False
      | Some entry \<Rightarrow> ce_Aliases_CLIOperationKey entry = ro_OperationKey (r_Operation receipt)) (cc_Canaries c)"

definition Resolve :: "CanaryConfig \<Rightarrow> Receipt \<Rightarrow> string option" where
  "Resolve c receipt = map_option ca_GatusEndpointKey (CanaryFor c receipt)"

definition Entry :: "CanaryConfig \<Rightarrow> Canary \<Rightarrow> CatalogEntry option" where
  "Entry c canary = ByID (cc_catalog c) (ca_OperationID canary)"

section \<open>Admission\<close>

definition receiptMaxAge :: duration where "receiptMaxAge = minute"
definition receiptClockSkew :: duration where "receiptClockSkew = 5 * second"

text \<open>-1 for a level that is none of the six.\<close>

definition probeLevel :: "string \<Rightarrow> int" where
  "probeLevel level =
     (if level = ''L0'' then 0 else if level = ''L1'' then 1 else if level = ''L2'' then 2
      else if level = ''L3'' then 3 else if level = ''L4'' then 4 else if level = ''L5'' then 5 else - 1)"

text \<open>\<^verbatim>\<open>scheduler.go\<close>; true where the source returns no error.\<close>

definition validateCatalogReceipt :: "Receipt \<Rightarrow> CatalogEntry \<Rightarrow> bool" where
  "validateCatalogReceipt r e \<longleftrightarrow>
     ro_OperationKey (r_Operation r) = ce_Aliases_CLIOperationKey e \<and>
     ro_DatasetID (r_Operation r) = ce_Aliases_DatasetID e \<and>
     ro_OperationName (r_Operation r) = ce_Aliases_OperationName e \<and>
     ro_DependencyClass (r_Operation r) = ce_Endpoint_DependencyClass e \<and>
     rx_RequestBudget (r_Execution r) \<le> ce_RequestBudget e \<and>
     rx_TimeoutMS (r_Execution r) \<le> ce_TimeoutCeilingMS e \<and>
     sort (ce_SafeParameters e) = sort (rx_SafeParameterNames (r_Execution r))"

text \<open>\<open>Inl reason\<close> is \<^verbatim>\<open>AdmissionError(reason)\<close>.\<close>

definition AdmitReceipt :: "CanaryConfig \<Rightarrow> Receipt \<Rightarrow> time \<Rightarrow> time \<Rightarrow> string + string" where
  "AdmitReceipt c r now started =
     (if cc_CatalogSHA256 c \<noteq> acceptedCanaryCatalogSHA256 \<or> cc_ConsumptionProvenance c \<noteq> acceptedCanaryProvenance
      then Inl ''release_binding''
      else case CanaryFor c r of
        None \<Rightarrow> Inl ''operation_identity''
      | Some canary \<Rightarrow>
          (case Entry c canary of
             None \<Rightarrow> Inl ''catalog_identity''
           | Some entry \<Rightarrow>
               (if \<not> validateCatalogReceipt r entry \<or> ro_Provider (r_Operation r) \<noteq> ce_Provider entry \<or>
                   ro_EndpointHost (r_Operation r) \<noteq> ce_Endpoint_Host entry \<or>
                   ro_EndpointPath (r_Operation r) \<noteq> ce_Endpoint_Path entry
                then Inl ''catalog_identity''
                else if rr_DatasetID (r_Registry r) \<noteq> acceptedRegistryDatasetID \<or>
                   rr_DatasetRevision (r_Registry r) \<noteq> cp_RegistryDatasetRevision (cc_ConsumptionProvenance c) \<or>
                   rr_RegistrySHA256 (r_Registry r) \<noteq> cp_SourceRegistrySHA256 (cc_ConsumptionProvenance c) \<or>
                   rr_ManifestSHA256 (r_Registry r) \<noteq> cp_ReleaseManifestSHA256 (cc_ConsumptionProvenance c)
                then Inl ''registry_identity''
                else if r_Policy r \<noteq> Some (ce_Policy entry)
                then Inl ''policy_identity''
                else if probeLevel (ob_MaxLevel (r_Observation r)) < 0 \<or> probeLevel (po_MaxLevel (ce_Policy entry)) < 0 \<or>
                   probeLevel (ob_MaxLevel (r_Observation r)) > probeLevel (po_MaxLevel (ce_Policy entry))
                then Inl ''policy_ceiling''
                else if IsZero now \<or> IsZero (r_ObservedAt r) \<or> r_ObservedAt r > now + receiptClockSkew
                then Inl ''future_observation''
                else if r_ObservedAt r < now - receiptMaxAge \<or>
                   (\<not> IsZero started \<and> r_ObservedAt r < started - receiptClockSkew)
                then Inl ''stale_observation''
                else if Receipt_Validate r \<noteq> None then Inl ''receipt_contract''
                else Inr (ca_GatusEndpointKey canary))))"

definition AdmitScheduledReceipt ::
  "CanaryConfig \<Rightarrow> Receipt \<Rightarrow> Canary \<Rightarrow> time \<Rightarrow> time \<Rightarrow> string + string" where
  "AdmitScheduledReceipt c r expected now started =
     (case CanaryFor c r of
        None \<Rightarrow> Inl ''scheduled_identity''
      | Some actual \<Rightarrow>
          (if ca_OperationID actual \<noteq> ca_OperationID expected \<or>
              ca_GatusEndpointKey actual \<noteq> ca_GatusEndpointKey expected
           then Inl ''scheduled_identity''
           else AdmitReceipt c r now started))"

end
