(* ===== verification/Operation_Manifest.thy ===== *)
theory Operation_Manifest
  imports Sha256 Encoding
begin

text \<open>
  \<^verbatim>\<open>internal/health/operation_manifest.go\<close>: the pinned Registry operation manifest, the
  Health-owned receipt that pins it, and the checks that bind one to the other.  A file is
  its bytes; the JSON decoders are parameters of the loading functions, and
  \<^verbatim>\<open>url.ParseRequestURI\<close> is the parameter \<open>uri_ok\<close>.
\<close>

section \<open>Data\<close>

record file_pin =
  fp_Path :: string
  fp_Bytes :: int
  fp_SHA256 :: string

record OperationManifestReceipt =
  omr_SchemaVersion :: string
  omr_Revision :: string
  omr_AcquiredAt :: time
  omr_AcquisitionMethod :: string
  omr_ManifestSchemaVersion :: string
  omr_Manifest :: file_pin
  omr_ReleaseManifest :: file_pin
  omr_SchemaPath :: string
  omr_SchemaSHA256 :: string
  omr_SourceSnapshot :: file_pin
  omr_OperationStatusSubjects :: int
  omr_Protocols :: "(string, int) gomap"
  omr_APIMetadataCount :: int
  omr_Exclusions :: "(string, int) gomap"
  omr_CanaryCount :: int
  omr_CanaryRole :: string
  omr_CanariesIncluded :: bool

record ManifestOperation =
  mo_OperationID :: string
  mo_Protocol :: string
  mo_Provider :: string
  mo_DatasetID :: string
  mo_OperationName :: string
  mo_SourceSystem :: string
  mo_UpstreamOperationKey :: string
  mo_SourceURL :: string
  mo_Endpoint :: "string option"
  mo_Method :: "string option"
  mo_Action :: "string option"
  mo_MethodEvidence :: string
  mo_EligibilityStatus :: string

record OperationManifest =
  om_SchemaVersion :: string
  om_Authority :: string
  om_SourceSnapshot :: file_pin
  om_Algorithm :: string
  om_Fields :: "string list"
  om_APIOperations :: int
  om_SummaryProtocols :: "(string, int) gomap"
  om_SummaryEligibility :: "(string, int) gomap"
  om_SummaryExclusions :: "(string, int) gomap"
  om_IdentityCollisions :: int
  om_IdentityOmissions :: int
  om_Operations :: "ManifestOperation list"

record ReleaseArtifact =
  ra_Path :: string
  ra_Kind :: string
  ra_Schema :: string
  ra_Bytes :: int
  ra_SHA256 :: string

record RegistryReleaseManifest =
  rm_SchemaVersion :: string
  rm_Artifacts :: "ReleaseArtifact list"

record OperationManifestVerification =
  omv_SchemaVersion :: string
  omv_Revision :: string
  omv_ManifestSHA256 :: string
  omv_Integrity :: string
  omv_OperationStatusSubjects :: int
  omv_Protocols :: "(string, int) gomap"
  omv_APIMetadataCount :: int
  omv_CanaryCount :: int
  omv_CanariesIncluded :: bool

definition operationIdentityFields :: "string list" where
  "operationIdentityFields =
     [''provider'', ''dataset_id'', ''protocol'', ''source_system'', ''upstream_operation_key'',
      ''endpoint'', ''method_or_action'', ''operation_name'']"

section \<open>Counts\<close>

text \<open>A missing key of a Go map of integers reads 0.\<close>

definition gm_int :: "(string, int) gomap \<Rightarrow> string \<Rightarrow> int" where
  "gm_int m k = (case gm_get m k of None \<Rightarrow> 0 | Some v \<Rightarrow> v)"

definition gm_inc :: "string \<Rightarrow> (string, int) gomap \<Rightarrow> (string, int) gomap" where
  "gm_inc k m = gm_put k (gm_int m k + 1) m"

definition max_int :: int where "max_int = 2 ^ 63 - 1"

definition countsEqualPositiveTotal :: "int \<Rightarrow> int \<Rightarrow> int \<Rightarrow> bool" where
  "countsEqualPositiveTotal left right n =
     (if left < 0 \<or> right < 0 \<or> n \<le> 0 then False
      else if left > max_int - right then False
      else left + right = n)"

definition hasExactNonNegativeCounts :: "(string, int) gomap \<Rightarrow> string list \<Rightarrow> bool" where
  "hasExactNonNegativeCounts counts expectedKeys \<longleftrightarrow>
     length counts = length expectedKeys \<and>
     list_all (\<lambda>key. case gm_get counts key of None \<Rightarrow> False | Some value \<Rightarrow> \<not> value < 0) expectedKeys"

definition validProtocolCounts :: "(string, int) gomap \<Rightarrow> int \<Rightarrow> bool" where
  "validProtocolCounts protocols operationStatusSubjects =
     (if \<not> hasExactNonNegativeCounts protocols [''REST'', ''SOAP''] \<or> operationStatusSubjects \<le> 0
      then False
      else countsEqualPositiveTotal (gm_int protocols ''REST'') (gm_int protocols ''SOAP'')
             operationStatusSubjects)"

definition sourceExclusions :: "(string, int) gomap \<Rightarrow> (string, int) gomap" where
  "sourceExclusions ex =
     [(''link_operations'', gm_int ex ''link_operations''),
      (''operationless_catalog_entries'', gm_int ex ''operationless_catalog_entries''),
      (''filedata_catalog_entries'', gm_int ex ''filedata_catalog_entries'')]"

definition expectedEligibilityCounts :: "(string, int) gomap \<Rightarrow> (string, int) gomap" where
  "expectedEligibilityCounts ex =
     [(''approval_required'', gm_int ex ''required_parameter_approval''),
      (''excluded'', gm_int ex ''endpoint_missing'')]"

definition sameCounts :: "(string, int) gomap \<Rightarrow> (string, int) gomap \<Rightarrow> bool" where
  "sameCounts got want \<longleftrightarrow>
     length got = length want \<and>
     list_all (\<lambda>(key, expected). gm_get got key = Some expected) want"

definition sameStrings :: "string list \<Rightarrow> string list \<Rightarrow> bool" where
  "sameStrings got want = (if length got \<noteq> length want then False else got = want)"

definition copyCounts :: "(string, int) gomap \<Rightarrow> (string, int) gomap" where
  "copyCounts counts = gm_copy counts"

definition lengthPrefixedSHA256 :: "string list \<Rightarrow> string" where
  "lengthPrefixedSHA256 fs = sha256_hex (lp_encode fs)"

section \<open>Operations\<close>

definition StatusSubject :: "ManifestOperation \<Rightarrow> string" where
  "StatusSubject operation = mo_OperationID operation"

text \<open>The method of a REST operation, the action of a SOAP one, or the error of the switch.\<close>

definition methodOrAction :: "ManifestOperation \<Rightarrow> string + string" where
  "methodOrAction op =
     (if mo_Protocol op = ''REST'' then
        (if mo_Method op \<noteq> Some ''GET'' \<or> mo_Action op \<noteq> None \<or>
            mo_MethodEvidence op \<noteq> ''registry_default_get''
         then Inl ''REST operation identity is invalid''
         else Inr ''GET'')
      else if mo_Protocol op = ''SOAP'' then
        (case (mo_Method op, mo_Action op) of
           (None, Some action) \<Rightarrow>
             (if action = [] \<or> mo_MethodEvidence op \<noteq> ''soap_action''
              then Inl ''SOAP operation identity is invalid''
              else Inr action)
         | _ \<Rightarrow> Inl ''SOAP operation identity is invalid'')
      else Inl ''operation protocol is invalid'')"

definition identityFields :: "ManifestOperation \<Rightarrow> string \<Rightarrow> string list" where
  "identityFields op moa =
     [mo_Provider op, mo_DatasetID op, mo_Protocol op, mo_SourceSystem op,
      mo_UpstreamOperationKey op, (case mo_Endpoint op of None \<Rightarrow> '''' | Some e \<Rightarrow> e), moa,
      mo_OperationName op]"

text \<open>An error result is \<open>Some message\<close>; \<open>None\<close> is Go's nil error.\<close>

definition validateIdentity :: "(string \<Rightarrow> bool) \<Rightarrow> ManifestOperation \<Rightarrow> string option" where
  "validateIdentity uri_ok op =
     (if \<not> sha256Pattern (mo_OperationID op) \<or> mo_Provider op \<noteq> ''data.go.kr'' \<or>
         mo_DatasetID op = [] \<or> mo_OperationName op = [] \<or> mo_SourceSystem op = [] \<or>
         mo_UpstreamOperationKey op = [] \<or> mo_SourceURL op = []
      then Some ''operation identity fields are incomplete''
      else if \<not> uri_ok (mo_SourceURL op) then Some ''operation provenance URL is invalid''
      else case methodOrAction op of
        Inl e \<Rightarrow> Some e
      | Inr moa \<Rightarrow>
          (if mo_EligibilityStatus op \<noteq> ''approval_required'' \<and> mo_EligibilityStatus op \<noteq> ''excluded''
           then Some ''operation eligibility is invalid''
           else if lengthPrefixedSHA256 (identityFields op moa) \<noteq> mo_OperationID op
           then Some ''operation identity hash does not match contract''
           else None))"

record manifest_tally =
  mt_seen :: "string list"
  mt_protocols :: "(string, int) gomap"
  mt_eligibility :: "(string, int) gomap"
  mt_datasets :: "string list"

definition tally_start :: manifest_tally where
  "tally_start = \<lparr>mt_seen = [], mt_protocols = [(''REST'', 0), (''SOAP'', 0)],
     mt_eligibility = [(''approval_required'', 0), (''excluded'', 0)], mt_datasets = []\<rparr>"

definition tally_add :: "ManifestOperation \<Rightarrow> manifest_tally \<Rightarrow> manifest_tally" where
  "tally_add op t =
     \<lparr>mt_seen = List.insert (mo_OperationID op) (mt_seen t),
      mt_protocols = gm_inc (mo_Protocol op) (mt_protocols t),
      mt_eligibility = gm_inc (mo_EligibilityStatus op) (mt_eligibility t),
      mt_datasets = List.insert (mo_DatasetID op) (mt_datasets t)\<rparr>"

fun tally_operations ::
  "(string \<Rightarrow> bool) \<Rightarrow> ManifestOperation list \<Rightarrow> manifest_tally \<Rightarrow> manifest_tally option" where
  "tally_operations uri_ok [] t = Some t"
| "tally_operations uri_ok (op # ops) t =
     (if validateIdentity uri_ok op \<noteq> None \<or> mo_OperationID op \<in> set (mt_seen t) then None
      else tally_operations uri_ok ops (tally_add op t))"

definition manifest_Validate ::
  "(string \<Rightarrow> bool) \<Rightarrow> OperationManifest \<Rightarrow> OperationManifestReceipt \<Rightarrow> string option" where
  "manifest_Validate uri_ok m receipt =
     (if om_SchemaVersion m \<noteq> omr_ManifestSchemaVersion receipt \<or> om_Authority m \<noteq> ''datapan-registry'' \<or>
         om_SourceSnapshot m \<noteq> omr_SourceSnapshot receipt \<or>
         om_Algorithm m \<noteq> ''sha256-length-prefixed-utf8-v1'' \<or>
         \<not> sameStrings (om_Fields m) operationIdentityFields
      then Some ''operation manifest contract is unsupported''
      else
        let expectedEligibility = expectedEligibilityCounts (omr_Exclusions receipt) in
        if om_APIOperations m \<noteq> omr_OperationStatusSubjects receipt \<or>
           \<not> sameCounts (om_SummaryProtocols m) (omr_Protocols receipt) \<or>
           \<not> sameCounts (om_SummaryEligibility m) expectedEligibility \<or>
           \<not> sameCounts (om_SummaryExclusions m) (sourceExclusions (omr_Exclusions receipt)) \<or>
           om_IdentityCollisions m \<noteq> 0 \<or> om_IdentityOmissions m \<noteq> 0 \<or>
           int (length (om_Operations m)) \<noteq> omr_OperationStatusSubjects receipt
        then Some ''operation manifest denominator does not match receipt''
        else case tally_operations uri_ok (om_Operations m) tally_start of
          None \<Rightarrow> Some ''operation manifest contains an invalid or duplicate operation subject''
        | Some t \<Rightarrow>
            (if \<not> sameCounts (mt_protocols t) (omr_Protocols receipt) \<or>
                \<not> sameCounts (mt_eligibility t) expectedEligibility \<or>
                int (length (mt_datasets t)) \<noteq> omr_APIMetadataCount receipt
             then Some ''operation manifest derived counts do not match receipt''
             else None))"

section \<open>Receipts and loading\<close>

definition validOperationManifestReceipt :: "OperationManifestReceipt \<Rightarrow> bool" where
  "validOperationManifestReceipt r \<longleftrightarrow>
     omr_SchemaVersion r = ''datapan.health-operation-manifest-receipt.v1'' \<and>
     commitPattern (omr_Revision r) \<and> \<not> IsZero (omr_AcquiredAt r) \<and>
     omr_AcquisitionMethod r = ''git_commit'' \<and>
     omr_ManifestSchemaVersion r = ''datapan.data-go-kr-operation-manifest.v1'' \<and>
     fp_Path (omr_Manifest r) = ''reports/data-go-kr/operation-manifest.json'' \<and>
     fp_Bytes (omr_Manifest r) > 0 \<and> sha256Pattern (fp_SHA256 (omr_Manifest r)) \<and>
     fp_Path (omr_ReleaseManifest r) = ''manifest.json'' \<and>
     fp_Bytes (omr_ReleaseManifest r) > 0 \<and> sha256Pattern (fp_SHA256 (omr_ReleaseManifest r)) \<and>
     omr_SchemaPath r = ''schemas/datapan.data-go-kr-operation-manifest.v1.schema.json'' \<and>
     sha256Pattern (omr_SchemaSHA256 r) \<and>
     fp_Path (omr_SourceSnapshot r) = ''data/data-go-kr.registry.json'' \<and>
     fp_Bytes (omr_SourceSnapshot r) > 0 \<and> sha256Pattern (fp_SHA256 (omr_SourceSnapshot r)) \<and>
     validProtocolCounts (omr_Protocols r) (omr_OperationStatusSubjects r) \<and>
     omr_APIMetadataCount r > 0 \<and> omr_APIMetadataCount r \<le> omr_OperationStatusSubjects r \<and>
     hasExactNonNegativeCounts (omr_Exclusions r)
       [''link_operations'', ''operationless_catalog_entries'', ''filedata_catalog_entries'',
        ''endpoint_missing'', ''required_parameter_approval''] \<and>
     countsEqualPositiveTotal (gm_int (omr_Exclusions r) ''endpoint_missing'')
       (gm_int (omr_Exclusions r) ''required_parameter_approval'') (omr_OperationStatusSubjects r) \<and>
     omr_CanaryCount r > 0 \<and> omr_CanaryRole r = ''separate_observation_input'' \<and>
     \<not> omr_CanariesIncluded r"

text \<open>
  A file read is \<open>None\<close> (an I/O error) or the bytes; a strict JSON decoder returns \<open>None\<close> on
  a syntax error, an unknown field or trailing data.
\<close>

definition LoadOperationManifestReceipt ::
  "(string \<Rightarrow> OperationManifestReceipt option) \<Rightarrow> string option \<Rightarrow> string + OperationManifestReceipt" where
  "LoadOperationManifestReceipt decode raw =
     (case raw of
        None \<Rightarrow> Inl ''read error''
      | Some bytes \<Rightarrow>
          (case decode bytes of
             None \<Rightarrow> Inl ''invalid operation manifest receipt''
           | Some r \<Rightarrow>
               (if validOperationManifestReceipt r then Inr r
                else Inl ''invalid operation manifest receipt'')))"

definition validateReleaseManifest ::
  "(string \<Rightarrow> RegistryReleaseManifest option) \<Rightarrow> string option \<Rightarrow> OperationManifestReceipt
    \<Rightarrow> string option" where
  "validateReleaseManifest decode raw receipt =
     (case raw of
        None \<Rightarrow> Some ''release manifest does not match immutable receipt''
      | Some bytes \<Rightarrow>
          (if int (length bytes) \<noteq> fp_Bytes (omr_ReleaseManifest receipt) \<or>
              sha256_hex bytes \<noteq> fp_SHA256 (omr_ReleaseManifest receipt)
           then Some ''release manifest does not match immutable receipt''
           else case decode bytes of
             None \<Rightarrow> Some ''release manifest contract is unsupported''
           | Some release \<Rightarrow>
               (if rm_SchemaVersion release \<noteq> ''datapan.release-manifest.v1''
                then Some ''release manifest contract is unsupported''
                else if list_ex (\<lambda>a. ra_Path a = fp_Path (omr_Manifest receipt) \<and>
                       ra_Kind a = ''data_go_kr_operation_manifest'' \<and>
                       ra_Schema a = ''https://schemas.datapan.dev/datapan.data-go-kr-operation-manifest.v1.schema.json'' \<and>
                       ra_Bytes a = fp_Bytes (omr_Manifest receipt) \<and>
                       ra_SHA256 a = fp_SHA256 (omr_Manifest receipt)) (rm_Artifacts release)
                then None
                else Some ''release manifest does not bind operation manifest'')))"

record manifest_decoders =
  dec_receipt :: "string \<Rightarrow> OperationManifestReceipt option"
  dec_release :: "string \<Rightarrow> RegistryReleaseManifest option"
  dec_manifest :: "string \<Rightarrow> OperationManifest option"

definition LoadPinnedOperationManifest ::
  "manifest_decoders \<Rightarrow> (string \<Rightarrow> bool) \<Rightarrow> string option \<Rightarrow> string option \<Rightarrow> string option
    \<Rightarrow> string + (OperationManifest \<times> OperationManifestReceipt)" where
  "LoadPinnedOperationManifest dec uri_ok manifestRaw releaseRaw receiptRaw =
     (case LoadOperationManifestReceipt (dec_receipt dec) receiptRaw of
        Inl e \<Rightarrow> Inl e
      | Inr receipt \<Rightarrow>
          (case manifestRaw of
             None \<Rightarrow> Inl ''read error''
           | Some bytes \<Rightarrow>
               (if int (length bytes) \<noteq> fp_Bytes (omr_Manifest receipt) \<or>
                   sha256_hex bytes \<noteq> fp_SHA256 (omr_Manifest receipt)
                then Inl ''operation manifest does not match immutable receipt''
                else case validateReleaseManifest (dec_release dec) releaseRaw receipt of
                  Some e \<Rightarrow> Inl e
                | None \<Rightarrow>
                    (case dec_manifest dec bytes of
                       None \<Rightarrow> Inl ''invalid operation manifest''
                     | Some manifest \<Rightarrow>
                         (case manifest_Validate uri_ok manifest receipt of
                            Some e \<Rightarrow> Inl e
                          | None \<Rightarrow> Inr (manifest, receipt))))))"

definition BuildOperationManifestVerification ::
  "OperationManifest \<Rightarrow> OperationManifestReceipt \<Rightarrow> OperationManifestVerification" where
  "BuildOperationManifestVerification manifest receipt =
     \<lparr>omv_SchemaVersion = ''datapan.health-operation-manifest-verification.v1'',
      omv_Revision = omr_Revision receipt,
      omv_ManifestSHA256 = fp_SHA256 (omr_Manifest receipt),
      omv_Integrity = ''verified'',
      omv_OperationStatusSubjects = int (length (om_Operations manifest)),
      omv_Protocols = copyCounts (om_SummaryProtocols manifest),
      omv_APIMetadataCount = omr_APIMetadataCount receipt,
      omv_CanaryCount = omr_CanaryCount receipt,
      omv_CanariesIncluded = omr_CanariesIncluded receipt\<rparr>"

section \<open>What a validated manifest guarantees\<close>

lemma gm_int_inc: "gm_int (gm_inc k m) j = gm_int m j + (if j = k then 1 else 0)"
  by (simp add: gm_inc_def gm_int_def)

lemma gm_wf_inc: "gm_wf m \<Longrightarrow> gm_wf (gm_inc k m)"
  by (simp add: gm_inc_def)

lemma methodOrAction_protocol:
  "methodOrAction op = Inr moa \<Longrightarrow> mo_Protocol op = ''REST'' \<or> mo_Protocol op = ''SOAP''"
  by (auto simp: methodOrAction_def split: if_splits)

lemma validateIdentity_None:
  assumes "validateIdentity uri_ok op = None"
  shows "sha256Pattern (mo_OperationID op)"
    and "\<exists>moa. methodOrAction op = Inr moa \<and> mo_OperationID op = lengthPrefixedSHA256 (identityFields op moa)"
    and "mo_EligibilityStatus op = ''approval_required'' \<or> mo_EligibilityStatus op = ''excluded''"
  using assms by (auto simp: validateIdentity_def split: if_splits sum.splits)

text \<open>The loop visits every operation once, in order, and counts it under its own labels.\<close>

lemma tally_operations_Some:
  assumes "tally_operations uri_ok ops t = Some u"
  shows "list_all (\<lambda>op. validateIdentity uri_ok op = None) ops"
    and "distinct (List.map mo_OperationID ops)"
    and "set (mt_seen u) = set (mt_seen t) \<union> mo_OperationID ` set ops"
    and "set (List.map mo_OperationID ops) \<inter> set (mt_seen t) = {}"
  using assms
  by (induction uri_ok ops t rule: tally_operations.induct)
     (auto simp: tally_add_def split: if_splits)

lemma tally_operations_protocols:
  "tally_operations uri_ok ops t = Some u \<Longrightarrow>
    gm_int (mt_protocols u) p =
      gm_int (mt_protocols t) p + int (length (filter (\<lambda>op. mo_Protocol op = p) ops))"
  by (induction uri_ok ops t rule: tally_operations.induct)
     (auto simp: tally_add_def gm_int_inc split: if_splits)

lemma tally_operations_datasets:
  "tally_operations uri_ok ops t = Some u \<Longrightarrow> distinct (mt_datasets t) \<Longrightarrow>
    distinct (mt_datasets u) \<and> set (mt_datasets u) = set (mt_datasets t) \<union> mo_DatasetID ` set ops"
  by (induction uri_ok ops t rule: tally_operations.induct)
     (auto simp: tally_add_def split: if_splits)

lemma sameCounts_gm_int:
  "sameCounts got want \<Longrightarrow> gm_wf got \<Longrightarrow> gm_wf want \<Longrightarrow> gm_get want k = Some v \<Longrightarrow> gm_int got k = v"
  by (fastforce simp: sameCounts_def gm_int_def list_all_iff dest: map_of_SomeD)

lemma manifest_Validate_tally:
  assumes "manifest_Validate uri_ok m r = None"
  obtains t where "tally_operations uri_ok (om_Operations m) tally_start = Some t"
    and "sameCounts (mt_protocols t) (omr_Protocols r)"
    and "int (length (mt_datasets t)) = omr_APIMetadataCount r"
    and "int (length (om_Operations m)) = omr_OperationStatusSubjects r"
  using assms by (auto simp: manifest_Validate_def Let_def split: if_splits option.splits)

lemma manifest_Validate_distinct:
  assumes "manifest_Validate uri_ok m r = None"
  shows "distinct (List.map StatusSubject (om_Operations m))"
    and "list_all (\<lambda>op. sha256Pattern (StatusSubject op)) (om_Operations m)"
    and "int (length (om_Operations m)) = omr_OperationStatusSubjects r"
proof -
  obtain t where t: "tally_operations uri_ok (om_Operations m) tally_start = Some t"
    and n: "int (length (om_Operations m)) = omr_OperationStatusSubjects r"
    using assms by (rule manifest_Validate_tally)
  show "int (length (om_Operations m)) = omr_OperationStatusSubjects r" by (fact n)
  have "StatusSubject = mo_OperationID" by (auto simp: StatusSubject_def)
  then show "distinct (List.map StatusSubject (om_Operations m))"
    using tally_operations_Some(2) [OF t] by simp
  show "list_all (\<lambda>op. sha256Pattern (StatusSubject op)) (om_Operations m)"
    using tally_operations_Some(1) [OF t] validateIdentity_None(1)
    by (auto simp: list_all_iff StatusSubject_def)
qed

lemma LoadPinned_Inr:
  assumes "LoadPinnedOperationManifest dec uri_ok mraw rraw raw = Inr (m, r)"
  obtains bytes where "mraw = Some bytes" "sha256_hex bytes = fp_SHA256 (omr_Manifest r)"
    "int (length bytes) = fp_Bytes (omr_Manifest r)" "validOperationManifestReceipt r"
    "manifest_Validate uri_ok m r = None"
    "validateReleaseManifest (dec_release dec) rraw r = None"
proof -
  obtain bytes where b: "mraw = Some bytes"
    using assms by (auto simp: LoadPinnedOperationManifest_def split: sum.splits option.splits)
  have "validOperationManifestReceipt r \<and> sha256_hex bytes = fp_SHA256 (omr_Manifest r) \<and>
    int (length bytes) = fp_Bytes (omr_Manifest r) \<and> manifest_Validate uri_ok m r = None \<and>
    validateReleaseManifest (dec_release dec) rraw r = None"
    using assms b
    by (auto simp: LoadPinnedOperationManifest_def LoadOperationManifestReceipt_def
        split: sum.splits option.splits if_splits)
  with b that show ?thesis by blast
qed

end
