(* ===== verification/Schedule_Coverage.thy ===== *)
theory Schedule_Coverage
  imports Operation_Manifest Interfaces
begin

text \<open>
  \<^verbatim>\<open>internal/health/schedule_coverage.go\<close>: the deterministic queue of one Registry manifest
  over one ten-minute interval, the check that binds a queue to its plan, the ledger that
  hands out leased, fenced claims on queue items, and the coverage receipt counted from it.
  A ledger operation takes the ledger and returns an error (and then the ledger is
  unchanged) or the new ledger; generations are 64-bit words.
\<close>

section \<open>Data\<close>

record ScheduleCoverageRegistry =
  reg_Revision :: string
  reg_ManifestSHA256 :: string

record ScheduleCoverageInterval =
  iv_Start :: time
  iv_DurationSeconds :: int

record ScheduleCoverageScheduler =
  sc_ShardCount :: int
  sc_AssignmentAlgorithm :: string

record ScheduleCoverageShard =
  scs_Index :: int
  scs_QueueSHA256 :: string
  scs_Expected :: int

record ScheduleCoveragePlan =
  pl_SchemaVersion :: string
  pl_Registry :: ScheduleCoverageRegistry
  pl_Interval :: ScheduleCoverageInterval
  pl_Scheduler :: ScheduleCoverageScheduler
  pl_Shards :: "ScheduleCoverageShard list"

record ScheduledOperation =
  so_Subject :: string
  so_Registry :: ScheduleCoverageRegistry
  so_IntervalStart :: time
  so_Shard :: int

record ScheduleClaim =
  cl_Subject :: string
  cl_Registry :: ScheduleCoverageRegistry
  cl_IntervalStart :: time
  cl_Shard :: int
  cl_Generation :: "64 word"
  cl_LeaseExpires :: time

record ScheduleCoverageCounts =
  n_Expected :: int
  n_Assigned :: int
  n_Attempted :: int
  n_Completed :: int
  n_Late :: int
  n_Missing :: int

record ScheduleCoverageShardReceipt =
  sr_Index :: int
  sr_QueueSHA256 :: string
  sr_Counts :: ScheduleCoverageCounts

record ScheduleCoverageReceipt =
  rc_SchemaVersion :: string
  rc_Registry :: ScheduleCoverageRegistry
  rc_Interval :: ScheduleCoverageInterval
  rc_Scheduler :: ScheduleCoverageScheduler
  rc_ObservedAt :: time
  rc_Shards :: "ScheduleCoverageShardReceipt list"
  rc_Aggregate :: ScheduleCoverageCounts

record scheduleEntry =
  se_Operation :: ScheduledOperation
  se_State :: string
  se_Attempted :: bool
  se_Generation :: "64 word"
  se_LeaseExpires :: time
  se_CompletedAt :: time

record ScheduleCoverageLedgerSnapshot =
  sn_Plan :: ScheduleCoveragePlan
  sn_Entries :: "(string, scheduleEntry) gomap"

record ScheduleCoverageLedger =
  lg_plan :: ScheduleCoveragePlan
  lg_entries :: "(string, scheduleEntry) gomap"

datatype schedule_error =
    ScheduleError string
  | ErrScheduleLeaseHeld
  | ErrScheduleFenced
  | ErrScheduleComplete
  | ErrSchedulePlanTransition
  | ErrScheduleAuthorityConflict

definition ScheduleCoverageReceiptSchemaVersion :: string where
  "ScheduleCoverageReceiptSchemaVersion = ''datapan.health-schedule-coverage.v1''"

definition scheduleInterval :: duration where
  "scheduleInterval = 10 * minute"

definition scheduleAssignmentV1 :: string where
  "scheduleAssignmentV1 = ''operation-id-sha256-mod-v1''"

section \<open>Assignment\<close>

definition scheduleShard :: "string \<Rightarrow> int \<Rightarrow> int" where
  "scheduleShard subject shardCount = int (sha256_u64 subject mod nat shardCount)"

definition scheduleQueueDigest :: "int \<Rightarrow> string list \<Rightarrow> string" where
  "scheduleQueueDigest index subjects =
     sha256_hex (scheduleAssignmentV1 @ '':'' @ int_dec index @ '':'' @ lp_encode subjects)"

section \<open>Plans\<close>

definition validSchedulePlan :: "ScheduleCoveragePlan \<Rightarrow> bool" where
  "validSchedulePlan plan \<longleftrightarrow>
     pl_SchemaVersion plan = ScheduleCoverageReceiptSchemaVersion \<and>
     commitPattern (reg_Revision (pl_Registry plan)) \<and>
     sha256Pattern (reg_ManifestSHA256 (pl_Registry plan)) \<and>
     \<not> IsZero (iv_Start (pl_Interval plan)) \<and>
     iv_Start (pl_Interval plan) = time_Truncate (iv_Start (pl_Interval plan)) scheduleInterval \<and>
     iv_DurationSeconds (pl_Interval plan) = scheduleInterval div second \<and>
     1 \<le> sc_ShardCount (pl_Scheduler plan) \<and> sc_ShardCount (pl_Scheduler plan) \<le> 4096 \<and>
     sc_AssignmentAlgorithm (pl_Scheduler plan) = scheduleAssignmentV1 \<and>
     int (length (pl_Shards plan)) = sc_ShardCount (pl_Scheduler plan) \<and>
     list_all (\<lambda>(index, shard). scs_Index shard = int index \<and> 0 \<le> scs_Expected shard \<and>
                 sha256Pattern (scs_QueueSHA256 shard))
       (List.enumerate 0 (pl_Shards plan))"

text \<open>The guard of the loop over the queue, for one item.\<close>

definition queue_item_ok :: "ScheduleCoveragePlan \<Rightarrow> nat \<Rightarrow> ScheduledOperation \<Rightarrow> bool" where
  "queue_item_ok plan n item \<longleftrightarrow>
     so_Subject item \<noteq> [] \<and> so_Registry item = pl_Registry plan \<and>
     so_IntervalStart item = iv_Start (pl_Interval plan) \<and>
     0 \<le> so_Shard item \<and> so_Shard item < int n \<and>
     so_Shard item = scheduleShard (so_Subject item) (int n)"

fun verify_items ::
  "ScheduleCoveragePlan \<Rightarrow> ScheduledOperation list \<Rightarrow> string list \<Rightarrow> string list list
    \<Rightarrow> string list list option" where
  "verify_items plan [] seen byShard = Some byShard"
| "verify_items plan (item # items) seen byShard =
     (if so_Subject item \<in> set seen \<or> \<not> queue_item_ok plan (length byShard) item then None
      else verify_items plan items (so_Subject item # seen)
             (byShard[nat (so_Shard item) := byShard ! nat (so_Shard item) @ [so_Subject item]]))"

definition verify_shards :: "ScheduleCoveragePlan \<Rightarrow> string list list \<Rightarrow> bool" where
  "verify_shards plan byShard \<longleftrightarrow>
     list_all (\<lambda>(index, subjects).
         let subjects' = sort subjects; shard = pl_Shards plan ! index
         in scs_Index shard = int index \<and> scs_Expected shard = int (length subjects') \<and>
            scs_QueueSHA256 shard = scheduleQueueDigest (int index) subjects')
       (List.enumerate 0 byShard)"

definition VerifyScheduleCoveragePlan ::
  "ScheduleCoveragePlan \<Rightarrow> ScheduledOperation list \<Rightarrow> schedule_error option" where
  "VerifyScheduleCoveragePlan plan queue =
     (if \<not> validSchedulePlan plan \<or> queue = []
      then Some (ScheduleError ''schedule coverage plan is invalid'')
      else case verify_items plan queue [] (replicate (nat (sc_ShardCount (pl_Scheduler plan))) []) of
        None \<Rightarrow> Some (ScheduleError ''schedule coverage queue is invalid'')
      | Some byShard \<Rightarrow>
          (if verify_shards plan byShard then None
           else Some (ScheduleError ''schedule coverage queue does not match plan'')))"

fun build_queue ::
  "ScheduleCoverageRegistry \<Rightarrow> time \<Rightarrow> int \<Rightarrow> ManifestOperation list \<Rightarrow> string list
    \<Rightarrow> string list list \<Rightarrow> ScheduledOperation list
    \<Rightarrow> (string list list \<times> ScheduledOperation list) option" where
  "build_queue reg start n [] seen byShard queue = Some (byShard, queue)"
| "build_queue reg start n (op # ops) seen byShard queue =
     (let subject = StatusSubject op in
      if subject = [] \<or> subject \<in> set seen then None
      else
        let shard = scheduleShard subject n in
        build_queue reg start n ops (subject # seen)
          (byShard[nat shard := byShard ! nat shard @ [subject]])
          (queue @ [\<lparr>so_Subject = subject, so_Registry = reg, so_IntervalStart = start,
                     so_Shard = shard\<rparr>]))"

definition shards_of :: "string list list \<Rightarrow> ScheduleCoverageShard list" where
  "shards_of byShard =
     List.map (\<lambda>(index, subjects).
         \<lparr>scs_Index = int index, scs_QueueSHA256 = scheduleQueueDigest (int index) (sort subjects),
          scs_Expected = int (length (sort subjects))\<rparr>)
       (List.enumerate 0 byShard)"

definition BuildScheduleCoveragePlan ::
  "(string \<Rightarrow> bool) \<Rightarrow> OperationManifest \<Rightarrow> OperationManifestReceipt \<Rightarrow> time \<Rightarrow> int
    \<Rightarrow> schedule_error + (ScheduleCoveragePlan \<times> ScheduledOperation list)" where
  "BuildScheduleCoveragePlan uri_ok manifest receipt at shardCount =
     (if manifest_Validate uri_ok manifest receipt \<noteq> None \<or> shardCount < 1 \<or> shardCount > 4096 \<or> IsZero at
      then Inl (ScheduleError ''schedule coverage input is invalid'')
      else
        let start = time_Truncate at scheduleInterval;
            registry = \<lparr>reg_Revision = omr_Revision receipt,
                        reg_ManifestSHA256 = fp_SHA256 (omr_Manifest receipt)\<rparr>
        in case build_queue registry start shardCount (om_Operations manifest) []
                  (replicate (nat shardCount) []) [] of
             None \<Rightarrow> Inl (ScheduleError ''schedule coverage identities are invalid'')
           | Some (byShard, queue) \<Rightarrow>
               (if int (length queue) \<noteq> omr_OperationStatusSubjects receipt
                then Inl (ScheduleError ''schedule coverage denominator does not match'')
                else
                  let queue' = sort_key so_Subject queue;
                      plan = \<lparr>pl_SchemaVersion = ScheduleCoverageReceiptSchemaVersion,
                              pl_Registry = registry,
                              pl_Interval = \<lparr>iv_Start = start,
                                iv_DurationSeconds = scheduleInterval div second\<rparr>,
                              pl_Scheduler = \<lparr>sc_ShardCount = shardCount,
                                sc_AssignmentAlgorithm = scheduleAssignmentV1\<rparr>,
                              pl_Shards = shards_of byShard\<rparr>
                  in case VerifyScheduleCoveragePlan plan queue' of
                       Some e \<Rightarrow> Inl e
                     | None \<Rightarrow> Inr (plan, queue')))"

section \<open>The ledger\<close>

definition queued_entry :: "ScheduledOperation \<Rightarrow> scheduleEntry" where
  "queued_entry item = \<lparr>se_Operation = item, se_State = ''queued'', se_Attempted = False,
     se_Generation = 0, se_LeaseExpires = time_zero, se_CompletedAt = time_zero\<rparr>"

definition NewScheduleCoverageLedger ::
  "ScheduleCoveragePlan \<Rightarrow> ScheduledOperation list \<Rightarrow> schedule_error + ScheduleCoverageLedger" where
  "NewScheduleCoverageLedger plan queue =
     (case VerifyScheduleCoveragePlan plan queue of
        Some e \<Rightarrow> Inl e
      | None \<Rightarrow> Inr \<lparr>lg_plan = plan,
          lg_entries = foldl (\<lambda>acc item. gm_put (so_Subject item) (queued_entry item) acc) [] queue\<rparr>)"

definition snapshot_entry_ok :: "string \<times> scheduleEntry \<Rightarrow> bool" where
  "snapshot_entry_ok = (\<lambda>(subject, entry).
     subject = so_Subject (se_Operation entry) \<and>
     (se_State entry = ''queued'' \<or> se_State entry = ''claimed'' \<or> se_State entry = ''completed''))"

definition RestoreScheduleCoverageLedger ::
  "ScheduleCoverageLedgerSnapshot \<Rightarrow> schedule_error + ScheduleCoverageLedger" where
  "RestoreScheduleCoverageLedger snapshot =
     (if \<not> list_all snapshot_entry_ok (sn_Entries snapshot)
      then Inl (ScheduleError ''schedule coverage snapshot is invalid'')
      else if VerifyScheduleCoveragePlan (sn_Plan snapshot)
                (List.map (\<lambda>(subject, entry). se_Operation entry) (sn_Entries snapshot)) \<noteq> None
      then Inl (ScheduleError ''schedule coverage snapshot is invalid'')
      else Inr \<lparr>lg_plan = sn_Plan snapshot, lg_entries = gm_copy (sn_Entries snapshot)\<rparr>)"

definition Snapshot :: "ScheduleCoverageLedger \<Rightarrow> ScheduleCoverageLedgerSnapshot" where
  "Snapshot l = \<lparr>sn_Plan = lg_plan l, sn_Entries = gm_copy (lg_entries l)\<rparr>"

definition claim_of :: "scheduleEntry \<Rightarrow> string \<Rightarrow> ScheduleClaim" where
  "claim_of entry subject =
     \<lparr>cl_Subject = subject, cl_Registry = so_Registry (se_Operation entry),
      cl_IntervalStart = so_IntervalStart (se_Operation entry),
      cl_Shard = so_Shard (se_Operation entry), cl_Generation = se_Generation entry,
      cl_LeaseExpires = se_LeaseExpires entry\<rparr>"

definition claimLocked ::
  "ScheduleCoverageLedger \<Rightarrow> string \<Rightarrow> time \<Rightarrow> duration
    \<Rightarrow> schedule_error + (ScheduleCoverageLedger \<times> ScheduleClaim)" where
  "claimLocked l subject now lease =
     (case gm_get (lg_entries l) subject of
        None \<Rightarrow> Inl (ScheduleError ''schedule subject is unknown'')
      | Some entry \<Rightarrow>
          (if se_State entry = ''completed'' then Inl ErrScheduleComplete
           else if se_State entry = ''claimed'' \<and> now < se_LeaseExpires entry
           then Inl ErrScheduleLeaseHeld
           else
             let entry' = entry\<lparr>se_State := ''claimed'', se_Attempted := True,
                   se_Generation := se_Generation entry + 1, se_LeaseExpires := now + lease\<rparr>
             in Inr (l\<lparr>lg_entries := gm_put subject entry' (lg_entries l)\<rparr>,
                     claim_of entry' subject)))"

definition Claim ::
  "ScheduleCoverageLedger \<Rightarrow> string \<Rightarrow> time \<Rightarrow> duration
    \<Rightarrow> schedule_error + (ScheduleCoverageLedger \<times> ScheduleClaim)" where
  "Claim l subject now lease =
     (if lease \<le> 0 \<or> now < iv_Start (pl_Interval (lg_plan l))
      then Inl (ScheduleError ''schedule claim input is invalid'')
      else claimLocked l subject now lease)"

fun claim_first ::
  "ScheduleCoverageLedger \<Rightarrow> string list \<Rightarrow> time \<Rightarrow> duration
    \<Rightarrow> schedule_error + (ScheduleCoverageLedger \<times> ScheduleClaim option)" where
  "claim_first l [] now lease = Inr (l, None)"
| "claim_first l (subject # subjects) now lease =
     (case claimLocked l subject now lease of
        Inr (l', claim) \<Rightarrow> Inr (l', Some claim)
      | Inl e \<Rightarrow>
          (if e = ErrScheduleLeaseHeld \<or> e = ErrScheduleComplete
           then claim_first l subjects now lease
           else Inl e))"

definition shard_subjects :: "ScheduleCoverageLedger \<Rightarrow> int \<Rightarrow> string list" where
  "shard_subjects l shard =
     sort (gm_keys (filter (\<lambda>(subject, entry). so_Shard (se_Operation entry) = shard) (lg_entries l)))"

definition ClaimNext ::
  "ScheduleCoverageLedger \<Rightarrow> int \<Rightarrow> time \<Rightarrow> duration
    \<Rightarrow> schedule_error + (ScheduleCoverageLedger \<times> ScheduleClaim option)" where
  "ClaimNext l shard now lease =
     (if shard < 0 \<or> shard \<ge> sc_ShardCount (pl_Scheduler (lg_plan l)) \<or> lease \<le> 0 \<or>
         now < iv_Start (pl_Interval (lg_plan l))
      then Inl (ScheduleError ''schedule claim input is invalid'')
      else claim_first l (shard_subjects l shard) now lease)"

definition currentClaimLocked ::
  "ScheduleCoverageLedger \<Rightarrow> ScheduleClaim \<Rightarrow> schedule_error + scheduleEntry" where
  "currentClaimLocked l claim =
     (case gm_get (lg_entries l) (cl_Subject claim) of
        None \<Rightarrow> Inl ErrScheduleFenced
      | Some entry \<Rightarrow>
          (if se_State entry \<noteq> ''claimed'' \<or> se_Generation entry \<noteq> cl_Generation claim \<or>
              so_Registry (se_Operation entry) \<noteq> cl_Registry claim \<or>
              so_IntervalStart (se_Operation entry) \<noteq> cl_IntervalStart claim \<or>
              so_Shard (se_Operation entry) \<noteq> cl_Shard claim \<or>
              se_LeaseExpires entry \<noteq> cl_LeaseExpires claim
           then Inl ErrScheduleFenced
           else Inr entry))"

definition Retry ::
  "ScheduleCoverageLedger \<Rightarrow> ScheduleClaim \<Rightarrow> schedule_error + ScheduleCoverageLedger" where
  "Retry l claim =
     (case currentClaimLocked l claim of
        Inl e \<Rightarrow> Inl e
      | Inr entry \<Rightarrow>
          Inr (l\<lparr>lg_entries := gm_put (cl_Subject claim)
                 (entry\<lparr>se_State := ''queued'', se_LeaseExpires := time_zero\<rparr>) (lg_entries l)\<rparr>))"

definition Complete ::
  "ScheduleCoverageLedger \<Rightarrow> ScheduleClaim \<Rightarrow> time \<Rightarrow> schedule_error + ScheduleCoverageLedger" where
  "Complete l claim now =
     (case currentClaimLocked l claim of
        Inl e \<Rightarrow> Inl e
      | Inr entry \<Rightarrow>
          (if now > se_LeaseExpires entry then Inl ErrScheduleFenced
           else Inr (l\<lparr>lg_entries := gm_put (cl_Subject claim)
                  (entry\<lparr>se_State := ''completed'', se_CompletedAt := now,
                         se_LeaseExpires := time_zero\<rparr>) (lg_entries l)\<rparr>)))"

section \<open>Coverage receipts\<close>

definition zero_counts :: ScheduleCoverageCounts where
  "zero_counts = \<lparr>n_Expected = 0, n_Assigned = 0, n_Attempted = 0, n_Completed = 0,
     n_Late = 0, n_Missing = 0\<rparr>"

definition validScheduleCounts :: "ScheduleCoverageCounts \<Rightarrow> bool" where
  "validScheduleCounts c \<longleftrightarrow>
     n_Expected c \<ge> 0 \<and> n_Assigned c = n_Expected c \<and> n_Attempted c \<ge> 0 \<and>
     n_Attempted c \<le> n_Expected c \<and> n_Completed c \<ge> 0 \<and> n_Completed c \<le> n_Attempted c \<and>
     n_Late c \<ge> 0 \<and> n_Late c \<le> n_Completed c \<and> n_Missing c = n_Expected c - n_Completed c"

definition addScheduleCounts ::
  "ScheduleCoverageCounts \<Rightarrow> ScheduleCoverageCounts \<Rightarrow> ScheduleCoverageCounts" where
  "addScheduleCounts left right =
     \<lparr>n_Expected = n_Expected left + n_Expected right,
      n_Assigned = n_Assigned left + n_Assigned right,
      n_Attempted = n_Attempted left + n_Attempted right,
      n_Completed = n_Completed left + n_Completed right,
      n_Late = n_Late left + n_Late right,
      n_Missing = n_Missing left + n_Missing right\<rparr>"

definition receiptPlanShards ::
  "ScheduleCoverageShardReceipt list \<Rightarrow> ScheduleCoverageShard list" where
  "receiptPlanShards receipt =
     List.map (\<lambda>shard. \<lparr>scs_Index = sr_Index shard, scs_QueueSHA256 = sr_QueueSHA256 shard,
                        scs_Expected = n_Expected (sr_Counts shard)\<rparr>) receipt"

definition receiptPlan :: "ScheduleCoverageReceipt \<Rightarrow> ScheduleCoveragePlan" where
  "receiptPlan r = \<lparr>pl_SchemaVersion = rc_SchemaVersion r, pl_Registry = rc_Registry r,
     pl_Interval = rc_Interval r, pl_Scheduler = rc_Scheduler r,
     pl_Shards = receiptPlanShards (rc_Shards r)\<rparr>"

definition receipt_json_ok :: "ScheduleCoverageReceipt \<Rightarrow> bool" where
  "receipt_json_ok r \<longleftrightarrow> json_time_ok (iv_Start (rc_Interval r)) \<and> json_time_ok (rc_ObservedAt r)"

text \<open>
  \<^verbatim>\<open>schemas.ValidateHealthScheduleCoverageV1\<close> runs a third-party JSON Schema engine: it is the
  parameter \<open>schema_ok\<close>.  \<open>schedule_coverage_schema\<close> is what the schema file
  \<^verbatim>\<open>schemas/datapan.health-schedule-coverage.v1.schema.json\<close> asks of an encoded receipt.
\<close>

definition schema_counts :: "ScheduleCoverageCounts \<Rightarrow> bool" where
  "schema_counts c \<longleftrightarrow> n_Expected c \<ge> 0 \<and> n_Assigned c \<ge> 0 \<and> n_Attempted c \<ge> 0 \<and>
     n_Completed c \<ge> 0 \<and> n_Late c \<ge> 0 \<and> n_Missing c \<ge> 0"

definition schedule_coverage_schema :: "ScheduleCoverageReceipt \<Rightarrow> bool" where
  "schedule_coverage_schema r \<longleftrightarrow>
     rc_SchemaVersion r = ''datapan.health-schedule-coverage.v1'' \<and>
     commitPattern (reg_Revision (rc_Registry r)) \<and>
     sha256Pattern (reg_ManifestSHA256 (rc_Registry r)) \<and>
     iv_DurationSeconds (rc_Interval r) = 600 \<and>
     1 \<le> sc_ShardCount (rc_Scheduler r) \<and> sc_ShardCount (rc_Scheduler r) \<le> 4096 \<and>
     sc_AssignmentAlgorithm (rc_Scheduler r) = ''operation-id-sha256-mod-v1'' \<and>
     1 \<le> length (rc_Shards r) \<and> length (rc_Shards r) \<le> 4096 \<and>
     list_all (\<lambda>shard. sr_Index shard \<ge> 0 \<and> sha256Pattern (sr_QueueSHA256 shard) \<and>
                 schema_counts (sr_Counts shard)) (rc_Shards r) \<and>
     schema_counts (rc_Aggregate r)"

definition sum_shard_counts :: "ScheduleCoverageShardReceipt list \<Rightarrow> ScheduleCoverageCounts" where
  "sum_shard_counts shards = foldl (\<lambda>acc s. addScheduleCounts acc (sr_Counts s)) zero_counts shards"

definition receipt_Validate ::
  "(ScheduleCoverageReceipt \<Rightarrow> bool) \<Rightarrow> ScheduleCoverageReceipt \<Rightarrow> schedule_error option" where
  "receipt_Validate schema_ok r =
     (if \<not> receipt_json_ok r \<or> \<not> schema_ok r \<or> \<not> validSchedulePlan (receiptPlan r) \<or>
         IsZero (rc_ObservedAt r) \<or> rc_ObservedAt r < iv_Start (rc_Interval r)
      then Some (ScheduleError ''schedule coverage receipt is invalid'')
      else if \<not> list_all (\<lambda>(index, shard). sr_Index shard = int index \<and>
                   sha256Pattern (sr_QueueSHA256 shard) \<and> validScheduleCounts (sr_Counts shard))
                 (List.enumerate 0 (rc_Shards r))
      then Some (ScheduleError ''schedule coverage receipt is invalid'')
      else if sum_shard_counts (rc_Shards r) \<noteq> rc_Aggregate r \<or> \<not> validScheduleCounts (rc_Aggregate r)
      then Some (ScheduleError ''schedule coverage receipt is invalid'')
      else None)"

text \<open>One turn of the loop over the ledger's entries, for shard \<open>index\<close>.\<close>

definition count_entry ::
  "int \<Rightarrow> time \<Rightarrow> time \<Rightarrow> scheduleEntry \<Rightarrow> ScheduleCoverageCounts \<Rightarrow> ScheduleCoverageCounts" where
  "count_entry index observedAt deadline entry c =
     (if so_Shard (se_Operation entry) \<noteq> index then c
      else
        let c1 = (if se_Attempted entry then c\<lparr>n_Attempted := n_Attempted c + 1\<rparr> else c)
        in if se_State entry = ''completed'' \<and> se_CompletedAt entry \<le> observedAt
           then
             let c2 = c1\<lparr>n_Completed := n_Completed c1 + 1\<rparr>
             in (if se_CompletedAt entry > deadline then c2\<lparr>n_Late := n_Late c2 + 1\<rparr> else c2)
           else c1)"

definition shard_counts ::
  "ScheduleCoverageLedger \<Rightarrow> time \<Rightarrow> nat \<Rightarrow> ScheduleCoverageShard \<Rightarrow> ScheduleCoverageCounts" where
  "shard_counts l observedAt index shard =
     (let deadline = iv_Start (pl_Interval (lg_plan l)) + scheduleInterval;
          c0 = zero_counts\<lparr>n_Expected := scs_Expected shard, n_Assigned := scs_Expected shard\<rparr>;
          c = foldl (\<lambda>c (subject, entry). count_entry (int index) observedAt deadline entry c)
                c0 (lg_entries l)
      in c\<lparr>n_Missing := n_Expected c - n_Completed c\<rparr>)"

definition CoverageReceipt ::
  "(ScheduleCoverageReceipt \<Rightarrow> bool) \<Rightarrow> ScheduleCoverageLedger \<Rightarrow> time
    \<Rightarrow> schedule_error + ScheduleCoverageReceipt" where
  "CoverageReceipt schema_ok l observedAt =
     (if IsZero observedAt \<or> observedAt < iv_Start (pl_Interval (lg_plan l))
      then Inl (ScheduleError ''schedule coverage observation time is invalid'')
      else
        let shards = List.map (\<lambda>(index, shard).
                \<lparr>sr_Index = int index, sr_QueueSHA256 = scs_QueueSHA256 shard,
                 sr_Counts = shard_counts l observedAt index shard\<rparr>)
              (List.enumerate 0 (pl_Shards (lg_plan l)));
            receipt = \<lparr>rc_SchemaVersion = ScheduleCoverageReceiptSchemaVersion,
              rc_Registry = pl_Registry (lg_plan l), rc_Interval = pl_Interval (lg_plan l),
              rc_Scheduler = pl_Scheduler (lg_plan l), rc_ObservedAt = observedAt,
              rc_Shards = shards, rc_Aggregate = sum_shard_counts shards\<rparr>
        in case receipt_Validate schema_ok receipt of
             Some e \<Rightarrow> Inl e
           | None \<Rightarrow> Inr receipt)"

text \<open>
  A stored receipt document: the raw bytes (or a read error), checked against the size
  limit and the schema before it is decoded and validated.
\<close>

definition DecodeScheduleCoverageReceipt ::
  "(string \<Rightarrow> bool) \<Rightarrow> (string \<Rightarrow> ScheduleCoverageReceipt option) \<Rightarrow> (ScheduleCoverageReceipt \<Rightarrow> bool)
    \<Rightarrow> string option \<Rightarrow> schedule_error + ScheduleCoverageReceipt" where
  "DecodeScheduleCoverageReceipt raw_schema_ok decode schema_ok raw =
     (case raw of
        None \<Rightarrow> Inl (ScheduleError ''schedule coverage receipt is invalid'')
      | Some bytes \<Rightarrow>
          (if length bytes > 2 * 1024 * 1024 \<or> \<not> raw_schema_ok bytes
           then Inl (ScheduleError ''schedule coverage receipt is invalid'')
           else case decode bytes of
             None \<Rightarrow> Inl (ScheduleError ''schedule coverage receipt is invalid'')
           | Some receipt \<Rightarrow>
               (if receipt_Validate schema_ok receipt \<noteq> None
                then Inl (ScheduleError ''schedule coverage receipt is invalid'')
                else Inr receipt)))"

end
