(* ===== verification/Schedule_Plan_Facts.thy ===== *)
theory Schedule_Plan_Facts
  imports Schedule_Coverage
begin

text \<open>
  Facts about plans and queues: what \<open>VerifyScheduleCoveragePlan\<close> accepts, that the order in
  which a queue is visited does not matter, and that \<open>BuildScheduleCoveragePlan\<close> makes a plan
  that covers every manifest operation exactly once.
\<close>

section \<open>The verifier's loops as set conditions\<close>

definition shard_queue :: "ScheduledOperation list \<Rightarrow> nat \<Rightarrow> string list" where
  "shard_queue items i = List.map so_Subject (filter (\<lambda>x. so_Shard x = int i) items)"

lemma shard_queue_Cons:
  "shard_queue (x # xs) i = (if so_Shard x = int i then so_Subject x # shard_queue xs i else shard_queue xs i)"
  by (simp add: shard_queue_def)

lemma scheduleShard_range: "0 < n \<Longrightarrow> 0 \<le> scheduleShard s n \<and> scheduleShard s n < n"
proof -
  assume "0 < n"
  then have "sha256_u64 s mod nat n < nat n" by simp
  then have "int (sha256_u64 s mod nat n) < int (nat n)" by (simp only: of_nat_less_iff)
  with \<open>0 < n\<close> show ?thesis by (simp add: scheduleShard_def del: of_nat_mod)
qed

lemma map_nth_update:
  "j < length bs \<Longrightarrow>
    List.map (\<lambda>i. bs[j := bs ! j @ [s]] ! i @ f i) [0..<length bs] =
    List.map (\<lambda>i. bs ! i @ (if i = j then s # f i else f i)) [0..<length bs]"
  by (rule map_cong) (auto simp: nth_list_update)

lemma verify_items_iff:
  "verify_items plan items seen bs = Some bs' \<longleftrightarrow>
     list_all (queue_item_ok plan (length bs)) items \<and>
     distinct (List.map so_Subject items) \<and>
     set (List.map so_Subject items) \<inter> set seen = {} \<and>
     bs' = List.map (\<lambda>i. bs ! i @ shard_queue items i) [0..<length bs]"
proof (induction plan items seen bs rule: verify_items.induct)
  case (1 plan seen bs)
  show ?case by (auto simp: shard_queue_def map_nth)
next
  case (2 plan item items seen bs)
  show ?case
  proof (cases "so_Subject item \<in> set seen \<or> \<not> queue_item_ok plan (length bs) item")
    case True
    then show ?thesis by auto
  next
    case False
    let ?j = "nat (so_Shard item)"
    from False have j: "?j < length bs" "so_Shard item = int ?j"
      by (auto simp: queue_item_ok_def)
    have eq: "List.map (\<lambda>i. bs[?j := bs ! ?j @ [so_Subject item]] ! i @ shard_queue items i) [0..<length bs]
      = List.map (\<lambda>i. bs ! i @ shard_queue (item # items) i) [0..<length bs]"
      using map_nth_update [OF j(1)] j(2)
      by (auto simp: shard_queue_Cons intro!: map_cong)
    show ?thesis using False "2.IH" eq by auto
  qed
qed

lemma verify_shards_iff:
  "verify_shards plan bs \<longleftrightarrow>
     (\<forall>i < length bs. scs_Index (pl_Shards plan ! i) = int i \<and>
        scs_Expected (pl_Shards plan ! i) = int (length (bs ! i)) \<and>
        scs_QueueSHA256 (pl_Shards plan ! i) = scheduleQueueDigest (int i) (sort (bs ! i)))"
  by (auto simp: verify_shards_def list_all_length nth_enumerate_eq Let_def)

lemma Verify_None_iff:
  "VerifyScheduleCoveragePlan plan queue = None \<longleftrightarrow>
     validSchedulePlan plan \<and> queue \<noteq> [] \<and>
     list_all (queue_item_ok plan (nat (sc_ShardCount (pl_Scheduler plan)))) queue \<and>
     distinct (List.map so_Subject queue) \<and>
     (\<forall>i < nat (sc_ShardCount (pl_Scheduler plan)).
        scs_Index (pl_Shards plan ! i) = int i \<and>
        scs_Expected (pl_Shards plan ! i) = int (length (shard_queue queue i)) \<and>
        scs_QueueSHA256 (pl_Shards plan ! i) = scheduleQueueDigest (int i) (sort (shard_queue queue i)))"
proof -
  let ?n = "nat (sc_ShardCount (pl_Scheduler plan))"
  have v: "verify_items plan queue [] (replicate ?n []) = Some bs \<longleftrightarrow>
      list_all (queue_item_ok plan ?n) queue \<and> distinct (List.map so_Subject queue) \<and>
      bs = List.map (shard_queue queue) [0..<?n]" for bs
    by (subst verify_items_iff) (auto intro!: map_cong)
  show ?thesis
  proof (cases "verify_items plan queue [] (replicate ?n [])")
    case None
    with v have "\<not> (list_all (queue_item_ok plan ?n) queue \<and> distinct (List.map so_Subject queue))"
      by (metis option.distinct(1))
    with None show ?thesis by (auto simp: VerifyScheduleCoveragePlan_def)
  next
    case (Some bs)
    with v have "list_all (queue_item_ok plan ?n) queue" "distinct (List.map so_Subject queue)"
      "bs = List.map (shard_queue queue) [0..<?n]" by auto
    with Some show ?thesis
      by (auto simp: VerifyScheduleCoveragePlan_def verify_shards_iff)
  qed
qed

lemma Verify_plan_valid: "VerifyScheduleCoveragePlan plan queue = None \<Longrightarrow> validSchedulePlan plan"
  by (simp add: Verify_None_iff)

lemma Verify_distinct:
  "VerifyScheduleCoveragePlan plan queue = None \<Longrightarrow> distinct (List.map so_Subject queue)"
  by (simp add: Verify_None_iff)

lemma validSchedulePlan_count:
  "validSchedulePlan plan \<Longrightarrow> length (pl_Shards plan) = nat (sc_ShardCount (pl_Scheduler plan))"
  by (auto simp: validSchedulePlan_def)

section \<open>The order of the queue does not matter\<close>

lemma shard_queue_perm:
  "mset q = mset q' \<Longrightarrow> mset (shard_queue q i) = mset (shard_queue q' i)"
  by (simp add: shard_queue_def mset_map [symmetric] mset_filter del: mset_map) (simp add: mset_map)

lemma Verify_None_perm:
  assumes "mset q = mset q'"
  shows "VerifyScheduleCoveragePlan plan q = None \<longleftrightarrow> VerifyScheduleCoveragePlan plan q' = None"
proof -
  have s: "set q = set q'" using assms by (rule mset_eq_setD)
  have d: "distinct (List.map so_Subject q) = distinct (List.map so_Subject q')"
    using assms by (metis mset_eq_imp_distinct_iff mset_map)
  have l: "length (shard_queue q i) = length (shard_queue q' i)" for i
    using shard_queue_perm [OF assms] by (metis size_mset)
  have so: "sort (shard_queue q i) = sort (shard_queue q' i)" for i
    using shard_queue_perm [OF assms] by (rule sort_perm_eq)
  have ne: "q = [] \<longleftrightarrow> q' = []" using assms by auto
  show ?thesis by (simp add: Verify_None_iff s d l so ne list_all_iff)
qed

section \<open>Every queue item is counted in exactly one shard\<close>

lemma sum_shard_queue_lengths:
  assumes "\<forall>x \<in> set q. 0 \<le> so_Shard x \<and> so_Shard x < int n"
  shows "(\<Sum>i<n. length (shard_queue q i)) = length q"
  using assms
proof (induction q)
  case Nil
  then show ?case by (simp add: shard_queue_def)
next
  case (Cons x q)
  from Cons.prems have "nat (so_Shard x) < n" and sh: "so_Shard x = int (nat (so_Shard x))" by auto
  have "(\<Sum>i<n. length (shard_queue (x # q) i)) =
      (\<Sum>i<n. length (shard_queue q i) + (if i = nat (so_Shard x) then 1 else 0))"
    by (rule sum.cong) (use sh in \<open>auto simp: shard_queue_Cons\<close>)
  also have "\<dots> = (\<Sum>i<n. length (shard_queue q i)) + 1"
    using \<open>nat (so_Shard x) < n\<close> by (simp add: sum.distrib)
  finally show ?case using Cons by simp
qed

lemma Verify_expected_total:
  assumes "VerifyScheduleCoveragePlan plan queue = None"
  shows "(\<Sum>shard \<leftarrow> pl_Shards plan. scs_Expected shard) = int (length queue)"
proof -
  let ?n = "nat (sc_ShardCount (pl_Scheduler plan))"
  have len: "length (pl_Shards plan) = ?n"
    using assms by (simp add: Verify_None_iff validSchedulePlan_count)
  have "(\<Sum>shard \<leftarrow> pl_Shards plan. scs_Expected shard) = (\<Sum>i<?n. scs_Expected (pl_Shards plan ! i))"
    by (simp add: sum_list_sum_nth len atLeast0LessThan)
  also have "\<dots> = (\<Sum>i<?n. int (length (shard_queue queue i)))"
    using assms by (intro sum.cong) (auto simp: Verify_None_iff)
  also have "\<dots> = int (\<Sum>i<?n. length (shard_queue queue i))" by simp
  also have "\<dots> = int (length queue)"
    using assms by (subst sum_shard_queue_lengths)
      (auto simp: Verify_None_iff list_all_iff queue_item_ok_def)
  finally show ?thesis .
qed

section \<open>The plan that is built\<close>

definition scheduled :: "ScheduleCoverageRegistry \<Rightarrow> time \<Rightarrow> int \<Rightarrow> ManifestOperation \<Rightarrow> ScheduledOperation"
  where
  "scheduled reg start n op = \<lparr>so_Subject = StatusSubject op, so_Registry = reg,
     so_IntervalStart = start, so_Shard = scheduleShard (StatusSubject op) n\<rparr>"

lemma scheduled_simps [simp]:
  "so_Subject (scheduled reg start n op) = StatusSubject op"
  "so_Registry (scheduled reg start n op) = reg"
  "so_IntervalStart (scheduled reg start n op) = start"
  "so_Shard (scheduled reg start n op) = scheduleShard (StatusSubject op) n"
  by (simp_all add: scheduled_def)

lemma build_queue_Some:
  assumes "0 < n"
  shows "distinct (List.map StatusSubject ops) \<Longrightarrow>
    set (List.map StatusSubject ops) \<inter> set seen = {} \<Longrightarrow>
    [] \<notin> set (List.map StatusSubject ops) \<Longrightarrow> length bs = nat n \<Longrightarrow>
    build_queue reg start n ops seen bs queue =
      Some (List.map (\<lambda>i. bs ! i @ shard_queue (List.map (scheduled reg start n) ops) i) [0..<nat n],
            queue @ List.map (scheduled reg start n) ops)"
proof (induction ops arbitrary: seen bs queue)
  case Nil
  then show ?case by (simp add: shard_queue_def) (metis map_nth)
next
  case (Cons op ops)
  let ?j = "nat (scheduleShard (StatusSubject op) n)"
  have j: "?j < length bs" and js: "scheduleShard (StatusSubject op) n = int ?j"
    using scheduleShard_range [OF assms, of "StatusSubject op"] Cons.prems(4) by auto
  have eq: "List.map (\<lambda>i. bs[?j := bs ! ?j @ [StatusSubject op]] ! i @
        shard_queue (List.map (scheduled reg start n) ops) i) [0..<length bs]
    = List.map (\<lambda>i. bs ! i @ shard_queue (List.map (scheduled reg start n) (op # ops)) i) [0..<length bs]"
    using map_nth_update [OF j] js by (auto simp: shard_queue_Cons intro!: map_cong)
  show ?case
    using Cons.prems eq
    by (subst build_queue.simps)
       (auto simp: Let_def scheduled_def [symmetric] Cons.IH simp del: build_queue.simps)
qed

lemma length_shards_of [simp]: "length (shards_of bs) = length bs"
  by (simp add: shards_of_def)

lemma nth_shards_of:
  "i < length bs \<Longrightarrow> shards_of bs ! i =
    \<lparr>scs_Index = int i, scs_QueueSHA256 = scheduleQueueDigest (int i) (sort (bs ! i)),
     scs_Expected = int (length (bs ! i))\<rparr>"
  by (simp add: shards_of_def nth_enumerate_eq)

lemma sha256Pattern_queue_digest [simp]: "sha256Pattern (scheduleQueueDigest i ss)"
  by (simp add: scheduleQueueDigest_def)

lemma map_sort_key: "List.map f (sort_key f xs) = sort (List.map f xs)"
  by (rule properties_for_sort [symmetric]) simp_all

lemma build_queue_manifest:
  assumes "manifest_Validate uri_ok m r = None" and "0 < n"
  shows "build_queue reg start n (om_Operations m) [] (replicate (nat n) []) [] =
    Some (List.map (shard_queue (List.map (scheduled reg start n) (om_Operations m))) [0..<nat n],
          List.map (scheduled reg start n) (om_Operations m))"
proof -
  have "list_all (\<lambda>op. sha256Pattern (StatusSubject op)) (om_Operations m)"
    by (rule manifest_Validate_distinct(2) [OF assms(1)])
  then have "[] \<notin> set (List.map StatusSubject (om_Operations m))"
    by (auto simp: list_all_iff sha256Pattern_def hex_string_def)
  then show ?thesis
    by (subst build_queue_Some [OF assms(2)])
       (use manifest_Validate_distinct(1) [OF assms(1)] in \<open>auto intro!: map_cong\<close>)
qed

lemma verify_built_plan:
  assumes plan: "plan = \<lparr>pl_SchemaVersion = ScheduleCoverageReceiptSchemaVersion, pl_Registry = reg,
      pl_Interval = \<lparr>iv_Start = start, iv_DurationSeconds = scheduleInterval div second\<rparr>,
      pl_Scheduler = \<lparr>sc_ShardCount = n, sc_AssignmentAlgorithm = scheduleAssignmentV1\<rparr>,
      pl_Shards = shards_of (List.map (shard_queue queue) [0..<nat n])\<rparr>"
    and queue: "queue = List.map (scheduled reg start n) ops"
    and ops: "ops \<noteq> []" "distinct (List.map StatusSubject ops)" "[] \<notin> set (List.map StatusSubject ops)"
    and n: "1 \<le> n" "n \<le> 4096"
    and start: "\<not> IsZero start" "start = time_Truncate start scheduleInterval"
    and reg: "commitPattern (reg_Revision reg)" "sha256Pattern (reg_ManifestSHA256 reg)"
  shows "VerifyScheduleCoveragePlan plan queue = None"
proof -
  have "validSchedulePlan plan"
    using n start reg
    by (auto simp: plan validSchedulePlan_def list_all_length nth_enumerate_eq nth_shards_of)
  moreover have "list_all (queue_item_ok plan (nat (sc_ShardCount (pl_Scheduler plan)))) queue"
  proof -
    have "\<forall>op \<in> set ops. StatusSubject op \<noteq> []" using ops(3) by (metis imageI set_map)
    then show ?thesis
      using n scheduleShard_range [of n] by (auto simp: plan queue list_all_iff queue_item_ok_def)
  qed
  moreover have "distinct (List.map so_Subject queue)" "queue \<noteq> []"
    using ops by (auto simp: queue comp_def)
  ultimately show ?thesis
    by (auto simp: Verify_None_iff plan nth_shards_of)
qed

lemma build_plan_total:
  assumes "manifest_Validate uri_ok m r = None" and "validOperationManifestReceipt r"
    and "1 \<le> n" "n \<le> 4096" and "scheduleInterval \<le> at"
  shows "\<exists>plan queue. BuildScheduleCoveragePlan uri_ok m r at n = Inr (plan, queue) \<and>
    VerifyScheduleCoveragePlan plan queue = None \<and>
    List.map so_Subject queue = sort (List.map StatusSubject (om_Operations m)) \<and>
    distinct (List.map so_Subject queue) \<and>
    (\<Sum>shard \<leftarrow> pl_Shards plan. scs_Expected shard) = omr_OperationStatusSubjects r \<and>
    iv_Start (pl_Interval plan) \<le> at \<and> at < iv_Start (pl_Interval plan) + scheduleInterval"
proof -
  define start where "start = time_Truncate at scheduleInterval"
  define reg where "reg = \<lparr>reg_Revision = omr_Revision r, reg_ManifestSHA256 = fp_SHA256 (omr_Manifest r)\<rparr>"
  define queue where "queue = List.map (scheduled reg start n) (om_Operations m)"
  define plan where "plan = \<lparr>pl_SchemaVersion = ScheduleCoverageReceiptSchemaVersion, pl_Registry = reg,
      pl_Interval = \<lparr>iv_Start = start, iv_DurationSeconds = scheduleInterval div second\<rparr>,
      pl_Scheduler = \<lparr>sc_ShardCount = n, sc_AssignmentAlgorithm = scheduleAssignmentV1\<rparr>,
      pl_Shards = shards_of (List.map (shard_queue queue) [0..<nat n])\<rparr>"
  have iv: "(0::int) < scheduleInterval" by (simp add: scheduleInterval_def go_defs)
  have start: "start \<le> at" "at < start + scheduleInterval" "start = time_Truncate start scheduleInterval"
    using iv by (auto simp: start_def time_Truncate_le time_Truncate_gt)
  have nz: "\<not> IsZero start" "\<not> IsZero at" using start iv assms(5) by (auto simp: IsZero_def)
  have facts: "distinct (List.map StatusSubject (om_Operations m))"
    "[] \<notin> set (List.map StatusSubject (om_Operations m))"
    "int (length (om_Operations m)) = omr_OperationStatusSubjects r"
    using manifest_Validate_distinct [OF assms(1)]
    by (auto simp: list_all_iff sha256Pattern_def hex_string_def)
  have ne: "om_Operations m \<noteq> []"
    using facts(3) assms(2) by (auto simp: validOperationManifestReceipt_def)
  have v: "VerifyScheduleCoveragePlan plan queue = None"
    by (rule verify_built_plan [OF plan_def queue_def ne facts(1,2) assms(3,4) nz(1) start(3)])
       (use assms(2) in \<open>auto simp: reg_def validOperationManifestReceipt_def\<close>)
  then have v': "VerifyScheduleCoveragePlan plan (sort_key so_Subject queue) = None"
    by (subst Verify_None_perm [where q' = queue]) simp_all
  have b: "BuildScheduleCoveragePlan uri_ok m r at n = Inr (plan, sort_key so_Subject queue)"
    using assms(1,3,4) nz(2) facts(3) v'
      build_queue_manifest [OF assms(1), of n reg start]
    by (simp add: BuildScheduleCoveragePlan_def Let_def start_def [symmetric] reg_def [symmetric]
        queue_def [symmetric] plan_def [symmetric])
       (simp add: queue_def)
  have "List.map so_Subject queue = List.map StatusSubject (om_Operations m)"
    by (simp add: queue_def)
  then have ms: "List.map so_Subject (sort_key so_Subject queue) = sort (List.map StatusSubject (om_Operations m))"
    by (simp add: map_sort_key)
  have "(\<Sum>shard \<leftarrow> pl_Shards plan. scs_Expected shard) = omr_OperationStatusSubjects r"
    using Verify_expected_total [OF v] facts(3) by (simp add: queue_def)
  moreover have "iv_Start (pl_Interval plan) = start" by (simp add: plan_def)
  ultimately show ?thesis using b v' ms start Verify_distinct [OF v'] by auto
qed

text \<open>C1: a pinned manifest is always scheduled, and scheduled completely: at any time from the
  first interval boundary on, for any shard count from 1 to 4096, the builder returns a plan and a
  queue that the verifier accepts; the queue holds every operation identity of the manifest
  exactly once, in sorted order; and the per-shard expectations add up to the denominator that
  the receipt pins.\<close>

theorem build_plan_covers_manifest:
  assumes "manifest_Validate uri_ok m r = None" and "validOperationManifestReceipt r"
    and "1 \<le> n" "n \<le> 4096" and "scheduleInterval \<le> at"
  shows "\<exists>plan queue. BuildScheduleCoveragePlan uri_ok m r at n = Inr (plan, queue) \<and>
    VerifyScheduleCoveragePlan plan queue = None \<and>
    List.map so_Subject queue = sort (List.map StatusSubject (om_Operations m)) \<and>
    distinct (List.map so_Subject queue) \<and>
    (\<Sum>shard \<leftarrow> pl_Shards plan. scs_Expected shard) = omr_OperationStatusSubjects r \<and>
    iv_Start (pl_Interval plan) \<le> at \<and> at < iv_Start (pl_Interval plan) + scheduleInterval"
  using assms by (rule build_plan_total)

section \<open>An example manifest\<close>

definition example_identity :: "string list" where
  "example_identity = [''data.go.kr'', ''15000000'', ''REST'', ''portal'', ''op-1'', '''', ''GET'', ''list'']"

definition example_operation :: ManifestOperation where
  "example_operation = \<lparr>mo_OperationID = lengthPrefixedSHA256 example_identity, mo_Protocol = ''REST'',
     mo_Provider = ''data.go.kr'', mo_DatasetID = ''15000000'', mo_OperationName = ''list'',
     mo_SourceSystem = ''portal'', mo_UpstreamOperationKey = ''op-1'',
     mo_SourceURL = ''https://www.data.go.kr/'', mo_Endpoint = None, mo_Method = Some ''GET'',
     mo_Action = None, mo_MethodEvidence = ''registry_default_get'',
     mo_EligibilityStatus = ''approval_required''\<rparr>"

definition example_pin :: "string \<Rightarrow> file_pin" where
  "example_pin path = \<lparr>fp_Path = path, fp_Bytes = 10, fp_SHA256 = replicate 64 (CHR ''a'')\<rparr>"

definition example_receipt :: OperationManifestReceipt where
  "example_receipt = \<lparr>omr_SchemaVersion = ''datapan.health-operation-manifest-receipt.v1'',
     omr_Revision = replicate 40 (CHR ''b''), omr_AcquiredAt = 1, omr_AcquisitionMethod = ''git_commit'',
     omr_ManifestSchemaVersion = ''datapan.data-go-kr-operation-manifest.v1'',
     omr_Manifest = example_pin ''reports/data-go-kr/operation-manifest.json'',
     omr_ReleaseManifest = example_pin ''manifest.json'',
     omr_SchemaPath = ''schemas/datapan.data-go-kr-operation-manifest.v1.schema.json'',
     omr_SchemaSHA256 = replicate 64 (CHR ''a''),
     omr_SourceSnapshot = example_pin ''data/data-go-kr.registry.json'',
     omr_OperationStatusSubjects = 1, omr_Protocols = [(''REST'', 1), (''SOAP'', 0)],
     omr_APIMetadataCount = 1,
     omr_Exclusions = [(''link_operations'', 0), (''operationless_catalog_entries'', 0),
       (''filedata_catalog_entries'', 0), (''endpoint_missing'', 0), (''required_parameter_approval'', 1)],
     omr_CanaryCount = 10, omr_CanaryRole = ''separate_observation_input'', omr_CanariesIncluded = False\<rparr>"

definition example_manifest :: OperationManifest where
  "example_manifest = \<lparr>om_SchemaVersion = ''datapan.data-go-kr-operation-manifest.v1'',
     om_Authority = ''datapan-registry'', om_SourceSnapshot = example_pin ''data/data-go-kr.registry.json'',
     om_Algorithm = ''sha256-length-prefixed-utf8-v1'', om_Fields = operationIdentityFields,
     om_APIOperations = 1, om_SummaryProtocols = [(''REST'', 1), (''SOAP'', 0)],
     om_SummaryEligibility = [(''approval_required'', 1), (''excluded'', 0)],
     om_SummaryExclusions = [(''link_operations'', 0), (''operationless_catalog_entries'', 0),
       (''filedata_catalog_entries'', 0)],
     om_IdentityCollisions = 0, om_IdentityOmissions = 0, om_Operations = [example_operation]\<rparr>"

lemma example_operation_valid: "validateIdentity (\<lambda>_. True) example_operation = None"
  by (simp add: validateIdentity_def example_operation_def methodOrAction_def identityFields_def
      example_identity_def lengthPrefixedSHA256_def)

lemma example_manifest_valid: "manifest_Validate (\<lambda>_. True) example_manifest example_receipt = None"
  by (simp add: manifest_Validate_def example_manifest_def example_receipt_def sameStrings_def
      expectedEligibilityCounts_def gm_int_def sameCounts_def sourceExclusions_def
      example_operation_valid tally_start_def tally_add_def gm_inc_def)
     (simp add: example_operation_def)

lemma example_receipt_valid: "validOperationManifestReceipt example_receipt"
  by (simp add: validOperationManifestReceipt_def example_receipt_def example_pin_def IsZero_def
      commitPattern_def sha256Pattern_def hex_string_def is_lower_hex_def list_all_iff
      validProtocolCounts_def hasExactNonNegativeCounts_def countsEqualPositiveTotal_def gm_int_def
      max_int_def)

theorem build_plan_covers_manifest_witness:
  "\<exists>plan queue. BuildScheduleCoveragePlan (\<lambda>_. True) example_manifest example_receipt scheduleInterval 4 =
      Inr (plan, queue) \<and> List.map so_Subject queue = [lengthPrefixedSHA256 example_identity]"
  using build_plan_covers_manifest [OF example_manifest_valid example_receipt_valid,
      of 4 scheduleInterval]
  by (auto simp: example_manifest_def example_operation_def StatusSubject_def)

end
