(* ===== verification/Schedule_Ledger.thy ===== *)
theory Schedule_Ledger
  imports Schedule_Plan_Facts
begin

text \<open>
  Correctness of the ledger of \<open>Schedule_Coverage\<close>: its invariant, the small state machine
  each queue item goes through and the refinement of the ledger's operations to it, fencing
  of superseded claims, the choice \<open>ClaimNext\<close> makes, and the coverage receipt.
\<close>

section \<open>The invariant\<close>

definition entry_ops :: "(string, scheduleEntry) gomap \<Rightarrow> ScheduledOperation list" where
  "entry_ops entries = List.map (\<lambda>(subject, entry). se_Operation entry) entries"

definition attempted_ok :: "scheduleEntry \<Rightarrow> bool" where
  "attempted_ok entry \<longleftrightarrow> (se_State entry \<noteq> ''queued'' \<longrightarrow> se_Attempted entry)"

definition ledger_wf :: "ScheduleCoverageLedger \<Rightarrow> bool" where
  "ledger_wf l \<longleftrightarrow> gm_wf (lg_entries l) \<and> list_all snapshot_entry_ok (lg_entries l) \<and>
     VerifyScheduleCoveragePlan (lg_plan l) (entry_ops (lg_entries l)) = None"

definition ledger_inv :: "ScheduleCoverageLedger \<Rightarrow> bool" where
  "ledger_inv l \<longleftrightarrow> ledger_wf l \<and> list_all (\<lambda>(subject, entry). attempted_ok entry) (lg_entries l)"

definition put_entry :: "string \<Rightarrow> scheduleEntry \<Rightarrow> ScheduleCoverageLedger \<Rightarrow> ScheduleCoverageLedger"
  where "put_entry subject entry l = l\<lparr>lg_entries := gm_put subject entry (lg_entries l)\<rparr>"

lemma put_entry_simps [simp]:
  "lg_plan (put_entry s e l) = lg_plan l"
  "lg_entries (put_entry s e l) = gm_put s e (lg_entries l)"
  by (simp_all add: put_entry_def)

definition valid_state :: "string \<Rightarrow> bool" where
  "valid_state s \<longleftrightarrow> s = ''queued'' \<or> s = ''claimed'' \<or> s = ''completed''"

lemma snapshot_entry_ok_alt:
  "snapshot_entry_ok (s, e) \<longleftrightarrow> s = so_Subject (se_Operation e) \<and> valid_state (se_State e)"
  by (simp add: snapshot_entry_ok_def valid_state_def)

lemma ledger_wfD:
  assumes "ledger_wf l" "gm_get (lg_entries l) s = Some e"
  shows "so_Subject (se_Operation e) = s" "valid_state (se_State e)"
  using assms gm_get_in [OF assms(2)]
  by (auto simp: ledger_wf_def list_all_iff snapshot_entry_ok_alt dest!: bspec)

lemma entry_ops_put:
  assumes "gm_wf m" "gm_get m s = Some e" "se_Operation e' = se_Operation e"
  shows "entry_ops (gm_put s e' m) = entry_ops m"
proof -
  have "\<forall>p \<in> set m. fst p = s \<longrightarrow> snd p = e"
    using assms(1,2) by (metis gm_in_get option.inject prod.collapse)
  then show ?thesis
    using assms by (auto simp: entry_ops_def gm_put_present comp_def split: prod.splits)
qed

lemma list_all_put:
  "gm_wf m \<Longrightarrow> list_all P m \<Longrightarrow> P (s, e) \<Longrightarrow> list_all P (gm_put s e m)"
  by (auto simp: list_all_iff gm_in_put split: if_splits)

lemma ledger_wf_put:
  assumes "ledger_wf l" "gm_get (lg_entries l) s = Some e"
    "se_Operation e' = se_Operation e" "valid_state (se_State e')"
  shows "ledger_wf (put_entry s e' l)"
  using assms ledger_wfD(1) [OF assms(1,2)]
  by (auto simp: ledger_wf_def entry_ops_put snapshot_entry_ok_alt intro!: list_all_put)

lemma ledger_inv_put:
  assumes "ledger_inv l" "gm_get (lg_entries l) s = Some e"
    "se_Operation e' = se_Operation e" "valid_state (se_State e')" "attempted_ok e'"
  shows "ledger_inv (put_entry s e' l)"
  using assms ledger_wf_put [of l s e e']
  by (auto simp: ledger_inv_def ledger_wf_def intro!: list_all_put)

section \<open>What each operation does to the ledger\<close>

definition claimed_entry :: "scheduleEntry \<Rightarrow> time \<Rightarrow> scheduleEntry" where
  "claimed_entry e expires = e\<lparr>se_State := ''claimed'', se_Attempted := True,
     se_Generation := se_Generation e + 1, se_LeaseExpires := expires\<rparr>"

definition retried_entry :: "scheduleEntry \<Rightarrow> scheduleEntry" where
  "retried_entry e = e\<lparr>se_State := ''queued'', se_LeaseExpires := time_zero\<rparr>"

definition completed_entry :: "scheduleEntry \<Rightarrow> time \<Rightarrow> scheduleEntry" where
  "completed_entry e now = e\<lparr>se_State := ''completed'', se_CompletedAt := now,
     se_LeaseExpires := time_zero\<rparr>"

lemma claimLocked_Inr:
  "claimLocked l s now lease = Inr (l', c) \<longleftrightarrow>
    (\<exists>e. gm_get (lg_entries l) s = Some e \<and> se_State e \<noteq> ''completed'' \<and>
       \<not> (se_State e = ''claimed'' \<and> now < se_LeaseExpires e) \<and>
       l' = put_entry s (claimed_entry e (now + lease)) l \<and>
       c = claim_of (claimed_entry e (now + lease)) s)"
  by (auto simp: claimLocked_def claimed_entry_def put_entry_def Let_def
      split: option.splits)

lemma Claim_Inr:
  "Claim l s now lease = Inr r \<longleftrightarrow>
    0 < lease \<and> iv_Start (pl_Interval (lg_plan l)) \<le> now \<and> claimLocked l s now lease = Inr r"
  by (auto simp: Claim_def)

lemma claim_first_Some:
  "claim_first l ss now lease = Inr (l', Some c) \<Longrightarrow>
    \<exists>s \<in> set ss. claimLocked l s now lease = Inr (l', c)"
  by (induction l ss now lease rule: claim_first.induct) (auto split: sum.splits if_splits)

lemma claim_first_None:
  "claim_first l ss now lease = Inr (l', None) \<Longrightarrow>
    l' = l \<and> (\<forall>s \<in> set ss. claimLocked l s now lease \<in> {Inl ErrScheduleLeaseHeld, Inl ErrScheduleComplete})"
  by (induction l ss now lease rule: claim_first.induct) (auto split: sum.splits if_splits)

lemma currentClaimLocked_Inr:
  "currentClaimLocked l c = Inr e \<longleftrightarrow>
    gm_get (lg_entries l) (cl_Subject c) = Some e \<and> se_State e = ''claimed'' \<and>
    c = claim_of e (cl_Subject c)"
  by (cases c) (auto simp: currentClaimLocked_def claim_of_def split: option.splits)

lemma Retry_Inr:
  "Retry l c = Inr l' \<longleftrightarrow>
    (\<exists>e. currentClaimLocked l c = Inr e \<and> l' = put_entry (cl_Subject c) (retried_entry e) l)"
  by (auto simp: Retry_def retried_entry_def put_entry_def split: sum.splits)

lemma Complete_Inr:
  "Complete l c now = Inr l' \<longleftrightarrow>
    (\<exists>e. currentClaimLocked l c = Inr e \<and> now \<le> se_LeaseExpires e \<and>
         l' = put_entry (cl_Subject c) (completed_entry e now) l)"
  by (auto simp: Complete_def completed_entry_def put_entry_def split: sum.splits)

lemmas entry_updates = claimed_entry_def retried_entry_def completed_entry_def
lemmas ledger_results = claimLocked_Inr Claim_Inr Retry_Inr Complete_Inr currentClaimLocked_Inr

section \<open>The life of a queue item\<close>

text \<open>
  The specification: a queue item is free, leased until some time, or done, each with the
  generation of its last claim.  At time \<open>now\<close> a free item or one whose lease has run out may
  be leased afresh, under the next generation; a lease may be given back, or turned into a
  completion at \<open>now\<close> no later than it expires.  Done is final.
\<close>

datatype item = Free "64 word" | Leased "64 word" time | Done "64 word" time

inductive item_step :: "time \<Rightarrow> item \<Rightarrow> item \<Rightarrow> bool" where
  take_free: "now < t \<Longrightarrow> item_step now (Free g) (Leased (g + 1) t)"
| take_expired: "t \<le> now \<Longrightarrow> now < u \<Longrightarrow> item_step now (Leased g t) (Leased (g + 1) u)"
| give_back: "item_step now (Leased g t) (Free g)"
| finish: "now \<le> t \<Longrightarrow> item_step now (Leased g t) (Done g now)"

inductive_cases item_step_DoneE [elim!]: "item_step now (Done g t) x"
inductive_simps item_step_to_Done: "item_step now x (Done g t)"

definition abs_entry :: "scheduleEntry \<Rightarrow> item" where
  "abs_entry e =
     (if se_State e = ''completed'' then Done (se_Generation e) (se_CompletedAt e)
      else if se_State e = ''claimed'' then Leased (se_Generation e) (se_LeaseExpires e)
      else Free (se_Generation e))"

definition abs_ledger :: "ScheduleCoverageLedger \<Rightarrow> string \<Rightarrow> item option" where
  "abs_ledger l s = map_option abs_entry (gm_get (lg_entries l) s)"

datatype ledger_op =
    OpClaim string time duration
  | OpClaimNext int time duration
  | OpRetry ScheduleClaim
  | OpComplete ScheduleClaim time

text \<open>The ledger after an operation; a failed operation leaves it as it was.\<close>

fun ledger_step :: "ledger_op \<Rightarrow> ScheduleCoverageLedger \<Rightarrow> ScheduleCoverageLedger" where
  "ledger_step (OpClaim s now lease) l = (case Claim l s now lease of Inl _ \<Rightarrow> l | Inr (l', c) \<Rightarrow> l')"
| "ledger_step (OpClaimNext i now lease) l = (case ClaimNext l i now lease of Inl _ \<Rightarrow> l | Inr (l', c) \<Rightarrow> l')"
| "ledger_step (OpRetry c) l = (case Retry l c of Inl _ \<Rightarrow> l | Inr l' \<Rightarrow> l')"
| "ledger_step (OpComplete c now) l = (case Complete l c now of Inl _ \<Rightarrow> l | Inr l' \<Rightarrow> l')"

text \<open>Every operation either changes nothing or rewrites one entry by one of three updates.\<close>

definition entry_moves :: "time \<Rightarrow> scheduleEntry \<Rightarrow> scheduleEntry \<Rightarrow> bool" where
  "entry_moves now e e' \<longleftrightarrow>
     (se_State e \<noteq> ''completed'' \<and> (se_State e = ''claimed'' \<longrightarrow> se_LeaseExpires e \<le> now) \<and>
        (\<exists>t > now. e' = claimed_entry e t)) \<or>
     (se_State e = ''claimed'' \<and> e' = retried_entry e) \<or>
     (se_State e = ''claimed'' \<and> now \<le> se_LeaseExpires e \<and> e' = completed_entry e now)"

fun op_now :: "ledger_op \<Rightarrow> time" where
  "op_now (OpClaim s now lease) = now"
| "op_now (OpClaimNext i now lease) = now"
| "op_now (OpRetry c) = 0"
| "op_now (OpComplete c now) = now"

lemma entry_moves_ok:
  "entry_moves now e e' \<Longrightarrow> se_Operation e' = se_Operation e \<and> valid_state (se_State e') \<and>
    (attempted_ok e \<longrightarrow> attempted_ok e')"
  by (auto simp: entry_moves_def entry_updates valid_state_def attempted_ok_def)

lemma entry_movesI:
  "se_State e \<noteq> ''completed'' \<Longrightarrow> \<not> (se_State e = ''claimed'' \<and> now < se_LeaseExpires e) \<Longrightarrow>
    now < t \<Longrightarrow> entry_moves now e (claimed_entry e t)"
  "se_State e = ''claimed'' \<Longrightarrow> entry_moves now e (retried_entry e)"
  "se_State e = ''claimed'' \<Longrightarrow> now \<le> se_LeaseExpires e \<Longrightarrow> entry_moves now e (completed_entry e now)"
  by (auto simp: entry_moves_def)

definition moves :: "time \<Rightarrow> ScheduleCoverageLedger \<Rightarrow> ScheduleCoverageLedger \<Rightarrow> bool" where
  "moves now l l' \<longleftrightarrow> (\<exists>s e e'. gm_get (lg_entries l) s = Some e \<and> entry_moves now e e' \<and>
     l' = put_entry s e' l)"

lemma movesI:
  "gm_get (lg_entries l) s = Some e \<Longrightarrow> entry_moves now e e' \<Longrightarrow> moves now l (put_entry s e' l)"
  by (auto simp: moves_def)

lemma claimLocked_moves:
  assumes "claimLocked l s now lease = Inr (l', c)" "0 < lease"
  shows "moves now l l'"
proof -
  from assms(1) obtain e where e: "gm_get (lg_entries l) s = Some e" "se_State e \<noteq> ''completed''"
    "\<not> (se_State e = ''claimed'' \<and> now < se_LeaseExpires e)"
    and l': "l' = put_entry s (claimed_entry e (now + lease)) l"
    unfolding claimLocked_Inr by blast
  have "entry_moves now e (claimed_entry e (now + lease))"
    using e(2,3) assms(2) by (intro entry_movesI) auto
  with e(1) show ?thesis unfolding l' by (rule movesI)
qed

lemma Claim_moves: "Claim l s now lease = Inr (l', c) \<Longrightarrow> moves now l l'"
  by (auto simp: Claim_Inr dest: claimLocked_moves)

lemma Retry_moves: "Retry l c = Inr l' \<Longrightarrow> moves now l l'"
  by (auto simp only: Retry_Inr currentClaimLocked_Inr intro: movesI entry_movesI(2))

lemma Complete_moves: "Complete l c now = Inr l' \<Longrightarrow> moves now l l'"
  by (auto simp only: Complete_Inr currentClaimLocked_Inr intro: movesI entry_movesI(3))

lemma ClaimNext_moves:
  assumes "ClaimNext l i now lease = Inr (l', c)"
  shows "l' = l \<or> moves now l l'"
proof -
  have r: "claim_first l (shard_subjects l i) now lease = Inr (l', c)" and lease: "0 < lease"
    using assms by (auto simp: ClaimNext_def split: if_splits)
  show ?thesis
  proof (cases c)
    case None
    then show ?thesis using r claim_first_None by metis
  next
    case (Some c')
    with r obtain s where "claimLocked l s now lease = Inr (l', c')"
      using claim_first_Some by blast
    from claimLocked_moves [OF this lease] show ?thesis ..
  qed
qed

lemma ledger_step_moves: "ledger_step op l = l \<or> moves (op_now op) l (ledger_step op l)"
proof (cases op)
  case (OpClaim s now lease)
  then show ?thesis
    by (cases "Claim l s now lease") (auto dest: Claim_moves)
next
  case (OpClaimNext i now lease)
  then show ?thesis by (cases "ClaimNext l i now lease") (auto dest: ClaimNext_moves)
next
  case (OpRetry c)
  then show ?thesis by (cases "Retry l c") (auto dest: Retry_moves)
next
  case (OpComplete c now)
  then show ?thesis by (cases "Complete l c now") (auto dest: Complete_moves)
qed

lemma ledger_step_cases:
  obtains (unchanged) "ledger_step op l = l"
  | (moved) s e e' where "gm_get (lg_entries l) s = Some e" "entry_moves (op_now op) e e'"
      "ledger_step op l = put_entry s e' l"
  using ledger_step_moves [of op l] unfolding moves_def by blast

lemma ledger_step_inv: "ledger_inv l \<Longrightarrow> ledger_inv (ledger_step op l)"
proof (cases op l rule: ledger_step_cases)
  case (moved s e e')
  assume inv: "ledger_inv l"
  then have "attempted_ok e"
    using gm_get_in [OF moved(1)] by (auto simp: ledger_inv_def list_all_iff)
  with inv moved entry_moves_ok [OF moved(2)] show ?thesis by (auto intro: ledger_inv_put)
qed simp

lemma entry_moves_abs:
  "entry_moves now e e' \<Longrightarrow> item_step now (abs_entry e) (abs_entry e')"
  by (auto simp: entry_moves_def entry_updates abs_entry_def intro: item_step.intros)

text \<open>C2: the ledger refines the item state machine: whatever operation runs, with whatever
  arguments and result, every item of the queue either stays as it was or makes one
  \<open>item_step\<close> at the operation's time, at most one item moves, and no item appears or
  disappears.  In particular a live lease is never taken over and a completed item never moves.\<close>

theorem ledger_refines_items:
  "\<exists>s. abs_ledger (ledger_step op l) = (abs_ledger l)(s := abs_ledger (ledger_step op l) s) \<and>
     (abs_ledger (ledger_step op l) s = abs_ledger l s \<or>
      (\<exists>x y. abs_ledger l s = Some x \<and> abs_ledger (ledger_step op l) s = Some y \<and>
         item_step (op_now op) x y))"
proof (cases op l rule: ledger_step_cases)
  case (moved s e e')
  then show ?thesis
    by (intro exI [of _ s]) (auto simp: abs_ledger_def fun_eq_iff intro: entry_moves_abs)
qed simp

section \<open>Completion is final\<close>

definition keeps_done :: "ScheduleCoverageLedger \<Rightarrow> ScheduleCoverageLedger \<Rightarrow> bool" where
  "keeps_done l m \<longleftrightarrow>
     (\<forall>s g t. abs_ledger l s = Some (Done g t) \<longrightarrow> abs_ledger m s = Some (Done g t))"

lemma ledger_step_keeps_done: "keeps_done l (ledger_step op l)"
proof (cases op l rule: ledger_step_cases)
  case (moved s e e')
  then have "item_step (op_now op) (abs_entry e) (abs_entry e')" by (auto intro: entry_moves_abs)
  with moved show ?thesis by (auto simp: keeps_done_def abs_ledger_def)
qed (simp add: keeps_done_def)

interpretation ledger: ordered_steps ledger_step ledger_inv keeps_done
  by unfold_locales (auto simp: keeps_done_def intro: ledger_step_inv ledger_step_keeps_done [unfolded keeps_done_def, rule_format])

lemma abs_ledger_Done:
  "abs_ledger l s = Some (Done g t) \<longleftrightarrow>
    (\<exists>e. gm_get (lg_entries l) s = Some e \<and> se_State e = ''completed'' \<and> se_Generation e = g \<and>
         se_CompletedAt e = t)"
  by (cases "gm_get (lg_entries l) s") (auto simp: abs_ledger_def abs_entry_def)

lemma Complete_done:
  assumes "Complete l c now = Inr l'"
  shows "abs_ledger l' (cl_Subject c) = Some (Done (cl_Generation c) now)"
proof -
  obtain e where e: "currentClaimLocked l c = Inr e"
    "l' = put_entry (cl_Subject c) (completed_entry e now) l"
    using assms unfolding Complete_Inr by blast
  from e(1) have "se_Generation e = cl_Generation c"
    unfolding currentClaimLocked_Inr by (metis ScheduleClaim.select_convs(5) claim_of_def)
  then show ?thesis by (simp add: e(2) abs_ledger_Done completed_entry_def)
qed

lemma done_rejects:
  assumes "abs_ledger l s = Some (Done g t)"
  shows "claimLocked l s now lease = Inl ErrScheduleComplete"
    and "cl_Subject c = s \<Longrightarrow> currentClaimLocked l c = Inl ErrScheduleFenced"
  using assms by (auto simp: abs_ledger_Done claimLocked_def currentClaimLocked_def)

text \<open>C3: a completion is recorded once and for ever: after any sequence of further operations
  the item still carries the completing claim's generation and time, a new claim on it answers
  \<open>ErrScheduleComplete\<close>, and no claim token, not even the one that completed it, can retry or
  complete it again.\<close>

theorem completion_is_final:
  assumes "ledger_inv l" and "Complete l c now = Inr l'"
  shows "abs_ledger (fold ledger_step ops l') (cl_Subject c) = Some (Done (cl_Generation c) now) \<and>
    claimLocked (fold ledger_step ops l') (cl_Subject c) now' lease = Inl ErrScheduleComplete \<and>
    (cl_Subject d = cl_Subject c \<longrightarrow>
       Retry (fold ledger_step ops l') d = Inl ErrScheduleFenced \<and>
       Complete (fold ledger_step ops l') d now' = Inl ErrScheduleFenced)"
proof -
  have "ledger_step (OpComplete c now) l = l'" using assms(2) by simp
  then have "ledger_inv l'" using ledger_step_inv [OF assms(1), of "OpComplete c now"] by simp
  then have "keeps_done l' (fold ledger_step ops l')" by (rule ledger.run_le)
  then have d: "abs_ledger (fold ledger_step ops l') (cl_Subject c) = Some (Done (cl_Generation c) now)"
    using Complete_done [OF assms(2)] by (simp add: keeps_done_def)
  with done_rejects [OF d] show ?thesis by (auto simp: Retry_def Complete_def)
qed

section \<open>Fencing\<close>

definition current_claim :: "ScheduleCoverageLedger \<Rightarrow> ScheduleClaim \<Rightarrow> bool" where
  "current_claim l c \<longleftrightarrow> is_ok (currentClaimLocked l c)"

definition claim_accepted :: "ScheduleCoverageLedger \<Rightarrow> ScheduleClaim \<Rightarrow> time \<Rightarrow> bool" where
  "claim_accepted l c now \<longleftrightarrow> is_ok (Retry l c) \<or> is_ok (Complete l c now)"

definition same_item :: "ScheduleClaim \<Rightarrow> ScheduleClaim \<Rightarrow> bool" where
  "same_item c d \<longleftrightarrow> cl_Subject c = cl_Subject d"

lemma current_claim_iff:
  "current_claim l c \<longleftrightarrow> (\<exists>e. gm_get (lg_entries l) (cl_Subject c) = Some e \<and>
     se_State e = ''claimed'' \<and> c = claim_of e (cl_Subject c))"
  unfolding current_claim_def is_ok_iff currentClaimLocked_Inr by blast

interpretation ledger: fencing current_claim claim_accepted same_item
proof unfold_locales
  fix l c now
  assume "claim_accepted l c now"
  then show "current_claim l c"
    by (auto simp: claim_accepted_def current_claim_def Retry_def Complete_def split: sum.splits)
next
  fix l c d
  assume "current_claim l c" "current_claim l d" "same_item c d"
  then show "c = d" unfolding current_claim_iff same_item_def by (metis option.inject)
qed

lemma Claim_current:
  assumes "Claim l s now lease = Inr (l', c)"
  shows "current_claim l' c" "cl_Subject c = s" "cl_LeaseExpires c = now + lease" "now < cl_LeaseExpires c"
proof -
  obtain e where "l' = put_entry s (claimed_entry e (now + lease)) l"
    "c = claim_of (claimed_entry e (now + lease)) s" and lease: "0 < lease"
    using assms by (auto simp: Claim_Inr claimLocked_Inr)
  then show "current_claim l' c" "cl_Subject c = s" "cl_LeaseExpires c = now + lease"
    "now < cl_LeaseExpires c"
    by (auto simp: current_claim_iff claim_of_def claimed_entry_def)
qed

lemma not_current_fenced:
  assumes "\<not> current_claim l d"
  shows "Retry l d = Inl ErrScheduleFenced \<and> Complete l d now = Inl ErrScheduleFenced"
  using assms
  by (auto simp: current_claim_def Retry_def Complete_def currentClaimLocked_def
      split: option.splits)

text \<open>a new claim fences every other token of its item: right after a successful \<open>Claim\<close>
  any other claim value on the same subject, an abandoned worker's included, is refused with
  \<open>ErrScheduleFenced\<close> by both \<open>Retry\<close> and \<open>Complete\<close>.\<close>

theorem claim_fences_others:
  assumes "Claim l s now lease = Inr (l', c)" and "cl_Subject d = s" and "d \<noteq> c"
  shows "Retry l' d = Inl ErrScheduleFenced \<and> Complete l' d now' = Inl ErrScheduleFenced"
proof -
  have "\<not> current_claim l' d"
    using ledger.current_unique Claim_current [OF assms(1)] assms(2,3)
    by (metis same_item_def)
  then show ?thesis by (rule not_current_fenced)
qed

section \<open>A live lease is not disturbed\<close>

text \<open>Operations other workers may run: anything but using the token \<open>c\<close> itself.\<close>

fun others_op :: "ScheduleClaim \<Rightarrow> ledger_op \<Rightarrow> bool" where
  "others_op c (OpClaim s now lease) \<longleftrightarrow> now < cl_LeaseExpires c"
| "others_op c (OpClaimNext i now lease) \<longleftrightarrow> now < cl_LeaseExpires c"
| "others_op c (OpRetry d) \<longleftrightarrow> d \<noteq> c"
| "others_op c (OpComplete d now) \<longleftrightarrow> d \<noteq> c"

lemma current_claim_put_other:
  "s \<noteq> cl_Subject c \<Longrightarrow> current_claim (put_entry s e l) c = current_claim l c"
  by (auto simp: current_claim_iff)

lemma claimLocked_live:
  assumes "current_claim l c" "now < cl_LeaseExpires c"
  shows "claimLocked l (cl_Subject c) now lease = Inl ErrScheduleLeaseHeld"
proof -
  obtain e where "gm_get (lg_entries l) (cl_Subject c) = Some e" "se_State e = ''claimed''"
    "se_LeaseExpires e = cl_LeaseExpires c"
    using assms(1) unfolding current_claim_iff by (metis ScheduleClaim.select_convs(6) claim_of_def)
  with assms(2) show ?thesis by (simp add: claimLocked_def)
qed

lemma claimLocked_keeps_current:
  assumes "current_claim l c" "now < cl_LeaseExpires c" "claimLocked l s now lease = Inr (l', d)"
  shows "current_claim l' c"
proof -
  have "s \<noteq> cl_Subject c" using claimLocked_live [OF assms(1,2)] assms(3) by auto
  moreover obtain e' where "l' = put_entry s e' l" using assms(3) by (auto simp: claimLocked_Inr)
  ultimately show ?thesis using assms(1) by (simp add: current_claim_put_other)
qed

lemma use_keeps_current:
  assumes "current_claim l c" "current_claim l d" "d \<noteq> c"
  shows "current_claim (put_entry (cl_Subject d) e' l) c"
proof -
  have "cl_Subject d \<noteq> cl_Subject c"
    using ledger.current_unique [OF assms(1,2)] assms(3) by (auto simp: same_item_def)
  then show ?thesis using assms(1) by (simp add: current_claim_put_other)
qed

lemma ledger_step_keeps_current:
  assumes "current_claim l c" "others_op c op"
  shows "current_claim (ledger_step op l) c"
proof (cases op)
  case (OpClaim s now lease)
  then show ?thesis
    using assms by (auto simp: Claim_Inr split: sum.splits intro: claimLocked_keeps_current)
next
  case (OpClaimNext i now lease)
  show ?thesis
  proof (cases "ClaimNext l i now lease")
    case (Inr r)
    obtain l' oc where r: "r = (l', oc)" by (cases r)
    then have f: "claim_first l (shard_subjects l i) now lease = Inr (l', oc)"
      using Inr by (auto simp: ClaimNext_def split: if_splits)
    have "current_claim l' c"
    proof (cases oc)
      case None
      then show ?thesis using f assms(1) claim_first_None by metis
    next
      case (Some d)
      then show ?thesis
        using f claim_first_Some claimLocked_keeps_current assms OpClaimNext
        by (metis others_op.simps(2))
    qed
    then show ?thesis using OpClaimNext Inr r by simp
  qed (use assms OpClaimNext in simp)
next
  case (OpRetry d)
  show ?thesis
  proof (cases "current_claim l d")
    case True
    then obtain e where "currentClaimLocked l d = Inr e" by (auto simp: current_claim_def is_ok_iff)
    then have "ledger_step op l = put_entry (cl_Subject d) (retried_entry e) l"
      using OpRetry by (simp add: Retry_def put_entry_def retried_entry_def)
    then show ?thesis using use_keeps_current [OF assms(1) True] assms(2) OpRetry by simp
  qed (use assms OpRetry not_current_fenced in auto)
next
  case (OpComplete d now)
  show ?thesis
  proof (cases "Complete l d now")
    case (Inr l')
    then obtain e where "currentClaimLocked l d = Inr e" "l' = put_entry (cl_Subject d) (completed_entry e now) l"
      unfolding Complete_Inr by blast
    then show ?thesis
      using use_keeps_current [OF assms(1)] assms(2) OpComplete Inr by (auto simp: current_claim_def)
  qed (use assms OpComplete in simp)
qed

text \<open>C4: a worker that holds a lease can finish: whatever other workers do (claims at times
  before the lease expires, retries and completions with other tokens, in any order), the holder's
  own token stays current, its completion at any time up to the expiry succeeds, and until then a
  competing claim on the item answers \<open>ErrScheduleLeaseHeld\<close>.\<close>

theorem live_lease_is_exclusive:
  assumes "Claim l s now lease = Inr (l', c)" and "list_all (others_op c) ops"
    and "t \<le> now + lease" and "u < now + lease"
  shows "is_ok (Complete (fold ledger_step ops l') c t) \<and>
    claimLocked (fold ledger_step ops l') s u lease' = Inl ErrScheduleLeaseHeld"
proof -
  have "current_claim l' c \<Longrightarrow> current_claim (fold ledger_step ops l') c"
    using assms(2) by (induction ops arbitrary: l') (auto intro: ledger_step_keeps_current)
  then have cur: "current_claim (fold ledger_step ops l') c" using Claim_current(1) [OF assms(1)] by blast
  have sub: "cl_Subject c = s" "cl_LeaseExpires c = now + lease" using Claim_current [OF assms(1)] by auto
  obtain e where e: "currentClaimLocked (fold ledger_step ops l') c = Inr e"
    using cur by (auto simp: current_claim_def is_ok_iff)
  then have "se_LeaseExpires e = now + lease"
    unfolding currentClaimLocked_Inr by (metis ScheduleClaim.select_convs(6) claim_of_def sub(2))
  with e assms(3) have "is_ok (Complete (fold ledger_step ops l') c t)" by (simp add: Complete_def)
  with claimLocked_live [OF cur, of u lease'] sub assms(4) show ?thesis by simp
qed

section \<open>The choice ClaimNext makes\<close>

definition claimable :: "ScheduleCoverageLedger \<Rightarrow> time \<Rightarrow> string \<Rightarrow> bool" where
  "claimable l now s \<longleftrightarrow> (\<exists>e. gm_get (lg_entries l) s = Some e \<and> se_State e \<noteq> ''completed'' \<and>
     \<not> (se_State e = ''claimed'' \<and> now < se_LeaseExpires e))"

definition in_shard :: "ScheduleCoverageLedger \<Rightarrow> int \<Rightarrow> string \<Rightarrow> bool" where
  "in_shard l i s \<longleftrightarrow> (\<exists>e. gm_get (lg_entries l) s = Some e \<and> so_Shard (se_Operation e) = i)"

lemma set_shard_subjects:
  "gm_wf (lg_entries l) \<Longrightarrow> s \<in> set (shard_subjects l i) \<longleftrightarrow> in_shard l i s"
  by (force simp: shard_subjects_def in_shard_def dest: gm_get_in)

lemma claimLocked_claimable:
  assumes "in_shard l i s"
  shows "claimable l now s \<Longrightarrow> \<exists>l' c. claimLocked l s now lease = Inr (l', c) \<and> cl_Subject c = s"
    and "\<not> claimable l now s \<Longrightarrow>
      claimLocked l s now lease = Inl ErrScheduleLeaseHeld \<or> claimLocked l s now lease = Inl ErrScheduleComplete"
  using assms by (auto simp: in_shard_def claimable_def claimLocked_def Let_def claim_of_def)

lemma claim_first_least:
  assumes "sorted ss" "\<forall>s \<in> set ss. in_shard l i s"
  shows "(\<exists>l' c. claim_first l ss now lease = Inr (l', Some c) \<and> claimLocked l (cl_Subject c) now lease = Inr (l', c) \<and>
      cl_Subject c \<in> set ss \<and> claimable l now (cl_Subject c) \<and>
      (\<forall>s \<in> set ss. claimable l now s \<longrightarrow> cl_Subject c \<le> s)) \<or>
    claim_first l ss now lease = Inr (l, None) \<and> (\<forall>s \<in> set ss. \<not> claimable l now s)"
  using assms
proof (induction ss)
  case Nil
  then show ?case by simp
next
  case (Cons s ss)
  show ?case
  proof (cases "claimable l now s")
    case True
    with Cons.prems obtain l' c where "claimLocked l s now lease = Inr (l', c)" "cl_Subject c = s"
      using claimLocked_claimable(1) by (metis list.set_intros(1))
    with True Cons.prems show ?thesis by auto
  next
    case False
    with Cons.prems have "claimLocked l s now lease = Inl ErrScheduleLeaseHeld \<or>
        claimLocked l s now lease = Inl ErrScheduleComplete"
      using claimLocked_claimable(2) by (metis list.set_intros(1))
    then have "claim_first l (s # ss) now lease = claim_first l ss now lease" by auto
    with Cons False show ?thesis by auto
  qed
qed

text \<open>C5: with valid input \<open>ClaimNext\<close> never fails; it claims the least claimable subject of the
  shard in string order, exactly as \<open>Claim\<close> on that subject would, and reports that nothing is
  left only when no item of the shard is claimable, leaving the ledger as it was.\<close>

theorem claim_next_takes_least:
  assumes "ledger_inv l" and "0 \<le> shard" "shard < sc_ShardCount (pl_Scheduler (lg_plan l))"
    and "0 < lease" and "iv_Start (pl_Interval (lg_plan l)) \<le> now"
  shows "(\<exists>l' c. ClaimNext l shard now lease = Inr (l', Some c) \<and>
      Claim l (cl_Subject c) now lease = Inr (l', c) \<and>
      in_shard l shard (cl_Subject c) \<and> claimable l now (cl_Subject c) \<and>
      (\<forall>s. in_shard l shard s \<and> claimable l now s \<longrightarrow> cl_Subject c \<le> s)) \<or>
    ClaimNext l shard now lease = Inr (l, None) \<and>
      (\<forall>s. in_shard l shard s \<longrightarrow> \<not> claimable l now s)"
proof -
  have wf: "gm_wf (lg_entries l)" using assms(1) by (simp add: ledger_inv_def ledger_wf_def)
  have "sorted (shard_subjects l shard)" by (simp add: shard_subjects_def)
  moreover have "\<forall>s \<in> set (shard_subjects l shard). in_shard l shard s"
    using set_shard_subjects [OF wf] by blast
  ultimately show ?thesis
    using claim_first_least [of "shard_subjects l shard" l shard now lease] assms(2-5)
      set_shard_subjects [OF wf]
    by (auto simp: ClaimNext_def Claim_def)
qed

section \<open>Snapshots\<close>

lemma foldl_put_queue:
  "distinct (List.map so_Subject q) \<Longrightarrow> set (gm_keys m) \<inter> so_Subject ` set q = {} \<Longrightarrow>
    foldl (\<lambda>acc item. gm_put (so_Subject item) (f item) acc) m q =
    m @ List.map (\<lambda>item. (so_Subject item, f item)) q"
proof (induction q arbitrary: m)
  case Nil
  then show ?case by simp
next
  case (Cons x q)
  then have "so_Subject x \<notin> set (gm_keys m)" by auto
  then show ?case using Cons by (subst foldl.simps) (auto simp: gm_put_absent)
qed

lemma NewLedger_Inr:
  assumes "NewScheduleCoverageLedger plan queue = Inr l"
  shows "VerifyScheduleCoveragePlan plan queue = None"
    and "l = \<lparr>lg_plan = plan, lg_entries = List.map (\<lambda>item. (so_Subject item, queued_entry item)) queue\<rparr>"
proof -
  show v: "VerifyScheduleCoveragePlan plan queue = None"
    using assms by (auto simp: NewScheduleCoverageLedger_def split: option.splits)
  show "l = \<lparr>lg_plan = plan, lg_entries = List.map (\<lambda>item. (so_Subject item, queued_entry item)) queue\<rparr>"
    using assms v foldl_put_queue [OF Verify_distinct [OF v], of "[]" queued_entry]
    by (simp add: NewScheduleCoverageLedger_def)
qed

lemma queued_entry_simps [simp]:
  "se_Operation (queued_entry item) = item" "se_State (queued_entry item) = ''queued''"
  "se_Attempted (queued_entry item) = False"
  by (simp_all add: queued_entry_def)

lemma entry_ops_queued [simp]:
  "entry_ops (List.map (\<lambda>item. (so_Subject item, queued_entry item)) q) = q"
  by (simp add: entry_ops_def comp_def)

lemma NewLedger_inv: "NewScheduleCoverageLedger plan queue = Inr l \<Longrightarrow> ledger_inv l"
  using NewLedger_Inr [of plan queue l] Verify_distinct [of plan queue]
  by (simp add: ledger_inv_def ledger_wf_def list_all_iff snapshot_entry_ok_def attempted_ok_def
      comp_def)

text \<open>C6: a new ledger satisfies the invariant, every operation keeps it, and a ledger that
  satisfies it survives a restart: restoring its snapshot gives back the same ledger.\<close>

theorem ledger_survives_restart:
  assumes "NewScheduleCoverageLedger plan queue = Inr l"
  shows "ledger_inv (fold ledger_step ops l) \<and>
    RestoreScheduleCoverageLedger (Snapshot (fold ledger_step ops l)) = Inr (fold ledger_step ops l)"
proof -
  let ?m = "fold ledger_step ops l"
  have inv: "ledger_inv ?m" using NewLedger_inv [OF assms] by (rule ledger.run_inv)
  then have wf: "gm_wf (lg_entries ?m)" "list_all snapshot_entry_ok (lg_entries ?m)"
    "VerifyScheduleCoveragePlan (lg_plan ?m) (entry_ops (lg_entries ?m)) = None"
    by (auto simp: ledger_inv_def ledger_wf_def)
  then have "RestoreScheduleCoverageLedger (Snapshot ?m) = Inr ?m"
    by (simp add: RestoreScheduleCoverageLedger_def Snapshot_def entry_ops_def)
  with inv show ?thesis ..
qed

section \<open>Coverage receipts\<close>

definition entry_in :: "nat \<Rightarrow> scheduleEntry \<Rightarrow> bool" where
  "entry_in i e \<longleftrightarrow> so_Shard (se_Operation e) = int i"

definition entry_done_by :: "time \<Rightarrow> scheduleEntry \<Rightarrow> bool" where
  "entry_done_by t e \<longleftrightarrow> se_State e = ''completed'' \<and> se_CompletedAt e \<le> t"

definition tally :: "(scheduleEntry \<Rightarrow> bool) \<Rightarrow> (string, scheduleEntry) gomap \<Rightarrow> int" where
  "tally P m = int (length (filter (\<lambda>(s, e). P e) m))"

lemma tally_Cons: "tally P ((s, e) # m) = (if P e then 1 else 0) + tally P m"
  by (simp add: tally_def)

lemma tally_Nil [simp]: "tally P [] = 0" by (simp add: tally_def)

lemma tally_nonneg [simp]: "0 \<le> tally P m" by (simp add: tally_def)

lemma tally_mono: "(\<And>s e. (s, e) \<in> set m \<Longrightarrow> P e \<Longrightarrow> Q e) \<Longrightarrow> tally P m \<le> tally Q m"
proof (induction m)
  case (Cons p m)
  then have "tally P m \<le> tally Q m" by (metis list.set_intros(2))
  with Cons.prems show ?case by (cases p) (auto simp: tally_Cons)
qed simp

lemma count_entries:
  "foldl (\<lambda>c (subject, entry). count_entry (int i) t d entry c) c m =
    c\<lparr>n_Attempted := n_Attempted c + tally (\<lambda>e. entry_in i e \<and> se_Attempted e) m,
      n_Completed := n_Completed c + tally (\<lambda>e. entry_in i e \<and> entry_done_by t e) m,
      n_Late := n_Late c + tally (\<lambda>e. entry_in i e \<and> entry_done_by t e \<and> se_CompletedAt e > d) m\<rparr>"
proof (induction m arbitrary: c)
  case Nil
  then show ?case by simp
next
  case (Cons p m)
  then show ?case
    by (cases p) (simp add: tally_Cons count_entry_def Let_def entry_in_def entry_done_by_def)
qed

lemma shard_counts_eq:
  "shard_counts l t i shard =
    \<lparr>n_Expected = scs_Expected shard, n_Assigned = scs_Expected shard,
     n_Attempted = tally (\<lambda>e. entry_in i e \<and> se_Attempted e) (lg_entries l),
     n_Completed = tally (\<lambda>e. entry_in i e \<and> entry_done_by t e) (lg_entries l),
     n_Late = tally (\<lambda>e. entry_in i e \<and> entry_done_by t e \<and>
        se_CompletedAt e > iv_Start (pl_Interval (lg_plan l)) + scheduleInterval) (lg_entries l),
     n_Missing = scs_Expected shard - tally (\<lambda>e. entry_in i e \<and> entry_done_by t e) (lg_entries l)\<rparr>"
  by (simp add: shard_counts_def count_entries zero_counts_def Let_def)

lemma tally_shard_queue: "tally (entry_in i) m = int (length (shard_queue (entry_ops m) i))"
  by (induction m) (auto simp: tally_Cons entry_ops_def shard_queue_def entry_in_def)

lemma sum_tally_shards:
  assumes "\<And>s e. (s, e) \<in> set m \<Longrightarrow> 0 \<le> so_Shard (se_Operation e) \<and> so_Shard (se_Operation e) < int n"
  shows "(\<Sum>i<n. tally (\<lambda>e. entry_in i e \<and> P e) m) = tally P m"
  using assms
proof (induction m)
  case Nil
  then show ?case by simp
next
  case (Cons p m)
  obtain s e where p: "p = (s, e)" by (cases p)
  with Cons.prems [of s e] have j: "nat (so_Shard (se_Operation e)) < n"
    "\<And>i. entry_in i e \<longleftrightarrow> i = nat (so_Shard (se_Operation e))"
    by (auto simp: entry_in_def)
  have "(\<Sum>i<n. tally (\<lambda>e. entry_in i e \<and> P e) (p # m)) =
      (\<Sum>i<n. (if i = nat (so_Shard (se_Operation e)) \<and> P e then 1 else 0)) +
      (\<Sum>i<n. tally (\<lambda>e. entry_in i e \<and> P e) m)"
    by (simp add: p tally_Cons j(2) sum.distrib)
  also have "(\<Sum>i<n. (if i = nat (so_Shard (se_Operation e)) \<and> P e then 1 else 0)) = (if P e then 1 else (0::int))"
    using j(1) by (cases "P e") simp_all
  also have "(\<Sum>i<n. tally (\<lambda>e. entry_in i e \<and> P e) m) = tally P m"
    using Cons.prems by (intro Cons.IH) (meson list.set_intros(2))
  finally show ?case by (simp add: p tally_Cons)
qed

lemma sum_shard_counts_eq:
  "sum_shard_counts shards =
    \<lparr>n_Expected = (\<Sum>s \<leftarrow> shards. n_Expected (sr_Counts s)), n_Assigned = (\<Sum>s \<leftarrow> shards. n_Assigned (sr_Counts s)),
     n_Attempted = (\<Sum>s \<leftarrow> shards. n_Attempted (sr_Counts s)), n_Completed = (\<Sum>s \<leftarrow> shards. n_Completed (sr_Counts s)),
     n_Late = (\<Sum>s \<leftarrow> shards. n_Late (sr_Counts s)), n_Missing = (\<Sum>s \<leftarrow> shards. n_Missing (sr_Counts s))\<rparr>"
proof -
  have "foldl (\<lambda>acc s. addScheduleCounts acc (sr_Counts s)) c shards =
    \<lparr>n_Expected = n_Expected c + (\<Sum>s \<leftarrow> shards. n_Expected (sr_Counts s)), n_Assigned = n_Assigned c + (\<Sum>s \<leftarrow> shards. n_Assigned (sr_Counts s)),
     n_Attempted = n_Attempted c + (\<Sum>s \<leftarrow> shards. n_Attempted (sr_Counts s)), n_Completed = n_Completed c + (\<Sum>s \<leftarrow> shards. n_Completed (sr_Counts s)),
     n_Late = n_Late c + (\<Sum>s \<leftarrow> shards. n_Late (sr_Counts s)), n_Missing = n_Missing c + (\<Sum>s \<leftarrow> shards. n_Missing (sr_Counts s))\<rparr>"
    for c
    by (induction shards arbitrary: c) (simp_all add: addScheduleCounts_def)
  then show ?thesis by (simp add: sum_shard_counts_def zero_counts_def)
qed

definition late_at :: "ScheduleCoverageLedger \<Rightarrow> time \<Rightarrow> scheduleEntry \<Rightarrow> bool" where
  "late_at l t e \<longleftrightarrow> entry_done_by t e \<and>
     se_CompletedAt e > iv_Start (pl_Interval (lg_plan l)) + scheduleInterval"

definition coverage_totals :: "ScheduleCoverageLedger \<Rightarrow> time \<Rightarrow> ScheduleCoverageCounts" where
  "coverage_totals l t =
     \<lparr>n_Expected = int (length (lg_entries l)), n_Assigned = int (length (lg_entries l)),
      n_Attempted = tally se_Attempted (lg_entries l),
      n_Completed = tally (entry_done_by t) (lg_entries l),
      n_Late = tally (late_at l t) (lg_entries l),
      n_Missing = int (length (lg_entries l)) - tally (entry_done_by t) (lg_entries l)\<rparr>"

lemma ledger_wf_shard:
  assumes "ledger_wf l" "i < nat (sc_ShardCount (pl_Scheduler (lg_plan l)))"
  shows "scs_Index (pl_Shards (lg_plan l) ! i) = int i"
    and "scs_Expected (pl_Shards (lg_plan l) ! i) = tally (entry_in i) (lg_entries l)"
    and "sha256Pattern (scs_QueueSHA256 (pl_Shards (lg_plan l) ! i))"
  using assms by (auto simp: ledger_wf_def Verify_None_iff tally_shard_queue)

lemma ledger_wf_range:
  assumes "ledger_wf l" "(s, e) \<in> set (lg_entries l)"
  shows "0 \<le> so_Shard (se_Operation e)"
    and "so_Shard (se_Operation e) < int (nat (sc_ShardCount (pl_Scheduler (lg_plan l))))"
proof -
  have "se_Operation e \<in> set (entry_ops (lg_entries l))" using assms(2) by (force simp: entry_ops_def)
  then have "queue_item_ok (lg_plan l) (nat (sc_ShardCount (pl_Scheduler (lg_plan l)))) (se_Operation e)"
    using assms(1) by (auto simp: ledger_wf_def Verify_None_iff list_all_iff)
  then show "0 \<le> so_Shard (se_Operation e)"
    "so_Shard (se_Operation e) < int (nat (sc_ShardCount (pl_Scheduler (lg_plan l))))"
    by (auto simp: queue_item_ok_def)
qed

lemma shard_counts_valid:
  assumes "ledger_inv l" "i < nat (sc_ShardCount (pl_Scheduler (lg_plan l)))"
  shows "validScheduleCounts (shard_counts l t i (pl_Shards (lg_plan l) ! i))"
proof -
  let ?m = "lg_entries l"
  have a: "\<And>s e. (s, e) \<in> set ?m \<Longrightarrow> attempted_ok e"
    using assms(1) by (auto simp: ledger_inv_def list_all_iff)
  have "tally (\<lambda>e. entry_in i e \<and> se_Attempted e) ?m \<le> tally (entry_in i) ?m"
    by (rule tally_mono) simp
  moreover have "tally (\<lambda>e. entry_in i e \<and> entry_done_by t e) ?m \<le> tally (\<lambda>e. entry_in i e \<and> se_Attempted e) ?m"
    by (rule tally_mono) (use a in \<open>force simp: attempted_ok_def entry_done_by_def\<close>)
  moreover have "tally (\<lambda>e. entry_in i e \<and> entry_done_by t e \<and> d < se_CompletedAt e) ?m \<le>
      tally (\<lambda>e. entry_in i e \<and> entry_done_by t e) ?m" for d
    by (rule tally_mono) simp
  ultimately show ?thesis
    using assms ledger_wf_shard(2) [of l i]
    by (simp add: validScheduleCounts_def shard_counts_eq ledger_inv_def)
qed

definition receipt_shards ::
  "ScheduleCoverageLedger \<Rightarrow> time \<Rightarrow> ScheduleCoverageShardReceipt list" where
  "receipt_shards l t = List.map (\<lambda>(index, shard).
     \<lparr>sr_Index = int index, sr_QueueSHA256 = scs_QueueSHA256 shard,
      sr_Counts = shard_counts l t index shard\<rparr>) (List.enumerate 0 (pl_Shards (lg_plan l)))"

lemma length_receipt_shards [simp]: "length (receipt_shards l t) = length (pl_Shards (lg_plan l))"
  by (simp add: receipt_shards_def)

lemma nth_receipt_shards:
  "i < length (pl_Shards (lg_plan l)) \<Longrightarrow> receipt_shards l t ! i =
    \<lparr>sr_Index = int i, sr_QueueSHA256 = scs_QueueSHA256 (pl_Shards (lg_plan l) ! i),
     sr_Counts = shard_counts l t i (pl_Shards (lg_plan l) ! i)\<rparr>"
  by (simp add: receipt_shards_def nth_enumerate_eq)

lemma sum_receipt_shards:
  "(\<Sum>s \<leftarrow> receipt_shards l t. f (sr_Counts s)) =
    (\<Sum>i<length (pl_Shards (lg_plan l)). f (shard_counts l t i (pl_Shards (lg_plan l) ! i)))"
  by (simp add: sum_list_sum_nth atLeast0LessThan nth_receipt_shards)

lemma receipt_aggregate:
  assumes "ledger_wf l"
  shows "sum_shard_counts (receipt_shards l t) = coverage_totals l t"
proof -
  let ?n = "nat (sc_ShardCount (pl_Scheduler (lg_plan l)))"
  have len: "length (pl_Shards (lg_plan l)) = ?n"
    using assms by (auto simp: ledger_wf_def Verify_None_iff validSchedulePlan_count)
  have t: "(\<Sum>i<?n. tally (\<lambda>e. entry_in i e \<and> P e) (lg_entries l)) = tally P (lg_entries l)" for P
    by (rule sum_tally_shards) (use ledger_wf_range [OF assms] in blast)
  have "(\<Sum>i<?n. scs_Expected (pl_Shards (lg_plan l) ! i)) = (\<Sum>i<?n. tally (\<lambda>e. entry_in i e \<and> True) (lg_entries l))"
    by (rule sum.cong) (use ledger_wf_shard(2) [OF assms] in auto)
  also have "\<dots> = int (length (lg_entries l))" unfolding t by (simp add: tally_def case_prod_unfold)
  finally have e: "(\<Sum>i<?n. scs_Expected (pl_Shards (lg_plan l) ! i)) = int (length (lg_entries l))" .
  show ?thesis
    unfolding sum_shard_counts_eq sum_receipt_shards len coverage_totals_def
    by (simp add: shard_counts_eq sum_subtractf e t late_at_def [abs_def])
qed

lemma sum_validScheduleCounts:
  "list_all (\<lambda>s. validScheduleCounts (sr_Counts s)) shards \<Longrightarrow> validScheduleCounts (sum_shard_counts shards)"
  unfolding sum_shard_counts_eq
  by (induction shards) (auto simp: validScheduleCounts_def)

definition built_receipt :: "ScheduleCoverageLedger \<Rightarrow> time \<Rightarrow> ScheduleCoverageReceipt" where
  "built_receipt l t = \<lparr>rc_SchemaVersion = ScheduleCoverageReceiptSchemaVersion,
     rc_Registry = pl_Registry (lg_plan l), rc_Interval = pl_Interval (lg_plan l),
     rc_Scheduler = pl_Scheduler (lg_plan l), rc_ObservedAt = t, rc_Shards = receipt_shards l t,
     rc_Aggregate = sum_shard_counts (receipt_shards l t)\<rparr>"

lemma CoverageReceipt_iff:
  "CoverageReceipt ok l t = Inr r \<longleftrightarrow> \<not> IsZero t \<and> iv_Start (pl_Interval (lg_plan l)) \<le> t \<and>
    r = built_receipt l t \<and> receipt_Validate ok r = None"
  unfolding CoverageReceipt_def Let_def receipt_shards_def [symmetric] built_receipt_def [symmetric]
  by (auto split: option.splits)

lemma built_receipt_simps:
  assumes "ledger_wf l"
  shows "receiptPlan (built_receipt l t) = lg_plan l" "rc_ObservedAt (built_receipt l t) = t"
    "rc_Aggregate (built_receipt l t) = coverage_totals l t"
proof -
  have pv: "validSchedulePlan (lg_plan l)" using assms by (auto simp: ledger_wf_def Verify_plan_valid)
  then have len: "length (pl_Shards (lg_plan l)) = nat (sc_ShardCount (pl_Scheduler (lg_plan l)))"
    by (rule validSchedulePlan_count)
  have "receiptPlanShards (receipt_shards l t) = pl_Shards (lg_plan l)"
    by (rule nth_equalityI)
       (use ledger_wf_shard(1) [OF assms] len in \<open>auto simp: receiptPlanShards_def nth_receipt_shards shard_counts_eq\<close>)
  then show "receiptPlan (built_receipt l t) = lg_plan l"
    using pv by (simp add: receiptPlan_def built_receipt_def validSchedulePlan_def)
  show "rc_ObservedAt (built_receipt l t) = t" "rc_Aggregate (built_receipt l t) = coverage_totals l t"
    by (simp_all add: built_receipt_def receipt_aggregate [OF assms])
qed

lemma CoverageReceipt_Inr:
  assumes "CoverageReceipt ok l t = Inr r" "ledger_wf l"
  shows "receipt_Validate ok r = None" "receiptPlan r = lg_plan l" "rc_ObservedAt r = t"
    "rc_Aggregate r = coverage_totals l t"
  using assms built_receipt_simps [OF assms(2)] by (auto simp: CoverageReceipt_iff)

lemma coverage_receipt_exists:
  assumes "ledger_inv l" and "iv_Start (pl_Interval (lg_plan l)) \<le> t" and "\<not> IsZero t"
    and "json_time_ok (iv_Start (pl_Interval (lg_plan l)))" "json_time_ok t"
    and "\<And>r. schedule_coverage_schema r \<Longrightarrow> schema_ok r"
  shows "\<exists>r. CoverageReceipt schema_ok l t = Inr r \<and> receipt_Validate schema_ok r = None \<and>
    receiptPlan r = lg_plan l \<and> rc_ObservedAt r = t \<and> rc_Aggregate r = coverage_totals l t"
proof -
  let ?p = "lg_plan l" and ?n = "nat (sc_ShardCount (pl_Scheduler (lg_plan l)))"
  have pv: "validSchedulePlan ?p" using assms(1) by (auto simp: ledger_inv_def ledger_wf_def Verify_plan_valid)
  then have len: "length (pl_Shards ?p) = ?n" by (rule validSchedulePlan_count)
  have wf: "ledger_wf l" using assms(1) by (simp add: ledger_inv_def)
  define r where "r = built_receipt l t"
  note built = built_receipt_simps [OF wf, of t, folded r_def]
  have counts: "list_all (\<lambda>s. validScheduleCounts (sr_Counts s)) (receipt_shards l t)"
    using shard_counts_valid [OF assms(1)] by (auto simp: list_all_length nth_receipt_shards len)
  then have agg: "validScheduleCounts (sum_shard_counts (receipt_shards l t))"
    by (rule sum_validScheduleCounts)
  have "schedule_coverage_schema r"
  proof -
    have "\<And>c. validScheduleCounts c \<Longrightarrow> schema_counts c" by (auto simp: validScheduleCounts_def schema_counts_def)
    with counts agg have "list_all (\<lambda>s. schema_counts (sr_Counts s)) (rc_Shards r)" "schema_counts (rc_Aggregate r)"
      by (auto simp: r_def built_receipt_def list_all_iff)
    moreover have "list_all (\<lambda>s. sr_Index s \<ge> 0 \<and> sha256Pattern (sr_QueueSHA256 s)) (rc_Shards r)"
      using ledger_wf_shard(3) [OF wf] by (auto simp: r_def built_receipt_def list_all_length nth_receipt_shards len)
    ultimately show ?thesis
      using pv len by (auto simp: schedule_coverage_schema_def r_def built_receipt_def validSchedulePlan_def list_all_iff
          ScheduleCoverageReceiptSchemaVersion_def scheduleAssignmentV1_def scheduleInterval_def go_defs)
  qed
  moreover have "list_all (\<lambda>(index, shard). sr_Index shard = int index \<and>
      sha256Pattern (sr_QueueSHA256 shard) \<and> validScheduleCounts (sr_Counts shard)) (List.enumerate 0 (rc_Shards r))"
    using ledger_wf_shard(3) [OF wf] counts
    by (auto simp: r_def built_receipt_def list_all_length nth_enumerate_eq nth_receipt_shards len)
  ultimately have v: "receipt_Validate schema_ok r = None"
    using assms(2-6) built(1) pv agg
    by (simp add: receipt_Validate_def receipt_json_ok_def) (simp add: r_def built_receipt_def)
  then have "CoverageReceipt schema_ok l t = Inr r"
    using assms(2,3) by (simp add: CoverageReceipt_iff r_def)
  with v built show ?thesis by simp
qed

text \<open>C7: at any time from the interval's start on, a ledger in its invariant yields a coverage
  receipt (the schema engine is only asked to accept what the schema file accepts), the receipt
  validates and carries the ledger's own plan, and its aggregate counts the queue exactly:
  everything is expected and assigned, the attempted, completed and late items are the entries in
  those states, and the rest is missing.\<close>

theorem coverage_receipt_counts_queue:
  assumes "ledger_inv l" and "iv_Start (pl_Interval (lg_plan l)) \<le> t" and "\<not> IsZero t"
    and "json_time_ok (iv_Start (pl_Interval (lg_plan l)))" "json_time_ok t"
    and "\<And>r. schedule_coverage_schema r \<Longrightarrow> schema_ok r"
  shows "\<exists>r. CoverageReceipt schema_ok l t = Inr r \<and> receipt_Validate schema_ok r = None \<and>
    receiptPlan r = lg_plan l \<and> rc_ObservedAt r = t \<and> rc_Aggregate r = coverage_totals l t"
  using assms by (rule coverage_receipt_exists)

section \<open>An example ledger\<close>

definition example_registry :: ScheduleCoverageRegistry where
  "example_registry = \<lparr>reg_Revision = replicate 40 (CHR ''b''), reg_ManifestSHA256 = replicate 64 (CHR ''a'')\<rparr>"

definition example_queue :: "ScheduledOperation list" where
  "example_queue = List.map (scheduled example_registry scheduleInterval 1) [example_operation]"

definition example_plan :: ScheduleCoveragePlan where
  "example_plan = \<lparr>pl_SchemaVersion = ScheduleCoverageReceiptSchemaVersion, pl_Registry = example_registry,
     pl_Interval = \<lparr>iv_Start = scheduleInterval, iv_DurationSeconds = scheduleInterval div second\<rparr>,
     pl_Scheduler = \<lparr>sc_ShardCount = 1, sc_AssignmentAlgorithm = scheduleAssignmentV1\<rparr>,
     pl_Shards = shards_of (List.map (shard_queue example_queue) [0..<nat 1])\<rparr>"

definition example_subject :: string where
  "example_subject = lengthPrefixedSHA256 example_identity"

definition example_ledger :: ScheduleCoverageLedger where
  "example_ledger = \<lparr>lg_plan = example_plan,
     lg_entries = [(example_subject, queued_entry (hd example_queue))]\<rparr>"

lemma StatusSubject_example [simp]: "StatusSubject example_operation = example_subject"
  by (simp add: StatusSubject_def example_operation_def example_subject_def)

lemma example_subject_nonempty [simp]: "example_subject \<noteq> []" "[] \<noteq> example_subject"
proof -
  have "sha256Pattern example_subject" by (simp add: example_subject_def lengthPrefixedSHA256_def)
  then show "example_subject \<noteq> []" "[] \<noteq> example_subject" by (auto dest: sha256Pattern_nonempty)
qed

lemma example_plan_verified: "VerifyScheduleCoveragePlan example_plan example_queue = None"
  by (rule verify_built_plan [OF example_plan_def example_queue_def])
     (simp_all add: go_defs scheduleInterval_def time_Truncate_def example_registry_def commitPattern_def
       sha256Pattern_def hex_string_def is_lower_hex_def list_all_iff)

lemma example_ledger_new: "NewScheduleCoverageLedger example_plan example_queue = Inr example_ledger"
  by (simp add: NewScheduleCoverageLedger_def example_plan_verified)
     (simp add: example_ledger_def example_queue_def)

lemma example_ledger_inv: "ledger_inv example_ledger"
  by (rule NewLedger_inv [OF example_ledger_new])

definition example_claim :: "ScheduleCoverageLedger \<times> ScheduleClaim" where
  "example_claim =
     (let e = claimed_entry (queued_entry (hd example_queue)) (scheduleInterval + 5)
      in (put_entry example_subject e example_ledger, claim_of e example_subject))"

lemma example_claim_ok:
  "Claim example_ledger example_subject scheduleInterval 5 = Inr (fst example_claim, snd example_claim)"
  by (simp add: example_claim_def Let_def Claim_Inr claimLocked_Inr)
     (simp add: example_ledger_def example_plan_def)

definition example_done :: ScheduleCoverageLedger where
  "example_done = put_entry example_subject
     (completed_entry (claimed_entry (queued_entry (hd example_queue)) (scheduleInterval + 5)) (scheduleInterval + 3))
     (fst example_claim)"

lemma example_claim_inv: "ledger_inv (fst example_claim)"
  using ledger_step_inv [OF example_ledger_inv, of "OpClaim example_subject scheduleInterval 5"]
  by (simp add: example_claim_ok case_prod_unfold)

lemma example_complete_ok:
  "Complete (fst example_claim) (snd example_claim) (scheduleInterval + 3) = Inr example_done"
  unfolding Complete_Inr currentClaimLocked_Inr
  by (rule exI [of _ "claimed_entry (queued_entry (hd example_queue)) (scheduleInterval + 5)"])
     (simp add: example_claim_def Let_def claim_of_def example_done_def claimed_entry_def)

theorem completion_is_final_witness:
  "abs_ledger (fold ledger_step [OpClaim example_subject (scheduleInterval + 9) 5] example_done)
     example_subject = Some (Done 1 (scheduleInterval + 3))"
proof -
  have "cl_Subject (snd example_claim) = example_subject" "cl_Generation (snd example_claim) = 1"
    by (simp_all add: example_claim_def Let_def claim_of_def claimed_entry_def queued_entry_def)
  with completion_is_final [OF example_claim_inv example_complete_ok,
      of "[OpClaim example_subject (scheduleInterval + 9) 5]"]
  show ?thesis by (simp del: fold_simps)
qed

theorem claim_fences_others_witness:
  "Retry (fst example_claim) (snd example_claim\<lparr>cl_Generation := 0\<rparr>) = Inl ErrScheduleFenced"
proof -
  have sub: "cl_Subject (snd example_claim\<lparr>cl_Generation := 0\<rparr>) = example_subject"
    by (simp add: example_claim_def Let_def claim_of_def)
  have "cl_Generation (snd example_claim) = 1"
    by (simp add: example_claim_def Let_def claim_of_def claimed_entry_def queued_entry_def)
  then have ne: "snd example_claim\<lparr>cl_Generation := 0\<rparr> \<noteq> snd example_claim"
    by (metis ScheduleClaim.select_convs(5) ScheduleClaim.surjective ScheduleClaim.update_convs(5) zero_neq_one)
  from claim_fences_others [OF example_claim_ok sub ne] show ?thesis by blast
qed

theorem live_lease_is_exclusive_witness:
  "is_ok (Complete (fold ledger_step [OpClaim example_subject (scheduleInterval + 1) 7] (fst example_claim))
     (snd example_claim) (scheduleInterval + 5))"
proof -
  have "list_all (others_op (snd example_claim)) [OpClaim example_subject (scheduleInterval + 1) 7]"
    by (simp add: example_claim_def Let_def claim_of_def claimed_entry_def)
  from live_lease_is_exclusive [OF example_claim_ok this, of "scheduleInterval + 5" scheduleInterval]
  show ?thesis by (simp del: fold_simps)
qed

theorem claim_next_takes_least_witness:
  "\<exists>l' c. ClaimNext example_ledger 0 scheduleInterval 5 = Inr (l', Some c) \<and> cl_Subject c = example_subject"
proof -
  have shard: "so_Shard (hd example_queue) = 0"
    by (simp add: example_queue_def scheduleShard_def)
  have cl: "in_shard example_ledger 0 example_subject" "claimable example_ledger scheduleInterval example_subject"
    by (simp_all add: in_shard_def claimable_def example_ledger_def shard)
  have only: "in_shard example_ledger 0 s \<Longrightarrow> s = example_subject" for s
    by (auto simp: in_shard_def example_ledger_def split: if_splits)
  have "sc_ShardCount (pl_Scheduler (lg_plan example_ledger)) = 1"
    "iv_Start (pl_Interval (lg_plan example_ledger)) = scheduleInterval"
    by (simp_all add: example_ledger_def example_plan_def)
  with claim_next_takes_least [OF example_ledger_inv, of 0 5 scheduleInterval] cl only show ?thesis by auto
qed

theorem ledger_survives_restart_witness:
  "RestoreScheduleCoverageLedger (Snapshot (fst example_claim)) = Inr (fst example_claim)"
  using ledger_survives_restart [OF example_ledger_new, of "[OpClaim example_subject scheduleInterval 5]"]
  by (simp add: example_claim_ok case_prod_unfold)

theorem coverage_receipt_counts_queue_witness:
  "\<exists>r. CoverageReceipt schedule_coverage_schema example_ledger scheduleInterval = Inr r \<and>
     rc_Aggregate r = \<lparr>n_Expected = 1, n_Assigned = 1, n_Attempted = 0, n_Completed = 0, n_Late = 0, n_Missing = 1\<rparr>"
proof -
  have st: "iv_Start (pl_Interval (lg_plan example_ledger)) = scheduleInterval"
    by (simp add: example_ledger_def example_plan_def)
  have ok: "\<not> IsZero scheduleInterval" "json_time_ok scheduleInterval"
    by (simp_all add: go_defs scheduleInterval_def json_time_ok_def)
  have "coverage_totals example_ledger scheduleInterval =
    \<lparr>n_Expected = 1, n_Assigned = 1, n_Attempted = 0, n_Completed = 0, n_Late = 0, n_Missing = 1\<rparr>"
    by (simp add: coverage_totals_def example_ledger_def tally_def entry_done_by_def late_at_def)
  with coverage_receipt_counts_queue [OF example_ledger_inv, of scheduleInterval schedule_coverage_schema] st ok
  show ?thesis by auto
qed

end
