(* ===== verification/Schedule_Authority.thy ===== *)
theory Schedule_Authority
  imports Schedule_Ledger
begin

text \<open>
  \<^verbatim>\<open>internal/health/schedule_authority.go\<close> and \<^verbatim>\<open>schedule_lifecycle.go\<close>: the ledger kept in a
  state file that several processes share.  The world of an authority is the file at its
  state path; an operation takes the outcomes of its I/O and returns its result, the
  instance and the file.  The lock file next to the state file serialises whole operations,
  so concurrent processes are sequences of operations by several instances on one file.
\<close>

section \<open>State\<close>

record scheduleCoverageAuthorityState =
  sa_SchemaVersion :: string
  sa_Generation :: "64 word"
  sa_Ledger :: ScheduleCoverageLedgerSnapshot
  sa_Latest :: "ScheduleCoverageReceipt option"
  sa_Previous :: "ScheduleCoverageReceipt option"

record ScheduleCoverageAuthority =
  au_statePath :: string
  au_ledger :: ScheduleCoverageLedger
  au_latest :: "ScheduleCoverageReceipt option"
  au_previous :: "ScheduleCoverageReceipt option"
  au_generation :: "64 word"

record ScheduleCoverageDoctorReport =
  dr_SchemaVersion :: string
  dr_ReceiptState :: string
  dr_Registry :: ScheduleCoverageRegistry
  dr_ShardCount :: int
  dr_LatestInterval :: time
  dr_Counts :: ScheduleCoverageCounts

definition ScheduleCoverageAuthorityStateVersion :: string where
  "ScheduleCoverageAuthorityStateVersion = ''datapan.health-schedule-coverage-authority.v1''"

type_synonym state_file = "scheduleCoverageAuthorityState stored"

text \<open>
  What the operating system does with one operation: whether the lock is obtained, and what
  becomes of a write: the file is replaced; the write fails before the rename; or the rename
  has happened and the directory sync after it fails.
\<close>

datatype write_outcome = Written | Not_written | Written_unsynced

record authority_io =
  io_lock :: bool
  io_write :: write_outcome

text \<open>A result, with the instance and the file after the operation.\<close>

type_synonym 'a authority_result = "(schedule_error + 'a) \<times> ScheduleCoverageAuthority \<times> state_file"

definition unavailable :: schedule_error where
  "unavailable = ScheduleError ''schedule authority state is unavailable''"

text \<open>\<^verbatim>\<open>filepath.IsAbs(path) && filepath.Clean(path) == "/"\<close>.\<close>

fun split_slash :: "string \<Rightarrow> string list" where
  "split_slash [] = [[]]"
| "split_slash (c # cs) =
     (if c = CHR ''/'' then [] # split_slash cs
      else case split_slash cs of [] \<Rightarrow> [[c]] | w # ws \<Rightarrow> (c # w) # ws)"

definition clean_elements :: "string \<Rightarrow> string list" where
  "clean_elements path = foldl (\<lambda>acc w.
     if w = '''' \<or> w = ''.'' then acc else if w = ''..'' then butlast acc else acc @ [w])
     [] (split_slash path)"

definition root_path :: "string \<Rightarrow> bool" where
  "root_path path \<longleftrightarrow> path \<noteq> [] \<and> hd path = CHR ''/'' \<and> clean_elements path = []"

definition sameScheduleCoveragePlan :: "ScheduleCoveragePlan \<Rightarrow> ScheduleCoveragePlan \<Rightarrow> bool" where
  "sameScheduleCoveragePlan left right \<longleftrightarrow>
     json_time_ok (iv_Start (pl_Interval left)) \<and> json_time_ok (iv_Start (pl_Interval right)) \<and>
     left = right"

definition totalScheduleExpected :: "ScheduleCoveragePlan \<Rightarrow> int" where
  "totalScheduleExpected plan = foldl (\<lambda>n shard. n + scs_Expected shard) 0 (pl_Shards plan)"

section \<open>The state file\<close>

definition withScheduleCoverageAuthorityLock ::
  "string \<Rightarrow> bool \<Rightarrow> (schedule_error + 'a) \<times> 's \<Rightarrow> 's \<Rightarrow> (schedule_error + 'a) \<times> 's" where
  "withScheduleCoverageAuthorityLock statePath lock applied s =
     (if root_path statePath then (Inl (ScheduleError ''schedule authority state is unsafe''), s)
      else if \<not> lock then (Inl unavailable, s)
      else applied)"

text \<open>\<open>Inr None\<close> is \<^verbatim>\<open>found == false\<close> without an error.\<close>

definition readScheduleCoverageAuthorityState ::
  "state_file \<Rightarrow> schedule_error + scheduleCoverageAuthorityState option" where
  "readScheduleCoverageAuthorityState disk =
     (case disk of
        Absent \<Rightarrow> Inr None
      | Garbage \<Rightarrow> Inl unavailable
      | Doc state \<Rightarrow>
          (if sa_SchemaVersion state \<noteq> ScheduleCoverageAuthorityStateVersion then Inl unavailable
           else Inr (Some state)))"

definition restoreScheduleCoverageAuthorityState ::
  "(ScheduleCoverageReceipt \<Rightarrow> bool) \<Rightarrow> scheduleCoverageAuthorityState
    \<Rightarrow> schedule_error + ScheduleCoverageLedger" where
  "restoreScheduleCoverageAuthorityState schema_ok state =
     (case RestoreScheduleCoverageLedger (sa_Ledger state) of
        Inl e \<Rightarrow> Inl e
      | Inr ledger \<Rightarrow>
          (if list_all (\<lambda>r. case r of None \<Rightarrow> True | Some receipt \<Rightarrow> receipt_Validate schema_ok receipt = None)
                [sa_Latest state, sa_Previous state]
           then Inr ledger
           else Inl (ScheduleError ''schedule authority receipt is invalid'')))"

text \<open>\<^verbatim>\<open>json.Marshal\<close> of the state fails only on a time outside the years 0 to 9999.\<close>

definition entry_json_ok :: "scheduleEntry \<Rightarrow> bool" where
  "entry_json_ok entry \<longleftrightarrow> json_time_ok (so_IntervalStart (se_Operation entry)) \<and>
     json_time_ok (se_LeaseExpires entry) \<and> json_time_ok (se_CompletedAt entry)"

definition state_json_ok :: "scheduleCoverageAuthorityState \<Rightarrow> bool" where
  "state_json_ok state \<longleftrightarrow>
     json_time_ok (iv_Start (pl_Interval (sn_Plan (sa_Ledger state)))) \<and>
     list_all (\<lambda>(subject, entry). entry_json_ok entry) (sn_Entries (sa_Ledger state)) \<and>
     list_all (\<lambda>r. case r of None \<Rightarrow> True | Some receipt \<Rightarrow> receipt_json_ok receipt)
       [sa_Latest state, sa_Previous state]"

definition writeScheduleCoverageAuthorityState ::
  "string \<Rightarrow> write_outcome \<Rightarrow> scheduleCoverageAuthorityState \<Rightarrow> state_file
    \<Rightarrow> schedule_error option \<times> state_file" where
  "writeScheduleCoverageAuthorityState path outcome state disk =
     (if root_path path then (Some (ScheduleError ''schedule authority state is unsafe''), disk)
      else if \<not> state_json_ok state then (Some unavailable, disk)
      else case outcome of
        Written \<Rightarrow> (None, Doc state)
      | Not_written \<Rightarrow> (Some unavailable, disk)
      | Written_unsynced \<Rightarrow> (Some unavailable, Doc state))"

definition commitScheduleCoverageAuthorityState ::
  "string \<Rightarrow> write_outcome \<Rightarrow> 64 word \<Rightarrow> scheduleCoverageAuthorityState \<Rightarrow> state_file
    \<Rightarrow> schedule_error option \<times> state_file" where
  "commitScheduleCoverageAuthorityState path outcome expectedGeneration state disk =
     (case readScheduleCoverageAuthorityState disk of
        Inl e \<Rightarrow> (Some e, disk)
      | Inr current \<Rightarrow>
          (let actual = (case current of None \<Rightarrow> 0 | Some c \<Rightarrow> sa_Generation c)
           in if actual \<noteq> expectedGeneration then (Some ErrScheduleAuthorityConflict, disk)
              else writeScheduleCoverageAuthorityState path outcome
                     (state\<lparr>sa_Generation := expectedGeneration + 1\<rparr>) disk))"

section \<open>Opening and loading\<close>

definition authority_of ::
  "string \<Rightarrow> ScheduleCoverageLedger \<Rightarrow> scheduleCoverageAuthorityState \<Rightarrow> ScheduleCoverageAuthority" where
  "authority_of statePath ledger state =
     \<lparr>au_statePath = statePath, au_ledger = ledger, au_latest = sa_Latest state,
      au_previous = sa_Previous state, au_generation = sa_Generation state\<rparr>"

definition OpenScheduleCoverageAuthority ::
  "(ScheduleCoverageReceipt \<Rightarrow> bool) \<Rightarrow> authority_io \<Rightarrow> string \<Rightarrow> ScheduleCoveragePlan
    \<Rightarrow> ScheduledOperation list \<Rightarrow> state_file
    \<Rightarrow> (schedule_error + ScheduleCoverageAuthority) \<times> state_file" where
  "OpenScheduleCoverageAuthority schema_ok io statePath plan queue disk =
     (if statePath = [] \<or> VerifyScheduleCoveragePlan plan queue \<noteq> None
      then (Inl (ScheduleError ''schedule authority input is invalid''), disk)
      else withScheduleCoverageAuthorityLock statePath (io_lock io)
        (case readScheduleCoverageAuthorityState disk of
           Inl e \<Rightarrow> (Inl e, disk)
         | Inr None \<Rightarrow>
             (case NewScheduleCoverageLedger plan queue of
                Inl e \<Rightarrow> (Inl e, disk)
              | Inr ledger \<Rightarrow>
                  (case commitScheduleCoverageAuthorityState statePath (io_write io) 0
                          \<lparr>sa_SchemaVersion = ScheduleCoverageAuthorityStateVersion, sa_Generation = 0,
                           sa_Ledger = Snapshot ledger, sa_Latest = None, sa_Previous = None\<rparr> disk of
                     (Some e, disk') \<Rightarrow> (Inl e, disk')
                   | (None, disk') \<Rightarrow>
                       (Inr \<lparr>au_statePath = statePath, au_ledger = ledger, au_latest = None,
                             au_previous = None, au_generation = 1\<rparr>, disk')))
         | Inr (Some state) \<Rightarrow>
             (case restoreScheduleCoverageAuthorityState schema_ok state of
                Inl e \<Rightarrow> (Inl ErrSchedulePlanTransition, disk)
              | Inr ledger \<Rightarrow>
                  (if \<not> sameScheduleCoveragePlan (lg_plan ledger) plan
                   then (Inl ErrSchedulePlanTransition, disk)
                   else (Inr (authority_of statePath ledger state), disk)))) disk)"

definition LoadScheduleCoverageAuthority ::
  "(ScheduleCoverageReceipt \<Rightarrow> bool) \<Rightarrow> bool \<Rightarrow> string \<Rightarrow> state_file
    \<Rightarrow> schedule_error + ScheduleCoverageAuthority" where
  "LoadScheduleCoverageAuthority schema_ok lock statePath disk =
     (if statePath = [] then Inl (ScheduleError ''schedule authority input is invalid'')
      else fst (withScheduleCoverageAuthorityLock statePath lock
        (case readScheduleCoverageAuthorityState disk of
           Inr (Some state) \<Rightarrow>
             (case restoreScheduleCoverageAuthorityState schema_ok state of
                Inl e \<Rightarrow> Inl unavailable
              | Inr ledger \<Rightarrow> Inr (authority_of statePath ledger state))
         | _ \<Rightarrow> Inl unavailable, disk) disk))"

section \<open>Transitions\<close>

definition withFreshStateLocked ::
  "(ScheduleCoverageReceipt \<Rightarrow> bool) \<Rightarrow> authority_io
    \<Rightarrow> (scheduleCoverageAuthorityState \<Rightarrow> ScheduleCoverageLedger
        \<Rightarrow> schedule_error + (scheduleCoverageAuthorityState \<times> ScheduleCoverageLedger \<times> 'a))
    \<Rightarrow> ScheduleCoverageAuthority \<Rightarrow> state_file \<Rightarrow> 'a authority_result" where
  "withFreshStateLocked schema_ok io applied a disk =
     withScheduleCoverageAuthorityLock (au_statePath a) (io_lock io)
       (case readScheduleCoverageAuthorityState disk of
          Inl e \<Rightarrow> (Inl unavailable, a, disk)
        | Inr None \<Rightarrow> (Inl unavailable, a, disk)
        | Inr (Some state) \<Rightarrow>
            (case restoreScheduleCoverageAuthorityState schema_ok state of
               Inl e \<Rightarrow> (Inl unavailable, a, disk)
             | Inr ledger \<Rightarrow>
                 (if \<not> sameScheduleCoveragePlan (lg_plan (au_ledger a)) (lg_plan ledger)
                  then (Inl ErrSchedulePlanTransition, a, disk)
                  else case applied state ledger of
                    Inl e \<Rightarrow> (Inl e, a, disk)
                  | Inr (nextState, nextLedger, r) \<Rightarrow>
                      (let nextState' = nextState\<lparr>sa_SchemaVersion := ScheduleCoverageAuthorityStateVersion,
                             sa_Ledger := Snapshot nextLedger\<rparr>
                       in case commitScheduleCoverageAuthorityState (au_statePath a) (io_write io)
                                 (sa_Generation state) nextState' disk of
                            (Some e, disk') \<Rightarrow> (Inl e, a, disk')
                          | (None, disk') \<Rightarrow>
                              (Inr r, a\<lparr>au_ledger := nextLedger, au_latest := sa_Latest nextState',
                                  au_previous := sa_Previous nextState',
                                  au_generation := sa_Generation state + 1\<rparr>, disk')))))
       (a, disk)"

definition transition ::
  "(ScheduleCoverageReceipt \<Rightarrow> bool) \<Rightarrow> authority_io
    \<Rightarrow> (ScheduleCoverageLedger \<Rightarrow> schedule_error + (ScheduleCoverageLedger \<times> 'a))
    \<Rightarrow> ScheduleCoverageAuthority \<Rightarrow> state_file \<Rightarrow> 'a authority_result" where
  "transition schema_ok io applied a disk =
     withFreshStateLocked schema_ok io (\<lambda>state ledger.
       case RestoreScheduleCoverageLedger (Snapshot ledger) of
         Inl e \<Rightarrow> Inl unavailable
       | Inr candidate \<Rightarrow>
           (case applied candidate of
              Inl e \<Rightarrow> Inl e
            | Inr (candidate', r) \<Rightarrow> Inr (state, candidate', r))) a disk"

definition authority_Claim ::
  "(ScheduleCoverageReceipt \<Rightarrow> bool) \<Rightarrow> authority_io \<Rightarrow> string \<Rightarrow> time \<Rightarrow> duration
    \<Rightarrow> ScheduleCoverageAuthority \<Rightarrow> state_file \<Rightarrow> ScheduleClaim authority_result" where
  "authority_Claim schema_ok io subject now lease =
     transition schema_ok io (\<lambda>candidate. Claim candidate subject now lease)"

definition authority_ClaimNext ::
  "(ScheduleCoverageReceipt \<Rightarrow> bool) \<Rightarrow> authority_io \<Rightarrow> int \<Rightarrow> time \<Rightarrow> duration
    \<Rightarrow> ScheduleCoverageAuthority \<Rightarrow> state_file \<Rightarrow> ScheduleClaim option authority_result" where
  "authority_ClaimNext schema_ok io shard now lease =
     transition schema_ok io (\<lambda>candidate. ClaimNext candidate shard now lease)"

definition authority_Retry ::
  "(ScheduleCoverageReceipt \<Rightarrow> bool) \<Rightarrow> authority_io \<Rightarrow> ScheduleClaim
    \<Rightarrow> ScheduleCoverageAuthority \<Rightarrow> state_file \<Rightarrow> unit authority_result" where
  "authority_Retry schema_ok io claim =
     transition schema_ok io (\<lambda>candidate.
       case Retry candidate claim of Inl e \<Rightarrow> Inl e | Inr l \<Rightarrow> Inr (l, ()))"

definition authority_Complete ::
  "(ScheduleCoverageReceipt \<Rightarrow> bool) \<Rightarrow> authority_io \<Rightarrow> ScheduleClaim \<Rightarrow> time
    \<Rightarrow> ScheduleCoverageAuthority \<Rightarrow> state_file \<Rightarrow> unit authority_result" where
  "authority_Complete schema_ok io claim now =
     transition schema_ok io (\<lambda>candidate.
       case Complete candidate claim now of Inl e \<Rightarrow> Inl e | Inr l \<Rightarrow> Inr (l, ()))"

definition RecordCoverage ::
  "(ScheduleCoverageReceipt \<Rightarrow> bool) \<Rightarrow> authority_io \<Rightarrow> time
    \<Rightarrow> ScheduleCoverageAuthority \<Rightarrow> state_file \<Rightarrow> ScheduleCoverageReceipt authority_result" where
  "RecordCoverage schema_ok io observedAt =
     withFreshStateLocked schema_ok io (\<lambda>state ledger.
       case CoverageReceipt schema_ok ledger observedAt of
         Inl e \<Rightarrow> Inl e
       | Inr receipt \<Rightarrow> Inr (state\<lparr>sa_Latest := Some receipt\<rparr>, ledger, receipt))"

definition Rebalance ::
  "(ScheduleCoverageReceipt \<Rightarrow> bool) \<Rightarrow> authority_io \<Rightarrow> ScheduleCoveragePlan
    \<Rightarrow> ScheduledOperation list \<Rightarrow> time \<Rightarrow> ScheduleCoverageAuthority \<Rightarrow> state_file
    \<Rightarrow> unit authority_result" where
  "Rebalance schema_ok io nextPlan queue at =
     withFreshStateLocked schema_ok io (\<lambda>state ledger.
       let start = iv_Start (pl_Interval nextPlan);
           current = iv_Start (pl_Interval (lg_plan ledger))
       in if VerifyScheduleCoveragePlan nextPlan queue \<noteq> None \<or> at \<noteq> start \<or> \<not> start > current \<or>
             time_Sub start current mod scheduleInterval \<noteq> 0
          then Inl ErrSchedulePlanTransition
          else if list_ex (\<lambda>(subject, entry). se_State entry = ''claimed'' \<and> se_LeaseExpires entry > at)
                    (lg_entries ledger)
          then Inl ErrSchedulePlanTransition
          else case CoverageReceipt schema_ok ledger at of
            Inl e \<Rightarrow> Inl ErrSchedulePlanTransition
          | Inr previous \<Rightarrow>
              (case NewScheduleCoverageLedger nextPlan queue of
                 Inl e \<Rightarrow> Inl ErrSchedulePlanTransition
               | Inr nextLedger \<Rightarrow>
                   Inr (state\<lparr>sa_Latest := None, sa_Previous := Some previous\<rparr>, nextLedger, ())))"

section \<open>The doctor report\<close>

definition refreshLocked ::
  "(ScheduleCoverageReceipt \<Rightarrow> bool) \<Rightarrow> bool \<Rightarrow> ScheduleCoverageAuthority \<Rightarrow> state_file
    \<Rightarrow> schedule_error option \<times> ScheduleCoverageAuthority" where
  "refreshLocked schema_ok lock a disk =
     (case withScheduleCoverageAuthorityLock (au_statePath a) lock
        (case readScheduleCoverageAuthorityState disk of
           Inr (Some state) \<Rightarrow>
             (case restoreScheduleCoverageAuthorityState schema_ok state of
                Inl e \<Rightarrow> (Inl ErrSchedulePlanTransition, a)
              | Inr ledger \<Rightarrow>
                  (if \<not> sameScheduleCoveragePlan (lg_plan (au_ledger a)) (lg_plan ledger)
                   then (Inl ErrSchedulePlanTransition, a)
                   else (Inr (), a\<lparr>au_ledger := ledger, au_latest := sa_Latest state,
                       au_previous := sa_Previous state, au_generation := sa_Generation state\<rparr>)))
         | _ \<Rightarrow> (Inl unavailable, a)) a of
        (Inl e, a') \<Rightarrow> (Some e, a')
      | (Inr _, a') \<Rightarrow> (None, a'))"

definition doctorReport :: "string \<Rightarrow> ScheduleCoverageDoctorReport" where
  "doctorReport receiptState =
     \<lparr>dr_SchemaVersion = ''datapan.health-schedule-coverage-doctor.v1'', dr_ReceiptState = receiptState,
      dr_Registry = \<lparr>reg_Revision = '''', reg_ManifestSHA256 = ''''\<rparr>, dr_ShardCount = 0,
      dr_LatestInterval = time_zero, dr_Counts = zero_counts\<rparr>"

definition Doctor ::
  "(ScheduleCoverageReceipt \<Rightarrow> bool) \<Rightarrow> bool \<Rightarrow> time \<Rightarrow> duration \<Rightarrow> ScheduleCoverageAuthority
    \<Rightarrow> state_file \<Rightarrow> ScheduleCoverageDoctorReport \<times> ScheduleCoverageAuthority" where
  "Doctor schema_ok lock reference maxAge a disk =
     (case refreshLocked schema_ok lock a disk of
        (Some e, a') \<Rightarrow> (doctorReport ''invalid'', a')
      | (None, a') \<Rightarrow>
          (let plan = lg_plan (au_ledger a');
               report = (doctorReport ''missing'')\<lparr>dr_Registry := pl_Registry plan,
                 dr_ShardCount := sc_ShardCount (pl_Scheduler plan),
                 dr_LatestInterval := iv_Start (pl_Interval plan),
                 dr_Counts := zero_counts\<lparr>n_Expected := totalScheduleExpected plan,
                   n_Assigned := totalScheduleExpected plan, n_Missing := totalScheduleExpected plan\<rparr>\<rparr>
           in case au_latest a' of
                None \<Rightarrow> (report, a')
              | Some latest \<Rightarrow>
                  (if receipt_Validate schema_ok latest \<noteq> None \<or>
                      \<not> sameScheduleCoveragePlan plan (receiptPlan latest)
                   then (report\<lparr>dr_ReceiptState := ''invalid''\<rparr>, a')
                   else
                     let counted = report\<lparr>dr_Counts := rc_Aggregate latest\<rparr>
                     in if IsZero reference \<or> maxAge \<le> 0 \<or> rc_ObservedAt latest > reference \<or>
                           time_Sub reference (rc_ObservedAt latest) > maxAge
                        then (counted\<lparr>dr_ReceiptState := ''stale''\<rparr>, a')
                        else (counted\<lparr>dr_ReceiptState := ''current''\<rparr>, a'))))"

text \<open>The file is read twice, by loading and then by \<^verbatim>\<open>Doctor\<close> or to tell an absent file from a
  bad one: \<open>disk'\<close> and \<open>lock'\<close> are the file and the lock at the second read.\<close>

definition ReadScheduleCoverageDoctorReport ::
  "(ScheduleCoverageReceipt \<Rightarrow> bool) \<Rightarrow> bool \<Rightarrow> bool \<Rightarrow> string \<Rightarrow> time \<Rightarrow> duration
    \<Rightarrow> state_file \<Rightarrow> state_file \<Rightarrow> ScheduleCoverageDoctorReport" where
  "ReadScheduleCoverageDoctorReport schema_ok lock lock' statePath reference maxAge disk disk' =
     (if statePath = [] then doctorReport ''not_configured''
      else case LoadScheduleCoverageAuthority schema_ok lock statePath disk of
        Inl e \<Rightarrow>
          (case readScheduleCoverageAuthorityState disk' of
             Inr None \<Rightarrow> doctorReport ''missing''
           | _ \<Rightarrow> doctorReport ''invalid'')
      | Inr authority \<Rightarrow> fst (Doctor schema_ok lock' reference maxAge authority disk'))"

section \<open>The lifecycle\<close>

record ScheduleCoverageLifecycleConfig =
  lcc_StatePath :: string
  lcc_ManifestPath :: string
  lcc_ReleaseManifestPath :: string
  lcc_ReceiptPath :: string
  lcc_ShardCount :: int
  lcc_DryRun :: bool

record ScheduleCoverageLifecycle =
  lc_statePath :: string
  lc_manifest :: OperationManifest
  lc_receipt :: OperationManifestReceipt
  lc_shardCount :: int
  lc_lastInterval :: time

text \<open>\<open>files\<close> is the content of the file at a path, \<open>None\<close> when it cannot be read.\<close>

definition NewScheduleCoverageLifecycle ::
  "manifest_decoders \<Rightarrow> (string \<Rightarrow> bool) \<Rightarrow> (string \<Rightarrow> string option)
    \<Rightarrow> ScheduleCoverageLifecycleConfig \<Rightarrow> schedule_error + ScheduleCoverageLifecycle" where
  "NewScheduleCoverageLifecycle dec uri_ok files config =
     (if \<not> lcc_DryRun config \<or> lcc_StatePath config = [] \<or> lcc_ShardCount config < 1 \<or>
         lcc_ManifestPath config = [] \<or> lcc_ReleaseManifestPath config = [] \<or> lcc_ReceiptPath config = []
      then Inl (ScheduleError ''schedule coverage lifecycle is not dry-run ready'')
      else case LoadPinnedOperationManifest dec uri_ok (files (lcc_ManifestPath config))
                  (files (lcc_ReleaseManifestPath config)) (files (lcc_ReceiptPath config)) of
        Inl e \<Rightarrow> Inl (ScheduleError ''schedule coverage lifecycle manifest is invalid'')
      | Inr (manifest, receipt) \<Rightarrow>
          Inr \<lparr>lc_statePath = lcc_StatePath config, lc_manifest = manifest, lc_receipt = receipt,
               lc_shardCount = lcc_ShardCount config, lc_lastInterval = time_zero\<rparr>)"

text \<open>The I/O of one call: of opening, of loading, of the rebalance and of the recording.\<close>

record lifecycle_io =
  li_open :: authority_io
  li_load :: bool
  li_rebalance :: authority_io
  li_record :: authority_io

definition open_or_rebalance ::
  "(ScheduleCoverageReceipt \<Rightarrow> bool) \<Rightarrow> lifecycle_io \<Rightarrow> string \<Rightarrow> ScheduleCoveragePlan
    \<Rightarrow> ScheduledOperation list \<Rightarrow> time \<Rightarrow> state_file
    \<Rightarrow> (schedule_error + ScheduleCoverageAuthority) \<times> state_file" where
  "open_or_rebalance schema_ok io statePath plan queue interval disk =
     (case OpenScheduleCoverageAuthority schema_ok (li_open io) statePath plan queue disk of
        (Inr a, disk1) \<Rightarrow> (Inr a, disk1)
      | (Inl e, disk1) \<Rightarrow>
          (if e \<noteq> ErrSchedulePlanTransition then (Inl e, disk1)
           else case LoadScheduleCoverageAuthority schema_ok (li_load io) statePath disk1 of
             Inl e' \<Rightarrow> (Inl e', disk1)
           | Inr a \<Rightarrow>
               (case Rebalance schema_ok (li_rebalance io) plan queue interval a disk1 of
                  (Inl e', a', disk2) \<Rightarrow> (Inl e', disk2)
                | (Inr _, a', disk2) \<Rightarrow> (Inr a', disk2))))"

definition ProcessDue ::
  "(string \<Rightarrow> bool) \<Rightarrow> (ScheduleCoverageReceipt \<Rightarrow> bool) \<Rightarrow> lifecycle_io \<Rightarrow> time
    \<Rightarrow> ScheduleCoverageLifecycle \<Rightarrow> state_file
    \<Rightarrow> schedule_error option \<times> ScheduleCoverageLifecycle \<times> state_file" where
  "ProcessDue uri_ok schema_ok io now l disk =
     (let interval = time_Truncate now scheduleInterval
      in if interval = lc_lastInterval l then (None, l, disk)
         else case BuildScheduleCoveragePlan uri_ok (lc_manifest l) (lc_receipt l) interval (lc_shardCount l) of
           Inl e \<Rightarrow> (Some (ScheduleError ''schedule coverage lifecycle input is invalid''), l, disk)
         | Inr (plan, queue) \<Rightarrow>
             (case open_or_rebalance schema_ok io (lc_statePath l) plan queue interval disk of
                (Inl e, disk1) \<Rightarrow> (Some e, l, disk1)
              | (Inr a, disk1) \<Rightarrow>
                  (case RecordCoverage schema_ok (li_record io) interval a disk1 of
                     (Inl e, a', disk2) \<Rightarrow> (Some e, l, disk2)
                   | (Inr receipt, a', disk2) \<Rightarrow> (None, l\<lparr>lc_lastInterval := interval\<rparr>, disk2))))"

end
