(* ===== verification/Schedule_Authority_Facts.thy ===== *)
theory Schedule_Authority_Facts
  imports Schedule_Authority
begin

text \<open>
  Correctness of \<open>Schedule_Authority\<close>: commits lose no update, the ledger on disk moves only
  as the in-memory ledger does, whatever processes share it and whatever their I/O does, and
  the rebalance, the lifecycle and the doctor keep their promises.
\<close>

section \<open>The state file as a compare-and-swap store\<close>

definition file_generation :: "state_file \<Rightarrow> 64 word" where
  "file_generation disk = (case disk of Doc state \<Rightarrow> sa_Generation state | _ \<Rightarrow> 0)"

definition unstamped :: "scheduleCoverageAuthorityState \<Rightarrow> scheduleCoverageAuthorityState" where
  "unstamped state = state\<lparr>sa_Generation := 0\<rparr>"

definition file_contents :: "state_file \<Rightarrow> scheduleCoverageAuthorityState option" where
  "file_contents disk = (case disk of Doc state \<Rightarrow> Some (unstamped state) | _ \<Rightarrow> None)"

lemma unstamped_stamp [simp]: "unstamped (state\<lparr>sa_Generation := g\<rparr>) = unstamped state"
  by (simp add: unstamped_def)

lemma read_state_Some:
  "readScheduleCoverageAuthorityState disk = Inr (Some state) \<longleftrightarrow>
    disk = Doc state \<and> sa_SchemaVersion state = ScheduleCoverageAuthorityStateVersion"
  by (auto simp: readScheduleCoverageAuthorityState_def split: stored.splits)

lemma read_state_None:
  "readScheduleCoverageAuthorityState disk = Inr None \<longleftrightarrow> disk = Absent"
  by (auto simp: readScheduleCoverageAuthorityState_def split: stored.splits)

lemma commit_cases:
  obtains (failed) e where "commitScheduleCoverageAuthorityState path out g state disk = (Some e, disk)"
  | (unsynced) "commitScheduleCoverageAuthorityState path out g state disk =
        (Some unavailable, Doc (state\<lparr>sa_Generation := g + 1\<rparr>))"
      "out = Written_unsynced" "file_generation disk = g" "disk \<noteq> Garbage"
      "state_json_ok (state\<lparr>sa_Generation := g + 1\<rparr>)"
  | (committed) "commitScheduleCoverageAuthorityState path out g state disk =
        (None, Doc (state\<lparr>sa_Generation := g + 1\<rparr>))"
      "out = Written" "file_generation disk = g" "disk \<noteq> Garbage"
      "state_json_ok (state\<lparr>sa_Generation := g + 1\<rparr>)"
proof (cases "readScheduleCoverageAuthorityState disk")
  case (Inr current)
  then have "(case current of None \<Rightarrow> 0 | Some c \<Rightarrow> sa_Generation c) = file_generation disk" "disk \<noteq> Garbage"
    by (auto simp: readScheduleCoverageAuthorityState_def file_generation_def split: stored.splits if_splits)
  with Inr have c: "commitScheduleCoverageAuthorityState path out g state disk =
      (if file_generation disk \<noteq> g then (Some ErrScheduleAuthorityConflict, disk)
       else writeScheduleCoverageAuthorityState path out (state\<lparr>sa_Generation := g + 1\<rparr>) disk)"
    by (simp add: commitScheduleCoverageAuthorityState_def Let_def)
  show ?thesis
  proof (cases "file_generation disk \<noteq> g \<or> root_path path \<or> \<not> state_json_ok (state\<lparr>sa_Generation := g + 1\<rparr>)")
    case True
    then show ?thesis
      using failed by (fastforce simp: c writeScheduleCoverageAuthorityState_def)
  next
    case False
    then show ?thesis
      using failed unsynced committed \<open>disk \<noteq> Garbage\<close> c
      by (cases out) (simp_all add: writeScheduleCoverageAuthorityState_def)
  qed
qed (use that in \<open>auto simp: commitScheduleCoverageAuthorityState_def\<close>)

interpretation state_file: cas_store file_generation file_contents unstamped
  "\<lambda>disk g state. commitScheduleCoverageAuthorityState path out g state disk"
proof unfold_locales
  fix disk :: state_file and g :: "64 word" and state
  show "fst (commitScheduleCoverageAuthorityState path out g state disk) \<noteq> None \<and>
      snd (commitScheduleCoverageAuthorityState path out g state disk) = disk"
    if "file_generation disk \<noteq> g"
    using that by (cases rule: commit_cases [of path out g state disk]) auto
  show "snd (commitScheduleCoverageAuthorityState path out g state disk) = disk \<or>
      file_generation (snd (commitScheduleCoverageAuthorityState path out g state disk)) = g + 1 \<and>
      file_contents (snd (commitScheduleCoverageAuthorityState path out g state disk)) = Some (unstamped state)"
    by (cases rule: commit_cases [of path out g state disk])
       (auto simp: file_generation_def file_contents_def)
  show "file_generation (snd (commitScheduleCoverageAuthorityState path out g state disk)) = g + 1 \<and>
      file_contents (snd (commitScheduleCoverageAuthorityState path out g state disk)) = Some (unstamped state)"
    if "fst (commitScheduleCoverageAuthorityState path out g state disk) = None"
    using that by (cases rule: commit_cases [of path out g state disk])
       (auto simp: file_generation_def file_contents_def)
qed

text \<open>Of two processes that read the same generation, the second to commit changes nothing, even when
  the first one's commit was reported as failed after it took effect.\<close>

lemma second_commit_refused:
  assumes "commitScheduleCoverageAuthorityState path out g state disk = (res, disk')"
    and "disk' \<noteq> disk \<or> res = None"
  shows "\<exists>e. commitScheduleCoverageAuthorityState path out' g state' disk' = (Some e, disk')"
proof -
  have "file_generation disk' = g + 1"
    using assms state_file.commit_effect [of path out g state disk] state_file.commit_success [of path out g state disk]
    by auto
  then have "file_generation disk' \<noteq> g" using state_file.next_generation [of g] by metis
  from state_file.commit_conflict [OF this, of path out' state'] show ?thesis
    by (cases "commitScheduleCoverageAuthorityState path out' g state' disk'") auto
qed

section \<open>The ledger a state file holds\<close>

lemma snapshot_keys:
  "list_all snapshot_entry_ok m \<Longrightarrow> gm_keys m = List.map so_Subject (entry_ops m)"
  by (induction m) (auto simp: snapshot_entry_ok_def entry_ops_def)

lemma Restore_Inr_iff:
  "RestoreScheduleCoverageLedger snapshot = Inr l \<longleftrightarrow>
    ledger_wf l \<and> lg_plan l = sn_Plan snapshot \<and> lg_entries l = sn_Entries snapshot"
proof -
  have "gm_wf (sn_Entries snapshot)"
    if "list_all snapshot_entry_ok (sn_Entries snapshot)"
      "VerifyScheduleCoveragePlan (sn_Plan snapshot) (entry_ops (sn_Entries snapshot)) = None"
    using that snapshot_keys Verify_distinct by metis
  then show ?thesis
    by (cases l) (auto simp: RestoreScheduleCoverageLedger_def ledger_wf_def entry_ops_def)
qed

lemma Restore_Snapshot [simp]: "ledger_wf l \<Longrightarrow> RestoreScheduleCoverageLedger (Snapshot l) = Inr l"
  by (simp add: Restore_Inr_iff Snapshot_def ledger_wf_def)

definition receipts_ok :: "(ScheduleCoverageReceipt \<Rightarrow> bool) \<Rightarrow> scheduleCoverageAuthorityState \<Rightarrow> bool" where
  "receipts_ok schema_ok state \<longleftrightarrow>
     (case sa_Latest state of None \<Rightarrow> True | Some r \<Rightarrow> receipt_Validate schema_ok r = None) \<and>
     (case sa_Previous state of None \<Rightarrow> True | Some r \<Rightarrow> receipt_Validate schema_ok r = None)"

lemma restore_state_Inr:
  "restoreScheduleCoverageAuthorityState schema_ok state = Inr l \<longleftrightarrow>
    receipts_ok schema_ok state \<and> RestoreScheduleCoverageLedger (sa_Ledger state) = Inr l"
  by (auto simp: restoreScheduleCoverageAuthorityState_def receipts_ok_def split: sum.splits)

text \<open>The state a process would accept from the file, and the ledger in it.\<close>

definition file_state ::
  "(ScheduleCoverageReceipt \<Rightarrow> bool) \<Rightarrow> state_file \<Rightarrow> (scheduleCoverageAuthorityState \<times> ScheduleCoverageLedger) option" where
  "file_state schema_ok disk =
     (case readScheduleCoverageAuthorityState disk of
        Inr (Some state) \<Rightarrow>
          (case restoreScheduleCoverageAuthorityState schema_ok state of
             Inr l \<Rightarrow> Some (state, l)
           | Inl e \<Rightarrow> None)
      | _ \<Rightarrow> None)"

definition file_ledger :: "(ScheduleCoverageReceipt \<Rightarrow> bool) \<Rightarrow> state_file \<Rightarrow> ScheduleCoverageLedger option" where
  "file_ledger schema_ok disk = map_option snd (file_state schema_ok disk)"

lemma file_state_Some:
  "file_state schema_ok disk = Some (state, l) \<longleftrightarrow>
    disk = Doc state \<and> sa_SchemaVersion state = ScheduleCoverageAuthorityStateVersion \<and>
    receipts_ok schema_ok state \<and> RestoreScheduleCoverageLedger (sa_Ledger state) = Inr l"
proof -
  have "file_state schema_ok disk = Some (state, l) \<longleftrightarrow>
      readScheduleCoverageAuthorityState disk = Inr (Some state) \<and>
      restoreScheduleCoverageAuthorityState schema_ok state = Inr l"
    by (auto simp: file_state_def split: sum.splits option.splits)
  then show ?thesis by (simp add: read_state_Some restore_state_Inr)
qed

lemma file_state_read:
  assumes "file_state schema_ok disk = Some (state, l)"
  shows "readScheduleCoverageAuthorityState disk = Inr (Some state)"
    and "restoreScheduleCoverageAuthorityState schema_ok state = Inr l"
  using assms by (auto simp: file_state_Some read_state_Some restore_state_Inr)

lemma file_ledger_wf: "file_ledger schema_ok disk = Some l \<Longrightarrow> ledger_wf l"
  by (auto simp: file_ledger_def file_state_Some Restore_Inr_iff)

lemma file_ledger_written:
  assumes "ledger_wf l" "receipts_ok schema_ok state"
  shows "file_ledger schema_ok (Doc (state\<lparr>sa_SchemaVersion := ScheduleCoverageAuthorityStateVersion,
      sa_Ledger := Snapshot l, sa_Generation := g\<rparr>)) = Some l"
proof -
  have "receipts_ok schema_ok (state\<lparr>sa_SchemaVersion := v, sa_Ledger := s, sa_Generation := g\<rparr>)" for v s
    using assms(2) by (simp add: receipts_ok_def)
  with assms(1) have "file_state schema_ok (Doc (state\<lparr>sa_SchemaVersion := ScheduleCoverageAuthorityStateVersion,
      sa_Ledger := Snapshot l, sa_Generation := g\<rparr>)) = Some (state\<lparr>sa_SchemaVersion := ScheduleCoverageAuthorityStateVersion,
      sa_Ledger := Snapshot l, sa_Generation := g\<rparr>, l)"
    by (simp add: file_state_Some)
  then show ?thesis by (simp add: file_ledger_def)
qed

text \<open>The three ways a transition ends.\<close>

abbreviation stamped ::
  "scheduleCoverageAuthorityState \<Rightarrow> ScheduleCoverageLedger \<Rightarrow> 64 word \<Rightarrow> scheduleCoverageAuthorityState" where
  "stamped state l g \<equiv> state\<lparr>sa_SchemaVersion := ScheduleCoverageAuthorityStateVersion,
     sa_Ledger := Snapshot l, sa_Generation := g\<rparr>"

lemma fresh_cases:
  obtains (refused) e where "withFreshStateLocked schema_ok io f a disk = (Inl e, a, disk)"
  | (unsynced) state l state' l' r where
      "withFreshStateLocked schema_ok io f a disk =
        (Inl unavailable, a, Doc (stamped state' l' (sa_Generation state + 1)))"
      "io_write io = Written_unsynced" "file_state schema_ok disk = Some (state, l)"
      "lg_plan (au_ledger a) = lg_plan l" "f state l = Inr (state', l', r)"
  | (committed) state l state' l' r where
      "withFreshStateLocked schema_ok io f a disk =
        (Inr r, a\<lparr>au_ledger := l', au_latest := sa_Latest state', au_previous := sa_Previous state',
           au_generation := sa_Generation state + 1\<rparr>, Doc (stamped state' l' (sa_Generation state + 1)))"
      "io_write io = Written" "file_state schema_ok disk = Some (state, l)"
      "lg_plan (au_ledger a) = lg_plan l" "f state l = Inr (state', l', r)"
proof (cases "root_path (au_statePath a) \<or> \<not> io_lock io \<or> file_state schema_ok disk = None")
  case True
  then show ?thesis
    using refused
    by (fastforce simp: withFreshStateLocked_def withScheduleCoverageAuthorityLock_def file_state_def
        split: sum.splits option.splits)
next
  case False
  then obtain state l where fs: "file_state schema_ok disk = Some (state, l)"
    and ok: "\<not> root_path (au_statePath a)" "io_lock io" by auto
  note rd = file_state_read [OF fs]
  let ?same = "sameScheduleCoveragePlan (lg_plan (au_ledger a)) (lg_plan l)"
  show ?thesis
  proof (cases "?same \<and> is_ok (f state l)")
    case False
    then have "?same \<Longrightarrow> \<exists>e. f state l = Inl e" by (cases "f state l") auto
    then show ?thesis
      using refused ok rd
      by (cases ?same) (auto simp: withFreshStateLocked_def withScheduleCoverageAuthorityLock_def)
  next
    case True
    then obtain state' l' r where f: "f state l = Inr (state', l', r)" and same: ?same
      by (auto simp: is_ok_iff)
    have pl: "lg_plan (au_ledger a) = lg_plan l" using same by (simp add: sameScheduleCoveragePlan_def)
    let ?st = "state'\<lparr>sa_SchemaVersion := ScheduleCoverageAuthorityStateVersion, sa_Ledger := Snapshot l'\<rparr>"
    have w: "withFreshStateLocked schema_ok io f a disk =
      (case commitScheduleCoverageAuthorityState (au_statePath a) (io_write io) (sa_Generation state) ?st disk of
         (Some e, disk') \<Rightarrow> (Inl e, a, disk')
       | (None, disk') \<Rightarrow> (Inr r, a\<lparr>au_ledger := l', au_latest := sa_Latest state',
            au_previous := sa_Previous state', au_generation := sa_Generation state + 1\<rparr>, disk'))"
      using ok rd f same
      by (simp add: withFreshStateLocked_def withScheduleCoverageAuthorityLock_def Let_def
          split: prod.splits option.splits)
    show ?thesis
    proof (cases rule: commit_cases [of "au_statePath a" "io_write io" "sa_Generation state" ?st disk])
      case (failed e)
      then show ?thesis using refused w by simp
    next
      case unsynced': unsynced
      then show ?thesis using unsynced [OF _ _ fs pl f] w by simp
    next
      case committed': committed
      then show ?thesis using committed [OF _ _ fs pl f] w by simp
    qed
  qed
qed

section \<open>The file moves as the ledger does\<close>

text \<open>The operations of the ledger with their results: the claim of a claiming operation.\<close>

fun ledger_run ::
  "ledger_op \<Rightarrow> ScheduleCoverageLedger \<Rightarrow> schedule_error + (ScheduleCoverageLedger \<times> ScheduleClaim option)" where
  "ledger_run (OpClaim s now lease) l = (case Claim l s now lease of Inl e \<Rightarrow> Inl e | Inr (l', c) \<Rightarrow> Inr (l', Some c))"
| "ledger_run (OpClaimNext i now lease) l = ClaimNext l i now lease"
| "ledger_run (OpRetry c) l = (case Retry l c of Inl e \<Rightarrow> Inl e | Inr l' \<Rightarrow> Inr (l', None))"
| "ledger_run (OpComplete c now) l = (case Complete l c now of Inl e \<Rightarrow> Inl e | Inr l' \<Rightarrow> Inr (l', None))"

datatype authority_op =
    LedgerOp ledger_op
  | RecordOp time
  | RebalanceOp ScheduleCoveragePlan "ScheduledOperation list" time

definition with_result :: "('a \<Rightarrow> 'b) \<Rightarrow> 'a authority_result \<Rightarrow> 'b authority_result" where
  "with_result f = (\<lambda>(res, rest). (map_sum id f res, rest))"

fun authority_run ::
  "(ScheduleCoverageReceipt \<Rightarrow> bool) \<Rightarrow> authority_io \<Rightarrow> authority_op \<Rightarrow> ScheduleCoverageAuthority
    \<Rightarrow> state_file \<Rightarrow> ScheduleClaim option authority_result" where
  "authority_run ok io (LedgerOp (OpClaim s now lease)) a disk =
     with_result Some (authority_Claim ok io s now lease a disk)"
| "authority_run ok io (LedgerOp (OpClaimNext i now lease)) a disk = authority_ClaimNext ok io i now lease a disk"
| "authority_run ok io (LedgerOp (OpRetry c)) a disk = with_result (\<lambda>_. None) (authority_Retry ok io c a disk)"
| "authority_run ok io (LedgerOp (OpComplete c now)) a disk =
     with_result (\<lambda>_. None) (authority_Complete ok io c now a disk)"
| "authority_run ok io (RecordOp t) a disk = with_result (\<lambda>_. None) (RecordCoverage ok io t a disk)"
| "authority_run ok io (RebalanceOp plan queue at) a disk =
     with_result (\<lambda>_. None) (Rebalance ok io plan queue at a disk)"

lemma ledger_run_step:
  "ledger_run op l = Inr (l', c) \<Longrightarrow> ledger_step op l = l'"
  "ledger_run op l = Inl e \<Longrightarrow> ledger_step op l = l"
  by (cases op; auto split: sum.splits)+

lemma ledger_step_wf: "ledger_wf l \<Longrightarrow> ledger_wf (ledger_step op l)"
  by (cases op l rule: ledger_step_cases) (auto intro: ledger_wf_put dest: entry_moves_ok)

lemma ledger_step_plan [simp]: "lg_plan (ledger_step op l) = lg_plan l"
  by (cases op l rule: ledger_step_cases) auto

lemma with_fresh:
  "with_result f (withFreshStateLocked ok io g a disk) =
    withFreshStateLocked ok io (\<lambda>state l. case g state l of
      Inl e \<Rightarrow> Inl e | Inr (state', l', r) \<Rightarrow> Inr (state', l', f r)) a disk"
  by (auto simp: with_result_def withFreshStateLocked_def withScheduleCoverageAuthorityLock_def Let_def
      split: sum.splits option.splits prod.splits)

text \<open>What a transition does with the state it read, as a function of the operation.\<close>

fun authority_apply ::
  "(ScheduleCoverageReceipt \<Rightarrow> bool) \<Rightarrow> authority_op \<Rightarrow> scheduleCoverageAuthorityState \<Rightarrow> ScheduleCoverageLedger
    \<Rightarrow> schedule_error + (scheduleCoverageAuthorityState \<times> ScheduleCoverageLedger \<times> ScheduleClaim option)" where
  "authority_apply ok (LedgerOp op) state l =
     (if ledger_wf l then (case ledger_run op l of Inl e \<Rightarrow> Inl e | Inr (l', c) \<Rightarrow> Inr (state, l', c))
      else Inl unavailable)"
| "authority_apply ok (RecordOp t) state l =
     (case CoverageReceipt ok l t of Inl e \<Rightarrow> Inl e
      | Inr r \<Rightarrow> Inr (state\<lparr>sa_Latest := Some r\<rparr>, l, None))"
| "authority_apply ok (RebalanceOp plan queue at) state l =
     (if VerifyScheduleCoveragePlan plan queue \<noteq> None \<or> at \<noteq> iv_Start (pl_Interval plan) \<or>
         \<not> at > iv_Start (pl_Interval (lg_plan l)) \<or>
         time_Sub at (iv_Start (pl_Interval (lg_plan l))) mod scheduleInterval \<noteq> 0 \<or>
         list_ex (\<lambda>(subject, entry). se_State entry = ''claimed'' \<and> se_LeaseExpires entry > at) (lg_entries l)
      then Inl ErrSchedulePlanTransition
      else case CoverageReceipt ok l at of Inl e \<Rightarrow> Inl ErrSchedulePlanTransition
      | Inr previous \<Rightarrow>
          (case NewScheduleCoverageLedger plan queue of Inl e \<Rightarrow> Inl ErrSchedulePlanTransition
           | Inr l' \<Rightarrow> Inr (state\<lparr>sa_Latest := None, sa_Previous := Some previous\<rparr>, l', None)))"

lemma fresh_cong:
  assumes "\<And>state l. file_state ok disk = Some (state, l) \<Longrightarrow> f state l = g state l"
  shows "withFreshStateLocked ok io f a disk = withFreshStateLocked ok io g a disk"
proof (cases "file_state ok disk")
  case None
  then show ?thesis
    by (auto simp: withFreshStateLocked_def file_state_def split: sum.splits option.splits)
next
  case (Some p)
  obtain state l where p: "p = (state, l)" by (cases p)
  with Some assms have "f state l = g state l" by simp
  with file_state_read [OF Some [unfolded p]] show ?thesis by (simp add: withFreshStateLocked_def)
qed

lemma authority_run_apply:
  "authority_run ok io op a disk = withFreshStateLocked ok io (authority_apply ok op) a disk"
proof (cases "(ok, io, op, a, disk)" rule: authority_run.cases)
  case (1 ok io s now lease a disk)
  then show ?thesis
    by (simp add: authority_Claim_def transition_def with_fresh)
       (rule fresh_cong, auto simp: file_state_Some Restore_Inr_iff ledger_wf_def [symmetric] split: sum.splits)
next
  case (2 ok io i now lease a disk)
  then show ?thesis
    by (simp add: authority_ClaimNext_def transition_def)
       (rule fresh_cong, auto simp: file_state_Some Restore_Inr_iff ledger_wf_def [symmetric] split: sum.splits)
next
  case (3 ok io c a disk)
  then show ?thesis
    by (simp add: authority_Retry_def transition_def with_fresh)
       (rule fresh_cong, auto simp: file_state_Some Restore_Inr_iff ledger_wf_def [symmetric] split: sum.splits)
next
  case (4 ok io c now a disk)
  then show ?thesis
    by (simp add: authority_Complete_def transition_def with_fresh)
       (rule fresh_cong, auto simp: file_state_Some Restore_Inr_iff ledger_wf_def [symmetric] split: sum.splits)
next
  case (5 ok io t a disk)
  then show ?thesis
    by (simp add: RecordCoverage_def with_fresh) (rule fresh_cong, auto split: sum.splits)
next
  case (6 ok io plan queue at a disk)
  then show ?thesis
    by (simp add: Rebalance_def with_fresh Let_def) (rule fresh_cong, auto split: sum.splits)
qed

lemma CoverageReceipt_valid: "CoverageReceipt ok l t = Inr r \<Longrightarrow> receipt_Validate ok r = None"
  by (auto simp: CoverageReceipt_iff)

lemma authority_apply_wf:
  assumes "authority_apply ok op state l = Inr (state', l', c)" "ledger_wf l" "receipts_ok ok state"
  shows "ledger_wf l' \<and> receipts_ok ok state'"
proof (cases op)
  case (LedgerOp op')
  then show ?thesis
    using assms ledger_run_step(1) [of op' l l' c] ledger_step_wf [of l op'] by (auto split: sum.splits)
next
  case (RecordOp t)
  then show ?thesis
    using assms by (auto simp: receipts_ok_def dest: CoverageReceipt_valid split: sum.splits)
next
  case (RebalanceOp plan queue at)
  then show ?thesis
    using assms NewLedger_inv [of plan queue l']
    by (auto simp: receipts_ok_def ledger_inv_def dest: CoverageReceipt_valid split: sum.splits if_splits)
qed

lemma file_state_ledger:
  "file_state ok disk = Some (state, l) \<Longrightarrow>
    file_ledger ok disk = Some l \<and> file_generation disk = sa_Generation state \<and> ledger_wf l \<and> receipts_ok ok state"
  by (auto simp: file_ledger_def file_state_Some file_generation_def Restore_Inr_iff)

text \<open>Every operation of an instance either changes nothing or replaces the file by the encoding of
  the ledger its step computed from the ledger it read; the instance follows on success.\<close>

lemma authority_run_cases:
  obtains (refused) e where "authority_run ok io op a disk = (Inl e, a, disk)"
  | (moved) res a' disk' state l state' l' c where
      "authority_run ok io op a disk = (res, a', disk')"
      "file_ledger ok disk = Some l" "lg_plan (au_ledger a) = lg_plan l"
      "file_state ok disk = Some (state, l)" "authority_apply ok op state l = Inr (state', l', c)"
      "disk' = Doc (stamped state' l' (file_generation disk + 1))"
      "file_ledger ok disk' = Some l'" "file_generation disk' = file_generation disk + 1"
      "res = Inr c \<and> au_ledger a' = l' \<and> au_generation a' = file_generation disk' \<or>
       res = Inl unavailable \<and> a' = a \<and> io_write io = Written_unsynced"
proof (cases rule: fresh_cases [of ok io "authority_apply ok op" a disk])
  case (refused e)
  then show ?thesis using that(1) by (simp add: authority_run_apply)
next
  case (unsynced state l state' l' r)
  have w: "ledger_wf l' \<and> receipts_ok ok state'"
    using unsynced file_state_ledger authority_apply_wf by metis
  from file_state_ledger [OF unsynced(3)] w unsynced show ?thesis
    by (intro that(2)) (auto simp: authority_run_apply file_ledger_written file_generation_def)
next
  case (committed state l state' l' r)
  have w: "ledger_wf l' \<and> receipts_ok ok state'"
    using committed file_state_ledger authority_apply_wf by metis
  from file_state_ledger [OF committed(3)] w committed show ?thesis
    by (intro that(2)) (auto simp: authority_run_apply file_ledger_written file_generation_def)
qed

lemma ledger_op_refines:
  "(\<exists>e. authority_run ok io (LedgerOp op) a disk = (Inl e, a, disk)) \<or>
   (\<exists>l l' c res a' disk'. authority_run ok io (LedgerOp op) a disk = (res, a', disk') \<and>
      file_ledger ok disk = Some l \<and> ledger_run op l = Inr (l', c) \<and>
      file_ledger ok disk' = Some l' \<and> file_generation disk' = file_generation disk + 1 \<and>
      (res = Inr c \<and> au_ledger a' = l' \<and> au_generation a' = file_generation disk' \<or>
       res = Inl unavailable \<and> a' = a \<and> io_write io = Written_unsynced))"
proof (cases rule: authority_run_cases [of ok io "LedgerOp op" a disk])
  case (moved res a' disk' state l state' l' c)
  then have "ledger_run op l = Inr (l', c)" by (auto split: if_splits sum.splits)
  with moved show ?thesis by blast
qed blast

lemma current_completes:
  assumes "current_claim l c" "t \<le> now + lease" "cl_LeaseExpires c = now + lease"
  shows "is_ok (Complete l c t)"
proof -
  obtain e where e: "currentClaimLocked l c = Inr e"
    using assms(1) by (auto simp: current_claim_def is_ok_iff)
  then have "se_LeaseExpires e = cl_LeaseExpires c"
    unfolding currentClaimLocked_Inr by (metis ScheduleClaim.select_convs(6) claim_of_def)
  with e assms(2,3) show ?thesis by (simp add: Complete_def)
qed

text \<open>C8: the durable queue refines the in-memory ledger: a claim, retry or completion through any
  instance either fails and changes neither the instance nor the file, or it is the ledger's own
  operation on the ledger the file held, and the file holds its result under the next generation.
  It is reported only after it is durable, with the ledger's answer; an operation that fails after
  it took effect can only have failed to sync the directory.\<close>

theorem authority_refines_ledger:
  "(\<exists>e. authority_run ok io (LedgerOp op) a disk = (Inl e, a, disk)) \<or>
   (\<exists>l l' c res a' disk'. authority_run ok io (LedgerOp op) a disk = (res, a', disk') \<and>
      file_ledger ok disk = Some l \<and> ledger_run op l = Inr (l', c) \<and>
      file_ledger ok disk' = Some l' \<and> file_generation disk' = file_generation disk + 1 \<and>
      (res = Inr c \<and> au_ledger a' = l' \<and> au_generation a' = file_generation disk' \<or>
       res = Inl unavailable \<and> a' = a \<and> io_write io = Written_unsynced))"
  by (rule ledger_op_refines)

lemma fresh_healthy:
  assumes "file_state ok disk = Some (state, l)" and "lg_plan (au_ledger a) = lg_plan l"
    and "json_time_ok (iv_Start (pl_Interval (lg_plan l)))"
    and "io_lock io" "io_write io = Written" "\<not> root_path (au_statePath a)"
  shows "withFreshStateLocked ok io f a disk =
    (case f state l of
       Inl e \<Rightarrow> (Inl e, a, disk)
     | Inr (state', l', r) \<Rightarrow>
         (if state_json_ok (stamped state' l' (sa_Generation state + 1))
          then (Inr r, a\<lparr>au_ledger := l', au_latest := sa_Latest state', au_previous := sa_Previous state',
                  au_generation := sa_Generation state + 1\<rparr>, Doc (stamped state' l' (sa_Generation state + 1)))
          else (Inl unavailable, a, disk)))"
proof -
  note rd = file_state_read [OF assms(1)]
  have same: "sameScheduleCoveragePlan (lg_plan (au_ledger a)) (lg_plan l)"
    using assms(2,3) by (simp add: sameScheduleCoveragePlan_def)
  have c: "commitScheduleCoverageAuthorityState (au_statePath a) Written (sa_Generation state) st disk =
      (if state_json_ok (st\<lparr>sa_Generation := sa_Generation state + 1\<rparr>)
       then (None, Doc (st\<lparr>sa_Generation := sa_Generation state + 1\<rparr>)) else (Some unavailable, disk))" for st
    using rd(1) assms(6)
    by (simp add: commitScheduleCoverageAuthorityState_def writeScheduleCoverageAuthorityState_def)
  show ?thesis
    using rd same assms(4-6)
    by (auto simp: withFreshStateLocked_def withScheduleCoverageAuthorityLock_def c Let_def split: sum.splits)
qed

text \<open>C9: the durable queue is as available as the ledger: when the lock is obtained and the write
  succeeds, an instance whose plan is still the file's answers a claim, retry or completion exactly
  as the ledger in the file would, and refuses the result only when it cannot be encoded.\<close>

theorem authority_answers_as_ledger:
  assumes "file_state ok disk = Some (state, l)" and "lg_plan (au_ledger a) = lg_plan l"
    and "json_time_ok (iv_Start (pl_Interval (lg_plan l)))"
    and "io_lock io" "io_write io = Written" "\<not> root_path (au_statePath a)"
  shows "fst (authority_run ok io (LedgerOp op) a disk) =
    (case ledger_run op l of
       Inl e \<Rightarrow> Inl e
     | Inr (l', c) \<Rightarrow>
         (if state_json_ok (stamped state l' (sa_Generation state + 1)) then Inr c else Inl unavailable))"
  using file_state_ledger [OF assms(1)]
  by (auto simp: authority_run_apply fresh_healthy [OF assms] split: sum.splits)

section \<open>Several processes\<close>

text \<open>A world is the instances, numbered, and the file they share; a step is one operation of one
  instance with the outcome of its I/O.\<close>

type_synonym world = "(nat \<Rightarrow> ScheduleCoverageAuthority) \<times> state_file"

fun world_step ::
  "(ScheduleCoverageReceipt \<Rightarrow> bool) \<Rightarrow> nat \<times> authority_io \<times> authority_op \<Rightarrow> world \<Rightarrow> world" where
  "world_step ok (i, io, op) (insts, disk) =
     (case authority_run ok io op (insts i) disk of (res, a, disk') \<Rightarrow> (insts(i := a), disk'))"

text \<open>What the other processes may do before the lease of \<open>c\<close> expires: anything but use \<open>c\<close>.\<close>

fun others_authority_op :: "ScheduleClaim \<Rightarrow> authority_op \<Rightarrow> bool" where
  "others_authority_op c (LedgerOp op) \<longleftrightarrow> others_op c op"
| "others_authority_op c (RecordOp t) \<longleftrightarrow> True"
| "others_authority_op c (RebalanceOp plan queue at) \<longleftrightarrow> at < cl_LeaseExpires c"

definition file_holds :: "(ScheduleCoverageReceipt \<Rightarrow> bool) \<Rightarrow> ScheduleClaim \<Rightarrow> state_file \<Rightarrow> bool" where
  "file_holds ok c disk \<longleftrightarrow> (\<exists>l. file_ledger ok disk = Some l \<and> current_claim l c)"

lemma current_claim_live:
  assumes "current_claim l c"
  shows "list_ex (\<lambda>(subject, entry). se_State entry = ''claimed'' \<and> se_LeaseExpires entry = cl_LeaseExpires c)
    (lg_entries l)"
proof -
  obtain e where "gm_get (lg_entries l) (cl_Subject c) = Some e" "se_State e = ''claimed''"
    "se_LeaseExpires e = cl_LeaseExpires c"
    using assms unfolding current_claim_iff by (metis ScheduleClaim.select_convs(6) claim_of_def)
  then show ?thesis by (auto simp: list_ex_iff dest!: gm_get_in)
qed

lemma apply_keeps_current:
  assumes "authority_apply ok op state l = Inr (state', l', r)" "current_claim l c" "others_authority_op c op"
  shows "current_claim l' c"
proof (cases op)
  case (LedgerOp op')
  then have "ledger_run op' l = Inr (l', r)" using assms(1) by (auto split: if_splits sum.splits)
  from ledger_run_step(1) [OF this] show ?thesis
    using ledger_step_keeps_current [OF assms(2)] assms(3) LedgerOp by auto
next
  case (RebalanceOp plan queue at)
  have "list_ex (\<lambda>(subject, entry). se_State entry = ''claimed'' \<and> se_LeaseExpires entry > at) (lg_entries l)"
    using current_claim_live [OF assms(2)] assms(3) RebalanceOp by (auto simp: list_ex_iff)
  then show ?thesis using assms(1) RebalanceOp by simp
qed (use assms in \<open>auto split: sum.splits\<close>)

lemma world_step_holds:
  assumes "file_holds ok c (snd w)" "others_authority_op c op"
  shows "file_holds ok c (snd (world_step ok (i, io, op) w))"
proof -
  obtain insts disk where w: "w = (insts, disk)" by (cases w)
  show ?thesis
  proof (cases rule: authority_run_cases [of ok io op "insts i" disk])
    case (refused e)
    then show ?thesis using assms(1) w by simp
  next
    case (moved res a' disk' state l state' l' r)
    then show ?thesis using assms w by (auto simp: file_holds_def dest: apply_keeps_current)
  qed
qed

lemma world_run_holds:
  assumes "file_holds ok c (snd w)" "list_all (\<lambda>(i, io, op). others_authority_op c op) steps"
  shows "file_holds ok c (snd (fold (world_step ok) steps w))"
  using assms
proof (induction steps arbitrary: w)
  case (Cons step steps)
  obtain i io op where "step = (i, io, op)" by (cases step)
  with Cons show ?case using world_step_holds [of ok c w op i io] by simp
qed simp

lemma live_claim_refused:
  assumes "file_holds ok c disk" "u < cl_LeaseExpires c"
  shows "fst (authority_run ok io (LedgerOp (OpClaim (cl_Subject c) u lease)) a disk) \<in> range Inl"
proof (cases rule: authority_run_cases [of ok io "LedgerOp (OpClaim (cl_Subject c) u lease)" a disk])
  case (moved res a' disk' state l state' l' r)
  then have "current_claim l c" "ledger_run (OpClaim (cl_Subject c) u lease) l = Inr (l', r)"
    using assms(1) by (auto simp: file_holds_def split: if_splits sum.splits)
  then have False using claimLocked_live [OF _ assms(2)] by (auto simp: Claim_Inr split: sum.splits)
  then show ?thesis ..
qed simp

text \<open>C10: one lease, one worker, across processes: once an instance has reported a claim, then
  whatever the other processes sharing the file do before it expires (claims, retries and
  completions with other tokens, coverage receipts, rebalances), with whatever I/O failures, the
  claim can still be completed on the ledger in the file, and no process obtains a second claim on
  the item.\<close>

theorem lease_is_exclusive_across_processes:
  assumes "authority_run ok io (LedgerOp (OpClaim s now lease)) a disk = (Inr (Some c), a', disk')"
    and "list_all (\<lambda>(i, io, op). others_authority_op c op) steps"
    and "t \<le> now + lease" and "u < now + lease"
  shows "(\<exists>l. file_ledger ok (snd (fold (world_step ok) steps (insts, disk'))) = Some l \<and> is_ok (Complete l c t)) \<and>
    fst (authority_run ok io' (LedgerOp (OpClaim s u lease')) b
      (snd (fold (world_step ok) steps (insts, disk')))) \<in> range Inl"
proof -
  let ?final = "snd (fold (world_step ok) steps (insts, disk'))"
  obtain l l' where l: "ledger_run (OpClaim s now lease) l = Inr (l', Some c)" "file_ledger ok disk' = Some l'"
    using ledger_op_refines [of ok io "OpClaim s now lease" a disk] assms(1) by auto
  then have cl: "Claim l s now lease = Inr (l', c)" by (auto split: sum.splits)
  then have "file_holds ok c disk'" using l(2) Claim_current(1) by (auto simp: file_holds_def)
  then have h: "file_holds ok c ?final" using world_run_holds [of ok c "(insts, disk')"] assms(2) by simp
  then obtain m where m: "file_ledger ok ?final = Some m" "current_claim m c" by (auto simp: file_holds_def)
  have "is_ok (Complete m c t)"
    using m(2) assms(3) Claim_current(3) [OF cl] by (rule current_completes)
  with m(1) live_claim_refused [OF h, of u] Claim_current [OF cl] assms(4) show ?thesis by auto
qed

section \<open>Rebalancing\<close>

definition no_live_lease :: "ScheduleCoverageLedger \<Rightarrow> time \<Rightarrow> bool" where
  "no_live_lease l at \<longleftrightarrow> list_all (\<lambda>(subject, entry). se_State entry = ''claimed'' \<longrightarrow> se_LeaseExpires entry \<le> at) (lg_entries l)"

lemma rebalance_apply_Inr:
  "authority_apply ok (RebalanceOp plan queue at) state l = Inr (state', l', c) \<longleftrightarrow>
    at = iv_Start (pl_Interval plan) \<and> iv_Start (pl_Interval (lg_plan l)) < at \<and>
    time_Sub at (iv_Start (pl_Interval (lg_plan l))) mod scheduleInterval = 0 \<and>
    no_live_lease l at \<and> NewScheduleCoverageLedger plan queue = Inr l' \<and> c = None \<and>
    (\<exists>r. CoverageReceipt ok l at = Inr r \<and> state' = state\<lparr>sa_Latest := None, sa_Previous := Some r\<rparr>)"
proof -
  have "list_ex (\<lambda>(subject, entry). se_State entry = ''claimed'' \<and> se_LeaseExpires entry > at) (lg_entries l)
      \<longleftrightarrow> \<not> no_live_lease l at"
    by (auto simp: no_live_lease_def list_ex_iff list_all_iff)
  then have "authority_apply ok (RebalanceOp plan queue at) state l =
     (if VerifyScheduleCoveragePlan plan queue \<noteq> None \<or> at \<noteq> iv_Start (pl_Interval plan) \<or>
         \<not> iv_Start (pl_Interval (lg_plan l)) < at \<or>
         time_Sub at (iv_Start (pl_Interval (lg_plan l))) mod scheduleInterval \<noteq> 0 \<or> \<not> no_live_lease l at
      then Inl ErrSchedulePlanTransition
      else case CoverageReceipt ok l at of Inl e \<Rightarrow> Inl ErrSchedulePlanTransition
      | Inr previous \<Rightarrow>
          (case NewScheduleCoverageLedger plan queue of Inl e \<Rightarrow> Inl ErrSchedulePlanTransition
           | Inr l' \<Rightarrow> Inr (state\<lparr>sa_Latest := None, sa_Previous := Some previous\<rparr>, l', None)))"
    by simp
  moreover have "NewScheduleCoverageLedger plan queue = Inr l' \<Longrightarrow> VerifyScheduleCoveragePlan plan queue = None"
    by (rule NewLedger_Inr(1))
  ultimately show ?thesis
    by (cases "CoverageReceipt ok l at"; cases "NewScheduleCoverageLedger plan queue")
       (auto simp del: authority_apply.simps)
qed

lemma rebalance_effect:
  assumes "authority_run ok io (RebalanceOp plan queue at) a disk = (Inr x, a', disk')"
  shows "\<exists>l l' state' r. file_ledger ok disk = Some l \<and> file_state ok disk' = Some (state', l') \<and>
    iv_Start (pl_Interval (lg_plan l)) < at \<and> at = iv_Start (pl_Interval plan) \<and> no_live_lease l at \<and>
    NewScheduleCoverageLedger plan queue = Inr l' \<and> au_ledger a' = l' \<and>
    sa_Latest state' = None \<and> sa_Previous state' = Some r \<and>
    receiptPlan r = lg_plan l \<and> rc_ObservedAt r = at \<and> rc_Aggregate r = coverage_totals l at"
proof (cases rule: authority_run_cases [of ok io "RebalanceOp plan queue at" a disk])
  case (moved res a'' disk'' state l state' l' c)
  then have eq: "a'' = a'" "disk'' = disk'" "au_ledger a' = l'" using assms by auto
  from moved(5) obtain r where r: "CoverageReceipt ok l at = Inr r" "state' = state\<lparr>sa_Latest := None, sa_Previous := Some r\<rparr>"
    and rest: "at = iv_Start (pl_Interval plan)" "iv_Start (pl_Interval (lg_plan l)) < at" "no_live_lease l at"
      "NewScheduleCoverageLedger plan queue = Inr l'"
    unfolding rebalance_apply_Inr by blast
  have "file_state ok disk' = Some (stamped state' l' (file_generation disk + 1), l')"
    using moved(6,7) eq by (auto simp: file_ledger_def file_state_Some)
  with moved(2) rest eq r CoverageReceipt_Inr [OF r(1) file_ledger_wf [OF moved(2)]] show ?thesis
    by (intro exI conjI) auto
qed (use assms in simp)

text \<open>C11: a rebalance that is reported moved the file from the old plan to the new one at a later
  interval boundary when no lease of the old plan was live; the new ledger has every item of the new
  queue unclaimed, no receipt of the new interval exists yet, and the old interval's evidence is
  kept: the previous receipt is the old plan's, observed at the boundary, with the totals of the
  old ledger.\<close>

theorem rebalance_keeps_evidence:
  assumes "authority_run ok io (RebalanceOp plan queue at) a disk = (Inr x, a', disk')"
  shows "\<exists>l l' state' r. file_ledger ok disk = Some l \<and> file_state ok disk' = Some (state', l') \<and>
    iv_Start (pl_Interval (lg_plan l)) < at \<and> at = iv_Start (pl_Interval plan) \<and> no_live_lease l at \<and>
    NewScheduleCoverageLedger plan queue = Inr l' \<and> au_ledger a' = l' \<and>
    sa_Latest state' = None \<and> sa_Previous state' = Some r \<and>
    receiptPlan r = lg_plan l \<and> rc_ObservedAt r = at \<and> rc_Aggregate r = coverage_totals l at"
  using assms by (rule rebalance_effect)

definition file_after :: "(ScheduleCoverageReceipt \<Rightarrow> bool) \<Rightarrow> time \<Rightarrow> state_file \<Rightarrow> bool" where
  "file_after ok t disk \<longleftrightarrow> (\<exists>l. file_ledger ok disk = Some l \<and> t < iv_Start (pl_Interval (lg_plan l)))"

lemma apply_start:
  assumes "authority_apply ok op state l = Inr (state', l', c)"
  shows "iv_Start (pl_Interval (lg_plan l)) \<le> iv_Start (pl_Interval (lg_plan l'))"
proof (cases op)
  case (LedgerOp op')
  then have "ledger_run op' l = Inr (l', c)" using assms by (auto split: if_splits sum.splits)
  from ledger_run_step(1) [OF this] show ?thesis by auto
next
  case (RebalanceOp plan queue at)
  with assms show ?thesis
    using NewLedger_Inr(2) [of plan queue l'] by (auto simp only: rebalance_apply_Inr) simp
qed (use assms in \<open>auto split: sum.splits\<close>)

lemma world_step_after: "file_after ok t (snd w) \<Longrightarrow> file_after ok t (snd (world_step ok step w))"
proof -
  assume after: "file_after ok t (snd w)"
  obtain insts disk where w: "w = (insts, disk)" by (cases w)
  obtain i io op where step: "step = (i, io, op)" by (cases step)
  show ?thesis
  proof (cases rule: authority_run_cases [of ok io op "insts i" disk])
    case (refused e)
    then show ?thesis using after w step by simp
  next
    case (moved res a' disk' state l state' l' r)
    then show ?thesis using after w step apply_start [OF moved(5)] by (auto simp: file_after_def)
  qed
qed

interpretation world: invariant_steps "world_step ok" "\<lambda>w. file_after ok t (snd w)"
  by unfold_locales (rule world_step_after)

lemma stale_refused:
  assumes "file_after ok (iv_Start (pl_Interval (lg_plan (au_ledger b)))) disk"
  shows "\<exists>e. authority_run ok io op b disk = (Inl e, b, disk)"
proof (cases rule: authority_run_cases [of ok io op b disk])
  case (moved res a' disk' state l state' l' r)
  then have False using assms by (auto simp: file_after_def)
  then show ?thesis ..
qed blast

text \<open>a rebalance retires every instance of the old plan for good: after it, and after any
  further operations by any processes with any I/O outcomes, an instance still on the old plan
  changes nothing, whatever it tries.\<close>

theorem rebalance_retires_old_instances:
  assumes "authority_run ok io (RebalanceOp plan queue at) a disk = (Inr x, a', disk')"
    and "lg_plan (au_ledger b) = lg_plan (au_ledger a)"
  shows "\<exists>e. authority_run ok io' op b (snd (fold (world_step ok) steps (insts, disk'))) =
    (Inl e, b, snd (fold (world_step ok) steps (insts, disk')))"
proof -
  have "file_after ok (iv_Start (pl_Interval (lg_plan (au_ledger a)))) disk'"
  proof (cases rule: authority_run_cases [of ok io "RebalanceOp plan queue at" a disk])
    case (moved res a'' disk'' state l state' l' c)
    from moved(5) have "iv_Start (pl_Interval (lg_plan l)) < iv_Start (pl_Interval (lg_plan l'))"
      using NewLedger_Inr(2) [of plan queue l'] by (auto simp only: rebalance_apply_Inr) simp
    with moved assms(1) show ?thesis by (auto simp: file_after_def)
  qed (use assms(1) in simp)
  then have "file_after ok (iv_Start (pl_Interval (lg_plan (au_ledger b)))) (snd (fold (world_step ok) steps (insts, disk')))"
    using assms(2) world.run_inv [of ok _ "(insts, disk')" steps] by simp
  then show ?thesis by (rule stale_refused)
qed

section \<open>The lifecycle\<close>

lemma run_of_Record:
  "RecordCoverage ok io t a disk = (Inr r, a', disk') \<Longrightarrow> authority_run ok io (RecordOp t) a disk = (Inr None, a', disk')"
  "RecordCoverage ok io t a disk = (Inl e, a', disk') \<Longrightarrow> authority_run ok io (RecordOp t) a disk = (Inl e, a', disk')"
  by (simp_all add: with_result_def)

lemma run_of_Rebalance:
  "Rebalance ok io plan queue at a disk = (Inr r, a', disk') \<Longrightarrow>
    authority_run ok io (RebalanceOp plan queue at) a disk = (Inr None, a', disk')"
  "Rebalance ok io plan queue at a disk = (Inl e, a', disk') \<Longrightarrow>
    authority_run ok io (RebalanceOp plan queue at) a disk = (Inl e, a', disk')"
  by (simp_all add: with_result_def)

lemma Open_existing:
  assumes "file_state ok disk = Some (state, l)"
  shows "snd (OpenScheduleCoverageAuthority ok io path plan queue disk) = disk"
    and "OpenScheduleCoverageAuthority ok io path plan queue disk = (Inr a, disk') \<Longrightarrow>
      lg_plan l = plan \<and> au_ledger a = l"
  using file_state_read [OF assms]
  by (auto simp: OpenScheduleCoverageAuthority_def withScheduleCoverageAuthorityLock_def authority_of_def
      sameScheduleCoveragePlan_def split: if_splits)

lemma Open_plan:
  assumes "OpenScheduleCoverageAuthority ok io path plan queue disk = (Inr a, disk')"
  shows "lg_plan (au_ledger a) = plan"
proof (cases "file_state ok disk")
  case (Some p)
  then show ?thesis using assms Open_existing(2) by (metis prod.collapse)
next
  case None
  then have "\<And>state. readScheduleCoverageAuthorityState disk = Inr (Some state) \<Longrightarrow>
      \<exists>e. restoreScheduleCoverageAuthorityState ok state = Inl e"
    by (auto simp: file_state_def split: sum.splits)
  with assms have "readScheduleCoverageAuthorityState disk = Inr None"
    by (cases "readScheduleCoverageAuthorityState disk")
       (fastforce simp: OpenScheduleCoverageAuthority_def withScheduleCoverageAuthorityLock_def
         split: if_splits option.splits)+
  with assms obtain l where "NewScheduleCoverageLedger plan queue = Inr l" "au_ledger a = l"
    by (cases "NewScheduleCoverageLedger plan queue")
       (auto simp: OpenScheduleCoverageAuthority_def withScheduleCoverageAuthorityLock_def
         split: if_splits option.splits prod.splits)
  with NewLedger_Inr(2) [OF this(1)] show ?thesis by simp
qed

lemma Rebalance_plan:
  assumes "Rebalance ok io plan queue at a disk = (Inr r, a', disk')"
  shows "lg_plan (au_ledger a') = plan"
  using rebalance_effect [OF run_of_Rebalance(1) [OF assms]] NewLedger_Inr(2) by fastforce

lemma open_or_rebalance_plan:
  assumes "open_or_rebalance ok io path plan queue t disk = (Inr a, disk')"
  shows "lg_plan (au_ledger a) = plan"
proof (cases "OpenScheduleCoverageAuthority ok (li_open io) path plan queue disk")
  case (Pair res disk1)
  show ?thesis
  proof (cases res)
    case (Inr b)
    with Pair assms show ?thesis using Open_plan by (simp add: open_or_rebalance_def)
  next
    case (Inl e)
    obtain b where b: "LoadScheduleCoverageAuthority ok (li_load io) path disk1 = Inr b"
      "e = ErrSchedulePlanTransition"
      using Inl Pair assms
      by (cases "LoadScheduleCoverageAuthority ok (li_load io) path disk1")
         (auto simp: open_or_rebalance_def split: if_splits)
    obtain res' a' disk2 where r: "Rebalance ok (li_rebalance io) plan queue t b disk1 = (res', a', disk2)"
      by (cases "Rebalance ok (li_rebalance io) plan queue t b disk1")
    with Inl Pair assms b have "Rebalance ok (li_rebalance io) plan queue t b disk1 = (Inr (), a, disk')"
      by (cases res') (auto simp: open_or_rebalance_def)
    then show ?thesis by (rule Rebalance_plan)
  qed
qed

lemma Build_start:
  assumes "BuildScheduleCoveragePlan uri_ok m r at n = Inr (plan, queue)"
  shows "iv_Start (pl_Interval plan) = time_Truncate at scheduleInterval"
    and "VerifyScheduleCoveragePlan plan queue = None"
  using assms by (auto simp: BuildScheduleCoveragePlan_def Let_def split: if_splits option.splits)

lemma Record_Inr:
  assumes "RecordCoverage ok io t a disk = (Inr r, a', disk')"
  shows "\<exists>l state'. file_ledger ok disk = Some l \<and> lg_plan (au_ledger a) = lg_plan l \<and>
    CoverageReceipt ok l t = Inr r \<and> file_state ok disk' = Some (state', l) \<and> sa_Latest state' = Some r"
proof (cases rule: fresh_cases [of ok io "\<lambda>state ledger. case CoverageReceipt ok ledger t of Inl e \<Rightarrow> Inl e
    | Inr receipt \<Rightarrow> Inr (state\<lparr>sa_Latest := Some receipt\<rparr>, ledger, receipt)" a disk])
  case (committed state l state' l' r')
  note facts = file_state_ledger [OF committed(3)]
  from committed assms have r: "CoverageReceipt ok l t = Inr r" "state' = state\<lparr>sa_Latest := Some r\<rparr>" "l' = l"
    "disk' = Doc (stamped state' l' (sa_Generation state + 1))"
    by (auto simp: RecordCoverage_def split: sum.splits)
  have "authority_apply ok (RecordOp t) state l = Inr (state', l', None)" using r by simp
  from authority_apply_wf [OF this] facts have "ledger_wf l \<and> receipts_ok ok state'" using r(3) by simp
  then have "file_state ok disk' = Some (stamped state' l' (sa_Generation state + 1), l)"
    using file_ledger_written [of l ok state'] r(3,4)
    by (auto simp: file_ledger_def file_state_Some)
  with facts committed(4) r show ?thesis by auto
qed (use assms in \<open>auto simp: RecordCoverage_def\<close>)

text \<open>C12: a scheduling pass that reports success in a new interval has left exactly that interval's
  evidence on disk: the file holds the plan built from the pinned manifest for the interval of
  \<open>now\<close>, and its latest receipt is of that plan, observed at the interval's start, counting the
  ledger in the file.  Every later pass in the same interval does nothing.\<close>

theorem lifecycle_records_interval:
  assumes "ProcessDue uri_ok ok io now lc disk = (None, lc', disk')"
    and "time_Truncate now scheduleInterval \<noteq> lc_lastInterval lc"
    and "time_Truncate now' scheduleInterval = time_Truncate now scheduleInterval"
  shows "\<exists>plan queue state l r.
    BuildScheduleCoveragePlan uri_ok (lc_manifest lc) (lc_receipt lc) (time_Truncate now scheduleInterval) (lc_shardCount lc) =
      Inr (plan, queue) \<and>
    file_state ok disk' = Some (state, l) \<and> lg_plan l = plan \<and> sa_Latest state = Some r \<and> receiptPlan r = plan \<and>
    iv_Start (pl_Interval plan) = time_Truncate now scheduleInterval \<and>
    rc_ObservedAt r = time_Truncate now scheduleInterval \<and>
    rc_Aggregate r = coverage_totals l (time_Truncate now scheduleInterval) \<and>
    ProcessDue uri_ok ok io' now' lc' disk'' = (None, lc', disk'')"
proof -
  let ?i = "time_Truncate now scheduleInterval"
  obtain plan queue a disk1 r a' where b: "BuildScheduleCoveragePlan uri_ok (lc_manifest lc) (lc_receipt lc) ?i (lc_shardCount lc) = Inr (plan, queue)"
    and o: "open_or_rebalance ok io (lc_statePath lc) plan queue ?i disk = (Inr a, disk1)"
    and rec: "RecordCoverage ok (li_record io) ?i a disk1 = (Inr r, a', disk')"
    and lc': "lc' = lc\<lparr>lc_lastInterval := ?i\<rparr>"
    using assms(1,2) by (auto simp: ProcessDue_def Let_def split: sum.splits prod.splits)
  obtain l state where l: "file_ledger ok disk1 = Some l" "lg_plan (au_ledger a) = lg_plan l"
    "CoverageReceipt ok l ?i = Inr r" "file_state ok disk' = Some (state, l)" "sa_Latest state = Some r"
    using Record_Inr [OF rec] by blast
  have "lg_plan l = plan" using open_or_rebalance_plan [OF o] l(2) by simp
  moreover have "ProcessDue uri_ok ok io' now' lc' disk'' = (None, lc', disk'')"
    using assms(3) lc' by (simp add: ProcessDue_def)
  ultimately show ?thesis
    using b l Build_start(1) [OF b] CoverageReceipt_Inr [OF l(3) file_ledger_wf [OF l(1)]] by simp
qed

text \<open>A scheduling pass with working I/O succeeds.\<close>

definition io_works :: "lifecycle_io \<Rightarrow> bool" where
  "io_works io \<longleftrightarrow> io_lock (li_open io) \<and> io_write (li_open io) = Written \<and> li_load io \<and>
     io_lock (li_rebalance io) \<and> io_write (li_rebalance io) = Written \<and>
     io_lock (li_record io) \<and> io_write (li_record io) = Written"

lemma NewLedger_json:
  assumes "NewScheduleCoverageLedger plan queue = Inr l" "json_time_ok (iv_Start (pl_Interval plan))"
  shows "list_all (\<lambda>(subject, entry). entry_json_ok entry) (lg_entries l)"
proof -
  have "json_time_ok time_zero" by (simp add: json_time_ok_def time_zero_def second_def)
  moreover have "list_all (\<lambda>item. so_IntervalStart item = iv_Start (pl_Interval plan)) queue"
    using NewLedger_Inr(1) [OF assms(1)] by (auto simp: Verify_None_iff queue_item_ok_def list_all_iff)
  ultimately show ?thesis
    using NewLedger_Inr(2) [OF assms(1)] assms(2)
    by (auto simp: list_all_iff entry_json_ok_def queued_entry_def)
qed

lemma Snapshot_simps [simp]:
  "ledger_wf l \<Longrightarrow> sn_Plan (Snapshot l) = lg_plan l" "ledger_wf l \<Longrightarrow> sn_Entries (Snapshot l) = lg_entries l"
  by (simp_all add: Snapshot_def ledger_wf_def)

lemma built_receipt_json:
  "receipt_Validate ok r = None \<Longrightarrow> receipt_json_ok r"
  by (auto simp: receipt_Validate_def split: if_splits)

lemma new_state_json:
  assumes "NewScheduleCoverageLedger plan queue = Inr l" "json_time_ok (iv_Start (pl_Interval plan))"
    "receipts_ok ok state"
  shows "state_json_ok (stamped state l g)"
  using NewLedger_json [OF assms(1,2)] NewLedger_Inr(2) [OF assms(1)] NewLedger_inv [OF assms(1)] assms(2,3)
  by (auto simp: state_json_ok_def receipts_ok_def ledger_inv_def intro: built_receipt_json split: option.splits)

lemma Open_absent:
  assumes "NewScheduleCoverageLedger plan queue = Inr l" "json_time_ok (iv_Start (pl_Interval plan))"
    "path \<noteq> []" "\<not> root_path path" "io_lock io" "io_write io = Written"
  shows "\<exists>state. OpenScheduleCoverageAuthority ok io path plan queue Absent =
      (Inr \<lparr>au_statePath = path, au_ledger = l, au_latest = None, au_previous = None, au_generation = 1\<rparr>, Doc state) \<and>
    file_state ok (Doc state) = Some (state, l)"
proof -
  let ?st = "\<lparr>sa_SchemaVersion = ScheduleCoverageAuthorityStateVersion, sa_Generation = 0,
    sa_Ledger = Snapshot l, sa_Latest = None, sa_Previous = None\<rparr>"
  have wf: "ledger_wf l" using NewLedger_inv [OF assms(1)] by (simp add: ledger_inv_def)
  have ro: "receipts_ok ok ?st" by (simp add: receipts_ok_def)
  have "state_json_ok (?st\<lparr>sa_Generation := 1\<rparr>)"
    using new_state_json [OF assms(1,2) ro, of 1] by simp
  then have c: "commitScheduleCoverageAuthorityState path Written 0 ?st Absent = (None, Doc (?st\<lparr>sa_Generation := 1\<rparr>))"
    using assms(4)
    by (simp add: commitScheduleCoverageAuthorityState_def readScheduleCoverageAuthorityState_def
        writeScheduleCoverageAuthorityState_def)
  have "OpenScheduleCoverageAuthority ok io path plan queue Absent =
      (Inr \<lparr>au_statePath = path, au_ledger = l, au_latest = None, au_previous = None, au_generation = 1\<rparr>,
       Doc (?st\<lparr>sa_Generation := 1\<rparr>))"
    using assms NewLedger_Inr(1) [OF assms(1)] c
    by (simp add: OpenScheduleCoverageAuthority_def withScheduleCoverageAuthorityLock_def
        readScheduleCoverageAuthorityState_def)
  moreover have "file_state ok (Doc (?st\<lparr>sa_Generation := 1\<rparr>)) = Some (?st\<lparr>sa_Generation := 1\<rparr>, l)"
    using wf by (simp add: file_state_Some receipts_ok_def)
  ultimately show ?thesis by blast
qed

section \<open>The doctor report\<close>

lemma refresh_None:
  assumes "refreshLocked ok lock a disk = (None, a')"
  shows "\<exists>state l. file_state ok disk = Some (state, l) \<and> lg_plan (au_ledger a) = lg_plan l \<and>
    au_ledger a' = l \<and> au_latest a' = sa_Latest state"
proof (cases "file_state ok disk")
  case None
  then show ?thesis
    using assms
    by (auto simp: refreshLocked_def withScheduleCoverageAuthorityLock_def file_state_def
        split: sum.splits option.splits if_splits)
next
  case (Some p)
  obtain state l where p: "p = (state, l)" by (cases p)
  from file_state_read [OF Some [unfolded p]] assms Some p show ?thesis
    by (auto simp: refreshLocked_def withScheduleCoverageAuthorityLock_def sameScheduleCoveragePlan_def
        split: if_splits)
qed

text \<open>the doctor reports \<open>current\<close> only on fresh evidence of the plan in force: the file it
  last read holds a valid receipt of its own plan, observed no later than the reference time and no
  longer than \<open>maxAge\<close> before it, and the registry, interval and counts reported are that plan's and
  that receipt's.\<close>

theorem doctor_current_is_fresh:
  assumes "dr_ReceiptState (ReadScheduleCoverageDoctorReport ok lock lock' path reference maxAge disk disk') = ''current''"
    and "maxAge < 2 ^ 63 - 1"
  shows "\<exists>state l r. file_state ok disk' = Some (state, l) \<and> sa_Latest state = Some r \<and>
    receipt_Validate ok r = None \<and> receiptPlan r = lg_plan l \<and>
    rc_ObservedAt r \<le> reference \<and> reference \<le> rc_ObservedAt r + maxAge \<and>
    dr_Registry (ReadScheduleCoverageDoctorReport ok lock lock' path reference maxAge disk disk') = rc_Registry r \<and>
    dr_LatestInterval (ReadScheduleCoverageDoctorReport ok lock lock' path reference maxAge disk disk') =
      iv_Start (rc_Interval r) \<and>
    dr_Counts (ReadScheduleCoverageDoctorReport ok lock lock' path reference maxAge disk disk') = rc_Aggregate r"
proof -
  let ?rep = "ReadScheduleCoverageDoctorReport ok lock lock' path reference maxAge disk disk'"
  have ne: "dr_ReceiptState (doctorReport s) = s" for s by (simp add: doctorReport_def)
  obtain a where rep: "?rep = fst (Doctor ok lock' reference maxAge a disk')"
    using assms(1) by (auto simp: ReadScheduleCoverageDoctorReport_def ne split: if_splits sum.splits option.splits)
  obtain a' where ref: "refreshLocked ok lock' a disk' = (None, a')"
    using assms(1) rep by (cases "refreshLocked ok lock' a disk'") (auto simp: Doctor_def ne split: option.splits)
  obtain state l where l: "file_state ok disk' = Some (state, l)" "au_ledger a' = l" "au_latest a' = sa_Latest state"
    using refresh_None [OF ref] by blast
  obtain r where r: "sa_Latest state = Some r"
    using assms(1) rep ref l(3) by (cases "sa_Latest state") (auto simp: Doctor_def ne Let_def)
  have ok: "receipt_Validate ok r = None" "receiptPlan r = lg_plan l" "rc_ObservedAt r \<le> reference"
    "time_Sub reference (rc_ObservedAt r) \<le> maxAge"
    using assms(1) rep ref l r by (auto simp: Doctor_def Let_def sameScheduleCoveragePlan_def split: if_splits)
  have "?rep = (doctorReport ''missing'')\<lparr>dr_ReceiptState := ''current'', dr_Registry := pl_Registry (lg_plan l),
      dr_ShardCount := sc_ShardCount (pl_Scheduler (lg_plan l)),
      dr_LatestInterval := iv_Start (pl_Interval (lg_plan l)), dr_Counts := rc_Aggregate r\<rparr>"
    using assms(1) rep ref l r by (auto simp: Doctor_def Let_def split: if_splits)
  moreover have "reference \<le> rc_ObservedAt r + maxAge" using ok(4) assms(2) by (auto simp: time_Sub_def)
  moreover have "pl_Registry (lg_plan l) = rc_Registry r" "pl_Interval (lg_plan l) = rc_Interval r"
    by (simp_all add: ok(2) [symmetric] receiptPlan_def)
  ultimately show ?thesis using l(1) r ok by simp
qed

text \<open>The file holds an earlier plan, an exact number of intervals before \<open>t\<close>, whose leases have ended.\<close>

definition earlier_file :: "(ScheduleCoverageReceipt \<Rightarrow> bool) \<Rightarrow> time \<Rightarrow> state_file \<Rightarrow> bool" where
  "earlier_file ok t disk \<longleftrightarrow> (\<exists>l. file_ledger ok disk = Some l \<and> ledger_inv l \<and>
     iv_Start (pl_Interval (lg_plan l)) < t \<and> json_time_ok (iv_Start (pl_Interval (lg_plan l))) \<and>
     time_Sub t (iv_Start (pl_Interval (lg_plan l))) mod scheduleInterval = 0 \<and> no_live_lease l t)"

lemma open_or_rebalance_works:
  assumes e: "earlier_file ok t disk"
    and l': "NewScheduleCoverageLedger plan queue = Inr l'" and st: "iv_Start (pl_Interval plan) = t"
    and nz: "\<not> IsZero t" and ij: "json_time_ok t"
    and path: "path \<noteq> []" "\<not> root_path path" and io: "io_works io"
    and schema: "\<And>r. schedule_coverage_schema r \<Longrightarrow> ok r"
  shows "\<exists>a disk1 state. open_or_rebalance ok io path plan queue t disk = (Inr a, disk1) \<and>
    file_state ok disk1 = Some (state, l') \<and> au_ledger a = l' \<and> au_statePath a = path"
proof -
  from e obtain l where l: "file_ledger ok disk = Some l" "ledger_inv l" "iv_Start (pl_Interval (lg_plan l)) < t"
    "json_time_ok (iv_Start (pl_Interval (lg_plan l)))"
    "time_Sub t (iv_Start (pl_Interval (lg_plan l))) mod scheduleInterval = 0" "no_live_lease l t"
    by (auto simp: earlier_file_def)
  obtain state where fs: "file_state ok disk = Some (state, l)" using l(1) by (auto simp: file_ledger_def)
  note rd = file_state_read [OF fs] and facts = file_state_ledger [OF fs]
  obtain r where r: "CoverageReceipt ok l t = Inr r" "receipt_Validate ok r = None"
    using coverage_receipt_exists [OF l(2) _ nz l(4) ij, of ok] schema l(3) by auto
  have "lg_plan l \<noteq> plan" using l(3) st by auto
  then have o: "OpenScheduleCoverageAuthority ok (li_open io) path plan queue disk = (Inl ErrSchedulePlanTransition, disk)"
    using rd path io NewLedger_Inr(1) [OF l']
    by (simp add: OpenScheduleCoverageAuthority_def withScheduleCoverageAuthorityLock_def io_works_def
        sameScheduleCoveragePlan_def)
  have ld: "LoadScheduleCoverageAuthority ok (li_load io) path disk = Inr (authority_of path l state)"
    using rd path io
    by (simp add: LoadScheduleCoverageAuthority_def withScheduleCoverageAuthorityLock_def io_works_def)
  let ?st = "state\<lparr>sa_Latest := None, sa_Previous := Some r\<rparr>"
  have ap: "authority_apply ok (RebalanceOp plan queue t) state l = Inr (?st, l', None)"
    using l r l' st unfolding rebalance_apply_Inr by simp
  from authority_apply_wf [OF ap] facts have wf: "ledger_wf l' \<and> receipts_ok ok ?st" by simp
  then have "state_json_ok (stamped ?st l' (sa_Generation state + 1))"
    using new_state_json [OF l', of ok ?st] st ij by simp
  then obtain a' where rb: "authority_run ok (li_rebalance io) (RebalanceOp plan queue t) (authority_of path l state) disk =
      (Inr None, a', Doc (stamped ?st l' (sa_Generation state + 1)))" "au_ledger a' = l'" "au_statePath a' = path"
    using path io l(4)
    by (simp add: authority_run_apply fresh_healthy [OF fs] authority_of_def io_works_def ap
        del: authority_apply.simps)
  have fs': "file_state ok (Doc (stamped ?st l' (sa_Generation state + 1))) =
      Some (stamped ?st l' (sa_Generation state + 1), l')"
    using file_ledger_written [of l' ok ?st] wf by (auto simp: file_ledger_def file_state_Some)
  have "Rebalance ok (li_rebalance io) plan queue t (authority_of path l state) disk =
      (Inr (), a', Doc (stamped ?st l' (sa_Generation state + 1)))"
    using rb(1) by (cases "Rebalance ok (li_rebalance io) plan queue t (authority_of path l state) disk")
      (auto simp: with_result_def map_sum_def split: sum.splits)
  with o ld rb fs' show ?thesis by (auto simp: open_or_rebalance_def)
qed

lemma process_due_works:
  assumes "manifest_Validate uri_ok (lc_manifest lc) (lc_receipt lc) = None"
    and "validOperationManifestReceipt (lc_receipt lc)"
    and "1 \<le> lc_shardCount lc" "lc_shardCount lc \<le> 4096"
    and "scheduleInterval \<le> now" "json_time_ok now"
    and "lc_statePath lc \<noteq> []" "\<not> root_path (lc_statePath lc)" "io_works io"
    and "\<And>r. schedule_coverage_schema r \<Longrightarrow> ok r"
    and "disk = Absent \<or> earlier_file ok (time_Truncate now scheduleInterval) disk"
  shows "fst (ProcessDue uri_ok ok io now lc disk) = None"
proof (cases "time_Truncate now scheduleInterval = lc_lastInterval lc")
  case True
  then show ?thesis by (simp add: ProcessDue_def)
next
  case False
  let ?i = "time_Truncate now scheduleInterval" and ?path = "lc_statePath lc"
  have iv: "(0::int) < scheduleInterval" by (simp add: scheduleInterval_def go_defs)
  have i: "?i \<le> now" "now < ?i + scheduleInterval" using iv by (simp_all add: time_Truncate_le time_Truncate_gt)
  have i0: "scheduleInterval \<le> ?i"
    using time_Truncate_mono [OF iv assms(5)] iv by (simp add: time_Truncate_def)
  then have nz: "\<not> IsZero ?i" using iv by (simp add: IsZero_def)
  have ij: "json_time_ok ?i" using i i0 iv assms(6) by (simp add: json_time_ok_def second_def)
  obtain plan queue where b: "BuildScheduleCoveragePlan uri_ok (lc_manifest lc) (lc_receipt lc) ?i (lc_shardCount lc) = Inr (plan, queue)"
    using build_plan_total [OF assms(1-4) i0] by blast
  have st: "iv_Start (pl_Interval plan) = ?i" using Build_start(1) [OF b] by simp
  obtain l' where l': "NewScheduleCoverageLedger plan queue = Inr l'"
    using Build_start(2) [OF b] by (simp add: NewScheduleCoverageLedger_def)
  note pl' = NewLedger_Inr(2) [OF l'] and inv' = NewLedger_inv [OF l']
  have opened: "\<exists>a disk1 state. open_or_rebalance ok io ?path plan queue ?i disk = (Inr a, disk1) \<and>
      file_state ok disk1 = Some (state, l') \<and> au_ledger a = l' \<and> au_statePath a = ?path"
  proof (cases "disk = Absent")
    case True
    with Open_absent [OF l', of ?path "li_open io" ok] assms(7-9) st ij show ?thesis
      by (auto simp: open_or_rebalance_def io_works_def)
  next
    case False
    with assms(11) have e: "earlier_file ok ?i disk" by simp
    show ?thesis
      by (rule open_or_rebalance_works [where ok = ok, OF e l' st nz ij assms(7-9)]) (rule assms(10))
  qed
  then obtain a disk1 state where o: "open_or_rebalance ok io ?path plan queue ?i disk = (Inr a, disk1)"
    and fs: "file_state ok disk1 = Some (state, l')" and a: "au_ledger a = l'" "au_statePath a = ?path" by blast
  obtain r where r: "CoverageReceipt ok l' ?i = Inr r" "receipt_Validate ok r = None"
    using coverage_receipt_exists [OF inv' _ nz _ ij, of ok] assms(10) pl' st ij by auto
  have "authority_apply ok (RecordOp ?i) state l' = Inr (state\<lparr>sa_Latest := Some r\<rparr>, l', None)" using r by simp
  from authority_apply_wf [OF this] file_state_ledger [OF fs]
  have "state_json_ok (stamped (state\<lparr>sa_Latest := Some r\<rparr>) l' (sa_Generation state + 1))"
    using new_state_json [OF l', of ok "state\<lparr>sa_Latest := Some r\<rparr>"] st ij by simp
  then have "fst (RecordCoverage ok (li_record io) ?i a disk1) = Inr r"
    using assms(8,9) r(1) a pl' st ij
    by (simp add: RecordCoverage_def fresh_healthy [OF fs] io_works_def)
  then show ?thesis
    using False b o
    by (cases "RecordCoverage ok (li_record io) ?i a disk1") (simp add: ProcessDue_def Let_def)
qed

text \<open>C13: scheduling makes progress: for a pinned manifest, when the I/O works, a pass in any
  interval from the first on succeeds, both on an empty state directory and over the file of an
  earlier interval whose leases have all ended.\<close>

theorem lifecycle_makes_progress:
  assumes "manifest_Validate uri_ok (lc_manifest lc) (lc_receipt lc) = None"
    and "validOperationManifestReceipt (lc_receipt lc)"
    and "1 \<le> lc_shardCount lc" "lc_shardCount lc \<le> 4096"
    and "scheduleInterval \<le> now" "json_time_ok now"
    and "lc_statePath lc \<noteq> []" "\<not> root_path (lc_statePath lc)" "io_works io"
    and "\<And>r. schedule_coverage_schema r \<Longrightarrow> ok r"
    and "disk = Absent \<or> earlier_file ok (time_Truncate now scheduleInterval) disk"
  shows "fst (ProcessDue uri_ok ok io now lc disk) = None"
  using assms by (rule process_due_works)

section \<open>Examples\<close>

definition good_io :: authority_io where
  "good_io = \<lparr>io_lock = True, io_write = Written\<rparr>"

definition example_path :: string where "example_path = ''schedule.json''"

definition example_state :: scheduleCoverageAuthorityState where
  "example_state = \<lparr>sa_SchemaVersion = ScheduleCoverageAuthorityStateVersion, sa_Generation = 1,
     sa_Ledger = Snapshot example_ledger, sa_Latest = None, sa_Previous = None\<rparr>"

definition example_authority :: ScheduleCoverageAuthority where
  "example_authority = \<lparr>au_statePath = example_path, au_ledger = example_ledger, au_latest = None,
     au_previous = None, au_generation = 1\<rparr>"

lemma good_io_simps [simp]: "io_lock good_io" "io_write good_io = Written"
  by (simp_all add: good_io_def)

lemma example_path_ok [simp]: "example_path \<noteq> []" "\<not> root_path example_path"
  by (simp_all add: example_path_def root_path_def)

lemma example_ledger_wf [simp]: "ledger_wf example_ledger"
  using example_ledger_inv by (simp add: ledger_inv_def)

lemma example_start [simp]: "iv_Start (pl_Interval (lg_plan example_ledger)) = scheduleInterval"
  by (simp add: example_ledger_def example_plan_def)

lemma small_times [simp]:
  "json_time_ok time_zero" "json_time_ok scheduleInterval" "json_time_ok (scheduleInterval + 5)"
  "json_time_ok (2 * scheduleInterval)" "\<not> IsZero scheduleInterval" "\<not> IsZero (2 * scheduleInterval)"
  by (simp_all add: go_defs scheduleInterval_def json_time_ok_def)

lemma example_file_state: "file_state ok (Doc example_state) = Some (example_state, example_ledger)"
  by (simp add: file_state_Some example_state_def receipts_ok_def)

lemma example_authority_simps [simp]:
  "au_ledger example_authority = example_ledger" "au_statePath example_authority = example_path"
  by (simp_all add: example_authority_def)

lemmas example_healthy = fresh_healthy [OF example_file_state, of example_authority good_io, simplified]

lemma example_claim_json: "state_json_ok (stamped example_state (fst example_claim) 2)"
proof -
  have e: "lg_entries (fst example_claim) =
      [(example_subject, claimed_entry (queued_entry (hd example_queue)) (scheduleInterval + 5))]"
    by (simp add: example_claim_def Let_def example_ledger_def)
  have "so_IntervalStart (hd example_queue) = scheduleInterval"
    by (simp add: example_queue_def)
  moreover have "lg_plan (fst example_claim) = example_plan" "iv_Start (pl_Interval example_plan) = scheduleInterval"
    by (simp_all add: example_claim_def Let_def example_ledger_def example_plan_def)
  moreover have "ledger_wf (fst example_claim)" using example_claim_inv by (simp add: ledger_inv_def)
  ultimately show ?thesis
    by (simp add: state_json_ok_def e entry_json_ok_def claimed_entry_def queued_entry_def example_state_def)
qed

lemma example_authority_claim:
  "fst (authority_run ok good_io (LedgerOp (OpClaim example_subject scheduleInterval 5)) example_authority
     (Doc example_state)) = Inr (Some (snd example_claim))"
proof -
  have "sa_Generation example_state + 1 = 2" by (simp add: example_state_def)
  moreover have "ledger_run (OpClaim example_subject scheduleInterval 5) example_ledger =
      Inr (fst example_claim, Some (snd example_claim))"
    by (simp add: example_claim_ok del: prod.collapse)
  ultimately show ?thesis
    using example_claim_json by (simp add: authority_run_apply example_healthy del: ledger_run.simps)
qed

theorem authority_answers_as_ledger_witness:
  "fst (authority_run schedule_coverage_schema good_io (LedgerOp (OpClaim example_subject scheduleInterval (- 1))) example_authority
     (Doc example_state)) = Inl (ScheduleError ''schedule claim input is invalid'')"
proof -
  have "ledger_run (OpClaim example_subject scheduleInterval (- 1)) example_ledger =
      Inl (ScheduleError ''schedule claim input is invalid'')"
    by (simp add: Claim_def)
  with authority_answers_as_ledger [OF example_file_state, of example_authority good_io schedule_coverage_schema
      "OpClaim example_subject scheduleInterval (- 1)"]
  show ?thesis by simp
qed

theorem lease_is_exclusive_across_processes_witness:
  "fst (authority_run schedule_coverage_schema good_io (LedgerOp (OpClaim example_subject (scheduleInterval + 2) 9)) example_authority
     (snd (fold (world_step schedule_coverage_schema)
        [(0, good_io\<lparr>io_write := Written_unsynced\<rparr>, LedgerOp (OpClaim example_subject (scheduleInterval + 1) 7)),
         (1, good_io, RecordOp (scheduleInterval + 1))]
        (\<lambda>_. example_authority, snd (snd (authority_run schedule_coverage_schema good_io
           (LedgerOp (OpClaim example_subject scheduleInterval 5)) example_authority (Doc example_state))))))) \<in> range Inl"
proof -
  let ?run = "authority_run schedule_coverage_schema good_io (LedgerOp (OpClaim example_subject scheduleInterval 5)) example_authority (Doc example_state)"
  have r: "?run = (Inr (Some (snd example_claim)), fst (snd ?run), snd (snd ?run))"
    using example_authority_claim [of schedule_coverage_schema] by (metis prod.collapse)
  have others: "list_all (\<lambda>(i, io, op). others_authority_op (snd example_claim) op)
        [(0, good_io\<lparr>io_write := Written_unsynced\<rparr>, LedgerOp (OpClaim example_subject (scheduleInterval + 1) 7)),
         (1, good_io, RecordOp (scheduleInterval + 1))]"
    by (simp add: example_claim_def Let_def claim_of_def claimed_entry_def)
  show ?thesis
    by (rule lease_is_exclusive_across_processes [OF r others, where t = scheduleInterval, THEN conjunct2]) simp_all
qed

definition later_queue :: "ScheduledOperation list" where
  "later_queue = List.map (scheduled example_registry (2 * scheduleInterval) 1) [example_operation]"

definition later_plan :: ScheduleCoveragePlan where
  "later_plan = \<lparr>pl_SchemaVersion = ScheduleCoverageReceiptSchemaVersion, pl_Registry = example_registry,
     pl_Interval = \<lparr>iv_Start = 2 * scheduleInterval, iv_DurationSeconds = scheduleInterval div second\<rparr>,
     pl_Scheduler = \<lparr>sc_ShardCount = 1, sc_AssignmentAlgorithm = scheduleAssignmentV1\<rparr>,
     pl_Shards = shards_of (List.map (shard_queue later_queue) [0..<nat 1])\<rparr>"

lemma later_plan_verified: "VerifyScheduleCoveragePlan later_plan later_queue = None"
  by (rule verify_built_plan [OF later_plan_def later_queue_def])
     (simp_all add: go_defs scheduleInterval_def time_Truncate_def example_registry_def commitPattern_def
       sha256Pattern_def hex_string_def is_lower_hex_def list_all_iff)

lemma later_start [simp]: "iv_Start (pl_Interval later_plan) = 2 * scheduleInterval"
  by (simp add: later_plan_def)

lemma example_rebalance:
  "fst (authority_run schedule_coverage_schema good_io (RebalanceOp later_plan later_queue (2 * scheduleInterval))
     example_authority (Doc example_state)) = Inr None"
proof -
  obtain l' where l': "NewScheduleCoverageLedger later_plan later_queue = Inr l'"
    by (simp add: NewScheduleCoverageLedger_def later_plan_verified)
  have pos: "0 < scheduleInterval" by (simp add: scheduleInterval_def go_defs)
  obtain r where r: "CoverageReceipt schedule_coverage_schema example_ledger (2 * scheduleInterval) = Inr r"
    using coverage_receipt_exists [OF example_ledger_inv, of "2 * scheduleInterval" schedule_coverage_schema] pos by auto
  let ?st = "example_state\<lparr>sa_Latest := None, sa_Previous := Some r\<rparr>"
  have "time_Sub (2 * scheduleInterval) scheduleInterval mod scheduleInterval = 0"
    by (simp add: time_Sub_def scheduleInterval_def go_defs)
  moreover have "no_live_lease example_ledger (2 * scheduleInterval)"
    by (simp add: no_live_lease_def example_ledger_def)
  ultimately have ap: "authority_apply schedule_coverage_schema (RebalanceOp later_plan later_queue (2 * scheduleInterval))
      example_state example_ledger = Inr (?st, l', None)"
    using r l' pos unfolding rebalance_apply_Inr by simp
  have "receipts_ok schedule_coverage_schema ?st"
    using CoverageReceipt_valid [OF r] by (simp add: receipts_ok_def)
  then have "state_json_ok (stamped ?st l' (sa_Generation example_state + 1))"
    using new_state_json [OF l'] by simp
  then show ?thesis
    by (simp add: authority_run_apply example_healthy ap del: authority_apply.simps)
qed

theorem rebalance_keeps_evidence_witness:
  "\<exists>r. receiptPlan r = example_plan \<and> rc_ObservedAt r = 2 * scheduleInterval"
proof -
  let ?run = "authority_run schedule_coverage_schema good_io (RebalanceOp later_plan later_queue (2 * scheduleInterval))
     example_authority (Doc example_state)"
  have r: "?run = (Inr None, fst (snd ?run), snd (snd ?run))" using example_rebalance by (metis prod.collapse)
  have "file_ledger schedule_coverage_schema (Doc example_state) = Some example_ledger"
    by (simp add: file_ledger_def example_file_state)
  with rebalance_keeps_evidence [OF r] show ?thesis by (auto simp: example_ledger_def)
qed

theorem rebalance_retires_old_instances_witness:
  "\<exists>e. authority_run schedule_coverage_schema good_io (LedgerOp (OpClaim example_subject scheduleInterval 5)) example_authority
     (snd (fold (world_step schedule_coverage_schema) [(0, good_io, RecordOp (3 * scheduleInterval))]
       (\<lambda>_. example_authority, snd (snd (authority_run schedule_coverage_schema good_io
          (RebalanceOp later_plan later_queue (2 * scheduleInterval)) example_authority (Doc example_state)))))) =
     (Inl e, example_authority, snd (fold (world_step schedule_coverage_schema) [(0, good_io, RecordOp (3 * scheduleInterval))]
       (\<lambda>_. example_authority, snd (snd (authority_run schedule_coverage_schema good_io
          (RebalanceOp later_plan later_queue (2 * scheduleInterval)) example_authority (Doc example_state))))))"
proof -
  let ?run = "authority_run schedule_coverage_schema good_io (RebalanceOp later_plan later_queue (2 * scheduleInterval))
     example_authority (Doc example_state)"
  have r: "?run = (Inr None, fst (snd ?run), snd (snd ?run))" using example_rebalance by (metis prod.collapse)
  show ?thesis by (rule rebalance_retires_old_instances [OF r refl])
qed

definition example_lifecycle :: ScheduleCoverageLifecycle where
  "example_lifecycle = \<lparr>lc_statePath = example_path, lc_manifest = example_manifest, lc_receipt = example_receipt,
     lc_shardCount = 4, lc_lastInterval = time_zero\<rparr>"

definition good_lifecycle_io :: lifecycle_io where
  "good_lifecycle_io = \<lparr>li_open = good_io, li_load = True, li_rebalance = good_io, li_record = good_io\<rparr>"

lemma example_lifecycle_simps [simp]:
  "lc_statePath example_lifecycle = example_path" "lc_manifest example_lifecycle = example_manifest"
  "lc_receipt example_lifecycle = example_receipt" "lc_shardCount example_lifecycle = 4"
  "lc_lastInterval example_lifecycle = time_zero" "io_works good_lifecycle_io"
  by (simp_all add: example_lifecycle_def good_lifecycle_io_def io_works_def)

lemma Truncate_interval [simp]: "time_Truncate scheduleInterval scheduleInterval = scheduleInterval"
  by (simp add: time_Truncate_def)

lemma example_pass:
  "fst (ProcessDue (\<lambda>_. True) schedule_coverage_schema good_lifecycle_io scheduleInterval example_lifecycle Absent) = None"
  by (rule process_due_works) (simp_all add: example_manifest_valid example_receipt_valid)

theorem lifecycle_records_interval_witness:
  "ProcessDue (\<lambda>_. True) schedule_coverage_schema good_lifecycle_io (scheduleInterval + 5)
     (fst (snd (ProcessDue (\<lambda>_. True) schedule_coverage_schema good_lifecycle_io scheduleInterval example_lifecycle Absent)))
     Garbage =
   (None, fst (snd (ProcessDue (\<lambda>_. True) schedule_coverage_schema good_lifecycle_io scheduleInterval example_lifecycle Absent)),
     Garbage)"
proof -
  let ?run = "ProcessDue (\<lambda>_. True) schedule_coverage_schema good_lifecycle_io scheduleInterval example_lifecycle Absent"
  have r: "?run = (None, fst (snd ?run), snd (snd ?run))" using example_pass by (metis prod.collapse)
  have "time_Truncate scheduleInterval scheduleInterval \<noteq> lc_lastInterval example_lifecycle"
    by (simp add: scheduleInterval_def go_defs time_Truncate_def)
  moreover have "time_Truncate (scheduleInterval + 5) scheduleInterval = time_Truncate scheduleInterval scheduleInterval"
    by (simp add: time_Truncate_def scheduleInterval_def go_defs)
  ultimately show ?thesis using lifecycle_records_interval [OF r] by blast
qed

theorem lifecycle_makes_progress_witness:
  "fst (ProcessDue (\<lambda>_. True) schedule_coverage_schema good_lifecycle_io scheduleInterval example_lifecycle Absent) = None"
  by (rule lifecycle_makes_progress) (simp_all add: example_manifest_valid example_receipt_valid)

lemma doctor_reports_current:
  assumes "file_state ok disk = Some (state, l)" "sa_Latest state = Some r" "receiptPlan r = lg_plan l"
    and "json_time_ok (iv_Start (pl_Interval (lg_plan l)))" "path \<noteq> []" "\<not> root_path path"
    and "\<not> IsZero reference" "0 < maxAge" "rc_ObservedAt r \<le> reference" "time_Sub reference (rc_ObservedAt r) \<le> maxAge"
  shows "dr_ReceiptState (ReadScheduleCoverageDoctorReport ok True True path reference maxAge disk disk) = ''current''"
proof -
  note rd = file_state_read [OF assms(1)]
  have v: "receipt_Validate ok r = None"
    using file_state_ledger [OF assms(1)] assms(2) by (simp add: receipts_ok_def)
  have same: "sameScheduleCoveragePlan (lg_plan l) (lg_plan l)" using assms(4) by (simp add: sameScheduleCoveragePlan_def)
  have ld: "LoadScheduleCoverageAuthority ok True path disk = Inr (authority_of path l state)"
    using rd assms(5,6) by (simp add: LoadScheduleCoverageAuthority_def withScheduleCoverageAuthorityLock_def)
  have "refreshLocked ok True (authority_of path l state) disk = (None, authority_of path l state)"
    using rd assms(6) same by (simp add: refreshLocked_def withScheduleCoverageAuthorityLock_def authority_of_def)
  then show ?thesis
    using ld v same assms
    by (simp add: ReadScheduleCoverageDoctorReport_def Doctor_def authority_of_def Let_def)
qed

theorem doctor_current_is_fresh_witness:
  "\<exists>disk. dr_Counts (ReadScheduleCoverageDoctorReport schedule_coverage_schema True True example_path
       (scheduleInterval + 5) 9 disk disk) = coverage_totals example_ledger scheduleInterval"
proof -
  obtain r where r: "CoverageReceipt schedule_coverage_schema example_ledger scheduleInterval = Inr r"
    using coverage_receipt_exists [OF example_ledger_inv, of scheduleInterval schedule_coverage_schema] by auto
  note facts = CoverageReceipt_Inr [OF r example_ledger_wf]
  let ?st = "example_state\<lparr>sa_Latest := Some r\<rparr>"
  have fs: "file_state schedule_coverage_schema (Doc ?st) = Some (?st, example_ledger)"
    using facts(1) by (simp add: file_state_Some example_state_def receipts_ok_def)
  have cur: "dr_ReceiptState (ReadScheduleCoverageDoctorReport schedule_coverage_schema True True example_path
      (scheduleInterval + 5) 9 (Doc ?st) (Doc ?st)) = ''current''"
    by (rule doctor_reports_current [OF fs, of r])
       (use facts in \<open>simp_all add: time_Sub_def IsZero_def scheduleInterval_def go_defs json_time_ok_def\<close>)
  from doctor_current_is_fresh [OF cur] fs facts(4) show ?thesis by auto
qed

end
