(* ===== verification/Canary_Scheduler.thy ===== *)
theory Canary_Scheduler
  imports Canary Schedule_Authority_Facts
begin

text \<open>
  \<^verbatim>\<open>internal/health/scheduler.go\<close> and \<^verbatim>\<open>scheduler_readiness.go\<close>: slots and deterministic jitter,
  the durable claim of a slot before its probe starts, the probe goroutine as the list of its
  atomic effects on the scheduler, the receipt that replaces a missing one, progress, metrics
  and readiness.  The clock, the file system, the random source, the child process and the
  deliverer are inputs.  The step relation at the end interleaves loop passes, effects of
  running probes and restarts.
\<close>

section \<open>Slots\<close>

text \<open>Go's integer division truncates towards zero.\<close>

definition go_quot :: "int \<Rightarrow> int \<Rightarrow> int" where
  "go_quot a b = sgn a * sgn b * (\<bar>a\<bar> div \<bar>b\<bar>)"

definition slotAt :: "Canary \<Rightarrow> time \<Rightarrow> int" where
  "slotAt canary at = go_quot (time_Unix at) (ca_IntervalMinutes canary * 60)"

definition deterministicJitter :: "string \<Rightarrow> int \<Rightarrow> int \<Rightarrow> int" where
  "deterministicJitter operationID slot m =
     (if m \<le> 0 then 0
      else int (sha256_u64 (operationID @ List.map char_of (be_bytes 8 (nat (slot mod 2 ^ 64))))) mod (m + 1))"

definition dueForSlot :: "Canary \<Rightarrow> int \<Rightarrow> int \<Rightarrow> string \<Rightarrow> time" where
  "dueForSlot canary slot jitter operationID =
     from_Unix (slot * (ca_IntervalMinutes canary * 60) + deterministicJitter operationID slot jitter)"

definition nextDueAfter :: "Canary \<Rightarrow> time \<Rightarrow> int \<Rightarrow> string \<Rightarrow> time" where
  "nextDueAfter canary now jitter operationID =
     (let slot = slotAt canary now;
          due = dueForSlot canary slot jitter operationID
      in if due > now then due else dueForSlot canary (slot + 1) jitter operationID)"

section \<open>State\<close>

record slotRecord =
  sr_LastClaimedSlot :: int
  sr_NextDue :: time

record scheduleState =
  ss_Version :: int
  ss_Slots :: "(string, slotRecord) gomap"

record SchedulerMetrics =
  m_RunsStarted :: "64 word"
  m_RunsCompleted :: "64 word"
  m_RunsFailed :: "64 word"
  m_RunsSkippedCapacity :: "64 word"
  m_DeliveryFailed :: "64 word"
  m_LastCompleted :: time
  m_AdmissionRejected :: "64 word"
  m_LastAdmissionReason :: string

record CanaryProgress =
  pg_OperationID :: string
  pg_LastStarted :: "time option"
  pg_LastAccepted :: "time option"
  pg_LastDelivered :: "time option"
  pg_OriginalObservedAt :: "time option"
  pg_State :: string
  pg_Reason :: string

text \<open>\<open>sh_sem\<close> is the number of tokens in the semaphore channel, \<open>sh_active\<close> the keys of \<^verbatim>\<open>active\<close>.\<close>

record Scheduler =
  sh_config :: CanaryConfig
  sh_coverage :: "ScheduleCoverageLifecycle option"
  sh_state :: scheduleState
  sh_active :: "string set"
  sh_sem :: nat
  sh_metrics :: SchedulerMetrics
  sh_progress :: "(string, CanaryProgress) gomap"
  sh_lastLoop :: time
  sh_loopFailure :: bool
  sh_stateFailures :: "64 word"

definition zero_metrics :: SchedulerMetrics where
  "zero_metrics = \<lparr>m_RunsStarted = 0, m_RunsCompleted = 0, m_RunsFailed = 0, m_RunsSkippedCapacity = 0,
     m_DeliveryFailed = 0, m_LastCompleted = time_zero, m_AdmissionRejected = 0, m_LastAdmissionReason = ''''\<rparr>"

definition zero_progress :: CanaryProgress where
  "zero_progress = \<lparr>pg_OperationID = '''', pg_LastStarted = None, pg_LastAccepted = None,
     pg_LastDelivered = None, pg_OriginalObservedAt = None, pg_State = '''', pg_Reason = ''''\<rparr>"

definition progress_of :: "Scheduler \<Rightarrow> string \<Rightarrow> CanaryProgress" where
  "progress_of s key = (case gm_get (sh_progress s) key of None \<Rightarrow> zero_progress | Some p \<Rightarrow> p)"

text \<open>The state file: a version and slots, \<open>None\<close> for a JSON null.\<close>

type_synonym schedule_file = "(int \<times> (string, slotRecord) gomap option) stored"

definition loadScheduleState :: "schedule_file \<Rightarrow> string + scheduleState" where
  "loadScheduleState f =
     (case f of
        Absent \<Rightarrow> Inr \<lparr>ss_Version = 1, ss_Slots = []\<rparr>
      | Garbage \<Rightarrow> Inl ''invalid scheduler state''
      | Doc (version, slots) \<Rightarrow>
          (if version \<noteq> 1 then Inl ''invalid scheduler state''
           else case slots of None \<Rightarrow> Inl ''invalid scheduler state''
                | Some m \<Rightarrow> Inr \<lparr>ss_Version = version, ss_Slots = m\<rparr>))"

text \<open>\<open>ok\<close>: the temporary file was created, written, synced and renamed over the state file.\<close>

definition saveLocked :: "bool \<Rightarrow> Scheduler \<Rightarrow> schedule_file \<Rightarrow> string option \<times> schedule_file" where
  "saveLocked ok s f =
     (if \<not> list_all (\<lambda>(k, r). json_time_ok (sr_NextDue r)) (ss_Slots (sh_state s)) then (Some ''json error'', f)
      else if \<not> ok then (Some ''write error'', f)
      else (None, Doc (ss_Version (sh_state s), Some (ss_Slots (sh_state s)))))"

definition NewSchedulerWithCoverage ::
  "CanaryConfig \<Rightarrow> string \<Rightarrow> schedule_file \<Rightarrow> bool \<Rightarrow> bool \<Rightarrow> ScheduleCoverageLifecycle option
    \<Rightarrow> string + Scheduler" where
  "NewSchedulerWithCoverage config statePath f runner deliverer coverage =
     (if \<not> runner \<or> \<not> deliverer \<or> statePath = '''' then Inl ''scheduler dependencies are required''
      else case loadScheduleState f of
        Inl e \<Rightarrow> Inl e
      | Inr state \<Rightarrow>
          Inr \<lparr>sh_config = config, sh_coverage = coverage, sh_state = state, sh_active = {}, sh_sem = 0,
               sh_metrics = zero_metrics, sh_progress = [], sh_lastLoop = time_zero,
               sh_loopFailure = False, sh_stateFailures = 0\<rparr>)"

section \<open>Metrics and progress\<close>

definition incStarted :: "Scheduler \<Rightarrow> Scheduler" where
  "incStarted s = s\<lparr>sh_metrics := (sh_metrics s)\<lparr>m_RunsStarted := m_RunsStarted (sh_metrics s) + 1\<rparr>\<rparr>"

definition incCompleted :: "time \<Rightarrow> Scheduler \<Rightarrow> Scheduler" where
  "incCompleted now s = s\<lparr>sh_metrics := (sh_metrics s)\<lparr>m_RunsCompleted := m_RunsCompleted (sh_metrics s) + 1,
     m_LastCompleted := now\<rparr>\<rparr>"

definition incFailed :: "Scheduler \<Rightarrow> Scheduler" where
  "incFailed s = s\<lparr>sh_metrics := (sh_metrics s)\<lparr>m_RunsFailed := m_RunsFailed (sh_metrics s) + 1\<rparr>\<rparr>"

definition incSkippedCapacity :: "Scheduler \<Rightarrow> Scheduler" where
  "incSkippedCapacity s =
     s\<lparr>sh_metrics := (sh_metrics s)\<lparr>m_RunsSkippedCapacity := m_RunsSkippedCapacity (sh_metrics s) + 1\<rparr>\<rparr>"

definition incDeliveryFailed :: "Scheduler \<Rightarrow> Scheduler" where
  "incDeliveryFailed s = s\<lparr>sh_metrics := (sh_metrics s)\<lparr>m_DeliveryFailed := m_DeliveryFailed (sh_metrics s) + 1\<rparr>\<rparr>"

definition incAdmissionRejected :: "string \<Rightarrow> Scheduler \<Rightarrow> Scheduler" where
  "incAdmissionRejected reason s = s\<lparr>sh_metrics := (sh_metrics s)\<lparr>
     m_RunsFailed := m_RunsFailed (sh_metrics s) + 1,
     m_AdmissionRejected := m_AdmissionRejected (sh_metrics s) + 1, m_LastAdmissionReason := reason\<rparr>\<rparr>"

definition recordProgress :: "string \<Rightarrow> string \<Rightarrow> string \<Rightarrow> time \<Rightarrow> time \<Rightarrow> Scheduler \<Rightarrow> Scheduler" where
  "recordProgress key phase reason observed now s =
     (let p = (progress_of s key)\<lparr>pg_OperationID := key\<rparr>;
          p' = (if phase = ''started'' then p\<lparr>pg_LastStarted := Some now\<rparr>
                else if phase = ''accepted''
                then p\<lparr>pg_LastAccepted := Some now, pg_OriginalObservedAt := Some observed\<rparr>
                else if phase = ''delivered''
                then p\<lparr>pg_LastDelivered := Some now, pg_State := ''ready'', pg_Reason := ''delivered''\<rparr>
                else if phase = ''failed'' then p\<lparr>pg_State := ''degraded'', pg_Reason := reason\<rparr>
                else p)
      in s\<lparr>sh_progress := gm_put key p' (sh_progress s)\<rparr>)"

section \<open>The receipt that replaces a missing one\<close>

text \<open>\<open>random\<close>: the 16 bytes \<^verbatim>\<open>rand.Read\<close> returned, \<open>None\<close> if it failed.\<close>

definition schedulerProbeID :: "nat list option \<Rightarrow> string option" where
  "schedulerProbeID random =
     (case random of
        None \<Rightarrow> None
      | Some bytes \<Rightarrow>
          let raw = bytes[6 := bytes ! 6 mod 16 + 64, 8 := bytes ! 8 mod 64 + 128]
          in Some (hex_encode (take 4 raw) @ ''-'' @ hex_encode (take 2 (drop 4 raw)) @ ''-'' @
               hex_encode (take 2 (drop 6 raw)) @ ''-'' @ hex_encode (take 2 (drop 8 raw)) @ ''-'' @
               hex_encode (drop 10 raw)))"

definition cliStartupGrace :: duration where "cliStartupGrace = 2 * second"
definition receiptWriteGrace :: duration where "receiptWriteGrace = second"

definition probeDeadline :: "CatalogEntry \<Rightarrow> duration" where
  "probeDeadline entry = cliStartupGrace + ce_TimeoutCeilingMS entry * 1000000 + receiptWriteGrace"

definition receiptlessOutcome ::
  "CanaryConfig \<Rightarrow> CatalogEntry \<Rightarrow> time \<Rightarrow> time \<Rightarrow> bool \<Rightarrow> nat list option \<Rightarrow> Receipt option" where
  "receiptlessOutcome config entry started observed deadline random =
     (case schedulerProbeID random of
        None \<Rightarrow> None
      | Some probeID \<Rightarrow>
          let category = (if deadline then ''timeout'' else ''indeterminate'');
              reason = (if deadline then ''scheduler_timeout_without_cli_receipt'' else ''cli_receipt_missing'');
              milliseconds = go_quot (time_Sub observed started) 1000000;
              latency = (if milliseconds < 0 then 0 else milliseconds);
              p = cc_ConsumptionProvenance config
          in Some \<lparr>r_SchemaVersion = SchemaVersion, r_ProbeID = probeID, r_ObservedAt = observed,
               r_Operation = \<lparr>ro_OperationKey = ce_Aliases_CLIOperationKey entry,
                 ro_DatasetID = ce_Aliases_DatasetID entry, ro_OperationName = ce_Aliases_OperationName entry,
                 ro_Provider = ce_Provider entry, ro_EndpointHost = ce_Endpoint_Host entry,
                 ro_EndpointPath = ce_Endpoint_Path entry,
                 ro_DependencyClass = ce_Endpoint_DependencyClass entry\<rparr>,
               r_Registry = \<lparr>rr_DatasetID = acceptedRegistryDatasetID,
                 rr_DatasetRevision = cp_RegistryDatasetRevision p,
                 rr_RegistrySHA256 = cp_SourceRegistrySHA256 p,
                 rr_ManifestSHA256 = cp_ReleaseManifestSHA256 p\<rparr>,
               r_Policy = Some (ce_Policy entry),
               r_Execution = \<lparr>rx_CLIVersion = ''scheduler-receiptless-fallback'', rx_Attempted = True,
                 rx_TimeoutMS = ce_TimeoutCeilingMS entry, rx_RequestBudget = ce_RequestBudget entry,
                 rx_SafeParameterNames = sort (ce_SafeParameters entry)\<rparr>,
               r_Observation = \<lparr>ob_MaxLevel = po_MaxLevel (ce_Policy entry), ob_LatencyMS = latency,
                 ob_HTTPStatus = 0, ob_ProviderCode = '''', ob_ProviderMessageClass = ''not_observed'',
                 ob_SemanticStatus = '''', ob_BodyShape = '''', ob_DataPresence = ''not_observed'',
                 ob_SchemaStatus = ''not_observed'', ob_FreshnessStatus = ''not_observed''\<rparr>,
               r_Assessment = \<lparr>as_Outcome = ''indeterminate'', as_Category = category,
                 as_Retryable = deadline, as_ReasonCode = reason,
                 as_NextActions = [''review scheduler and provider evidence'']\<rparr>,
               r_Redaction = \<lparr>rd_CredentialsRemoved = True, rd_QueryValuesRemoved = True,
                 rd_ResponseRowsRemoved = True\<rparr>\<rparr>)"

section \<open>A run\<close>

text \<open>
  A run touches the scheduler only under its mutexes and through the semaphore; between those
  points other goroutines proceed.  So a run is the list of its effects, each atomic.
\<close>

datatype effect =
    IncFailed
  | IncAdmissionRejected string
  | IncDeliveryFailed
  | IncCompleted time
  | RecordProgress string string time time
  | ReleaseSem
  | DeleteActive

fun apply_effect :: "string \<Rightarrow> effect \<Rightarrow> Scheduler \<Rightarrow> Scheduler" where
  "apply_effect key IncFailed s = incFailed s"
| "apply_effect key (IncAdmissionRejected reason) s = incAdmissionRejected reason s"
| "apply_effect key IncDeliveryFailed s = incDeliveryFailed s"
| "apply_effect key (IncCompleted now) s = incCompleted now s"
| "apply_effect key (RecordProgress phase reason observed now) s = recordProgress key phase reason observed now s"
| "apply_effect key ReleaseSem s = s\<lparr>sh_sem := sh_sem s - 1\<rparr>"
| "apply_effect key DeleteActive s = s\<lparr>sh_active := sh_active s - {key}\<rparr>"

text \<open>
  What one run meets: whether the staging directory was made; the clock when it starts, when
  the child has returned, at admission, acceptance and delivery; whether the child's or the context's
  error is a deadline; the file the child left; 16 random bytes; whether the fallback was
  written; whether the deliverer succeeded.
\<close>

record run_io =
  ri_staging :: bool
  ri_started :: time
  ri_deadline :: bool
  ri_raw :: "string option"
  ri_observed :: time
  ri_random :: "nat list option"
  ri_written :: bool
  ri_admitted :: time
  ri_accepted :: time
  ri_delivered :: bool
  ri_completed :: time
  ri_recorded :: time

record receipt_codec =
  rk_schema :: "string \<Rightarrow> bool"
  rk_decode :: "string \<Rightarrow> Receipt option"

text \<open>The child's receipt, or the one that replaces it.\<close>

definition run_receipt :: "receipt_codec \<Rightarrow> CanaryConfig \<Rightarrow> CatalogEntry \<Rightarrow> run_io \<Rightarrow> Receipt option" where
  "run_receipt codec config entry io =
     (case DecodeReceipt (rk_schema codec) (rk_decode codec) (ri_raw io) of
        Inr receipt \<Rightarrow> Some receipt
      | Inl _ \<Rightarrow>
          (case receiptlessOutcome config entry (ri_started io) (ri_observed io) (ri_deadline io) (ri_random io) of
             None \<Rightarrow> None
           | Some fallback \<Rightarrow> if ri_written io then Some fallback else None))"

definition receiptless :: "receipt_codec \<Rightarrow> run_io \<Rightarrow> bool" where
  "receiptless codec io \<longleftrightarrow>
     (case DecodeReceipt (rk_schema codec) (rk_decode codec) (ri_raw io) of Inr _ \<Rightarrow> False | Inl _ \<Rightarrow> True)"

definition run :: "receipt_codec \<Rightarrow> CanaryConfig \<Rightarrow> Canary \<Rightarrow> CatalogEntry \<Rightarrow> run_io \<Rightarrow> effect list" where
  "run codec config canary entry io =
     (if \<not> ri_staging io
      then [IncFailed, RecordProgress ''failed'' ''receipt_storage_unavailable'' time_zero (ri_recorded io)]
      else case run_receipt codec config entry io of
        None \<Rightarrow> [IncFailed, RecordProgress ''failed'' ''receipt_unavailable'' time_zero (ri_recorded io)]
      | Some receipt \<Rightarrow>
          (case AdmitScheduledReceipt config receipt canary (ri_admitted io) (ri_started io) of
             Inl reason \<Rightarrow> [IncAdmissionRejected reason, RecordProgress ''failed'' reason time_zero (ri_recorded io)]
           | Inr _ \<Rightarrow>
               RecordProgress ''accepted'' '''' (r_ObservedAt receipt) (ri_accepted io) #
               (if \<not> ri_delivered io
                then [IncDeliveryFailed, RecordProgress ''failed'' ''delivery_failed'' time_zero (ri_recorded io)]
                else [IncCompleted (ri_completed io), RecordProgress ''delivered'' '''' time_zero (ri_recorded io)] @
                  (if receiptless codec io
                   then [RecordProgress ''failed'' ''cli_receipt_missing'' time_zero (ri_recorded io)] else []))))"

text \<open>A probe goroutine: its canary, the slot it probes, its entry and inputs, and the effects it has
  yet to make.\<close>

record goroutine =
  go_canary :: Canary
  go_slot :: int
  go_entry :: CatalogEntry
  go_io :: run_io
  go_effects :: "effect list"

definition spawn :: "receipt_codec \<Rightarrow> CanaryConfig \<Rightarrow> Canary \<Rightarrow> int \<Rightarrow> CatalogEntry \<Rightarrow> run_io \<Rightarrow> goroutine" where
  "spawn codec config canary slot entry io =
     \<lparr>go_canary = canary, go_slot = slot, go_entry = entry, go_io = io,
      go_effects = run codec config canary entry io @ [ReleaseSem, DeleteActive]\<rparr>"

section \<open>A pass\<close>

text \<open>The inputs of a pass: those of the coverage lifecycle, and per operation whether the state
  is saved, the clock when the probe is marked started and the inputs of its run.\<close>

record due_io =
  du_coverage :: lifecycle_io
  du_saved :: "string \<Rightarrow> bool"
  du_started :: "string \<Rightarrow> time"
  du_run :: "string \<Rightarrow> run_io"

definition put_slot :: "string \<Rightarrow> slotRecord \<Rightarrow> Scheduler \<Rightarrow> Scheduler" where
  "put_slot key r s = s\<lparr>sh_state := (sh_state s)\<lparr>ss_Slots := gm_put key r (ss_Slots (sh_state s))\<rparr>\<rparr>"

definition markStarted :: "string \<Rightarrow> time \<Rightarrow> Scheduler \<Rightarrow> Scheduler" where
  "markStarted key startedAt s =
     s\<lparr>sh_progress := gm_put key ((progress_of s key)\<lparr>pg_LastStarted := Some startedAt\<rparr>) (sh_progress s)\<rparr>"

definition claimAndStart ::
  "receipt_codec \<Rightarrow> due_io \<Rightarrow> time \<Rightarrow> Canary \<Rightarrow> CatalogEntry \<Rightarrow> Scheduler \<Rightarrow> schedule_file
    \<Rightarrow> string option \<times> Scheduler \<times> schedule_file \<times> goroutine list" where
  "claimAndStart codec io now canary entry s f =
     (let key = ca_OperationID canary;
          next = nextDueAfter canary now (cc_JitterSeconds (sh_config s)) key
      in case gm_get (ss_Slots (sh_state s)) key of
        None \<Rightarrow>
          (let s1 = put_slot key \<lparr>sr_LastClaimedSlot = 0, sr_NextDue = next\<rparr> s;
               (e, f1) = saveLocked (du_saved io key) s1 f
           in (e, s1, f1, []))
      | Some r \<Rightarrow>
          (if sr_NextDue r > now \<or> key \<in> sh_active s then (None, s, f, [])
           else
             let dueSlot = slotAt canary (sr_NextDue r)
             in if dueSlot \<noteq> slotAt canary now
                then let s1 = incSkippedCapacity (put_slot key (r\<lparr>sr_NextDue := next\<rparr>) s);
                         (e, f1) = saveLocked (du_saved io key) s1 f
                     in (e, s1, f1, [])
                else if int (sh_sem s) \<ge> cc_GlobalConcurrency (sh_config s)
                then (None, incSkippedCapacity s, f, [])
                else
                  let s1 = put_slot key \<lparr>sr_LastClaimedSlot = dueSlot, sr_NextDue = next\<rparr> s
                  in case saveLocked (du_saved io key) s1 f of
                       (Some e, f1) \<Rightarrow> (Some e, s1, f1, [])
                     | (None, f1) \<Rightarrow>
                         (None,
                          markStarted key (du_started io key)
                            (incStarted (s1\<lparr>sh_sem := sh_sem s1 + 1, sh_active := insert key (sh_active s1)\<rparr>)),
                          f1, [spawn codec (sh_config s) canary dueSlot entry (du_run io key)])))"

definition zero_entry :: CatalogEntry where
  "zero_entry = \<lparr>ce_OperationID = '''',
     ce_Policy = \<lparr>po_Key = '''', po_Version = 0, po_Authority = '''', po_MaxLevel = ''''\<rparr>,
     ce_Aliases_DatasetID = '''', ce_Aliases_OperationName = '''', ce_Aliases_UpstreamOperationSeq = '''',
     ce_Aliases_CLIOperationKey = '''', ce_Provider = '''', ce_Endpoint_Host = '''', ce_Endpoint_Path = '''',
     ce_Endpoint_DependencyClass = '''', ce_Eligibility_Status = '''', ce_TimeoutCeilingMS = 0,
     ce_RequestBudget = 0, ce_SafeParameters = []\<rparr>"

definition entry_of :: "CanaryConfig \<Rightarrow> Canary \<Rightarrow> CatalogEntry" where
  "entry_of config canary = (case Entry config canary of None \<Rightarrow> zero_entry | Some e \<Rightarrow> e)"

fun process_canaries ::
  "receipt_codec \<Rightarrow> due_io \<Rightarrow> time \<Rightarrow> Canary list \<Rightarrow> Scheduler \<Rightarrow> schedule_file
    \<Rightarrow> string option \<times> Scheduler \<times> schedule_file \<times> goroutine list" where
  "process_canaries codec io now [] s f = (None, s, f, [])"
| "process_canaries codec io now (c # cs) s f =
     (case claimAndStart codec io now c (entry_of (sh_config s) c) s f of
        (Some e, s1, f1, gs) \<Rightarrow> (Some e, s1, f1, gs)
      | (None, s1, f1, gs) \<Rightarrow>
          (case process_canaries codec io now cs s1 f1 of (e, s2, f2, hs) \<Rightarrow> (e, s2, f2, gs @ hs)))"

text \<open>\<open>third\<close>: the URI parser and the JSON Schema engine the coverage lifecycle uses.\<close>

type_synonym third_party = "(string \<Rightarrow> bool) \<times> (ScheduleCoverageReceipt \<Rightarrow> bool)"

definition coverage_pass ::
  "third_party \<Rightarrow> due_io \<Rightarrow> time \<Rightarrow> Scheduler \<Rightarrow> state_file \<Rightarrow> string option \<times> Scheduler \<times> state_file" where
  "coverage_pass third io now s d =
     (case sh_coverage s of
        None \<Rightarrow> (None, s, d)
      | Some l \<Rightarrow>
          (case ProcessDue (fst third) (snd third) (du_coverage io) now l d of
             (Some e, l', d') \<Rightarrow> (Some ''schedule coverage error'', s\<lparr>sh_coverage := Some l'\<rparr>, d')
           | (None, l', d') \<Rightarrow> (None, s\<lparr>sh_coverage := Some l'\<rparr>, d')))"

definition scheduler_ProcessDue ::
  "third_party \<Rightarrow> receipt_codec \<Rightarrow> due_io \<Rightarrow> time \<Rightarrow> Scheduler \<Rightarrow> schedule_file \<Rightarrow> state_file
    \<Rightarrow> string option \<times> Scheduler \<times> schedule_file \<times> state_file \<times> goroutine list" where
  "scheduler_ProcessDue third codec io now s f d =
     (let (e, s1, f1, d1, gs) =
            (case coverage_pass third io now s d of
               (Some e, s1, d1) \<Rightarrow> (Some e, s1, f, d1, [])
             | (None, s1, d1) \<Rightarrow>
                 (case process_canaries codec io now (cc_Canaries (sh_config s1)) s1 f of
                    (e, s2, f2, gs) \<Rightarrow> (e, s2, f2, d1, gs)))
      in (e, s1\<lparr>sh_lastLoop := now, sh_loopFailure := (e \<noteq> None),
           sh_stateFailures := (if e \<noteq> None then sh_stateFailures s1 + 1 else sh_stateFailures s1)\<rparr>,
          f1, d1, gs))"

section \<open>Readiness\<close>

definition schedulerLoopMaxAge :: duration where "schedulerLoopMaxAge = 5 * second"

record SchedulerReadiness =
  ry_SchemaVersion :: string
  ry_Ready :: bool
  ry_State :: string
  ry_Reason :: string
  ry_LastLoop :: "time option"
  ry_StateFailures :: "64 word"
  ry_Canaries :: "CanaryProgress list"
  ry_PublicReadback :: string
  ry_DeploymentIdentity :: string

definition canary_progress :: "Scheduler \<Rightarrow> time \<Rightarrow> Canary \<Rightarrow> CanaryProgress" where
  "canary_progress s now canary =
     (let p = (progress_of s (ca_OperationID canary))\<lparr>pg_OperationID := ca_OperationID canary\<rparr>;
          p1 = (if pg_State p = '''' then p\<lparr>pg_State := ''startup'', pg_Reason := ''awaiting_first_delivery''\<rparr> else p)
      in case pg_LastDelivered p1 of
           None \<Rightarrow> p1
         | Some at \<Rightarrow>
             (if time_Sub now at > ca_HeartbeatMinutes canary * minute
              then p1\<lparr>pg_State := ''degraded'', pg_Reason := ''delivery_stale''\<rparr> else p1))"

definition report_canary :: "Scheduler \<Rightarrow> time \<Rightarrow> SchedulerReadiness \<Rightarrow> Canary \<Rightarrow> SchedulerReadiness" where
  "report_canary s now report canary =
     (let p = canary_progress s now canary;
          report1 = (if pg_State p \<noteq> ''ready''
                     then report\<lparr>ry_Ready := False, ry_State := pg_State p, ry_Reason := pg_Reason p\<rparr> else report)
      in report1\<lparr>ry_Canaries := ry_Canaries report1 @ [p]\<rparr>)"

definition Readiness :: "Scheduler \<Rightarrow> time \<Rightarrow> SchedulerReadiness" where
  "Readiness s now =
     (let report = \<lparr>ry_SchemaVersion = ''datapan.health-self-readiness.v1'', ry_Ready = True,
            ry_State = ''ready'', ry_Reason = ''pipeline_current'',
            ry_LastLoop = (if IsZero (sh_lastLoop s) then None else Some (sh_lastLoop s)),
            ry_StateFailures = sh_stateFailures s, ry_Canaries = [],
            ry_PublicReadback = ''not_checked'', ry_DeploymentIdentity = ''not_checked''\<rparr>;
          report1 = foldl (report_canary s now) report (cc_Canaries (sh_config s));
          report2 = (if IsZero (sh_lastLoop s)
                     then report1\<lparr>ry_Ready := False, ry_State := ''startup'', ry_Reason := ''awaiting_first_loop''\<rparr>
                     else if time_Sub now (sh_lastLoop s) > schedulerLoopMaxAge \<or>
                        sh_lastLoop s > now + receiptClockSkew
                     then report1\<lparr>ry_Ready := False, ry_State := ''degraded'', ry_Reason := ''scheduler_loop_stale''\<rparr>
                     else report1)
      in if sh_loopFailure s
         then report2\<lparr>ry_Ready := False, ry_State := ''degraded'', ry_Reason := ''scheduler_state_unavailable''\<rparr>
         else report2)"

section \<open>Histories\<close>

text \<open>
  The process and its files, with the probes in flight.  Two histories are kept for the
  theorems and read by nothing: the slots for which a probe was started, newest first, and
  the probes this process reported as delivered, with the time recorded.
\<close>

record scheduler_world =
  w_scheduler :: Scheduler
  w_file :: schedule_file
  w_coverage_file :: state_file
  w_running :: "goroutine list"
  w_started :: "(string \<times> int) list"
  w_delivered :: "(goroutine \<times> time) list"

definition slot_of :: "goroutine \<Rightarrow> string \<times> int" where
  "slot_of g = (ca_OperationID (go_canary g), go_slot g)"

definition pass_world ::
  "third_party \<Rightarrow> receipt_codec \<Rightarrow> due_io \<Rightarrow> time \<Rightarrow> scheduler_world \<Rightarrow> scheduler_world" where
  "pass_world third codec io now w =
     (case scheduler_ProcessDue third codec io now (w_scheduler w) (w_file w) (w_coverage_file w) of
        (e, s, f, d, gs) \<Rightarrow>
          w\<lparr>w_scheduler := s, w_file := f, w_coverage_file := d, w_running := rev gs @ w_running w,
            w_started := List.map slot_of (rev gs) @ w_started w\<rparr>)"

definition delivered_by :: "goroutine \<Rightarrow> (goroutine \<times> time) list" where
  "delivered_by g = (case go_effects g of
     RecordProgress phase reason observed now # _ \<Rightarrow> if phase = ''delivered'' then [(g, now)] else []
   | _ \<Rightarrow> [])"

definition advance_world :: "nat \<Rightarrow> scheduler_world \<Rightarrow> scheduler_world" where
  "advance_world i w =
     (let g = w_running w ! i
      in case go_effects g of
           [] \<Rightarrow> w
         | x # xs \<Rightarrow>
             w\<lparr>w_scheduler := apply_effect (ca_OperationID (go_canary g)) x (w_scheduler w),
               w_running := (if xs = [] then take i (w_running w) @ drop (Suc i) (w_running w)
                             else (w_running w)[i := g\<lparr>go_effects := xs\<rparr>]),
               w_delivered := delivered_by g @ w_delivered w\<rparr>)"

text \<open>A restart with the same configuration: the probes in flight die with the process.\<close>

definition restart_world :: "Scheduler \<Rightarrow> scheduler_world \<Rightarrow> scheduler_world" where
  "restart_world s w = w\<lparr>w_scheduler := s, w_running := [], w_delivered := []\<rparr>"

inductive scheduler_step :: "third_party \<Rightarrow> receipt_codec \<Rightarrow> scheduler_world \<Rightarrow> scheduler_world \<Rightarrow> bool"
  for third codec where
  pass: "0 \<le> time_Unix now \<Longrightarrow> scheduler_step third codec w (pass_world third codec io now w)"
| advance: "i < length (w_running w) \<Longrightarrow> scheduler_step third codec w (advance_world i w)"
| restart: "NewSchedulerWithCoverage (sh_config (w_scheduler w)) statePath (w_file w) True True coverage = Inr s \<Longrightarrow>
    scheduler_step third codec w (restart_world s w)"

inductive_cases scheduler_stepE: "scheduler_step third codec w w'"

inductive scheduler_reachable ::
  "third_party \<Rightarrow> receipt_codec \<Rightarrow> scheduler_world \<Rightarrow> scheduler_world \<Rightarrow> bool"
  for third codec w0 where
  start: "scheduler_reachable third codec w0 w0"
| step: "scheduler_reachable third codec w0 w \<Longrightarrow> scheduler_step third codec w w' \<Longrightarrow>
    scheduler_reachable third codec w0 w'"

text \<open>A process that starts on an empty directory.\<close>

definition fresh_world ::
  "CanaryConfig \<Rightarrow> ScheduleCoverageLifecycle option \<Rightarrow> state_file \<Rightarrow> scheduler_world" where
  "fresh_world config coverage d =
     \<lparr>w_scheduler = \<lparr>sh_config = config, sh_coverage = coverage, sh_state = \<lparr>ss_Version = 1, ss_Slots = []\<rparr>,
        sh_active = {}, sh_sem = 0, sh_metrics = zero_metrics, sh_progress = [], sh_lastLoop = time_zero,
        sh_loopFailure = False, sh_stateFailures = 0\<rparr>,
      w_file = Absent, w_coverage_file = d, w_running = [], w_started = [], w_delivered = []\<rparr>"

end
