(* ===== verification/Canary_Scheduler_Facts.thy ===== *)
theory Canary_Scheduler_Facts
  imports Canary_Scheduler
begin

text \<open>
  The canary scheduler: due times lie in their own slots, no slot is probed twice over any
  interleaving of passes, probe effects and restarts, the semaphore and the active set bound
  what runs, readiness rests on an admitted and delivered receipt, and the receipt that
  replaces a missing one is admitted.
\<close>

section \<open>Slots and jitter\<close>

lemma go_quot_nonneg: "0 \<le> a \<Longrightarrow> 0 < b \<Longrightarrow> go_quot a b = a div b"
  by (cases "a = 0") (auto simp: go_quot_def)

lemma second_pos [simp]: "0 < second"
  by (simp add: second_def)

lemma time_Unix_from_Unix [simp]: "time_Unix (from_Unix n) = n"
  by (simp add: time_Unix_def from_Unix_def second_def)

lemma from_Unix_le_iff: "from_Unix n \<le> t \<longleftrightarrow> n \<le> time_Unix t"
proof -
  have div_le: "x * second \<le> t \<longleftrightarrow> x \<le> t div second" for x
    using zdiv_mono1 [of "x * second" t second] mult_right_mono [of x "t div second" second]
      pos_mod_sign [of second t] div_mult_mod_eq [of t second]
    by (auto simp: second_def)
  have "(n + unix_epoch_seconds) * second \<le> t \<longleftrightarrow> n + unix_epoch_seconds \<le> t div second"
    by (rule div_le)
  then show ?thesis by (auto simp: from_Unix_def time_Unix_def)
qed

lemma time_Unix_mono: "t \<le> u \<Longrightarrow> time_Unix t \<le> time_Unix u"
  by (simp add: time_Unix_def zdiv_mono1)

lemma deterministicJitter_bounds: "0 \<le> deterministicJitter key slot m \<and> deterministicJitter key slot m \<le> max 0 m"
proof (cases "m \<le> 0")
  case True
  then show ?thesis by (simp add: deterministicJitter_def)
next
  case False
  define d where "d = int (sha256_u64 (key @ List.map char_of (be_bytes 8 (nat (slot mod 2 ^ 64)))))"
  have "0 \<le> d mod (m + 1)" "d mod (m + 1) < m + 1"
    using False pos_mod_sign [of "m + 1" d] pos_mod_bound [of "m + 1" d] by linarith+
  then have "0 \<le> d mod (m + 1)" "d mod (m + 1) \<le> m" by linarith+
  then show ?thesis using False by (simp add: deterministicJitter_def d_def)
qed

definition cadence_ok :: "CanaryConfig \<Rightarrow> bool" where
  "cadence_ok config \<longleftrightarrow> distinct (List.map ca_OperationID (cc_Canaries config)) \<and>
     list_all (\<lambda>c. 0 < ca_IntervalMinutes c \<and> cc_JitterSeconds config < ca_IntervalMinutes c * 60)
       (cc_Canaries config)"

lemma slotAt_nonneg: "0 \<le> time_Unix t \<Longrightarrow> 0 < ca_IntervalMinutes c \<Longrightarrow>
    slotAt c t = time_Unix t div (ca_IntervalMinutes c * 60)"
  by (simp add: slotAt_def go_quot_nonneg)

lemma slotAt_dueForSlot:
  assumes "0 \<le> k" "0 < ca_IntervalMinutes c" "m < ca_IntervalMinutes c * 60"
  shows "slotAt c (dueForSlot c k m key) = k"
proof -
  let ?i = "ca_IntervalMinutes c * 60" and ?j = "deterministicJitter key k m"
  have j: "0 \<le> ?j" "?j < ?i" using deterministicJitter_bounds [of key k m] assms by auto
  have "0 \<le> k * ?i + ?j" using assms j by simp
  then have "slotAt c (dueForSlot c k m key) = (k * ?i + ?j) div ?i"
    using assms by (simp add: slotAt_nonneg dueForSlot_def)
  also have "\<dots> = k" using j assms by (simp add: div_pos_pos_trivial)
  finally show ?thesis .
qed

lemma due_slot_bounds:
  assumes "0 < ca_IntervalMinutes c" "m < ca_IntervalMinutes c * 60"
  shows "from_Unix (k * (ca_IntervalMinutes c * 60)) \<le> dueForSlot c k m key"
    and "dueForSlot c k m key < from_Unix ((k + 1) * (ca_IntervalMinutes c * 60))"
proof -
  have j: "0 \<le> deterministicJitter key k m" "deterministicJitter key k m < ca_IntervalMinutes c * 60"
    using deterministicJitter_bounds [of key k m] assms by auto
  show "from_Unix (k * (ca_IntervalMinutes c * 60)) \<le> dueForSlot c k m key"
    using j by (simp add: dueForSlot_def from_Unix_def)
  have "k * (ca_IntervalMinutes c * 60) + deterministicJitter key k m < (k + 1) * (ca_IntervalMinutes c * 60)"
    using j by (simp add: distrib_right)
  then show "dueForSlot c k m key < from_Unix ((k + 1) * (ca_IntervalMinutes c * 60))"
    by (simp add: dueForSlot_def from_Unix_def second_def)
qed

lemma slotAt_now:
  assumes "0 \<le> time_Unix t" "0 < ca_IntervalMinutes c"
  shows "0 \<le> slotAt c t" and "from_Unix (slotAt c t * (ca_IntervalMinutes c * 60)) \<le> t"
    and "t < from_Unix ((slotAt c t + 1) * (ca_IntervalMinutes c * 60))"
proof -
  let ?i = "ca_IntervalMinutes c * 60"
  have s: "slotAt c t = time_Unix t div ?i" using assms by (rule slotAt_nonneg)
  have i: "0 < ?i" using assms by simp
  show "0 \<le> slotAt c t" using s assms by (simp add: pos_imp_zdiv_nonneg_iff)
  have "slotAt c t * ?i \<le> time_Unix t" using i s by (metis pos_mod_sign div_mult_mod_eq le_add_same_cancel1)
  then show "from_Unix (slotAt c t * ?i) \<le> t" by (simp only: from_Unix_le_iff)
  have "time_Unix t mod ?i < ?i" using i by (rule pos_mod_bound)
  moreover have "time_Unix t = slotAt c t * ?i + time_Unix t mod ?i"
    unfolding s by (rule div_mult_mod_eq [symmetric])
  ultimately have "time_Unix t < (slotAt c t + 1) * ?i" by (simp add: distrib_right)
  then show "t < from_Unix ((slotAt c t + 1) * ?i)" using from_Unix_le_iff [of "(slotAt c t + 1) * ?i" t] by linarith
qed

text \<open>The next due time is the due time of the current slot if that is still ahead, else of the next.\<close>

lemma nextDueAfter_slot:
  assumes "0 \<le> time_Unix now" "0 < ca_IntervalMinutes c" "m < ca_IntervalMinutes c * 60"
  shows "\<exists>k. (k = slotAt c now \<or> k = slotAt c now + 1) \<and> nextDueAfter c now m key = dueForSlot c k m key \<and>
    now < nextDueAfter c now m key \<and> (k = slotAt c now \<longrightarrow> now < dueForSlot c (slotAt c now) m key)"
proof (cases "now < dueForSlot c (slotAt c now) m key")
  case True
  then show ?thesis by (intro exI [of _ "slotAt c now"]) (simp add: nextDueAfter_def Let_def)
next
  case False
  have "now < dueForSlot c (slotAt c now + 1) m key"
    using slotAt_now(3) [OF assms(1,2)] due_slot_bounds(1) [OF assms(2,3)] by (rule less_le_trans)
  with False show ?thesis by (intro exI [of _ "slotAt c now + 1"]) (simp add: nextDueAfter_def Let_def)
qed

lemma slotAt_mono:
  assumes "0 \<le> time_Unix t" "t \<le> u" "0 < ca_IntervalMinutes c"
  shows "slotAt c t \<le> slotAt c u"
proof -
  have "time_Unix t \<le> time_Unix u" using assms by (simp add: time_Unix_mono)
  moreover from this have "0 \<le> time_Unix u" using assms by simp
  ultimately show ?thesis using assms by (simp add: slotAt_nonneg zdiv_mono1)
qed

lemma time_Unix_due: "0 \<le> k \<Longrightarrow> 0 < ca_IntervalMinutes c \<Longrightarrow> 0 \<le> time_Unix (dueForSlot c k m key)"
  using deterministicJitter_bounds [of key k m] by (simp add: dueForSlot_def)

section \<open>Every slot is probed at most once\<close>

text \<open>What the slots in memory or on disk promise about the probes started so far.\<close>

definition owed :: "CanaryConfig \<Rightarrow> (string \<times> int) list \<Rightarrow> (string, slotRecord) gomap \<Rightarrow> Canary \<Rightarrow> bool" where
  "owed config started slots c \<longleftrightarrow>
     (case gm_get slots (ca_OperationID c) of
        None \<Rightarrow> (\<forall>j. (ca_OperationID c, j) \<notin> set started)
      | Some r \<Rightarrow> \<exists>k. 0 \<le> k \<and> sr_NextDue r = dueForSlot c k (cc_JitterSeconds config) (ca_OperationID c) \<and>
          (\<forall>j. (ca_OperationID c, j) \<in> set started \<longrightarrow> j < k))"

definition slots_ok :: "CanaryConfig \<Rightarrow> (string \<times> int) list \<Rightarrow> (string, slotRecord) gomap \<Rightarrow> bool" where
  "slots_ok config started slots \<longleftrightarrow> (\<forall>c \<in> set (cc_Canaries config). owed config started slots c)"

definition file_ok :: "CanaryConfig \<Rightarrow> (string \<times> int) list \<Rightarrow> schedule_file \<Rightarrow> bool" where
  "file_ok config started f \<longleftrightarrow>
     (\<forall>state. loadScheduleState f = Inr state \<longrightarrow> slots_ok config started (ss_Slots state))"

definition slots_inv :: "CanaryConfig \<Rightarrow> (string \<times> int) list \<Rightarrow> Scheduler \<Rightarrow> schedule_file \<Rightarrow> bool" where
  "slots_inv config started s f \<longleftrightarrow> sh_config s = config \<and> distinct started \<and> ss_Version (sh_state s) = 1 \<and>
     slots_ok config started (ss_Slots (sh_state s)) \<and> file_ok config started f"

lemma saveLocked_file:
  assumes "saveLocked ok s f = (e, f')"
  shows "f' = f \<and> e \<noteq> None \<or>
    f' = Doc (ss_Version (sh_state s), Some (ss_Slots (sh_state s))) \<and> e = None"
  using assms by (auto simp: saveLocked_def split: if_splits)

lemma file_ok_saved:
  assumes "slots_ok config started (ss_Slots (sh_state s))"
  shows "file_ok config started (Doc (ss_Version (sh_state s), Some (ss_Slots (sh_state s))))"
  using assms by (auto simp: file_ok_def loadScheduleState_def split: if_splits)

lemma slots_ok_put:
  assumes "slots_ok config started slots" and cfg: "cadence_ok config" and c: "c \<in> set (cc_Canaries config)"
    and r: "sr_NextDue r = dueForSlot c k (cc_JitterSeconds config) (ca_OperationID c)" "0 \<le> k"
    and below: "\<And>j. (ca_OperationID c, j) \<in> set started' \<Longrightarrow> j < k"
    and same: "\<And>key j. key \<noteq> ca_OperationID c \<Longrightarrow> (key, j) \<in> set started' \<longleftrightarrow> (key, j) \<in> set started"
  shows "slots_ok config started' (gm_put (ca_OperationID c) r slots)"
  unfolding slots_ok_def
proof
  fix d assume d: "d \<in> set (cc_Canaries config)"
  show "owed config started' (gm_put (ca_OperationID c) r slots) d"
  proof (cases "ca_OperationID d = ca_OperationID c")
    case True
    then have "d = c" using cfg c d by (auto simp: cadence_ok_def distinct_map inj_on_def)
    then show ?thesis using r below by (auto simp: owed_def)
  next
    case False
    have "owed config started slots d" using assms(1) d by (simp add: slots_ok_def)
    then show ?thesis using False same [OF False] by (auto simp: owed_def split: option.splits)
  qed
qed

lemma cadence_okD:
  assumes "cadence_ok config" "c \<in> set (cc_Canaries config)"
  shows "0 < ca_IntervalMinutes c" "cc_JitterSeconds config < ca_IntervalMinutes c * 60"
  using assms by (auto simp: cadence_ok_def list_all_iff)

text \<open>A later due time in place of the recorded one keeps the promise.\<close>

lemma slots_inv_postpone:
  assumes inv: "slots_inv config started s f" and cfg: "cadence_ok config" and c: "c \<in> set (cc_Canaries config)"
    and r: "sr_NextDue r = dueForSlot c k (cc_JitterSeconds config) (ca_OperationID c)" "0 \<le> k"
    and below: "\<And>j. (ca_OperationID c, j) \<in> set started \<Longrightarrow> j < k"
    and s': "sh_state s' = sh_state (put_slot (ca_OperationID c) r s)" "sh_config s' = sh_config s"
    and f': "saveLocked ok s' f = (e, f')"
  shows "slots_inv config started s' f'"
proof -
  have ok: "slots_ok config started (ss_Slots (sh_state s))" using inv by (simp add: slots_inv_def)
  have "slots_ok config started (gm_put (ca_OperationID c) r (ss_Slots (sh_state s)))"
    by (rule slots_ok_put [OF ok cfg c r below]) auto
  then have "slots_ok config started (ss_Slots (sh_state s'))" using s' by (simp add: put_slot_def)
  then show ?thesis using inv s' saveLocked_file [OF f'] file_ok_saved [of config started s']
    by (auto simp: slots_inv_def put_slot_def)
qed

text \<open>A saved claim of slot \<open>k\<close>, whose due time has passed, leaves the due time in a later slot.\<close>

lemma slots_inv_claim:
  assumes inv: "slots_inv config started s f" and cfg: "cadence_ok config" and c: "c \<in> set (cc_Canaries config)"
    and r: "sr_NextDue r = dueForSlot c k' (cc_JitterSeconds config) (ca_OperationID c)" "0 \<le> k" "k < k'"
    and below: "\<And>j. (ca_OperationID c, j) \<in> set started \<Longrightarrow> j < k"
    and s': "sh_state s' = sh_state (put_slot (ca_OperationID c) r s)" "sh_config s' = sh_config s"
    and f': "saveLocked ok s' f = (None, f')"
  shows "slots_inv config ((ca_OperationID c, k) # started) s' f'"
proof -
  have ok: "slots_ok config started (ss_Slots (sh_state s))" using inv by (simp add: slots_inv_def)
  have below': "j < k'" if "(ca_OperationID c, j) \<in> set ((ca_OperationID c, k) # started)" for j
    using that r below [of j] by auto
  have "0 \<le> k'" using r by simp
  then have "slots_ok config ((ca_OperationID c, k) # started)
      (gm_put (ca_OperationID c) r (ss_Slots (sh_state s)))"
    by (rule slots_ok_put [OF ok cfg c r(1) _ below']) auto
  then have "slots_ok config ((ca_OperationID c, k) # started) (ss_Slots (sh_state s'))"
    using s' by (simp add: put_slot_def)
  then show ?thesis
    using inv s' saveLocked_file [OF f'] file_ok_saved [of config "(ca_OperationID c, k) # started" s'] below [of k]
    by (auto simp: slots_inv_def put_slot_def)
qed

text \<open>What recording the next due time after \<open>now\<close> promises about slots started before.\<close>

lemma next_slot_below:
  assumes cfg: "cadence_ok config" "c \<in> set (cc_Canaries config)" and now: "0 \<le> time_Unix now"
    and due: "dueForSlot c k (cc_JitterSeconds config) (ca_OperationID c) \<le> now" "0 \<le> k"
  shows "\<exists>k'. nextDueAfter c now (cc_JitterSeconds config) (ca_OperationID c) =
      dueForSlot c k' (cc_JitterSeconds config) (ca_OperationID c) \<and> k < k'"
proof -
  note cad = cadence_okD [OF cfg]
  obtain k' where k': "k' = slotAt c now \<or> k' = slotAt c now + 1"
      "nextDueAfter c now (cc_JitterSeconds config) (ca_OperationID c) =
        dueForSlot c k' (cc_JitterSeconds config) (ca_OperationID c)"
      "k' = slotAt c now \<longrightarrow> now < dueForSlot c (slotAt c now) (cc_JitterSeconds config) (ca_OperationID c)"
    using nextDueAfter_slot [OF now cad] by blast
  have "slotAt c (dueForSlot c k (cc_JitterSeconds config) (ca_OperationID c)) \<le> slotAt c now"
    using due cad by (intro slotAt_mono time_Unix_due) auto
  then have "k \<le> slotAt c now" using due cad by (simp add: slotAt_dueForSlot)
  moreover have "k \<noteq> slotAt c now \<or> k' = slotAt c now + 1" using k'(1,3) due(1) by auto
  ultimately have "k < k'" using k'(1) by linarith
  with k'(2) show ?thesis by blast
qed

lemma next_slot_exists:
  assumes "cadence_ok config" "c \<in> set (cc_Canaries config)" "0 \<le> time_Unix now"
  shows "\<exists>k'. nextDueAfter c now (cc_JitterSeconds config) (ca_OperationID c) =
      dueForSlot c k' (cc_JitterSeconds config) (ca_OperationID c) \<and> 0 \<le> k'"
  using nextDueAfter_slot [OF assms(3) cadence_okD [OF assms(1,2)], of "ca_OperationID c"]
    slotAt_now(1) [OF assms(3) cadence_okD(1) [OF assms(1,2)]] by force

lemma slots_inv_cong:
  "sh_state s' = sh_state s \<Longrightarrow> sh_config s' = sh_config s \<Longrightarrow> slots_inv config started s' f = slots_inv config started s f"
  by (simp add: slots_inv_def)

lemma metrics_fields [simp]:
  "sh_state (incSkippedCapacity s) = sh_state s" "sh_config (incSkippedCapacity s) = sh_config s"
  "sh_active (incSkippedCapacity s) = sh_active s" "sh_sem (incSkippedCapacity s) = sh_sem s"
  "sh_progress (incSkippedCapacity s) = sh_progress s"
  "sh_state (incStarted s) = sh_state s" "sh_config (incStarted s) = sh_config s"
  "sh_active (incStarted s) = sh_active s" "sh_sem (incStarted s) = sh_sem s"
  "sh_progress (incStarted s) = sh_progress s"
  "sh_state (markStarted key t s) = sh_state s" "sh_config (markStarted key t s) = sh_config s"
  "sh_active (markStarted key t s) = sh_active s" "sh_sem (markStarted key t s) = sh_sem s"
  "sh_config (put_slot key r s) = sh_config s" "sh_active (put_slot key r s) = sh_active s"
  "sh_sem (put_slot key r s) = sh_sem s" "sh_progress (put_slot key r s) = sh_progress s"
  by (simp_all add: incSkippedCapacity_def incStarted_def markStarted_def put_slot_def)

text \<open>The branches of \<^verbatim>\<open>claimAndStart\<close>.\<close>

lemma claimAndStart_cases:
  assumes "claimAndStart codec io now c entry s f = (e, s', f', gs)"
  obtains (created) "gm_get (ss_Slots (sh_state s)) (ca_OperationID c) = None" "gs = []"
      "s' = put_slot (ca_OperationID c) \<lparr>sr_LastClaimedSlot = 0,
         sr_NextDue = nextDueAfter c now (cc_JitterSeconds (sh_config s)) (ca_OperationID c)\<rparr> s"
      "saveLocked (du_saved io (ca_OperationID c)) s' f = (e, f')"
  | (idle) "e = None" "gs = []" "s' = s \<or> s' = incSkippedCapacity s" "f' = f"
  | (missed) r where "gm_get (ss_Slots (sh_state s)) (ca_OperationID c) = Some r" "gs = []"
      "sr_NextDue r \<le> now" "slotAt c (sr_NextDue r) \<noteq> slotAt c now"
      "s' = incSkippedCapacity (put_slot (ca_OperationID c)
         (r\<lparr>sr_NextDue := nextDueAfter c now (cc_JitterSeconds (sh_config s)) (ca_OperationID c)\<rparr>) s)"
      "saveLocked (du_saved io (ca_OperationID c)) s' f = (e, f')"
  | (unsaved) r where "gm_get (ss_Slots (sh_state s)) (ca_OperationID c) = Some r" "gs = []" "e \<noteq> None"
      "sr_NextDue r \<le> now" "slotAt c (sr_NextDue r) = slotAt c now"
      "s' = put_slot (ca_OperationID c) \<lparr>sr_LastClaimedSlot = slotAt c (sr_NextDue r),
         sr_NextDue = nextDueAfter c now (cc_JitterSeconds (sh_config s)) (ca_OperationID c)\<rparr> s"
      "saveLocked (du_saved io (ca_OperationID c)) s' f = (e, f')"
  | (started) r s1 where "gm_get (ss_Slots (sh_state s)) (ca_OperationID c) = Some r"
      "gs = [spawn codec (sh_config s) c (slotAt c (sr_NextDue r)) entry (du_run io (ca_OperationID c))]" "e = None"
      "sr_NextDue r \<le> now" "slotAt c (sr_NextDue r) = slotAt c now" "ca_OperationID c \<notin> sh_active s"
      "int (sh_sem s) < cc_GlobalConcurrency (sh_config s)"
      "s1 = put_slot (ca_OperationID c) \<lparr>sr_LastClaimedSlot = slotAt c (sr_NextDue r),
         sr_NextDue = nextDueAfter c now (cc_JitterSeconds (sh_config s)) (ca_OperationID c)\<rparr> s"
      "saveLocked (du_saved io (ca_OperationID c)) s1 f = (None, f')"
      "s' = markStarted (ca_OperationID c) (du_started io (ca_OperationID c))
         (incStarted (s1\<lparr>sh_sem := sh_sem s1 + 1, sh_active := insert (ca_OperationID c) (sh_active s1)\<rparr>))"
proof (cases "gm_get (ss_Slots (sh_state s)) (ca_OperationID c)")
  case None
  then show ?thesis using assms by (intro created) (auto simp: claimAndStart_def Let_def split: prod.splits)
next
  case (Some r)
  note def = assms [unfolded claimAndStart_def Let_def Some option.case]
  show ?thesis
  proof (cases "sr_NextDue r > now \<or> ca_OperationID c \<in> sh_active s")
    case True
    then show ?thesis using def by (intro idle) auto
  next
    case False
    show ?thesis
    proof (cases "slotAt c (sr_NextDue r) \<noteq> slotAt c now")
      case True
      with False show ?thesis using def Some by (intro missed [of r]) (auto split: prod.splits)
    next
      case same: False
      show ?thesis
      proof (cases "int (sh_sem s) \<ge> cc_GlobalConcurrency (sh_config s)")
        case True
        with False same show ?thesis using def by (intro idle) auto
      next
        case room: False
        define s1 where "s1 = put_slot (ca_OperationID c) \<lparr>sr_LastClaimedSlot = slotAt c (sr_NextDue r),
          sr_NextDue = nextDueAfter c now (cc_JitterSeconds (sh_config s)) (ca_OperationID c)\<rparr> s"
        obtain e1 f1 where save: "saveLocked (du_saved io (ca_OperationID c)) s1 f = (e1, f1)" by fastforce
        note def1 = def [folded s1_def, unfolded save prod.case]
        show ?thesis
        proof (cases e1)
          case None
          with False same room show ?thesis using def1 Some save s1_def by (intro started [of r s1]) auto
        next
          case (Some err)
          with False same room show ?thesis
            using def1 \<open>gm_get _ _ = Some r\<close> save s1_def by (intro unsaved [of r]) auto
        qed
      qed
    qed
  qed
qed

lemma claimAndStart_slots:
  assumes call: "claimAndStart codec io now c entry s f = (e, s', f', gs)"
    and inv: "slots_inv config started s f" and cfg: "cadence_ok config"
    and c: "c \<in> set (cc_Canaries config)" and now: "0 \<le> time_Unix now"
  shows "slots_inv config (List.map slot_of (rev gs) @ started) s' f'"
  using call
proof (cases rule: claimAndStart_cases)
  let ?id = "ca_OperationID c" and ?J = "cc_JitterSeconds config"
  have J: "cc_JitterSeconds (sh_config s) = ?J" using inv by (simp add: slots_inv_def)
  have owed: "owed config started (ss_Slots (sh_state s)) c"
    using inv c by (simp add: slots_inv_def slots_ok_def)
  text \<open>What is known of a recorded due time that has passed.\<close>
  have passed: "\<exists>k k'. 0 \<le> k \<and> (\<forall>j. (?id, j) \<in> set started \<longrightarrow> j < k) \<and> slotAt c (sr_NextDue r) = k \<and>
      nextDueAfter c now ?J ?id = dueForSlot c k' ?J ?id \<and> k < k'"
    if r: "gm_get (ss_Slots (sh_state s)) ?id = Some r" "sr_NextDue r \<le> now" for r
  proof -
    obtain k where k: "0 \<le> k" "sr_NextDue r = dueForSlot c k ?J ?id" "\<forall>j. (?id, j) \<in> set started \<longrightarrow> j < k"
      using owed r(1) by (auto simp: owed_def)
    obtain k' where k': "nextDueAfter c now ?J ?id = dueForSlot c k' ?J ?id" "k < k'"
      using next_slot_below [OF cfg c now] k(1,2) r(2) by metis
    have "slotAt c (sr_NextDue r) = k" using k cadence_okD [OF cfg c] by (simp add: slotAt_dueForSlot)
    with k(1,3) k' show ?thesis by blast
  qed
  {
    case created
    obtain k where k: "nextDueAfter c now ?J ?id = dueForSlot c k ?J ?id" "0 \<le> k"
      using next_slot_exists [OF cfg c now] by blast
    have none: "(?id, j) \<notin> set started" for j using owed created(1) by (simp add: owed_def)
    have "slots_inv config started s' f'"
      by (rule slots_inv_postpone [OF inv cfg c _ k(2) _ _ _ created(4)]) (use none created(3) k(1) J in auto)
    then show ?thesis using created(2) by simp
  next
    case idle
    then show ?thesis using inv slots_inv_cong [of s' s] by auto
  next
    case (missed r)
    obtain k k' where k: "0 \<le> k" "\<forall>j. (?id, j) \<in> set started \<longrightarrow> j < k"
        "nextDueAfter c now ?J ?id = dueForSlot c k' ?J ?id" "k < k'"
      using passed [OF missed(1,3)] by blast
    have "0 \<le> k'" using k by simp
    have "slots_inv config started s' f'"
      by (rule slots_inv_postpone [where r = "r\<lparr>sr_NextDue := nextDueAfter c now ?J ?id\<rparr>",
        OF inv cfg c _ \<open>0 \<le> k'\<close> _ _ _ missed(6)]) (use missed(5) k J in fastforce)+
    then show ?thesis using missed(2) by simp
  next
    case (unsaved r)
    obtain k k' where k: "0 \<le> k" "\<forall>j. (?id, j) \<in> set started \<longrightarrow> j < k"
        "nextDueAfter c now ?J ?id = dueForSlot c k' ?J ?id" "k < k'"
      using passed [OF unsaved(1,4)] by blast
    have "0 \<le> k'" using k by simp
    have "slots_inv config started s' f'"
      by (rule slots_inv_postpone [where r = "\<lparr>sr_LastClaimedSlot = slotAt c (sr_NextDue r),
          sr_NextDue = nextDueAfter c now ?J ?id\<rparr>", OF inv cfg c _ \<open>0 \<le> k'\<close> _ _ _ unsaved(7)]) (use unsaved(6) k J in fastforce)+
    then show ?thesis using unsaved(2) by simp
  next
    case (started r s1)
    obtain k k' where k: "0 \<le> k" "\<forall>j. (?id, j) \<in> set started \<longrightarrow> j < k" "slotAt c (sr_NextDue r) = k"
        "nextDueAfter c now ?J ?id = dueForSlot c k' ?J ?id" "k < k'"
      using passed [OF started(1,4)] by blast
    have "slots_inv config ((?id, k) # started) s1 f'"
      by (rule slots_inv_claim [OF inv cfg c _ k(1,5) _ _ _ started(9)]) (use started(8) k J in auto)
    then show ?thesis using started(2,10) k(3) slots_inv_cong [of s' s1] by (simp add: slot_of_def spawn_def)
  }
qed

lemma process_canaries_slots:
  assumes "process_canaries codec io now cs s f = (e, s', f', gs)"
    and "slots_inv config started s f" and cfg: "cadence_ok config"
    and "set cs \<subseteq> set (cc_Canaries config)" and now: "0 \<le> time_Unix now"
  shows "slots_inv config (List.map slot_of (rev gs) @ started) s' f'"
  using assms(1,2,4)
proof (induction cs arbitrary: e s f s' f' started gs)
  case Nil
  then show ?case by simp
next
  case (Cons c cs)
  obtain e1 s1 f1 gs1 where step: "claimAndStart codec io now c (entry_of (sh_config s) c) s f = (e1, s1, f1, gs1)"
    by (metis prod_cases4)
  have one: "slots_inv config (List.map slot_of (rev gs1) @ started) s1 f1"
    using claimAndStart_slots [OF step Cons.prems(2) cfg _ now] Cons.prems(3) by simp
  show ?case
  proof (cases e1)
    case (Some err)
    then show ?thesis using Cons.prems(1) step one by simp
  next
    case None
    obtain e2 s2 f2 gs2 where rest: "process_canaries codec io now cs s1 f1 = (e2, s2, f2, gs2)"
      by (metis prod_cases4)
    have "slots_inv config (List.map slot_of (rev gs2) @ List.map slot_of (rev gs1) @ started) s2 f2"
      using Cons.IH [OF rest one] Cons.prems(3) by simp
    then show ?thesis using Cons.prems(1) step rest None by (auto simp: rev_append)
  qed
qed

lemma coverage_pass_fields:
  assumes "coverage_pass third io now s d = (e, s', d')"
  shows "sh_state s' = sh_state s" "sh_config s' = sh_config s" "sh_active s' = sh_active s"
    "sh_sem s' = sh_sem s" "sh_progress s' = sh_progress s"
  using assms by (auto simp: coverage_pass_def split: option.splits prod.splits)

text \<open>A pass either stops in the coverage lifecycle or processes the canaries.\<close>

lemma pass_cases:
  assumes "scheduler_ProcessDue third codec io now s f d = (e, s', f', d', gs)"
  obtains s1 e2 s2 where "sh_state s1 = sh_state s" "sh_config s1 = sh_config s" "sh_active s1 = sh_active s"
      "sh_sem s1 = sh_sem s" "sh_progress s1 = sh_progress s"
      "(e2, s2, f', gs) = (e, s1, f, []) \<or>
        process_canaries codec io now (cc_Canaries (sh_config s)) s1 f = (e2, s2, f', gs)"
      "sh_state s' = sh_state s2" "sh_config s' = sh_config s2" "sh_active s' = sh_active s2"
      "sh_sem s' = sh_sem s2" "sh_progress s' = sh_progress s2" "e2 = e"
proof -
  obtain e1 s1 d1 where cov: "coverage_pass third io now s d = (e1, s1, d1)" by (metis prod_cases3)
  note fields = coverage_pass_fields [OF cov]
  define out where "out = (\<lambda>e (s :: Scheduler). s\<lparr>sh_lastLoop := now, sh_loopFailure := (e \<noteq> (None :: string option)),
    sh_stateFailures := (if e \<noteq> None then sh_stateFailures s + 1 else sh_stateFailures s)\<rparr>)"
  have out: "sh_state (out e s) = sh_state s" "sh_config (out e s) = sh_config s" "sh_active (out e s) = sh_active s"
    "sh_sem (out e s) = sh_sem s" "sh_progress (out e s) = sh_progress s" for e s by (simp_all add: out_def)
  show ?thesis
  proof (cases e1)
    case (Some err)
    then have "e = e1 \<and> s' = out e1 s1 \<and> f' = f \<and> gs = []"
      using assms cov by (auto simp: scheduler_ProcessDue_def out_def)
    then show ?thesis using fields out by (intro that [of s1 e s1]) simp_all
  next
    case None
    obtain e2 s2 f2 gs2 where body: "process_canaries codec io now (cc_Canaries (sh_config s1)) s1 f = (e2, s2, f2, gs2)"
      by (metis prod_cases4)
    have "e = e2 \<and> s' = out e2 s2 \<and> f' = f2 \<and> gs = gs2"
      using assms cov None body by (auto simp: scheduler_ProcessDue_def out_def)
    then show ?thesis using fields out body by (intro that [of s1 e2 s2]) simp_all
  qed
qed

definition world_slots :: "CanaryConfig \<Rightarrow> scheduler_world \<Rightarrow> bool" where
  "world_slots config w \<longleftrightarrow> slots_inv config (w_started w) (w_scheduler w) (w_file w)"

lemma apply_effect_fields [simp]:
  "sh_state (apply_effect key x s) = sh_state s" "sh_config (apply_effect key x s) = sh_config s"
  by (cases x; simp add: incFailed_def incAdmissionRejected_def incDeliveryFailed_def incCompleted_def
      recordProgress_def Let_def)+

lemma advance_world_fields:
  "w_started (advance_world i w) = w_started w" "w_file (advance_world i w) = w_file w"
  "sh_state (w_scheduler (advance_world i w)) = sh_state (w_scheduler w)"
  "sh_config (w_scheduler (advance_world i w)) = sh_config (w_scheduler w)"
  by (auto simp: advance_world_def Let_def split: list.splits)

lemma NewScheduler_state:
  assumes "NewSchedulerWithCoverage config p f True True coverage = Inr s"
  shows "loadScheduleState f = Inr (sh_state s)" "sh_config s = config" "sh_active s = {}" "sh_sem s = 0"
    "sh_progress s = []" "ss_Version (sh_state s) = 1"
  using assms by (auto simp: NewSchedulerWithCoverage_def loadScheduleState_def
      split: if_splits sum.splits stored.splits option.splits)

lemma scheduler_step_slots:
  assumes "scheduler_step third codec w w'" "world_slots config w" "cadence_ok config"
  shows "world_slots config w'"
  using assms(1)
proof (cases rule: scheduler_step.cases)
  case (pass now io)
  obtain e s f d gs where call:
      "scheduler_ProcessDue third codec io now (w_scheduler w) (w_file w) (w_coverage_file w) = (e, s, f, d, gs)"
    by (metis prod_cases5)
  show ?thesis
    using call
  proof (cases rule: pass_cases)
    case (1 s1 e2 s2)
    have "slots_inv config (w_started w) s1 (w_file w)"
      using assms(2) 1 slots_inv_cong [of s1 "w_scheduler w"] by (simp add: world_slots_def)
    moreover have "cc_Canaries (sh_config (w_scheduler w)) = cc_Canaries config"
      using assms(2) by (simp add: world_slots_def slots_inv_def)
    ultimately have "slots_inv config (List.map slot_of (rev gs) @ w_started w) s2 f"
      using 1(6) process_canaries_slots [of codec io now "cc_Canaries config" s1 "w_file w" e2 s2 f gs config "w_started w"]
        assms(3) pass(2) by auto
    then show ?thesis using 1(7,8) call pass(1) slots_inv_cong [of s s2]
      by (simp add: world_slots_def pass_world_def)
  qed
next
  case (advance i)
  then show ?thesis using assms(2) slots_inv_cong [OF advance_world_fields(3,4) [of i w]]
    by (simp add: world_slots_def advance_world_fields(1,2))
next
  case (restart p coverage s)
  have cfg: "sh_config (w_scheduler w) = config" and ok: "file_ok config (w_started w) (w_file w)"
    and dist: "distinct (w_started w)"
    using assms(2) by (auto simp: world_slots_def slots_inv_def)
  note new = NewScheduler_state [OF restart(2)]
  have "slots_ok config (w_started w) (ss_Slots (sh_state s))" using ok new(1) by (auto simp: file_ok_def)
  then show ?thesis using restart(1) new cfg ok dist by (simp add: world_slots_def slots_inv_def restart_world_def)
qed

lemma fresh_world_slots: "world_slots config (fresh_world config coverage d)"
  by (simp add: world_slots_def slots_inv_def fresh_world_def slots_ok_def owed_def file_ok_def loadScheduleState_def)

lemma reachable_slots:
  assumes "scheduler_reachable third codec w0 w" "world_slots config w0" "cadence_ok config"
  shows "world_slots config w"
  using assms(1) by induction (use assms scheduler_step_slots in blast)+

section \<open>What runs\<close>

definition holds :: "goroutine \<Rightarrow> bool" where
  "holds g \<longleftrightarrow> ReleaseSem \<in> set (go_effects g)"

definition shape :: "goroutine \<Rightarrow> bool" where
  "shape g \<longleftrightarrow> (\<exists>xs. go_effects g = xs @ [ReleaseSem, DeleteActive] \<and> ReleaseSem \<notin> set xs \<and> DeleteActive \<notin> set xs) \<or>
     go_effects g = [DeleteActive]"

abbreviation run_key :: "goroutine \<Rightarrow> string" where
  "run_key g \<equiv> ca_OperationID (go_canary g)"

definition runs_inv :: "Scheduler \<Rightarrow> goroutine list \<Rightarrow> bool" where
  "runs_inv s gs \<longleftrightarrow> list_all shape gs \<and> distinct (List.map run_key gs) \<and> sh_active s = set (List.map run_key gs) \<and>
     sh_sem s = length (filter holds gs) \<and>
     (int (sh_sem s) \<le> cc_GlobalConcurrency (sh_config s) \<or> sh_sem s = 0)"

lemma run_no_release:
  "ReleaseSem \<notin> set (run codec config c entry io)" "DeleteActive \<notin> set (run codec config c entry io)"
  by (auto simp: run_def split: option.splits sum.splits)

lemma spawn_shape: "shape (spawn codec config c k entry io)" "holds (spawn codec config c k entry io)"
  "run_key (spawn codec config c k entry io) = ca_OperationID c"
  by (auto simp: shape_def holds_def spawn_def run_no_release)

lemma claimAndStart_config:
  assumes "claimAndStart codec io now c entry s f = (e, s', f', gs)"
  shows "sh_config s' = sh_config s"
  using assms by (cases rule: claimAndStart_cases) auto

lemma claimAndStart_runs:
  assumes "claimAndStart codec io now c entry s f = (e, s', f', gs)" and inv: "runs_inv s gs0"
  shows "runs_inv s' (rev gs @ gs0)"
  using assms(1)
proof (cases rule: claimAndStart_cases)
  case (started r s1)
  then show ?thesis using inv spawn_shape by (auto simp: runs_inv_def)
qed (use inv in \<open>auto simp: runs_inv_def\<close>)

lemma process_canaries_runs:
  assumes "process_canaries codec io now cs s f = (e, s', f', gs)" and "runs_inv s gs0"
  shows "runs_inv s' (rev gs @ gs0) \<and> sh_config s' = sh_config s"
  using assms
proof (induction cs arbitrary: e s f s' f' gs gs0)
  case Nil
  then show ?case by simp
next
  case (Cons c cs)
  obtain e1 s1 f1 gs1 where step: "claimAndStart codec io now c (entry_of (sh_config s) c) s f = (e1, s1, f1, gs1)"
    by (metis prod_cases4)
  note one = claimAndStart_runs [OF step Cons.prems(2)] claimAndStart_config [OF step]
  show ?case
  proof (cases e1)
    case (Some err)
    then show ?thesis using Cons.prems(1) step one by auto
  next
    case None
    obtain e2 s2 f2 gs2 where rest: "process_canaries codec io now cs s1 f1 = (e2, s2, f2, gs2)"
      by (metis prod_cases4)
    show ?thesis using Cons.prems(1) step rest None Cons.IH [OF rest one(1)] one(2) by auto
  qed
qed

lemma runs_inv_cong:
  "sh_active s' = sh_active s \<Longrightarrow> sh_sem s' = sh_sem s \<Longrightarrow> sh_config s' = sh_config s \<Longrightarrow> runs_inv s' gs = runs_inv s gs"
  by (simp add: runs_inv_def)

lemma apply_effect_runs [simp]:
  "x \<noteq> DeleteActive \<Longrightarrow> sh_active (apply_effect key x s) = sh_active s"
  "x \<noteq> ReleaseSem \<Longrightarrow> sh_sem (apply_effect key x s) = sh_sem s"
  by (cases x; simp add: incFailed_def incAdmissionRejected_def incDeliveryFailed_def incCompleted_def
      recordProgress_def Let_def)+

text \<open>The probe that advances, among the others.\<close>

lemma advance_cases:
  assumes "i < length (w_running w)"
  obtains (stuck) "advance_world i w = w"
  | (moved) A g x xs B where "w_running w = A @ g # B" "go_effects g = x # xs" "xs \<noteq> []"
      "advance_world i w = w\<lparr>w_scheduler := apply_effect (run_key g) x (w_scheduler w),
         w_running := A @ g\<lparr>go_effects := xs\<rparr> # B, w_delivered := delivered_by g @ w_delivered w\<rparr>"
  | (ended) A g x B where "w_running w = A @ g # B" "go_effects g = [x]"
      "advance_world i w = w\<lparr>w_scheduler := apply_effect (run_key g) x (w_scheduler w),
         w_running := A @ B, w_delivered := delivered_by g @ w_delivered w\<rparr>"
proof -
  define A g B where "A = take i (w_running w)" and "g = w_running w ! i" and "B = drop (Suc i) (w_running w)"
  have R: "w_running w = A @ g # B" using assms by (simp add: A_def g_def B_def id_take_nth_drop)
  have upd: "(w_running w)[i := h] = A @ h # B" for h
    using assms by (simp add: A_def B_def upd_conv_take_nth_drop)
  show ?thesis
  proof (cases "go_effects g")
    case Nil
    then show ?thesis by (intro stuck) (simp add: advance_world_def Let_def g_def)
  next
    case (Cons x xs)
    note def = advance_world_def [of i w, folded g_def A_def B_def, unfolded Let_def upd Cons list.case]
    show ?thesis
    proof (cases "xs = []")
      case True
      then show ?thesis using R Cons def by (intro ended [of A g B x]) simp_all
    next
      case False
      then show ?thesis using R Cons def by (intro moved [of A g B x xs]) simp_all
    qed
  qed
qed

lemma advance_runs:
  assumes i: "i < length (w_running w)" and inv: "runs_inv (w_scheduler w) (w_running w)"
  shows "runs_inv (w_scheduler (advance_world i w)) (w_running (advance_world i w))"
  using i
proof (cases rule: advance_cases)
  case stuck
  then show ?thesis using inv by simp
next
  case (moved A g x xs B)
  let ?g = "g\<lparr>go_effects := xs\<rparr>"
  have "shape g" using inv moved(1) by (simp add: runs_inv_def)
  then obtain ys where ys: "go_effects g = ys @ [ReleaseSem, DeleteActive]" "ReleaseSem \<notin> set ys" "DeleteActive \<notin> set ys"
    using moved(2,3) by (auto simp: shape_def)
  show ?thesis
  proof (cases ys)
    case Nil
    then have x: "x = ReleaseSem" "xs = [DeleteActive]" using ys moved(2) by simp_all
    then have "holds g" "\<not> holds ?g" "shape ?g" using moved(2) by (simp_all add: holds_def shape_def)
    then show ?thesis using inv moved x by (auto simp: runs_inv_def)
  next
    case (Cons y zs)
    then have x: "x \<noteq> ReleaseSem" "x \<noteq> DeleteActive" "xs = zs @ [ReleaseSem, DeleteActive]"
      using ys moved(2) by auto
    then have "holds g" "holds ?g" "shape ?g" using ys Cons by (auto simp: holds_def shape_def)
    then show ?thesis using inv moved x by (auto simp: runs_inv_def)
  qed
next
  case (ended A g x B)
  have "shape g" using inv ended(1) by (simp add: runs_inv_def)
  then have x: "x = DeleteActive" using ended(2) by (auto simp: shape_def append_eq_Cons_conv)
  then have "\<not> holds g" using ended(2) by (simp add: holds_def)
  then show ?thesis using inv ended x by (auto simp: runs_inv_def)
qed

lemma step_runs:
  assumes "scheduler_step third codec w w'" "runs_inv (w_scheduler w) (w_running w)"
  shows "runs_inv (w_scheduler w') (w_running w') \<and> sh_config (w_scheduler w') = sh_config (w_scheduler w)"
  using assms(1)
proof (cases rule: scheduler_step.cases)
  case (pass now io)
  obtain e s f d gs where call:
      "scheduler_ProcessDue third codec io now (w_scheduler w) (w_file w) (w_coverage_file w) = (e, s, f, d, gs)"
    by (metis prod_cases5)
  show ?thesis
    using call
  proof (cases rule: pass_cases)
    case (1 s1 e2 s2)
    have "runs_inv s1 (w_running w)" using assms(2) 1 runs_inv_cong [of s1 "w_scheduler w"] by simp
    then have "runs_inv s2 (rev gs @ w_running w) \<and> sh_config s2 = sh_config s1"
      using 1(6) process_canaries_runs by fastforce
    then show ?thesis using 1 call pass(1) runs_inv_cong [of s s2] by (simp add: pass_world_def)
  qed
next
  case (advance i)
  then show ?thesis using advance_runs [OF advance(2) assms(2)] advance_world_fields(4) by simp
next
  case (restart p coverage s)
  then show ?thesis using NewScheduler_state [OF restart(2)] by (simp add: runs_inv_def restart_world_def)
qed

lemma fresh_world_runs: "runs_inv (w_scheduler (fresh_world config coverage d)) (w_running (fresh_world config coverage d))"
  by (simp add: runs_inv_def fresh_world_def)

lemma reachable_runs:
  assumes "scheduler_reachable third codec (fresh_world config coverage d) w"
  shows "runs_inv (w_scheduler w) (w_running w) \<and> sh_config (w_scheduler w) = config"
  using assms
proof induction
  case start
  then show ?case using fresh_world_runs by (simp add: fresh_world_def)
next
  case (step w w')
  then show ?case using step_runs by blast
qed

section \<open>What readiness rests on\<close>

text \<open>The run staged and obtained a receipt, the receipt was admitted for the canary that launched
  it, and the deliverer succeeded.\<close>

definition proven :: "receipt_codec \<Rightarrow> CanaryConfig \<Rightarrow> goroutine \<Rightarrow> bool" where
  "proven codec config g \<longleftrightarrow> ri_staging (go_io g) \<and> ri_delivered (go_io g) \<and>
     (\<exists>receipt endpoint. run_receipt codec config (go_entry g) (go_io g) = Some receipt \<and>
        AdmitScheduledReceipt config receipt (go_canary g) (ri_admitted (go_io g)) (ri_started (go_io g)) = Inr endpoint)"

definition delivers :: "goroutine \<Rightarrow> bool" where
  "delivers g \<longleftrightarrow> list_ex (\<lambda>x. case x of RecordProgress phase _ _ _ \<Rightarrow> phase = ''delivered'' | _ \<Rightarrow> False) (go_effects g)"

definition progress_ok :: "(goroutine \<times> time) list \<Rightarrow> Scheduler \<Rightarrow> string \<Rightarrow> bool" where
  "progress_ok delivered s key \<longleftrightarrow>
     (pg_State (progress_of s key) = ''ready'' \<longrightarrow> pg_LastDelivered (progress_of s key) \<noteq> None) \<and>
     (\<forall>t. pg_LastDelivered (progress_of s key) = Some t \<longrightarrow> (\<exists>g. (g, t) \<in> set delivered \<and> run_key g = key))"

definition evidence :: "receipt_codec \<Rightarrow> CanaryConfig \<Rightarrow> scheduler_world \<Rightarrow> bool" where
  "evidence codec config w \<longleftrightarrow> sh_config (w_scheduler w) = config \<and>
     (\<forall>g \<in> set (w_running w). delivers g \<longrightarrow> proven codec config g) \<and>
     (\<forall>(g, t) \<in> set (w_delivered w). proven codec config g) \<and>
     (\<forall>key. progress_ok (w_delivered w) (w_scheduler w) key)"

lemma run_delivers:
  "delivers (spawn codec config c k entry io) \<Longrightarrow> proven codec config (spawn codec config c k entry io)"
  by (auto simp: delivers_def spawn_def proven_def run_def split: if_splits option.splits sum.splits)

lemma progress_of_put [simp]:
  "progress_of (s\<lparr>sh_progress := gm_put k p m\<rparr>) key = (if key = k then p else progress_of (s\<lparr>sh_progress := m\<rparr>) key)"
  by (simp add: progress_of_def)

lemma progress_of_same [simp]: "progress_of (s\<lparr>sh_progress := sh_progress s\<rparr>) key = progress_of s key"
  by simp

lemma progress_ok_cong: "sh_progress s' = sh_progress s \<Longrightarrow> progress_ok del s' key = progress_ok del s key"
  by (simp add: progress_ok_def progress_of_def)

lemma progress_ok_markStarted: "progress_ok del (markStarted k t s) key = progress_ok del s key"
  by (auto simp: progress_ok_def markStarted_def)

lemma claimAndStart_progress:
  assumes "claimAndStart codec io now c entry s f = (e, s', f', gs)"
  shows "progress_ok del s' key = progress_ok del s key"
    and "\<forall>g \<in> set gs. delivers g \<longrightarrow> proven codec (sh_config s) g"
proof -
  show "progress_ok del s' key = progress_ok del s key"
    using assms
  proof (cases rule: claimAndStart_cases)
    case (started r s1)
    then show ?thesis by (simp add: progress_ok_markStarted) (rule progress_ok_cong, simp)
  qed (auto intro!: progress_ok_cong)
  show "\<forall>g \<in> set gs. delivers g \<longrightarrow> proven codec (sh_config s) g"
    using assms by (cases rule: claimAndStart_cases) (auto intro: run_delivers)
qed

lemma process_canaries_progress:
  assumes "process_canaries codec io now cs s f = (e, s', f', gs)"
  shows "(progress_ok del s' key = progress_ok del s key) \<and>
    (\<forall>g \<in> set gs. delivers g \<longrightarrow> proven codec (sh_config s) g) \<and> sh_config s' = sh_config s"
  using assms
proof (induction cs arbitrary: e s f s' f' gs)
  case Nil
  then show ?case by simp
next
  case (Cons c cs)
  obtain e1 s1 f1 gs1 where step: "claimAndStart codec io now c (entry_of (sh_config s) c) s f = (e1, s1, f1, gs1)"
    by (metis prod_cases4)
  note one = claimAndStart_progress [OF step] claimAndStart_config [OF step]
  show ?case
  proof (cases e1)
    case (Some err)
    then show ?thesis using Cons.prems step one by auto
  next
    case None
    obtain e2 s2 f2 gs2 where rest: "process_canaries codec io now cs s1 f1 = (e2, s2, f2, gs2)"
      by (metis prod_cases4)
    show ?thesis using Cons.prems step rest None Cons.IH [OF rest] one by auto
  qed
qed

lemma apply_effect_progress:
  assumes "progress_ok delivered s key" "go_effects g = x # xs" "run_key g = k"
  shows "progress_ok (delivered_by g @ delivered) (apply_effect k x s) key"
proof (cases x)
  case (RecordProgress phase reason observed now)
  then show ?thesis using assms
    by (auto simp: progress_ok_def recordProgress_def Let_def delivered_by_def)
next
  case (IncCompleted now)
  then show ?thesis using assms progress_ok_cong [of "incCompleted now s" s delivered key]
    by (simp add: delivered_by_def incCompleted_def)
qed (use assms in \<open>auto simp: progress_ok_def progress_of_def delivered_by_def incFailed_def
      incAdmissionRejected_def incDeliveryFailed_def\<close>)

lemma delivered_by_proven:
  assumes "(h, t) \<in> set (delivered_by g)"
  shows "h = g \<and> delivers g"
  using assms by (cases "go_effects g") (auto simp: delivered_by_def delivers_def split: effect.splits if_splits)

lemma proven_effects [simp]: "proven codec config (g\<lparr>go_effects := xs\<rparr>) = proven codec config g"
  by (simp add: proven_def)

lemma delivers_tl: "go_effects g = x # xs \<Longrightarrow> delivers (g\<lparr>go_effects := xs\<rparr>) \<Longrightarrow> delivers g"
  by (simp add: delivers_def)

lemma advance_evidence:
  assumes i: "i < length (w_running w)" and ev: "evidence codec config w"
  shows "evidence codec config (advance_world i w)"
  using i
proof (cases rule: advance_cases)
  case stuck
  then show ?thesis using ev by simp
next
  case (moved A g x xs B)
  have g: "delivers g \<longrightarrow> proven codec config g" using ev moved(1) by (simp add: evidence_def)
  have prog: "progress_ok (delivered_by g @ w_delivered w) (apply_effect (run_key g) x (w_scheduler w)) key" for key
    using apply_effect_progress [OF _ moved(2) refl] ev by (simp add: evidence_def)
  show ?thesis using ev g moved prog delivered_by_proven [of _ _ g] delivers_tl [OF moved(2)]
    by (auto simp: evidence_def)
next
  case (ended A g x B)
  have g: "delivers g \<longrightarrow> proven codec config g" using ev ended(1) by (simp add: evidence_def)
  have prog: "progress_ok (delivered_by g @ w_delivered w) (apply_effect (run_key g) x (w_scheduler w)) key" for key
    using apply_effect_progress [OF _ ended(2) refl] ev by (simp add: evidence_def)
  show ?thesis using ev g ended prog delivered_by_proven [of _ _ g] by (auto simp: evidence_def)
qed

lemma step_evidence:
  assumes "scheduler_step third codec w w'" and ev: "evidence codec config w"
  shows "evidence codec config w'"
  using assms(1)
proof (cases rule: scheduler_step.cases)
  case (pass now io)
  obtain e s f d gs where call:
      "scheduler_ProcessDue third codec io now (w_scheduler w) (w_file w) (w_coverage_file w) = (e, s, f, d, gs)"
    by (metis prod_cases5)
  show ?thesis
    using call
  proof (cases rule: pass_cases)
    case (1 s1 e2 s2)
    have body: "progress_ok del s2 key = progress_ok del s1 key"
        "\<forall>g \<in> set gs. delivers g \<longrightarrow> proven codec (sh_config s1) g" "sh_config s2 = sh_config s1" for del key
      using 1(6) process_canaries_progress by fastforce+
    have "progress_ok (w_delivered w) s key = progress_ok (w_delivered w) (w_scheduler w) key" for key
      using progress_ok_cong [OF 1(5)] progress_ok_cong [OF 1(11)] body(1) by simp
    moreover have "sh_config s = config" "sh_config s1 = config" using 1 body(3) ev by (simp_all add: evidence_def)
    ultimately show ?thesis using ev call pass(1) body(2)
      by (auto simp: pass_world_def evidence_def)
  qed
next
  case (advance i)
  then show ?thesis using advance_evidence ev by simp
next
  case (restart p coverage s)
  then show ?thesis using NewScheduler_state [OF restart(2)] ev
    by (simp add: evidence_def restart_world_def progress_ok_def progress_of_def zero_progress_def)
qed

lemma reachable_evidence:
  assumes "scheduler_reachable third codec (fresh_world config coverage d) w"
  shows "evidence codec config w"
  using assms
proof induction
  case start
  then show ?case by (simp add: evidence_def fresh_world_def progress_ok_def progress_of_def zero_progress_def)
next
  case (step w w')
  then show ?case using step_evidence by blast
qed

lemma report_canaries:
  "ry_Ready (foldl (report_canary s now) r cs) \<longleftrightarrow>
     ry_Ready r \<and> list_all (\<lambda>c. pg_State (canary_progress s now c) = ''ready'') cs"
  by (induction cs arbitrary: r) (auto simp: report_canary_def Let_def)

lemma Readiness_iff:
  "ry_Ready (Readiness s now) \<longleftrightarrow>
     list_all (\<lambda>c. pg_State (canary_progress s now c) = ''ready'') (cc_Canaries (sh_config s)) \<and>
     \<not> IsZero (sh_lastLoop s) \<and> time_Sub now (sh_lastLoop s) \<le> schedulerLoopMaxAge \<and>
     sh_lastLoop s \<le> now + receiptClockSkew \<and> \<not> sh_loopFailure s"
  by (auto simp: Readiness_def Let_def report_canaries)

lemma canary_ready:
  assumes "pg_State (canary_progress s now c) = ''ready''"
  shows "pg_State (progress_of s (ca_OperationID c)) = ''ready''"
    and "pg_LastDelivered (progress_of s (ca_OperationID c)) = Some t \<Longrightarrow>
      time_Sub now t \<le> ca_HeartbeatMinutes c * minute"
  using assms by (auto simp: canary_progress_def Let_def split: if_splits option.splits)

section \<open>Receipts that are admitted\<close>

lemma CanaryFor_in:
  "CanaryFor config r = Some c \<Longrightarrow> c \<in> set (cc_Canaries config) \<and>
    (\<exists>e. Entry config c = Some e \<and> ce_Aliases_CLIOperationKey e = ro_OperationKey (r_Operation r))"
  by (auto simp: CanaryFor_def find_Some_iff Entry_def split: option.splits)

text \<open>The printed random bytes are a version 4 UUID.\<close>

lemma schedulerProbeID_uuid:
  assumes "length bs = 16" "\<forall>b \<in> set bs. b < 256"
  shows "\<exists>v. schedulerProbeID (Some bs) = Some v \<and> uuidPattern v"
proof -
  obtain b0 b1 b2 b3 b4 b5 b6 b7 b8 b9 b10 b11 b12 b13 b14 b15 where
    bs: "bs = [b0, b1, b2, b3, b4, b5, b6, b7, b8, b9, b10, b11, b12, b13, b14, b15]"
    using assms(1) by (auto simp: length_Suc_conv numeral_eq_Suc)
  have low: "is_lower_hex (hex_digit (b div 16))" "is_lower_hex (hex_digit (b mod 16))" if "b < 256" for b
    using that by (auto intro!: is_lower_hex_digit)
  have v: "hex_digit ((b6 mod 16 + 64) div 16) = CHR ''4''"
  proof -
    have "(b6 mod 16 + 64) div 16 = 4" by presburger
    then show ?thesis by (simp add: hex_digit_def char_of_eq_iff)
  qed
  have "(b8 mod 64 + 128) div 16 \<in> {8, 9, 10, 11}" by auto
  then have w: "hex_digit ((b8 mod 64 + 128) div 16) \<in> set ''89ab''" by (auto simp: hex_digit_def char_of_eq_iff)
  show ?thesis
    using assms(2) v w unfolding schedulerProbeID_def bs
    by (simp add: uuidPattern_def hex_encode_def low is_lower_hex_digit)
qed

end
