(* ===== verification/Canary_Properties.thy ===== *)
theory Canary_Properties
  imports Canary_Scheduler_Facts
begin

text \<open>
  The properties of the canary configuration, the admission of receipts and the canary
  scheduler, each applied to a concrete configuration with one canary.
\<close>

section \<open>Loading\<close>

definition catalog_map_ok :: "(string, CatalogEntry) gomap \<Rightarrow> bool" where
  "catalog_map_ok m \<longleftrightarrow> (\<forall>k e. gm_get m k = Some e \<longrightarrow> catalog_entry_ok e \<and> ce_OperationID e = k)"

lemma catalog_map_ok_put:
  "catalog_map_ok m \<Longrightarrow> catalog_entry_ok e \<Longrightarrow> catalog_map_ok (gm_put (ce_OperationID e) e m)"
  by (simp add: catalog_map_ok_def)

lemma catalog_entries_sound:
  assumes "catalog_entries es m = Inr m'" "catalog_map_ok m"
  shows "catalog_map_ok m'"
  using assms by (induction es m rule: catalog_entries.induct) (simp_all add: catalog_map_ok_put split: if_splits)

lemma LoadCatalog_sound:
  assumes "LoadCatalog decode raw pin = Inr catalog"
  shows "catalog_map_ok (ct_byID catalog)"
    and "\<exists>bytes. raw = Some bytes \<and> sha256_hex bytes = pin"
proof -
  obtain bytes c0 m where "raw = Some bytes" "sha256_hex bytes = pin" "catalog_entries (ct_Entries c0) [] = Inr m"
      "catalog = c0\<lparr>ct_byID := m\<rparr>"
    using assms by (auto simp: LoadCatalog_def split: option.splits if_splits sum.splits)
  then show "catalog_map_ok (ct_byID catalog)" "\<exists>bytes. raw = Some bytes \<and> sha256_hex bytes = pin"
    using catalog_entries_sound [of _ "[]" m] by (simp_all add: catalog_map_ok_def)
qed

lemma canaries_ok_sound:
  assumes "canaries_ok jitter catalog seen cs"
  shows "distinct (List.map ca_OperationID cs) \<and> set (List.map ca_OperationID cs) \<inter> set seen = {} \<and>
    list_all (\<lambda>c. validCadence c \<and> jitter < ca_IntervalMinutes c * 60 \<and>
      (\<exists>e. ByID catalog (ca_OperationID c) = Some e \<and> Probeable e)) cs"
  using assms by (induction jitter catalog seen cs rule: canaries_ok.induct) (auto split: option.splits)

lemma validCadence_positive: "validCadence c \<Longrightarrow> 0 < ca_IntervalMinutes c"
  by (auto simp: validCadence_def split: if_splits)

definition sound_config :: "CanaryConfig \<Rightarrow> bool" where
  "sound_config config \<longleftrightarrow> cadence_ok config \<and> cc_Canaries config \<noteq> [] \<and>
     1 \<le> cc_GlobalConcurrency config \<and> cc_GlobalConcurrency config \<le> 32 \<and>
     cc_CatalogSHA256 config = acceptedCanaryCatalogSHA256 \<and>
     cc_ConsumptionProvenance config = acceptedCanaryProvenance \<and>
     list_all (\<lambda>c. ca_HeartbeatMinutes c = 2 * ca_IntervalMinutes c \<and>
       (case Entry config c of None \<Rightarrow> False | Some e \<Rightarrow> catalog_entry_ok e \<and> ce_OperationID e = ca_OperationID c))
       (cc_Canaries config)"

lemma LoadCanaryConfig_sound:
  assumes "LoadCanaryConfig decode decode_catalog files resolve path = Inr config"
  shows "sound_config config \<and>
    (\<exists>bytes. files (cc_CatalogPath config) = Some bytes \<and> sha256_hex bytes = acceptedCanaryCatalogSHA256)"
proof -
  obtain raw c0 catalog where
    c0: "files path = Some raw" "decode raw = Some c0" "1 \<le> cc_GlobalConcurrency c0" "cc_GlobalConcurrency c0 \<le> 32"
      "LoadCatalog decode_catalog (files (cc_CatalogPath config)) (cc_CatalogSHA256 c0) = Inr catalog"
      "cc_CatalogSHA256 c0 = acceptedCanaryCatalogSHA256" "cc_ConsumptionProvenance c0 = acceptedCanaryProvenance"
      "canaries_ok (cc_JitterSeconds c0) catalog [] (cc_Canaries c0)" "cc_Canaries c0 \<noteq> []"
    and config: "config = c0\<lparr>cc_CatalogPath := cc_CatalogPath config, cc_catalog := catalog\<rparr>"
    using assms by (auto simp: LoadCanaryConfig_def Let_def split: option.splits if_splits sum.splits)
  note cs = canaries_ok_sound [OF c0(8)] and cat = LoadCatalog_sound [OF c0(5)]
  have fields: "cc_Canaries config = cc_Canaries c0" "cc_JitterSeconds config = cc_JitterSeconds c0"
      "cc_GlobalConcurrency config = cc_GlobalConcurrency c0" "cc_CatalogSHA256 config = cc_CatalogSHA256 c0"
      "cc_ConsumptionProvenance config = cc_ConsumptionProvenance c0" "cc_catalog config = catalog"
    by (subst config, simp)+
  have "cadence_ok config" using cs validCadence_positive by (auto simp: cadence_ok_def fields list_all_iff)
  moreover have "ca_HeartbeatMinutes c = 2 * ca_IntervalMinutes c \<and>
      (case Entry config c of None \<Rightarrow> False | Some e \<Rightarrow> catalog_entry_ok e \<and> ce_OperationID e = ca_OperationID c)"
    if "c \<in> set (cc_Canaries c0)" for c
    using cs cat(1) that by (auto simp: list_all_iff Entry_def ByID_def catalog_map_ok_def fields validCadence_def)
  ultimately show ?thesis using c0 cat(2) by (auto simp: sound_config_def fields list_all_iff)
qed

text \<open>A canary configuration that loads is sound: between 1 and 32 concurrent probes, at least
  one canary, distinct operations, jitter shorter than every interval, a heartbeat of two
  intervals, every canary bound to a valid entry of its own in a catalog whose file has the
  digest compiled into the program, and the compiled-in registry provenance.\<close>
theorem loaded_config_is_sound:
  "case LoadCanaryConfig decode decode_catalog files resolve path of
     Inl e \<Rightarrow> True
   | Inr config \<Rightarrow> sound_config config \<and>
       (\<exists>bytes. files (cc_CatalogPath config) = Some bytes \<and> sha256_hex bytes = acceptedCanaryCatalogSHA256)"
  using LoadCanaryConfig_sound [of decode decode_catalog files resolve path] by (simp split: sum.splits)

section \<open>Admission\<close>

text \<open>What admission promises, guard by guard: the catalog entry the receipt is of, the release it was
  made from, the policy and limits it kept to, and the time it was observed.\<close>

definition of_entry :: "Receipt \<Rightarrow> CatalogEntry \<Rightarrow> bool" where
  "of_entry r e \<longleftrightarrow>
     ro_OperationKey (r_Operation r) = ce_Aliases_CLIOperationKey e \<and>
     ro_DatasetID (r_Operation r) = ce_Aliases_DatasetID e \<and>
     ro_OperationName (r_Operation r) = ce_Aliases_OperationName e \<and>
     ro_DependencyClass (r_Operation r) = ce_Endpoint_DependencyClass e \<and>
     ro_Provider (r_Operation r) = ce_Provider e \<and>
     ro_EndpointHost (r_Operation r) = ce_Endpoint_Host e \<and>
     ro_EndpointPath (r_Operation r) = ce_Endpoint_Path e"

definition of_accepted_release :: "CanaryConfig \<Rightarrow> Receipt \<Rightarrow> bool" where
  "of_accepted_release config r \<longleftrightarrow>
     cc_CatalogSHA256 config = acceptedCanaryCatalogSHA256 \<and>
     cc_ConsumptionProvenance config = acceptedCanaryProvenance \<and>
     rr_DatasetID (r_Registry r) = acceptedRegistryDatasetID \<and>
     rr_DatasetRevision (r_Registry r) = cp_RegistryDatasetRevision acceptedCanaryProvenance \<and>
     rr_RegistrySHA256 (r_Registry r) = cp_SourceRegistrySHA256 acceptedCanaryProvenance \<and>
     rr_ManifestSHA256 (r_Registry r) = cp_ReleaseManifestSHA256 acceptedCanaryProvenance"

definition within_limits :: "Receipt \<Rightarrow> CatalogEntry \<Rightarrow> bool" where
  "within_limits r e \<longleftrightarrow>
     r_Policy r = Some (ce_Policy e) \<and>
     0 \<le> probeLevel (ob_MaxLevel (r_Observation r)) \<and>
     probeLevel (ob_MaxLevel (r_Observation r)) \<le> probeLevel (po_MaxLevel (ce_Policy e)) \<and>
     rx_RequestBudget (r_Execution r) \<le> ce_RequestBudget e \<and> rx_TimeoutMS (r_Execution r) \<le> ce_TimeoutCeilingMS e \<and>
     mset (rx_SafeParameterNames (r_Execution r)) = mset (ce_SafeParameters e)"

definition observed_in_time :: "Receipt \<Rightarrow> time \<Rightarrow> time \<Rightarrow> bool" where
  "observed_in_time r now started \<longleftrightarrow>
     \<not> IsZero now \<and> \<not> IsZero (r_ObservedAt r) \<and>
     now - receiptMaxAge \<le> r_ObservedAt r \<and> r_ObservedAt r \<le> now + receiptClockSkew \<and>
     (IsZero started \<or> started - receiptClockSkew \<le> r_ObservedAt r)"

definition admitted_for :: "CanaryConfig \<Rightarrow> Receipt \<Rightarrow> Canary \<Rightarrow> CatalogEntry \<Rightarrow> time \<Rightarrow> time \<Rightarrow> bool" where
  "admitted_for config r c e now started \<longleftrightarrow>
     CanaryFor config r = Some c \<and> of_entry r e \<and> of_accepted_release config r \<and> within_limits r e \<and>
     observed_in_time r now started \<and> Receipt_Validate r = None"

lemmas admitted_defs = admitted_for_def of_entry_def of_accepted_release_def within_limits_def observed_in_time_def

lemma AdmitReceipt_sound:
  assumes "AdmitReceipt config r now started = Inr endpoint"
  shows "\<exists>c e. CanaryFor config r = Some c \<and> Entry config c = Some e \<and> endpoint = ca_GatusEndpointKey c \<and>
    cc_ConsumptionProvenance config = acceptedCanaryProvenance \<and> admitted_for config r c e now started"
proof -
  note ok = assms [unfolded AdmitReceipt_def]
  have pins: "cc_CatalogSHA256 config = acceptedCanaryCatalogSHA256" "cc_ConsumptionProvenance config = acceptedCanaryProvenance"
    using ok by (simp_all split: if_split_asm)
  note ok = ok [unfolded pins, simplified]
  obtain c where c: "CanaryFor config r = Some c" using ok by (cases "CanaryFor config r") simp_all
  obtain e where e: "Entry config c = Some e" using ok by (cases "Entry config c") (simp_all add: c)
  note ok = ok [unfolded c e option.case]
  have valid: "validateCatalogReceipt r e" using ok by (simp split: if_split_asm)
  then have "mset (rx_SafeParameterNames (r_Execution r)) = mset (ce_SafeParameters e)"
    unfolding validateCatalogReceipt_def by (metis mset_sort)
  then have "admitted_for config r c e now started"
    using ok pins c valid by (simp add: admitted_defs validateCatalogReceipt_def not_less split: if_split_asm)
  moreover have "endpoint = ca_GatusEndpointKey c" using ok by (simp split: if_split_asm)
  ultimately show ?thesis using c e pins(2) by blast
qed

lemma AdmitScheduledReceipt_sound:
  assumes "AdmitScheduledReceipt config r c now started = Inr endpoint"
  shows "\<exists>actual e. actual \<in> set (cc_Canaries config) \<and> ca_OperationID actual = ca_OperationID c \<and>
    endpoint = ca_GatusEndpointKey c \<and> Entry config c = Some e \<and> admitted_for config r actual e now started"
proof -
  obtain actual where actual: "CanaryFor config r = Some actual" "ca_OperationID actual = ca_OperationID c"
      "ca_GatusEndpointKey actual = ca_GatusEndpointKey c" "AdmitReceipt config r now started = Inr endpoint"
    using assms by (auto simp: AdmitScheduledReceipt_def split: option.splits if_splits)
  then have "Entry config actual = Entry config c" by (simp add: Entry_def)
  then show ?thesis using AdmitReceipt_sound [OF actual(4)] actual CanaryFor_in [OF actual(1)] by auto
qed

section \<open>A concrete scheduler\<close>

definition sample_entry :: CatalogEntry where
  "sample_entry = \<lparr>ce_OperationID = ''dpr-op-00000001'',
     ce_Policy = \<lparr>po_Key = ''dpr-op-00000001'', po_Version = 1, po_Authority = ''datapan-registry'', po_MaxLevel = ''L3''\<rparr>,
     ce_Aliases_DatasetID = ''d'', ce_Aliases_OperationName = ''n'', ce_Aliases_UpstreamOperationSeq = '''',
     ce_Aliases_CLIOperationKey = replicate 64 CHR ''a'', ce_Provider = ''p'', ce_Endpoint_Host = ''h'',
     ce_Endpoint_Path = ''/x'', ce_Endpoint_DependencyClass = ''api'', ce_Eligibility_Status = ''eligible'',
     ce_TimeoutCeilingMS = 1000, ce_RequestBudget = 1, ce_SafeParameters = [''page'']\<rparr>"

definition sample_canary :: Canary where
  "sample_canary = \<lparr>ca_OperationID = ''dpr-op-00000001'', ca_GatusEndpointKey = ''core_one'', ca_Tier = ''A'',
     ca_IntervalMinutes = 5, ca_HeartbeatMinutes = 10, ca_ConsecutiveFailuresBeforeIncident = 2,
     ca_MissedSchedulesBeforeHeartbeat = 2\<rparr>"

definition sample_config :: CanaryConfig where
  "sample_config = \<lparr>cc_CatalogPath = ''/catalog'', cc_CatalogSHA256 = acceptedCanaryCatalogSHA256,
     cc_ConsumptionProvenance = acceptedCanaryProvenance, cc_GlobalConcurrency = 1, cc_JitterSeconds = 0,
     cc_Canaries = [sample_canary],
     cc_catalog = \<lparr>ct_SchemaVersion = '''', ct_Authority = '''', ct_SourceRegistry_SHA256 = '''',
       ct_Contract_Schema = '''', ct_Contract_OperationKeyAlgorithm = '''', ct_Contract_PolicyAuthority = '''',
       ct_Entries = [sample_entry], ct_byID = [(''dpr-op-00000001'', sample_entry)]\<rparr>\<rparr>"

definition sample_receipt :: Receipt where
  "sample_receipt = \<lparr>r_SchemaVersion = SchemaVersion, r_ProbeID = ''00000000-0000-4000-8000-000000000000'',
     r_ObservedAt = from_Unix 601,
     r_Operation = \<lparr>ro_OperationKey = replicate 64 CHR ''a'', ro_DatasetID = ''d'', ro_OperationName = ''n'',
       ro_Provider = ''p'', ro_EndpointHost = ''h'', ro_EndpointPath = ''/x'', ro_DependencyClass = ''api''\<rparr>,
     r_Registry = \<lparr>rr_DatasetID = acceptedRegistryDatasetID,
       rr_DatasetRevision = cp_RegistryDatasetRevision acceptedCanaryProvenance,
       rr_RegistrySHA256 = cp_SourceRegistrySHA256 acceptedCanaryProvenance,
       rr_ManifestSHA256 = cp_ReleaseManifestSHA256 acceptedCanaryProvenance\<rparr>,
     r_Policy = Some (ce_Policy sample_entry),
     r_Execution = \<lparr>rx_CLIVersion = ''1'', rx_Attempted = True, rx_TimeoutMS = 1000, rx_RequestBudget = 1,
       rx_SafeParameterNames = [''page'']\<rparr>,
     r_Observation = \<lparr>ob_MaxLevel = ''L3'', ob_LatencyMS = 10, ob_HTTPStatus = 200, ob_ProviderCode = '''',
       ob_ProviderMessageClass = '''', ob_SemanticStatus = '''', ob_BodyShape = '''', ob_DataPresence = '''',
       ob_SchemaStatus = '''', ob_FreshnessStatus = ''''\<rparr>,
     r_Assessment = \<lparr>as_Outcome = ''healthy'', as_Category = ''healthy'', as_Retryable = False,
       as_ReasonCode = ''ok'', as_NextActions = []\<rparr>,
     r_Redaction = \<lparr>rd_CredentialsRemoved = True, rd_QueryValuesRemoved = True, rd_ResponseRowsRemoved = True\<rparr>\<rparr>"

definition sample_codec :: receipt_codec where
  "sample_codec = \<lparr>rk_schema = (\<lambda>_. True), rk_decode = (\<lambda>_. Some sample_receipt)\<rparr>"

definition sample_run :: run_io where
  "sample_run = \<lparr>ri_staging = True, ri_started = from_Unix 600, ri_deadline = False, ri_raw = Some ''x'',
     ri_observed = from_Unix 601, ri_random = None, ri_written = False, ri_admitted = from_Unix 602,
     ri_accepted = from_Unix 602, ri_delivered = True, ri_completed = from_Unix 603, ri_recorded = from_Unix 603\<rparr>"

definition sample_io :: due_io where
  "sample_io =
     (let io = \<lparr>io_lock = True, io_write = Written\<rparr>
      in \<lparr>du_coverage = \<lparr>li_open = io, li_load = True, li_rebalance = io, li_record = io\<rparr>,
          du_saved = (\<lambda>_. True), du_started = (\<lambda>_. from_Unix 600), du_run = (\<lambda>_. sample_run)\<rparr>)"

definition sample_third :: third_party where
  "sample_third = ((\<lambda>_. True), (\<lambda>_. True))"

text \<open>The first pass records the first due time; the second, at that time, starts a probe; three
  effects later its receipt is delivered.\<close>

definition sample_started :: scheduler_world where
  "sample_started = pass_world sample_third sample_codec sample_io (from_Unix 600)
     (pass_world sample_third sample_codec sample_io (from_Unix 300) (fresh_world sample_config None Absent))"

definition sample_ready :: scheduler_world where
  "sample_ready = advance_world 0 (advance_world 0 (advance_world 0 sample_started))"

lemma sample_slots: "slotAt sample_canary (from_Unix 300) = 1" "slotAt sample_canary (from_Unix 600) = 2"
  "slotAt sample_canary (from_Unix 900) = 3"
  by (simp_all add: slotAt_def go_quot_def sample_canary_def)

lemma sample_due: "dueForSlot sample_canary k 0 key = from_Unix (k * 300)"
  by (simp add: dueForSlot_def deterministicJitter_def sample_canary_def)

lemma from_Unix_less [simp]: "from_Unix a < from_Unix b \<longleftrightarrow> a < b"  "from_Unix a \<le> from_Unix b \<longleftrightarrow> a \<le> b"
  by (simp_all add: from_Unix_def second_def)

lemma sample_next: "nextDueAfter sample_canary (from_Unix 300) 0 key = from_Unix 600"
  "nextDueAfter sample_canary (from_Unix 600) 0 key = from_Unix 900"
  by (simp_all add: nextDueAfter_def Let_def sample_slots sample_due)

lemma sample_json [simp]: "json_time_ok (from_Unix 600)" "json_time_ok (from_Unix 900)"
  by (simp_all add: json_time_ok_def from_Unix_def second_def unix_epoch_seconds_def)

lemma sample_fields [simp]: "cc_Canaries sample_config = [sample_canary]" "cc_JitterSeconds sample_config = 0"
  "cc_GlobalConcurrency sample_config = 1" "ca_OperationID sample_canary = ''dpr-op-00000001''"
  "du_saved sample_io k" "du_run sample_io k = sample_run" "du_started sample_io k = from_Unix 600"
  "entry_of sample_config sample_canary = sample_entry"
  by (simp_all add: sample_config_def sample_canary_def sample_io_def Let_def entry_of_def Entry_def ByID_def)

lemma sample_validate: "Receipt_Validate sample_receipt = None"
  by code_simp

lemma sample_admitted:
  "AdmitScheduledReceipt sample_config sample_receipt sample_canary (from_Unix 602) (from_Unix 600) = Inr ''core_one''"
  by code_simp

lemma sample_effects: "run sample_codec sample_config sample_canary sample_entry sample_run =
   [RecordProgress ''accepted'' '''' (from_Unix 601) (from_Unix 602), IncCompleted (from_Unix 603),
    RecordProgress ''delivered'' '''' time_zero (from_Unix 603)]"
proof -
  have "DecodeReceipt (\<lambda>_. True) (\<lambda>_. Some sample_receipt) (Some ''x'') = Inr sample_receipt"
    using sample_validate by (simp add: DecodeReceipt_def)
  moreover have "r_ObservedAt sample_receipt = from_Unix 601" by (simp add: sample_receipt_def)
  ultimately show ?thesis
    using sample_admitted by (simp add: run_def run_receipt_def receiptless_def sample_run_def sample_codec_def)
qed

definition sample_running :: scheduler_world where
  "sample_running =
     \<lparr>w_scheduler = \<lparr>sh_config = sample_config, sh_coverage = None,
      sh_state = \<lparr>ss_Version = 1, ss_Slots = [(''dpr-op-00000001'', \<lparr>sr_LastClaimedSlot = 2, sr_NextDue = from_Unix 900\<rparr>)]\<rparr>,
      sh_active = {''dpr-op-00000001''}, sh_sem = 1, sh_metrics = zero_metrics\<lparr>m_RunsStarted := 1\<rparr>,
      sh_progress = [(''dpr-op-00000001'', zero_progress\<lparr>pg_LastStarted := Some (from_Unix 600)\<rparr>)],
      sh_lastLoop = from_Unix 600, sh_loopFailure = False, sh_stateFailures = 0\<rparr>,
    w_file = Doc (1, Some [(''dpr-op-00000001'', \<lparr>sr_LastClaimedSlot = 2, sr_NextDue = from_Unix 900\<rparr>)]),
    w_coverage_file = Absent, w_running = [spawn sample_codec sample_config sample_canary 2 sample_entry sample_run],
    w_started = [(''dpr-op-00000001'', 2)], w_delivered = []\<rparr>"

lemmas pass_defs = pass_world_def scheduler_ProcessDue_def coverage_pass_def claimAndStart_def saveLocked_def put_slot_def

lemma sample_started_eq: "sample_started = sample_running"
  by (simp add: sample_started_def sample_running_def fresh_world_def pass_defs Let_def sample_next sample_slots incStarted_def
      markStarted_def progress_of_def slot_of_def spawn_def zero_metrics_def)

lemma sample_unix [simp]: "0 \<le> time_Unix (from_Unix 300)" "0 \<le> time_Unix (from_Unix 600)"
  by simp_all

lemma sample_reachable_started:
  "scheduler_reachable sample_third sample_codec (fresh_world sample_config None Absent) sample_started"
  unfolding sample_started_def
  by (rule scheduler_reachable.step [OF scheduler_reachable.step [OF scheduler_reachable.start
        scheduler_step.pass] scheduler_step.pass]) simp_all

lemma sample_ready_eq: "sample_ready =
    sample_running\<lparr>w_scheduler := (w_scheduler sample_running)\<lparr>
        sh_metrics := zero_metrics\<lparr>m_RunsStarted := 1, m_RunsCompleted := 1, m_LastCompleted := from_Unix 603\<rparr>,
        sh_progress := [(''dpr-op-00000001'', \<lparr>pg_OperationID = ''dpr-op-00000001'',
          pg_LastStarted = Some (from_Unix 600), pg_LastAccepted = Some (from_Unix 602),
          pg_LastDelivered = Some (from_Unix 603), pg_OriginalObservedAt = Some (from_Unix 601),
          pg_State = ''ready'', pg_Reason = ''delivered''\<rparr>)]\<rparr>,
      w_running := [(spawn sample_codec sample_config sample_canary 2 sample_entry sample_run)
        \<lparr>go_effects := [ReleaseSem, DeleteActive]\<rparr>],
      w_delivered := [((spawn sample_codec sample_config sample_canary 2 sample_entry sample_run)
        \<lparr>go_effects := [RecordProgress ''delivered'' '''' time_zero (from_Unix 603), ReleaseSem, DeleteActive]\<rparr>,
        from_Unix 603)]\<rparr>"
  by (simp add: sample_ready_def sample_started_eq sample_running_def advance_world_def Let_def spawn_def sample_effects
      delivered_by_def recordProgress_def incCompleted_def progress_of_def zero_progress_def zero_metrics_def)

lemma sample_reachable_ready:
  "scheduler_reachable sample_third sample_codec (fresh_world sample_config None Absent) sample_ready"
proof -
  have one: "length (w_running sample_started) = 1"
    by (simp add: sample_started_eq sample_running_def)
  have two: "length (w_running (advance_world 0 sample_started)) = 1"
    by (simp add: sample_started_eq sample_running_def advance_world_def spawn_def sample_effects)
  have three: "length (w_running (advance_world 0 (advance_world 0 sample_started))) = 1"
    by (simp add: sample_started_eq sample_running_def advance_world_def spawn_def sample_effects)
  show ?thesis unfolding sample_ready_def
    by (rule scheduler_reachable.step [OF scheduler_reachable.step [OF scheduler_reachable.step
          [OF sample_reachable_started scheduler_step.advance] scheduler_step.advance] scheduler_step.advance])
      (simp_all add: one two three)
qed

lemma sample_is_ready: "ry_Ready (Readiness (w_scheduler sample_ready) (from_Unix 604))"
  by (simp add: Readiness_iff sample_ready_eq sample_running_def canary_progress_def progress_of_def IsZero_def
      time_Sub_def from_Unix_def second_def minute_def unix_epoch_seconds_def schedulerLoopMaxAge_def
      receiptClockSkew_def sample_canary_def)

section \<open>Properties\<close>

text \<open>C20: A receipt the scheduler admits is bound to the canary that launched the probe: the canary that
  the receipt's operation names is the one launched, and the receipt agrees with its catalog entry in
  operation key, dataset, operation name, dependency class, provider, host and path; it comes from the
  compiled-in registry release, with its dataset, revision, registry digest and manifest digest; its policy
  is the entry's, its level at most the policy's, its budget and timeout within the entry's and its
  parameters the entry's; it is a valid receipt, observed within the last minute and not before the
  launch, up to the clock skew; it is published under that canary's endpoint.\<close>
theorem admitted_receipts_are_bound:
  assumes "AdmitScheduledReceipt config r c now started = Inr endpoint"
  shows "\<exists>actual e. actual \<in> set (cc_Canaries config) \<and> ca_OperationID actual = ca_OperationID c \<and>
    endpoint = ca_GatusEndpointKey c \<and> Entry config c = Some e \<and> admitted_for config r actual e now started"
  using assms by (rule AdmitScheduledReceipt_sound)

theorem admitted_receipts_are_bound_witness:
  "\<exists>actual e. actual \<in> set (cc_Canaries sample_config) \<and> ca_OperationID actual = ca_OperationID sample_canary \<and>
    ''core_one'' = ca_GatusEndpointKey sample_canary \<and> Entry sample_config sample_canary = Some e \<and>
    admitted_for sample_config sample_receipt actual e (from_Unix 602) (from_Unix 600)"
  by (rule admitted_receipts_are_bound [OF sample_admitted])

text \<open>C21: Whatever the interleaving of passes, probe effects, failed saves, crashes and restarts, no
  slot of an operation is probed twice.\<close>
theorem slots_are_probed_once:
  assumes "scheduler_reachable third codec (fresh_world config coverage d) w" and "cadence_ok config"
  shows "distinct (w_started w)"
  using reachable_slots [OF assms(1) fresh_world_slots assms(2)] by (simp add: world_slots_def slots_inv_def)

theorem slots_are_probed_once_witness:
  "w_started sample_started = [(''dpr-op-00000001'', 2)] \<and> distinct (w_started sample_started)"
proof
  show "w_started sample_started = [(''dpr-op-00000001'', 2)]" by (simp add: sample_started_eq sample_running_def)
  show "distinct (w_started sample_started)"
    by (rule slots_are_probed_once [OF sample_reachable_started]) (simp add: cadence_ok_def sample_canary_def)
qed

text \<open>C22: In every reachable state the probes that hold the semaphore number at most
  \<^verbatim>\<open>GlobalConcurrency\<close>, no operation has two probes in flight, and the active set is exactly the
  operations in flight.\<close>
theorem probes_are_bounded:
  assumes "scheduler_reachable third codec (fresh_world config coverage d) w"
  shows "int (length (filter holds (w_running w))) \<le> max 0 (cc_GlobalConcurrency config) \<and>
    sh_sem (w_scheduler w) = length (filter holds (w_running w)) \<and>
    distinct (List.map run_key (w_running w)) \<and> sh_active (w_scheduler w) = set (List.map run_key (w_running w))"
  using reachable_runs [OF assms] by (auto simp: runs_inv_def)

theorem probes_are_bounded_witness:
  "length (w_running sample_started) = 1 \<and> int (length (filter holds (w_running sample_started))) \<le> 1"
  using probes_are_bounded [OF sample_reachable_started] by (simp add: sample_started_eq sample_running_def)

text \<open>C24: When the scheduler reports ready, its last pass ended without error at most five seconds
  ago, and for every canary this process delivered a receipt within the canary's heartbeat: the
  probe obtained a receipt, the receipt was admitted for the canary that launched it, and the
  deliverer succeeded.\<close>
theorem ready_rests_on_delivery:
  assumes "scheduler_reachable third codec (fresh_world config coverage d) w"
    and "ry_Ready (Readiness (w_scheduler w) now)" and "c \<in> set (cc_Canaries config)"
  shows "\<not> sh_loopFailure (w_scheduler w) \<and> \<not> IsZero (sh_lastLoop (w_scheduler w)) \<and>
    time_Sub now (sh_lastLoop (w_scheduler w)) \<le> schedulerLoopMaxAge \<and>
    (\<exists>g t. (g, t) \<in> set (w_delivered w) \<and> run_key g = ca_OperationID c \<and>
       time_Sub now t \<le> ca_HeartbeatMinutes c * minute \<and> proven codec config g)"
proof -
  note ev = reachable_evidence [OF assms(1)]
  have cfg: "sh_config (w_scheduler w) = config" using ev by (simp add: evidence_def)
  have ready: "pg_State (canary_progress (w_scheduler w) now c) = ''ready''"
    using assms(2,3) by (simp add: Readiness_iff cfg list_all_iff)
  have ok: "progress_ok (w_delivered w) (w_scheduler w) (ca_OperationID c)" using ev by (simp add: evidence_def)
  then obtain t where t: "pg_LastDelivered (progress_of (w_scheduler w) (ca_OperationID c)) = Some t"
    using canary_ready(1) [OF ready] by (auto simp: progress_ok_def)
  then obtain g where "(g, t) \<in> set (w_delivered w)" "run_key g = ca_OperationID c"
    using ok by (auto simp: progress_ok_def)
  moreover from this have "proven codec config g" using ev by (auto simp: evidence_def)
  ultimately show ?thesis using canary_ready(2) [OF ready t] assms(2) by (auto simp: Readiness_iff)
qed

theorem ready_rests_on_delivery_witness:
  "\<exists>g t. (g, t) \<in> set (w_delivered sample_ready) \<and> run_key g = ca_OperationID sample_canary \<and>
    time_Sub (from_Unix 604) t \<le> ca_HeartbeatMinutes sample_canary * minute \<and> proven sample_codec sample_config g"
  using ready_rests_on_delivery [OF sample_reachable_ready sample_is_ready, of sample_canary] by simp

text \<open>When a child leaves no usable receipt, the receipt the scheduler writes in its place is one
  that its own admission accepts, if the registry's level is known, no other canary before it has
  its operation key and the clock does not jump: so an older healthy status is replaced.\<close>
theorem fallback_is_admitted:
  assumes entry: "Entry config c = Some e" "catalog_entry_ok e" "0 \<le> probeLevel (po_MaxLevel (ce_Policy e))"
    and pins: "cc_CatalogSHA256 config = acceptedCanaryCatalogSHA256"
      "cc_ConsumptionProvenance config = acceptedCanaryProvenance"
    and key: "find (\<lambda>c'. map_option ce_Aliases_CLIOperationKey (Entry config c') = Some (ce_Aliases_CLIOperationKey e))
      (cc_Canaries config) = Some c"
    and clock: "observed \<noteq> 0" "now \<noteq> 0" "observed \<le> now + receiptClockSkew" "now - receiptMaxAge \<le> observed"
      "started - receiptClockSkew \<le> observed"
    and random: "length bytes = 16" "list_all (\<lambda>b. b < 256) bytes"
  shows "\<exists>r. receiptlessOutcome config e started observed deadline (Some bytes) = Some r \<and>
    AdmitScheduledReceipt config r c now started = Inr (ca_GatusEndpointKey c) \<and>
    as_Outcome (r_Assessment r) = ''indeterminate''"
proof -
  obtain v where v: "schedulerProbeID (Some bytes) = Some v" "uuidPattern v"
    using schedulerProbeID_uuid random by (auto simp: list_all_iff)
  define r where "r = the (receiptlessOutcome config e started observed deadline (Some bytes))"
  have some: "receiptlessOutcome config e started observed deadline (Some bytes) = Some r"
    using v(1) by (simp add: r_def receiptlessOutcome_def Let_def)
  note fields = some [unfolded receiptlessOutcome_def v(1) option.case Let_def option.inject, symmetric]
  have "CanaryFor config r = find (\<lambda>c'. map_option ce_Aliases_CLIOperationKey (Entry config c') =
      Some (ce_Aliases_CLIOperationKey e)) (cc_Canaries config)"
    unfolding CanaryFor_def fields by (rule arg_cong [of _ _ "\<lambda>P. find P _"]) (auto simp: Entry_def split: option.splits)
  then have c: "CanaryFor config r = Some c" using key by simp
  have pattern: "sha256Pattern (cp_SourceRegistrySHA256 acceptedCanaryProvenance)" by code_simp
  have "Receipt_Validate r = None"
    unfolding fields using entry(2) v(2) clock(1) pattern pins
    by (auto simp: Receipt_Validate_def catalog_entry_ok_def IsZero_def acceptedRegistryDatasetID_def
        validOutcome_def validCategory_def)
  moreover have "validateCatalogReceipt r e"
    unfolding fields by (simp add: validateCatalogReceipt_def) (rule sort_perm_eq, simp)
  moreover have parts: "ro_Provider (r_Operation r) = ce_Provider e" "ro_EndpointHost (r_Operation r) = ce_Endpoint_Host e"
      "ro_EndpointPath (r_Operation r) = ce_Endpoint_Path e" "r_Policy r = Some (ce_Policy e)" "r_ObservedAt r = observed"
      "ob_MaxLevel (r_Observation r) = po_MaxLevel (ce_Policy e)"
      "r_Registry r = \<lparr>rr_DatasetID = acceptedRegistryDatasetID,
         rr_DatasetRevision = cp_RegistryDatasetRevision (cc_ConsumptionProvenance config),
         rr_RegistrySHA256 = cp_SourceRegistrySHA256 (cc_ConsumptionProvenance config),
         rr_ManifestSHA256 = cp_ReleaseManifestSHA256 (cc_ConsumptionProvenance config)\<rparr>"
      "as_Outcome (r_Assessment r) = ''indeterminate''"
    unfolding fields by simp_all
  ultimately have "AdmitReceipt config r now started = Inr (ca_GatusEndpointKey c)"
    using c entry(1,3) pins clock by (simp add: AdmitReceipt_def parts IsZero_def)
  then have "AdmitScheduledReceipt config r c now started = Inr (ca_GatusEndpointKey c)"
    using c by (simp add: AdmitScheduledReceipt_def)
  then show ?thesis using some parts by blast
qed

theorem fallback_is_admitted_witness:
  "\<exists>r. receiptlessOutcome sample_config sample_entry (from_Unix 600) (from_Unix 601) True (Some (replicate 16 0)) = Some r \<and>
    AdmitScheduledReceipt sample_config r sample_canary (from_Unix 602) (from_Unix 600) =
      Inr (ca_GatusEndpointKey sample_canary) \<and>
    as_Outcome (r_Assessment r) = ''indeterminate''"
proof (rule fallback_is_admitted)
  show "Entry sample_config sample_canary = Some sample_entry"
    by (simp add: Entry_def ByID_def sample_config_def)
  then show "find (\<lambda>c'. map_option ce_Aliases_CLIOperationKey (Entry sample_config c') =
      Some (ce_Aliases_CLIOperationKey sample_entry)) (cc_Canaries sample_config) = Some sample_canary" by simp
  show "catalog_entry_ok sample_entry" by code_simp
  show "0 \<le> probeLevel (po_MaxLevel (ce_Policy sample_entry))" by code_simp
qed (simp_all add: list_all_length sample_config_def from_Unix_def unix_epoch_seconds_def second_def receiptClockSkew_def
    receiptMaxAge_def minute_def)

end
