(* ===== verification/Operation_Attempts.thy ===== *)
theory Operation_Attempts
  imports Operation_Quota Canary
begin

text \<open>
  \<^verbatim>\<open>internal/health/operation_attempt_store.go\<close>: one bounded state file per operation identity,
  replaced atomically under a directory lock, that records the attempts to observe the
  operation and the delivery of what was observed.  The world of a store is its directory, a
  state per file name.  An operation takes the state of its context, whether the lock is
  obtained and what becomes of its one write.
\<close>

section \<open>JSON strings\<close>

text \<open>The length of the UTF-8 sequence at the front, 1 for an invalid byte.\<close>

definition continuation :: "nat \<Rightarrow> bool" where "continuation b \<longleftrightarrow> 128 \<le> b \<and> b \<le> 191"

definition utf8_len :: "nat list \<Rightarrow> nat" where
  "utf8_len bs =
     (case bs of
        b # c # rest \<Rightarrow>
          (if 194 \<le> b \<and> b \<le> 223 \<and> continuation c then 2
           else case rest of
             d # rest' \<Rightarrow>
               (if continuation d \<and>
                   ((b = 224 \<and> 160 \<le> c \<and> c \<le> 191) \<or> (b = 237 \<and> 128 \<le> c \<and> c \<le> 159) \<or>
                    (225 \<le> b \<and> b \<le> 239 \<and> b \<noteq> 237 \<and> continuation c))
                then 3
                else case rest' of
                  e # _ \<Rightarrow>
                    (if continuation d \<and> continuation e \<and>
                        ((b = 240 \<and> 144 \<le> c \<and> c \<le> 191) \<or> (b = 244 \<and> 128 \<le> c \<and> c \<le> 143) \<or>
                         (241 \<le> b \<and> b \<le> 243 \<and> continuation c))
                     then 4 else 1)
                | [] \<Rightarrow> 1)
           | [] \<Rightarrow> 1)
      | _ \<Rightarrow> 1)"

definition json_ascii :: "nat \<Rightarrow> string" where
  "json_ascii b =
     (if b = 34 \<or> b = 92 then [CHR 0x5C, char_of b]
      else if b = 8 then [CHR 0x5C, CHR ''b''] else if b = 9 then [CHR 0x5C, CHR ''t'']
      else if b = 10 then [CHR 0x5C, CHR ''n''] else if b = 12 then [CHR 0x5C, CHR ''f'']
      else if b = 13 then [CHR 0x5C, CHR ''r'']
      else if b < 32 \<or> b = 60 \<or> b = 62 \<or> b = 38
      then [CHR 0x5C, CHR ''u'', CHR ''0'', CHR ''0'', hex_digit (b div 16), hex_digit (b mod 16)]
      else [char_of b])"

function json_escape :: "nat list \<Rightarrow> string" where
  "json_escape [] = []"
| "json_escape (b # bs) =
     (if b < 128 then json_ascii b @ json_escape bs
      else if utf8_len (b # bs) = 1 then CHR 0x5C # ''ufffd'' @ json_escape bs
      else if take 3 (b # bs) = [226, 128, 168] then CHR 0x5C # ''u2028'' @ json_escape (drop 2 bs)
      else if take 3 (b # bs) = [226, 128, 169] then CHR 0x5C # ''u2029'' @ json_escape (drop 2 bs)
      else List.map char_of (take (utf8_len (b # bs)) (b # bs)) @ json_escape (drop (utf8_len (b # bs) - 1) bs))"
  by pat_completeness auto
termination by (relation "measure length") auto

definition json_string :: "string \<Rightarrow> string" where
  "json_string s = CHR 0x22 # json_escape (bytes_of s) @ [CHR 0x22]"

section \<open>Data\<close>

record OperationAttemptBinding =
  ab_SourceID :: string
  ab_OperationID :: string
  ab_RegistryRevision :: string
  ab_ReleaseManifestSHA :: string
  ab_IndexSHA :: string
  ab_ShardSHA :: string
  ab_GatusKey :: string
  ab_ObservationPeriod :: duration

record OperationObservationResult =
  or_State :: string
  or_Category :: string
  or_ObservedAt :: time
  or_ReceivedAt :: time
  or_ReceiptSHA :: string
  or_LatencyMS :: int
  or_HTTPStatus :: int
  or_HistoryRecordID :: string
  or_HistoryRecordSHA256 :: string
  or_validatedHistoryRecord :: bool

record OperationAttemptClaim =
  at_Binding :: OperationAttemptBinding
  at_AttemptID :: string
  at_Generation :: "64 word"
  at_StartedAt :: time
  at_ExpiresAt :: time

record OperationDeliveryClaim =
  dc_Binding :: OperationAttemptBinding
  dc_AttemptID :: string
  dc_AttemptGeneration :: "64 word"
  dc_DeliveryGeneration :: "64 word"
  dc_AttemptCount :: int
  dc_Result :: OperationObservationResult

record OperationStoredAttempt =
  oa_Binding :: OperationAttemptBinding
  oa_AttemptID :: string
  oa_Generation :: "64 word"
  oa_StartedAt :: time
  oa_LeaseExpiresAt :: time
  oa_FinishedAt :: time
  oa_State :: string
  oa_ReceiptValidated :: bool
  oa_ReceiptSHA256 :: string
  oa_RequestStarted :: "bool option"
  oa_BlockReason :: string
  oa_DeferredStage :: string
  oa_DeferredCategory :: string
  oa_Result :: "OperationObservationResult option"
  oa_DeliveryState :: string
  oa_DeliveryGeneration :: "64 word"
  oa_DeliveryAttempts :: int
  oa_DeliveryStartedAt :: time
  oa_DeliveryAckAt :: time
  oa_GatusReceivedAt :: time
  oa_GatusResultState :: string

record operationAttemptState =
  os_SchemaVersion :: string
  os_OperationID :: string
  os_SourceID :: string
  os_Generation :: "64 word"
  os_EverRequestStarted :: bool
  os_CurrentPlanSHA256 :: string
  os_CurrentPlanEverRequestStarted :: bool
  os_Attempts :: "OperationStoredAttempt list"

datatype operation_attempt_error =
    ErrOperationAttemptUnavailable
  | ErrOperationAttemptHeld
  | ErrOperationAttemptAmbiguous
  | ErrOperationAttemptNotDue
  | ErrOperationAttemptDelivery
  | ErrOperationAttemptFenced
  | ErrOperationAttemptCapacity

definition OperationAttemptStoreSchemaVersion :: string where
  "OperationAttemptStoreSchemaVersion = ''datapan.health-operation-attempt-store.v2''"

definition maxOperationAttemptStateBytes :: nat where "maxOperationAttemptStateBytes = 32 * 1024"
definition maxOperationAttemptHistory :: nat where "maxOperationAttemptHistory = 24"
definition maxOperationAttemptLease :: duration where "maxOperationAttemptLease = 10 * minute"
definition operationAttemptDeferredRetryDelay :: duration where "operationAttemptDeferredRetryDelay = 30 * second"

definition no_binding :: OperationAttemptBinding where
  "no_binding = \<lparr>ab_SourceID = '''', ab_OperationID = '''', ab_RegistryRevision = '''', ab_ReleaseManifestSHA = '''',
     ab_IndexSHA = '''', ab_ShardSHA = '''', ab_GatusKey = '''', ab_ObservationPeriod = 0\<rparr>"

text \<open>A fresh claim as it is stored; Go's zero values elsewhere.\<close>

definition claimed_attempt ::
  "OperationAttemptBinding \<Rightarrow> string \<Rightarrow> 64 word \<Rightarrow> time \<Rightarrow> time \<Rightarrow> OperationStoredAttempt" where
  "claimed_attempt binding attemptID generation started expires =
     \<lparr>oa_Binding = binding, oa_AttemptID = attemptID, oa_Generation = generation, oa_StartedAt = started,
      oa_LeaseExpiresAt = expires, oa_FinishedAt = time_zero, oa_State = ''claimed'', oa_ReceiptValidated = False,
      oa_ReceiptSHA256 = '''', oa_RequestStarted = None, oa_BlockReason = '''', oa_DeferredStage = '''',
      oa_DeferredCategory = '''', oa_Result = None, oa_DeliveryState = ''not_ready'', oa_DeliveryGeneration = 0,
      oa_DeliveryAttempts = 0, oa_DeliveryStartedAt = time_zero, oa_DeliveryAckAt = time_zero,
      oa_GatusReceivedAt = time_zero, oa_GatusResultState = ''''\<rparr>"

section \<open>Validation\<close>

definition source_char :: "char \<Rightarrow> bool" where
  "source_char c \<longleftrightarrow> (let n = (of_char c :: nat) in (97 \<le> n \<and> n \<le> 122) \<or> (48 \<le> n \<and> n \<le> 57))"

fun source_rest :: "bool \<Rightarrow> string \<Rightarrow> bool" where
  "source_rest need [] \<longleftrightarrow> \<not> need"
| "source_rest need (c # cs) \<longleftrightarrow>
     (if source_char c then source_rest False cs else c = CHR ''_'' \<and> \<not> need \<and> source_rest True cs)"

text \<open>\<^verbatim>\<open>operation_read_model.go\<close>.\<close>

definition operationSourceIDPattern :: "string \<Rightarrow> bool" where
  "operationSourceIDPattern s \<longleftrightarrow> source_rest True s"

definition validGatusResultState :: "string \<Rightarrow> bool" where
  "validGatusResultState v \<longleftrightarrow> v = ''healthy'' \<or> v = ''unhealthy'' \<or> v = ''unknown''"

definition validOperationReadModelResultState :: "string \<Rightarrow> bool" where
  "validOperationReadModelResultState v \<longleftrightarrow> v = ''healthy'' \<or> v = ''unhealthy'' \<or> v = ''indeterminate''"

definition result_categories :: "string list" where
  "result_categories = [''healthy'', ''transport_failure'', ''timeout'', ''rate_limited'', ''credential_missing'',
     ''credential_rejected'', ''parameter_blocked'', ''provider_failure'', ''semantic_failure'', ''schema_drift'',
     ''unsupported'', ''observer_failure'', ''indeterminate'', ''response_semantics_unestablished'',
     ''response_http_failure'']"

definition validOperationReadModelResultCategory :: "string \<Rightarrow> bool" where
  "validOperationReadModelResultCategory v \<longleftrightarrow> v \<in> set result_categories"

definition validOperationReadModelResultPair :: "string \<Rightarrow> string \<Rightarrow> bool" where
  "validOperationReadModelResultPair state category \<longleftrightarrow>
     validOperationReadModelResultState state \<and> validOperationReadModelResultCategory category \<and>
     (if state = ''healthy'' then category = ''healthy''
      else if state = ''unhealthy''
      then category \<noteq> ''healthy'' \<and> category \<noteq> ''indeterminate'' \<and> category \<noteq> ''observer_failure'' \<and>
        category \<noteq> ''response_semantics_unestablished''
      else if state = ''indeterminate''
      then category = ''indeterminate'' \<or> category = ''observer_failure'' \<or>
        category = ''response_semantics_unestablished''
      else False)"

text \<open>The attempt store.\<close>

definition validOperationAttemptBinding :: "OperationAttemptBinding \<Rightarrow> bool" where
  "validOperationAttemptBinding b \<longleftrightarrow> operationSourceIDPattern (ab_SourceID b) \<and> ab_OperationID b \<noteq> '''' \<and>
     length (ab_OperationID b) \<le> 256 \<and> commitPattern (ab_RegistryRevision b) \<and>
     sha256Pattern (ab_ReleaseManifestSHA b) \<and> sha256Pattern (ab_IndexSHA b) \<and> sha256Pattern (ab_ShardSHA b) \<and>
     gatusKeyPattern (ab_GatusKey b) \<and> second \<le> ab_ObservationPeriod b \<and>
     ab_ObservationPeriod b \<le> 365 * 24 * 60 * minute"

definition validOperationAttemptClaim :: "OperationAttemptClaim \<Rightarrow> bool" where
  "validOperationAttemptClaim c \<longleftrightarrow> validOperationAttemptBinding (at_Binding c) \<and>
     quotaAttemptIDPattern (at_AttemptID c) \<and> at_Generation c > 0 \<and> \<not> IsZero (at_StartedAt c) \<and>
     \<not> IsZero (at_ExpiresAt c) \<and> at_ExpiresAt c > at_StartedAt c \<and>
     time_Sub (at_ExpiresAt c) (at_StartedAt c) \<le> maxOperationAttemptLease"

definition validOperationObservationResult :: "OperationObservationResult \<Rightarrow> bool" where
  "validOperationObservationResult r \<longleftrightarrow>
     validOperationReadModelResultPair (or_State r) (or_Category r) \<and>
     \<not> (or_HTTPStatus r \<noteq> 0 \<and> (or_HTTPStatus r < 100 \<or> or_HTTPStatus r > 599)) \<and>
     \<not> (or_Category r = ''response_semantics_unestablished'' \<and>
        (or_State r \<noteq> ''indeterminate'' \<or> or_HTTPStatus r < 200 \<or> or_HTTPStatus r \<ge> 300)) \<and>
     \<not> (or_Category r = ''response_http_failure'' \<and>
        (or_State r \<noteq> ''unhealthy'' \<or> or_HTTPStatus r < 100 \<or> (or_HTTPStatus r \<ge> 200 \<and> or_HTTPStatus r < 300) \<or>
         or_HTTPStatus r > 599)) \<and>
     \<not> (or_Category r = ''response_semantics_unestablished'' \<and>
        (or_HistoryRecordID r = '''' \<or> length (or_HistoryRecordID r) > 256 \<or>
         \<not> sha256Pattern (or_HistoryRecordSHA256 r))) \<and>
     (or_State r = ''healthy'' \<or> or_State r = ''unhealthy'' \<or> or_State r = ''indeterminate'') \<and>
     or_Category r \<in> set result_categories \<and>
     \<not> IsZero (or_ObservedAt r) \<and> (IsZero (or_ReceivedAt r) \<or> \<not> or_ReceivedAt r < or_ObservedAt r) \<and>
     sha256Pattern (or_ReceiptSHA r) \<and> 0 \<le> or_LatencyMS r \<and> or_LatencyMS r \<le> 31536000000"

definition validOperationDeliveryClaim :: "OperationDeliveryClaim \<Rightarrow> bool" where
  "validOperationDeliveryClaim c \<longleftrightarrow> validOperationAttemptBinding (dc_Binding c) \<and>
     quotaAttemptIDPattern (dc_AttemptID c) \<and> dc_AttemptGeneration c > 0 \<and> dc_DeliveryGeneration c > 0 \<and>
     dc_AttemptCount c > 0 \<and> validOperationObservationResult (dc_Result c)"

definition validOperationAttemptBlockReason :: "string \<Rightarrow> bool" where
  "validOperationAttemptBlockReason v \<longleftrightarrow> v \<in> set [''credential_unavailable'', ''credential_mismatch'',
     ''plan_not_admitted'', ''unsupported_contract'', ''local_deadline'', ''child_validation_failed'',
     ''quota_capacity'', ''history_capacity'', ''child_unavailable'']"

definition validOperationAttemptDeferredReason :: "string \<Rightarrow> bool" where
  "validOperationAttemptDeferredReason v \<longleftrightarrow> v = ''quota_capacity'' \<or> v = ''history_capacity'' \<or>
     v = ''child_unavailable'' \<or> v = ''quota_window_draining''"

definition validOperationAttemptDeferredEvidence :: "string \<Rightarrow> string \<Rightarrow> bool" where
  "validOperationAttemptDeferredEvidence stage category \<longleftrightarrow>
     (if stage = '''' \<and> category = '''' then True
      else if stage \<notin> set [''expectation'', ''history_reservation'', ''quota_acquire'', ''execution_deadline''] then False
      else if category \<notin> set [''validation'', ''capacity'', ''deadline'', ''lock'', ''io'', ''store_unavailable'',
        ''canceled'', ''unavailable'', ''window_draining'', ''policy_transition'', ''infeasible''] then False
      else \<not> ((category = ''validation'' \<and> stage \<noteq> ''expectation'') \<or>
        (category = ''infeasible'' \<and> stage \<noteq> ''execution_deadline'') \<or>
        ((category = ''window_draining'' \<or> category = ''policy_transition'') \<and> stage \<noteq> ''quota_acquire'')))"

definition validOperationAttemptStateName :: "string \<Rightarrow> bool" where
  "validOperationAttemptStateName v \<longleftrightarrow> v = ''claimed'' \<or> v = ''request_started'' \<or> v = ''observed'' \<or>
     v = ''unknown'' \<or> v = ''failed'' \<or> v = ''deferred''"

definition validOperationDeliveryState :: "string \<Rightarrow> bool" where
  "validOperationDeliveryState v \<longleftrightarrow> v = ''not_ready'' \<or> v = ''pending'' \<or> v = ''acknowledged'' \<or>
     v = ''readback_verified'' \<or> v = ''not_applicable''"

section \<open>Identity of a plan\<close>

definition json_member :: "string \<Rightarrow> string \<Rightarrow> string" where
  "json_member name text = json_string name @ '':'' @ text"

fun commas :: "string list \<Rightarrow> string" where
  "commas [] = ''''"
| "commas [x] = x"
| "commas (x # y # ys) = x @ '','' @ commas (y # ys)"

definition operationAttemptPlanBindingSHA256 :: "OperationAttemptBinding \<Rightarrow> string" where
  "operationAttemptPlanBindingSHA256 b = sha256_hex (''{'' @ commas
     [json_member ''schema_version'' (json_string ''datapan.health-operation-plan-binding.v1''),
      json_member ''source_id'' (json_string (ab_SourceID b)),
      json_member ''operation_id'' (json_string (ab_OperationID b)),
      json_member ''registry_revision'' (json_string (ab_RegistryRevision b)),
      json_member ''release_manifest_sha256'' (json_string (ab_ReleaseManifestSHA b)),
      json_member ''index_sha256'' (json_string (ab_IndexSHA b)),
      json_member ''shard_sha256'' (json_string (ab_ShardSHA b)),
      json_member ''observation_period_ns'' (int_dec (ab_ObservationPeriod b))] @ ''}'')"

section \<open>The state that may be stored\<close>

text \<open>The checks on one attempt by its state, and by the state of its delivery.\<close>

definition no_evidence :: "OperationStoredAttempt \<Rightarrow> bool" where
  "no_evidence a \<longleftrightarrow> oa_BlockReason a = '''' \<and> oa_DeferredStage a = '''' \<and> oa_DeferredCategory a = ''''"

definition attempt_state_ok :: "OperationStoredAttempt \<Rightarrow> bool" where
  "attempt_state_ok a \<longleftrightarrow>
     (if oa_State a = ''claimed''
      then IsZero (oa_FinishedAt a) \<and> oa_DeliveryState a = ''not_ready'' \<and> \<not> oa_ReceiptValidated a \<and>
        oa_RequestStarted a = None \<and> oa_Result a = None \<and> oa_ReceiptSHA256 a = '''' \<and> no_evidence a
      else \<not> IsZero (oa_FinishedAt a) \<and> \<not> oa_FinishedAt a < oa_StartedAt a) \<and>
     (if oa_State a = ''observed''
      then (case oa_Result a of None \<Rightarrow> False
            | Some r \<Rightarrow> validOperationObservationResult r \<and> \<not> IsZero (or_ReceivedAt r) \<and>
                \<not> oa_FinishedAt a < or_ReceivedAt r \<and> oa_ReceiptValidated a \<and> oa_RequestStarted a = Some True \<and>
                oa_ReceiptSHA256 a = or_ReceiptSHA r \<and> no_evidence a)
      else if oa_State a = ''request_started''
      then oa_Result a = None \<and> oa_ReceiptValidated a \<and> oa_RequestStarted a = Some True \<and>
        sha256Pattern (oa_ReceiptSHA256 a) \<and> no_evidence a
      else if oa_State a = ''failed''
      then oa_Result a = None \<and> oa_ReceiptValidated a \<and> oa_RequestStarted a = Some False \<and>
        sha256Pattern (oa_ReceiptSHA256 a) \<and> validOperationAttemptBlockReason (oa_BlockReason a) \<and>
        oa_DeferredStage a = '''' \<and> oa_DeferredCategory a = ''''
      else if oa_State a = ''deferred''
      then oa_Result a = None \<and> \<not> oa_ReceiptValidated a \<and> oa_RequestStarted a = Some False \<and>
        oa_ReceiptSHA256 a = '''' \<and> validOperationAttemptDeferredReason (oa_BlockReason a) \<and>
        validOperationAttemptDeferredEvidence (oa_DeferredStage a) (oa_DeferredCategory a) \<and>
        oa_DeliveryState a = ''not_ready''
      else if oa_State a = ''unknown''
      then oa_Result a = None \<and> \<not> oa_ReceiptValidated a \<and> oa_RequestStarted a = None \<and>
        oa_ReceiptSHA256 a = '''' \<and> no_evidence a \<and> oa_DeliveryState a = ''not_ready''
      else True)"

definition received_at :: "OperationStoredAttempt \<Rightarrow> time" where
  "received_at a = (case oa_Result a of None \<Rightarrow> time_zero | Some r \<Rightarrow> or_ReceivedAt r)"

definition attempt_delivery_ok :: "OperationStoredAttempt \<Rightarrow> bool" where
  "attempt_delivery_ok a \<longleftrightarrow>
     \<not> (oa_DeliveryState a \<in> {''pending'', ''acknowledged'', ''readback_verified''} \<and> oa_State a \<noteq> ''observed'') \<and>
     \<not> (oa_DeliveryState a = ''pending'' \<and> (oa_DeliveryAttempts a < 1 \<or> IsZero (oa_DeliveryStartedAt a))) \<and>
     \<not> (oa_DeliveryState a = ''pending'' \<and> oa_DeliveryStartedAt a < received_at a) \<and>
     \<not> (oa_DeliveryState a \<in> {''acknowledged'', ''readback_verified''} \<and>
        (IsZero (oa_DeliveryAckAt a) \<or> oa_DeliveryAttempts a < 1 \<or> oa_DeliveryAckAt a < oa_DeliveryStartedAt a \<or>
         oa_DeliveryAckAt a < received_at a)) \<and>
     \<not> (oa_DeliveryState a = ''readback_verified'' \<and>
        (IsZero (oa_GatusReceivedAt a) \<or> \<not> validGatusResultState (oa_GatusResultState a))) \<and>
     \<not> (oa_DeliveryState a \<noteq> ''readback_verified'' \<and>
        (\<not> IsZero (oa_GatusReceivedAt a) \<or> oa_GatusResultState a \<noteq> '''')) \<and>
     \<not> (oa_DeliveryState a = ''not_applicable'' \<and>
        ((case oa_Result a of None \<Rightarrow> True
          | Some r \<Rightarrow> or_State r \<noteq> ''indeterminate'' \<or> or_Category r \<noteq> ''response_semantics_unestablished'') \<or>
         oa_DeliveryAttempts a \<noteq> 0 \<or> \<not> IsZero (oa_DeliveryStartedAt a) \<or> \<not> IsZero (oa_DeliveryAckAt a)))"

fun attempts_ok ::
  "operationAttemptState \<Rightarrow> string \<Rightarrow> string \<Rightarrow> 64 word \<Rightarrow> OperationStoredAttempt list \<Rightarrow> bool" where
  "attempts_ok state sourceID operationID previousGeneration [] \<longleftrightarrow> True"
| "attempts_ok state sourceID operationID previousGeneration (a # as) \<longleftrightarrow>
     validOperationAttemptBinding (oa_Binding a) \<and> ab_SourceID (oa_Binding a) = sourceID \<and>
     ab_OperationID (oa_Binding a) = operationID \<and> quotaAttemptIDPattern (oa_AttemptID a) \<and>
     \<not> oa_Generation a \<le> previousGeneration \<and> \<not> oa_Generation a > os_Generation state \<and>
     \<not> IsZero (oa_StartedAt a) \<and> \<not> oa_LeaseExpiresAt a < oa_StartedAt a \<and>
     time_Sub (oa_LeaseExpiresAt a) (oa_StartedAt a) \<le> maxOperationAttemptLease \<and>
     validOperationAttemptStateName (oa_State a) \<and> validOperationDeliveryState (oa_DeliveryState a) \<and>
     0 \<le> oa_DeliveryAttempts a \<and> oa_DeliveryAttempts a \<le> 1000000 \<and> attempt_state_ok a \<and>
     (oa_RequestStarted a = Some True \<longrightarrow> os_EverRequestStarted state) \<and> attempt_delivery_ok a \<and>
     attempts_ok state sourceID operationID (oa_Generation a) as"

definition validOperationAttemptState :: "operationAttemptState \<Rightarrow> string \<Rightarrow> string \<Rightarrow> bool" where
  "validOperationAttemptState state sourceID operationID \<longleftrightarrow>
     os_SchemaVersion state = OperationAttemptStoreSchemaVersion \<and> os_SourceID state = sourceID \<and>
     os_OperationID state = operationID \<and> operationSourceIDPattern sourceID \<and> operationID \<noteq> '''' \<and>
     length operationID \<le> 256 \<and> os_Generation state \<noteq> 0 \<and> os_Attempts state \<noteq> [] \<and>
     length (os_Attempts state) \<le> maxOperationAttemptHistory \<and>
     sha256Pattern (os_CurrentPlanSHA256 state) \<and>
     os_CurrentPlanSHA256 state = operationAttemptPlanBindingSHA256 (oa_Binding (last (os_Attempts state))) \<and>
     (os_CurrentPlanEverRequestStarted state \<longrightarrow> os_EverRequestStarted state) \<and>
     (oa_RequestStarted (last (os_Attempts state)) = Some True \<longrightarrow> os_CurrentPlanEverRequestStarted state) \<and>
     attempts_ok state sourceID operationID 0 (os_Attempts state) \<and>
     oa_Generation (last (os_Attempts state)) \<le> os_Generation state"

section \<open>Encoded sizes\<close>

definition json_bool_length :: "bool \<Rightarrow> nat" where
  "json_bool_length b = (if b then 4 else 5)"

definition json_text_length :: "string \<Rightarrow> nat" where
  "json_text_length s = length (json_string s)"

text \<open>A member tagged \<^verbatim>\<open>omitempty\<close>: present only when \<open>keep\<close> holds.\<close>

definition json_optional :: "bool \<Rightarrow> string \<Rightarrow> nat \<Rightarrow> nat list" where
  "json_optional keep name n = (if keep then [json_field_length name n] else [])"

definition binding_length :: "OperationAttemptBinding \<Rightarrow> nat" where
  "binding_length b = json_list_length
     [json_field_length ''source_id'' (json_text_length (ab_SourceID b)),
      json_field_length ''operation_id'' (json_text_length (ab_OperationID b)),
      json_field_length ''registry_revision'' (json_text_length (ab_RegistryRevision b)),
      json_field_length ''release_manifest_sha256'' (json_text_length (ab_ReleaseManifestSHA b)),
      json_field_length ''index_sha256'' (json_text_length (ab_IndexSHA b)),
      json_field_length ''shard_sha256'' (json_text_length (ab_ShardSHA b)),
      json_field_length ''gatus_key'' (json_text_length (ab_GatusKey b)),
      json_field_length ''observation_period_ns'' (length (int_dec (ab_ObservationPeriod b)))]"

definition result_length :: "OperationObservationResult \<Rightarrow> nat" where
  "result_length r = json_list_length
     ([json_field_length ''state'' (json_text_length (or_State r)),
       json_field_length ''category'' (json_text_length (or_Category r)),
       json_field_length ''observed_at'' (json_time_length (or_ObservedAt r)),
       json_field_length ''received_at'' (json_time_length (or_ReceivedAt r)),
       json_field_length ''receipt_sha256'' (json_text_length (or_ReceiptSHA r)),
       json_field_length ''latency_ms'' (length (int_dec (or_LatencyMS r)))] @
      json_optional (or_HTTPStatus r \<noteq> 0) ''http_status'' (length (int_dec (or_HTTPStatus r))) @
      json_optional (or_HistoryRecordID r \<noteq> '''') ''history_record_id'' (json_text_length (or_HistoryRecordID r)) @
      json_optional (or_HistoryRecordSHA256 r \<noteq> '''') ''history_record_sha256''
        (json_text_length (or_HistoryRecordSHA256 r)))"

definition attempt_length :: "OperationStoredAttempt \<Rightarrow> nat" where
  "attempt_length a = json_list_length
     ([json_field_length ''binding'' (binding_length (oa_Binding a)),
       json_field_length ''attempt_id'' (json_text_length (oa_AttemptID a)),
       json_field_length ''generation'' (json_word_length (oa_Generation a)),
       json_field_length ''started_at'' (json_time_length (oa_StartedAt a)),
       json_field_length ''lease_expires_at'' (json_time_length (oa_LeaseExpiresAt a)),
       json_field_length ''finished_at'' (json_time_length (oa_FinishedAt a)),
       json_field_length ''state'' (json_text_length (oa_State a)),
       json_field_length ''receipt_validated'' (json_bool_length (oa_ReceiptValidated a))] @
      json_optional (oa_ReceiptSHA256 a \<noteq> '''') ''receipt_sha256'' (json_text_length (oa_ReceiptSHA256 a)) @
      [json_field_length ''request_started''
         (case oa_RequestStarted a of None \<Rightarrow> 4 | Some b \<Rightarrow> json_bool_length b)] @
      json_optional (oa_BlockReason a \<noteq> '''') ''block_reason'' (json_text_length (oa_BlockReason a)) @
      json_optional (oa_DeferredStage a \<noteq> '''') ''deferred_stage'' (json_text_length (oa_DeferredStage a)) @
      json_optional (oa_DeferredCategory a \<noteq> '''') ''deferred_category'' (json_text_length (oa_DeferredCategory a)) @
      (case oa_Result a of None \<Rightarrow> [] | Some r \<Rightarrow> [json_field_length ''result'' (result_length r)]) @
      [json_field_length ''delivery_state'' (json_text_length (oa_DeliveryState a)),
       json_field_length ''delivery_generation'' (json_word_length (oa_DeliveryGeneration a)),
       json_field_length ''delivery_attempts'' (length (int_dec (oa_DeliveryAttempts a))),
       json_field_length ''delivery_started_at'' (json_time_length (oa_DeliveryStartedAt a)),
       json_field_length ''delivery_response_at'' (json_time_length (oa_DeliveryAckAt a)),
       json_field_length ''gatus_received_at'' (json_time_length (oa_GatusReceivedAt a))] @
      json_optional (oa_GatusResultState a \<noteq> '''') ''gatus_result_state'' (json_text_length (oa_GatusResultState a)))"

definition attempt_state_length :: "operationAttemptState \<Rightarrow> nat" where
  "attempt_state_length s = json_list_length
     [json_field_length ''schema_version'' (json_text_length (os_SchemaVersion s)),
      json_field_length ''operation_id'' (json_text_length (os_OperationID s)),
      json_field_length ''source_id'' (json_text_length (os_SourceID s)),
      json_field_length ''generation'' (json_word_length (os_Generation s)),
      json_field_length ''ever_request_started'' (json_bool_length (os_EverRequestStarted s)),
      json_field_length ''current_plan_sha256'' (json_text_length (os_CurrentPlanSHA256 s)),
      json_field_length ''current_plan_ever_request_started''
        (json_bool_length (os_CurrentPlanEverRequestStarted s)),
      json_field_length ''attempts'' (json_list_length (List.map attempt_length (os_Attempts s)))]"

definition attempt_times_ok :: "OperationStoredAttempt \<Rightarrow> bool" where
  "attempt_times_ok a \<longleftrightarrow> list_all json_time_ok
     ([oa_StartedAt a, oa_LeaseExpiresAt a, oa_FinishedAt a, oa_DeliveryStartedAt a, oa_DeliveryAckAt a,
       oa_GatusReceivedAt a] @
      (case oa_Result a of None \<Rightarrow> [] | Some r \<Rightarrow> [or_ObservedAt r, or_ReceivedAt r]))"

section \<open>The directory\<close>

type_synonym attempt_dir = "string \<Rightarrow> operationAttemptState stored"

datatype attempt_write = Replaced | Not_replaced | Replaced_unsynced

record attempt_io =
  ai_context :: bool
  ai_lock :: bool
  ai_write :: attempt_write

text \<open>\<open>rs_stamps\<close> is the map of file stamps of a reader; see below.\<close>

record operationAttemptFileStamp =
  fs_exists :: bool
  fs_modifiedNS :: int
  fs_size :: int
  fs_inode :: "64 word"

record OperationAttemptStore =
  st_root :: string
  st_readOnly :: bool
  st_readStamps :: "(string, operationAttemptFileStamp) gomap"

type_synonym 'a attempt_result = "(operation_attempt_error + 'a) \<times> attempt_dir"

definition statePath :: "string \<Rightarrow> string \<Rightarrow> string" where
  "statePath sourceID operationID = sha256_hex (sourceID @ CHR 0x00 # operationID) @ ''.json''"

definition withStoreLockContext ::
  "attempt_io \<Rightarrow> OperationAttemptStore \<Rightarrow> (attempt_dir \<Rightarrow> 'a attempt_result) \<Rightarrow> attempt_dir \<Rightarrow> 'a attempt_result" where
  "withStoreLockContext io store body d =
     (if st_readOnly store \<or> \<not> ai_context io \<or> \<not> ai_lock io then (Inl ErrOperationAttemptUnavailable, d)
      else body d)"

definition readState ::
  "string \<Rightarrow> string \<Rightarrow> attempt_dir \<Rightarrow> operation_attempt_error + operationAttemptState option" where
  "readState sourceID operationID d =
     (case d (statePath sourceID operationID) of
        Absent \<Rightarrow> Inr None
      | Garbage \<Rightarrow> Inl ErrOperationAttemptUnavailable
      | Doc state \<Rightarrow>
          (if validOperationAttemptState state sourceID operationID then Inr (Some state)
           else Inl ErrOperationAttemptUnavailable))"

text \<open>
  The file written: \<^verbatim>\<open>validatedHistoryRecord\<close> is not encoded.  An operation identity that is not
  valid UTF-8 decodes to another string, and no later read accepts the file.
\<close>

function valid_utf8_bytes :: "nat list \<Rightarrow> bool" where
  "valid_utf8_bytes [] \<longleftrightarrow> True"
| "valid_utf8_bytes (b # bs) \<longleftrightarrow>
     (if b < 128 then valid_utf8_bytes bs
      else 1 < utf8_len (b # bs) \<and> valid_utf8_bytes (drop (utf8_len (b # bs) - 1) bs))"
  by pat_completeness auto
termination by (relation "measure length") auto

definition valid_utf8 :: "string \<Rightarrow> bool" where
  "valid_utf8 s \<longleftrightarrow> valid_utf8_bytes (bytes_of s)"

definition stored_result :: "OperationObservationResult \<Rightarrow> OperationObservationResult" where
  "stored_result r = r\<lparr>or_validatedHistoryRecord := False\<rparr>"

definition stored_state :: "operationAttemptState \<Rightarrow> operationAttemptState" where
  "stored_state s = s\<lparr>os_Attempts := List.map (\<lambda>a. a\<lparr>oa_Result := map_option stored_result (oa_Result a)\<rparr>)
     (os_Attempts s)\<rparr>"

definition writeState ::
  "attempt_io \<Rightarrow> operationAttemptState \<Rightarrow> attempt_dir \<Rightarrow> operation_attempt_error option \<times> attempt_dir" where
  "writeState io state d =
     (let path = statePath (os_SourceID state) (os_OperationID state);
          file = (if valid_utf8 (os_OperationID state) then Doc (stored_state state) else Garbage)
      in if \<not> validOperationAttemptState state (os_SourceID state) (os_OperationID state) \<or>
            \<not> list_all attempt_times_ok (os_Attempts state) \<or>
            attempt_state_length state > maxOperationAttemptStateBytes
         then (Some ErrOperationAttemptUnavailable, d)
         else case ai_write io of
           Not_replaced \<Rightarrow> (Some ErrOperationAttemptUnavailable, d)
         | Replaced_unsynced \<Rightarrow> (Some ErrOperationAttemptUnavailable, d(path := file))
         | Replaced \<Rightarrow> (None, d(path := file)))"

section \<open>Beginning an attempt\<close>

definition operationAttemptHasRetryableQuotaWindowDrain ::
  "OperationStoredAttempt \<Rightarrow> OperationAttemptBinding \<Rightarrow> time \<Rightarrow> bool" where
  "operationAttemptHasRetryableQuotaWindowDrain latest binding now \<longleftrightarrow>
     \<not> IsZero now \<and> oa_Binding latest = binding \<and> oa_State latest = ''deferred'' \<and>
     oa_BlockReason latest = ''quota_window_draining'' \<and> oa_DeferredStage latest = ''quota_acquire'' \<and>
     oa_DeferredCategory latest = ''window_draining'' \<and> oa_RequestStarted latest = Some False \<and>
     \<not> oa_ReceiptValidated latest \<and> oa_ReceiptSHA256 latest = '''' \<and> oa_Result latest = None \<and>
     oa_DeliveryState latest = ''not_ready'' \<and> \<not> IsZero (oa_StartedAt latest) \<and>
     \<not> IsZero (oa_FinishedAt latest) \<and> \<not> oa_FinishedAt latest < oa_StartedAt latest \<and>
     \<not> IsZero (oa_LeaseExpiresAt latest) \<and> oa_FinishedAt latest < oa_LeaseExpiresAt latest \<and>
     \<not> oa_FinishedAt latest > now"

definition operationAttemptDueForBinding ::
  "OperationStoredAttempt \<Rightarrow> OperationAttemptBinding \<Rightarrow> time \<Rightarrow> bool" where
  "operationAttemptDueForBinding latest binding now \<longleftrightarrow>
     (if IsZero now \<or> IsZero (oa_StartedAt latest) \<or> \<not> validOperationAttemptBinding binding then False
      else if operationAttemptHasRetryableQuotaWindowDrain latest binding now
      then \<not> now < oa_FinishedAt latest + operationAttemptDeferredRetryDelay
      else
        let period = (if ab_ObservationPeriod binding > ab_ObservationPeriod (oa_Binding latest)
                      then ab_ObservationPeriod binding else ab_ObservationPeriod (oa_Binding latest))
        in period > 0 \<and> \<not> now < oa_StartedAt latest + period)"

text \<open>What \<^verbatim>\<open>BeginAttempt\<close> decides under the lock: an error, an expired claim to record as unknown,
  or a new claim, with the state to write.\<close>

datatype begin_decision =
    Refuse operation_attempt_error
  | Expire operationAttemptState
  | Begin operationAttemptState OperationAttemptClaim

definition fresh_state :: "OperationAttemptBinding \<Rightarrow> operationAttemptState" where
  "fresh_state binding = \<lparr>os_SchemaVersion = OperationAttemptStoreSchemaVersion,
     os_OperationID = ab_OperationID binding, os_SourceID = ab_SourceID binding, os_Generation = 0,
     os_EverRequestStarted = False, os_CurrentPlanSHA256 = '''', os_CurrentPlanEverRequestStarted = False,
     os_Attempts = []\<rparr>"

definition begin_claim ::
  "OperationAttemptBinding \<Rightarrow> string \<Rightarrow> time \<Rightarrow> duration \<Rightarrow> operationAttemptState \<Rightarrow> begin_decision" where
  "begin_claim binding attemptID now lease state =
     (let attempts = os_Attempts state;
          oldest = hd attempts;
          full = length attempts \<ge> maxOperationAttemptHistory
      in if full \<and> (oa_State oldest = ''unknown'' \<or>
            (oa_State oldest = ''observed'' \<and> oa_DeliveryState oldest \<noteq> ''readback_verified'' \<and>
             oa_DeliveryState oldest \<noteq> ''not_applicable''))
         then Refuse ErrOperationAttemptCapacity
         else
           let kept = (if full then drop (length attempts - maxOperationAttemptHistory + 1) attempts else attempts);
               bindingSHA = operationAttemptPlanBindingSHA256 binding;
               same = (os_CurrentPlanSHA256 state = bindingSHA);
               generation = os_Generation state + 1;
               stored = claimed_attempt binding attemptID generation now (now + lease)
           in Begin (state\<lparr>os_CurrentPlanSHA256 := bindingSHA,
                  os_CurrentPlanEverRequestStarted := (if same then os_CurrentPlanEverRequestStarted state else False),
                  os_Generation := generation, os_Attempts := kept @ [stored]\<rparr>)
                \<lparr>at_Binding = binding, at_AttemptID = attemptID, at_Generation = generation,
                 at_StartedAt = now, at_ExpiresAt = now + lease\<rparr>)"

definition begin_decide ::
  "OperationAttemptBinding \<Rightarrow> string \<Rightarrow> time \<Rightarrow> duration \<Rightarrow> operationAttemptState \<Rightarrow> begin_decision" where
  "begin_decide binding attemptID now lease state =
     (if os_Attempts state = [] then begin_claim binding attemptID now lease state
      else
        let latest = last (os_Attempts state)
        in if oa_State latest = ''claimed''
           then (if now < oa_LeaseExpiresAt latest then Refuse ErrOperationAttemptHeld
                 else Expire (state\<lparr>os_Attempts := butlast (os_Attempts state) @
                        [latest\<lparr>oa_State := ''unknown'', oa_FinishedAt := now\<rparr>],
                      os_Generation := os_Generation state + 1\<rparr>))
           else if \<not> operationAttemptDueForBinding latest binding now then Refuse ErrOperationAttemptNotDue
           else begin_claim binding attemptID now lease state)"

definition BeginAttemptContext ::
  "attempt_io \<Rightarrow> OperationAttemptStore \<Rightarrow> OperationAttemptBinding \<Rightarrow> string \<Rightarrow> time \<Rightarrow> duration
    \<Rightarrow> attempt_dir \<Rightarrow> OperationAttemptClaim attempt_result" where
  "BeginAttemptContext io store binding attemptID now lease d =
     (if \<not> ai_context io \<or> \<not> validOperationAttemptBinding binding \<or> \<not> quotaAttemptIDPattern attemptID \<or>
         IsZero now \<or> lease < second \<or> lease > maxOperationAttemptLease
      then (Inl ErrOperationAttemptUnavailable, d)
      else withStoreLockContext io store (\<lambda>d.
        case readState (ab_SourceID binding) (ab_OperationID binding) d of
          Inl e \<Rightarrow> (Inl e, d)
        | Inr found \<Rightarrow>
            (case begin_decide binding attemptID now lease (case found of None \<Rightarrow> fresh_state binding | Some s \<Rightarrow> s) of
               Refuse e \<Rightarrow> (Inl e, d)
             | Expire state \<Rightarrow>
                 (case writeState io state d of
                    (Some e, d') \<Rightarrow> (Inl e, d')
                  | (None, d') \<Rightarrow> (Inl ErrOperationAttemptAmbiguous, d'))
             | Begin state claim \<Rightarrow>
                 (case writeState io state d of
                    (Some e, d') \<Rightarrow> (Inl e, d')
                  | (None, d') \<Rightarrow> (Inr claim, d')))) d)"

section \<open>Ending an attempt\<close>

fun find_index :: "('a \<Rightarrow> bool) \<Rightarrow> 'a list \<Rightarrow> nat option" where
  "find_index P [] = None"
| "find_index P (x # xs) = (if P x then Some 0 else map_option Suc (find_index P xs))"

text \<open>\<^verbatim>\<open>findOperationAttempt\<close>, as the index of the attempt it points to.\<close>

definition findOperationAttempt :: "operationAttemptState \<Rightarrow> string \<Rightarrow> 64 word \<Rightarrow> nat option" where
  "findOperationAttempt state attemptID generation =
     find_index (\<lambda>a. oa_AttemptID a = attemptID \<and> oa_Generation a = generation) (os_Attempts state)"

definition claim_current :: "OperationAttemptClaim \<Rightarrow> OperationStoredAttempt \<Rightarrow> bool" where
  "claim_current claim a \<longleftrightarrow> oa_State a = ''claimed'' \<and> oa_Binding a = at_Binding claim \<and>
     oa_StartedAt a = at_StartedAt claim \<and> oa_LeaseExpiresAt a = at_ExpiresAt claim"

text \<open>The change one transition makes: its error, the state and the attempt.\<close>

type_synonym attempt_change = "operationAttemptState \<Rightarrow> OperationStoredAttempt
  \<Rightarrow> operation_attempt_error option \<times> operationAttemptState \<times> OperationStoredAttempt"

definition transitionClaimContext ::
  "attempt_io \<Rightarrow> OperationAttemptStore \<Rightarrow> OperationAttemptClaim \<Rightarrow> attempt_change
    \<Rightarrow> attempt_dir \<Rightarrow> unit attempt_result" where
  "transitionClaimContext io store claim change d =
     (if \<not> ai_context io then (Inl ErrOperationAttemptUnavailable, d)
      else withStoreLockContext io store (\<lambda>d.
        case readState (ab_SourceID (at_Binding claim)) (ab_OperationID (at_Binding claim)) d of
          Inl e \<Rightarrow> (Inl ErrOperationAttemptUnavailable, d)
        | Inr None \<Rightarrow> (Inl ErrOperationAttemptUnavailable, d)
        | Inr (Some state) \<Rightarrow>
            (case findOperationAttempt state (at_AttemptID claim) (at_Generation claim) of
               None \<Rightarrow> (Inl ErrOperationAttemptFenced, d)
             | Some i \<Rightarrow>
                 (if \<not> claim_current claim (os_Attempts state ! i) then (Inl ErrOperationAttemptFenced, d)
                  else
                    let (applyErr, state1, a) = change state (os_Attempts state ! i);
                        state2 = state1\<lparr>os_Attempts := (os_Attempts state1)[i := a],
                          os_Generation := os_Generation state1 + 1\<rparr>
                    in case writeState io state2 d of
                         (Some e, d') \<Rightarrow> (Inl e, d')
                       | (None, d') \<Rightarrow> (case applyErr of Some e \<Rightarrow> (Inl e, d') | None \<Rightarrow> (Inr (), d'))))) d)"

definition request_started :: "OperationStoredAttempt \<Rightarrow> operationAttemptState \<Rightarrow> operationAttemptState" where
  "request_started a state = state\<lparr>os_EverRequestStarted := True,
     os_CurrentPlanEverRequestStarted :=
       (if os_CurrentPlanSHA256 state = operationAttemptPlanBindingSHA256 (oa_Binding a) then True
        else os_CurrentPlanEverRequestStarted state)\<rparr>"

text \<open>Every transition but a plain failure first turns an expired claim into an unknown outcome.\<close>

definition unless_expired :: "time \<Rightarrow> attempt_change \<Rightarrow> attempt_change" where
  "unless_expired now change = (\<lambda>state a.
     if \<not> now < oa_LeaseExpiresAt a
     then (Some ErrOperationAttemptFenced, state, a\<lparr>oa_State := ''unknown'', oa_FinishedAt := now\<rparr>)
     else change state a)"

definition observed_change :: "OperationObservationResult \<Rightarrow> time \<Rightarrow> attempt_change" where
  "observed_change result now = (\<lambda>state a.
     if or_ObservedAt result < oa_StartedAt a \<or> or_ObservedAt result > now \<or>
        (\<not> IsZero (or_ReceivedAt result) \<and>
         (or_ReceivedAt result < or_ObservedAt result \<or> or_ReceivedAt result > now))
     then (Some ErrOperationAttemptUnavailable, state, a\<lparr>oa_State := ''failed'', oa_FinishedAt := now\<rparr>)
     else
       let r = (if IsZero (or_ReceivedAt result) then result\<lparr>or_ReceivedAt := now\<rparr> else result)
       in (None, request_started a state,
           a\<lparr>oa_State := ''observed'', oa_ReceiptValidated := True, oa_ReceiptSHA256 := or_ReceiptSHA r,
             oa_RequestStarted := Some True, oa_FinishedAt := now, oa_Result := Some r,
             oa_DeliveryState :=
               (if or_State r = ''indeterminate'' \<and> or_Category r = ''response_semantics_unestablished''
                then ''not_applicable'' else ''not_ready'')\<rparr>))"

definition completeAttemptContext ::
  "attempt_io \<Rightarrow> OperationAttemptStore \<Rightarrow> OperationAttemptClaim \<Rightarrow> OperationObservationResult \<Rightarrow> time
    \<Rightarrow> attempt_dir \<Rightarrow> unit attempt_result" where
  "completeAttemptContext io store claim result now d =
     (if \<not> ai_context io \<or> \<not> validOperationAttemptClaim claim \<or> \<not> validOperationObservationResult result \<or> IsZero now
      then (Inl ErrOperationAttemptUnavailable, d)
      else if or_Category result = ''response_semantics_unestablished'' \<and>
         (\<not> or_validatedHistoryRecord result \<or> or_HistoryRecordID result = '''' \<or>
          \<not> sha256Pattern (or_HistoryRecordSHA256 result))
      then (Inl ErrOperationAttemptUnavailable, d)
      else transitionClaimContext io store claim (unless_expired now (observed_change result now)) d)"

definition recordRequestStartedWithoutObservationContext ::
  "attempt_io \<Rightarrow> OperationAttemptStore \<Rightarrow> OperationAttemptClaim \<Rightarrow> string \<Rightarrow> time
    \<Rightarrow> attempt_dir \<Rightarrow> unit attempt_result" where
  "recordRequestStartedWithoutObservationContext io store claim receiptSHA now d =
     (if \<not> ai_context io \<or> \<not> validOperationAttemptClaim claim \<or> \<not> sha256Pattern receiptSHA \<or> IsZero now
      then (Inl ErrOperationAttemptUnavailable, d)
      else transitionClaimContext io store claim (unless_expired now (\<lambda>state a.
        (None, request_started a state,
         a\<lparr>oa_State := ''request_started'', oa_ReceiptValidated := True, oa_RequestStarted := Some True,
           oa_FinishedAt := now, oa_ReceiptSHA256 := receiptSHA\<rparr>))) d)"

definition recordBlockedAttemptContext ::
  "attempt_io \<Rightarrow> OperationAttemptStore \<Rightarrow> OperationAttemptClaim \<Rightarrow> string \<Rightarrow> string \<Rightarrow> time
    \<Rightarrow> attempt_dir \<Rightarrow> unit attempt_result" where
  "recordBlockedAttemptContext io store claim receiptSHA blockReason now d =
     (if \<not> ai_context io \<or> \<not> validOperationAttemptClaim claim \<or> \<not> sha256Pattern receiptSHA \<or>
         \<not> validOperationAttemptBlockReason blockReason \<or> IsZero now
      then (Inl ErrOperationAttemptUnavailable, d)
      else transitionClaimContext io store claim (unless_expired now (\<lambda>state a.
        (None, state,
         a\<lparr>oa_State := ''failed'', oa_ReceiptValidated := True, oa_RequestStarted := Some False,
           oa_ReceiptSHA256 := receiptSHA, oa_BlockReason := blockReason, oa_FinishedAt := now\<rparr>))) d)"

definition recordPreDispatchDeferredEvidenceContext ::
  "attempt_io \<Rightarrow> OperationAttemptStore \<Rightarrow> OperationAttemptClaim \<Rightarrow> string \<Rightarrow> string \<Rightarrow> string \<Rightarrow> time
    \<Rightarrow> attempt_dir \<Rightarrow> unit attempt_result" where
  "recordPreDispatchDeferredEvidenceContext io store claim blockReason stage category now d =
     (if \<not> ai_context io \<or> \<not> validOperationAttemptClaim claim \<or> \<not> validOperationAttemptDeferredReason blockReason \<or>
         \<not> validOperationAttemptDeferredEvidence stage category \<or> IsZero now
      then (Inl ErrOperationAttemptUnavailable, d)
      else transitionClaimContext io store claim (unless_expired now (\<lambda>state a.
        (None, state,
         a\<lparr>oa_State := ''deferred'', oa_ReceiptValidated := False, oa_RequestStarted := Some False,
           oa_BlockReason := blockReason, oa_DeferredStage := stage, oa_DeferredCategory := category,
           oa_FinishedAt := now\<rparr>))) d)"

definition failAttemptContext ::
  "attempt_io \<Rightarrow> OperationAttemptStore \<Rightarrow> OperationAttemptClaim \<Rightarrow> time \<Rightarrow> attempt_dir \<Rightarrow> unit attempt_result" where
  "failAttemptContext io store claim now d =
     (if \<not> ai_context io \<or> \<not> validOperationAttemptClaim claim \<or> IsZero now
      then (Inl ErrOperationAttemptUnavailable, d)
      else transitionClaimContext io store claim
        (\<lambda>state a. (None, state, a\<lparr>oa_State := ''unknown'', oa_FinishedAt := now\<rparr>)) d)"

section \<open>Delivery\<close>

definition delivery_refused :: "OperationStoredAttempt \<Rightarrow> time \<Rightarrow> bool" where
  "delivery_refused a now \<longleftrightarrow> oa_State a \<noteq> ''observed'' \<or> oa_Result a = None \<or> now < received_at a \<or>
     oa_DeliveryState a = ''acknowledged'' \<or> oa_DeliveryState a = ''readback_verified'' \<or>
     oa_DeliveryState a = ''not_applicable''"

definition undelivered :: "OperationStoredAttempt \<Rightarrow> bool" where
  "undelivered a \<longleftrightarrow> oa_State a = ''observed'' \<and> oa_Result a \<noteq> None \<and> oa_DeliveryState a \<noteq> ''readback_verified'' \<and>
     oa_DeliveryState a \<noteq> ''not_applicable''"

definition put_attempt :: "operationAttemptState \<Rightarrow> nat \<Rightarrow> OperationStoredAttempt \<Rightarrow> operationAttemptState" where
  "put_attempt state i a = state\<lparr>os_Attempts := (os_Attempts state)[i := a], os_Generation := os_Generation state + 1\<rparr>"

definition empty_result :: OperationObservationResult where
  "empty_result = \<lparr>or_State = '''', or_Category = '''', or_ObservedAt = time_zero, or_ReceivedAt = time_zero,
     or_ReceiptSHA = '''', or_LatencyMS = 0, or_HTTPStatus = 0, or_HistoryRecordID = '''', or_HistoryRecordSHA256 = '''',
     or_validatedHistoryRecord = False\<rparr>"

definition the_result :: "OperationStoredAttempt \<Rightarrow> OperationObservationResult" where
  "the_result a = (case oa_Result a of None \<Rightarrow> empty_result | Some r \<Rightarrow> r)"

definition delivery_claimed :: "OperationStoredAttempt \<Rightarrow> time \<Rightarrow> OperationStoredAttempt" where
  "delivery_claimed a now = a\<lparr>oa_DeliveryGeneration := oa_DeliveryGeneration a + 1,
     oa_DeliveryAttempts := oa_DeliveryAttempts a + 1, oa_DeliveryState := ''pending'', oa_DeliveryStartedAt := now\<rparr>"

definition ClaimDeliveryContext ::
  "attempt_io \<Rightarrow> OperationAttemptStore \<Rightarrow> string \<Rightarrow> string \<Rightarrow> string \<Rightarrow> 64 word \<Rightarrow> time \<Rightarrow> duration
    \<Rightarrow> attempt_dir \<Rightarrow> OperationDeliveryClaim attempt_result" where
  "ClaimDeliveryContext io store sourceID operationID attemptID generation now lease d =
     (if \<not> ai_context io \<or> \<not> operationSourceIDPattern sourceID \<or> operationID = '''' \<or> length operationID > 256 \<or>
         \<not> quotaAttemptIDPattern attemptID \<or> generation = 0 \<or> IsZero now \<or> lease < second \<or>
         lease > maxOperationAttemptLease
      then (Inl ErrOperationAttemptUnavailable, d)
      else withStoreLockContext io store (\<lambda>d.
        case readState sourceID operationID d of
          Inl e \<Rightarrow> (Inl ErrOperationAttemptUnavailable, d)
        | Inr None \<Rightarrow> (Inl ErrOperationAttemptUnavailable, d)
        | Inr (Some state) \<Rightarrow>
            (case findOperationAttempt state attemptID generation of
               None \<Rightarrow> (Inl ErrOperationAttemptFenced, d)
             | Some i \<Rightarrow>
                 let a = os_Attempts state ! i
                 in if delivery_refused a now then (Inl ErrOperationAttemptFenced, d)
                    else if list_ex undelivered (take i (os_Attempts state)) then (Inl ErrOperationAttemptDelivery, d)
                    else if oa_DeliveryState a = ''pending'' \<and> now < oa_DeliveryStartedAt a + lease
                    then (Inl ErrOperationAttemptHeld, d)
                    else
                      let a' = delivery_claimed a now
                      in case writeState io (put_attempt state i a') d of
                           (Some e, d') \<Rightarrow> (Inl e, d')
                         | (None, d') \<Rightarrow>
                             (Inr \<lparr>dc_Binding = oa_Binding a', dc_AttemptID = oa_AttemptID a',
                                dc_AttemptGeneration = oa_Generation a',
                                dc_DeliveryGeneration = oa_DeliveryGeneration a',
                                dc_AttemptCount = oa_DeliveryAttempts a', dc_Result = the_result a'\<rparr>, d'))) d)"

definition AcknowledgeDeliveryContext ::
  "attempt_io \<Rightarrow> OperationAttemptStore \<Rightarrow> OperationDeliveryClaim \<Rightarrow> time \<Rightarrow> attempt_dir \<Rightarrow> unit attempt_result" where
  "AcknowledgeDeliveryContext io store claim responseAt d =
     (if \<not> ai_context io \<or> \<not> validOperationDeliveryClaim claim \<or> IsZero responseAt
      then (Inl ErrOperationAttemptUnavailable, d)
      else withStoreLockContext io store (\<lambda>d.
        case readState (ab_SourceID (dc_Binding claim)) (ab_OperationID (dc_Binding claim)) d of
          Inl e \<Rightarrow> (Inl ErrOperationAttemptUnavailable, d)
        | Inr None \<Rightarrow> (Inl ErrOperationAttemptUnavailable, d)
        | Inr (Some state) \<Rightarrow>
            (case findOperationAttempt state (dc_AttemptID claim) (dc_AttemptGeneration claim) of
               None \<Rightarrow> (Inl ErrOperationAttemptFenced, d)
             | Some i \<Rightarrow>
                 let a = os_Attempts state ! i
                 in if oa_DeliveryState a \<noteq> ''pending'' \<or> oa_DeliveryGeneration a \<noteq> dc_DeliveryGeneration claim \<or>
                       oa_Result a = None \<or> responseAt < oa_DeliveryStartedAt a
                    then (Inl ErrOperationAttemptFenced, d)
                    else case writeState io (put_attempt state i
                           (a\<lparr>oa_DeliveryState := ''acknowledged'', oa_DeliveryAckAt := responseAt\<rparr>)) d of
                         (Some e, d') \<Rightarrow> (Inl e, d')
                       | (None, d') \<Rightarrow> (Inr (), d'))) d)"

definition RecordGatusReadbackContext ::
  "attempt_io \<Rightarrow> OperationAttemptStore \<Rightarrow> string \<Rightarrow> string \<Rightarrow> string \<Rightarrow> 64 word \<Rightarrow> time \<Rightarrow> string
    \<Rightarrow> attempt_dir \<Rightarrow> unit attempt_result" where
  "RecordGatusReadbackContext io store sourceID operationID attemptID generation receivedAt resultState d =
     (if \<not> ai_context io \<or> \<not> operationSourceIDPattern sourceID \<or> operationID = '''' \<or>
         \<not> quotaAttemptIDPattern attemptID \<or> generation = 0 \<or> IsZero receivedAt \<or> \<not> validGatusResultState resultState
      then (Inl ErrOperationAttemptUnavailable, d)
      else withStoreLockContext io store (\<lambda>d.
        case readState sourceID operationID d of
          Inl e \<Rightarrow> (Inl ErrOperationAttemptUnavailable, d)
        | Inr None \<Rightarrow> (Inl ErrOperationAttemptUnavailable, d)
        | Inr (Some state) \<Rightarrow>
            (case findOperationAttempt state attemptID generation of
               None \<Rightarrow> (Inl ErrOperationAttemptFenced, d)
             | Some i \<Rightarrow>
                 let a = os_Attempts state ! i
                 in if oa_DeliveryState a \<noteq> ''acknowledged'' \<or> oa_Result a = None \<or> receivedAt < oa_DeliveryAckAt a
                    then (Inl ErrOperationAttemptFenced, d)
                    else case writeState io (put_attempt state i
                           (a\<lparr>oa_GatusReceivedAt := receivedAt, oa_GatusResultState := resultState,
                             oa_DeliveryState := ''readback_verified''\<rparr>)) d of
                         (Some e, d') \<Rightarrow> (Inl e, d')
                       | (None, d') \<Rightarrow> (Inr (), d'))) d)"

section \<open>Reads\<close>

definition identity_ok :: "string \<Rightarrow> string \<Rightarrow> bool" where
  "identity_ok sourceID operationID \<longleftrightarrow>
     operationSourceIDPattern sourceID \<and> operationID \<noteq> '''' \<and> length operationID \<le> 256"

text \<open>\<open>alive\<close>: the context is not done after the read.\<close>

definition LatestReadinessSnapshotContext ::
  "bool \<Rightarrow> bool \<Rightarrow> string \<Rightarrow> string \<Rightarrow> attempt_dir
    \<Rightarrow> operation_attempt_error + (OperationStoredAttempt option \<times> OperationStoredAttempt option)" where
  "LatestReadinessSnapshotContext ctx alive sourceID operationID d =
     (if \<not> ctx \<or> \<not> identity_ok sourceID operationID then Inl ErrOperationAttemptUnavailable
      else case readState sourceID operationID d of
        Inl e \<Rightarrow> (if \<not> alive then Inl ErrOperationAttemptUnavailable else Inl e)
      | Inr None \<Rightarrow> (if \<not> alive then Inl ErrOperationAttemptUnavailable else Inr (None, None))
      | Inr (Some state) \<Rightarrow>
          (if \<not> alive \<or> os_Attempts state = [] then Inl ErrOperationAttemptUnavailable
           else Inr (Some (last (os_Attempts state)),
             find (\<lambda>a. oa_State a = ''observed'') (rev (os_Attempts state)))))"

definition LatestContext ::
  "attempt_io \<Rightarrow> OperationAttemptStore \<Rightarrow> string \<Rightarrow> string \<Rightarrow> attempt_dir
    \<Rightarrow> OperationStoredAttempt option attempt_result" where
  "LatestContext io store sourceID operationID d =
     (if \<not> ai_context io \<or> \<not> identity_ok sourceID operationID then (Inl ErrOperationAttemptUnavailable, d)
      else withStoreLockContext io store (\<lambda>d.
        case readState sourceID operationID d of
          Inl e \<Rightarrow> (Inl e, d)
        | Inr None \<Rightarrow> (Inr None, d)
        | Inr (Some state) \<Rightarrow> (Inr (Some (last (os_Attempts state))), d)) d)"

definition GetAttemptContext ::
  "attempt_io \<Rightarrow> OperationAttemptStore \<Rightarrow> string \<Rightarrow> string \<Rightarrow> string \<Rightarrow> 64 word \<Rightarrow> attempt_dir
    \<Rightarrow> OperationStoredAttempt option attempt_result" where
  "GetAttemptContext io store sourceID operationID attemptID generation d =
     (if \<not> ai_context io \<or> \<not> identity_ok sourceID operationID \<or> \<not> quotaAttemptIDPattern attemptID \<or> generation = 0
      then (Inl ErrOperationAttemptUnavailable, d)
      else withStoreLockContext io store (\<lambda>d.
        case readState sourceID operationID d of
          Inl e \<Rightarrow> (Inl e, d)
        | Inr None \<Rightarrow> (Inr None, d)
        | Inr (Some state) \<Rightarrow>
            (Inr (map_option (\<lambda>i. os_Attempts state ! i) (findOperationAttempt state attemptID generation)), d)) d)"

definition pending_delivery :: "OperationStoredAttempt \<Rightarrow> bool" where
  "pending_delivery a \<longleftrightarrow> oa_State a = ''observed'' \<and>
     (oa_DeliveryState a = ''not_ready'' \<or> oa_DeliveryState a = ''pending'' \<or> oa_DeliveryState a = ''acknowledged'')"

definition PendingDeliveriesContext ::
  "attempt_io \<Rightarrow> OperationAttemptStore \<Rightarrow> string \<Rightarrow> string \<Rightarrow> attempt_dir
    \<Rightarrow> OperationStoredAttempt list attempt_result" where
  "PendingDeliveriesContext io store sourceID operationID d =
     (if \<not> ai_context io \<or> \<not> identity_ok sourceID operationID then (Inl ErrOperationAttemptUnavailable, d)
      else withStoreLockContext io store (\<lambda>d.
        case readState sourceID operationID d of
          Inl e \<Rightarrow> (Inl e, d)
        | Inr None \<Rightarrow> (Inr [], d)
        | Inr (Some state) \<Rightarrow> (Inr (filter pending_delivery (os_Attempts state)), d)) d)"

definition PendingDeliveriesSnapshotContext ::
  "bool \<Rightarrow> bool \<Rightarrow> string \<Rightarrow> string \<Rightarrow> attempt_dir \<Rightarrow> operation_attempt_error + OperationStoredAttempt list" where
  "PendingDeliveriesSnapshotContext ctx alive sourceID operationID d =
     (if \<not> ctx \<or> \<not> identity_ok sourceID operationID then Inl ErrOperationAttemptUnavailable
      else case readState sourceID operationID d of
        Inl e \<Rightarrow> Inl ErrOperationAttemptUnavailable
      | Inr found \<Rightarrow>
          (if \<not> alive then Inl ErrOperationAttemptUnavailable
           else case found of None \<Rightarrow> Inr []
                | Some state \<Rightarrow> Inr (filter pending_delivery (os_Attempts state))))"

end
