(* ===== verification/Operation_History.thy ===== *)
theory Operation_History
  imports Operation_Attempts
begin

text \<open>
  \<^verbatim>\<open>internal/health/operation_history.go\<close>: the immutable evidence of one attempt, sealed by the
  digest of its JSON text, and references to archived evidence, sealed by the store; and the
  transitions of \<^verbatim>\<open>operation_attempt_store.go\<close> that rest on archived evidence.  The JSON texts
  are written out, so that the digests are those of the code.
\<close>

section \<open>JSON texts\<close>

text \<open>\<^verbatim>\<open>[]byte\<close> is encoded in base 64.\<close>

definition base64_char :: "nat \<Rightarrow> char" where
  "base64_char n = (if n < 26 then char_of (65 + n) else if n < 52 then char_of (71 + n)
     else if n < 62 then char_of (n - 4) else if n = 62 then CHR ''+'' else CHR ''/'')"

fun base64 :: "nat list \<Rightarrow> string" where
  "base64 (a # b # c # rest) =
     [base64_char (a div 4), base64_char (a mod 4 * 16 + b div 16), base64_char (b mod 16 * 4 + c div 64),
      base64_char (c mod 64)] @ base64 rest"
| "base64 [a, b] = [base64_char (a div 4), base64_char (a mod 4 * 16 + b div 16), base64_char (b mod 16 * 4), CHR ''='']"
| "base64 [a] = [base64_char (a div 4), base64_char (a mod 4 * 16), CHR ''='', CHR ''='']"
| "base64 [] = []"

text \<open>The civil date of a day counted from 0001-01-01, in the proleptic Gregorian calendar.\<close>

definition civil :: "int \<Rightarrow> int \<times> int \<times> int" where
  "civil days =
     (let z = days + 306; era = z div 146097; doe = z mod 146097;
          yoe = (doe - doe div 1460 + doe div 36524 - doe div 146096) div 365;
          doy = doe - (365 * yoe + yoe div 4 - yoe div 100);
          mp = (5 * doy + 2) div 153;
          m = (if mp < 10 then mp + 3 else mp - 9)
      in (yoe + era * 400 + (if m \<le> 2 then 1 else 0), m, doy - (153 * mp + 2) div 5 + 1))"

definition padded :: "nat \<Rightarrow> int \<Rightarrow> string" where
  "padded n i = (let s = nat_dec (nat i) in replicate (n - length s) CHR ''0'' @ s)"

text \<open>RFC 3339 with nanoseconds, trailing zeros dropped, in UTC.\<close>

definition time_text :: "time \<Rightarrow> string" where
  "time_text t =
     (let s = t div second; ns = t mod second; tod = s mod 86400; (y, m, d) = civil (s div 86400);
          fraction = take (fraction_digits 9 (nat ns)) (padded 9 ns)
      in padded 4 y @ ''-'' @ padded 2 m @ ''-'' @ padded 2 d @ ''T'' @ padded 2 (tod div 3600) @ '':'' @
         padded 2 (tod div 60 mod 60) @ '':'' @ padded 2 (tod mod 60) @
         (if fraction = [] then [] else ''.'' @ fraction) @ ''Z'')"

definition json_time :: "time \<Rightarrow> string" where
  "json_time t = CHR 0x22 # time_text t @ [CHR 0x22]"

definition json_object :: "(string \<times> string) list \<Rightarrow> string" where
  "json_object members = ''{'' @ commas (List.map (\<lambda>(name, text). json_member name text) members) @ ''}''"

section \<open>\<open>json.Valid\<close>\<close>

text \<open>
  The scanner of \<^verbatim>\<open>encoding/json\<close>: a state per step function and a stack of the objects and arrays
  that are open, at most 10000.  \<open>In_literal\<close> holds the rest of \<^verbatim>\<open>true\<close>, \<^verbatim>\<open>false\<close> or \<^verbatim>\<open>null\<close>, \<open>In_unicode\<close>
  the number of hexadecimal digits still due.
\<close>

datatype json_open = Object_key | Object_value | Array_value

datatype json_scan =
    Begin_value | Begin_value_or_empty | Begin_string | Begin_string_or_empty | End_value | End_top
  | In_string | In_escape | In_unicode nat | In_literal string
  | Num_neg | Num_zero | Num_int | Num_dot | Num_frac | Num_e | Num_e_sign | Num_exp

definition json_space :: "char \<Rightarrow> bool" where
  "json_space c \<longleftrightarrow> c = CHR '' '' \<or> c = CHR 0x09 \<or> c = CHR 0x0D \<or> c = CHR 0x0A"

definition json_digit :: "char \<Rightarrow> bool" where
  "json_digit c \<longleftrightarrow> is_digit c"

definition end_value :: "json_open list \<Rightarrow> json_scan" where
  "end_value stack = (if stack = [] then End_top else End_value)"

definition push_open :: "json_open \<Rightarrow> json_scan \<Rightarrow> json_open list \<Rightarrow> (json_scan \<times> json_open list) option" where
  "push_open p s stack = (if length stack < 10000 then Some (s, p # stack) else None)"

definition scan_begin :: "json_open list \<Rightarrow> char \<Rightarrow> (json_scan \<times> json_open list) option" where
  "scan_begin stack c =
     (if c = CHR ''{'' then push_open Object_key Begin_string_or_empty stack
      else if c = CHR ''['' then push_open Array_value Begin_value_or_empty stack
      else if c = CHR 0x22 then Some (In_string, stack)
      else if c = CHR ''-'' then Some (Num_neg, stack)
      else if c = CHR ''0'' then Some (Num_zero, stack)
      else if c = CHR ''t'' then Some (In_literal ''rue'', stack)
      else if c = CHR ''f'' then Some (In_literal ''alse'', stack)
      else if c = CHR ''n'' then Some (In_literal ''ull'', stack)
      else if json_digit c then Some (Num_int, stack)
      else None)"

definition scan_end :: "json_open list \<Rightarrow> char \<Rightarrow> (json_scan \<times> json_open list) option" where
  "scan_end stack c =
     (if json_space c then Some (end_value stack, stack)
      else case stack of
        [] \<Rightarrow> None
      | Object_key # rest \<Rightarrow> (if c = CHR '':'' then Some (Begin_value, Object_value # rest) else None)
      | Object_value # rest \<Rightarrow>
          (if c = CHR '','' then Some (Begin_string, Object_key # rest)
           else if c = CHR ''}'' then Some (end_value rest, rest) else None)
      | Array_value # rest \<Rightarrow>
          (if c = CHR '','' then Some (Begin_value, Array_value # rest)
           else if c = CHR '']'' then Some (end_value rest, rest) else None))"

definition scan_string :: "json_scan \<Rightarrow> json_open list \<Rightarrow> char \<Rightarrow> (json_scan \<times> json_open list) option" where
  "scan_string state stack c =
     (case state of
        In_string \<Rightarrow>
          (if c = CHR 0x22 then Some (end_value stack, stack)
           else if c = CHR 0x5C then Some (In_escape, stack)
           else if (of_char c :: nat) < 32 then None else Some (In_string, stack))
      | In_escape \<Rightarrow>
          (if c \<in> set ''bfnrt/'' \<or> c = CHR 0x5C \<or> c = CHR 0x22 then Some (In_string, stack)
           else if c = CHR ''u'' then Some (In_unicode 4, stack) else None)
      | In_unicode n \<Rightarrow>
          (if is_lower_hex c \<or> c \<in> set ''ABCDEF''
           then Some (if n = 1 then In_string else In_unicode (n - 1), stack) else None)
      | _ \<Rightarrow> None)"

definition scan_number :: "json_scan \<Rightarrow> json_open list \<Rightarrow> char \<Rightarrow> (json_scan \<times> json_open list) option" where
  "scan_number state stack c =
     (let dot_or_e = (if c = CHR ''.'' then Some (Num_dot, stack)
        else if c = CHR ''e'' \<or> c = CHR ''E'' then Some (Num_e, stack) else scan_end stack c)
      in case state of
        Num_neg \<Rightarrow> (if c = CHR ''0'' then Some (Num_zero, stack) else if json_digit c then Some (Num_int, stack) else None)
      | Num_zero \<Rightarrow> dot_or_e
      | Num_int \<Rightarrow> (if json_digit c then Some (Num_int, stack) else dot_or_e)
      | Num_dot \<Rightarrow> (if json_digit c then Some (Num_frac, stack) else None)
      | Num_frac \<Rightarrow>
          (if json_digit c then Some (Num_frac, stack)
           else if c = CHR ''e'' \<or> c = CHR ''E'' then Some (Num_e, stack) else scan_end stack c)
      | Num_e \<Rightarrow>
          (if c = CHR ''+'' \<or> c = CHR ''-'' then Some (Num_e_sign, stack)
           else if json_digit c then Some (Num_exp, stack) else None)
      | Num_e_sign \<Rightarrow> (if json_digit c then Some (Num_exp, stack) else None)
      | Num_exp \<Rightarrow> (if json_digit c then Some (Num_exp, stack) else scan_end stack c)
      | _ \<Rightarrow> None)"

definition scan_step :: "json_scan \<Rightarrow> json_open list \<Rightarrow> char \<Rightarrow> (json_scan \<times> json_open list) option" where
  "scan_step state stack c =
     (case state of
        Begin_value \<Rightarrow> (if json_space c then Some (state, stack) else scan_begin stack c)
      | Begin_value_or_empty \<Rightarrow>
          (if json_space c then Some (state, stack)
           else if c = CHR '']'' then scan_end stack c else scan_begin stack c)
      | Begin_string \<Rightarrow>
          (if json_space c then Some (state, stack) else if c = CHR 0x22 then Some (In_string, stack) else None)
      | Begin_string_or_empty \<Rightarrow>
          (if json_space c then Some (state, stack)
           else if c = CHR ''}'' then scan_end (Object_value # tl stack) c
           else if c = CHR 0x22 then Some (In_string, stack) else None)
      | End_value \<Rightarrow> scan_end stack c
      | End_top \<Rightarrow> (if json_space c then Some (state, stack) else None)
      | In_literal s \<Rightarrow>
          (if s \<noteq> [] \<and> c = hd s then Some (if tl s = [] then end_value stack else In_literal (tl s), stack) else None)
      | In_string \<Rightarrow> scan_string state stack c
      | In_escape \<Rightarrow> scan_string state stack c
      | In_unicode n \<Rightarrow> scan_string state stack c
      | _ \<Rightarrow> scan_number state stack c)"

fun scan_json :: "json_scan \<Rightarrow> json_open list \<Rightarrow> string \<Rightarrow> bool" where
  "scan_json state stack [] \<longleftrightarrow>
     state = End_top \<or> (case scan_step state stack CHR '' '' of Some (End_top, _) \<Rightarrow> True | _ \<Rightarrow> False)"
| "scan_json state stack (c # cs) \<longleftrightarrow>
     (case scan_step state stack c of None \<Rightarrow> False | Some (state', stack') \<Rightarrow> scan_json state' stack' cs)"

definition json_Valid :: "string \<Rightarrow> bool" where
  "json_Valid s \<longleftrightarrow> scan_json Begin_value [] s"

section \<open>Evidence\<close>

record OperationHistoryIdentity =
  hi_SourceID :: string
  hi_OperationID :: string
  hi_AttemptID :: string
  hi_Generation :: "64 word"
  hi_RegistryRevision :: string
  hi_ReleaseManifestSHA256 :: string
  hi_IndexSHA256 :: string
  hi_ShardSHA256 :: string

record OperationHistoryRecord =
  hr_SchemaVersion :: string
  hr_Identity :: OperationHistoryIdentity
  hr_ReceiptSchemaURI :: string
  hr_ReceiptSchemaVersion :: string
  hr_ReceiptSchemaSHA256 :: string
  hr_ReceiptSHA256 :: string
  hr_ReceiptBytes :: string
  hr_ValidatorIdentity :: string
  hr_ValidatorRevision :: string
  hr_AttemptStartedAt :: time
  hr_ValidatedAt :: time
  hr_validatedByWorker :: bool
  hr_sealedRecordSHA256 :: string

record OperationHistoryReservation =
  rv_identityID :: string
  rv_token :: string

record OperationHistoryRecordRef =
  rf_RecordID :: string
  rf_SHA256 :: string
  rf_AppendedAt :: time
  rf_appendProof :: "string option"

datatype history_error =
    ErrOperationHistoryUnavailable
  | ErrOperationHistoryCapacity
  | ErrOperationHistoryReserved
  | ErrOperationHistoryStale
  | ErrOperationHistoryConflict
  | ErrOperationHistoryCorrupt

definition OperationHistoryRecordSchemaVersion :: string where
  "OperationHistoryRecordSchemaVersion = ''datapan.health-operation-archive.v2''"

definition MaxOperationHistoryReceiptBytes :: nat where "MaxOperationHistoryReceiptBytes = 64 * 1024"

definition MaxOperationHistorySerializedReceipt :: nat where
  "MaxOperationHistorySerializedReceipt = (MaxOperationHistoryReceiptBytes + 2) div 3 * 4"

definition OperationHistoryEnvelopeReserveBytes :: nat where "OperationHistoryEnvelopeReserveBytes = 8 * 1024"

definition OperationHistoryAtomicTempReserveBytes :: nat where
  "OperationHistoryAtomicTempReserveBytes = MaxOperationHistorySerializedReceipt + OperationHistoryEnvelopeReserveBytes"

definition OperationHistoryJournalReserveBytes :: nat where "OperationHistoryJournalReserveBytes = 4 * 1024"

definition MaxOperationHistoryReservedBytes :: nat where
  "MaxOperationHistoryReservedBytes = MaxOperationHistoryReceiptBytes + MaxOperationHistorySerializedReceipt +
     OperationHistoryEnvelopeReserveBytes + OperationHistoryAtomicTempReserveBytes + OperationHistoryJournalReserveBytes"

section \<open>Patterns\<close>

definition lower_alnum :: "char \<Rightarrow> bool" where
  "lower_alnum c \<longleftrightarrow> source_char c"

definition alnum :: "char \<Rightarrow> bool" where
  "alnum c \<longleftrightarrow> source_char c \<or> (let n = (of_char c :: nat) in 65 \<le> n \<and> n \<le> 90)"

text \<open>\<open>operationHistorySourcePattern\<close> and \<open>operationHistoryAttemptPattern\<close> are those of the attempt store.\<close>

definition operationHistorySourcePattern :: "string \<Rightarrow> bool" where
  "operationHistorySourcePattern s \<longleftrightarrow> source_rest True s"

definition operationHistoryAttemptPattern :: "string \<Rightarrow> bool" where
  "operationHistoryAttemptPattern s \<longleftrightarrow> uuidPattern s \<or> hex_string 64 s"

text \<open>Runs of \<^verbatim>\<open>[a-z0-9]\<close> separated by single dots and dashes.\<close>

fun version_rest :: "bool \<Rightarrow> string \<Rightarrow> bool" where
  "version_rest need [] \<longleftrightarrow> \<not> need"
| "version_rest need (c # cs) \<longleftrightarrow>
     (if lower_alnum c then version_rest False cs
      else (c = CHR ''.'' \<or> c = CHR ''-'') \<and> \<not> need \<and> version_rest True cs)"

definition operationHistorySchemaVersionPattern :: "string \<Rightarrow> bool" where
  "operationHistorySchemaVersionPattern s \<longleftrightarrow> version_rest True s"

definition operationHistoryValidatorPattern :: "string \<Rightarrow> bool" where
  "operationHistoryValidatorPattern s \<longleftrightarrow> s \<noteq> [] \<and> alnum (hd s) \<and> length s \<le> 128 \<and>
     list_all (\<lambda>c. alnum c \<or> c \<in> set ''._/-'') (tl s)"

text \<open>
  \<^verbatim>\<open>url.Parse\<close> on a text of the characters the function admits: the scheme is what precedes the
  first colon, the host what follows two slashes up to the next, and a port is digits.
\<close>

definition uri_char :: "char \<Rightarrow> bool" where
  "uri_char c \<longleftrightarrow> alnum c \<or> c \<in> set ''-._~:/''"

definition to_lower :: "char \<Rightarrow> char" where
  "to_lower c = (let n = (of_char c :: nat) in if 65 \<le> n \<and> n \<le> 90 then char_of (n + 32) else c)"

definition uri_port_ok :: "string \<Rightarrow> bool" where
  "uri_port_ok host \<longleftrightarrow> CHR '':'' \<notin> set host \<or> list_all is_digit (rev (takeWhile (\<lambda>c. c \<noteq> CHR '':'') (rev host)))"

definition safeOperationHistorySchemaURI :: "string \<Rightarrow> bool" where
  "safeOperationHistorySchemaURI v \<longleftrightarrow> v \<noteq> [] \<and> length v \<le> 512 \<and> list_all uri_char v \<and>
     List.map to_lower (take 6 v) = ''https:'' \<and> take 2 (drop 6 v) = ''//'' \<and>
     (let host = takeWhile (\<lambda>c. c \<noteq> CHR ''/'') (drop 8 v) in host \<noteq> [] \<and> uri_port_ok host)"

section \<open>Identities, records, references\<close>

text \<open>A time of the model is in UTC and has no monotonic reading.\<close>

definition utcNormalized :: "time \<Rightarrow> bool" where
  "utcNormalized t \<longleftrightarrow> \<not> IsZero t"

definition validateOperationHistoryIdentity :: "OperationHistoryIdentity \<Rightarrow> bool" where
  "validateOperationHistoryIdentity i \<longleftrightarrow> length (hi_SourceID i) \<le> 64 \<and> operationHistorySourcePattern (hi_SourceID i) \<and>
     hi_OperationID i \<noteq> '''' \<and> length (hi_OperationID i) \<le> 256 \<and> operationHistoryAttemptPattern (hi_AttemptID i) \<and>
     hi_Generation i > 0 \<and> commitPattern (hi_RegistryRevision i) \<and> sha256Pattern (hi_ReleaseManifestSHA256 i) \<and>
     sha256Pattern (hi_IndexSHA256 i) \<and> sha256Pattern (hi_ShardSHA256 i)"

definition word_dec :: "64 word \<Rightarrow> string" where
  "word_dec w = nat_dec (unat w)"

definition identity_json :: "OperationHistoryIdentity \<Rightarrow> string" where
  "identity_json i = json_object
     [(''source_id'', json_string (hi_SourceID i)), (''operation_id'', json_string (hi_OperationID i)),
      (''attempt_id'', json_string (hi_AttemptID i)), (''generation'', word_dec (hi_Generation i)),
      (''registry_revision'', json_string (hi_RegistryRevision i)),
      (''release_manifest_sha256'', json_string (hi_ReleaseManifestSHA256 i)),
      (''index_sha256'', json_string (hi_IndexSHA256 i)), (''shard_sha256'', json_string (hi_ShardSHA256 i))]"

definition operationHistoryIdentityKey :: "OperationHistoryIdentity \<Rightarrow> history_error + string" where
  "operationHistoryIdentityKey i =
     (if \<not> validateOperationHistoryIdentity i then Inl ErrOperationHistoryUnavailable
      else Inr (sha256_hex (identity_json i)))"

definition reservation_Matches :: "OperationHistoryReservation \<Rightarrow> OperationHistoryIdentity \<Rightarrow> bool" where
  "reservation_Matches r i \<longleftrightarrow> operationHistoryIdentityKey i = Inr (rv_identityID r) \<and> rv_identityID r \<noteq> '''' \<and>
     rv_token r \<noteq> ''''"

definition record_json :: "OperationHistoryRecord \<Rightarrow> string" where
  "record_json r = json_object
     [(''schema_version'', json_string (hr_SchemaVersion r)), (''identity'', identity_json (hr_Identity r)),
      (''receipt_schema_uri'', json_string (hr_ReceiptSchemaURI r)),
      (''receipt_schema_version'', json_string (hr_ReceiptSchemaVersion r)),
      (''receipt_schema_sha256'', json_string (hr_ReceiptSchemaSHA256 r)),
      (''receipt_sha256'', json_string (hr_ReceiptSHA256 r)),
      (''receipt_bytes'', CHR 0x22 # base64 (bytes_of (hr_ReceiptBytes r)) @ [CHR 0x22]),
      (''validator_identity'', json_string (hr_ValidatorIdentity r)),
      (''validator_revision'', json_string (hr_ValidatorRevision r)),
      (''attempt_started_at'', json_time (hr_AttemptStartedAt r)), (''validated_at'', json_time (hr_ValidatedAt r))]"

definition operationHistoryRecordSeal :: "OperationHistoryRecord \<Rightarrow> string" where
  "operationHistoryRecordSeal r =
     (if json_time_ok (hr_AttemptStartedAt r) \<and> json_time_ok (hr_ValidatedAt r) then sha256_hex (record_json r) else '''')"

definition validateOperationHistoryRecordFields :: "OperationHistoryRecord \<Rightarrow> bool" where
  "validateOperationHistoryRecordFields r \<longleftrightarrow>
     hr_SchemaVersion r = OperationHistoryRecordSchemaVersion \<and> validateOperationHistoryIdentity (hr_Identity r) \<and>
     hr_ReceiptBytes r \<noteq> [] \<and> length (hr_ReceiptBytes r) \<le> MaxOperationHistoryReceiptBytes \<and>
     json_Valid (hr_ReceiptBytes r) \<and> sha256Pattern (hr_ReceiptSchemaSHA256 r) \<and> sha256Pattern (hr_ReceiptSHA256 r) \<and>
     safeOperationHistorySchemaURI (hr_ReceiptSchemaURI r) \<and>
     operationHistorySchemaVersionPattern (hr_ReceiptSchemaVersion r) \<and>
     operationHistoryValidatorPattern (hr_ValidatorIdentity r) \<and> commitPattern (hr_ValidatorRevision r) \<and>
     utcNormalized (hr_AttemptStartedAt r) \<and> utcNormalized (hr_ValidatedAt r) \<and>
     \<not> hr_AttemptStartedAt r > hr_ValidatedAt r \<and> sha256_hex (hr_ReceiptBytes r) = hr_ReceiptSHA256 r"

definition validateOperationHistoryRecord :: "OperationHistoryRecord \<Rightarrow> bool" where
  "validateOperationHistoryRecord r \<longleftrightarrow> hr_validatedByWorker r \<and> sha256Pattern (hr_sealedRecordSHA256 r) \<and>
     validateOperationHistoryRecordFields r \<and> operationHistoryRecordSeal r = hr_sealedRecordSHA256 r"

definition newValidatedOperationHistoryRecord :: "OperationHistoryRecord \<Rightarrow> history_error + OperationHistoryRecord" where
  "newValidatedOperationHistoryRecord r =
     (let marked = r\<lparr>hr_validatedByWorker := True\<rparr>
      in if \<not> validateOperationHistoryRecordFields marked then Inl ErrOperationHistoryUnavailable
         else
           let sealed = marked\<lparr>hr_sealedRecordSHA256 := operationHistoryRecordSeal marked\<rparr>
           in if \<not> validateOperationHistoryRecord sealed then Inl ErrOperationHistoryUnavailable else Inr sealed)"

definition ContentSHA256 :: "OperationHistoryRecord \<Rightarrow> history_error + string" where
  "ContentSHA256 r = (if \<not> validateOperationHistoryRecord r then Inl ErrOperationHistoryUnavailable
     else Inr (hr_sealedRecordSHA256 r))"

definition operationHistoryRecordRefSeal :: "OperationHistoryRecordRef \<Rightarrow> string" where
  "operationHistoryRecordRefSeal ref =
     (if json_time_ok (rf_AppendedAt ref)
      then sha256_hex (json_object [(''record_id'', json_string (rf_RecordID ref)),
        (''sha256'', json_string (rf_SHA256 ref)), (''appended_at'', json_time (rf_AppendedAt ref))])
      else '''')"

definition MatchesValidatedRecord :: "OperationHistoryRecordRef \<Rightarrow> OperationHistoryRecord \<Rightarrow> bool" where
  "MatchesValidatedRecord ref r \<longleftrightarrow> rf_appendProof ref \<noteq> None \<and> validateOperationHistoryRecord r \<and>
     utcNormalized (rf_AppendedAt ref) \<and> \<not> rf_AppendedAt ref < hr_ValidatedAt r \<and>
     operationHistoryIdentityKey (hr_Identity r) = Inr (rf_RecordID ref) \<and> ContentSHA256 r = Inr (rf_SHA256 ref) \<and>
     rf_appendProof ref = Some (operationHistoryRecordRefSeal ref)"

definition newDurableOperationHistoryRecordRef ::
  "OperationHistoryRecord \<Rightarrow> time \<Rightarrow> history_error + OperationHistoryRecordRef" where
  "newDurableOperationHistoryRecordRef r appendedAt =
     (if \<not> validateOperationHistoryRecord r \<or> \<not> utcNormalized appendedAt \<or> appendedAt < hr_ValidatedAt r
      then Inl ErrOperationHistoryUnavailable
      else case operationHistoryIdentityKey (hr_Identity r) of
        Inl _ \<Rightarrow> Inl ErrOperationHistoryUnavailable
      | Inr recordID \<Rightarrow>
          (case ContentSHA256 r of
             Inl _ \<Rightarrow> Inl ErrOperationHistoryUnavailable
           | Inr contentSHA \<Rightarrow>
               let ref = \<lparr>rf_RecordID = recordID, rf_SHA256 = contentSHA, rf_AppendedAt = appendedAt, rf_appendProof = None\<rparr>
               in Inr (ref\<lparr>rf_appendProof := Some (operationHistoryRecordRefSeal ref)\<rparr>)))"

section \<open>Ending an attempt by archived evidence\<close>

record OperationPlanProbeResult =
  pr_ReceiptSHA256 :: string
  pr_ObservedAt :: time
  pr_Outcome :: string
  pr_ReasonCode :: string
  pr_RequestStarted :: bool
  pr_HTTPStatus :: int
  pr_Latency :: duration

text \<open>The validator of stored records is an interface; it seals the record or fails.\<close>

type_synonym history_validator = "OperationHistoryRecord \<Rightarrow> (OperationHistoryRecord \<times> OperationPlanProbeResult) option"

definition MatchesOperationAttempt :: "OperationHistoryIdentity \<Rightarrow> OperationAttemptClaim \<Rightarrow> bool" where
  "MatchesOperationAttempt i claim \<longleftrightarrow> hi_SourceID i = ab_SourceID (at_Binding claim) \<and>
     hi_OperationID i = ab_OperationID (at_Binding claim) \<and> hi_AttemptID i = at_AttemptID claim \<and>
     hi_Generation i = at_Generation claim \<and> hi_RegistryRevision i = ab_RegistryRevision (at_Binding claim) \<and>
     hi_ReleaseManifestSHA256 i = ab_ReleaseManifestSHA (at_Binding claim) \<and>
     hi_IndexSHA256 i = ab_IndexSHA (at_Binding claim) \<and> hi_ShardSHA256 i = ab_ShardSHA (at_Binding claim)"

definition validateOperationAttemptHistoryResult ::
  "bool \<Rightarrow> OperationAttemptClaim \<Rightarrow> OperationHistoryRecord \<Rightarrow> OperationHistoryRecordRef \<Rightarrow> history_validator \<Rightarrow> time
    \<Rightarrow> operation_attempt_error + (OperationHistoryRecord \<times> OperationPlanProbeResult)" where
  "validateOperationAttemptHistoryResult ctx claim candidate ref validator now =
     (if \<not> ctx \<or> \<not> validOperationAttemptClaim claim \<or> IsZero now \<or> rf_RecordID ref = '''' \<or>
         length (rf_RecordID ref) > 256 \<or> IsZero (rf_AppendedAt ref) \<or> rf_AppendedAt ref > now
      then Inl ErrOperationAttemptUnavailable
      else case validator candidate of
        None \<Rightarrow> Inl ErrOperationAttemptUnavailable
      | Some (sealed, probeResult) \<Rightarrow>
          (if \<not> validateOperationHistoryRecord sealed \<or> \<not> MatchesValidatedRecord ref sealed \<or>
              \<not> MatchesOperationAttempt (hr_Identity sealed) claim \<or> hr_AttemptStartedAt sealed \<noteq> at_StartedAt claim \<or>
              hr_ValidatedAt sealed > rf_AppendedAt ref \<or> pr_ReceiptSHA256 probeResult \<noteq> hr_ReceiptSHA256 sealed
           then Inl ErrOperationAttemptUnavailable else Inr (sealed, probeResult)))"

definition operationPlanProbeBlockedReason :: "string \<Rightarrow> string option" where
  "operationPlanProbeBlockedReason reason =
     (if reason = ''credential_binding_unavailable'' \<or> reason = ''credential_source_unavailable''
      then Some ''credential_unavailable''
      else if reason = ''credential_binding_mismatch'' then Some ''credential_mismatch''
      else if reason = ''operation_plan_unsupported'' then Some ''unsupported_contract''
      else if reason = ''deadline_expired_before_request'' then Some ''local_deadline''
      else if reason = ''request_limit_exceeded'' then Some ''child_validation_failed''
      else None)"

definition operationObservationClassification :: "OperationPlanProbeResult \<Rightarrow> string \<times> string" where
  "operationObservationClassification r =
     (if pr_Outcome r = ''healthy'' then (''healthy'', ''healthy'')
      else if pr_Outcome r = ''unhealthy''
      then (if pr_ReasonCode r = ''response_http_failure'' then (''unhealthy'', ''response_http_failure'')
            else (''unhealthy'', ''provider_failure''))
      else if pr_Outcome r = ''indeterminate''
      then (if pr_ReasonCode r = ''response_semantics_unestablished''
            then (''indeterminate'', ''response_semantics_unestablished'') else (''indeterminate'', ''indeterminate''))
      else ('''', ''''))"

text \<open>\<^verbatim>\<open>Duration.Milliseconds\<close> truncates towards zero.\<close>

definition milliseconds :: "duration \<Rightarrow> int" where
  "milliseconds d = (if d < 0 then - (- d div 1000000) else d div 1000000)"

definition archived_result ::
  "OperationHistoryRecord \<Rightarrow> OperationPlanProbeResult \<Rightarrow> OperationHistoryRecordRef \<Rightarrow> OperationObservationResult" where
  "archived_result sealed p ref =
     \<lparr>or_State = fst (operationObservationClassification p), or_Category = snd (operationObservationClassification p),
      or_ObservedAt = pr_ObservedAt p, or_ReceivedAt = hr_ValidatedAt sealed, or_ReceiptSHA = pr_ReceiptSHA256 p,
      or_LatencyMS = milliseconds (pr_Latency p), or_HTTPStatus = pr_HTTPStatus p, or_HistoryRecordID = rf_RecordID ref,
      or_HistoryRecordSHA256 = rf_SHA256 ref, or_validatedHistoryRecord = True\<rparr>"

definition CompleteAttemptFromValidatedHistory ::
  "attempt_io \<Rightarrow> OperationAttemptStore \<Rightarrow> OperationAttemptClaim \<Rightarrow> OperationHistoryRecord \<Rightarrow> OperationHistoryRecordRef
    \<Rightarrow> history_validator \<Rightarrow> time \<Rightarrow> attempt_dir \<Rightarrow> unit attempt_result" where
  "CompleteAttemptFromValidatedHistory io store claim candidate ref validator now d =
     (case validateOperationAttemptHistoryResult (ai_context io) claim candidate ref validator now of
        Inl e \<Rightarrow> (Inl ErrOperationAttemptUnavailable, d)
      | Inr (sealed, p) \<Rightarrow>
          (if \<not> pr_RequestStarted p \<or> IsZero (pr_ObservedAt p) \<or> pr_ReceiptSHA256 p \<noteq> hr_ReceiptSHA256 sealed \<or>
              fst (operationObservationClassification p) = '''' \<or> snd (operationObservationClassification p) = ''''
           then (Inl ErrOperationAttemptUnavailable, d)
           else completeAttemptContext io store claim (archived_result sealed p ref) now d))"

definition RecordRequestStartedFromValidatedHistory ::
  "attempt_io \<Rightarrow> OperationAttemptStore \<Rightarrow> OperationAttemptClaim \<Rightarrow> OperationHistoryRecord \<Rightarrow> OperationHistoryRecordRef
    \<Rightarrow> history_validator \<Rightarrow> time \<Rightarrow> attempt_dir \<Rightarrow> unit attempt_result" where
  "RecordRequestStartedFromValidatedHistory io store claim candidate ref validator now d =
     (case validateOperationAttemptHistoryResult (ai_context io) claim candidate ref validator now of
        Inl e \<Rightarrow> (Inl ErrOperationAttemptUnavailable, d)
      | Inr (_, p) \<Rightarrow>
          (if \<not> pr_RequestStarted p \<or> \<not> IsZero (pr_ObservedAt p) \<or> pr_Outcome p \<noteq> ''indeterminate''
           then (Inl ErrOperationAttemptUnavailable, d)
           else recordRequestStartedWithoutObservationContext io store claim (pr_ReceiptSHA256 p) now d))"

definition RecordBlockedAttemptFromValidatedHistory ::
  "attempt_io \<Rightarrow> OperationAttemptStore \<Rightarrow> OperationAttemptClaim \<Rightarrow> OperationHistoryRecord \<Rightarrow> OperationHistoryRecordRef
    \<Rightarrow> history_validator \<Rightarrow> time \<Rightarrow> attempt_dir \<Rightarrow> unit attempt_result" where
  "RecordBlockedAttemptFromValidatedHistory io store claim candidate ref validator now d =
     (case validateOperationAttemptHistoryResult (ai_context io) claim candidate ref validator now of
        Inl e \<Rightarrow> (Inl ErrOperationAttemptUnavailable, d)
      | Inr (_, p) \<Rightarrow>
          (if pr_RequestStarted p \<or> \<not> IsZero (pr_ObservedAt p) \<or> pr_Outcome p \<noteq> ''blocked''
           then (Inl ErrOperationAttemptUnavailable, d)
           else case operationPlanProbeBlockedReason (pr_ReasonCode p) of
             None \<Rightarrow> (Inl ErrOperationAttemptUnavailable, d)
           | Some blockReason \<Rightarrow> recordBlockedAttemptContext io store claim (pr_ReceiptSHA256 p) blockReason now d))"

end
