(* ===== verification/Operation_History_Files.thy ===== *)
theory Operation_History_Files
  imports Operation_History
begin

text \<open>
  \<^verbatim>\<open>internal/health/operation_history_store.go\<close>, the files: what the archive keeps on disk, the
  JSON texts that are hashed and measured, and the checks on every file it reads.  The frozen
  batches and the publication transactions of \<^verbatim>\<open>operation_history_publication.go\<close> are files of
  the same directory.
\<close>

unbundle bit_operations_syntax

section \<open>Data\<close>

record operationHistoryUsagePayload =
  us_SchemaVersion :: string
  us_MaximumBytes :: int
  us_UsedBytes :: int
  us_ReservedBytes :: int
  us_RecordCount :: int
  us_ReservationCount :: int
  us_AcceptedRecordCount :: int
  us_VerifiedPublicationCount :: int
  us_CapacityBlockedCount :: int
  us_OperationKeyCount :: int
  us_NextSequence :: "64 word"

record OperationHistoryStoreUsage =
  uf_payload :: operationHistoryUsagePayload
  uf_UsageSHA256 :: string

record operationHistoryReservationFile =
  rs_SchemaVersion :: string
  rs_ReservationID :: string
  rs_Token :: string
  rs_Identity :: OperationHistoryIdentity
  rs_ReservedBytes :: int
  rs_CreatedAt :: time

record operationHistoryStoredRecord =
  sd_SchemaVersion :: string
  sd_Record :: OperationHistoryRecord
  sd_RecordSHA256 :: string
  sd_Sequence :: "64 word"
  sd_AppendedAt :: time

record operationHistoryPendingSequenceIndex =
  si_SchemaVersion :: string
  si_Sequence :: "64 word"
  si_RecordID :: string
  si_RecordSHA :: string
  si_SerializedBytes :: int
  si_AppendedAt :: time
  si_IndexSHA256 :: string

record operationHistoryAckRecord =
  ak_RecordID :: string
  ak_RecordSHA :: string
  ak_Sequence :: "64 word"
  ak_AppendedAt :: time
  ak_Identity :: OperationHistoryIdentity

record operationHistoryPendingBatchDescriptor =
  pd_SchemaVersion :: string
  pd_BatchID :: string
  pd_RecordSetSHA :: string
  pd_Records :: "operationHistoryAckRecord list"
  pd_DescriptorSHA :: string

record OperationHistoryPublicationConfirmation =
  pc_BatchID :: string
  pc_DatasetRepo :: string
  pc_Revision :: string
  pc_ManifestSHA256 :: string
  pc_RecordsSHA256 :: string
  pc_RecordSetSHA256 :: string
  pc_VerifiedAt :: time
  pc_verifiedByPublisher :: bool
  pc_sealSHA256 :: string

record operationHistoryOperationIndex =
  ox_SchemaVersion :: string
  ox_Identity :: OperationHistoryIdentity
  ox_RecordSHA :: string
  ox_Sequence :: "64 word"
  ox_AppendedAt :: time
  ox_Confirmation :: OperationHistoryPublicationConfirmation
  ox_IndexSHA256 :: string

record operationHistoryCheckpoint =
  ck_SchemaVersion :: string
  ck_Sequence :: "64 word"
  ck_OperationKeyCount :: int
  ck_OperationIndexSetSHA :: string
  ck_Confirmation :: OperationHistoryPublicationConfirmation
  ck_CheckpointSHA :: string

record operationHistoryIndexChange =
  ic_Key :: string
  ic_Previous :: "operationHistoryOperationIndex option"

record operationHistoryPublicationTransaction =
  pt_SchemaVersion :: string
  pt_BatchID :: string
  pt_RecordSetSHA :: string
  pt_Confirmation :: OperationHistoryPublicationConfirmation
  pt_Records :: "operationHistoryAckRecord list"
  pt_IndexChanges :: "operationHistoryIndexChange list"
  pt_TransactionSHA :: string

record OperationHistoryBatchRecord =
  br_RecordID :: string
  br_RecordSHA :: string
  br_Sequence :: "64 word"
  br_AppendedAt :: time
  br_Record :: OperationHistoryRecord

record OperationHistoryBatch =
  ba_SchemaVersion :: string
  ba_BatchID :: string
  ba_RecordSetSHA :: string
  ba_ManifestSHA256 :: string
  ba_RecordsSHA256 :: string
  ba_Records :: "OperationHistoryBatchRecord list"

record OperationHistoryPublicationReadback =
  pb_DatasetRepo :: string
  pb_Revision :: string
  pb_ManifestSHA256 :: string
  pb_RecordsSHA256 :: string
  pb_RecordSetSHA256 :: string
  pb_VerifiedAt :: time

definition OperationHistoryStoreSchemaVersion :: string where
  "OperationHistoryStoreSchemaVersion = ''datapan.health-operation-history-store.v1''"

definition maxOperationHistoryStoreBytes :: int where "maxOperationHistoryStoreBytes = 512 * 1024 * 1024"
definition maxOperationHistoryPendingRecords :: int where "maxOperationHistoryPendingRecords = 131072"
definition maxOperationHistoryOperationKeys :: int where "maxOperationHistoryOperationKeys = 131072"
definition maxOperationHistoryReservations :: int where "maxOperationHistoryReservations = 1024"
definition operationHistoryFileCharge :: int where "operationHistoryFileCharge = 4 * 1024"
definition operationHistoryPendingMetadataReserve :: int where "operationHistoryPendingMetadataReserve = 16 * 1024"
definition maxOperationHistoryCheckpointFile :: int where "maxOperationHistoryCheckpointFile = 8 * 1024"
definition maxOperationHistoryPublicationTransactionFile :: int where
  "maxOperationHistoryPublicationTransactionFile = 1024 * 1024"
definition maxOperationHistoryPendingBatchDescriptorFile :: int where
  "maxOperationHistoryPendingBatchDescriptorFile = 512 * 1024"
definition operationHistoryOperationIndexMaximumBytes :: int where
  "operationHistoryOperationIndexMaximumBytes = 8 * 1024"
definition operationHistoryPublicationHeadroom :: int where "operationHistoryPublicationHeadroom = 5 * 1024 * 1024"
definition operationHistoryPublicationTailroom :: int where "operationHistoryPublicationTailroom = 4 * 1024 * 1024"
definition MaxOperationHistoryBatchRecords :: nat where "MaxOperationHistoryBatchRecords = 256"
definition MaxOperationHistoryBatchBytes :: int where "MaxOperationHistoryBatchBytes = 8 * 1024 * 1024"

definition fileCharge :: "int \<Rightarrow> int" where
  "fileCharge n = n + operationHistoryFileCharge"

definition operationHistoryPendingRecordCharge :: "int \<Rightarrow> int" where
  "operationHistoryPendingRecordCharge n = fileCharge n + operationHistoryPendingMetadataReserve"

section \<open>JSON texts\<close>

definition bool_json :: "bool \<Rightarrow> string" where
  "bool_json b = (if b then ''true'' else ''false'')"

definition json_array :: "string list \<Rightarrow> string" where
  "json_array items = ''['' @ commas items @ '']''"

definition usage_members :: "operationHistoryUsagePayload \<Rightarrow> (string \<times> string) list" where
  "usage_members u =
     [(''schema_version'', json_string (us_SchemaVersion u)), (''maximum_bytes'', int_dec (us_MaximumBytes u)),
      (''used_bytes'', int_dec (us_UsedBytes u)), (''reserved_bytes'', int_dec (us_ReservedBytes u)),
      (''record_count'', int_dec (us_RecordCount u)), (''reservation_count'', int_dec (us_ReservationCount u)),
      (''accepted_record_count'', int_dec (us_AcceptedRecordCount u)),
      (''verified_publication_count'', int_dec (us_VerifiedPublicationCount u)),
      (''capacity_blocked_count'', int_dec (us_CapacityBlockedCount u)),
      (''operation_key_count'', int_dec (us_OperationKeyCount u)), (''next_sequence'', word_dec (us_NextSequence u))]"

definition stored_record_json :: "operationHistoryStoredRecord \<Rightarrow> string" where
  "stored_record_json s = json_object
     [(''schema_version'', json_string (sd_SchemaVersion s)), (''record'', record_json (sd_Record s)),
      (''record_sha256'', json_string (sd_RecordSHA256 s)), (''sequence'', word_dec (sd_Sequence s)),
      (''appended_at'', json_time (sd_AppendedAt s))]"

definition sequence_members :: "operationHistoryPendingSequenceIndex \<Rightarrow> (string \<times> string) list" where
  "sequence_members i =
     [(''schema_version'', json_string (si_SchemaVersion i)), (''sequence'', word_dec (si_Sequence i)),
      (''record_id'', json_string (si_RecordID i)), (''record_sha256'', json_string (si_RecordSHA i)),
      (''serialized_record_bytes'', int_dec (si_SerializedBytes i)), (''appended_at'', json_time (si_AppendedAt i))]"

definition sequence_json :: "operationHistoryPendingSequenceIndex \<Rightarrow> string" where
  "sequence_json i = json_object (sequence_members i @ [(''index_sha256'', json_string (si_IndexSHA256 i))])"

definition ack_json :: "operationHistoryAckRecord \<Rightarrow> string" where
  "ack_json a = json_object
     [(''record_id'', json_string (ak_RecordID a)), (''record_sha256'', json_string (ak_RecordSHA a)),
      (''sequence'', word_dec (ak_Sequence a)), (''appended_at'', json_time (ak_AppendedAt a)),
      (''identity'', identity_json (ak_Identity a))]"

definition descriptor_members :: "operationHistoryPendingBatchDescriptor \<Rightarrow> (string \<times> string) list" where
  "descriptor_members p =
     [(''schema_version'', json_string (pd_SchemaVersion p)), (''batch_id'', json_string (pd_BatchID p)),
      (''record_set_sha256'', json_string (pd_RecordSetSHA p)),
      (''records'', json_array (List.map ack_json (pd_Records p)))]"

definition descriptor_json :: "operationHistoryPendingBatchDescriptor \<Rightarrow> string" where
  "descriptor_json p = json_object (descriptor_members p @ [(''descriptor_sha256'', json_string (pd_DescriptorSHA p))])"

definition confirmation_json :: "OperationHistoryPublicationConfirmation \<Rightarrow> string" where
  "confirmation_json c = json_object
     [(''batch_id'', json_string (pc_BatchID c)), (''dataset_repo'', json_string (pc_DatasetRepo c)),
      (''revision'', json_string (pc_Revision c)), (''manifest_sha256'', json_string (pc_ManifestSHA256 c)),
      (''records_sha256'', json_string (pc_RecordsSHA256 c)), (''record_set_sha256'', json_string (pc_RecordSetSHA256 c)),
      (''verified_at'', json_time (pc_VerifiedAt c))]"

definition index_members :: "operationHistoryOperationIndex \<Rightarrow> (string \<times> string) list" where
  "index_members x =
     [(''schema_version'', json_string (ox_SchemaVersion x)), (''identity'', identity_json (ox_Identity x)),
      (''record_sha256'', json_string (ox_RecordSHA x)), (''sequence'', word_dec (ox_Sequence x)),
      (''appended_at'', json_time (ox_AppendedAt x)), (''confirmation'', confirmation_json (ox_Confirmation x))]"

definition index_json :: "operationHistoryOperationIndex \<Rightarrow> string" where
  "index_json x = json_object (index_members x @ [(''index_sha256'', json_string (ox_IndexSHA256 x))])"

definition checkpoint_members :: "operationHistoryCheckpoint \<Rightarrow> (string \<times> string) list" where
  "checkpoint_members c =
     [(''schema_version'', json_string (ck_SchemaVersion c)), (''sequence'', word_dec (ck_Sequence c)),
      (''operation_key_count'', int_dec (ck_OperationKeyCount c)),
      (''operation_index_set_sha256'', json_string (ck_OperationIndexSetSHA c)),
      (''confirmation'', confirmation_json (ck_Confirmation c))]"

definition checkpoint_json :: "operationHistoryCheckpoint \<Rightarrow> string" where
  "checkpoint_json c = json_object (checkpoint_members c @ [(''checkpoint_sha256'', json_string (ck_CheckpointSHA c))])"

definition change_json :: "operationHistoryIndexChange \<Rightarrow> string" where
  "change_json c = json_object ((''key'', json_string (ic_Key c)) #
     (case ic_Previous c of None \<Rightarrow> [] | Some x \<Rightarrow> [(''previous'', index_json x)]))"

definition transaction_members :: "operationHistoryPublicationTransaction \<Rightarrow> (string \<times> string) list" where
  "transaction_members t =
     [(''schema_version'', json_string (pt_SchemaVersion t)), (''batch_id'', json_string (pt_BatchID t)),
      (''record_set_sha256'', json_string (pt_RecordSetSHA t)), (''confirmation'', confirmation_json (pt_Confirmation t)),
      (''records'', json_array (List.map ack_json (pt_Records t))),
      (''index_changes'', json_array (List.map change_json (pt_IndexChanges t)))]"

definition transaction_json :: "operationHistoryPublicationTransaction \<Rightarrow> string" where
  "transaction_json t = json_object (transaction_members t @ [(''transaction_sha256'', json_string (pt_TransactionSHA t))])"

section \<open>Digests\<close>

text \<open>
  A digest of a value with a time that \<^verbatim>\<open>json.Marshal\<close> refuses is that of no bytes: the error is
  dropped.
\<close>

definition digest_of :: "bool \<Rightarrow> (string \<times> string) list \<Rightarrow> string" where
  "digest_of encodable members = sha256_hex (if encodable then json_object members else '''')"

definition operationHistoryUsageDigest :: "operationHistoryUsagePayload \<Rightarrow> string" where
  "operationHistoryUsageDigest u = digest_of True (usage_members u)"

definition operationHistoryPendingSequenceIndexDigest :: "operationHistoryPendingSequenceIndex \<Rightarrow> string" where
  "operationHistoryPendingSequenceIndexDigest i = digest_of (json_time_ok (si_AppendedAt i)) (sequence_members i)"

definition acks_encodable :: "operationHistoryAckRecord list \<Rightarrow> bool" where
  "acks_encodable refs \<longleftrightarrow> list_all (\<lambda>a. json_time_ok (ak_AppendedAt a)) refs"

definition operationHistoryPendingBatchDescriptorDigest :: "operationHistoryPendingBatchDescriptor \<Rightarrow> string" where
  "operationHistoryPendingBatchDescriptorDigest p = digest_of (acks_encodable (pd_Records p)) (descriptor_members p)"

definition index_encodable :: "operationHistoryOperationIndex \<Rightarrow> bool" where
  "index_encodable x \<longleftrightarrow> json_time_ok (ox_AppendedAt x) \<and> json_time_ok (pc_VerifiedAt (ox_Confirmation x))"

definition operationHistoryOperationIndexDigest :: "operationHistoryOperationIndex \<Rightarrow> string" where
  "operationHistoryOperationIndexDigest x = digest_of (index_encodable x) (index_members x)"

definition operationHistoryCheckpointDigest :: "operationHistoryCheckpoint \<Rightarrow> string" where
  "operationHistoryCheckpointDigest c = digest_of (json_time_ok (pc_VerifiedAt (ck_Confirmation c))) (checkpoint_members c)"

definition transaction_encodable :: "operationHistoryPublicationTransaction \<Rightarrow> bool" where
  "transaction_encodable t \<longleftrightarrow> json_time_ok (pc_VerifiedAt (pt_Confirmation t)) \<and> acks_encodable (pt_Records t) \<and>
     list_all (\<lambda>c. case ic_Previous c of None \<Rightarrow> True | Some x \<Rightarrow> index_encodable x) (pt_IndexChanges t)"

definition operationHistoryPublicationTransactionDigest :: "operationHistoryPublicationTransaction \<Rightarrow> string" where
  "operationHistoryPublicationTransactionDigest t = digest_of (transaction_encodable t) (transaction_members t)"

definition operationHistoryPublicationConfirmationSeal :: "OperationHistoryPublicationConfirmation \<Rightarrow> string" where
  "operationHistoryPublicationConfirmationSeal c =
     sha256_hex (if json_time_ok (pc_VerifiedAt c) then confirmation_json c else '''')"

definition operationHistoryBatchDigests :: "operationHistoryAckRecord list \<Rightarrow> string \<times> string" where
  "operationHistoryBatchDigests refs =
     (let recordSetSHA = sha256_hex (if acks_encodable refs then json_array (List.map ack_json refs) else '''')
      in (recordSetSHA, sha256_hex (OperationHistoryRecordSchemaVersion @ CHR 0x0A # recordSetSHA)))"

definition operationHistoryOperationIndexID :: "OperationHistoryIdentity \<Rightarrow> string" where
  "operationHistoryOperationIndexID i = sha256_hex (hi_SourceID i @ CHR 0x0A # hi_OperationID i)"

text \<open>The digest of the set of indices: the exclusive or of the digests of its elements.\<close>

definition operationHistoryOperationIndexFingerprint :: "operationHistoryOperationIndex \<Rightarrow> nat list" where
  "operationHistoryOperationIndexFingerprint x =
     sha256_sum (operationHistoryOperationIndexID (ox_Identity x) @ CHR 0x0A # ox_IndexSHA256 x)"

definition xorOperationHistoryDigest :: "nat list \<Rightarrow> nat list \<Rightarrow> nat list" where
  "xorOperationHistoryDigest target v = map2 (\<lambda>a b. a XOR b) target v"

definition zero_digest :: "nat list" where
  "zero_digest = replicate 32 0"

definition hex_value :: "char \<Rightarrow> nat" where
  "hex_value c = (let n = of_char c in if n < 58 then n - 48 else if n < 97 then n - 55 else n - 87)"

fun hex_decode :: "string \<Rightarrow> nat list" where
  "hex_decode (a # b # rest) = (16 * hex_value a + hex_value b) # hex_decode rest"
| "hex_decode _ = []"

text \<open>Only digests that passed \<^verbatim>\<open>sha256Pattern\<close> are decoded, and the empty one of no checkpoint.\<close>

definition decodeOperationHistoryDigest :: "string \<Rightarrow> nat list" where
  "decodeOperationHistoryDigest v =
     (if v = '''' then zero_digest else if hex_string 64 v then hex_decode v else zero_digest)"

section \<open>Reading back\<close>

text \<open>
  A file holds the JSON text of a value.  Decoding it gives the value back except for what JSON does
  not carry: the private fields, and bytes of the operation name that are not UTF-8.  The other
  strings of a value that is written are ASCII.
\<close>

function utf8_repair_bytes :: "nat list \<Rightarrow> nat list" where
  "utf8_repair_bytes [] = []"
| "utf8_repair_bytes (b # bs) =
     (if b < 128 then b # utf8_repair_bytes bs
      else if utf8_len (b # bs) = 1 then 239 # 191 # 189 # utf8_repair_bytes bs
      else take (utf8_len (b # bs)) (b # bs) @ utf8_repair_bytes (drop (utf8_len (b # bs) - 1) bs))"
  by pat_completeness auto
termination by (relation "measure length") auto

definition utf8_repair :: "string \<Rightarrow> string" where
  "utf8_repair s = List.map char_of (utf8_repair_bytes (bytes_of s))"

definition decoded_identity :: "OperationHistoryIdentity \<Rightarrow> OperationHistoryIdentity" where
  "decoded_identity i = i\<lparr>hi_OperationID := utf8_repair (hi_OperationID i)\<rparr>"

definition decoded_record :: "OperationHistoryRecord \<Rightarrow> OperationHistoryRecord" where
  "decoded_record r = r\<lparr>hr_Identity := decoded_identity (hr_Identity r), hr_validatedByWorker := False,
     hr_sealedRecordSHA256 := ''''\<rparr>"

definition decoded_confirmation ::
  "OperationHistoryPublicationConfirmation \<Rightarrow> OperationHistoryPublicationConfirmation" where
  "decoded_confirmation c = c\<lparr>pc_verifiedByPublisher := False, pc_sealSHA256 := ''''\<rparr>"

definition decoded_ack :: "operationHistoryAckRecord \<Rightarrow> operationHistoryAckRecord" where
  "decoded_ack a = a\<lparr>ak_Identity := decoded_identity (ak_Identity a)\<rparr>"

definition decoded_index :: "operationHistoryOperationIndex \<Rightarrow> operationHistoryOperationIndex" where
  "decoded_index x = x\<lparr>ox_Identity := decoded_identity (ox_Identity x),
     ox_Confirmation := decoded_confirmation (ox_Confirmation x)\<rparr>"

definition decoded_descriptor ::
  "operationHistoryPendingBatchDescriptor \<Rightarrow> operationHistoryPendingBatchDescriptor" where
  "decoded_descriptor p = p\<lparr>pd_Records := List.map decoded_ack (pd_Records p)\<rparr>"

definition decoded_checkpoint :: "operationHistoryCheckpoint \<Rightarrow> operationHistoryCheckpoint" where
  "decoded_checkpoint c = c\<lparr>ck_Confirmation := decoded_confirmation (ck_Confirmation c)\<rparr>"

definition decoded_change :: "operationHistoryIndexChange \<Rightarrow> operationHistoryIndexChange" where
  "decoded_change c = c\<lparr>ic_Previous := map_option decoded_index (ic_Previous c)\<rparr>"

definition decoded_transaction ::
  "operationHistoryPublicationTransaction \<Rightarrow> operationHistoryPublicationTransaction" where
  "decoded_transaction t = t\<lparr>pt_Confirmation := decoded_confirmation (pt_Confirmation t),
     pt_Records := List.map decoded_ack (pt_Records t), pt_IndexChanges := List.map decoded_change (pt_IndexChanges t)\<rparr>"

section \<open>Validation\<close>

definition repo_part :: "string \<Rightarrow> bool" where
  "repo_part s \<longleftrightarrow> s \<noteq> [] \<and> alnum (hd s) \<and> length s \<le> 96 \<and> list_all (\<lambda>c. alnum c \<or> c \<in> set ''._-'') (tl s)"

definition operationHistoryDatasetRepoPattern :: "string \<Rightarrow> bool" where
  "operationHistoryDatasetRepoPattern s \<longleftrightarrow>
     (let owner = takeWhile (\<lambda>c. c \<noteq> CHR ''/'') s; rest = drop (length owner) s
      in repo_part owner \<and> rest \<noteq> [] \<and> repo_part (tl rest))"

definition validHistoryRecordID :: "string \<Rightarrow> bool" where
  "validHistoryRecordID s \<longleftrightarrow> hex_string 64 s"

definition validHistoryToken :: "string \<Rightarrow> bool" where
  "validHistoryToken s \<longleftrightarrow> hex_string 64 s"

definition operationHistoryIdentityIDMust :: "OperationHistoryIdentity \<Rightarrow> string" where
  "operationHistoryIdentityIDMust i = (case operationHistoryIdentityKey i of Inl _ \<Rightarrow> '''' | Inr k \<Rightarrow> k)"

definition validOperationHistoryPendingSequenceIndex :: "operationHistoryPendingSequenceIndex \<Rightarrow> 64 word \<Rightarrow> bool" where
  "validOperationHistoryPendingSequenceIndex i seqno \<longleftrightarrow>
     si_SchemaVersion i = OperationHistoryStoreSchemaVersion \<and> si_Sequence i = seqno \<and> seqno > 0 \<and>
     validHistoryRecordID (si_RecordID i) \<and> sha256Pattern (si_RecordSHA i) \<and> si_SerializedBytes i > 0 \<and>
     si_SerializedBytes i \<le> MaxOperationHistoryBatchBytes \<and> utcNormalized (si_AppendedAt i) \<and>
     sha256Pattern (si_IndexSHA256 i) \<and> operationHistoryPendingSequenceIndexDigest i = si_IndexSHA256 i"

definition newOperationHistoryPendingSequenceIndex ::
  "64 word \<Rightarrow> string \<Rightarrow> string \<Rightarrow> int \<Rightarrow> time \<Rightarrow> history_error + operationHistoryPendingSequenceIndex" where
  "newOperationHistoryPendingSequenceIndex seqno recordID recordSHA serialized appendedAt =
     (let blank_index = \<lparr>si_SchemaVersion = OperationHistoryStoreSchemaVersion, si_Sequence = seqno,
            si_RecordID = recordID, si_RecordSHA = recordSHA, si_SerializedBytes = serialized,
            si_AppendedAt = appendedAt, si_IndexSHA256 = ''''\<rparr>;
          index = blank_index\<lparr>si_IndexSHA256 := operationHistoryPendingSequenceIndexDigest blank_index\<rparr>
      in if \<not> validOperationHistoryPendingSequenceIndex index seqno then Inl ErrOperationHistoryUnavailable else Inr index)"

text \<open>A run of acknowledged or pending records: each follows the one before.\<close>

fun successive :: "64 word \<Rightarrow> 64 word list \<Rightarrow> bool" where
  "successive previous [] \<longleftrightarrow> True"
| "successive previous (s # rest) \<longleftrightarrow> s \<noteq> 0 \<and> \<not> (previous \<noteq> 0 \<and> s \<noteq> previous + 1) \<and> successive s rest"

definition descriptor_record_ok :: "operationHistoryAckRecord \<Rightarrow> bool" where
  "descriptor_record_ok a \<longleftrightarrow> validHistoryRecordID (ak_RecordID a) \<and> sha256Pattern (ak_RecordSHA a) \<and>
     utcNormalized (ak_AppendedAt a) \<and> validateOperationHistoryIdentity (ak_Identity a) \<and>
     operationHistoryIdentityIDMust (ak_Identity a) = ak_RecordID a"

definition validateOperationHistoryPendingBatchDescriptor :: "operationHistoryPendingBatchDescriptor \<Rightarrow> bool" where
  "validateOperationHistoryPendingBatchDescriptor p \<longleftrightarrow>
     pd_SchemaVersion p = OperationHistoryStoreSchemaVersion \<and> pd_Records p \<noteq> [] \<and>
     length (pd_Records p) \<le> MaxOperationHistoryBatchRecords \<and> sha256Pattern (pd_BatchID p) \<and>
     sha256Pattern (pd_RecordSetSHA p) \<and> sha256Pattern (pd_DescriptorSHA p) \<and>
     operationHistoryPendingBatchDescriptorDigest p = pd_DescriptorSHA p \<and>
     operationHistoryBatchDigests (pd_Records p) = (pd_RecordSetSHA p, pd_BatchID p) \<and>
     list_all descriptor_record_ok (pd_Records p) \<and> successive 0 (List.map ak_Sequence (pd_Records p))"

definition confirmation_artifact_ok :: "OperationHistoryPublicationConfirmation \<Rightarrow> bool" where
  "confirmation_artifact_ok c \<longleftrightarrow> operationHistoryDatasetRepoPattern (pc_DatasetRepo c) \<and> commitPattern (pc_Revision c) \<and>
     sha256Pattern (pc_ManifestSHA256 c) \<and> sha256Pattern (pc_RecordsSHA256 c)"

definition validOperationHistoryCheckpointConfirmation :: "OperationHistoryPublicationConfirmation \<Rightarrow> bool" where
  "validOperationHistoryCheckpointConfirmation c \<longleftrightarrow> sha256Pattern (pc_BatchID c) \<and> confirmation_artifact_ok c \<and>
     sha256Pattern (pc_RecordSetSHA256 c) \<and> utcNormalized (pc_VerifiedAt c)"

definition validOperationHistoryConfirmation ::
  "OperationHistoryBatch \<Rightarrow> OperationHistoryPublicationConfirmation \<Rightarrow> bool" where
  "validOperationHistoryConfirmation b c \<longleftrightarrow> pc_BatchID c = ba_BatchID b \<and> confirmation_artifact_ok c \<and>
     pc_ManifestSHA256 c = ba_ManifestSHA256 b \<and> pc_RecordsSHA256 c = ba_RecordsSHA256 b \<and>
     pc_RecordSetSHA256 c = ba_RecordSetSHA b \<and> utcNormalized (pc_VerifiedAt c)"

definition validSealedOperationHistoryConfirmation ::
  "OperationHistoryBatch \<Rightarrow> OperationHistoryPublicationConfirmation \<Rightarrow> bool" where
  "validSealedOperationHistoryConfirmation b c \<longleftrightarrow> pc_verifiedByPublisher c \<and> pc_sealSHA256 c \<noteq> '''' \<and>
     operationHistoryPublicationConfirmationSeal c = pc_sealSHA256 c \<and> validOperationHistoryConfirmation b c"

definition newVerifiedOperationHistoryPublicationConfirmation ::
  "OperationHistoryBatch \<Rightarrow> OperationHistoryPublicationReadback
    \<Rightarrow> history_error + OperationHistoryPublicationConfirmation" where
  "newVerifiedOperationHistoryPublicationConfirmation b readback =
     (let c = \<lparr>pc_BatchID = ba_BatchID b, pc_DatasetRepo = pb_DatasetRepo readback, pc_Revision = pb_Revision readback,
            pc_ManifestSHA256 = pb_ManifestSHA256 readback, pc_RecordsSHA256 = pb_RecordsSHA256 readback,
            pc_RecordSetSHA256 = pb_RecordSetSHA256 readback, pc_VerifiedAt = pb_VerifiedAt readback,
            pc_verifiedByPublisher = True, pc_sealSHA256 = ''''\<rparr>
      in if \<not> validOperationHistoryConfirmation b c then Inl ErrOperationHistoryUnavailable
         else Inr (c\<lparr>pc_sealSHA256 := operationHistoryPublicationConfirmationSeal c\<rparr>))"

definition validOperationHistoryOperationIndex :: "operationHistoryOperationIndex \<Rightarrow> string \<Rightarrow> bool" where
  "validOperationHistoryOperationIndex x key \<longleftrightarrow> ox_SchemaVersion x = OperationHistoryStoreSchemaVersion \<and>
     validateOperationHistoryIdentity (ox_Identity x) \<and> operationHistoryOperationIndexID (ox_Identity x) = key \<and>
     sha256Pattern (ox_RecordSHA x) \<and> ox_Sequence x > 0 \<and> utcNormalized (ox_AppendedAt x) \<and>
     hi_Generation (ox_Identity x) > 0 \<and> confirmation_artifact_ok (ox_Confirmation x) \<and>
     sha256Pattern (pc_RecordSetSHA256 (ox_Confirmation x)) \<and> sha256Pattern (pc_BatchID (ox_Confirmation x)) \<and>
     utcNormalized (pc_VerifiedAt (ox_Confirmation x)) \<and> operationHistoryOperationIndexDigest x = ox_IndexSHA256 x"

text \<open>\<open>expectedKeys\<close> maps the key of an operation to the last of its identities in the batch.\<close>

fun expected_keys ::
  "(string, OperationHistoryIdentity) gomap \<Rightarrow> operationHistoryAckRecord list
    \<Rightarrow> (string, OperationHistoryIdentity) gomap option" where
  "expected_keys m [] = Some m"
| "expected_keys m (ref # refs) =
     (let key = operationHistoryOperationIndexID (ak_Identity ref)
      in case gm_get m key of
        None \<Rightarrow> expected_keys (gm_put key (ak_Identity ref) m) refs
      | Some prior \<Rightarrow>
          (if hi_SourceID prior \<noteq> hi_SourceID (ak_Identity ref) \<or> hi_OperationID prior \<noteq> hi_OperationID (ak_Identity ref)
           then None else expected_keys (gm_put key (ak_Identity ref) m) refs))"

definition transaction_record_ok :: "operationHistoryAckRecord \<Rightarrow> bool" where
  "transaction_record_ok a \<longleftrightarrow> validHistoryRecordID (ak_RecordID a) \<and>
     operationHistoryIdentityIDMust (ak_Identity a) = ak_RecordID a \<and> sha256Pattern (ak_RecordSHA a) \<and>
     utcNormalized (ak_AppendedAt a)"

definition change_ok ::
  "operationHistoryAckRecord list \<Rightarrow> (string, OperationHistoryIdentity) gomap \<Rightarrow> operationHistoryIndexChange \<Rightarrow> bool" where
  "change_ok refs expected c \<longleftrightarrow>
     (case gm_get expected (ic_Key c) of
        None \<Rightarrow> False
      | Some operation \<Rightarrow>
          operationHistoryOperationIndexID operation = ic_Key c \<and>
          (case ic_Previous c of
             None \<Rightarrow> True
           | Some previous \<Rightarrow>
               validOperationHistoryOperationIndex previous (ic_Key c) \<and>
               hi_SourceID (ox_Identity previous) = hi_SourceID operation \<and>
               hi_OperationID (ox_Identity previous) = hi_OperationID operation \<and>
               ox_Sequence previous < ak_Sequence (hd refs) \<and>
               list_all (\<lambda>ref. \<not> (operationHistoryOperationIndexID (ak_Identity ref) = ic_Key c \<and>
                 hi_Generation (ak_Identity ref) \<le> hi_Generation (ox_Identity previous))) refs))"

definition validateOperationHistoryPublicationTransaction :: "operationHistoryPublicationTransaction \<Rightarrow> bool" where
  "validateOperationHistoryPublicationTransaction t \<longleftrightarrow>
     pt_SchemaVersion t = OperationHistoryStoreSchemaVersion \<and> pt_Records t \<noteq> [] \<and>
     length (pt_Records t) \<le> MaxOperationHistoryBatchRecords \<and> sha256Pattern (pt_BatchID t) \<and>
     sha256Pattern (pt_RecordSetSHA t) \<and> operationHistoryPublicationTransactionDigest t = pt_TransactionSHA t \<and>
     operationHistoryBatchDigests (pt_Records t) = (pt_RecordSetSHA t, pt_BatchID t) \<and>
     validOperationHistoryConfirmation
       \<lparr>ba_SchemaVersion = '''', ba_BatchID = pt_BatchID t, ba_RecordSetSHA = pt_RecordSetSHA t,
        ba_ManifestSHA256 = pc_ManifestSHA256 (pt_Confirmation t),
        ba_RecordsSHA256 = pc_RecordsSHA256 (pt_Confirmation t), ba_Records = []\<rparr> (pt_Confirmation t) \<and>
     list_all transaction_record_ok (pt_Records t) \<and> successive 0 (List.map ak_Sequence (pt_Records t)) \<and>
     (case expected_keys [] (pt_Records t) of
        None \<Rightarrow> False
      | Some expected \<Rightarrow> length (pt_IndexChanges t) = length expected \<and>
          distinct (List.map ic_Key (pt_IndexChanges t)) \<and>
          list_all (change_ok (pt_Records t) expected) (pt_IndexChanges t))"

definition operationHistoryBatchRefs :: "OperationHistoryBatchRecord list \<Rightarrow> operationHistoryAckRecord list" where
  "operationHistoryBatchRefs items = List.map (\<lambda>b. \<lparr>ak_RecordID = br_RecordID b, ak_RecordSHA = br_RecordSHA b,
     ak_Sequence = br_Sequence b, ak_AppendedAt = br_AppendedAt b, ak_Identity = hr_Identity (br_Record b)\<rparr>) items"

definition newOperationHistoryPendingBatchDescriptor ::
  "OperationHistoryBatch \<Rightarrow> operationHistoryPendingBatchDescriptor" where
  "newOperationHistoryPendingBatchDescriptor b =
     (let p = \<lparr>pd_SchemaVersion = OperationHistoryStoreSchemaVersion, pd_BatchID = ba_BatchID b,
            pd_RecordSetSHA = ba_RecordSetSHA b, pd_Records = operationHistoryBatchRefs (ba_Records b),
            pd_DescriptorSHA = ''''\<rparr>
      in p\<lparr>pd_DescriptorSHA := operationHistoryPendingBatchDescriptorDigest p\<rparr>)"

text \<open>\<^verbatim>\<open>len(json.Marshal(record))\<close> of a valid record; its times can be encoded.\<close>

definition record_length :: "OperationHistoryRecord \<Rightarrow> int" where
  "record_length r = int (length (record_json r))"

definition batch_record_ok :: "OperationHistoryBatchRecord \<Rightarrow> bool" where
  "batch_record_ok b \<longleftrightarrow> validHistoryRecordID (br_RecordID b) \<and> sha256Pattern (br_RecordSHA b) \<and>
     utcNormalized (br_AppendedAt b) \<and> validateOperationHistoryRecord (br_Record b) \<and>
     operationHistoryIdentityIDMust (hr_Identity (br_Record b)) = br_RecordID b \<and>
     ContentSHA256 (br_Record b) = Inr (br_RecordSHA b)"

definition validateOperationHistoryBatch :: "OperationHistoryBatch \<Rightarrow> bool" where
  "validateOperationHistoryBatch b \<longleftrightarrow> ba_SchemaVersion b = OperationHistoryRecordSchemaVersion \<and> ba_Records b \<noteq> [] \<and>
     length (ba_Records b) \<le> MaxOperationHistoryBatchRecords \<and> sha256Pattern (ba_BatchID b) \<and>
     sha256Pattern (ba_RecordSetSHA b) \<and>
     operationHistoryBatchDigests (operationHistoryBatchRefs (ba_Records b)) = (ba_RecordSetSHA b, ba_BatchID b) \<and>
     list_all batch_record_ok (ba_Records b) \<and> successive 0 (List.map br_Sequence (ba_Records b)) \<and>
     sum_list (List.map (\<lambda>r. record_length (br_Record r) + 1) (ba_Records b)) \<le> MaxOperationHistoryBatchBytes"

definition sameOperationHistoryBatch :: "OperationHistoryBatch \<Rightarrow> OperationHistoryBatch \<Rightarrow> bool" where
  "sameOperationHistoryBatch l r \<longleftrightarrow> ba_BatchID l = ba_BatchID r \<and> ba_RecordSetSHA l = ba_RecordSetSHA r \<and>
     operationHistoryBatchRefs (ba_Records l) = operationHistoryBatchRefs (ba_Records r)"

definition sameOperationHistoryAckRecords :: "operationHistoryAckRecord list \<Rightarrow> operationHistoryAckRecord list \<Rightarrow> bool" where
  "sameOperationHistoryAckRecords l r \<longleftrightarrow> l = r"

definition sameOperationHistoryOperationIndex ::
  "operationHistoryOperationIndex \<Rightarrow> operationHistoryOperationIndex \<Rightarrow> bool" where
  "sameOperationHistoryOperationIndex l r \<longleftrightarrow> l = r"

definition sameOperationHistoryPublicationArtifact ::
  "OperationHistoryPublicationConfirmation \<Rightarrow> OperationHistoryPublicationConfirmation \<Rightarrow> bool" where
  "sameOperationHistoryPublicationArtifact l r \<longleftrightarrow> pc_BatchID l = pc_BatchID r \<and> pc_DatasetRepo l = pc_DatasetRepo r \<and>
     pc_Revision l = pc_Revision r \<and> pc_ManifestSHA256 l = pc_ManifestSHA256 r \<and>
     pc_RecordsSHA256 l = pc_RecordsSHA256 r \<and> pc_RecordSetSHA256 l = pc_RecordSetSHA256 r"

end
