(* ===== verification/Operation_History_Store.thy ===== *)
theory Operation_History_Store
  imports Operation_History_Files
begin

text \<open>
  \<^verbatim>\<open>internal/health/operation_history_store.go\<close> and \<^verbatim>\<open>operation_history_publication.go\<close>: the
  directory of the archive, the actions on it, recovery, and the transaction that replaces published
  evidence by an index.  An action takes the directory, what becomes of each of its writes and how
  often its context may still be asked before it is done; it answers with an error or a value, and
  with what it leaves.  A list of write outcomes that ends is a crash: no later write has an effect.
\<close>

section \<open>The directory\<close>

text \<open>
  The four subdirectories map file names, less their suffix, to files in the order they are listed;
  the pending sequence is named by its number.  Of \<^verbatim>\<open>transaction.json\<close> only its presence is ever read.
  Temporary files that a crash leaves, file modes, symbolic links and entries that are not files of
  the archive are not represented.
\<close>

record history_dir =
  hd_usage :: "OperationHistoryStoreUsage stored"
  hd_marker :: bool
  hd_publication :: "operationHistoryPublicationTransaction stored"
  hd_checkpoint :: "operationHistoryCheckpoint stored"
  hd_descriptor :: "operationHistoryPendingBatchDescriptor stored"
  hd_index :: "(string, operationHistoryOperationIndex stored) gomap"
  hd_records :: "(string, operationHistoryStoredRecord stored) gomap"
  hd_sequence :: "(64 word, operationHistoryPendingSequenceIndex stored) gomap"
  hd_reservations :: "(string, operationHistoryReservationFile stored) gomap"

definition file_at :: "('k, 'v stored) gomap \<Rightarrow> 'k \<Rightarrow> 'v stored" where
  "file_at m k = (case gm_get m k of None \<Rightarrow> Absent | Some f \<Rightarrow> f)"

definition present :: "'v stored \<Rightarrow> bool" where
  "present f \<longleftrightarrow> f \<noteq> Absent"

text \<open>The validator of stored records is an interface: it seals the record it accepts.\<close>

type_synonym record_validator = "OperationHistoryRecord \<Rightarrow> OperationHistoryRecord option"

record OperationHistoryStore =
  st_maxBytes :: int
  st_validator :: record_validator

datatype store_error =
    In_store history_error
  | Context_done
  | Not_exist
  | Os_error

definition store_unavailable :: store_error where "store_unavailable = In_store ErrOperationHistoryUnavailable"
definition corrupt :: store_error where "corrupt = In_store ErrOperationHistoryCorrupt"
definition capacity :: store_error where "capacity = In_store ErrOperationHistoryCapacity"
definition stale :: store_error where "stale = In_store ErrOperationHistoryStale"
definition conflict :: store_error where "conflict = In_store ErrOperationHistoryConflict"
definition reserved :: store_error where "reserved = In_store ErrOperationHistoryReserved"

section \<open>Actions\<close>

record history_world =
  hw_dir :: history_dir
  hw_ios :: ios
  hw_polls :: "nat option"

type_synonym 'a action = "history_world \<Rightarrow> (store_error + 'a) \<times> history_world"

definition ret :: "'a \<Rightarrow> 'a action" where
  "ret x w = (Inr x, w)"

definition fail :: "store_error \<Rightarrow> 'a action" where
  "fail e w = (Inl e, w)"

definition bnd :: "'a action \<Rightarrow> ('a \<Rightarrow> 'b action) \<Rightarrow> 'b action" where
  "bnd m f w = (case m w of (Inl e, w') \<Rightarrow> (Inl e, w') | (Inr x, w') \<Rightarrow> f x w')"

definition thn :: "'a action \<Rightarrow> 'b action \<Rightarrow> 'b action" where
  "thn m n = bnd m (\<lambda>_. n)"

text \<open>\<open>ensure b e\<close> is \<^verbatim>\<open>if !b { return e }\<close>; \<open>try\<close> observes the error of an action.\<close>

definition ensure :: "bool \<Rightarrow> store_error \<Rightarrow> unit action" where
  "ensure b e = (if b then ret () else fail e)"

definition attempt_action :: "'a action \<Rightarrow> (store_error + 'a) action" where
  "attempt_action m w = (case m w of (r, w') \<Rightarrow> (Inr r, w'))"

definition look :: "(history_dir \<Rightarrow> store_error + 'a) \<Rightarrow> 'a action" where
  "look f w = (f (hw_dir w), w)"

text \<open>\<^verbatim>\<open>ctx.Err()\<close>: the context lasts for that many more questions, or for ever.\<close>

definition poll :: "unit action" where
  "poll w = (case hw_polls w of
     None \<Rightarrow> (Inr (), w)
   | Some n \<Rightarrow> (if n = 0 then (Inl Context_done, w) else (Inr (), w\<lparr>hw_polls := Some (n - 1)\<rparr>)))"

text \<open>A change of the directory that the file system may refuse, or make and then fail.\<close>

definition change :: "(history_dir \<Rightarrow> history_dir) \<Rightarrow> unit action" where
  "change f w = (case io_effect (hw_ios w) (hw_dir w) (f (hw_dir w)) of
     (success, d, ios) \<Rightarrow> (if success then Inr () else Inl Os_error, w\<lparr>hw_dir := d, hw_ios := ios\<rparr>))"

text \<open>The callers of almost every write answer any error with \<^verbatim>\<open>ErrOperationHistoryUnavailable\<close>.\<close>

definition or_unavailable :: "'a action \<Rightarrow> 'a action" where
  "or_unavailable m w = (case m w of (Inl _, w') \<Rightarrow> (Inl store_unavailable, w') | (Inr x, w') \<Rightarrow> (Inr x, w'))"

fun each :: "('a \<Rightarrow> 's \<Rightarrow> 's action) \<Rightarrow> 'a list \<Rightarrow> 's \<Rightarrow> 's action" where
  "each f [] s = ret s"
| "each f (x # xs) s = bnd (f x s) (each f xs)"

section \<open>Reading files\<close>

definition read_file :: "'v stored \<Rightarrow> ('v \<Rightarrow> nat) \<Rightarrow> int \<Rightarrow> store_error + 'v" where
  "read_file f len maximum =
     (case f of
        Absent \<Rightarrow> Inl Not_exist
      | Garbage \<Rightarrow> Inl corrupt
      | Doc v \<Rightarrow> (if int (len v) > maximum then Inl corrupt else Inr v))"

definition stored_length :: "operationHistoryStoredRecord \<Rightarrow> nat" where
  "stored_length s = length (stored_record_json s)"

definition sequence_length :: "operationHistoryPendingSequenceIndex \<Rightarrow> nat" where
  "sequence_length i = length (sequence_json i)"

definition index_length :: "operationHistoryOperationIndex \<Rightarrow> nat" where
  "index_length x = length (index_json x)"

definition checkpoint_length :: "operationHistoryCheckpoint \<Rightarrow> nat" where
  "checkpoint_length c = length (checkpoint_json c)"

definition descriptor_length :: "operationHistoryPendingBatchDescriptor \<Rightarrow> nat" where
  "descriptor_length p = length (descriptor_json p)"

definition transaction_length :: "operationHistoryPublicationTransaction \<Rightarrow> nat" where
  "transaction_length t = length (transaction_json t)"

definition reservation_json :: "operationHistoryReservationFile \<Rightarrow> string" where
  "reservation_json r = json_object
     [(''schema_version'', json_string (rs_SchemaVersion r)), (''reservation_id'', json_string (rs_ReservationID r)),
      (''token'', json_string (rs_Token r)), (''identity'', identity_json (rs_Identity r)),
      (''reserved_bytes'', int_dec (rs_ReservedBytes r)), (''created_at'', json_time (rs_CreatedAt r))]"

definition reservation_length :: "operationHistoryReservationFile \<Rightarrow> nat" where
  "reservation_length r = length (reservation_json r)"

definition usage_json :: "OperationHistoryStoreUsage \<Rightarrow> string" where
  "usage_json u = json_object (usage_members (uf_payload u) @ [(''usage_sha256'', json_string (uf_UsageSHA256 u))])"

definition usage_length :: "OperationHistoryStoreUsage \<Rightarrow> nat" where
  "usage_length u = length (usage_json u)"

text \<open>The size of a file; one that does not decode has failed to be read before its size is asked.\<close>

definition file_size :: "'v stored \<Rightarrow> ('v \<Rightarrow> nat) \<Rightarrow> int" where
  "file_size f len = (case f of Doc v \<Rightarrow> int (len v) | _ \<Rightarrow> 0)"

definition int64 :: "int \<Rightarrow> int" where
  "int64 x = (x + 2 ^ 63) mod 2 ^ 64 - 2 ^ 63"

definition usage_ok :: "int \<Rightarrow> operationHistoryUsagePayload \<Rightarrow> bool" where
  "usage_ok maxBytes u \<longleftrightarrow> us_SchemaVersion u = OperationHistoryStoreSchemaVersion \<and> us_MaximumBytes u = maxBytes \<and>
     us_UsedBytes u \<ge> 0 \<and> us_ReservedBytes u \<ge> 0 \<and> us_RecordCount u \<ge> 0 \<and>
     us_RecordCount u \<le> maxOperationHistoryPendingRecords \<and> us_ReservationCount u \<ge> 0 \<and>
     us_ReservationCount u \<le> maxOperationHistoryReservations \<and> us_AcceptedRecordCount u \<ge> us_RecordCount u \<and>
     us_VerifiedPublicationCount u \<ge> 0 \<and>
     us_VerifiedPublicationCount u = us_AcceptedRecordCount u - us_RecordCount u \<and> us_CapacityBlockedCount u \<ge> 0 \<and>
     us_OperationKeyCount u \<ge> 0 \<and> us_OperationKeyCount u \<le> maxOperationHistoryOperationKeys \<and>
     us_NextSequence u = word_of_int (us_AcceptedRecordCount u) + 1 \<and>
     int64 (us_UsedBytes u + us_ReservedBytes u) \<le> maxBytes"

definition readUsage :: "OperationHistoryStore \<Rightarrow> history_dir \<Rightarrow> store_error + operationHistoryUsagePayload" where
  "readUsage st d =
     (case read_file (hd_usage d) usage_length (16 * 1024) of
        Inl e \<Rightarrow> Inl e
      | Inr u \<Rightarrow>
          (if usage_ok (st_maxBytes st) (uf_payload u) \<and> operationHistoryUsageDigest (uf_payload u) = uf_UsageSHA256 u
           then Inr (uf_payload u) else Inl corrupt))"

definition readStoredRecord ::
  "OperationHistoryStore \<Rightarrow> string \<Rightarrow> history_dir \<Rightarrow> store_error + operationHistoryStoredRecord" where
  "readStoredRecord st k d =
     (case read_file (file_at (hd_records d) k) stored_length (int MaxOperationHistoryReservedBytes) of
        Inl _ \<Rightarrow> Inl corrupt
      | Inr s \<Rightarrow>
          (if sd_SchemaVersion s \<noteq> OperationHistoryStoreSchemaVersion \<or> sd_Sequence s = 0 \<or>
              \<not> utcNormalized (sd_AppendedAt s) \<or> \<not> validHistoryRecordID k
           then Inl corrupt
           else case st_validator st (decoded_record (sd_Record s)) of
             None \<Rightarrow> Inl corrupt
           | Some sealed \<Rightarrow>
               (if \<not> validateOperationHistoryRecord sealed \<or> operationHistoryIdentityIDMust (hr_Identity sealed) \<noteq> k \<or>
                   ContentSHA256 sealed \<noteq> Inr (sd_RecordSHA256 s)
                then Inl corrupt else Inr (s\<lparr>sd_Record := sealed\<rparr>))))"

definition decoded_reservation :: "operationHistoryReservationFile \<Rightarrow> operationHistoryReservationFile" where
  "decoded_reservation r = r\<lparr>rs_Identity := decoded_identity (rs_Identity r)\<rparr>"

definition readReservation :: "string \<Rightarrow> history_dir \<Rightarrow> store_error + operationHistoryReservationFile" where
  "readReservation k d =
     (case read_file (file_at (hd_reservations d) k) reservation_length (16 * 1024) of
        Inl e \<Rightarrow> Inl e
      | Inr raw \<Rightarrow>
          (let r = decoded_reservation raw
           in if rs_SchemaVersion r \<noteq> OperationHistoryStoreSchemaVersion \<or> rs_ReservationID r \<noteq> k \<or>
                 \<not> validHistoryToken (rs_Token r) \<or> \<not> validateOperationHistoryIdentity (rs_Identity r) \<or>
                 operationHistoryIdentityIDMust (rs_Identity r) \<noteq> k \<or>
                 rs_ReservedBytes r \<noteq> int MaxOperationHistoryReservedBytes \<or> \<not> utcNormalized (rs_CreatedAt r)
              then Inl corrupt else Inr r))"

definition readPendingSequenceIndex ::
  "64 word \<Rightarrow> history_dir \<Rightarrow> store_error + operationHistoryPendingSequenceIndex option" where
  "readPendingSequenceIndex seqno d =
     (case read_file (file_at (hd_sequence d) seqno) sequence_length (16 * 1024) of
        Inl e \<Rightarrow> (if e = Not_exist then Inr None else Inl corrupt)
      | Inr i \<Rightarrow> (if validOperationHistoryPendingSequenceIndex i seqno then Inr (Some i) else Inl corrupt))"

definition readPendingBatchDescriptor ::
  "history_dir \<Rightarrow> store_error + operationHistoryPendingBatchDescriptor option" where
  "readPendingBatchDescriptor d =
     (case read_file (hd_descriptor d) descriptor_length maxOperationHistoryPendingBatchDescriptorFile of
        Inl e \<Rightarrow> (if e = Not_exist then Inr None else Inl corrupt)
      | Inr raw \<Rightarrow>
          (if validateOperationHistoryPendingBatchDescriptor (decoded_descriptor raw)
           then Inr (Some (decoded_descriptor raw)) else Inl corrupt))"

definition readOperationIndex ::
  "OperationHistoryIdentity \<Rightarrow> history_dir \<Rightarrow> store_error + operationHistoryOperationIndex option" where
  "readOperationIndex i d =
     (if \<not> validateOperationHistoryIdentity i then Inl corrupt
      else
        let key = operationHistoryOperationIndexID i
        in case read_file (file_at (hd_index d) key) index_length operationHistoryOperationIndexMaximumBytes of
             Inl e \<Rightarrow> (if e = Not_exist then Inr None else Inl corrupt)
           | Inr raw \<Rightarrow>
               (let x = decoded_index raw
                in if validOperationHistoryOperationIndex x key \<and> hi_SourceID (ox_Identity x) = hi_SourceID i \<and>
                      hi_OperationID (ox_Identity x) = hi_OperationID i
                   then Inr (Some x) else Inl corrupt))"

definition operationIndexExists :: "OperationHistoryIdentity \<Rightarrow> history_dir \<Rightarrow> bool" where
  "operationIndexExists i d = (case readOperationIndex i d of Inr (Some _) \<Rightarrow> True | _ \<Rightarrow> False)"

text \<open>Without a checkpoint every field has Go's zero value.\<close>

definition no_confirmation :: OperationHistoryPublicationConfirmation where
  "no_confirmation = \<lparr>pc_BatchID = '''', pc_DatasetRepo = '''', pc_Revision = '''', pc_ManifestSHA256 = '''',
     pc_RecordsSHA256 = '''', pc_RecordSetSHA256 = '''', pc_VerifiedAt = time_zero, pc_verifiedByPublisher = False,
     pc_sealSHA256 = ''''\<rparr>"

definition no_checkpoint :: operationHistoryCheckpoint where
  "no_checkpoint = \<lparr>ck_SchemaVersion = '''', ck_Sequence = 0, ck_OperationKeyCount = 0, ck_OperationIndexSetSHA = '''',
     ck_Confirmation = no_confirmation, ck_CheckpointSHA = ''''\<rparr>"

definition checkpoint_ok :: "operationHistoryCheckpoint \<Rightarrow> bool" where
  "checkpoint_ok c \<longleftrightarrow> ck_SchemaVersion c = OperationHistoryStoreSchemaVersion \<and> ck_Sequence c \<noteq> 0 \<and>
     uint (ck_Sequence c) \<le> 2 ^ 63 - 1 \<and> ck_OperationKeyCount c \<ge> 0 \<and>
     ck_OperationKeyCount c \<le> maxOperationHistoryOperationKeys \<and> sha256Pattern (ck_OperationIndexSetSHA c) \<and>
     validOperationHistoryCheckpointConfirmation (ck_Confirmation c) \<and>
     operationHistoryCheckpointDigest c = ck_CheckpointSHA c"

definition readCheckpoint :: "history_dir \<Rightarrow> store_error + operationHistoryCheckpoint" where
  "readCheckpoint d =
     (case read_file (hd_checkpoint d) checkpoint_length maxOperationHistoryCheckpointFile of
        Inl e \<Rightarrow> (if e = Not_exist then Inr no_checkpoint else Inl corrupt)
      | Inr raw \<Rightarrow> (if checkpoint_ok (decoded_checkpoint raw) then Inr (decoded_checkpoint raw) else Inl corrupt))"

definition readPublicationTransaction ::
  "history_dir \<Rightarrow> store_error + operationHistoryPublicationTransaction" where
  "readPublicationTransaction d =
     (case read_file (hd_publication d) transaction_length maxOperationHistoryPublicationTransactionFile of
        Inl e \<Rightarrow> Inl e
      | Inr raw \<Rightarrow>
          (if validateOperationHistoryPublicationTransaction (decoded_transaction raw)
           then Inr (decoded_transaction raw) else Inl corrupt))"

section \<open>Writing files\<close>

definition remove_file :: "(history_dir \<Rightarrow> bool) \<Rightarrow> (history_dir \<Rightarrow> history_dir) \<Rightarrow> unit action" where
  "remove_file here f w = (if here (hw_dir w) then change f w else ret () w)"

definition write_json :: "bool \<Rightarrow> (history_dir \<Rightarrow> history_dir) \<Rightarrow> unit action" where
  "write_json encodable f = (if encodable then change f else fail Os_error)"

definition set_index :: "string \<Rightarrow> operationHistoryOperationIndex \<Rightarrow> history_dir \<Rightarrow> history_dir" where
  "set_index k x d = d\<lparr>hd_index := gm_put k (Doc x) (hd_index d)\<rparr>"

definition set_record :: "string \<Rightarrow> operationHistoryStoredRecord \<Rightarrow> history_dir \<Rightarrow> history_dir" where
  "set_record k s d = d\<lparr>hd_records := gm_put k (Doc s) (hd_records d)\<rparr>"

definition set_sequence :: "64 word \<Rightarrow> operationHistoryPendingSequenceIndex \<Rightarrow> history_dir \<Rightarrow> history_dir" where
  "set_sequence n i d = d\<lparr>hd_sequence := gm_put n (Doc i) (hd_sequence d)\<rparr>"

definition set_reservation :: "string \<Rightarrow> operationHistoryReservationFile \<Rightarrow> history_dir \<Rightarrow> history_dir" where
  "set_reservation k r d = d\<lparr>hd_reservations := gm_put k (Doc r) (hd_reservations d)\<rparr>"

definition drop_record :: "string \<Rightarrow> history_dir \<Rightarrow> history_dir" where
  "drop_record k d = d\<lparr>hd_records := AList.delete k (hd_records d)\<rparr>"

definition drop_sequence :: "64 word \<Rightarrow> history_dir \<Rightarrow> history_dir" where
  "drop_sequence n d = d\<lparr>hd_sequence := AList.delete n (hd_sequence d)\<rparr>"

definition drop_reservation :: "string \<Rightarrow> history_dir \<Rightarrow> history_dir" where
  "drop_reservation k d = d\<lparr>hd_reservations := AList.delete k (hd_reservations d)\<rparr>"

definition remove_record :: "string \<Rightarrow> unit action" where
  "remove_record k = or_unavailable (remove_file (\<lambda>d. present (file_at (hd_records d) k)) (drop_record k))"

definition remove_sequence :: "64 word \<Rightarrow> unit action" where
  "remove_sequence n = or_unavailable (remove_file (\<lambda>d. present (file_at (hd_sequence d) n)) (drop_sequence n))"

definition remove_reservation :: "string \<Rightarrow> unit action" where
  "remove_reservation k =
     or_unavailable (remove_file (\<lambda>d. present (file_at (hd_reservations d) k)) (drop_reservation k))"

definition remove_descriptor :: "unit action" where
  "remove_descriptor = or_unavailable (remove_file (\<lambda>d. present (hd_descriptor d)) (\<lambda>d. d\<lparr>hd_descriptor := Absent\<rparr>))"

definition remove_publication :: "unit action" where
  "remove_publication = or_unavailable (remove_file (\<lambda>d. present (hd_publication d)) (\<lambda>d. d\<lparr>hd_publication := Absent\<rparr>))"

definition publicOperationHistoryUsage :: "operationHistoryUsagePayload \<Rightarrow> OperationHistoryStoreUsage" where
  "publicOperationHistoryUsage u = \<lparr>uf_payload = u, uf_UsageSHA256 = operationHistoryUsageDigest u\<rparr>"

definition writeUsage :: "operationHistoryUsagePayload \<Rightarrow> unit action" where
  "writeUsage u = change (\<lambda>d. d\<lparr>hd_usage := Doc (publicOperationHistoryUsage u)\<rparr>)"

definition beginMutationLocked :: "unit action" where
  "beginMutationLocked = or_unavailable (change (\<lambda>d. d\<lparr>hd_marker := True\<rparr>))"

definition clear_marker :: "unit action" where
  "clear_marker = or_unavailable (remove_file hd_marker (\<lambda>d. d\<lparr>hd_marker := False\<rparr>))"

definition finishMutationLocked :: "operationHistoryUsagePayload \<Rightarrow> unit action" where
  "finishMutationLocked u = thn (or_unavailable (writeUsage u)) clear_marker"

text \<open>Errors of recording that capacity was refused are dropped.\<close>

definition recordCapacityBlockLocked :: "operationHistoryUsagePayload \<Rightarrow> unit action" where
  "recordCapacityBlockLocked u =
     (if us_CapacityBlockedCount u = 2 ^ 63 - 1 then ret ()
      else thn (attempt_action (thn beginMutationLocked
        (finishMutationLocked (u\<lparr>us_CapacityBlockedCount := us_CapacityBlockedCount u + 1\<rparr>)))) (ret ()))"

section \<open>Publication\<close>

text \<open>
  A transaction replaces a batch of pending records by the index of each operation.  The changes of
  a validated transaction have distinct keys; \<^verbatim>\<open>range\<close> visits the maps in the order of the lists.
\<close>

definition changes_of ::
  "operationHistoryPublicationTransaction \<Rightarrow> (string, operationHistoryIndexChange) gomap" where
  "changes_of t = List.map (\<lambda>c. (ic_Key c, c)) (pt_IndexChanges t)"

definition candidate_index ::
  "operationHistoryPublicationTransaction \<Rightarrow> operationHistoryAckRecord \<Rightarrow> operationHistoryOperationIndex" where
  "candidate_index t ref = \<lparr>ox_SchemaVersion = OperationHistoryStoreSchemaVersion, ox_Identity = ak_Identity ref,
     ox_RecordSHA = ak_RecordSHA ref, ox_Sequence = ak_Sequence ref, ox_AppendedAt = ak_AppendedAt ref,
     ox_Confirmation = pt_Confirmation t, ox_IndexSHA256 = ''''\<rparr>"

text \<open>Where the record of a reference is still there, it and its place in the sequence are the ones meant.\<close>

definition sequence_matches :: "operationHistoryAckRecord \<Rightarrow> history_dir \<Rightarrow> bool" where
  "sequence_matches ref d \<longleftrightarrow>
     (case readPendingSequenceIndex (ak_Sequence ref) d of
        Inr (Some i) \<Rightarrow> si_RecordID i = ak_RecordID ref \<and> si_RecordSHA i = ak_RecordSHA ref \<and>
          si_AppendedAt i = ak_AppendedAt ref
      | _ \<Rightarrow> False)"

definition stored_matches :: "operationHistoryAckRecord \<Rightarrow> operationHistoryStoredRecord \<Rightarrow> bool" where
  "stored_matches ref s \<longleftrightarrow> sd_Sequence s = ak_Sequence ref \<and> sd_RecordSHA256 s = ak_RecordSHA ref \<and>
     sd_AppendedAt s = ak_AppendedAt ref \<and> hr_Identity (sd_Record s) = ak_Identity ref"

definition evidence_matches :: "OperationHistoryStore \<Rightarrow> operationHistoryAckRecord \<Rightarrow> history_dir \<Rightarrow> bool" where
  "evidence_matches st ref d \<longleftrightarrow> \<not> present (file_at (hd_records d) (ak_RecordID ref)) \<or>
     (case readStoredRecord st (ak_RecordID ref) d of
        Inl _ \<Rightarrow> False
      | Inr s \<Rightarrow> stored_matches ref s \<and> sequence_matches ref d)"

definition supersedes :: "operationHistoryOperationIndex \<Rightarrow> operationHistoryOperationIndex \<Rightarrow> bool" where
  "supersedes candidate prior \<longleftrightarrow> hi_SourceID (ox_Identity prior) = hi_SourceID (ox_Identity candidate) \<and>
     hi_OperationID (ox_Identity prior) = hi_OperationID (ox_Identity candidate) \<and>
     hi_Generation (ox_Identity prior) < hi_Generation (ox_Identity candidate) \<and>
     ox_Sequence prior < ox_Sequence candidate"

definition apply_ref ::
  "OperationHistoryStore \<Rightarrow> operationHistoryPublicationTransaction \<Rightarrow> operationHistoryAckRecord
    \<Rightarrow> (string, operationHistoryOperationIndex) gomap \<Rightarrow> (string, operationHistoryOperationIndex) gomap action" where
  "apply_ref st t ref indices = thn poll (look (\<lambda>d.
     let key = operationHistoryOperationIndexID (ak_Identity ref)
     in if \<not> evidence_matches st ref d then Inl corrupt
        else if gm_get (changes_of t) key = None then Inl corrupt
        else case gm_get indices key of
          None \<Rightarrow> Inr (gm_put key (candidate_index t ref) indices)
        | Some prior \<Rightarrow>
            (if supersedes (candidate_index t ref) prior then Inr (gm_put key (candidate_index t ref) indices)
             else Inl corrupt)))"

definition sealed_index :: "operationHistoryOperationIndex \<Rightarrow> operationHistoryOperationIndex" where
  "sealed_index x = x\<lparr>ox_IndexSHA256 := operationHistoryOperationIndexDigest x\<rparr>"

text \<open>The index on disk is the one before the change, or the one after it.\<close>

definition apply_change ::
  "(string \<times> operationHistoryIndexChange) \<Rightarrow> (string, operationHistoryOperationIndex) gomap
    \<Rightarrow> (string, operationHistoryOperationIndex) gomap action" where
  "apply_change kc indices = look (\<lambda>d.
     case gm_get indices (fst kc) of
       None \<Rightarrow> Inl corrupt
     | Some x \<Rightarrow>
         let final = sealed_index x
         in case readOperationIndex (ox_Identity final) d of
              Inl e \<Rightarrow> Inl e
            | Inr None \<Rightarrow> (if ic_Previous (snd kc) \<noteq> None then Inl corrupt else Inr (gm_put (fst kc) final indices))
            | Inr (Some current) \<Rightarrow>
                (if \<not> sameOperationHistoryOperationIndex current final \<and> ic_Previous (snd kc) \<noteq> Some current
                 then Inl corrupt else Inr (gm_put (fst kc) final indices)))"

definition drop_evidence :: "operationHistoryAckRecord \<Rightarrow> unit \<Rightarrow> unit action" where
  "drop_evidence ref u = thn (remove_record (ak_RecordID ref)) (remove_sequence (ak_Sequence ref))"

definition store_index :: "(string \<times> operationHistoryOperationIndex) \<Rightarrow> unit \<Rightarrow> unit action" where
  "store_index kx u = or_unavailable (write_json (index_encodable (snd kx)) (set_index (fst kx) (snd kx)))"

text \<open>The number of operations with an index, and the digest of the set of indices.\<close>

definition count_change ::
  "(string, operationHistoryOperationIndex) gomap \<Rightarrow> int \<times> nat list \<Rightarrow> string \<times> operationHistoryIndexChange
    \<Rightarrow> int \<times> nat list" where
  "count_change indices acc kc =
     (let fresh = (case gm_get indices (fst kc) of None \<Rightarrow> zero_digest | Some x \<Rightarrow> operationHistoryOperationIndexFingerprint x)
      in case ic_Previous (snd kc) of
           None \<Rightarrow> (fst acc + 1, xorOperationHistoryDigest (snd acc) fresh)
         | Some previous \<Rightarrow>
             (fst acc, xorOperationHistoryDigest
               (xorOperationHistoryDigest (snd acc) (operationHistoryOperationIndexFingerprint previous)) fresh))"

definition next_checkpoint ::
  "operationHistoryPublicationTransaction \<Rightarrow> (string, operationHistoryOperationIndex) gomap \<Rightarrow> operationHistoryCheckpoint
    \<Rightarrow> operationHistoryCheckpoint" where
  "next_checkpoint t indices cp =
     (let (keys, digest) = foldl (count_change indices)
            (ck_OperationKeyCount cp, decodeOperationHistoryDigest (ck_OperationIndexSetSHA cp)) (changes_of t);
          c = \<lparr>ck_SchemaVersion = OperationHistoryStoreSchemaVersion, ck_Sequence = ak_Sequence (last (pt_Records t)),
               ck_OperationKeyCount = keys, ck_OperationIndexSetSHA = hex_encode digest,
               ck_Confirmation = pt_Confirmation t, ck_CheckpointSHA = ''''\<rparr>
      in c\<lparr>ck_CheckpointSHA := operationHistoryCheckpointDigest c\<rparr>)"

definition store_checkpoint :: "operationHistoryCheckpoint \<Rightarrow> unit action" where
  "store_checkpoint c = or_unavailable (write_json (json_time_ok (pc_VerifiedAt (ck_Confirmation c)))
     (\<lambda>d. d\<lparr>hd_checkpoint := Doc c\<rparr>))"

definition replayed :: "operationHistoryPublicationTransaction \<Rightarrow> operationHistoryCheckpoint \<Rightarrow> bool" where
  "replayed t cp \<longleftrightarrow> ck_Sequence cp = ak_Sequence (last (pt_Records t)) \<and> pc_BatchID (ck_Confirmation cp) = pt_BatchID t"

definition descriptor_fits ::
  "operationHistoryPublicationTransaction \<Rightarrow> operationHistoryPendingBatchDescriptor \<Rightarrow> bool" where
  "descriptor_fits t p \<longleftrightarrow> pd_BatchID p = pt_BatchID t \<and> pd_RecordSetSHA p = pt_RecordSetSHA t \<and>
     sameOperationHistoryAckRecords (pd_Records p) (pt_Records t)"

definition apply_effects ::
  "operationHistoryPublicationTransaction \<Rightarrow> operationHistoryCheckpoint \<Rightarrow> (string, operationHistoryOperationIndex) gomap
    \<Rightarrow> unit action" where
  "apply_effects t cp indices =
     thn (each drop_evidence (pt_Records t) ())
     (thn (each store_index indices ())
     (thn (if replayed t cp then ret () else store_checkpoint (next_checkpoint t indices cp))
     remove_descriptor))"

definition applyPublicationTransactionLocked ::
  "OperationHistoryStore \<Rightarrow> operationHistoryPublicationTransaction \<Rightarrow> unit action" where
  "applyPublicationTransactionLocked st t =
     thn (ensure (validateOperationHistoryPublicationTransaction t) corrupt)
     (bnd (look readCheckpoint) (\<lambda>cp.
      thn (ensure (if replayed t cp then sameOperationHistoryPublicationArtifact (ck_Confirmation cp) (pt_Confirmation t)
        else ck_Sequence cp + 1 = ak_Sequence (hd (pt_Records t))) corrupt)
     (bnd (look readPendingBatchDescriptor) (\<lambda>descriptor.
      thn (ensure (case descriptor of None \<Rightarrow> replayed t cp | Some p \<Rightarrow> descriptor_fits t p) corrupt)
     (bnd (each (apply_ref st t) (pt_Records t) []) (\<lambda>candidates.
      bnd (each apply_change (changes_of t) candidates) (\<lambda>indices.
      apply_effects t cp indices)))))))"

section \<open>Recovery\<close>

definition no_usage :: operationHistoryUsagePayload where
  "no_usage = \<lparr>us_SchemaVersion = '''', us_MaximumBytes = 0, us_UsedBytes = 0, us_ReservedBytes = 0, us_RecordCount = 0,
     us_ReservationCount = 0, us_AcceptedRecordCount = 0, us_VerifiedPublicationCount = 0, us_CapacityBlockedCount = 0,
     us_OperationKeyCount = 0, us_NextSequence = 0\<rparr>"

definition use_bytes :: "int \<Rightarrow> operationHistoryUsagePayload \<Rightarrow> operationHistoryUsagePayload" where
  "use_bytes n u = u\<lparr>us_UsedBytes := us_UsedBytes u + n\<rparr>"

definition listed :: "int \<Rightarrow> ('k \<times> 'v) list \<Rightarrow> bool" where
  "listed maximum m \<longleftrightarrow> int (length m) \<le> maximum"

definition scan_index ::
  "operationHistoryCheckpoint \<Rightarrow> (string \<times> operationHistoryOperationIndex stored)
    \<Rightarrow> operationHistoryUsagePayload \<times> nat list \<Rightarrow> (operationHistoryUsagePayload \<times> nat list) action" where
  "scan_index cp entry acc = thn poll (look (\<lambda>d.
     case read_file (snd entry) index_length operationHistoryOperationIndexMaximumBytes of
       Inl _ \<Rightarrow> Inl corrupt
     | Inr raw \<Rightarrow>
         (let x = decoded_index raw
          in if \<not> validHistoryRecordID (fst entry) \<or> \<not> validOperationHistoryOperationIndex x (fst entry) \<or>
                ox_Sequence x > ck_Sequence cp
             then Inl corrupt
             else Inr (use_bytes (fileCharge (int (index_length raw)))
                 ((fst acc)\<lparr>us_OperationKeyCount := us_OperationKeyCount (fst acc) + 1\<rparr>),
               xorOperationHistoryDigest (snd acc) (operationHistoryOperationIndexFingerprint x)))))"

text \<open>A pending record finds its entry in the sequence, or writes the one a crash has lost.\<close>

definition pending_entry ::
  "string \<Rightarrow> operationHistoryStoredRecord \<Rightarrow> history_error + operationHistoryPendingSequenceIndex" where
  "pending_entry k s = newOperationHistoryPendingSequenceIndex (sd_Sequence s) k (sd_RecordSHA256 s)
     (record_length (sd_Record s)) (sd_AppendedAt s)"

definition restore_sequence ::
  "string \<Rightarrow> operationHistoryStoredRecord \<Rightarrow> operationHistoryPendingSequenceIndex option \<Rightarrow> unit action" where
  "restore_sequence k s found =
     (case found of
        Some i \<Rightarrow> ensure (si_RecordID i = k \<and> si_RecordSHA i = sd_RecordSHA256 s \<and>
          si_SerializedBytes i = record_length (sd_Record s) \<and> si_AppendedAt i = sd_AppendedAt s) corrupt
      | None \<Rightarrow>
          (case pending_entry k s of
             Inl _ \<Rightarrow> fail store_unavailable
           | Inr i \<Rightarrow> or_unavailable (write_json (json_time_ok (si_AppendedAt i)) (set_sequence (sd_Sequence s) i))))"

definition overtaken :: "64 word \<Rightarrow> operationHistoryOperationIndex option \<Rightarrow> bool" where
  "overtaken i found = (case found of None \<Rightarrow> False | Some x \<Rightarrow> hi_Generation (ox_Identity x) \<ge> i)"

definition count_record ::
  "(string \<times> operationHistoryStoredRecord stored) \<Rightarrow> operationHistoryStoredRecord
    \<Rightarrow> operationHistoryUsagePayload \<times> 64 word list \<Rightarrow> history_dir \<Rightarrow> operationHistoryUsagePayload \<times> 64 word list" where
  "count_record entry s acc d =
     (use_bytes (operationHistoryPendingRecordCharge (file_size (snd entry) stored_length) +
        fileCharge (file_size (file_at (hd_sequence d) (sd_Sequence s)) sequence_length))
      ((fst acc)\<lparr>us_RecordCount := us_RecordCount (fst acc) + 1\<rparr>), snd acc @ [sd_Sequence s])"

definition scan_record ::
  "OperationHistoryStore \<Rightarrow> operationHistoryCheckpoint \<Rightarrow> (string \<times> operationHistoryStoredRecord stored)
    \<Rightarrow> operationHistoryUsagePayload \<times> 64 word list \<Rightarrow> (operationHistoryUsagePayload \<times> 64 word list) action" where
  "scan_record st cp entry acc =
     thn poll (thn (ensure (validHistoryRecordID (fst entry)) corrupt)
     (bnd (look (readStoredRecord st (fst entry))) (\<lambda>s.
      thn (ensure (ck_Sequence cp < sd_Sequence s) corrupt)
     (bnd (look (readOperationIndex (hr_Identity (sd_Record s)))) (\<lambda>index.
      thn (ensure (\<not> overtaken (hi_Generation (hr_Identity (sd_Record s))) index) corrupt)
     (bnd (look (readPendingSequenceIndex (sd_Sequence s))) (\<lambda>found.
      thn (restore_sequence (fst entry) s found)
      (look (\<lambda>d. Inr (count_record entry s acc d))))))))))"

fun consecutive :: "64 word \<Rightarrow> 64 word list \<Rightarrow> bool" where
  "consecutive n [] \<longleftrightarrow> True"
| "consecutive n (s # rest) \<longleftrightarrow> s = n + 1 \<and> consecutive (n + 1) rest"

text \<open>The frozen batch is a prefix of the pending records that fits a publication.\<close>

fun descriptor_bytes :: "history_dir \<Rightarrow> operationHistoryAckRecord list \<Rightarrow> int \<Rightarrow> bool" where
  "descriptor_bytes d [] n \<longleftrightarrow> True"
| "descriptor_bytes d (ref # refs) n \<longleftrightarrow>
     (case readPendingSequenceIndex (ak_Sequence ref) d of
        Inr (Some i) \<Rightarrow> sequence_matches ref d \<and> n + si_SerializedBytes i + 1 \<le> MaxOperationHistoryBatchBytes \<and>
          descriptor_bytes d refs (n + si_SerializedBytes i + 1)
      | _ \<Rightarrow> False)"

definition scan_descriptor ::
  "operationHistoryCheckpoint \<Rightarrow> 64 word list \<Rightarrow> operationHistoryUsagePayload \<Rightarrow> operationHistoryUsagePayload action" where
  "scan_descriptor cp pending u = bnd (look readPendingBatchDescriptor) (\<lambda>found.
     case found of
       None \<Rightarrow> ret u
     | Some p \<Rightarrow> look (\<lambda>d.
         if pending = [] \<or> ak_Sequence (hd (pd_Records p)) \<noteq> ck_Sequence cp + 1 \<or>
            ak_Sequence (last (pd_Records p)) > ck_Sequence cp + of_nat (length pending) \<or>
            \<not> descriptor_bytes d (pd_Records p) 0
         then Inl corrupt
         else Inr (use_bytes (fileCharge (file_size (hd_descriptor d) descriptor_length)) u)))"

definition scan_reservation ::
  "(string \<times> operationHistoryReservationFile stored) \<Rightarrow> operationHistoryUsagePayload
    \<Rightarrow> operationHistoryUsagePayload action" where
  "scan_reservation entry u =
     thn poll (thn (ensure (validHistoryRecordID (fst entry)) corrupt)
     (bnd (attempt_action (look (readReservation (fst entry)))) (\<lambda>result.
      case result of
        Inl e \<Rightarrow> (if e = Not_exist then ret u else fail e)
      | Inr r \<Rightarrow>
          bnd (look (\<lambda>d. Inr (present (file_at (hd_records d) (fst entry))))) (\<lambda>recorded.
          if recorded then thn (remove_reservation (fst entry)) (ret u)
          else ret (u\<lparr>us_ReservedBytes := us_ReservedBytes u + rs_ReservedBytes r,
                      us_ReservationCount := us_ReservationCount u + 1\<rparr>)))))"

definition replay_publication :: "OperationHistoryStore \<Rightarrow> unit action" where
  "replay_publication st = bnd (look (\<lambda>d. Inr (present (hd_publication d)))) (\<lambda>found.
     if found
     then bnd (look readPublicationTransaction) (\<lambda>t. thn (applyPublicationTransactionLocked st t) remove_publication)
     else ret ())"

definition blocked_before :: "OperationHistoryStore \<Rightarrow> history_dir \<Rightarrow> int" where
  "blocked_before st d = (case readUsage st d of Inl _ \<Rightarrow> 0 | Inr u \<Rightarrow> us_CapacityBlockedCount u)"

definition initial_usage ::
  "OperationHistoryStore \<Rightarrow> int \<Rightarrow> operationHistoryCheckpoint \<Rightarrow> history_dir \<Rightarrow> operationHistoryUsagePayload" where
  "initial_usage st blocked cp d =
     (let u = no_usage\<lparr>us_SchemaVersion := OperationHistoryStoreSchemaVersion, us_MaximumBytes := st_maxBytes st,
            us_NextSequence := ck_Sequence cp + 1, us_VerifiedPublicationCount := uint (ck_Sequence cp),
            us_CapacityBlockedCount := blocked\<rparr>
      in if present (hd_checkpoint d) then use_bytes (fileCharge (file_size (hd_checkpoint d) checkpoint_length)) u else u)"

definition index_set_ok ::
  "operationHistoryCheckpoint \<Rightarrow> history_dir \<Rightarrow> operationHistoryUsagePayload \<times> nat list \<Rightarrow> bool" where
  "index_set_ok cp d acc \<longleftrightarrow>
     (if ck_Sequence cp = 0 then hd_index d = []
      else us_OperationKeyCount (fst acc) = ck_OperationKeyCount cp \<and> hex_encode (snd acc) = ck_OperationIndexSetSHA cp)"

definition accept_count :: "operationHistoryCheckpoint \<Rightarrow> operationHistoryUsagePayload \<Rightarrow> operationHistoryUsagePayload" where
  "accept_count cp u =
     (let accepted = int64 (uint (ck_Sequence cp) + us_RecordCount u)
      in u\<lparr>us_AcceptedRecordCount := accepted, us_NextSequence := word_of_int accepted + 1\<rparr>)"

definition within_bounds :: "OperationHistoryStore \<Rightarrow> operationHistoryUsagePayload \<Rightarrow> bool" where
  "within_bounds st u \<longleftrightarrow> us_OperationKeyCount u \<le> maxOperationHistoryOperationKeys \<and>
     us_RecordCount u + us_ReservationCount u \<le> maxOperationHistoryPendingRecords \<and>
     us_ReservationCount u \<le> maxOperationHistoryReservations \<and>
     us_UsedBytes u + us_ReservedBytes u + operationHistoryPublicationHeadroom \<le> st_maxBytes st"

definition sequence_listed :: "64 word list \<Rightarrow> history_dir \<Rightarrow> bool" where
  "sequence_listed pending d \<longleftrightarrow> listed (maxOperationHistoryPendingRecords + 1) (hd_sequence d) \<and>
     length (hd_sequence d) = length (remdups pending) \<and> list_all (\<lambda>(n, f). n \<in> set pending) (hd_sequence d)"

text \<open>What the directory amounts to, file by file.\<close>

definition recount :: "OperationHistoryStore \<Rightarrow> int \<Rightarrow> operationHistoryUsagePayload action" where
  "recount st blocked =
     bnd (look readCheckpoint) (\<lambda>cp.
     bnd (look (\<lambda>d. if listed maxOperationHistoryOperationKeys (hd_index d) then Inr d else Inl corrupt)) (\<lambda>d.
     bnd (each (scan_index cp) (hd_index d) (initial_usage st blocked cp d, zero_digest)) (\<lambda>indexed.
     thn (ensure (index_set_ok cp d indexed) corrupt)
     (thn (ensure (listed maxOperationHistoryPendingRecords (hd_records d)) corrupt)
     (bnd (each (scan_record st cp) (hd_records d) (fst indexed, [])) (\<lambda>recorded.
     thn (ensure (consecutive (ck_Sequence cp) (sort (snd recorded))) corrupt)
     (thn (look (\<lambda>d. if sequence_listed (snd recorded) d then Inr () else Inl corrupt))
     (bnd (scan_descriptor cp (snd recorded) (fst recorded)) (\<lambda>u.
     thn (ensure (listed (maxOperationHistoryReservations + maxOperationHistoryPendingRecords) (hd_reservations d)) corrupt)
     (each scan_reservation (hd_reservations d) (accept_count cp u)))))))))))"

definition rebuildUsageLocked :: "OperationHistoryStore \<Rightarrow> unit action" where
  "rebuildUsageLocked st =
     bnd (look (\<lambda>d. Inr (blocked_before st d))) (\<lambda>blocked.
     thn beginMutationLocked
     (thn (replay_publication st)
     (bnd (recount st blocked) (\<lambda>u.
     thn (ensure (within_bounds st u) capacity)
     (finishMutationLocked u)))))"

definition ensureUsageLocked :: "OperationHistoryStore \<Rightarrow> operationHistoryUsagePayload action" where
  "ensureUsageLocked st =
     bnd (look (\<lambda>d. Inr (\<not> present (hd_publication d) \<and> \<not> hd_marker d \<and> is_ok (readUsage st d)))) (\<lambda>clean.
     if clean then look (readUsage st) else thn (rebuildUsageLocked st) (look (readUsage st)))"

section \<open>The lock\<close>

text \<open>
  \<open>locked\<close> is the outcome of opening and locking \<^verbatim>\<open>store.lock\<close>: obtained, refused, or not before the
  context was done.
\<close>

datatype lock_outcome = Lock_obtained | Lock_refused | Lock_waited_out

definition withLock :: "lock_outcome \<Rightarrow> 'a action \<Rightarrow> 'a action" where
  "withLock locked m = thn poll
     (case locked of
        Lock_obtained \<Rightarrow> thn poll m
      | Lock_refused \<Rightarrow> fail store_unavailable
      | Lock_waited_out \<Rightarrow> fail Context_done)"

text \<open>
  The directories are created, \<open>clean_abs\<close> being \<^verbatim>\<open>filepath.Abs\<close> and \<^verbatim>\<open>Clean\<close> in the directory of the
  process, and what the archive holds is recounted.
\<close>

definition in_background :: "'a action \<Rightarrow> 'a action" where
  "in_background m w = (case m (w\<lparr>hw_polls := None\<rparr>) of (r, w') \<Rightarrow> (r, w'\<lparr>hw_polls := hw_polls w\<rparr>))"

definition make_directory :: "unit action" where
  "make_directory = or_unavailable (change (\<lambda>d. d))"

definition OpenOperationHistoryStore ::
  "(string \<Rightarrow> string option) \<Rightarrow> string \<Rightarrow> int \<Rightarrow> record_validator option \<Rightarrow> lock_outcome \<Rightarrow> OperationHistoryStore action" where
  "OpenOperationHistoryStore clean_abs root maxBytes validator locked =
     (case validator of
        None \<Rightarrow> fail store_unavailable
      | Some v \<Rightarrow>
          thn (ensure (\<not> blank root \<and> maxBytes \<ge> int MaxOperationHistoryReservedBytes + operationHistoryPublicationHeadroom \<and>
            maxBytes \<le> maxOperationHistoryStoreBytes \<and>
            (case clean_abs root of None \<Rightarrow> False | Some path \<Rightarrow> path \<noteq> ''/'')) store_unavailable)
          (let st = \<lparr>st_maxBytes = maxBytes, st_validator = v\<rparr>
           in thn (each (\<lambda>_ _. make_directory) [0 ..< 5 :: nat] ())
              (thn (in_background (withLock locked (rebuildUsageLocked st))) (ret st))))"

end
