(* ===== verification/Operation_History_Archive.thy ===== *)
theory Operation_History_Archive
  imports Operation_History_Store
begin

text \<open>
  The operations of the archive: a reservation of capacity before a provider is asked, the append of
  validated evidence under it, and the publication of a frozen batch that is acknowledged only by a
  confirmation the publisher has sealed.
\<close>

section \<open>Reservations\<close>

definition no_reservation :: OperationHistoryReservation where
  "no_reservation = \<lparr>rv_identityID = '''', rv_token = ''''\<rparr>"

text \<open>32 random bytes, or the generator fails.\<close>

definition newOperationHistoryReservationToken :: "256 word option \<Rightarrow> string option" where
  "newOperationHistoryReservationToken random = map_option (\<lambda>r. hex_encode (be_bytes 32 (unat r))) random"

definition record_present :: "string \<Rightarrow> history_dir \<Rightarrow> store_error + bool" where
  "record_present k d = Inr (present (file_at (hd_records d) k))"

definition reservation_present :: "string \<Rightarrow> history_dir \<Rightarrow> store_error + bool" where
  "reservation_present k d = Inr (present (file_at (hd_reservations d) k))"

definition no_room ::
  "OperationHistoryStore \<Rightarrow> operationHistoryUsagePayload \<Rightarrow> OperationHistoryIdentity \<Rightarrow> history_dir \<Rightarrow> bool" where
  "no_room st u i d \<longleftrightarrow>
     us_RecordCount u + us_ReservationCount u \<ge> maxOperationHistoryPendingRecords \<or>
     us_ReservationCount u \<ge> maxOperationHistoryReservations \<or>
     (us_OperationKeyCount u + us_RecordCount u + us_ReservationCount u \<ge> maxOperationHistoryOperationKeys \<and>
      \<not> operationIndexExists i d) \<or>
     us_UsedBytes u + us_ReservedBytes u + int MaxOperationHistoryReservedBytes + operationHistoryPublicationHeadroom
       > st_maxBytes st"

definition reservation_file :: "OperationHistoryIdentity \<Rightarrow> string \<Rightarrow> string \<Rightarrow> time \<Rightarrow> operationHistoryReservationFile" where
  "reservation_file i k token now = \<lparr>rs_SchemaVersion = OperationHistoryStoreSchemaVersion, rs_ReservationID = k,
     rs_Token = token, rs_Identity = i, rs_ReservedBytes = int MaxOperationHistoryReservedBytes, rs_CreatedAt = now\<rparr>"

definition reserve_usage :: "operationHistoryUsagePayload \<Rightarrow> operationHistoryUsagePayload" where
  "reserve_usage u = u\<lparr>us_ReservedBytes := us_ReservedBytes u + int MaxOperationHistoryReservedBytes,
     us_ReservationCount := us_ReservationCount u + 1\<rparr>"

definition release_usage :: "operationHistoryReservationFile \<Rightarrow> operationHistoryUsagePayload \<Rightarrow> operationHistoryUsagePayload" where
  "release_usage r u = u\<lparr>us_ReservedBytes := us_ReservedBytes u - rs_ReservedBytes r,
     us_ReservationCount := us_ReservationCount u - 1\<rparr>"

text \<open>Once the mutation has begun, its error is returned with the token.\<close>

definition reserve_new ::
  "OperationHistoryIdentity \<Rightarrow> string \<Rightarrow> time \<Rightarrow> 256 word option \<Rightarrow> operationHistoryUsagePayload
    \<Rightarrow> (store_error option \<times> OperationHistoryReservation) action" where
  "reserve_new i k now random u =
     (case newOperationHistoryReservationToken random of
        None \<Rightarrow> fail store_unavailable
      | Some token \<Rightarrow>
          thn beginMutationLocked
          (bnd (attempt_action (thn
              (or_unavailable (write_json (json_time_ok now) (set_reservation k (reservation_file i k token now))))
              (finishMutationLocked (reserve_usage u)))) (\<lambda>result.
           ret (case result of Inl e \<Rightarrow> Some e | Inr _ \<Rightarrow> None, \<lparr>rv_identityID = k, rv_token = token\<rparr>))))"

definition reserve_entry ::
  "OperationHistoryStore \<Rightarrow> OperationHistoryIdentity \<Rightarrow> string \<Rightarrow> time \<Rightarrow> 256 word option
    \<Rightarrow> (store_error option \<times> OperationHistoryReservation) action" where
  "reserve_entry st i k now random =
     bnd (ensureUsageLocked st) (\<lambda>usage.
     bnd (look (readOperationIndex i)) (\<lambda>published.
     thn (ensure (\<not> overtaken (hi_Generation i) published) stale)
     (bnd (look (record_present k)) (\<lambda>recorded.
      if recorded
      then bnd (look (readStoredRecord st k)) (\<lambda>s. fail (if hr_Identity (sd_Record s) \<noteq> i then corrupt else reserved))
      else bnd (look (reservation_present k)) (\<lambda>held.
        if held
        then bnd (attempt_action (look (readReservation k))) (\<lambda>result.
          case result of
            Inl _ \<Rightarrow> fail corrupt
          | Inr r \<Rightarrow> (if rs_Identity r \<noteq> i then fail corrupt
              else ret (None, \<lparr>rv_identityID = k, rv_token = rs_Token r\<rparr>)))
        else bnd (look (\<lambda>d. Inr (no_room st usage i d))) (\<lambda>full.
          if full then thn (recordCapacityBlockLocked usage) (fail capacity)
          else reserve_new i k now random usage))))))"

definition Reserve ::
  "OperationHistoryStore \<Rightarrow> lock_outcome \<Rightarrow> OperationHistoryIdentity \<Rightarrow> time \<Rightarrow> 256 word option \<Rightarrow> history_world
    \<Rightarrow> (store_error option \<times> OperationHistoryReservation) \<times> history_world" where
  "Reserve st locked i now random w =
     (if \<not> validateOperationHistoryIdentity i then ((Some store_unavailable, no_reservation), w)
      else case withLock locked (reserve_entry st i (operationHistoryIdentityIDMust i) now random) w of
        (Inl e, w') \<Rightarrow> ((Some e, no_reservation), w')
      | (Inr outcome, w') \<Rightarrow> (outcome, w'))"

section \<open>Evidence\<close>

definition lift_error :: "history_error + 'a \<Rightarrow> store_error + 'a" where
  "lift_error r = (case r of Inl e \<Rightarrow> Inl (In_store e) | Inr x \<Rightarrow> Inr x)"

definition durable_ref :: "OperationHistoryRecord \<Rightarrow> time \<Rightarrow> OperationHistoryRecordRef action" where
  "durable_ref r appendedAt = look (\<lambda>_. lift_error (newDurableOperationHistoryRecordRef r appendedAt))"

definition holds_reservation ::
  "OperationHistoryReservation \<Rightarrow> OperationHistoryIdentity \<Rightarrow> operationHistoryReservationFile \<Rightarrow> bool" where
  "holds_reservation token i r \<longleftrightarrow> rs_Identity r = i \<and> rs_Token r = rv_token token"

text \<open>A reservation left beside its record is given up.\<close>

definition reconcile_reservation ::
  "OperationHistoryReservation \<Rightarrow> OperationHistoryIdentity \<Rightarrow> string \<Rightarrow> operationHistoryUsagePayload \<Rightarrow> unit action" where
  "reconcile_reservation token i k u =
     thn beginMutationLocked
     (bnd (attempt_action (look (readReservation k))) (\<lambda>result.
      case result of
        Inl _ \<Rightarrow> fail corrupt
      | Inr r \<Rightarrow>
          (if \<not> holds_reservation token i r then fail corrupt
           else thn (remove_reservation k) (finishMutationLocked (release_usage r u)))))"

definition append_again ::
  "OperationHistoryStore \<Rightarrow> OperationHistoryReservation \<Rightarrow> OperationHistoryRecord \<Rightarrow> string \<Rightarrow> string
    \<Rightarrow> operationHistoryUsagePayload \<Rightarrow> OperationHistoryRecordRef action" where
  "append_again st token record k sha u =
     bnd (look (readStoredRecord st k)) (\<lambda>s.
     thn (ensure (hr_Identity (sd_Record s) = hr_Identity record \<and> ContentSHA256 (sd_Record s) = Inr sha) conflict)
     (bnd (look (reservation_present k)) (\<lambda>held.
      thn (if held then reconcile_reservation token (hr_Identity record) k u else ret ())
      (durable_ref (sd_Record s) (sd_AppendedAt s)))))"

definition stored_of :: "OperationHistoryRecord \<Rightarrow> string \<Rightarrow> 64 word \<Rightarrow> time \<Rightarrow> operationHistoryStoredRecord" where
  "stored_of record sha seqno now = \<lparr>sd_SchemaVersion = OperationHistoryStoreSchemaVersion, sd_Record = record,
     sd_RecordSHA256 = sha, sd_Sequence = seqno, sd_AppendedAt = now\<rparr>"

definition append_charge :: "operationHistoryStoredRecord \<Rightarrow> operationHistoryPendingSequenceIndex \<Rightarrow> int" where
  "append_charge s i = operationHistoryPendingRecordCharge (int (stored_length s)) + fileCharge (int (sequence_length i))"

definition append_usage ::
  "int \<Rightarrow> operationHistoryReservationFile \<Rightarrow> operationHistoryUsagePayload \<Rightarrow> operationHistoryUsagePayload" where
  "append_usage charge r u = u\<lparr>us_UsedBytes := us_UsedBytes u + charge,
     us_ReservedBytes := us_ReservedBytes u - rs_ReservedBytes r, us_RecordCount := us_RecordCount u + 1,
     us_ReservationCount := us_ReservationCount u - 1, us_AcceptedRecordCount := us_AcceptedRecordCount u + 1,
     us_NextSequence := us_NextSequence u + 1\<rparr>"

definition append_write ::
  "OperationHistoryRecord \<Rightarrow> string \<Rightarrow> operationHistoryReservationFile \<Rightarrow> operationHistoryUsagePayload
    \<Rightarrow> operationHistoryStoredRecord \<Rightarrow> operationHistoryPendingSequenceIndex \<Rightarrow> OperationHistoryRecordRef action" where
  "append_write record k r u s i =
     (if append_charge s i > rs_ReservedBytes r \<or> append_charge s i > int MaxOperationHistoryReservedBytes
      then fail capacity
      else if us_RecordCount u \<ge> maxOperationHistoryPendingRecords
      then thn (recordCapacityBlockLocked u) (fail capacity)
      else
        thn beginMutationLocked
        (thn (or_unavailable (change (set_record k s)))
        (thn (or_unavailable (change (set_sequence (sd_Sequence s) i)))
        (thn (remove_reservation k)
        (thn (finishMutationLocked (append_usage (append_charge s i) r u))
        (durable_ref record (sd_AppendedAt s)))))))"

definition append_new ::
  "OperationHistoryReservation \<Rightarrow> OperationHistoryRecord \<Rightarrow> string \<Rightarrow> string \<Rightarrow> time \<Rightarrow> operationHistoryUsagePayload
    \<Rightarrow> OperationHistoryRecordRef action" where
  "append_new token record k sha now u =
     bnd (attempt_action (look (readReservation k))) (\<lambda>result.
     case result of
       Inl _ \<Rightarrow> fail reserved
     | Inr r \<Rightarrow>
         (if \<not> holds_reservation token (hr_Identity record) r then fail reserved
          else if us_NextSequence u = 0 \<or> us_NextSequence u = - 1
          then thn (recordCapacityBlockLocked u) (fail capacity)
          else if \<not> json_time_ok now then fail store_unavailable
          else
            bnd (look (\<lambda>_. lift_error (newOperationHistoryPendingSequenceIndex (us_NextSequence u) k sha
              (record_length record) now))) (\<lambda>i.
            append_write record k r u (stored_of record sha (us_NextSequence u) now) i)))"

definition append_locked ::
  "OperationHistoryStore \<Rightarrow> OperationHistoryReservation \<Rightarrow> OperationHistoryRecord \<Rightarrow> string \<Rightarrow> string \<Rightarrow> time
    \<Rightarrow> OperationHistoryRecordRef action" where
  "append_locked st token record k sha now =
     bnd (ensureUsageLocked st) (\<lambda>usage.
     bnd (look (record_present k)) (\<lambda>recorded.
     if recorded then append_again st token record k sha usage
     else bnd (look (readOperationIndex (hr_Identity record))) (\<lambda>published.
       case published of
         None \<Rightarrow> append_new token record k sha now usage
       | Some x \<Rightarrow>
           (if ox_Identity x = hr_Identity record \<and> ox_RecordSHA x = sha then durable_ref record (ox_AppendedAt x)
            else if ox_Identity x = hr_Identity record then fail conflict
            else if hi_Generation (ox_Identity x) \<ge> hi_Generation (hr_Identity record) then fail stale
            else append_new token record k sha now usage))))"

definition AppendValidated ::
  "OperationHistoryStore \<Rightarrow> lock_outcome \<Rightarrow> OperationHistoryReservation \<Rightarrow> OperationHistoryRecord \<Rightarrow> time
    \<Rightarrow> OperationHistoryRecordRef action" where
  "AppendValidated st locked token record now =
     (if \<not> validateOperationHistoryRecord record \<or> \<not> reservation_Matches token (hr_Identity record)
      then fail store_unavailable
      else withLock locked (append_locked st token record (operationHistoryIdentityIDMust (hr_Identity record))
        (hr_sealedRecordSHA256 record) now))"

definition cancel_locked ::
  "OperationHistoryStore \<Rightarrow> OperationHistoryIdentity \<Rightarrow> OperationHistoryReservation \<Rightarrow> string \<Rightarrow> unit action" where
  "cancel_locked st i token k =
     bnd (ensureUsageLocked st) (\<lambda>usage.
     bnd (attempt_action (look (readReservation k))) (\<lambda>result.
     case result of
       Inl e \<Rightarrow>
         (if e = Not_exist
          then bnd (look (record_present k)) (\<lambda>recorded. ensure (\<not> recorded) reserved)
          else fail e)
     | Inr r \<Rightarrow>
         (if \<not> holds_reservation token i r then fail reserved
          else thn beginMutationLocked (thn (remove_reservation k) (finishMutationLocked (release_usage r usage))))))"

definition CancelReservation ::
  "OperationHistoryStore \<Rightarrow> lock_outcome \<Rightarrow> OperationHistoryIdentity \<Rightarrow> OperationHistoryReservation \<Rightarrow> unit action" where
  "CancelReservation st locked i token =
     (if \<not> reservation_Matches token i then fail reserved
      else withLock locked (cancel_locked st i token (operationHistoryIdentityIDMust i)))"

definition Usage :: "OperationHistoryStore \<Rightarrow> lock_outcome \<Rightarrow> OperationHistoryStoreUsage action" where
  "Usage st locked = withLock locked (bnd (ensureUsageLocked st) (\<lambda>u. ret (publicOperationHistoryUsage u)))"

text \<open>The proof an observation rests on: the record itself or, once published, its index.\<close>

definition VerifyStoredRecordReference ::
  "OperationHistoryStore \<Rightarrow> OperationHistoryIdentity \<Rightarrow> string \<Rightarrow> string \<Rightarrow> unit action" where
  "VerifyStoredRecordReference st i k sha =
     thn (or_unavailable poll)
     (thn (ensure (validateOperationHistoryIdentity i \<and> sha256Pattern sha \<and> operationHistoryIdentityKey i = Inr k) store_unavailable)
     (bnd (attempt_action (look (readStoredRecord st k))) (\<lambda>result.
      case result of
        Inr s \<Rightarrow> thn (or_unavailable poll)
          (ensure (hr_Identity (sd_Record s) = i \<and> ContentSHA256 (sd_Record s) = Inr sha) store_unavailable)
      | Inl _ \<Rightarrow> thn (or_unavailable poll)
          (bnd (attempt_action (look (readOperationIndex i))) (\<lambda>indexed.
           case indexed of
             Inr (Some x) \<Rightarrow> thn (ensure (ox_Identity x = i \<and> ox_RecordSHA x = sha) store_unavailable) (or_unavailable poll)
           | _ \<Rightarrow> fail store_unavailable)))))"

section \<open>Batches\<close>

definition empty_batch :: OperationHistoryBatch where
  "empty_batch = \<lparr>ba_SchemaVersion = OperationHistoryRecordSchemaVersion, ba_BatchID = '''', ba_RecordSetSHA = '''',
     ba_ManifestSHA256 = '''', ba_RecordsSHA256 = '''', ba_Records = []\<rparr>"

definition batch_record :: "operationHistoryStoredRecord \<Rightarrow> string \<Rightarrow> OperationHistoryBatchRecord" where
  "batch_record s k = \<lparr>br_RecordID = k, br_RecordSHA = sd_RecordSHA256 s, br_Sequence = sd_Sequence s,
     br_AppendedAt = sd_AppendedAt s, br_Record = sd_Record s\<rparr>"

definition load_ref ::
  "OperationHistoryStore \<Rightarrow> operationHistoryAckRecord \<Rightarrow> int \<times> OperationHistoryBatchRecord list
    \<Rightarrow> (int \<times> OperationHistoryBatchRecord list) action" where
  "load_ref st ref acc = thn poll (look (\<lambda>d.
     case readPendingSequenceIndex (ak_Sequence ref) d of
       Inr (Some i) \<Rightarrow>
         (if \<not> sequence_matches ref d \<or> fst acc + si_SerializedBytes i + 1 > MaxOperationHistoryBatchBytes then Inl corrupt
          else case readStoredRecord st (ak_RecordID ref) d of
            Inl _ \<Rightarrow> Inl corrupt
          | Inr s \<Rightarrow>
              (if \<not> stored_matches ref s then Inl corrupt
               else Inr (fst acc + si_SerializedBytes i + 1, snd acc @ [batch_record s (ak_RecordID ref)])))
     | _ \<Rightarrow> Inl corrupt))"

definition loadPendingOperationHistoryBatchLocked ::
  "OperationHistoryStore \<Rightarrow> operationHistoryCheckpoint \<Rightarrow> operationHistoryPendingBatchDescriptor
    \<Rightarrow> OperationHistoryBatch action" where
  "loadPendingOperationHistoryBatchLocked st cp p =
     thn (ensure (validateOperationHistoryPendingBatchDescriptor p \<and>
       ak_Sequence (hd (pd_Records p)) = ck_Sequence cp + 1) corrupt)
     (bnd (each (load_ref st) (pd_Records p) (0, [])) (\<lambda>acc.
      let b = empty_batch\<lparr>ba_BatchID := pd_BatchID p, ba_RecordSetSHA := pd_RecordSetSHA p, ba_Records := snd acc\<rparr>
      in thn (ensure (validateOperationHistoryBatch b) corrupt) (ret b)))"

text \<open>
  The oldest pending records, as many as a batch may have and as fit it; \<open>n\<close> is how many may still be
  taken.
\<close>

definition same_evidence :: "operationHistoryPendingSequenceIndex \<Rightarrow> 64 word \<Rightarrow> operationHistoryStoredRecord \<Rightarrow> bool" where
  "same_evidence i seqno s \<longleftrightarrow> sd_Sequence s = seqno \<and> sd_RecordSHA256 s = si_RecordSHA i \<and>
     sd_AppendedAt s = si_AppendedAt i \<and> record_length (sd_Record s) = si_SerializedBytes i"

fun select_records ::
  "OperationHistoryStore \<Rightarrow> nat \<Rightarrow> 64 word \<Rightarrow> int \<Rightarrow> OperationHistoryBatchRecord list
    \<Rightarrow> OperationHistoryBatchRecord list action" where
  "select_records st 0 seqno taken items = ret items"
| "select_records st (Suc n) seqno taken items =
     thn poll (bnd (look (readPendingSequenceIndex seqno)) (\<lambda>found.
     case found of
       None \<Rightarrow> fail corrupt
     | Some i \<Rightarrow>
         (if taken + si_SerializedBytes i + 1 > MaxOperationHistoryBatchBytes
          then (if items = [] then fail capacity else ret items)
          else bnd (attempt_action (look (readStoredRecord st (si_RecordID i)))) (\<lambda>result.
            case result of
              Inl _ \<Rightarrow> fail corrupt
            | Inr s \<Rightarrow>
                (if \<not> same_evidence i seqno s then fail corrupt
                 else select_records st n (seqno + 1) (taken + si_SerializedBytes i + 1)
                   (items @ [batch_record s (si_RecordID i)]))))))"

definition writePendingBatchDescriptorLocked ::
  "OperationHistoryStore \<Rightarrow> operationHistoryPendingBatchDescriptor \<Rightarrow> unit action" where
  "writePendingBatchDescriptorLocked st p =
     thn (ensure (validateOperationHistoryPendingBatchDescriptor p) store_unavailable)
     (bnd (look readPendingBatchDescriptor) (\<lambda>found.
      thn (ensure (found = None) conflict)
     (let charge = fileCharge (int (descriptor_length p))
      in thn (ensure (acks_encodable (pd_Records p) \<and> int (descriptor_length p) + operationHistoryFileCharge
             \<le> maxOperationHistoryPendingBatchDescriptorFile \<and>
           charge + operationHistoryPublicationTailroom \<le> operationHistoryPublicationHeadroom) capacity)
         (bnd (look (readUsage st)) (\<lambda>usage.
          if us_UsedBytes usage + us_ReservedBytes usage + charge + operationHistoryPublicationTailroom > st_maxBytes st
          then thn (recordCapacityBlockLocked usage) (fail capacity)
          else
            thn beginMutationLocked
            (thn (or_unavailable (change (\<lambda>d. d\<lparr>hd_descriptor := Doc p\<rparr>)))
            (finishMutationLocked (use_bytes charge usage))))))))"

definition digested_batch :: "OperationHistoryBatchRecord list \<Rightarrow> OperationHistoryBatch" where
  "digested_batch items =
     (let (setSHA, batchID) = operationHistoryBatchDigests (operationHistoryBatchRefs items)
      in empty_batch\<lparr>ba_BatchID := batchID, ba_RecordSetSHA := setSHA, ba_Records := items\<rparr>)"

definition pendingOperationHistoryBatchLocked :: "OperationHistoryStore \<Rightarrow> OperationHistoryBatch action" where
  "pendingOperationHistoryBatchLocked st =
     bnd (look readCheckpoint) (\<lambda>cp.
     bnd (look (readUsage st)) (\<lambda>usage.
     bnd (look readPendingBatchDescriptor) (\<lambda>found.
     case found of
       Some p \<Rightarrow>
         (if int (length (pd_Records p)) > us_RecordCount usage then fail corrupt
          else loadPendingOperationHistoryBatchLocked st cp p)
     | None \<Rightarrow>
         (if us_RecordCount usage = 0 then ret empty_batch
          else bnd (select_records st (min (nat (us_RecordCount usage)) MaxOperationHistoryBatchRecords)
              (ck_Sequence cp + 1) 0 []) (\<lambda>items.
            if items = [] then ret empty_batch
            else thn (writePendingBatchDescriptorLocked st (newOperationHistoryPendingBatchDescriptor (digested_batch items)))
              (ret (digested_batch items)))))))"

definition PendingOperationHistoryBatch ::
  "OperationHistoryStore \<Rightarrow> lock_outcome \<Rightarrow> OperationHistoryBatch action" where
  "PendingOperationHistoryBatch st locked =
     withLock locked (thn (ensureUsageLocked st) (pendingOperationHistoryBatchLocked st))"

section \<open>Acknowledgement\<close>

definition index_change ::
  "operationHistoryAckRecord \<Rightarrow> operationHistoryIndexChange list \<Rightarrow> operationHistoryIndexChange list action" where
  "index_change ref acc = thn poll
     (let key = operationHistoryOperationIndexID (ak_Identity ref)
      in if key \<in> set (List.map ic_Key acc) then ret acc
         else bnd (look (readOperationIndex (ak_Identity ref))) (\<lambda>previous.
           ret (acc @ [\<lparr>ic_Key = key, ic_Previous = previous\<rparr>])))"

definition operationHistoryIndexChangesLocked ::
  "operationHistoryAckRecord list \<Rightarrow> operationHistoryIndexChange list action" where
  "operationHistoryIndexChangesLocked refs = each index_change refs []"

definition new_transaction ::
  "OperationHistoryBatch \<Rightarrow> OperationHistoryPublicationConfirmation \<Rightarrow> operationHistoryIndexChange list
    \<Rightarrow> operationHistoryPublicationTransaction" where
  "new_transaction b c changes =
     (let t = \<lparr>pt_SchemaVersion = OperationHistoryStoreSchemaVersion, pt_BatchID = ba_BatchID b,
            pt_RecordSetSHA = ba_RecordSetSHA b, pt_Confirmation = c, pt_Records = operationHistoryBatchRefs (ba_Records b),
            pt_IndexChanges = changes, pt_TransactionSHA = ''''\<rparr>
      in t\<lparr>pt_TransactionSHA := operationHistoryPublicationTransactionDigest t\<rparr>)"

text \<open>The bytes that publishing a batch gives back, and those it takes.\<close>

definition release_item :: "OperationHistoryBatchRecord \<Rightarrow> int \<Rightarrow> int action" where
  "release_item b delta = thn poll (look (\<lambda>_.
     case newOperationHistoryPendingSequenceIndex (br_Sequence b) (br_RecordID b) (br_RecordSHA b)
         (record_length (br_Record b)) (br_AppendedAt b) of
       Inl _ \<Rightarrow> Inl corrupt
     | Inr i \<Rightarrow>
         (if \<not> json_time_ok (br_AppendedAt b) then Inl corrupt
          else Inr (delta - append_charge (stored_of (br_Record b) (br_RecordSHA b) (br_Sequence b) (br_AppendedAt b)) i))))"

definition account_change :: "operationHistoryIndexChange \<Rightarrow> int \<times> int \<Rightarrow> (int \<times> int) action" where
  "account_change c acc = thn poll (look (\<lambda>d.
     let bytes = file_size (file_at (hd_index d) (ic_Key c)) index_length
     in if bytes = 0 then Inl corrupt
        else case ic_Previous c of
          None \<Rightarrow> Inr (fst acc + fileCharge bytes, snd acc + 1)
        | Some previous \<Rightarrow> Inr (fst acc - fileCharge (int (index_length previous)) + fileCharge bytes, snd acc)))"

definition publish_usage :: "int \<Rightarrow> int \<Rightarrow> int \<Rightarrow> operationHistoryUsagePayload \<Rightarrow> operationHistoryUsagePayload" where
  "publish_usage n keys delta u = u\<lparr>us_RecordCount := us_RecordCount u - n,
     us_VerifiedPublicationCount := us_VerifiedPublicationCount u + n,
     us_OperationKeyCount := us_OperationKeyCount u + keys, us_UsedBytes := us_UsedBytes u + delta\<rparr>"

definition published_usage_ok ::
  "OperationHistoryStore \<Rightarrow> operationHistoryCheckpoint \<Rightarrow> operationHistoryUsagePayload \<Rightarrow> bool" where
  "published_usage_ok st cp u \<longleftrightarrow> ck_Sequence cp = word_of_int (us_VerifiedPublicationCount u) \<and>
     ck_OperationKeyCount cp = us_OperationKeyCount u \<and>
     us_AcceptedRecordCount u - us_RecordCount u = us_VerifiedPublicationCount u \<and>
     us_NextSequence u = word_of_int (us_AcceptedRecordCount u) + 1 \<and> us_UsedBytes u \<ge> 0 \<and>
     us_UsedBytes u + us_ReservedBytes u \<le> st_maxBytes st"

definition applyOperationHistoryPublicationUsageDeltaLocked ::
  "OperationHistoryStore \<Rightarrow> operationHistoryUsagePayload \<Rightarrow> OperationHistoryBatch
    \<Rightarrow> operationHistoryPublicationTransaction \<Rightarrow> int \<Rightarrow> unit action" where
  "applyOperationHistoryPublicationUsageDeltaLocked st u b t before =
     thn (ensure (ba_Records b \<noteq> [] \<and> int (length (ba_Records b)) \<le> us_RecordCount u \<and>
       us_VerifiedPublicationCount u + int (length (ba_Records b)) \<le> us_AcceptedRecordCount u) corrupt)
     (bnd (each release_item (ba_Records b) 0) (\<lambda>released.
      bnd (each account_change (pt_IndexChanges t)
        (released - fileCharge (int (descriptor_length (newOperationHistoryPendingBatchDescriptor b))), 0)) (\<lambda>acc.
      bnd (look (\<lambda>d. Inr (file_size (hd_checkpoint d) checkpoint_length))) (\<lambda>after.
      thn (ensure (after \<noteq> 0) corrupt)
      (let updated = publish_usage (int (length (ba_Records b))) (snd acc)
             (fst acc + fileCharge after - (if before > 0 then fileCharge before else 0)) u
       in bnd (attempt_action (look readCheckpoint)) (\<lambda>result.
          case result of
            Inl _ \<Rightarrow> fail corrupt
          | Inr cp \<Rightarrow> thn (ensure (published_usage_ok st cp updated) corrupt) (writeUsage updated)))))))"

definition acknowledge_batch ::
  "OperationHistoryStore \<Rightarrow> OperationHistoryBatch \<Rightarrow> OperationHistoryPublicationConfirmation
    \<Rightarrow> operationHistoryUsagePayload \<Rightarrow> unit action" where
  "acknowledge_batch st b c usage =
     bnd (operationHistoryIndexChangesLocked (operationHistoryBatchRefs (ba_Records b))) (\<lambda>changes.
     let t = new_transaction b c changes; len = int (transaction_length t)
     in thn (ensure (validateOperationHistoryPublicationTransaction t) store_unavailable)
       (thn (ensure (transaction_encodable t \<and>
          len + operationHistoryFileCharge \<le> maxOperationHistoryPublicationTransactionFile) capacity)
       (if us_UsedBytes usage + us_ReservedBytes usage + 2 * fileCharge len > st_maxBytes st
        then thn (recordCapacityBlockLocked usage) (fail capacity)
        else
          bnd (look (\<lambda>d. Inr (file_size (hd_checkpoint d) checkpoint_length))) (\<lambda>before.
          thn (or_unavailable (change (\<lambda>d. d\<lparr>hd_publication := Doc t\<rparr>)))
          (thn (applyPublicationTransactionLocked st t)
          (thn (applyOperationHistoryPublicationUsageDeltaLocked st usage b t before)
          remove_publication))))))"

definition acknowledge_locked ::
  "OperationHistoryStore \<Rightarrow> OperationHistoryBatch \<Rightarrow> OperationHistoryPublicationConfirmation \<Rightarrow> unit action" where
  "acknowledge_locked st b c =
     thn (ensureUsageLocked st)
     (bnd (pendingOperationHistoryBatchLocked st) (\<lambda>current.
      bnd (look (readUsage st)) (\<lambda>usage.
      if \<not> sameOperationHistoryBatch current b
      then bnd (look readCheckpoint) (\<lambda>cp.
        ensure (ck_Sequence cp \<ge> br_Sequence (last (ba_Records b)) \<and>
          sameOperationHistoryPublicationArtifact (ck_Confirmation cp) c) conflict)
      else if ba_Records b = [] \<or> br_Sequence (hd (ba_Records b)) \<noteq> word_of_int (us_VerifiedPublicationCount usage) + 1
      then fail conflict
      else acknowledge_batch st b c usage)))"

definition AcknowledgeOperationHistoryBatch ::
  "OperationHistoryStore \<Rightarrow> lock_outcome \<Rightarrow> OperationHistoryBatch \<Rightarrow> OperationHistoryPublicationConfirmation
    \<Rightarrow> unit action" where
  "AcknowledgeOperationHistoryBatch st locked b c =
     (if \<not> validateOperationHistoryBatch b \<or> \<not> validSealedOperationHistoryConfirmation b c then fail store_unavailable
      else withLock locked (acknowledge_locked st b c))"

text \<open>The publisher is an interface: it uploads a batch and reads it back, or fails.\<close>

type_synonym batch_publisher = "OperationHistoryBatch \<Rightarrow> store_error + OperationHistoryPublicationReadback"

definition PublishPendingOperationHistoryBatch ::
  "OperationHistoryStore \<Rightarrow> lock_outcome \<Rightarrow> lock_outcome \<Rightarrow> batch_publisher \<Rightarrow> bool action" where
  "PublishPendingOperationHistoryBatch st locked relocked publish =
     bnd (PendingOperationHistoryBatch st locked) (\<lambda>b.
     if ba_Records b = [] then ret False
     else bnd (look (\<lambda>_. publish b)) (\<lambda>readback.
       let confirmed = b\<lparr>ba_ManifestSHA256 := pb_ManifestSHA256 readback, ba_RecordsSHA256 := pb_RecordsSHA256 readback\<rparr>
       in bnd (look (\<lambda>_. lift_error (newVerifiedOperationHistoryPublicationConfirmation confirmed readback))) (\<lambda>c.
          thn (AcknowledgeOperationHistoryBatch st relocked confirmed c) (ret True))))"

end
