(* ===== verification/Operation_History_Frame.thy ===== *)
theory Operation_History_Frame
  imports Operation_History_Archive
begin

text \<open>
  What an action may do to the directory: relations that hold between the directory before and after,
  whatever becomes of the writes.  The rules of a relation are proved once, in a locale; the archive's
  evidence is kept by every operation but an acknowledged publication.
\<close>

section \<open>Actions and relations on the directory\<close>

named_theorems action_defs \<open>the actions of the archive, to be unfolded\<close>

lemmas action_apply = ret_def fail_def bnd_def thn_def ensure_def attempt_action_def look_def or_unavailable_def

definition relates :: "(history_dir \<Rightarrow> bool) \<Rightarrow> (history_dir \<Rightarrow> history_dir \<Rightarrow> bool) \<Rightarrow> 'a action \<Rightarrow> bool" where
  "relates P R m \<longleftrightarrow> (\<forall>w. P (hw_dir w) \<longrightarrow> R (hw_dir w) (hw_dir (snd (m w))))"

lemma relatesI: "(\<And>w. P (hw_dir w) \<Longrightarrow> R (hw_dir w) (hw_dir (snd (m w)))) \<Longrightarrow> relates P R m"
  by (simp add: relates_def)

lemma relatesD: "relates P R m \<Longrightarrow> P (hw_dir w) \<Longrightarrow> R (hw_dir w) (hw_dir (snd (m w)))"
  by (simp add: relates_def)

lemma relates_cong_pre: "relates P R m \<Longrightarrow> (\<And>d. Q d \<Longrightarrow> P d) \<Longrightarrow> relates Q R m"
  by (simp add: relates_def)

locale action_relation =
  fixes R :: "history_dir \<Rightarrow> history_dir \<Rightarrow> bool"
  assumes R_refl: "R d d"
    and R_trans: "R a b \<Longrightarrow> R b c \<Longrightarrow> R a c"
begin

lemma relates_ret: "relates P R (ret x)"
  by (simp add: relates_def ret_def R_refl)

lemma relates_fail: "relates P R (fail e)"
  by (simp add: relates_def fail_def R_refl)

lemma relates_ensure: "relates P R (ensure b e)"
  by (simp add: ensure_def relates_ret relates_fail)

lemma relates_look: "relates P R (look f)"
  by (simp add: relates_def look_def R_refl)

lemma relates_poll: "relates P R poll"
  by (auto simp: relates_def poll_def R_refl split: option.splits)

lemma relates_change: "(\<And>d. P d \<Longrightarrow> R d (f d)) \<Longrightarrow> relates P R (change f)"
proof (rule relatesI)
  fix w :: history_world
  assume f: "\<And>d. P d \<Longrightarrow> R d (f d)" and P: "P (hw_dir w)"
  then show "R (hw_dir w) (hw_dir (snd (change f w)))"
    by (cases "hw_ios w"; cases "hd (hw_ios w)") (auto simp: change_def R_refl)
qed

lemma relates_bnd: "relates P R m \<Longrightarrow> (\<And>x. relates (\<lambda>_. True) R (f x)) \<Longrightarrow> relates P R (bnd m f)"
proof (rule relatesI)
  fix w :: history_world
  assume m: "relates P R m" and f: "\<And>x. relates (\<lambda>_. True) R (f x)" and P: "P (hw_dir w)"
  have "R (hw_dir w) (hw_dir (snd (m w)))" using m P by (rule relatesD)
  then show "R (hw_dir w) (hw_dir (snd (bnd m f w)))"
    using relatesD [OF f] by (auto simp: bnd_def split: prod.splits sum.splits intro: R_trans)
qed

lemma relates_thn: "relates P R m \<Longrightarrow> relates (\<lambda>_. True) R n \<Longrightarrow> relates P R (thn m n)"
  by (simp add: thn_def relates_bnd)

text \<open>An action that keeps the precondition.\<close>

lemma relates_thn_pre:
  "relates P R m \<Longrightarrow> relates P (\<lambda>_. P) m \<Longrightarrow> relates P R n \<Longrightarrow> relates P R (thn m n)"
proof (rule relatesI)
  fix w :: history_world
  assume m: "relates P R m" "relates P (\<lambda>_. P) m" and n: "relates P R n" and P: "P (hw_dir w)"
  have "R (hw_dir w) (hw_dir (snd (m w)))" "P (hw_dir (snd (m w)))"
    using relatesD [OF m(1) P] relatesD [OF m(2) P] by auto
  then show "R (hw_dir w) (hw_dir (snd (thn m n w)))"
    using relatesD [OF n] by (auto simp: thn_def bnd_def split: prod.splits sum.splits intro: R_trans)
qed

lemma relates_look_bnd: "(\<And>x. relates (\<lambda>d. P d \<and> f d = Inr x) R (g x)) \<Longrightarrow> relates P R (bnd (look f) g)"
  by (rule relatesI) (auto simp: bnd_def look_def R_refl relates_def split: sum.splits)

lemma relates_attempt: "relates P R m \<Longrightarrow> relates P R (attempt_action m)"
  by (auto simp: relates_def attempt_action_def split: prod.splits)

lemma relates_or_unavailable: "relates P R m \<Longrightarrow> relates P R (or_unavailable m)"
  by (fastforce simp: relates_def or_unavailable_def split: prod.splits sum.splits)

lemma relates_each: "(\<And>x s. x \<in> set xs \<Longrightarrow> relates (\<lambda>_. True) R (f x s)) \<Longrightarrow> relates P R (each f xs s)"
proof (induction xs arbitrary: s P)
  case Nil
  then show ?case by (simp add: relates_ret)
next
  case (Cons x xs)
  have "relates P R (f x s)" using Cons.prems [of x s] by (simp add: relates_def)
  then show ?case using Cons by (auto intro: relates_bnd)
qed

lemma relates_remove: "(\<And>d. P d \<Longrightarrow> R d (f d)) \<Longrightarrow> relates P R (remove_file here f)"
  using relates_change [of P f] by (auto simp: relates_def remove_file_def ret_def R_refl)

lemma relates_write_json: "(\<And>d. P d \<Longrightarrow> R d (f d)) \<Longrightarrow> relates P R (write_json e f)"
  by (simp add: write_json_def relates_change relates_fail)

lemma relates_if: "(b \<Longrightarrow> relates P R m) \<Longrightarrow> (\<not> b \<Longrightarrow> relates P R n) \<Longrightarrow> relates P R (if b then m else n)"
  by simp

lemma relates_option: "(v = None \<Longrightarrow> relates P R m) \<Longrightarrow> (\<And>x. v = Some x \<Longrightarrow> relates P R (f x)) \<Longrightarrow>
    relates P R (case v of None \<Rightarrow> m | Some x \<Rightarrow> f x)"
  by (cases v) auto

lemma relates_sum: "(\<And>e. v = Inl e \<Longrightarrow> relates P R (g e)) \<Longrightarrow> (\<And>x. v = Inr x \<Longrightarrow> relates P R (f x)) \<Longrightarrow>
    relates P R (case v of Inl e \<Rightarrow> g e | Inr x \<Rightarrow> f x)"
  by (cases v) auto

lemma relates_lock: "relates (\<lambda>_. True) R m \<Longrightarrow> relates P R (withLock locked m)"
  by (cases locked) (auto simp: withLock_def intro!: relates_thn relates_poll relates_fail)

text \<open>What touches neither the evidence nor the publication.\<close>

lemmas relates_basic = relates_ret relates_fail relates_ensure relates_look relates_poll

lemmas relates_step = relates_basic relates_thn relates_bnd relates_attempt relates_or_unavailable relates_if relates_option relates_sum

end

section \<open>Evidence\<close>

text \<open>The records that the publication on disk replaces.\<close>

definition published_ids :: "history_dir \<Rightarrow> string list" where
  "published_ids d = (case hd_publication d of Doc t \<Rightarrow> List.map ak_RecordID (pt_Records t) | _ \<Rightarrow> [])"

text \<open>Outside the names \<open>K\<close> no evidence changes, if none outside is being published.\<close>

definition keeps_evidence :: "string set \<Rightarrow> history_dir \<Rightarrow> history_dir \<Rightarrow> bool" where
  "keeps_evidence K d d' \<longleftrightarrow> (set (published_ids d) \<subseteq> K \<longrightarrow> set (published_ids d') \<subseteq> K \<and>
     (\<forall>k s. k \<notin> K \<longrightarrow> file_at (hd_records d) k = Doc s \<longrightarrow> file_at (hd_records d') k = Doc s))"

interpretation evidence: action_relation "keeps_evidence K" for K
  by unfold_locales (auto simp: keeps_evidence_def)

lemma file_at_put [simp]: "file_at (gm_put k f m) j = (if j = k then f else file_at m j)"
  by (simp add: file_at_def)

lemma file_at_delete [simp]: "file_at (AList.delete k m) j = (if j = k then Absent else file_at m j)"
  by (simp add: file_at_def delete_conv')

lemma keeps_evidence_same:
  "hd_records d' = hd_records d \<Longrightarrow> hd_publication d' = hd_publication d \<Longrightarrow> keeps_evidence K d d'"
  by (simp add: keeps_evidence_def published_ids_def)

lemma keeps_evidence_unpublished:
  "hd_records d' = hd_records d \<Longrightarrow> hd_publication d' = Absent \<Longrightarrow> keeps_evidence K d d'"
  by (simp add: keeps_evidence_def published_ids_def)

lemma relates_marker: "relates P (keeps_evidence K) beginMutationLocked" "relates P (keeps_evidence K) clear_marker"
  by (auto simp: beginMutationLocked_def clear_marker_def intro!: evidence.relates_or_unavailable evidence.relates_change
    evidence.relates_remove keeps_evidence_same)

lemma relates_writeUsage: "relates P (keeps_evidence K) (writeUsage u)"
  by (auto simp: writeUsage_def intro!: evidence.relates_change keeps_evidence_same)

lemma relates_finish: "relates P (keeps_evidence K) (finishMutationLocked u)"
  unfolding finishMutationLocked_def
  by (intro evidence.relates_thn evidence.relates_or_unavailable relates_marker relates_writeUsage)

lemma relates_block: "relates P (keeps_evidence K) (recordCapacityBlockLocked u)"
  unfolding recordCapacityBlockLocked_def
  by (intro evidence.relates_step relates_marker relates_finish)

lemma relates_remove_reservation: "relates P (keeps_evidence K) (remove_reservation k)"
  by (auto simp: remove_reservation_def drop_reservation_def intro!: evidence.relates_or_unavailable evidence.relates_remove
    keeps_evidence_same)

lemma relates_remove_publication: "relates P (keeps_evidence K) remove_publication"
  by (auto simp: remove_publication_def intro!: evidence.relates_or_unavailable evidence.relates_remove keeps_evidence_unpublished)

lemma relates_remove_descriptor: "relates P (keeps_evidence K) remove_descriptor"
  by (auto simp: remove_descriptor_def intro!: evidence.relates_or_unavailable evidence.relates_remove keeps_evidence_same)

lemma relates_store_index: "relates P (keeps_evidence K) (store_index kx u)"
  by (auto simp: store_index_def set_index_def intro!: evidence.relates_or_unavailable evidence.relates_write_json
    keeps_evidence_same)

lemma relates_store_checkpoint: "relates P (keeps_evidence K) (store_checkpoint c)"
  by (auto simp: store_checkpoint_def intro!: evidence.relates_or_unavailable evidence.relates_write_json keeps_evidence_same)

lemma relates_drop_evidence: "ak_RecordID ref \<in> K \<Longrightarrow> relates P (keeps_evidence K) (drop_evidence ref u)"
  unfolding drop_evidence_def remove_record_def remove_sequence_def
  by (intro evidence.relates_thn evidence.relates_or_unavailable evidence.relates_remove)
     (auto simp: keeps_evidence_def drop_record_def drop_sequence_def published_ids_def)

lemma relates_apply:
  assumes "set (List.map ak_RecordID (pt_Records t)) \<subseteq> K"
  shows "relates P (keeps_evidence K) (applyPublicationTransactionLocked st t)"
  unfolding applyPublicationTransactionLocked_def apply_effects_def apply_ref_def apply_change_def
  using assms
  by (auto intro!: evidence.relates_step evidence.relates_each relates_drop_evidence relates_store_index relates_store_checkpoint
    relates_remove_descriptor)

lemma relates_recount: "relates P (keeps_evidence K) (recount st blocked)"
  unfolding recount_def scan_index_def scan_record_def scan_descriptor_def scan_reservation_def restore_sequence_def
  by (auto simp: set_sequence_def intro!: evidence.relates_step evidence.relates_each evidence.relates_write_json
    relates_remove_reservation keeps_evidence_same split: option.split sum.split)

lemma published_read: "readPublicationTransaction d = Inr t \<Longrightarrow> List.map ak_RecordID (pt_Records t) = published_ids d"
  by (auto simp: readPublicationTransaction_def read_file_def published_ids_def decoded_transaction_def decoded_ack_def
    split: stored.splits if_splits)

lemma relates_replay: "relates P (keeps_evidence K) (replay_publication st)"
proof -
  have read: "relates P (keeps_evidence K) (bnd (look readPublicationTransaction)
      (\<lambda>t. thn (applyPublicationTransactionLocked st t) remove_publication))" for P
  proof (rule evidence.relates_look_bnd)
    fix t
    show "relates (\<lambda>d. P d \<and> readPublicationTransaction d = Inr t) (keeps_evidence K)
        (thn (applyPublicationTransactionLocked st t) remove_publication)"
    proof (cases "set (List.map ak_RecordID (pt_Records t)) \<subseteq> K")
      case True
      then show ?thesis by (intro evidence.relates_thn relates_apply relates_remove_publication)
    next
      case False
      then show ?thesis
        by (auto simp: relates_def keeps_evidence_def dest!: published_read simp del: set_map)
    qed
  qed
  show ?thesis
    unfolding replay_publication_def
    by (intro evidence.relates_bnd evidence.relates_if evidence.relates_basic read)
qed

lemma relates_rebuild: "relates P (keeps_evidence K) (rebuildUsageLocked st)"
  unfolding rebuildUsageLocked_def
  by (intro evidence.relates_step relates_marker relates_replay relates_recount relates_finish)

lemma relates_ensureUsage: "relates P (keeps_evidence K) (ensureUsageLocked st)"
  unfolding ensureUsageLocked_def by (intro evidence.relates_step relates_rebuild)

section \<open>The operations\<close>

datatype archive_op =
    Reserve_op OperationHistoryIdentity time "256 word option"
  | Append_op OperationHistoryReservation OperationHistoryRecord time
  | Cancel_op OperationHistoryIdentity OperationHistoryReservation
  | Usage_op
  | Pending_op
  | Acknowledge_op OperationHistoryBatch OperationHistoryPublicationConfirmation
  | Reopen_op

text \<open>An operation in its circumstances: the lock, the life of its context and what becomes of its writes.\<close>

record archive_call =
  ac_op :: archive_op
  ac_lock :: lock_outcome
  ac_polls :: "nat option"
  ac_ios :: ios

definition call_world :: "archive_call \<Rightarrow> history_dir \<Rightarrow> history_world" where
  "call_world c d = \<lparr>hw_dir = d, hw_ios = ac_ios c, hw_polls = ac_polls c\<rparr>"

definition run_call :: "OperationHistoryStore \<Rightarrow> archive_call \<Rightarrow> history_dir \<Rightarrow> history_dir" where
  "run_call st c d =
     (let w = call_world c d
      in hw_dir (case ac_op c of
           Reserve_op i now random \<Rightarrow> snd (Reserve st (ac_lock c) i now random w)
         | Append_op token record now \<Rightarrow> snd (AppendValidated st (ac_lock c) token record now w)
         | Cancel_op i token \<Rightarrow> snd (CancelReservation st (ac_lock c) i token w)
         | Usage_op \<Rightarrow> snd (Usage st (ac_lock c) w)
         | Pending_op \<Rightarrow> snd (PendingOperationHistoryBatch st (ac_lock c) w)
         | Acknowledge_op b confirmation \<Rightarrow> snd (AcknowledgeOperationHistoryBatch st (ac_lock c) b confirmation w)
         | Reopen_op \<Rightarrow> snd (withLock (ac_lock c) (rebuildUsageLocked st) w)))"

text \<open>The records an operation may replace: those of a batch its publisher has confirmed.\<close>

definition confirmed_ids :: "archive_op \<Rightarrow> string set" where
  "confirmed_ids operation = (case operation of
     Acknowledge_op b c \<Rightarrow>
       (if validateOperationHistoryBatch b \<and> validSealedOperationHistoryConfirmation b c
        then set (List.map br_RecordID (ba_Records b)) else {})
   | _ \<Rightarrow> {})"

lemma relates_Reserve: "keeps_evidence K (hw_dir w) (hw_dir (snd (Reserve st locked i now random w)))"
proof -
  have "relates (\<lambda>_. True) (keeps_evidence K) (reserve_entry st i k now random)" for k
    unfolding reserve_entry_def reserve_new_def
    by (auto simp: set_reservation_def intro!: evidence.relates_step evidence.relates_write_json relates_marker relates_finish
      relates_block relates_ensureUsage keeps_evidence_same split: option.split sum.split)
  then have "keeps_evidence K (hw_dir w) (hw_dir (snd (withLock locked (reserve_entry st i k now random) w)))" for k
    by (intro relatesD [OF evidence.relates_lock]) auto
  from this [of "operationHistoryIdentityIDMust i"] show ?thesis
    by (cases "withLock locked (reserve_entry st i (operationHistoryIdentityIDMust i) now random) w")
       (auto simp: Reserve_def evidence.R_refl split: sum.splits)
qed

lemma relates_append_write:
  "relates (\<lambda>d. file_at (hd_records d) k = Absent) (keeps_evidence K) (append_write record k r u s i)"
proof -
  have add: "relates (\<lambda>d. file_at (hd_records d) k = Absent) (keeps_evidence K) (or_unavailable (change (set_record k s)))"
    by (intro evidence.relates_or_unavailable evidence.relates_change)
       (auto simp: keeps_evidence_def set_record_def published_ids_def)
  have mark: "relates P (\<lambda>d d'. hd_records d' = hd_records d) beginMutationLocked" for P
    by (intro relatesI) (auto simp: beginMutationLocked_def or_unavailable_def change_def split: prod.splits sum.splits
      elim!: io_effect.elims)
  have kept: "relates (\<lambda>d. file_at (hd_records d) k = Absent) (\<lambda>_ d. file_at (hd_records d) k = Absent) beginMutationLocked"
    using mark by (simp add: relates_def)
  show ?thesis
    unfolding append_write_def durable_ref_def
    by (intro evidence.relates_if evidence.relates_fail evidence.relates_thn [OF relates_block]
      evidence.relates_thn_pre [OF relates_marker(1) kept] evidence.relates_thn [OF add])
      (auto simp: set_sequence_def intro!: evidence.relates_step evidence.relates_change relates_remove_reservation
        relates_finish keeps_evidence_same)
qed

lemma relates_append_new:
  "relates (\<lambda>d. file_at (hd_records d) k = Absent) (keeps_evidence K) (append_new token record k sha now u)"
proof -
  have read: "attempt_action (look f) = look (\<lambda>d. Inr (f d))" for f :: "history_dir \<Rightarrow> store_error + 'x"
    by (rule ext) (simp add: attempt_action_def look_def)
  show ?thesis
    unfolding append_new_def read
    by (intro evidence.relates_look_bnd)
       (auto intro!: evidence.relates_step evidence.relates_look_bnd relates_block
         intro: relates_cong_pre [OF relates_append_write] split: sum.split)
qed

lemma relates_Append: "keeps_evidence K (hw_dir w) (hw_dir (snd (AppendValidated st locked token record now w)))"
proof -
  have again: "relates P (keeps_evidence K) (append_again st token record k sha u)" for P k sha u
    unfolding append_again_def reconcile_reservation_def durable_ref_def
    by (auto intro!: evidence.relates_step relates_marker relates_finish relates_remove_reservation split: sum.split)
  have absent: "relates (\<lambda>d. P d \<and> record_present k d = Inr False) (keeps_evidence K) (append_new token record k sha now u)"
    for P k sha u
    by (rule relates_cong_pre [OF relates_append_new]) (auto simp: record_present_def present_def)
  have "relates (\<lambda>_. True) (keeps_evidence K) (append_locked st token record k sha now)" for k sha
    unfolding append_locked_def durable_ref_def
    apply (intro evidence.relates_bnd [OF relates_ensureUsage] evidence.relates_look_bnd evidence.relates_if again)
    apply (rename_tac recorded)
    apply (case_tac recorded)
    apply (auto intro!: evidence.relates_look_bnd evidence.relates_step intro: relates_cong_pre [OF absent] split: option.split)
    done
  from relatesD [OF evidence.relates_lock [OF this], of "\<lambda>_. True"] show ?thesis
    by (auto simp: AppendValidated_def fail_def evidence.R_refl)
qed

lemma relates_Cancel: "relates (\<lambda>_. True) (keeps_evidence K) (CancelReservation st locked i token)"
  unfolding CancelReservation_def cancel_locked_def
  by (auto intro!: evidence.relates_step evidence.relates_lock relates_ensureUsage relates_marker relates_finish
    relates_remove_reservation split: sum.split)

lemma relates_Usage: "relates (\<lambda>_. True) (keeps_evidence K) (Usage st locked)"
  unfolding Usage_def by (intro evidence.relates_lock evidence.relates_step relates_ensureUsage)

lemma relates_select: "relates P (keeps_evidence K) (select_records st n seqno taken items)"
proof (induction n arbitrary: seqno taken items P)
  case 0
  then show ?case by (simp add: evidence.relates_ret)
next
  case (Suc n)
  then show ?case by (auto intro!: evidence.relates_step split: option.split sum.split)
qed

lemma relates_freeze: "relates P (keeps_evidence K) (writePendingBatchDescriptorLocked st p)"
  unfolding writePendingBatchDescriptorLocked_def Let_def
  by (auto intro!: evidence.relates_step evidence.relates_change relates_block relates_marker relates_finish
    keeps_evidence_same)

lemma relates_pending_batch: "relates P (keeps_evidence K) (pendingOperationHistoryBatchLocked st)"
  unfolding pendingOperationHistoryBatchLocked_def loadPendingOperationHistoryBatchLocked_def load_ref_def Let_def
  by (auto intro!: evidence.relates_step evidence.relates_each relates_select relates_freeze split: option.split)

lemma relates_Pending: "relates (\<lambda>_. True) (keeps_evidence K) (PendingOperationHistoryBatch st locked)"
  unfolding PendingOperationHistoryBatch_def
  by (intro evidence.relates_lock evidence.relates_thn relates_ensureUsage relates_pending_batch)

lemma batch_ref_ids: "List.map ak_RecordID (operationHistoryBatchRefs items) = List.map br_RecordID items"
  by (simp add: operationHistoryBatchRefs_def)

lemma relates_acknowledge_batch:
  assumes "set (List.map br_RecordID (ba_Records b)) \<subseteq> K"
  shows "relates P (keeps_evidence K) (acknowledge_batch st b c u)"
proof -
  have ids: "set (List.map ak_RecordID (pt_Records (new_transaction b c changes))) \<subseteq> K" for changes
    using assms by (simp add: new_transaction_def Let_def batch_ref_ids del: set_map)
  have publish: "relates P (keeps_evidence K)
      (change (\<lambda>d. d\<lparr>hd_publication := Doc (new_transaction b c changes)\<rparr>))" for P changes
    using ids by (intro evidence.relates_change) (simp add: keeps_evidence_def published_ids_def del: set_map)
  have account: "relates P (keeps_evidence K) (applyOperationHistoryPublicationUsageDeltaLocked st u b t before)" for P t before
    unfolding applyOperationHistoryPublicationUsageDeltaLocked_def release_item_def account_change_def Let_def
    by (auto intro!: evidence.relates_step evidence.relates_each relates_writeUsage split: sum.split)
  have changes: "relates P (keeps_evidence K) (operationHistoryIndexChangesLocked refs)" for P refs
    unfolding operationHistoryIndexChangesLocked_def index_change_def Let_def
    by (intro evidence.relates_each evidence.relates_step)
  show ?thesis
    unfolding acknowledge_batch_def Let_def
    by (intro evidence.relates_step relates_block changes publish relates_apply ids account relates_remove_publication)
qed

lemma relates_Acknowledge:
  "relates (\<lambda>_. True) (keeps_evidence (confirmed_ids (Acknowledge_op b c) \<union> K)) (AcknowledgeOperationHistoryBatch st locked b c)"
  unfolding AcknowledgeOperationHistoryBatch_def acknowledge_locked_def
  by (auto simp: confirmed_ids_def intro!: evidence.relates_step evidence.relates_lock relates_ensureUsage
    relates_pending_batch relates_acknowledge_batch)

lemma call_keeps_evidence: "keeps_evidence (confirmed_ids (ac_op c) \<union> K) d (run_call st c d)"
proof -
  have start: "hw_dir (call_world c d) = d" by (simp add: call_world_def)
  note rules = relates_Cancel relates_Usage relates_Pending
    evidence.relates_lock [OF relates_rebuild, of "\<lambda>_. True"]
  show ?thesis
  proof (cases "ac_op c")
    case (Reserve_op i now random)
    then show ?thesis using relates_Reserve [of _ "call_world c d"] by (simp add: run_call_def Let_def start)
  next
    case (Append_op token evidence now)
    then show ?thesis using relates_Append [of _ "call_world c d"] by (simp add: run_call_def Let_def start)
  next
    case (Acknowledge_op b confirmation)
    then show ?thesis
      using relatesD [OF relates_Acknowledge, where w = "call_world c d"] by (simp add: run_call_def Let_def start)
  qed (use rules [THEN relatesD, where w = "call_world c d"] in \<open>simp_all add: run_call_def Let_def start\<close>)
qed

section \<open>Runs\<close>

definition run_archive :: "OperationHistoryStore \<Rightarrow> archive_call list \<Rightarrow> history_dir \<Rightarrow> history_dir" where
  "run_archive st calls d = fold (run_call st) calls d"

definition confirmed_in :: "archive_call list \<Rightarrow> string set" where
  "confirmed_in calls = \<Union> (set (List.map (\<lambda>c. confirmed_ids (ac_op c)) calls))"

lemma run_keeps_evidence: "keeps_evidence (confirmed_in calls \<union> K) d (run_archive st calls d)"
proof (induction calls arbitrary: d K)
  case Nil
  then show ?case by (simp add: run_archive_def evidence.R_refl)
next
  case (Cons c calls)
  have "keeps_evidence (confirmed_in (c # calls) \<union> K) d (run_call st c d)"
    using call_keeps_evidence [of c "confirmed_in calls \<union> K" d st] by (simp add: confirmed_in_def Un_assoc)
  moreover have "keeps_evidence (confirmed_in (c # calls) \<union> K) (run_call st c d) (run_archive st (c # calls) d)"
    using Cons.IH [of "confirmed_ids (ac_op c) \<union> K" "run_call st c d"]
    by (simp add: confirmed_in_def run_archive_def Un_ac)
  ultimately show ?case by (rule evidence.R_trans)
qed

end
