(* ===== verification/Operation_Attempt_Views.thy ===== *)
theory Operation_Attempt_Views
  imports Operation_Attempts "HOL-Library.Product_Lexorder"
begin

text \<open>
  What readers see of the attempt store: the projection of a state file for the public read
  model (\<^verbatim>\<open>operation_attempt_store.go\<close>), the read model's own check of it
  (\<^verbatim>\<open>operation_read_model.go\<close>), and the reader that skips files whose stamp it has already
  committed.
\<close>

record OperationReadModelAttempt =
  ra_SourceID :: string
  ra_OperationID :: string
  ra_LatestPlanBinding :: OperationAttemptBinding
  ra_ObservationPlanBinding :: "OperationAttemptBinding option"
  ra_AttemptState :: string
  ra_ObservationAttemptState :: string
  ra_ExecutionBlockReason :: string
  ra_ReceiptValidated :: bool
  ra_RequestStarted :: "bool option"
  ra_EverRequestStarted :: bool
  ra_ResultState :: string
  ra_ResultCategory :: string
  ra_HTTPStatus :: int
  ra_ProviderObservedAt :: time
  ra_HealthReceivedAt :: time
  ra_GatusDeliveryState :: string
  ra_GatusAcknowledgedAt :: time
  ra_GatusReadbackAt :: time
  ra_GatusObservedState :: string
  ra_UpdatedAt :: time

section \<open>The read model's check\<close>

definition validOperationReadModelAttemptState :: "string \<Rightarrow> bool" where
  "validOperationReadModelAttemptState v \<longleftrightarrow> v = ''claimed'' \<or> v = ''request_started'' \<or> v = ''observed'' \<or>
     v = ''failed'' \<or> v = ''unknown'' \<or> v = ''deferred''"

definition validOperationReadModelObservationAttemptState :: "string \<Rightarrow> bool" where
  "validOperationReadModelObservationAttemptState v \<longleftrightarrow> v = ''none'' \<or> v = ''observed''"

definition validOperationReadModelDeliveryState :: "string \<Rightarrow> bool" where
  "validOperationReadModelDeliveryState v \<longleftrightarrow> v = ''not_ready'' \<or> v = ''pending'' \<or> v = ''acknowledged'' \<or>
     v = ''readback_verified'' \<or> v = ''not_applicable''"

definition validGatusReadback :: "OperationReadModelAttempt \<Rightarrow> bool" where
  "validGatusReadback a \<longleftrightarrow>
     (if ra_GatusDeliveryState a = ''not_ready'' \<or> ra_GatusDeliveryState a = ''pending''
      then IsZero (ra_GatusAcknowledgedAt a) \<and> IsZero (ra_GatusReadbackAt a)
      else if ra_GatusDeliveryState a = ''not_applicable''
      then ra_ResultState a = ''indeterminate'' \<and> ra_ResultCategory a = ''response_semantics_unestablished'' \<and>
        200 \<le> ra_HTTPStatus a \<and> ra_HTTPStatus a < 300 \<and> IsZero (ra_GatusAcknowledgedAt a) \<and>
        IsZero (ra_GatusReadbackAt a) \<and> ra_GatusObservedState a = ''''
      else if ra_GatusDeliveryState a = ''acknowledged''
      then \<not> IsZero (ra_GatusAcknowledgedAt a) \<and> IsZero (ra_GatusReadbackAt a) \<and> ra_GatusObservedState a = ''''
      else if ra_GatusDeliveryState a = ''readback_verified''
      then \<not> IsZero (ra_GatusAcknowledgedAt a) \<and> \<not> IsZero (ra_GatusReadbackAt a) \<and>
        \<not> ra_GatusReadbackAt a < ra_GatusAcknowledgedAt a \<and> validGatusResultState (ra_GatusObservedState a)
      else False)"

definition readmodel_state_ok :: "OperationReadModelAttempt \<Rightarrow> bool" where
  "readmodel_state_ok a \<longleftrightarrow>
     \<not> (ra_RequestStarted a \<noteq> None \<and> \<not> ra_ReceiptValidated a \<and> ra_AttemptState a \<noteq> ''deferred'') \<and>
     (if ra_AttemptState a = ''claimed'' \<or> ra_AttemptState a = ''unknown''
      then \<not> ra_ReceiptValidated a \<and> ra_RequestStarted a = None
      else if ra_AttemptState a = ''request_started'' \<or> ra_AttemptState a = ''observed''
      then ra_ReceiptValidated a \<and> ra_RequestStarted a = Some True
      else if ra_AttemptState a = ''failed'' then ra_ReceiptValidated a \<and> ra_RequestStarted a \<noteq> None
      else if ra_AttemptState a = ''deferred''
      then \<not> ra_ReceiptValidated a \<and> ra_RequestStarted a = Some False \<and>
        validOperationAttemptDeferredReason (ra_ExecutionBlockReason a)
      else True) \<and>
     \<not> (ra_AttemptState a \<noteq> ''deferred'' \<and> ra_ExecutionBlockReason a \<noteq> '''') \<and>
     \<not> (ra_AttemptState a = ''observed'' \<and> ra_ObservationAttemptState a \<noteq> ''observed'')"

definition hasObservation :: "OperationReadModelAttempt \<Rightarrow> bool" where
  "hasObservation a \<longleftrightarrow> \<not> IsZero (ra_ProviderObservedAt a) \<or> \<not> IsZero (ra_HealthReceivedAt a) \<or>
     ra_ResultState a \<noteq> '''' \<or> ra_ResultCategory a \<noteq> '''' \<or> ra_HTTPStatus a \<noteq> 0"

definition readmodel_observation_ok :: "OperationReadModelAttempt \<Rightarrow> bool" where
  "readmodel_observation_ok a \<longleftrightarrow>
     validOperationReadModelResultState (ra_ResultState a) \<and>
     validOperationReadModelResultPair (ra_ResultState a) (ra_ResultCategory a) \<and>
     \<not> (ra_HTTPStatus a \<noteq> 0 \<and> (ra_HTTPStatus a < 100 \<or> ra_HTTPStatus a > 599)) \<and>
     \<not> (ra_ResultCategory a = ''response_semantics_unestablished'' \<and>
        (ra_HTTPStatus a < 200 \<or> ra_HTTPStatus a \<ge> 300)) \<and>
     \<not> (ra_ResultCategory a = ''response_http_failure'' \<and>
        (ra_ResultState a \<noteq> ''unhealthy'' \<or> ra_HTTPStatus a < 100 \<or>
         (ra_HTTPStatus a \<ge> 200 \<and> ra_HTTPStatus a < 300))) \<and>
     \<not> IsZero (ra_ProviderObservedAt a) \<and> \<not> IsZero (ra_HealthReceivedAt a) \<and>
     \<not> ra_ProviderObservedAt a > ra_HealthReceivedAt a \<and> \<not> ra_HealthReceivedAt a > ra_UpdatedAt a \<and>
     \<not> (\<not> IsZero (ra_GatusAcknowledgedAt a) \<and>
        (ra_GatusAcknowledgedAt a < ra_HealthReceivedAt a \<or> ra_GatusAcknowledgedAt a > ra_UpdatedAt a)) \<and>
     \<not> (\<not> IsZero (ra_GatusReadbackAt a) \<and>
        (ra_GatusReadbackAt a < ra_HealthReceivedAt a \<or> ra_GatusReadbackAt a > ra_UpdatedAt a)) \<and>
     validGatusReadback a"

definition validOperationReadModelAttempt :: "OperationReadModelAttempt \<Rightarrow> bool" where
  "validOperationReadModelAttempt a \<longleftrightarrow>
     operationSourceIDPattern (ra_SourceID a) \<and> ra_OperationID a \<noteq> '''' \<and> length (ra_OperationID a) \<le> 256 \<and>
     validOperationAttemptBinding (ra_LatestPlanBinding a) \<and> ab_SourceID (ra_LatestPlanBinding a) = ra_SourceID a \<and>
     ab_OperationID (ra_LatestPlanBinding a) = ra_OperationID a \<and>
     validOperationReadModelAttemptState (ra_AttemptState a) \<and>
     validOperationReadModelObservationAttemptState (ra_ObservationAttemptState a) \<and>
     validOperationReadModelDeliveryState (ra_GatusDeliveryState a) \<and> \<not> IsZero (ra_UpdatedAt a) \<and>
     (case ra_ObservationPlanBinding a of None \<Rightarrow> True
      | Some b \<Rightarrow> validOperationAttemptBinding b \<and> ab_SourceID b = ra_SourceID a \<and>
          ab_OperationID b = ra_OperationID a) \<and>
     readmodel_state_ok a \<and>
     hasObservation a = (ra_ObservationAttemptState a = ''observed'') \<and>
     hasObservation a = (ra_ObservationPlanBinding a \<noteq> None) \<and>
     (if hasObservation a then readmodel_observation_ok a
      else ra_GatusDeliveryState a = ''not_ready'' \<and> IsZero (ra_GatusAcknowledgedAt a) \<and>
        IsZero (ra_GatusReadbackAt a) \<and> ra_GatusObservedState a = '''')"

section \<open>The projection\<close>

definition laterOperationAttemptTime :: "time \<Rightarrow> time list \<Rightarrow> time" where
  "laterOperationAttemptTime current candidates = foldl (\<lambda>t c. if c > t then c else t) current candidates"

definition observed_projection ::
  "OperationStoredAttempt \<Rightarrow> OperationObservationResult \<Rightarrow> OperationReadModelAttempt \<Rightarrow> OperationReadModelAttempt" where
  "observed_projection a r p =
     (let p1 = p\<lparr>ra_ObservationPlanBinding := Some (oa_Binding a), ra_ResultState := or_State r,
            ra_ResultCategory := or_Category r, ra_HTTPStatus := or_HTTPStatus r,
            ra_ObservationAttemptState := ''observed'', ra_ProviderObservedAt := or_ObservedAt r,
            ra_HealthReceivedAt := or_ReceivedAt r,
            ra_UpdatedAt := laterOperationAttemptTime (ra_UpdatedAt p)
              [oa_StartedAt a, oa_FinishedAt a, or_ObservedAt r, or_ReceivedAt r, oa_DeliveryStartedAt a,
               oa_DeliveryAckAt a, oa_GatusReceivedAt a]\<rparr>
      in if oa_DeliveryState a = ''not_ready'' \<or> oa_DeliveryState a = ''pending''
         then p1\<lparr>ra_GatusDeliveryState := ''pending''\<rparr>
         else if oa_DeliveryState a = ''not_applicable'' then p1\<lparr>ra_GatusDeliveryState := ''not_applicable''\<rparr>
         else if oa_DeliveryState a = ''acknowledged''
         then p1\<lparr>ra_GatusDeliveryState := ''acknowledged'', ra_GatusAcknowledgedAt := oa_DeliveryAckAt a\<rparr>
         else if oa_DeliveryState a = ''readback_verified''
         then p1\<lparr>ra_GatusDeliveryState := ''readback_verified'', ra_GatusAcknowledgedAt := oa_DeliveryAckAt a,
           ra_GatusReadbackAt := oa_GatusReceivedAt a, ra_GatusObservedState := oa_GatusResultState a\<rparr>
         else p1)"

definition latest_projection :: "operationAttemptState \<Rightarrow> OperationReadModelAttempt" where
  "latest_projection state =
     (let a = last (os_Attempts state)
      in \<lparr>ra_SourceID = os_SourceID state, ra_OperationID = os_OperationID state,
          ra_LatestPlanBinding = oa_Binding a, ra_ObservationPlanBinding = None, ra_AttemptState = oa_State a,
          ra_ObservationAttemptState = ''none'',
          ra_ExecutionBlockReason = (if oa_State a = ''deferred'' then oa_BlockReason a else ''''),
          ra_ReceiptValidated = oa_ReceiptValidated a, ra_RequestStarted = oa_RequestStarted a,
          ra_EverRequestStarted = (os_CurrentPlanSHA256 state = operationAttemptPlanBindingSHA256 (oa_Binding a) \<and>
            os_CurrentPlanEverRequestStarted state),
          ra_ResultState = '''', ra_ResultCategory = '''', ra_HTTPStatus = 0, ra_ProviderObservedAt = time_zero,
          ra_HealthReceivedAt = time_zero, ra_GatusDeliveryState = ''not_ready'',
          ra_GatusAcknowledgedAt = time_zero, ra_GatusReadbackAt = time_zero, ra_GatusObservedState = '''',
          ra_UpdatedAt = laterOperationAttemptTime (oa_StartedAt a) [oa_FinishedAt a]\<rparr>)"

text \<open>\<open>None\<close> for the second result false with no attempt at all.\<close>

definition operationReadModelAttemptFromState ::
  "operationAttemptState \<Rightarrow> OperationReadModelAttempt option \<times> bool" where
  "operationReadModelAttemptFromState state =
     (if os_Attempts state = [] then (None, False)
      else
        let p = latest_projection state;
            q = (case find (\<lambda>a. oa_Result a \<noteq> None) (rev (os_Attempts state)) of
                   None \<Rightarrow> p
                 | Some a \<Rightarrow> observed_projection a (the_result a) p)
        in (Some q, validOperationReadModelAttempt q))"

section \<open>A reader that skips unchanged files\<close>

text \<open>
  \<^verbatim>\<open>Lstat\<close> of a path gives an error, no file, or the stamp of a regular file of admissible
  size; \<open>before\<close> and \<open>after\<close> are its answers around the read of the file.
\<close>

type_synonym lstat = "string \<Rightarrow> (unit + operationAttemptFileStamp option)"

definition no_stamp :: operationAttemptFileStamp where
  "no_stamp = \<lparr>fs_exists = False, fs_modifiedNS = 0, fs_size = 0, fs_inode = 0\<rparr>"

definition operationAttemptIdentityBatchMaximum :: nat where "operationAttemptIdentityBatchMaximum = 256"

record operationReadModelAttemptBatch =
  rb_attempts :: "OperationReadModelAttempt list"
  rb_stampUpdates :: "(string, operationAttemptFileStamp) gomap"
  rb_committed :: bool

fun prepare_identities ::
  "(string, operationAttemptFileStamp) gomap \<Rightarrow> lstat \<Rightarrow> lstat \<Rightarrow> attempt_dir \<Rightarrow> (string \<times> string) list
    \<Rightarrow> (string \<times> string) list \<Rightarrow> operationReadModelAttemptBatch
    \<Rightarrow> operation_attempt_error + operationReadModelAttemptBatch" where
  "prepare_identities stamps before after d seen [] batch = Inr batch"
| "prepare_identities stamps before after d seen ((sourceID, operationID) # rest) batch =
     (if \<not> identity_ok sourceID operationID \<or> (sourceID, operationID) \<in> set seen
      then Inl ErrOperationAttemptUnavailable
      else
        let path = statePath sourceID operationID; next = prepare_identities stamps before after d
              ((sourceID, operationID) # seen) rest
        in case before path of
             Inl _ \<Rightarrow> Inl ErrOperationAttemptUnavailable
           | Inr found \<Rightarrow>
               (let stamp = (case found of None \<Rightarrow> no_stamp | Some s \<Rightarrow> s)
                in if gm_get stamps path = Some stamp then next batch
                   else if found = None
                   then (if (case gm_get stamps path of None \<Rightarrow> False | Some s \<Rightarrow> fs_exists s)
                         then Inl ErrOperationAttemptUnavailable
                         else next (batch\<lparr>rb_stampUpdates := gm_put path stamp (rb_stampUpdates batch)\<rparr>))
                   else case readState sourceID operationID d of
                     Inl e \<Rightarrow> Inl ErrOperationAttemptUnavailable
                   | Inr None \<Rightarrow> Inl ErrOperationAttemptUnavailable
                   | Inr (Some state) \<Rightarrow>
                       (if after path \<noteq> Inr (Some stamp) then next batch
                        else case operationReadModelAttemptFromState state of
                          (Some p, True) \<Rightarrow>
                            (if ra_SourceID p \<noteq> sourceID \<or> ra_OperationID p \<noteq> operationID
                             then Inl ErrOperationAttemptUnavailable
                             else next (batch\<lparr>rb_stampUpdates := gm_put path stamp (rb_stampUpdates batch),
                                    rb_attempts := rb_attempts batch @ [p]\<rparr>))
                        | _ \<Rightarrow> Inl ErrOperationAttemptUnavailable)))"

definition prepareReadModelAttemptsForIdentities ::
  "OperationAttemptStore \<Rightarrow> lstat \<Rightarrow> lstat \<Rightarrow> attempt_dir \<Rightarrow> (string \<times> string) list
    \<Rightarrow> operation_attempt_error + operationReadModelAttemptBatch" where
  "prepareReadModelAttemptsForIdentities store before after d identities =
     (if length identities > operationAttemptIdentityBatchMaximum then Inl ErrOperationAttemptUnavailable
      else case prepare_identities (st_readStamps store) before after d [] identities
             \<lparr>rb_attempts = [], rb_stampUpdates = [], rb_committed = False\<rparr> of
        Inl e \<Rightarrow> Inl e
      | Inr batch \<Rightarrow>
          Inr (batch\<lparr>rb_attempts := sort_key (\<lambda>p. (ra_SourceID p, ra_OperationID p)) (rb_attempts batch)\<rparr>))"

fun merge_updates ::
  "operationReadModelAttemptBatch list \<Rightarrow> (string, operationAttemptFileStamp) gomap
    \<Rightarrow> (string, operationAttemptFileStamp) gomap option" where
  "merge_updates [] updates = Some updates"
| "merge_updates (b # bs) updates =
     (if rb_committed b \<or> list_ex (\<lambda>(path, _). gm_get updates path \<noteq> None) (rb_stampUpdates b) then None
      else merge_updates bs (foldl (\<lambda>acc (path, stamp). gm_put path stamp acc) updates (rb_stampUpdates b)))"

text \<open>The batches are this store's; all of them are marked committed, or none.\<close>

definition commitReadModelAttemptBatches ::
  "operationReadModelAttemptBatch list \<Rightarrow> OperationAttemptStore
    \<Rightarrow> operation_attempt_error + (OperationAttemptStore \<times> operationReadModelAttemptBatch list)" where
  "commitReadModelAttemptBatches batches store =
     (if batches = [] then Inl ErrOperationAttemptUnavailable
      else case merge_updates batches [] of
        None \<Rightarrow> Inl ErrOperationAttemptUnavailable
      | Some updates \<Rightarrow>
          Inr (store\<lparr>st_readStamps := foldl (\<lambda>acc (path, stamp). gm_put path stamp acc) (st_readStamps store) updates\<rparr>,
            List.map (\<lambda>b. b\<lparr>rb_committed := True\<rparr>) batches))"

definition SnapshotReadModelAttemptsForIdentities ::
  "OperationAttemptStore \<Rightarrow> lstat \<Rightarrow> lstat \<Rightarrow> attempt_dir \<Rightarrow> (string \<times> string) list
    \<Rightarrow> operation_attempt_error + (OperationReadModelAttempt list \<times> OperationAttemptStore)" where
  "SnapshotReadModelAttemptsForIdentities store before after d identities =
     (case prepareReadModelAttemptsForIdentities store before after d identities of
        Inl e \<Rightarrow> Inl e
      | Inr batch \<Rightarrow>
          (case commitReadModelAttemptBatches [batch] store of
             Inl e \<Rightarrow> Inl e
           | Inr (store', batches) \<Rightarrow> Inr (rb_attempts batch, store')))"

section \<open>The scan of the whole store\<close>

text \<open>
  \<open>entries\<close> is what \<^verbatim>\<open>ReadDir\<close> lists, \<open>None\<close> if it fails.  A file that is no regular file of
  admissible size, or that does not decode, is \<open>Garbage\<close>.
\<close>

definition maxOperationAttemptStoreOperations :: nat where "maxOperationAttemptStoreOperations = 16000"

definition has_prefix :: "string \<Rightarrow> string \<Rightarrow> bool" where
  "has_prefix prefix s \<longleftrightarrow> take (length prefix) s = prefix"

definition has_suffix :: "string \<Rightarrow> string \<Rightarrow> bool" where
  "has_suffix suffix s \<longleftrightarrow> drop (length s - length suffix) s = suffix"

fun scan_entries ::
  "attempt_dir \<Rightarrow> (string \<times> string) list \<Rightarrow> string list
    \<Rightarrow> operation_attempt_error + OperationReadModelAttempt list" where
  "scan_entries d seen [] = Inr []"
| "scan_entries d seen (name # rest) =
     (if name = ''.operation-attempt.lock'' \<or> has_prefix ''.operation-attempt-'' name then scan_entries d seen rest
      else if \<not> has_suffix ''.json'' name then Inl ErrOperationAttemptUnavailable
      else case d name of
        Doc state \<Rightarrow>
          (let key = (os_SourceID state, os_OperationID state)
           in if \<not> validOperationAttemptState state (os_SourceID state) (os_OperationID state) \<or>
                 statePath (os_SourceID state) (os_OperationID state) \<noteq> name \<or> key \<in> set seen
              then Inl ErrOperationAttemptUnavailable
              else case operationReadModelAttemptFromState state of
                (Some p, True) \<Rightarrow>
                  (case scan_entries d (key # seen) rest of Inl e \<Rightarrow> Inl e | Inr ps \<Rightarrow> Inr (p # ps))
              | _ \<Rightarrow> Inl ErrOperationAttemptUnavailable)
      | _ \<Rightarrow> Inl ErrOperationAttemptUnavailable)"

definition SnapshotReadModelAttempts ::
  "attempt_io \<Rightarrow> OperationAttemptStore \<Rightarrow> string list option \<Rightarrow> attempt_dir
    \<Rightarrow> operation_attempt_error + OperationReadModelAttempt list" where
  "SnapshotReadModelAttempts io store entries d =
     (if st_readOnly store \<or> \<not> ai_lock io then Inl ErrOperationAttemptUnavailable
      else case entries of
        None \<Rightarrow> Inl ErrOperationAttemptUnavailable
      | Some names \<Rightarrow>
          (if length names > maxOperationAttemptStoreOperations + 1 then Inl ErrOperationAttemptUnavailable
           else case scan_entries d [] names of
             Inl e \<Rightarrow> Inl ErrOperationAttemptUnavailable
           | Inr ps \<Rightarrow> Inr (sort_key (\<lambda>p. (ra_SourceID p, ra_OperationID p)) ps)))"

section \<open>The budget of the store\<close>

record OperationAttemptStorageBudget =
  sb_PlannedOperations :: int
  sb_MaximumOperations :: int
  sb_MaximumStateBytes :: int
  sb_EstimatedMaximum :: int
  sb_MaximumStoreBytes :: int

definition maxOperationAttemptStoreBytes :: int where
  "maxOperationAttemptStoreBytes = 512 * 1024 * 1024"

definition ValidateOperationAttemptStorageBudget ::
  "int \<Rightarrow> operation_attempt_error + OperationAttemptStorageBudget" where
  "ValidateOperationAttemptStorageBudget plannedOperations =
     (if plannedOperations < 1 \<or> plannedOperations > int maxOperationAttemptStoreOperations
      then Inl ErrOperationAttemptCapacity
      else
        let estimated = plannedOperations * int maxOperationAttemptStateBytes
        in if estimated > maxOperationAttemptStoreBytes then Inl ErrOperationAttemptCapacity
           else Inr \<lparr>sb_PlannedOperations = plannedOperations,
             sb_MaximumOperations = int maxOperationAttemptStoreOperations,
             sb_MaximumStateBytes = int maxOperationAttemptStateBytes, sb_EstimatedMaximum = estimated,
             sb_MaximumStoreBytes = maxOperationAttemptStoreBytes\<rparr>)"

end
