(* ===== verification/Operation_Attempt_Facts.thy ===== *)
theory Operation_Attempt_Facts
  imports Operation_Attempt_Views
begin

text \<open>
  The attempt store over any history of operations by any processes: what one operation may do
  to a state file, the invariant every reachable directory satisfies, and the abstract history
  of phases the files refine.
\<close>

section \<open>Operations\<close>

datatype attempt_op =
    OpBegin attempt_io OperationAttemptStore OperationAttemptBinding string time duration
  | OpComplete attempt_io OperationAttemptStore OperationAttemptClaim OperationObservationResult time
  | OpStarted attempt_io OperationAttemptStore OperationAttemptClaim string time
  | OpBlocked attempt_io OperationAttemptStore OperationAttemptClaim string string time
  | OpDeferred attempt_io OperationAttemptStore OperationAttemptClaim string string string time
  | OpFail attempt_io OperationAttemptStore OperationAttemptClaim time
  | OpClaimDelivery attempt_io OperationAttemptStore string string string "64 word" time duration
  | OpAcknowledge attempt_io OperationAttemptStore OperationDeliveryClaim time
  | OpReadback attempt_io OperationAttemptStore string string string "64 word" time string

definition report :: "'a attempt_result \<Rightarrow> operation_attempt_error option \<times> attempt_dir" where
  "report r = (case r of (Inl e, d) \<Rightarrow> (Some e, d) | (Inr _, d) \<Rightarrow> (None, d))"

text \<open>The error an operation reports, if any, and the directory after it.\<close>

fun attempt_run :: "attempt_op \<Rightarrow> attempt_dir \<Rightarrow> operation_attempt_error option \<times> attempt_dir" where
  "attempt_run (OpBegin io store b attemptID now lease) d = report (BeginAttemptContext io store b attemptID now lease d)"
| "attempt_run (OpComplete io store c r now) d = report (completeAttemptContext io store c r now d)"
| "attempt_run (OpStarted io store c sha now) d = report (recordRequestStartedWithoutObservationContext io store c sha now d)"
| "attempt_run (OpBlocked io store c sha reason now) d = report (recordBlockedAttemptContext io store c sha reason now d)"
| "attempt_run (OpDeferred io store c reason stage category now) d =
     report (recordPreDispatchDeferredEvidenceContext io store c reason stage category now d)"
| "attempt_run (OpFail io store c now) d = report (failAttemptContext io store c now d)"
| "attempt_run (OpClaimDelivery io store s oid attemptID g now lease) d =
     report (ClaimDeliveryContext io store s oid attemptID g now lease d)"
| "attempt_run (OpAcknowledge io store c now) d = report (AcknowledgeDeliveryContext io store c now d)"
| "attempt_run (OpReadback io store s oid attemptID g now result) d =
     report (RecordGatusReadbackContext io store s oid attemptID g now result d)"

abbreviation attempt_exec :: "attempt_op \<Rightarrow> attempt_dir \<Rightarrow> attempt_dir" where
  "attempt_exec p d \<equiv> snd (attempt_run p d)"

section \<open>Storing\<close>

lemma stored_fields [simp]:
  "os_SchemaVersion (stored_state s) = os_SchemaVersion s" "os_OperationID (stored_state s) = os_OperationID s"
  "os_SourceID (stored_state s) = os_SourceID s" "os_Generation (stored_state s) = os_Generation s"
  "os_EverRequestStarted (stored_state s) = os_EverRequestStarted s"
  "os_CurrentPlanSHA256 (stored_state s) = os_CurrentPlanSHA256 s"
  "os_CurrentPlanEverRequestStarted (stored_state s) = os_CurrentPlanEverRequestStarted s"
  by (simp_all add: stored_state_def)

definition stored_attempt :: "OperationStoredAttempt \<Rightarrow> OperationStoredAttempt" where
  "stored_attempt a = a\<lparr>oa_Result := map_option stored_result (oa_Result a)\<rparr>"

lemma stored_state_attempts: "os_Attempts (stored_state s) = List.map stored_attempt (os_Attempts s)"
  by (simp add: stored_state_def stored_attempt_def)

lemma stored_attempt_fields [simp]:
  "oa_Binding (stored_attempt a) = oa_Binding a" "oa_AttemptID (stored_attempt a) = oa_AttemptID a"
  "oa_Generation (stored_attempt a) = oa_Generation a" "oa_StartedAt (stored_attempt a) = oa_StartedAt a"
  "oa_LeaseExpiresAt (stored_attempt a) = oa_LeaseExpiresAt a" "oa_FinishedAt (stored_attempt a) = oa_FinishedAt a"
  "oa_State (stored_attempt a) = oa_State a" "oa_ReceiptValidated (stored_attempt a) = oa_ReceiptValidated a"
  "oa_ReceiptSHA256 (stored_attempt a) = oa_ReceiptSHA256 a" "oa_RequestStarted (stored_attempt a) = oa_RequestStarted a"
  "oa_BlockReason (stored_attempt a) = oa_BlockReason a" "oa_DeferredStage (stored_attempt a) = oa_DeferredStage a"
  "oa_DeferredCategory (stored_attempt a) = oa_DeferredCategory a"
  "oa_DeliveryState (stored_attempt a) = oa_DeliveryState a"
  "oa_DeliveryGeneration (stored_attempt a) = oa_DeliveryGeneration a"
  "oa_DeliveryAttempts (stored_attempt a) = oa_DeliveryAttempts a"
  "oa_DeliveryStartedAt (stored_attempt a) = oa_DeliveryStartedAt a"
  "oa_DeliveryAckAt (stored_attempt a) = oa_DeliveryAckAt a"
  "oa_GatusReceivedAt (stored_attempt a) = oa_GatusReceivedAt a"
  "oa_GatusResultState (stored_attempt a) = oa_GatusResultState a"
  by (simp_all add: stored_attempt_def)

lemma stored_result_fields [simp]:
  "or_State (stored_result r) = or_State r" "or_Category (stored_result r) = or_Category r"
  "or_ObservedAt (stored_result r) = or_ObservedAt r" "or_ReceivedAt (stored_result r) = or_ReceivedAt r"
  "or_ReceiptSHA (stored_result r) = or_ReceiptSHA r" "or_HTTPStatus (stored_result r) = or_HTTPStatus r"
  "validOperationObservationResult (stored_result r) = validOperationObservationResult r"
  by (simp_all add: stored_result_def validOperationObservationResult_def)

lemma stored_attempt_ok [simp]:
  "attempt_state_ok (stored_attempt a) = attempt_state_ok a"
  "attempt_delivery_ok (stored_attempt a) = attempt_delivery_ok a"
  "received_at (stored_attempt a) = received_at a"
proof -
  show r: "received_at (stored_attempt a) = received_at a"
    by (simp add: received_at_def stored_attempt_def split: option.split)
  show "attempt_state_ok (stored_attempt a) = attempt_state_ok a"
    unfolding attempt_state_ok_def no_evidence_def stored_attempt_fields
    by (cases "oa_Result a") (simp_all add: stored_attempt_def)
  show "attempt_delivery_ok (stored_attempt a) = attempt_delivery_ok a"
    unfolding attempt_delivery_ok_def stored_attempt_fields r
    by (cases "oa_Result a") (simp_all add: stored_attempt_def)
qed

lemma attempts_ok_stored:
  "attempts_ok s sid oid g (List.map stored_attempt as) = attempts_ok s sid oid g as"
  by (induction as arbitrary: g) simp_all

lemma attempts_ok_cong:
  "os_Generation s' = os_Generation s \<Longrightarrow> os_EverRequestStarted s' = os_EverRequestStarted s \<Longrightarrow>
    attempts_ok s' sid oid g as = attempts_ok s sid oid g as"
  by (induction as arbitrary: g) simp_all

lemma valid_stored:
  "validOperationAttemptState (stored_state s) sid oid = validOperationAttemptState s sid oid"
proof -
  have a: "attempts_ok (stored_state s) sid oid 0 (List.map stored_attempt (os_Attempts s)) =
      attempts_ok s sid oid 0 (os_Attempts s)"
    using attempts_ok_cong [of "stored_state s" s] attempts_ok_stored [of s] by simp
  show ?thesis
    unfolding validOperationAttemptState_def stored_fields stored_state_attempts a
    by (cases "os_Attempts s = []") (simp_all add: last_map)
qed

lemma readState_Some:
  assumes "readState s oid d = Inr (Some st)"
  shows "d (statePath s oid) = Doc st" "validOperationAttemptState st s oid" "os_SourceID st = s" "os_OperationID st = oid"
    "os_Attempts st \<noteq> []"
  using assms by (auto simp: readState_def validOperationAttemptState_def split: stored.splits if_splits)

lemma readState_None: "readState s oid d = Inr None \<Longrightarrow> d (statePath s oid) = Absent"
  by (auto simp: readState_def split: stored.splits if_splits)

definition state_file_path :: "operationAttemptState \<Rightarrow> string" where
  "state_file_path st = statePath (os_SourceID st) (os_OperationID st)"

definition state_file :: "operationAttemptState \<Rightarrow> operationAttemptState stored" where
  "state_file st = (if valid_utf8 (os_OperationID st) then Doc (stored_state st) else Garbage)"

definition writable :: "operationAttemptState \<Rightarrow> bool" where
  "writable st \<longleftrightarrow> validOperationAttemptState st (os_SourceID st) (os_OperationID st) \<and>
     list_all attempt_times_ok (os_Attempts st) \<and> attempt_state_length st \<le> maxOperationAttemptStateBytes"

lemma writeState_cases:
  assumes "writeState io st d = (e, d')"
  shows "e \<noteq> None \<and> d' = d \<or> writable st \<and> d' = d(state_file_path st := state_file st)"
  using assms by (auto simp: writeState_def Let_def writable_def state_file_def state_file_path_def
      split: if_splits attempt_write.splits)

lemma writeState_unwritable: "\<not> writable st \<Longrightarrow> writeState io st d = (Some ErrOperationAttemptUnavailable, d)"
  by (auto simp: writeState_def Let_def writable_def)

section \<open>What one operation may do to a file\<close>

text \<open>A claimed attempt ends: its identity and the fields of its delivery stay.\<close>

definition ended :: "OperationStoredAttempt \<Rightarrow> OperationStoredAttempt \<Rightarrow> bool" where
  "ended a a' \<longleftrightarrow> oa_State a = ''claimed'' \<and> oa_State a' \<noteq> ''claimed'' \<and> oa_Binding a' = oa_Binding a \<and>
     oa_AttemptID a' = oa_AttemptID a \<and> oa_Generation a' = oa_Generation a \<and> oa_StartedAt a' = oa_StartedAt a \<and>
     oa_LeaseExpiresAt a' = oa_LeaseExpiresAt a \<and> oa_DeliveryGeneration a' = oa_DeliveryGeneration a \<and>
     (oa_DeliveryState a' = oa_DeliveryState a \<or>
      (oa_State a' = ''observed'' \<and> oa_DeliveryState a' \<in> {''not_ready'', ''not_applicable''}))"

text \<open>One step of the delivery of an observed attempt; everything else stays.\<close>

inductive delivery_step :: "OperationStoredAttempt \<Rightarrow> OperationStoredAttempt \<Rightarrow> bool" where
  claim: "\<not> delivery_refused a now \<Longrightarrow> delivery_step a (delivery_claimed a now)"
| acknowledge: "oa_DeliveryState a = ''pending'' \<Longrightarrow> \<not> at < oa_DeliveryStartedAt a \<Longrightarrow>
    delivery_step a (a\<lparr>oa_DeliveryState := ''acknowledged'', oa_DeliveryAckAt := at\<rparr>)"
| readback: "oa_DeliveryState a = ''acknowledged'' \<Longrightarrow> \<not> at < oa_DeliveryAckAt a \<Longrightarrow>
    delivery_step a (a\<lparr>oa_GatusReceivedAt := at, oa_GatusResultState := r, oa_DeliveryState := ''readback_verified''\<rparr>)"

inductive_cases delivery_stepE: "delivery_step a a'"

inductive edit :: "operationAttemptState \<Rightarrow> operationAttemptState \<Rightarrow> bool" where
  begin_new: "begin_decide b attemptID now lease st = Begin st' c \<Longrightarrow> ab_SourceID b = os_SourceID st \<Longrightarrow>
    ab_OperationID b = os_OperationID st \<Longrightarrow> \<not> IsZero now \<Longrightarrow> edit st st'"
| expire: "begin_decide b attemptID now lease st = Expire st' \<Longrightarrow> edit st st'"
| finish: "i < length (os_Attempts st) \<Longrightarrow> ended (os_Attempts st ! i) a \<Longrightarrow>
    (os_EverRequestStarted st \<longrightarrow> ever) \<Longrightarrow>
    edit st (st\<lparr>os_EverRequestStarted := ever, os_CurrentPlanEverRequestStarted := plan,
      os_Attempts := (os_Attempts st)[i := a], os_Generation := os_Generation st + 1\<rparr>)"
| deliver: "i < length (os_Attempts st) \<Longrightarrow> delivery_step (os_Attempts st ! i) a \<Longrightarrow>
    (oa_DeliveryState a = ''pending'' \<longrightarrow> \<not> list_ex undelivered (take i (os_Attempts st))) \<Longrightarrow>
    edit st (put_attempt st i a)"

text \<open>An operation fails and changes nothing, or it edits the file of one identity; it may still
  fail after the edit, when the claim had expired or the directory could not be synced.\<close>

definition effect :: "operation_attempt_error option \<Rightarrow> attempt_dir \<Rightarrow> attempt_dir \<Rightarrow> bool" where
  "effect e d d' \<longleftrightarrow> (e \<noteq> None \<and> d' = d) \<or>
     (\<exists>st st'. (d (state_file_path st) = Doc st \<and> validOperationAttemptState st (os_SourceID st) (os_OperationID st) \<or>
          d (state_file_path st) = Absent \<and> os_Attempts st = []) \<and>
        edit st st' \<and> writable st' \<and> d' = d(state_file_path st' := state_file st'))"

lemma effect_refuse [intro, simp]: "effect (Some e) d d"
  by (simp add: effect_def)

lemma report_simps [simp]: "report (Inl e, d) = (Some e, d)" "report (Inr v, d) = (None, d)"
  by (simp_all add: report_def)

lemma effect_write:
  assumes "readState s oid d = Inr (Some st)" "edit st st'" "writeState io st' d = (e, d')"
  shows "effect (if e = None then e' else e) d d'"
proof -
  note st = readState_Some [OF assms(1)]
  have p: "d (state_file_path st) = Doc st" "validOperationAttemptState st (os_SourceID st) (os_OperationID st)"
    using st by (simp_all add: state_file_path_def)
  show ?thesis
    using writeState_cases [OF assms(3)]
  proof
    assume "e \<noteq> None \<and> d' = d"
    then show ?thesis by auto
  next
    assume "writable st' \<and> d' = d(state_file_path st' := state_file st')"
    then show ?thesis using p assms(2) unfolding effect_def by blast
  qed
qed

lemma find_index_Some:
  "find_index P xs = Some i \<Longrightarrow> i < length xs \<and> P (xs ! i) \<and> (\<forall>j < i. \<not> P (xs ! j))"
proof (induction xs arbitrary: i)
  case Nil
  then show ?case by simp
next
  case (Cons x xs)
  show ?case
  proof (cases "P x")
    case True
    then show ?thesis using Cons.prems by simp
  next
    case False
    then obtain j where j: "find_index P xs = Some j" "i = Suc j" using Cons.prems by auto
    show ?thesis using Cons.IH [OF j(1)] j(2) False by (auto simp: less_Suc_eq_0_disj)
  qed
qed

lemma findOperationAttempt_Some:
  assumes "findOperationAttempt st attemptID g = Some i"
  shows "i < length (os_Attempts st)" "oa_AttemptID (os_Attempts st ! i) = attemptID"
    "oa_Generation (os_Attempts st ! i) = g"
  using find_index_Some [OF assms [unfolded findOperationAttempt_def]] by simp_all

text \<open>The changes the transitions make.\<close>

definition same_history :: "operationAttemptState \<Rightarrow> operationAttemptState \<Rightarrow> bool" where
  "same_history st st1 \<longleftrightarrow> os_SchemaVersion st1 = os_SchemaVersion st \<and> os_OperationID st1 = os_OperationID st \<and>
     os_SourceID st1 = os_SourceID st \<and> os_Generation st1 = os_Generation st \<and>
     os_CurrentPlanSHA256 st1 = os_CurrentPlanSHA256 st \<and> os_Attempts st1 = os_Attempts st \<and>
     (os_EverRequestStarted st \<longrightarrow> os_EverRequestStarted st1)"

lemma same_history_refl [simp]: "same_history st st"
  by (simp add: same_history_def)

lemma same_history_started [simp]: "same_history st (request_started a st)"
  by (simp add: same_history_def request_started_def)

lemma same_history_eq:
  "same_history st st1 \<Longrightarrow> st1 = st\<lparr>os_EverRequestStarted := os_EverRequestStarted st1,
    os_CurrentPlanEverRequestStarted := os_CurrentPlanEverRequestStarted st1\<rparr>"
  by (cases st; cases st1) (simp add: same_history_def)

definition ends :: "attempt_change \<Rightarrow> bool" where
  "ends change \<longleftrightarrow> (\<forall>st a. oa_State a = ''claimed'' \<longrightarrow>
     (case change st a of (e, st1, a') \<Rightarrow> ended a a' \<and> same_history st st1))"

lemma endsD:
  assumes "ends change" "oa_State a = ''claimed''" "change st a = (e, st1, a')"
  shows "ended a a'" "same_history st st1"
  using assms(1) [unfolded ends_def, rule_format, OF assms(2), of st] assms(3) by simp_all

lemma ends_keep:
  "(\<And>a. oa_State a = ''claimed'' \<Longrightarrow> ended a (f a)) \<Longrightarrow> ends (\<lambda>st a. (None, st, f a))"
  by (simp add: ends_def)

lemma ends_started:
  "(\<And>a. oa_State a = ''claimed'' \<Longrightarrow> ended a (f a)) \<Longrightarrow> ends (\<lambda>st a. (None, request_started a st, f a))"
  by (simp add: ends_def)

lemma ends_unless_expired: "ends change \<Longrightarrow> ends (unless_expired now change)"
  by (simp add: ends_def unless_expired_def) (simp add: ended_def)

lemma ends_observed: "ends (observed_change r now)"
  by (auto simp: ends_def observed_change_def ended_def Let_def)

text \<open>The claim an operation ends, for those that end one.\<close>

fun transition_claim :: "attempt_op \<Rightarrow> OperationAttemptClaim option" where
  "transition_claim (OpComplete io store c r now) = Some c"
| "transition_claim (OpStarted io store c sha now) = Some c"
| "transition_claim (OpBlocked io store c sha reason now) = Some c"
| "transition_claim (OpDeferred io store c reason stage category now) = Some c"
| "transition_claim (OpFail io store c now) = Some c"
| "transition_claim _ = None"

lemma transition_shape:
  assumes "transition_claim p = Some c"
  shows "(\<forall>d. attempt_run p d = (Some ErrOperationAttemptUnavailable, d)) \<or>
    (\<exists>io store change. ends change \<and> (\<forall>d. attempt_run p d = report (transitionClaimContext io store c change d)))"
proof (cases p)
  case (OpComplete io store c' r now)
  then have "c' = c" using assms by simp
  moreover have "ends (unless_expired now (observed_change r now))" by (rule ends_unless_expired [OF ends_observed])
  ultimately show ?thesis using OpComplete by (auto simp: completeAttemptContext_def)
next
  case (OpStarted io store c' sha now)
  have "ends (unless_expired now (\<lambda>state a. (None, request_started a state, a\<lparr>oa_State := ''request_started'',
      oa_ReceiptValidated := True, oa_RequestStarted := Some True, oa_FinishedAt := now, oa_ReceiptSHA256 := sha\<rparr>)))"
    by (rule ends_unless_expired, rule ends_started) (simp add: ended_def)
  then show ?thesis using OpStarted assms by (auto simp: recordRequestStartedWithoutObservationContext_def)
next
  case (OpBlocked io store c' sha reason now)
  have "ends (unless_expired now (\<lambda>state a. (None, state, a\<lparr>oa_State := ''failed'', oa_ReceiptValidated := True,
      oa_RequestStarted := Some False, oa_ReceiptSHA256 := sha, oa_BlockReason := reason, oa_FinishedAt := now\<rparr>)))"
    by (rule ends_unless_expired, rule ends_keep) (simp add: ended_def)
  then show ?thesis using OpBlocked assms by (auto simp: recordBlockedAttemptContext_def)
next
  case (OpDeferred io store c' reason stage category now)
  have "ends (unless_expired now (\<lambda>state a. (None, state, a\<lparr>oa_State := ''deferred'', oa_ReceiptValidated := False,
      oa_RequestStarted := Some False, oa_BlockReason := reason, oa_DeferredStage := stage,
      oa_DeferredCategory := category, oa_FinishedAt := now\<rparr>)))"
    by (rule ends_unless_expired, rule ends_keep) (simp add: ended_def)
  then show ?thesis using OpDeferred assms by (auto simp: recordPreDispatchDeferredEvidenceContext_def)
next
  case (OpFail io store c' now)
  have "ends (\<lambda>state a. (None, state, a\<lparr>oa_State := ''unknown'', oa_FinishedAt := now\<rparr>))"
    by (rule ends_keep) (simp add: ended_def)
  then show ?thesis using OpFail assms by (auto simp: failAttemptContext_def)
qed (use assms in simp_all)

lemma transition_effect:
  assumes "ends change" "report (transitionClaimContext io store claim change d) = (e, d')"
  shows "effect e d d'"
proof (cases "\<exists>st i. readState (ab_SourceID (at_Binding claim)) (ab_OperationID (at_Binding claim)) d = Inr (Some st) \<and>
    findOperationAttempt st (at_AttemptID claim) (at_Generation claim) = Some i \<and>
    claim_current claim (os_Attempts st ! i) \<and> ai_context io \<and> \<not> st_readOnly store \<and> ai_lock io")
  case False
  then have "\<exists>x. report (transitionClaimContext io store claim change d) = (Some x, d)"
    by (auto simp: transitionClaimContext_def withStoreLockContext_def split: sum.split option.split)
  then show ?thesis using assms(2) by auto
next
  case True
  then obtain st i where r: "readState (ab_SourceID (at_Binding claim)) (ab_OperationID (at_Binding claim)) d = Inr (Some st)"
    and i: "findOperationAttempt st (at_AttemptID claim) (at_Generation claim) = Some i"
    and cur: "claim_current claim (os_Attempts st ! i)" "ai_context io" "\<not> st_readOnly store" "ai_lock io" by blast
  obtain ae st1 a where ch: "change st (os_Attempts st ! i) = (ae, st1, a)" by (metis prod_cases3)
  have "oa_State (os_Attempts st ! i) = ''claimed''" using cur by (simp add: claim_current_def)
  note e = endsD [OF assms(1) this ch]
  define st2 where "st2 = st1\<lparr>os_Attempts := (os_Attempts st1)[i := a], os_Generation := os_Generation st1 + 1\<rparr>"
  have "edit st st2"
    using edit.finish [OF findOperationAttempt_Some(1) [OF i] e(1), of "os_EverRequestStarted st1"
        "os_CurrentPlanEverRequestStarted st1"] same_history_eq [OF e(2)] e(2)
    by (simp add: st2_def same_history_def)
  moreover obtain we d1 where w: "writeState io st2 d = (we, d1)" by fastforce
  moreover have "e = (if we = None then ae else we) \<and> d' = d1"
    using assms(2) r i cur ch w
    by (auto simp: transitionClaimContext_def withStoreLockContext_def st2_def Let_def split: option.splits)
  ultimately show ?thesis using effect_write [OF r _ w, of ae] by simp
qed

definition claim_path :: "OperationAttemptClaim \<Rightarrow> string" where
  "claim_path c = statePath (ab_SourceID (at_Binding c)) (ab_OperationID (at_Binding c))"

text \<open>A transition that reports success has made its change, and the file shows it.\<close>

lemma transition_commits:
  assumes "ends change" "report (transitionClaimContext io store c change d) = (None, d')"
  obtains st i st1 a where "d (claim_path c) = Doc st" "i < length (os_Attempts st)"
    "oa_AttemptID (os_Attempts st ! i) = at_AttemptID c" "oa_Generation (os_Attempts st ! i) = at_Generation c"
    "claim_current c (os_Attempts st ! i)" "change st (os_Attempts st ! i) = (None, st1, a)"
    "same_history st st1" "ended (os_Attempts st ! i) a"
    "writable (st1\<lparr>os_Attempts := (os_Attempts st)[i := a], os_Generation := os_Generation st + 1\<rparr>)"
    "d' = d(claim_path c := state_file (st1\<lparr>os_Attempts := (os_Attempts st)[i := a], os_Generation := os_Generation st + 1\<rparr>))"
proof -
  obtain st i where r: "readState (ab_SourceID (at_Binding c)) (ab_OperationID (at_Binding c)) d = Inr (Some st)"
    and i: "findOperationAttempt st (at_AttemptID c) (at_Generation c) = Some i"
    and cur: "claim_current c (os_Attempts st ! i)" "ai_context io" "\<not> st_readOnly store" "ai_lock io"
    using assms(2) by (auto simp: transitionClaimContext_def withStoreLockContext_def split: sum.splits option.splits if_splits)
  obtain ae st1 a where ch: "change st (os_Attempts st ! i) = (ae, st1, a)" by (metis prod_cases3)
  have "oa_State (os_Attempts st ! i) = ''claimed''" using cur by (simp add: claim_current_def)
  note e = endsD [OF assms(1) this ch]
  note same = e(2) [unfolded same_history_def]
  let ?st2 = "st1\<lparr>os_Attempts := (os_Attempts st)[i := a], os_Generation := os_Generation st + 1\<rparr>"
  have w: "writeState io ?st2 d = (None, d')" "ae = None"
    using assms(2) r i cur ch same
    by (simp_all add: transitionClaimContext_def withStoreLockContext_def Let_def split: prod.splits option.splits)
  have "state_file_path ?st2 = claim_path c"
    using same readState_Some(3,4) [OF r] by (simp add: state_file_path_def claim_path_def)
  then show thesis
    using that [of st i st1 a] readState_Some(1) [OF r] findOperationAttempt_Some [OF i] cur(1) ch e w(2)
      writeState_cases [OF w(1)] by (simp add: claim_path_def)
qed

lemma begin_effect:
  assumes "report (BeginAttemptContext io store b attemptID now lease d) = (e, d')"
  shows "effect e d d'"
proof (cases "\<exists>found. readState (ab_SourceID b) (ab_OperationID b) d = Inr found \<and> ai_context io \<and>
    \<not> st_readOnly store \<and> ai_lock io \<and> \<not> IsZero now \<and> validOperationAttemptBinding b \<and>
    quotaAttemptIDPattern attemptID \<and> \<not> lease < second \<and> \<not> lease > maxOperationAttemptLease")
  case False
  then have "\<exists>x. report (BeginAttemptContext io store b attemptID now lease d) = (Some x, d)"
    by (auto simp: BeginAttemptContext_def withStoreLockContext_def split: sum.split)
  then show ?thesis using assms by auto
next
  case True
  then obtain found where r: "readState (ab_SourceID b) (ab_OperationID b) d = Inr found"
    and ok: "ai_context io" "\<not> st_readOnly store" "ai_lock io" "\<not> IsZero now" "validOperationAttemptBinding b"
      "quotaAttemptIDPattern attemptID" "\<not> lease < second" "\<not> lease > maxOperationAttemptLease" by blast
  define st where "st = (case found of None \<Rightarrow> fresh_state b | Some s \<Rightarrow> s)"
  have ids: "os_SourceID st = ab_SourceID b" "os_OperationID st = ab_OperationID b"
    using r readState_Some(3,4) [of "ab_SourceID b" "ab_OperationID b" d]
    by (cases found; simp add: st_def fresh_state_def)+
  have stored: "d (state_file_path st) = Doc st \<and> validOperationAttemptState st (os_SourceID st) (os_OperationID st) \<or>
      d (state_file_path st) = Absent \<and> os_Attempts st = []"
  proof (cases found)
    case None
    then show ?thesis using r readState_None by (simp add: st_def fresh_state_def state_file_path_def)
  next
    case (Some s)
    then show ?thesis using readState_Some [of "ab_SourceID b" "ab_OperationID b" d s] r
      by (simp add: st_def state_file_path_def)
  qed
  have body: "(e, d') = report (case begin_decide b attemptID now lease st of
        Refuse e \<Rightarrow> (Inl e, d)
      | Expire state \<Rightarrow> (case writeState io state d of
          (Some e, d') \<Rightarrow> (Inl e, d') | (None, d') \<Rightarrow> (Inl ErrOperationAttemptAmbiguous, d'))
      | Begin state claim \<Rightarrow> (case writeState io state d of
          (Some e, d') \<Rightarrow> (Inl e, d') | (None, d') \<Rightarrow> (Inr claim, d')))"
    using assms r ok by (simp add: BeginAttemptContext_def withStoreLockContext_def st_def)
  have wrote: "effect x d d2" if "edit st st'" "writeState io st' d = (we, d2)" "we \<noteq> None \<longrightarrow> x \<noteq> None" for st' we d2 x
    using writeState_cases [OF that(2)]
  proof
    assume "we \<noteq> None \<and> d2 = d"
    then show ?thesis using that(3) by (auto simp: effect_def)
  next
    assume "writable st' \<and> d2 = d(state_file_path st' := state_file st')"
    then show ?thesis using stored that(1) unfolding effect_def by blast
  qed
  show ?thesis
  proof (cases "begin_decide b attemptID now lease st")
    case (Refuse x)
    then show ?thesis using body by simp
  next
    case (Expire st')
    obtain we d2 where w: "writeState io st' d = (we, d2)" by fastforce
    have "d' = d2 \<and> (we \<noteq> None \<longrightarrow> e \<noteq> None)" using body Expire w by (cases we) simp_all
    then show ?thesis using wrote [OF edit.expire [OF Expire] w, of e] by simp
  next
    case (Begin st' c)
    obtain we d2 where w: "writeState io st' d = (we, d2)" by fastforce
    have "d' = d2 \<and> (we \<noteq> None \<longrightarrow> e \<noteq> None)" using body Begin w by (cases we) simp_all
    then show ?thesis using wrote [OF edit.begin_new [OF Begin] w, of e] ids ok(4) by simp
  qed
qed

text \<open>The three operations on a delivery share their shape.\<close>

lemma delivery_effect:
  assumes "readState s oid d = Inr (Some st)" "findOperationAttempt st attemptID g = Some i"
    and "delivery_step (os_Attempts st ! i) a" "writeState io (put_attempt st i a) d = (we, d')" "e = None \<longrightarrow> we = None"
    and "we \<noteq> None \<longrightarrow> e \<noteq> None"
    and "oa_DeliveryState a = ''pending'' \<longrightarrow> \<not> list_ex undelivered (take i (os_Attempts st))"
  shows "effect e d d'"
  using effect_write [OF assms(1) edit.deliver [OF findOperationAttempt_Some(1) [OF assms(2)] assms(3,7)] assms(4), of None]
    assms(5,6) by (cases we; cases e) (auto simp: effect_def)

lemma ClaimDelivery_effect:
  assumes "report (ClaimDeliveryContext io store s oid attemptID g now lease d) = (e, d')"
  shows "effect e d d'"
proof (cases "\<exists>st i. readState s oid d = Inr (Some st) \<and> findOperationAttempt st attemptID g = Some i \<and>
    \<not> delivery_refused (os_Attempts st ! i) now \<and> \<not> list_ex undelivered (take i (os_Attempts st)) \<and>
    \<not> (oa_DeliveryState (os_Attempts st ! i) = ''pending'' \<and>
       now < oa_DeliveryStartedAt (os_Attempts st ! i) + lease) \<and>
    ai_context io \<and> operationSourceIDPattern s \<and> oid \<noteq> '''' \<and> length oid \<le> 256 \<and> quotaAttemptIDPattern attemptID \<and>
    g \<noteq> 0 \<and> \<not> IsZero now \<and> \<not> lease < second \<and> \<not> lease > maxOperationAttemptLease \<and>
    \<not> st_readOnly store \<and> ai_lock io")
  case False
  then have "\<exists>x. report (ClaimDeliveryContext io store s oid attemptID g now lease d) = (Some x, d)"
    by (auto simp: ClaimDeliveryContext_def withStoreLockContext_def Let_def split: sum.split option.split)
  then show ?thesis using assms by auto
next
  case True
  then obtain st i where r: "readState s oid d = Inr (Some st)" "findOperationAttempt st attemptID g = Some i"
    and ok: "\<not> delivery_refused (os_Attempts st ! i) now" "\<not> list_ex undelivered (take i (os_Attempts st))"
      "\<not> (oa_DeliveryState (os_Attempts st ! i) = ''pending'' \<and>
       now < oa_DeliveryStartedAt (os_Attempts st ! i) + lease)"
      "ai_context io" "operationSourceIDPattern s" "oid \<noteq> ''''" "length oid \<le> 256" "quotaAttemptIDPattern attemptID"
      "g \<noteq> 0" "\<not> IsZero now" "\<not> lease < second" "\<not> lease > maxOperationAttemptLease"
      "\<not> st_readOnly store" "ai_lock io" by blast
  obtain we d2 where w: "writeState io (put_attempt st i (delivery_claimed (os_Attempts st ! i) now)) d = (we, d2)"
    by fastforce
  have "d' = d2 \<and> e = we"
    using assms r ok w
    by (cases we) (simp_all add: ClaimDeliveryContext_def withStoreLockContext_def Let_def)
  then show ?thesis using delivery_effect [OF r delivery_step.claim [OF ok(1)] w] ok(2) by simp
qed

lemma Acknowledge_effect:
  assumes "report (AcknowledgeDeliveryContext io store c at d) = (e, d')"
  shows "effect e d d'"
proof (cases "\<exists>st i. readState (ab_SourceID (dc_Binding c)) (ab_OperationID (dc_Binding c)) d = Inr (Some st) \<and>
    findOperationAttempt st (dc_AttemptID c) (dc_AttemptGeneration c) = Some i \<and>
    oa_DeliveryState (os_Attempts st ! i) = ''pending'' \<and>
    oa_DeliveryGeneration (os_Attempts st ! i) = dc_DeliveryGeneration c \<and> oa_Result (os_Attempts st ! i) \<noteq> None \<and>
    \<not> at < oa_DeliveryStartedAt (os_Attempts st ! i) \<and> ai_context io \<and> validOperationDeliveryClaim c \<and> \<not> IsZero at \<and>
    \<not> st_readOnly store \<and> ai_lock io")
  case False
  then have "\<exists>x. report (AcknowledgeDeliveryContext io store c at d) = (Some x, d)"
    by (auto simp: AcknowledgeDeliveryContext_def withStoreLockContext_def Let_def split: sum.split option.split)
  then show ?thesis using assms by auto
next
  case True
  then obtain st i where r: "readState (ab_SourceID (dc_Binding c)) (ab_OperationID (dc_Binding c)) d = Inr (Some st)"
      "findOperationAttempt st (dc_AttemptID c) (dc_AttemptGeneration c) = Some i"
    and ok: "oa_DeliveryState (os_Attempts st ! i) = ''pending''"
      "oa_DeliveryGeneration (os_Attempts st ! i) = dc_DeliveryGeneration c" "oa_Result (os_Attempts st ! i) \<noteq> None"
      "\<not> at < oa_DeliveryStartedAt (os_Attempts st ! i)" "ai_context io" "validOperationDeliveryClaim c" "\<not> IsZero at"
      "\<not> st_readOnly store" "ai_lock io" by blast
  obtain we d2 where w: "writeState io (put_attempt st i ((os_Attempts st ! i)
      \<lparr>oa_DeliveryState := ''acknowledged'', oa_DeliveryAckAt := at\<rparr>)) d = (we, d2)" by fastforce
  have "d' = d2 \<and> e = we"
    using assms r ok w
    by (cases we) (simp_all add: AcknowledgeDeliveryContext_def withStoreLockContext_def Let_def)
  then show ?thesis using delivery_effect [OF r delivery_step.acknowledge [OF ok(1,4)] w] by simp
qed

lemma Readback_effect:
  assumes "report (RecordGatusReadbackContext io store s oid attemptID g at v d) = (e, d')"
  shows "effect e d d'"
proof (cases "\<exists>st i. readState s oid d = Inr (Some st) \<and> findOperationAttempt st attemptID g = Some i \<and>
    oa_DeliveryState (os_Attempts st ! i) = ''acknowledged'' \<and> oa_Result (os_Attempts st ! i) \<noteq> None \<and>
    \<not> at < oa_DeliveryAckAt (os_Attempts st ! i) \<and> ai_context io \<and> operationSourceIDPattern s \<and> oid \<noteq> '''' \<and>
    quotaAttemptIDPattern attemptID \<and> g \<noteq> 0 \<and> \<not> IsZero at \<and> validGatusResultState v \<and>
    \<not> st_readOnly store \<and> ai_lock io")
  case False
  then have "\<exists>x. report (RecordGatusReadbackContext io store s oid attemptID g at v d) = (Some x, d)"
    by (auto simp: RecordGatusReadbackContext_def withStoreLockContext_def Let_def split: sum.split option.split)
  then show ?thesis using assms by auto
next
  case True
  then obtain st i where r: "readState s oid d = Inr (Some st)" "findOperationAttempt st attemptID g = Some i"
    and ok: "oa_DeliveryState (os_Attempts st ! i) = ''acknowledged''" "oa_Result (os_Attempts st ! i) \<noteq> None"
      "\<not> at < oa_DeliveryAckAt (os_Attempts st ! i)" "ai_context io" "operationSourceIDPattern s" "oid \<noteq> ''''"
      "quotaAttemptIDPattern attemptID" "g \<noteq> 0" "\<not> IsZero at" "validGatusResultState v"
      "\<not> st_readOnly store" "ai_lock io" by blast
  obtain we d2 where w: "writeState io (put_attempt st i ((os_Attempts st ! i)
      \<lparr>oa_GatusReceivedAt := at, oa_GatusResultState := v, oa_DeliveryState := ''readback_verified''\<rparr>)) d = (we, d2)"
    by fastforce
  have "d' = d2 \<and> e = we"
    using assms r ok w
    by (cases we) (simp_all add: RecordGatusReadbackContext_def withStoreLockContext_def Let_def)
  then show ?thesis using delivery_effect [OF r delivery_step.readback [OF ok(1,3)] w] by simp
qed

lemma run_effect:
  assumes "attempt_run p d = (e, d')"
  shows "effect e d d'"
proof (cases "transition_claim p")
  case (Some c)
  then show ?thesis using transition_shape [OF Some] transition_effect assms by fastforce
next
  case None
  then show ?thesis
    using assms begin_effect ClaimDelivery_effect Acknowledge_effect Readback_effect by (cases p) simp_all
qed

section \<open>The invariant of a file\<close>

text \<open>
  Two consecutive attempts are as far apart as the longer of their observation periods, unless
  the first was deferred before any request, and then by the retry delay from its end.
\<close>

definition spaced :: "OperationStoredAttempt \<Rightarrow> OperationStoredAttempt \<Rightarrow> bool" where
  "spaced a b \<longleftrightarrow>
     oa_StartedAt a + max (ab_ObservationPeriod (oa_Binding a)) (ab_ObservationPeriod (oa_Binding b)) \<le> oa_StartedAt b \<or>
     (oa_State a = ''deferred'' \<and> oa_RequestStarted a = Some False \<and>
      oa_FinishedAt a + operationAttemptDeferredRetryDelay \<le> oa_StartedAt b)"

definition readback_after :: "OperationStoredAttempt \<Rightarrow> bool" where
  "readback_after a \<longleftrightarrow> (oa_DeliveryState a = ''readback_verified'' \<longrightarrow> oa_DeliveryAckAt a \<le> oa_GatusReceivedAt a)"

definition file_inv :: "operationAttemptState \<Rightarrow> bool" where
  "file_inv st \<longleftrightarrow> validOperationAttemptState st (os_SourceID st) (os_OperationID st) \<and> valid_utf8 (os_OperationID st) \<and>
     list_all (\<lambda>a. oa_State a \<noteq> ''claimed'') (butlast (os_Attempts st)) \<and> successively spaced (os_Attempts st) \<and>
     list_all readback_after (os_Attempts st)"

text \<open>The path of a file determines the identity in it.\<close>

definition dir_inv :: "attempt_dir \<Rightarrow> bool" where
  "dir_inv d \<longleftrightarrow> (\<forall>path st. d path = Doc st \<longrightarrow> file_inv st \<and> path = state_file_path st)"

lemma spaced_stored [simp]: "spaced (stored_attempt a) (stored_attempt b) = spaced a b"
  by (simp add: spaced_def)

lemma readback_after_stored [simp]: "readback_after (stored_attempt a) = readback_after a"
  by (simp add: readback_after_def)

lemma begin_decide_Begin:
  assumes "begin_decide b attemptID now lease st = Begin st' c"
  shows "os_Attempts st = [] \<or> (oa_State (last (os_Attempts st)) \<noteq> ''claimed'' \<and>
      operationAttemptDueForBinding (last (os_Attempts st)) b now)"
    and "\<exists>kept. os_Attempts st' = kept @ [claimed_attempt b attemptID (os_Generation st + 1) now (now + lease)] \<and>
      (kept = os_Attempts st \<and> length (os_Attempts st) < maxOperationAttemptHistory \<or>
       maxOperationAttemptHistory \<le> length (os_Attempts st) \<and>
       kept = drop (length (os_Attempts st) - maxOperationAttemptHistory + 1) (os_Attempts st) \<and>
       oa_State (hd (os_Attempts st)) \<noteq> ''unknown'' \<and>
       (oa_State (hd (os_Attempts st)) = ''observed'' \<longrightarrow> oa_DeliveryState (hd (os_Attempts st)) = ''readback_verified'' \<or>
        oa_DeliveryState (hd (os_Attempts st)) = ''not_applicable''))"
    and "os_Generation st' = os_Generation st + 1" "os_SourceID st' = os_SourceID st"
      "os_OperationID st' = os_OperationID st" "os_EverRequestStarted st' = os_EverRequestStarted st"
    and "c = \<lparr>at_Binding = b, at_AttemptID = attemptID, at_Generation = os_Generation st + 1, at_StartedAt = now,
      at_ExpiresAt = now + lease\<rparr>"
  using assms
  by (auto simp: begin_decide_def begin_claim_def Let_def split: if_splits)

lemma begin_decide_Expire:
  assumes "begin_decide b attemptID now lease st = Expire st'"
  shows "os_Attempts st \<noteq> []" "oa_State (last (os_Attempts st)) = ''claimed''"
    "\<not> now < oa_LeaseExpiresAt (last (os_Attempts st))"
    "st' = st\<lparr>os_Attempts := butlast (os_Attempts st) @
        [(last (os_Attempts st))\<lparr>oa_State := ''unknown'', oa_FinishedAt := now\<rparr>],
      os_Generation := os_Generation st + 1\<rparr>"
  using assms by (auto simp: begin_decide_def begin_claim_def Let_def split: if_splits)

lemma due_spaced:
  assumes "operationAttemptDueForBinding a b now"
  shows "spaced a (claimed_attempt b attemptID g now expires)"
  using assms by (auto simp: operationAttemptDueForBinding_def operationAttemptHasRetryableQuotaWindowDrain_def
      spaced_def claimed_attempt_def Let_def max_def split: if_splits)

lemma ended_spaced: "ended a a' \<Longrightarrow> spaced x a' = spaced x a"
  by (simp add: ended_def spaced_def)

lemma delivery_same:
  assumes "delivery_step a a'"
  shows "oa_Binding a' = oa_Binding a" "oa_AttemptID a' = oa_AttemptID a" "oa_Generation a' = oa_Generation a"
    "oa_StartedAt a' = oa_StartedAt a" "oa_State a' = oa_State a" "oa_RequestStarted a' = oa_RequestStarted a"
    "oa_FinishedAt a' = oa_FinishedAt a" "oa_Result a' = oa_Result a" "oa_LeaseExpiresAt a' = oa_LeaseExpiresAt a"
  using assms by (cases rule: delivery_step.cases; simp add: delivery_claimed_def)+

lemma delivery_spaced:
  assumes "delivery_step a a'"
  shows "spaced x a' = spaced x a" "spaced a' x = spaced a x"
  using delivery_same [OF assms] by (simp_all add: spaced_def)

lemma delivery_readback: "delivery_step a a' \<Longrightarrow> readback_after a'"
  by (cases rule: delivery_step.cases) (auto simp: readback_after_def delivery_claimed_def)

lemma ended_readback: "ended a a' \<Longrightarrow> attempt_state_ok a \<Longrightarrow> readback_after a'"
  by (auto simp: readback_after_def ended_def attempt_state_ok_def)

text \<open>The checks on every attempt of a valid state.\<close>

definition attempt_ok :: "operationAttemptState \<Rightarrow> string \<Rightarrow> string \<Rightarrow> OperationStoredAttempt \<Rightarrow> bool" where
  "attempt_ok st s oid a \<longleftrightarrow> validOperationAttemptBinding (oa_Binding a) \<and> ab_SourceID (oa_Binding a) = s \<and>
     ab_OperationID (oa_Binding a) = oid \<and> quotaAttemptIDPattern (oa_AttemptID a) \<and>
     oa_Generation a \<le> os_Generation st \<and> \<not> IsZero (oa_StartedAt a) \<and> \<not> oa_LeaseExpiresAt a < oa_StartedAt a \<and>
     time_Sub (oa_LeaseExpiresAt a) (oa_StartedAt a) \<le> maxOperationAttemptLease \<and>
     validOperationAttemptStateName (oa_State a) \<and> validOperationDeliveryState (oa_DeliveryState a) \<and>
     0 \<le> oa_DeliveryAttempts a \<and> oa_DeliveryAttempts a \<le> 1000000 \<and> attempt_state_ok a \<and>
     (oa_RequestStarted a = Some True \<longrightarrow> os_EverRequestStarted st) \<and> attempt_delivery_ok a"

lemma attempts_ok_iff:
  "attempts_ok st s oid g as \<longleftrightarrow>
    list_all (attempt_ok st s oid) as \<and> sorted_wrt (<) (g # List.map oa_Generation as)"
proof (induction as arbitrary: g)
  case Nil
  then show ?case by simp
next
  case (Cons a as)
  have "attempts_ok st s oid g (a # as) \<longleftrightarrow> attempt_ok st s oid a \<and> g < oa_Generation a \<and>
      attempts_ok st s oid (oa_Generation a) as"
    unfolding attempts_ok.simps attempt_ok_def not_le not_less by (rule iffI) (elim conjE, intro conjI; assumption)+
  then show ?case unfolding Cons.IH by (auto dest: order.strict_trans)
qed

lemma attempts_okD:
  assumes "attempts_ok st s oid g as" "a \<in> set as"
  shows "attempt_ok st s oid a" "g < oa_Generation a"
  using assms by (auto simp: attempts_ok_iff list_all_iff)

lemma valid_attempts:
  assumes "validOperationAttemptState st s oid"
  shows "attempts_ok st s oid 0 (os_Attempts st)" "os_Attempts st \<noteq> []" "length (os_Attempts st) \<le> maxOperationAttemptHistory"
  using assms by (simp_all add: validOperationAttemptState_def)

lemma successively_update:
  assumes "successively R xs" "i < length xs" "\<And>x. R x a = R x (xs ! i)" "\<And>x. R a x = R (xs ! i) x"
  shows "successively R (xs[i := a])"
proof -
  have xs: "xs = take i xs @ xs ! i # drop (Suc i) xs" using assms(2) by (rule id_take_nth_drop)
  have "successively R (take i xs @ a # drop (Suc i) xs)"
    using assms(1) by (subst (asm) xs) (auto simp: successively_append_iff successively_Cons assms(3,4))
  then show ?thesis using assms(2) by (simp add: upd_conv_take_nth_drop)
qed

text \<open>Only the last attempt can be claimed, so an attempt that ends is the last one.\<close>

lemma ended_last:
  assumes "list_all (\<lambda>a. oa_State a \<noteq> ''claimed'') (butlast as)" "i < length as" "oa_State (as ! i) = ''claimed''"
  shows "i = length as - 1"
proof (rule ccontr)
  assume "i \<noteq> length as - 1"
  then have "i < length (butlast as)" using assms(2) by simp
  then have "oa_State (butlast as ! i) \<noteq> ''claimed''" using assms(1) by (simp add: list_all_length)
  then show False using assms(2,3) \<open>i < length (butlast as)\<close> by (simp add: nth_butlast)
qed

lemma replace_last:
  assumes "as \<noteq> []" "list_all (\<lambda>a. oa_State a \<noteq> ''claimed'') (butlast as)" "successively spaced as"
    "list_all readback_after as" "\<And>x. spaced x a = spaced x (last as)" "readback_after a"
  shows "list_all (\<lambda>a. oa_State a \<noteq> ''claimed'') (butlast (butlast as @ [a]))" "successively spaced (butlast as @ [a])"
    "list_all readback_after (butlast as @ [a])"
proof -
  obtain xs x where as: "as = xs @ [x]" using assms(1) by (metis rev_exhaust)
  show "list_all (\<lambda>a. oa_State a \<noteq> ''claimed'') (butlast (butlast as @ [a]))" using assms(2) by simp
  show "successively spaced (butlast as @ [a])" using assms(3,5) by (auto simp: as successively_append_iff)
  show "list_all readback_after (butlast as @ [a])" using assms(4,6) by (simp add: as)
qed

lemma file_inv_stored: "file_inv (stored_state st) = file_inv st"
  unfolding file_inv_def stored_fields valid_stored stored_state_attempts
  by (simp add: map_butlast [symmetric] list_all_iff successively_map)

lemma list_all_butlast_drop: "list_all P (butlast xs) \<Longrightarrow> list_all P (butlast (drop k xs))"
  by (metis butlast_drop list_all_iff in_set_dropD)

lemma successively_drop: "successively R xs \<Longrightarrow> successively R (drop k xs)"
  by (metis append_take_drop_id successively_append_iff)

lemma edit_identity:
  assumes "edit st st'"
  shows "os_SourceID st' = os_SourceID st" "os_OperationID st' = os_OperationID st"
    "os_Generation st' = os_Generation st + 1" "os_EverRequestStarted st \<longrightarrow> os_EverRequestStarted st'"
    "state_file_path st' = state_file_path st"
proof -
  have "os_SourceID st' = os_SourceID st \<and> os_OperationID st' = os_OperationID st \<and>
      os_Generation st' = os_Generation st + 1 \<and> (os_EverRequestStarted st \<longrightarrow> os_EverRequestStarted st')"
    using assms
  proof (cases rule: edit.cases)
    case (begin_new b attemptID now lease c)
    then show ?thesis using begin_decide_Begin(3-6) [OF begin_new(1)] by simp
  next
    case (expire b attemptID now lease)
    then show ?thesis using begin_decide_Expire(4) [OF expire] by simp
  qed (simp_all add: put_attempt_def)
  then show "os_SourceID st' = os_SourceID st" "os_OperationID st' = os_OperationID st"
    "os_Generation st' = os_Generation st + 1" "os_EverRequestStarted st \<longrightarrow> os_EverRequestStarted st'"
    "state_file_path st' = state_file_path st" by (simp_all add: state_file_path_def)
qed

definition order_inv :: "OperationStoredAttempt list \<Rightarrow> bool" where
  "order_inv as \<longleftrightarrow> list_all (\<lambda>a. oa_State a \<noteq> ''claimed'') (butlast as) \<and> successively spaced as \<and>
     list_all readback_after as"

lemma file_inv_alt: "file_inv st \<longleftrightarrow>
    validOperationAttemptState st (os_SourceID st) (os_OperationID st) \<and> valid_utf8 (os_OperationID st) \<and>
    order_inv (os_Attempts st)"
  by (auto simp: file_inv_def order_inv_def)

lemma edit_order:
  assumes "edit st st'" "os_Attempts st = [] \<or> file_inv st"
  shows "order_inv (os_Attempts st')"
  using assms(1)
proof (cases rule: edit.cases)
  case (begin_new b attemptID now lease c)
  let ?new = "claimed_attempt b attemptID (os_Generation st + 1) now (now + lease)"
  have fresh: "readback_after ?new" "oa_State ?new = ''claimed''" by (simp_all add: readback_after_def claimed_attempt_def)
  obtain kept where kept: "os_Attempts st' = kept @ [?new]" "kept = os_Attempts st \<or> (\<exists>k. kept = drop k (os_Attempts st))"
    using begin_decide_Begin(2) [OF begin_new(1)] by blast
  show ?thesis
  proof (cases "kept = []")
    case True
    then show ?thesis using kept(1) fresh by (simp add: order_inv_def)
  next
    case False
    obtain k where k: "kept = drop k (os_Attempts st)" using kept(2) by (metis drop0)
    then have ne: "os_Attempts st \<noteq> []" "last kept = last (os_Attempts st)" using False by auto
    then have ord: "order_inv (os_Attempts st)" using assms(2) by (simp add: file_inv_alt)
    have l: "oa_State (last kept) \<noteq> ''claimed''" "spaced (last kept) ?new"
      using begin_decide_Begin(1) [OF begin_new(1)] ne due_spaced by auto
    have "list_all (\<lambda>a. oa_State a \<noteq> ''claimed'') (butlast kept @ [last kept])"
      using ord k l(1) list_all_butlast_drop [of _ "os_Attempts st" k] by (simp add: order_inv_def)
    then have "list_all (\<lambda>a. oa_State a \<noteq> ''claimed'') kept" using False by simp
    then show ?thesis using ord kept(1) k l(2) fresh(1) False successively_drop [of spaced "os_Attempts st" k]
      by (auto simp: order_inv_def successively_append_iff list_all_iff dest: in_set_dropD)
  qed
next
  case (expire b attemptID now lease)
  note ex = begin_decide_Expire [OF expire]
  have inv: "file_inv st" using assms(2) ex(1) by simp
  let ?a = "(last (os_Attempts st))\<lparr>oa_State := ''unknown'', oa_FinishedAt := now\<rparr>"
  have "attempt_state_ok (last (os_Attempts st))"
    using inv ex(1) valid_attempts attempts_okD(1) by (metis attempt_ok_def file_inv_alt last_in_set)
  moreover have e: "ended (last (os_Attempts st)) ?a" using ex(2) by (simp add: ended_def)
  ultimately have "readback_after ?a" by (blast intro: ended_readback)
  then show ?thesis
    using replace_last [OF ex(1), of ?a] inv ended_spaced [OF e] ex(4) by (simp add: file_inv_alt order_inv_def)
next
  case (finish i a ever plan)
  have inv: "file_inv st" using assms(2) finish(2) by auto
  then have ord: "order_inv (os_Attempts st)" by (simp add: file_inv_alt)
  have i: "i = length (os_Attempts st) - 1" "os_Attempts st \<noteq> []"
    using ended_last [of "os_Attempts st" i] ord finish(2,3) by (auto simp: order_inv_def ended_def)
  then have l: "os_Attempts st ! i = last (os_Attempts st)" by (simp add: last_conv_nth)
  have upd: "(os_Attempts st)[i := a] = butlast (os_Attempts st) @ [a]"
    using i by (metis append_butlast_last_id length_butlast list_update_length)
  have "attempt_state_ok (os_Attempts st ! i)"
    using inv finish(2) valid_attempts attempts_okD(1) by (metis attempt_ok_def file_inv_alt nth_mem)
  then have "readback_after a" using finish(3) by (blast intro: ended_readback)
  then show ?thesis
    using replace_last [OF i(2), of a] ord ended_spaced [OF finish(3)] l upd finish(1)
    by (simp add: order_inv_def)
next
  case (deliver i a)
  have ord: "order_inv (os_Attempts st)" using assms(2) deliver(2) by (auto simp: file_inv_alt)
  have "list_all (\<lambda>a. oa_State a \<noteq> ''claimed'') (butlast ((os_Attempts st)[i := a]))"
    using ord deliver(2) delivery_same(5) [OF deliver(3)]
    by (auto simp: order_inv_def list_all_length nth_butlast nth_list_update)
  moreover have "successively spaced ((os_Attempts st)[i := a])"
    using ord deliver(2) delivery_spaced [OF deliver(3)] by (intro successively_update) (auto simp: order_inv_def)
  moreover have "list_all readback_after ((os_Attempts st)[i := a])"
    using ord delivery_readback [OF deliver(3)] set_update_subset_insert [of "os_Attempts st" i a]
    by (auto simp: order_inv_def list_all_iff)
  ultimately show ?thesis using deliver(1) by (simp add: order_inv_def put_attempt_def)
qed

lemma effect_dir_inv:
  assumes "effect e d d'" "dir_inv d"
  shows "dir_inv d'"
proof (cases "d' = d")
  case True
  then show ?thesis using assms by simp
next
  case False
  then obtain st st' where st: "d (state_file_path st) = Doc st \<or> d (state_file_path st) = Absent \<and> os_Attempts st = []"
      "edit st st'" "writable st'" "d' = d(state_file_path st' := state_file st')"
    using assms(1) unfolding effect_def by blast
  have "os_Attempts st = [] \<or> file_inv st" using st(1) assms(2) unfolding dir_inv_def by blast
  then have ord: "order_inv (os_Attempts st')" using edit_order [OF st(2)] by blast
  have "file_inv st'" if "valid_utf8 (os_OperationID st')"
    using ord that st(3) by (simp add: file_inv_alt writable_def)
  then have "state_file st' = Doc x \<Longrightarrow> file_inv x \<and> state_file_path st' = state_file_path x" for x
    by (auto simp: state_file_def file_inv_stored state_file_path_def split: if_splits)
  then show ?thesis using assms(2) st(4) unfolding dir_inv_def by (metis fun_upd_apply)
qed

text \<open>Every operation, whatever its I/O, keeps the invariant of the directory.\<close>

interpretation attempts: invariant_steps attempt_exec dir_inv
proof
  fix d p
  assume "dir_inv d"
  then show "dir_inv (attempt_exec p d)"
    using effect_dir_inv run_effect [of p d "fst (attempt_run p d)" "attempt_exec p d"] by simp
qed

end
