(* ===== verification/Operation_Attempt_Samples.thy ===== *)
theory Operation_Attempt_Samples
  imports Operation_Attempt_Facts
begin

text \<open>
  The sizes of the JSON texts the attempt store writes, bounded in terms of the strings in
  them, and a concrete operation whose first attempt is begun and written.
\<close>

section \<open>Sizes of JSON strings\<close>

definition json_plain :: "char \<Rightarrow> bool" where
  "json_plain c \<longleftrightarrow> (let n = (of_char c :: nat) in 32 \<le> n \<and> n < 127 \<and> n \<notin> {34, 92, 60, 62, 38})"

lemma json_escape_plain: "list_all json_plain s \<Longrightarrow> json_escape (bytes_of s) = s"
proof (induction s)
  case Nil
  then show ?case by (simp add: bytes_of_def)
next
  case (Cons c s)
  then have c: "json_plain c" and s: "json_escape (bytes_of s) = s" by simp_all
  from c have "json_ascii (of_char c) = [c]" "(of_char c :: nat) < 128"
    by (auto simp: json_plain_def json_ascii_def Let_def)
  then show ?case using s by (simp add: bytes_of_def)
qed

lemma json_text_length_plain: "list_all json_plain s \<Longrightarrow> json_text_length s = length s + 2"
  by (simp add: json_text_length_def json_string_def json_escape_plain)

lemma hex_plain: "is_lower_hex c \<Longrightarrow> json_plain c"
  by (auto simp: is_lower_hex_def json_plain_def Let_def)

lemma json_text_length_hex: "hex_string n s \<Longrightarrow> json_text_length s = n + 2"
  by (auto simp: hex_string_def list_all_iff hex_plain intro!: trans [OF json_text_length_plain])

lemma utf8_len_ge: "1 \<le> utf8_len bs"
  by (auto simp: utf8_len_def split: list.split)

lemma json_ascii_nonempty: "1 \<le> length (json_ascii b)"
  by (simp add: json_ascii_def)

lemma json_escape_length: "length bs \<le> length (json_escape bs)"
proof (induction bs rule: json_escape.induct)
  case 1
  then show ?case by simp
next
  case (2 b bs)
  consider "b < 128" | "\<not> b < 128" "utf8_len (b # bs) = 1"
    | "\<not> b < 128" "utf8_len (b # bs) \<noteq> 1" "take 3 (b # bs) = [226, 128, 168]"
    | "\<not> b < 128" "utf8_len (b # bs) \<noteq> 1" "take 3 (b # bs) \<noteq> [226, 128, 168]" "take 3 (b # bs) = [226, 128, 169]"
    | "\<not> b < 128" "utf8_len (b # bs) \<noteq> 1" "take 3 (b # bs) \<noteq> [226, 128, 168]" "take 3 (b # bs) \<noteq> [226, 128, 169]"
    by blast
  then show ?case
  proof cases
    case 1
    then show ?thesis using "2.IH"(1) json_ascii_nonempty [of b] by simp
  next
    case 2
    then show ?thesis using "2.IH"(2) by simp
  next
    case 3
    then show ?thesis using "2.IH"(3) by simp
  next
    case 4
    then show ?thesis using "2.IH"(4) by simp
  next
    case 5
    then have "length (json_escape (b # bs)) = min (Suc (length bs)) (utf8_len (b # bs)) +
        length (json_escape (drop (utf8_len (b # bs) - 1) bs))"
      by (simp only: json_escape.simps if_False length_append length_map length_take length_Cons)
    then show ?thesis using "2.IH"(5) [OF 5] utf8_len_ge [of "b # bs"] by (simp add: min_def split: if_splits)
  qed
qed

lemma json_text_length_ge: "length s + 2 \<le> json_text_length s"
  using json_escape_length [of "bytes_of s"] by (simp add: json_text_length_def json_string_def bytes_of_def)

section \<open>A concrete operation\<close>

definition sample_binding :: OperationAttemptBinding where
  "sample_binding = \<lparr>ab_SourceID = ''s'', ab_OperationID = ''op'', ab_RegistryRevision = replicate 40 CHR ''a'',
     ab_ReleaseManifestSHA = replicate 64 CHR ''a'', ab_IndexSHA = replicate 64 CHR ''a'',
     ab_ShardSHA = replicate 64 CHR ''a'', ab_GatusKey = ''a_b'', ab_ObservationPeriod = minute\<rparr>"

definition sample_id :: string where "sample_id = replicate 64 CHR ''a''"
definition sample_start :: time where "sample_start = from_Unix 600"
definition sample_store :: OperationAttemptStore where
  "sample_store = \<lparr>st_root = ''/state'', st_readOnly = False, st_readStamps = []\<rparr>"
definition sample_io :: attempt_io where
  "sample_io = \<lparr>ai_context = True, ai_lock = True, ai_write = Replaced\<rparr>"

definition sample_claim :: OperationAttemptClaim where
  "sample_claim = \<lparr>at_Binding = sample_binding, at_AttemptID = sample_id, at_Generation = 1,
     at_StartedAt = sample_start, at_ExpiresAt = sample_start + minute\<rparr>"

definition sample_begun :: operationAttemptState where
  "sample_begun = \<lparr>os_SchemaVersion = OperationAttemptStoreSchemaVersion, os_OperationID = ''op'', os_SourceID = ''s'',
     os_Generation = 1, os_EverRequestStarted = False,
     os_CurrentPlanSHA256 = operationAttemptPlanBindingSHA256 sample_binding,
     os_CurrentPlanEverRequestStarted = False,
     os_Attempts = [claimed_attempt sample_binding sample_id 1 sample_start (sample_start + minute)]\<rparr>"

definition sample_path :: string where "sample_path = statePath ''s'' ''op''"
definition sample_dir :: attempt_dir where "sample_dir = (\<lambda>_. Absent)(sample_path := Doc sample_begun)"

lemma hex_replicate [simp]: "hex_string n (replicate n CHR ''a'')"
  by (simp add: hex_string_def is_lower_hex_def list_all_length)

lemma sample_binding_valid [simp]: "validOperationAttemptBinding sample_binding"
  by (simp add: validOperationAttemptBinding_def sample_binding_def operationSourceIDPattern_def source_char_def
      commitPattern_def sha256Pattern_def gatusKeyPattern_def gatus_char_def minute_def second_def list_all_length)

lemma sample_ids [simp]: "ab_SourceID sample_binding = ''s''" "ab_OperationID sample_binding = ''op''"
  by (simp_all add: sample_binding_def)

lemma plan_sha [simp]: "sha256Pattern (operationAttemptPlanBindingSHA256 b)"
  by (simp add: operationAttemptPlanBindingSHA256_def)

lemma plan_sha_length [simp]: "json_text_length (operationAttemptPlanBindingSHA256 b) = 66"
  using json_text_length_hex [of 64 "operationAttemptPlanBindingSHA256 b"] plan_sha [of b] by (simp add: sha256Pattern_def)

lemma sample_id_ok [simp]: "quotaAttemptIDPattern sample_id"
  by (simp add: quotaAttemptIDPattern_def sample_id_def)

lemma sample_start_ok [simp]: "\<not> IsZero sample_start" "json_time_ok sample_start" "json_time_ok (sample_start + minute)"
    "json_time_ok time_zero"
  by (simp_all add: sample_start_def from_Unix_def IsZero_def second_def minute_def unix_epoch_seconds_def json_time_ok_def
      time_zero_def)

lemma sample_utf8 [simp]: "valid_utf8 ''op''"
  by (simp add: valid_utf8_def bytes_of_def)

lemma sample_text [simp]: "json_text_length (replicate n CHR ''a'') = n + 2"
  using json_text_length_hex [OF hex_replicate] by simp

lemma sample_valid [simp]: "validOperationAttemptState sample_begun ''s'' ''op''"
  by (simp add: validOperationAttemptState_def sample_begun_def attempts_ok_iff attempt_ok_def claimed_attempt_def
      attempt_state_ok_def attempt_delivery_ok_def no_evidence_def validOperationAttemptStateName_def
      validOperationDeliveryState_def operationSourceIDPattern_def source_char_def IsZero_def time_zero_def
      sample_start_ok(1) [unfolded IsZero_def] time_Sub_def minute_def second_def maxOperationAttemptLease_def
      maxOperationAttemptHistory_def)

lemma word_length_one [simp]: "json_word_length 1 = 1" "json_word_length 0 = 1" "json_word_length 2 = 1"
  by (simp_all add: json_word_length_def nat_dec.simps)

lemma fraction_digits_zero [simp]: "fraction_digits k 0 = 0"
  by (induction k) simp_all

lemma sample_time_length [simp]:
  "json_time_length sample_start = 22" "json_time_length (sample_start + minute) = 22" "json_time_length time_zero = 22"
  by (simp_all add: json_time_length_def sample_start_def from_Unix_def second_def minute_def unix_epoch_seconds_def
      time_zero_def)

lemma sample_binding_length: "binding_length sample_binding \<le> 600"
  by (simp add: binding_length_def json_list_length_def json_field_length_def json_string_length_def
      sample_binding_def json_text_length_plain json_plain_def int_dec_def minute_def second_def nat_dec.simps)

lemma sample_begun_length: "attempt_state_length sample_begun \<le> maxOperationAttemptStateBytes"
  using sample_binding_length
  by (simp add: attempt_state_length_def json_list_length_def json_field_length_def json_string_length_def
      sample_begun_def attempt_length_def claimed_attempt_def json_text_length_plain json_plain_def int_dec_def
      json_optional_def nat_dec.simps json_bool_length_def OperationAttemptStoreSchemaVersion_def sample_id_def
      maxOperationAttemptStateBytes_def)

text \<open>The first attempt of the operation begins.\<close>

lemma sample_begin:
  "BeginAttemptContext sample_io sample_store sample_binding sample_id sample_start minute (\<lambda>_. Absent) =
    (Inr sample_claim, sample_dir)"
proof -
  let ?fresh = "fresh_state sample_binding"
  have "begin_decide sample_binding sample_id sample_start minute ?fresh = Begin sample_begun sample_claim"
    by (simp add: begin_decide_def begin_claim_def fresh_state_def sample_begun_def sample_claim_def
        maxOperationAttemptHistory_def Let_def)
  moreover have "stored_state sample_begun = sample_begun" "list_all attempt_times_ok (os_Attempts sample_begun)"
      "os_SourceID sample_begun = ''s''" "os_OperationID sample_begun = ''op''"
    by (simp_all add: stored_state_def sample_begun_def claimed_attempt_def attempt_times_ok_def)
  then have "writeState sample_io sample_begun (\<lambda>_. Absent) = (None, sample_dir)"
    using sample_begun_length
    by (simp add: writeState_def sample_io_def sample_dir_def sample_path_def)
  ultimately show ?thesis
    by (simp add: BeginAttemptContext_def withStoreLockContext_def sample_io_def sample_store_def minute_def second_def
        maxOperationAttemptLease_def readState_def)
qed


text \<open>Its process gives up.\<close>

definition sample_lost :: operationAttemptState where
  "sample_lost = sample_begun\<lparr>os_Generation := 2,
     os_Attempts := [(claimed_attempt sample_binding sample_id 1 sample_start (sample_start + minute))
       \<lparr>oa_State := ''unknown'', oa_FinishedAt := sample_start + 1\<rparr>]\<rparr>"

lemma sample_lost_valid: "validOperationAttemptState sample_lost ''s'' ''op''"
  using sample_start_ok(1)
  by (simp add: validOperationAttemptState_def sample_lost_def sample_begun_def attempts_ok_iff attempt_ok_def claimed_attempt_def
      attempt_state_ok_def attempt_delivery_ok_def no_evidence_def validOperationAttemptStateName_def
      validOperationDeliveryState_def operationSourceIDPattern_def source_char_def IsZero_def time_zero_def
      time_Sub_def minute_def second_def maxOperationAttemptLease_def sample_start_def from_Unix_def unix_epoch_seconds_def
      maxOperationAttemptHistory_def)

lemma time_text_length_le: "json_time_length t \<le> 32"
proof -
  have "fraction_digits k n \<le> k" for k n by (induction k arbitrary: n) (auto intro: le_SucI)
  from this [of 9] show ?thesis by (simp add: json_time_length_def Let_def)
qed

lemma sample_lost_length: "attempt_state_length sample_lost \<le> maxOperationAttemptStateBytes"
  using sample_binding_length time_text_length_le [of "sample_start + 1"]
  by (simp add: attempt_state_length_def json_list_length_def json_field_length_def json_string_length_def
      sample_begun_def sample_lost_def attempt_length_def claimed_attempt_def json_text_length_plain json_plain_def int_dec_def
      json_optional_def nat_dec.simps json_bool_length_def OperationAttemptStoreSchemaVersion_def sample_id_def
      maxOperationAttemptStateBytes_def)

lemma sample_fail:
  "attempt_run (OpFail sample_io sample_store sample_claim (sample_start + 1)) sample_dir =
    (None, sample_dir(sample_path := Doc sample_lost))"
proof -
  have claim: "validOperationAttemptClaim sample_claim" "\<not> IsZero (sample_start + 1)"
    using sample_start_ok(1)
    by (simp_all add: validOperationAttemptClaim_def sample_claim_def IsZero_def minute_def second_def time_Sub_def
        maxOperationAttemptLease_def sample_start_def from_Unix_def unix_epoch_seconds_def)
  have ids: "ab_SourceID (at_Binding sample_claim) = ''s''" "ab_OperationID (at_Binding sample_claim) = ''op''"
    by (simp_all add: sample_claim_def)
  have r: "readState ''s'' ''op'' sample_dir = Inr (Some sample_begun)"
    by (simp add: readState_def sample_dir_def sample_path_def)
  have i: "findOperationAttempt sample_begun (at_AttemptID sample_claim) (at_Generation sample_claim) = Some 0"
    and cur: "claim_current sample_claim (os_Attempts sample_begun ! 0)"
    by (simp_all add: findOperationAttempt_def sample_begun_def sample_claim_def claimed_attempt_def claim_current_def)
  have lost: "sample_begun\<lparr>os_Attempts := (os_Attempts sample_begun)[0 := (os_Attempts sample_begun ! 0)
      \<lparr>oa_State := ''unknown'', oa_FinishedAt := sample_start + 1\<rparr>], os_Generation := os_Generation sample_begun + 1\<rparr> = sample_lost"
    by (simp add: sample_lost_def sample_begun_def)
  have "stored_state sample_lost = sample_lost" "list_all attempt_times_ok (os_Attempts sample_lost)"
      "os_SourceID sample_lost = ''s''" "os_OperationID sample_lost = ''op''" "json_time_ok (sample_start + 1)"
    by (simp_all add: stored_state_def sample_begun_def sample_lost_def claimed_attempt_def attempt_times_ok_def
        sample_start_def from_Unix_def second_def unix_epoch_seconds_def json_time_ok_def time_zero_def minute_def)
  then have w: "writeState sample_io sample_lost sample_dir = (None, sample_dir(sample_path := Doc sample_lost))"
    using sample_lost_length sample_lost_valid by (simp add: writeState_def sample_io_def sample_path_def)
  show ?thesis
    using claim i cur r lost w
    by (simp add: failAttemptContext_def transitionClaimContext_def withStoreLockContext_def ids
        sample_io_def sample_store_def)
qed

end
