(* ===== verification/Operation_History_Sizes.thy ===== *)
theory Operation_History_Sizes
  imports Operation_History_Files Operation_Attempt_Samples
begin

text \<open>
  How long the JSON texts of the archive are: a string grows at most six-fold, and everything but the
  evidence itself is bounded by the patterns of its fields.
\<close>

section \<open>Texts\<close>

lemma json_ascii_length: "length (json_ascii b) \<le> 6"
  by (simp add: json_ascii_def)

lemma json_escape_length_le: "length (json_escape bs) \<le> 6 * length bs"
proof (induction bs rule: json_escape.induct)
  case 1
  then show ?case by simp
next
  case (2 b bs)
  consider "b < 128" | "\<not> b < 128" "utf8_len (b # bs) = 1"
    | "\<not> b < 128" "utf8_len (b # bs) \<noteq> 1" "take 3 (b # bs) = [226, 128, 168]"
    | "\<not> b < 128" "utf8_len (b # bs) \<noteq> 1" "take 3 (b # bs) \<noteq> [226, 128, 168]" "take 3 (b # bs) = [226, 128, 169]"
    | "\<not> b < 128" "utf8_len (b # bs) \<noteq> 1" "take 3 (b # bs) \<noteq> [226, 128, 168]" "take 3 (b # bs) \<noteq> [226, 128, 169]"
    by blast
  then show ?case
  proof cases
    case 1
    then show ?thesis using "2.IH"(1) json_ascii_length [of b] by simp
  next
    case 2
    then show ?thesis using "2.IH"(2) by simp
  next
    case 3
    then show ?thesis using "2.IH"(3) by simp
  next
    case 4
    then show ?thesis using "2.IH"(4) by simp
  next
    case 5
    then have "length (json_escape (b # bs)) = min (Suc (length bs)) (utf8_len (b # bs)) +
        length (json_escape (drop (utf8_len (b # bs) - 1) bs))"
      by (simp only: json_escape.simps if_False length_append length_map length_take length_Cons)
    then show ?thesis using "2.IH"(5) [OF 5] utf8_len_ge [of "b # bs"] by (simp add: min_def split: if_splits)
  qed
qed

lemma json_string_length_le: "length (json_string s) \<le> 6 * length s + 2"
  using json_escape_length_le [of "bytes_of s"] by (simp add: json_string_def bytes_of_def)

lemma json_string_length_hex: "hex_string n s \<Longrightarrow> length (json_string s) = n + 2"
  using json_text_length_hex [of n s] by (simp add: json_text_length_def)

lemma json_string_length_sha: "sha256Pattern s \<Longrightarrow> length (json_string s) = 66"
  by (simp add: sha256Pattern_def json_string_length_hex)

lemma json_string_length_commit: "commitPattern s \<Longrightarrow> length (json_string s) = 42"
  by (simp add: commitPattern_def json_string_length_hex)

lemma nat_dec_length: "n < 10 ^ k \<Longrightarrow> 0 < k \<Longrightarrow> length (nat_dec n) \<le> k"
proof (induction k arbitrary: n)
  case 0
  then show ?case by simp
next
  case (Suc k)
  show ?case
  proof (cases "n < 10")
    case True
    then show ?thesis by (simp add: nat_dec.simps)
  next
    case False
    then have "0 < k" using Suc.prems by (cases k) auto
    moreover have "n div 10 < 10 ^ k" using Suc.prems(1) by (simp add: div_less_iff_less_mult)
    ultimately have "length (nat_dec (n div 10)) \<le> k" by (intro Suc.IH)
    then show ?thesis using False by (subst nat_dec.simps) simp
  qed
qed

lemma word_dec_length: "length (word_dec w) \<le> 20"
proof -
  have "unat w < 2 ^ 64" using unsigned_less [of w, where ?'a = nat] by simp
  also have "(2 :: nat) ^ 64 < 10 ^ 20" by simp
  finally show ?thesis unfolding word_dec_def by (intro nat_dec_length) simp_all
qed

lemma int_dec_length: "0 \<le> i \<Longrightarrow> i < 10 ^ 19 \<Longrightarrow> length (int_dec i) \<le> 19"
proof -
  assume i: "0 \<le> i" "i < 10 ^ 19"
  then have "nat i < 10 ^ 19" by (simp add: nat_less_iff)
  then show ?thesis using i by (simp add: int_dec_def nat_dec_length)
qed

lemma padded_length: "nat i < 10 ^ k \<Longrightarrow> n \<le> k \<Longrightarrow> 0 < k \<Longrightarrow> length (padded n i) \<le> k"
  using nat_dec_length [of "nat i" k] by (simp add: padded_def Let_def)

lemma div_ge: "a * k \<le> x \<Longrightarrow> 0 < k \<Longrightarrow> a \<le> x div k" for x :: int
  using zdiv_mono1 [of "a * k" x k] by simp

lemma div_lt: "x < b * k \<Longrightarrow> 0 < k \<Longrightarrow> x div k < b" for x :: int
proof -
  assume x: "x < b * k" and k: "0 < k"
  have "x div k * k \<le> x" using div_mult_mod_eq [of x k] pos_mod_sign [OF k, of x] by linarith
  then have "x div k * k < b * k" using x by simp
  then show ?thesis using k by simp
qed

lemma json_time_length: "json_time_ok t \<Longrightarrow> length (json_time t) \<le> 64"
proof -
  assume ok: "json_time_ok t"
  define s where "s = t div second"
  define z where "z = s div 86400 + 306"
  define doe where "doe = z mod 146097"
  define yoe where "yoe = (doe - doe div 1460 + doe div 36524 - doe div 146096) div 365"
  define doy where "doy = doe - (365 * yoe + yoe div 4 - yoe div 100)"
  define mp where "mp = (5 * doy + 2) div 153"
  define m where "m = (if mp < 10 then mp + 3 else mp - 9)"
  define y where "y = yoe + z div 146097 * 400 + (if m \<le> 2 then 1 else 0)"
  have civil: "civil (s div 86400) = (y, m, doy - (153 * mp + 2) div 5 + 1)"
    unfolding civil_def Let_def
    unfolding z_def [symmetric] unfolding doe_def [symmetric] unfolding yoe_def [symmetric]
    unfolding doy_def [symmetric] unfolding mp_def [symmetric] unfolding m_def [symmetric] unfolding y_def by (rule refl)
  have s: "s < 3652059 * 86400" using ok zdiv_mono1 [of t "3652059 * 86400 * 1000000000 - 1" 1000000000]
    by (simp add: s_def json_time_ok_def second_def)
  then have z: "z div 146097 \<le> 24" by (simp add: z_def)
  have doe: "0 \<le> doe" "doe < 146097" by (simp_all add: doe_def)
  have "0 \<le> doe div 1460" "doe div 1460 \<le> 101" "0 \<le> doe div 36524" "doe div 36524 \<le> 4"
    "0 \<le> doe div 146096" "doe div 146096 \<le> 1"
    using doe by (simp_all add: pos_imp_zdiv_nonneg_iff)
  then have "- 102 \<le> doe - doe div 1460 + doe div 36524 - doe div 146096"
    "doe - doe div 1460 + doe div 36524 - doe div 146096 \<le> 146101" using doe by linarith+
  then have yoe: "- 1 \<le> yoe" "yoe < 402"
    unfolding yoe_def by (auto intro!: div_ge div_lt)
  then have "- 1 \<le> yoe div 4" "yoe div 4 < 102" "- 1 \<le> yoe div 100" "yoe div 100 < 5" by (auto intro!: div_ge div_lt)
  then have doy: "doy \<le> 147000" "- 200000 \<le> doy" using doe yoe unfolding doy_def by linarith+
  then have mp: "- 10000 \<le> mp" "mp < 10000" unfolding mp_def by (auto intro!: div_ge div_lt)
  then have "- 600000 \<le> (153 * mp + 2) div 5" by (auto intro!: div_ge)
  then have bounds: "y < 10 ^ 6" "m < 10 ^ 6" "doy - (153 * mp + 2) div 5 + 1 < 10 ^ 6"
    using z yoe mp doy by (simp_all add: y_def m_def)
  have tod: "s mod 86400 div 3600 < 10 ^ 6" "s mod 86400 div 60 mod 60 < 10 ^ 6" "s mod 86400 mod 60 < 10 ^ 6"
    using pos_mod_bound [of 86400 s] pos_mod_bound [of 60 "s mod 86400 div 60"] pos_mod_bound [of 60 "s mod 86400"]
    by (simp_all add: div_less_iff_less_mult)
  have six: "length (padded n i) \<le> 6" if "i < 10 ^ 6" "n \<le> 6" for n i
    using that by (intro padded_length) (simp_all add: nat_less_iff)
  have "fraction_digits k n \<le> k" for k n by (induction k arbitrary: n) (auto intro: le_SucI)
  from this [of 9] have fraction: "length (take (fraction_digits 9 a) xs) \<le> 9" for a and xs :: string
    by (simp add: min.coboundedI2)
  have pieces: "length (CHR 0x22 # (a @ ''-'' @ b @ ''-'' @ c @ ''T'' @ e @ '':'' @ f @ '':'' @ g @
      (if h = [] then [] else ''.'' @ h) @ ''Z'') @ [CHR 0x22]) \<le> 64"
    if "length a \<le> 6" "length b \<le> 6" "length c \<le> 6" "length e \<le> 6" "length f \<le> 6" "length g \<le> 6" "length h \<le> 9"
    for a b c e f g h :: string
    using that by simp
  show ?thesis
    unfolding json_time_def time_text_def Let_def s_def [symmetric] civil prod.case
    by (intro pieces six bounds tod fraction) simp_all
qed

section \<open>Objects\<close>

lemma json_member_length: "length (json_member name text) = length (json_string name) + 1 + length text"
  by (simp add: json_member_def)

lemma commas_length: "length (commas xs) + 1 = (if xs = [] then 1 else sum_list (List.map (\<lambda>x. length x + 1) xs))"
  by (induction xs rule: commas.induct) auto

lemma json_object_length:
  "length (json_object members) \<le> 2 + sum_list (List.map (\<lambda>(name, text). length (json_string name) + 2 + length text) members)"
proof -
  have "length (commas (List.map (\<lambda>(name, text). json_member name text) members)) \<le>
      sum_list (List.map (\<lambda>(name, text). length (json_string name) + 2 + length text) members)"
    using commas_length [of "List.map (\<lambda>(name, text). json_member name text) members"]
    by (cases members) (auto simp: comp_def case_prod_unfold json_member_length)
  then show ?thesis by (simp add: json_object_def)
qed

lemma json_name_length: "list_all json_plain s \<Longrightarrow> length (json_string s) = length s + 2"
  by (simp add: json_string_def json_escape_plain)

lemma identity_json_length:
  assumes "validateOperationHistoryIdentity i"
  shows "length (identity_json i) \<le> 3000"
proof -
  have attempt: "length (hi_AttemptID i) \<le> 64"
    using assms by (auto simp: validateOperationHistoryIdentity_def operationHistoryAttemptPattern_def uuidPattern_def hex_string_def)
  show ?thesis
    using assms attempt json_string_length_le [of "hi_SourceID i"] json_string_length_le [of "hi_OperationID i"]
      json_string_length_le [of "hi_AttemptID i"] word_dec_length [of "hi_Generation i"]
    unfolding identity_json_def validateOperationHistoryIdentity_def
    by (intro order_trans [OF json_object_length])
       (simp add: json_name_length json_plain_def json_string_length_sha json_string_length_commit)
qed

lemma store_schema_length: "length (json_string OperationHistoryStoreSchemaVersion) \<le> 64"
  by (simp add: OperationHistoryStoreSchemaVersion_def json_name_length json_plain_def)

lemma sequence_json_length:
  assumes "validOperationHistoryPendingSequenceIndex i n" "json_time_ok (si_AppendedAt i)"
  shows "length (sequence_json i) \<le> 1000"
proof -
  have "si_SerializedBytes i < 10 ^ 19"
    using assms by (simp add: validOperationHistoryPendingSequenceIndex_def MaxOperationHistoryBatchBytes_def)
  then show ?thesis
    using assms json_time_length [of "si_AppendedAt i"] word_dec_length [of "si_Sequence i"] store_schema_length
      int_dec_length [of "si_SerializedBytes i"] json_string_length_hex [of 64 "si_RecordID i"]
    unfolding sequence_json_def sequence_members_def validOperationHistoryPendingSequenceIndex_def validHistoryRecordID_def
    by (intro order_trans [OF json_object_length])
       (simp add: json_name_length json_plain_def json_string_length_sha)
qed

lemma base64_length: "length (base64 bs) = (length bs + 2) div 3 * 4"
proof (induction bs rule: base64.induct)
  case (1 a b c rest)
  have "length (a # b # c # rest) + 2 = (length rest + 2) + 3" by simp
  then have "(length (a # b # c # rest) + 2) div 3 = (length rest + 2) div 3 + 1" by (simp only: div_add_self2)
  with 1 show ?case by simp
qed simp_all

lemma record_json_length:
  assumes "validateOperationHistoryRecord r" "length (hr_ReceiptSchemaVersion r) \<le> 1024"
  shows "length (record_json r) \<le> 120000"
proof -
  have fields: "validateOperationHistoryRecordFields r" and seal: "sha256Pattern (operationHistoryRecordSeal r)"
    using assms(1) by (auto simp: validateOperationHistoryRecord_def)
  have times: "json_time_ok (hr_AttemptStartedAt r)" "json_time_ok (hr_ValidatedAt r)"
    using sha256Pattern_nonempty [OF seal] by (auto simp: operationHistoryRecordSeal_def split: if_splits)
  have receipt: "length (base64 (bytes_of (hr_ReceiptBytes r))) \<le> 87384"
    using fields
    by (simp add: base64_length bytes_of_def validateOperationHistoryRecordFields_def MaxOperationHistoryReceiptBytes_def)
      linarith
  have version: "length (json_string (hr_SchemaVersion r)) \<le> 100"
    using fields by (simp add: validateOperationHistoryRecordFields_def OperationHistoryRecordSchemaVersion_def
      json_name_length json_plain_def)
  have uri: "length (hr_ReceiptSchemaURI r) \<le> 512" and validator: "length (hr_ValidatorIdentity r) \<le> 128"
    using fields by (simp_all add: validateOperationHistoryRecordFields_def safeOperationHistorySchemaURI_def
      operationHistoryValidatorPattern_def)
  have identity: "length (identity_json (hr_Identity r)) \<le> 3000"
    using fields by (simp add: validateOperationHistoryRecordFields_def identity_json_length)
  have hashes: "length (json_string (hr_ReceiptSchemaSHA256 r)) = 66" "length (json_string (hr_ReceiptSHA256 r)) = 66"
    "length (json_string (hr_ValidatorRevision r)) = 42"
    using fields by (simp_all add: validateOperationHistoryRecordFields_def json_string_length_sha json_string_length_commit)
  show ?thesis
    unfolding record_json_def
    by (rule order_trans [OF json_object_length])
       (use receipt version uri validator identity hashes assms(2) json_time_length [OF times(1)] json_time_length [OF times(2)]
          json_string_length_le [of "hr_ReceiptSchemaURI r"] json_string_length_le [of "hr_ReceiptSchemaVersion r"]
          json_string_length_le [of "hr_ValidatorIdentity r"]
        in \<open>simp add: json_name_length json_plain_def\<close>)
qed

lemma stored_json_length:
  assumes "validateOperationHistoryRecord (sd_Record s)" "length (hr_ReceiptSchemaVersion (sd_Record s)) \<le> 1024"
    "sd_SchemaVersion s = OperationHistoryStoreSchemaVersion" "sha256Pattern (sd_RecordSHA256 s)" "json_time_ok (sd_AppendedAt s)"
  shows "length (stored_record_json s) \<le> 121000"
  unfolding stored_record_json_def
  by (rule order_trans [OF json_object_length])
     (use assms record_json_length [of "sd_Record s"] store_schema_length json_time_length [of "sd_AppendedAt s"]
        word_dec_length [of "sd_Sequence s"]
      in \<open>simp add: json_name_length json_plain_def json_string_length_sha\<close>)

lemma usage_json_length:
  assumes "us_SchemaVersion u = OperationHistoryStoreSchemaVersion"
    "list_all (\<lambda>n. 0 \<le> n \<and> n < 10 ^ 19) [us_MaximumBytes u, us_UsedBytes u, us_ReservedBytes u, us_RecordCount u,
      us_ReservationCount u, us_AcceptedRecordCount u, us_VerifiedPublicationCount u, us_CapacityBlockedCount u,
      us_OperationKeyCount u]"
    "sha256Pattern digest"
  shows "length (json_object (usage_members u @ [(''usage_sha256'', json_string digest)])) \<le> 2000"
  unfolding usage_members_def
  by (rule order_trans [OF json_object_length])
     (use assms store_schema_length int_dec_length [of "us_MaximumBytes u"] int_dec_length [of "us_UsedBytes u"]
        int_dec_length [of "us_ReservedBytes u"] int_dec_length [of "us_RecordCount u"]
        int_dec_length [of "us_ReservationCount u"] int_dec_length [of "us_AcceptedRecordCount u"]
        int_dec_length [of "us_VerifiedPublicationCount u"] int_dec_length [of "us_CapacityBlockedCount u"]
        int_dec_length [of "us_OperationKeyCount u"] word_dec_length [of "us_NextSequence u"]
      in \<open>simp add: json_name_length json_plain_def json_string_length_sha\<close>)

end
