(* ===== verification/Operation_History_Accounting.thy ===== *)
theory Operation_History_Accounting
  imports Operation_History_Frame Operation_History_Sizes
begin

text \<open>
  What \<^verbatim>\<open>usage.json\<close> is meant to say: the sizes and numbers of the files of an orderly directory, in
  closed form.  Recovery computes the same from the files; every operation keeps it up to date
  without counting again, whatever becomes of its writes.
\<close>

section \<open>Running actions step by step\<close>

lemma ret_run [simp]: "ret x w = (Inr x, w)"
  by (simp add: ret_def)

lemma fail_run [simp]: "fail e w = (Inl e, w)"
  by (simp add: fail_def)

lemma ensure_run [simp]: "ensure b e w = (if b then (Inr (), w) else (Inl e, w))"
  by (simp add: ensure_def)

lemma look_run [simp]: "look f w = (f (hw_dir w), w)"
  by (simp add: look_def)

lemma bnd_run: "m w = (Inr x, w') \<Longrightarrow> bnd m f w = f x w'"
  by (simp add: bnd_def)

lemma bnd_err: "m w = (Inl e, w') \<Longrightarrow> bnd m f w = (Inl e, w')"
  by (simp add: bnd_def)

lemma thn_run: "m w = (Inr x, w') \<Longrightarrow> thn m n w = n w'"
  by (simp add: thn_def bnd_def)

lemma thn_err: "m w = (Inl e, w') \<Longrightarrow> thn m n w = (Inl e, w')"
  by (simp add: thn_def bnd_def)

lemma bnd_ret [simp]: "bnd (ret x) f w = f x w"
  by (simp add: bnd_def)

lemma bnd_look [simp]: "bnd (look f) g w = (case f (hw_dir w) of Inl e \<Rightarrow> (Inl e, w) | Inr x \<Rightarrow> g x w)"
  by (simp add: bnd_def split: sum.split)

lemma thn_look [simp]: "thn (look f) n w = (case f (hw_dir w) of Inl e \<Rightarrow> (Inl e, w) | Inr x \<Rightarrow> n w)"
  by (simp add: thn_def)

lemma thn_ensure [simp]: "thn (ensure b e) n w = (if b then n w else (Inl e, w))"
  by (simp add: thn_def bnd_def)

lemma thn_ret [simp]: "thn (ret x) n w = n w"
  by (simp add: thn_def)

lemma thn_poll: "hw_polls w = None \<Longrightarrow> thn poll m w = m w"
  by (simp add: thn_def bnd_def poll_def)

lemma attempt_run: "attempt_action m w = (Inr (fst (m w)), snd (m w))"
  by (simp add: attempt_action_def split: prod.split)

section \<open>Actions that only read\<close>

text \<open>
  The action finds \<open>x\<close> in the directory \<open>d\<close> and leaves it alone; only a context that is done can stop it.
\<close>

definition reads :: "history_dir \<Rightarrow> 'a \<Rightarrow> 'a action \<Rightarrow> bool" where
  "reads d x m \<longleftrightarrow> (\<forall>w. hw_dir w = d \<longrightarrow>
     (if hw_polls w = None then m w = (Inr x, w)
      else \<exists>w'. hw_dir w' = d \<and> hw_ios w' = hw_ios w \<and> hw_polls w' \<noteq> None \<and>
        (m w = (Inr x, w') \<or> m w = (Inl Context_done, w'))))"

lemma reads_quiet: "(\<And>w. hw_dir w = d \<Longrightarrow> m w = (Inr x, w)) \<Longrightarrow> reads d x m"
  by (auto simp: reads_def)

lemma reads_poll: "reads d () poll"
proof -
  have "poll w = (Inl Context_done, w) \<or> poll w = (Inr (), w\<lparr>hw_polls := Some (n - 1)\<rparr>)" if "hw_polls w = Some n" for w n
    using that by (simp add: poll_def)
  then show ?thesis by (fastforce simp: reads_def poll_def)
qed

lemma reads_run:
  assumes "reads d x m" "hw_dir w = d"
  shows "hw_polls w = None \<Longrightarrow> m w = (Inr x, w)"
    "\<exists>w'. hw_dir w' = d \<and> hw_ios w' = hw_ios w \<and> (hw_polls w' = None \<longleftrightarrow> hw_polls w = None) \<and>
      (m w = (Inr x, w') \<or> (m w = (Inl Context_done, w') \<and> hw_polls w \<noteq> None))"
proof -
  show "m w = (Inr x, w)" if "hw_polls w = None" using assms that by (simp add: reads_def)
  then show "\<exists>w'. hw_dir w' = d \<and> hw_ios w' = hw_ios w \<and> (hw_polls w' = None \<longleftrightarrow> hw_polls w = None) \<and>
      (m w = (Inr x, w') \<or> (m w = (Inl Context_done, w') \<and> hw_polls w \<noteq> None))"
    using assms by (cases "hw_polls w = None") (auto simp: reads_def)
qed

lemma reads_bnd:
  assumes "reads d x m" "reads d y (f x)"
  shows "reads d y (bnd m f)"
  unfolding reads_def
proof (intro allI impI)
  fix w :: history_world
  assume w: "hw_dir w = d"
  show "if hw_polls w = None then bnd m f w = (Inr y, w)
      else \<exists>w'. hw_dir w' = d \<and> hw_ios w' = hw_ios w \<and> hw_polls w' \<noteq> None \<and>
        (bnd m f w = (Inr y, w') \<or> bnd m f w = (Inl Context_done, w'))"
  proof (cases "hw_polls w")
    case None
    then show ?thesis using reads_run(1) [OF assms(1) w] reads_run(1) [OF assms(2) w] by (simp add: bnd_run)
  next
    case (Some n)
    obtain w' where w': "hw_dir w' = d" "hw_ios w' = hw_ios w" "hw_polls w' \<noteq> None"
      and m: "m w = (Inr x, w') \<or> m w = (Inl Context_done, w')"
      using reads_run(2) [OF assms(1) w] Some by auto
    show ?thesis
      using m
    proof
      assume "m w = (Inr x, w')"
      then show ?thesis using reads_run(2) [OF assms(2) w'(1)] w' Some by (auto simp: bnd_run)
    qed (use w' Some in \<open>auto simp: bnd_err\<close>)
  qed
qed

lemma reads_thn: "reads d x m \<Longrightarrow> reads d y n \<Longrightarrow> reads d y (thn m n)"
  by (simp add: thn_def reads_bnd)

lemma reads_polled: "(\<And>w. hw_dir w = d \<Longrightarrow> m w = (Inr x, w)) \<Longrightarrow> reads d x (thn poll m)"
  by (rule reads_thn [OF reads_poll reads_quiet])

lemma reads_ret [simp]: "reads d x (Pair (Inr x))"
  by (rule reads_quiet) simp

lemma reads_look: "f d = Inr x \<Longrightarrow> reads d x (look f)"
  by (rule reads_quiet) simp

lemma reads_ensure: "b \<Longrightarrow> reads d () (ensure b e)"
  by (rule reads_quiet) simp

lemma reads_cons: "reads d s' (f x s) \<Longrightarrow> reads d t (each f xs s') \<Longrightarrow> reads d t (each f (x # xs) s)"
  by (simp add: reads_bnd)

lemma poll_outcome:
  "thn poll n v = (Inl Context_done, v) \<or> (\<exists>v'. hw_dir v' = hw_dir v \<and> thn poll n v = n v')"
proof (cases "hw_polls v")
  case None
  then show ?thesis by (auto simp: thn_poll)
next
  case (Some p)
  then show ?thesis
    by (cases "p = 0") (auto simp: thn_def bnd_def poll_def intro!: exI [of _ "v\<lparr>hw_polls := Some (p - 1)\<rparr>"])
qed

lemma poll_fail: "hw_dir (snd (thn poll (fail e) w)) = hw_dir w"
  by (simp add: thn_def bnd_def poll_def split: option.split)

section \<open>The closed form\<close>

definition index_entry_ok :: "operationHistoryCheckpoint \<Rightarrow> string \<times> operationHistoryOperationIndex stored \<Rightarrow> bool" where
  "index_entry_ok cp entry \<longleftrightarrow> validHistoryRecordID (fst entry) \<and>
     (case read_file (snd entry) index_length operationHistoryOperationIndexMaximumBytes of
        Inl _ \<Rightarrow> False
      | Inr raw \<Rightarrow> validOperationHistoryOperationIndex (decoded_index raw) (fst entry) \<and>
          ox_Sequence (decoded_index raw) \<le> ck_Sequence cp)"

definition index_bytes :: "(string \<times> operationHistoryOperationIndex stored) list \<Rightarrow> int" where
  "index_bytes m = sum_list (List.map (\<lambda>entry. fileCharge (file_size (snd entry) index_length)) m)"

definition entry_fingerprint :: "string \<times> operationHistoryOperationIndex stored \<Rightarrow> nat list" where
  "entry_fingerprint entry = (case snd entry of
     Doc raw \<Rightarrow> operationHistoryOperationIndexFingerprint (decoded_index raw) | _ \<Rightarrow> zero_digest)"

definition index_digest :: "nat list \<Rightarrow> (string \<times> operationHistoryOperationIndex stored) list \<Rightarrow> nat list" where
  "index_digest acc m = foldl (\<lambda>acc entry. xorOperationHistoryDigest acc (entry_fingerprint entry)) acc m"

definition entry_sequence :: "operationHistoryStoredRecord stored \<Rightarrow> 64 word" where
  "entry_sequence f = (case f of Doc s \<Rightarrow> sd_Sequence s | _ \<Rightarrow> 0)"

definition sequence_entry_ok :: "string \<Rightarrow> operationHistoryStoredRecord \<Rightarrow> history_dir \<Rightarrow> bool" where
  "sequence_entry_ok k s d \<longleftrightarrow>
     (case readPendingSequenceIndex (sd_Sequence s) d of
        Inr (Some i) \<Rightarrow> si_RecordID i = k \<and> si_RecordSHA i = sd_RecordSHA256 s \<and>
          si_SerializedBytes i = record_length (sd_Record s) \<and> si_AppendedAt i = sd_AppendedAt s
      | _ \<Rightarrow> False)"

definition record_entry_ok ::
  "OperationHistoryStore \<Rightarrow> operationHistoryCheckpoint \<Rightarrow> history_dir \<Rightarrow> string \<times> operationHistoryStoredRecord stored
    \<Rightarrow> bool" where
  "record_entry_ok st cp d entry \<longleftrightarrow> validHistoryRecordID (fst entry) \<and>
     (case readStoredRecord st (fst entry) d of
        Inl _ \<Rightarrow> False
      | Inr s \<Rightarrow> ck_Sequence cp < sd_Sequence s \<and> sequence_entry_ok (fst entry) s d \<and>
          (case readOperationIndex (hr_Identity (sd_Record s)) d of
             Inl _ \<Rightarrow> False
           | Inr found \<Rightarrow> \<not> overtaken (hi_Generation (hr_Identity (sd_Record s))) found))"

definition record_bytes :: "history_dir \<Rightarrow> (string \<times> operationHistoryStoredRecord stored) list \<Rightarrow> int" where
  "record_bytes d m = sum_list (List.map (\<lambda>entry.
     operationHistoryPendingRecordCharge (file_size (snd entry) stored_length) +
     fileCharge (file_size (file_at (hd_sequence d) (entry_sequence (snd entry))) sequence_length)) m)"

definition pending_sequences :: "(string \<times> operationHistoryStoredRecord stored) list \<Rightarrow> 64 word list" where
  "pending_sequences m = List.map (\<lambda>entry. entry_sequence (snd entry)) m"

definition descriptor_ok :: "operationHistoryCheckpoint \<Rightarrow> history_dir \<Rightarrow> bool" where
  "descriptor_ok cp d \<longleftrightarrow>
     (case readPendingBatchDescriptor d of
        Inl _ \<Rightarrow> False
      | Inr None \<Rightarrow> True
      | Inr (Some p) \<Rightarrow> hd_records d \<noteq> [] \<and> ak_Sequence (hd (pd_Records p)) = ck_Sequence cp + 1 \<and>
          ak_Sequence (last (pd_Records p)) \<le> ck_Sequence cp + of_nat (length (hd_records d)) \<and>
          descriptor_bytes d (pd_Records p) 0)"

definition descriptor_charge :: "history_dir \<Rightarrow> int" where
  "descriptor_charge d = (if hd_descriptor d = Absent then 0 else fileCharge (file_size (hd_descriptor d) descriptor_length))"

definition checkpoint_charge :: "history_dir \<Rightarrow> int" where
  "checkpoint_charge d =
     (if present (hd_checkpoint d) then fileCharge (file_size (hd_checkpoint d) checkpoint_length) else 0)"

definition reservation_entry_ok :: "history_dir \<Rightarrow> string \<times> operationHistoryReservationFile stored \<Rightarrow> bool" where
  "reservation_entry_ok d entry \<longleftrightarrow> validHistoryRecordID (fst entry) \<and> is_ok (readReservation (fst entry) d) \<and>
     \<not> present (file_at (hd_records d) (fst entry))"

definition tally ::
  "OperationHistoryStore \<Rightarrow> int \<Rightarrow> operationHistoryCheckpoint \<Rightarrow> history_dir \<Rightarrow> operationHistoryUsagePayload" where
  "tally st blocked cp d =
     (let accepted = uint (ck_Sequence cp) + int (length (hd_records d))
      in \<lparr>us_SchemaVersion = OperationHistoryStoreSchemaVersion, us_MaximumBytes = st_maxBytes st,
          us_UsedBytes = checkpoint_charge d + index_bytes (hd_index d) + record_bytes d (hd_records d) + descriptor_charge d,
          us_ReservedBytes = int MaxOperationHistoryReservedBytes * int (length (hd_reservations d)),
          us_RecordCount = int (length (hd_records d)), us_ReservationCount = int (length (hd_reservations d)),
          us_AcceptedRecordCount = accepted, us_VerifiedPublicationCount = uint (ck_Sequence cp),
          us_CapacityBlockedCount = blocked, us_OperationKeyCount = int (length (hd_index d)),
          us_NextSequence = word_of_int accepted + 1\<rparr>)"

text \<open>
  The room that the checks of the operations keep free: the headroom of a publication until a batch
  is frozen, and its tailroom from then on.  An archive is opened only with space for the headroom.
\<close>

definition roomy :: "OperationHistoryStore \<Rightarrow> operationHistoryCheckpoint \<Rightarrow> history_dir \<Rightarrow> bool" where
  "roomy st cp d \<longleftrightarrow>
     int (length (hd_records d)) + int (length (hd_reservations d)) \<le> maxOperationHistoryPendingRecords \<and>
     int (length (hd_reservations d)) \<le> maxOperationHistoryReservations \<and>
     (operationHistoryPublicationHeadroom \<le> st_maxBytes st \<longrightarrow>
       us_UsedBytes (tally st 0 cp d) + us_ReservedBytes (tally st 0 cp d) +
         (if hd_descriptor d = Absent then operationHistoryPublicationHeadroom else operationHistoryPublicationTailroom)
       \<le> st_maxBytes st)"

definition orderly :: "OperationHistoryStore \<Rightarrow> operationHistoryCheckpoint \<Rightarrow> history_dir \<Rightarrow> bool" where
  "orderly st cp d \<longleftrightarrow> readCheckpoint d = Inr cp \<and> uint (ck_Sequence cp) < 2 ^ 62 \<and>
     gm_wf (hd_index d) \<and> gm_wf (hd_records d) \<and> gm_wf (hd_sequence d) \<and> gm_wf (hd_reservations d) \<and>
     listed maxOperationHistoryOperationKeys (hd_index d) \<and> list_all (index_entry_ok cp) (hd_index d) \<and>
     (if ck_Sequence cp = 0 then hd_index d = []
      else int (length (hd_index d)) = ck_OperationKeyCount cp \<and>
        hex_encode (index_digest zero_digest (hd_index d)) = ck_OperationIndexSetSHA cp) \<and>
     listed maxOperationHistoryPendingRecords (hd_records d) \<and> list_all (record_entry_ok st cp d) (hd_records d) \<and>
     consecutive (ck_Sequence cp) (sort (pending_sequences (hd_records d))) \<and>
     sequence_listed (pending_sequences (hd_records d)) d \<and> descriptor_ok cp d \<and>
     listed (maxOperationHistoryReservations + maxOperationHistoryPendingRecords) (hd_reservations d) \<and>
     list_all (reservation_entry_ok d) (hd_reservations d) \<and> roomy st cp d"

section \<open>Recovery computes the closed form\<close>

lemma scan_index_reads:
  assumes "index_entry_ok cp entry"
  shows "reads d (u\<lparr>us_UsedBytes := us_UsedBytes u + index_bytes [entry], us_OperationKeyCount := us_OperationKeyCount u + 1\<rparr>,
    index_digest acc [entry]) (scan_index cp entry (u, acc))"
proof -
  obtain raw where raw: "snd entry = Doc raw" "int (index_length raw) \<le> operationHistoryOperationIndexMaximumBytes"
    "validHistoryRecordID (fst entry)" "validOperationHistoryOperationIndex (decoded_index raw) (fst entry)"
    "\<not> ck_Sequence cp < ox_Sequence (decoded_index raw)"
    using assms by (auto simp: index_entry_ok_def read_file_def split: stored.splits if_splits)
  then show ?thesis
    unfolding scan_index_def
    by (intro reads_polled)
       (simp add: read_file_def Let_def use_bytes_def index_bytes_def index_digest_def entry_fingerprint_def file_size_def)
qed

lemma each_scan_index:
  "list_all (index_entry_ok cp) m \<Longrightarrow>
    reads d (u\<lparr>us_UsedBytes := us_UsedBytes u + index_bytes m, us_OperationKeyCount := us_OperationKeyCount u + int (length m)\<rparr>,
      index_digest acc m) (each (scan_index cp) m (u, acc))"
proof (induction m arbitrary: u acc)
  case Nil
  then show ?case by (simp add: index_bytes_def index_digest_def)
next
  case (Cons entry m)
  then have "index_entry_ok cp entry" "list_all (index_entry_ok cp) m" by simp_all
  from reads_cons [of d _ "scan_index cp", OF scan_index_reads [OF this(1)] Cons.IH [OF this(2)]]
  show ?case by (simp add: index_bytes_def index_digest_def algebra_simps)
qed

lemma record_read:
  "readStoredRecord st k d = Inr s \<Longrightarrow> file_at (hd_records d) k = f \<Longrightarrow> sd_Sequence s = entry_sequence f"
  by (auto simp: readStoredRecord_def read_file_def entry_sequence_def split: stored.splits if_splits sum.splits option.splits)

lemma scan_record_reads:
  assumes "record_entry_ok st cp d entry" "file_at (hd_records d) (fst entry) = snd entry"
  shows "reads d (u\<lparr>us_UsedBytes := us_UsedBytes u + record_bytes d [entry], us_RecordCount := us_RecordCount u + 1\<rparr>,
    seqs @ [entry_sequence (snd entry)]) (scan_record st cp entry (u, seqs))"
proof -
  obtain s i found where s: "readStoredRecord st (fst entry) d = Inr s" "ck_Sequence cp < sd_Sequence s"
    "validHistoryRecordID (fst entry)"
    and i: "readPendingSequenceIndex (sd_Sequence s) d = Inr (Some i)"
    "si_RecordID i = fst entry" "si_RecordSHA i = sd_RecordSHA256 s"
    "si_SerializedBytes i = record_length (sd_Record s)" "si_AppendedAt i = sd_AppendedAt s"
    and found: "readOperationIndex (hr_Identity (sd_Record s)) d = Inr found"
      "\<not> overtaken (hi_Generation (hr_Identity (sd_Record s))) found"
    using assms(1) unfolding record_entry_ok_def sequence_entry_ok_def
    by (auto split: sum.splits option.splits)
  have "sd_Sequence s = entry_sequence (snd entry)" using s(1) assms(2) by (rule record_read)
  then show ?thesis
    unfolding scan_record_def
    using s i found
    by (intro reads_polled) (simp add: restore_sequence_def count_record_def use_bytes_def record_bytes_def)
qed

lemma each_scan_record:
  "list_all (record_entry_ok st cp d) m \<Longrightarrow> list_all (\<lambda>entry. file_at (hd_records d) (fst entry) = snd entry) m \<Longrightarrow>
    reads d (u\<lparr>us_UsedBytes := us_UsedBytes u + record_bytes d m, us_RecordCount := us_RecordCount u + int (length m)\<rparr>,
      seqs @ pending_sequences m) (each (scan_record st cp) m (u, seqs))"
proof (induction m arbitrary: u seqs)
  case Nil
  then show ?case by (simp add: record_bytes_def pending_sequences_def)
next
  case (Cons entry m)
  then have "record_entry_ok st cp d entry" "file_at (hd_records d) (fst entry) = snd entry" "list_all (record_entry_ok st cp d) m"
    "list_all (\<lambda>entry. file_at (hd_records d) (fst entry) = snd entry) m" by simp_all
  from reads_cons [of d _ "scan_record st cp", OF scan_record_reads [OF this(1,2)] Cons.IH [OF this(3,4)]]
  show ?case by (simp add: record_bytes_def pending_sequences_def algebra_simps)
qed

lemma scan_reservation_reads:
  assumes "reservation_entry_ok d entry"
  shows "reads d (u\<lparr>us_ReservedBytes := us_ReservedBytes u + int MaxOperationHistoryReservedBytes,
      us_ReservationCount := us_ReservationCount u + 1\<rparr>) (scan_reservation entry u)"
proof -
  obtain r where r: "readReservation (fst entry) d = Inr r" and present: "validHistoryRecordID (fst entry)"
    "\<not> present (file_at (hd_records d) (fst entry))"
    using assms(1) by (auto simp: reservation_entry_ok_def is_ok_iff)
  have "rs_ReservedBytes r = int MaxOperationHistoryReservedBytes"
    using r by (auto simp: readReservation_def Let_def split: sum.splits if_splits)
  then show ?thesis
    unfolding scan_reservation_def
    using r present by (intro reads_polled) (simp add: bnd_run [OF attempt_run])
qed

lemma each_scan_reservation:
  "list_all (reservation_entry_ok d) m \<Longrightarrow>
    reads d (u\<lparr>us_ReservedBytes := us_ReservedBytes u + int MaxOperationHistoryReservedBytes * int (length m),
        us_ReservationCount := us_ReservationCount u + int (length m)\<rparr>) (each scan_reservation m u)"
proof (induction m arbitrary: u)
  case Nil
  then show ?case by simp
next
  case (Cons entry m)
  then have "reservation_entry_ok d entry" "list_all (reservation_entry_ok d) m" by simp_all
  from reads_cons [of d _ scan_reservation, OF scan_reservation_reads [OF this(1)] Cons.IH [OF this(2)]]
  show ?case by (simp add: algebra_simps)
qed

lemma file_at_self: "gm_wf m \<Longrightarrow> list_all (\<lambda>entry. file_at m (fst entry) = snd entry) m"
  by (auto simp: list_all_iff file_at_def)

lemma int64_id: "- (2 ^ 63) \<le> x \<Longrightarrow> x < 2 ^ 63 \<Longrightarrow> int64 x = x"
  by (simp add: int64_def)

lemma pending_sequences_nil [simp]: "pending_sequences m = [] \<longleftrightarrow> m = []" "length (pending_sequences m) = length m"
  by (auto simp: pending_sequences_def)

lemma scan_descriptor_reads:
  assumes "descriptor_ok cp d" "length pending = length (hd_records d)"
  shows "reads d (use_bytes (descriptor_charge d) u) (scan_descriptor cp pending u)"
proof (rule reads_quiet)
  fix w :: history_world
  assume w: "hw_dir w = d"
  have absent: "readPendingBatchDescriptor d = Inr None \<longleftrightarrow> hd_descriptor d = Absent" for d
    by (auto simp: readPendingBatchDescriptor_def read_file_def corrupt_def split: stored.splits if_splits)
  have "pending = [] \<longleftrightarrow> hd_records d = []" using assms(2) by (metis length_0_conv)
  then show "scan_descriptor cp pending u w = (Inr (use_bytes (descriptor_charge d) u), w)"
    using assms absent [of d] w
    by (auto simp: scan_descriptor_def descriptor_ok_def descriptor_charge_def use_bytes_def not_less
      split: sum.splits option.splits)
qed

lemma orderly_lengths: "orderly st cp d \<Longrightarrow> int (length (hd_records d)) \<le> 131072 \<and> uint (ck_Sequence cp) < 2 ^ 62"
  by (simp add: orderly_def listed_def maxOperationHistoryPendingRecords_def)

lemma orderly_accepted:
  assumes "orderly st cp d"
  shows "int64 (uint (ck_Sequence cp) + int (length (hd_records d))) = uint (ck_Sequence cp) + int (length (hd_records d))"
proof (rule int64_id)
  show "- (2 ^ 63) \<le> uint (ck_Sequence cp) + int (length (hd_records d))" by (rule order_trans [of _ 0]) simp_all
  show "uint (ck_Sequence cp) + int (length (hd_records d)) < 2 ^ 63" using orderly_lengths [OF assms] by simp
qed

lemma recount_orderly:
  assumes "orderly st cp d"
  shows "reads d (tally st blocked cp d) (recount st blocked)"
proof -
  let ?u = "initial_usage st blocked cp d"
  let ?indexed = "(?u\<lparr>us_UsedBytes := us_UsedBytes ?u + index_bytes (hd_index d),
    us_OperationKeyCount := us_OperationKeyCount ?u + int (length (hd_index d))\<rparr>, index_digest zero_digest (hd_index d))"
  let ?recorded = "((fst ?indexed)\<lparr>us_UsedBytes := us_UsedBytes (fst ?indexed) + record_bytes d (hd_records d),
    us_RecordCount := us_RecordCount (fst ?indexed) + int (length (hd_records d))\<rparr>, [] @ pending_sequences (hd_records d))"
  let ?accepted = "accept_count cp (use_bytes (descriptor_charge d) (fst ?recorded))"
  let ?out = "?accepted\<lparr>us_ReservedBytes := us_ReservedBytes ?accepted + int MaxOperationHistoryReservedBytes *
      int (length (hd_reservations d)), us_ReservationCount := us_ReservationCount ?accepted + int (length (hd_reservations d))\<rparr>"
  note o = assms [unfolded orderly_def]
  have files: "list_all (\<lambda>entry. file_at (hd_records d) (fst entry) = snd entry) (hd_records d)"
    using o by (intro file_at_self) simp
  have "reads d ?out (recount st blocked)"
    unfolding recount_def
  proof (intro reads_bnd [of d cp] reads_bnd [of d d] reads_thn [of d "()"])
    show "reads d cp (look readCheckpoint)" using o by (intro reads_look) simp
    show "reads d d (look (\<lambda>d. if listed maxOperationHistoryOperationKeys (hd_index d) then Inr d else Inl corrupt))"
      using o by (intro reads_look) simp
    show "reads d ?out (bnd (each (scan_index cp) (hd_index d) (initial_usage st blocked cp d, zero_digest)) (\<lambda>indexed.
        thn (ensure (index_set_ok cp d indexed) corrupt)
        (thn (ensure (listed maxOperationHistoryPendingRecords (hd_records d)) corrupt)
        (bnd (each (scan_record st cp) (hd_records d) (fst indexed, [])) (\<lambda>recorded.
        thn (ensure (consecutive (ck_Sequence cp) (sort (snd recorded))) corrupt)
        (thn (look (\<lambda>d. if sequence_listed (snd recorded) d then Inr () else Inl corrupt))
        (bnd (scan_descriptor cp (snd recorded) (fst recorded)) (\<lambda>u.
        thn (ensure (listed (maxOperationHistoryReservations + maxOperationHistoryPendingRecords) (hd_reservations d)) corrupt)
        (each scan_reservation (hd_reservations d) (accept_count cp u))))))))))"
    proof (intro reads_bnd [of d ?indexed] reads_bnd [of d ?recorded] reads_thn [of d "()"]
        reads_bnd [of d "use_bytes (descriptor_charge d) (fst ?recorded)"])
      show "reads d ?indexed (each (scan_index cp) (hd_index d) (?u, zero_digest))" using o by (intro each_scan_index) simp
      show "reads d () (ensure (index_set_ok cp d ?indexed) corrupt)"
        using o by (intro reads_ensure) (simp add: index_set_ok_def initial_usage_def no_usage_def use_bytes_def Let_def)
      show "reads d ?recorded (each (scan_record st cp) (hd_records d) (fst ?indexed, []))"
        using o files by (intro each_scan_record) simp_all
      show "reads d (use_bytes (descriptor_charge d) (fst ?recorded)) (scan_descriptor cp (snd ?recorded) (fst ?recorded))"
        using o by (intro scan_descriptor_reads) simp_all
      show "reads d ?out (each scan_reservation (hd_reservations d) ?accepted)" using o by (intro each_scan_reservation) simp
    qed (use o in \<open>auto intro!: reads_ensure reads_look\<close>)
  qed
  moreover have "?out = tally st blocked cp d"
    using orderly_accepted [OF assms]
    by (simp add: initial_usage_def no_usage_def use_bytes_def accept_count_def tally_def checkpoint_charge_def Let_def)
  ultimately show ?thesis by simp
qed

section \<open>Settled directories\<close>

text \<open>No transaction is under way and the usage on disk is the closed form.\<close>

definition writable_usage :: "OperationHistoryStore \<Rightarrow> operationHistoryUsagePayload \<Rightarrow> bool" where
  "writable_usage st u \<longleftrightarrow> us_CapacityBlockedCount u \<ge> 0 \<and> us_CapacityBlockedCount u < 2 ^ 63 \<and>
     us_ReservationCount u \<le> maxOperationHistoryReservations \<and> us_UsedBytes u + us_ReservedBytes u \<le> st_maxBytes st"

definition exact_usage :: "OperationHistoryStore \<Rightarrow> operationHistoryCheckpoint \<Rightarrow> history_dir \<Rightarrow> bool" where
  "exact_usage st cp d \<longleftrightarrow>
     (case readUsage st d of Inl _ \<Rightarrow> False | Inr u \<Rightarrow> u = tally st (us_CapacityBlockedCount u) cp d \<and> writable_usage st u)"

definition settled_archive :: "OperationHistoryStore \<Rightarrow> operationHistoryCheckpoint \<Rightarrow> history_dir \<Rightarrow> bool" where
  "settled_archive st cp d \<longleftrightarrow> \<not> present (hd_publication d) \<and> \<not> hd_marker d \<and> orderly st cp d \<and> exact_usage st cp d"

lemma settled_usage:
  assumes "settled_archive st cp d"
  obtains u where "readUsage st d = Inr u" "u = tally st (us_CapacityBlockedCount u) cp d" "writable_usage st u"
  using assms by (auto simp: settled_archive_def exact_usage_def split: sum.splits)

lemma ensureUsage_settled:
  assumes "settled_archive st cp (hw_dir w)" "readUsage st (hw_dir w) = Inr u"
  shows "ensureUsageLocked st w = (Inr u, w)"
  using assms by (simp add: ensureUsageLocked_def settled_archive_def)

section \<open>Writing the usage\<close>

lemma charge_nonneg: "0 \<le> n \<Longrightarrow> 0 \<le> fileCharge n" "0 \<le> n \<Longrightarrow> 0 \<le> operationHistoryPendingRecordCharge n"
  by (simp_all add: fileCharge_def operationHistoryPendingRecordCharge_def operationHistoryFileCharge_def
    operationHistoryPendingMetadataReserve_def)

lemma file_size_nonneg: "0 \<le> file_size f len"
  by (simp add: file_size_def split: stored.split)

lemma account_nonneg:
  "0 \<le> us_UsedBytes (tally st blocked cp d)" "0 \<le> us_ReservedBytes (tally st blocked cp d)"
proof -
  have "0 \<le> index_bytes m" for m
    by (induction m) (simp_all add: index_bytes_def charge_nonneg file_size_nonneg)
  moreover have "0 \<le> record_bytes d m" for m
    by (induction m) (simp_all add: record_bytes_def charge_nonneg file_size_nonneg)
  moreover have "0 \<le> checkpoint_charge d" "0 \<le> descriptor_charge d"
    by (simp_all add: checkpoint_charge_def descriptor_charge_def charge_nonneg file_size_nonneg)
  ultimately show "0 \<le> us_UsedBytes (tally st blocked cp d)" by (simp add: tally_def Let_def)
  show "0 \<le> us_ReservedBytes (tally st blocked cp d)" by (simp add: tally_def Let_def)
qed

lemma tally_ok:
  assumes "orderly st cp d" "writable_usage st (tally st blocked cp d)" "st_maxBytes st \<le> maxOperationHistoryStoreBytes"
  shows "usage_ok (st_maxBytes st) (tally st blocked cp d)"
proof -
  let ?u = "tally st blocked cp d"
  have "int64 (us_UsedBytes ?u + us_ReservedBytes ?u) = us_UsedBytes ?u + us_ReservedBytes ?u"
    using assms(2,3) account_nonneg [of st blocked cp d]
    by (intro int64_id) (simp_all add: writable_usage_def maxOperationHistoryStoreBytes_def)
  moreover have "us_UsedBytes ?u + us_ReservedBytes ?u \<le> st_maxBytes st" "us_CapacityBlockedCount ?u \<ge> 0"
    "us_ReservationCount ?u \<le> maxOperationHistoryReservations"
    using assms(2) by (simp_all add: writable_usage_def)
  ultimately show ?thesis
    using assms(1) account_nonneg [of st blocked cp d]
    by (simp add: usage_ok_def orderly_def listed_def) (simp add: tally_def Let_def)
qed

lemma usage_bounds:
  assumes "orderly st cp d" "writable_usage st (tally st blocked cp d)" "st_maxBytes st \<le> maxOperationHistoryStoreBytes"
  shows "usage_length (publicOperationHistoryUsage (tally st blocked cp d)) \<le> 2000"
proof -
  let ?u = "tally st blocked cp d"
  have ok: "usage_ok (st_maxBytes st) ?u" using assms by (rule tally_ok)
  have accepted: "us_AcceptedRecordCount ?u < 10 ^ 19"
    using orderly_lengths [OF assms(1)] by (simp add: tally_def Let_def)
  have small: "st_maxBytes st \<le> 536870912" "us_UsedBytes ?u + us_ReservedBytes ?u \<le> st_maxBytes st"
    "us_CapacityBlockedCount ?u < 2 ^ 63"
    using assms(2,3) by (simp_all add: writable_usage_def maxOperationHistoryStoreBytes_def)
  note bounds = ok [unfolded usage_ok_def maxOperationHistoryPendingRecords_def maxOperationHistoryReservations_def
      maxOperationHistoryOperationKeys_def]
  have "sha256Pattern (operationHistoryUsageDigest ?u)"
    by (simp add: operationHistoryUsageDigest_def digest_of_def)
  moreover have "list_all (\<lambda>n. 0 \<le> n \<and> n < 10 ^ 19) [us_MaximumBytes ?u, us_UsedBytes ?u, us_ReservedBytes ?u,
      us_RecordCount ?u, us_ReservationCount ?u, us_AcceptedRecordCount ?u, us_VerifiedPublicationCount ?u,
      us_CapacityBlockedCount ?u, us_OperationKeyCount ?u]"
    using bounds small accepted account_nonneg [of st blocked cp d] by simp
  ultimately show ?thesis
    using bounds usage_json_length [of ?u "operationHistoryUsageDigest ?u"]
    by (simp add: usage_length_def usage_json_def publicOperationHistoryUsage_def)
qed

lemma settledI:
  assumes "orderly st cp d" "hd_usage d = Doc (publicOperationHistoryUsage (tally st blocked cp d))"
    "writable_usage st (tally st blocked cp d)" "st_maxBytes st \<le> maxOperationHistoryStoreBytes"
    "\<not> present (hd_publication d)" "\<not> hd_marker d"
  shows "settled_archive st cp d" "readUsage st d = Inr (tally st blocked cp d)"
proof -
  let ?u = "tally st blocked cp d"
  have "usage_ok (st_maxBytes st) ?u" "usage_length (publicOperationHistoryUsage ?u) \<le> 2000"
    using assms by (intro tally_ok usage_bounds; simp)+
  then show read: "readUsage st d = Inr ?u"
    using assms(2) by (simp add: readUsage_def read_file_def publicOperationHistoryUsage_def)
  have "us_CapacityBlockedCount ?u = blocked" by (simp add: tally_def Let_def)
  then show "settled_archive st cp d" using assms read by (simp add: settled_archive_def exact_usage_def)
qed

definition finished :: "operationHistoryUsagePayload \<Rightarrow> history_dir \<Rightarrow> history_dir" where
  "finished u d = d\<lparr>hd_usage := Doc (publicOperationHistoryUsage u), hd_marker := False\<rparr>"

section \<open>What each reader depends on\<close>

lemma readStoredRecord_cong:
  "file_at (hd_records d) k = file_at (hd_records d') k \<Longrightarrow> readStoredRecord st k d = readStoredRecord st k d'"
  by (simp add: readStoredRecord_def)

lemma readReservation_cong:
  "file_at (hd_reservations d) k = file_at (hd_reservations d') k \<Longrightarrow> readReservation k d = readReservation k d'"
  by (simp add: readReservation_def)

lemma readPendingSequenceIndex_cong:
  "file_at (hd_sequence d) n = file_at (hd_sequence d') n \<Longrightarrow> readPendingSequenceIndex n d = readPendingSequenceIndex n d'"
  by (simp add: readPendingSequenceIndex_def)

lemma readOperationIndex_cong: "hd_index d = hd_index d' \<Longrightarrow> readOperationIndex i d = readOperationIndex i d'"
  by (simp add: readOperationIndex_def)

lemma readPendingBatchDescriptor_cong:
  "hd_descriptor d = hd_descriptor d' \<Longrightarrow> readPendingBatchDescriptor d = readPendingBatchDescriptor d'"
  by (simp add: readPendingBatchDescriptor_def)

lemma readCheckpoint_cong: "hd_checkpoint d = hd_checkpoint d' \<Longrightarrow> readCheckpoint d = readCheckpoint d'"
  by (simp add: readCheckpoint_def)

lemma sequence_matches_cong:
  "file_at (hd_sequence d) (ak_Sequence ref) = file_at (hd_sequence d') (ak_Sequence ref) \<Longrightarrow>
    sequence_matches ref d = sequence_matches ref d'"
  unfolding sequence_matches_def by (simp only: readPendingSequenceIndex_cong [of d _ d'])

lemma record_entry_ok_cong:
  assumes "file_at (hd_records d) (fst entry) = file_at (hd_records d') (fst entry)" "hd_index d = hd_index d'"
    "file_at (hd_sequence d) (entry_sequence (file_at (hd_records d) (fst entry))) =
      file_at (hd_sequence d') (entry_sequence (file_at (hd_records d) (fst entry)))"
  shows "record_entry_ok st cp d entry = record_entry_ok st cp d' entry"
proof (cases "readStoredRecord st (fst entry) d")
  case (Inl e)
  then have "readStoredRecord st (fst entry) d' = Inl e" using readStoredRecord_cong [OF assms(1)] by simp
  with Inl show ?thesis by (simp add: record_entry_ok_def)
next
  case (Inr s)
  then have s: "readStoredRecord st (fst entry) d' = Inr s" using readStoredRecord_cong [OF assms(1)] by simp
  have "sd_Sequence s = entry_sequence (file_at (hd_records d) (fst entry))" using Inr by (rule record_read) simp
  then have "readPendingSequenceIndex (sd_Sequence s) d = readPendingSequenceIndex (sd_Sequence s) d'"
    using assms(3) by (intro readPendingSequenceIndex_cong) simp
  then show ?thesis
    using Inr s readOperationIndex_cong [OF assms(2)] by (simp add: record_entry_ok_def sequence_entry_ok_def)
qed

lemma descriptor_bytes_cong:
  "(\<And>n. n \<in> set (List.map ak_Sequence refs) \<Longrightarrow> file_at (hd_sequence d) n = file_at (hd_sequence d') n) \<Longrightarrow>
    descriptor_bytes d refs taken = descriptor_bytes d' refs taken"
proof (induction refs arbitrary: taken)
  case Nil
  then show ?case by simp
next
  case (Cons ref refs)
  have same: "file_at (hd_sequence d) (ak_Sequence ref) = file_at (hd_sequence d') (ak_Sequence ref)"
    using Cons.prems by simp
  have "descriptor_bytes d refs n = descriptor_bytes d' refs n" for n using Cons by simp
  then show ?case
    unfolding descriptor_bytes.simps readPendingSequenceIndex_cong [OF same] sequence_matches_cong [OF same]
    by (simp split: sum.split option.split)
qed

section \<open>Reservations\<close>

text \<open>A directory that differs in its reservations, its usage and its marker only.\<close>

definition same_evidence_files :: "history_dir \<Rightarrow> history_dir \<Rightarrow> bool" where
  "same_evidence_files d d' \<longleftrightarrow> hd_publication d' = hd_publication d \<and> hd_checkpoint d' = hd_checkpoint d \<and>
     hd_descriptor d' = hd_descriptor d \<and> hd_index d' = hd_index d \<and> hd_records d' = hd_records d \<and>
     hd_sequence d' = hd_sequence d"

lemma orderly_reservations:
  assumes "orderly st cp d" "same_evidence_files d d'" "gm_wf (hd_reservations d')"
    "listed (maxOperationHistoryReservations + maxOperationHistoryPendingRecords) (hd_reservations d')"
    "list_all (reservation_entry_ok d') (hd_reservations d')" "roomy st cp d'"
  shows "orderly st cp d'"
proof -
  note same = assms(2) [unfolded same_evidence_files_def]
  have records: "record_entry_ok st cp d' = record_entry_ok st cp d"
    using same by (intro ext record_entry_ok_cong) simp_all
  have "descriptor_bytes d' refs n = descriptor_bytes d refs n" for refs n
    using same by (intro descriptor_bytes_cong) simp
  then have descriptor: "descriptor_ok cp d' = descriptor_ok cp d"
    using same readPendingBatchDescriptor_cong [of d' d] by (simp add: descriptor_ok_def split: sum.split option.split)
  show ?thesis
    using assms(1,3-6) same records descriptor readCheckpoint_cong [of d' d]
    by (simp add: orderly_def sequence_listed_def)
qed

lemma tally_reservations:
  assumes "same_evidence_files d d'"
  shows "tally st blocked cp d' = (tally st blocked cp d)
    \<lparr>us_ReservedBytes := int MaxOperationHistoryReservedBytes * int (length (hd_reservations d')),
     us_ReservationCount := int (length (hd_reservations d'))\<rparr>"
  using assms by (simp add: tally_def same_evidence_files_def Let_def checkpoint_charge_def descriptor_charge_def record_bytes_def)

lemma roomy_reservations:
  assumes "roomy st cp d" "same_evidence_files d d'" "length (hd_reservations d') \<le> length (hd_reservations d)"
  shows "roomy st cp d'"
proof -
  have "int MaxOperationHistoryReservedBytes * int (length (hd_reservations d'))
      \<le> int MaxOperationHistoryReservedBytes * int (length (hd_reservations d))"
    using assms(3) by (intro mult_left_mono) simp_all
  then have "us_UsedBytes (tally st 0 cp d') + us_ReservedBytes (tally st 0 cp d')
      \<le> us_UsedBytes (tally st 0 cp d) + us_ReservedBytes (tally st 0 cp d)"
    unfolding tally_reservations [OF assms(2)] by (simp add: tally_def Let_def)
  then show ?thesis
    using assms(1,3) assms(2) [unfolded same_evidence_files_def] unfolding roomy_def by auto
qed

lemma reservation_entry_ok_cong:
  "file_at (hd_reservations d) (fst entry) = file_at (hd_reservations d') (fst entry) \<Longrightarrow>
    hd_records d = hd_records d' \<Longrightarrow> reservation_entry_ok d entry = reservation_entry_ok d' entry"
  using readReservation_cong [of d "fst entry" d'] by (simp add: reservation_entry_ok_def)

lemma reservation_listed:
  assumes "orderly st cp d"
  shows "k \<in> set (gm_keys (hd_reservations d)) \<longleftrightarrow> file_at (hd_reservations d) k \<noteq> Absent"
proof -
  have "file_at (hd_reservations d) k \<noteq> Absent" if key: "k \<in> set (gm_keys (hd_reservations d))"
  proof -
    obtain f where "(k, f) \<in> set (hd_reservations d)" using key by auto
    then have "reservation_entry_ok d (k, f)" using assms by (auto simp: orderly_def list_all_iff)
    then show ?thesis by (auto simp: reservation_entry_ok_def readReservation_def read_file_def)
  qed
  moreover have "k \<in> set (gm_keys (hd_reservations d))" if "file_at (hd_reservations d) k \<noteq> Absent"
    using that by (force simp: file_at_def split: option.splits dest!: map_of_SomeD)
  ultimately show ?thesis by blast
qed

lemma token_valid: "newOperationHistoryReservationToken random = Some token \<Longrightarrow> validHistoryToken token"
  by (auto simp: newOperationHistoryReservationToken_def validHistoryToken_def hex_string_def dest: be_bytes_bound
    intro!: hex_encode_lower)

lemma reservation_file_length:
  assumes "validateOperationHistoryIdentity i" "validHistoryToken token" "hex_string 64 k" "json_time_ok now"
  shows "reservation_length (reservation_file i k token now) \<le> 4000"
proof -
  have "length (int_dec (int MaxOperationHistoryReservedBytes)) \<le> 19"
    by (rule int_dec_length) (simp_all add: MaxOperationHistoryReservedBytes_def MaxOperationHistoryReceiptBytes_def
      MaxOperationHistorySerializedReceipt_def OperationHistoryEnvelopeReserveBytes_def
      OperationHistoryAtomicTempReserveBytes_def OperationHistoryJournalReserveBytes_def)
  then show ?thesis
    unfolding reservation_length_def reservation_json_def reservation_file_def
    by (intro order_trans [OF json_object_length])
       (use assms identity_json_length [of i] json_time_length [of now] store_schema_length json_string_length_hex [of 64 token]
          json_string_length_hex [of 64 k] in \<open>simp add: json_name_length json_plain_def validHistoryToken_def\<close>)
qed

lemma identity_id: "validateOperationHistoryIdentity i \<Longrightarrow> operationHistoryIdentityKey i = Inr (operationHistoryIdentityIDMust i)"
  "validateOperationHistoryIdentity i \<Longrightarrow> validHistoryRecordID (operationHistoryIdentityIDMust i)"
  using sha256Pattern_sha256_hex [unfolded sha256Pattern_def]
  by (simp_all add: operationHistoryIdentityIDMust_def operationHistoryIdentityKey_def validHistoryRecordID_def)

end
