(* ===== verification/Operation_History_Exact.thy ===== *)
theory Operation_History_Exact
  imports Operation_History_Accounting
begin

text \<open>
  Every operation of the archive leaves the usage exact or the marker of an unfinished mutation: the
  reservations, the append of evidence, the freezing of a batch.
\<close>

section \<open>Safe directories\<close>

lemma tally_blocked [simp]: "us_CapacityBlockedCount (tally st blocked cp d) = blocked"
  "(tally st blocked cp d)\<lparr>us_CapacityBlockedCount := n\<rparr> = tally st n cp d"
  by (simp_all add: tally_def Let_def)

text \<open>The usage on disk and the marker do not count.\<close>

lemma status_orderly:
  "orderly st cp (d\<lparr>hd_usage := x, hd_marker := b\<rparr>) = orderly st cp d"
  "tally st blocked cp (d\<lparr>hd_usage := x, hd_marker := b\<rparr>) = tally st blocked cp d"
proof -
  have same: "same_evidence_files d (d\<lparr>hd_usage := x, hd_marker := b\<rparr>)" for d x b by (simp add: same_evidence_files_def)
  have entries: "reservation_entry_ok (d\<lparr>hd_usage := x, hd_marker := b\<rparr>) = reservation_entry_ok d" for d x b
    by (intro ext reservation_entry_ok_cong) simp_all
  have "orderly st cp d \<Longrightarrow> orderly st cp (d\<lparr>hd_usage := x, hd_marker := b\<rparr>)" for d x b
    by (intro orderly_reservations [OF _ same] roomy_reservations [OF _ same]) (simp_all add: entries orderly_def)
  from this [of d b x] this [of "d\<lparr>hd_usage := x, hd_marker := b\<rparr>" "hd_marker d" "hd_usage d"]
  show "orderly st cp (d\<lparr>hd_usage := x, hd_marker := b\<rparr>) = orderly st cp d" by auto
  show "tally st blocked cp (d\<lparr>hd_usage := x, hd_marker := b\<rparr>) = tally st blocked cp d"
    using tally_reservations [OF same [of d b x], of st blocked cp] by (simp add: tally_def Let_def)
qed

lemma marked_orderly: "orderly st cp (d\<lparr>hd_marker := b\<rparr>) = orderly st cp d"
  "tally st blocked cp (d\<lparr>hd_marker := b\<rparr>) = tally st blocked cp d"
  using status_orderly [where d = d and x = "hd_usage d" and b = b] by simp_all

lemma usage_orderly: "orderly st cp (d\<lparr>hd_usage := x\<rparr>) = orderly st cp d"
  "tally st blocked cp (d\<lparr>hd_usage := x\<rparr>) = tally st blocked cp d"
  using status_orderly [where d = d and x = x and b = "hd_marker d"] by simp_all

text \<open>The finished directory is settled when its usage is the closed form.\<close>

lemma settled_finished:
  assumes "orderly st cp d" "u = tally st (us_CapacityBlockedCount u) cp d" "writable_usage st u"
    "st_maxBytes st \<le> maxOperationHistoryStoreBytes" "\<not> present (hd_publication d)"
  shows "settled_archive st cp (finished u d)"
  using assms
  by (intro settledI(1) [of _ _ _ "us_CapacityBlockedCount u"]) (simp_all add: finished_def status_orderly)

section \<open>Reserve\<close>

lemma reservation_readable:
  assumes "validateOperationHistoryIdentity i" "decoded_identity i = i" "validHistoryToken token" "json_time_ok now"
    "now \<noteq> 0" "k = operationHistoryIdentityIDMust i" "file_at (hd_reservations d) k = Doc (reservation_file i k token now)"
  shows "readReservation k d = Inr (reservation_file i k token now)"
proof -
  have "validHistoryRecordID k" using identity_id(2) [OF assms(1)] assms(6) by simp
  then have "reservation_length (reservation_file i k token now) \<le> 4000"
    using assms by (intro reservation_file_length) (simp_all add: validHistoryRecordID_def)
  then show ?thesis
    using assms by (simp add: readReservation_def read_file_def decoded_reservation_def reservation_file_def Let_def
      utcNormalized_def IsZero_def)
qed

text \<open>The check that \<open>Reserve\<close> makes leaves the room that is kept.\<close>

lemma reserved_roomy:
  assumes "roomy st cp d" "\<not> no_room st (tally st blocked cp d) i d'"
    "same_evidence_files d x" "length (hd_reservations x) = Suc (length (hd_reservations d))"
  shows "roomy st cp x"
proof -
  have "us_UsedBytes (tally st 0 cp x) = us_UsedBytes (tally st blocked cp d)"
    "us_ReservedBytes (tally st 0 cp x) = us_ReservedBytes (tally st blocked cp d) + int MaxOperationHistoryReservedBytes"
    unfolding tally_reservations [OF assms(3)] assms(4) by (simp_all add: tally_def Let_def algebra_simps)
  moreover have "operationHistoryPublicationTailroom \<le> operationHistoryPublicationHeadroom"
    by (simp add: operationHistoryPublicationTailroom_def operationHistoryPublicationHeadroom_def)
  moreover have "us_RecordCount (tally st blocked cp d) = int (length (hd_records d))"
    "us_ReservationCount (tally st blocked cp d) = int (length (hd_reservations d))"
    "hd_records x = hd_records d" "int (length (hd_reservations x)) = int (length (hd_reservations d)) + 1"
    using assms(3,4) by (simp_all add: tally_def Let_def same_evidence_files_def)
  ultimately show ?thesis
    using assms(2) unfolding no_room_def roomy_def by auto
qed

lemma new_reservation:
  assumes "orderly st cp d" "file_at (hd_records d) k = Absent" "file_at (hd_reservations d) k = Absent"
    "validateOperationHistoryIdentity i" "decoded_identity i = i" "validHistoryToken token" "json_time_ok now" "now \<noteq> 0"
    "k = operationHistoryIdentityIDMust i" "\<not> no_room st (tally st shown cp d) i d'"
  shows "orderly st cp (set_reservation k (reservation_file i k token now) d)"
    "tally st blocked cp (set_reservation k (reservation_file i k token now) d) = reserve_usage (tally st blocked cp d)"
proof -
  let ?d = "set_reservation k (reservation_file i k token now) d"
  have fresh: "k \<notin> set (gm_keys (hd_reservations d))" using reservation_listed [OF assms(1)] assms(3) by blast
  then have put: "hd_reservations ?d = hd_reservations d @ [(k, Doc (reservation_file i k token now))]"
    by (simp add: set_reservation_def gm_put_absent)
  have same: "same_evidence_files d ?d" by (simp add: same_evidence_files_def set_reservation_def)
  have "readReservation k ?d = Inr (reservation_file i k token now)"
    by (rule reservation_readable) (use assms in \<open>simp_all add: set_reservation_def\<close>)
  then have entry: "reservation_entry_ok ?d (k, Doc (reservation_file i k token now))"
    using identity_id(2) [OF assms(4)] assms(2,9)
    by (simp add: reservation_entry_ok_def present_def set_reservation_def)
  have "reservation_entry_ok ?d e" if "e \<in> set (hd_reservations d)" for e
  proof -
    have "fst e \<noteq> k" using fresh that by auto
    then have "reservation_entry_ok ?d e = reservation_entry_ok d e"
      by (intro reservation_entry_ok_cong) (simp_all add: set_reservation_def)
    then show ?thesis using assms(1) that by (simp add: orderly_def list_all_iff)
  qed
  with entry have "list_all (reservation_entry_ok ?d) (hd_reservations ?d)" by (simp add: put list_all_iff)
  moreover have "gm_wf (hd_reservations ?d)"
    using assms(1) by (simp add: orderly_def set_reservation_def)
  moreover have "listed (maxOperationHistoryReservations + maxOperationHistoryPendingRecords) (hd_reservations ?d)"
    using assms(10) by (simp add: put listed_def maxOperationHistoryPendingRecords_def no_room_def tally_def Let_def)
  moreover have "roomy st cp ?d"
    using assms(1) by (intro reserved_roomy [OF _ assms(10) same]) (simp_all add: orderly_def put)
  ultimately show "orderly st cp ?d" using orderly_reservations [OF assms(1) same] by blast
  show "tally st blocked cp ?d = reserve_usage (tally st blocked cp d)"
    unfolding tally_reservations [OF same] by (simp add: put reserve_usage_def tally_def Let_def algebra_simps)
qed

section \<open>Cancel\<close>

lemma length_delete:
  "gm_wf m \<Longrightarrow> k \<in> set (gm_keys m) \<Longrightarrow> Suc (length (AList.delete k m)) = length m"
proof (induction m)
  case Nil
  then show ?case by simp
next
  case (Cons e m)
  obtain j x where e: "e = (j, x)" by (cases e)
  show ?case
  proof (cases "j = k")
    case True
    then have "AList.delete k m = m" using Cons.prems(1) e by (intro delete_id) auto
    then show ?thesis using True e by simp
  next
    case False
    then show ?thesis using Cons e by auto
  qed
qed

lemma held_reservation:
  assumes "orderly st cp d" "readReservation k d = Inr r"
  shows "k \<in> set (gm_keys (hd_reservations d))" "rs_ReservedBytes r = int MaxOperationHistoryReservedBytes"
    "file_at (hd_records d) k = Absent"
proof -
  show key: "k \<in> set (gm_keys (hd_reservations d))"
    using assms(2) reservation_listed [OF assms(1)] by (auto simp: readReservation_def read_file_def)
  show "rs_ReservedBytes r = int MaxOperationHistoryReservedBytes"
    using assms(2) by (auto simp: readReservation_def Let_def split: sum.splits if_splits)
  obtain f where "(k, f) \<in> set (hd_reservations d)" using key by auto
  then have "reservation_entry_ok d (k, f)" using assms(1) by (auto simp: orderly_def list_all_iff)
  then show "file_at (hd_records d) k = Absent" by (simp add: reservation_entry_ok_def present_def)
qed

lemma drop_held:
  assumes "orderly st cp d" "readReservation k d = Inr r"
  shows "orderly st cp (drop_reservation k d)"
    "tally st blocked cp (drop_reservation k d) = release_usage r (tally st blocked cp d)"
proof -
  let ?d = "drop_reservation k d"
  have same: "same_evidence_files d ?d" by (simp add: same_evidence_files_def drop_reservation_def)
  have fewer: "Suc (length (hd_reservations ?d)) = length (hd_reservations d)"
    using held_reservation(1) [OF assms] assms(1) by (simp add: drop_reservation_def orderly_def length_delete)
  have "reservation_entry_ok ?d e" if "e \<in> set (hd_reservations ?d)" for e
  proof -
    have "e \<in> set (hd_reservations d)" "fst e \<noteq> k" using that by (auto simp: drop_reservation_def AList.delete_eq)
    then have "reservation_entry_ok ?d e = reservation_entry_ok d e"
      by (intro reservation_entry_ok_cong) (simp_all add: drop_reservation_def)
    then show ?thesis using assms(1) \<open>e \<in> set (hd_reservations d)\<close> by (simp add: orderly_def list_all_iff)
  qed
  moreover have "gm_wf (hd_reservations ?d)"
    using assms(1) by (simp add: orderly_def drop_reservation_def distinct_delete)
  moreover have "listed (maxOperationHistoryReservations + maxOperationHistoryPendingRecords) (hd_reservations ?d)"
    using assms(1) fewer by (simp add: orderly_def listed_def)
  moreover have "roomy st cp ?d"
    using assms(1) fewer by (intro roomy_reservations [OF _ same]) (simp_all add: orderly_def)
  ultimately show "orderly st cp ?d"
    using orderly_reservations [OF assms(1) same] by (simp add: list_all_iff)
  have "int (length (hd_reservations d)) = int (length (hd_reservations ?d)) + 1" using fewer by simp
  then show "tally st blocked cp ?d = release_usage r (tally st blocked cp d)"
    unfolding tally_reservations [OF same]
    by (simp add: release_usage_def tally_def Let_def held_reservation(2) [OF assms] algebra_simps)
qed

end
