(* ===== verification/Operation_History_Append.thy ===== *)
theory Operation_History_Append
  imports Operation_History_Exact
begin

text \<open>
  The append of evidence: the record takes the next number of the pending sequence and the place of
  its reservation.
\<close>

section \<open>The pending sequence\<close>

lemma consecutive_range:
  "consecutive c xs \<Longrightarrow> uint c + int (length xs) < 2 ^ 64 \<Longrightarrow> x \<in> set xs \<Longrightarrow>
    uint c < uint x \<and> uint x \<le> uint c + int (length xs)"
proof (induction xs arbitrary: c)
  case Nil
  then show ?case by simp
next
  case (Cons y xs)
  have "uint c + 1 < 2 ^ 64" using Cons.prems(2) by simp
  then have next_word: "uint (c + 1) = uint c + 1"
    by (simp add: uint_plus_simple_iff word_le_def uint_word_ariths mod_pos_pos_trivial)
  have y: "y = c + 1" "consecutive (c + 1) xs" using Cons.prems(1) by auto
  show ?case
  proof (cases "x = y")
    case True
    then show ?thesis using y(1) next_word by simp
  next
    case False
    then have "x \<in> set xs" using Cons.prems(3) by simp
    then show ?thesis using Cons.IH [OF y(2)] next_word Cons.prems(2) by simp
  qed
qed

lemma consecutive_append:
  "consecutive c (xs @ [x]) \<longleftrightarrow> consecutive c xs \<and> x = c + of_nat (length xs) + 1"
  by (induction xs arbitrary: c) (auto simp: algebra_simps)

lemma sort_append_greater: "(\<And>y. y \<in> set xs \<Longrightarrow> y \<le> x) \<Longrightarrow> sort (xs @ [x]) = sort xs @ [x]" for x :: "'a :: linorder"
  by (rule properties_for_sort) (auto simp: sorted_append)

lemma remdups_snoc: "x \<notin> set xs \<Longrightarrow> remdups (xs @ [x]) = remdups xs @ [x]"
  by (induction xs) auto

text \<open>The number the next record takes.\<close>

definition next_number :: "operationHistoryCheckpoint \<Rightarrow> history_dir \<Rightarrow> 64 word" where
  "next_number cp d = ck_Sequence cp + of_nat (length (hd_records d)) + 1"

lemma tally_next: "us_NextSequence (tally st blocked cp d) = next_number cp d"
  by (simp add: tally_def next_number_def Let_def)

lemma orderly_sequence:
  assumes "orderly st cp d" "x \<in> set (pending_sequences (hd_records d))"
  shows "uint (ck_Sequence cp) < uint x \<and> uint x \<le> uint (ck_Sequence cp) + int (length (hd_records d))"
  using assms orderly_lengths [OF assms(1)] consecutive_range [of "ck_Sequence cp" "sort (pending_sequences (hd_records d))" x]
  by (simp add: orderly_def)

lemma offset_uint:
  assumes "orderly st cp d" "m \<le> length (hd_records d) + 1"
  shows "uint (ck_Sequence cp + of_nat m) = uint (ck_Sequence cp) + int m"
proof -
  define x where "x = uint (ck_Sequence cp) + int m"
  have bounds: "0 \<le> x" "x < 2 ^ 64" using orderly_lengths [OF assms(1)] assms(2) by (simp_all add: x_def)
  have "ck_Sequence cp + of_nat m = word_of_int x" by (simp add: x_def)
  then have "uint (ck_Sequence cp + of_nat m) = x" using bounds by (simp add: unsigned_of_int take_bit_int_eq_self)
  then show ?thesis by (simp add: x_def)
qed

lemma next_number_uint:
  assumes "orderly st cp d"
  shows "uint (next_number cp d) = uint (ck_Sequence cp) + int (length (hd_records d)) + 1"
  using offset_uint [OF assms order_refl] by (simp add: next_number_def algebra_simps)

lemma next_number_fresh:
  assumes "orderly st cp d"
  shows "next_number cp d \<notin> set (pending_sequences (hd_records d))" "next_number cp d \<notin> set (gm_keys (hd_sequence d))"
    "ck_Sequence cp < next_number cp d" "next_number cp d \<noteq> 0"
    "x \<in> set (pending_sequences (hd_records d)) \<Longrightarrow> x \<le> next_number cp d"
proof -
  show fresh: "next_number cp d \<notin> set (pending_sequences (hd_records d))"
    using orderly_sequence [OF assms, of "next_number cp d"] next_number_uint [OF assms] by auto
  have "set (gm_keys (hd_sequence d)) \<subseteq> set (pending_sequences (hd_records d))"
    using assms by (auto simp: orderly_def sequence_listed_def list_all_iff)
  then show "next_number cp d \<notin> set (gm_keys (hd_sequence d))" using fresh by blast
  show "ck_Sequence cp < next_number cp d" using next_number_uint [OF assms] by (simp add: word_less_def)
  then show "next_number cp d \<noteq> 0" by auto
  show "x \<le> next_number cp d" if "x \<in> set (pending_sequences (hd_records d))"
    using orderly_sequence [OF assms that] next_number_uint [OF assms] by (simp add: word_le_def)
qed

lemma record_listed:
  assumes "orderly st cp d"
  shows "k \<in> set (gm_keys (hd_records d)) \<longleftrightarrow> file_at (hd_records d) k \<noteq> Absent"
proof -
  have "file_at (hd_records d) k \<noteq> Absent" if key: "k \<in> set (gm_keys (hd_records d))"
  proof -
    obtain f where "(k, f) \<in> set (hd_records d)" using key by auto
    then have "record_entry_ok st cp d (k, f)" using assms by (auto simp: orderly_def list_all_iff)
    then show ?thesis by (auto simp: record_entry_ok_def readStoredRecord_def read_file_def)
  qed
  moreover have "k \<in> set (gm_keys (hd_records d))" if "file_at (hd_records d) k \<noteq> Absent"
    using that by (force simp: file_at_def split: option.splits dest!: map_of_SomeD)
  ultimately show ?thesis by blast
qed

section \<open>The directory after an append\<close>

definition appended ::
  "string \<Rightarrow> operationHistoryStoredRecord \<Rightarrow> operationHistoryPendingSequenceIndex \<Rightarrow> history_dir \<Rightarrow> history_dir" where
  "appended k s i d = drop_reservation k (set_sequence (sd_Sequence s) i (set_record k s d))"

text \<open>What the operation has checked when it writes.\<close>

definition append_ready ::
  "OperationHistoryStore \<Rightarrow> operationHistoryCheckpoint \<Rightarrow> history_dir \<Rightarrow> OperationHistoryRecord \<Rightarrow> string
    \<Rightarrow> operationHistoryStoredRecord \<Rightarrow> operationHistoryPendingSequenceIndex \<Rightarrow> bool" where
  "append_ready st cp d evidence k s i \<longleftrightarrow> validateOperationHistoryRecord evidence \<and>
     st_validator st (decoded_record evidence) = Some evidence \<and> k = operationHistoryIdentityIDMust (hr_Identity evidence) \<and>
     s = stored_of evidence (hr_sealedRecordSHA256 evidence) (next_number cp d) (sd_AppendedAt s) \<and>
     json_time_ok (sd_AppendedAt s) \<and>
     newOperationHistoryPendingSequenceIndex (next_number cp d) k (hr_sealedRecordSHA256 evidence)
       (record_length evidence) (sd_AppendedAt s) = Inr i \<and>
     append_charge s i \<le> int MaxOperationHistoryReservedBytes \<and>
     us_RecordCount (tally st 0 cp d) < maxOperationHistoryPendingRecords \<and>
     (case readOperationIndex (hr_Identity evidence) d of
        Inl _ \<Rightarrow> False | Inr found \<Rightarrow> \<not> overtaken (hi_Generation (hr_Identity evidence)) found)"

lemma new_sequence_index:
  assumes "newOperationHistoryPendingSequenceIndex n k sha serialized now = Inr i" "json_time_ok now"
  shows "validOperationHistoryPendingSequenceIndex i n" "sequence_length i \<le> 1000" "si_RecordID i = k" "si_RecordSHA i = sha"
    "si_SerializedBytes i = serialized" "si_AppendedAt i = now" "now \<noteq> 0"
proof -
  show valid: "validOperationHistoryPendingSequenceIndex i n" and "si_RecordID i = k" "si_RecordSHA i = sha"
    "si_SerializedBytes i = serialized" and now: "si_AppendedAt i = now"
    using assms(1) by (auto simp: newOperationHistoryPendingSequenceIndex_def Let_def split: if_splits)
  show "sequence_length i \<le> 1000" using sequence_json_length [OF valid] assms(2) now by (simp add: sequence_length_def)
  show "now \<noteq> 0" using valid now by (simp add: validOperationHistoryPendingSequenceIndex_def utcNormalized_def IsZero_def)
qed

lemma charge_covers: "append_charge s i \<le> int MaxOperationHistoryReservedBytes \<Longrightarrow> int (stored_length s) \<le> int MaxOperationHistoryReservedBytes"
  by (simp add: append_charge_def operationHistoryPendingRecordCharge_def fileCharge_def operationHistoryFileCharge_def
    operationHistoryPendingMetadataReserve_def)

lemma appended_record:
  assumes "orderly st cp d" "append_ready st cp d evidence k s i"
  shows "readStoredRecord st k (appended k s i d) = Inr s" "sd_Record s = evidence" "sd_Sequence s = next_number cp d"
    "readPendingSequenceIndex (next_number cp d) (appended k s i d) = Inr (Some i)"
    "record_entry_ok st cp (appended k s i d) (k, Doc s)"
proof -
  note ready = assms(2) [unfolded append_ready_def]
  show evidence: "sd_Record s = evidence" and number: "sd_Sequence s = next_number cp d"
    using ready by (metis operationHistoryStoredRecord.select_convs(2) stored_of_def,
      metis operationHistoryStoredRecord.select_convs(4) stored_of_def)
  have schema: "sd_SchemaVersion s = OperationHistoryStoreSchemaVersion" and sha: "sd_RecordSHA256 s = hr_sealedRecordSHA256 evidence"
    using ready by (metis operationHistoryStoredRecord.select_convs(1) stored_of_def,
      metis operationHistoryStoredRecord.select_convs(3) stored_of_def)
  have identity: "validateOperationHistoryIdentity (hr_Identity evidence)"
    using ready by (simp add: validateOperationHistoryRecord_def validateOperationHistoryRecordFields_def)
  have new: "newOperationHistoryPendingSequenceIndex (next_number cp d) k (hr_sealedRecordSHA256 evidence)
      (record_length evidence) (sd_AppendedAt s) = Inr i" using ready by blast
  have time: "json_time_ok (sd_AppendedAt s)" using ready by blast
  note index = new_sequence_index [OF new time]
  have "s\<lparr>sd_Record := evidence\<rparr> = s" using evidence by simp
  moreover have "file_at (hd_records (appended k s i d)) k = Doc s"
    by (simp add: appended_def drop_reservation_def set_sequence_def set_record_def)
  ultimately show read: "readStoredRecord st k (appended k s i d) = Inr s"
    using ready evidence number schema sha identity_id(2) [OF identity] charge_covers [of s i] next_number_fresh(4) [OF assms(1)]
      index(7)
    by (simp add: readStoredRecord_def read_file_def utcNormalized_def IsZero_def ContentSHA256_def)
  show sequence: "readPendingSequenceIndex (next_number cp d) (appended k s i d) = Inr (Some i)"
    using index(1,2) number
    by (simp add: readPendingSequenceIndex_def read_file_def appended_def drop_reservation_def set_sequence_def)
  have "readOperationIndex (hr_Identity evidence) (appended k s i d) = readOperationIndex (hr_Identity evidence) d"
    by (rule readOperationIndex_cong) (simp add: appended_def drop_reservation_def set_sequence_def set_record_def)
  then show "record_entry_ok st cp (appended k s i d) (k, Doc s)"
    using read sequence evidence number sha index identity_id(2) [OF identity] ready next_number_fresh(3) [OF assms(1)]
    by (simp add: record_entry_ok_def sequence_entry_ok_def split: sum.splits)
qed

lemma appended_files:
  assumes "orderly st cp d" "append_ready st cp d evidence k s i" "readReservation k d = Inr r"
  shows "hd_records (appended k s i d) = hd_records d @ [(k, Doc s)]"
    "hd_sequence (appended k s i d) = hd_sequence d @ [(next_number cp d, Doc i)]"
    "hd_reservations (appended k s i d) = AList.delete k (hd_reservations d)"
    "hd_index (appended k s i d) = hd_index d" "hd_descriptor (appended k s i d) = hd_descriptor d"
    "hd_checkpoint (appended k s i d) = hd_checkpoint d" "hd_publication (appended k s i d) = hd_publication d"
    "hd_marker (appended k s i d) = hd_marker d"
proof -
  have "k \<notin> set (gm_keys (hd_records d))"
    using record_listed [OF assms(1)] held_reservation(3) [OF assms(1,3)] by simp
  then show "hd_records (appended k s i d) = hd_records d @ [(k, Doc s)]"
    by (simp add: appended_def drop_reservation_def set_sequence_def set_record_def gm_put_absent)
  show "hd_sequence (appended k s i d) = hd_sequence d @ [(next_number cp d, Doc i)]"
    using next_number_fresh(2) [OF assms(1)] appended_record(3) [OF assms(1,2)]
    by (simp add: appended_def drop_reservation_def set_sequence_def set_record_def gm_put_absent)
qed (simp_all add: appended_def drop_reservation_def set_sequence_def set_record_def)

lemma other_sequence:
  "n \<noteq> next_number cp d \<Longrightarrow> sd_Sequence s = next_number cp d \<Longrightarrow>
    file_at (hd_sequence (appended k s i d)) n = file_at (hd_sequence d) n"
  by (simp add: appended_def drop_reservation_def set_sequence_def set_record_def)

lemma other_record: "j \<noteq> k \<Longrightarrow> file_at (hd_records (appended k s i d)) j = file_at (hd_records d) j"
  by (simp add: appended_def drop_reservation_def set_sequence_def set_record_def)

lemma file_at_absent: "k \<notin> set (gm_keys m) \<Longrightarrow> file_at m k = Absent"
  by (force simp: file_at_def split: option.split dest!: map_of_SomeD)

lemma entry_sequence_pending: "entry \<in> set m \<Longrightarrow> entry_sequence (snd entry) \<in> set (pending_sequences m)"
  by (simp add: pending_sequences_def)

lemma appended_old_record:
  assumes "orderly st cp d" "append_ready st cp d evidence k s i" "readReservation k d = Inr r" "entry \<in> set (hd_records d)"
  shows "record_entry_ok st cp (appended k s i d) entry"
    "file_at (hd_sequence (appended k s i d)) (entry_sequence (snd entry)) = file_at (hd_sequence d) (entry_sequence (snd entry))"
proof -
  have absent: "k \<notin> set (gm_keys (hd_records d))"
    using record_listed [OF assms(1)] held_reservation(3) [OF assms(1,3)] by simp
  then have "fst entry \<noteq> k" using assms(4) by auto
  moreover have self: "file_at (hd_records d) (fst entry) = snd entry"
    using file_at_self [of "hd_records d"] assms(1,4) by (simp add: orderly_def list_all_iff)
  moreover have "entry_sequence (snd entry) \<noteq> next_number cp d"
    using entry_sequence_pending [OF assms(4)] next_number_fresh(1) [OF assms(1)] by auto
  then show sequence: "file_at (hd_sequence (appended k s i d)) (entry_sequence (snd entry)) =
      file_at (hd_sequence d) (entry_sequence (snd entry))"
    using appended_record(3) [OF assms(1,2)] by (rule other_sequence)
  have "record_entry_ok st cp d entry" using assms(1,4) by (simp add: orderly_def list_all_iff)
  ultimately show "record_entry_ok st cp (appended k s i d) entry"
    using record_entry_ok_cong [of d entry "appended k s i d" st cp] sequence other_record [of "fst entry" k s i d]
      appended_files(4) [OF assms(1,2,3)] by simp
qed

lemma descriptor_present:
  "descriptor_bytes d refs n \<Longrightarrow> ref \<in> set refs \<Longrightarrow> file_at (hd_sequence d) (ak_Sequence ref) \<noteq> Absent"
proof (induction refs arbitrary: n)
  case Nil
  then show ?case by simp
next
  case (Cons other refs)
  then show ?case
    by (auto simp: readPendingSequenceIndex_def read_file_def split: sum.splits option.splits if_splits)
qed

lemma appended_descriptor:
  assumes "orderly st cp d" "append_ready st cp d evidence k s i" "readReservation k d = Inr r"
  shows "descriptor_ok cp (appended k s i d)"
proof -
  let ?d = "appended k s i d"
  note files = appended_files [OF assms]
  have read: "readPendingBatchDescriptor ?d = readPendingBatchDescriptor d"
    using files(5) by (rule readPendingBatchDescriptor_cong)
  have absent: "file_at (hd_sequence d) (next_number cp d) = Absent"
    using next_number_fresh(2) [OF assms(1)] by (rule file_at_absent)
  have bytes: "descriptor_bytes ?d refs n = descriptor_bytes d refs n" if "descriptor_bytes d refs n" for refs n
  proof (rule descriptor_bytes_cong)
    fix m
    assume "m \<in> set (List.map ak_Sequence refs)"
    then obtain ref where "ref \<in> set refs" "m = ak_Sequence ref" by auto
    then have "file_at (hd_sequence d) m \<noteq> Absent" using descriptor_present [OF that] by simp
    then have "m \<noteq> next_number cp d" using absent by auto
    then show "file_at (hd_sequence ?d) m = file_at (hd_sequence d) m"
      using appended_record(3) [OF assms(1,2)] by (rule other_sequence)
  qed
  have "ck_Sequence cp + of_nat (length (hd_records d)) \<le> ck_Sequence cp + of_nat (length (hd_records d) + 1)"
    unfolding word_le_def
    using offset_uint [OF assms(1), of "length (hd_records d)"] offset_uint [OF assms(1) order_refl] by linarith
  then show ?thesis
    using assms(1) bytes
    by (auto simp: orderly_def descriptor_ok_def read files(1) simp del: of_nat_Suc of_nat_add split: sum.splits option.splits
      intro: order_trans)
qed

lemma pending_appended:
  assumes "orderly st cp d" "append_ready st cp d evidence k s i" "readReservation k d = Inr r"
  shows "pending_sequences (hd_records (appended k s i d)) = pending_sequences (hd_records d) @ [next_number cp d]"
  using appended_files(1) [OF assms] appended_record(3) [OF assms(1,2)] by (simp add: pending_sequences_def entry_sequence_def)

lemma appended_reservations:
  assumes "orderly st cp d" "append_ready st cp d evidence k s i" "readReservation k d = Inr r"
  shows "list_all (reservation_entry_ok (appended k s i d)) (hd_reservations (appended k s i d))"
    "Suc (length (hd_reservations (appended k s i d))) = length (hd_reservations d)"
proof -
  have "reservation_entry_ok (appended k s i d) e" if "e \<in> set (AList.delete k (hd_reservations d))" for e
  proof -
    have e: "e \<in> set (hd_reservations d)" "fst e \<noteq> k" using that by (auto simp: AList.delete_eq)
    have "readReservation (fst e) (appended k s i d) = readReservation (fst e) d"
      using e(2) by (intro readReservation_cong) (simp add: appended_def drop_reservation_def set_sequence_def set_record_def)
    then show ?thesis
      using assms(1) e other_record [OF e(2)] by (auto simp: orderly_def list_all_iff reservation_entry_ok_def)
  qed
  then show "list_all (reservation_entry_ok (appended k s i d)) (hd_reservations (appended k s i d))"
    by (simp add: appended_files(3) [OF assms] list_all_iff)
  show "Suc (length (hd_reservations (appended k s i d))) = length (hd_reservations d)"
    using held_reservation(1) [OF assms(1,3)] assms(1)
    by (simp add: appended_files(3) [OF assms] orderly_def length_delete)
qed

lemma appended_tally:
  assumes "orderly st cp d" "append_ready st cp d evidence k s i" "readReservation k d = Inr r"
  shows "tally st blocked cp (appended k s i d) = append_usage (append_charge s i) r (tally st blocked cp d)"
proof -
  let ?d = "appended k s i d"
  note files = appended_files [OF assms]
  have "record_bytes ?d (hd_records d) = record_bytes d (hd_records d)"
    unfolding record_bytes_def using appended_old_record(2) [OF assms] by (intro arg_cong [where f = sum_list] map_cong) simp_all
  moreover have "file_at (hd_sequence ?d) (next_number cp d) = Doc i"
    using appended_record(3) [OF assms(1,2)] by (simp add: appended_def drop_reservation_def set_sequence_def)
  then have "record_bytes ?d [(k, Doc s)] = append_charge s i"
    using appended_record(3) [OF assms(1,2)]
    by (simp add: record_bytes_def append_charge_def entry_sequence_def file_size_def)
  ultimately have bytes: "record_bytes ?d (hd_records ?d) = record_bytes d (hd_records d) + append_charge s i"
    by (simp add: files(1) record_bytes_def)
  have "int (length (hd_reservations d)) = int (length (hd_reservations ?d)) + 1"
    using appended_reservations(2) [OF assms] by simp
  then show ?thesis
    by (simp add: tally_def Let_def append_usage_def bytes [unfolded files(1)] files checkpoint_charge_def descriptor_charge_def
      held_reservation(2) [OF assms(1,3)] algebra_simps)
qed

lemma appended_roomy:
  assumes "orderly st cp d" "append_ready st cp d evidence k s i" "readReservation k d = Inr r"
  shows "roomy st cp (appended k s i d)"
proof -
  let ?d = "appended k s i d"
  note files = appended_files [OF assms]
  have "append_charge s i \<le> rs_ReservedBytes r"
    using assms(2) held_reservation(2) [OF assms(1,3)] by (simp add: append_ready_def)
  then have "us_UsedBytes (tally st 0 cp ?d) + us_ReservedBytes (tally st 0 cp ?d)
      \<le> us_UsedBytes (tally st 0 cp d) + us_ReservedBytes (tally st 0 cp d)"
    unfolding appended_tally [OF assms] by (simp add: append_usage_def)
  moreover have "length (hd_records ?d) = Suc (length (hd_records d))" by (simp add: files(1))
  ultimately show ?thesis
    using assms(1) appended_reservations(2) [OF assms] files(5) by (auto simp: orderly_def roomy_def)
qed

lemma appended_orderly:
  assumes "orderly st cp d" "append_ready st cp d evidence k s i" "readReservation k d = Inr r"
  shows "orderly st cp (appended k s i d)"
proof -
  let ?d = "appended k s i d"
  note files = appended_files [OF assms]
  note o = assms(1) [unfolded orderly_def]
  have wf: "gm_wf (hd_records ?d)" "gm_wf (hd_sequence ?d)" "gm_wf (hd_reservations ?d)"
    using o by (simp_all add: appended_def drop_reservation_def set_sequence_def set_record_def distinct_delete)
  have room: "int (length (hd_records d)) < maxOperationHistoryPendingRecords"
    using assms(2) by (simp add: append_ready_def tally_def Let_def)
  have records: "list_all (record_entry_ok st cp ?d) (hd_records ?d)"
    using appended_old_record(1) [OF assms] appended_record(5) [OF assms(1,2)] by (simp add: files(1) list_all_iff)
  have sorted: "sort (pending_sequences (hd_records ?d)) = sort (pending_sequences (hd_records d)) @ [next_number cp d]"
    unfolding pending_appended [OF assms] by (rule sort_append_greater) (rule next_number_fresh(5) [OF assms(1)])
  have consecutive: "consecutive (ck_Sequence cp) (sort (pending_sequences (hd_records ?d)))"
    unfolding sorted consecutive_append using o by (simp add: next_number_def)
  have "remdups (pending_sequences (hd_records d) @ [next_number cp d]) =
      remdups (pending_sequences (hd_records d)) @ [next_number cp d]"
    using next_number_fresh(1) [OF assms(1)] by (rule remdups_snoc)
  moreover have "length (remdups (pending_sequences (hd_records d))) \<le> length (hd_records d)"
    using length_remdups_leq [of "pending_sequences (hd_records d)"] by simp
  ultimately have listed: "sequence_listed (pending_sequences (hd_records ?d)) ?d"
    using o room unfolding sequence_listed_def pending_appended [OF assms]
    by (auto simp: files(2) listed_def list_all_iff sequence_listed_def)
  have "listed (maxOperationHistoryReservations + maxOperationHistoryPendingRecords) (hd_reservations ?d)"
    using o appended_reservations(2) [OF assms] by (simp add: listed_def)
  then show ?thesis
    using o room wf records consecutive listed appended_descriptor [OF assms] appended_reservations(1) [OF assms]
      appended_roomy [OF assms]
      readCheckpoint_cong [OF files(6)]
    by (simp add: orderly_def files(1,4) listed_def)
qed

section \<open>Append\<close>

lemma ready_marked:
  "append_ready st cp (d\<lparr>hd_marker := True\<rparr>) evidence k s i = append_ready st cp d evidence k s i"
  using readOperationIndex_cong [of "d\<lparr>hd_marker := True\<rparr>" d]
  by (simp add: append_ready_def next_number_def marked_orderly(2))

definition append_result ::
  "string \<Rightarrow> operationHistoryReservationFile \<Rightarrow> operationHistoryUsagePayload \<Rightarrow> operationHistoryStoredRecord
    \<Rightarrow> operationHistoryPendingSequenceIndex \<Rightarrow> history_dir \<Rightarrow> history_dir" where
  "append_result k r u s i d =
     finished (append_usage (append_charge s i) r u) (appended k s i (d\<lparr>hd_marker := True\<rparr>))"

lemma append_result_settled:
  assumes "settled_archive st cp d" "readUsage st d = Inr u" "st_maxBytes st \<le> maxOperationHistoryStoreBytes"
    "append_ready st cp d evidence k s i" "readReservation k d = Inr r"
  shows "settled_archive st cp (append_result k r u s i d)"
proof -
  let ?d = "d\<lparr>hd_marker := True\<rparr>"
  have u: "u = tally st (us_CapacityBlockedCount u) cp d" "writable_usage st u"
    using settled_usage [OF assms(1)] assms(2) by (metis sum.inject(2))+
  have orderly: "orderly st cp ?d" using assms(1) by (simp add: settled_archive_def marked_orderly)
  have ready: "append_ready st cp ?d evidence k s i" using assms(4) by (simp add: ready_marked)
  have held: "readReservation k ?d = Inr r" using assms(5) readReservation_cong [of ?d k d] by simp
  note files = appended_files [OF orderly ready held]
  have charge: "append_charge s i \<le> int MaxOperationHistoryReservedBytes" using ready by (simp add: append_ready_def)
  show ?thesis
    unfolding append_result_def
  proof (rule settled_finished [OF appended_orderly [OF orderly ready held]])
    show "append_usage (append_charge s i) r u =
        tally st (us_CapacityBlockedCount (append_usage (append_charge s i) r u)) cp (appended k s i ?d)"
      unfolding appended_tally [OF orderly ready held] marked_orderly(2) using u(1) by (simp add: append_usage_def)
    show "writable_usage st (append_usage (append_charge s i) r u)"
      using u(2) charge held_reservation(2) [OF orderly held] by (simp add: writable_usage_def append_usage_def)
  qed (use assms(1,3) files in \<open>simp_all add: settled_archive_def\<close>)
qed

lemma recorded_unreserved:
  assumes "orderly st cp d" "file_at (hd_records d) k \<noteq> Absent"
  shows "file_at (hd_reservations d) k = Absent"
proof (rule ccontr)
  assume "file_at (hd_reservations d) k \<noteq> Absent"
  then have "k \<in> set (gm_keys (hd_reservations d))" using reservation_listed [OF assms(1)] by blast
  then obtain f where "(k, f) \<in> set (hd_reservations d)" by auto
  then have "reservation_entry_ok d (k, f)" using assms(1) by (auto simp: orderly_def list_all_iff)
  then show False using assms(2) by (simp add: reservation_entry_ok_def present_def)
qed

end
