(* ===== verification/Operation_History_Freeze.thy ===== *)
theory Operation_History_Freeze
  imports Operation_History_Append
begin

text \<open>
  Freezing a batch: the oldest pending records are written down as the batch that a publisher will
  see, however often it retries.
\<close>

section \<open>Names read back\<close>

lemma utf8_len_take:
  "utf8_len bs \<noteq> 1 \<Longrightarrow> utf8_len (take (utf8_len bs) bs @ ys) = utf8_len bs"
proof -
  assume len: "utf8_len bs \<noteq> 1"
  then obtain b c rest where bs: "bs = b # c # rest" by (auto simp: utf8_len_def split: list.splits)
  show ?thesis
  proof (cases "194 \<le> b \<and> b \<le> 223 \<and> continuation c")
    case True
    then have "utf8_len bs = 2" by (simp add: bs utf8_len_def)
    then show ?thesis using True by (simp add: bs utf8_len_def)
  next
    case two: False
    then obtain d rest' where rest: "rest = d # rest'" using len by (auto simp: bs utf8_len_def split: list.splits)
    show ?thesis
    proof (cases "continuation d \<and> ((b = 224 \<and> 160 \<le> c \<and> c \<le> 191) \<or> (b = 237 \<and> 128 \<le> c \<and> c \<le> 159) \<or>
        (225 \<le> b \<and> b \<le> 239 \<and> b \<noteq> 237 \<and> continuation c))")
      case True
      then have "utf8_len bs = 3" using two by (simp add: bs rest utf8_len_def)
      moreover have "utf8_len (b # c # d # zs) = 3" for zs using True two by (simp add: utf8_len_def)
      ultimately show ?thesis by (simp add: bs rest take_Cons')
    next
      case three: False
      then obtain e rest'' where rest': "rest' = e # rest''"
        using len two by (auto simp: bs rest utf8_len_def split: list.splits if_splits)
      have "utf8_len bs = 4" using len two three by (auto simp: bs rest rest' utf8_len_def split: if_splits)
      then have "utf8_len (b # c # d # e # rest'') = 4" by (simp add: bs rest rest')
      then have "utf8_len (b # c # d # e # zs) = 4" for zs using two three by (auto simp: utf8_len_def split: if_splits)
      then show ?thesis using \<open>utf8_len bs = 4\<close> by (simp add: bs rest rest' take_Cons')
    qed
  qed
qed

lemma utf8_repair_valid: "valid_utf8_bytes (utf8_repair_bytes bs)"
proof (induction bs rule: utf8_repair_bytes.induct)
  case 1
  then show ?case by simp
next
  case (2 b bs)
  consider "b < 128" | "\<not> b < 128" "utf8_len (b # bs) = 1" | "\<not> b < 128" "utf8_len (b # bs) \<noteq> 1" by blast
  then show ?case
  proof cases
    case 1
    then show ?thesis using "2.IH"(1) by simp
  next
    case bad: 2
    have "utf8_len (239 # 191 # 189 # utf8_repair_bytes bs) = 3" by (simp add: utf8_len_def continuation_def)
    then show ?thesis using "2.IH"(2) [OF bad] bad by simp
  next
    case good: 3
    let ?n = "utf8_len (b # bs)"
    let ?rest = "utf8_repair_bytes (drop (?n - 1) bs)"
    have rest: "valid_utf8_bytes ?rest" using "2.IH"(3) [OF good] .
    obtain m where m: "?n = Suc m" using utf8_len_ge [of "b # bs"] by (cases ?n) auto
    have full: "utf8_len (b # take m bs @ ?rest) = Suc m"
      using utf8_len_take [OF good(2), of ?rest] by (simp add: m)
    have "length (take m bs) = m"
      using good(2) m by (auto simp: utf8_len_def split: list.splits if_splits)
    then have "drop m (take m bs @ ?rest) = ?rest" by simp
    then have "valid_utf8_bytes (b # take m bs @ ?rest)" using good full rest m by simp
    then show ?thesis using good m by simp
  qed
qed

lemma utf8_repair_id: "valid_utf8_bytes bs \<Longrightarrow> utf8_repair_bytes bs = bs"
proof (induction bs rule: valid_utf8_bytes.induct)
  case 1
  then show ?case by simp
next
  case (2 b bs)
  obtain m where m: "utf8_len (b # bs) = Suc m" using utf8_len_ge [of "b # bs"] by (cases "utf8_len (b # bs)") auto
  show ?case
  proof (cases "b < 128")
    case True
    then show ?thesis using 2 by simp
  next
    case False
    then have "utf8_len (b # bs) \<noteq> 1" "valid_utf8_bytes (drop (utf8_len (b # bs) - 1) bs)"
      using "2.prems" by (auto split: if_splits)
    then show ?thesis using "2.IH" False m by simp
  qed
qed

lemma utf8_repair_bytes_bound: "\<forall>b \<in> set bs. b < 256 \<Longrightarrow> \<forall>b \<in> set (utf8_repair_bytes bs). b < 256"
proof (induction bs rule: utf8_repair_bytes.induct)
  case 1
  then show ?case by simp
next
  case (2 b bs)
  consider "b < 128" | "\<not> b < 128" "utf8_len (b # bs) = 1" | "\<not> b < 128" "utf8_len (b # bs) \<noteq> 1" by blast
  then show ?case
  proof cases
    case 1
    then show ?thesis using "2.IH"(1) "2.prems" by simp
  next
    case bad: 2
    then show ?thesis using "2.IH"(2) [OF bad] "2.prems" by simp
  next
    case good: 3
    have "\<forall>x \<in> set (drop (utf8_len (b # bs) - 1) bs). x < 256" "\<forall>x \<in> set (take (utf8_len (b # bs)) (b # bs)). x < 256"
      using "2.prems" set_take_subset [of "utf8_len (b # bs)" "b # bs"] set_drop_subset [of "utf8_len (b # bs) - 1" bs]
      by auto
    moreover have "utf8_repair_bytes (b # bs) = take (utf8_len (b # bs)) (b # bs) @
        utf8_repair_bytes (drop (utf8_len (b # bs) - 1) bs)" using good by (simp only: utf8_repair_bytes.simps if_False)
    ultimately show ?thesis using "2.IH"(3) [OF good] by auto
  qed
qed

lemma utf8_repair_idem: "utf8_repair (utf8_repair s) = utf8_repair s"
proof -
  have "(of_char c :: nat) < 256" for c by (metis of_char_mod_256 mod_less_divisor zero_less_numeral)
  then have "\<forall>b \<in> set (bytes_of s). b < 256" by (simp add: bytes_of_def)
  then have "\<forall>b \<in> set (utf8_repair_bytes (bytes_of s)). b < 256" by (rule utf8_repair_bytes_bound)
  then have "bytes_of (utf8_repair s) = utf8_repair_bytes (bytes_of s)"
    by (simp add: utf8_repair_def bytes_of_def comp_def) (simp add: map_idI)
  then show ?thesis by (simp add: utf8_repair_def utf8_repair_id utf8_repair_valid)
qed

lemma decoded_idem: "decoded_identity (decoded_identity i) = decoded_identity i"
  by (simp add: decoded_identity_def utf8_repair_idem)

section \<open>Selecting records\<close>

text \<open>The validator seals a record under the identity it was given.\<close>

definition keeps_identity :: "OperationHistoryStore \<Rightarrow> bool" where
  "keeps_identity st \<longleftrightarrow> (\<forall>r s. st_validator st r = Some s \<longrightarrow> hr_Identity s = hr_Identity r)"

definition decodes :: "operationHistoryAckRecord \<Rightarrow> bool" where
  "decodes ref \<longleftrightarrow> decoded_ack ref = ref"

lemma read_decodes:
  assumes "keeps_identity st" "readStoredRecord st k d = Inr s"
  shows "decoded_identity (hr_Identity (sd_Record s)) = hr_Identity (sd_Record s)"
proof -
  have "\<exists>raw. st_validator st (decoded_record raw) = Some (sd_Record s)"
    using assms(2) by (auto simp: readStoredRecord_def split: sum.splits option.splits if_splits)
  then obtain raw where "st_validator st (decoded_record raw) = Some (sd_Record s)" ..
  then have "hr_Identity (sd_Record s) = hr_Identity (decoded_record raw)"
    using assms(1) by (simp add: keeps_identity_def)
  then show ?thesis by (simp add: decoded_record_def decoded_idem)
qed

definition frozen_prefix :: "history_dir \<Rightarrow> 64 word \<Rightarrow> int \<Rightarrow> OperationHistoryBatchRecord list \<Rightarrow> bool" where
  "frozen_prefix d c taken items \<longleftrightarrow> consecutive c (List.map br_Sequence items) \<and>
     descriptor_bytes d (operationHistoryBatchRefs items) taken \<and> list_all decodes (operationHistoryBatchRefs items)"

lemma poll_result: "thn poll m w = (Inr x, w'') \<Longrightarrow> \<exists>w'. hw_dir w' = hw_dir w \<and> m w' = (Inr x, w'')"
  using poll_outcome [of m w] by auto

lemma select_records_run:
  "keeps_identity st \<Longrightarrow> select_records st n (c + 1) taken items w = (Inr out, w') \<Longrightarrow>
    hw_dir w' = hw_dir w \<and> (\<exists>new. out = items @ new \<and> length new \<le> n \<and> frozen_prefix (hw_dir w) c taken new)"
proof (induction n arbitrary: c taken items w)
  case 0
  then show ?case by (auto simp: frozen_prefix_def operationHistoryBatchRefs_def intro!: exI [of _ "[]"])
next
  case (Suc n)
  obtain v where v: "hw_dir v = hw_dir w" and run: "bnd (look (readPendingSequenceIndex (c + 1))) (\<lambda>found.
     case found of
       None \<Rightarrow> fail corrupt
     | Some i \<Rightarrow>
         (if taken + si_SerializedBytes i + 1 > MaxOperationHistoryBatchBytes
          then (if items = [] then fail capacity else ret items)
          else bnd (attempt_action (look (readStoredRecord st (si_RecordID i)))) (\<lambda>result.
            case result of
              Inl _ \<Rightarrow> fail corrupt
            | Inr s \<Rightarrow>
                (if \<not> same_evidence i (c + 1) s then fail corrupt
                 else select_records st n (c + 1 + 1) (taken + si_SerializedBytes i + 1)
                   (items @ [batch_record s (si_RecordID i)]))))) v = (Inr out, w')"
    using poll_result [OF Suc.prems(2) [unfolded select_records.simps]] by blast
  obtain i where i: "readPendingSequenceIndex (c + 1) (hw_dir w) = Inr (Some i)"
    using run v by (auto split: sum.splits option.splits)
  show ?case
  proof (cases "taken + si_SerializedBytes i + 1 > MaxOperationHistoryBatchBytes")
    case True
    then have "out = items" "w' = v" using run i v by (auto split: if_splits)
    then show ?thesis
      using v by (auto simp: frozen_prefix_def operationHistoryBatchRefs_def intro!: exI [of _ "[]"])
  next
    case fits: False
    obtain s where s: "readStoredRecord st (si_RecordID i) (hw_dir w) = Inr s" "same_evidence i (c + 1) s"
      and rest: "select_records st n (c + 1 + 1) (taken + si_SerializedBytes i + 1)
        (items @ [batch_record s (si_RecordID i)]) v = (Inr out, w')"
      using run i v fits by (auto simp: bnd_run [OF attempt_run] split: sum.splits if_splits)
    obtain new where new: "out = (items @ [batch_record s (si_RecordID i)]) @ new" "length new \<le> n"
      "frozen_prefix (hw_dir w) (c + 1) (taken + si_SerializedBytes i + 1) new" and w': "hw_dir w' = hw_dir w"
      using Suc.IH [OF Suc.prems(1) rest] v by auto
    have "frozen_prefix (hw_dir w) c taken (batch_record s (si_RecordID i) # new)"
      using new(3) s i fits read_decodes [OF Suc.prems(1) s(1)]
      by (simp add: frozen_prefix_def operationHistoryBatchRefs_def batch_record_def same_evidence_def sequence_matches_def
        decodes_def decoded_ack_def)
    then show ?thesis using new w' by (intro conjI exI [of _ "batch_record s (si_RecordID i) # new"]) simp_all
  qed
qed

section \<open>The directory with its frozen batch\<close>

definition frozen :: "operationHistoryPendingBatchDescriptor \<Rightarrow> history_dir \<Rightarrow> history_dir" where
  "frozen p d = d\<lparr>hd_descriptor := Doc p\<rparr>"

lemma frozen_files:
  "hd_records (frozen p d) = hd_records d" "hd_sequence (frozen p d) = hd_sequence d"
  "hd_index (frozen p d) = hd_index d" "hd_reservations (frozen p d) = hd_reservations d"
  "hd_usage (frozen p d) = hd_usage d" "hd_checkpoint (frozen p d) = hd_checkpoint d"
  "hd_publication (frozen p d) = hd_publication d" "hd_marker (frozen p d) = hd_marker d"
  "hd_descriptor (frozen p d) = Doc p"
  by (simp_all add: frozen_def)

lemma orderly_frozen:
  assumes "orderly st cp d" "descriptor_ok cp (frozen p d)" "roomy st cp (frozen p d)"
  shows "orderly st cp (frozen p d)"
proof -
  let ?d = "frozen p d"
  have records: "record_entry_ok st cp ?d = record_entry_ok st cp d"
    by (intro ext record_entry_ok_cong) (simp_all add: frozen_def)
  have entries: "reservation_entry_ok ?d = reservation_entry_ok d"
    by (intro ext reservation_entry_ok_cong) (simp_all add: frozen_def)
  show ?thesis
    using assms records entries readCheckpoint_cong [of ?d d]
    by (simp add: orderly_def sequence_listed_def frozen_files)
qed

lemma tally_frozen:
  assumes "hd_descriptor d = Absent"
  shows "tally st blocked cp (frozen p d) = use_bytes (fileCharge (int (descriptor_length p))) (tally st blocked cp d)"
proof -
  have "checkpoint_charge (frozen p d) = checkpoint_charge d" by (simp add: checkpoint_charge_def frozen_files)
  moreover have "descriptor_charge (frozen p d) = fileCharge (int (descriptor_length p))"
    by (simp add: descriptor_charge_def frozen_files file_size_def)
  moreover have "record_bytes (frozen p d) m = record_bytes d m" for m by (simp add: record_bytes_def frozen_files)
  ultimately show ?thesis using assms
    by (simp add: tally_def frozen_files use_bytes_def descriptor_charge_def)
qed

lemma consecutive_successive: "consecutive c ss \<Longrightarrow> ss \<noteq> [] \<Longrightarrow> hd ss = c + 1 \<and> last ss = c + of_nat (length ss)"
proof (induction ss arbitrary: c)
  case Nil
  then show ?case by simp
next
  case (Cons s ss)
  then show ?case by (cases "ss = []") (auto simp: algebra_simps)
qed

lemma frozen_descriptor_ok:
  assumes "orderly st cp d" "frozen_prefix d (ck_Sequence cp) 0 items" "items \<noteq> []"
    "length items \<le> length (hd_records d)" "pd_Records p = operationHistoryBatchRefs items"
    "validateOperationHistoryPendingBatchDescriptor p"
    "int (descriptor_length p) \<le> maxOperationHistoryPendingBatchDescriptorFile"
  shows "descriptor_ok cp (frozen p d)"
proof -
  let ?refs = "operationHistoryBatchRefs items"
  have decoded: "decoded_descriptor p = p"
    using assms(2,5)
    by (simp add: decoded_descriptor_def frozen_prefix_def decodes_def list_all_iff map_idI)
  then have read: "readPendingBatchDescriptor (frozen p d) = Inr (Some p)"
    using assms(6,7) by (simp add: readPendingBatchDescriptor_def read_file_def frozen_def)
  have sequences: "List.map ak_Sequence ?refs = List.map br_Sequence items"
    by (simp add: operationHistoryBatchRefs_def)
  have refs: "?refs \<noteq> []" using assms(3) by (simp add: operationHistoryBatchRefs_def)
  have "hd (List.map ak_Sequence ?refs) = ck_Sequence cp + 1"
    "last (List.map ak_Sequence ?refs) = ck_Sequence cp + of_nat (length items)"
    using consecutive_successive [of "ck_Sequence cp" "List.map br_Sequence items"] assms(2,3)
    unfolding sequences frozen_prefix_def by simp_all
  then have ends: "ak_Sequence (hd ?refs) = ck_Sequence cp + 1"
    "ak_Sequence (last ?refs) = ck_Sequence cp + of_nat (length items)"
    unfolding hd_map [OF refs] last_map [OF refs] by simp_all
  have "ak_Sequence (last ?refs) \<le> ck_Sequence cp + of_nat (length (hd_records d))"
    unfolding ends(2) word_le_def using offset_uint [OF assms(1), of "length items"]
      offset_uint [OF assms(1), of "length (hd_records d)"] assms(4) by simp
  moreover have "descriptor_bytes (frozen p d) ?refs 0"
    using assms(2) descriptor_bytes_cong [of ?refs "frozen p d" d 0] by (simp add: frozen_def frozen_prefix_def)
  moreover have "hd_records (frozen p d) = hd_records d" by (simp add: frozen_def)
  ultimately show ?thesis
    using read ends(1) assms(3,4,5) by (auto simp: descriptor_ok_def)
qed

section \<open>Freezing leaves the archive exact\<close>

interpretation untouched: action_relation "\<lambda>d d'. d' = d"
  by unfold_locales simp_all

lemma select_untouched: "relates P (\<lambda>d d'. d' = d) (select_records st n seqno taken items)"
proof (induction n arbitrary: seqno taken items P)
  case 0
  then show ?case by (simp add: relates_def)
next
  case (Suc n)
  then show ?case by (auto intro!: untouched.relates_step split: option.split sum.split)
qed

lemma load_untouched: "relates P (\<lambda>d d'. d' = d) (loadPendingOperationHistoryBatchLocked st cp p)"
  unfolding loadPendingOperationHistoryBatchLocked_def load_ref_def Let_def
  by (auto intro!: untouched.relates_step untouched.relates_each)

lemma no_descriptor: "readPendingBatchDescriptor d = Inr None \<Longrightarrow> hd_descriptor d = Absent"
  by (cases "hd_descriptor d") (auto simp: readPendingBatchDescriptor_def read_file_def corrupt_def split: if_splits)

lemma frozen_result:
  assumes settled: "settled_archive st cp d" "readUsage st d = Inr u"
    and items: "frozen_prefix d (ck_Sequence cp) 0 items" "items \<noteq> []" "length items \<le> length (hd_records d)"
    and p: "pd_Records p = operationHistoryBatchRefs items" "validateOperationHistoryPendingBatchDescriptor p"
      "int (descriptor_length p) \<le> maxOperationHistoryPendingBatchDescriptorFile"
    and none: "hd_descriptor d = Absent"
    and room: "us_UsedBytes u + us_ReservedBytes u + fileCharge (int (descriptor_length p)) +
      operationHistoryPublicationTailroom \<le> st_maxBytes st"
  shows "orderly st cp (frozen p (d\<lparr>hd_marker := True\<rparr>))"
    "use_bytes (fileCharge (int (descriptor_length p))) u =
      tally st (us_CapacityBlockedCount (use_bytes (fileCharge (int (descriptor_length p))) u)) cp (frozen p (d\<lparr>hd_marker := True\<rparr>))"
    "writable_usage st (use_bytes (fileCharge (int (descriptor_length p))) u)"
proof -
  let ?d = "d\<lparr>hd_marker := True\<rparr>"
  let ?u = "use_bytes (fileCharge (int (descriptor_length p))) u"
  have u: "u = tally st (us_CapacityBlockedCount u) cp d" "writable_usage st u"
    using settled_usage [OF settled(1)] settled(2) by (metis sum.inject(2))+
  have orderly: "orderly st cp ?d" using settled(1) by (simp add: settled_archive_def marked_orderly)
  have prefix: "frozen_prefix ?d (ck_Sequence cp) 0 items"
    using items(1) descriptor_bytes_cong [of "operationHistoryBatchRefs items" ?d d 0] by (simp add: frozen_prefix_def)
  have bytes: "us_UsedBytes (tally st 0 cp d) = us_UsedBytes u" "us_ReservedBytes (tally st 0 cp d) = us_ReservedBytes u"
  proof -
    have "us_UsedBytes (tally st 0 cp d) = us_UsedBytes (tally st b cp d)"
      "us_ReservedBytes (tally st 0 cp d) = us_ReservedBytes (tally st b cp d)" for b
      by (simp_all add: tally_def Let_def)
    then show "us_UsedBytes (tally st 0 cp d) = us_UsedBytes u" "us_ReservedBytes (tally st 0 cp d) = us_ReservedBytes u"
      using u(1) by metis+
  qed
  have "roomy st cp (frozen p ?d)"
    using orderly room bytes tally_frozen [of ?d st 0 cp p] none
    by (auto simp: orderly_def roomy_def frozen_files marked_orderly use_bytes_def)
  then show "orderly st cp (frozen p ?d)"
    using orderly prefix items p by (intro orderly_frozen frozen_descriptor_ok) simp_all
  have "tally st (us_CapacityBlockedCount u) cp (frozen p ?d) = ?u"
    using tally_frozen [of ?d st "us_CapacityBlockedCount u" cp p] none u(1) by (simp add: marked_orderly)
  then show "?u = tally st (us_CapacityBlockedCount ?u) cp (frozen p ?d)" by (simp add: use_bytes_def)
  show "writable_usage st ?u" using u(2) room by (simp add: writable_usage_def use_bytes_def operationHistoryPublicationTailroom_def)
qed

lemma tail_positive: "0 \<le> operationHistoryPublicationTailroom" "0 \<le> operationHistoryFileCharge"
  by (simp_all add: operationHistoryPublicationTailroom_def operationHistoryFileCharge_def)

lemma untouched_run: "relates (\<lambda>_. True) (\<lambda>d d'. d' = d) m \<Longrightarrow> hw_dir (snd (m w)) = hw_dir w"
  by (simp add: relates_def)

end
