(* ===== verification/Operation_History_Recovery.thy ===== *)
theory Operation_History_Recovery
  imports Operation_History_Freeze
begin

text \<open>
  What an interrupted mutation can leave behind, and that the recovery of the archive mends it: the
  marker of the mutation is there, and the files are in order or those of an append half done.
\<close>

section \<open>What an interruption leaves\<close>

text \<open>The record is written, with or without its sequence, and the reservation is still there.\<close>

definition half_appended :: "OperationHistoryStore \<Rightarrow> operationHistoryCheckpoint \<Rightarrow> history_dir \<Rightarrow> bool" where
  "half_appended st cp d \<longleftrightarrow> (\<exists>base evidence k s i r. hd_marker base \<and> orderly st cp base \<and>
     append_ready st cp base evidence k s i \<and> readReservation k base = Inr r \<and>
     (d = set_record k s base \<or> d = set_sequence (sd_Sequence s) i (set_record k s base)))"

lemma half_appendedI:
  assumes "hd_marker base" "orderly st cp base" "append_ready st cp base evidence k s i" "readReservation k base = Inr r"
  shows "half_appended st cp (set_record k s base)"
    "half_appended st cp (set_sequence (sd_Sequence s) i (set_record k s base))"
  unfolding half_appended_def using assms by blast+

definition mendable :: "OperationHistoryStore \<Rightarrow> operationHistoryCheckpoint \<Rightarrow> history_dir \<Rightarrow> bool" where
  "mendable st cp d \<longleftrightarrow> hd_marker d \<and> \<not> present (hd_publication d) \<and> 0 \<le> blocked_before st d \<and> blocked_before st d < 2 ^ 63 \<and>
     (orderly st cp d \<or> half_appended st cp d)"

text \<open>The archive as its directories have just been made.\<close>

definition new_directory :: history_dir where
  "new_directory = \<lparr>hd_usage = Absent, hd_marker = False, hd_publication = Absent, hd_checkpoint = Absent,
     hd_descriptor = Absent, hd_index = [], hd_records = [], hd_sequence = [], hd_reservations = []\<rparr>"

lemma new_directory_orderly: "orderly st no_checkpoint new_directory"
  by (simp add: orderly_def new_directory_def readCheckpoint_def read_file_def no_checkpoint_def listed_def descriptor_ok_def
    readPendingBatchDescriptor_def sequence_listed_def pending_sequences_def maxOperationHistoryOperationKeys_def
    maxOperationHistoryPendingRecords_def maxOperationHistoryReservations_def roomy_def tally_def checkpoint_charge_def
    index_bytes_def record_bytes_def descriptor_charge_def present_def Let_def)

text \<open>What the operations rely on, and leave behind whatever becomes of their writes.\<close>

definition safe_archive :: "OperationHistoryStore \<Rightarrow> operationHistoryCheckpoint \<Rightarrow> history_dir \<Rightarrow> bool" where
  "safe_archive st cp d \<longleftrightarrow> mendable st cp d \<or> settled_archive st cp d \<or> (d = new_directory \<and> cp = no_checkpoint)"

lemma readUsage_cong: "hd_usage d = hd_usage d' \<Longrightarrow> readUsage st d = readUsage st d'"
  by (simp add: readUsage_def)

lemma blocked_cong: "hd_usage d = hd_usage d' \<Longrightarrow> blocked_before st d = blocked_before st d'"
  using readUsage_cong [of d d' st] by (simp add: blocked_before_def)

lemma settled_blocked: "settled_archive st cp d \<Longrightarrow> 0 \<le> blocked_before st d \<and> blocked_before st d < 2 ^ 63"
  by (erule settled_usage) (simp add: blocked_before_def writable_usage_def)

text \<open>The files of a mutation under way.\<close>

lemma mendableI:
  assumes "settled_archive st cp d0" "hd_usage d = hd_usage d0" "hd_marker d" "\<not> present (hd_publication d)"
    "orderly st cp d \<or> half_appended st cp d"
  shows "mendable st cp d"
  using assms settled_blocked [OF assms(1)] blocked_cong [OF assms(2), of st] by (simp add: mendable_def)

lemma settled_marked:
  "settled_archive st cp d \<Longrightarrow> mendable st cp (d\<lparr>hd_marker := True\<rparr>)"
  by (rule mendableI) (simp_all add: settled_archive_def marked_orderly)

lemma safe_cases:
  assumes "safe_archive st cp d"
  obtains (settled) "settled_archive st cp d" | (mending) "mendable st cp d" "hd_marker d"
    | (unused) "d = new_directory" "cp = no_checkpoint"
  using assms by (auto simp: safe_archive_def mendable_def)

section \<open>Mutations\<close>

text \<open>
  A mutation that begins leaves its marker until all of it is done: afterwards the directory can be
  mended, or it is the one meant.
\<close>

definition ends_in ::
  "OperationHistoryStore \<Rightarrow> operationHistoryCheckpoint \<Rightarrow> history_dir \<Rightarrow> 'a action \<Rightarrow> history_world \<Rightarrow> bool" where
  "ends_in st cp Y m w \<longleftrightarrow> mendable st cp (hw_dir (snd (m w))) \<or> hw_dir (snd (m w)) = Y"

lemma change_outcomes:
  obtains (made) w' where "or_unavailable (change f) w = (Inr (), w')" "hw_dir w' = f (hw_dir w)" "hw_polls w' = hw_polls w"
    | (refused) e w' where "or_unavailable (change f) w = (Inl e, w')"
      "hw_dir w' = hw_dir w \<or> hw_dir w' = f (hw_dir w)"
proof -
  obtain success d ios where io: "io_effect (hw_ios w) (hw_dir w) (f (hw_dir w)) = (success, d, ios)"
    by (cases "io_effect (hw_ios w) (hw_dir w) (f (hw_dir w))")
  have "d = f (hw_dir w)" if success using io that by (auto elim!: io_effect.elims)
  moreover have "d = hw_dir w \<or> d = f (hw_dir w)" using io by (auto elim!: io_effect.elims)
  ultimately show thesis
    using io that by (cases success) (auto simp: or_unavailable_def change_def)
qed

lemma ends_change:
  assumes "mendable st cp (hw_dir w)" "mendable st cp (f (hw_dir w))"
    "\<And>w'. hw_dir w' = f (hw_dir w) \<Longrightarrow> ends_in st cp Y n w'"
  shows "ends_in st cp Y (thn (or_unavailable (change f)) n) w"
  using assms by (cases rule: change_outcomes [of f w]) (auto simp: ends_in_def thn_run thn_err)

lemma ends_remove:
  assumes "mendable st cp (hw_dir w)" "mendable st cp (f (hw_dir w))" "here (hw_dir w)"
    "\<And>w'. hw_dir w' = f (hw_dir w) \<Longrightarrow> ends_in st cp Y n w'"
  shows "ends_in st cp Y (thn (or_unavailable (remove_file here f)) n) w"
proof -
  have "or_unavailable (remove_file here f) w = or_unavailable (change f) w"
    using assms(3) by (simp add: or_unavailable_def remove_file_def)
  then have "thn (or_unavailable (remove_file here f)) n w = thn (or_unavailable (change f)) n w"
    by (simp add: thn_def bnd_def)
  then show ?thesis using ends_change [where f = f, OF assms(1,2,4)] by (simp add: ends_in_def)
qed

lemma mendable_usage:
  assumes "mendable st cp d" "orderly st cp d" "u = tally st (us_CapacityBlockedCount u) cp d" "writable_usage st u"
    "st_maxBytes st \<le> maxOperationHistoryStoreBytes"
  shows "mendable st cp (d\<lparr>hd_usage := Doc (publicOperationHistoryUsage u)\<rparr>)"
proof -
  let ?d = "d\<lparr>hd_usage := Doc (publicOperationHistoryUsage u)\<rparr>"
  have "readUsage st (finished u d) = Inr u"
    using settledI(2) [of st cp "finished u d" "us_CapacityBlockedCount u"] assms
    by (simp add: finished_def status_orderly mendable_def)
  then have "readUsage st ?d = Inr u" using readUsage_cong [of ?d "finished u d" st] by (simp add: finished_def)
  then show ?thesis using assms by (simp add: mendable_def blocked_before_def writable_usage_def usage_orderly)
qed

lemma ends_finish:
  assumes "mendable st cp (hw_dir w)" "orderly st cp (hw_dir w)" "u = tally st (us_CapacityBlockedCount u) cp (hw_dir w)"
    "writable_usage st u" "st_maxBytes st \<le> maxOperationHistoryStoreBytes"
  shows "ends_in st cp (finished u (hw_dir w)) (finishMutationLocked u) w"
  unfolding finishMutationLocked_def writeUsage_def
proof (rule ends_change)
  show written: "mendable st cp ((hw_dir w)\<lparr>hd_usage := Doc (publicOperationHistoryUsage u)\<rparr>)"
    using assms by (rule mendable_usage)
  fix w' :: history_world
  assume w': "hw_dir w' = (hw_dir w)\<lparr>hd_usage := Doc (publicOperationHistoryUsage u)\<rparr>"
  have "hd_marker (hw_dir w')" using assms(1) w' by (simp add: mendable_def)
  then have "or_unavailable (remove_file hd_marker f) w' = or_unavailable (change f) w'" for f
    by (simp add: or_unavailable_def remove_file_def)
  then show "ends_in st cp (finished u (hw_dir w)) clear_marker w'"
    using w' written
    by (cases rule: change_outcomes [of "\<lambda>d. d\<lparr>hd_marker := False\<rparr>" w'])
       (auto simp: ends_in_def clear_marker_def finished_def)
qed (rule assms)

lemma ends_bnd: "ends_in st cp Y m w \<Longrightarrow> (\<And>x w'. snd (g x w') = w') \<Longrightarrow> ends_in st cp Y (bnd m g) w"
  by (auto simp: ends_in_def bnd_def split: prod.splits sum.splits)

lemma ends_thn: "ends_in st cp Y m w \<Longrightarrow> (\<And>w'. snd (n w') = w') \<Longrightarrow> ends_in st cp Y (thn m n) w"
  by (simp add: thn_def ends_bnd)

lemma ends_attempt: "ends_in st cp Y m w \<Longrightarrow> ends_in st cp Y (attempt_action m) w"
  by (simp add: ends_in_def attempt_run)

text \<open>A mutation of a settled archive.\<close>

lemma safe_begin:
  assumes "settled_archive st cp (hw_dir w)" "settled_archive st cp Y \<or> mendable st cp Y"
    "\<And>w'. hw_dir w' = (hw_dir w)\<lparr>hd_marker := True\<rparr> \<Longrightarrow> ends_in st cp Y n w'"
  shows "safe_archive st cp (hw_dir (snd (thn beginMutationLocked n w)))"
  unfolding beginMutationLocked_def
proof (cases rule: change_outcomes [of "\<lambda>d. d\<lparr>hd_marker := True\<rparr>" w])
  case (made w')
  then show "safe_archive st cp (hw_dir (snd (thn (or_unavailable (change (\<lambda>d. d\<lparr>hd_marker := True\<rparr>))) n w)))"
    using assms(2) assms(3) [of w'] by (auto simp: thn_run ends_in_def safe_archive_def)
next
  case (refused e w')
  then show "safe_archive st cp (hw_dir (snd (thn (or_unavailable (change (\<lambda>d. d\<lparr>hd_marker := True\<rparr>))) n w)))"
    using assms(1) settled_marked [OF assms(1)] by (auto simp: thn_err safe_archive_def)
qed

section \<open>Actions with a budget of writes\<close>

text \<open>The context lasts and the file system makes the next \<open>n\<close> changes.\<close>

definition willing :: "nat \<Rightarrow> history_world \<Rightarrow> bool" where
  "willing n w \<longleftrightarrow> hw_polls w = None \<and> take n (hw_ios w) = replicate n Io_ok"

text \<open>
  An action of at most \<open>n\<close> writes returns \<open>x\<close> with \<open>Q x\<close>, or an error with \<open>E\<close>; when those writes
  are made the error is one of \<open>F\<close>.
\<close>

definition leads ::
  "nat \<Rightarrow> (history_dir \<Rightarrow> bool) \<Rightarrow> (store_error \<Rightarrow> history_dir \<Rightarrow> bool) \<Rightarrow> ('a \<Rightarrow> history_dir \<Rightarrow> bool)
    \<Rightarrow> 'a action \<Rightarrow> history_world \<Rightarrow> bool" where
  "leads n E F Q m w \<longleftrightarrow> (case m w of
     (Inl e, w') \<Rightarrow> E (hw_dir w') \<and> (willing n w \<longrightarrow> F e (hw_dir w'))
   | (Inr x, w') \<Rightarrow> Q x (hw_dir w') \<and> (\<forall>j. willing (n + j) w \<longrightarrow> willing j w'))"

lemma willing_less: "willing n w \<Longrightarrow> m \<le> n \<Longrightarrow> willing m w"
  by (metis min.absorb1 take_replicate take_take willing_def)

lemma leads_more:
  assumes "leads n E F Q m w" "n \<le> n'"
  shows "leads n' E F Q m w"
proof (cases "m w")
  case (Pair result w')
  show ?thesis
  proof (cases result)
    case (Inl e)
    then show ?thesis using assms Pair willing_less [OF _ assms(2), of w] by (auto simp: leads_def)
  next
    case (Inr x)
    have "willing j w'" if "willing (n' + j) w" for j
    proof -
      have "willing (n + (n' - n + j)) w" using that assms(2) by simp
      then have "willing (n' - n + j) w'" using assms(1) Pair Inr unfolding leads_def by simp
      then show ?thesis by (rule willing_less) simp
    qed
    then show ?thesis using assms(1) Pair Inr by (simp add: leads_def)
  qed
qed

lemma leads_bnd:
  assumes "leads n E F Q m w" "\<And>x w'. Q x (hw_dir w') \<Longrightarrow> leads n' E F R (f x) w'"
  shows "leads (n + n') E F R (bnd m f) w"
proof (cases "m w")
  case (Pair result w')
  show ?thesis
  proof (cases result)
    case (Inl e)
    then show ?thesis
      using assms(1) Pair willing_less [of "n + n'" w n] by (auto simp: leads_def bnd_err)
  next
    case (Inr x)
    then have x: "Q x (hw_dir w')" and left: "\<And>j. willing (n + j) w \<Longrightarrow> willing j w'"
      using assms(1) Pair by (auto simp: leads_def)
    from assms(2) [OF x] show ?thesis
      using left left [of n'] Pair Inr
      by (auto simp: leads_def bnd_run add.assoc split: prod.splits sum.splits)
  qed
qed

lemma leads_thn:
  assumes "leads n E F Q m w" "\<And>x w'. Q x (hw_dir w') \<Longrightarrow> leads n' E F R r w'"
  shows "leads (n + n') E F R (thn m r) w"
  unfolding thn_def by (rule leads_bnd [OF assms])

lemma leads_reads:
  assumes "reads d x m" "hw_dir w = d" "E d"
  shows "leads 0 E F (\<lambda>y d'. y = x \<and> d' = d) m w"
proof -
  from reads_run(2) [OF assms(1,2)] obtain w' where w': "hw_dir w' = d \<and> hw_ios w' = hw_ios w \<and>
    (hw_polls w' = None \<longleftrightarrow> hw_polls w = None) \<and>
    (m w = (Inr x, w') \<or> (m w = (Inl Context_done, w') \<and> hw_polls w \<noteq> None))" ..
  then consider "m w = (Inr x, w')" | "m w = (Inl Context_done, w')" "hw_polls w \<noteq> None" by blast
  then show ?thesis
  proof cases
    case 1
    then show ?thesis using w' by (simp add: leads_def willing_def)
  next
    case 2
    then show ?thesis using w' assms(3) by (auto simp: leads_def willing_def)
  qed
qed

lemma leads_change:
  assumes "E (hw_dir w)" "E (f (hw_dir w))" "Q () (f (hw_dir w))"
  shows "leads 1 E F Q (or_unavailable (change f)) w"
proof -
  obtain success d ios where io: "io_effect (hw_ios w) (hw_dir w) (f (hw_dir w)) = (success, d, ios)"
    by (cases "io_effect (hw_ios w) (hw_dir w) (f (hw_dir w))")
  have "success \<and> d = f (hw_dir w) \<and> hw_ios w = Io_ok # ios \<or>
      \<not> success \<and> (d = hw_dir w \<or> d = f (hw_dir w)) \<and> (hw_ios w = [] \<or> hd (hw_ios w) \<noteq> Io_ok)"
    using io by (auto elim!: io_effect.elims)
  then show ?thesis
  proof
    assume made: "success \<and> d = f (hw_dir w) \<and> hw_ios w = Io_ok # ios"
    then show ?thesis using assms io by (simp add: leads_def or_unavailable_def change_def willing_def)
  next
    assume refused: "\<not> success \<and> (d = hw_dir w \<or> d = f (hw_dir w)) \<and> (hw_ios w = [] \<or> hd (hw_ios w) \<noteq> Io_ok)"
    then have "\<not> willing 1 w" by (cases "hw_ios w") (auto simp: willing_def)
    then show ?thesis using assms io refused by (auto simp: leads_def or_unavailable_def change_def)
  qed
qed

lemma leads_remove:
  assumes "here (hw_dir w)" "E (hw_dir w)" "E (f (hw_dir w))" "Q () (f (hw_dir w))"
  shows "leads 1 E F Q (or_unavailable (remove_file here f)) w"
proof -
  have "or_unavailable (remove_file here f) w = or_unavailable (change f) w"
    using assms(1) by (simp add: or_unavailable_def remove_file_def)
  then show ?thesis using leads_change [of E w f Q F] assms by (simp add: leads_def)
qed

lemma leads_post: "leads n E F Q m w \<Longrightarrow> (\<And>x d. Q x d \<Longrightarrow> R x d) \<Longrightarrow> leads n E F R m w"
  by (auto simp: leads_def split: prod.splits sum.splits)

lemma leads_ret: "Q x (hw_dir w) \<Longrightarrow> leads 0 E F Q (ret x) w"
  by (simp add: leads_def)

lemma leads_fail: "E (hw_dir w) \<Longrightarrow> F e (hw_dir w) \<Longrightarrow> leads 0 E F Q (fail e) w"
  by (simp add: leads_def)

lemma leads_ensure:
  "E (hw_dir w) \<Longrightarrow> (\<not> b \<Longrightarrow> F e (hw_dir w)) \<Longrightarrow> (b \<Longrightarrow> Q () (hw_dir w)) \<Longrightarrow> leads 0 E F Q (ensure b e) w"
  by (simp add: leads_def)

section \<open>Mending an append\<close>

definition half :: "string \<Rightarrow> operationHistoryStoredRecord \<Rightarrow> operationHistoryPendingSequenceIndex \<Rightarrow> history_dir \<Rightarrow> history_dir \<Rightarrow> bool" where
  "half k s i base d \<longleftrightarrow> d = set_record k s base \<or> d = set_sequence (sd_Sequence s) i (set_record k s base)"

lemma half_files:
  assumes "orderly st cp base" "append_ready st cp base evidence k s i" "readReservation k base = Inr r" "half k s i base d"
  shows "hd_records d = hd_records base @ [(k, Doc s)]" "hd_index d = hd_index base" "hd_checkpoint d = hd_checkpoint base"
    "hd_descriptor d = hd_descriptor base" "hd_reservations d = hd_reservations base" "hd_publication d = hd_publication base"
    "hd_marker d = hd_marker base" "hd_usage d = hd_usage base"
  using assms(4) appended_files(1) [OF assms(1-3)]
  by (auto simp: half_def appended_def drop_reservation_def set_sequence_def set_record_def)

lemma half_old_record:
  assumes "orderly st cp base" "append_ready st cp base evidence k s i" "readReservation k base = Inr r" "half k s i base d"
    "entry \<in> set (hd_records base)"
  shows "record_entry_ok st cp d entry" "file_at (hd_records d) (fst entry) = snd entry"
    "file_at (hd_sequence d) (entry_sequence (snd entry)) =
      file_at (hd_sequence (appended k s i base)) (entry_sequence (snd entry))"
proof -
  note old = appended_old_record [OF assms(1-3,5)]
  have absent: "k \<notin> set (gm_keys (hd_records base))"
    using record_listed [OF assms(1)] held_reservation(3) [OF assms(1,3)] by simp
  then have key: "fst entry \<noteq> k" using assms(5) by auto
  have self: "file_at (hd_records base) (fst entry) = snd entry"
    using file_at_self [of "hd_records base"] assms(1,5) by (simp add: orderly_def list_all_iff)
  then show here: "file_at (hd_records d) (fst entry) = snd entry"
    using key assms(4) by (auto simp: half_def set_sequence_def set_record_def)
  show sequence: "file_at (hd_sequence d) (entry_sequence (snd entry)) =
      file_at (hd_sequence (appended k s i base)) (entry_sequence (snd entry))"
    using assms(4) old(2) by (auto simp: half_def appended_def drop_reservation_def set_sequence_def set_record_def)
  have "record_entry_ok st cp d entry = record_entry_ok st cp base entry"
    using here self sequence old(2) half_files(2) [OF assms(1-4)] by (intro record_entry_ok_cong) simp_all
  then show "record_entry_ok st cp d entry" using assms(1,5) by (simp add: orderly_def list_all_iff)
qed

lemma half_record_bytes:
  assumes "orderly st cp base" "append_ready st cp base evidence k s i" "readReservation k base = Inr r" "half k s i base d"
  shows "record_bytes d (hd_records base) = record_bytes (appended k s i base) (hd_records base)"
  unfolding record_bytes_def using half_old_record(3) [OF assms] by (intro arg_cong [where f = sum_list] map_cong) simp_all

text \<open>The new record in its directory, its sequence written or restored.\<close>

lemma scan_half_record:
  assumes "orderly st cp base" "append_ready st cp base evidence k s i" "readReservation k base = Inr r"
    "half k s i base (hw_dir w)" "E (hw_dir w)" "E (set_sequence (sd_Sequence s) i (set_record k s base))"
  shows "leads 1 E F (\<lambda>acc d. d = set_sequence (sd_Sequence s) i (set_record k s base) \<and>
      acc = (u\<lparr>us_UsedBytes := us_UsedBytes u + record_bytes (appended k s i base) [(k, Doc s)],
        us_RecordCount := us_RecordCount u + 1\<rparr>, seqs @ [sd_Sequence s]))
    (scan_record st cp (k, Doc s) (u, seqs)) w"
proof -
  let ?full = "set_sequence (sd_Sequence s) i (set_record k s base)"
  let ?out = "(u\<lparr>us_UsedBytes := us_UsedBytes u + record_bytes (appended k s i base) [(k, Doc s)],
        us_RecordCount := us_RecordCount u + 1\<rparr>, seqs @ [sd_Sequence s])"
  note appended = appended_record [OF assms(1,2)]
  have ok: "record_entry_ok st cp ?full (k, Doc s) = record_entry_ok st cp (appended k s i base) (k, Doc s)"
    by (intro record_entry_ok_cong) (simp_all add: appended_def drop_reservation_def)
  have bytes: "record_bytes ?full [(k, Doc s)] = record_bytes (appended k s i base) [(k, Doc s)]"
    by (simp add: record_bytes_def appended_def drop_reservation_def)
  show ?thesis
  proof (cases "hw_dir w = ?full")
    case True
    have entry: "record_entry_ok st cp ?full (k, Doc s)" unfolding ok by (rule appended(5))
    have here: "file_at (hd_records ?full) (fst (k, Doc s)) = snd (k, Doc s)" by (simp add: set_sequence_def set_record_def)
    have number: "entry_sequence (snd (k, Doc s)) = sd_Sequence s" by (simp add: entry_sequence_def)
    have "reads ?full ?out (scan_record st cp (k, Doc s) (u, seqs))"
      using scan_record_reads [OF entry here, of u seqs] unfolding bytes number .
    from leads_post [OF leads_reads [OF this True, of E F, OF assms(6)], of "\<lambda>acc d. d = ?full \<and> acc = ?out"]
    have "leads 0 E F (\<lambda>acc d. d = ?full \<and> acc = ?out) (scan_record st cp (k, Doc s) (u, seqs)) w" by simp
    then show ?thesis by (rule leads_more) simp
  next
    case False
    then have w: "hw_dir w = set_record k s base" using assms(4) by (simp add: half_def)
    have read: "readStoredRecord st k (set_record k s base) = Inr s"
      using appended(1) readStoredRecord_cong [of "set_record k s base" k "appended k s i base" st]
      by (simp add: appended_def drop_reservation_def set_sequence_def)
    have index: "readOperationIndex x (set_record k s base) = readOperationIndex x (appended k s i base)" for x
      by (rule readOperationIndex_cong) (simp add: appended_def drop_reservation_def set_sequence_def set_record_def)
    have none: "readPendingSequenceIndex (sd_Sequence s) (set_record k s base) = Inr None"
      using file_at_absent [OF next_number_fresh(2) [OF assms(1)]] appended(3)
      by (simp add: readPendingSequenceIndex_def read_file_def set_record_def)
    note ready = assms(2) [unfolded append_ready_def]
    have "sd_RecordSHA256 s = hr_sealedRecordSHA256 evidence"
      using ready by (metis operationHistoryStoredRecord.select_convs(3) stored_of_def)
    then have pending: "pending_entry k s = Inr i" and time: "json_time_ok (si_AppendedAt i)"
      using ready appended(2,3) new_sequence_index(6) by (auto simp: pending_entry_def)
    obtain found where found: "readOperationIndex (hr_Identity (sd_Record s)) (set_record k s base) = Inr found"
        "\<not> overtaken (hi_Generation (hr_Identity (sd_Record s))) found" "ck_Sequence cp < sd_Sequence s" "validHistoryRecordID k"
      using appended(5) appended(1) by (auto simp: record_entry_ok_def index split: sum.splits)
    let ?rest = "bnd (look (readStoredRecord st k)) (\<lambda>x.
      thn (ensure (ck_Sequence cp < sd_Sequence x) corrupt)
     (bnd (look (readOperationIndex (hr_Identity (sd_Record x)))) (\<lambda>index.
      thn (ensure (\<not> overtaken (hi_Generation (hr_Identity (sd_Record x))) index) corrupt)
     (bnd (look (readPendingSequenceIndex (sd_Sequence x))) (\<lambda>found.
      thn (restore_sequence k x found)
      (look (\<lambda>d. Inr (count_record (k, Doc s) x (u, seqs) d))))))))"
    have rest: "?rest v = thn (or_unavailable (change (set_sequence (sd_Sequence s) i)))
        (look (\<lambda>d. Inr (count_record (k, Doc s) s (u, seqs) d))) v" if "hw_dir v = set_record k s base" for v
      using that read found none pending time by (simp add: restore_sequence_def write_json_def)
    have "leads 1 E F (\<lambda>acc d. d = ?full \<and> acc = ?out) ?rest v" if v: "hw_dir v = set_record k s base" for v
    proof -
      have "leads (1 + 0) E F (\<lambda>acc d. d = ?full \<and> acc = ?out) (thn (or_unavailable (change (set_sequence (sd_Sequence s) i)))
          (look (\<lambda>d. Inr (count_record (k, Doc s) s (u, seqs) d)))) v"
      proof (rule leads_thn)
        show "leads 1 E F (\<lambda>_ d. d = ?full) (or_unavailable (change (set_sequence (sd_Sequence s) i))) v"
          using assms(5,6) v w by (intro leads_change) simp_all
        fix x :: unit and v' :: history_world
        assume "hw_dir v' = ?full"
        then show "leads 0 E F (\<lambda>acc d. d = ?full \<and> acc = ?out) (look (\<lambda>d. Inr (count_record (k, Doc s) s (u, seqs) d))) v'"
          using bytes by (simp add: leads_def count_record_def use_bytes_def record_bytes_def entry_sequence_def)
      qed
      then show ?thesis using rest [OF v] by (simp add: leads_def)
    qed
    then have "leads (0 + 1) E F (\<lambda>acc d. d = ?full \<and> acc = ?out) (thn poll (thn (ensure (validHistoryRecordID k) corrupt) ?rest)) w"
      using leads_reads [OF reads_poll w] assms(5) w found(4)
      by (intro leads_thn [where Q = "\<lambda>y d'. y = () \<and> d' = set_record k s base"]) (auto simp: leads_def)
    then show ?thesis unfolding scan_record_def fst_conv add_0 .
  qed
qed

lemma each_append: "each f (xs @ ys) s w = bnd (each f xs s) (each f ys) w"
proof (induction xs arbitrary: s w)
  case Nil
  then show ?case by (simp add: bnd_def)
next
  case (Cons x xs)
  then show ?case by (simp add: bnd_def split: prod.split sum.split)
qed

lemma leads_cong: "m w = m' w \<Longrightarrow> leads n E F Q m' w \<Longrightarrow> leads n E F Q m w"
  by (simp add: leads_def)

lemma leads_found:
  assumes "reads d x m" "hw_dir w = d" "E d" "\<And>w'. hw_dir w' = d \<Longrightarrow> leads n E F Q (f x) w'"
  shows "leads n E F Q (bnd m f) w"
proof -
  have "leads (0 + n) E F Q (bnd m f) w"
    using leads_reads [OF assms(1,2), of E F, OF assms(3)] by (rule leads_bnd) (use assms(4) in simp)
  then show ?thesis by simp
qed

lemma leads_polled:
  assumes "\<And>v. hw_dir v = d \<Longrightarrow> leads n E F Q m v" "hw_dir w = d" "E d"
  shows "leads n E F Q (thn poll m) w"
  unfolding thn_def by (rule leads_found [where E = E, OF reads_poll assms(2,3)]) (rule assms(1))

lemma leads_ensured:
  assumes "b" "hw_dir w = d" "E d" "\<And>v. hw_dir v = d \<Longrightarrow> leads n E F Q m v"
  shows "leads n E F Q (thn (ensure b e) m) w"
  using assms by (simp add: leads_def)

lemma leads_reading:
  assumes "f d = Inr x" "hw_dir w = d" "E d" "\<And>v. hw_dir v = d \<Longrightarrow> leads n E F Q m v"
  shows "leads n E F Q (thn (look f) m) w"
  using assms by (simp add: leads_def)

text \<open>The reservation beside its record is removed.\<close>

lemma scan_half_reservation:
  assumes "orderly st cp base" "append_ready st cp base evidence k s i" "readReservation k base = Inr r"
    "hw_dir w = set_sequence (sd_Sequence s) i (set_record k s base)" "E (hw_dir w)" "E (appended k s i base)"
  shows "leads 1 E F (\<lambda>u' d. d = appended k s i base \<and> u' = u) (scan_reservation (k, f) u) w"
proof -
  let ?full = "set_sequence (sd_Sequence s) i (set_record k s base)"
  have key: "validHistoryRecordID k" using appended_record(5) [OF assms(1,2)] by (simp add: record_entry_ok_def)
  have read: "readReservation k ?full = Inr r"
    using assms(3) readReservation_cong [of ?full k base] by (simp add: set_sequence_def set_record_def)
  have here: "present (file_at (hd_reservations ?full) k)"
    using read by (auto simp: readReservation_def read_file_def present_def)
  have recorded: "present (file_at (hd_records ?full) k)" by (simp add: set_sequence_def set_record_def present_def)
  let ?rest = "thn (ensure (validHistoryRecordID (fst (k, f))) corrupt)
     (bnd (attempt_action (look (readReservation (fst (k, f))))) (\<lambda>result.
      case result of
        Inl e \<Rightarrow> (if e = Not_exist then ret u else fail e)
      | Inr r \<Rightarrow>
          bnd (look (\<lambda>d. Inr (present (file_at (hd_records d) (fst (k, f)))))) (\<lambda>recorded.
          if recorded then thn (remove_reservation (fst (k, f))) (ret u)
          else ret (u\<lparr>us_ReservedBytes := us_ReservedBytes u + rs_ReservedBytes r,
                      us_ReservationCount := us_ReservationCount u + 1\<rparr>))))"
  have body: "leads 1 E F (\<lambda>u' d. d = appended k s i base \<and> u' = u) ?rest v" if v: "hw_dir v = ?full" for v
  proof (rule leads_cong)
    show "?rest v = thn (remove_reservation k) (ret u) v"
      using v key read recorded by (simp add: bnd_run [OF attempt_run])
    have "leads (1 + 0) E F (\<lambda>u' d. d = appended k s i base \<and> u' = u) (thn (remove_reservation k) (ret u)) v"
    proof (rule leads_thn)
      show "leads 1 E F (\<lambda>_ d. d = appended k s i base) (remove_reservation k) v"
        unfolding remove_reservation_def using here v assms(4-6) by (intro leads_remove) (simp_all add: appended_def)
      fix x :: unit and v' :: history_world
      assume "hw_dir v' = appended k s i base"
      then show "leads 0 E F (\<lambda>u' d. d = appended k s i base \<and> u' = u) (ret u) v'" by (simp add: leads_def)
    qed
    then show "leads 1 E F (\<lambda>u' d. d = appended k s i base \<and> u' = u) (thn (remove_reservation k) (ret u)) v" by simp
  qed
  show ?thesis
    unfolding scan_reservation_def by (rule leads_polled [OF body assms(4)]) (use assms(4,5) in simp_all)
qed

lemma half_reservations:
  assumes "orderly st cp base" "append_ready st cp base evidence k s i" "readReservation k base = Inr r"
    "hw_dir w = set_sequence (sd_Sequence s) i (set_record k s base)" "E (hw_dir w)" "E (appended k s i base)"
  shows "leads 1 E F (\<lambda>u' d. d = appended k s i base \<and>
      u' = u\<lparr>us_ReservedBytes := us_ReservedBytes u + int MaxOperationHistoryReservedBytes *
          int (length (hd_reservations (appended k s i base))),
        us_ReservationCount := us_ReservationCount u + int (length (hd_reservations (appended k s i base)))\<rparr>)
    (each scan_reservation (hd_reservations base) u) w"
proof -
  let ?full = "set_sequence (sd_Sequence s) i (set_record k s base)"
  let ?Y = "appended k s i base"
  let ?plus = "\<lambda>m u. u\<lparr>us_ReservedBytes := us_ReservedBytes u + int MaxOperationHistoryReservedBytes * int (length m),
    us_ReservationCount := us_ReservationCount u + int (length m)\<rparr>"
  have wf: "gm_wf (hd_reservations base)" using assms(1) by (simp add: orderly_def)
  obtain f where "(k, f) \<in> set (hd_reservations base)" using held_reservation(1) [OF assms(1,3)] by auto
  then obtain front rear where split: "hd_reservations base = front @ (k, f) # rear" by (metis split_list)
  have others: "k \<notin> set (gm_keys front)" "k \<notin> set (gm_keys rear)" using wf by (auto simp: split)
  have apart: "fst e \<noteq> k" if "e \<in> set front \<union> set rear" for e using that others by auto
  have "[e \<leftarrow> front @ (k, f) # rear. fst e \<noteq> k] = front @ rear" using apart by (simp add: filter_id_conv)
  then have rest: "hd_reservations ?Y = front @ rear"
    using appended_files(3) [OF assms(1-3)] by (simp add: split AList.delete_eq case_prod_beta' eq_commute [of k])
  have ok: "list_all (reservation_entry_ok ?Y) front" "list_all (reservation_entry_ok ?Y) rear"
    using appended_reservations(1) [OF assms(1-3)] by (simp_all add: rest)
  have same: "reservation_entry_ok ?full e = reservation_entry_ok ?Y e" if "fst e \<noteq> k" for e
    using that by (intro reservation_entry_ok_cong) (simp_all add: appended_def drop_reservation_def)
  have front: "list_all (reservation_entry_ok ?full) front" using ok(1) same apart by (auto simp: list_all_iff)
  have step: "each scan_reservation (hd_reservations base) u v =
      bnd (each scan_reservation front u) (\<lambda>u. bnd (scan_reservation (k, f) u) (each scan_reservation rear)) v" for v
    by (simp add: split each_append) (simp add: bnd_def split: prod.split sum.split)
  have "leads 1 E F (\<lambda>u' d. d = ?Y \<and> u' = ?plus (front @ rear) u)
      (bnd (each scan_reservation front u) (\<lambda>u. bnd (scan_reservation (k, f) u) (each scan_reservation rear))) w"
  proof (rule leads_found [OF each_scan_reservation [OF front] assms(4)])
    fix v :: history_world
    assume v: "hw_dir v = ?full"
    have "leads (1 + 0) E F (\<lambda>u' d. d = ?Y \<and> u' = ?plus (front @ rear) u)
        (bnd (scan_reservation (k, f) (?plus front u)) (each scan_reservation rear)) v"
    proof (rule leads_bnd)
      show "leads 1 E F (\<lambda>u' d. d = ?Y \<and> u' = ?plus front u) (scan_reservation (k, f) (?plus front u)) v"
        using assms v by (intro scan_half_reservation) simp_all
      fix x and v' :: history_world
      assume x: "hw_dir v' = ?Y \<and> x = ?plus front u"
      have "leads 0 E F (\<lambda>y d'. y = ?plus rear x \<and> d' = ?Y) (each scan_reservation rear x) v'"
        using x assms(6) by (intro leads_reads each_scan_reservation ok(2)) simp_all
      then show "leads 0 E F (\<lambda>u' d. d = ?Y \<and> u' = ?plus (front @ rear) u) (each scan_reservation rear x) v'"
        by (rule leads_post) (use x in \<open>simp add: algebra_simps\<close>)
    qed
    then show "leads 1 E F (\<lambda>u' d. d = ?Y \<and> u' = ?plus (front @ rear) u)
        (bnd (scan_reservation (k, f) (?plus front u)) (each scan_reservation rear)) v" by simp
  qed (use assms(4,5) in simp)
  then have "leads 1 E F (\<lambda>u' d. d = ?Y \<and> u' = ?plus (front @ rear) u) (each scan_reservation (hd_reservations base) u) w"
    by (rule leads_cong [OF step])
  then show ?thesis unfolding rest .
qed

lemma half_records:
  assumes "orderly st cp base" "append_ready st cp base evidence k s i" "readReservation k base = Inr r"
    "half k s i base (hw_dir w)" "E (hw_dir w)" "E (set_sequence (sd_Sequence s) i (set_record k s base))"
  shows "leads 1 E F (\<lambda>acc d. d = set_sequence (sd_Sequence s) i (set_record k s base) \<and>
      acc = (u\<lparr>us_UsedBytes := us_UsedBytes u + record_bytes (appended k s i base) (hd_records (appended k s i base)),
        us_RecordCount := us_RecordCount u + int (length (hd_records (appended k s i base)))\<rparr>,
        pending_sequences (hd_records (appended k s i base))))
    (each (scan_record st cp) (hd_records (hw_dir w)) (u, [])) w"
proof -
  let ?full = "set_sequence (sd_Sequence s) i (set_record k s base)"
  let ?Y = "appended k s i base"
  let ?old = "(u\<lparr>us_UsedBytes := us_UsedBytes u + record_bytes ?Y (hd_records base),
      us_RecordCount := us_RecordCount u + int (length (hd_records base))\<rparr>, pending_sequences (hd_records base))"
  let ?post = "\<lambda>acc d. d = ?full \<and> acc = (u\<lparr>us_UsedBytes := us_UsedBytes u + record_bytes ?Y (hd_records ?Y),
        us_RecordCount := us_RecordCount u + int (length (hd_records ?Y))\<rparr>, pending_sequences (hd_records ?Y))"
  note old = half_old_record [OF assms(1-4)]
  have reads: "reads (hw_dir w) ?old (each (scan_record st cp) (hd_records base) (u, []))"
    using each_scan_record [of st cp "hw_dir w" "hd_records base" u "[]"] old(1,2)
    by (simp add: list_all_iff half_record_bytes [OF assms(1-4)])
  have step: "each (scan_record st cp) (hd_records (hw_dir w)) (u, []) w =
      bnd (each (scan_record st cp) (hd_records base) (u, [])) (scan_record st cp (k, Doc s)) w"
    by (simp add: half_files(1) [OF assms(1-4)] each_append) (simp add: bnd_def split: prod.split sum.split)
  have "leads 1 E F ?post (bnd (each (scan_record st cp) (hd_records base) (u, [])) (scan_record st cp (k, Doc s))) w"
  proof (rule leads_found [where E = E, OF reads refl assms(5)])
    fix v :: history_world
    assume v: "hw_dir v = hw_dir w"
    have "leads 1 E F (\<lambda>acc d. d = ?full \<and> acc = ((fst ?old)\<lparr>us_UsedBytes := us_UsedBytes (fst ?old) +
        record_bytes ?Y [(k, Doc s)], us_RecordCount := us_RecordCount (fst ?old) + 1\<rparr>, snd ?old @ [sd_Sequence s]))
      (scan_record st cp (k, Doc s) (fst ?old, snd ?old)) v"
      using assms v by (intro scan_half_record) simp_all
    then show "leads 1 E F ?post (scan_record st cp (k, Doc s) ?old) v"
      unfolding prod.collapse
      by (rule leads_post)
         (simp add: appended_files(1) [OF assms(1-3)] pending_sequences_def record_bytes_def entry_sequence_def)
  qed
  then show ?thesis by (simp only: leads_def step)
qed

lemma recount_half:
  assumes "orderly st cp base" "append_ready st cp base evidence k s i" "readReservation k base = Inr r"
    "half k s i base (hw_dir w)" "E (hw_dir w)" "E (set_sequence (sd_Sequence s) i (set_record k s base))"
    "E (appended k s i base)"
  shows "leads 2 E F (\<lambda>u d. d = appended k s i base \<and> u = tally st blocked cp d) (recount st blocked) w"
proof -
  let ?full = "set_sequence (sd_Sequence s) i (set_record k s base)"
  let ?Y = "appended k s i base"
  let ?d = "hw_dir w"
  note files = half_files [OF assms(1-4)] appended_files [OF assms(1-3)]
  have order: "orderly st cp ?Y" by (rule appended_orderly [OF assms(1-3)])
  note o = order [unfolded orderly_def]
  have full: "hd_records ?full = hd_records ?Y" "hd_sequence ?full = hd_sequence ?Y" "hd_descriptor ?full = hd_descriptor ?Y"
    by (simp_all add: appended_def drop_reservation_def)
  let ?u = "initial_usage st blocked cp ?Y"
  let ?indexed = "(?u\<lparr>us_UsedBytes := us_UsedBytes ?u + index_bytes (hd_index ?Y),
    us_OperationKeyCount := us_OperationKeyCount ?u + int (length (hd_index ?Y))\<rparr>, index_digest zero_digest (hd_index ?Y))"
  let ?recorded = "((fst ?indexed)\<lparr>us_UsedBytes := us_UsedBytes (fst ?indexed) + record_bytes ?Y (hd_records ?Y),
    us_RecordCount := us_RecordCount (fst ?indexed) + int (length (hd_records ?Y))\<rparr>, pending_sequences (hd_records ?Y))"
  let ?accepted = "accept_count cp (use_bytes (descriptor_charge ?Y) (fst ?recorded))"
  let ?out = "?accepted\<lparr>us_ReservedBytes := us_ReservedBytes ?accepted + int MaxOperationHistoryReservedBytes *
      int (length (hd_reservations ?Y)), us_ReservationCount := us_ReservationCount ?accepted + int (length (hd_reservations ?Y))\<rparr>"
  have out: "?out = tally st blocked cp ?Y"
    using orderly_accepted [OF order]
    by (simp add: initial_usage_def no_usage_def use_bytes_def accept_count_def tally_def checkpoint_charge_def Let_def)
  have initial: "initial_usage st blocked cp ?d = ?u" by (simp only: initial_usage_def files(3,14))
  let ?post = "\<lambda>u d. d = ?Y \<and> u = tally st blocked cp d"
  let ?last = "\<lambda>u. thn (ensure (listed (maxOperationHistoryReservations + maxOperationHistoryPendingRecords) (hd_reservations ?d)) corrupt)
     (each scan_reservation (hd_reservations ?d) (accept_count cp u))"
  let ?tail = "\<lambda>recorded. thn (ensure (consecutive (ck_Sequence cp) (sort (snd recorded))) corrupt)
     (thn (look (\<lambda>d. if sequence_listed (snd recorded) d then Inr () else Inl corrupt))
     (bnd (scan_descriptor cp (snd recorded) (fst recorded)) ?last))"
  have "sequence_listed x ?full = sequence_listed x ?Y" for x by (simp add: sequence_listed_def full)
  then have seq: "sequence_listed (pending_sequences (hd_records ?Y)) ?full" using o by simp
  have "descriptor_bytes ?full refs n = descriptor_bytes ?Y refs n" for refs n by (rule descriptor_bytes_cong) (simp add: full)
  then have descriptor: "descriptor_ok cp ?full" "descriptor_charge ?full = descriptor_charge ?Y"
    using o full readPendingBatchDescriptor_cong [OF full(3)]
    by (simp_all add: descriptor_ok_def descriptor_charge_def split: sum.splits option.splits)
  have held: "listed (maxOperationHistoryReservations + maxOperationHistoryPendingRecords) (hd_reservations base)"
    using assms(1) by (simp add: orderly_def)
  have last: "leads 1 E F ?post (?last (use_bytes (descriptor_charge ?Y) (fst ?recorded))) v" if v: "hw_dir v = ?full" for v
  proof -
    have "leads 1 E F ?post (each scan_reservation (hd_reservations base) ?accepted) v'" if "hw_dir v' = ?full" for v'
      by (rule leads_post [OF half_reservations [OF assms(1-3) that]]) (use that assms(6,7) out in simp_all)
    then show ?thesis using held unfolding files(5) by (intro leads_ensured [where d = ?full] v assms(6))
  qed
  have tail: "leads 1 E F ?post (?tail ?recorded) v" if v: "hw_dir v = ?full" for v
  proof -
    have described: "reads ?full (use_bytes (descriptor_charge ?Y) (fst ?recorded)) (scan_descriptor cp (snd ?recorded) (fst ?recorded))"
      using scan_descriptor_reads [OF descriptor(1), of "snd ?recorded" "fst ?recorded"] descriptor(2) full(1) by simp
    have described: "leads 1 E F ?post (bnd (scan_descriptor cp (snd ?recorded) (fst ?recorded)) ?last) v'"
      if v': "hw_dir v' = ?full" for v'
      by (rule leads_found [where E = E and d = ?full and x = "use_bytes (descriptor_charge ?Y) (fst ?recorded)"])
         (rule described v' assms(6) | erule last)+
    have sequences: "leads 1 E F ?post (thn (look (\<lambda>d. if sequence_listed (snd ?recorded) d then Inr () else Inl corrupt))
        (bnd (scan_descriptor cp (snd ?recorded) (fst ?recorded)) ?last)) v'" if v': "hw_dir v' = ?full" for v'
      by (rule leads_reading [where d = ?full]) (use seq in simp, rule v', rule assms(6), erule described)
    have "consecutive (ck_Sequence cp) (sort (snd ?recorded))" using o by simp
    then show ?thesis by (intro leads_ensured [where d = ?full] v assms(6) sequences)
  qed
  have body: "leads 2 E F ?post (bnd (each (scan_record st cp) (hd_records ?d) (fst ?indexed, [])) ?tail) v"
    if v: "hw_dir v = ?d" for v
  proof -
    have "leads (1 + 1) E F ?post (bnd (each (scan_record st cp) (hd_records (hw_dir v)) (fst ?indexed, [])) ?tail) v"
      by (rule leads_bnd [OF half_records [OF assms(1-3)]]) (use assms(4-6) v tail in simp_all)
    then show ?thesis by (simp only: v one_add_one)
  qed
  have index: "reads ?d ?indexed (each (scan_index cp) (hd_index ?d) (initial_usage st blocked cp ?d, zero_digest))"
    unfolding initial using o files(2,12) by (simp add: each_scan_index)
  let ?rest = "\<lambda>indexed. thn (ensure (index_set_ok cp ?d indexed) corrupt)
     (thn (ensure (listed maxOperationHistoryPendingRecords (hd_records ?d)) corrupt)
     (bnd (each (scan_record st cp) (hd_records ?d) (fst indexed, [])) ?tail))"
  have listed: "listed maxOperationHistoryPendingRecords (hd_records ?d)" using o files(1,9) by simp
  have set_ok: "index_set_ok cp ?d ?indexed"
    using assms(1) files(2,12) by (simp add: orderly_def index_set_ok_def initial_usage_def no_usage_def use_bytes_def Let_def)
  have ready: "leads 2 E F ?post (thn (ensure (listed maxOperationHistoryPendingRecords (hd_records ?d)) corrupt)
      (bnd (each (scan_record st cp) (hd_records ?d) (fst ?indexed, [])) ?tail)) v" if "hw_dir v = ?d" for v
    using listed by (intro leads_ensured [where d = ?d] that assms(5) body)
  have rest: "leads 2 E F ?post (?rest ?indexed) v" if "hw_dir v = ?d" for v
    by (rule leads_ensured [where d = ?d]) (rule set_ok that assms(5) | erule ready)+
  have scan: "leads 2 E F ?post (bnd (each (scan_index cp) (hd_index ?d) (initial_usage st blocked cp ?d, zero_digest)) ?rest) v"
    if "hw_dir v = ?d" for v
    by (rule leads_found [where E = E and d = ?d and x = ?indexed]) (rule index that assms(5) | erule rest)+
  have cp: "readCheckpoint ?d = Inr cp" using o files(3,14) readCheckpoint_cong [of ?d ?Y] by simp
  have "(if listed maxOperationHistoryOperationKeys (hd_index ?d) then Inr ?d else Inl corrupt) = Inr ?d"
    using o files(2,12) by simp
  then have keys: "leads 2 E F ?post (bnd (look (\<lambda>d. if listed maxOperationHistoryOperationKeys (hd_index d) then Inr d else Inl corrupt))
      (\<lambda>d. bnd (each (scan_index cp) (hd_index d) (initial_usage st blocked cp d, zero_digest)) (\<lambda>indexed.
        thn (ensure (index_set_ok cp d indexed) corrupt)
        (thn (ensure (listed maxOperationHistoryPendingRecords (hd_records d)) corrupt)
        (bnd (each (scan_record st cp) (hd_records d) (fst indexed, [])) (\<lambda>recorded.
        thn (ensure (consecutive (ck_Sequence cp) (sort (snd recorded))) corrupt)
        (thn (look (\<lambda>d. if sequence_listed (snd recorded) d then Inr () else Inl corrupt))
        (bnd (scan_descriptor cp (snd recorded) (fst recorded)) (\<lambda>u.
        thn (ensure (listed (maxOperationHistoryReservations + maxOperationHistoryPendingRecords) (hd_reservations d)) corrupt)
        (each scan_reservation (hd_reservations d) (accept_count cp u))))))))))) v" if "hw_dir v = ?d" for v
    by (intro leads_found [where E = E and d = ?d and x = ?d] reads_look that assms(5)) (assumption | erule scan)+
  show ?thesis
    unfolding recount_def
    by (rule leads_found [where E = E and d = ?d and x = cp]) (rule reads_look [of readCheckpoint] cp refl assms(5) | erule keys)+
qed

section \<open>Recovery\<close>

lemma leads_finish:
  assumes "mendable st cp (hw_dir w)" "orderly st cp (hw_dir w)" "u = tally st (us_CapacityBlockedCount u) cp (hw_dir w)"
    "writable_usage st u" "st_maxBytes st \<le> maxOperationHistoryStoreBytes"
  shows "leads 2 (safe_archive st cp) F (\<lambda>_ d. d = finished u (hw_dir w) \<and> settled_archive st cp d) (finishMutationLocked u) w"
proof -
  let ?mid = "(hw_dir w)\<lparr>hd_usage := Doc (publicOperationHistoryUsage u)\<rparr>"
  have mid: "mendable st cp ?mid" using assms by (rule mendable_usage)
  have last: "settled_archive st cp (finished u (hw_dir w))"
    using assms by (intro settled_finished) (simp_all add: mendable_def)
  have "leads (1 + 1) (safe_archive st cp) F (\<lambda>_ d. d = finished u (hw_dir w) \<and> settled_archive st cp d) (finishMutationLocked u) w"
    unfolding finishMutationLocked_def writeUsage_def
  proof (rule leads_thn)
    show "leads 1 (safe_archive st cp) F (\<lambda>_ d. d = ?mid)
        (or_unavailable (change (\<lambda>d. d\<lparr>hd_usage := Doc (publicOperationHistoryUsage u)\<rparr>))) w"
      using assms(1) mid by (intro leads_change) (simp_all add: safe_archive_def)
    fix x :: unit and v :: history_world
    assume v: "hw_dir v = ?mid"
    have "hd_marker ?mid" using mid by (simp add: mendable_def)
    then show "leads 1 (safe_archive st cp) F (\<lambda>_ d. d = finished u (hw_dir w) \<and> settled_archive st cp d) clear_marker v"
      unfolding clear_marker_def using v mid last by (intro leads_remove) (simp_all add: safe_archive_def finished_def)
  qed
  then show ?thesis by (simp only: one_add_one)
qed

lemma half_mendable:
  assumes "mendable st cp d" "half_appended st cp d"
  obtains base evidence k s i r where "orderly st cp base" "append_ready st cp base evidence k s i" "readReservation k base = Inr r"
    "half k s i base d" "mendable st cp (set_sequence (sd_Sequence s) i (set_record k s base))" "mendable st cp (appended k s i base)"
    "hd_usage (appended k s i base) = hd_usage d"
proof -
  obtain base evidence k s i r where base: "hd_marker base" "orderly st cp base" "append_ready st cp base evidence k s i"
      "readReservation k base = Inr r" "half k s i base d"
    using assms(2) by (auto simp: half_appended_def half_def)
  have status: "hd_usage base = hd_usage d" "hd_publication base = hd_publication d"
    using half_files(6,8) [OF base(2-5)] by simp_all
  let ?full = "set_sequence (sd_Sequence s) i (set_record k s base)"
  have full: "half k s i base ?full" by (simp add: half_def)
  have "half_appended st cp ?full" using base(1-4) by (rule half_appendedI)
  moreover have "blocked_before st ?full = blocked_before st d"
    using half_files(8) [OF base(2-4) full] status(1) by (intro blocked_cong) simp
  ultimately have "mendable st cp ?full"
    using assms(1) half_files(6,7) [OF base(2-4) full] base(1) status by (simp add: mendable_def)
  moreover have usage: "hd_usage (appended k s i base) = hd_usage d"
    using status(1) by (simp add: appended_def drop_reservation_def set_sequence_def set_record_def)
  have "mendable st cp (appended k s i base)"
    using assms(1) base(1) status appended_orderly [OF base(2-4)] appended_files(7,8) [OF base(2-4)] blocked_cong [OF usage, of st]
    by (simp add: mendable_def)
  ultimately show thesis using base usage by (intro that)
qed

text \<open>What recovery finds in a directory it can mend.\<close>

lemma leads_recount:
  assumes "mendable st cp (hw_dir w)"
  shows "leads 2 (safe_archive st cp) F (\<lambda>u d. mendable st cp d \<and> orderly st cp d \<and> u = tally st blocked cp d) (recount st blocked) w"
proof (cases "orderly st cp (hw_dir w)")
  case True
  have "leads 0 (safe_archive st cp) F (\<lambda>u d. u = tally st blocked cp (hw_dir w) \<and> d = hw_dir w) (recount st blocked) w"
    using assms by (intro leads_reads recount_orderly True refl) (simp add: safe_archive_def)
  then have "leads 0 (safe_archive st cp) F (\<lambda>u d. mendable st cp d \<and> orderly st cp d \<and> u = tally st blocked cp d) (recount st blocked) w"
    by (rule leads_post) (use assms True in simp)
  then show ?thesis by (rule leads_more) simp
next
  case False
  then have "half_appended st cp (hw_dir w)" using assms by (simp add: mendable_def)
  with assms obtain base evidence k s i r where base: "orderly st cp base" "append_ready st cp base evidence k s i"
      "readReservation k base = Inr r" "half k s i base (hw_dir w)"
      "mendable st cp (set_sequence (sd_Sequence s) i (set_record k s base))" "mendable st cp (appended k s i base)"
    by (rule half_mendable)
  have "leads 2 (safe_archive st cp) F (\<lambda>u d. d = appended k s i base \<and> u = tally st blocked cp d) (recount st blocked) w"
    using assms base(5,6) by (intro recount_half [OF base(1-4)]) (simp_all add: safe_archive_def)
  then show ?thesis by (rule leads_post) (use base(6) appended_orderly [OF base(1-3)] in simp)
qed

lemma bounds_blocked: "within_bounds st (tally st blocked cp d) = within_bounds st (tally st 0 cp d)"
  by (simp add: within_bounds_def tally_def Let_def)

lemma bounds_writable:
  "within_bounds st (tally st blocked cp d) \<Longrightarrow> 0 \<le> blocked \<Longrightarrow> blocked < 2 ^ 63 \<Longrightarrow> writable_usage st (tally st blocked cp d)"
  by (simp add: within_bounds_def writable_usage_def operationHistoryPublicationHeadroom_def)

lemma safe_marked:
  assumes "safe_archive st cp d"
  shows "mendable st cp (d\<lparr>hd_marker := True\<rparr>)" "blocked_before st (d\<lparr>hd_marker := True\<rparr>) = blocked_before st d"
    "0 \<le> blocked_before st d" "blocked_before st d < 2 ^ 63"
proof -
  show "blocked_before st (d\<lparr>hd_marker := True\<rparr>) = blocked_before st d" by (rule blocked_cong) simp
  show "mendable st cp (d\<lparr>hd_marker := True\<rparr>)"
    using assms
  proof (cases rule: safe_cases)
    case mending
    then have same: "d\<lparr>hd_marker := True\<rparr> = d" by simp
    show ?thesis unfolding same by (rule mending(1))
  next
    case unused
    then show ?thesis
      by (simp add: mendable_def marked_orderly new_directory_orderly)
         (simp add: blocked_before_def readUsage_def read_file_def new_directory_def present_def)
  qed (rule settled_marked)
  show "0 \<le> blocked_before st d" "blocked_before st d < 2 ^ 63"
    using assms settled_blocked
    by (auto simp: safe_archive_def mendable_def blocked_before_def readUsage_def read_file_def new_directory_def)
qed

definition overfull :: "OperationHistoryStore \<Rightarrow> operationHistoryCheckpoint \<Rightarrow> store_error \<Rightarrow> history_dir \<Rightarrow> bool" where
  "overfull st cp e d \<longleftrightarrow> e = capacity \<and> orderly st cp d \<and> \<not> within_bounds st (tally st 0 cp d)"

lemma leads_rebuild:
  assumes "safe_archive st cp (hw_dir w)" "st_maxBytes st \<le> maxOperationHistoryStoreBytes"
  shows "leads 5 (safe_archive st cp) (overfull st cp) (\<lambda>_. settled_archive st cp) (rebuildUsageLocked st) w"
proof -
  let ?E = "safe_archive st cp" and ?F = "overfull st cp" and ?Q = "\<lambda>_ :: unit. settled_archive st cp"
  let ?b = "blocked_before st (hw_dir w)"
  note marked = safe_marked [OF assms(1)]
  have count: "leads 4 ?E ?F ?Q (bnd (recount st ?b) (\<lambda>u. thn (ensure (within_bounds st u) capacity) (finishMutationLocked u))) v"
    if v: "mendable st cp (hw_dir v)" for v
  proof -
    have "leads (2 + 2) ?E ?F ?Q (bnd (recount st ?b) (\<lambda>u. thn (ensure (within_bounds st u) capacity) (finishMutationLocked u))) v"
    proof (rule leads_bnd [OF leads_recount [OF v]])
      fix u and v' :: history_world
      assume v': "mendable st cp (hw_dir v') \<and> orderly st cp (hw_dir v') \<and> u = tally st ?b cp (hw_dir v')"
      show "leads 2 ?E ?F ?Q (thn (ensure (within_bounds st u) capacity) (finishMutationLocked u)) v'"
      proof (cases "within_bounds st u")
        case True
        then have "writable_usage st u" using v' marked(3,4) by (simp add: bounds_writable)
        then have "leads 2 ?E ?F (\<lambda>_ d. d = finished u (hw_dir v') \<and> settled_archive st cp d) (finishMutationLocked u) v'"
          using v' assms(2) by (intro leads_finish) simp_all
        then have "leads 2 ?E ?F ?Q (finishMutationLocked u) v'" by (rule leads_post) simp
        then show ?thesis using True by (simp add: leads_def)
      next
        case False
        then show ?thesis using v' bounds_blocked [of st ?b cp "hw_dir v'"] by (simp add: leads_def overfull_def safe_archive_def)
      qed
    qed
    then show ?thesis by simp
  qed
  have replay: "leads 4 ?E ?F ?Q (thn (replay_publication st) (bnd (recount st ?b)
      (\<lambda>u. thn (ensure (within_bounds st u) capacity) (finishMutationLocked u)))) v" if v: "mendable st cp (hw_dir v)" for v
  proof -
    have "replay_publication st v = (Inr (), v)" using v by (simp add: replay_publication_def mendable_def)
    then show ?thesis using count [OF v] by (simp add: leads_def thn_run)
  qed
  have "leads (1 + 4) ?E ?F ?Q (thn beginMutationLocked (thn (replay_publication st) (bnd (recount st ?b)
      (\<lambda>u. thn (ensure (within_bounds st u) capacity) (finishMutationLocked u))))) w"
  proof (rule leads_thn)
    show "leads 1 ?E ?F (\<lambda>_. mendable st cp) beginMutationLocked w"
      unfolding beginMutationLocked_def using assms(1) marked(1) by (intro leads_change) (simp_all add: safe_archive_def)
  qed (rule replay)
  then show ?thesis by (simp add: rebuildUsageLocked_def leads_def)
qed

lemma leads_ensureUsage:
  assumes "safe_archive st cp (hw_dir w)" "st_maxBytes st \<le> maxOperationHistoryStoreBytes"
  shows "leads 5 (safe_archive st cp) (overfull st cp) (\<lambda>u d. settled_archive st cp d \<and> readUsage st d = Inr u)
    (ensureUsageLocked st) w"
proof (cases "settled_archive st cp (hw_dir w)")
  case True
  obtain u where u: "readUsage st (hw_dir w) = Inr u" using True by (rule settled_usage)
  have "leads 0 (safe_archive st cp) (overfull st cp) (\<lambda>u d. settled_archive st cp d \<and> readUsage st d = Inr u) (ensureUsageLocked st) w"
    using ensureUsage_settled [OF True u] True u by (simp add: leads_def)
  then show ?thesis by (rule leads_more) simp
next
  case False
  have "leads (5 + 0) (safe_archive st cp) (overfull st cp) (\<lambda>u d. settled_archive st cp d \<and> readUsage st d = Inr u)
      (thn (rebuildUsageLocked st) (look (readUsage st))) w"
  proof (rule leads_thn [OF leads_rebuild [OF assms]])
    fix v :: history_world
    assume v: "settled_archive st cp (hw_dir v)"
    then obtain u where "readUsage st (hw_dir v) = Inr u" by (rule settled_usage)
    then show "leads 0 (safe_archive st cp) (overfull st cp) (\<lambda>u d. settled_archive st cp d \<and> readUsage st d = Inr u)
        (look (readUsage st)) v" using v by (simp add: leads_def)
  qed
  moreover have "hd_marker (hw_dir w) \<or> \<not> is_ok (readUsage st (hw_dir w))"
    using assms(1) False by (auto simp: safe_archive_def mendable_def new_directory_def readUsage_def read_file_def)
  then have "ensureUsageLocked st w = thn (rebuildUsageLocked st) (look (readUsage st)) w"
    by (auto simp: ensureUsageLocked_def)
  ultimately show ?thesis by (simp add: leads_def)
qed

end
