(* ===== verification/Operation_History_Runs.thy ===== *)
theory Operation_History_Runs
  imports Operation_History_Recovery
begin

text \<open>
  Every operation of the archive, interrupted wherever it may be, leaves a directory that is exact or
  that its recovery mends.
\<close>

section \<open>Under the lock\<close>

lemma safe_ends:
  "ends_in st cp Y m w \<Longrightarrow> settled_archive st cp Y \<Longrightarrow> safe_archive st cp (hw_dir (snd (m w)))"
  by (auto simp: ends_in_def safe_archive_def)

lemma safe_lock:
  assumes "\<And>w'. hw_dir w' = hw_dir w \<Longrightarrow> safe_archive st cp (hw_dir (snd (m w')))" "safe_archive st cp (hw_dir w)"
  shows "safe_archive st cp (hw_dir (snd (withLock locked m w)))"
proof -
  note poll = poll_outcome
  show ?thesis
  proof (cases locked)
    case Lock_obtained
    have inner: "safe_archive st cp (hw_dir (snd (thn poll m v)))" if "hw_dir v = hw_dir w" for v
      using poll [of m v] assms that by (metis snd_conv)
    have "safe_archive st cp (hw_dir (snd (thn poll (thn poll m) w)))"
      using poll [of "thn poll m" w] inner assms(2) by (metis snd_conv)
    with Lock_obtained show ?thesis by (simp add: withLock_def)
  next
    case Lock_refused
    then show ?thesis using assms(2) by (simp add: withLock_def poll_fail)
  next
    case Lock_waited_out
    then show ?thesis using assms(2) by (simp add: withLock_def poll_fail)
  qed
qed

lemma safe_recovered:
  assumes "\<And>v. settled_archive st cp (hw_dir v) \<Longrightarrow> safe_archive st cp (hw_dir (snd (bnd (ensureUsageLocked st) body v)))"
    "safe_archive st cp (hw_dir w)" "st_maxBytes st \<le> maxOperationHistoryStoreBytes"
  shows "safe_archive st cp (hw_dir (snd (bnd (ensureUsageLocked st) body w)))"
proof (cases "ensureUsageLocked st w")
  case (Pair result v)
  have ensured: "leads 5 (safe_archive st cp) (overfull st cp) (\<lambda>u d. settled_archive st cp d \<and> readUsage st d = Inr u)
      (ensureUsageLocked st) w" using assms(2,3) by (rule leads_ensureUsage)
  show ?thesis
  proof (cases result)
    case (Inl e)
    then show ?thesis using ensured Pair by (simp add: leads_def bnd_err)
  next
    case (Inr u)
    then have v: "settled_archive st cp (hw_dir v)" "readUsage st (hw_dir v) = Inr u" using ensured Pair by (auto simp: leads_def)
    then have "bnd (ensureUsageLocked st) body v = body u v" by (simp add: bnd_run [OF ensureUsage_settled])
    then show ?thesis using assms(1) [OF v(1)] Pair Inr by (simp add: bnd_run)
  qed
qed

lemma safe_locked:
  assumes "\<And>v. settled_archive st cp (hw_dir v) \<Longrightarrow> safe_archive st cp (hw_dir (snd (bnd (ensureUsageLocked st) body v)))"
    "safe_archive st cp (hw_dir w)" "st_maxBytes st \<le> maxOperationHistoryStoreBytes"
  shows "safe_archive st cp (hw_dir (snd (withLock locked (bnd (ensureUsageLocked st) body) w)))"
  using assms(2) by (intro safe_lock safe_recovered [OF assms(1) _ assms(3)]) simp_all

lemma meant_directory:
  assumes "settled_archive st cp d0" "hd_usage X = hd_usage d0" "hd_marker X" "\<not> present (hd_publication X)" "orderly st cp X"
    "u = tally st (us_CapacityBlockedCount u) cp X" "writable_usage st u" "st_maxBytes st \<le> maxOperationHistoryStoreBytes"
  shows "mendable st cp X" "settled_archive st cp (finished u X)"
    "hw_dir v = X \<Longrightarrow> ends_in st cp (finished u X) (finishMutationLocked u) v"
proof -
  show X: "mendable st cp X" using assms(1-5) by (intro mendableI) simp_all
  show "settled_archive st cp (finished u X)" using assms by (intro settled_finished)
  show "ends_in st cp (finished u X) (finishMutationLocked u) v" if "hw_dir v = X"
    using ends_finish [of st cp v u] that X assms by simp
qed

lemma settled_files:
  assumes "settled_archive st cp d" "readUsage st d = Inr u"
  shows "orderly st cp (d\<lparr>hd_marker := True\<rparr>)" "\<not> present (hd_publication d)"
    "u = tally st (us_CapacityBlockedCount u) cp (d\<lparr>hd_marker := True\<rparr>)" "writable_usage st u"
proof -
  show "orderly st cp (d\<lparr>hd_marker := True\<rparr>)" "\<not> present (hd_publication d)"
    using assms(1) by (simp_all add: settled_archive_def marked_orderly)
  show "u = tally st (us_CapacityBlockedCount u) cp (d\<lparr>hd_marker := True\<rparr>)" "writable_usage st u"
    unfolding marked_orderly using settled_usage [OF assms(1)] assms(2) by (metis sum.inject(2))+
qed

lemma safe_block:
  assumes "settled_archive st cp (hw_dir w)" "readUsage st (hw_dir w) = Inr u"
    "st_maxBytes st \<le> maxOperationHistoryStoreBytes"
  shows "safe_archive st cp (hw_dir (snd (recordCapacityBlockLocked u w)))"
proof -
  let ?u = "u\<lparr>us_CapacityBlockedCount := us_CapacityBlockedCount u + 1\<rparr>"
  let ?d = "(hw_dir w)\<lparr>hd_marker := True\<rparr>"
  note start = settled_files [OF assms(1,2)]
  have shift: "?u = tally st (us_CapacityBlockedCount ?u) cp ?d"
    by (subst (1) start(3)) simp
  show ?thesis
  proof (cases "us_CapacityBlockedCount u = 2 ^ 63 - 1")
    case True
    then show ?thesis using assms(1) by (simp add: recordCapacityBlockLocked_def safe_archive_def)
  next
    case False
    then have "writable_usage st ?u" using start(4) by (simp add: writable_usage_def)
    note meant = meant_directory [OF assms(1) _ _ _ start(1) shift this assms(3)]
    have "safe_archive st cp (hw_dir (snd (thn beginMutationLocked (finishMutationLocked ?u) w)))"
      by (rule safe_begin [OF assms(1), of "finished ?u ?d"]) (use meant start(2) in simp_all)
    then show ?thesis
      using False by (simp add: recordCapacityBlockLocked_def thn_run [OF attempt_run])
  qed
qed

lemma safe_refused:
  assumes "settled_archive st cp (hw_dir w)" "readUsage st (hw_dir w) = Inr u" "st_maxBytes st \<le> maxOperationHistoryStoreBytes"
  shows "safe_archive st cp (hw_dir (snd (thn (recordCapacityBlockLocked u) (fail e) w)))"
  using safe_block [OF assms] by (simp add: thn_def bnd_def split: prod.split sum.split) (metis snd_conv)

section \<open>Reserve\<close>

lemma safe_reserve_new:
  assumes settled: "settled_archive st cp (hw_dir w)" "readUsage st (hw_dir w) = Inr u"
    and room: "\<not> no_room st u i (hw_dir w)" and max: "st_maxBytes st \<le> maxOperationHistoryStoreBytes"
    and absent: "file_at (hd_records (hw_dir w)) k = Absent" "file_at (hd_reservations (hw_dir w)) k = Absent"
    and i: "validateOperationHistoryIdentity i" "decoded_identity i = i" "k = operationHistoryIdentityIDMust i"
    and now: "now \<noteq> 0"
  shows "safe_archive st cp (hw_dir (snd (reserve_new i k now random u w)))"
proof (cases "newOperationHistoryReservationToken random")
  case None
  then show ?thesis using settled(1) by (simp add: reserve_new_def safe_archive_def)
next
  case (Some token)
  let ?d = "(hw_dir w)\<lparr>hd_marker := True\<rparr>"
  let ?r = "reservation_file i k token now"
  let ?X = "set_reservation k ?r ?d"
  let ?u = "reserve_usage u"
  let ?body = "thn (or_unavailable (write_json (json_time_ok now) (set_reservation k ?r))) (finishMutationLocked ?u)"
  note start = settled_files [OF settled]
  have few: "us_ReservationCount u < maxOperationHistoryReservations"
    and bytes: "us_UsedBytes u + us_ReservedBytes u + int MaxOperationHistoryReservedBytes \<le> st_maxBytes st"
    using room by (auto simp: no_room_def operationHistoryPublicationHeadroom_def)
  have count: "us_ReservationCount u = int (length (hd_reservations (hw_dir w)))"
    by (subst start(3)) (simp add: tally_def Let_def)
  have body: "safe_archive st cp (hw_dir (snd (thn beginMutationLocked (bnd (attempt_action ?body) g) w)))"
    if g: "\<And>x w'. snd (g x w') = w'" for g :: "store_error + unit \<Rightarrow> (store_error option \<times> OperationHistoryReservation) action"
  proof (cases "json_time_ok now")
    case False
    show ?thesis
    proof (rule safe_begin [OF settled(1), of ?d])
      show "settled_archive st cp ?d \<or> mendable st cp ?d" using settled_marked [OF settled(1)] by simp
      fix w' :: history_world
      assume "hw_dir w' = ?d"
      then show "ends_in st cp ?d (bnd (attempt_action ?body) g) w'"
        by (intro ends_bnd ends_attempt g)
          (simp add: ends_in_def thn_err [of _ w' Os_error] write_json_def False thn_def bnd_def or_unavailable_def)
    qed
  next
    case True
    have absent': "file_at (hd_records ?d) k = Absent" "file_at (hd_reservations ?d) k = Absent"
      using absent by simp_all
    have room': "\<not> no_room st (tally st (us_CapacityBlockedCount u) cp ?d) i (hw_dir w)"
      using room start(3) by simp
    note new = new_reservation [OF start(1) absent' i(1,2) token_valid [OF Some] True now i(3) room']
    have exact: "?u = tally st (us_CapacityBlockedCount ?u) cp ?X"
      unfolding new(2) by (subst (1) start(3)) (simp add: reserve_usage_def)
    have "writable_usage st ?u" using start(4) few bytes by (simp add: writable_usage_def reserve_usage_def)
    note meant = meant_directory [OF settled(1) _ _ _ new(1) exact this max]
    show ?thesis
    proof (rule safe_begin [OF settled(1), of "finished ?u ?X"])
      fix w' :: history_world
      assume w': "hw_dir w' = ?d"
      show "ends_in st cp (finished ?u ?X) (bnd (attempt_action ?body) g) w'"
      proof (intro ends_bnd ends_attempt g)
        show "ends_in st cp (finished ?u ?X) ?body w'"
          unfolding write_json_def if_P [OF True]
          by (rule ends_change)
             (use w' meant start(2) settled_marked [OF settled(1)] in \<open>simp_all add: set_reservation_def\<close>)
      qed
    qed (use meant(2) start(2) in \<open>simp add: set_reservation_def\<close>)
  qed
  show ?thesis using Some body by (simp add: reserve_new_def)
qed

lemma safe_Reserve:
  assumes safe: "safe_archive st cp (hw_dir w)" and max: "st_maxBytes st \<le> maxOperationHistoryStoreBytes"
    and i: "decoded_identity i = i" and now: "now \<noteq> 0"
  shows "safe_archive st cp (hw_dir (snd (Reserve st locked i now random w)))"
proof (cases "validateOperationHistoryIdentity i")
  case False
  then show ?thesis using safe by (simp add: Reserve_def)
next
  case True
  let ?k = "operationHistoryIdentityIDMust i"
  have entry: "safe_archive st cp (hw_dir (snd (reserve_entry st i ?k now random v)))" if v: "settled_archive st cp (hw_dir v)" for v
  proof -
    obtain u where u: "readUsage st (hw_dir v) = Inr u" using v by (rule settled_usage)
    have "safe_archive st cp (hw_dir (snd (reserve_new i ?k now random u v)))"
      if "\<not> no_room st u i (hw_dir v)" "file_at (hd_records (hw_dir v)) ?k = Absent"
        "file_at (hd_reservations (hw_dir v)) ?k = Absent"
      using v u max that True i now by (intro safe_reserve_new) simp_all
    moreover have "safe_archive st cp (hw_dir v)" using v by (simp add: safe_archive_def)
    ultimately show ?thesis
      using safe_refused [OF v u max] ensureUsage_settled [OF v u]
      by (auto simp: reserve_entry_def bnd_run attempt_run record_present_def reservation_present_def present_def
        split: sum.split)
  qed
  have "safe_archive st cp (hw_dir (snd (withLock locked (reserve_entry st i ?k now random) w)))"
    using entry unfolding reserve_entry_def by (intro safe_locked safe max)
  then show ?thesis
    using True by (cases "withLock locked (reserve_entry st i ?k now random) w") (auto simp: Reserve_def split: sum.splits)
qed

section \<open>Cancel\<close>

lemma safe_cancel_locked:
  assumes settled: "settled_archive st cp (hw_dir w)" and max: "st_maxBytes st \<le> maxOperationHistoryStoreBytes"
  shows "safe_archive st cp (hw_dir (snd (cancel_locked st i token k w)))"
proof -
  obtain u where u: "readUsage st (hw_dir w) = Inr u" using settled by (rule settled_usage)
  have ready: "ensureUsageLocked st w = (Inr u, w)" using settled u by (rule ensureUsage_settled)
  have here: "safe_archive st cp (hw_dir w)" using settled by (simp add: safe_archive_def)
  note start = settled_files [OF settled u]
  show ?thesis
  proof (cases "readReservation k (hw_dir w)")
    case (Inl e)
    then show ?thesis using ready here by (simp add: cancel_locked_def bnd_run attempt_run record_present_def)
  next
    case (Inr r)
    let ?d = "(hw_dir w)\<lparr>hd_marker := True\<rparr>"
    let ?u = "release_usage r u"
    let ?X = "drop_reservation k ?d"
    have read: "readReservation k ?d = Inr r" using Inr readReservation_cong [of ?d k "hw_dir w"] by simp
    note dropped = drop_held [OF start(1) read]
    have exact: "?u = tally st (us_CapacityBlockedCount ?u) cp ?X"
      unfolding dropped(2) by (subst (1) start(3)) (simp add: release_usage_def)
    have "writable_usage st ?u"
      using start(4) held_reservation(2) [OF start(1) read] by (simp add: writable_usage_def release_usage_def)
    note meant = meant_directory [OF settled _ _ _ dropped(1) exact this max]
    have "safe_archive st cp (hw_dir (snd (thn beginMutationLocked (thn (remove_reservation k) (finishMutationLocked ?u)) w)))"
    proof (rule safe_begin [OF settled, of "finished ?u ?X"])
      fix v :: history_world
      assume v: "hw_dir v = ?d"
      have "present (file_at (hd_reservations ?d) k)" using read by (auto simp: readReservation_def read_file_def present_def)
      then show "ends_in st cp (finished ?u ?X) (thn (remove_reservation k) (finishMutationLocked ?u)) v"
        unfolding remove_reservation_def
        by (intro ends_remove)
           (use v meant start(2) settled_marked [OF settled] in \<open>simp_all add: drop_reservation_def\<close>)
    qed (use meant(2) start(2) in \<open>simp add: drop_reservation_def\<close>)
    then show ?thesis using Inr ready here by (simp add: cancel_locked_def bnd_run attempt_run)
  qed
qed

lemma safe_Cancel:
  assumes "safe_archive st cp (hw_dir w)" "st_maxBytes st \<le> maxOperationHistoryStoreBytes"
  shows "safe_archive st cp (hw_dir (snd (CancelReservation st locked i token w)))"
proof -
  have "safe_archive st cp (hw_dir (snd (withLock locked (cancel_locked st i token k) w)))" for k
    using safe_cancel_locked [OF _ assms(2), unfolded cancel_locked_def] unfolding cancel_locked_def
    by (intro safe_locked assms)
  then show ?thesis using assms(1) by (simp add: CancelReservation_def)
qed

section \<open>Append\<close>

lemma ends_append:
  assumes settled: "settled_archive st cp d" "readUsage st d = Inr u" and max: "st_maxBytes st \<le> maxOperationHistoryStoreBytes"
    and ready: "append_ready st cp d evidence k s i" and held: "readReservation k d = Inr r"
    and w: "hw_dir w = d\<lparr>hd_marker := True\<rparr>"
  shows "ends_in st cp (append_result k r u s i d)
    (thn (or_unavailable (change (set_record k s))) (thn (or_unavailable (change (set_sequence (sd_Sequence s) i)))
      (thn (remove_reservation k) (thn (finishMutationLocked (append_usage (append_charge s i) r u)) (durable_ref evidence now))))) w"
proof -
  let ?base = "d\<lparr>hd_marker := True\<rparr>"
  let ?full = "set_sequence (sd_Sequence s) i (set_record k s ?base)"
  let ?X = "appended k s i ?base"
  let ?u = "append_usage (append_charge s i) r u"
  let ?tail = "thn (finishMutationLocked ?u) (durable_ref evidence now)"
  note start = settled_files [OF settled]
  have base: "append_ready st cp ?base evidence k s i" "readReservation k ?base = Inr r"
    using ready held readReservation_cong [of ?base k d] by (simp_all add: ready_marked)
  have half: "half_appended st cp (set_record k s ?base)" "half_appended st cp ?full"
    using start(1) base by (auto intro!: half_appendedI)
  have mid: "mendable st cp ?base" "mendable st cp (set_record k s ?base)" "mendable st cp ?full"
    using settled_marked [OF settled(1)] half start(2)
    by (auto intro!: mendableI [OF settled(1)] simp: set_sequence_def set_record_def)
  note files = appended_files [OF start(1) base]
  have exact: "?u = tally st (us_CapacityBlockedCount ?u) cp ?X"
    unfolding appended_tally [OF start(1) base] by (subst (1) start(3)) (simp add: append_usage_def)
  have "append_charge s i \<le> int MaxOperationHistoryReservedBytes" using ready by (simp add: append_ready_def)
  then have "writable_usage st ?u"
    using start(4) held_reservation(2) [OF start(1) base(2)] by (simp add: writable_usage_def append_usage_def)
  note meant = meant_directory [OF settled(1) _ _ _ appended_orderly [OF start(1) base] exact this max]
  have usage: "hd_usage ?X = hd_usage d" by (simp add: appended_def drop_reservation_def set_sequence_def set_record_def)
  have X: "mendable st cp ?X" "append_result k r u s i d = finished ?u ?X"
    using meant(1) usage files(7,8) start(2) by (simp_all add: append_result_def)
  have last: "ends_in st cp (append_result k r u s i d) ?tail v" if "hw_dir v = ?X" for v
    unfolding X(2) using meant(3) [of v] usage files(7,8) start(2) that by (intro ends_thn) (simp_all add: durable_ref_def)
  have third: "ends_in st cp (append_result k r u s i d) (thn (remove_reservation k) ?tail) v" if v: "hw_dir v = ?full" for v
    unfolding remove_reservation_def
  proof (rule ends_remove)
    have "present (file_at (hd_reservations d) k)" using held by (auto simp: readReservation_def read_file_def present_def)
    then show "present (file_at (hd_reservations (hw_dir v)) k)" by (simp add: v set_sequence_def set_record_def)
    show "mendable st cp (drop_reservation k (hw_dir v))" using X(1) by (simp add: v appended_def)
    fix v' :: history_world
    assume "hw_dir v' = drop_reservation k (hw_dir v)"
    then show "ends_in st cp (append_result k r u s i d) ?tail v'" by (intro last) (simp add: v appended_def)
  qed (simp add: v mid)
  have second: "ends_in st cp (append_result k r u s i d)
      (thn (or_unavailable (change (set_sequence (sd_Sequence s) i))) (thn (remove_reservation k) ?tail)) v"
    if v: "hw_dir v = set_record k s ?base" for v
    by (rule ends_change) (use v mid third in simp_all)
  show ?thesis by (rule ends_change) (use w mid second in simp_all)
qed

lemma safe_append_new:
  assumes settled: "settled_archive st cp (hw_dir w)" "readUsage st (hw_dir w) = Inr u"
    and max: "st_maxBytes st \<le> maxOperationHistoryStoreBytes"
    and evidence: "validateOperationHistoryRecord evidence" "st_validator st (decoded_record evidence) = Some evidence"
    and k: "k = operationHistoryIdentityIDMust (hr_Identity evidence)"
    and index: "readOperationIndex (hr_Identity evidence) (hw_dir w) = Inr found"
      "\<not> overtaken (hi_Generation (hr_Identity evidence)) found"
  shows "safe_archive st cp (hw_dir (snd (append_new token evidence k (hr_sealedRecordSHA256 evidence) now u w)))"
proof -
  have here: "safe_archive st cp (hw_dir w)" using settled(1) by (simp add: safe_archive_def)
  note block = safe_refused [OF settled max]
  have u: "u = tally st (us_CapacityBlockedCount u) cp (hw_dir w)"
    using settled_usage [OF settled(1)] settled(2) by (metis sum.inject(2))
  have next_seq: "us_NextSequence u = next_number cp (hw_dir w)" by (subst u) (rule tally_next)
  show ?thesis
  proof (cases "readReservation k (hw_dir w)")
    case (Inl e)
    then show ?thesis using here by (simp add: append_new_def bnd_run [OF attempt_run])
  next
    case (Inr r)
    show ?thesis
    proof (cases "\<not> holds_reservation token (hr_Identity evidence) r \<or> us_NextSequence u = 0 \<or> us_NextSequence u = - 1 \<or>
        \<not> json_time_ok now")
      case True
      then show ?thesis using here block Inr by (auto simp: append_new_def bnd_run [OF attempt_run])
    next
      case False
      let ?s = "stored_of evidence (hr_sealedRecordSHA256 evidence) (us_NextSequence u) now"
      let ?new = "newOperationHistoryPendingSequenceIndex (us_NextSequence u) k (hr_sealedRecordSHA256 evidence)
        (record_length evidence) now"
      show ?thesis
      proof (cases ?new)
        case (Inl e)
        then show ?thesis
          using False Inr here by (auto simp: append_new_def bnd_run [OF attempt_run] lift_error_def)
      next
        case new: (Inr i)
        have writing: "append_new token evidence k (hr_sealedRecordSHA256 evidence) now u w = append_write evidence k r u ?s i w"
          using False Inr new by (auto simp: append_new_def bnd_run [OF attempt_run] lift_error_def)
        show ?thesis
        proof (cases "append_charge ?s i > rs_ReservedBytes r \<or> append_charge ?s i > int MaxOperationHistoryReservedBytes \<or>
            us_RecordCount u \<ge> maxOperationHistoryPendingRecords")
          case True
          then show ?thesis using here block by (auto simp: writing append_write_def)
        next
          case small: False
          have "us_RecordCount (tally st 0 cp (hw_dir w)) = us_RecordCount u" by (subst u) (simp add: tally_def Let_def)
          then have ready: "append_ready st cp (hw_dir w) evidence k ?s i"
            using evidence k False new small index next_seq by (simp add: append_ready_def stored_of_def)
          have "settled_archive st cp (append_result k r u ?s i (hw_dir w))"
            using settled max Inr ready by (intro append_result_settled)
          then show ?thesis
            using small ends_append [OF settled max ready Inr] unfolding writing append_write_def
            by (auto intro!: safe_begin [OF settled(1), of "append_result k r u ?s i (hw_dir w)"])
        qed
      qed
    qed
  qed
qed

lemma safe_append_locked:
  assumes settled: "settled_archive st cp (hw_dir w)" and max: "st_maxBytes st \<le> maxOperationHistoryStoreBytes"
    and validator: "st_validator st (decoded_record evidence) = Some evidence" and valid: "validateOperationHistoryRecord evidence"
  shows "safe_archive st cp (hw_dir (snd (append_locked st token evidence (operationHistoryIdentityIDMust (hr_Identity evidence))
    (hr_sealedRecordSHA256 evidence) now w)))"
proof -
  let ?i = "hr_Identity evidence"
  let ?k = "operationHistoryIdentityIDMust ?i"
  let ?sha = "hr_sealedRecordSHA256 evidence"
  obtain u where u: "readUsage st (hw_dir w) = Inr u" using settled by (rule settled_usage)
  have ready: "ensureUsageLocked st w = (Inr u, w)" using settled u by (rule ensureUsage_settled)
  have here: "safe_archive st cp (hw_dir w)" using settled by (simp add: safe_archive_def)
  have fresh: "safe_archive st cp (hw_dir (snd (append_new token evidence ?k ?sha now u w)))"
    if "readOperationIndex ?i (hw_dir w) = Inr found" "\<not> overtaken (hi_Generation ?i) found" for found
    using settled u max valid validator that by (intro safe_append_new) simp_all
  show ?thesis
  proof (cases "file_at (hd_records (hw_dir w)) ?k = Absent")
    case True
    then have "append_locked st token evidence ?k ?sha now w =
        bnd (look (readOperationIndex ?i)) (\<lambda>published. case published of
           None \<Rightarrow> append_new token evidence ?k ?sha now u
         | Some x \<Rightarrow>
             (if ox_Identity x = ?i \<and> ox_RecordSHA x = ?sha then durable_ref evidence (ox_AppendedAt x)
              else if ox_Identity x = ?i then fail conflict
              else if hi_Generation (ox_Identity x) \<ge> hi_Generation ?i then fail stale
              else append_new token evidence ?k ?sha now u)) w"
      using ready by (simp add: append_locked_def bnd_run record_present_def present_def)
    then show ?thesis
      using here fresh
      by (cases "readOperationIndex ?i (hw_dir w)") (auto simp: overtaken_def durable_ref_def split: option.split)
  next
    case False
    then have "file_at (hd_reservations (hw_dir w)) ?k = Absent"
      using recorded_unreserved settled unfolding settled_archive_def by blast
    then show ?thesis
      using False ready here
      by (simp add: append_locked_def bnd_run record_present_def present_def append_again_def reservation_present_def
        durable_ref_def split: sum.split)
  qed
qed

lemma safe_Append:
  assumes "safe_archive st cp (hw_dir w)" "st_maxBytes st \<le> maxOperationHistoryStoreBytes"
    "st_validator st (decoded_record evidence) = Some evidence"
  shows "safe_archive st cp (hw_dir (snd (AppendValidated st locked token evidence now w)))"
proof (cases "validateOperationHistoryRecord evidence \<and> reservation_Matches token (hr_Identity evidence)")
  case False
  then show ?thesis using assms(1) by (auto simp: AppendValidated_def)
next
  case True
  have "safe_archive st cp (hw_dir (snd (withLock locked (append_locked st token evidence
      (operationHistoryIdentityIDMust (hr_Identity evidence)) (hr_sealedRecordSHA256 evidence) now) w)))"
    using safe_append_locked [OF _ assms(2,3), unfolded append_locked_def] True unfolding append_locked_def
    by (intro safe_locked assms(1,2)) simp
  then show ?thesis using True by (simp add: AppendValidated_def)
qed

lemma safe_Usage:
  assumes "safe_archive st cp (hw_dir w)" "st_maxBytes st \<le> maxOperationHistoryStoreBytes"
  shows "safe_archive st cp (hw_dir (snd (Usage st locked w)))"
  unfolding Usage_def
proof (rule safe_locked [OF _ assms])
  fix v :: history_world
  assume v: "settled_archive st cp (hw_dir v)"
  then obtain u where "readUsage st (hw_dir v) = Inr u" by (rule settled_usage)
  then show "safe_archive st cp (hw_dir (snd (bnd (ensureUsageLocked st) (\<lambda>u. ret (publicOperationHistoryUsage u)) v)))"
    using v ensureUsage_settled [OF v] by (simp add: bnd_run safe_archive_def)
qed

section \<open>Freezing a batch\<close>

lemma safe_freeze:
  assumes settled: "settled_archive st cp (hw_dir w)" and max: "st_maxBytes st \<le> maxOperationHistoryStoreBytes"
    and items: "frozen_prefix (hw_dir w) (ck_Sequence cp) 0 items" "items \<noteq> []"
      "length items \<le> length (hd_records (hw_dir w))"
    and p: "pd_Records p = operationHistoryBatchRefs items"
  shows "safe_archive st cp (hw_dir (snd (writePendingBatchDescriptorLocked st p w)))"
proof -
  let ?charge = "fileCharge (int (descriptor_length p))"
  have here: "safe_archive st cp (hw_dir w)" using settled by (simp add: safe_archive_def)
  obtain u where u: "readUsage st (hw_dir w) = Inr u" using settled by (rule settled_usage)
  note block = safe_refused [OF settled u max]
  show ?thesis
  proof (cases "validateOperationHistoryPendingBatchDescriptor p \<and> readPendingBatchDescriptor (hw_dir w) = Inr None \<and>
      int (descriptor_length p) + operationHistoryFileCharge \<le> maxOperationHistoryPendingBatchDescriptorFile \<and>
      us_UsedBytes u + us_ReservedBytes u + ?charge + operationHistoryPublicationTailroom \<le> st_maxBytes st")
    case False
    then show ?thesis
      using here block u
      by (cases "readPendingBatchDescriptor (hw_dir w)") (auto simp: writePendingBatchDescriptorLocked_def Let_def)
  next
    case True
    let ?d = "(hw_dir w)\<lparr>hd_marker := True\<rparr>"
    let ?u = "use_bytes ?charge u"
    have "orderly st cp (frozen p ?d)" "?u = tally st (us_CapacityBlockedCount ?u) cp (frozen p ?d)" "writable_usage st ?u"
      using frozen_result [OF settled u items p] True no_descriptor [of "hw_dir w"] tail_positive by auto
    note meant = meant_directory [OF settled _ _ _ this max]
    have X: "mendable st cp (frozen p ?d)" using meant(1) settled_files(2) [OF settled u] by (simp add: frozen_files)
    have "safe_archive st cp (hw_dir (snd (thn beginMutationLocked
        (thn (or_unavailable (change (\<lambda>d. d\<lparr>hd_descriptor := Doc p\<rparr>))) (finishMutationLocked ?u)) w)))"
    proof (rule safe_begin [OF settled, of "finished ?u (frozen p ?d)"])
      fix v :: history_world
      assume v: "hw_dir v = ?d"
      show "ends_in st cp (finished ?u (frozen p ?d)) (thn (or_unavailable (change (\<lambda>d. d\<lparr>hd_descriptor := Doc p\<rparr>)))
          (finishMutationLocked ?u)) v"
        by (rule ends_change)
           (use v X meant(3) settled_files(2) [OF settled u] settled_marked [OF settled] in \<open>simp_all add: frozen_def\<close>)
    qed (use meant(2) settled_files(2) [OF settled u] in \<open>simp add: frozen_files\<close>)
    then show ?thesis
      using True u here by (simp add: writePendingBatchDescriptorLocked_def Let_def)
  qed
qed

lemma safe_pending_batch:
  assumes settled: "settled_archive st cp (hw_dir w)" and max: "st_maxBytes st \<le> maxOperationHistoryStoreBytes"
    and validator: "keeps_identity st"
  shows "safe_archive st cp (hw_dir (snd (pendingOperationHistoryBatchLocked st w)))"
proof -
  let ?d = "hw_dir w"
  have here: "safe_archive st cp ?d" using settled by (simp add: safe_archive_def)
  obtain u where u: "readUsage st ?d = Inr u" "u = tally st (us_CapacityBlockedCount u) cp ?d"
    using settled by (rule settled_usage)
  have cp: "readCheckpoint ?d = Inr cp" using settled by (simp add: settled_archive_def orderly_def)
  have "us_RecordCount (tally st b cp ?d) = int (length (hd_records ?d))" for b by (simp add: tally_def Let_def)
  then have count: "us_RecordCount u = int (length (hd_records ?d))" using u(2) by metis
  show ?thesis
  proof (cases "readPendingBatchDescriptor ?d = Inr None \<and> us_RecordCount u \<noteq> 0")
    case False
    then show ?thesis
      using here u(1) cp untouched_run [OF load_untouched, of st cp _ w]
      by (cases "readPendingBatchDescriptor ?d") (auto simp: pendingOperationHistoryBatchLocked_def split: option.split)
  next
    case True
    let ?n = "min (nat (us_RecordCount u)) MaxOperationHistoryBatchRecords"
    let ?freeze = "\<lambda>items. if items = [] then ret empty_batch
      else thn (writePendingBatchDescriptorLocked st (newOperationHistoryPendingBatchDescriptor (digested_batch items)))
        (ret (digested_batch items))"
    have run: "pendingOperationHistoryBatchLocked st w = bnd (select_records st ?n (ck_Sequence cp + 1) 0 []) ?freeze w"
      using True u(1) cp by (simp add: pendingOperationHistoryBatchLocked_def)
    show ?thesis
    proof (cases "select_records st ?n (ck_Sequence cp + 1) 0 [] w")
      case (Pair result w')
      have w': "hw_dir w' = ?d" using untouched_run [OF select_untouched, of st ?n "ck_Sequence cp + 1" 0 "[]" w] Pair by simp
      show ?thesis
      proof (cases result)
        case (Inl e)
        then show ?thesis using run Pair w' here by (simp add: bnd_err)
      next
        case (Inr items)
        have items: "length items \<le> ?n" "frozen_prefix ?d (ck_Sequence cp) 0 items"
          using select_records_run [OF validator, of ?n "ck_Sequence cp" 0 "[]" w items w'] Pair Inr by auto
        have "safe_archive st cp (hw_dir (snd (?freeze items w')))"
        proof (cases "items = []")
          case False
          have "pd_Records (newOperationHistoryPendingBatchDescriptor (digested_batch items)) = operationHistoryBatchRefs items"
            by (simp add: newOperationHistoryPendingBatchDescriptor_def digested_batch_def Let_def split: prod.split)
          then have "safe_archive st cp (hw_dir (snd (writePendingBatchDescriptorLocked st
              (newOperationHistoryPendingBatchDescriptor (digested_batch items)) w')))"
            using settled max items False count w' by (intro safe_freeze) simp_all
          then show ?thesis using False by (auto simp: thn_def bnd_def split: prod.split sum.split)
        qed (use w' here in simp)
        then show ?thesis using run Pair Inr by (simp add: bnd_run)
      qed
    qed
  qed
qed

lemma safe_Pending:
  assumes "safe_archive st cp (hw_dir w)" "st_maxBytes st \<le> maxOperationHistoryStoreBytes" "keeps_identity st"
  shows "safe_archive st cp (hw_dir (snd (PendingOperationHistoryBatch st locked w)))"
  unfolding PendingOperationHistoryBatch_def thn_def
proof (rule safe_locked [OF _ assms(1,2)])
  fix v :: history_world
  assume v: "settled_archive st cp (hw_dir v)"
  then obtain u where "readUsage st (hw_dir v) = Inr u" by (rule settled_usage)
  then show "safe_archive st cp (hw_dir (snd (bnd (ensureUsageLocked st) (\<lambda>_. pendingOperationHistoryBatchLocked st) v)))"
    using v ensureUsage_settled [OF v] assms(2,3) by (simp add: bnd_run safe_pending_batch)
qed

section \<open>Runs\<close>

text \<open>
  The operations other than an acknowledgement, for names that are written in UTF-8 and records that
  the validator seals as they are.
\<close>

definition ordinary :: "OperationHistoryStore \<Rightarrow> archive_op \<Rightarrow> bool" where
  "ordinary st operation = (case operation of
     Reserve_op i now random \<Rightarrow> decoded_identity i = i \<and> now \<noteq> 0
   | Append_op token evidence now \<Rightarrow> st_validator st (decoded_record evidence) = Some evidence
   | Acknowledge_op b confirmation \<Rightarrow> False
   | _ \<Rightarrow> True)"

lemma safe_call:
  assumes "safe_archive st cp d" "st_maxBytes st \<le> maxOperationHistoryStoreBytes" "keeps_identity st" "ordinary st (ac_op c)"
  shows "safe_archive st cp (run_call st c d)"
proof -
  let ?w = "call_world c d"
  have start: "safe_archive st cp (hw_dir ?w)" using assms(1) by (simp add: call_world_def)
  have rebuild: "safe_archive st cp (hw_dir (snd (rebuildUsageLocked st v)))" if "hw_dir v = d" for v
    using leads_rebuild [of st cp v] assms(1,2) that
    by (auto simp: leads_def safe_archive_def split: prod.splits sum.splits)
  have reopen: "safe_archive st cp (hw_dir (snd (withLock (ac_lock c) (rebuildUsageLocked st) ?w)))"
    using start by (intro safe_lock rebuild) (simp_all add: call_world_def)
  show ?thesis
  proof (cases "ac_op c")
    case (Reserve_op i now random)
    then show ?thesis using safe_Reserve [OF start assms(2)] assms(4) by (simp add: run_call_def Let_def ordinary_def)
  next
    case (Append_op token evidence now)
    then show ?thesis using safe_Append [OF start assms(2)] assms(4) by (simp add: run_call_def Let_def ordinary_def)
  next
    case (Acknowledge_op b confirmation)
    then show ?thesis using assms(4) by (simp add: ordinary_def)
  qed (use safe_Cancel [OF start assms(2)] safe_Usage [OF start assms(2)] safe_Pending [OF start assms(2,3)] reopen in
    \<open>simp_all add: run_call_def Let_def\<close>)
qed

lemma safe_run:
  assumes "st_maxBytes st \<le> maxOperationHistoryStoreBytes" "keeps_identity st"
  shows "safe_archive st cp d \<Longrightarrow> list_all (\<lambda>c. ordinary st (ac_op c)) calls \<Longrightarrow> safe_archive st cp (run_archive st calls d)"
proof (induction calls arbitrary: d)
  case Nil
  then show ?case by (simp add: run_archive_def)
next
  case (Cons c calls)
  then show ?case using safe_call [OF Cons.prems(1) assms] by (simp add: run_archive_def)
qed

end
