(* ===== verification/Operation_Attempt_Properties.thy ===== *)
theory Operation_Attempt_Properties
  imports Operation_Attempt_Samples
begin

text \<open>
  The properties of the attempt store: its files refine an abstract history of phases, a claim
  takes effect at most once, attempts keep their distance, readers can read what is stored, and
  what the bound on the size of a file means for an operation that is observed for long.
\<close>

section \<open>The abstract history\<close>

datatype phase =
    Claimed
  | Lost
  | Deferred
  | Blocked
  | Requested
  | Waiting
  | Pending "64 word"
  | Acknowledged
  | Verified
  | Archived

definition phase_of :: "OperationStoredAttempt \<Rightarrow> phase" where
  "phase_of a =
     (if oa_State a = ''claimed'' then Claimed
      else if oa_State a = ''unknown'' then Lost
      else if oa_State a = ''deferred'' then Deferred
      else if oa_State a = ''failed'' then Blocked
      else if oa_State a = ''request_started'' then Requested
      else if oa_DeliveryState a = ''pending'' then Pending (oa_DeliveryGeneration a)
      else if oa_DeliveryState a = ''acknowledged'' then Acknowledged
      else if oa_DeliveryState a = ''readback_verified'' then Verified
      else if oa_DeliveryState a = ''not_applicable'' then Archived
      else Waiting)"

type_synonym attempt_history = "(64 word \<times> phase) list"

definition history_of_state :: "operationAttemptState \<Rightarrow> attempt_history" where
  "history_of_state st = List.map (\<lambda>a. (oa_Generation a, phase_of a)) (os_Attempts st)"

definition attempt_history :: "attempt_dir \<Rightarrow> string \<Rightarrow> attempt_history" where
  "attempt_history d path = (case d path of Doc st \<Rightarrow> history_of_state st | _ \<Rightarrow> [])"

definition outstanding :: "phase \<Rightarrow> bool" where
  "outstanding p \<longleftrightarrow> (case p of Waiting \<Rightarrow> True | Pending _ \<Rightarrow> True | Acknowledged \<Rightarrow> True | _ \<Rightarrow> False)"

inductive delivers_to :: "phase \<Rightarrow> phase \<Rightarrow> bool" where
  "delivers_to Waiting (Pending n)"
| "delivers_to (Pending n) (Pending (n + 1))"
| "delivers_to (Pending n) Acknowledged"
| "delivers_to Acknowledged Verified"

text \<open>
  A new claim has a larger generation than every attempt kept, follows no open claim and drops
  at most the oldest attempt of a full history, never one whose outcome is lost or whose
  observation is still outstanding.  Only the last attempt can be an open claim; it ends once.
  A delivery is claimed only when no earlier observation is outstanding.
\<close>

inductive history_step :: "attempt_history \<Rightarrow> attempt_history \<Rightarrow> bool" where
  claimed: "xs = [] \<or> snd (last xs) \<noteq> Claimed \<Longrightarrow> \<forall>x \<in> set xs. fst x < g \<Longrightarrow>
    kept = xs \<and> length xs < maxOperationAttemptHistory \<or>
    length xs = maxOperationAttemptHistory \<and> kept = tl xs \<and> snd (hd xs) \<noteq> Lost \<and> \<not> outstanding (snd (hd xs)) \<Longrightarrow>
    history_step xs (kept @ [(g, Claimed)])"
| closed: "p \<in> {Lost, Deferred, Blocked, Requested, Waiting, Archived} \<Longrightarrow>
    history_step (xs @ [(g, Claimed)]) (xs @ [(g, p)])"
| delivered: "i < length xs \<Longrightarrow> delivers_to (snd (xs ! i)) p \<Longrightarrow>
    (p \<noteq> Acknowledged \<and> p \<noteq> Verified \<longrightarrow> \<not> list_ex (\<lambda>x. outstanding (snd x)) (take i xs)) \<Longrightarrow>
    history_step xs (xs[i := (fst (xs ! i), p)])"

lemma phase_of_stored [simp]: "phase_of (stored_attempt a) = phase_of a"
  by (simp add: phase_of_def)

lemma history_stored [simp]: "history_of_state (stored_state st) = history_of_state st"
  by (simp add: history_of_state_def stored_state_attempts)

lemma phase_Claimed [simp]: "phase_of a = Claimed \<longleftrightarrow> oa_State a = ''claimed''"
  by (simp add: phase_of_def)

lemma outstanding_phase:
  assumes "validOperationAttemptStateName (oa_State a)" "validOperationDeliveryState (oa_DeliveryState a)"
  shows "outstanding (phase_of a) \<longleftrightarrow> oa_State a = ''observed'' \<and> oa_DeliveryState a \<noteq> ''readback_verified'' \<and>
    oa_DeliveryState a \<noteq> ''not_applicable''"
  using assms by (auto simp: outstanding_def phase_of_def validOperationAttemptStateName_def validOperationDeliveryState_def)

lemma valid_attempt_ok:
  assumes "validOperationAttemptState st s oid" "a \<in> set (os_Attempts st)"
  shows "attempt_ok st s oid a"
  using attempts_okD(1) [OF valid_attempts(1) [OF assms(1)] assms(2)] .

lemma undelivered_outstanding:
  assumes "attempt_ok st s oid a"
  shows "undelivered a \<longleftrightarrow> outstanding (phase_of a)"
proof -
  have "oa_State a = ''observed'' \<Longrightarrow> oa_Result a \<noteq> None"
    using assms by (auto simp: attempt_ok_def attempt_state_ok_def split: option.splits)
  then show ?thesis using assms outstanding_phase by (auto simp: undelivered_def attempt_ok_def)
qed

lemma valid_generations:
  assumes "validOperationAttemptState st s oid"
  shows "sorted_wrt (<) (List.map oa_Generation (os_Attempts st))"
  using valid_attempts(1) [OF assms] by (simp add: attempts_ok_iff)

lemma history_update:
  assumes "i < length (os_Attempts st)" "os_Attempts st' = (os_Attempts st)[i := a]"
    "oa_Generation a = oa_Generation (os_Attempts st ! i)"
  shows "history_of_state st' = (history_of_state st)[i := (fst (history_of_state st ! i), phase_of a)]"
  using assms by (simp add: history_of_state_def map_update)

lemma history_ended:
  assumes "ended a a'" "attempt_ok st s oid a'" "attempt_state_ok a"
  shows "phase_of a' \<in> {Lost, Deferred, Blocked, Requested, Waiting, Archived}"
  using assms by (auto simp: ended_def attempt_ok_def validOperationAttemptStateName_def phase_of_def attempt_state_ok_def)

lemma delivery_phase:
  assumes "delivery_step a a'" "attempt_ok st s oid a" "attempt_ok st' s' oid' a'"
  shows "delivers_to (phase_of a) (phase_of a') \<and> (oa_DeliveryState a' = ''pending'' \<longleftrightarrow> (\<exists>n. phase_of a' = Pending n))"
  using assms(1)
proof (cases rule: delivery_step.cases)
  case (claim now)
  then have s: "oa_State a = ''observed''" "oa_DeliveryState a \<in> {''not_ready'', ''pending''}"
    using assms(2) by (auto simp: delivery_refused_def attempt_ok_def validOperationDeliveryState_def)
  then show ?thesis using claim(1) by (auto simp: phase_of_def delivery_claimed_def intro: delivers_to.intros)
next
  case (acknowledge at)
  then have "oa_State a = ''observed''" using assms(2) by (auto simp: attempt_ok_def attempt_delivery_ok_def)
  then show ?thesis using acknowledge by (auto simp: phase_of_def intro: delivers_to.intros)
next
  case (readback at r)
  then have "oa_State a = ''observed''" using assms(2) by (auto simp: attempt_ok_def attempt_delivery_ok_def)
  then show ?thesis using readback by (auto simp: phase_of_def intro: delivers_to.intros)
qed

lemma next_generation_above:
  assumes "(g :: 64 word) \<le> n" "n + 1 \<noteq> 0"
  shows "g < n + 1"
  using assms by (simp add: word_less_nat_alt word_le_nat_alt unatSuc add.commute)

lemma edit_begin_history:
  assumes "begin_decide b attemptID now lease st = Begin st' c" "writable st'"
    and "os_Attempts st = [] \<or> file_inv st"
  shows "history_step (history_of_state st) (history_of_state st')"
proof -
  note bd = begin_decide_Begin [OF assms(1)]
  have v: "os_Attempts st \<noteq> [] \<Longrightarrow> validOperationAttemptState st (os_SourceID st) (os_OperationID st)"
    using assms(3) by (auto simp: file_inv_def)
  have ok: "a \<in> set (os_Attempts st) \<Longrightarrow> attempt_ok st (os_SourceID st) (os_OperationID st) a" for a
    using valid_attempt_ok v by (metis empty_iff empty_set)
  obtain kept where kept: "os_Attempts st' = kept @ [claimed_attempt b attemptID (os_Generation st + 1) now (now + lease)]"
    "kept = os_Attempts st \<and> length (os_Attempts st) < maxOperationAttemptHistory \<or>
       maxOperationAttemptHistory \<le> length (os_Attempts st) \<and>
       kept = drop (length (os_Attempts st) - maxOperationAttemptHistory + 1) (os_Attempts st) \<and>
       oa_State (hd (os_Attempts st)) \<noteq> ''unknown'' \<and>
       (oa_State (hd (os_Attempts st)) = ''observed'' \<longrightarrow> oa_DeliveryState (hd (os_Attempts st)) = ''readback_verified'' \<or>
        oa_DeliveryState (hd (os_Attempts st)) = ''not_applicable'')"
    using bd(2) by blast
  let ?h = "\<lambda>as. List.map (\<lambda>a. (oa_Generation a, phase_of a)) as"
  have "os_Generation st + 1 \<noteq> 0" using assms(2) bd(3) by (simp add: writable_def validOperationAttemptState_def)
  then have gens: "\<forall>x \<in> set (history_of_state st). fst x < os_Generation st + 1"
    using ok next_generation_above by (auto simp: history_of_state_def attempt_ok_def)
  have open_claim: "history_of_state st = [] \<or> snd (last (history_of_state st)) \<noteq> Claimed"
    using bd(1) by (auto simp: history_of_state_def last_map)
  have "?h kept = history_of_state st \<and> length (history_of_state st) < maxOperationAttemptHistory \<or>
    length (history_of_state st) = maxOperationAttemptHistory \<and> ?h kept = tl (history_of_state st) \<and>
    snd (hd (history_of_state st)) \<noteq> Lost \<and> \<not> outstanding (snd (hd (history_of_state st)))"
    using kept(2)
  proof
    assume "kept = os_Attempts st \<and> length (os_Attempts st) < maxOperationAttemptHistory"
    then show ?thesis by (simp add: history_of_state_def)
  next
    assume k: "maxOperationAttemptHistory \<le> length (os_Attempts st) \<and>
       kept = drop (length (os_Attempts st) - maxOperationAttemptHistory + 1) (os_Attempts st) \<and>
       oa_State (hd (os_Attempts st)) \<noteq> ''unknown'' \<and>
       (oa_State (hd (os_Attempts st)) = ''observed'' \<longrightarrow> oa_DeliveryState (hd (os_Attempts st)) = ''readback_verified'' \<or>
        oa_DeliveryState (hd (os_Attempts st)) = ''not_applicable'')"
    then have ne: "os_Attempts st \<noteq> []" by (auto simp: maxOperationAttemptHistory_def)
    then have len: "length (os_Attempts st) = maxOperationAttemptHistory" using k valid_attempts(3) [OF v] by simp
    have h: "attempt_ok st (os_SourceID st) (os_OperationID st) (hd (os_Attempts st))" using ok ne by simp
    have "\<not> outstanding (phase_of (hd (os_Attempts st)))"
      using k h outstanding_phase [of "hd (os_Attempts st)"] by (auto simp: attempt_ok_def)
    moreover have "phase_of (hd (os_Attempts st)) \<noteq> Lost" using k by (auto simp: phase_of_def)
    ultimately show ?thesis
      using k len ne by (simp add: history_of_state_def drop_Suc hd_map map_tl)
  qed
  from history_step.claimed [OF open_claim gens this] show ?thesis
    using kept(1) by (simp add: history_of_state_def claimed_attempt_def phase_of_def)
qed

lemma history_nth:
  assumes "i < length (os_Attempts st)"
  shows "history_of_state st ! i = (oa_Generation (os_Attempts st ! i), phase_of (os_Attempts st ! i))"
  using assms by (simp add: history_of_state_def)

lemma edit_closed_history:
  assumes "ended (last (os_Attempts st)) a" "os_Attempts st \<noteq> []" "os_Attempts st' = butlast (os_Attempts st) @ [a]"
    and "attempt_ok st'' s oid a" "attempt_state_ok (last (os_Attempts st))"
  shows "history_step (history_of_state st) (history_of_state st')"
proof -
  let ?h = "List.map (\<lambda>a. (oa_Generation a, phase_of a)) (butlast (os_Attempts st))"
  let ?g = "oa_Generation (last (os_Attempts st))"
  have "phase_of (last (os_Attempts st)) = Claimed" using assms(1) by (simp add: ended_def)
  then have "history_of_state st = ?h @ [(?g, Claimed)]"
    using assms(2) by (metis (no_types, lifting) append_butlast_last_id history_of_state_def list.simps(8,9) map_append)
  moreover have "history_of_state st' = ?h @ [(?g, phase_of a)]"
    using assms(1,3) by (simp add: history_of_state_def ended_def)
  ultimately show ?thesis using history_step.closed [OF history_ended [OF assms(1,4,5)], of ?h ?g] by simp
qed

lemma edit_history:
  assumes "edit st st'" "writable st'" "os_Attempts st = [] \<or> file_inv st"
  shows "history_step (history_of_state st) (history_of_state st')"
proof -
  have v': "validOperationAttemptState st' (os_SourceID st') (os_OperationID st')"
    using assms(2) by (simp add: writable_def)
  have ok': "a \<in> set (os_Attempts st') \<Longrightarrow> attempt_ok st' (os_SourceID st') (os_OperationID st') a" for a
    using valid_attempt_ok [OF v'] .
  have ok: "a \<in> set (os_Attempts st) \<Longrightarrow> attempt_ok st (os_SourceID st) (os_OperationID st) a" for a
    using assms(3) valid_attempt_ok by (auto simp: file_inv_def)
  show ?thesis
    using assms(1)
  proof (cases rule: edit.cases)
    case (begin_new b attemptID now lease c)
    then show ?thesis using edit_begin_history assms(2,3) by blast
  next
    case (expire b attemptID now lease)
    note ex = begin_decide_Expire [OF expire]
    let ?a = "(last (os_Attempts st))\<lparr>oa_State := ''unknown'', oa_FinishedAt := now\<rparr>"
    have "attempt_ok st' (os_SourceID st') (os_OperationID st') ?a" using ok' ex(4) by simp
    moreover have "attempt_state_ok (last (os_Attempts st))" using ok ex(1) by (simp add: attempt_ok_def)
    moreover have "ended (last (os_Attempts st)) ?a" using ex(2) by (simp add: ended_def)
    ultimately show ?thesis using edit_closed_history ex(1,4) by simp
  next
    case (finish i a ever plan)
    have ord: "order_inv (os_Attempts st)" using assms(3) finish(2) by (auto simp: file_inv_alt)
    have i: "i = length (os_Attempts st) - 1" "os_Attempts st \<noteq> []"
      using ended_last [of "os_Attempts st" i] ord finish(2,3) by (auto simp: order_inv_def ended_def)
    then have l: "os_Attempts st ! i = last (os_Attempts st)" by (simp add: last_conv_nth)
    have "(os_Attempts st)[i := a] = butlast (os_Attempts st) @ [a]"
      using i by (metis append_butlast_last_id length_butlast list_update_length)
    then have upd: "os_Attempts st' = butlast (os_Attempts st) @ [a]" using finish(1) by simp
    have "attempt_ok st' (os_SourceID st') (os_OperationID st') a" using ok' upd by simp
    moreover have "attempt_state_ok (last (os_Attempts st))" using ok i(2) by (simp add: attempt_ok_def)
    ultimately show ?thesis using edit_closed_history [OF _ i(2) upd] finish(3) l by simp
  next
    case (deliver i a)
    have at: "os_Attempts st' = (os_Attempts st)[i := a]" using deliver(1) by (simp add: put_attempt_def)
    have "attempt_ok st' (os_SourceID st') (os_OperationID st') a"
      using ok' at deliver(2) by (simp add: set_update_memI)
    then have d: "delivers_to (phase_of (os_Attempts st ! i)) (phase_of a)"
        "oa_DeliveryState a = ''pending'' \<longleftrightarrow> (\<exists>n. phase_of a = Pending n)"
      using ok delivery_phase [OF deliver(3)] deliver(2) by (metis nth_mem)+
    have gen: "oa_Generation a = oa_Generation (os_Attempts st ! i)" using delivery_same(3) [OF deliver(3)] .
    have "undelivered x = outstanding (phase_of x)" if "x \<in> set (take i (os_Attempts st))" for x
      using undelivered_outstanding ok in_set_takeD [OF that] by blast
    then have "list_ex (\<lambda>x. outstanding (snd x)) (take i (history_of_state st)) = list_ex undelivered (take i (os_Attempts st))"
      by (simp add: history_of_state_def take_map list_ex_iff)
    then have "phase_of a \<noteq> Acknowledged \<and> phase_of a \<noteq> Verified \<longrightarrow>
        \<not> list_ex (\<lambda>x. outstanding (snd x)) (take i (history_of_state st))"
      using d deliver(4) by (auto elim: delivers_to.cases)
    moreover have "i < length (history_of_state st)" using deliver(2) by (simp add: history_of_state_def)
    moreover have "delivers_to (snd (history_of_state st ! i)) (phase_of a)" using d(1) deliver(2) by (simp add: history_nth)
    ultimately show ?thesis
      using history_step.delivered [of i "history_of_state st" "phase_of a"]
        history_update [OF deliver(2) at gen] by simp
  qed
qed

definition history_after :: "attempt_op list \<Rightarrow> attempt_dir" where
  "history_after ops = fold attempt_exec ops (\<lambda>_. Absent)"

lemma dir_inv_empty: "dir_inv (\<lambda>_. Absent)"
  by (simp add: dir_inv_def)

lemma dir_inv_after: "dir_inv (history_after ops)"
  unfolding history_after_def by (rule attempts.run_inv [OF dir_inv_empty])

lemma effect_history:
  assumes "effect e d d'" "dir_inv d"
  shows "attempt_history d' path = attempt_history d path \<or> history_step (attempt_history d path) (attempt_history d' path)"
proof (cases "d' = d")
  case True
  then show ?thesis by simp
next
  case False
  then obtain st st' where st: "d (state_file_path st) = Doc st \<or> d (state_file_path st) = Absent \<and> os_Attempts st = []"
      "edit st st'" "writable st'" "d' = d(state_file_path st' := state_file st')"
    using assms(1) unfolding effect_def by blast
  have inv: "os_Attempts st = [] \<or> file_inv st" using st(1) assms(2) unfolding dir_inv_def by blast
  note ids = edit_identity [OF st(2)]
  have h: "attempt_history d (state_file_path st) = history_of_state st"
    using st(1) by (auto simp: attempt_history_def history_of_state_def)
  show ?thesis
  proof (cases "path = state_file_path st")
    case False
    then show ?thesis using st(4) ids by (simp add: attempt_history_def)
  next
    case True
    show ?thesis
    proof (cases "valid_utf8 (os_OperationID st')")
      case True
      then have "attempt_history d' path = history_of_state st'"
        using st(4) \<open>path = state_file_path st\<close> ids by (simp add: attempt_history_def state_file_def)
      then show ?thesis using edit_history [OF st(2,3) inv] h \<open>path = state_file_path st\<close> by simp
    next
      case False
      then have "os_Attempts st = []" using inv ids by (auto simp: file_inv_def)
      then have "attempt_history d path = []" using h \<open>path = state_file_path st\<close> by (simp add: history_of_state_def)
      moreover have "attempt_history d' path = []"
        using False st(4) \<open>path = state_file_path st\<close> ids by (simp add: attempt_history_def state_file_def)
      ultimately show ?thesis by simp
    qed
  qed
qed

text \<open>C25: the attempt files refine an abstract history of phases.  Whatever operations ran before,
  by whatever processes and with whatever failures, one more operation leaves the history of
  every file as it is or takes one legal step: a fresh claim, the one end of an open claim, or
  the next step of a delivery.
\<close>

theorem attempts_refine_history:
  "attempt_history (attempt_exec p (history_after ops)) path = attempt_history (history_after ops) path \<or>
   history_step (attempt_history (history_after ops) path) (attempt_history (attempt_exec p (history_after ops)) path)"
  using effect_history [OF run_effect [of p "history_after ops" "fst (attempt_run p (history_after ops))"] dir_inv_after]
  by simp

section \<open>The distance of attempts\<close>

text \<open>C27: in every file two attempts that follow each other started at least the longer of their
  two observation periods apart; only an attempt deferred before any request may be followed
  earlier, and then no sooner than the retry delay after its end.
\<close>

theorem attempts_are_spaced:
  "case history_after ops path of Doc st \<Rightarrow> successively spaced (os_Attempts st) | _ \<Rightarrow> True"
  using dir_inv_after [of ops] by (auto simp: dir_inv_def file_inv_def split: stored.splits)

section \<open>Claims\<close>

definition attempt_closed :: "OperationAttemptClaim \<Rightarrow> OperationStoredAttempt \<Rightarrow> bool" where
  "attempt_closed c a \<longleftrightarrow>
     (oa_AttemptID a = at_AttemptID c \<and> oa_Generation a = at_Generation c \<longrightarrow> oa_State a \<noteq> ''claimed'')"

definition spent :: "OperationAttemptClaim \<Rightarrow> attempt_dir \<Rightarrow> bool" where
  "spent c d \<longleftrightarrow> (case d (claim_path c) of Absent \<Rightarrow> False | Garbage \<Rightarrow> True
     | Doc st \<Rightarrow> at_Generation c \<le> os_Generation st \<and> list_all (attempt_closed c) (os_Attempts st))"

lemma attempt_closed_stored [simp]: "attempt_closed c (stored_attempt a) = attempt_closed c a"
  by (simp add: attempt_closed_def)

lemma spent_fails:
  assumes "spent c d"
  shows "\<exists>x. report (transitionClaimContext io store c change d) = (Some x, d)"
proof -
  have "\<not> claim_current c (os_Attempts st ! i)"
    if "readState (ab_SourceID (at_Binding c)) (ab_OperationID (at_Binding c)) d = Inr (Some st)"
      "findOperationAttempt st (at_AttemptID c) (at_Generation c) = Some i" for st i
    using assms readState_Some(1) [OF that(1)] findOperationAttempt_Some [OF that(2)]
    by (simp add: spent_def claim_path_def claim_current_def list_all_length attempt_closed_def)
  moreover have "readState (ab_SourceID (at_Binding c)) (ab_OperationID (at_Binding c)) d \<noteq> Inr None"
    using assms readState_None [of "ab_SourceID (at_Binding c)" "ab_OperationID (at_Binding c)" d]
    by (auto simp: spent_def claim_path_def)
  ultimately show ?thesis
    by (auto simp: transitionClaimContext_def withStoreLockContext_def split: sum.split option.split)
qed

lemma edit_closed:
  assumes "edit st st'" "writable st'" "at_Generation c \<le> os_Generation st" "list_all (attempt_closed c) (os_Attempts st)"
  shows "at_Generation c \<le> os_Generation st' \<and> list_all (attempt_closed c) (os_Attempts st')"
proof -
  have nz: "os_Generation st + 1 \<noteq> 0"
    using assms(2) edit_identity(3) [OF assms(1)] by (auto simp: writable_def validOperationAttemptState_def)
  then have lt: "at_Generation c < os_Generation st + 1" using next_generation_above assms(3) by blast
  have "list_all (attempt_closed c) (os_Attempts st')"
    using assms(1)
  proof (cases rule: edit.cases)
    case (begin_new b attemptID now lease c')
    obtain kept where "os_Attempts st' = kept @ [claimed_attempt b attemptID (os_Generation st + 1) now (now + lease)]"
        "kept = os_Attempts st \<or> (\<exists>k. kept = drop k (os_Attempts st))"
      using begin_decide_Begin(2) [OF begin_new(1)] by blast
    then show ?thesis using assms(4) lt
      by (auto simp: list_all_iff attempt_closed_def claimed_attempt_def dest: in_set_dropD)
  next
    case (expire b attemptID now lease)
    then show ?thesis using assms(4) begin_decide_Expire [OF expire]
      by (auto simp: list_all_iff attempt_closed_def dest: in_set_butlastD)
  next
    case (finish i a ever plan)
    then show ?thesis using assms(4) set_update_subset_insert [of "os_Attempts st" i a]
      by (auto simp: list_all_iff attempt_closed_def ended_def)
  next
    case (deliver i a)
    have "attempt_closed c a" using assms(4) deliver(2) delivery_same [OF deliver(3)]
      by (simp add: list_all_length attempt_closed_def)
    then show ?thesis using assms(4) deliver(1) set_update_subset_insert [of "os_Attempts st" i a]
      by (auto simp: list_all_iff put_attempt_def)
  qed
  then show ?thesis using lt edit_identity(3) [OF assms(1)] by simp
qed

lemma effect_spent:
  assumes "effect e d d'" "spent c d"
  shows "spent c d'"
proof (cases "d' = d")
  case True
  then show ?thesis using assms by simp
next
  case False
  then obtain st st' where st: "d (state_file_path st) = Doc st \<or> d (state_file_path st) = Absent \<and> os_Attempts st = []"
      "edit st st'" "writable st'" "d' = d(state_file_path st' := state_file st')"
    using assms(1) unfolding effect_def by blast
  show ?thesis
  proof (cases "claim_path c = state_file_path st")
    case False
    then show ?thesis using assms(2) st(4) edit_identity(5) [OF st(2)] by (simp add: spent_def)
  next
    case True
    then have "d (state_file_path st) = Doc st" using st(1) assms(2) by (auto simp: spent_def)
    then have "at_Generation c \<le> os_Generation st' \<and> list_all (attempt_closed c) (os_Attempts st')"
      using edit_closed [OF st(2,3)] assms(2) True by (simp add: spent_def)
    then show ?thesis
      using st(4) True edit_identity(5) [OF st(2)]
      by (simp add: spent_def state_file_def stored_state_attempts list_all_iff)
  qed
qed

interpretation spent_claims: invariant_steps attempt_exec "spent c" for c
  using effect_spent run_effect by (unfold_locales) (metis prod.collapse)

text \<open>Under the invariant an open claim is the last attempt, so ending it spends it.\<close>

lemma transition_success:
  assumes "ends change" "report (transitionClaimContext io store c change d) = (None, d')" "dir_inv d"
  shows "spent c d'"
proof -
  obtain st i st1 a where st: "d (claim_path c) = Doc st" "i < length (os_Attempts st)"
      "oa_AttemptID (os_Attempts st ! i) = at_AttemptID c" "oa_Generation (os_Attempts st ! i) = at_Generation c"
      "claim_current c (os_Attempts st ! i)" "change st (os_Attempts st ! i) = (None, st1, a)"
      "same_history st st1" "ended (os_Attempts st ! i) a"
      "writable (st1\<lparr>os_Attempts := (os_Attempts st)[i := a], os_Generation := os_Generation st + 1\<rparr>)"
      "d' = d(claim_path c := state_file (st1\<lparr>os_Attempts := (os_Attempts st)[i := a], os_Generation := os_Generation st + 1\<rparr>))"
    by (rule transition_commits [OF assms(1,2)])
  have inv: "file_inv st" using st(1) assms(3) by (auto simp: dir_inv_def)
  have last: "i = length (os_Attempts st) - 1"
    using ended_last [OF _ st(2)] inv st(5) by (simp add: file_inv_def claim_current_def)
  have "attempt_closed c ((os_Attempts st)[i := a] ! j)" if j: "j < length (os_Attempts st)" for j
  proof (cases "j = i")
    case True
    then show ?thesis using st(2,8) by (simp add: attempt_closed_def ended_def)
  next
    case False
    then have "j < length (butlast (os_Attempts st))" using last j by simp
    then have "oa_State (os_Attempts st ! j) \<noteq> ''claimed''"
      using inv by (auto simp: file_inv_def list_all_length nth_butlast)
    then show ?thesis using False by (simp add: attempt_closed_def)
  qed
  then have "list_all (attempt_closed c) ((os_Attempts st)[i := a])" by (simp add: list_all_length)
  moreover have "at_Generation c < os_Generation st + 1"
  proof -
    have "attempt_ok st (os_SourceID st) (os_OperationID st) (os_Attempts st ! i)"
      using valid_attempt_ok inv st(2) by (simp add: file_inv_def)
    then have "at_Generation c \<le> os_Generation st" using st(4) by (simp add: attempt_ok_def)
    then show ?thesis
      using next_generation_above st(9) by (simp add: writable_def validOperationAttemptState_def)
  qed
  ultimately show ?thesis
    using st(10) by (simp add: spent_def state_file_def stored_state_attempts list_all_iff less_imp_le)
qed

lemma history_after_append: "history_after (before @ p # between) = fold attempt_exec between (attempt_exec p (history_after before))"
  by (simp add: history_after_def)

text \<open>C26: a claim takes effect at most once.  Once any operation that ends the claim (a result, a
  request without a result, a block, a deferral, a failure) has reported success, every other
  one with this claim fails and changes nothing, whatever ran in between.
\<close>

theorem claims_take_effect_once:
  assumes "transition_claim p = Some c" "transition_claim q = Some c"
    and "fst (attempt_run p (history_after before)) = None"
  shows "fst (attempt_run q (history_after (before @ p # between))) \<noteq> None \<and>
    attempt_exec q (history_after (before @ p # between)) = history_after (before @ p # between)"
proof -
  obtain io store change where p: "ends change"
      "attempt_run p (history_after before) = report (transitionClaimContext io store c change (history_after before))"
    using transition_shape [OF assms(1)] assms(3) by fastforce
  then have "spent c (attempt_exec p (history_after before))"
    using transition_success [OF p(1) _ dir_inv_after, of io store c before] assms(3) by (metis prod.collapse)
  then have sp: "spent c (history_after (before @ p # between))"
    unfolding history_after_append by (rule spent_claims.run_inv)
  from transition_shape [OF assms(2)] show ?thesis
  proof
    assume "\<forall>d. attempt_run q d = (Some ErrOperationAttemptUnavailable, d)"
    then show ?thesis by simp
  next
    assume "\<exists>io store change. ends change \<and> (\<forall>d. attempt_run q d = report (transitionClaimContext io store c change d))"
    then obtain io store change where "\<And>d. attempt_run q d = report (transitionClaimContext io store c change d)" by blast
    then show ?thesis using spent_fails [OF sp, of io store change] by auto
  qed
qed

theorem claims_take_effect_once_witness:
  "fst (attempt_run (OpFail sample_io sample_store sample_claim (sample_start + 2))
    (history_after [OpBegin sample_io sample_store sample_binding sample_id sample_start minute,
      OpFail sample_io sample_store sample_claim (sample_start + 1)])) \<noteq> None"
proof -
  let ?first = "OpBegin sample_io sample_store sample_binding sample_id sample_start minute"
  let ?fail = "OpFail sample_io sample_store sample_claim (sample_start + 1)"
  have "history_after [?first] = sample_dir" by (simp add: history_after_def sample_begin)
  then have "fst (attempt_run ?fail (history_after [?first])) = None" using sample_fail by simp
  then show ?thesis
    using claims_take_effect_once [of ?fail sample_claim "OpFail sample_io sample_store sample_claim (sample_start + 2)"
        "[?first]" "[]"] by simp
qed

section \<open>What readers see\<close>

lemma later_ge:
  "t \<le> laterOperationAttemptTime t cs" "c \<in> set cs \<Longrightarrow> c \<le> laterOperationAttemptTime t cs"
proof -
  have *: "t \<le> laterOperationAttemptTime t cs \<and> (\<forall>c \<in> set cs. c \<le> laterOperationAttemptTime t cs)" for t
  proof (induction cs arbitrary: t)
    case Nil
    then show ?case by (simp add: laterOperationAttemptTime_def)
  next
    case (Cons c cs)
    have "laterOperationAttemptTime t (c # cs) = laterOperationAttemptTime (max t c) cs"
      by (simp add: laterOperationAttemptTime_def max_def)
    then show ?case using Cons [of "max t c"] by simp
  qed
  show "t \<le> laterOperationAttemptTime t cs" "c \<in> set cs \<Longrightarrow> c \<le> laterOperationAttemptTime t cs" using * by blast+
qed

lemma result_observed:
  assumes "attempt_ok st s oid a" "oa_Result a = Some r"
  shows "oa_State a = ''observed''" "validOperationObservationResult r" "\<not> IsZero (or_ReceivedAt r)"
  using assms by (auto simp: attempt_ok_def attempt_state_ok_def validOperationAttemptStateName_def split: if_splits)

lemma observed_projection_fields [simp]:
  "ra_SourceID (observed_projection a r p) = ra_SourceID p" "ra_OperationID (observed_projection a r p) = ra_OperationID p"
  "ra_LatestPlanBinding (observed_projection a r p) = ra_LatestPlanBinding p"
  "ra_ObservationPlanBinding (observed_projection a r p) = Some (oa_Binding a)"
  "ra_AttemptState (observed_projection a r p) = ra_AttemptState p"
  "ra_ObservationAttemptState (observed_projection a r p) = ''observed''"
  "ra_ExecutionBlockReason (observed_projection a r p) = ra_ExecutionBlockReason p"
  "ra_ReceiptValidated (observed_projection a r p) = ra_ReceiptValidated p"
  "ra_RequestStarted (observed_projection a r p) = ra_RequestStarted p"
  "ra_ResultState (observed_projection a r p) = or_State r" "ra_ResultCategory (observed_projection a r p) = or_Category r"
  "ra_HTTPStatus (observed_projection a r p) = or_HTTPStatus r"
  "ra_ProviderObservedAt (observed_projection a r p) = or_ObservedAt r"
  "ra_HealthReceivedAt (observed_projection a r p) = or_ReceivedAt r"
  "ra_UpdatedAt (observed_projection a r p) = laterOperationAttemptTime (ra_UpdatedAt p)
     [oa_StartedAt a, oa_FinishedAt a, or_ObservedAt r, or_ReceivedAt r, oa_DeliveryStartedAt a, oa_DeliveryAckAt a,
      oa_GatusReceivedAt a]"
  by (simp_all add: observed_projection_def Let_def)

lemma latest_fields [simp]:
  "ra_SourceID (latest_projection st) = os_SourceID st" "ra_OperationID (latest_projection st) = os_OperationID st"
  "ra_LatestPlanBinding (latest_projection st) = oa_Binding (last (os_Attempts st))"
  "ra_ObservationPlanBinding (latest_projection st) = None"
  "ra_AttemptState (latest_projection st) = oa_State (last (os_Attempts st))"
  "ra_ObservationAttemptState (latest_projection st) = ''none''"
  "ra_ExecutionBlockReason (latest_projection st) =
     (if oa_State (last (os_Attempts st)) = ''deferred'' then oa_BlockReason (last (os_Attempts st)) else '''')"
  "ra_ReceiptValidated (latest_projection st) = oa_ReceiptValidated (last (os_Attempts st))"
  "ra_RequestStarted (latest_projection st) = oa_RequestStarted (last (os_Attempts st))"
  "ra_ResultState (latest_projection st) = ''''" "ra_ResultCategory (latest_projection st) = ''''"
  "ra_HTTPStatus (latest_projection st) = 0" "ra_ProviderObservedAt (latest_projection st) = 0"
  "ra_HealthReceivedAt (latest_projection st) = 0" "ra_GatusDeliveryState (latest_projection st) = ''not_ready''"
  "ra_GatusAcknowledgedAt (latest_projection st) = 0" "ra_GatusReadbackAt (latest_projection st) = 0"
  "ra_GatusObservedState (latest_projection st) = ''''"
  "ra_UpdatedAt (latest_projection st) =
     laterOperationAttemptTime (oa_StartedAt (last (os_Attempts st))) [oa_FinishedAt (last (os_Attempts st))]"
  by (simp_all add: latest_projection_def Let_def time_zero_def)

lemma observed_delivery_ok:
  assumes "attempt_ok st s oid a" "oa_Result a = Some r" "readback_after a" "p = latest_projection st'"
  shows "validOperationReadModelDeliveryState (ra_GatusDeliveryState (observed_projection a r p))"
    and "validGatusReadback (observed_projection a r p)"
    and "\<not> IsZero (ra_GatusAcknowledgedAt (observed_projection a r p)) \<Longrightarrow>
      or_ReceivedAt r \<le> ra_GatusAcknowledgedAt (observed_projection a r p) \<and>
      ra_GatusAcknowledgedAt (observed_projection a r p) = oa_DeliveryAckAt a"
    and "\<not> IsZero (ra_GatusReadbackAt (observed_projection a r p)) \<Longrightarrow>
      or_ReceivedAt r \<le> ra_GatusReadbackAt (observed_projection a r p) \<and>
      ra_GatusReadbackAt (observed_projection a r p) = oa_GatusReceivedAt a"
proof -
  note res = result_observed [OF assms(1,2)]
  have d: "attempt_delivery_ok a" "validOperationDeliveryState (oa_DeliveryState a)" using assms(1) by (simp_all add: attempt_ok_def)
  have rec: "received_at a = or_ReceivedAt r" using assms(2) by (simp add: received_at_def)
  consider "oa_DeliveryState a = ''not_ready''" | "oa_DeliveryState a = ''pending''" | "oa_DeliveryState a = ''acknowledged''"
    | "oa_DeliveryState a = ''readback_verified''" | "oa_DeliveryState a = ''not_applicable''"
    using d(2) by (auto simp: validOperationDeliveryState_def)
  then have "validOperationReadModelDeliveryState (ra_GatusDeliveryState (observed_projection a r p)) \<and>
      validGatusReadback (observed_projection a r p) \<and>
      (\<not> IsZero (ra_GatusAcknowledgedAt (observed_projection a r p)) \<longrightarrow>
        or_ReceivedAt r \<le> ra_GatusAcknowledgedAt (observed_projection a r p) \<and>
        ra_GatusAcknowledgedAt (observed_projection a r p) = oa_DeliveryAckAt a) \<and>
      (\<not> IsZero (ra_GatusReadbackAt (observed_projection a r p)) \<longrightarrow>
        or_ReceivedAt r \<le> ra_GatusReadbackAt (observed_projection a r p) \<and>
        ra_GatusReadbackAt (observed_projection a r p) = oa_GatusReceivedAt a)"
  proof cases
    case 5
    then show ?thesis using d(1) res(2) assms(2)
      by (simp add: observed_projection_def Let_def validOperationReadModelDeliveryState_def validGatusReadback_def
          assms(4) attempt_delivery_ok_def IsZero_def validOperationObservationResult_def)
  qed (use d(1) rec assms(3) in \<open>simp_all add: observed_projection_def Let_def validOperationReadModelDeliveryState_def
      validGatusReadback_def assms(4) attempt_delivery_ok_def IsZero_def readback_after_def\<close>)
  then show "validOperationReadModelDeliveryState (ra_GatusDeliveryState (observed_projection a r p))"
    "validGatusReadback (observed_projection a r p)"
    "\<not> IsZero (ra_GatusAcknowledgedAt (observed_projection a r p)) \<Longrightarrow>
      or_ReceivedAt r \<le> ra_GatusAcknowledgedAt (observed_projection a r p) \<and>
      ra_GatusAcknowledgedAt (observed_projection a r p) = oa_DeliveryAckAt a"
    "\<not> IsZero (ra_GatusReadbackAt (observed_projection a r p)) \<Longrightarrow>
      or_ReceivedAt r \<le> ra_GatusReadbackAt (observed_projection a r p) \<and>
      ra_GatusReadbackAt (observed_projection a r p) = oa_GatusReceivedAt a" by blast+
qed

lemma latest_state_ok:
  assumes "attempt_ok st s oid (last (os_Attempts st))"
  shows "readmodel_state_ok (latest_projection st) \<longleftrightarrow> oa_State (last (os_Attempts st)) \<noteq> ''observed''"
    and "readmodel_state_ok (observed_projection a r (latest_projection st))"
  using assms unfolding attempt_ok_def attempt_state_ok_def validOperationAttemptStateName_def no_evidence_def
  by (auto simp: readmodel_state_ok_def validOperationAttemptDeferredReason_def split: option.splits if_splits)

lemma observation_ok:
  assumes "attempt_ok st s oid a" "oa_Result a = Some r" "readback_after a"
  shows "readmodel_observation_ok (observed_projection a r (latest_projection st'))"
proof -
  let ?q = "observed_projection a r (latest_projection st')"
  note res = result_observed [OF assms(1,2)]
  note dl = observed_delivery_ok [OF assms refl, of st']
  note v = res(2) [unfolded validOperationObservationResult_def]
  have u: "c \<le> ra_UpdatedAt ?q" if "c \<in> {or_ReceivedAt r, oa_DeliveryAckAt a, oa_GatusReceivedAt a}" for c
    using that by (auto intro!: later_ge(2))
  have ack: "\<not> (\<not> IsZero (ra_GatusAcknowledgedAt ?q) \<and>
      (ra_GatusAcknowledgedAt ?q < or_ReceivedAt r \<or> ra_GatusAcknowledgedAt ?q > ra_UpdatedAt ?q))"
    using dl(3) u [of "oa_DeliveryAckAt a"] by force
  have readback: "\<not> (\<not> IsZero (ra_GatusReadbackAt ?q) \<and>
      (ra_GatusReadbackAt ?q < or_ReceivedAt r \<or> ra_GatusReadbackAt ?q > ra_UpdatedAt ?q))"
    using dl(4) u [of "oa_GatusReceivedAt a"] by force
  have rec: "\<not> or_ReceivedAt r > ra_UpdatedAt ?q" using u [of "or_ReceivedAt r"] by force
  have pair: "validOperationReadModelResultPair (or_State r) (or_Category r)" using v by blast
  then have st: "validOperationReadModelResultState (or_State r)" by (simp add: validOperationReadModelResultPair_def)
  show ?thesis
    unfolding readmodel_observation_ok_def observed_projection_fields(10-14)
    using ack readback rec pair st v res(3) dl(2) by (intro conjI) (simp, argo+)
qed

lemma projection_valid:
  assumes "file_inv st" "list_all (\<lambda>a. time_zero < oa_StartedAt a) (os_Attempts st)"
  shows "snd (operationReadModelAttemptFromState st)"
proof -
  let ?s = "os_SourceID st" and ?o = "os_OperationID st"
  have v: "validOperationAttemptState st ?s ?o" using assms(1) by (simp add: file_inv_def)
  have ne: "os_Attempts st \<noteq> []" using valid_attempts [OF v] by simp
  have ok: "a \<in> set (os_Attempts st) \<Longrightarrow> attempt_ok st ?s ?o a" for a using valid_attempt_ok [OF v] .
  have lst: "attempt_ok st ?s ?o (last (os_Attempts st))" using ok ne by simp
  have start: "0 < oa_StartedAt (last (os_Attempts st))" using assms(2) ne by (simp add: list_all_iff time_zero_def)
  let ?p = "latest_projection st"
  have upd: "0 < ra_UpdatedAt ?p" using start later_ge(1) by (metis latest_fields(19) order_less_le_trans)
  have ids: "operationSourceIDPattern ?s" "?o \<noteq> ''''" "length ?o \<le> 256"
    using v by (simp_all add: validOperationAttemptState_def)
  have bind: "a \<in> set (os_Attempts st) \<Longrightarrow> validOperationAttemptBinding (oa_Binding a) \<and> ab_SourceID (oa_Binding a) = ?s \<and>
      ab_OperationID (oa_Binding a) = ?o" for a using ok by (simp add: attempt_ok_def)
  have state: "validOperationReadModelAttemptState (oa_State (last (os_Attempts st)))"
    using lst by (auto simp: attempt_ok_def validOperationAttemptStateName_def validOperationReadModelAttemptState_def)
  show ?thesis
  proof (cases "find (\<lambda>a. oa_Result a \<noteq> None) (rev (os_Attempts st))")
    case None
    then have none: "oa_Result (last (os_Attempts st)) = None" using ne by (auto simp: find_None_iff)
    have "oa_State (last (os_Attempts st)) \<noteq> ''observed''"
      using lst none by (auto simp: attempt_ok_def attempt_state_ok_def)
    then have "validOperationReadModelAttempt ?p"
      using upd ids bind [of "last (os_Attempts st)"] ne state latest_state_ok(1) [OF lst]
      by (simp add: validOperationReadModelAttempt_def validOperationReadModelObservationAttemptState_def
          validOperationReadModelDeliveryState_def hasObservation_def IsZero_def)
    then show ?thesis using ne None by (simp add: operationReadModelAttemptFromState_def Let_def)
  next
    case (Some a)
    then obtain r where a: "a \<in> set (os_Attempts st)" "oa_Result a = Some r"
      by (auto simp: find_Some_iff) (metis nth_mem set_rev length_rev)
    have rb: "readback_after a" using assms(1) a(1) by (simp add: file_inv_def list_all_iff)
    let ?q = "observed_projection a r ?p"
    note obs = observation_ok [OF ok [OF a(1)] a(2) rb, of st]
    note del = observed_delivery_ok(1) [OF ok [OF a(1)] a(2) rb refl, of st]
    have upd2: "\<not> IsZero (ra_UpdatedAt ?q)"
      using upd later_ge(1) unfolding observed_projection_fields IsZero_def by (metis order_less_le_trans less_irrefl)
    have has: "hasObservation ?q"
      using obs by (simp add: hasObservation_def readmodel_observation_ok_def)
    have "validOperationReadModelAttempt ?q"
      unfolding validOperationReadModelAttempt_def
      using upd2 has obs del ids bind [OF a(1)] bind [of "last (os_Attempts st)"] ne state latest_state_ok(2) [OF lst]
      by (simp add: validOperationReadModelObservationAttemptState_def)
    then show ?thesis using ne Some a by (simp add: operationReadModelAttemptFromState_def Let_def the_result_def)
  qed
qed

text \<open>C28: readers can publish whatever the store holds.  The projection of every file any history
  of operations can leave passes the read model's own check of an attempt, unless a clock
  once read a time before year 1.
\<close>

theorem projection_is_valid:
  "case history_after ops path of
     Doc st \<Rightarrow> list_ex (\<lambda>a. oa_StartedAt a < time_zero) (os_Attempts st) \<or> snd (operationReadModelAttemptFromState st)
   | _ \<Rightarrow> True"
proof (cases "history_after ops path")
  case (Doc st)
  then have inv: "file_inv st" using dir_inv_after [of ops] by (auto simp: dir_inv_def)
  have "a \<in> set (os_Attempts st) \<Longrightarrow> oa_StartedAt a \<noteq> time_zero" for a
    using valid_attempt_ok inv by (auto simp: file_inv_def attempt_ok_def IsZero_def time_zero_def)
  then have "list_ex (\<lambda>a. oa_StartedAt a < time_zero) (os_Attempts st) \<or>
      list_all (\<lambda>a. time_zero < oa_StartedAt a) (os_Attempts st)"
    by (auto simp: list_ex_iff list_all_iff) (meson linorder_neqE)
  then show ?thesis using Doc projection_valid [OF inv] by auto
qed simp_all

section \<open>Results outside their attempt\<close>

definition outside_attempt :: "OperationAttemptClaim \<Rightarrow> OperationObservationResult \<Rightarrow> time \<Rightarrow> bool" where
  "outside_attempt c r now \<longleftrightarrow> or_ObservedAt r < at_StartedAt c \<or> or_ObservedAt r > now \<or>
     (\<not> IsZero (or_ReceivedAt r) \<and> (or_ReceivedAt r < or_ObservedAt r \<or> or_ReceivedAt r > now))"

lemma failed_unwritable:
  assumes "oa_State a = ''claimed''" "i < length (os_Attempts st)" "attempt_ok st s oid a"
  shows "\<not> writable (st\<lparr>os_Attempts := (os_Attempts st)[i := a\<lparr>oa_State := ''failed'', oa_FinishedAt := now\<rparr>], os_Generation := g\<rparr>)"
proof
  let ?a = "a\<lparr>oa_State := ''failed'', oa_FinishedAt := now\<rparr>"
  assume "writable (st\<lparr>os_Attempts := (os_Attempts st)[i := ?a], os_Generation := g\<rparr>)"
  then have "attempt_state_ok ?a"
    using valid_attempt_ok [of _ _ _ ?a] assms(2) by (fastforce simp: writable_def attempt_ok_def set_update_memI)
  then show False using assms(1,3) by (simp add: attempt_state_ok_def attempt_ok_def)
qed

text \<open>The change that ends a claim whose lease has run out.\<close>

definition write_off :: "time \<Rightarrow> attempt_change" where
  "write_off now = (\<lambda>state a. (Some ErrOperationAttemptFenced, state, a\<lparr>oa_State := ''unknown'', oa_FinishedAt := now\<rparr>))"

lemma transition_change_cong:
  assumes "\<And>state a. claim_current claim a \<Longrightarrow> change state a = change' state a"
  shows "transitionClaimContext io store claim change d = transitionClaimContext io store claim change' d"
  unfolding transitionClaimContext_def withStoreLockContext_def
  by (simp add: assms split: sum.split option.split)

lemma outside_unwritten:
  assumes "outside_attempt c r now" "now < at_ExpiresAt c"
  shows "\<exists>x. transitionClaimContext io store c (unless_expired now (observed_change r now)) d = (Inl x, d)"
proof (cases "\<exists>st i. readState (ab_SourceID (at_Binding c)) (ab_OperationID (at_Binding c)) d = Inr (Some st) \<and>
    findOperationAttempt st (at_AttemptID c) (at_Generation c) = Some i \<and> claim_current c (os_Attempts st ! i) \<and>
    ai_context io \<and> \<not> st_readOnly store \<and> ai_lock io")
  case False
  then show ?thesis
    by (auto simp: transitionClaimContext_def withStoreLockContext_def split: sum.split option.split)
next
  case True
  then obtain st i where r: "readState (ab_SourceID (at_Binding c)) (ab_OperationID (at_Binding c)) d = Inr (Some st)"
    and i: "findOperationAttempt st (at_AttemptID c) (at_Generation c) = Some i"
    and cur: "claim_current c (os_Attempts st ! i)" "ai_context io" "\<not> st_readOnly store" "ai_lock io" by blast
  let ?a = "os_Attempts st ! i"
  have ch: "unless_expired now (observed_change r now) st ?a =
      (Some ErrOperationAttemptUnavailable, st, ?a\<lparr>oa_State := ''failed'', oa_FinishedAt := now\<rparr>)"
    using assms cur(1) by (auto simp: unless_expired_def observed_change_def outside_attempt_def claim_current_def)
  have "attempt_ok st (ab_SourceID (at_Binding c)) (ab_OperationID (at_Binding c)) ?a"
    using valid_attempt_ok [OF readState_Some(2) [OF r]] findOperationAttempt_Some(1) [OF i] by simp
  then have "\<not> writable (st\<lparr>os_Attempts := (os_Attempts st)[i := ?a\<lparr>oa_State := ''failed'', oa_FinishedAt := now\<rparr>],
      os_Generation := os_Generation st + 1\<rparr>)"
    using failed_unwritable cur(1) findOperationAttempt_Some(1) [OF i] by (simp add: claim_current_def)
  then show ?thesis
    using r i cur ch writeState_unwritable by (simp add: transitionClaimContext_def withStoreLockContext_def)
qed

lemma expired_written_off:
  assumes "\<not> now < at_ExpiresAt c"
  shows "transitionClaimContext io store c (unless_expired now change) d = transitionClaimContext io store c (write_off now) d"
  by (rule transition_change_cong) (use assms in \<open>auto simp: unless_expired_def write_off_def claim_current_def\<close>)

lemma write_off_refused: "\<not> is_ok (fst (transitionClaimContext io store c (write_off now) d))"
  by (auto simp: transitionClaimContext_def withStoreLockContext_def write_off_def Let_def split: sum.split option.split prod.split)

text \<open>C29: a result observed or received outside its attempt is refused.  While the lease of the claim
  runs, the refusal leaves no trace: the code marks the attempt failed, but a failed attempt without a
  receipt is not a valid state, so the write never happens and the claim stays open.  Once the lease has run
  out, the files are either unchanged or those that writing the claim off as unknown leaves, the same as
  for any other result.
\<close>

theorem outside_result_leaves_no_trace:
  assumes "outside_attempt c r now"
  shows "\<not> is_ok (fst (completeAttemptContext io store c r now d)) \<and>
    (if now < at_ExpiresAt c then snd (completeAttemptContext io store c r now d) = d
     else snd (completeAttemptContext io store c r now d) \<in> {d, snd (transitionClaimContext io store c (write_off now) d)})"
proof (cases "now < at_ExpiresAt c")
  case True
  then show ?thesis using outside_unwritten [OF assms True, of io store d] by (auto simp: completeAttemptContext_def)
next
  case False
  then show ?thesis using write_off_refused [of io store c now d] by (auto simp: completeAttemptContext_def expired_written_off)
qed

definition sample_early_result :: OperationObservationResult where
  "sample_early_result = \<lparr>or_State = ''healthy'', or_Category = ''healthy'', or_ObservedAt = sample_start - 1,
     or_ReceivedAt = time_zero, or_ReceiptSHA = replicate 64 CHR ''a'', or_LatencyMS = 0, or_HTTPStatus = 200,
     or_HistoryRecordID = '''', or_HistoryRecordSHA256 = '''', or_validatedHistoryRecord = False\<rparr>"

theorem outside_result_leaves_no_trace_witness:
  "snd (completeAttemptContext sample_io sample_store sample_claim sample_early_result (sample_start + 1) sample_dir) = sample_dir"
proof -
  have "outside_attempt sample_claim sample_early_result (sample_start + 1)"
    by (simp add: outside_attempt_def sample_claim_def sample_early_result_def)
  moreover have "sample_start + 1 < at_ExpiresAt sample_claim" by (simp add: sample_claim_def minute_def second_def)
  ultimately show ?thesis using outside_result_leaves_no_trace by metis
qed

section \<open>Files that are full\<close>

lemma json_lengths_ge:
  "22 \<le> json_time_length t" "1 \<le> json_word_length w" "1 \<le> length (int_dec i)" "4 \<le> json_bool_length x"
  using nat_dec_nonempty [of "unat w"] nat_dec_nonempty [of "nat i"] nat_dec_nonempty [of "nat (- i)"]
  by (simp_all add: json_time_length_def Let_def json_word_length_def int_dec_def json_bool_length_def Suc_le_eq)

lemma binding_length_ge: "validOperationAttemptBinding b \<Longrightarrow> 390 \<le> binding_length b"
  using json_text_length_ge [of "ab_SourceID b"] json_text_length_ge [of "ab_OperationID b"]
    json_text_length_ge [of "ab_RegistryRevision b"] json_text_length_ge [of "ab_ReleaseManifestSHA b"]
    json_text_length_ge [of "ab_IndexSHA b"] json_text_length_ge [of "ab_ShardSHA b"] json_text_length_ge [of "ab_GatusKey b"]
    json_lengths_ge(3) [of "ab_ObservationPeriod b"]
  by (simp add: binding_length_def json_list_length_def json_field_length_def json_string_length_def
      validOperationAttemptBinding_def commitPattern_def sha256Pattern_def hex_string_def)

lemma claimed_length_ge:
  assumes "validOperationAttemptBinding b"
  shows "750 \<le> attempt_length (claimed_attempt b attemptID g started expires)"
  using binding_length_ge [OF assms] json_text_length_ge [of attemptID] json_lengths_ge(2) [of g]
    json_lengths_ge(1) [of started] json_lengths_ge(1) [of expires] json_lengths_ge(1) [of time_zero]
    json_text_length_ge [of "''claimed''"] json_text_length_ge [of "''not_ready''"] json_lengths_ge(3) [of 0]
    json_lengths_ge(2) [of 0]
  by (simp add: attempt_length_def claimed_attempt_def json_list_length_def json_field_length_def json_string_length_def
      json_optional_def json_bool_length_def)

lemma state_length_ge: "sum_list (List.map attempt_length (os_Attempts st)) + 250 \<le> attempt_state_length st" if
  "validOperationAttemptState st s oid"
proof -
  have "json_text_length (os_SchemaVersion st) = 43"
    using that by (simp add: validOperationAttemptState_def OperationAttemptStoreSchemaVersion_def json_text_length_plain json_plain_def)
  moreover have "json_text_length (os_CurrentPlanSHA256 st) = 66"
    using that json_text_length_hex [of 64] by (simp add: validOperationAttemptState_def sha256Pattern_def)
  ultimately show ?thesis
    using json_lengths_ge(4) by (simp add: attempt_state_length_def json_list_length_def json_field_length_def json_string_length_def
        json_bool_length_def)
qed

definition settled :: "OperationStoredAttempt \<Rightarrow> bool" where
  "settled a \<longleftrightarrow> oa_State a \<noteq> ''claimed'' \<and>
     (oa_State a = ''observed'' \<longrightarrow> oa_DeliveryState a = ''readback_verified'' \<or> oa_DeliveryState a = ''not_applicable'')"

text \<open>Fewer attempts than the history may hold, all of them settled, and no space for one more.\<close>

definition full_file :: "operationAttemptState \<Rightarrow> bool" where
  "full_file st \<longleftrightarrow> length (os_Attempts st) < maxOperationAttemptHistory \<and> list_all settled (os_Attempts st) \<and>
     maxOperationAttemptStateBytes < sum_list (List.map attempt_length (os_Attempts st)) + 1000"

lemma full_file_no_edit:
  assumes "file_inv st" "full_file st" "edit st st'"
  shows "\<not> writable st'"
proof
  assume w: "writable st'"
  have v: "validOperationAttemptState st (os_SourceID st) (os_OperationID st)" using assms(1) by (simp add: file_inv_def)
  have ne: "os_Attempts st \<noteq> []" using valid_attempts [OF v] by simp
  have set: "a \<in> set (os_Attempts st) \<Longrightarrow> settled a" for a using assms(2) by (simp add: full_file_def list_all_iff)
  from assms(3) show False
  proof (cases rule: edit.cases)
    case (begin_new b attemptID now lease c)
    let ?new = "claimed_attempt b attemptID (os_Generation st + 1) now (now + lease)"
    have at: "os_Attempts st' = os_Attempts st @ [?new]"
      using begin_decide_Begin(2) [OF begin_new(1)] assms(2) by (auto simp: full_file_def)
    have v': "validOperationAttemptState st' (os_SourceID st') (os_OperationID st')" using w by (simp add: writable_def)
    have "validOperationAttemptBinding b"
      using valid_attempt_ok [OF v', of ?new] at by (simp add: attempt_ok_def claimed_attempt_def)
    from claimed_length_ge [OF this] have "maxOperationAttemptStateBytes < attempt_state_length st'"
      using state_length_ge [OF v'] assms(2) at
      by (simp add: full_file_def) (use claimed_length_ge [OF \<open>validOperationAttemptBinding b\<close>, of attemptID "os_Generation st + 1" now "now + lease"] in linarith)
    then show False using w by (simp add: writable_def)
  next
    case (expire b attemptID now lease)
    then show False using begin_decide_Expire [OF expire] set ne by (auto simp: settled_def)
  next
    case (finish i a ever plan)
    then show False using set [of "os_Attempts st ! i"] by (auto simp: settled_def ended_def)
  next
    case (deliver i a)
    have ok: "attempt_ok st (os_SourceID st) (os_OperationID st) (os_Attempts st ! i)"
      using valid_attempt_ok [OF v] deliver(2) by simp
    have "oa_State (os_Attempts st ! i) = ''observed''"
      using deliver(3) ok by (cases rule: delivery_step.cases) (auto simp: attempt_ok_def attempt_delivery_ok_def delivery_refused_def)
    then have "oa_DeliveryState (os_Attempts st ! i) = ''readback_verified'' \<or> oa_DeliveryState (os_Attempts st ! i) = ''not_applicable''"
      using set [of "os_Attempts st ! i"] deliver(2) by (simp add: settled_def)
    with deliver(3) show False by (cases rule: delivery_step.cases) (auto simp: delivery_refused_def)
  qed
qed

definition stuck :: "string \<Rightarrow> operationAttemptState \<Rightarrow> attempt_dir \<Rightarrow> bool" where
  "stuck path st d \<longleftrightarrow> dir_inv d \<and> d path = Doc st \<and> full_file st"

interpretation stuck_files: invariant_steps attempt_exec "stuck path st" for path st
proof
  fix d p
  assume s: "stuck path st d"
  have eff: "effect (fst (attempt_run p d)) d (attempt_exec p d)" by (rule run_effect) simp
  have inv: "file_inv st" "path = state_file_path st" using s by (auto simp: stuck_def dir_inv_def)
  have "attempt_exec p d path = d path"
  proof (cases "attempt_exec p d = d")
    case False
    then obtain st1 st' where st: "d (state_file_path st1) = Doc st1 \<or> d (state_file_path st1) = Absent \<and> os_Attempts st1 = []"
        "edit st1 st'" "writable st'" "attempt_exec p d = d(state_file_path st' := state_file st')"
      using eff unfolding effect_def by blast
    have "state_file_path st1 \<noteq> path"
    proof
      assume "state_file_path st1 = path"
      then have "st1 = st" using st(1) s by (simp add: stuck_def)
      then show False using full_file_no_edit [OF inv(1)] st(2,3) s by (simp add: stuck_def)
    qed
    then show ?thesis using st(4) edit_identity(5) [OF st(2)] by simp
  qed simp
  then show "stuck path st (attempt_exec p d)" using s effect_dir_inv [OF eff] by (simp add: stuck_def)
qed

text \<open>the bound of 32 KiB on a file can stop an operation for good.  A file with fewer than 24
  attempts, all settled, but without the space of one more claim never changes again: the
  oldest attempt is dropped only from a history of 24, so every later attempt to begin fails
  on the write, and nothing ever shrinks the file.
\<close>

theorem full_file_is_stuck:
  assumes "dir_inv d" "d path = Doc st" "full_file st"
  shows "fold attempt_exec later d path = Doc st"
  using stuck_files.run_inv [of path st d later] assms by (simp add: stuck_def)

text \<open>21 attempts that were observed and delivered, one a minute, with times in milliseconds.\<close>

definition full_binding :: OperationAttemptBinding where
  "full_binding = sample_binding\<lparr>ab_OperationID := replicate 64 CHR ''a''\<rparr>"

definition full_time :: "nat \<Rightarrow> time" where
  "full_time k = from_Unix (600 + 60 * int k) + 123000000"

definition full_result :: "nat \<Rightarrow> OperationObservationResult" where
  "full_result k = \<lparr>or_State = ''healthy'', or_Category = ''healthy'', or_ObservedAt = full_time k,
     or_ReceivedAt = full_time k, or_ReceiptSHA = replicate 64 CHR ''a'', or_LatencyMS = 5, or_HTTPStatus = 0,
     or_HistoryRecordID = replicate 64 CHR ''a'', or_HistoryRecordSHA256 = replicate 64 CHR ''a'',
     or_validatedHistoryRecord = False\<rparr>"

definition full_attempt :: "nat \<Rightarrow> OperationStoredAttempt" where
  "full_attempt k = \<lparr>oa_Binding = full_binding, oa_AttemptID = sample_id, oa_Generation = of_nat (k + 1),
     oa_StartedAt = full_time k, oa_LeaseExpiresAt = full_time (k + 1), oa_FinishedAt = full_time k, oa_State = ''observed'',
     oa_ReceiptValidated = True, oa_ReceiptSHA256 = replicate 64 CHR ''a'', oa_RequestStarted = Some True,
     oa_BlockReason = '''', oa_DeferredStage = '''', oa_DeferredCategory = '''', oa_Result = Some (full_result k),
     oa_DeliveryState = ''readback_verified'', oa_DeliveryGeneration = 1, oa_DeliveryAttempts = 1,
     oa_DeliveryStartedAt = full_time k, oa_DeliveryAckAt = full_time k, oa_GatusReceivedAt = full_time k,
     oa_GatusResultState = ''healthy''\<rparr>"

definition full_state :: operationAttemptState where
  "full_state = \<lparr>os_SchemaVersion = OperationAttemptStoreSchemaVersion, os_OperationID = replicate 64 CHR ''a'',
     os_SourceID = ''s'', os_Generation = 200, os_EverRequestStarted = True,
     os_CurrentPlanSHA256 = operationAttemptPlanBindingSHA256 full_binding, os_CurrentPlanEverRequestStarted = True,
     os_Attempts = List.map full_attempt [0..<21]\<rparr>"

lemma fraction_digits_numeral:
  "fraction_digits (numeral k) n = (if n mod 10 \<noteq> 0 then numeral k else fraction_digits (pred_numeral k) (n div 10))"
  by (simp add: numeral_eq_Suc [of k])

lemma full_time_facts:
  "0 < full_time k" "full_time (Suc k) = full_time k + minute" "json_time_length (full_time k) = 26"
proof -
  show "0 < full_time k" "full_time (Suc k) = full_time k + minute"
    by (simp_all add: full_time_def from_Unix_def second_def minute_def unix_epoch_seconds_def algebra_simps)
  have "full_time k mod second = 123000000"
    unfolding full_time_def from_Unix_def mod_mult_self3 by (simp add: second_def)
  then show "json_time_length (full_time k) = 26"
    by (simp add: json_time_length_def fraction_digits_numeral)
qed

lemma full_binding_facts [simp]:
  "validOperationAttemptBinding full_binding" "ab_SourceID full_binding = ''s''"
  "ab_OperationID full_binding = replicate 64 CHR ''a''" "ab_ObservationPeriod full_binding = minute"
proof -
  show "validOperationAttemptBinding full_binding"
    using sample_binding_valid by (simp add: full_binding_def validOperationAttemptBinding_def)
  show "ab_SourceID full_binding = ''s''" by (simp add: full_binding_def)
  show "ab_OperationID full_binding = replicate 64 CHR ''a''" by (simp add: full_binding_def)
  show "ab_ObservationPeriod full_binding = minute" by (simp add: full_binding_def sample_binding_def)
qed

lemma full_attempt_ok:
  assumes "k < 21"
  shows "attempt_ok full_state ''s'' (replicate 64 CHR ''a'') (full_attempt k)"
proof -
  have "IsZero (full_time k) = False" "full_time k \<le> full_time (Suc k)" using full_time_facts(1) [of k] full_time_facts(2) [of k]
    by (simp_all add: IsZero_def minute_def second_def)
  moreover have "time_Sub (full_time (Suc k)) (full_time k) \<le> maxOperationAttemptLease"
    by (simp add: full_time_facts(2) time_Sub_def minute_def second_def maxOperationAttemptLease_def)
  moreover have "validOperationObservationResult (full_result k)"
    using calculation(1)
    by (simp add: validOperationObservationResult_def full_result_def validOperationReadModelResultPair_def
        validOperationReadModelResultState_def validOperationReadModelResultCategory_def result_categories_def sha256Pattern_def)
  moreover have "(of_nat (k + 1) :: 64 word) \<le> 200"
    using assms by (simp add: word_le_nat_alt unat_of_nat take_bit_nat_eq_self unat_word_ariths del: of_nat_Suc of_nat_add)
  ultimately show ?thesis
    by (simp add: attempt_ok_def full_attempt_def full_state_def attempt_state_ok_def attempt_delivery_ok_def no_evidence_def
        validOperationAttemptStateName_def validOperationDeliveryState_def received_at_def full_result_def validGatusResultState_def)
qed

lemma full_file_inv: "file_inv full_state"
proof -
  have gens: "sorted_wrt (<) ((0 :: 64 word) # List.map oa_Generation (os_Attempts full_state))"
    by (simp add: full_state_def full_attempt_def upt_rec)
  have "list_all (attempt_ok full_state ''s'' (replicate 64 CHR ''a'')) (os_Attempts full_state)"
    using full_attempt_ok by (simp add: full_state_def list_all_iff)
  then have ok: "attempts_ok full_state ''s'' (replicate 64 CHR ''a'') 0 (os_Attempts full_state)"
    using gens by (simp add: attempts_ok_iff)
  have lst: "last (os_Attempts full_state) = full_attempt 20" "os_Attempts full_state \<noteq> []" "length (os_Attempts full_state) = 21"
    by (simp_all add: full_state_def last_map)
  have "validOperationAttemptState full_state ''s'' (replicate 64 CHR ''a'')"
    using ok lst
    by (simp add: validOperationAttemptState_def) (simp add: full_state_def full_attempt_def operationSourceIDPattern_def
        source_char_def maxOperationAttemptHistory_def)
  moreover have "valid_utf8 (replicate 64 CHR ''a'')"
    by (simp add: valid_utf8_def bytes_of_def numeral_eq_Suc)
  moreover have "successively spaced (os_Attempts full_state)"
    by (simp add: full_state_def upt_rec spaced_def full_attempt_def full_time_def from_Unix_def minute_def second_def)
  moreover have "oa_State a \<noteq> ''claimed'' \<and> readback_after a" if "a \<in> set (os_Attempts full_state)" for a
    using that by (auto simp: full_state_def full_attempt_def readback_after_def)
  moreover have "os_SourceID full_state = ''s''" "os_OperationID full_state = replicate 64 CHR ''a''"
    by (simp_all add: full_state_def)
  ultimately show ?thesis by (auto simp: file_inv_def list_all_iff dest: in_set_butlastD)
qed

lemma plain_lengths:
  "json_text_length ''s'' = 3" "json_text_length ''a_b'' = 5" "json_text_length ''healthy'' = 9"
  "json_text_length ''observed'' = 10" "json_text_length ''readback_verified'' = 19"
  "json_text_length OperationAttemptStoreSchemaVersion = 43"
  by (simp_all add: json_text_length_plain json_plain_def OperationAttemptStoreSchemaVersion_def)

lemma full_binding_length: "binding_length full_binding = 473"
  by (simp add: binding_length_def json_list_length_def json_field_length_def json_string_length_def full_binding_def
      sample_binding_def plain_lengths int_dec_def minute_def second_def nat_dec.simps)

lemma full_result_length: "result_length (full_result k) = 399"
  by (simp add: result_length_def json_list_length_def json_field_length_def json_string_length_def full_result_def
      json_optional_def plain_lengths int_dec_def nat_dec.simps full_time_facts(3))

lemma full_attempt_length: "attempt_length (full_attempt k) = 1526 + json_word_length (oa_Generation (full_attempt k))"
  by (simp add: attempt_length_def json_list_length_def json_field_length_def json_string_length_def full_attempt_def
      json_optional_def plain_lengths int_dec_def nat_dec.simps full_time_facts(3) full_binding_length full_result_length
      json_bool_length_def sample_id_def)

lemma sum_list_between:
  "\<forall>x \<in> set xs. m \<le> x \<and> x \<le> n \<Longrightarrow> length xs * m \<le> sum_list xs \<and> sum_list xs \<le> length xs * (n :: nat)"
  by (induction xs) auto

lemma full_state_fits:
  "maxOperationAttemptStateBytes < sum_list (List.map attempt_length (os_Attempts full_state)) + 1000"
  "attempt_state_length full_state \<le> maxOperationAttemptStateBytes"
proof -
  have len: "1527 \<le> attempt_length (full_attempt k) \<and> attempt_length (full_attempt k) \<le> 1528" if "k < 21" for k
  proof -
    have "unat (of_nat (k + 1) :: 64 word) = k + 1"
      using that by (simp add: unat_of_nat take_bit_nat_eq_self del: of_nat_Suc of_nat_add)
    then have digits: "json_word_length (oa_Generation (full_attempt k)) = length (nat_dec (k + 1))"
      by (simp add: json_word_length_def full_attempt_def del: of_nat_Suc of_nat_add)
    have "Suc k div 10 < 10" using that by simp
    then have two: "length (nat_dec (k + 1)) = 1 \<or> length (nat_dec (k + 1)) = 2"
      using nat_dec.simps [of "Suc k"] nat_dec.simps [of "Suc k div 10"] by simp
    show ?thesis using two digits by (auto simp: full_attempt_length)
  qed
  let ?sizes = "List.map attempt_length (os_Attempts full_state)"
  have "\<forall>x \<in> set ?sizes. 1527 \<le> x \<and> x \<le> 1528" using len by (auto simp: full_state_def)
  then have "length ?sizes * 1527 \<le> sum_list ?sizes \<and> sum_list ?sizes \<le> length ?sizes * 1528"
    by (rule sum_list_between)
  then have "21 * 1527 \<le> sum_list ?sizes" "sum_list ?sizes \<le> 21 * 1528" by (simp_all add: full_state_def)
  then show "maxOperationAttemptStateBytes < sum_list ?sizes + 1000"
    "attempt_state_length full_state \<le> maxOperationAttemptStateBytes"
    by (simp_all add: maxOperationAttemptStateBytes_def attempt_state_length_def json_list_length_def json_field_length_def
        json_string_length_def full_state_def plain_lengths json_bool_length_def json_word_length_def nat_dec.simps)
qed

definition full_path :: string where "full_path = state_file_path full_state"

theorem full_file_is_stuck_witness:
  "attempt_state_length full_state \<le> maxOperationAttemptStateBytes \<and>
   fold attempt_exec [OpBegin sample_io sample_store full_binding sample_id (from_Unix 86400) minute]
     ((\<lambda>_. Absent)(full_path := Doc full_state)) full_path = Doc full_state"
proof -
  have "dir_inv ((\<lambda>_. Absent)(full_path := Doc full_state))"
    using full_file_inv by (simp add: dir_inv_def full_path_def)
  moreover have "full_file full_state"
    using full_state_fits(1) by (simp add: full_file_def) (simp add: full_state_def settled_def full_attempt_def
        maxOperationAttemptHistory_def list_all_iff)
  ultimately show ?thesis
    using full_file_is_stuck [of "(\<lambda>_. Absent)(full_path := Doc full_state)" full_path full_state
        "[OpBegin sample_io sample_store full_binding sample_id (from_Unix 86400) minute]"] full_state_fits(2)
    by (metis fun_upd_same)
qed

end
