(* ===== verification/Operation_History_Properties.thy ===== *)
theory Operation_History_Properties
  imports Operation_History Operation_Attempt_Properties
begin

text \<open>
  What archived evidence proves: a reference the store has minted matches exactly the record it
  was minted for, and an attempt completed from the archive carries the digests of a sealed
  record of its own identity.
\<close>

section \<open>Seals and references\<close>

lemma sealed_record:
  assumes "validateOperationHistoryRecord r"
  shows "hr_sealedRecordSHA256 r = sha256_hex (record_json r)" "hr_ReceiptSHA256 r = sha256_hex (hr_ReceiptBytes r)"
    "validateOperationHistoryIdentity (hr_Identity r)" "ContentSHA256 r = Inr (hr_sealedRecordSHA256 r)"
    "json_time_ok (hr_AttemptStartedAt r) \<and> json_time_ok (hr_ValidatedAt r)"
  using assms
  by (auto simp: validateOperationHistoryRecord_def validateOperationHistoryRecordFields_def operationHistoryRecordSeal_def
      ContentSHA256_def sha256Pattern_def hex_string_def split: if_splits)

lemma new_record_valid:
  "newValidatedOperationHistoryRecord r = Inr sealed \<Longrightarrow>
    validateOperationHistoryRecord sealed \<and> record_json sealed = record_json r"
  by (auto simp: newValidatedOperationHistoryRecord_def Let_def record_json_def split: if_splits)

lemma minted_ref:
  assumes "newDurableOperationHistoryRecordRef r t = Inr ref"
  shows "MatchesValidatedRecord ref r" "rf_AppendedAt ref = t"
  using assms
  by (auto simp: newDurableOperationHistoryRecordRef_def MatchesValidatedRecord_def Let_def operationHistoryRecordRefSeal_def
      split: if_splits sum.splits)

lemma matching_ref:
  assumes "MatchesValidatedRecord ref r"
  shows "rf_RecordID ref = sha256_hex (identity_json (hr_Identity r))" "rf_SHA256 ref = sha256_hex (record_json r)"
    "hr_ValidatedAt r \<le> rf_AppendedAt ref"
  using assms sealed_record [of r]
  by (auto simp: MatchesValidatedRecord_def operationHistoryIdentityKey_def split: if_splits)

section \<open>Attempts completed from the archive\<close>

lemma validate_history_result:
  assumes "validateOperationAttemptHistoryResult ctx claim candidate ref validator now = Inr (sealed, p)"
  shows "validator candidate = Some (sealed, p)" "validateOperationHistoryRecord sealed" "MatchesValidatedRecord ref sealed"
    "MatchesOperationAttempt (hr_Identity sealed) claim" "rf_AppendedAt ref \<le> now"
    "hr_ValidatedAt sealed \<le> rf_AppendedAt ref" "pr_ReceiptSHA256 p = hr_ReceiptSHA256 sealed"
  using assms by (auto simp: validateOperationAttemptHistoryResult_def split: if_splits option.splits)

text \<open>The three transitions from the archive refuse, or are transitions of the attempt store.\<close>

lemma archive_transitions:
  "\<exists>e. report (CompleteAttemptFromValidatedHistory io store c candidate ref validator now d) = (Some e, d) \<or>
     (\<exists>r. report (CompleteAttemptFromValidatedHistory io store c candidate ref validator now d) =
        attempt_run (OpComplete io store c r now) d)"
  "\<exists>e. report (RecordRequestStartedFromValidatedHistory io store c candidate ref validator now d) = (Some e, d) \<or>
     (\<exists>sha. report (RecordRequestStartedFromValidatedHistory io store c candidate ref validator now d) =
        attempt_run (OpStarted io store c sha now) d)"
  "\<exists>e. report (RecordBlockedAttemptFromValidatedHistory io store c candidate ref validator now d) = (Some e, d) \<or>
     (\<exists>sha reason. report (RecordBlockedAttemptFromValidatedHistory io store c candidate ref validator now d) =
        attempt_run (OpBlocked io store c sha reason now) d)"
  by (auto simp: CompleteAttemptFromValidatedHistory_def RecordRequestStartedFromValidatedHistory_def
      RecordBlockedAttemptFromValidatedHistory_def split: sum.split prod.split option.split)

definition archived_attempt ::
  "OperationAttemptClaim \<Rightarrow> OperationHistoryRecord \<Rightarrow> OperationHistoryRecordRef \<Rightarrow> OperationStoredAttempt \<Rightarrow> bool" where
  "archived_attempt c sealed ref a \<longleftrightarrow> oa_AttemptID a = at_AttemptID c \<and> oa_Generation a = at_Generation c \<and>
     oa_Binding a = at_Binding c \<and> oa_State a = ''observed'' \<and>
     (case oa_Result a of None \<Rightarrow> False
      | Some r \<Rightarrow> or_HistoryRecordID r = sha256_hex (identity_json (hr_Identity sealed)) \<and>
          or_HistoryRecordSHA256 r = sha256_hex (record_json sealed) \<and>
          or_ReceiptSHA r = sha256_hex (hr_ReceiptBytes sealed) \<and> or_ReceivedAt r = hr_ValidatedAt sealed \<and>
          oa_StartedAt a \<le> or_ObservedAt r \<and> or_ObservedAt r \<le> or_ReceivedAt r \<and>
          or_ReceivedAt r \<le> rf_AppendedAt ref \<and> rf_AppendedAt ref \<le> oa_FinishedAt a)"

lemma complete_commits:
  assumes "fst (completeAttemptContext io store c r now d) = Inr ()" "\<not> IsZero (or_ReceivedAt r)" "dir_inv d"
  obtains st a where "snd (completeAttemptContext io store c r now d) (claim_path c) = Doc st" "a \<in> set (os_Attempts st)"
    "oa_AttemptID a = at_AttemptID c" "oa_Generation a = at_Generation c" "oa_Binding a = at_Binding c"
    "oa_State a = ''observed''" "oa_Result a = Some (stored_result r)" "oa_FinishedAt a = now"
    "oa_StartedAt a \<le> or_ObservedAt r" "or_ObservedAt r \<le> or_ReceivedAt r"
proof -
  let ?change = "unless_expired now (observed_change r now)"
  let ?d' = "snd (completeAttemptContext io store c r now d)"
  have rep: "report (transitionClaimContext io store c ?change d) = (None, ?d')"
    using assms(1)
    by (cases "completeAttemptContext io store c r now d") (auto simp: completeAttemptContext_def split: if_splits)
  have ends: "ends ?change" by (rule ends_unless_expired [OF ends_observed])
  obtain st i st1 a where st: "d (claim_path c) = Doc st" "i < length (os_Attempts st)"
      "oa_AttemptID (os_Attempts st ! i) = at_AttemptID c" "oa_Generation (os_Attempts st ! i) = at_Generation c"
      "claim_current c (os_Attempts st ! i)" "?change st (os_Attempts st ! i) = (None, st1, a)"
      "same_history st st1" "ended (os_Attempts st ! i) a"
      "writable (st1\<lparr>os_Attempts := (os_Attempts st)[i := a], os_Generation := os_Generation st + 1\<rparr>)"
      "?d' = d(claim_path c := state_file (st1\<lparr>os_Attempts := (os_Attempts st)[i := a], os_Generation := os_Generation st + 1\<rparr>))"
    by (rule transition_commits [OF ends rep])
  let ?st2 = "st1\<lparr>os_Attempts := (os_Attempts st)[i := a], os_Generation := os_Generation st + 1\<rparr>"
  have a: "oa_State a = ''observed''" "oa_Result a = Some r" "oa_FinishedAt a = now" "oa_StartedAt a \<le> or_ObservedAt r"
      "or_ObservedAt r \<le> or_ReceivedAt r" "oa_AttemptID a = oa_AttemptID (os_Attempts st ! i)"
      "oa_Generation a = oa_Generation (os_Attempts st ! i)" "oa_Binding a = oa_Binding (os_Attempts st ! i)"
    using st(6) assms(2) by (auto simp: unless_expired_def observed_change_def Let_def split: if_splits)
  have "valid_utf8 (os_OperationID ?st2)"
    using st(1,7) assms(3) by (auto simp: dir_inv_def file_inv_def same_history_def)
  then have doc: "?d' (claim_path c) = Doc (stored_state ?st2)" using st(10) by (simp add: state_file_def)
  have mem: "stored_attempt a \<in> set (os_Attempts (stored_state ?st2))"
    using st(2) by (simp add: stored_state_attempts set_update_memI)
  show thesis
    by (rule that [OF doc mem]) (use a st(3-5) in \<open>simp_all add: stored_attempt_def claim_current_def\<close>)
qed

text \<open>C30: an attempt completed from the archive rests on sealed evidence.  If the transition
  reports success, the file holds the observed attempt of the claim with the identity and the
  digest of a sealed record for this very attempt, the digest of its receipt and its validation
  time, and the record was archived before the attempt ended.\<close>

theorem archived_observation_is_sealed:
  assumes "fst (CompleteAttemptFromValidatedHistory io store c candidate ref validator now (history_after ops)) = Inr ()"
  shows "\<exists>sealed p st a. validator candidate = Some (sealed, p) \<and> validateOperationHistoryRecord sealed \<and>
    MatchesOperationAttempt (hr_Identity sealed) c \<and>
    snd (CompleteAttemptFromValidatedHistory io store c candidate ref validator now (history_after ops)) (claim_path c) = Doc st \<and>
    a \<in> set (os_Attempts st) \<and> archived_attempt c sealed ref a"
proof -
  let ?d = "history_after ops"
  obtain sealed p where v: "validateOperationAttemptHistoryResult (ai_context io) c candidate ref validator now = Inr (sealed, p)"
    using assms by (auto simp: CompleteAttemptFromValidatedHistory_def split: sum.splits)
  note facts = validate_history_result [OF v]
  let ?r = "archived_result sealed p ref"
  have run: "CompleteAttemptFromValidatedHistory io store c candidate ref validator now ?d =
      completeAttemptContext io store c ?r now ?d"
    using assms v by (auto simp: CompleteAttemptFromValidatedHistory_def split: if_splits)
  have "\<not> IsZero (or_ReceivedAt ?r)"
    using facts(2) by (simp add: archived_result_def validateOperationHistoryRecord_def validateOperationHistoryRecordFields_def
        utcNormalized_def)
  then obtain st a where "snd (completeAttemptContext io store c ?r now ?d) (claim_path c) = Doc st" "a \<in> set (os_Attempts st)"
      "oa_AttemptID a = at_AttemptID c" "oa_Generation a = at_Generation c" "oa_Binding a = at_Binding c"
      "oa_State a = ''observed''" "oa_Result a = Some (stored_result ?r)" "oa_FinishedAt a = now"
      "oa_StartedAt a \<le> or_ObservedAt ?r" "or_ObservedAt ?r \<le> or_ReceivedAt ?r"
    using complete_commits [OF assms [unfolded run] _ dir_inv_after] by blast
  then have "snd (completeAttemptContext io store c ?r now ?d) (claim_path c) = Doc st \<and> a \<in> set (os_Attempts st) \<and>
      archived_attempt c sealed ref a"
    using facts sealed_record [OF facts(2)] matching_ref [OF facts(3)]
    by (simp add: archived_attempt_def archived_result_def stored_result_def)
  then show ?thesis using facts run by metis
qed

section \<open>A concrete completion\<close>

definition sample_identity :: OperationHistoryIdentity where
  "sample_identity = \<lparr>hi_SourceID = ''s'', hi_OperationID = ''op'', hi_AttemptID = sample_id, hi_Generation = 1,
     hi_RegistryRevision = replicate 40 CHR ''a'', hi_ReleaseManifestSHA256 = replicate 64 CHR ''a'',
     hi_IndexSHA256 = replicate 64 CHR ''a'', hi_ShardSHA256 = replicate 64 CHR ''a''\<rparr>"

definition sample_unsealed :: OperationHistoryRecord where
  "sample_unsealed = \<lparr>hr_SchemaVersion = OperationHistoryRecordSchemaVersion, hr_Identity = sample_identity,
     hr_ReceiptSchemaURI = ''https://e.org/a'', hr_ReceiptSchemaVersion = ''v1'',
     hr_ReceiptSchemaSHA256 = replicate 64 CHR ''a'', hr_ReceiptSHA256 = sha256_hex ''{}'', hr_ReceiptBytes = ''{}'',
     hr_ValidatorIdentity = ''health'', hr_ValidatorRevision = replicate 40 CHR ''a'', hr_AttemptStartedAt = sample_start,
     hr_ValidatedAt = sample_start + 1, hr_validatedByWorker = True, hr_sealedRecordSHA256 = ''''\<rparr>"

definition sample_sealed :: OperationHistoryRecord where
  "sample_sealed = sample_unsealed\<lparr>hr_sealedRecordSHA256 := sha256_hex (record_json sample_unsealed)\<rparr>"

definition sample_unproved :: OperationHistoryRecordRef where
  "sample_unproved = \<lparr>rf_RecordID = sha256_hex (identity_json sample_identity), rf_SHA256 = hr_sealedRecordSHA256 sample_sealed,
     rf_AppendedAt = sample_start + 2, rf_appendProof = None\<rparr>"

definition sample_ref :: OperationHistoryRecordRef where
  "sample_ref = sample_unproved\<lparr>rf_appendProof := Some (operationHistoryRecordRefSeal sample_unproved)\<rparr>"

definition sample_probe :: OperationPlanProbeResult where
  "sample_probe = \<lparr>pr_ReceiptSHA256 = sha256_hex ''{}'', pr_ObservedAt = sample_start + 1, pr_Outcome = ''healthy'',
     pr_ReasonCode = '''', pr_RequestStarted = True, pr_HTTPStatus = 200, pr_Latency = 5000000\<rparr>"

lemma sample_nonzero [simp]: "0 < sample_start"
  by (simp add: sample_start_def from_Unix_def second_def unix_epoch_seconds_def)

lemma sample_later_nonzero [simp]: "sample_start \<noteq> 0" "sample_start + 1 \<noteq> 0" "sample_start + 2 \<noteq> 0" "sample_start + 3 \<noteq> 0"
  using sample_nonzero by linarith+

lemma sample_times_ok: "json_time_ok (sample_start + 1)" "json_time_ok (sample_start + 2)" "json_time_ok (sample_start + 3)"
  by (simp_all add: sample_start_def from_Unix_def second_def unix_epoch_seconds_def json_time_ok_def)

lemma sample_sealed_valid: "validateOperationHistoryRecord sample_sealed"
proof -
  have "json_Valid ''{}''"
    by (simp add: json_Valid_def scan_step_def scan_begin_def json_space_def push_open_def scan_end_def end_value_def)
  moreover have "safeOperationHistorySchemaURI ''https://e.org/a''"
    by (simp add: safeOperationHistorySchemaURI_def uri_char_def alnum_def source_char_def to_lower_def uri_port_ok_def)
  moreover have "sha256Pattern (replicate 64 CHR ''a'')" by (simp add: sha256Pattern_def)
  ultimately have "validateOperationHistoryRecordFields sample_unsealed"
    by (simp add: validateOperationHistoryRecordFields_def sample_unsealed_def sample_identity_def
        validateOperationHistoryIdentity_def operationHistorySourcePattern_def source_char_def
        operationHistoryAttemptPattern_def sample_id_def commitPattern_def MaxOperationHistoryReceiptBytes_def
        operationHistorySchemaVersionPattern_def lower_alnum_def operationHistoryValidatorPattern_def alnum_def
        utcNormalized_def IsZero_def)
  then have "validateOperationHistoryRecordFields sample_sealed"
    by (simp add: validateOperationHistoryRecordFields_def sample_sealed_def)
  moreover have "operationHistoryRecordSeal sample_sealed = hr_sealedRecordSHA256 sample_sealed" "hr_validatedByWorker sample_sealed"
    using sample_times_ok by (simp_all add: operationHistoryRecordSeal_def record_json_def sample_sealed_def sample_unsealed_def)
  ultimately show ?thesis by (simp add: validateOperationHistoryRecord_def) (simp add: sample_sealed_def)
qed

definition sample_archived :: operationAttemptState where
  "sample_archived = sample_begun\<lparr>os_Generation := 2, os_EverRequestStarted := True, os_CurrentPlanEverRequestStarted := True,
     os_Attempts := [(claimed_attempt sample_binding sample_id 1 sample_start (sample_start + minute))
       \<lparr>oa_State := ''observed'', oa_ReceiptValidated := True, oa_ReceiptSHA256 := sha256_hex ''{}'',
        oa_RequestStarted := Some True, oa_FinishedAt := sample_start + 3,
        oa_Result := Some (archived_result sample_sealed sample_probe sample_ref)\<rparr>]\<rparr>"

lemma sample_result_fields:
  "archived_result sample_sealed sample_probe sample_ref =
    \<lparr>or_State = ''healthy'', or_Category = ''healthy'', or_ObservedAt = sample_start + 1, or_ReceivedAt = sample_start + 1,
     or_ReceiptSHA = sha256_hex ''{}'', or_LatencyMS = 5, or_HTTPStatus = 200,
     or_HistoryRecordID = sha256_hex (identity_json sample_identity),
     or_HistoryRecordSHA256 = sha256_hex (record_json sample_unsealed), or_validatedHistoryRecord = True\<rparr>"
  by (simp add: archived_result_def sample_sealed_def sample_probe_def sample_ref_def sample_unproved_def sample_unsealed_def
      operationObservationClassification_def milliseconds_def)

lemma sample_result_valid: "validOperationObservationResult (archived_result sample_sealed sample_probe sample_ref)"
  by (simp add: sample_result_fields validOperationObservationResult_def validOperationReadModelResultPair_def
      validOperationReadModelResultState_def validOperationReadModelResultCategory_def result_categories_def IsZero_def)

lemma sample_archived_valid: "validOperationAttemptState sample_archived ''s'' ''op''"
  using sample_valid sample_result_valid sample_nonzero
  by (simp add: validOperationAttemptState_def sample_archived_def sample_begun_def attempts_ok_iff attempt_ok_def
      claimed_attempt_def attempt_state_ok_def attempt_delivery_ok_def no_evidence_def validOperationAttemptStateName_def
      IsZero_def time_zero_def)
    (simp add: sample_result_fields)

lemma sha_length [simp]: "json_text_length (sha256_hex s) = 66"
  using json_text_length_hex [of 64 "sha256_hex s"] sha256Pattern_sha256_hex [of s] by (simp add: sha256Pattern_def)

lemma sample_archived_length: "attempt_state_length sample_archived \<le> maxOperationAttemptStateBytes"
  using sample_binding_length time_text_length_le [of "sample_start + 1"] time_text_length_le [of "sample_start + 3"]
  by (simp add: attempt_state_length_def json_list_length_def json_field_length_def json_string_length_def
      sample_begun_def sample_archived_def attempt_length_def claimed_attempt_def json_text_length_plain json_plain_def
      int_dec_def json_optional_def nat_dec.simps json_bool_length_def OperationAttemptStoreSchemaVersion_def sample_id_def
      maxOperationAttemptStateBytes_def result_length_def sample_result_fields)

lemma sample_ref_matches: "MatchesValidatedRecord sample_ref sample_sealed"
proof -
  have "operationHistoryIdentityKey sample_identity = Inr (sha256_hex (identity_json sample_identity))"
    using sample_sealed_valid
    by (simp add: operationHistoryIdentityKey_def validateOperationHistoryRecord_def validateOperationHistoryRecordFields_def)
      (simp add: sample_sealed_def sample_unsealed_def)
  moreover have "operationHistoryRecordRefSeal sample_ref = operationHistoryRecordRefSeal sample_unproved"
    by (simp add: operationHistoryRecordRefSeal_def sample_ref_def)
  moreover have "hr_Identity sample_sealed = sample_identity" "hr_ValidatedAt sample_sealed = sample_start + 1"
    by (simp_all add: sample_sealed_def sample_unsealed_def)
  ultimately show ?thesis
    using sample_sealed_valid sample_nonzero
    by (simp add: MatchesValidatedRecord_def sealed_record(4)) (simp add: sample_ref_def sample_unproved_def utcNormalized_def IsZero_def)
qed

lemma sample_validated:
  "validateOperationAttemptHistoryResult True sample_claim sample_sealed sample_ref (\<lambda>_. Some (sample_sealed, sample_probe))
    (sample_start + 3) = Inr (sample_sealed, sample_probe)"
proof -
  have "validOperationAttemptClaim sample_claim"
    using sample_start_ok(1)
    by (simp add: validOperationAttemptClaim_def sample_claim_def IsZero_def minute_def second_def time_Sub_def
        maxOperationAttemptLease_def sample_start_def from_Unix_def unix_epoch_seconds_def)
  moreover have "rf_RecordID sample_ref \<noteq> []" "length (rf_RecordID sample_ref) = 64" "rf_AppendedAt sample_ref = sample_start + 2"
    using sha256Pattern_sha256_hex [of "identity_json sample_identity"]
    by (auto simp: sample_ref_def sample_unproved_def sha256Pattern_def hex_string_def)
  moreover have "MatchesOperationAttempt (hr_Identity sample_sealed) sample_claim"
    by (simp add: MatchesOperationAttempt_def sample_sealed_def sample_unsealed_def sample_identity_def sample_claim_def
        sample_binding_def)
  moreover have "hr_AttemptStartedAt sample_sealed = at_StartedAt sample_claim" "hr_ValidatedAt sample_sealed = sample_start + 1"
      "pr_ReceiptSHA256 sample_probe = hr_ReceiptSHA256 sample_sealed"
    by (simp_all add: sample_sealed_def sample_unsealed_def sample_claim_def sample_probe_def)
  ultimately show ?thesis
    using sample_sealed_valid sample_ref_matches sample_nonzero
    by (simp add: validateOperationAttemptHistoryResult_def IsZero_def)
qed

lemma sample_complete:
  "completeAttemptContext sample_io sample_store sample_claim (archived_result sample_sealed sample_probe sample_ref)
     (sample_start + 3) sample_dir = (Inr (), sample_dir(sample_path := Doc (stored_state sample_archived)))"
proof -
  let ?r = "archived_result sample_sealed sample_probe sample_ref"
  let ?a = "claimed_attempt sample_binding sample_id 1 sample_start (sample_start + minute)"
  have claim: "validOperationAttemptClaim sample_claim"
    using sample_validated by (simp add: validateOperationAttemptHistoryResult_def split: if_splits)
  have ids: "ab_SourceID (at_Binding sample_claim) = ''s''" "ab_OperationID (at_Binding sample_claim) = ''op''"
    by (simp_all add: sample_claim_def)
  have r: "readState ''s'' ''op'' sample_dir = Inr (Some sample_begun)"
    by (simp add: readState_def sample_dir_def sample_path_def)
  have i: "findOperationAttempt sample_begun (at_AttemptID sample_claim) (at_Generation sample_claim) = Some 0"
    and at: "os_Attempts sample_begun = [?a]" and cur: "claim_current sample_claim ?a"
    by (simp_all add: findOperationAttempt_def sample_begun_def sample_claim_def claimed_attempt_def claim_current_def)
  define a where "a = ?a\<lparr>oa_State := ''observed'', oa_ReceiptValidated := True, oa_ReceiptSHA256 := sha256_hex ''{}'',
    oa_RequestStarted := Some True, oa_FinishedAt := sample_start + 3, oa_Result := Some ?r\<rparr>"
  have ch: "unless_expired (sample_start + 3) (observed_change ?r (sample_start + 3)) sample_begun ?a =
      (None, request_started ?a sample_begun, a)"
    by (simp add: unless_expired_def observed_change_def sample_result_fields IsZero_def claimed_attempt_def minute_def
        second_def a_def)
  have arch: "(request_started ?a sample_begun)\<lparr>os_Attempts := [a], os_Generation := 2\<rparr> = sample_archived"
    by (simp add: request_started_def sample_begun_def sample_archived_def a_def) (simp add: claimed_attempt_def)
  have "list_all attempt_times_ok (os_Attempts sample_archived)"
    using sample_times_ok
    by (simp add: sample_archived_def sample_begun_def attempt_times_ok_def claimed_attempt_def sample_result_fields)
  moreover have "os_SourceID sample_archived = ''s''" "os_OperationID sample_archived = ''op''"
    by (simp_all add: sample_archived_def sample_begun_def)
  ultimately have w: "writeState sample_io sample_archived sample_dir =
      (None, sample_dir(sample_path := Doc (stored_state sample_archived)))"
    using sample_archived_length sample_archived_valid by (simp add: writeState_def sample_io_def sample_path_def)
  have "os_Generation (request_started ?a sample_begun) = 1" "os_Attempts (request_started ?a sample_begun) = [?a]"
    by (simp_all add: request_started_def sample_begun_def)
  then have "transitionClaimContext sample_io sample_store sample_claim
      (unless_expired (sample_start + 3) (observed_change ?r (sample_start + 3))) sample_dir =
      (Inr (), sample_dir(sample_path := Doc (stored_state sample_archived)))"
    using i at cur r ch arch w
    by (simp add: transitionClaimContext_def withStoreLockContext_def ids sample_store_def) (simp add: sample_io_def)
  then show ?thesis
    using claim sample_result_valid
    by (simp add: completeAttemptContext_def IsZero_def) (simp add: sample_io_def sample_result_fields)
qed

theorem archived_observation_is_sealed_witness:
  "\<exists>st a. snd (CompleteAttemptFromValidatedHistory sample_io sample_store sample_claim sample_sealed sample_ref
      (\<lambda>_. Some (sample_sealed, sample_probe)) (sample_start + 3)
      (history_after [OpBegin sample_io sample_store sample_binding sample_id sample_start minute])) (claim_path sample_claim) = Doc st \<and>
    a \<in> set (os_Attempts st) \<and> archived_attempt sample_claim sample_sealed sample_ref a"
proof -
  let ?ops = "[OpBegin sample_io sample_store sample_binding sample_id sample_start minute]"
  have "history_after ?ops = sample_dir" by (simp add: history_after_def sample_begin)
  then have "fst (CompleteAttemptFromValidatedHistory sample_io sample_store sample_claim sample_sealed sample_ref
      (\<lambda>_. Some (sample_sealed, sample_probe)) (sample_start + 3) (history_after ?ops)) = Inr ()"
    using sample_validated sample_complete
    by (simp add: CompleteAttemptFromValidatedHistory_def sample_io_def) (simp add: sample_probe_def sample_sealed_def
        sample_unsealed_def operationObservationClassification_def IsZero_def)
  from archived_observation_is_sealed [OF this] show ?thesis by auto
qed

end
