(* ===== verification/Operation_History_Archive_Properties.thy ===== *)
theory Operation_History_Archive_Properties
  imports Operation_History_Runs Operation_History_Properties
begin

text \<open>
  What the archive of evidence guarantees: evidence is kept until a publication is confirmed, the
  account of the bytes is exact whatever is interrupted, the recovery works, and a reservation is
  worth its record.
\<close>

section \<open>Operations that go through\<close>

definition working :: "history_dir \<Rightarrow> history_world" where
  "working d = \<lparr>hw_dir = d, hw_ios = [Io_ok, Io_ok, Io_ok, Io_ok, Io_ok, Io_ok], hw_polls = None\<rparr>"

lemma made [simp]:
  "thn (or_unavailable (change f)) n \<lparr>hw_dir = d, hw_ios = Io_ok # ios, hw_polls = p\<rparr> = n \<lparr>hw_dir = f d, hw_ios = ios, hw_polls = p\<rparr>"
  by (simp add: thn_def bnd_def or_unavailable_def change_def)

lemma removed:
  "here d \<Longrightarrow> thn (or_unavailable (remove_file here f)) n \<lparr>hw_dir = d, hw_ios = Io_ok # ios, hw_polls = p\<rparr> =
    n \<lparr>hw_dir = f d, hw_ios = ios, hw_polls = p\<rparr>"
  by (simp add: thn_def bnd_def or_unavailable_def change_def remove_file_def)

lemma begun:
  "thn beginMutationLocked n \<lparr>hw_dir = d, hw_ios = Io_ok # ios, hw_polls = p\<rparr> =
    n \<lparr>hw_dir = d\<lparr>hd_marker := True\<rparr>, hw_ios = ios, hw_polls = p\<rparr>"
  by (simp add: beginMutationLocked_def)

lemma ended:
  "hd_marker d \<Longrightarrow> finishMutationLocked u \<lparr>hw_dir = d, hw_ios = Io_ok # Io_ok # ios, hw_polls = p\<rparr> =
    (Inr (), \<lparr>hw_dir = finished u d, hw_ios = ios, hw_polls = p\<rparr>)"
  by (simp add: finishMutationLocked_def writeUsage_def clear_marker_def or_unavailable_def change_def remove_file_def
    finished_def)

lemma ended_thn:
  "hd_marker d \<Longrightarrow> thn (finishMutationLocked u) n \<lparr>hw_dir = d, hw_ios = Io_ok # Io_ok # ios, hw_polls = p\<rparr> =
    n \<lparr>hw_dir = finished u d, hw_ios = ios, hw_polls = p\<rparr>"
  by (simp add: thn_def bnd_def ended)

lemma unlocked: "hw_polls w = None \<Longrightarrow> withLock Lock_obtained m w = m w"
  by (simp add: withLock_def thn_poll)

lemma safe_settled: "safe_archive st cp d \<Longrightarrow> \<not> hd_marker d \<Longrightarrow> hd_usage d \<noteq> Absent \<Longrightarrow> settled_archive st cp d"
  by (auto simp: safe_archive_def mendable_def new_directory_def)

section \<open>A reservation is worth its record\<close>

definition reserve_result ::
  "OperationHistoryIdentity \<Rightarrow> string \<Rightarrow> time \<Rightarrow> operationHistoryUsagePayload \<Rightarrow> history_dir \<Rightarrow> history_dir" where
  "reserve_result i token now u d = finished (reserve_usage u)
     (set_reservation (operationHistoryIdentityIDMust i) (reservation_file i (operationHistoryIdentityIDMust i) token now)
       (d\<lparr>hd_marker := True\<rparr>))"

lemma reserve_works:
  assumes settled: "settled_archive st cp d" "readUsage st d = Inr u" and max: "st_maxBytes st \<le> maxOperationHistoryStoreBytes"
    and room: "\<not> no_room st u i d" and i: "validateOperationHistoryIdentity i" "decoded_identity i = i"
    and k: "k = operationHistoryIdentityIDMust i"
    and absent: "file_at (hd_records d) k = Absent" "file_at (hd_reservations d) k = Absent"
    and index: "readOperationIndex i d = Inr found" "\<not> overtaken (hi_Generation i) found"
    and now: "now \<noteq> 0" "json_time_ok now"
    and token: "newOperationHistoryReservationToken (Some random) = Some token"
  shows "Reserve st Lock_obtained i now (Some random) (working d) = ((None, \<lparr>rv_identityID = k, rv_token = token\<rparr>),
      \<lparr>hw_dir = reserve_result i token now u d, hw_ios = [Io_ok, Io_ok], hw_polls = None\<rparr>)"
    and "settled_archive st cp (reserve_result i token now u d)"
    and "readReservation k (reserve_result i token now u d) = Inr (reservation_file i k token now)"
proof -
  let ?d = "reserve_result i token now u d"
  let ?w = "\<lparr>hw_dir = ?d, hw_ios = [Io_ok, Io_ok], hw_polls = None\<rparr>"
  have "ensureUsageLocked st (working d) = (Inr u, working d)"
    using ensureUsage_settled [of st cp "working d" u] settled by (simp add: working_def)
  moreover have "reserve_new i k now (Some random) u (working d) = (Inr (None, \<lparr>rv_identityID = k, rv_token = token\<rparr>), ?w)"
    using now(2) token by (simp add: reserve_new_def working_def begun write_json_def bnd_run [OF attempt_run] ended set_reservation_def
      reserve_result_def k)
  ultimately have "reserve_entry st i k now (Some random) (working d) = (Inr (None, \<lparr>rv_identityID = k, rv_token = token\<rparr>), ?w)"
    using room absent index
    by (simp add: reserve_entry_def bnd_run record_present_def reservation_present_def present_def working_def)
  then show run: "Reserve st Lock_obtained i now (Some random) (working d) = ((None, \<lparr>rv_identityID = k, rv_token = token\<rparr>), ?w)"
    using i(1) k by (simp add: Reserve_def unlocked working_def)
  have "safe_archive st cp ?d"
    using safe_Reserve [of st cp "working d" i now Lock_obtained "Some random"] settled(1) max i(2) now(1) run
    by (simp add: safe_archive_def working_def)
  then show "settled_archive st cp ?d" by (rule safe_settled) (simp_all add: reserve_result_def finished_def)
  show "readReservation k ?d = Inr (reservation_file i k token now)"
    by (rule reservation_readable [OF i token_valid [OF token] now(2,1) k]) (simp add: reserve_result_def finished_def set_reservation_def k)
qed

lemma record_charge:
  assumes "validateOperationHistoryRecord evidence" "length (hr_ReceiptSchemaVersion evidence) \<le> 1024" "json_time_ok now"
    "0 < n" "now \<noteq> 0" "sha256Pattern (hr_sealedRecordSHA256 evidence)" "validHistoryRecordID k"
  obtains i where
    "newOperationHistoryPendingSequenceIndex n k (hr_sealedRecordSHA256 evidence) (record_length evidence) now = Inr i"
    "append_charge (stored_of evidence (hr_sealedRecordSHA256 evidence) n now) i \<le> int MaxOperationHistoryReservedBytes"
proof -
  have digest: "operationHistoryPendingSequenceIndexDigest (x\<lparr>si_IndexSHA256 := y\<rparr>) = operationHistoryPendingSequenceIndexDigest x" for x y
    by (simp add: operationHistoryPendingSequenceIndexDigest_def sequence_members_def)
  have sha: "sha256Pattern (operationHistoryPendingSequenceIndexDigest x)" for x
    by (simp add: operationHistoryPendingSequenceIndexDigest_def digest_of_def)
  let ?new = "newOperationHistoryPendingSequenceIndex n k (hr_sealedRecordSHA256 evidence) (record_length evidence) now"
  have "length (record_json evidence) \<le> 120000" using assms by (intro record_json_length)
  moreover have "record_json evidence \<noteq> []" by (simp add: record_json_def json_object_def)
  ultimately obtain i where i: "?new = Inr i"
    using assms by (simp add: newOperationHistoryPendingSequenceIndex_def Let_def validOperationHistoryPendingSequenceIndex_def
      record_length_def MaxOperationHistoryBatchBytes_def utcNormalized_def IsZero_def digest sha)
  have "sequence_length i \<le> 1000" using new_sequence_index(2) [OF i assms(3)] .
  moreover have "stored_length (stored_of evidence (hr_sealedRecordSHA256 evidence) n now) \<le> 121000"
    unfolding stored_length_def using assms by (intro stored_json_length) (simp_all add: stored_of_def)
  ultimately have "append_charge (stored_of evidence (hr_sealedRecordSHA256 evidence) n now) i \<le> int MaxOperationHistoryReservedBytes"
    by (simp add: append_charge_def operationHistoryPendingRecordCharge_def fileCharge_def operationHistoryFileCharge_def
      operationHistoryPendingMetadataReserve_def MaxOperationHistoryReservedBytes_def MaxOperationHistoryReceiptBytes_def
      MaxOperationHistorySerializedReceipt_def OperationHistoryEnvelopeReserveBytes_def
      OperationHistoryAtomicTempReserveBytes_def OperationHistoryJournalReserveBytes_def)
  then show thesis using i by (rule that [rotated])
qed

lemma usage_written: "hd_usage d = Doc (publicOperationHistoryUsage v) \<Longrightarrow> readUsage st d = Inr u \<Longrightarrow> u = v"
  by (auto simp: readUsage_def read_file_def publicOperationHistoryUsage_def split: if_splits)

lemma append_works:
  assumes settled: "settled_archive st cp d" "readUsage st d = Inr u" and max: "st_maxBytes st \<le> maxOperationHistoryStoreBytes"
    and evidence: "validateOperationHistoryRecord evidence" "st_validator st (decoded_record evidence) = Some evidence"
      "length (hr_ReceiptSchemaVersion evidence) \<le> 1024"
    and k: "k = operationHistoryIdentityIDMust (hr_Identity evidence)"
    and held: "readReservation k d = Inr r" "rs_Token r = token" "rs_Identity r = hr_Identity evidence" "token \<noteq> ''''"
    and index: "readOperationIndex (hr_Identity evidence) d = Inr found" "\<not> overtaken (hi_Generation (hr_Identity evidence)) found"
    and room: "us_RecordCount u < maxOperationHistoryPendingRecords"
    and now: "now \<noteq> 0" "json_time_ok now" "hr_ValidatedAt evidence \<le> now"
  obtains ref w s where "AppendValidated st Lock_obtained \<lparr>rv_identityID = k, rv_token = token\<rparr> evidence now (working d) = (Inr ref, w)"
    "MatchesValidatedRecord ref evidence" "settled_archive st cp (hw_dir w)"
    "readStoredRecord st k (hw_dir w) = Inr s" "sd_Record s = evidence"
proof -
  let ?i = "hr_Identity evidence" and ?sha = "hr_sealedRecordSHA256 evidence"
  have identity: "validateOperationHistoryIdentity ?i" using sealed_record [OF evidence(1)] by simp
  have sha: "sha256Pattern ?sha" using sealed_record(1) [OF evidence(1)] sha256Pattern_sha256_hex by simp
  note key = identity_id [OF identity]
  have order: "orderly st cp d" using settled(1) by (simp add: settled_archive_def)
  have u: "u = tally st (us_CapacityBlockedCount u) cp d" using settled_usage [OF settled(1)] settled(2) by (metis sum.inject(2))
  have number: "us_NextSequence u = next_number cp d" by (subst u) (rule tally_next)
  have bounded: "int (length (hd_records d)) < maxOperationHistoryPendingRecords"
    using room by (subst (asm) u) (simp add: tally_def Let_def)
  have n: "0 < next_number cp d" "next_number cp d \<noteq> - 1"
  proof -
    show "0 < next_number cp d" using next_number_fresh(4) [OF order] by (simp add: word_gt_0)
    show "next_number cp d \<noteq> - 1"
    proof
      assume "next_number cp d = - 1"
      then have "uint (next_number cp d) = 2 ^ 64 - 1" by (simp add: unsigned_minus_1_eq_mask mask_eq_exp_minus_1)
      then show False using next_number_uint [OF order] orderly_lengths [OF order] by simp
    qed
  qed
  obtain i where i: "newOperationHistoryPendingSequenceIndex (next_number cp d) k ?sha (record_length evidence) now = Inr i"
      "append_charge (stored_of evidence ?sha (next_number cp d) now) i \<le> int MaxOperationHistoryReservedBytes"
    by (rule record_charge [OF evidence(1,3) now(2) n(1) now(1) sha]) (use key k in auto)
  let ?s = "stored_of evidence ?sha (next_number cp d) now"
  have at: "sd_AppendedAt ?s = now" "sd_Sequence ?s = next_number cp d" by (simp_all add: stored_of_def)
  have ready: "append_ready st cp d evidence k ?s i"
    using evidence k now(2) i bounded index by (simp add: append_ready_def stored_of_def tally_def Let_def)
  let ?d = "append_result k r u ?s i d"
  let ?w = "\<lparr>hw_dir = ?d, hw_ios = [], hw_polls = None\<rparr>"
  have reserved: "rs_ReservedBytes r = int MaxOperationHistoryReservedBytes" using held_reservation(2) [OF order held(1)] .
  obtain ref where ref: "newDurableOperationHistoryRecordRef evidence now = Inr ref"
    using evidence(1) now key(1) sealed_record(4) [OF evidence(1)]
    by (auto simp: newDurableOperationHistoryRecordRef_def utcNormalized_def IsZero_def Let_def)
  have there: "present (file_at (hd_reservations d) k)" using held(1) by (auto simp: readReservation_def read_file_def present_def)
  have writing: "append_write evidence k r u ?s i (working d) = (Inr ref, ?w)"
    using i(2) room reserved there ref at
    by (simp add: append_write_def working_def begun remove_reservation_def removed set_record_def set_sequence_def
      ended_thn drop_reservation_def durable_ref_def lift_error_def append_result_def appended_def)
  have "file_at (hd_records d) k = Absent" using held_reservation(3) [OF order held(1)] .
  moreover have "append_new \<lparr>rv_identityID = k, rv_token = token\<rparr> evidence k ?sha now u (working d) = (Inr ref, ?w)"
    using held number n(2) next_number_fresh(4) [OF order] i(1) now(2) writing
    by (simp add: append_new_def bnd_run [OF attempt_run] holds_reservation_def lift_error_def working_def)
  moreover have "ensureUsageLocked st (working d) = (Inr u, working d)"
    using ensureUsage_settled [of st cp "working d" u] settled by (simp add: working_def)
  ultimately have "append_locked st \<lparr>rv_identityID = k, rv_token = token\<rparr> evidence k ?sha now (working d) = (Inr ref, ?w)"
    using index by (cases found)
      (auto simp: append_locked_def bnd_run record_present_def present_def working_def overtaken_def)
  moreover have "reservation_Matches \<lparr>rv_identityID = k, rv_token = token\<rparr> ?i"
    using key held(4) k by (auto simp: reservation_Matches_def validHistoryRecordID_def hex_string_def)
  ultimately have run: "AppendValidated st Lock_obtained \<lparr>rv_identityID = k, rv_token = token\<rparr> evidence now (working d) = (Inr ref, ?w)"
    using evidence(1) k by (simp add: AppendValidated_def unlocked working_def)
  have read: "readStoredRecord st k ?d = Inr ?s"
  proof -
    have "append_ready st cp (d\<lparr>hd_marker := True\<rparr>) evidence k ?s i" "orderly st cp (d\<lparr>hd_marker := True\<rparr>)"
      using ready order by (simp_all add: ready_marked marked_orderly)
    from appended_record(1) [OF this(2,1)]
    show ?thesis using readStoredRecord_cong [of ?d k "appended k ?s i (d\<lparr>hd_marker := True\<rparr>)" st]
      by (simp add: append_result_def finished_def)
  qed
  show thesis
    by (rule that [OF run minted_ref(1) [OF ref], of ?s])
       (use append_result_settled [OF settled max ready held(1)] read in \<open>simp_all add: stored_of_def\<close>)
qed

text \<open>C31: a reservation is worth its record.  Take a settled archive, no larger than the code allows, with
  room for one more reservation and working writes, and a valid sealed record whose receipt schema
  version has at most 1,024 bytes, whose identity is valid UTF-8 and which the validator returns
  unchanged; its identity is not in the archive yet and no later generation of its operation has been
  published.  Then reserving for the identity and appending the record under the token succeed: the
  record does not outgrow what was reserved, its reference matches it, the archive holds it and its
  account is exact again.  (Without the bound on the schema version a valid record can be too long.)
\<close>

theorem reserved_evidence_is_archived:
  assumes "settled_archive st cp d" "readUsage st d = Inr u" "st_maxBytes st \<le> maxOperationHistoryStoreBytes"
    "\<not> no_room st u (hr_Identity evidence) d"
    "validateOperationHistoryRecord evidence" "length (hr_ReceiptSchemaVersion evidence) \<le> 1024"
    "decoded_identity (hr_Identity evidence) = hr_Identity evidence" "st_validator st (decoded_record evidence) = Some evidence"
    "file_at (hd_records d) (operationHistoryIdentityIDMust (hr_Identity evidence)) = Absent"
    "file_at (hd_reservations d) (operationHistoryIdentityIDMust (hr_Identity evidence)) = Absent"
    "readOperationIndex (hr_Identity evidence) d = Inr found" "\<not> overtaken (hi_Generation (hr_Identity evidence)) found"
    "now \<noteq> 0" "json_time_ok now" "later \<noteq> 0" "json_time_ok later" "hr_ValidatedAt evidence \<le> later"
  shows "\<exists>token reserved ref archived s.
    Reserve st Lock_obtained (hr_Identity evidence) now (Some random) (working d) = ((None, token), reserved) \<and>
    AppendValidated st Lock_obtained token evidence later (working (hw_dir reserved)) = (Inr ref, archived) \<and>
    MatchesValidatedRecord ref evidence \<and> settled_archive st cp (hw_dir archived) \<and>
    readStoredRecord st (operationHistoryIdentityIDMust (hr_Identity evidence)) (hw_dir archived) = Inr s \<and> sd_Record s = evidence"
proof -
  let ?i = "hr_Identity evidence"
  let ?k = "operationHistoryIdentityIDMust ?i"
  have identity: "validateOperationHistoryIdentity ?i" using sealed_record [OF assms(5)] by simp
  obtain token where token: "newOperationHistoryReservationToken (Some random) = Some token"
    by (simp add: newOperationHistoryReservationToken_def)
  note reserve = reserve_works [OF assms(1-4) identity assms(7) refl assms(9-14) token]
  let ?d = "reserve_result ?i token now u d"
  have usage: "readUsage st ?d = Inr (reserve_usage u)"
    using settled_usage [OF reserve(2)] usage_written [of ?d "reserve_usage u" st]
    by (metis finished_def reserve_result_def history_dir.select_convs(1) history_dir.surjective history_dir.update_convs(1,2))
  have "0 \<le> us_ReservationCount (tally st b cp d)" for b by (simp add: tally_def Let_def)
  then have "us_ReservationCount u \<ge> 0" using settled_usage [OF assms(1)] assms(2) by (metis sum.inject(2))
  then have room: "us_RecordCount (reserve_usage u) < maxOperationHistoryPendingRecords"
    using assms(4) by (simp add: no_room_def reserve_usage_def)
  have index: "readOperationIndex ?i ?d = Inr found"
    using assms(11) readOperationIndex_cong [of ?d d] by (simp add: reserve_result_def finished_def set_reservation_def)
  have token_ok: "token \<noteq> ''''" using token_valid [OF token] by (auto simp: validHistoryToken_def hex_string_def)
  obtain ref w s where "AppendValidated st Lock_obtained \<lparr>rv_identityID = ?k, rv_token = token\<rparr> evidence later (working ?d) = (Inr ref, w)"
    "MatchesValidatedRecord ref evidence" "settled_archive st cp (hw_dir w)" "readStoredRecord st ?k (hw_dir w) = Inr s" "sd_Record s = evidence"
    by (rule append_works [OF reserve(2) usage assms(3,5,8,6) refl reserve(3) _ _ token_ok index assms(12) room assms(15-17)])
       (simp_all add: reservation_file_def)
  then show ?thesis using reserve(1) by fastforce
qed

section \<open>A first record\<close>

definition sample_history_store :: OperationHistoryStore where
  "sample_history_store = \<lparr>st_maxBytes = maxOperationHistoryStoreBytes,
     st_validator = (\<lambda>r. if r = decoded_record sample_sealed then Some sample_sealed else None)\<rparr>"

definition first_usage :: operationHistoryUsagePayload where
  "first_usage = tally sample_history_store 0 no_checkpoint new_directory"

definition first_directory :: history_dir where
  "first_directory = finished first_usage new_directory"

lemma first_fields: "us_UsedBytes first_usage = 0" "us_ReservedBytes first_usage = 0" "us_RecordCount first_usage = 0"
  "us_ReservationCount first_usage = 0" "us_CapacityBlockedCount first_usage = 0" "us_OperationKeyCount first_usage = 0"
  by (simp_all add: first_usage_def tally_def new_directory_def Let_def checkpoint_charge_def index_bytes_def record_bytes_def
    descriptor_charge_def present_def)

lemma first_settled: "settled_archive sample_history_store no_checkpoint first_directory"
  "readUsage sample_history_store first_directory = Inr first_usage"
proof -
  have "writable_usage sample_history_store first_usage"
    by (simp add: writable_usage_def first_fields maxOperationHistoryReservations_def sample_history_store_def
      maxOperationHistoryStoreBytes_def)
  moreover have "first_usage = tally sample_history_store (us_CapacityBlockedCount first_usage) no_checkpoint new_directory"
    by (simp add: first_fields) (simp add: first_usage_def)
  ultimately show settled: "settled_archive sample_history_store no_checkpoint first_directory"
    unfolding first_directory_def
    by (intro settled_finished new_directory_orderly) (simp_all add: sample_history_store_def new_directory_def present_def)
  have "hd_usage first_directory = Doc (publicOperationHistoryUsage first_usage)"
    by (simp add: first_directory_def finished_def)
  with settled show "readUsage sample_history_store first_directory = Inr first_usage"
    by (metis settled_usage usage_written)
qed

lemma first_files: "hd_records first_directory = []" "hd_reservations first_directory = []" "hd_index first_directory = []"
  by (simp_all add: first_directory_def finished_def new_directory_def)

lemma sample_decoded: "decoded_identity sample_identity = sample_identity"
proof -
  have plain: "utf8_repair_bytes bs = bs" if "list_all (\<lambda>b. b < 128) bs" for bs
    using that by (induction bs) auto
  have same: "utf8_repair s = s" if "list_all (\<lambda>c. (of_char c :: nat) < 128) s" for s
  proof -
    have "list_all (\<lambda>b. b < 128) (bytes_of s)" using that by (simp add: bytes_of_def list_all_iff)
    then show ?thesis by (simp add: utf8_repair_def plain) (simp add: bytes_of_def comp_def map_idI)
  qed
  show ?thesis
    by (simp add: decoded_identity_def sample_identity_def same sample_id_def list_all_iff)
qed

lemma sample_record: "hr_Identity sample_sealed = sample_identity" "length (hr_ReceiptSchemaVersion sample_sealed) \<le> 1024"
  "hr_ValidatedAt sample_sealed = sample_start + 1" "hr_ReceiptSchemaVersion sample_sealed = ''v1''"
  by (simp_all add: sample_sealed_def sample_unsealed_def)

lemma sample_room: "\<not> no_room sample_history_store first_usage i first_directory"
  by (simp add: no_room_def first_fields sample_history_store_def maxOperationHistoryPendingRecords_def
    maxOperationHistoryReservations_def maxOperationHistoryOperationKeys_def maxOperationHistoryStoreBytes_def
    operationHistoryPublicationHeadroom_def MaxOperationHistoryReservedBytes_def MaxOperationHistoryReceiptBytes_def
    MaxOperationHistorySerializedReceipt_def OperationHistoryEnvelopeReserveBytes_def
    OperationHistoryAtomicTempReserveBytes_def OperationHistoryJournalReserveBytes_def)

lemma sample_unpublished: "readOperationIndex sample_identity first_directory = Inr None"
  using sealed_record(3) [OF sample_sealed_valid] sample_record(1)
  by (simp add: readOperationIndex_def first_files file_at_def read_file_def)

lemma sample_accepted: "st_validator sample_history_store (decoded_record sample_sealed) = Some sample_sealed"
  "st_maxBytes sample_history_store \<le> maxOperationHistoryStoreBytes"
  by (simp_all add: sample_history_store_def)

lemma sample_space: "int MaxOperationHistoryReservedBytes + operationHistoryPublicationHeadroom \<le> st_maxBytes sample_history_store"
  by (simp add: sample_history_store_def maxOperationHistoryStoreBytes_def
    operationHistoryPublicationHeadroom_def MaxOperationHistoryReservedBytes_def MaxOperationHistoryReceiptBytes_def
    MaxOperationHistorySerializedReceipt_def OperationHistoryEnvelopeReserveBytes_def
    OperationHistoryAtomicTempReserveBytes_def OperationHistoryJournalReserveBytes_def)

theorem reserved_evidence_is_archived_witness:
  "\<exists>token reserved ref archived s.
    Reserve sample_history_store Lock_obtained sample_identity sample_start (Some 7) (working first_directory) = ((None, token), reserved) \<and>
    AppendValidated sample_history_store Lock_obtained token sample_sealed (sample_start + 2) (working (hw_dir reserved)) =
      (Inr ref, archived) \<and>
    MatchesValidatedRecord ref sample_sealed \<and> settled_archive sample_history_store no_checkpoint (hw_dir archived) \<and>
    readStoredRecord sample_history_store (operationHistoryIdentityIDMust sample_identity) (hw_dir archived) = Inr s \<and>
    sd_Record s = sample_sealed"
  using reserved_evidence_is_archived [where found = None and random = 7 and now = sample_start and later = "sample_start + 2"
      and evidence = sample_sealed, OF first_settled sample_accepted(2)] sample_times_ok sample_start_ok sample_record sample_room
    sample_decoded sample_sealed_valid sample_accepted(1) sample_unpublished
  by (simp add: first_files overtaken_def file_at_def)

section \<open>Evidence is kept\<close>

text \<open>C32: archived evidence is kept.  Over any operations on the archive, interrupted anywhere, a record
  once there stays as it is until its publication is confirmed: the only operation that may remove it
  is an acknowledgement of a valid batch that names it, with a sealed confirmation of that batch.\<close>

theorem archived_evidence_is_kept:
  assumes "file_at (hd_records (run_archive st earlier new_directory)) k = Doc s"
    "k \<notin> confirmed_in (earlier @ later)"
  shows "file_at (hd_records (run_archive st (earlier @ later) new_directory)) k = Doc s"
proof -
  let ?d = "run_archive st earlier new_directory"
  let ?K = "confirmed_in (earlier @ later)"
  have names: "confirmed_in earlier \<union> confirmed_in later = ?K" "confirmed_in later \<union> ?K = ?K"
    by (auto simp: confirmed_in_def)
  have "keeps_evidence ?K new_directory ?d" using run_keeps_evidence [of earlier "confirmed_in later" new_directory st] names by simp
  then have "set (published_ids ?d) \<subseteq> ?K" by (simp add: keeps_evidence_def published_ids_def new_directory_def)
  moreover have "keeps_evidence ?K ?d (run_archive st later ?d)" using run_keeps_evidence [of later ?K ?d st] names by simp
  moreover have "run_archive st (earlier @ later) new_directory = run_archive st later ?d" by (simp add: run_archive_def)
  ultimately show ?thesis using assms by (simp add: keeps_evidence_def)
qed

section \<open>The account and its recovery\<close>

text \<open>C33: the account is what a recount gives.  After any operations on a new archive other than
  acknowledgements, interrupted anywhere, by an error of the file system, the end of a context or a
  crash, the marker of an unfinished mutation is there, or the usage on disk is the one that reading
  every file again computes, and it is within the bytes allowed.\<close>

theorem archive_account_is_exact:
  assumes "st_maxBytes st \<le> maxOperationHistoryStoreBytes" "keeps_identity st"
    "list_all (\<lambda>c. ordinary st (ac_op c)) calls" "d = run_archive st calls new_directory" "\<not> hd_marker d" "d \<noteq> new_directory"
  shows "\<exists>u. readUsage st d = Inr u \<and> recount st (us_CapacityBlockedCount u) (working d) = (Inr u, working d) \<and>
    us_UsedBytes u + us_ReservedBytes u \<le> st_maxBytes st"
proof -
  have "safe_archive st no_checkpoint new_directory" by (simp add: safe_archive_def)
  then have "safe_archive st no_checkpoint d" unfolding assms(4) using safe_run [OF assms(1,2)] assms(3) by blast
  then have settled: "settled_archive st no_checkpoint d" using assms(5,6) by (auto simp: safe_archive_def mendable_def)
  then obtain u where u: "readUsage st d = Inr u" "u = tally st (us_CapacityBlockedCount u) no_checkpoint d" "writable_usage st u"
    by (rule settled_usage)
  have "reads d (tally st (us_CapacityBlockedCount u) no_checkpoint d) (recount st (us_CapacityBlockedCount u))"
    using settled by (intro recount_orderly) (simp add: settled_archive_def)
  then have "recount st (us_CapacityBlockedCount u) (working d) = (Inr (tally st (us_CapacityBlockedCount u) no_checkpoint d), working d)"
    by (rule reads_run(1)) (simp_all add: working_def)
  then have "recount st (us_CapacityBlockedCount u) (working d) = (Inr u, working d)" by (simp flip: u(2))
  then show ?thesis using u(1,3) by (auto simp: writable_usage_def)
qed

text \<open>
  A batch is frozen, and what the archive holds leaves its tailroom but not the headroom that a
  recount insists on.
\<close>

definition blocked_by_batch :: "OperationHistoryStore \<Rightarrow> history_dir \<Rightarrow> bool" where
  "blocked_by_batch st d \<longleftrightarrow> (\<exists>p. readPendingBatchDescriptor d = Inr (Some p)) \<and>
     (let u = tally st 0 no_checkpoint d; held = us_UsedBytes u + us_ReservedBytes u
      in held + operationHistoryPublicationTailroom \<le> st_maxBytes st \<and>
         st_maxBytes st < held + operationHistoryPublicationHeadroom)"

lemma overfull_blocked:
  assumes "overfull st no_checkpoint e d" "operationHistoryPublicationHeadroom \<le> st_maxBytes st"
  shows "e = capacity \<and> blocked_by_batch st d"
proof -
  let ?u = "tally st 0 no_checkpoint d"
  have order: "orderly st no_checkpoint d" and full: "\<not> within_bounds st ?u" and e: "e = capacity"
    using assms(1) by (simp_all add: overfull_def)
  have room: "roomy st no_checkpoint d" using order by (simp add: orderly_def)
  have "us_OperationKeyCount ?u \<le> maxOperationHistoryOperationKeys"
    using order by (simp add: orderly_def listed_def tally_def Let_def)
  then have short: "st_maxBytes st < us_UsedBytes ?u + us_ReservedBytes ?u + operationHistoryPublicationHeadroom"
    using full room by (auto simp: within_bounds_def roomy_def tally_def Let_def)
  then have descriptor: "hd_descriptor d \<noteq> Absent" using room assms(2) by (auto simp: roomy_def)
  then have "us_UsedBytes ?u + us_ReservedBytes ?u + operationHistoryPublicationTailroom \<le> st_maxBytes st"
    using room assms(2) by (simp add: roomy_def)
  moreover have "\<exists>p. readPendingBatchDescriptor d = Inr (Some p)"
    using order descriptor by (auto simp: orderly_def descriptor_ok_def readPendingBatchDescriptor_def read_file_def corrupt_def
      split: stored.splits if_splits)
  ultimately show ?thesis using e short by (simp add: blocked_by_batch_def Let_def)
qed

text \<open>C34: the archive recovers.  Take an archive within the sizes that opening it allows, a validator that
  keeps the identity of a record, and operations that are ordinary: no acknowledgements, reservations only
  for names that are valid UTF-8, appends only of records that the validator seals as they are.
  Wherever those operations on a new archive were interrupted, the next operation under the lock whose
  writes are made mends it, finishing or undoing what was under way: asking for the usage returns the
  exact usage, and leaves the archive settled.  There is one exception: a batch is frozen, and with it the
  archive holds less than the headroom, which a recount insists on, though still its tailroom; then the
  error is one of capacity.
\<close>

theorem archive_recovers:
  assumes "st_maxBytes st \<le> maxOperationHistoryStoreBytes" "keeps_identity st" "list_all (\<lambda>c. ordinary st (ac_op c)) calls"
    "int MaxOperationHistoryReservedBytes + operationHistoryPublicationHeadroom \<le> st_maxBytes st"
    "Usage st Lock_obtained (working (run_archive st calls new_directory)) = (result, w)"
  shows "case result of
      Inr usage \<Rightarrow> settled_archive st no_checkpoint (hw_dir w) \<and>
        (\<exists>u. readUsage st (hw_dir w) = Inr u \<and> usage = publicOperationHistoryUsage u)
    | Inl e \<Rightarrow> e = capacity \<and> blocked_by_batch st (hw_dir w)"
proof -
  let ?d = "run_archive st calls new_directory"
  have "safe_archive st no_checkpoint new_directory" by (simp add: safe_archive_def)
  then have "safe_archive st no_checkpoint ?d" using safe_run [OF assms(1,2)] assms(3) by blast
  then have ensured: "leads 5 (safe_archive st no_checkpoint) (overfull st no_checkpoint)
      (\<lambda>u d. settled_archive st no_checkpoint d \<and> readUsage st d = Inr u) (ensureUsageLocked st) (working ?d)"
    using assms(1) by (intro leads_ensureUsage) (simp_all add: working_def)
  have five: "(5 :: nat) = Suc (Suc (Suc (Suc (Suc 0))))" by simp
  have willing: "willing 5 (working ?d)" unfolding willing_def working_def five by simp
  have run: "bnd (ensureUsageLocked st) (\<lambda>u. ret (publicOperationHistoryUsage u)) (working ?d) = (result, w)"
    using assms(5) by (simp add: Usage_def unlocked working_def)
  obtain found v where found: "ensureUsageLocked st (working ?d) = (found, v)" by (cases "ensureUsageLocked st (working ?d)")
  show ?thesis
  proof (cases found)
    case (Inl e)
    have "overfull st no_checkpoint e (hw_dir v)"
      using ensured willing unfolding leads_def found Inl prod.case sum.case by blast
    moreover have "result = Inl e" "w = v" using run found Inl by (simp_all add: bnd_err)
    moreover have "operationHistoryPublicationHeadroom \<le> st_maxBytes st" using assms(4) by simp
    ultimately show ?thesis using overfull_blocked by simp
  next
    case (Inr u)
    have "settled_archive st no_checkpoint (hw_dir v) \<and> readUsage st (hw_dir v) = Inr u"
      using ensured unfolding leads_def found Inr prod.case sum.case by blast
    moreover have "result = Inr (publicOperationHistoryUsage u)" "w = v" using run found Inr by (simp_all add: bnd_run)
    ultimately show ?thesis by simp
  qed
qed

section \<open>Sample runs\<close>

definition sample_call :: "archive_op \<Rightarrow> archive_call" where
  "sample_call operation = \<lparr>ac_op = operation, ac_lock = Lock_obtained, ac_polls = None,
     ac_ios = [Io_ok, Io_ok, Io_ok, Io_ok, Io_ok, Io_ok]\<rparr>"

lemma sample_world: "call_world (sample_call operation) d = working d"
  by (simp add: call_world_def sample_call_def working_def)

lemma sample_keeps: "keeps_identity sample_history_store"
  using sample_decoded sample_record(1) by (simp add: keeps_identity_def sample_history_store_def decoded_record_def)

lemma first_recount: "rebuildUsageLocked sample_history_store (working new_directory) =
    (Inr (), \<lparr>hw_dir = first_directory, hw_ios = [Io_ok, Io_ok, Io_ok], hw_polls = None\<rparr>)"
proof -
  let ?d = "new_directory\<lparr>hd_marker := True\<rparr>"
  let ?w = "\<lparr>hw_dir = ?d, hw_ios = [Io_ok, Io_ok, Io_ok, Io_ok, Io_ok], hw_polls = None\<rparr>"
  have order: "orderly sample_history_store no_checkpoint ?d" by (simp add: marked_orderly new_directory_orderly)
  have count: "recount sample_history_store 0 ?w = (Inr first_usage, ?w)"
    using reads_run(1) [OF recount_orderly [OF order], of ?w 0] by (simp add: first_usage_def marked_orderly)
  have blocked: "blocked_before sample_history_store new_directory = 0"
    by (simp add: blocked_before_def readUsage_def read_file_def new_directory_def)
  have replay: "replay_publication sample_history_store ?w = (Inr (), ?w)"
    by (simp add: replay_publication_def new_directory_def present_def)
  have bounds: "within_bounds sample_history_store first_usage"
    by (simp add: within_bounds_def first_fields sample_history_store_def maxOperationHistoryPendingRecords_def
      maxOperationHistoryReservations_def maxOperationHistoryOperationKeys_def maxOperationHistoryStoreBytes_def
      operationHistoryPublicationHeadroom_def)
  have "finished first_usage ?d = first_directory" by (simp add: first_directory_def finished_def)
  then show ?thesis
    by (simp add: rebuildUsageLocked_def working_def blocked begun thn_run [where m = "replay_publication _", OF replay] bnd_run [where m = "recount _ _", OF count] bounds ended)
qed

lemma first_call: "run_call sample_history_store (sample_call Usage_op) new_directory = first_directory"
proof -
  have "\<not> is_ok (readUsage sample_history_store new_directory)" by (simp add: readUsage_def read_file_def new_directory_def)
  then have "ensureUsageLocked sample_history_store (working new_directory) =
      (Inr first_usage, \<lparr>hw_dir = first_directory, hw_ios = [Io_ok, Io_ok, Io_ok], hw_polls = None\<rparr>)"
    using first_recount first_settled(2) by (simp add: ensureUsageLocked_def thn_run) (simp add: working_def)
  then show ?thesis
    by (simp add: run_call_def Let_def sample_world) (simp add: sample_call_def Usage_def unlocked working_def bnd_run)
qed

theorem archive_account_is_exact_witness:
  "\<exists>u. readUsage sample_history_store first_directory = Inr u \<and>
    recount sample_history_store (us_CapacityBlockedCount u) (working first_directory) = (Inr u, working first_directory) \<and>
    us_UsedBytes u + us_ReservedBytes u \<le> st_maxBytes sample_history_store"
  by (rule archive_account_is_exact [OF sample_accepted(2) sample_keeps, of "[sample_call Usage_op]"])
     (simp_all add: run_archive_def first_call, simp_all add: sample_call_def ordinary_def first_directory_def finished_def
       new_directory_def)

theorem archive_recovers_witness:
  "case fst (Usage sample_history_store Lock_obtained (working first_directory)) of
      Inr usage \<Rightarrow> settled_archive sample_history_store no_checkpoint
          (hw_dir (snd (Usage sample_history_store Lock_obtained (working first_directory)))) \<and>
        (\<exists>u. readUsage sample_history_store (hw_dir (snd (Usage sample_history_store Lock_obtained (working first_directory)))) = Inr u \<and>
          usage = publicOperationHistoryUsage u)
    | Inl e \<Rightarrow> e = capacity \<and>
        blocked_by_batch sample_history_store (hw_dir (snd (Usage sample_history_store Lock_obtained (working first_directory))))"
  by (rule archive_recovers [OF sample_accepted(2) sample_keeps, of "[sample_call Usage_op]"])
     (simp_all add: run_archive_def first_call sample_space, simp_all add: sample_call_def ordinary_def)

lemma sample_append_run:
  obtains s where "file_at (hd_records (run_archive sample_history_store
      [sample_call Usage_op, sample_call (Reserve_op sample_identity sample_start (Some 7)),
       sample_call (Append_op \<lparr>rv_identityID = operationHistoryIdentityIDMust sample_identity, rv_token = hex_encode (be_bytes 32 7)\<rparr>
         sample_sealed (sample_start + 2))] new_directory)) (operationHistoryIdentityIDMust sample_identity) = Doc s"
proof -
  let ?k = "operationHistoryIdentityIDMust sample_identity"
  let ?token = "hex_encode (be_bytes 32 7)"
  have token: "newOperationHistoryReservationToken (Some 7) = Some ?token" by (simp add: newOperationHistoryReservationToken_def)
  have identity: "validateOperationHistoryIdentity sample_identity" using sealed_record(3) [OF sample_sealed_valid] sample_record(1) by simp
  have absent: "file_at (hd_records first_directory) ?k = Absent" "file_at (hd_reservations first_directory) ?k = Absent"
    by (simp_all add: first_files file_at_def)
  have stale: "\<not> overtaken g None" for g by (simp add: overtaken_def)
  note reserve = reserve_works [OF first_settled sample_accepted(2) sample_room identity sample_decoded refl absent
    sample_unpublished stale sample_later_nonzero(1) sample_start_ok(2) token]
  let ?d = "reserve_result sample_identity ?token sample_start first_usage first_directory"
  obtain u where u: "readUsage sample_history_store ?d = Inr u" using reserve(2) by (rule settled_usage)
  have "hd_usage ?d = Doc (publicOperationHistoryUsage (reserve_usage first_usage))" by (simp add: reserve_result_def finished_def)
  then have "u = reserve_usage first_usage" using u by (rule usage_written)
  then have room: "us_RecordCount u < maxOperationHistoryPendingRecords"
    by (simp add: reserve_usage_def first_fields maxOperationHistoryPendingRecords_def)
  have index: "readOperationIndex (hr_Identity sample_sealed) ?d = Inr None"
    using sample_unpublished readOperationIndex_cong [of ?d first_directory] sample_record(1)
    by (simp add: reserve_result_def finished_def set_reservation_def)
  have "x \<noteq> ''''" if "validHistoryToken x" for x using that by (auto simp: validHistoryToken_def hex_string_def)
  from this [OF token_valid [OF token]] have token_ok: "?token \<noteq> ''''" .
  obtain ref w s where run: "AppendValidated sample_history_store Lock_obtained \<lparr>rv_identityID = ?k, rv_token = ?token\<rparr>
      sample_sealed (sample_start + 2) (working ?d) = (Inr ref, w)" and s: "readStoredRecord sample_history_store ?k (hw_dir w) = Inr s"
    by (rule append_works [where k = ?k and now = "sample_start + 2", OF reserve(2) u sample_accepted(2) sample_sealed_valid sample_accepted(1) sample_record(2) _
          reserve(3) _ _ token_ok index stale room])
       (use sample_record sample_times_ok sample_start_ok in \<open>simp_all add: reservation_file_def\<close>)
  obtain r where "file_at (hd_records (hw_dir w)) ?k = Doc r"
    using s by (auto simp: readStoredRecord_def read_file_def split: stored.splits)
  moreover have "run_archive sample_history_store [sample_call Usage_op, sample_call (Reserve_op sample_identity sample_start (Some 7)),
      sample_call (Append_op \<lparr>rv_identityID = ?k, rv_token = ?token\<rparr> sample_sealed (sample_start + 2))] new_directory = hw_dir w"
    using reserve(1) run
    by (simp add: run_archive_def first_call) (simp add: run_call_def Let_def sample_world, simp add: sample_call_def)
  ultimately show thesis using that by simp
qed

theorem archived_evidence_is_kept_witness:
  "\<exists>s. file_at (hd_records (run_archive sample_history_store
      ([sample_call Usage_op, sample_call (Reserve_op sample_identity sample_start (Some 7)),
        sample_call (Append_op \<lparr>rv_identityID = operationHistoryIdentityIDMust sample_identity, rv_token = hex_encode (be_bytes 32 7)\<rparr>
         sample_sealed (sample_start + 2))] @ [sample_call Pending_op, sample_call Reopen_op]) new_directory))
      (operationHistoryIdentityIDMust sample_identity) = Doc s"
proof -
  have "x \<notin> confirmed_in ([sample_call Usage_op, sample_call (Reserve_op i now random), sample_call (Append_op token evidence later)] @
      [sample_call Pending_op, sample_call Reopen_op])" for x i now random token evidence later
    by (simp add: confirmed_in_def confirmed_ids_def sample_call_def)
  note archived_evidence_is_kept [OF _ this]
  with sample_append_run show ?thesis by metis
qed

end
