(* ===== verification/Operation_Plan.thy ===== *)
theory Operation_Plan
  imports Complex_Main Operation_Manifest Operation_History_Files
begin

text \<open>
  \<^verbatim>\<open>internal/health/operation_observation_plan.go\<close>: the observation plan of a pinned Registry release.
  A release manifest binds an index, the index binds shards of operation records, and a record says how
  one operation may be observed.  The files of the release are a function from safe relative paths to
  the bytes of regular files.  The JSON decoders and the schema engine are the record \<open>plan_codec\<close>; a
  JSON value decoded into \<^verbatim>\<open>any\<close> is a \<open>json\<close>, and what the code reads of it is written out.  The one
  error of the file, \<^verbatim>\<open>errOperationObservationPlanInvalid\<close>, is \<open>None\<close>.
\<close>

section \<open>Data\<close>

record OperationObservationPlanBinding =
  bi_RegistryRevision :: string
  bi_ReleaseManifestPath :: string
  bi_ReleaseManifestBytes :: int
  bi_ReleaseManifestSHA256 :: string
  bi_IndexPath :: string
  bi_IndexBytes :: int
  bi_IndexSHA256 :: string
  bi_SchemaRegistryRevision :: string
  bi_SchemaSHA256 :: string

record OperationObservationPlanCounts =
  pn_KnownOperations :: int
  pn_RequestPlansComplete :: int
  pn_RequestPlansIncomplete :: int
  pn_RuntimeBindingsBound :: int
  pn_RuntimeBindingsUnbound :: int
  pn_Admitted :: int
  pn_NotAdmitted :: int
  pn_InventoryUnknownScopes :: int

record operationPlanArtifactRef =
  ar_Path :: string
  ar_SHA256 :: string
  ar_Bytes :: int

record OperationObservationPlanSourceScope =
  sp_SourceID :: string
  sp_Provider :: string
  sp_AdapterID :: string
  sp_InventoryStatus :: string
  sp_InventoryUnknown :: bool
  sp_TestOnly :: bool
  sp_RegisteredOperations :: int
  sp_IdentitySetSHA256 :: string
  sp_SourceArtifacts :: "operationPlanArtifactRef list"

record operationObservationPlanShardRef =
  sf_SourceID :: string
  sf_ShardIndex :: int
  sf_Path :: string
  sf_SHA256 :: string
  sf_Bytes :: int
  sf_RecordCount :: int
  sf_FirstOperationID :: string
  sf_LastOperationID :: string

record operationPlanInventoryContext =
  iy_SeparateLinkOperations :: int
  iy_ProviderIndexAdapterEntries :: int
  iy_ProviderIndexEntriesCountedAsOperations :: bool

text \<open>A \<^verbatim>\<open>json.RawMessage\<close> is its bytes.\<close>

record operationObservationPlanIndex =
  ix_SchemaVersion :: string
  ix_ArtifactKind :: string
  ix_RegistryRevision :: string
  ix_GenerationInputs :: string
  ix_InventoryContext :: operationPlanInventoryContext
  ix_Summary :: OperationObservationPlanCounts
  ix_SourceScopes :: "OperationObservationPlanSourceScope list"
  ix_Shards :: "operationObservationPlanShardRef list"

record operationObservationPlanGenerationInputs =
  gi_GeneratorPath :: string
  gi_GeneratorSHA256 :: string
  gi_OperationManifest :: operationPlanArtifactRef
  gi_OperationDenominators :: "operationPlanArtifactRef list"
  gi_LegacyPolicy :: operationPlanArtifactRef
  gi_ProviderIndex :: "operationPlanArtifactRef option"
  gi_DocumentEvidence :: "operationPlanArtifactRef list"

type_synonym plan_files = "string \<Rightarrow> string option"

record operationPlanIndexState =
  sx_index :: operationObservationPlanIndex
  sx_root :: plan_files
  sx_manifest :: "(string, ReleaseArtifact) gomap"
  sx_byScope :: "(string, OperationObservationPlanSourceScope) gomap"
  sx_operationManifestRef :: operationPlanArtifactRef
  sx_providerIndexRef :: "operationPlanArtifactRef option"
  sx_verified :: bool
  sx_executableOperations :: int

record PinnedOperationObservationPlan =
  pp_binding :: OperationObservationPlanBinding
  pp_state :: operationPlanIndexState

record operationQuotaPolicyBinding =
  qb_Kind :: string
  qb_Key :: string
  qb_Policy :: OperationQuotaPolicy

record OperationObservationPlanRecord =
  op_OperationID :: string
  op_Protocol :: string
  op_ResponseAssertionKind :: string
  op_DatasetID :: string
  op_OperationName :: string
  op_UpstreamOperationKey :: string
  op_LegacySelectors :: "string list"
  op_SourceID :: string
  op_Provider :: string
  op_AdapterID :: string
  op_InventoryStatus :: string
  op_InventoryUnknown :: bool
  op_TestOnly :: bool
  op_RequestPlanStatus :: string
  op_RequestPlanMissing :: "string list"
  op_RuntimeBindingStatus :: string
  op_RuntimeBindingMissing :: "string list"
  op_AdmissionStatus :: string
  op_AdmissionReasons :: "string list"
  op_ObservationPeriod :: duration
  op_RequestTimeout :: duration
  op_QuotaPolicies :: "OperationQuotaPolicy list"
  op_QuotaPoliciesAdmitted :: bool
  op_ExecutionEligible :: bool
  op_ExecutionBlockReason :: string
  op_quotaBindings :: "operationQuotaPolicyBinding list"

record operationPlanRecordWire =
  wr_SchemaVersion :: string
  wr_ArtifactKind :: string
  wr_SourceBinding :: string
  wr_OperationIdentity :: string
  wr_RequestPlan :: string
  wr_RuntimeBinding :: string
  wr_Admission :: string
  wr_LegacyPolicy :: string

record operationPlanSourceBindingWire =
  ws_SourceID :: string
  ws_Provider :: string
  ws_AdapterID :: string
  ws_InventoryStatus :: string
  ws_InventoryUnknown :: bool
  ws_TestOnly :: bool

record operationPlanIdentityWire =
  wi_OperationID :: string
  wi_Protocol :: string
  wi_DatasetID :: string
  wi_OperationName :: string
  wi_UpstreamOperationKey :: string
  wi_LegacySelectors :: "string list"

record operationPlanRequestWire =
  wq_Status :: string
  wq_MissingFields :: "string list"
  wq_RequestContract :: string

record operationPlanQuotaPolicyWire =
  wp_ScopeKind :: string
  wp_ScopeKey :: string
  wp_ScopeSHA256 :: string
  wp_MaxConcurrent :: int
  wp_RequestsPerWindow :: int
  wp_WindowSeconds :: int
  wp_MinimumIntervalSeconds :: int
  wp_EvidenceRefs :: "OperationQuotaEvidenceRef list"

record operationPlanRuntimeWire =
  wt_Status :: string
  wt_MissingFields :: "string list"
  wt_CredentialReference :: string
  wt_CredentialScopeKey :: string
  wt_ObservationPeriodSeconds :: int
  wt_QuotaPolicies :: "operationPlanQuotaPolicyWire list"

record operationPlanAdmissionWire =
  wa_Status :: string
  wa_Reasons :: "string list"

record operationObservationPlanShardWire =
  wh_SchemaVersion :: string
  wh_ArtifactKind :: string
  wh_SourceID :: string
  wh_ShardIndex :: int
  wh_Records :: "string list"

text \<open>What is read of a request contract: its timeout in milliseconds and the kind of its assertion.\<close>

record plan_contract =
  cn_TimeoutMS :: int
  cn_Kind :: string

text \<open>A value decoded into \<^verbatim>\<open>any\<close>; a \<^verbatim>\<open>float64\<close> is a rational number.\<close>

datatype json = J_null | J_bool bool | J_num rat | J_str string | J_arr "json list" | J_obj "(string \<times> json) list"

record plan_codec =
  cd_schema_ok :: "string \<Rightarrow> bool"
  cd_schema_sha :: string
  cd_release :: "string \<Rightarrow> RegistryReleaseManifest option"
  cd_index :: "string \<Rightarrow> operationObservationPlanIndex option"
  cd_generation :: "string \<Rightarrow> operationObservationPlanGenerationInputs option"
  cd_shard :: "string \<Rightarrow> operationObservationPlanShardWire option"
  cd_record :: "string \<Rightarrow> operationPlanRecordWire option"
  cd_source :: "string \<Rightarrow> operationPlanSourceBindingWire option"
  cd_identity :: "string \<Rightarrow> operationPlanIdentityWire option"
  cd_request :: "string \<Rightarrow> operationPlanRequestWire option"
  cd_runtime :: "string \<Rightarrow> operationPlanRuntimeWire option"
  cd_admission :: "string \<Rightarrow> operationPlanAdmissionWire option"
  cd_contract :: "string \<Rightarrow> plan_contract option"
  cd_any :: "string \<Rightarrow> json option"
  cd_url_scheme :: "string \<Rightarrow> bool"

definition OperationObservationPlanSchemaVersion :: string where
  "OperationObservationPlanSchemaVersion = ''datapan.operation-observation-plan.v1''"

definition operationObservationPlanSchemaURI :: string where
  "operationObservationPlanSchemaURI = ''https://schemas.datapan.dev/datapan.operation-observation-plan.v1.schema.json''"

definition operationObservationPlanSchemaSHA256 :: string where
  "operationObservationPlanSchemaSHA256 = ''cafa93014d7a32ef072f74df1a730f681e5b206440e4a83e9cdf426f6686e162''"

definition operationObservationSchemaRegistryRevision :: string where
  "operationObservationSchemaRegistryRevision = ''da02fccaee4989c5c6dcf3b60e8e627ecd477cca''"

definition maxOperationObservationIndexBytes :: int where "maxOperationObservationIndexBytes = 16 * 1024 * 1024"
definition maxOperationObservationManifestBytes :: int where "maxOperationObservationManifestBytes = 16 * 1024 * 1024"
definition maxOperationObservationShardBytes :: int where "maxOperationObservationShardBytes = 16 * 1024 * 1024"
definition maxOperationObservationShards :: nat where "maxOperationObservationShards = 4096"
definition maxOperationObservationOperations :: int where "maxOperationObservationOperations = 100000"
definition maxOperationObservationRequestBytes :: int where "maxOperationObservationRequestBytes = 1024 * 1024"
definition maxOperationObservationResponseBytes :: int where "maxOperationObservationResponseBytes = 1024 * 1024"
definition maxOperationObservationTimeoutMS :: int where "maxOperationObservationTimeoutMS = 20000"

section \<open>Texts and paths\<close>

text \<open>\<^verbatim>\<open>strings.Split\<close> by one character.\<close>

fun split_on :: "char \<Rightarrow> string \<Rightarrow> string list" where
  "split_on c [] = [[]]"
| "split_on c (x # xs) = (if x = c then [] # split_on c xs
     else case split_on c xs of [] \<Rightarrow> [[x]] | part # parts \<Rightarrow> (x # part) # parts)"

definition contains_any :: "string \<Rightarrow> string \<Rightarrow> bool" where
  "contains_any s chars \<longleftrightarrow> list_ex (\<lambda>c. c \<in> set chars) s"

text \<open>A path none of whose parts is empty, \<^verbatim>\<open>.\<close> or \<^verbatim>\<open>..\<close> is relative and already clean.\<close>

definition safePlanRelativePath :: "string \<Rightarrow> bool" where
  "safePlanRelativePath path \<longleftrightarrow> path \<noteq> '''' \<and> \<not> contains_any path [CHR 0x5C, CHR 0x00, CHR ''?'', CHR ''#''] \<and>
     list_all (\<lambda>part. part \<noteq> '''' \<and> part \<noteq> ''.'' \<and> part \<noteq> ''..'') (split_on CHR ''/'' path)"

definition readPlanArtifact :: "plan_files \<Rightarrow> string \<Rightarrow> int \<Rightarrow> int \<Rightarrow> string option" where
  "readPlanArtifact files path expectedBytes maximumBytes =
     (if \<not> safePlanRelativePath path \<or> expectedBytes \<le> 0 \<or> expectedBytes > maximumBytes then None
      else case files path of
        None \<Rightarrow> None
      | Some data \<Rightarrow> (if int (length data) \<noteq> expectedBytes then None else Some data))"

text \<open>\<^verbatim>\<open>range\<close> over a string decodes it, and every invalid byte becomes U+FFFD.\<close>

definition canonical_ascii :: "nat \<Rightarrow> string" where
  "canonical_ascii b =
     (if b = 34 \<or> b = 92 then [CHR 0x5C, char_of b]
      else if b = 8 then [CHR 0x5C, CHR ''b''] else if b = 12 then [CHR 0x5C, CHR ''f'']
      else if b = 10 then [CHR 0x5C, CHR ''n''] else if b = 13 then [CHR 0x5C, CHR ''r'']
      else if b = 9 then [CHR 0x5C, CHR ''t'']
      else if b < 32 then [CHR 0x5C, CHR ''u'', CHR ''0'', CHR ''0'', hex_digit (b div 16), hex_digit (b mod 16)]
      else [char_of b])"

definition canonicalJSONString :: "string \<Rightarrow> string" where
  "canonicalJSONString s = CHR 0x22 # concat (List.map canonical_ascii (bytes_of (utf8_repair s))) @ [CHR 0x22]"

text \<open>\<^verbatim>\<open>operationIdentitySetHash\<close>, fed all its identities.\<close>

definition identity_set_digest :: "string list \<Rightarrow> string" where
  "identity_set_digest ids = sha256_hex (''['' @ commas (List.map canonicalJSONString ids) @ '']'')"

section \<open>Values of type \<open>any\<close>\<close>

definition as_object :: "json \<Rightarrow> (string, json) gomap option" where
  "as_object v = (case v of J_obj m \<Rightarrow> Some m | _ \<Rightarrow> None)"

text \<open>A missing member, and a member of \<^verbatim>\<open>nil\<close>, is \<^verbatim>\<open>nil\<close>.\<close>

definition gm_member :: "(string, json) gomap \<Rightarrow> string \<Rightarrow> json" where
  "gm_member m k = (case gm_get m k of None \<Rightarrow> J_null | Some v \<Rightarrow> v)"

definition object_or_nil :: "json \<Rightarrow> (string, json) gomap" where
  "object_or_nil v = (case as_object v of None \<Rightarrow> [] | Some m \<Rightarrow> m)"

definition stringValue :: "json \<Rightarrow> string" where
  "stringValue v = (case v of J_str s \<Rightarrow> s | _ \<Rightarrow> '''')"

text \<open>A number that is not the value of an \<^verbatim>\<open>int64\<close> reads 0 (as amd64 converts \<^verbatim>\<open>2^63\<close>).\<close>

definition integerValue :: "json \<Rightarrow> int" where
  "integerValue v = (case v of
     J_num r \<Rightarrow> (if of_int \<lfloor>r\<rfloor> = r \<and> - (2 ^ 63) \<le> r \<and> r < 2 ^ 63 then \<lfloor>r\<rfloor> else 0) | _ \<Rightarrow> 0)"

definition anySlice :: "json \<Rightarrow> json list" where
  "anySlice v = (case v of J_arr xs \<Rightarrow> xs | _ \<Rightarrow> [])"

text \<open>\<^verbatim>\<open>json.Marshal\<close> sorts the members of a map: two values have one text when they agree so sorted.\<close>

fun json_sorted :: "json \<Rightarrow> json" where
  "json_sorted (J_arr xs) = J_arr (List.map json_sorted xs)"
| "json_sorted (J_obj m) = J_obj (sort_key fst (List.map (\<lambda>(k, v). (k, json_sorted v)) m))"
| "json_sorted v = v"

definition equalJSON :: "json \<Rightarrow> json \<Rightarrow> bool" where
  "equalJSON l r \<longleftrightarrow> json_sorted l = json_sorted r"

fun json_all :: "(json \<Rightarrow> bool) \<Rightarrow> json \<Rightarrow> bool" where
  "json_all P (J_arr xs) \<longleftrightarrow> P (J_arr xs) \<and> list_all (json_all P) xs"
| "json_all P (J_obj m) \<longleftrightarrow> P (J_obj m) \<and> list_all (\<lambda>(k, v). json_all P v) m"
| "json_all P v \<longleftrightarrow> P v"

definition synthetic_node :: "json \<Rightarrow> bool" where
  "synthetic_node v \<longleftrightarrow> (case v of
     J_obj m \<Rightarrow> gm_member m ''evidence_kind'' = J_str ''synthetic_fixture'' \<or> gm_member m ''authority'' = J_str ''synthetic_fixture''
   | _ \<Rightarrow> False)"

definition operationPlanHasSyntheticEvidence :: "plan_codec \<Rightarrow> string \<Rightarrow> bool" where
  "operationPlanHasSyntheticEvidence cd raw =
     (case cd_any cd raw of None \<Rightarrow> True | Some v \<Rightarrow> \<not> json_all (\<lambda>n. \<not> synthetic_node n) v)"

definition evidence_node_bound :: "(string, ReleaseArtifact) gomap \<Rightarrow> json \<Rightarrow> bool" where
  "evidence_node_bound manifest v \<longleftrightarrow> (case v of
     J_obj m \<Rightarrow>
       (case gm_member m ''artifact_path'' of
          J_str path \<Rightarrow>
            (case gm_member m ''sha256'' of
               J_str sha \<Rightarrow> safePlanRelativePath path \<and> sha256Pattern sha \<and>
                 (case gm_get manifest path of None \<Rightarrow> False | Some artifact \<Rightarrow> ra_SHA256 artifact = sha)
             | _ \<Rightarrow> False)
        | _ \<Rightarrow> True)
   | _ \<Rightarrow> True)"

definition allOperationPlanEvidenceBound :: "plan_codec \<Rightarrow> string \<Rightarrow> (string, ReleaseArtifact) gomap \<Rightarrow> bool" where
  "allOperationPlanEvidenceBound cd raw manifest =
     (case cd_any cd raw of None \<Rightarrow> False | Some v \<Rightarrow> json_all (evidence_node_bound manifest) v)"

section \<open>What may be executed\<close>

definition supportedContractAuthority :: "json \<Rightarrow> bool" where
  "supportedContractAuthority v \<longleftrightarrow>
     stringValue v \<in> set [''operation_document'', ''operation_specific_declaration'', ''reviewed_policy'']"

definition host_label :: "string \<Rightarrow> bool" where
  "host_label s \<longleftrightarrow> s \<noteq> [] \<and> list_all (\<lambda>c. lower_alnum c \<or> c = CHR ''-'') s \<and> lower_alnum (hd s) \<and> lower_alnum (last s)"

definition operationPlanHostPattern :: "string \<Rightarrow> bool" where
  "operationPlanHostPattern s \<longleftrightarrow> list_all host_label (split_on CHR ''.'' s)"

text \<open>A host that matches is in lower case; an IPv4 address matches, and the colon rules out IPv6.\<close>

definition safeOperationHost :: "string \<Rightarrow> bool" where
  "safeOperationHost host \<longleftrightarrow> host \<noteq> [] \<and> length host \<le> 253 \<and>
     \<not> contains_any host ('':/@?#% '' @ [CHR 0x5C, CHR 0x09, CHR 0x0D, CHR 0x0A]) \<and> operationPlanHostPattern host"

fun double_slash :: "string \<Rightarrow> bool" where
  "double_slash (a # b # cs) \<longleftrightarrow> a = CHR ''/'' \<and> b = CHR ''/'' \<or> double_slash (b # cs)"
| "double_slash cs \<longleftrightarrow> False"

definition safeOperationPath :: "string \<Rightarrow> bool" where
  "safeOperationPath path \<longleftrightarrow> path \<noteq> [] \<and> length path \<le> 2048 \<and> hd path = CHR ''/'' \<and>
     \<not> contains_any path [CHR ''?'', CHR ''#'', CHR 0x5C, CHR 0x00, CHR 0x0D, CHR 0x0A] \<and>
     \<not> double_slash path \<and>
     list_all (\<lambda>segment. segment \<noteq> ''.'' \<and> segment \<noteq> ''..'') (split_on CHR ''/'' path)"

definition soapQNameLocalNamePattern :: "string \<Rightarrow> bool" where
  "soapQNameLocalNamePattern s \<longleftrightarrow> s \<noteq> [] \<and> (alnum (hd s) \<and> \<not> is_digit (hd s) \<or> hd s = CHR ''_'') \<and>
     list_all (\<lambda>c. alnum c \<or> c \<in> set ''._-'') (tl s)"

definition namespace_ok :: "plan_codec \<Rightarrow> string \<Rightarrow> bool" where
  "namespace_ok cd s \<longleftrightarrow> s \<noteq> '''' \<and> cd_url_scheme cd s \<and>
     \<not> contains_any s [CHR 0x00, CHR 0x0D, CHR 0x0A, CHR '' '', CHR 0x09]"

definition validOperationQName :: "plan_codec \<Rightarrow> (string, json) gomap \<Rightarrow> bool" where
  "validOperationQName cd qname \<longleftrightarrow> namespace_ok cd (stringValue (gm_member qname ''namespace'')) \<and>
     soapQNameLocalNamePattern (stringValue (gm_member qname ''local_name''))"

definition validSOAPOperationTransport :: "plan_codec \<Rightarrow> (string, json) gomap \<Rightarrow> bool" where
  "validSOAPOperationTransport cd transport \<longleftrightarrow>
     (let version = stringValue (gm_member transport ''soap_version'');
          envelope = stringValue (gm_member transport ''envelope_namespace'');
          soapAction = stringValue (gm_member transport ''soap_action'');
          qname = gm_member transport ''operation_qname''
      in (version = ''1.1'' \<and> envelope = ''http://schemas.xmlsoap.org/soap/envelope/'' \<or>
          version = ''1.2'' \<and> envelope = ''http://www.w3.org/2003/05/soap-envelope'') \<and>
         soapAction \<noteq> '''' \<and> length soapAction \<le> 2048 \<and> \<not> contains_any soapAction [CHR 0x00, CHR 0x0D, CHR 0x0A] \<and>
         stringValue (gm_member transport ''body_encoding'') \<in> set [''document_literal'', ''rpc_literal'', ''encoded_xml''] \<and>
         (case as_object qname of None \<Rightarrow> False
          | Some q \<Rightarrow> validOperationQName cd q \<and> length (stringValue (gm_member q ''local_name'')) \<le> 128))"

definition within_limit :: "json \<Rightarrow> int \<Rightarrow> bool" where
  "within_limit v maximum \<longleftrightarrow> integerValue v \<ge> 1 \<and> integerValue v \<le> maximum"

definition validOperationRequestLimits :: "json \<Rightarrow> bool" where
  "validOperationRequestLimits v \<longleftrightarrow>
     (case as_object v of None \<Rightarrow> False
      | Some limits \<Rightarrow> integerValue (gm_member limits ''request_budget'') = 1 \<and>
          within_limit (gm_member limits ''timeout_ms'') maxOperationObservationTimeoutMS \<and>
          within_limit (gm_member limits ''max_request_bytes'') maxOperationObservationRequestBytes \<and>
          within_limit (gm_member limits ''max_response_bytes'') maxOperationObservationResponseBytes)"

definition validOperationResponseAssertion :: "string \<Rightarrow> json \<Rightarrow> bool" where
  "validOperationResponseAssertion protocol v \<longleftrightarrow>
     (case as_object v of None \<Rightarrow> False
      | Some assertion \<Rightarrow> anySlice (gm_member assertion ''evidence_refs'') \<noteq> [] \<and>
          (let kind = stringValue (gm_member assertion ''kind'')
           in protocol = ''REST'' \<and> kind \<in> set [''http_status'', ''json_contract'', ''observation_only''] \<or>
              protocol = ''SOAP'' \<and> kind \<in> set [''soap_fault_free'', ''xml_contract'', ''http_status'', ''observation_only'']))"

definition validOperationEvidenceReference :: "json \<Rightarrow> bool" where
  "validOperationEvidenceReference v \<longleftrightarrow>
     (case as_object v of None \<Rightarrow> False
      | Some ref \<Rightarrow> safePlanRelativePath (stringValue (gm_member ref ''artifact_path'')) \<and>
          sha256Pattern (stringValue (gm_member ref ''sha256'')) \<and>
          take 1 (stringValue (gm_member ref ''json_pointer'')) = ''#'' \<and>
          stringValue (gm_member ref ''evidence_kind'') \<in> set [''operation_document'', ''operation_manifest'',
            ''source_profile'', ''reviewed_policy'', ''runtime_binding''])"

definition bounded_integer_ok :: "(string, json) gomap \<Rightarrow> bool" where
  "bounded_integer_ok strategy \<longleftrightarrow>
     (let minimum = integerValue (gm_member strategy ''minimum''); maximum = integerValue (gm_member strategy ''maximum'');
          selection = stringValue (gm_member strategy ''selection'')
      in minimum \<le> maximum \<and>
         (if selection = ''fixed''
          then (case gm_get strategy ''selected_value'' of None \<Rightarrow> False
                | Some selected \<Rightarrow> integerValue selected \<ge> minimum \<and> integerValue selected \<le> maximum)
          else (selection = ''minimum'' \<or> selection = ''maximum'') \<and> gm_get strategy ''selected_value'' = None))"

definition relative_year_ok :: "(string, json) gomap \<Rightarrow> bool" where
  "relative_year_ok strategy \<longleftrightarrow>
     integerValue (gm_member strategy ''minimum_year'') \<le> integerValue (gm_member strategy ''maximum_year'') \<and>
     integerValue (gm_member strategy ''offset_years'') \<ge> - 50 \<and> integerValue (gm_member strategy ''offset_years'') \<le> 50 \<and>
     stringValue (gm_member strategy ''anchor'') = ''observation_calendar_year''"

definition literal_ok :: "(string, json) gomap \<Rightarrow> bool" where
  "literal_ok strategy \<longleftrightarrow>
     (case gm_get strategy ''selected_value'' of
        Some (J_str s) \<Rightarrow> s \<noteq> '''' \<and> length s \<le> 1024
      | Some (J_bool _) \<Rightarrow> True
      | Some (J_num _) \<Rightarrow> True
      | Some _ \<Rightarrow> False
      | None \<Rightarrow> sha256Pattern (stringValue (gm_member strategy ''value_sha256'')) \<and>
          validOperationEvidenceReference (gm_member strategy ''value_ref''))"

definition validOperationValueStrategy :: "json \<Rightarrow> bool" where
  "validOperationValueStrategy v \<longleftrightarrow>
     (case as_object v of None \<Rightarrow> False
      | Some strategy \<Rightarrow>
          (supportedContractAuthority (gm_member strategy ''authority'') \<or>
           stringValue (gm_member strategy ''authority'') = ''runtime_binding'') \<and>
          (let kind = stringValue (gm_member strategy ''kind'')
           in if kind = ''bounded_integer'' then bounded_integer_ok strategy
              else if kind = ''relative_year'' then relative_year_ok strategy
              else if kind \<in> set [''reviewed_enum'', ''reviewed_literal'', ''opaque_reviewed_value''] then literal_ok strategy
              else kind = ''credential_reference'' \<and> stringValue (gm_member strategy ''authority'') = ''runtime_binding'' \<and>
                stringValue (gm_member strategy ''binding_field'') = ''credential_reference''))"

text \<open>
  The identity of a parameter within its operation: location, name and, in a SOAP envelope, qualified
  name.  The code joins them by zero bytes, which no encoded name contains.
\<close>

definition parameter_identity :: "(string, json) gomap \<Rightarrow> string \<times> string \<times> json option" where
  "parameter_identity p =
     (let location = stringValue (gm_member p ''location'')
      in (location, stringValue (gm_member p ''name''),
          if location = ''soap_header'' \<or> location = ''body'' then Some (json_sorted (gm_member p ''qualified_name'')) else None))"

definition parameter_ok :: "plan_codec \<Rightarrow> string \<Rightarrow> (string, json) gomap \<Rightarrow> bool" where
  "parameter_ok cd protocol p \<longleftrightarrow>
     (let location = stringValue (gm_member p ''location'')
      in stringValue (gm_member p ''name'') \<noteq> '''' \<and> location \<noteq> '''' \<and> anySlice (gm_member p ''evidence_refs'') \<noteq> [] \<and>
         location \<in> set [''query'', ''path'', ''header'', ''body'', ''soap_header''] \<and>
         \<not> (protocol = ''REST'' \<and> (location = ''body'' \<or> location = ''soap_header'')) \<and>
         \<not> (protocol = ''SOAP'' \<and> (location = ''query'' \<or> location = ''path'')) \<and>
         (if location = ''body'' \<or> location = ''soap_header''
          then (case as_object (gm_member p ''qualified_name'') of None \<Rightarrow> False | Some q \<Rightarrow> validOperationQName cd q)
          else True) \<and>
         stringValue (gm_member p ''cardinality'') \<in> set [''required_single'', ''optional_single'', ''required_repeated'',
           ''optional_repeated''] \<and>
         validOperationValueStrategy (gm_member p ''value_strategy''))"

fun parameters_ok :: "plan_codec \<Rightarrow> string \<Rightarrow> (string \<times> string \<times> json option) list \<Rightarrow> json list \<Rightarrow> bool" where
  "parameters_ok cd protocol seen [] \<longleftrightarrow> True"
| "parameters_ok cd protocol seen (item # items) \<longleftrightarrow>
     (case as_object item of None \<Rightarrow> False
      | Some p \<Rightarrow> parameter_ok cd protocol p \<and> parameter_identity p \<notin> set seen \<and>
          parameters_ok cd protocol (parameter_identity p # seen) items)"

definition validOperationParameters :: "plan_codec \<Rightarrow> string \<Rightarrow> json list \<Rightarrow> bool" where
  "validOperationParameters cd protocol parameters = parameters_ok cd protocol [] parameters"

text \<open>A member of type \<open>any\<close> that is not a map reads as the empty map.\<close>

definition value_strategy :: "json \<Rightarrow> (string, json) gomap" where
  "value_strategy item = object_or_nil (gm_member (object_or_nil item) ''value_strategy'')"

definition is_credential :: "json \<Rightarrow> bool" where
  "is_credential item \<longleftrightarrow> stringValue (gm_member (value_strategy item) ''kind'') = ''credential_reference''"

definition credential_quota :: "json \<Rightarrow> bool" where
  "credential_quota item \<longleftrightarrow> stringValue (gm_member (object_or_nil item) ''scope_kind'') = ''credential''"

definition no_authentication :: "(string, json) gomap \<Rightarrow> (string, json) gomap \<Rightarrow> json list \<Rightarrow> bool" where
  "no_authentication auth runtime parameters \<longleftrightarrow>
     stringValue (gm_member auth ''mechanism'') = ''none'' \<and> stringValue (gm_member auth ''placement'') = ''none'' \<and>
     gm_member auth ''credential_reference_required'' = J_bool False \<and>
     stringValue (gm_member runtime ''credential_reference'') = '''' \<and>
     stringValue (gm_member runtime ''credential_scope_key'') = '''' \<and> filter is_credential parameters = [] \<and>
     \<not> list_ex credential_quota (anySlice (gm_member runtime ''quota_policies''))"

definition credential_placed :: "(string, json) gomap \<Rightarrow> string \<Rightarrow> json \<Rightarrow> bool" where
  "credential_placed auth field item \<longleftrightarrow>
     (let p = object_or_nil item; placement = stringValue (gm_member auth ''placement'')
      in is_credential item \<and> stringValue (gm_member p ''location'') = placement \<and>
         stringValue (gm_member p ''cardinality'') = stringValue (gm_member auth ''cardinality'') \<and>
         stringValue (gm_member (value_strategy item) ''authority'') = ''runtime_binding'' \<and>
         stringValue (gm_member (value_strategy item) ''binding_field'') = ''credential_reference'' \<and>
         (if placement = ''soap_header'' then equalJSON (gm_member p ''qualified_name'') (gm_member auth ''header_qname'')
          else stringValue (gm_member p ''name'') = field))"

definition required_authentication ::
  "plan_codec \<Rightarrow> string \<Rightarrow> (string, json) gomap \<Rightarrow> (string, json) gomap \<Rightarrow> json list \<Rightarrow> bool" where
  "required_authentication cd protocol auth runtime parameters \<longleftrightarrow>
     (let placement = stringValue (gm_member auth ''placement''); mechanism = stringValue (gm_member auth ''mechanism'');
          scope = stringValue (gm_member runtime ''credential_scope_key'')
      in gm_member auth ''credential_reference_required'' = J_bool True \<and>
         stringValue (gm_member runtime ''credential_reference'') \<noteq> '''' \<and> scope \<noteq> '''' \<and>
         length (filter is_credential parameters) = 1 \<and> (mechanism = ''service_key'' \<or> mechanism = ''api_key'') \<and>
         (placement = ''query'' \<or> placement = ''header'' \<or>
          placement = ''soap_header'' \<and> protocol = ''SOAP'' \<and>
          (case as_object (gm_member auth ''header_qname'') of None \<Rightarrow> False | Some q \<Rightarrow> validOperationQName cd q)) \<and>
         (let field = (if placement = ''query'' then stringValue (gm_member auth ''parameter_name'')
            else if placement = ''header'' then stringValue (gm_member auth ''header_name'') else '''')
          in length (filter (credential_placed auth field) parameters) = 1) \<and>
         length (filter (\<lambda>item. credential_quota item \<and> stringValue (gm_member (object_or_nil item) ''scope_key'') = scope)
           (anySlice (gm_member runtime ''quota_policies''))) = 1)"

definition validOperationAuthentication :: "plan_codec \<Rightarrow> string \<Rightarrow> json \<Rightarrow> json \<Rightarrow> json list \<Rightarrow> bool" where
  "validOperationAuthentication cd protocol authenticationValue runtimeValue parameters \<longleftrightarrow>
     (case (as_object authenticationValue, as_object runtimeValue) of
        (Some auth, Some runtime) \<Rightarrow>
          anySlice (gm_member auth ''evidence_refs'') \<noteq> [] \<and> list_all (\<lambda>item. as_object item \<noteq> None) parameters \<and>
          (if stringValue (gm_member auth ''requirement'') = ''none'' then no_authentication auth runtime parameters
           else stringValue (gm_member auth ''requirement'') = ''required'' \<and>
             required_authentication cd protocol auth runtime parameters)
      | _ \<Rightarrow> False)"

text \<open>The contract itself: the reason it is refused, or none.\<close>

definition contract_refusal ::
  "plan_codec \<Rightarrow> (string, json) gomap \<Rightarrow> (string, json) gomap \<Rightarrow> (string, json) gomap \<Rightarrow> string" where
  "contract_refusal cd whole identity contract =
     (case as_object (gm_member contract ''operation_effect'') of
        None \<Rightarrow> ''read_only_effect_unproven''
      | Some effect \<Rightarrow>
     (if gm_member effect ''classification'' \<noteq> J_str ''read_only'' \<or> \<not> supportedContractAuthority (gm_member effect ''authority'')
      then ''read_only_effect_unproven''
      else case as_object (gm_member contract ''transport'') of
        None \<Rightarrow> ''transport_unsupported''
      | Some transport \<Rightarrow>
     (let protocol = stringValue (gm_member identity ''protocol''); http = stringValue (gm_member transport ''http_method'')
      in if \<not> supportedContractAuthority (gm_member transport ''authority'') then ''transport_unsupported''
         else if protocol \<noteq> ''REST'' \<and> protocol \<noteq> ''SOAP'' \<or> stringValue (gm_member transport ''protocol'') \<noteq> protocol
         then ''protocol_unsupported''
         else if stringValue (gm_member transport ''scheme'') \<noteq> ''https'' \<or>
           \<not> safeOperationHost (stringValue (gm_member transport ''host'')) \<or>
           \<not> safeOperationPath (stringValue (gm_member transport ''path''))
         then ''transport_unsupported''
         else if protocol = ''REST'' \<and> http \<noteq> ''GET'' \<or> protocol = ''SOAP'' \<and> http \<noteq> ''POST''
         then ''transport_method_unsupported''
         else if protocol = ''SOAP'' \<and> \<not> validSOAPOperationTransport cd transport then ''soap_contract_unsupported''
         else if (case as_object (gm_member identity ''registered_endpoint'') of
             None \<Rightarrow> False
           | Some endpoint \<Rightarrow>
               stringValue (gm_member endpoint ''host'') \<noteq> stringValue (gm_member transport ''host'') \<or>
               stringValue (gm_member endpoint ''path'') \<noteq> stringValue (gm_member transport ''path''))
         then ''registered_endpoint_mismatch''
         else if \<not> validOperationRequestLimits (gm_member contract ''limits'') \<or>
           \<not> validOperationResponseAssertion protocol (gm_member contract ''response_assertion'')
         then ''request_limits_or_assertion_unsupported''
         else case gm_member contract ''parameters'' of
           J_arr parameters \<Rightarrow>
             (if \<not> validOperationParameters cd protocol parameters then ''request_parameter_unsupported''
              else if \<not> validOperationAuthentication cd protocol (gm_member contract ''authentication'')
                (gm_member whole ''runtime_binding'') parameters
              then ''credential_binding_unsupported'' else '''')
         | _ \<Rightarrow> ''request_parameter_unsupported'')))"

definition refused :: "string \<Rightarrow> bool \<times> string" where
  "refused reason = (reason = '''', reason)"

definition operationPlanExecutionDecision :: "plan_codec \<Rightarrow> string \<Rightarrow> OperationObservationPlanRecord \<Rightarrow> bool \<times> string" where
  "operationPlanExecutionDecision cd raw r =
     (if op_RequestPlanStatus r \<noteq> ''complete'' then refused ''request_plan_incomplete''
      else if op_RuntimeBindingStatus r \<noteq> ''bound'' then refused ''runtime_binding_unbound''
      else if op_AdmissionStatus r \<noteq> ''admitted'' \<or> \<not> op_QuotaPoliciesAdmitted r \<or> op_QuotaPolicies r = []
      then refused ''admission_not_granted''
      else if op_TestOnly r \<or> operationPlanHasSyntheticEvidence cd raw \<or> op_Provider r = ''synthetic-test-provider'' \<or>
        take 9 (op_SourceID r) = ''synthetic''
      then refused ''synthetic_evidence''
      else case map_option as_object (cd_any cd raw) of
        Some (Some whole) \<Rightarrow>
          (case (as_object (gm_member whole ''operation_identity''),
             map_option (\<lambda>request. as_object (gm_member request ''request_contract'')) (as_object (gm_member whole ''request_plan''))) of
             (Some identity, Some (Some contract)) \<Rightarrow> refused (contract_refusal cd whole identity contract)
           | _ \<Rightarrow> refused ''request_contract_invalid'')
      | _ \<Rightarrow> refused ''request_contract_invalid'')"

section \<open>Records\<close>

text \<open>\<^verbatim>\<open>time.Duration(n) * time.Second\<close> wraps in 64 bits.\<close>

definition seconds_duration :: "int \<Rightarrow> duration" where
  "seconds_duration n = (n * second + 2 ^ 63) mod 2 ^ 64 - 2 ^ 63"

definition wire_policy :: "operationPlanQuotaPolicyWire \<Rightarrow> OperationQuotaPolicy" where
  "wire_policy q = \<lparr>qp_ScopeSHA256 = wp_ScopeSHA256 q, qp_MaxConcurrent = wp_MaxConcurrent q,
     qp_RequestsPerWindow = wp_RequestsPerWindow q, qp_Window = seconds_duration (wp_WindowSeconds q),
     qp_MinimumInterval = seconds_duration (wp_MinimumIntervalSeconds q)\<rparr>"

definition quota_wire_ok :: "operationPlanQuotaPolicyWire \<Rightarrow> bool" where
  "quota_wire_ok q \<longleftrightarrow> quotaScopeKindPattern (wp_ScopeKind q) \<and> \<not> blank (wp_ScopeKey q) \<and>
     OperationQuotaScopeDigest (wp_ScopeKind q) (wp_ScopeKey q) = wp_ScopeSHA256 q \<and>
     validOperationQuotaPolicy (wire_policy q) \<and> wp_EvidenceRefs q \<noteq> [] \<and> list_all evidence_ref_ok (wp_EvidenceRefs q)"

definition quota_binding :: "operationPlanQuotaPolicyWire \<Rightarrow> operationQuotaPolicyBinding" where
  "quota_binding q = \<lparr>qb_Kind = wp_ScopeKind q, qb_Key = wp_ScopeKey q, qb_Policy = wire_policy q\<rparr>"

text \<open>The policies of a record, taken from their evidence once it is admitted.\<close>

fun admitted_policies ::
  "string \<Rightarrow> string \<Rightarrow> string \<Rightarrow> operationPlanQuotaPolicyWire list \<Rightarrow> OperationQuotaPolicy list option" where
  "admitted_policies request runtime admission [] = Some []"
| "admitted_policies request runtime admission (q # qs) =
     (if \<not> quota_wire_ok q then None
      else if admission \<noteq> ''admitted'' then admitted_policies request runtime admission qs
      else case OperationQuotaPolicyFromEvidence request runtime admission (wp_ScopeKind q) (wp_ScopeKey q)
          (wp_ScopeSHA256 q) (wp_MaxConcurrent q) (wp_RequestsPerWindow q) (wp_WindowSeconds q)
          (wp_MinimumIntervalSeconds q) (wp_EvidenceRefs q) of
        Inl _ \<Rightarrow> None
      | Inr policy \<Rightarrow> map_option ((#) policy) (admitted_policies request runtime admission qs))"

definition request_contract :: "plan_codec \<Rightarrow> operationPlanRequestWire \<Rightarrow> plan_contract option" where
  "request_contract cd request =
     (if wq_RequestContract request = '''' then Some \<lparr>cn_TimeoutMS = 0, cn_Kind = ''''\<rparr>
      else case cd_contract cd (wq_RequestContract request) of
        None \<Rightarrow> None
      | Some c \<Rightarrow> (if cn_TimeoutMS c < 1 \<or> cn_TimeoutMS c > maxOperationObservationTimeoutMS then None else Some c))"

definition observation_period :: "int \<Rightarrow> duration option" where
  "observation_period s = (if s \<le> 0 then Some 0 else if s > 365 * 24 * 60 * 60 then None else Some (s * second))"

definition plan_record ::
  "operationPlanSourceBindingWire \<Rightarrow> operationPlanIdentityWire \<Rightarrow> operationPlanRequestWire \<Rightarrow> operationPlanRuntimeWire
    \<Rightarrow> operationPlanAdmissionWire \<Rightarrow> plan_contract \<Rightarrow> duration \<Rightarrow> OperationQuotaPolicy list \<Rightarrow> OperationObservationPlanRecord" where
  "plan_record source identity request runtime admission contract period policies =
     \<lparr>op_OperationID = wi_OperationID identity, op_Protocol = wi_Protocol identity, op_ResponseAssertionKind = cn_Kind contract,
      op_DatasetID = wi_DatasetID identity, op_OperationName = wi_OperationName identity,
      op_UpstreamOperationKey = wi_UpstreamOperationKey identity, op_LegacySelectors = wi_LegacySelectors identity,
      op_SourceID = ws_SourceID source, op_Provider = ws_Provider source, op_AdapterID = ws_AdapterID source,
      op_InventoryStatus = ws_InventoryStatus source, op_InventoryUnknown = ws_InventoryUnknown source,
      op_TestOnly = ws_TestOnly source, op_RequestPlanStatus = wq_Status request,
      op_RequestPlanMissing = wq_MissingFields request, op_RuntimeBindingStatus = wt_Status runtime,
      op_RuntimeBindingMissing = wt_MissingFields runtime, op_AdmissionStatus = wa_Status admission,
      op_AdmissionReasons = wa_Reasons admission, op_ObservationPeriod = period,
      op_RequestTimeout = cn_TimeoutMS contract * 1000000, op_QuotaPolicies = policies,
      op_QuotaPoliciesAdmitted = (wa_Status admission = ''admitted''), op_ExecutionEligible = False,
      op_ExecutionBlockReason = '''', op_quotaBindings = List.map quota_binding (wt_QuotaPolicies runtime)\<rparr>"

definition decided :: "plan_codec \<Rightarrow> string \<Rightarrow> OperationObservationPlanRecord \<Rightarrow> OperationObservationPlanRecord" where
  "decided cd raw r = r\<lparr>op_ExecutionEligible := fst (operationPlanExecutionDecision cd raw r),
     op_ExecutionBlockReason := snd (operationPlanExecutionDecision cd raw r)\<rparr>"

definition decodeOperationObservationPlanRecord :: "plan_codec \<Rightarrow> string \<Rightarrow> OperationObservationPlanRecord option" where
  "decodeOperationObservationPlanRecord cd raw =
     (if raw = '''' \<or> \<not> cd_schema_ok cd raw then None
      else case cd_record cd raw of
        None \<Rightarrow> None
      | Some wire \<Rightarrow>
          (if wr_SchemaVersion wire \<noteq> OperationObservationPlanSchemaVersion \<or> wr_ArtifactKind wire \<noteq> ''operation_plan'' then None
           else case (cd_source cd (wr_SourceBinding wire), cd_identity cd (wr_OperationIdentity wire),
             cd_request cd (wr_RequestPlan wire), cd_runtime cd (wr_RuntimeBinding wire), cd_admission cd (wr_Admission wire)) of
             (Some source, Some identity, Some request, Some runtime, Some admission) \<Rightarrow>
               (if wi_OperationID identity = '''' \<or> ws_SourceID source = '''' then None
                else if wa_Status admission = ''admitted'' \<and> (wq_Status request \<noteq> ''complete'' \<or> wt_Status runtime \<noteq> ''bound'')
                then None
                else case (request_contract cd request, observation_period (wt_ObservationPeriodSeconds runtime),
                  admitted_policies (wq_Status request) (wt_Status runtime) (wa_Status admission) (wt_QuotaPolicies runtime)) of
                  (Some contract, Some period, Some policies) \<Rightarrow>
                    Some (decided cd raw (plan_record source identity request runtime admission contract period policies))
                | _ \<Rightarrow> None)
           | _ \<Rightarrow> None))"

section \<open>Shards\<close>

definition releaseManifestBinds :: "(string, ReleaseArtifact) gomap \<Rightarrow> string \<Rightarrow> int \<Rightarrow> string \<Rightarrow> bool" where
  "releaseManifestBinds manifest path bytes sha \<longleftrightarrow>
     (case gm_get manifest path of None \<Rightarrow> False
      | Some artifact \<Rightarrow> ra_Path artifact = path \<and> ra_Bytes artifact = bytes \<and> ra_SHA256 artifact = sha)"

definition ref_bound :: "(string, ReleaseArtifact) gomap \<Rightarrow> operationPlanArtifactRef \<Rightarrow> bool" where
  "ref_bound manifest ref \<longleftrightarrow> releaseManifestBinds manifest (ar_Path ref) (ar_Bytes ref) (ar_SHA256 ref)"

definition releaseManifestBindsPlanArtifact ::
  "(string, ReleaseArtifact) gomap \<Rightarrow> string \<Rightarrow> int \<Rightarrow> string \<Rightarrow> string \<Rightarrow> bool" where
  "releaseManifestBindsPlanArtifact manifest path bytes sha kind \<longleftrightarrow>
     (case gm_get manifest path of None \<Rightarrow> False
      | Some artifact \<Rightarrow> ra_Path artifact = path \<and> ra_Bytes artifact = bytes \<and> ra_SHA256 artifact = sha \<and>
          ra_Schema artifact = operationObservationPlanSchemaURI \<and> ra_Kind artifact = kind)"

definition readShard :: "plan_codec \<Rightarrow> plan_files \<Rightarrow> operationObservationPlanShardRef \<Rightarrow> operationObservationPlanShardWire option" where
  "readShard cd files ref =
     (case readPlanArtifact files (sf_Path ref) (sf_Bytes ref) maxOperationObservationShardBytes of
        None \<Rightarrow> None
      | Some raw \<Rightarrow>
          (if sha256_hex raw \<noteq> sf_SHA256 ref \<or> \<not> cd_schema_ok cd raw then None
           else case cd_shard cd raw of
             None \<Rightarrow> None
           | Some shard \<Rightarrow>
               (if wh_SchemaVersion shard \<noteq> OperationObservationPlanSchemaVersion \<or> wh_ArtifactKind shard \<noteq> ''shard'' \<or>
                  wh_Records shard = [] \<or> length (wh_Records shard) > 256
                then None else Some shard)))"

fun all_some :: "'a option list \<Rightarrow> 'a list option" where
  "all_some [] = Some []"
| "all_some (x # xs) = (case x of None \<Rightarrow> None | Some v \<Rightarrow> map_option ((#) v) (all_some xs))"

definition ReadShard :: "plan_codec \<Rightarrow> PinnedOperationObservationPlan \<Rightarrow> nat \<Rightarrow> OperationObservationPlanRecord list option" where
  "ReadShard cd plan i =
     (let state = pp_state plan; shards = ix_Shards (sx_index state)
      in if \<not> sx_verified state \<or> i \<ge> length shards then None
         else case readShard cd (sx_root state) (shards ! i) of
           None \<Rightarrow> None
         | Some shard \<Rightarrow>
             (case all_some (List.map (decodeOperationObservationPlanRecord cd) (wh_Records shard)) of
                None \<Rightarrow> None
              | Some records \<Rightarrow> (if list_all (\<lambda>r. op_SourceID r = wh_SourceID shard) records then Some records else None)))"

fun checkQuotaPolicies ::
  "operationQuotaPolicyBinding list \<Rightarrow> (string, operationQuotaPolicyBinding) gomap
    \<Rightarrow> (string, operationQuotaPolicyBinding) gomap option" where
  "checkQuotaPolicies [] bindings = Some bindings"
| "checkQuotaPolicies (current # rest) bindings =
     (let key = qp_ScopeSHA256 (qb_Policy current)
      in if (case gm_get bindings key of None \<Rightarrow> False
          | Some previous \<Rightarrow> qb_Kind previous \<noteq> qb_Kind current \<or> qb_Key previous \<noteq> qb_Key current \<or>
              operationQuotaPolicyDigest (qb_Policy previous) \<noteq> operationQuotaPolicyDigest (qb_Policy current))
         then None else checkQuotaPolicies rest (gm_put key current bindings))"

text \<open>What the walk over all shards has gathered: the identities of each source are kept in order.\<close>

record plan_walk =
  pw_counts :: OperationObservationPlanCounts
  pw_ids :: "(string, string list) gomap"
  pw_quotas :: "(string, operationQuotaPolicyBinding) gomap"
  pw_seen :: "(string, string) gomap"
  pw_source :: string
  pw_index :: int
  pw_paths :: "string list"
  pw_executable :: int
  pw_firstID :: string
  pw_lastID :: string

definition no_counts :: OperationObservationPlanCounts where
  "no_counts = \<lparr>pn_KnownOperations = 0, pn_RequestPlansComplete = 0, pn_RequestPlansIncomplete = 0,
     pn_RuntimeBindingsBound = 0, pn_RuntimeBindingsUnbound = 0, pn_Admitted = 0, pn_NotAdmitted = 0,
     pn_InventoryUnknownScopes = 0\<rparr>"

definition boolToInt :: "bool \<Rightarrow> int" where "boolToInt b = (if b then 1 else 0)"

definition count_plan_record :: "OperationObservationPlanRecord \<Rightarrow> OperationObservationPlanCounts \<Rightarrow> OperationObservationPlanCounts" where
  "count_plan_record r c = c\<lparr>pn_KnownOperations := pn_KnownOperations c + 1,
     pn_RequestPlansComplete := pn_RequestPlansComplete c + boolToInt (op_RequestPlanStatus r = ''complete''),
     pn_RequestPlansIncomplete := pn_RequestPlansIncomplete c + boolToInt (op_RequestPlanStatus r = ''incomplete''),
     pn_RuntimeBindingsBound := pn_RuntimeBindingsBound c + boolToInt (op_RuntimeBindingStatus r = ''bound''),
     pn_RuntimeBindingsUnbound := pn_RuntimeBindingsUnbound c + boolToInt (op_RuntimeBindingStatus r = ''unbound''),
     pn_Admitted := pn_Admitted c + boolToInt (op_AdmissionStatus r = ''admitted''),
     pn_NotAdmitted := pn_NotAdmitted c + boolToInt (op_AdmissionStatus r = ''not_admitted'')\<rparr>"

definition record_statuses_ok :: "OperationObservationPlanRecord \<Rightarrow> bool" where
  "record_statuses_ok r \<longleftrightarrow> (op_RequestPlanStatus r = ''complete'' \<or> op_RequestPlanStatus r = ''incomplete'') \<and>
     (op_RuntimeBindingStatus r = ''bound'' \<or> op_RuntimeBindingStatus r = ''unbound'') \<and>
     (op_AdmissionStatus r = ''admitted'' \<or> op_AdmissionStatus r = ''not_admitted'') \<and>
     \<not> (op_AdmissionStatus r = ''admitted'' \<and> (op_RequestPlanStatus r \<noteq> ''complete'' \<or> op_RuntimeBindingStatus r \<noteq> ''bound''))"

definition record_in_scope :: "OperationObservationPlanRecord \<Rightarrow> OperationObservationPlanSourceScope \<Rightarrow> bool" where
  "record_in_scope r scope \<longleftrightarrow> op_Provider r = sp_Provider scope \<and> op_AdapterID r = sp_AdapterID scope \<and>
     op_InventoryStatus r = sp_InventoryStatus scope \<and> op_InventoryUnknown r = sp_InventoryUnknown scope \<and>
     op_TestOnly r = sp_TestOnly scope"

definition walk_record ::
  "plan_codec \<Rightarrow> operationPlanIndexState \<Rightarrow> string \<Rightarrow> string \<Rightarrow> plan_walk \<Rightarrow> plan_walk option" where
  "walk_record cd state sourceID raw w =
     (case (decodeOperationObservationPlanRecord cd raw, gm_get (sx_byScope state) sourceID) of
        (Some r, Some scope) \<Rightarrow>
          (if op_SourceID r \<noteq> sourceID \<or> \<not> record_in_scope r scope \<or>
              \<not> allOperationPlanEvidenceBound cd raw (sx_manifest state) then None
           else if (case gm_get (pw_seen w) (op_OperationID r) of None \<Rightarrow> False | Some previous \<Rightarrow> previous \<noteq> op_SourceID r)
           then None
           else if pw_lastID w \<noteq> '''' \<and> op_OperationID r \<le> pw_lastID w then None
           else if pn_KnownOperations (pw_counts w) + 1 > maxOperationObservationOperations then None
           else if \<not> record_statuses_ok r then None
           else case (if op_RuntimeBindingStatus r \<noteq> ''bound'' then Some (pw_quotas w)
               else checkQuotaPolicies (op_quotaBindings r) (pw_quotas w)) of
             None \<Rightarrow> None
           | Some quotas \<Rightarrow>
               Some (w\<lparr>pw_counts := count_plan_record r (pw_counts w),
                 pw_ids := gm_put sourceID ((case gm_get (pw_ids w) sourceID of None \<Rightarrow> [] | Some ids \<Rightarrow> ids) @ [op_OperationID r])
                   (pw_ids w),
                 pw_quotas := quotas, pw_seen := gm_put (op_OperationID r) (op_SourceID r) (pw_seen w),
                 pw_executable := pw_executable w + boolToInt (op_ExecutionEligible r),
                 pw_firstID := (if pw_firstID w = '''' then op_OperationID r else pw_firstID w),
                 pw_lastID := op_OperationID r\<rparr>))
      | _ \<Rightarrow> None)"

fun walk_records ::
  "plan_codec \<Rightarrow> operationPlanIndexState \<Rightarrow> string \<Rightarrow> string list \<Rightarrow> plan_walk \<Rightarrow> plan_walk option" where
  "walk_records cd state sourceID [] w = Some w"
| "walk_records cd state sourceID (raw # raws) w =
     (case walk_record cd state sourceID raw w of None \<Rightarrow> None | Some w' \<Rightarrow> walk_records cd state sourceID raws w')"

definition shard_ref_ok :: "operationPlanIndexState \<Rightarrow> operationObservationPlanShardRef \<Rightarrow> plan_walk \<Rightarrow> bool" where
  "shard_ref_ok state ref w \<longleftrightarrow> sf_SourceID ref \<noteq> '''' \<and> sf_ShardIndex ref \<ge> 0 \<and> sf_RecordCount ref \<ge> 1 \<and>
     sf_RecordCount ref \<le> 256 \<and> sf_Bytes ref \<ge> 1 \<and> sf_Bytes ref \<le> maxOperationObservationShardBytes \<and>
     sha256Pattern (sf_SHA256 ref) \<and> sf_FirstOperationID ref \<noteq> '''' \<and> sf_LastOperationID ref \<noteq> '''' \<and>
     safePlanRelativePath (sf_Path ref) \<and> sf_Path ref \<notin> set (pw_paths w) \<and>
     gm_get (sx_byScope state) (sf_SourceID ref) \<noteq> None \<and>
     releaseManifestBindsPlanArtifact (sx_manifest state) (sf_Path ref) (sf_Bytes ref) (sf_SHA256 ref)
       ''operation_observation_plan_shard'' \<and>
     (if sf_SourceID ref \<noteq> pw_source w
      then (pw_source w = '''' \<or> sf_SourceID ref > pw_source w) \<and> sf_ShardIndex ref = 0
      else sf_ShardIndex ref = pw_index w + 1)"

definition walk_shard ::
  "plan_codec \<Rightarrow> operationPlanIndexState \<Rightarrow> operationObservationPlanShardRef \<Rightarrow> plan_walk \<Rightarrow> plan_walk option" where
  "walk_shard cd state ref w =
     (if \<not> shard_ref_ok state ref w then None
      else case readShard cd (sx_root state) ref of
        None \<Rightarrow> None
      | Some shard \<Rightarrow>
          (if wh_SourceID shard \<noteq> sf_SourceID ref \<or> wh_ShardIndex shard \<noteq> sf_ShardIndex ref \<or>
              int (length (wh_Records shard)) \<noteq> sf_RecordCount ref then None
           else case walk_records cd state (sf_SourceID ref) (wh_Records shard)
               (w\<lparr>pw_source := sf_SourceID ref, pw_index := sf_ShardIndex ref, pw_paths := sf_Path ref # pw_paths w,
                  pw_firstID := '''', pw_lastID := ''''\<rparr>) of
             None \<Rightarrow> None
           | Some w' \<Rightarrow>
               (if pw_firstID w' \<noteq> sf_FirstOperationID ref \<or> pw_lastID w' \<noteq> sf_LastOperationID ref then None
                else Some w')))"

fun walk_shards ::
  "plan_codec \<Rightarrow> operationPlanIndexState \<Rightarrow> operationObservationPlanShardRef list \<Rightarrow> plan_walk \<Rightarrow> plan_walk option" where
  "walk_shards cd state [] w = Some w"
| "walk_shards cd state (ref # refs) w =
     (case walk_shard cd state ref w of None \<Rightarrow> None | Some w' \<Rightarrow> walk_shards cd state refs w')"

definition walk_start :: "operationPlanIndexState \<Rightarrow> plan_walk" where
  "walk_start state = \<lparr>pw_counts = no_counts, pw_ids = List.map (\<lambda>(sourceID, scope). (sourceID, [])) (sx_byScope state),
     pw_quotas = [], pw_seen = [], pw_source = '''', pw_index = - 1, pw_paths = [],
     pw_executable = sx_executableOperations state, pw_firstID = '''', pw_lastID = ''''\<rparr>"

definition scope_ids_ok :: "plan_walk \<Rightarrow> string \<times> OperationObservationPlanSourceScope \<Rightarrow> bool" where
  "scope_ids_ok w = (\<lambda>(sourceID, scope).
     case gm_get (pw_ids w) sourceID of None \<Rightarrow> False
     | Some ids \<Rightarrow> int (length ids) = sp_RegisteredOperations scope \<and> identity_set_digest ids = sp_IdentitySetSHA256 scope)"

definition verifyAllShards :: "plan_codec \<Rightarrow> operationPlanIndexState \<Rightarrow> operationPlanIndexState option" where
  "verifyAllShards cd state =
     (if ix_Shards (sx_index state) = [] then None
      else case walk_shards cd state (ix_Shards (sx_index state)) (walk_start state) of
        None \<Rightarrow> None
      | Some w \<Rightarrow>
          (if \<not> list_all (scope_ids_ok w) (sx_byScope state) then None
           else if (pw_counts w)\<lparr>pn_InventoryUnknownScopes :=
               sum_list (List.map (\<lambda>(sourceID, scope). boolToInt (sp_InventoryUnknown scope)) (sx_byScope state))\<rparr>
             \<noteq> ix_Summary (sx_index state) then None
           else Some (state\<lparr>sx_executableOperations := pw_executable w\<rparr>)))"

section \<open>Loading\<close>

definition validOperationObservationPlanBinding :: "OperationObservationPlanBinding \<Rightarrow> bool" where
  "validOperationObservationPlanBinding b \<longleftrightarrow> commitPattern (bi_RegistryRevision b) \<and>
     safePlanRelativePath (bi_ReleaseManifestPath b) \<and> bi_ReleaseManifestBytes b > 0 \<and>
     bi_ReleaseManifestBytes b \<le> maxOperationObservationManifestBytes \<and> sha256Pattern (bi_ReleaseManifestSHA256 b) \<and>
     safePlanRelativePath (bi_IndexPath b) \<and> bi_IndexBytes b > 0 \<and> bi_IndexBytes b \<le> maxOperationObservationIndexBytes \<and>
     sha256Pattern (bi_IndexSHA256 b) \<and> bi_SchemaRegistryRevision b = operationObservationSchemaRegistryRevision \<and>
     bi_SchemaSHA256 b = operationObservationPlanSchemaSHA256"

definition validOperationPlanGenerationInputs ::
  "operationObservationPlanGenerationInputs \<Rightarrow> (string, ReleaseArtifact) gomap \<Rightarrow> bool" where
  "validOperationPlanGenerationInputs input manifest \<longleftrightarrow> safePlanRelativePath (gi_GeneratorPath input) \<and>
     sha256Pattern (gi_GeneratorSHA256 input) \<and>
     (case gm_get manifest (gi_GeneratorPath input) of None \<Rightarrow> False
      | Some generator \<Rightarrow> ra_SHA256 generator = gi_GeneratorSHA256 input) \<and>
     ref_bound manifest (gi_OperationManifest input) \<and> ref_bound manifest (gi_LegacyPolicy input) \<and>
     gi_OperationDenominators input \<noteq> [] \<and> list_all (ref_bound manifest) (gi_OperationDenominators input) \<and>
     (case gi_ProviderIndex input of None \<Rightarrow> True | Some ref \<Rightarrow> ref_bound manifest ref) \<and>
     list_all (ref_bound manifest) (gi_DocumentEvidence input)"

fun manifest_artifacts :: "ReleaseArtifact list \<Rightarrow> (string, ReleaseArtifact) gomap \<Rightarrow> (string, ReleaseArtifact) gomap option" where
  "manifest_artifacts [] m = Some m"
| "manifest_artifacts (a # as) m =
     (if \<not> safePlanRelativePath (ra_Path a) \<or> ra_Bytes a \<le> 0 \<or> \<not> sha256Pattern (ra_SHA256 a) \<or> ra_Kind a = '''' \<or>
         gm_get m (ra_Path a) \<noteq> None
      then None else manifest_artifacts as (gm_put (ra_Path a) a m))"

fun source_scopes ::
  "(string, ReleaseArtifact) gomap \<Rightarrow> string option \<Rightarrow> OperationObservationPlanSourceScope list
    \<Rightarrow> (string, OperationObservationPlanSourceScope) gomap \<Rightarrow> (string, OperationObservationPlanSourceScope) gomap option" where
  "source_scopes manifest previous [] m = Some m"
| "source_scopes manifest previous (scope # scopes) m =
     (if sp_SourceID scope = '''' \<or> sp_Provider scope = '''' \<or> sp_AdapterID scope = '''' \<or> sp_RegisteredOperations scope < 1 \<or>
         \<not> sha256Pattern (sp_IdentitySetSHA256 scope) \<or> sp_SourceArtifacts scope = [] \<or>
         (case previous of None \<Rightarrow> False | Some p \<Rightarrow> p \<ge> sp_SourceID scope) \<or> gm_get m (sp_SourceID scope) \<noteq> None \<or>
         \<not> list_all (ref_bound manifest) (sp_SourceArtifacts scope)
      then None else source_scopes manifest (Some (sp_SourceID scope)) scopes (gm_put (sp_SourceID scope) scope m))"

definition index_ok :: "OperationObservationPlanBinding \<Rightarrow> operationObservationPlanIndex \<Rightarrow> bool" where
  "index_ok b index \<longleftrightarrow> ix_SchemaVersion index = OperationObservationPlanSchemaVersion \<and> ix_ArtifactKind index = ''index'' \<and>
     ix_RegistryRevision index = bi_RegistryRevision b \<and> ix_Shards index \<noteq> [] \<and>
     length (ix_Shards index) \<le> maxOperationObservationShards \<and> pn_KnownOperations (ix_Summary index) \<ge> 1 \<and>
     pn_KnownOperations (ix_Summary index) \<le> maxOperationObservationOperations"

definition load_manifest :: "plan_codec \<Rightarrow> plan_files \<Rightarrow> OperationObservationPlanBinding \<Rightarrow> (string, ReleaseArtifact) gomap option" where
  "load_manifest cd files b =
     (case readPlanArtifact files (bi_ReleaseManifestPath b) (bi_ReleaseManifestBytes b) maxOperationObservationManifestBytes of
        None \<Rightarrow> None
      | Some raw \<Rightarrow>
          (if sha256_hex raw \<noteq> bi_ReleaseManifestSHA256 b then None
           else case cd_release cd raw of
             None \<Rightarrow> None
           | Some release \<Rightarrow>
               (if rm_SchemaVersion release \<noteq> ''datapan.release-manifest.v1'' \<or> rm_Artifacts release = [] then None
                else manifest_artifacts (rm_Artifacts release) [])))"

definition load_index ::
  "plan_codec \<Rightarrow> plan_files \<Rightarrow> OperationObservationPlanBinding \<Rightarrow> (string, ReleaseArtifact) gomap
    \<Rightarrow> (operationObservationPlanIndex \<times> operationObservationPlanGenerationInputs) option" where
  "load_index cd files b manifest =
     (if \<not> releaseManifestBindsPlanArtifact manifest (bi_IndexPath b) (bi_IndexBytes b) (bi_IndexSHA256 b) ''operation_observation_plan''
      then None
      else case readPlanArtifact files (bi_IndexPath b) (bi_IndexBytes b) maxOperationObservationIndexBytes of
        None \<Rightarrow> None
      | Some raw \<Rightarrow>
          (if sha256_hex raw \<noteq> bi_IndexSHA256 b \<or> \<not> cd_schema_ok cd raw then None
           else case cd_index cd raw of
             None \<Rightarrow> None
           | Some index \<Rightarrow>
               (if \<not> index_ok b index then None
                else case cd_generation cd (ix_GenerationInputs index) of
                  None \<Rightarrow> None
                | Some inputs \<Rightarrow>
                    (if \<not> validOperationPlanGenerationInputs inputs manifest then None else Some (index, inputs)))))"

text \<open>\<open>files\<close> is \<^verbatim>\<open>None\<close> when the whole is not a directory of its own.\<close>

definition LoadPinnedOperationObservationPlan ::
  "plan_codec \<Rightarrow> plan_files option \<Rightarrow> OperationObservationPlanBinding \<Rightarrow> PinnedOperationObservationPlan option" where
  "LoadPinnedOperationObservationPlan cd root_files b =
     (if \<not> validOperationObservationPlanBinding b \<or> cd_schema_sha cd \<noteq> bi_SchemaSHA256 b then None
      else case root_files of
        None \<Rightarrow> None
      | Some files \<Rightarrow>
          (case load_manifest cd files b of
             None \<Rightarrow> None
           | Some manifest \<Rightarrow>
               (case load_index cd files b manifest of
                  None \<Rightarrow> None
                | Some (index, inputs) \<Rightarrow>
                    (case (if ix_SourceScopes index = [] then None else source_scopes manifest None (ix_SourceScopes index) []) of
                       None \<Rightarrow> None
                     | Some byScope \<Rightarrow>
                         map_option (\<lambda>state. \<lparr>pp_binding = b, pp_state = state\<lparr>sx_verified := True\<rparr>\<rparr>)
                           (verifyAllShards cd
                             \<lparr>sx_index = index, sx_root = files, sx_manifest = manifest, sx_byScope = byScope,
                              sx_operationManifestRef = gi_OperationManifest inputs, sx_providerIndexRef = gi_ProviderIndex inputs,
                              sx_verified = False, sx_executableOperations = 0\<rparr>)))))"

text \<open>Go's zero plan, whose state is \<^verbatim>\<open>nil\<close>, cannot be expressed; every plan here has been loaded.\<close>

definition RegistryRevision :: "PinnedOperationObservationPlan \<Rightarrow> string" where
  "RegistryRevision plan = ix_RegistryRevision (sx_index (pp_state plan))"

definition IndexSHA256 :: "PinnedOperationObservationPlan \<Rightarrow> string" where
  "IndexSHA256 plan = bi_IndexSHA256 (pp_binding plan)"

definition Counts :: "PinnedOperationObservationPlan \<Rightarrow> OperationObservationPlanCounts" where
  "Counts plan = ix_Summary (sx_index (pp_state plan))"

definition ShardCount :: "PinnedOperationObservationPlan \<Rightarrow> nat" where
  "ShardCount plan = length (ix_Shards (sx_index (pp_state plan)))"

definition ExecutableOperations :: "PinnedOperationObservationPlan \<Rightarrow> int" where
  "ExecutableOperations plan = sx_executableOperations (pp_state plan)"

definition SourceScopes :: "PinnedOperationObservationPlan \<Rightarrow> OperationObservationPlanSourceScope list" where
  "SourceScopes plan = ix_SourceScopes (sx_index (pp_state plan))"

end
