(* ===== verification/Operation_Plan_Facts.thy ===== *)
theory Operation_Plan_Facts
  imports Operation_Plan
begin

text \<open>
  What a plan that loads amounts to: the walk over its shards is taken apart record by record, and its
  counts, identities and sources are those of the records that \<open>ReadShard\<close> returns.
\<close>

section \<open>Reading\<close>

lemma all_some_iff: "all_some xs = Some ys \<longleftrightarrow> xs = List.map Some ys"
  by (induction xs arbitrary: ys) (auto split: option.splits)

lemma all_some_nth: "all_some xs = Some ys \<Longrightarrow> i < length xs \<Longrightarrow> xs ! i = Some (ys ! i)"
  by (simp add: all_some_iff)

section \<open>Counts\<close>

definition how_many :: "(OperationObservationPlanRecord \<Rightarrow> bool) \<Rightarrow> OperationObservationPlanRecord list \<Rightarrow> int" where
  "how_many P rs = int (length (filter P rs))"

lemma how_many_simps [simp]:
  "how_many P [] = 0" "how_many P (r # rs) = boolToInt (P r) + how_many P rs"
  "how_many P (rs @ ss) = how_many P rs + how_many P ss"
  by (simp_all add: how_many_def boolToInt_def)

text \<open>The counts of a list of records; the scopes of unknown inventory are counted elsewhere.\<close>

definition counts_of :: "OperationObservationPlanRecord list \<Rightarrow> OperationObservationPlanCounts" where
  "counts_of rs = \<lparr>pn_KnownOperations = int (length rs),
     pn_RequestPlansComplete = how_many (\<lambda>r. op_RequestPlanStatus r = ''complete'') rs,
     pn_RequestPlansIncomplete = how_many (\<lambda>r. op_RequestPlanStatus r = ''incomplete'') rs,
     pn_RuntimeBindingsBound = how_many (\<lambda>r. op_RuntimeBindingStatus r = ''bound'') rs,
     pn_RuntimeBindingsUnbound = how_many (\<lambda>r. op_RuntimeBindingStatus r = ''unbound'') rs,
     pn_Admitted = how_many (\<lambda>r. op_AdmissionStatus r = ''admitted'') rs,
     pn_NotAdmitted = how_many (\<lambda>r. op_AdmissionStatus r = ''not_admitted'') rs,
     pn_InventoryUnknownScopes = 0\<rparr>"

lemma counts_of_Nil: "counts_of [] = no_counts"
  by (simp add: counts_of_def no_counts_def)

lemma counts_of_snoc: "counts_of (rs @ [r]) = count_plan_record r (counts_of rs)"
  by (simp add: counts_of_def count_plan_record_def)

section \<open>The walk\<close>

definition ids_of :: "string \<Rightarrow> OperationObservationPlanRecord list \<Rightarrow> string list" where
  "ids_of source rs = List.map op_OperationID (filter (\<lambda>r. op_SourceID r = source) rs)"

text \<open>\<open>walked state rs w\<close>: \<open>w\<close> is where the walk over the records \<open>rs\<close> has come to.\<close>

definition walked :: "operationPlanIndexState \<Rightarrow> OperationObservationPlanRecord list \<Rightarrow> plan_walk \<Rightarrow> bool" where
  "walked state rs w \<longleftrightarrow> pw_counts w = counts_of rs \<and>
     pw_executable w = sx_executableOperations state + how_many op_ExecutionEligible rs \<and>
     (\<forall>r\<in>set rs. gm_get (pw_seen w) (op_OperationID r) = Some (op_SourceID r)) \<and>
     (\<forall>source. gm_get (pw_ids w) source =
       (if gm_get (sx_byScope state) source = None then None else Some (ids_of source rs)))"

lemma walked_start: "walked state [] (walk_start state)"
  by (auto simp: walked_def walk_start_def counts_of_Nil ids_of_def map_of_map split: option.splits)

lemma walked_keep:
  "walked state rs w \<Longrightarrow> walked state rs (w\<lparr>pw_source := a, pw_index := b, pw_paths := c, pw_firstID := d, pw_lastID := e\<rparr>)"
  by (simp add: walked_def)

lemma walk_record_cases:
  assumes "walk_record cd state source raw w = Some w'"
  obtains r scope quotas where "decodeOperationObservationPlanRecord cd raw = Some r" "gm_get (sx_byScope state) source = Some scope"
    "op_SourceID r = source" "record_in_scope r scope" "allOperationPlanEvidenceBound cd raw (sx_manifest state)"
    "gm_get (pw_seen w) (op_OperationID r) \<in> {None, Some source}" "pw_lastID w = '''' \<or> pw_lastID w < op_OperationID r"
    "record_statuses_ok r" "pw_lastID w' = op_OperationID r" "pw_firstID w' = (if pw_firstID w = '''' then op_OperationID r else pw_firstID w)"
    "w' = w\<lparr>pw_counts := count_plan_record r (pw_counts w),
       pw_ids := gm_put source ((case gm_get (pw_ids w) source of None \<Rightarrow> [] | Some ids \<Rightarrow> ids) @ [op_OperationID r]) (pw_ids w),
       pw_quotas := quotas, pw_seen := gm_put (op_OperationID r) source (pw_seen w),
       pw_executable := pw_executable w + boolToInt (op_ExecutionEligible r),
       pw_firstID := (if pw_firstID w = '''' then op_OperationID r else pw_firstID w), pw_lastID := op_OperationID r\<rparr>"
proof -
  from assms obtain r scope where r: "decodeOperationObservationPlanRecord cd raw = Some r"
      "gm_get (sx_byScope state) source = Some scope"
    unfolding walk_record_def by (auto split: option.splits)
  have step: "\<not> (op_SourceID r \<noteq> source \<or> \<not> record_in_scope r scope \<or> \<not> allOperationPlanEvidenceBound cd raw (sx_manifest state))"
    "\<not> (case gm_get (pw_seen w) (op_OperationID r) of None \<Rightarrow> False | Some previous \<Rightarrow> previous \<noteq> op_SourceID r)"
    "\<not> (pw_lastID w \<noteq> '''' \<and> op_OperationID r \<le> pw_lastID w)" "record_statuses_ok r"
    using assms unfolding walk_record_def r by (simp_all only: option.case prod.case if_split_asm split: if_splits) simp_all
  obtain quotas where "(if op_RuntimeBindingStatus r \<noteq> ''bound'' then Some (pw_quotas w)
               else checkQuotaPolicies (op_quotaBindings r) (pw_quotas w)) = Some quotas"
    using assms unfolding walk_record_def r by (cases "(if op_RuntimeBindingStatus r \<noteq> ''bound'' then Some (pw_quotas w)
               else checkQuotaPolicies (op_quotaBindings r) (pw_quotas w))") (simp_all only: option.case prod.case split: if_splits, simp_all)
  note w' = assms [unfolded walk_record_def r option.case prod.case this, unfolded step if_False if_True simp_thms]
  have "w' = w\<lparr>pw_counts := count_plan_record r (pw_counts w),
       pw_ids := gm_put source ((case gm_get (pw_ids w) source of None \<Rightarrow> [] | Some ids \<Rightarrow> ids) @ [op_OperationID r]) (pw_ids w),
       pw_quotas := quotas, pw_seen := gm_put (op_OperationID r) source (pw_seen w),
       pw_executable := pw_executable w + boolToInt (op_ExecutionEligible r),
       pw_firstID := (if pw_firstID w = '''' then op_OperationID r else pw_firstID w), pw_lastID := op_OperationID r\<rparr>"
    using w' step(1) by (simp split: if_splits)
  then show thesis using r step by (intro that [of r scope quotas]) (auto split: option.splits simp: not_le)
qed

lemma walked_record:
  assumes "walked state rs w" "walk_record cd state source raw w = Some w'"
  obtains r where "decodeOperationObservationPlanRecord cd raw = Some r" "op_SourceID r = source" "walked state (rs @ [r]) w'"
    "allOperationPlanEvidenceBound cd raw (sx_manifest state)" "record_statuses_ok r"
    "pw_lastID w = '''' \<or> pw_lastID w < op_OperationID r" "pw_lastID w' = op_OperationID r"
proof -
  from assms(2) obtain r scope quotas where r: "decodeOperationObservationPlanRecord cd raw = Some r"
    "gm_get (sx_byScope state) source = Some scope" "op_SourceID r = source" "allOperationPlanEvidenceBound cd raw (sx_manifest state)"
    "gm_get (pw_seen w) (op_OperationID r) \<in> {None, Some source}" "pw_lastID w = '''' \<or> pw_lastID w < op_OperationID r"
    "record_statuses_ok r" "pw_lastID w' = op_OperationID r"
    "w' = w\<lparr>pw_counts := count_plan_record r (pw_counts w),
       pw_ids := gm_put source ((case gm_get (pw_ids w) source of None \<Rightarrow> [] | Some ids \<Rightarrow> ids) @ [op_OperationID r]) (pw_ids w),
       pw_quotas := quotas, pw_seen := gm_put (op_OperationID r) source (pw_seen w),
       pw_executable := pw_executable w + boolToInt (op_ExecutionEligible r),
       pw_firstID := (if pw_firstID w = '''' then op_OperationID r else pw_firstID w), pw_lastID := op_OperationID r\<rparr>"
    by (elim walk_record_cases)
  have seen: "\<forall>x\<in>set rs. gm_get (pw_seen w) (op_OperationID x) = Some (op_SourceID x)" using assms(1) by (simp add: walked_def)
  have "op_SourceID x = source" if "x \<in> set rs" "op_OperationID x = op_OperationID r" for x
    using bspec [OF seen that(1)] that(2) r(5) by auto
  then have "\<forall>x\<in>set (rs @ [r]). gm_get (pw_seen w') (op_OperationID x) = Some (op_SourceID x)"
    using seen r(3) by (auto simp: r(9))
  moreover have "gm_get (pw_ids w') s = (if gm_get (sx_byScope state) s = None then None else Some (ids_of s (rs @ [r])))" for s
    using assms(1) r(2,3) by (auto simp: r(9) walked_def ids_of_def)
  ultimately have "walked state (rs @ [r]) w'"
    using assms(1) by (simp add: walked_def counts_of_snoc) (simp add: r(9))
  with r that show thesis by blast
qed

definition rising :: "string list \<Rightarrow> bool" where "rising ids \<longleftrightarrow> sorted_wrt (<) ids"

lemma walked_records:
  assumes "walked state rs w" "walk_records cd state source raws w = Some w'"
  shows "\<exists>new. all_some (List.map (decodeOperationObservationPlanRecord cd) raws) = Some new \<and>
    walked state (rs @ new) w' \<and> list_all (\<lambda>r. op_SourceID r = source \<and> record_statuses_ok r) new \<and>
    list_all (\<lambda>raw. allOperationPlanEvidenceBound cd raw (sx_manifest state)) raws \<and> rising (List.map op_OperationID new) \<and>
    (pw_lastID w = '''' \<or> list_all (\<lambda>r. pw_lastID w < op_OperationID r) new)"
  using assms
proof (induction raws arbitrary: rs w)
  case Nil
  then show ?case by (simp add: rising_def)
next
  case (Cons raw raws)
  then obtain v where v: "walk_record cd state source raw w = Some v" "walk_records cd state source raws v = Some w'"
    by (auto split: option.splits)
  obtain r where r: "decodeOperationObservationPlanRecord cd raw = Some r" "op_SourceID r = source" "walked state (rs @ [r]) v"
      "allOperationPlanEvidenceBound cd raw (sx_manifest state)" "record_statuses_ok r"
      "pw_lastID w = '''' \<or> pw_lastID w < op_OperationID r" "pw_lastID v = op_OperationID r"
    by (rule walked_record [OF Cons.prems(1) v(1)])
  have nonempty: "op_OperationID r \<noteq> ''''" using r(1)
    by (auto simp: decodeOperationObservationPlanRecord_def decided_def plan_record_def split: if_splits option.splits prod.splits)
  obtain new where new: "all_some (List.map (decodeOperationObservationPlanRecord cd) raws) = Some new"
    "walked state ((rs @ [r]) @ new) w'" "list_all (\<lambda>r. op_SourceID r = source \<and> record_statuses_ok r) new"
    "list_all (\<lambda>raw. allOperationPlanEvidenceBound cd raw (sx_manifest state)) raws" "rising (List.map op_OperationID new)"
    "list_all (\<lambda>x. op_OperationID r < op_OperationID x) new"
    using Cons.IH [OF r(3) v(2)] r(7) nonempty by auto
  have "rising (List.map op_OperationID (r # new))" using new(5,6) by (simp add: rising_def list_all_iff)
  moreover have "pw_lastID w = '''' \<or> list_all (\<lambda>x. pw_lastID w < op_OperationID x) (r # new)"
    using r(6) new(6) by (auto simp: list_all_iff intro: less_trans)
  ultimately show ?case using r new by (intro exI [of _ "r # new"]) simp
qed

text \<open>A shard, and all of them.\<close>

definition shard_records :: "plan_codec \<Rightarrow> plan_files \<Rightarrow> operationObservationPlanShardRef \<Rightarrow> OperationObservationPlanRecord list option" where
  "shard_records cd files ref = (case readShard cd files ref of None \<Rightarrow> None
     | Some shard \<Rightarrow> all_some (List.map (decodeOperationObservationPlanRecord cd) (wh_Records shard)))"

definition shard_fits :: "plan_codec \<Rightarrow> operationPlanIndexState \<Rightarrow> operationObservationPlanShardRef \<Rightarrow> OperationObservationPlanRecord list \<Rightarrow> bool" where
  "shard_fits cd state ref new \<longleftrightarrow> (\<exists>shard. readShard cd (sx_root state) ref = Some shard \<and> wh_SourceID shard = sf_SourceID ref \<and>
     all_some (List.map (decodeOperationObservationPlanRecord cd) (wh_Records shard)) = Some new) \<and>
     list_all (\<lambda>r. op_SourceID r = sf_SourceID ref \<and> record_statuses_ok r) new \<and> rising (List.map op_OperationID new) \<and>
     sha256Pattern (sf_SHA256 ref)"

lemma walked_shard:
  assumes "walked state rs w" "walk_shard cd state ref w = Some w'"
  obtains new where "shard_fits cd state ref new" "walked state (rs @ new) w'"
proof -
  let ?v = "w\<lparr>pw_source := sf_SourceID ref, pw_index := sf_ShardIndex ref, pw_paths := sf_Path ref # pw_paths w,
    pw_firstID := '''', pw_lastID := ''''\<rparr>"
  from assms(2) obtain shard where shard: "shard_ref_ok state ref w" "readShard cd (sx_root state) ref = Some shard"
      "wh_SourceID shard = sf_SourceID ref" "walk_records cd state (sf_SourceID ref) (wh_Records shard) ?v = Some w'"
    by (auto simp: walk_shard_def split: option.splits if_splits)
  have "walked state rs ?v" using assms(1) by (simp add: walked_def)
  from walked_records [OF this shard(4)] shard(1-3) that show thesis
    by (fastforce simp: shard_fits_def shard_ref_ok_def)
qed

lemma walked_shards:
  assumes "walked state rs w" "walk_shards cd state refs w = Some w'"
  shows "\<exists>shards. list_all2 (shard_fits cd state) refs shards \<and> walked state (rs @ concat shards) w'"
  using assms
proof (induction refs arbitrary: rs w)
  case Nil
  then show ?case by simp
next
  case (Cons ref refs)
  then obtain v where v: "walk_shard cd state ref w = Some v" "walk_shards cd state refs v = Some w'"
    by (auto split: option.splits)
  obtain new where new: "shard_fits cd state ref new" "walked state (rs @ new) v"
    by (rule walked_shard [OF Cons.prems(1) v(1)])
  from Cons.IH [OF new(2) v(2)] obtain shards where "list_all2 (shard_fits cd state) refs shards"
    "walked state ((rs @ new) @ concat shards) w'" by blast
  then show ?case using new(1) by (intro exI [of _ "new # shards"]) simp
qed

section \<open>A loaded plan\<close>

lemma verified_shards:
  assumes "verifyAllShards cd state = Some state'"
  obtains shards where "list_all2 (shard_fits cd state) (ix_Shards (sx_index state)) shards"
    "state' = state\<lparr>sx_executableOperations := sx_executableOperations state + how_many op_ExecutionEligible (concat shards)\<rparr>"
    "ix_Summary (sx_index state) = (counts_of (concat shards))\<lparr>pn_InventoryUnknownScopes :=
       sum_list (List.map (\<lambda>(source, scope). boolToInt (sp_InventoryUnknown scope)) (sx_byScope state))\<rparr>"
    "\<forall>(source, scope)\<in>set (sx_byScope state). int (length (ids_of source (concat shards))) = sp_RegisteredOperations scope \<and>
       identity_set_digest (ids_of source (concat shards)) = sp_IdentitySetSHA256 scope"
    "\<forall>r\<in>set (concat shards). \<forall>s\<in>set (concat shards). op_OperationID r = op_OperationID s \<longrightarrow> op_SourceID r = op_SourceID s"
proof -
  from assms obtain w where w: "walk_shards cd state (ix_Shards (sx_index state)) (walk_start state) = Some w"
    "list_all (scope_ids_ok w) (sx_byScope state)"
    "(pw_counts w)\<lparr>pn_InventoryUnknownScopes :=
       sum_list (List.map (\<lambda>(source, scope). boolToInt (sp_InventoryUnknown scope)) (sx_byScope state))\<rparr> = ix_Summary (sx_index state)"
    "state' = state\<lparr>sx_executableOperations := pw_executable w\<rparr>"
    by (auto simp: verifyAllShards_def split: if_splits option.splits)
  from walked_shards [OF walked_start w(1)] obtain shards where shards:
    "list_all2 (shard_fits cd state) (ix_Shards (sx_index state)) shards" "walked state (concat shards) w" by auto
  have ids: "gm_get (pw_ids w) source = (if gm_get (sx_byScope state) source = None then None else Some (ids_of source (concat shards)))" for source
    using shards(2) by (simp add: walked_def)
  have scope: "int (length (ids_of source (concat shards))) = sp_RegisteredOperations scope \<and>
      identity_set_digest (ids_of source (concat shards)) = sp_IdentitySetSHA256 scope" if "(source, scope) \<in> set (sx_byScope state)" for source scope
  proof -
    have "gm_get (sx_byScope state) source \<noteq> None" using that by (metis map_of_eq_None_iff fst_conv image_eqI)
    moreover have "scope_ids_ok w (source, scope)" using w(2) that by (simp add: list_all_iff)
    ultimately show ?thesis by (auto simp: scope_ids_ok_def ids)
  qed
  have source: "op_SourceID r = op_SourceID s" if "r \<in> set (concat shards)" "s \<in> set (concat shards)" "op_OperationID r = op_OperationID s" for r s
    using shards(2) that unfolding walked_def by (metis option.inject)
  have counts: "pw_counts w = counts_of (concat shards)"
    and executable: "pw_executable w = sx_executableOperations state + how_many op_ExecutionEligible (concat shards)"
    using shards(2) by (simp_all add: walked_def)
  show thesis
    by (rule that [OF shards(1)]) (use w(3,4) scope source in \<open>auto simp only: counts executable split: prod.splits\<close>)
qed

lemma loaded_state:
  assumes "LoadPinnedOperationObservationPlan cd files b = Some plan"
  obtains state state' where "verifyAllShards cd state = Some state'" "pp_state plan = state'\<lparr>sx_verified := True\<rparr>" "pp_binding plan = b"
    "sx_executableOperations state = 0" "ix_RegistryRevision (sx_index state) = bi_RegistryRevision b"
    "validOperationObservationPlanBinding b"
    "\<exists>manifest. source_scopes manifest None (ix_SourceScopes (sx_index state)) [] = Some (sx_byScope state)"
proof -
  have binding: "validOperationObservationPlanBinding b" and sha: "cd_schema_sha cd = bi_SchemaSHA256 b"
    using assms unfolding LoadPinnedOperationObservationPlan_def by (metis option.distinct(1))+
  note l1 = assms [unfolded LoadPinnedOperationObservationPlan_def sha, unfolded eqTrueI [OF binding] not_True_eq_False simp_thms if_False]
  from l1 obtain f where f: "files = Some f" by (cases files) simp_all
  from l1 obtain manifest where m: "load_manifest cd f b = Some manifest" unfolding f by (cases "load_manifest cd f b") simp_all
  from l1 obtain index inputs where index: "load_index cd f b manifest = Some (index, inputs)"
    unfolding f by (cases "load_index cd f b manifest") (auto simp: m)
  from l1 have nonempty: "ix_SourceScopes index \<noteq> []" unfolding f by (auto simp: m index)
  from l1 obtain byScope where scopes: "source_scopes manifest None (ix_SourceScopes index) [] = Some byScope"
    unfolding f by (cases "source_scopes manifest None (ix_SourceScopes index) []") (simp_all add: m index nonempty)
  from l1 obtain state' where
    verify: "verifyAllShards cd \<lparr>sx_index = index, sx_root = f, sx_manifest = manifest, sx_byScope = byScope,
      sx_operationManifestRef = gi_OperationManifest inputs, sx_providerIndexRef = gi_ProviderIndex inputs,
      sx_verified = False, sx_executableOperations = 0\<rparr> = Some state'" and
    plan: "plan = \<lparr>pp_binding = b, pp_state = state'\<lparr>sx_verified := True\<rparr>\<rparr>"
    unfolding f by (auto simp: m index nonempty scopes)
  have "index_ok b index" using index by (auto simp: load_index_def split: if_splits option.splits)
  then show thesis using plan binding scopes by (intro that [OF verify]) (auto simp: index_ok_def)
qed

section \<open>The sources of the index\<close>

lemma source_scopes_entries:
  assumes "source_scopes manifest previous scopes m = Some m'"
  shows "m' = m @ List.map (\<lambda>s. (sp_SourceID s, s)) scopes"
  using assms
proof (induction scopes arbitrary: previous m)
  case Nil
  then show ?case by simp
next
  case (Cons scope scopes)
  from Cons.prems have absent: "gm_get m (sp_SourceID scope) = None"
    and rest: "source_scopes manifest (Some (sp_SourceID scope)) scopes (gm_put (sp_SourceID scope) scope m) = Some m'"
    by (simp_all split: if_split_asm)
  have "gm_put (sp_SourceID scope) scope m = m @ [(sp_SourceID scope, scope)]" using absent by (intro gm_put_absent) (simp add: map_of_eq_None_iff)
  then show ?case using Cons.IH [OF rest] by simp
qed

lemma source_scopes_distinct:
  assumes "source_scopes manifest previous scopes m = Some m'" "gm_wf m"
  shows "gm_wf m'"
  using assms
proof (induction scopes arbitrary: previous m)
  case Nil
  then show ?case by simp
next
  case (Cons scope scopes)
  from Cons.prems(1) have "source_scopes manifest (Some (sp_SourceID scope)) scopes (gm_put (sp_SourceID scope) scope m) = Some m'"
    by (simp split: if_split_asm)
  then show ?case by (rule Cons.IH) (simp add: Cons.prems(2) distinct_update)
qed

lemma unknown_scopes:
  "sum_list (List.map (\<lambda>scope. boolToInt (sp_InventoryUnknown scope)) scopes) = int (length (filter sp_InventoryUnknown scopes))"
  by (induction scopes) (simp_all add: boolToInt_def)

lemma read_fitting_shard:
  assumes "shard_fits cd state (ix_Shards (sx_index state) ! i) new" "sx_index (pp_state plan) = sx_index state"
    "sx_root (pp_state plan) = sx_root state" "sx_verified (pp_state plan)" "i < length (ix_Shards (sx_index state))"
  shows "ReadShard cd plan i = Some new"
proof -
  from assms(1) obtain shard where "readShard cd (sx_root state) (ix_Shards (sx_index state) ! i) = Some shard"
    "all_some (List.map (decodeOperationObservationPlanRecord cd) (wh_Records shard)) = Some new"
    "list_all (\<lambda>r. op_SourceID r = wh_SourceID shard) new"
    by (auto simp: shard_fits_def list_all_iff)
  then show ?thesis using assms(2-5) by (simp add: ReadShard_def)
qed

text \<open>All of it, about the plan.\<close>

lemma loaded_plan:
  assumes "LoadPinnedOperationObservationPlan cd files b = Some plan"
  obtains shards where "length shards = ShardCount plan" "\<And>i. i < ShardCount plan \<Longrightarrow> ReadShard cd plan i = Some (shards ! i)"
    "\<And>i. i < ShardCount plan \<Longrightarrow> rising (List.map op_OperationID (shards ! i))"
    "\<And>i r. i < ShardCount plan \<Longrightarrow> r \<in> set (shards ! i) \<Longrightarrow>
       op_SourceID r = sf_SourceID (ix_Shards (sx_index (pp_state plan)) ! i) \<and> record_statuses_ok r"
    "Counts plan = (counts_of (concat shards))\<lparr>pn_InventoryUnknownScopes := int (length (filter sp_InventoryUnknown (SourceScopes plan)))\<rparr>"
    "ExecutableOperations plan = how_many op_ExecutionEligible (concat shards)"
    "\<And>scope. scope \<in> set (SourceScopes plan) \<Longrightarrow>
       int (length (ids_of (sp_SourceID scope) (concat shards))) = sp_RegisteredOperations scope \<and>
       identity_set_digest (ids_of (sp_SourceID scope) (concat shards)) = sp_IdentitySetSHA256 scope"
    "\<And>r s. r \<in> set (concat shards) \<Longrightarrow> s \<in> set (concat shards) \<Longrightarrow> op_OperationID r = op_OperationID s \<Longrightarrow> op_SourceID r = op_SourceID s"
    "RegistryRevision plan = bi_RegistryRevision b" "sx_verified (pp_state plan)"
    "distinct (List.map sp_SourceID (SourceScopes plan))"
proof -
  from assms obtain state state' manifest where state: "verifyAllShards cd state = Some state'"
    "pp_state plan = state'\<lparr>sx_verified := True\<rparr>" "sx_executableOperations state = 0"
    "ix_RegistryRevision (sx_index state) = bi_RegistryRevision b"
    "source_scopes manifest None (ix_SourceScopes (sx_index state)) [] = Some (sx_byScope state)"
    by (elim loaded_state exE) blast
  from state(1) obtain shards where shards: "list_all2 (shard_fits cd state) (ix_Shards (sx_index state)) shards"
    "state' = state\<lparr>sx_executableOperations := sx_executableOperations state + how_many op_ExecutionEligible (concat shards)\<rparr>"
    "ix_Summary (sx_index state) = (counts_of (concat shards))\<lparr>pn_InventoryUnknownScopes :=
       sum_list (List.map (\<lambda>(source, scope). boolToInt (sp_InventoryUnknown scope)) (sx_byScope state))\<rparr>"
    "\<forall>(source, scope)\<in>set (sx_byScope state). int (length (ids_of source (concat shards))) = sp_RegisteredOperations scope \<and>
       identity_set_digest (ids_of source (concat shards)) = sp_IdentitySetSHA256 scope"
    "\<forall>r\<in>set (concat shards). \<forall>s\<in>set (concat shards). op_OperationID r = op_OperationID s \<longrightarrow> op_SourceID r = op_SourceID s"
    by (rule verified_shards)
  have index: "sx_index (pp_state plan) = sx_index state" "sx_root (pp_state plan) = sx_root state" "sx_verified (pp_state plan)"
    using state(2) shards(2) by simp_all
  have entries: "sx_byScope state = List.map (\<lambda>s. (sp_SourceID s, s)) (SourceScopes plan)"
    using source_scopes_entries [OF state(5)] index by (simp add: SourceScopes_def)
  have unknown: "sum_list (List.map (\<lambda>(source, scope). boolToInt (sp_InventoryUnknown scope)) (sx_byScope state)) =
      int (length (filter sp_InventoryUnknown (SourceScopes plan)))"
    unfolding entries by (simp add: unknown_scopes o_def)
  show thesis
  proof (rule that)
    show "length shards = ShardCount plan" using list_all2_lengthD [OF shards(1)] index by (simp add: ShardCount_def)
    fix i assume i: "i < ShardCount plan"
    then have fits: "shard_fits cd state (ix_Shards (sx_index state) ! i) (shards ! i)" and i': "i < length (ix_Shards (sx_index state))"
      using shards(1) index by (simp_all add: ShardCount_def list_all2_conv_all_nth)
    show "ReadShard cd plan i = Some (shards ! i)" by (rule read_fitting_shard [OF fits index i'])
    show "rising (List.map op_OperationID (shards ! i))" using fits by (simp add: shard_fits_def)
    show "op_SourceID r = sf_SourceID (ix_Shards (sx_index (pp_state plan)) ! i) \<and> record_statuses_ok r" if "r \<in> set (shards ! i)" for r
      using fits that index by (simp add: shard_fits_def list_all_iff)
  next
    show "Counts plan = (counts_of (concat shards))\<lparr>pn_InventoryUnknownScopes := int (length (filter sp_InventoryUnknown (SourceScopes plan)))\<rparr>"
      using shards(3) index unknown by (simp add: Counts_def)
    show "ExecutableOperations plan = how_many op_ExecutionEligible (concat shards)"
      using state(2,3) shards(2) by (simp add: ExecutableOperations_def)
    show "int (length (ids_of (sp_SourceID scope) (concat shards))) = sp_RegisteredOperations scope \<and>
       identity_set_digest (ids_of (sp_SourceID scope) (concat shards)) = sp_IdentitySetSHA256 scope" if "scope \<in> set (SourceScopes plan)" for scope
      using shards(4) that entries by auto
    show "op_SourceID r = op_SourceID s" if "r \<in> set (concat shards)" "s \<in> set (concat shards)" "op_OperationID r = op_OperationID s" for r s
      using shards(5) that by blast
    show "RegistryRevision plan = bi_RegistryRevision b" using state(4) index by (simp add: RegistryRevision_def)
    show "sx_verified (pp_state plan)" by (rule index(3))
    have "gm_wf (sx_byScope state)" by (rule source_scopes_distinct [OF state(5)]) simp
    then show "distinct (List.map sp_SourceID (SourceScopes plan))" unfolding entries by (simp add: o_def)
  qed
qed

end
