(* ===== verification/Operation_Plan_Samples.thy ===== *)
theory Operation_Plan_Samples
  imports Operation_Plan_Facts
begin

text \<open>A release with one source, one shard and one executable REST operation, and what loading it gives.\<close>

section \<open>The operation\<close>

definition sample_contract :: "(string, json) gomap" where
  "sample_contract =
     [(''operation_effect'', J_obj [(''classification'', J_str ''read_only''), (''authority'', J_str ''reviewed_policy'')]),
      (''transport'', J_obj [(''authority'', J_str ''reviewed_policy''), (''protocol'', J_str ''REST''), (''scheme'', J_str ''https''),
         (''host'', J_str ''example.org''), (''path'', J_str ''/v''), (''http_method'', J_str ''GET'')]),
      (''limits'', J_obj [(''request_budget'', J_num 1), (''timeout_ms'', J_num 1000), (''max_request_bytes'', J_num 1000),
         (''max_response_bytes'', J_num 1000)]),
      (''response_assertion'', J_obj [(''evidence_refs'', J_arr [J_null]), (''kind'', J_str ''http_status'')]),
      (''parameters'', J_arr []),
      (''authentication'', J_obj [(''evidence_refs'', J_arr [J_null]), (''requirement'', J_str ''none''), (''mechanism'', J_str ''none''),
         (''placement'', J_str ''none''), (''credential_reference_required'', J_bool False)])]"

definition sample_plan :: "(string, json) gomap" where
  "sample_plan = [(''operation_identity'', J_obj [(''protocol'', J_str ''REST'')]),
     (''request_plan'', J_obj [(''request_contract'', J_obj sample_contract)]), (''runtime_binding'', J_obj [])]"

definition sample_source :: string where "sample_source = ''data/data-go-kr.registry.json''"

definition sample_quota :: operationPlanQuotaPolicyWire where
  "sample_quota = \<lparr>wp_ScopeKind = ''api'', wp_ScopeKey = ''k'', wp_ScopeSHA256 = OperationQuotaScopeDigest ''api'' ''k'',
     wp_MaxConcurrent = 1, wp_RequestsPerWindow = 10, wp_WindowSeconds = 3600, wp_MinimumIntervalSeconds = 0,
     wp_EvidenceRefs = [\<lparr>qe_ArtifactPath = sample_source, qe_SHA256 = sha256_hex sample_source, qe_JSONPointer = ''#'', qe_EvidenceKind = ''reviewed_policy''\<rparr>]\<rparr>"

definition sample_ref :: "string \<Rightarrow> operationPlanArtifactRef" where
  "sample_ref path = \<lparr>ar_Path = path, ar_SHA256 = sha256_hex path, ar_Bytes = 1\<rparr>"

definition sample_scope :: OperationObservationPlanSourceScope where
  "sample_scope = \<lparr>sp_SourceID = ''data_go_kr'', sp_Provider = ''data.go.kr'', sp_AdapterID = ''a'', sp_InventoryStatus = ''complete'',
     sp_InventoryUnknown = False, sp_TestOnly = False, sp_RegisteredOperations = 1,
     sp_IdentitySetSHA256 = identity_set_digest [''op''], sp_SourceArtifacts = [sample_ref sample_source]\<rparr>"

definition sample_shard_ref :: operationObservationPlanShardRef where
  "sample_shard_ref = \<lparr>sf_SourceID = ''data_go_kr'', sf_ShardIndex = 0, sf_Path = ''s'', sf_SHA256 = sha256_hex ''s'', sf_Bytes = 1,
     sf_RecordCount = 1, sf_FirstOperationID = ''op'', sf_LastOperationID = ''op''\<rparr>"

definition sample_index :: operationObservationPlanIndex where
  "sample_index = \<lparr>ix_SchemaVersion = OperationObservationPlanSchemaVersion, ix_ArtifactKind = ''index'',
     ix_RegistryRevision = replicate 40 CHR ''a'', ix_GenerationInputs = ''g'',
     ix_InventoryContext = \<lparr>iy_SeparateLinkOperations = 0, iy_ProviderIndexAdapterEntries = 0,
       iy_ProviderIndexEntriesCountedAsOperations = False\<rparr>,
     ix_Summary = \<lparr>pn_KnownOperations = 1, pn_RequestPlansComplete = 1, pn_RequestPlansIncomplete = 0, pn_RuntimeBindingsBound = 1,
       pn_RuntimeBindingsUnbound = 0, pn_Admitted = 1, pn_NotAdmitted = 0, pn_InventoryUnknownScopes = 0\<rparr>,
     ix_SourceScopes = [sample_scope], ix_Shards = [sample_shard_ref]\<rparr>"

definition sample_release :: RegistryReleaseManifest where
  "sample_release = \<lparr>rm_SchemaVersion = ''datapan.release-manifest.v1'', rm_Artifacts =
     [\<lparr>ra_Path = ''i'', ra_Kind = ''operation_observation_plan'', ra_Schema = operationObservationPlanSchemaURI, ra_Bytes = 1,
        ra_SHA256 = sha256_hex ''i''\<rparr>,
      \<lparr>ra_Path = ''s'', ra_Kind = ''operation_observation_plan_shard'', ra_Schema = operationObservationPlanSchemaURI, ra_Bytes = 1,
        ra_SHA256 = sha256_hex ''s''\<rparr>,
      \<lparr>ra_Path = sample_source, ra_Kind = ''source'', ra_Schema = '''', ra_Bytes = 1, ra_SHA256 = sha256_hex sample_source\<rparr>]\<rparr>"

definition sample_codec :: plan_codec where
  "sample_codec = \<lparr>cd_schema_ok = (\<lambda>_. True), cd_schema_sha = operationObservationPlanSchemaSHA256,
     cd_release = (\<lambda>_. Some sample_release), cd_index = (\<lambda>_. Some sample_index),
     cd_generation = (\<lambda>_. Some \<lparr>gi_GeneratorPath = sample_source, gi_GeneratorSHA256 = sha256_hex sample_source, gi_OperationManifest = sample_ref sample_source,
       gi_OperationDenominators = [sample_ref sample_source], gi_LegacyPolicy = sample_ref sample_source, gi_ProviderIndex = Some (sample_ref sample_source), gi_DocumentEvidence = []\<rparr>),
     cd_shard = (\<lambda>_. Some \<lparr>wh_SchemaVersion = OperationObservationPlanSchemaVersion, wh_ArtifactKind = ''shard'', wh_SourceID = ''data_go_kr'',
       wh_ShardIndex = 0, wh_Records = [''r'']\<rparr>),
     cd_record = (\<lambda>_. Some \<lparr>wr_SchemaVersion = OperationObservationPlanSchemaVersion, wr_ArtifactKind = ''operation_plan'',
       wr_SourceBinding = ''b'', wr_OperationIdentity = ''b'', wr_RequestPlan = ''b'', wr_RuntimeBinding = ''b'', wr_Admission = ''b'',
       wr_LegacyPolicy = ''b''\<rparr>),
     cd_source = (\<lambda>_. Some \<lparr>ws_SourceID = ''data_go_kr'', ws_Provider = ''data.go.kr'', ws_AdapterID = ''a'', ws_InventoryStatus = ''complete'',
       ws_InventoryUnknown = False, ws_TestOnly = False\<rparr>),
     cd_identity = (\<lambda>_. Some \<lparr>wi_OperationID = ''op'', wi_Protocol = ''REST'', wi_DatasetID = ''d'', wi_OperationName = ''n'',
       wi_UpstreamOperationKey = ''u'', wi_LegacySelectors = []\<rparr>),
     cd_request = (\<lambda>_. Some \<lparr>wq_Status = ''complete'', wq_MissingFields = [], wq_RequestContract = ''c''\<rparr>),
     cd_runtime = (\<lambda>_. Some \<lparr>wt_Status = ''bound'', wt_MissingFields = [], wt_CredentialReference = '''', wt_CredentialScopeKey = '''',
       wt_ObservationPeriodSeconds = 3600, wt_QuotaPolicies = [sample_quota]\<rparr>),
     cd_admission = (\<lambda>_. Some \<lparr>wa_Status = ''admitted'', wa_Reasons = []\<rparr>),
     cd_contract = (\<lambda>_. Some \<lparr>cn_TimeoutMS = 1000, cn_Kind = ''http_status''\<rparr>),
     cd_any = (\<lambda>_. Some (J_obj sample_plan)), cd_url_scheme = (\<lambda>_. True)\<rparr>"

definition sample_binding :: OperationObservationPlanBinding where
  "sample_binding = \<lparr>bi_RegistryRevision = replicate 40 CHR ''a'', bi_ReleaseManifestPath = ''m'', bi_ReleaseManifestBytes = 1,
     bi_ReleaseManifestSHA256 = sha256_hex ''m'', bi_IndexPath = ''i'', bi_IndexBytes = 1, bi_IndexSHA256 = sha256_hex ''i'',
     bi_SchemaRegistryRevision = operationObservationSchemaRegistryRevision, bi_SchemaSHA256 = operationObservationPlanSchemaSHA256\<rparr>"

text \<open>Every file holds its own name.\<close>

definition sample_files :: plan_files where "sample_files path = Some path"

definition sample_record :: OperationObservationPlanRecord where
  "sample_record =
     \<lparr>op_OperationID = ''op'', op_Protocol = ''REST'', op_ResponseAssertionKind = ''http_status'', op_DatasetID = ''d'',
      op_OperationName = ''n'', op_UpstreamOperationKey = ''u'', op_LegacySelectors = [], op_SourceID = ''data_go_kr'', op_Provider = ''data.go.kr'',
      op_AdapterID = ''a'', op_InventoryStatus = ''complete'', op_InventoryUnknown = False, op_TestOnly = False,
      op_RequestPlanStatus = ''complete'', op_RequestPlanMissing = [], op_RuntimeBindingStatus = ''bound'', op_RuntimeBindingMissing = [],
      op_AdmissionStatus = ''admitted'', op_AdmissionReasons = [], op_ObservationPeriod = 3600 * second,
      op_RequestTimeout = 1000 * 1000000, op_QuotaPolicies = [wire_policy sample_quota], op_QuotaPoliciesAdmitted = True,
      op_ExecutionEligible = True, op_ExecutionBlockReason = '''', op_quotaBindings = [quota_binding sample_quota]\<rparr>"

lemma sample_policy:
  "wire_policy sample_quota = \<lparr>qp_ScopeSHA256 = OperationQuotaScopeDigest ''api'' ''k'', qp_MaxConcurrent = 1,
     qp_RequestsPerWindow = 10, qp_Window = 3600 * second, qp_MinimumInterval = 0\<rparr>"
  by (simp add: wire_policy_def sample_quota_def seconds_duration_def second_def)

lemma sample_policy_valid: "validOperationQuotaPolicy (wire_policy sample_quota)"
  by (simp add: sample_policy validOperationQuotaPolicy_def OperationQuotaScopeDigest_def second_def minute_def
      maxOperationQuotaConcurrent_def)

lemma sample_evidence: "list_all evidence_ref_ok (wp_EvidenceRefs sample_quota)"
  by (simp add: sample_quota_def evidence_ref_ok_def sample_source_def blank_def quotaEvidencePointerPattern_def validOperationQuotaEvidenceKind_def)

lemma sample_quota_ok: "quota_wire_ok sample_quota"
  using sample_policy_valid sample_evidence
  by (simp add: quota_wire_ok_def sample_quota_def quotaScopeKindPattern_def blank_def)

lemma sample_quota_admitted: "admitted_policies ''complete'' ''bound'' ''admitted'' [sample_quota] = Some [wire_policy sample_quota]"
  using sample_quota_ok sample_evidence sample_policy_valid sample_policy
  by (simp add: OperationQuotaPolicyFromEvidence_def Let_def sample_quota_def quotaScopeKindPattern_def blank_def minute_def second_def)

lemma sample_contract_accepted: "contract_refusal sample_codec sample_plan [(''protocol'', J_str ''REST'')] sample_contract = ''''"
  by (simp add: contract_refusal_def sample_contract_def sample_plan_def gm_member_def as_object_def supportedContractAuthority_def
      stringValue_def safeOperationHost_def contains_any_def operationPlanHostPattern_def host_label_def lower_alnum_def source_char_def
      safeOperationPath_def validOperationRequestLimits_def within_limit_def integerValue_def maxOperationObservationTimeoutMS_def
      maxOperationObservationRequestBytes_def maxOperationObservationResponseBytes_def validOperationResponseAssertion_def anySlice_def
      validOperationParameters_def validOperationAuthentication_def no_authentication_def Let_def)

lemma sample_any [simp]: "cd_any sample_codec raw = Some (J_obj sample_plan)"
  by (simp add: sample_codec_def)

lemma sample_members:
  "as_object (gm_member sample_plan ''operation_identity'') = Some [(''protocol'', J_str ''REST'')]"
  "as_object (gm_member sample_plan ''request_plan'') = Some [(''request_contract'', J_obj sample_contract)]"
  "as_object (gm_member [(''request_contract'', J_obj sample_contract)] ''request_contract'') = Some sample_contract"
  by (simp_all add: sample_plan_def gm_member_def as_object_def)

lemma sample_decision:
  "operationPlanExecutionDecision sample_codec raw (sample_record\<lparr>op_ExecutionEligible := False\<rparr>) = (True, '''')"
proof -
  have real: "\<not> operationPlanHasSyntheticEvidence sample_codec raw"
    by (simp add: operationPlanHasSyntheticEvidence_def) (simp add: sample_plan_def sample_contract_def synthetic_node_def gm_member_def)
  have statuses: "op_RequestPlanStatus sample_record = ''complete''" "op_RuntimeBindingStatus sample_record = ''bound''"
    "op_AdmissionStatus sample_record = ''admitted''" "op_QuotaPoliciesAdmitted sample_record" "op_QuotaPolicies sample_record \<noteq> []"
    "\<not> op_TestOnly sample_record" "op_Provider sample_record \<noteq> ''synthetic-test-provider''" "take 9 (op_SourceID sample_record) \<noteq> ''synthetic''"
    by (simp_all add: sample_record_def)
  show ?thesis
    by (simp add: operationPlanExecutionDecision_def real statuses as_object_def [of "J_obj sample_plan"] sample_members
        sample_contract_accepted refused_def)
qed

lemma sample_plan_decoded: "decodeOperationObservationPlanRecord sample_codec ''r'' = Some sample_record"
proof -
  let ?c = "sample_record\<lparr>op_ExecutionEligible := False\<rparr>"
  have plain: "plan_record \<lparr>ws_SourceID = ''data_go_kr'', ws_Provider = ''data.go.kr'', ws_AdapterID = ''a'', ws_InventoryStatus = ''complete'',
       ws_InventoryUnknown = False, ws_TestOnly = False\<rparr> \<lparr>wi_OperationID = ''op'', wi_Protocol = ''REST'', wi_DatasetID = ''d'',
       wi_OperationName = ''n'', wi_UpstreamOperationKey = ''u'', wi_LegacySelectors = []\<rparr>
      \<lparr>wq_Status = ''complete'', wq_MissingFields = [], wq_RequestContract = ''c''\<rparr>
      \<lparr>wt_Status = ''bound'', wt_MissingFields = [], wt_CredentialReference = '''', wt_CredentialScopeKey = '''',
       wt_ObservationPeriodSeconds = 3600, wt_QuotaPolicies = [sample_quota]\<rparr>
      \<lparr>wa_Status = ''admitted'', wa_Reasons = []\<rparr> \<lparr>cn_TimeoutMS = 1000, cn_Kind = ''http_status''\<rparr> (3600 * second)
      [wire_policy sample_quota] = ?c"
    by (simp add: plan_record_def sample_record_def)
  have "decided sample_codec ''r'' ?c = sample_record"
    by (simp add: decided_def sample_decision) (simp add: sample_record_def)
  then show ?thesis using plain sample_quota_admitted
    by (simp add: decodeOperationObservationPlanRecord_def sample_codec_def request_contract_def observation_period_def
        maxOperationObservationTimeoutMS_def del: admitted_policies.simps)
qed

section \<open>The release\<close>

definition sample_manifest :: "(string, ReleaseArtifact) gomap" where
  "sample_manifest = List.map (\<lambda>a. (ra_Path a, a)) (rm_Artifacts sample_release)"

definition sample_inputs :: operationObservationPlanGenerationInputs where
  "sample_inputs = \<lparr>gi_GeneratorPath = sample_source, gi_GeneratorSHA256 = sha256_hex sample_source, gi_OperationManifest = sample_ref sample_source,
       gi_OperationDenominators = [sample_ref sample_source], gi_LegacyPolicy = sample_ref sample_source, gi_ProviderIndex = Some (sample_ref sample_source), gi_DocumentEvidence = []\<rparr>"

definition sample_state :: operationPlanIndexState where
  "sample_state = \<lparr>sx_index = sample_index, sx_root = sample_files, sx_manifest = sample_manifest,
     sx_byScope = [(''data_go_kr'', sample_scope)], sx_operationManifestRef = sample_ref sample_source, sx_providerIndexRef = Some (sample_ref sample_source),
     sx_verified = False, sx_executableOperations = 0\<rparr>"

definition sample_loaded :: PinnedOperationObservationPlan where
  "sample_loaded = \<lparr>pp_binding = sample_binding, pp_state = sample_state\<lparr>sx_executableOperations := 1, sx_verified := True\<rparr>\<rparr>"

lemma sample_path [simp]: "safePlanRelativePath [c]" if "c \<in> set ''ims''"
  using that by (auto simp: safePlanRelativePath_def contains_any_def)

lemma sample_source_other [simp]: "sample_source \<noteq> [c]" "[c] \<noteq> sample_source"
  by (simp_all add: sample_source_def)

lemma sample_source_path [simp]: "safePlanRelativePath sample_source"
  by (simp add: safePlanRelativePath_def contains_any_def sample_source_def)

lemma sample_read [simp]: "readPlanArtifact sample_files [c] 1 n = Some [c]" if "c \<in> set ''ims''" "1 \<le> n"
  using that by (simp add: readPlanArtifact_def sample_files_def del: set_simps)

lemma sample_manifest_entries:
  "gm_get sample_manifest sample_source = Some \<lparr>ra_Path = sample_source, ra_Kind = ''source'', ra_Schema = '''', ra_Bytes = 1, ra_SHA256 = sha256_hex sample_source\<rparr>"
  "releaseManifestBindsPlanArtifact sample_manifest ''i'' 1 (sha256_hex ''i'') ''operation_observation_plan''"
  "releaseManifestBindsPlanArtifact sample_manifest ''s'' 1 (sha256_hex ''s'') ''operation_observation_plan_shard''"
  by (simp_all add: sample_manifest_def sample_release_def releaseManifestBindsPlanArtifact_def)

lemma sample_ref_bound: "ref_bound sample_manifest (sample_ref sample_source)"
  by (simp add: ref_bound_def releaseManifestBinds_def sample_manifest_entries(1) sample_ref_def)

lemma sample_load_manifest: "load_manifest sample_codec sample_files sample_binding = Some sample_manifest"
  by (simp add: load_manifest_def sample_binding_def maxOperationObservationManifestBytes_def sample_codec_def)
    (simp add: sample_release_def sample_manifest_def)

lemma sample_load_index: "load_index sample_codec sample_files sample_binding sample_manifest = Some (sample_index, sample_inputs)"
proof -
  have inputs: "validOperationPlanGenerationInputs sample_inputs sample_manifest"
    by (simp add: validOperationPlanGenerationInputs_def sample_inputs_def sample_manifest_entries(1) sample_ref_bound)
  have "index_ok sample_binding sample_index"
    by (simp add: index_ok_def sample_index_def sample_binding_def maxOperationObservationShards_def maxOperationObservationOperations_def)
  then show ?thesis using inputs
    by (simp add: load_index_def sample_binding_def sample_manifest_entries maxOperationObservationIndexBytes_def sample_codec_def
        sample_inputs_def)
qed

lemma sample_scopes: "source_scopes sample_manifest None (ix_SourceScopes sample_index) [] = Some [(''data_go_kr'', sample_scope)]"
  by (simp add: sample_index_def sample_scope_def sample_ref_bound identity_set_digest_def)

lemma sample_shard:
  "readShard sample_codec sample_files sample_shard_ref = Some \<lparr>wh_SchemaVersion = OperationObservationPlanSchemaVersion,
     wh_ArtifactKind = ''shard'', wh_SourceID = ''data_go_kr'', wh_ShardIndex = 0, wh_Records = [''r'']\<rparr>"
  by (simp add: readShard_def sample_shard_ref_def maxOperationObservationShardBytes_def sample_codec_def)

lemma sample_evidence_bound: "allOperationPlanEvidenceBound sample_codec raw sample_manifest"
  by (simp add: allOperationPlanEvidenceBound_def)
    (simp add: sample_plan_def sample_contract_def evidence_node_bound_def gm_member_def)

lemma sample_quota_checked: "\<exists>quotas. checkQuotaPolicies (op_quotaBindings sample_record) [] = Some quotas"
  by (simp add: sample_record_def)

lemma sample_walk:
  assumes "pw_lastID w = ''''" "pw_firstID w = ''''" "pw_counts w = no_counts" "pw_seen w = []" "pw_quotas w = []"
    "pw_ids w = [(''data_go_kr'', [])]" "pw_executable w = 0"
  shows "\<exists>w'. walk_record sample_codec sample_state ''data_go_kr'' ''r'' w = Some w' \<and> pw_firstID w' = ''op'' \<and> pw_lastID w' = ''op'' \<and>
    pw_counts w' = ix_Summary sample_index \<and> pw_ids w' = [(''data_go_kr'', [''op''])] \<and> pw_executable w' = 1"
proof -
  have scope: "gm_get (sx_byScope sample_state) ''data_go_kr'' = Some sample_scope" "sx_manifest sample_state = sample_manifest"
    by (simp_all add: sample_state_def)
  obtain quotas where quotas: "checkQuotaPolicies (op_quotaBindings sample_record) [] = Some quotas" using sample_quota_checked by blast
  have r: "op_SourceID sample_record = ''data_go_kr''" "op_OperationID sample_record = ''op''" "op_RuntimeBindingStatus sample_record = ''bound''"
    "op_ExecutionEligible sample_record" "record_in_scope sample_record sample_scope" "record_statuses_ok sample_record"
    by (simp_all add: sample_record_def record_in_scope_def sample_scope_def record_statuses_ok_def)
  have counts: "count_plan_record sample_record no_counts = ix_Summary sample_index"
    by (simp add: count_plan_record_def sample_record_def no_counts_def sample_index_def boolToInt_def)
  show ?thesis
    by (simp add: walk_record_def sample_plan_decoded scope r sample_evidence_bound assms quotas maxOperationObservationOperations_def counts
        boolToInt_def) (simp add: no_counts_def)
qed

lemma sample_verified: "verifyAllShards sample_codec sample_state = Some (sample_state\<lparr>sx_executableOperations := 1\<rparr>)"
proof -
  let ?start = "(walk_start sample_state)\<lparr>pw_source := ''data_go_kr'', pw_index := 0, pw_paths := [''s''], pw_firstID := '''', pw_lastID := ''''\<rparr>"
  have "pw_lastID ?start = ''''" "pw_firstID ?start = ''''" "pw_counts ?start = no_counts" "pw_seen ?start = []" "pw_quotas ?start = []"
    "pw_ids ?start = [(''data_go_kr'', [])]" "pw_executable ?start = 0"
    by (simp_all add: walk_start_def sample_state_def)
  then obtain w where w: "walk_record sample_codec sample_state ''data_go_kr'' ''r'' ?start = Some w" "pw_firstID w = ''op''" "pw_lastID w = ''op''"
    "pw_counts w = ix_Summary sample_index" "pw_ids w = [(''data_go_kr'', [''op''])]" "pw_executable w = 1"
    using sample_walk [of ?start] by blast
  have "shard_ref_ok sample_state sample_shard_ref (walk_start sample_state)"
    by (simp add: shard_ref_ok_def sample_shard_ref_def walk_start_def sample_state_def sample_manifest_entries
        maxOperationObservationShardBytes_def)
  moreover have "sx_root sample_state = sample_files" "ix_Shards (sx_index sample_state) = [sample_shard_ref]"
    by (simp_all add: sample_state_def sample_index_def)
  moreover have "sf_SourceID sample_shard_ref = ''data_go_kr''" "sf_ShardIndex sample_shard_ref = 0" "sf_RecordCount sample_shard_ref = 1"
    "sf_Path sample_shard_ref = ''s''" "sf_FirstOperationID sample_shard_ref = ''op''" "sf_LastOperationID sample_shard_ref = ''op''"
    by (simp_all add: sample_shard_ref_def)
  moreover have "pw_paths (walk_start sample_state) = []" by (simp add: walk_start_def)
  ultimately have "walk_shards sample_codec sample_state (ix_Shards (sx_index sample_state)) (walk_start sample_state) = Some w"
    using w(1-3) by (simp add: walk_shard_def sample_shard)
  moreover have "list_all (scope_ids_ok w) (sx_byScope sample_state)"
    using w(5) by (simp add: sample_state_def scope_ids_ok_def) (simp add: sample_scope_def)
  moreover have "(pw_counts w)\<lparr>pn_InventoryUnknownScopes :=
      sum_list (List.map (\<lambda>(sourceID, scope). boolToInt (sp_InventoryUnknown scope)) (sx_byScope sample_state))\<rparr> = ix_Summary (sx_index sample_state)"
    using w(4) by (simp add: sample_state_def) (simp add: sample_scope_def sample_index_def boolToInt_def)
  ultimately show ?thesis using w(6) by (simp add: verifyAllShards_def) (simp add: sample_state_def sample_index_def)
qed

lemma sample_loads: "LoadPinnedOperationObservationPlan sample_codec (Some sample_files) sample_binding = Some sample_loaded"
proof -
  have binding: "validOperationObservationPlanBinding sample_binding"
    by (simp add: validOperationObservationPlanBinding_def sample_binding_def commitPattern_def hex_string_def list_all_length is_lower_hex_def
        maxOperationObservationManifestBytes_def maxOperationObservationIndexBytes_def)
  have state: "\<lparr>sx_index = sample_index, sx_root = sample_files, sx_manifest = sample_manifest, sx_byScope = [(''data_go_kr'', sample_scope)],
      sx_operationManifestRef = gi_OperationManifest sample_inputs, sx_providerIndexRef = gi_ProviderIndex sample_inputs,
      sx_verified = False, sx_executableOperations = 0\<rparr> = sample_state"
    by (simp add: sample_state_def sample_inputs_def)
  have "cd_schema_sha sample_codec = bi_SchemaSHA256 sample_binding" by (simp add: sample_codec_def sample_binding_def)
  moreover have "ix_SourceScopes sample_index \<noteq> []" by (simp add: sample_index_def)
  ultimately show ?thesis
    by (simp add: LoadPinnedOperationObservationPlan_def binding sample_load_manifest sample_load_index sample_scopes state sample_verified
        sample_loaded_def)
qed

end
