(* ===== verification/Operation_Plan_Properties.thy ===== *)
theory Operation_Plan_Properties
  imports Operation_Plan_Samples
begin

text \<open>
  What a loaded observation plan is, and what an operation it lets the program execute may do.
\<close>

section \<open>Execution\<close>

text \<open>The value at a path of member names; where an object is missing it is \<^verbatim>\<open>nil\<close>.\<close>

fun json_at :: "json \<Rightarrow> string list \<Rightarrow> json" where
  "json_at v [] = v"
| "json_at v (k # ks) = json_at (gm_member (object_or_nil v) k) ks"

lemma stringValue_nonempty: "stringValue v = s \<Longrightarrow> s \<noteq> '''' \<Longrightarrow> v = J_str s"
  by (auto simp: stringValue_def split: json.splits)

lemma stringValue_is: "s \<noteq> '''' \<Longrightarrow> (stringValue v = s) = (v = J_str s)"
  by (auto simp: stringValue_def split: json.splits)

lemma as_object_J_obj [simp]: "as_object (J_obj m) = Some m"
  by (simp add: as_object_def)

lemma as_object_at: "as_object v = Some m \<Longrightarrow> object_or_nil v = m"
  by (simp add: object_or_nil_def)

lemma contract_accepted:
  assumes "contract_refusal cd whole identity contract = ''''"
  obtains effect transport parameters where
    "as_object (gm_member contract ''operation_effect'') = Some effect" "gm_member effect ''classification'' = J_str ''read_only''"
    "as_object (gm_member contract ''transport'') = Some transport" "stringValue (gm_member transport ''scheme'') = ''https''"
    "safeOperationHost (stringValue (gm_member transport ''host''))" "safeOperationPath (stringValue (gm_member transport ''path''))"
    "stringValue (gm_member identity ''protocol'') = ''REST'' \<and> stringValue (gm_member transport ''http_method'') = ''GET'' \<or>
     stringValue (gm_member identity ''protocol'') = ''SOAP'' \<and> stringValue (gm_member transport ''http_method'') = ''POST''"
    "validOperationRequestLimits (gm_member contract ''limits'')"
    "gm_member contract ''parameters'' = J_arr parameters"
    "validOperationParameters cd (stringValue (gm_member identity ''protocol'')) parameters"
    "validOperationAuthentication cd (stringValue (gm_member identity ''protocol'')) (gm_member contract ''authentication'')
       (gm_member whole ''runtime_binding'') parameters"
proof -
  from assms obtain effect where effect: "as_object (gm_member contract ''operation_effect'') = Some effect"
    unfolding contract_refusal_def by (cases "as_object (gm_member contract ''operation_effect'')") simp_all
  note a1 = assms [unfolded contract_refusal_def effect option.case]
  have e: "gm_member effect ''classification'' = J_str ''read_only''" "supportedContractAuthority (gm_member effect ''authority'')"
    using a1 by (simp_all split: if_split_asm)
  from a1 e obtain transport where transport: "as_object (gm_member contract ''transport'') = Some transport"
    by (cases "as_object (gm_member contract ''transport'')") simp_all
  note a2 = a1 [unfolded e transport option.case Let_def simp_thms if_False not_True_eq_False]
  have t: "stringValue (gm_member transport ''scheme'') = ''https''"
    "safeOperationHost (stringValue (gm_member transport ''host''))" "safeOperationPath (stringValue (gm_member transport ''path''))"
    "validOperationRequestLimits (gm_member contract ''limits'')"
    "stringValue (gm_member identity ''protocol'') = ''REST'' \<or> stringValue (gm_member identity ''protocol'') = ''SOAP''"
    "stringValue (gm_member identity ''protocol'') = ''REST'' \<longrightarrow> stringValue (gm_member transport ''http_method'') = ''GET''"
    "stringValue (gm_member identity ''protocol'') = ''SOAP'' \<longrightarrow> stringValue (gm_member transport ''http_method'') = ''POST''"
    using a2 by (simp_all split: if_split_asm)
  have verb: "stringValue (gm_member identity ''protocol'') = ''REST'' \<and> stringValue (gm_member transport ''http_method'') = ''GET'' \<or>
     stringValue (gm_member identity ''protocol'') = ''SOAP'' \<and> stringValue (gm_member transport ''http_method'') = ''POST''"
    using t(5-7) by blast
  from a2 obtain parameters where "gm_member contract ''parameters'' = J_arr parameters"
    by (cases "gm_member contract ''parameters''") (simp_all split: if_split_asm)
  with a2 show thesis by (intro that [OF effect e(1) transport t(1-3) verb t(4)]) (simp_all split: if_split_asm)
qed

lemma decision_accepted:
  assumes "fst (operationPlanExecutionDecision cd raw r)"
  obtains whole identity request contract where "op_RequestPlanStatus r = ''complete''" "op_RuntimeBindingStatus r = ''bound''"
    "op_AdmissionStatus r = ''admitted''" "op_QuotaPolicies r \<noteq> []" "\<not> op_TestOnly r" "\<not> operationPlanHasSyntheticEvidence cd raw"
    "cd_any cd raw = Some (J_obj whole)" "as_object (gm_member whole ''operation_identity'') = Some identity"
    "as_object (gm_member whole ''request_plan'') = Some request" "as_object (gm_member request ''request_contract'') = Some contract"
    "contract_refusal cd whole identity contract = ''''"
proof -
  have no: "\<not> fst (refused (c # cs))" for c cs by (simp add: refused_def)
  note d = assms [unfolded operationPlanExecutionDecision_def]
  have s: "op_RequestPlanStatus r = ''complete''" "op_RuntimeBindingStatus r = ''bound''" "op_AdmissionStatus r = ''admitted''"
    "op_QuotaPoliciesAdmitted r" "op_QuotaPolicies r \<noteq> []" "\<not> op_TestOnly r" "\<not> operationPlanHasSyntheticEvidence cd raw"
    "op_Provider r \<noteq> ''synthetic-test-provider''" "take 9 (op_SourceID r) \<noteq> ''synthetic''"
    using d by (simp_all add: no split: if_split_asm)
  note d2 = d [simplified s, simplified]
  from d2 obtain whole where whole: "map_option as_object (cd_any cd raw) = Some (Some whole)"
    by (cases "map_option as_object (cd_any cd raw)") (auto simp: no split: option.splits)
  then obtain v where v: "cd_any cd raw = Some v" "as_object v = Some whole" by auto
  then have any: "cd_any cd raw = Some (J_obj whole)" by (cases v) (simp_all add: as_object_def)
  from d2 any obtain identity where identity: "as_object (gm_member whole ''operation_identity'') = Some identity"
    by (cases "as_object (gm_member whole ''operation_identity'')") (simp_all add: no)
  from d2 any identity obtain request where request: "as_object (gm_member whole ''request_plan'') = Some request"
    by (cases "as_object (gm_member whole ''request_plan'')") (simp_all add: no)
  from d2 any identity request obtain contract where contract: "as_object (gm_member request ''request_contract'') = Some contract"
    by (cases "as_object (gm_member request ''request_contract'')") (simp_all add: no)
  from d2 any identity request contract have "contract_refusal cd whole identity contract = ''''" by (simp add: refused_def)
  then show thesis using that s any identity request contract by blast
qed

lemma decoded_plan_record:
  assumes "decodeOperationObservationPlanRecord cd raw = Some r"
  obtains source identity request runtime admission contract period policies where
    "r = decided cd raw (plan_record source identity request runtime admission contract period policies)"
    "request_contract cd request = Some contract" "observation_period (wt_ObservationPeriodSeconds runtime) = Some period"
    "admitted_policies (wq_Status request) (wt_Status runtime) (wa_Status admission) (wt_QuotaPolicies runtime) = Some policies"
    "wi_OperationID identity \<noteq> ''''" "ws_SourceID source \<noteq> ''''"
  using assms unfolding decodeOperationObservationPlanRecord_def
  by (simp split: if_split_asm option.split_asm) blast

lemma admitted_policies_valid:
  "admitted_policies request runtime admission qs = Some policies \<Longrightarrow> list_all validOperationQuotaPolicy policies"
proof (induction qs arbitrary: policies)
  case Nil
  then show ?case by simp
next
  case (Cons q qs)
  show ?case
  proof (cases "admission = ''admitted''")
    case True
    from Cons.prems obtain policy rest where
      policy: "OperationQuotaPolicyFromEvidence request runtime admission (wp_ScopeKind q) (wp_ScopeKey q)
          (wp_ScopeSHA256 q) (wp_MaxConcurrent q) (wp_RequestsPerWindow q) (wp_WindowSeconds q)
          (wp_MinimumIntervalSeconds q) (wp_EvidenceRefs q) = Inr policy"
      and rest: "admitted_policies request runtime admission qs = Some rest" "policies = policy # rest"
      using True by (auto split: if_split_asm sum.split_asm)
    have "validOperationQuotaPolicy policy"
      using policy by (auto simp: OperationQuotaPolicyFromEvidence_def Let_def split: if_split_asm)
    then show ?thesis using Cons.IH [OF rest(1)] rest(2) by simp
  next
    case False
    then show ?thesis using Cons by (simp split: if_split_asm)
  qed
qed

text \<open>Whether the parameters of a contract carry a credential, and how many.\<close>

lemma credentials_agree:
  assumes "validOperationAuthentication cd protocol authentication runtime parameters"
  shows "length (filter is_credential parameters) =
    (if stringValue (json_at authentication [''requirement'']) = ''required'' then 1 else 0)"
    "stringValue (json_at authentication [''requirement'']) \<in> {''none'', ''required''}"
  using assms
  by (auto simp: validOperationAuthentication_def no_authentication_def required_authentication_def as_object_at Let_def
      split: option.split_asm if_split_asm)

text \<open>
  Parameters that leave no doubt which part of a request each of them fills: all have a name, a place
  that requests of the protocol have, and an identity of their own.
\<close>

definition unambiguous :: "string \<Rightarrow> json list \<Rightarrow> bool" where
  "unambiguous protocol parameters \<longleftrightarrow>
     distinct (List.map (parameter_identity \<circ> object_or_nil) parameters) \<and>
     list_all (\<lambda>item. stringValue (json_at item [''name'']) \<noteq> '''' \<and>
       stringValue (json_at item [''location'']) \<in>
         (if protocol = ''REST'' then {''query'', ''path'', ''header''} else {''body'', ''soap_header'', ''header''})) parameters"

lemma parameters_ok_distinct:
  "parameters_ok cd protocol seen parameters \<Longrightarrow>
    distinct (List.map (parameter_identity \<circ> object_or_nil) parameters) \<and>
    set (List.map (parameter_identity \<circ> object_or_nil) parameters) \<inter> set seen = {}"
proof (induction parameters arbitrary: seen)
  case Nil
  then show ?case by simp
next
  case (Cons item items)
  obtain p where p: "as_object item = Some p" using Cons.prems by (cases "as_object item") simp_all
  then show ?case using Cons.IH [of "parameter_identity p # seen"] Cons.prems by (auto simp: as_object_at)
qed

lemma parameters_ok_named:
  "parameters_ok cd protocol seen parameters \<Longrightarrow> item \<in> set parameters \<Longrightarrow> parameter_ok cd protocol (object_or_nil item)"
  by (induction parameters arbitrary: seen) (auto simp: as_object_at split: option.split_asm)

lemma valid_parameters_unambiguous:
  assumes "validOperationParameters cd protocol parameters" "protocol \<in> {''REST'', ''SOAP''}"
  shows "unambiguous protocol parameters"
proof -
  note ok = assms(1) [unfolded validOperationParameters_def]
  have "stringValue (json_at item [''name'']) \<noteq> '''' \<and>
      stringValue (json_at item [''location'']) \<in>
        (if protocol = ''REST'' then {''query'', ''path'', ''header''} else {''body'', ''soap_header'', ''header''})"
    if "item \<in> set parameters" for item
    using parameters_ok_named [OF ok that] assms(2) by (auto simp: parameter_ok_def Let_def)
  then show ?thesis using parameters_ok_distinct [OF ok] by (simp add: unambiguous_def list_all_iff)
qed

text \<open>
  A contract for one bounded read-only request with unambiguous parameters that carries exactly the
  credential it requires.
\<close>

definition safe_request :: "json \<Rightarrow> json \<Rightarrow> json list \<Rightarrow> bool" where
  "safe_request plan contract parameters \<longleftrightarrow>
       json_at contract [''operation_effect'', ''classification''] = J_str ''read_only'' \<and>
       json_at contract [''transport'', ''scheme''] = J_str ''https'' \<and>
       safeOperationHost (stringValue (json_at contract [''transport'', ''host''])) \<and>
       safeOperationPath (stringValue (json_at contract [''transport'', ''path''])) \<and>
       (json_at plan [''operation_identity'', ''protocol''], json_at contract [''transport'', ''http_method'']) \<in>
         {(J_str ''REST'', J_str ''GET''), (J_str ''SOAP'', J_str ''POST'')} \<and>
       integerValue (json_at contract [''limits'', ''request_budget'']) = 1 \<and>
       integerValue (json_at contract [''limits'', ''timeout_ms'']) \<in> {1..20000} \<and>
       integerValue (json_at contract [''limits'', ''max_request_bytes'']) \<in> {1..1048576} \<and>
       integerValue (json_at contract [''limits'', ''max_response_bytes'']) \<in> {1..1048576} \<and>
       json_at contract [''parameters''] = J_arr parameters \<and>
       unambiguous (stringValue (json_at plan [''operation_identity'', ''protocol''])) parameters \<and>
       length (filter is_credential parameters) =
         (if json_at contract [''authentication'', ''requirement''] = J_str ''required'' then 1 else 0)"

text \<open>C35: An operation the plan lets the program execute has been admitted with a complete request and a bound
  runtime, on quota policies that are all valid, and within 20 s; no evidence of it is synthetic.  Its
  request is read-only: one request over https to a plain host and path, by GET for REST and by POST for
  SOAP, with both bodies at most 1 MiB; its parameters are named, lie where the protocol has parameters,
  and no two have the same location, name and qualified name; and it carries exactly one credential if it
  requires one and none otherwise.
\<close>

theorem eligible_operation_is_safe:
  assumes "decodeOperationObservationPlanRecord cd raw = Some r" "op_ExecutionEligible r"
  shows "op_AdmissionStatus r = ''admitted'' \<and> op_RequestPlanStatus r = ''complete'' \<and> op_RuntimeBindingStatus r = ''bound'' \<and>
    op_QuotaPolicies r \<noteq> [] \<and> list_all validOperationQuotaPolicy (op_QuotaPolicies r) \<and> \<not> op_TestOnly r \<and>
    0 \<le> op_RequestTimeout r \<and> op_RequestTimeout r \<le> 20 * second \<and>
    (\<exists>plan parameters. cd_any cd raw = Some plan \<and> json_all (\<lambda>v. \<not> synthetic_node v) plan \<and>
       safe_request plan (json_at plan [''request_plan'', ''request_contract'']) parameters)"
proof -
  from assms(1) obtain source identity request runtime admission contract period policies where
    r: "r = decided cd raw (plan_record source identity request runtime admission contract period policies)" and
    c: "request_contract cd request = Some contract" and
    q: "admitted_policies (wq_Status request) (wt_Status runtime) (wa_Status admission) (wt_QuotaPolicies runtime) = Some policies"
    by (rule decoded_plan_record)
  let ?r = "plan_record source identity request runtime admission contract period policies"
  have "fst (operationPlanExecutionDecision cd raw ?r)" using assms(2) by (simp add: r decided_def)
  then obtain whole idn req con where d: "op_RequestPlanStatus ?r = ''complete''" "op_RuntimeBindingStatus ?r = ''bound''"
    "op_AdmissionStatus ?r = ''admitted''" "op_QuotaPolicies ?r \<noteq> []" "\<not> op_TestOnly ?r" "\<not> operationPlanHasSyntheticEvidence cd raw"
    "cd_any cd raw = Some (J_obj whole)" "as_object (gm_member whole ''operation_identity'') = Some idn"
    "as_object (gm_member whole ''request_plan'') = Some req" "as_object (gm_member req ''request_contract'') = Some con"
    "contract_refusal cd whole idn con = ''''"
    by (rule decision_accepted)
  obtain effect transport parameters where a:
    "as_object (gm_member con ''operation_effect'') = Some effect" "gm_member effect ''classification'' = J_str ''read_only''"
    "as_object (gm_member con ''transport'') = Some transport" "stringValue (gm_member transport ''scheme'') = ''https''"
    "safeOperationHost (stringValue (gm_member transport ''host''))" "safeOperationPath (stringValue (gm_member transport ''path''))"
    "stringValue (gm_member idn ''protocol'') = ''REST'' \<and> stringValue (gm_member transport ''http_method'') = ''GET'' \<or>
     stringValue (gm_member idn ''protocol'') = ''SOAP'' \<and> stringValue (gm_member transport ''http_method'') = ''POST''"
    "validOperationRequestLimits (gm_member con ''limits'')" "gm_member con ''parameters'' = J_arr parameters"
    "validOperationParameters cd (stringValue (gm_member idn ''protocol'')) parameters"
    "validOperationAuthentication cd (stringValue (gm_member idn ''protocol'')) (gm_member con ''authentication'')
       (gm_member whole ''runtime_binding'') parameters"
    by (rule contract_accepted [OF d(11)])
  have plain: "list_all validOperationQuotaPolicy policies" by (rule admitted_policies_valid [OF q])
  have timeout: "0 \<le> cn_TimeoutMS contract * 1000000 \<and> cn_TimeoutMS contract * 1000000 \<le> 20 * second"
    using c by (auto simp: request_contract_def maxOperationObservationTimeoutMS_def second_def split: if_split_asm option.split_asm)
  have at: "json_at (J_obj whole) [''request_plan'', ''request_contract''] = gm_member req ''request_contract''"
    using d(9) by (simp add: as_object_at object_or_nil_def)
  have con: "object_or_nil (gm_member req ''request_contract'') = con" by (rule as_object_at [OF d(10)])
  have credentials: "length (filter is_credential parameters) =
      (if json_at (gm_member con ''authentication'') [''requirement''] = J_str ''required'' then 1 else 0)"
    using credentials_agree(1) [OF a(11)] stringValue_is [of "''required''" "json_at (gm_member con ''authentication'') [''requirement'']"]
    by simp
  have limits: "integerValue (json_at (gm_member con ''limits'') [''request_budget'']) = 1"
    "integerValue (json_at (gm_member con ''limits'') [''timeout_ms'']) \<in> {1..20000}"
    "integerValue (json_at (gm_member con ''limits'') [''max_request_bytes'']) \<in> {1..1048576}"
    "integerValue (json_at (gm_member con ''limits'') [''max_response_bytes'']) \<in> {1..1048576}"
    using a(8) by (auto simp: validOperationRequestLimits_def within_limit_def as_object_at maxOperationObservationTimeoutMS_def
        maxOperationObservationRequestBytes_def maxOperationObservationResponseBytes_def split: option.split_asm)
  have verb: "(json_at (J_obj whole) [''operation_identity'', ''protocol''], gm_member transport ''http_method'') \<in>
      {(J_str ''REST'', J_str ''GET''), (J_str ''SOAP'', J_str ''POST'')}"
    using a(7) d(8) by (auto simp: as_object_at object_or_nil_def dest!: stringValue_nonempty)
  have place: "stringValue (json_at (J_obj whole) [''operation_identity'', ''protocol'']) = stringValue (gm_member idn ''protocol'')"
    using d(8) by (simp add: as_object_at object_or_nil_def)
  have parameters: "unambiguous (stringValue (gm_member idn ''protocol'')) parameters"
    using a(7) by (intro valid_parameters_unambiguous [OF a(10)]) auto
  have "safe_request (J_obj whole) (json_at (J_obj whole) [''request_plan'', ''request_contract'']) parameters"
    unfolding safe_request_def at place using parameters a(2,5,6,9) limits verb credentials stringValue_nonempty [OF a(4)]
    by (simp only: json_at.simps con as_object_at [OF a(1)] as_object_at [OF a(3)]) simp
  moreover have "json_all (\<lambda>v. \<not> synthetic_node v) (J_obj whole)"
    using d(6,7) by (simp add: operationPlanHasSyntheticEvidence_def)
  moreover have "op_AdmissionStatus r = ''admitted'' \<and> op_RequestPlanStatus r = ''complete'' \<and> op_RuntimeBindingStatus r = ''bound'' \<and>
    op_QuotaPolicies r \<noteq> [] \<and> list_all validOperationQuotaPolicy (op_QuotaPolicies r) \<and> \<not> op_TestOnly r \<and>
    0 \<le> op_RequestTimeout r \<and> op_RequestTimeout r \<le> 20 * second"
    using d(1-5) plain timeout by (simp add: r decided_def plan_record_def)
  ultimately show ?thesis using d(7) by blast
qed

lemma eligible_operation_is_safe_witness:
  "\<exists>plan parameters. cd_any sample_codec ''r'' = Some plan \<and>
     safe_request plan (json_at plan [''request_plan'', ''request_contract'']) parameters"
  using eligible_operation_is_safe [OF sample_plan_decoded] by (auto simp: sample_record_def)

section \<open>Loading\<close>

text \<open>C36: A plan that loads is exactly what its shards say.  Every shard can be read again, the operations of a
  shard rise strictly by identity and all belong to its source; over all the shards the counts of the plan
  are the numbers of operations in each state, as many are executable as the plan says, each source has
  the declared number of operations and the declared digest of their identities, no source is listed
  twice, and an identity is listed under one source only.
\<close>

theorem loaded_plan_is_exact:
  assumes "LoadPinnedOperationObservationPlan cd files b = Some plan"
  shows "\<exists>shards. length shards = ShardCount plan \<and>
    (\<forall>i<ShardCount plan. ReadShard cd plan i = Some (shards ! i) \<and> sorted_wrt (<) (List.map op_OperationID (shards ! i)) \<and>
      list_all (\<lambda>r. op_SourceID r = sf_SourceID (ix_Shards (sx_index (pp_state plan)) ! i)) (shards ! i)) \<and>
    (let number = \<lambda>P. int (length (filter P (concat shards)))
     in Counts plan = \<lparr>pn_KnownOperations = number (\<lambda>r. True),
       pn_RequestPlansComplete = number (\<lambda>r. op_RequestPlanStatus r = ''complete''),
       pn_RequestPlansIncomplete = number (\<lambda>r. op_RequestPlanStatus r = ''incomplete''),
       pn_RuntimeBindingsBound = number (\<lambda>r. op_RuntimeBindingStatus r = ''bound''),
       pn_RuntimeBindingsUnbound = number (\<lambda>r. op_RuntimeBindingStatus r = ''unbound''),
       pn_Admitted = number (\<lambda>r. op_AdmissionStatus r = ''admitted''),
       pn_NotAdmitted = number (\<lambda>r. op_AdmissionStatus r = ''not_admitted''),
       pn_InventoryUnknownScopes = int (length (filter sp_InventoryUnknown (SourceScopes plan)))\<rparr> \<and>
     ExecutableOperations plan = number op_ExecutionEligible) \<and>
    (\<forall>scope\<in>set (SourceScopes plan).
      let ids = List.map op_OperationID (filter (\<lambda>r. op_SourceID r = sp_SourceID scope) (concat shards))
      in int (length ids) = sp_RegisteredOperations scope \<and> identity_set_digest ids = sp_IdentitySetSHA256 scope) \<and>
    distinct (List.map sp_SourceID (SourceScopes plan)) \<and>
    (\<forall>r\<in>set (concat shards). \<forall>s\<in>set (concat shards). op_OperationID r = op_OperationID s \<longrightarrow> op_SourceID r = op_SourceID s) \<and>
    RegistryRevision plan = bi_RegistryRevision b"
proof -
  from assms obtain shards where s: "length shards = ShardCount plan"
    "\<And>i. i < ShardCount plan \<Longrightarrow> ReadShard cd plan i = Some (shards ! i)"
    "\<And>i. i < ShardCount plan \<Longrightarrow> rising (List.map op_OperationID (shards ! i))"
    "\<And>i r. i < ShardCount plan \<Longrightarrow> r \<in> set (shards ! i) \<Longrightarrow>
       op_SourceID r = sf_SourceID (ix_Shards (sx_index (pp_state plan)) ! i) \<and> record_statuses_ok r"
    "Counts plan = (counts_of (concat shards))\<lparr>pn_InventoryUnknownScopes := int (length (filter sp_InventoryUnknown (SourceScopes plan)))\<rparr>"
    "ExecutableOperations plan = how_many op_ExecutionEligible (concat shards)"
    "\<And>scope. scope \<in> set (SourceScopes plan) \<Longrightarrow>
       int (length (ids_of (sp_SourceID scope) (concat shards))) = sp_RegisteredOperations scope \<and>
       identity_set_digest (ids_of (sp_SourceID scope) (concat shards)) = sp_IdentitySetSHA256 scope"
    "\<And>r s. r \<in> set (concat shards) \<Longrightarrow> s \<in> set (concat shards) \<Longrightarrow> op_OperationID r = op_OperationID s \<Longrightarrow> op_SourceID r = op_SourceID s"
    "RegistryRevision plan = bi_RegistryRevision b" "distinct (List.map sp_SourceID (SourceScopes plan))"
    by (rule loaded_plan) blast
  have each: "\<forall>i<ShardCount plan. ReadShard cd plan i = Some (shards ! i) \<and> sorted_wrt (<) (List.map op_OperationID (shards ! i)) \<and>
      list_all (\<lambda>r. op_SourceID r = sf_SourceID (ix_Shards (sx_index (pp_state plan)) ! i)) (shards ! i)"
    using s(2-4) by (simp add: rising_def list_all_iff)
  let ?number = "\<lambda>P. int (length (filter P (concat shards)))"
  have counts: "Counts plan = \<lparr>pn_KnownOperations = ?number (\<lambda>r. True),
       pn_RequestPlansComplete = ?number (\<lambda>r. op_RequestPlanStatus r = ''complete''),
       pn_RequestPlansIncomplete = ?number (\<lambda>r. op_RequestPlanStatus r = ''incomplete''),
       pn_RuntimeBindingsBound = ?number (\<lambda>r. op_RuntimeBindingStatus r = ''bound''),
       pn_RuntimeBindingsUnbound = ?number (\<lambda>r. op_RuntimeBindingStatus r = ''unbound''),
       pn_Admitted = ?number (\<lambda>r. op_AdmissionStatus r = ''admitted''),
       pn_NotAdmitted = ?number (\<lambda>r. op_AdmissionStatus r = ''not_admitted''),
       pn_InventoryUnknownScopes = int (length (filter sp_InventoryUnknown (SourceScopes plan)))\<rparr>"
    unfolding s(5) counts_of_def how_many_def by simp
  have scopes: "\<forall>scope\<in>set (SourceScopes plan).
      int (length (List.map op_OperationID (filter (\<lambda>r. op_SourceID r = sp_SourceID scope) (concat shards)))) = sp_RegisteredOperations scope \<and>
      identity_set_digest (List.map op_OperationID (filter (\<lambda>r. op_SourceID r = sp_SourceID scope) (concat shards))) = sp_IdentitySetSHA256 scope"
    using s(7) unfolding ids_of_def by blast
  have owner: "\<forall>r\<in>set (concat shards). \<forall>s\<in>set (concat shards). op_OperationID r = op_OperationID s \<longrightarrow> op_SourceID r = op_SourceID s"
    using s(8) by blast
  show ?thesis
    unfolding Let_def
    by (rule exI [of _ shards], intro conjI) (rule s(1) each counts s(6) [unfolded how_many_def] scopes s(10) owner s(9))+
qed

lemma loaded_plan_is_exact_witness:
  "\<exists>shards. length shards = 1 \<and> ReadShard sample_codec sample_loaded 0 = Some (shards ! 0)"
proof -
  have one: "ShardCount sample_loaded = 1" by (simp add: sample_loaded_def sample_state_def sample_index_def ShardCount_def)
  from loaded_plan_is_exact [OF sample_loads] obtain shards where
    "length shards = ShardCount sample_loaded" "\<forall>i<ShardCount sample_loaded. ReadShard sample_codec sample_loaded i = Some (shards ! i)"
    by blast
  then show ?thesis unfolding one by blast
qed

end
