(* ===== verification/Texts.thy ===== *)
theory Texts
  imports Operation_History_Files
begin

text \<open>
  What the code uses of \<^verbatim>\<open>strings\<close> and of 64-bit arithmetic beyond the prelude: white space as Unicode has
  it, in UTF-8, and the wrap-around of an \<^verbatim>\<open>int\<close>.
\<close>

section \<open>White space\<close>

definition space_seqs :: "nat list list" where
  "space_seqs = List.map (\<lambda>b. [b]) (32 # [9..<14]) @ [[194, 133], [194, 160], [225, 154, 128]] @
     List.map (\<lambda>d. [226, 128, d]) ([128..<139] @ [168, 169, 175]) @ [[226, 129, 159], [227, 128, 128]]"

definition space_at :: "nat list list \<Rightarrow> nat list \<Rightarrow> nat" where
  "space_at seqs bs = (case find (\<lambda>s. take (length s) bs = s) seqs of None \<Rightarrow> 0 | Some s \<Rightarrow> length s)"

function strip :: "nat list list \<Rightarrow> nat list \<Rightarrow> nat list" where
  "strip seqs [] = []"
| "strip seqs (b # bs) = (if space_at seqs (b # bs) = 0 then b # bs else strip seqs (drop (space_at seqs (b # bs) - 1) bs))"
  by pat_completeness auto
termination by (relation "measure (\<lambda>(seqs, bs). length bs)") auto

text \<open>\<^verbatim>\<open>strings.TrimSpace\<close>; the runes at the end are read backwards.\<close>

definition trim_space :: "string \<Rightarrow> string" where
  "trim_space s = List.map char_of (rev (strip (List.map rev space_seqs) (rev (strip space_seqs (bytes_of s)))))"

text \<open>\<^verbatim>\<open>utf8.ValidString\<close>: no byte stands for U+FFFD.\<close>

definition utf8_valid :: "string \<Rightarrow> bool" where
  "utf8_valid s \<longleftrightarrow> utf8_repair s = s"

text \<open>\<^verbatim>\<open>strings.Contains\<close>.\<close>

fun contains_text :: "string \<Rightarrow> string \<Rightarrow> bool" where
  "contains_text [] part \<longleftrightarrow> part = []"
| "contains_text (c # cs) part \<longleftrightarrow> take (length part) (c # cs) = part \<or> contains_text cs part"

definition has_suffix :: "string \<Rightarrow> string \<Rightarrow> bool" where
  "has_suffix s part \<longleftrightarrow> length part \<le> length s \<and> drop (length s - length part) s = part"

definition has_prefix :: "string \<Rightarrow> string \<Rightarrow> bool" where
  "has_prefix s part \<longleftrightarrow> take (length part) s = part"

text \<open>\<^verbatim>\<open>strings.Join\<close>.\<close>

fun join_texts :: "string \<Rightarrow> string list \<Rightarrow> string" where
  "join_texts sep [] = []"
| "join_texts sep [x] = x"
| "join_texts sep (x # y # ys) = x @ sep @ join_texts sep (y # ys)"

section \<open>Slices\<close>

text \<open>A slice where \<^verbatim>\<open>nil\<close>, here \<open>None\<close>, is not the same as an empty one: \<^verbatim>\<open>encoding/json\<close> tells them apart.\<close>

type_synonym 'a slice = "'a list option"

definition elems :: "'a slice \<Rightarrow> 'a list" where
  "elems xs = (case xs of None \<Rightarrow> [] | Some ys \<Rightarrow> ys)"

lemma elems_simps [simp]: "elems None = []" "elems (Some ys) = ys"
  by (simp_all add: elems_def)

text \<open>\<^verbatim>\<open>append([]T(nil), xs...)\<close>.\<close>

definition copied :: "'a slice \<Rightarrow> 'a slice" where
  "copied xs = (if elems xs = [] then None else Some (elems xs))"

section \<open>64-bit integers\<close>

definition wrap64 :: "int \<Rightarrow> int" where
  "wrap64 n = (n + 2 ^ 63) mod 2 ^ 64 - 2 ^ 63"

lemma wrap64_id: "- (2 ^ 63) \<le> n \<Longrightarrow> n < 2 ^ 63 \<Longrightarrow> wrap64 n = n"
  by (simp add: wrap64_def)

end
