(* ===== verification/Registry_Metadata.thy ===== *)
theory Registry_Metadata
  imports Operation_Plan Texts
begin

text \<open>
  \<^verbatim>\<open>internal/health/registry_api_metadata.go\<close> and \<^verbatim>\<open>verified_registry_metadata.go\<close>: the display projection of the
  Registry, verified against the pinned source, indexed, paged, and adapted into the exact operation
  join of the read model and of the Gatus configuration.  The decoders and the schemas are the record
  \<open>metadata_codec\<close>, with \<^verbatim>\<open>strings.ToLower\<close>, whose tables are Unicode's.  A document that passes its schema
  has arrays where the model has lists.
\<close>

section \<open>Data\<close>

record registryMetadataScope =
  mz_Provider :: string
  mz_SourceSnapshotComplete :: bool
  mz_RegistryWideMetadataComplete :: bool
  mz_CoverageNote :: string

record registryMetadataSource =
  mr_Path :: string
  mr_SHA256 :: string
  mr_SizeBytes :: int

record registryMetadataCatalog =
  ml_Path :: string
  ml_SHA256 :: string
  ml_EntryCount :: int

record RegistryAPIMetadataCounts =
  mt_APIEntities :: int
  mt_APIOperations :: int
  mt_LinkOperations :: int
  mt_OperationlessCatalogEntries :: int
  mt_FiledataCatalogEntries :: int
  mt_Institutions :: int
  mt_MatchedHealthCanaries :: int

record RegistryAPIMetadataOperation =
  mp_RegistryOperationID :: string
  mp_DatasetID :: string
  mp_SourceSystem :: string
  mp_UpstreamOperationKey :: string
  mp_UpstreamOperationSeq :: string
  mp_Name :: string
  mp_NameState :: string
  mp_Protocol :: string

record RegistryAPIMetadataAPI =
  ma_RegistryAPIID :: string
  ma_Provider :: string
  ma_Title :: string
  ma_TitleState :: string
  ma_Organization :: string
  ma_OrganizationState :: string
  ma_Description :: string
  ma_DescriptionState :: string
  ma_LinkOperationCount :: int
  ma_Operations :: "RegistryAPIMetadataOperation list"

record RegistryHealthCanaryLink =
  lk_HealthOperationID :: string
  lk_RegistryAPIID :: string
  lk_RegistryOperationID :: string
  lk_DatasetID :: string
  lk_UpstreamOperationSeq :: string
  lk_OperationName :: string
  lk_CLIOperationKey :: string

record RegistryCanaryDisplay =
  dy_HealthOperationID :: string
  dy_OperationName :: string

record registryAPIMetadataSourcePin =
  px_SchemaVersion :: string
  px_RegistryRevision :: string
  px_Source :: registryMetadataSource
  px_Catalog :: registryMetadataCatalog
  px_ExpectedCounts :: RegistryAPIMetadataCounts
  px_ArtifactPath :: string
  px_ArtifactSHA256 :: string

record RegistryAPIMetadata =
  md_SchemaVersion :: string
  md_RegistryRevision :: string
  md_Scope :: registryMetadataScope
  md_Source :: registryMetadataSource
  md_Catalog :: registryMetadataCatalog
  md_Counts :: RegistryAPIMetadataCounts
  md_APIs :: "RegistryAPIMetadataAPI list"
  md_HealthCanaryLinks :: "RegistryHealthCanaryLink list"
  md_healthCatalogRevision :: string
  md_verifiedArtifactSHA256 :: string
  md_verifiedSourceSHA256 :: string
  md_verifiedProjectionSHA256 :: string
  md_byID :: "(string, nat) gomap"
  md_operationByID :: "(string, RegistryAPIMetadataOperation) gomap"
  md_canaryByOpID :: "(string, RegistryHealthCanaryLink) gomap"
  md_canaryByHealthID :: "(string, RegistryHealthCanaryLink) gomap"
  md_canaryDisplays :: "RegistryCanaryDisplay list"
  md_orderedAPIIndices :: "nat list"
  md_searchText :: "string list"

record metadata_codec =
  mc_pin_schema_ok :: "string \<Rightarrow> bool"
  mc_schema_ok :: "string \<Rightarrow> bool"
  mc_pin :: "string \<Rightarrow> registryAPIMetadataSourcePin option"
  mc_metadata :: "string \<Rightarrow> RegistryAPIMetadata option"
  mc_lower :: "string \<Rightarrow> string"

definition RegistryAPIMetadataSchemaVersion :: string where
  "RegistryAPIMetadataSchemaVersion = ''datapan.health-registry-api-metadata.v1''"
definition maxRegistryAPIMetadataBytes :: int where "maxRegistryAPIMetadataBytes = 64 * 1024 * 1024"
definition maxRegistryMetadataPinBytes :: int where "maxRegistryMetadataPinBytes = 1024 * 1024"
definition acceptedRegistryAPIMetadataSHA256 :: string where
  "acceptedRegistryAPIMetadataSHA256 = ''6f7b2ba4a0dbb8adc31c954485f5ca7677553a7609353a9c59f2769bba6f8650''"
definition acceptedRegistryMetadataPinSHA256 :: string where
  "acceptedRegistryMetadataPinSHA256 = ''e49a4f65f20eaa12dd6c9290f51e47a2d31e372f4f092c41c95f5e57cd0a2e98''"

section \<open>Patterns\<close>

definition registry_key_char :: "char \<Rightarrow> bool" where
  "registry_key_char c \<longleftrightarrow> alnum c \<or> c \<in> set ''._-''"

definition registryAPIIDPattern :: "string \<Rightarrow> bool" where
  "registryAPIIDPattern s \<longleftrightarrow> 1 \<le> length s \<and> length s \<le> 128 \<and> list_all registry_key_char s"

definition registryOperationKeyPattern :: "string \<Rightarrow> bool" where
  "registryOperationKeyPattern s \<longleftrightarrow> 1 \<le> length s \<and> length s \<le> 128 \<and> list_all registry_key_char s"

definition registryOperationIDPattern :: "string \<Rightarrow> bool" where
  "registryOperationIDPattern s \<longleftrightarrow> hex_string 64 s"

definition registryHealthIDPattern :: "string \<Rightarrow> bool" where
  "registryHealthIDPattern s \<longleftrightarrow> 1 \<le> length s \<and> length s \<le> 64 \<and> list_all (\<lambda>c. lower_alnum c \<or> c = CHR ''-'') s"

definition registryMetadataStateValues :: "string list" where
  "registryMetadataStateValues = [''present'', ''sanitized'', ''missing'', ''blank'', ''redacted_unsafe'', ''invalid_source'']"

definition validMetadataField :: "string \<Rightarrow> string \<Rightarrow> nat \<Rightarrow> bool" where
  "validMetadataField v state maxBytes \<longleftrightarrow> state \<in> set registryMetadataStateValues \<and> utf8_valid v \<and>
     (if state = ''present'' \<or> state = ''sanitized'' then \<not> blank v \<and> length v \<le> maxBytes else v = '''')"

definition readLimitedMetadataFile :: "(string \<Rightarrow> string option) \<Rightarrow> string \<Rightarrow> int \<Rightarrow> string option" where
  "readLimitedMetadataFile files path maximum =
     (case files path of None \<Rightarrow> None | Some data \<Rightarrow> (if int (length data) > maximum then None else Some data))"

definition sameMetadataProvenance :: "RegistryAPIMetadata \<Rightarrow> registryAPIMetadataSourcePin \<Rightarrow> CanaryConfig \<Rightarrow> bool" where
  "sameMetadataProvenance metadata pin canaries \<longleftrightarrow>
     md_RegistryRevision metadata = px_RegistryRevision pin \<and> md_Source metadata = px_Source pin \<and>
     md_Catalog metadata = px_Catalog pin \<and>
     mr_SHA256 (md_Source metadata) = cp_SourceRegistrySHA256 (cc_ConsumptionProvenance canaries) \<and>
     ml_SHA256 (md_Catalog metadata) = cc_CatalogSHA256 canaries \<and>
     ml_EntryCount (md_Catalog metadata) = int (length (ct_Entries (cc_catalog canaries))) \<and>
     mr_SizeBytes (md_Source metadata) > 0 \<and> ml_EntryCount (md_Catalog metadata) > 0"

section \<open>Indexing\<close>

definition metadata_identity_ok :: "RegistryAPIMetadata \<Rightarrow> bool" where
  "metadata_identity_ok m \<longleftrightarrow> md_RegistryRevision m \<noteq> '''' \<and> mz_Provider (md_Scope m) = ''data.go.kr'' \<and>
     mz_SourceSnapshotComplete (md_Scope m) \<and> \<not> mz_RegistryWideMetadataComplete (md_Scope m) \<and>
     mz_CoverageNote (md_Scope m) = ''Complete for the pinned data.go.kr source only; not a complete inventory of all Registry adapters.'' \<and>
     sha256Pattern (mr_SHA256 (md_Source m)) \<and> sha256Pattern (ml_SHA256 (md_Catalog m)) \<and>
     mr_Path (md_Source m) = ''data/data-go-kr.registry.json'' \<and>
     ml_Path (md_Catalog m) = ''config/registry/health-probe-catalog.json'' \<and> mr_SizeBytes (md_Source m) > 0 \<and>
     ml_EntryCount (md_Catalog m) > 0 \<and> int (length (md_APIs m)) = mt_APIEntities (md_Counts m) \<and>
     int (length (md_HealthCanaryLinks m)) = mt_MatchedHealthCanaries (md_Counts m)"

definition metadata_operation_ok :: "RegistryAPIMetadataAPI \<Rightarrow> RegistryAPIMetadataOperation \<Rightarrow> bool" where
  "metadata_operation_ok api p \<longleftrightarrow> mp_DatasetID p = ma_RegistryAPIID api \<and> registryAPIIDPattern (mp_DatasetID p) \<and>
     mp_SourceSystem p \<noteq> '''' \<and> length (mp_SourceSystem p) \<le> 128 \<and> registryOperationKeyPattern (mp_UpstreamOperationKey p) \<and>
     (mp_UpstreamOperationSeq p = '''' \<or> registryOperationKeyPattern (mp_UpstreamOperationSeq p)) \<and>
     registryOperationIDPattern (mp_RegistryOperationID p) \<and> (mp_Protocol p = ''REST'' \<or> mp_Protocol p = ''SOAP'') \<and>
     validMetadataField (mp_Name p) (mp_NameState p) 1024"

fun index_operations ::
  "RegistryAPIMetadataAPI \<Rightarrow> RegistryAPIMetadataOperation list \<Rightarrow> (string, RegistryAPIMetadataOperation) gomap
    \<Rightarrow> string + (string, RegistryAPIMetadataOperation) gomap" where
  "index_operations api [] m = Inr m"
| "index_operations api (p # ps) m =
     (if \<not> metadata_operation_ok api p then Inl ''invalid Registry API operation''
      else if gm_get m (mp_RegistryOperationID p) \<noteq> None then Inl ''duplicate Registry operation identity''
      else index_operations api ps (gm_put (mp_RegistryOperationID p) p m))"

text \<open>By name in lower case, then by identity; sorting twice, stably, is sorting by the pair.\<close>

definition sorted_operations :: "(string \<Rightarrow> string) \<Rightarrow> RegistryAPIMetadataOperation list \<Rightarrow> RegistryAPIMetadataOperation list" where
  "sorted_operations lower ps = sort_key (\<lambda>p. lower (mp_Name p)) (sort_key mp_RegistryOperationID ps)"

definition search_text :: "(string \<Rightarrow> string) \<Rightarrow> RegistryAPIMetadataAPI \<Rightarrow> string" where
  "search_text lower api = lower (join_texts [CHR 0x0A]
     ([ma_Title api, ma_Organization api, ma_Description api] @ List.map mp_Name (ma_Operations api)))"

record metadata_walk =
  mw_APIs :: "RegistryAPIMetadataAPI list"
  mw_byID :: "(string, nat) gomap"
  mw_operationByID :: "(string, RegistryAPIMetadataOperation) gomap"
  mw_operations :: int
  mw_links :: int
  mw_institutions :: "string list"
  mw_searchText :: "string list"

definition metadata_api_ok :: "RegistryAPIMetadataAPI \<Rightarrow> bool" where
  "metadata_api_ok api \<longleftrightarrow> registryAPIIDPattern (ma_RegistryAPIID api) \<and> ma_Provider api = ''data.go.kr'' \<and> ma_LinkOperationCount api \<ge> 0"

definition metadata_fields_ok :: "RegistryAPIMetadataAPI \<Rightarrow> bool" where
  "metadata_fields_ok api \<longleftrightarrow> validMetadataField (ma_Title api) (ma_TitleState api) 1024 \<and>
     validMetadataField (ma_Organization api) (ma_OrganizationState api) 1024 \<and>
     validMetadataField (ma_Description api) (ma_DescriptionState api) 8192"

text \<open>An API is indexed with its operations sorted, in place.\<close>

definition index_api :: "(string \<Rightarrow> string) \<Rightarrow> RegistryAPIMetadataAPI \<Rightarrow> metadata_walk \<Rightarrow> string + metadata_walk" where
  "index_api lower api w =
     (if \<not> metadata_api_ok api then Inl ''invalid Registry API entity''
      else if gm_get (mw_byID w) (ma_RegistryAPIID api) \<noteq> None then Inl ''duplicate Registry API identity''
      else if \<not> metadata_fields_ok api then Inl ''invalid Registry API display field''
      else case index_operations api (ma_Operations api) (mw_operationByID w) of
        Inl e \<Rightarrow> Inl e
      | Inr m \<Rightarrow>
          (let api' = api\<lparr>ma_Operations := sorted_operations lower (ma_Operations api)\<rparr>
           in Inr \<lparr>mw_APIs = mw_APIs w @ [api'], mw_byID = gm_put (ma_RegistryAPIID api) (length (mw_APIs w)) (mw_byID w),
                mw_operationByID = m, mw_operations = mw_operations w + int (length (ma_Operations api)),
                mw_links = mw_links w + ma_LinkOperationCount api,
                mw_institutions = (if ma_OrganizationState api = ''present'' \<or> ma_OrganizationState api = ''sanitized''
                  then List.insert (trim_space (ma_Organization api)) (mw_institutions w) else mw_institutions w),
                mw_searchText = mw_searchText w @ [search_text lower api']\<rparr>))"

fun index_apis :: "(string \<Rightarrow> string) \<Rightarrow> RegistryAPIMetadataAPI list \<Rightarrow> metadata_walk \<Rightarrow> string + metadata_walk" where
  "index_apis lower [] w = Inr w"
| "index_apis lower (api # apis) w = (case index_api lower api w of Inl e \<Rightarrow> Inl e | Inr w' \<Rightarrow> index_apis lower apis w')"

definition metadata_walk_start :: metadata_walk where
  "metadata_walk_start = \<lparr>mw_APIs = [], mw_byID = [], mw_operationByID = [], mw_operations = 0, mw_links = 0,
     mw_institutions = [], mw_searchText = []\<rparr>"

definition canary_link_ok :: "RegistryHealthCanaryLink \<Rightarrow> bool" where
  "canary_link_ok link \<longleftrightarrow> registryHealthIDPattern (lk_HealthOperationID link) \<and> registryAPIIDPattern (lk_RegistryAPIID link) \<and>
     registryAPIIDPattern (lk_DatasetID link) \<and> registryOperationKeyPattern (lk_UpstreamOperationSeq link) \<and>
     registryOperationIDPattern (lk_RegistryOperationID link) \<and> registryOperationIDPattern (lk_CLIOperationKey link) \<and>
     validMetadataField (lk_OperationName link) ''present'' 1024"

text \<open>The pinned catalog's entry of the canary that a link is about.\<close>

definition link_entry_ok :: "CanaryConfig \<Rightarrow> RegistryHealthCanaryLink \<Rightarrow> string option" where
  "link_entry_ok canaries link =
     (case find (\<lambda>c. ca_OperationID c = lk_HealthOperationID link) (cc_Canaries canaries) of
        None \<Rightarrow> Some ''Registry canary link is not configured''
      | Some canary \<Rightarrow>
          (case Entry canaries canary of
             None \<Rightarrow> Some ''Registry canary link does not match the pinned catalog''
           | Some entry \<Rightarrow>
               (if ce_Aliases_DatasetID entry \<noteq> lk_DatasetID link \<or>
                   ce_Aliases_UpstreamOperationSeq entry \<noteq> lk_UpstreamOperationSeq link \<or>
                   ce_Aliases_OperationName entry \<noteq> lk_OperationName link \<or>
                   ce_Aliases_CLIOperationKey entry \<noteq> lk_CLIOperationKey link
                then Some ''Registry canary link does not match the pinned catalog'' else None)))"

definition index_link ::
  "CanaryConfig \<Rightarrow> metadata_walk \<Rightarrow> RegistryHealthCanaryLink \<Rightarrow> (string, RegistryHealthCanaryLink) gomap
    \<Rightarrow> (string, RegistryHealthCanaryLink) gomap \<Rightarrow> string option" where
  "index_link canaries w link byHealth byOp =
     (if \<not> canary_link_ok link then Some ''invalid Registry canary link''
      else if gm_get byHealth (lk_HealthOperationID link) \<noteq> None then Some ''duplicate Health canary link''
      else if gm_get byOp (lk_RegistryOperationID link) \<noteq> None then Some ''duplicate Registry canary link''
      else case gm_get (mw_byID w) (lk_RegistryAPIID link) of
        None \<Rightarrow> Some ''Registry canary link has no API''
      | Some apiIndex \<Rightarrow>
          (if lk_DatasetID link \<noteq> lk_RegistryAPIID link then Some ''Registry canary link has no API''
           else case gm_get (mw_operationByID w) (lk_RegistryOperationID link) of
             None \<Rightarrow> Some ''Registry canary link has no exact operation''
           | Some p \<Rightarrow>
               (if mp_DatasetID p \<noteq> lk_DatasetID link \<or> mp_UpstreamOperationSeq p \<noteq> lk_UpstreamOperationSeq link \<or>
                   mp_Name p \<noteq> lk_OperationName link
                then Some ''Registry canary link has no exact operation''
                else if ma_RegistryAPIID (mw_APIs w ! apiIndex) \<noteq> lk_RegistryAPIID link
                then Some ''Registry canary link API mismatch''
                else link_entry_ok canaries link)))"

fun index_links ::
  "CanaryConfig \<Rightarrow> metadata_walk \<Rightarrow> RegistryHealthCanaryLink list \<Rightarrow> (string, RegistryHealthCanaryLink) gomap
    \<Rightarrow> (string, RegistryHealthCanaryLink) gomap
    \<Rightarrow> string + (string, RegistryHealthCanaryLink) gomap \<times> (string, RegistryHealthCanaryLink) gomap" where
  "index_links canaries w [] byHealth byOp = Inr (byHealth, byOp)"
| "index_links canaries w (link # links) byHealth byOp =
     (case index_link canaries w link byHealth byOp of
        Some e \<Rightarrow> Inl e
      | None \<Rightarrow> index_links canaries w links (gm_put (lk_HealthOperationID link) link byHealth)
          (gm_put (lk_RegistryOperationID link) link byOp))"

fun canary_displays :: "CanaryConfig \<Rightarrow> Canary list \<Rightarrow> string + RegistryCanaryDisplay list" where
  "canary_displays canaries [] = Inr []"
| "canary_displays canaries (canary # rest) =
     (case Entry canaries canary of
        None \<Rightarrow> Inl ''invalid configured canary display name''
      | Some entry \<Rightarrow>
          (if blank (ce_Aliases_OperationName entry) then Inl ''invalid configured canary display name''
           else case canary_displays canaries rest of
             Inl e \<Rightarrow> Inl e
           | Inr ds \<Rightarrow> Inr (\<lparr>dy_HealthOperationID = ca_OperationID canary, dy_OperationName = ce_Aliases_OperationName entry\<rparr> # ds)))"

definition ordered_indices :: "(string \<Rightarrow> string) \<Rightarrow> RegistryAPIMetadataAPI list \<Rightarrow> nat list" where
  "ordered_indices lower apis =
     sort_key (\<lambda>i. lower (ma_Title (apis ! i))) (sort_key (\<lambda>i. ma_RegistryAPIID (apis ! i)) [0..<length apis])"

definition indexAndValidate :: "(string \<Rightarrow> string) \<Rightarrow> CanaryConfig \<Rightarrow> RegistryAPIMetadata \<Rightarrow> string + RegistryAPIMetadata" where
  "indexAndValidate lower canaries m =
     (if \<not> metadata_identity_ok m then Inl ''invalid Registry metadata identity''
      else case index_apis lower (md_APIs m) metadata_walk_start of
        Inl e \<Rightarrow> Inl e
      | Inr w \<Rightarrow>
          (if mw_operations w \<noteq> mt_APIOperations (md_Counts m) \<or> mw_links w \<noteq> mt_LinkOperations (md_Counts m) \<or>
              int (length (mw_institutions w)) \<noteq> mt_Institutions (md_Counts m)
           then Inl ''Registry metadata counts disagree''
           else case index_links canaries w (md_HealthCanaryLinks m) [] [] of
             Inl e \<Rightarrow> Inl e
           | Inr (byHealth, byOp) \<Rightarrow>
               (case canary_displays canaries (cc_Canaries canaries) of
                  Inl e \<Rightarrow> Inl e
                | Inr displays \<Rightarrow>
                    Inr (m\<lparr>md_APIs := mw_APIs w, md_byID := mw_byID w, md_operationByID := mw_operationByID w,
                      md_canaryByOpID := byOp, md_canaryByHealthID := byHealth, md_canaryDisplays := displays,
                      md_orderedAPIIndices := ordered_indices lower (mw_APIs w), md_searchText := mw_searchText w\<rparr>))))"

section \<open>The projection digest\<close>

text \<open>\<^verbatim>\<open>json.Marshal\<close> of the metadata: its exported members, in order.\<close>

definition json_word :: "bool \<Rightarrow> string" where "json_word b = (if b then ''true'' else ''false'')"

definition metadata_operation_json :: "RegistryAPIMetadataOperation \<Rightarrow> string" where
  "metadata_operation_json p = json_object [(''registry_operation_id'', json_string (mp_RegistryOperationID p)),
     (''dataset_id'', json_string (mp_DatasetID p)), (''source_system'', json_string (mp_SourceSystem p)),
     (''upstream_operation_key'', json_string (mp_UpstreamOperationKey p)),
     (''upstream_operation_seq'', json_string (mp_UpstreamOperationSeq p)), (''name'', json_string (mp_Name p)),
     (''name_state'', json_string (mp_NameState p)), (''protocol'', json_string (mp_Protocol p))]"

definition metadata_api_json :: "RegistryAPIMetadataAPI \<Rightarrow> string" where
  "metadata_api_json a = json_object [(''registry_api_id'', json_string (ma_RegistryAPIID a)), (''provider'', json_string (ma_Provider a)),
     (''title'', json_string (ma_Title a)), (''title_state'', json_string (ma_TitleState a)),
     (''organization'', json_string (ma_Organization a)), (''organization_state'', json_string (ma_OrganizationState a)),
     (''description'', json_string (ma_Description a)), (''description_state'', json_string (ma_DescriptionState a)),
     (''link_operation_count'', int_dec (ma_LinkOperationCount a)),
     (''operations'', json_array (List.map metadata_operation_json (ma_Operations a)))]"

definition canary_link_json :: "RegistryHealthCanaryLink \<Rightarrow> string" where
  "canary_link_json l = json_object [(''health_operation_id'', json_string (lk_HealthOperationID l)),
     (''registry_api_id'', json_string (lk_RegistryAPIID l)), (''registry_operation_id'', json_string (lk_RegistryOperationID l)),
     (''dataset_id'', json_string (lk_DatasetID l)), (''upstream_operation_seq'', json_string (lk_UpstreamOperationSeq l)),
     (''operation_name'', json_string (lk_OperationName l)), (''cli_operation_key'', json_string (lk_CLIOperationKey l))]"

definition metadata_counts_json :: "RegistryAPIMetadataCounts \<Rightarrow> string" where
  "metadata_counts_json c = json_object [(''api_entities'', int_dec (mt_APIEntities c)), (''api_operations'', int_dec (mt_APIOperations c)),
     (''link_operations'', int_dec (mt_LinkOperations c)), (''operationless_catalog_entries'', int_dec (mt_OperationlessCatalogEntries c)),
     (''filedata_catalog_entries'', int_dec (mt_FiledataCatalogEntries c)), (''institutions'', int_dec (mt_Institutions c)),
     (''matched_health_canaries'', int_dec (mt_MatchedHealthCanaries c))]"

definition metadata_json :: "RegistryAPIMetadata \<Rightarrow> string" where
  "metadata_json m = json_object [(''schema_version'', json_string (md_SchemaVersion m)),
     (''registry_revision'', json_string (md_RegistryRevision m)),
     (''scope'', json_object [(''provider'', json_string (mz_Provider (md_Scope m))),
        (''source_snapshot_complete'', json_word (mz_SourceSnapshotComplete (md_Scope m))),
        (''registry_wide_metadata_complete'', json_word (mz_RegistryWideMetadataComplete (md_Scope m))),
        (''coverage_note'', json_string (mz_CoverageNote (md_Scope m)))]),
     (''source'', json_object [(''path'', json_string (mr_Path (md_Source m))), (''sha256'', json_string (mr_SHA256 (md_Source m))),
        (''size_bytes'', int_dec (mr_SizeBytes (md_Source m)))]),
     (''catalog'', json_object [(''path'', json_string (ml_Path (md_Catalog m))), (''sha256'', json_string (ml_SHA256 (md_Catalog m))),
        (''entry_count'', int_dec (ml_EntryCount (md_Catalog m)))]),
     (''counts'', metadata_counts_json (md_Counts m)), (''apis'', json_array (List.map metadata_api_json (md_APIs m))),
     (''health_canary_links'', json_array (List.map canary_link_json (md_HealthCanaryLinks m)))]"

definition metadataProjectionDigest :: "RegistryAPIMetadata \<Rightarrow> string" where
  "metadataProjectionDigest m = sha256_hex (metadata_json m)"

section \<open>Loading\<close>

definition mark_verified :: "CanaryConfig \<Rightarrow> string \<Rightarrow> RegistryAPIMetadata \<Rightarrow> RegistryAPIMetadata" where
  "mark_verified canaries artifactSHA m =
     m\<lparr>md_healthCatalogRevision := cp_RegistryDatasetRevision (cc_ConsumptionProvenance canaries),
       md_verifiedArtifactSHA256 := artifactSHA, md_verifiedSourceSHA256 := mr_SHA256 (md_Source m),
       md_verifiedProjectionSHA256 := metadataProjectionDigest m\<rparr>"

definition LoadRegistryAPIMetadata ::
  "metadata_codec \<Rightarrow> (string \<Rightarrow> string option) \<Rightarrow> string \<Rightarrow> string \<Rightarrow> CanaryConfig \<Rightarrow> RegistryAPIMetadata option" where
  "LoadRegistryAPIMetadata mc files path pinPath canaries =
     (case (readLimitedMetadataFile files path maxRegistryAPIMetadataBytes,
        readLimitedMetadataFile files pinPath maxRegistryMetadataPinBytes) of
        (Some metadataData, Some pinData) \<Rightarrow>
          (if metadataData = '''' \<or> pinData = '''' \<or> sha256_hex pinData \<noteq> acceptedRegistryMetadataPinSHA256 \<or> \<not> mc_pin_schema_ok mc pinData
           then None
           else case mc_pin mc pinData of
             None \<Rightarrow> None
           | Some pin \<Rightarrow>
               (let artifactSHA = sha256_hex metadataData
                in if px_SchemaVersion pin \<noteq> ''datapan.health-registry-api-metadata-source-pin.v1'' \<or>
                     \<not> sha256Pattern (px_ArtifactSHA256 pin) \<or> artifactSHA \<noteq> px_ArtifactSHA256 pin \<or>
                     artifactSHA \<noteq> acceptedRegistryAPIMetadataSHA256 \<or> px_ArtifactPath pin \<noteq> ''config/registry/api-metadata.v1.json''
                   then None
                   else case mc_metadata mc metadataData of
                     None \<Rightarrow> None
                   | Some m \<Rightarrow>
                       (if md_SchemaVersion m \<noteq> RegistryAPIMetadataSchemaVersion \<or> \<not> mc_schema_ok mc metadataData \<or>
                           \<not> sameMetadataProvenance m pin canaries \<or> md_Counts m \<noteq> px_ExpectedCounts pin
                        then None
                        else case indexAndValidate (mc_lower mc) canaries m of
                          Inl _ \<Rightarrow> None
                        | Inr m' \<Rightarrow>
                            Some (mark_verified canaries artifactSHA m'))))
      | _ \<Rightarrow> None)"

section \<open>Looking up and paging\<close>

definition APIByID :: "RegistryAPIMetadata \<Rightarrow> string \<Rightarrow> RegistryAPIMetadataAPI option" where
  "APIByID m i = (case gm_get (md_byID m) i of
     None \<Rightarrow> None | Some index \<Rightarrow> (if index \<ge> length (md_APIs m) then None else Some (md_APIs m ! index)))"

definition CanaryLinkByOperationID :: "RegistryAPIMetadata \<Rightarrow> string \<Rightarrow> RegistryHealthCanaryLink option" where
  "CanaryLinkByOperationID m i = gm_get (md_canaryByOpID m) i"

definition CanaryLinkByHealthID :: "RegistryAPIMetadata \<Rightarrow> string \<Rightarrow> RegistryHealthCanaryLink option" where
  "CanaryLinkByHealthID m i = gm_get (md_canaryByHealthID m) i"

definition CanaryDisplays :: "RegistryAPIMetadata \<Rightarrow> RegistryCanaryDisplay list" where
  "CanaryDisplays m = md_canaryDisplays m"

definition page_matches :: "RegistryAPIMetadata \<Rightarrow> string \<Rightarrow> nat \<Rightarrow> bool" where
  "page_matches m needle i \<longleftrightarrow> i < length (md_APIs m) \<and>
     (needle = '''' \<or> i < length (md_searchText m) \<and> contains_text (md_searchText m ! i) needle)"

definition page_priority :: "RegistryAPIMetadata \<Rightarrow> (string, int) gomap \<Rightarrow> nat \<Rightarrow> int" where
  "page_priority m priorityByAPI i =
     (case gm_get priorityByAPI (ma_RegistryAPIID (md_APIs m ! i)) of None \<Rightarrow> 2 | Some p \<Rightarrow> p)"

fun page_items ::
  "RegistryAPIMetadata \<Rightarrow> string \<Rightarrow> int \<Rightarrow> int \<Rightarrow> nat list \<Rightarrow> RegistryAPIMetadataAPI list \<Rightarrow> int
    \<Rightarrow> RegistryAPIMetadataAPI list \<times> int" where
  "page_items m needle start pageSize [] items n = (items, n)"
| "page_items m needle start pageSize (i # is) items n =
     (if \<not> page_matches m needle i then page_items m needle start pageSize is items n
      else page_items m needle start pageSize is
        (if n \<ge> start \<and> int (length items) < pageSize then items @ [md_APIs m ! i] else items) (n + 1))"

text \<open>The order of a directory that was not indexed is that of its APIs.\<close>

definition page_order :: "RegistryAPIMetadata \<Rightarrow> (string, int) gomap \<Rightarrow> nat list" where
  "page_order m priorityByAPI =
     (let order = (if md_orderedAPIIndices m = [] then [0..<length (md_APIs m)] else md_orderedAPIIndices m)
      in if priorityByAPI = [] then order else sort_key (page_priority m priorityByAPI) order)"

definition APIPagePrioritized ::
  "(string \<Rightarrow> string) \<Rightarrow> RegistryAPIMetadata \<Rightarrow> string \<Rightarrow> int \<Rightarrow> int \<Rightarrow> (string, int) gomap
    \<Rightarrow> RegistryAPIMetadataAPI list \<times> int" where
  "APIPagePrioritized lower m query page pageSize priorityByAPI =
     (if page < 1 \<or> pageSize < 1 then ([], 0)
      else page_items m (lower (trim_space query)) (wrap64 ((page - 1) * pageSize)) pageSize (page_order m priorityByAPI) [] 0)"

definition APIPage :: "(string \<Rightarrow> string) \<Rightarrow> RegistryAPIMetadata \<Rightarrow> string \<Rightarrow> int \<Rightarrow> int \<Rightarrow> RegistryAPIMetadataAPI list \<times> int" where
  "APIPage lower m query page pageSize = APIPagePrioritized lower m query page pageSize []"

section \<open>The verified join\<close>

record RegistryOperationMetadata =
  rp_RegistryOperationID :: string
  rp_APIID :: string
  rp_OperationName :: string
  rp_OperationNameState :: string
  rp_Title :: string
  rp_TitleState :: string
  rp_Organization :: string
  rp_OrganizationState :: string
  rp_Purpose :: string
  rp_PurposeState :: string

record RegistryAPIMetadataPin =
  pm_RegistryRevision :: string
  pm_SourceSHA256 :: string
  pm_CatalogSHA256 :: string
  pm_ArtifactSHA256 :: string
  pm_APIEntityCount :: int
  pm_OperationCount :: int

record VerifiedRegistryAPIMetadata =
  vm_verified :: bool
  vm_pin :: RegistryAPIMetadataPin
  vm_identitySetSHA256 :: string
  vm_operations :: "RegistryOperationMetadata list"
  vm_canaryLinksByHealthID :: "(string, RegistryHealthCanaryLink) gomap"

definition joined_operation :: "RegistryAPIMetadataAPI \<Rightarrow> RegistryAPIMetadataOperation \<Rightarrow> RegistryOperationMetadata" where
  "joined_operation api p = \<lparr>rp_RegistryOperationID = mp_RegistryOperationID p, rp_APIID = ma_RegistryAPIID api,
     rp_OperationName = mp_Name p, rp_OperationNameState = mp_NameState p, rp_Title = ma_Title api, rp_TitleState = ma_TitleState api,
     rp_Organization = ma_Organization api, rp_OrganizationState = ma_OrganizationState api, rp_Purpose = ma_Description api,
     rp_PurposeState = ma_DescriptionState api\<rparr>"

fun join_operations ::
  "RegistryAPIMetadata \<Rightarrow> RegistryAPIMetadataAPI \<Rightarrow> RegistryAPIMetadataOperation list \<Rightarrow> RegistryOperationMetadata list
    \<Rightarrow> RegistryOperationMetadata list option" where
  "join_operations m api [] acc = Some acc"
| "join_operations m api (p # ps) acc =
     (if gm_get (md_operationByID m) (mp_RegistryOperationID p) \<noteq> Some p \<or> mp_DatasetID p \<noteq> ma_RegistryAPIID api \<or>
         mp_RegistryOperationID p \<in> set (List.map rp_RegistryOperationID acc)
      then None else join_operations m api ps (acc @ [joined_operation api p]))"

fun join_apis ::
  "RegistryAPIMetadata \<Rightarrow> nat \<Rightarrow> RegistryAPIMetadataAPI list \<Rightarrow> RegistryOperationMetadata list \<Rightarrow> RegistryOperationMetadata list option" where
  "join_apis m i [] acc = Some acc"
| "join_apis m i (api # apis) acc =
     (if (case gm_get (md_byID m) (ma_RegistryAPIID api) of None \<Rightarrow> 0 | Some j \<Rightarrow> j) \<noteq> i \<or> ma_Provider api \<noteq> ''data.go.kr'' then None
      else case join_operations m api (ma_Operations api) acc of
        None \<Rightarrow> None | Some acc' \<Rightarrow> join_apis m (i + 1) apis acc')"

definition metadata_marked :: "RegistryAPIMetadata \<Rightarrow> bool" where
  "metadata_marked m \<longleftrightarrow> md_verifiedArtifactSHA256 m = acceptedRegistryAPIMetadataSHA256 \<and> md_verifiedSourceSHA256 m \<noteq> '''' \<and>
     md_verifiedSourceSHA256 m = mr_SHA256 (md_Source m) \<and> md_verifiedProjectionSHA256 m \<noteq> '''' \<and>
     metadataProjectionDigest m = md_verifiedProjectionSHA256 m \<and> mr_Path (md_Source m) = ''data/data-go-kr.registry.json'' \<and>
     mz_Provider (md_Scope m) = ''data.go.kr'' \<and> mz_SourceSnapshotComplete (md_Scope m) \<and>
     \<not> mz_RegistryWideMetadataComplete (md_Scope m) \<and> mt_APIEntities (md_Counts m) = int (length (md_APIs m)) \<and>
     mt_APIOperations (md_Counts m) = int (length (md_operationByID m)) \<and> mt_APIOperations (md_Counts m) \<noteq> 0 \<and>
     int (length (md_byID m)) = mt_APIEntities (md_Counts m)"

definition cloneRegistryCanaryLinksByHealthID :: "RegistryAPIMetadata \<Rightarrow> (string, RegistryHealthCanaryLink) gomap" where
  "cloneRegistryCanaryLinksByHealthID m =
     foldl (\<lambda>acc link. gm_put (lk_HealthOperationID link) link acc) [] (md_HealthCanaryLinks m)"

definition NewVerifiedRegistryAPIMetadata :: "RegistryAPIMetadata \<Rightarrow> VerifiedRegistryAPIMetadata option" where
  "NewVerifiedRegistryAPIMetadata m =
     (if \<not> metadata_marked m then None
      else case join_apis m 0 (md_APIs m) [] of
        None \<Rightarrow> None
      | Some operations \<Rightarrow>
          (if int (length operations) \<noteq> mt_APIOperations (md_Counts m) then None
           else Some \<lparr>vm_verified = True,
             vm_pin = \<lparr>pm_RegistryRevision = md_RegistryRevision m, pm_SourceSHA256 = mr_SHA256 (md_Source m),
               pm_CatalogSHA256 = ml_SHA256 (md_Catalog m), pm_ArtifactSHA256 = md_verifiedArtifactSHA256 m,
               pm_APIEntityCount = mt_APIEntities (md_Counts m), pm_OperationCount = mt_APIOperations (md_Counts m)\<rparr>,
             vm_identitySetSHA256 = identity_set_digest (sort (List.map rp_RegistryOperationID operations)),
             vm_operations = operations, vm_canaryLinksByHealthID = cloneRegistryCanaryLinksByHealthID m\<rparr>))"

text \<open>The copy that handlers are given: every derived index is built again, and all of it checked again.\<close>

definition clone_operations :: "RegistryAPIMetadataAPI list \<Rightarrow> (string, RegistryAPIMetadataOperation) gomap" where
  "clone_operations apis = foldl (\<lambda>acc p. gm_put (mp_RegistryOperationID p) p acc) []
     (filter (\<lambda>p. mp_RegistryOperationID p \<noteq> '''') (concat (List.map ma_Operations apis)))"

definition clone_of :: "(string \<Rightarrow> string) \<Rightarrow> RegistryAPIMetadata \<Rightarrow> RegistryAPIMetadata" where
  "clone_of lower m = m\<lparr>
     md_byID := foldl (\<lambda>acc i. gm_put (ma_RegistryAPIID (md_APIs m ! i)) i acc) [] [0..<length (md_APIs m)],
     md_operationByID := clone_operations (md_APIs m),
     md_canaryByOpID := foldl (\<lambda>acc link. gm_put (lk_RegistryOperationID link) link acc) [] (md_HealthCanaryLinks m),
     md_canaryByHealthID := foldl (\<lambda>acc link. gm_put (lk_HealthOperationID link) link acc) [] (md_HealthCanaryLinks m),
     md_orderedAPIIndices := ordered_indices lower (md_APIs m),
     md_searchText := List.map (search_text lower) (md_APIs m)\<rparr>"

definition cloneVerifiedRegistryAPIMetadata :: "(string \<Rightarrow> string) \<Rightarrow> RegistryAPIMetadata \<Rightarrow> RegistryAPIMetadata option" where
  "cloneVerifiedRegistryAPIMetadata lower m =
     (let clone = clone_of lower m
      in if metadataProjectionDigest clone \<noteq> md_verifiedProjectionSHA256 clone then None
         else map_option (\<lambda>_. clone) (NewVerifiedRegistryAPIMetadata clone))"

section \<open>The sources of a plan\<close>

fun source_artifacts_bound :: "(string, ReleaseArtifact) gomap \<Rightarrow> string \<Rightarrow> string \<Rightarrow> bool \<Rightarrow> operationPlanArtifactRef list \<Rightarrow> bool" where
  "source_artifacts_bound manifest path sha found [] \<longleftrightarrow> found"
| "source_artifacts_bound manifest path sha found (source # sources) \<longleftrightarrow>
     (if ar_Path source \<noteq> path then source_artifacts_bound manifest path sha found sources
      else if found \<or> ar_SHA256 source \<noteq> sha then False
      else case gm_get manifest path of
        None \<Rightarrow> False
      | Some artifact \<Rightarrow> ra_Bytes artifact = ar_Bytes source \<and> ra_SHA256 artifact = ar_SHA256 source \<and>
          source_artifacts_bound manifest path sha True sources)"

definition bindsSourceArtifact :: "PinnedOperationObservationPlan \<Rightarrow> string \<Rightarrow> string \<Rightarrow> string \<Rightarrow> string \<Rightarrow> bool" where
  "bindsSourceArtifact plan sourceID provider path sourceSHA256 \<longleftrightarrow> sx_verified (pp_state plan) \<and> sourceSHA256 \<noteq> '''' \<and>
     (case gm_get (sx_byScope (pp_state plan)) sourceID of
        None \<Rightarrow> False
      | Some scope \<Rightarrow> sp_Provider scope = provider \<and>
          source_artifacts_bound (sx_manifest (pp_state plan)) path sourceSHA256 False (sp_SourceArtifacts scope))"

definition bindsSourceInventory :: "PinnedOperationObservationPlan \<Rightarrow> string \<Rightarrow> string \<Rightarrow> string \<Rightarrow> string \<Rightarrow> string \<Rightarrow> bool" where
  "bindsSourceInventory plan sourceID provider path sourceSHA256 identitySetSHA256 \<longleftrightarrow>
     sha256Pattern identitySetSHA256 \<and> bindsSourceArtifact plan sourceID provider path sourceSHA256 \<and>
     (case gm_get (sx_byScope (pp_state plan)) sourceID of
        None \<Rightarrow> False | Some scope \<Rightarrow> sp_IdentitySetSHA256 scope = identitySetSHA256)"

definition sourceDigest :: "VerifiedRegistryAPIMetadata \<Rightarrow> string" where
  "sourceDigest v = (if \<not> vm_verified v then '''' else pm_SourceSHA256 (vm_pin v))"

end
