(* ===== verification/Operation_Gatus.thy ===== *)
theory Operation_Gatus
  imports Registry_Metadata
begin

text \<open>
  \<^verbatim>\<open>internal/health/operation_gatus_config.go\<close>: the activation of plan operations, and the Gatus receiver
  configuration, the identity map and the runtime pin generated from the plan, the metadata and the
  canaries.  Its one error is \<open>None\<close>.  The decoder of an activation is a parameter; everything
  that is printed is written out.
\<close>

section \<open>Printing\<close>

datatype jout = JO_str string | JO_int int | JO_bool bool | JO_null | JO_arr "jout list" | JO_obj "(string \<times> jout) list"

text \<open>\<^verbatim>\<open>json.Marshal\<close>, and \<^verbatim>\<open>json.MarshalIndent\<close> with no prefix and two spaces.\<close>

fun json_text :: "jout \<Rightarrow> string" where
  "json_text (JO_str s) = json_string s"
| "json_text (JO_int i) = int_dec i"
| "json_text (JO_bool b) = json_word b"
| "json_text JO_null = ''null''"
| "json_text (JO_arr vs) = json_array (List.map json_text vs)"
| "json_text (JO_obj ms) = ''{'' @ commas (List.map (\<lambda>(name, v). json_string name @ '':'' @ json_text v) ms) @ ''}''"

definition json_newline :: "nat \<Rightarrow> string" where
  "json_newline depth = CHR 0x0A # replicate (2 * depth) CHR '' ''"

fun json_indented :: "nat \<Rightarrow> jout \<Rightarrow> string" where
  "json_indented d (JO_str s) = json_string s"
| "json_indented d (JO_int i) = int_dec i"
| "json_indented d (JO_bool b) = json_word b"
| "json_indented d JO_null = ''null''"
| "json_indented d (JO_arr vs) = (if vs = [] then ''[]''
     else ''['' @ commas (List.map (\<lambda>v. json_newline (d + 1) @ json_indented (d + 1) v) vs) @ json_newline d @ '']'')"
| "json_indented d (JO_obj ms) = (if ms = [] then ''{}''
     else ''{'' @ commas (List.map (\<lambda>(name, v). json_newline (d + 1) @ json_string name @ '': '' @ json_indented (d + 1) v) ms) @
       json_newline d @ ''}'')"

text \<open>A member with \<^verbatim>\<open>omitempty\<close>.\<close>

definition omit_empty :: "string \<Rightarrow> jout \<Rightarrow> (string \<times> jout) list" where
  "omit_empty name v = (if v = JO_str '''' \<or> v = JO_int 0 then [] else [(name, v)])"

definition jo_slice :: "('a \<Rightarrow> jout) \<Rightarrow> 'a slice \<Rightarrow> jout" where
  "jo_slice f xs = (case xs of None \<Rightarrow> JO_null | Some ys \<Rightarrow> JO_arr (List.map f ys))"

text \<open>\<^verbatim>\<open>Duration.String\<close>, from one second on.\<close>

definition fraction_text :: "nat \<Rightarrow> string" where
  "fraction_text f = (if f = 0 then ''''
     else (let digits = nat_dec f; padded = replicate (9 - length digits) CHR ''0'' @ digits
           in CHR ''.'' # rev (dropWhile (\<lambda>c. c = CHR ''0'') (rev padded))))"

definition duration_text :: "duration \<Rightarrow> string" where
  "duration_text d = (let n = nat d; v = n div 10 ^ 9; m = v div 60
     in (if m = 0 then '''' else (if m div 60 = 0 then '''' else nat_dec (m div 60) @ ''h'') @ nat_dec (m mod 60) @ ''m'') @
        nat_dec (v mod 60) @ fraction_text (n mod 10 ^ 9) @ ''s'')"

section \<open>Data\<close>

definition OperationGatusActivationSchemaVersion :: string where
  "OperationGatusActivationSchemaVersion = ''datapan.health-operation-gatus-activation.v1''"
definition OperationGatusMappingSchemaVersion :: string where
  "OperationGatusMappingSchemaVersion = ''datapan.health-operation-gatus-identity-map.v1''"
definition OperationGatusRuntimePinSchemaVersion :: string where
  "OperationGatusRuntimePinSchemaVersion = ''datapan.health-operation-gatus-runtime-dependencies.v1''"
definition maxOperationGatusActivationBytes :: int where "maxOperationGatusActivationBytes = 4 * 1024 * 1024"
definition maxOperationGatusMappingBytes :: int where "maxOperationGatusMappingBytes = 32 * 1024 * 1024"
definition maxOperationGatusConfigBytes :: int where "maxOperationGatusConfigBytes = 32 * 1024 * 1024"
definition maxOperationGatusTargets :: int where "maxOperationGatusTargets = 100000"

record OperationGatusActivationEntry =
  ge_SourceID :: string
  ge_OperationID :: string

record OperationGatusActivation =
  ga_SchemaVersion :: string
  ga_RegistryRevision :: string
  ga_IndexSHA256 :: string
  ga_Operations :: "OperationGatusActivationEntry slice"
  ga_verifiedRawSHA256 :: string
  ga_verifiedPayloadSHA256 :: string
  ga_verifiedAbsent :: bool

abbreviation ga_operations :: "OperationGatusActivation \<Rightarrow> OperationGatusActivationEntry list" where
  "ga_operations a \<equiv> elems (ga_Operations a)"

record OperationGatusIdentity =
  gi_SourceID :: string
  gi_RegistryOperationID :: string
  gi_GatusEndpointKey :: string
  gi_ResponseAssertionKind :: string
  gi_PlanAdmissionState :: string
  gi_PlanActive :: bool
  gi_LegacyActive :: bool
  gi_LegacyHealthOperationID :: string
  gi_ObservationPeriodSecond :: int
  gi_Active :: bool

record OperationGatusIdentityMapping =
  gm_SchemaVersion :: string
  gm_RegistryRevision :: string
  gm_ReleaseManifestSHA256 :: string
  gm_IndexSHA256 :: string
  gm_PlanState :: string
  gm_PlanMissingReason :: string
  gm_RegistryMetadataRevision :: string
  gm_RegistryMetadataArtifactSHA256 :: string
  gm_RegistryMetadataSourceSHA256 :: string
  gm_RegistryMetadataCatalogSHA256 :: string
  gm_CanaryConfigSHA256 :: string
  gm_BaseGatusConfigSHA256 :: string
  gm_ActivationSHA256 :: string
  gm_GeneratedConfigSHA256 :: string
  gm_KnownPlanOperations :: int
  gm_AdmittedPlanOperations :: int
  gm_ActivatedPlanOperations :: int
  gm_LegacyCanaries :: int
  gm_LegacyOverlapsActivated :: int
  gm_ConfiguredExternalEndpoints :: int
  gm_LegacySuppressedHealthIDs :: "string slice"
  gm_Operations :: "OperationGatusIdentity slice"

record OperationGatusRuntimeDependencies =
  gd_SchemaVersion :: string
  gd_RegistryRevision :: string
  gd_ReleaseManifestSHA256 :: string
  gd_IndexSHA256 :: string
  gd_PlanState :: string
  gd_PlanMissingReason :: string
  gd_RegistryMetadataRevision :: string
  gd_RegistryMetadataArtifactSHA256 :: string
  gd_RegistryMetadataSourceSHA256 :: string
  gd_RegistryMetadataCatalogSHA256 :: string
  gd_CanaryConfigSHA256 :: string
  gd_BaseGatusConfigSHA256 :: string
  gd_ActivationSHA256 :: string
  gd_IdentityMappingSHA256 :: string
  gd_GeneratedConfigSHA256 :: string
  gd_KnownPlanOperations :: int
  gd_ActivatedPlanOperations :: int
  gd_LegacyCanaries :: int
  gd_ConfiguredExternalEndpoints :: int

record OperationGatusArtifacts =
  gf_Config :: string
  gf_Mapping :: string
  gf_RuntimePin :: string
  gf_ConfigSHA256 :: string
  gf_MappingSHA256 :: string
  gf_RuntimePinSHA256 :: string
  gf_LegacySuppressedHealthIDs :: "string slice"

record operationGatusEndpoint =
  gp_key :: string
  gp_group :: string
  gp_name :: string
  gp_heartbeat :: duration
  gp_observationOnly :: bool

definition digestOperationGatusBytes :: "string \<Rightarrow> string" where
  "digestOperationGatusBytes raw = sha256_hex raw"

text \<open>\<^verbatim>\<open>operation_read_model.go\<close>.\<close>

definition operationReadModelIdentityKey :: "string \<Rightarrow> string \<Rightarrow> string" where
  "operationReadModelIdentityKey sourceID operationID = sourceID @ CHR 0x00 # operationID"

section \<open>Activation\<close>

definition activation_json :: "OperationGatusActivation \<Rightarrow> jout" where
  "activation_json a = JO_obj [(''schema_version'', JO_str (ga_SchemaVersion a)), (''registry_revision'', JO_str (ga_RegistryRevision a)),
     (''index_sha256'', JO_str (ga_IndexSHA256 a)),
     (''operations'', jo_slice (\<lambda>e. JO_obj [(''source_id'', JO_str (ge_SourceID e)), (''operation_id'', JO_str (ge_OperationID e))])
        (ga_Operations a))]"

definition activation_entry_ok :: "OperationGatusActivationEntry \<Rightarrow> bool" where
  "activation_entry_ok e \<longleftrightarrow> operationSourceIDPattern (ge_SourceID e) \<and> ge_OperationID e \<noteq> '''' \<and> length (ge_OperationID e) \<le> 256 \<and>
     trim_space (ge_OperationID e) = ge_OperationID e \<and> \<not> contains_any (ge_OperationID e) [CHR 0x00, CHR 0x0D, CHR 0x0A]"

fun activation_entries_ok :: "string \<Rightarrow> OperationGatusActivationEntry list \<Rightarrow> bool" where
  "activation_entries_ok previous [] \<longleftrightarrow> True"
| "activation_entries_ok previous (e # es) \<longleftrightarrow> activation_entry_ok e \<and>
     (let key = operationReadModelIdentityKey (ge_SourceID e) (ge_OperationID e)
      in \<not> (previous \<noteq> '''' \<and> key \<le> previous) \<and> activation_entries_ok key es)"

definition DecodeOperationGatusActivation ::
  "(string \<Rightarrow> OperationGatusActivation option) \<Rightarrow> string \<Rightarrow> PinnedOperationObservationPlan \<Rightarrow> (OperationGatusActivation \<times> string) option" where
  "DecodeOperationGatusActivation decode raw plan =
     (if raw = '''' \<or> int (length raw) > maxOperationGatusActivationBytes \<or> \<not> sx_verified (pp_state plan) then None
      else case decode raw of
        None \<Rightarrow> None
      | Some a \<Rightarrow>
          (if ga_SchemaVersion a \<noteq> OperationGatusActivationSchemaVersion \<or> ga_RegistryRevision a \<noteq> RegistryRevision plan \<or>
              ga_IndexSHA256 a \<noteq> IndexSHA256 plan \<or> int (length (ga_operations a)) > maxOperationGatusTargets \<or>
              \<not> activation_entries_ok '''' (ga_operations a)
           then None
           else Some (a\<lparr>ga_verifiedRawSHA256 := sha256_hex raw, ga_verifiedPayloadSHA256 := sha256_hex (json_text (activation_json a))\<rparr>,
             sha256_hex raw)))"

section \<open>Keys\<close>

definition gatusBaseHasExecutionTarget_step :: "string \<Rightarrow> string \<Rightarrow> string + bool" where
  "gatusBaseHasExecutionTarget_step gatus_section line =
     (let trimmed = trim_space line
      in if trimmed = '''' \<or> has_prefix trimmed ''#'' then Inl gatus_section
         else if hd line \<noteq> CHR '' '' \<and> hd line \<noteq> CHR 0x09
         then (let key = takeWhile (\<lambda>c. c \<noteq> CHR '':'') trimmed
               in Inl (if CHR '':'' \<in> set trimmed \<and> (key = ''endpoints'' \<or> key = ''suites'') then key else ''''))
         else if gatus_section = ''endpoints'' \<and> has_prefix trimmed ''- '' \<or>
           gatus_section = ''suites'' \<and> (has_prefix trimmed ''- '' \<or> has_suffix trimmed '':'')
         then Inr True else Inl gatus_section)"

fun gatus_target_lines :: "string \<Rightarrow> string list \<Rightarrow> bool" where
  "gatus_target_lines gatus_section [] = False"
| "gatus_target_lines gatus_section (line # lines) =
     (case gatusBaseHasExecutionTarget_step gatus_section line of Inr b \<Rightarrow> b | Inl next_section \<Rightarrow> gatus_target_lines next_section lines)"

definition gatusBaseHasExecutionTarget :: "string \<Rightarrow> bool" where
  "gatusBaseHasExecutionTarget baseConfig = gatus_target_lines '''' (split_on CHR 0x0A baseConfig)"

definition registerOperationGatusKey :: "(string, string) gomap \<Rightarrow> string \<Rightarrow> string \<Rightarrow> (string, string) gomap option" where
  "registerOperationGatusKey identityByKey gatusKey identityKey =
     (if gatusKey = '''' \<or> identityKey = '''' then None
      else case gm_get identityByKey gatusKey of
        Some existing \<Rightarrow> (if existing = identityKey then Some identityByKey else None)
      | None \<Rightarrow> Some (gm_put gatusKey identityKey identityByKey))"

definition verifiedGatusMetadata :: "VerifiedRegistryAPIMetadata \<Rightarrow> CanaryConfig \<Rightarrow> bool" where
  "verifiedGatusMetadata v canaries \<longleftrightarrow> vm_verified v \<and> sha256Pattern (pm_ArtifactSHA256 (vm_pin v)) \<and>
     sha256Pattern (pm_SourceSHA256 (vm_pin v)) \<and> sha256Pattern (pm_CatalogSHA256 (vm_pin v)) \<and>
     pm_CatalogSHA256 (vm_pin v) = cc_CatalogSHA256 canaries \<and> pm_APIEntityCount (vm_pin v) > 0 \<and>
     pm_OperationCount (vm_pin v) = int (length (vm_operations v)) \<and>
     length (vm_canaryLinksByHealthID v) = length (cc_Canaries canaries)"

definition stableOperationGatusEndpointKey :: "string \<Rightarrow> string \<Rightarrow> string" where
  "stableOperationGatusEndpointKey sourceID operationID = ''registry-operations_registry-'' @
     sha256_hex (''datapan.health-operation-gatus-key.v1'' @ CHR 0x00 # sourceID @ CHR 0x00 # operationID)"

definition splitOperationGatusEndpointKey :: "string \<Rightarrow> (string \<times> string) option" where
  "splitOperationGatusEndpointKey key =
     (if \<not> gatusKeyPattern key then None
      else (let g = takeWhile (\<lambda>c. c \<noteq> CHR ''_'') key
            in if length g < 1 \<or> length g = length key \<or> length g = length key - 1 then None
               else Some (g, drop (length g + 1) key)))"

section \<open>The receiver configuration\<close>

definition external_marker :: string where "external_marker = ''external-endpoints:''"

definition endpoint_text :: "operationGatusEndpoint \<Rightarrow> string" where
  "endpoint_text e = ''  - name: '' @ gp_name e @ [CHR 0x0A] @ ''    group: '' @ gp_group e @ [CHR 0x0A] @
     ''    token: '' @ [CHR 0x22] @ ''${GATUS_TOKEN}'' @ [CHR 0x22, CHR 0x0A]"

definition heartbeat_text :: "duration \<Rightarrow> string" where
  "heartbeat_text d = ''    heartbeat:'' @ [CHR 0x0A] @ ''      interval: '' @ duration_text d @ [CHR 0x0A] @ ''    alerts:'' @ [CHR 0x0A] @
     ''      - type: custom'' @ [CHR 0x0A] @ ''        description: public API observation delivery incident'' @ [CHR 0x0A] @
     ''        failure-threshold: 2'' @ [CHR 0x0A] @ ''        success-threshold: 2'' @ [CHR 0x0A] @
     ''        send-on-resolved: true'' @ [CHR 0x0A]"

definition render_endpoint :: "operationGatusEndpoint \<Rightarrow> string option" where
  "render_endpoint e =
     (if splitOperationGatusEndpointKey (gp_key e) = None \<or> gp_name e = '''' \<or> gp_group e = '''' then None
      else if gp_observationOnly e then (if gp_heartbeat e \<noteq> 0 then None else Some (endpoint_text e))
      else if gp_heartbeat e < second \<or> gp_heartbeat e > 2 * 365 * 24 * 60 * minute then None
      else Some (endpoint_text e @ heartbeat_text (gp_heartbeat e)))"

text \<open>
  The text is cut at the one line that is the marker; only a line that ends in a newline is one.
\<close>

definition renderOperationGatusConfig :: "string \<Rightarrow> operationGatusEndpoint list \<Rightarrow> string option" where
  "renderOperationGatusConfig base endpoints =
     (let parts = split_on CHR 0x0A base; lines = butlast parts;
          before = takeWhile (\<lambda>l. l \<noteq> external_marker) lines; after = drop (length before + 1) parts
      in if endpoints = [] then None
         else if length (filter (\<lambda>l. l = external_marker) lines) \<noteq> 1 then None
         else if \<not> list_all (\<lambda>line. trim_space line = '''' \<or> has_prefix (trim_space line) ''#'' \<or> line \<noteq> [] \<and> hd line = CHR '' '') after
         then None
         else case all_some (List.map render_endpoint endpoints) of
           None \<Rightarrow> None
         | Some texts \<Rightarrow>
             (let rendered = concat (List.map (\<lambda>l. l @ [CHR 0x0A]) before) @ external_marker @ [CHR 0x0A] @ concat texts
              in if int (length rendered) > maxOperationGatusConfigBytes then None else Some rendered))"

definition operationGatusHeartbeat :: "OperationObservationPlanRecord \<Rightarrow> duration" where
  "operationGatusHeartbeat r = (if op_ResponseAssertionKind r = ''observation_only'' then 0 else 2 * op_ObservationPeriod r)"

definition sortedUniqueStrings :: "string list \<Rightarrow> string slice" where
  "sortedUniqueStrings vs = Some (remdups_adj (sort vs))"

section \<open>Generation\<close>

record gatus_walk =
  gw_entries :: "(string, OperationGatusIdentity) gomap"
  gw_byKey :: "(string, string) gomap"
  gw_endpoints :: "(string, operationGatusEndpoint) gomap"
  gw_suppressed :: "string list"
  gw_known :: int
  gw_admitted :: int
  gw_activated :: int
  gw_seenActive :: "string list"

text \<open>A canary becomes an active legacy identity.\<close>

definition gatus_canary :: "VerifiedRegistryAPIMetadata \<Rightarrow> Canary \<Rightarrow> gatus_walk \<Rightarrow> gatus_walk option" where
  "gatus_canary v canary w =
     (case gm_get (vm_canaryLinksByHealthID v) (ca_OperationID canary) of
        None \<Rightarrow> None
      | Some link \<Rightarrow>
          (let key = operationReadModelIdentityKey ''data_go_kr'' (lk_RegistryOperationID link)
           in if lk_HealthOperationID link \<noteq> ca_OperationID canary \<or> lk_RegistryOperationID link = '''' \<or>
                lk_RegistryAPIID link \<noteq> lk_DatasetID link \<or> gm_get (gw_entries w) key \<noteq> None
              then None
              else case (splitOperationGatusEndpointKey (ca_GatusEndpointKey canary),
                  registerOperationGatusKey (gw_byKey w) (ca_GatusEndpointKey canary) key) of
                (Some (g, n), Some byKey) \<Rightarrow>
                  Some (w\<lparr>gw_byKey := byKey,
                    gw_entries := gm_put key \<lparr>gi_SourceID = ''data_go_kr'', gi_RegistryOperationID = lk_RegistryOperationID link,
                      gi_GatusEndpointKey = ca_GatusEndpointKey canary, gi_ResponseAssertionKind = ''legacy_canary'',
                      gi_PlanAdmissionState = ''unknown'', gi_PlanActive = False, gi_LegacyActive = True,
                      gi_LegacyHealthOperationID = ca_OperationID canary, gi_ObservationPeriodSecond = 0, gi_Active = True\<rparr> (gw_entries w),
                    gw_endpoints := gm_put (ca_GatusEndpointKey canary) \<lparr>gp_key = ca_GatusEndpointKey canary, gp_group = g,
                      gp_name = n, gp_heartbeat = ca_HeartbeatMinutes canary * minute, gp_observationOnly = False\<rparr> (gw_endpoints w)\<rparr>)
              | _ \<Rightarrow> None))"

fun gatus_canaries :: "VerifiedRegistryAPIMetadata \<Rightarrow> Canary list \<Rightarrow> gatus_walk \<Rightarrow> gatus_walk option" where
  "gatus_canaries v [] w = Some w"
| "gatus_canaries v (canary # rest) w = (case gatus_canary v canary w of None \<Rightarrow> None | Some w' \<Rightarrow> gatus_canaries v rest w')"

definition gatus_walk_start :: gatus_walk where
  "gatus_walk_start = \<lparr>gw_entries = [], gw_byKey = [], gw_endpoints = [], gw_suppressed = [], gw_known = 0, gw_admitted = 0,
     gw_activated = 0, gw_seenActive = []\<rparr>"

definition may_activate :: "OperationObservationPlanRecord \<Rightarrow> bool" where
  "may_activate r \<longleftrightarrow> op_ExecutionEligible r \<and> \<not> op_TestOnly r \<and> op_AdmissionStatus r = ''admitted'' \<and>
     op_RequestPlanStatus r = ''complete'' \<and> op_RuntimeBindingStatus r = ''bound'' \<and> op_QuotaPoliciesAdmitted r \<and>
     second \<le> op_ObservationPeriod r \<and> op_ObservationPeriod r \<le> 365 * 24 * 60 * minute"

definition plan_endpoint :: "OperationObservationPlanRecord \<Rightarrow> string \<Rightarrow> operationGatusEndpoint option" where
  "plan_endpoint r key = map_option (\<lambda>(g, n). \<lparr>gp_key = key, gp_group = g, gp_name = n,
     gp_heartbeat = operationGatusHeartbeat r, gp_observationOnly = (op_ResponseAssertionKind r = ''observation_only'')\<rparr>)
     (splitOperationGatusEndpointKey key)"

text \<open>The identity of a plan operation, over the legacy identity it replaces or keeps, if there is one.\<close>

definition plan_identity :: "OperationObservationPlanRecord \<Rightarrow> bool \<Rightarrow> OperationGatusIdentity option \<Rightarrow> OperationGatusIdentity" where
  "plan_identity r selected legacy =
     (let entry = \<lparr>gi_SourceID = op_SourceID r, gi_RegistryOperationID = op_OperationID r,
        gi_GatusEndpointKey = stableOperationGatusEndpointKey (op_SourceID r) (op_OperationID r),
        gi_ResponseAssertionKind = op_ResponseAssertionKind r, gi_PlanAdmissionState = op_AdmissionStatus r, gi_PlanActive = selected,
        gi_LegacyActive = False, gi_LegacyHealthOperationID = '''',
        gi_ObservationPeriodSecond = (if op_ObservationPeriod r > 0 then op_ObservationPeriod r div second else 0),
        gi_Active = selected\<rparr>
      in case legacy of None \<Rightarrow> entry
         | Some old \<Rightarrow> entry\<lparr>gi_GatusEndpointKey := gi_GatusEndpointKey old,
             gi_LegacyHealthOperationID := gi_LegacyHealthOperationID old, gi_LegacyActive := \<not> selected, gi_Active := True\<rparr>)"

definition gatus_record ::
  "VerifiedRegistryAPIMetadata \<Rightarrow> string list \<Rightarrow> OperationObservationPlanRecord \<Rightarrow> gatus_walk \<Rightarrow> gatus_walk option" where
  "gatus_record v active r w =
     (let key = operationReadModelIdentityKey (op_SourceID r) (op_OperationID r); legacy = gm_get (gw_entries w) key;
          selected = (key \<in> set active); entry = plan_identity r selected legacy
      in if legacy \<noteq> None \<and> op_SourceID r \<noteq> ''data_go_kr'' then None
         else if op_SourceID r = ''data_go_kr'' \<and> op_OperationID r \<notin> set (List.map rp_RegistryOperationID (vm_operations v)) then None
         else if selected \<and> \<not> may_activate r then None
         else case (if selected then map_option Some (plan_endpoint r (gi_GatusEndpointKey entry)) else Some None,
             registerOperationGatusKey (gw_byKey w) (gi_GatusEndpointKey entry) key) of
           (Some endpoint, Some byKey) \<Rightarrow>
             Some (w\<lparr>gw_known := gw_known w + 1, gw_admitted := gw_admitted w + boolToInt (op_AdmissionStatus r = ''admitted''),
               gw_activated := gw_activated w + boolToInt selected,
               gw_seenActive := (if selected then List.insert key (gw_seenActive w) else gw_seenActive w),
               gw_suppressed := (case legacy of Some old \<Rightarrow> (if selected then gw_suppressed w @ [gi_LegacyHealthOperationID old] else gw_suppressed w)
                 | None \<Rightarrow> gw_suppressed w),
               gw_endpoints := (case endpoint of None \<Rightarrow> gw_endpoints w | Some e \<Rightarrow> gm_put (gi_GatusEndpointKey entry) e (gw_endpoints w)),
               gw_byKey := byKey, gw_entries := gm_put key entry (gw_entries w)\<rparr>)
         | _ \<Rightarrow> None)"

fun gatus_records ::
  "VerifiedRegistryAPIMetadata \<Rightarrow> string list \<Rightarrow> OperationObservationPlanRecord list \<Rightarrow> gatus_walk \<Rightarrow> gatus_walk option" where
  "gatus_records v active [] w = Some w"
| "gatus_records v active (r # rs) w = (case gatus_record v active r w of None \<Rightarrow> None | Some w' \<Rightarrow> gatus_records v active rs w')"

fun gatus_shards ::
  "plan_codec \<Rightarrow> PinnedOperationObservationPlan \<Rightarrow> VerifiedRegistryAPIMetadata \<Rightarrow> string list \<Rightarrow> nat list \<Rightarrow> gatus_walk \<Rightarrow> gatus_walk option" where
  "gatus_shards cd plan v active [] w = Some w"
| "gatus_shards cd plan v active (i # is) w =
     (case ReadShard cd plan i of
        None \<Rightarrow> None
      | Some records \<Rightarrow> (case gatus_records v active records w of None \<Rightarrow> None | Some w' \<Rightarrow> gatus_shards cd plan v active is w'))"

definition activation_key :: "OperationGatusActivationEntry \<Rightarrow> string" where
  "activation_key e = operationReadModelIdentityKey (ge_SourceID e) (ge_OperationID e)"

text \<open>With a plan; an activation that is absent selects nothing.\<close>

definition gatus_plan ::
  "plan_codec \<Rightarrow> VerifiedRegistryAPIMetadata \<Rightarrow> PinnedOperationObservationPlan \<Rightarrow> OperationGatusActivation option \<Rightarrow> gatus_walk
    \<Rightarrow> gatus_walk option" where
  "gatus_plan cd v plan activation w =
     (let active = (case activation of None \<Rightarrow> [] | Some a \<Rightarrow> List.map activation_key (ga_operations a))
      in if \<not> sx_verified (pp_state plan) \<or>
           \<not> bindsSourceInventory plan ''data_go_kr'' ''data.go.kr'' ''data/data-go-kr.registry.json'' (pm_SourceSHA256 (vm_pin v))
             (vm_identitySetSHA256 v) \<or> pn_KnownOperations (Counts plan) > maxOperationGatusTargets then None
         else if (case activation of None \<Rightarrow> False
             | Some a \<Rightarrow> ga_SchemaVersion a \<noteq> OperationGatusActivationSchemaVersion \<or> ga_RegistryRevision a \<noteq> RegistryRevision plan \<or>
                 ga_IndexSHA256 a \<noteq> IndexSHA256 plan) then None
         else if \<not> distinct active then None
         else case gatus_shards cd plan v active [0..<ShardCount plan] w of
           None \<Rightarrow> None
         | Some w' \<Rightarrow>
             (if length (gw_seenActive w') \<noteq> length active \<or> gw_known w' \<noteq> pn_KnownOperations (Counts plan) \<or>
                 gw_activated w' \<noteq> int (length active)
              then None
              else if \<not> list_all (\<lambda>(key, _). gm_get (gw_entries w') key \<noteq> None) (gw_entries w) then None
              else Some w'))"

definition identity_json :: "OperationGatusIdentity \<Rightarrow> jout" where
  "identity_json i = JO_obj ([(''source_id'', JO_str (gi_SourceID i)), (''registry_operation_id'', JO_str (gi_RegistryOperationID i)),
     (''gatus_endpoint_key'', JO_str (gi_GatusEndpointKey i)), (''response_assertion_kind'', JO_str (gi_ResponseAssertionKind i)),
     (''plan_admission_state'', JO_str (gi_PlanAdmissionState i)), (''plan_active'', JO_bool (gi_PlanActive i)),
     (''legacy_active'', JO_bool (gi_LegacyActive i))] @
     omit_empty ''legacy_health_operation_id'' (JO_str (gi_LegacyHealthOperationID i)) @
     omit_empty ''observation_period_seconds'' (JO_int (gi_ObservationPeriodSecond i)) @ [(''active'', JO_bool (gi_Active i))])"

definition mapping_head_json :: "OperationGatusIdentityMapping \<Rightarrow> (string \<times> jout) list" where
  "mapping_head_json m = [(''schema_version'', JO_str (gm_SchemaVersion m))] @
     omit_empty ''registry_revision'' (JO_str (gm_RegistryRevision m)) @
     omit_empty ''release_manifest_sha256'' (JO_str (gm_ReleaseManifestSHA256 m)) @
     omit_empty ''index_sha256'' (JO_str (gm_IndexSHA256 m)) @ [(''plan_state'', JO_str (gm_PlanState m))] @
     omit_empty ''plan_missing_reason'' (JO_str (gm_PlanMissingReason m)) @
     [(''registry_metadata_revision'', JO_str (gm_RegistryMetadataRevision m)),
      (''registry_metadata_artifact_sha256'', JO_str (gm_RegistryMetadataArtifactSHA256 m)),
      (''registry_metadata_source_sha256'', JO_str (gm_RegistryMetadataSourceSHA256 m)),
      (''registry_metadata_catalog_sha256'', JO_str (gm_RegistryMetadataCatalogSHA256 m)),
      (''canary_config_sha256'', JO_str (gm_CanaryConfigSHA256 m)), (''base_gatus_config_sha256'', JO_str (gm_BaseGatusConfigSHA256 m)),
      (''activation_sha256'', JO_str (gm_ActivationSHA256 m))]"

definition mapping_json :: "OperationGatusIdentityMapping \<Rightarrow> jout" where
  "mapping_json m = JO_obj (mapping_head_json m @
     [(''generated_config_sha256'', JO_str (gm_GeneratedConfigSHA256 m)), (''known_plan_operations'', JO_int (gm_KnownPlanOperations m)),
      (''admitted_plan_operations'', JO_int (gm_AdmittedPlanOperations m)), (''activated_plan_operations'', JO_int (gm_ActivatedPlanOperations m)),
      (''legacy_canaries'', JO_int (gm_LegacyCanaries m)), (''legacy_overlaps_activated'', JO_int (gm_LegacyOverlapsActivated m)),
      (''configured_external_endpoints'', JO_int (gm_ConfiguredExternalEndpoints m)),
      (''legacy_suppressed_health_operation_ids'', jo_slice JO_str (gm_LegacySuppressedHealthIDs m)),
      (''operations'', jo_slice identity_json (gm_Operations m))])"

definition runtime_pin_head_json :: "OperationGatusRuntimeDependencies \<Rightarrow> (string \<times> jout) list" where
  "runtime_pin_head_json m = [(''schema_version'', JO_str (gd_SchemaVersion m))] @
     omit_empty ''registry_revision'' (JO_str (gd_RegistryRevision m)) @
     omit_empty ''release_manifest_sha256'' (JO_str (gd_ReleaseManifestSHA256 m)) @
     omit_empty ''index_sha256'' (JO_str (gd_IndexSHA256 m)) @ [(''plan_state'', JO_str (gd_PlanState m))] @
     omit_empty ''plan_missing_reason'' (JO_str (gd_PlanMissingReason m)) @
     [(''registry_metadata_revision'', JO_str (gd_RegistryMetadataRevision m)),
      (''registry_metadata_artifact_sha256'', JO_str (gd_RegistryMetadataArtifactSHA256 m)),
      (''registry_metadata_source_sha256'', JO_str (gd_RegistryMetadataSourceSHA256 m)),
      (''registry_metadata_catalog_sha256'', JO_str (gd_RegistryMetadataCatalogSHA256 m)),
      (''canary_config_sha256'', JO_str (gd_CanaryConfigSHA256 m)), (''base_gatus_config_sha256'', JO_str (gd_BaseGatusConfigSHA256 m)),
      (''activation_sha256'', JO_str (gd_ActivationSHA256 m))]"

definition runtime_pin_json :: "OperationGatusRuntimeDependencies \<Rightarrow> jout" where
  "runtime_pin_json p = JO_obj (runtime_pin_head_json p @
     [(''identity_mapping_sha256'', JO_str (gd_IdentityMappingSHA256 p)), (''generated_config_sha256'', JO_str (gd_GeneratedConfigSHA256 p)),
      (''known_plan_operations'', JO_int (gd_KnownPlanOperations p)), (''activated_plan_operations'', JO_int (gd_ActivatedPlanOperations p)),
      (''legacy_canaries'', JO_int (gd_LegacyCanaries p)), (''configured_external_endpoints'', JO_int (gd_ConfiguredExternalEndpoints p))])"

text \<open>The entries by source and operation, whose pairs are distinct.\<close>

definition ordered_entries :: "(string, OperationGatusIdentity) gomap \<Rightarrow> OperationGatusIdentity list" where
  "ordered_entries entries = sort_key gi_SourceID (sort_key gi_RegistryOperationID (List.map snd entries))"

definition ordered_endpoints :: "(string, operationGatusEndpoint) gomap \<Rightarrow> operationGatusEndpoint list" where
  "ordered_endpoints endpoints = sort_key gp_key (List.map snd endpoints)"

definition gatus_mapping ::
  "string \<Rightarrow> string \<Rightarrow> CanaryConfig \<Rightarrow> VerifiedRegistryAPIMetadata \<Rightarrow> PinnedOperationObservationPlan option \<Rightarrow> string \<Rightarrow> string
    \<Rightarrow> gatus_walk \<Rightarrow> OperationGatusIdentityMapping" where
  "gatus_mapping baseConfig canaryConfigSHA256 canaries v plan activationSHA256 generatedConfig w =
     \<lparr>gm_SchemaVersion = OperationGatusMappingSchemaVersion,
      gm_RegistryRevision = (case plan of None \<Rightarrow> '''' | Some p \<Rightarrow> RegistryRevision p),
      gm_ReleaseManifestSHA256 = (case plan of None \<Rightarrow> '''' | Some p \<Rightarrow> bi_ReleaseManifestSHA256 (pp_binding p)),
      gm_IndexSHA256 = (case plan of None \<Rightarrow> '''' | Some p \<Rightarrow> IndexSHA256 p),
      gm_PlanState = (if plan = None then ''unavailable'' else ''verified''),
      gm_PlanMissingReason = (if plan = None then ''operation_plan_not_configured'' else ''''),
      gm_RegistryMetadataRevision = pm_RegistryRevision (vm_pin v), gm_RegistryMetadataArtifactSHA256 = pm_ArtifactSHA256 (vm_pin v),
      gm_RegistryMetadataSourceSHA256 = pm_SourceSHA256 (vm_pin v), gm_RegistryMetadataCatalogSHA256 = pm_CatalogSHA256 (vm_pin v),
      gm_CanaryConfigSHA256 = canaryConfigSHA256, gm_BaseGatusConfigSHA256 = digestOperationGatusBytes baseConfig,
      gm_ActivationSHA256 = activationSHA256, gm_GeneratedConfigSHA256 = digestOperationGatusBytes generatedConfig,
      gm_KnownPlanOperations = gw_known w, gm_AdmittedPlanOperations = gw_admitted w, gm_ActivatedPlanOperations = gw_activated w,
      gm_LegacyCanaries = int (length (cc_Canaries canaries)), gm_LegacyOverlapsActivated = int (length (gw_suppressed w)),
      gm_ConfiguredExternalEndpoints = int (length (gw_endpoints w)),
      gm_LegacySuppressedHealthIDs = sortedUniqueStrings (gw_suppressed w), gm_Operations = Some (ordered_entries (gw_entries w))\<rparr>"

definition gatus_runtime_pin :: "OperationGatusIdentityMapping \<Rightarrow> string \<Rightarrow> OperationGatusRuntimeDependencies" where
  "gatus_runtime_pin m mappingSHA = \<lparr>gd_SchemaVersion = OperationGatusRuntimePinSchemaVersion, gd_RegistryRevision = gm_RegistryRevision m, gd_ReleaseManifestSHA256 = gm_ReleaseManifestSHA256 m, gd_IndexSHA256 = gm_IndexSHA256 m, gd_PlanState = gm_PlanState m, gd_PlanMissingReason = gm_PlanMissingReason m,
      gd_RegistryMetadataRevision = gm_RegistryMetadataRevision m, gd_RegistryMetadataArtifactSHA256 = gm_RegistryMetadataArtifactSHA256 m,
      gd_RegistryMetadataSourceSHA256 = gm_RegistryMetadataSourceSHA256 m, gd_RegistryMetadataCatalogSHA256 = gm_RegistryMetadataCatalogSHA256 m,
      gd_CanaryConfigSHA256 = gm_CanaryConfigSHA256 m, gd_BaseGatusConfigSHA256 = gm_BaseGatusConfigSHA256 m, gd_ActivationSHA256 = gm_ActivationSHA256 m,
      gd_IdentityMappingSHA256 = mappingSHA, gd_GeneratedConfigSHA256 = gm_GeneratedConfigSHA256 m,
      gd_KnownPlanOperations = gm_KnownPlanOperations m, gd_ActivatedPlanOperations = gm_ActivatedPlanOperations m,
      gd_LegacyCanaries = gm_LegacyCanaries m, gd_ConfiguredExternalEndpoints = gm_ConfiguredExternalEndpoints m\<rparr>"

definition gatus_artifacts :: "string \<Rightarrow> OperationGatusIdentityMapping \<Rightarrow> OperationGatusArtifacts option" where
  "gatus_artifacts generatedConfig m =
     (let mapBytes = json_indented 0 (mapping_json m) @ [CHR 0x0A]
      in if int (length mapBytes) > maxOperationGatusMappingBytes then None
         else (let mappingSHA = digestOperationGatusBytes mapBytes;
                   pinBytes = json_indented 0 (runtime_pin_json (gatus_runtime_pin m mappingSHA)) @ [CHR 0x0A]
               in Some \<lparr>gf_Config = generatedConfig, gf_Mapping = mapBytes, gf_RuntimePin = pinBytes,
                 gf_ConfigSHA256 = gm_GeneratedConfigSHA256 m, gf_MappingSHA256 = mappingSHA,
                 gf_RuntimePinSHA256 = digestOperationGatusBytes pinBytes, gf_LegacySuppressedHealthIDs = gm_LegacySuppressedHealthIDs m\<rparr>))"

definition activation_digest :: "OperationGatusActivation option \<Rightarrow> string \<Rightarrow> string option" where
  "activation_digest activation activationSHA256 =
     (case activation of
        None \<Rightarrow> Some (digestOperationGatusBytes (''datapan.health-operation-gatus-activation.none.v1'' @ [CHR 0x0A]))
      | Some a \<Rightarrow> (if ga_verifiedAbsent a \<or> ga_verifiedRawSHA256 a = '''' \<or> activationSHA256 \<noteq> ga_verifiedRawSHA256 a \<or>
            digestOperationGatusBytes (json_text (activation_json a)) \<noteq> ga_verifiedPayloadSHA256 a
          then None else Some activationSHA256))"

text \<open>Everything up to the documents: the mapping and the receiver configuration.\<close>

definition gatus_generate ::
  "plan_codec \<Rightarrow> string \<Rightarrow> string \<Rightarrow> CanaryConfig \<Rightarrow> VerifiedRegistryAPIMetadata \<Rightarrow> PinnedOperationObservationPlan option
    \<Rightarrow> OperationGatusActivation option \<Rightarrow> string \<Rightarrow> (OperationGatusIdentityMapping \<times> operationGatusEndpoint list \<times> string) option" where
  "gatus_generate cd baseConfig canaryConfigSHA256 canaries v plan activation activationSHA256 =
     (if baseConfig = '''' \<or> int (length baseConfig) > maxOperationGatusConfigBytes \<or> \<not> gatusBaseHasExecutionTarget baseConfig \<or>
         \<not> sha256Pattern canaryConfigSHA256 \<or> \<not> verifiedGatusMetadata v canaries
      then None
      else case activation_digest activation activationSHA256 of
        None \<Rightarrow> None
      | Some activationSHA \<Rightarrow>
          (if \<not> sha256Pattern activationSHA then None
           else case gatus_canaries v (cc_Canaries canaries) gatus_walk_start of
             None \<Rightarrow> None
           | Some legacy \<Rightarrow>
               (case (case plan of None \<Rightarrow> Some legacy | Some p \<Rightarrow> gatus_plan cd v p activation legacy) of
                  None \<Rightarrow> None
                | Some w \<Rightarrow>
                    (if int (length (gw_entries w)) > maxOperationGatusTargets \<or> int (length (gw_endpoints w)) > maxOperationGatusTargets
                     then None
                     else case renderOperationGatusConfig baseConfig (ordered_endpoints (gw_endpoints w)) of
                       None \<Rightarrow> None
                     | Some generated \<Rightarrow>
                         Some (gatus_mapping baseConfig canaryConfigSHA256 canaries v plan activationSHA generated w,
                           ordered_endpoints (gw_endpoints w), generated)))))"

definition GenerateOperationGatusArtifacts ::
  "plan_codec \<Rightarrow> string \<Rightarrow> string \<Rightarrow> CanaryConfig \<Rightarrow> VerifiedRegistryAPIMetadata \<Rightarrow> PinnedOperationObservationPlan option
    \<Rightarrow> OperationGatusActivation option \<Rightarrow> string \<Rightarrow> OperationGatusArtifacts option" where
  "GenerateOperationGatusArtifacts cd baseConfig canaryConfigSHA256 canaries v plan activation activationSHA256 =
     (case gatus_generate cd baseConfig canaryConfigSHA256 canaries v plan activation activationSHA256 of
        None \<Rightarrow> None
      | Some (m, endpoints, generated) \<Rightarrow> gatus_artifacts generated m)"

end
