(* ===== verification/Operation_Plan_Runtime.thy ===== *)
theory Operation_Plan_Runtime
  imports Operation_Gatus
begin

text \<open>
  \<^verbatim>\<open>internal/health/operation_plan_runtime.go\<close>, and from \<^verbatim>\<open>operation_read_model_runtime.go\<close> the loading of the plan
  pin: the runtime of the plan scheduler is built only when the plan, the metadata, the activation and
  the generated Gatus documents all agree; its targets are computed again from plan and mapping, and
  the whole is sealed by a digest.  Files are a function from absolute paths to the bytes of regular
  files; the decoders are those of \<open>plan_codec\<close>, \<open>metadata_codec\<close> and \<open>runtime_codec\<close>.
\<close>

section \<open>Data\<close>

definition maxOperationGatusRuntimeInputBytes :: int where "maxOperationGatusRuntimeInputBytes = 32 * 1024 * 1024"
definition maxOperationObservationPlanRuntimePin :: int where "maxOperationObservationPlanRuntimePin = 16 * 1024"
definition OperationObservationPlanRuntimePinSchema :: string where
  "OperationObservationPlanRuntimePinSchema = ''datapan.health-operation-plan-runtime-pin.v1''"

record OperationPlanRuntimePaths =
  rt_PlanRoot :: string
  rt_PlanPinPath :: string
  rt_CanaryConfigPath :: string
  rt_RegistryMetadataPath :: string
  rt_RegistryMetadataPin :: string
  rt_BaseGatusConfigPath :: string
  rt_GeneratedConfigPath :: string
  rt_IdentityMappingPath :: string
  rt_RuntimePinPath :: string
  rt_ActivationPath :: string
  rt_ActivationSHA256 :: string

record OperationPlanWorkerTarget =
  tg_Record :: OperationObservationPlanRecord
  tg_ShardSHA256 :: string
  tg_GatusEndpointKey :: string

record VerifiedOperationPlanRuntime =
  vr_Plan :: PinnedOperationObservationPlan
  vr_Metadata :: VerifiedRegistryAPIMetadata
  vr_Canaries :: CanaryConfig
  vr_Artifacts :: OperationGatusArtifacts
  vr_IdentityMapping :: OperationGatusIdentityMapping
  vr_ActiveTargets :: "OperationPlanWorkerTarget slice"
  vr_SuppressedLegacy :: "string slice"
  vr_verified :: bool
  vr_verificationSeal :: string

record runtime_codec =
  rk_plan :: plan_codec
  rk_metadata :: metadata_codec
  rk_canaries :: "string \<Rightarrow> CanaryConfig option"
  rk_catalog :: "string \<Rightarrow> Catalog option"
  rk_resolve :: "string \<Rightarrow> string \<Rightarrow> string"
  rk_pin :: "string \<Rightarrow> (string \<times> OperationObservationPlanBinding) option"
  rk_activation :: "string \<Rightarrow> OperationGatusActivation option"
  rk_mapping :: "string \<Rightarrow> OperationGatusIdentityMapping option"
  rk_release :: "string \<Rightarrow> plan_files option"

definition is_abs :: "string \<Rightarrow> bool" where "is_abs path \<longleftrightarrow> has_prefix path ''/''"

definition validOperationPlanRuntimePaths :: "OperationPlanRuntimePaths \<Rightarrow> bool" where
  "validOperationPlanRuntimePaths p \<longleftrightarrow>
     list_all is_abs [rt_PlanRoot p, rt_PlanPinPath p, rt_CanaryConfigPath p, rt_RegistryMetadataPath p, rt_RegistryMetadataPin p,
       rt_BaseGatusConfigPath p, rt_GeneratedConfigPath p, rt_IdentityMappingPath p, rt_RuntimePinPath p] \<and>
     (rt_ActivationPath p = '''' \<or> is_abs (rt_ActivationPath p))"

definition readOperationPlanRuntimeFile :: "(string \<Rightarrow> string option) \<Rightarrow> string \<Rightarrow> int \<Rightarrow> string option" where
  "readOperationPlanRuntimeFile files path maximum =
     (case files path of None \<Rightarrow> None | Some raw \<Rightarrow> (if raw = '''' \<or> int (length raw) > maximum then None else Some raw))"

definition LoadOperationObservationPlanRuntimePin ::
  "(string \<Rightarrow> (string \<times> OperationObservationPlanBinding) option) \<Rightarrow> (string \<Rightarrow> string option) \<Rightarrow> string
    \<Rightarrow> OperationObservationPlanBinding option" where
  "LoadOperationObservationPlanRuntimePin decode files path =
     (case readOperationPlanRuntimeFile files path maxOperationObservationPlanRuntimePin of
        None \<Rightarrow> None
      | Some raw \<Rightarrow>
          (case decode raw of
             None \<Rightarrow> None
           | Some (version, binding) \<Rightarrow>
               (if version \<noteq> OperationObservationPlanRuntimePinSchema \<or> \<not> validOperationObservationPlanBinding binding then None
                else Some binding)))"

section \<open>Targets\<close>

definition identity_key_of :: "OperationGatusIdentity \<Rightarrow> string" where
  "identity_key_of i = operationReadModelIdentityKey (gi_SourceID i) (gi_RegistryOperationID i)"

fun mapping_identities ::
  "OperationGatusIdentity list \<Rightarrow> (string, OperationGatusIdentity) gomap \<Rightarrow> (string, OperationGatusIdentity) gomap option" where
  "mapping_identities [] m = Some m"
| "mapping_identities (i # is) m =
     (if \<not> operationSourceIDPattern (gi_SourceID i) \<or> gi_RegistryOperationID i = '''' \<or> gi_GatusEndpointKey i = '''' \<or>
         gm_get m (identity_key_of i) \<noteq> None
      then None else mapping_identities is (gm_put (identity_key_of i) i m))"

definition record_key_of :: "OperationObservationPlanRecord \<Rightarrow> string" where
  "record_key_of r = operationReadModelIdentityKey (op_SourceID r) (op_OperationID r)"

text \<open>One record: \<open>None\<close> where the code returns an error, else the identities seen and the targets.\<close>

definition target_step ::
  "(string, OperationGatusIdentity) gomap \<Rightarrow> string \<Rightarrow> OperationObservationPlanRecord \<Rightarrow> string list \<times> OperationPlanWorkerTarget list
    \<Rightarrow> (string list \<times> OperationPlanWorkerTarget list) option" where
  "target_step byIdentity shardSHA r acc =
     (case gm_get byIdentity (record_key_of r) of
        None \<Rightarrow> None
      | Some i \<Rightarrow>
          (if gi_PlanAdmissionState i \<noteq> op_AdmissionStatus r \<or> gi_ResponseAssertionKind i \<noteq> op_ResponseAssertionKind r \<or>
              gi_ObservationPeriodSecond i \<noteq> op_ObservationPeriod r div second
           then None
           else if \<not> gi_PlanActive i then (if gi_Active i \<and> \<not> gi_LegacyActive i then None else Some acc)
           else if \<not> gi_Active i \<or> gi_LegacyActive i \<or> \<not> op_ExecutionEligible r \<or> op_TestOnly r \<or> op_AdmissionStatus r \<noteq> ''admitted'' \<or>
              op_RequestPlanStatus r \<noteq> ''complete'' \<or> op_RuntimeBindingStatus r \<noteq> ''bound'' \<or> \<not> op_QuotaPoliciesAdmitted r
           then None
           else if record_key_of r \<in> set (fst acc) then None
           else Some (record_key_of r # fst acc,
             snd acc @ [\<lparr>tg_Record = r, tg_ShardSHA256 = shardSHA, tg_GatusEndpointKey = gi_GatusEndpointKey i\<rparr>])))"

fun target_records ::
  "(string, OperationGatusIdentity) gomap \<Rightarrow> string \<Rightarrow> OperationObservationPlanRecord list \<Rightarrow> string list \<times> OperationPlanWorkerTarget list
    \<Rightarrow> (string list \<times> OperationPlanWorkerTarget list) option" where
  "target_records byIdentity sha [] acc = Some acc"
| "target_records byIdentity sha (r # rs) acc =
     (case target_step byIdentity sha r acc of None \<Rightarrow> None | Some acc' \<Rightarrow> target_records byIdentity sha rs acc')"

fun target_shards ::
  "plan_codec \<Rightarrow> PinnedOperationObservationPlan \<Rightarrow> (string, OperationGatusIdentity) gomap \<Rightarrow> nat list
    \<Rightarrow> string list \<times> OperationPlanWorkerTarget list \<Rightarrow> (string list \<times> OperationPlanWorkerTarget list) option" where
  "target_shards cd plan byIdentity [] acc = Some acc"
| "target_shards cd plan byIdentity (i # is) acc =
     (case ReadShard cd plan i of
        None \<Rightarrow> None
      | Some records \<Rightarrow>
          (case target_records byIdentity (sf_SHA256 (ix_Shards (sx_index (pp_state plan)) ! i)) records acc of
             None \<Rightarrow> None | Some acc' \<Rightarrow> target_shards cd plan byIdentity is acc'))"

definition sorted_targets :: "OperationPlanWorkerTarget list \<Rightarrow> OperationPlanWorkerTarget list" where
  "sorted_targets ts = sort_key (\<lambda>t. op_SourceID (tg_Record t)) (sort_key (\<lambda>t. op_OperationID (tg_Record t)) ts)"

definition exactActivePlanTargets ::
  "plan_codec \<Rightarrow> PinnedOperationObservationPlan \<Rightarrow> OperationGatusIdentityMapping \<Rightarrow> OperationPlanWorkerTarget slice option" where
  "exactActivePlanTargets cd plan m =
     (if \<not> sx_verified (pp_state plan) \<or> gm_PlanState m \<noteq> ''verified'' \<or>
         gm_KnownPlanOperations m \<noteq> pn_KnownOperations (Counts plan) \<or> gm_ActivatedPlanOperations m < 0 \<or>
         gm_ActivatedPlanOperations m > gm_KnownPlanOperations m \<or> int (length (elems (gm_Operations m))) > maxOperationGatusTargets
      then None
      else case mapping_identities (elems (gm_Operations m)) [] of
        None \<Rightarrow> None
      | Some byIdentity \<Rightarrow>
          (case target_shards cd plan byIdentity [0..<ShardCount plan] ([], []) of
             None \<Rightarrow> None
           | Some (seen, targets) \<Rightarrow>
               (if list_all (\<lambda>(key, i). gi_PlanActive i = (key \<in> set seen)) byIdentity
                then Some (if targets = [] then None else Some (sorted_targets targets)) else None)))"

section \<open>The seal\<close>

definition jo_strings :: "string list \<Rightarrow> jout" where
  "jo_strings xs = (if xs = [] then JO_null else JO_arr (List.map JO_str xs))"

definition quota_policy_json :: "OperationQuotaPolicy \<Rightarrow> jout" where
  "quota_policy_json p = JO_obj [(''ScopeSHA256'', JO_str (qp_ScopeSHA256 p)), (''MaxConcurrent'', JO_int (qp_MaxConcurrent p)),
     (''RequestsPerWindow'', JO_int (qp_RequestsPerWindow p)), (''Window'', JO_int (qp_Window p)),
     (''MinimumInterval'', JO_int (qp_MinimumInterval p))]"

text \<open>The lists of a decoded record are nil where they are empty, and so are those of its copy.\<close>

definition plan_record_json :: "OperationObservationPlanRecord \<Rightarrow> jout" where
  "plan_record_json r = JO_obj [(''OperationID'', JO_str (op_OperationID r)), (''Protocol'', JO_str (op_Protocol r)),
     (''ResponseAssertionKind'', JO_str (op_ResponseAssertionKind r)), (''DatasetID'', JO_str (op_DatasetID r)),
     (''OperationName'', JO_str (op_OperationName r)), (''UpstreamOperationKey'', JO_str (op_UpstreamOperationKey r)),
     (''LegacySelectors'', jo_strings (op_LegacySelectors r)), (''SourceID'', JO_str (op_SourceID r)), (''Provider'', JO_str (op_Provider r)),
     (''AdapterID'', JO_str (op_AdapterID r)), (''InventoryStatus'', JO_str (op_InventoryStatus r)),
     (''InventoryUnknown'', JO_bool (op_InventoryUnknown r)), (''TestOnly'', JO_bool (op_TestOnly r)),
     (''RequestPlanStatus'', JO_str (op_RequestPlanStatus r)), (''RequestPlanMissing'', jo_strings (op_RequestPlanMissing r)),
     (''RuntimeBindingStatus'', JO_str (op_RuntimeBindingStatus r)), (''RuntimeBindingMissing'', jo_strings (op_RuntimeBindingMissing r)),
     (''AdmissionStatus'', JO_str (op_AdmissionStatus r)), (''AdmissionReasons'', jo_strings (op_AdmissionReasons r)),
     (''ObservationPeriod'', JO_int (op_ObservationPeriod r)), (''RequestTimeout'', JO_int (op_RequestTimeout r)),
     (''QuotaPolicies'', (if op_QuotaPolicies r = [] then JO_null else JO_arr (List.map quota_policy_json (op_QuotaPolicies r)))),
     (''QuotaPoliciesAdmitted'', JO_bool (op_QuotaPoliciesAdmitted r)), (''ExecutionEligible'', JO_bool (op_ExecutionEligible r)),
     (''ExecutionBlockReason'', JO_str (op_ExecutionBlockReason r))]"

definition worker_target_json :: "OperationPlanWorkerTarget \<Rightarrow> jout" where
  "worker_target_json t = JO_obj [(''Record'', plan_record_json (tg_Record t)), (''ShardSHA256'', JO_str (tg_ShardSHA256 t)),
     (''GatusEndpointKey'', JO_str (tg_GatusEndpointKey t))]"

definition canary_json :: "Canary \<Rightarrow> jout" where
  "canary_json c = JO_obj [(''operation_id'', JO_str (ca_OperationID c)), (''gatus_endpoint_key'', JO_str (ca_GatusEndpointKey c)),
     (''tier'', JO_str (ca_Tier c)), (''interval_minutes'', JO_int (ca_IntervalMinutes c)),
     (''heartbeat_minutes'', JO_int (ca_HeartbeatMinutes c)),
     (''consecutive_failures_before_incident'', JO_int (ca_ConsecutiveFailuresBeforeIncident c)),
     (''missed_schedules_before_heartbeat'', JO_int (ca_MissedSchedulesBeforeHeartbeat c))]"

text \<open>A configuration that has loaded has a canary.\<close>

definition canary_config_json :: "CanaryConfig \<Rightarrow> jout" where
  "canary_config_json c = JO_obj [(''catalog_path'', JO_str (cc_CatalogPath c)), (''catalog_sha256'', JO_str (cc_CatalogSHA256 c)),
     (''consumption_provenance'', JO_obj [(''registry_dataset_revision'', JO_str (cp_RegistryDatasetRevision (cc_ConsumptionProvenance c))),
        (''source_registry_sha256'', JO_str (cp_SourceRegistrySHA256 (cc_ConsumptionProvenance c))),
        (''release_tag'', JO_str (cp_ReleaseTag (cc_ConsumptionProvenance c))),
        (''release_manifest_sha256'', JO_str (cp_ReleaseManifestSHA256 (cc_ConsumptionProvenance c)))]),
     (''global_concurrency'', JO_int (cc_GlobalConcurrency c)), (''jitter_seconds'', JO_int (cc_JitterSeconds c)),
     (''canaries'', (if cc_Canaries c = [] then JO_null else JO_arr (List.map canary_json (cc_Canaries c))))]"

definition artifact_ref_json :: "operationPlanArtifactRef \<Rightarrow> jout" where
  "artifact_ref_json r = JO_obj [(''path'', JO_str (ar_Path r)), (''sha256'', JO_str (ar_SHA256 r)), (''bytes'', JO_int (ar_Bytes r))]"

definition no_artifact_ref :: operationPlanArtifactRef where
  "no_artifact_ref = \<lparr>ar_Path = '''', ar_SHA256 = '''', ar_Bytes = 0\<rparr>"

definition runtime_seal_json :: "VerifiedOperationPlanRuntime \<Rightarrow> jout" where
  "runtime_seal_json r = (let state = pp_state (vr_Plan r); a = vr_Artifacts r in JO_obj
     [(''registry_revision'', JO_str (RegistryRevision (vr_Plan r))),
      (''release_manifest_sha256'', JO_str (bi_ReleaseManifestSHA256 (pp_binding (vr_Plan r)))),
      (''index_sha256'', JO_str (IndexSHA256 (vr_Plan r))),
      (''operation_manifest_ref'', artifact_ref_json (sx_operationManifestRef state)),
      (''provider_index_ref'', artifact_ref_json (case sx_providerIndexRef state of None \<Rightarrow> no_artifact_ref | Some ref \<Rightarrow> ref)),
      (''provider_index_bound'', JO_bool (sx_providerIndexRef state \<noteq> None)),
      (''config_sha256'', JO_str (digestOperationGatusBytes (gf_Config a))),
      (''mapping_sha256'', JO_str (digestOperationGatusBytes (gf_Mapping a))),
      (''runtime_pin_sha256'', JO_str (digestOperationGatusBytes (gf_RuntimePin a))),
      (''declared_config_sha256'', JO_str (gf_ConfigSHA256 a)), (''declared_mapping_sha256'', JO_str (gf_MappingSHA256 a)),
      (''declared_pin_sha256'', JO_str (gf_RuntimePinSHA256 a)),
      (''mapping_object_sha256'', JO_str (digestOperationGatusBytes (json_text (mapping_json (vr_IdentityMapping r))))),
      (''canary_config_object_sha256'', JO_str (digestOperationGatusBytes (json_text (canary_config_json (vr_Canaries r))))),
      (''targets'', jo_slice worker_target_json (vr_ActiveTargets r)), (''suppressed_legacy'', jo_slice JO_str (vr_SuppressedLegacy r)),
      (''artifact_suppressed'', jo_slice JO_str (gf_LegacySuppressedHealthIDs a))])"

definition operationPlanRuntimeSeal :: "VerifiedOperationPlanRuntime \<Rightarrow> string" where
  "operationPlanRuntimeSeal r =
     (if \<not> vr_verified r \<or> \<not> sx_verified (pp_state (vr_Plan r)) then ''''
      else (let raw = json_text (runtime_seal_json r)
            in if raw = '''' \<or> int (length raw) > maxOperationGatusRuntimeInputBytes then '''' else sha256_hex raw))"

definition validVerifiedOperationPlanRuntime :: "VerifiedOperationPlanRuntime \<Rightarrow> bool" where
  "validVerifiedOperationPlanRuntime r \<longleftrightarrow> vr_verified r \<and> sha256Pattern (vr_verificationSeal r) \<and>
     operationPlanRuntimeSeal r = vr_verificationSeal r"

text \<open>
  The copy has values of its own for everything that is shared; what can be told apart from the original
  is which of its slices are nil.
\<close>

definition clone_runtime :: "VerifiedOperationPlanRuntime \<Rightarrow> VerifiedOperationPlanRuntime" where
  "clone_runtime r = r\<lparr>
     vr_Artifacts := (vr_Artifacts r)\<lparr>gf_LegacySuppressedHealthIDs := copied (gf_LegacySuppressedHealthIDs (vr_Artifacts r))\<rparr>,
     vr_IdentityMapping := (vr_IdentityMapping r)\<lparr>gm_Operations := copied (gm_Operations (vr_IdentityMapping r)),
       gm_LegacySuppressedHealthIDs := copied (gm_LegacySuppressedHealthIDs (vr_IdentityMapping r))\<rparr>,
     vr_ActiveTargets := Some (elems (vr_ActiveTargets r)), vr_SuppressedLegacy := copied (vr_SuppressedLegacy r)\<rparr>"

definition cloneVerifiedOperationPlanRuntime :: "VerifiedOperationPlanRuntime \<Rightarrow> VerifiedOperationPlanRuntime option" where
  "cloneVerifiedOperationPlanRuntime r =
     (if \<not> validVerifiedOperationPlanRuntime r \<or> \<not> sx_verified (pp_state (vr_Plan r)) then None
      else if \<not> validVerifiedOperationPlanRuntime (clone_runtime r) then None else Some (clone_runtime r))"

section \<open>Verification\<close>

definition load_activation ::
  "runtime_codec \<Rightarrow> (string \<Rightarrow> string option) \<Rightarrow> OperationPlanRuntimePaths \<Rightarrow> PinnedOperationObservationPlan
    \<Rightarrow> (OperationGatusActivation option \<times> string) option" where
  "load_activation rk files paths plan =
     (if (rt_ActivationPath paths = '''') \<noteq> (rt_ActivationSHA256 paths = '''') then None
      else if rt_ActivationPath paths = '''' then Some (None, '''')
      else if \<not> sha256Pattern (rt_ActivationSHA256 paths) then None
      else case readOperationPlanRuntimeFile files (rt_ActivationPath paths) maxOperationGatusActivationBytes of
        None \<Rightarrow> None
      | Some raw \<Rightarrow>
          (case DecodeOperationGatusActivation (rk_activation rk) raw plan of
             None \<Rightarrow> None
           | Some (activation, sha) \<Rightarrow> (if sha \<noteq> rt_ActivationSHA256 paths then None else Some (Some activation, sha))))"

definition activationOperations :: "OperationGatusActivation option \<Rightarrow> OperationGatusActivationEntry list" where
  "activationOperations activation = (case activation of None \<Rightarrow> [] | Some a \<Rightarrow> ga_operations a)"

text \<open>The documents on disk are the generated ones.\<close>

definition documents_agree :: "(string \<Rightarrow> string option) \<Rightarrow> OperationPlanRuntimePaths \<Rightarrow> OperationGatusArtifacts \<Rightarrow> bool" where
  "documents_agree files paths a \<longleftrightarrow>
     readOperationPlanRuntimeFile files (rt_GeneratedConfigPath paths) maxOperationGatusRuntimeInputBytes = Some (gf_Config a) \<and>
     readOperationPlanRuntimeFile files (rt_IdentityMappingPath paths) maxOperationGatusMappingBytes = Some (gf_Mapping a) \<and>
     digestOperationGatusBytes (gf_Mapping a) = gf_MappingSHA256 a \<and>
     readOperationPlanRuntimeFile files (rt_RuntimePinPath paths) maxOperationGatusRuntimeInputBytes = Some (gf_RuntimePin a) \<and>
     digestOperationGatusBytes (gf_RuntimePin a) = gf_RuntimePinSHA256 a"

definition mapping_agrees :: "PinnedOperationObservationPlan \<Rightarrow> OperationGatusActivation option \<Rightarrow> OperationGatusIdentityMapping \<Rightarrow> bool" where
  "mapping_agrees plan activation m \<longleftrightarrow> gm_SchemaVersion m = OperationGatusMappingSchemaVersion \<and>
     gm_RegistryRevision m = RegistryRevision plan \<and> gm_IndexSHA256 m = IndexSHA256 plan \<and>
     gm_ReleaseManifestSHA256 m = bi_ReleaseManifestSHA256 (pp_binding plan) \<and>
     gm_ActivatedPlanOperations m = int (length (activationOperations activation))"

definition sealed_runtime :: "VerifiedOperationPlanRuntime \<Rightarrow> VerifiedOperationPlanRuntime option" where
  "sealed_runtime r = (let s = operationPlanRuntimeSeal r in if s = '''' then None else Some (r\<lparr>vr_verificationSeal := s\<rparr>))"

definition verifyOperationGatusRuntimeArtifacts ::
  "runtime_codec \<Rightarrow> (string \<Rightarrow> string option) \<Rightarrow> OperationPlanRuntimePaths \<Rightarrow> string \<Rightarrow> CanaryConfig \<Rightarrow> VerifiedRegistryAPIMetadata
    \<Rightarrow> PinnedOperationObservationPlan \<Rightarrow> VerifiedOperationPlanRuntime option" where
  "verifyOperationGatusRuntimeArtifacts rk files paths canaryRaw canaries v plan =
     (if \<not> validOperationPlanRuntimePaths paths \<or> canaryRaw = '''' \<or> int (length canaryRaw) > maxOperationGatusRuntimeInputBytes \<or>
         \<not> verifiedGatusMetadata v canaries \<or> \<not> sx_verified (pp_state plan)
      then None
      else case (readOperationPlanRuntimeFile files (rt_BaseGatusConfigPath paths) maxOperationGatusRuntimeInputBytes,
          load_activation rk files paths plan) of
        (Some baseConfig, Some (activation, activationSHA)) \<Rightarrow>
          (case GenerateOperationGatusArtifacts (rk_plan rk) baseConfig (digestOperationGatusBytes canaryRaw) canaries v (Some plan)
              activation activationSHA of
             None \<Rightarrow> None
           | Some a \<Rightarrow>
               (if \<not> documents_agree files paths a then None
                else case rk_mapping rk (gf_Mapping a) of
                  None \<Rightarrow> None
                | Some m \<Rightarrow>
                    (if \<not> mapping_agrees plan activation m then None
                     else case exactActivePlanTargets (rk_plan rk) plan m of
                       None \<Rightarrow> None
                     | Some targets \<Rightarrow>
                         (if int (length (elems targets)) \<noteq> gm_ActivatedPlanOperations m then None
                          else sealed_runtime \<lparr>vr_Plan = plan, vr_Metadata = v, vr_Canaries = canaries, vr_Artifacts = a,
                            vr_IdentityMapping = m, vr_ActiveTargets = targets,
                            vr_SuppressedLegacy = copied (gf_LegacySuppressedHealthIDs a), vr_verified = True,
                            vr_verificationSeal = ''''\<rparr>))))
      | _ \<Rightarrow> None)"

definition LoadVerifiedOperationPlanRuntime ::
  "runtime_codec \<Rightarrow> (string \<Rightarrow> string option) \<Rightarrow> OperationPlanRuntimePaths \<Rightarrow> VerifiedOperationPlanRuntime option" where
  "LoadVerifiedOperationPlanRuntime rk files paths =
     (if \<not> validOperationPlanRuntimePaths paths then None
      else case readOperationPlanRuntimeFile files (rt_CanaryConfigPath paths) maxOperationGatusRuntimeInputBytes of
        None \<Rightarrow> None
      | Some canaryRaw \<Rightarrow>
          (case LoadCanaryConfig (rk_canaries rk) (rk_catalog rk) files (rk_resolve rk) (rt_CanaryConfigPath paths) of
             Inl _ \<Rightarrow> None
           | Inr canaries \<Rightarrow>
               (case LoadRegistryAPIMetadata (rk_metadata rk) files (rt_RegistryMetadataPath paths) (rt_RegistryMetadataPin paths) canaries of
                  None \<Rightarrow> None
                | Some metadata \<Rightarrow>
                    (case (NewVerifiedRegistryAPIMetadata metadata,
                       LoadOperationObservationPlanRuntimePin (rk_pin rk) files (rt_PlanPinPath paths)) of
                       (Some v, Some binding) \<Rightarrow>
                         (case LoadPinnedOperationObservationPlan (rk_plan rk) (rk_release rk (rt_PlanRoot paths)) binding of
                            None \<Rightarrow> None
                          | Some plan \<Rightarrow> verifyOperationGatusRuntimeArtifacts rk files paths canaryRaw canaries v plan)
                     | _ \<Rightarrow> None))))"

end
