(* ===== verification/Registry_Metadata_Facts.thy ===== *)
theory Registry_Metadata_Facts
  imports Registry_Metadata
begin

text \<open>
  What indexing builds: the walk over the APIs only appends, so each index is a list written down from the
  APIs; the join and the rebuilt copy go over the same lists.
\<close>

section \<open>Maps built by appending\<close>

definition keyed :: "('a \<Rightarrow> 'k) \<Rightarrow> 'a list \<Rightarrow> ('k, 'a) gomap" where
  "keyed f xs = List.map (\<lambda>x. (f x, x)) xs"

lemma keyed_simps [simp]: "keyed f [] = []" "keyed f (x # xs) = (f x, x) # keyed f xs" "keyed f (xs @ ys) = keyed f xs @ keyed f ys"
  "gm_keys (keyed f xs) = List.map f xs" "length (keyed f xs) = length xs"
  by (simp_all add: keyed_def o_def)

lemma fst_keyed [simp]: "fst ` set (keyed f xs) = f ` set xs"
  by (auto simp: keyed_def image_iff)

lemma gm_get_keyed: "distinct (List.map f xs) \<Longrightarrow> x \<in> set xs \<Longrightarrow> gm_get (keyed f xs) (f x) = Some x"
  by (rule map_of_is_SomeI) (auto simp: keyed_def o_def)

lemma gm_put_fresh: "gm_get m k = None \<Longrightarrow> gm_put k v m = m @ [(k, v)]"
  by (rule gm_put_absent) (simp add: map_of_eq_None_iff)

lemma put_keyed:
  "distinct (gm_keys m @ List.map f xs) \<Longrightarrow> foldl (\<lambda>acc x. gm_put (f x) x acc) m xs = m @ keyed f xs"
proof (induction xs arbitrary: m)
  case Nil
  then show ?case by simp
next
  case (Cons x xs)
  then have "gm_put (f x) x m = m @ [(f x, x)]" by (intro gm_put_absent) auto
  then show ?case using Cons.IH [of "m @ [(f x, x)]"] Cons.prems by simp
qed

text \<open>Two lists of the same values build the same map.\<close>

lemma keyed_perm:
  assumes "distinct (List.map f xs)" "mset ys = mset xs"
  shows "gm_get (keyed f ys) = gm_get (keyed f xs)"
proof
  have ys: "distinct (List.map f ys)" "set ys = set xs"
    using assms by (metis mset_map mset_eq_imp_distinct_iff) (metis assms(2) mset_eq_setD)
  show "gm_get (keyed f ys) k = gm_get (keyed f xs) k" for k
  proof (cases "k \<in> f ` set xs")
    case True
    then show ?thesis using assms(1) ys by (auto simp: gm_get_keyed)
  next
    case False
    then have "gm_get (keyed f xs) k = None" "gm_get (keyed f ys) k = None" using ys(2) by (simp_all add: map_of_eq_None_iff)
    then show ?thesis by simp
  qed
qed

section \<open>The walk over the APIs\<close>

lemma index_operations_appends:
  assumes "index_operations api ps m = Inr m'" "gm_wf m"
  shows "m' = m @ keyed mp_RegistryOperationID ps" "gm_wf m'" "list_all (metadata_operation_ok api) ps"
proof -
  have "m' = m @ keyed mp_RegistryOperationID ps \<and> gm_wf m' \<and> list_all (metadata_operation_ok api) ps"
    using assms
  proof (induction ps arbitrary: m)
    case Nil
    then show ?case by simp
  next
    case (Cons p ps)
    from Cons.prems(1) have p: "metadata_operation_ok api p" "gm_get m (mp_RegistryOperationID p) = None"
      and rest: "index_operations api ps (gm_put (mp_RegistryOperationID p) p m) = Inr m'"
      by (simp_all split: if_split_asm)
    have "gm_wf (gm_put (mp_RegistryOperationID p) p m)" using Cons.prems(2) by (rule distinct_update)
    from Cons.IH [OF rest this] p show ?case unfolding gm_put_fresh [OF p(2)] by (elim conjE) (simp only: keyed_simps append_assoc append_Cons append_Nil list.pred_inject simp_thms)
  qed
  then show "m' = m @ keyed mp_RegistryOperationID ps" "gm_wf m'" "list_all (metadata_operation_ok api) ps"
    by blast+
qed

definition sorted_api :: "(string \<Rightarrow> string) \<Rightarrow> RegistryAPIMetadataAPI \<Rightarrow> RegistryAPIMetadataAPI" where
  "sorted_api lower api = api\<lparr>ma_Operations := sorted_operations lower (ma_Operations api)\<rparr>"

lemma sorted_api_simps [simp]: "ma_RegistryAPIID (sorted_api lower api) = ma_RegistryAPIID api" "ma_Provider (sorted_api lower api) = ma_Provider api"
  "ma_Operations (sorted_api lower api) = sorted_operations lower (ma_Operations api)"
  by (simp_all add: sorted_api_def)

definition all_operations :: "RegistryAPIMetadataAPI list \<Rightarrow> RegistryAPIMetadataOperation list" where
  "all_operations apis = concat (List.map ma_Operations apis)"

lemma mset_sorted_operations [simp]: "mset (sorted_operations lower ps) = mset ps"
  by (simp add: sorted_operations_def)

lemma mset_all_operations [simp]: "mset (all_operations (List.map (sorted_api lower) apis)) = mset (all_operations apis)"
  by (induction apis) (simp_all add: all_operations_def)

text \<open>\<open>indexed lower apis w\<close>: the walk has indexed \<open>apis\<close>.\<close>

definition indexed :: "(string \<Rightarrow> string) \<Rightarrow> RegistryAPIMetadataAPI list \<Rightarrow> metadata_walk \<Rightarrow> bool" where
  "indexed lower apis w \<longleftrightarrow> mw_APIs w = List.map (sorted_api lower) apis \<and>
     mw_byID w = zip (List.map ma_RegistryAPIID apis) [0..<length apis] \<and> distinct (List.map ma_RegistryAPIID apis) \<and>
     mw_operationByID w = keyed mp_RegistryOperationID (all_operations apis) \<and>
     distinct (List.map mp_RegistryOperationID (all_operations apis)) \<and> mw_operations w = int (length (all_operations apis)) \<and>
     mw_links w = sum_list (List.map ma_LinkOperationCount apis) \<and>
     mw_searchText w = List.map (\<lambda>api. search_text lower (sorted_api lower api)) apis \<and>
     list_all (\<lambda>api. metadata_api_ok api \<and> metadata_fields_ok api \<and> list_all (metadata_operation_ok api) (ma_Operations api)) apis"

lemma indexed_start: "indexed lower [] metadata_walk_start"
  by (simp add: indexed_def metadata_walk_start_def all_operations_def)

lemma index_api_step:
  assumes "index_api lower api w = Inr w'" "indexed lower apis w"
  shows "indexed lower (apis @ [api]) w'"
proof -
  from assms(1) have ok: "metadata_api_ok api" "metadata_fields_ok api" "gm_get (mw_byID w) (ma_RegistryAPIID api) = None"
    by (simp_all add: index_api_def split: if_split_asm)
  from assms(1) obtain m where m: "index_operations api (ma_Operations api) (mw_operationByID w) = Inr m"
    and w': "mw_APIs w' = mw_APIs w @ [sorted_api lower api]" "mw_byID w' = gm_put (ma_RegistryAPIID api) (length (mw_APIs w)) (mw_byID w)"
      "mw_operationByID w' = m" "mw_operations w' = mw_operations w + int (length (ma_Operations api))"
      "mw_links w' = mw_links w + ma_LinkOperationCount api" "mw_searchText w' = mw_searchText w @ [search_text lower (sorted_api lower api)]"
    by (auto simp: index_api_def Let_def sorted_api_def split: if_split_asm sum.split_asm)
  have "gm_wf (mw_operationByID w)" using assms(2) by (simp add: indexed_def)
  note m' = index_operations_appends [OF m this]
  have fresh: "ma_RegistryAPIID api \<notin> ma_RegistryAPIID ` set apis"
    using ok(3) assms(2) by (simp add: indexed_def map_of_eq_None_iff flip: set_map)
  have "mw_byID w' = zip (List.map ma_RegistryAPIID (apis @ [api])) [0..<length (apis @ [api])]"
    using assms(2) ok(3) by (simp add: w'(2) gm_put_fresh) (simp add: indexed_def)
  moreover have "mw_operationByID w' = keyed mp_RegistryOperationID (all_operations (apis @ [api]))"
    "distinct (List.map mp_RegistryOperationID (all_operations (apis @ [api])))"
    using assms(2) m'(1,2) by (simp_all add: w'(3) indexed_def all_operations_def)
  moreover have "mw_operations w' = int (length (all_operations (apis @ [api])))"
    using assms(2) by (simp add: w'(4) indexed_def all_operations_def)
  ultimately show ?thesis using assms(2) w' fresh ok m'(3) by (simp add: indexed_def)
qed

lemma index_apis_indexed:
  "index_apis lower apis w = Inr w' \<Longrightarrow> indexed lower seen w \<Longrightarrow> indexed lower (seen @ apis) w'"
proof (induction apis arbitrary: seen w)
  case Nil
  then show ?case by simp
next
  case (Cons api apis)
  then obtain v where v: "index_api lower api w = Inr v" "index_apis lower apis v = Inr w'" by (auto split: sum.split_asm)
  from Cons.IH [OF v(2) index_api_step [OF v(1) Cons.prems(2)]] show ?case by simp
qed

section \<open>The links\<close>

definition link_joined :: "CanaryConfig \<Rightarrow> metadata_walk \<Rightarrow> RegistryHealthCanaryLink \<Rightarrow> bool" where
  "link_joined canaries w link \<longleftrightarrow> canary_link_ok link \<and> link_entry_ok canaries link = None \<and> lk_DatasetID link = lk_RegistryAPIID link \<and>
     (\<exists>i. gm_get (mw_byID w) (lk_RegistryAPIID link) = Some i) \<and>
     (\<exists>p. gm_get (mw_operationByID w) (lk_RegistryOperationID link) = Some p \<and> mp_DatasetID p = lk_DatasetID link \<and>
       mp_UpstreamOperationSeq p = lk_UpstreamOperationSeq link \<and> mp_Name p = lk_OperationName link)"

lemma index_links_appends:
  assumes "index_links canaries w links byHealth byOp = Inr (h, p)" "gm_wf byHealth" "gm_wf byOp"
  shows "h = byHealth @ keyed lk_HealthOperationID links \<and> p = byOp @ keyed lk_RegistryOperationID links \<and> gm_wf h \<and> gm_wf p \<and>
    list_all (link_joined canaries w) links"
  using assms
proof (induction links arbitrary: byHealth byOp)
  case Nil
  then show ?case by simp
next
  case (Cons link links)
  from Cons.prems(1) have one: "index_link canaries w link byHealth byOp = None"
    and rest: "index_links canaries w links (gm_put (lk_HealthOperationID link) link byHealth) (gm_put (lk_RegistryOperationID link) link byOp) = Inr (h, p)"
    by (simp_all split: option.split_asm)
  from one have fresh: "gm_get byHealth (lk_HealthOperationID link) = None" "gm_get byOp (lk_RegistryOperationID link) = None"
    and ok: "canary_link_ok link"
    by (simp_all add: index_link_def split: if_split_asm)
  from one have joined: "link_joined canaries w link"
    by (simp add: index_link_def link_joined_def split: if_split_asm option.split_asm)
  have "gm_wf (gm_put (lk_HealthOperationID link) link byHealth)" "gm_wf (gm_put (lk_RegistryOperationID link) link byOp)"
    using Cons.prems(2,3) by (simp_all add: distinct_update)
  note ih = Cons.IH [OF rest this, unfolded gm_put_fresh [OF fresh(1)] gm_put_fresh [OF fresh(2)] append_assoc append_Cons append_Nil]
  show ?case unfolding keyed_simps list.pred_inject using joined ih by blast
qed

section \<open>Indexed metadata\<close>

lemma indexAndValidate_indexed:
  assumes "indexAndValidate lower canaries m = Inr m'"
  obtains w displays where "indexed lower (md_APIs m) w" "metadata_identity_ok m"
    "mt_APIOperations (md_Counts m) = int (length (all_operations (md_APIs m)))"
    "distinct (List.map lk_HealthOperationID (md_HealthCanaryLinks m))" "distinct (List.map lk_RegistryOperationID (md_HealthCanaryLinks m))"
    "list_all (link_joined canaries w) (md_HealthCanaryLinks m)"
    "m' = m\<lparr>md_APIs := mw_APIs w, md_byID := mw_byID w, md_operationByID := mw_operationByID w,
       md_canaryByOpID := keyed lk_RegistryOperationID (md_HealthCanaryLinks m),
       md_canaryByHealthID := keyed lk_HealthOperationID (md_HealthCanaryLinks m), md_canaryDisplays := displays,
       md_orderedAPIIndices := ordered_indices lower (mw_APIs w), md_searchText := mw_searchText w\<rparr>"
proof -
  from assms obtain w where id: "metadata_identity_ok m" and w: "index_apis lower (md_APIs m) metadata_walk_start = Inr w"
    by (auto simp: indexAndValidate_def split: if_split_asm sum.split_asm)
  note a = assms [unfolded indexAndValidate_def w sum.case, simplified id simp_thms if_False not_True_eq_False]
  have counts: "mw_operations w = mt_APIOperations (md_Counts m)" using a by (simp split: if_split_asm)
  from a obtain h p where links: "index_links canaries w (md_HealthCanaryLinks m) [] [] = Inr (h, p)"
    by (auto split: if_split_asm sum.split_asm)
  from a links obtain displays where m': "m' = m\<lparr>md_APIs := mw_APIs w, md_byID := mw_byID w, md_operationByID := mw_operationByID w,
       md_canaryByOpID := p, md_canaryByHealthID := h, md_canaryDisplays := displays,
       md_orderedAPIIndices := ordered_indices lower (mw_APIs w), md_searchText := mw_searchText w\<rparr>"
    by (auto split: if_split_asm sum.split_asm)
  have indexed: "indexed lower (md_APIs m) w" using index_apis_indexed [OF w indexed_start] by simp
  have l: "h = keyed lk_HealthOperationID (md_HealthCanaryLinks m)" "p = keyed lk_RegistryOperationID (md_HealthCanaryLinks m)"
    "gm_wf h" "gm_wf p" "list_all (link_joined canaries w) (md_HealthCanaryLinks m)"
    using index_links_appends [OF links] by auto
  have d: "distinct (List.map lk_HealthOperationID (md_HealthCanaryLinks m))" "distinct (List.map lk_RegistryOperationID (md_HealthCanaryLinks m))"
    using index_links_appends [OF links] by auto
  show thesis
    by (rule that [OF indexed id _ d l(5)]) (use l(1,2) m' counts indexed in \<open>simp_all add: indexed_def\<close>)
qed

section \<open>The join\<close>

lemma join_operations_all:
  assumes "list_all (\<lambda>p. gm_get (md_operationByID m) (mp_RegistryOperationID p) = Some p \<and> mp_DatasetID p = ma_RegistryAPIID api) ps"
    "distinct (List.map rp_RegistryOperationID acc @ List.map mp_RegistryOperationID ps)"
  shows "join_operations m api ps acc = Some (acc @ List.map (joined_operation api) ps)"
  using assms
proof (induction ps arbitrary: acc)
  case Nil
  then show ?case by simp
next
  case (Cons p ps)
  have "rp_RegistryOperationID (joined_operation api p) = mp_RegistryOperationID p" by (simp add: joined_operation_def)
  then show ?case using Cons.IH [of "acc @ [joined_operation api p]"] Cons.prems by simp
qed

definition joined :: "RegistryAPIMetadataAPI list \<Rightarrow> RegistryOperationMetadata list" where
  "joined apis = concat (List.map (\<lambda>api. List.map (joined_operation api) (ma_Operations api)) apis)"

lemma joined_ids: "List.map rp_RegistryOperationID (joined apis) = List.map mp_RegistryOperationID (all_operations apis)"
  by (induction apis) (simp_all add: joined_def all_operations_def joined_operation_def o_def)

lemma length_joined: "length (joined apis) = length (all_operations apis)"
  by (induction apis) (simp_all add: joined_def all_operations_def)

lemma join_apis_all:
  assumes "\<And>j. j < length apis \<Longrightarrow> gm_get (md_byID m) (ma_RegistryAPIID (apis ! j)) = Some (i + j)"
    "list_all (\<lambda>api. ma_Provider api = ''data.go.kr'' \<and> list_all (\<lambda>p. gm_get (md_operationByID m) (mp_RegistryOperationID p) = Some p \<and>
       mp_DatasetID p = ma_RegistryAPIID api) (ma_Operations api)) apis"
    "distinct (List.map rp_RegistryOperationID acc @ List.map mp_RegistryOperationID (all_operations apis))"
  shows "join_apis m i apis acc = Some (acc @ joined apis)"
  using assms
proof (induction apis arbitrary: i acc)
  case Nil
  then show ?case by (simp add: joined_def)
next
  case (Cons api apis)
  have first: "gm_get (md_byID m) (ma_RegistryAPIID api) = Some i" using Cons.prems(1) [of 0] by simp
  have step: "join_operations m api (ma_Operations api) acc = Some (acc @ List.map (joined_operation api) (ma_Operations api))"
    using Cons.prems(2,3) by (intro join_operations_all) (auto simp: all_operations_def)
  have "join_apis m (i + 1) apis (acc @ List.map (joined_operation api) (ma_Operations api)) =
      Some ((acc @ List.map (joined_operation api) (ma_Operations api)) @ joined apis)"
  proof (rule Cons.IH)
    show "gm_get (md_byID m) (ma_RegistryAPIID (apis ! j)) = Some (i + 1 + j)" if "j < length apis" for j
      using Cons.prems(1) [of "Suc j"] that by simp
    show "distinct (List.map rp_RegistryOperationID (acc @ List.map (joined_operation api) (ma_Operations api)) @
        List.map mp_RegistryOperationID (all_operations apis))"
      using Cons.prems(3) by (simp add: all_operations_def o_def joined_operation_def)
  qed (use Cons.prems(2) in simp)
  then show ?case using first step Cons.prems(2) by (simp add: joined_def)
qed

section \<open>Loaded metadata\<close>

definition loaded_from :: "(string \<Rightarrow> string) \<Rightarrow> CanaryConfig \<Rightarrow> RegistryAPIMetadata \<Rightarrow> RegistryAPIMetadata \<Rightarrow> bool" where
  "loaded_from lower canaries d m \<longleftrightarrow> (\<exists>w. indexed lower (md_APIs d) w \<and> metadata_identity_ok d \<and>
     mt_APIOperations (md_Counts d) = int (length (all_operations (md_APIs d))) \<and>
     distinct (List.map lk_HealthOperationID (md_HealthCanaryLinks d)) \<and> distinct (List.map lk_RegistryOperationID (md_HealthCanaryLinks d)) \<and>
     list_all (link_joined canaries w) (md_HealthCanaryLinks d) \<and>
     md_APIs m = mw_APIs w \<and> md_byID m = mw_byID w \<and> md_operationByID m = mw_operationByID w \<and>
     md_canaryByOpID m = keyed lk_RegistryOperationID (md_HealthCanaryLinks d) \<and>
     md_canaryByHealthID m = keyed lk_HealthOperationID (md_HealthCanaryLinks d) \<and>
     md_orderedAPIIndices m = ordered_indices lower (mw_APIs w) \<and> md_searchText m = mw_searchText w \<and>
     md_HealthCanaryLinks m = md_HealthCanaryLinks d \<and> md_Counts m = md_Counts d \<and> md_Source m = md_Source d \<and>
     md_Scope m = md_Scope d \<and> md_verifiedArtifactSHA256 m = acceptedRegistryAPIMetadataSHA256 \<and>
     md_verifiedSourceSHA256 m = mr_SHA256 (md_Source m) \<and> md_verifiedProjectionSHA256 m = metadataProjectionDigest m)"

lemma marked_metadata:
  assumes "indexAndValidate lower canaries d = Inr m'" "m = mark_verified canaries acceptedRegistryAPIMetadataSHA256 m'"
  shows "loaded_from lower canaries d m"
proof -
  have digest: "metadataProjectionDigest m = metadataProjectionDigest m'"
    unfolding assms(2) by (simp add: metadataProjectionDigest_def metadata_json_def mark_verified_def)
  obtain w displays where w: "indexed lower (md_APIs d) w" "metadata_identity_ok d"
    "mt_APIOperations (md_Counts d) = int (length (all_operations (md_APIs d)))"
    "distinct (List.map lk_HealthOperationID (md_HealthCanaryLinks d))" "distinct (List.map lk_RegistryOperationID (md_HealthCanaryLinks d))"
    "list_all (link_joined canaries w) (md_HealthCanaryLinks d)"
    "m' = d\<lparr>md_APIs := mw_APIs w, md_byID := mw_byID w, md_operationByID := mw_operationByID w,
       md_canaryByOpID := keyed lk_RegistryOperationID (md_HealthCanaryLinks d),
       md_canaryByHealthID := keyed lk_HealthOperationID (md_HealthCanaryLinks d), md_canaryDisplays := displays,
       md_orderedAPIIndices := ordered_indices lower (mw_APIs w), md_searchText := mw_searchText w\<rparr>"
    by (rule indexAndValidate_indexed [OF assms(1)])
  show ?thesis
    unfolding loaded_from_def digest by (rule exI [of _ w]) (use w in \<open>simp add: assms(2) mark_verified_def\<close>)
qed

text \<open>What is loaded has been indexed and marked so.\<close>

lemma loaded_metadata_marked:
  assumes "LoadRegistryAPIMetadata mc files path pinPath canaries = Some m"
  obtains d m' where "indexAndValidate (mc_lower mc) canaries d = Inr m'" "m = mark_verified canaries acceptedRegistryAPIMetadataSHA256 m'"
proof -
  from assms obtain data pinData where read: "readLimitedMetadataFile files path maxRegistryAPIMetadataBytes = Some data"
    "readLimitedMetadataFile files pinPath maxRegistryMetadataPinBytes = Some pinData"
    by (auto simp: LoadRegistryAPIMetadata_def split: option.split_asm)
  note a = assms [unfolded LoadRegistryAPIMetadata_def read option.case prod.case]
  from a obtain pin where pin: "mc_pin mc pinData = Some pin" by (auto split: if_split_asm option.split_asm)
  note a2 = a [unfolded pin option.case Let_def]
  from a2 have sha: "sha256_hex data = acceptedRegistryAPIMetadataSHA256" by (simp split: if_split_asm)
  from a2 obtain d where d: "mc_metadata mc data = Some d" by (auto split: if_split_asm option.split_asm)
  note a3 = a2 [unfolded d option.case]
  from a3 obtain m' where m': "indexAndValidate (mc_lower mc) canaries d = Inr m'" by (auto split: if_split_asm sum.split_asm)
  from a3 show thesis unfolding m' sum.case by (intro that [OF m']) (simp add: sha split: if_split_asm)
qed

lemma zip_get:
  "distinct xs \<Longrightarrow> i < length xs \<Longrightarrow> gm_get (zip xs [0..<length xs]) (xs ! i) = Some i"
  by (simp add: map_of_zip_nth)

lemma loaded_facts:
  assumes "loaded_from lower canaries d m"
  shows "md_APIs m = List.map (sorted_api lower) (md_APIs d)"
    "\<And>i. i < length (md_APIs m) \<Longrightarrow> gm_get (md_byID m) (ma_RegistryAPIID (md_APIs m ! i)) = Some i"
    "md_byID m = zip (List.map ma_RegistryAPIID (md_APIs m)) [0..<length (md_APIs m)]"
    "distinct (List.map ma_RegistryAPIID (md_APIs m))"
    "distinct (List.map mp_RegistryOperationID (all_operations (md_APIs m)))"
    "gm_get (md_operationByID m) = gm_get (keyed mp_RegistryOperationID (all_operations (md_APIs m)))"
    "length (md_operationByID m) = length (all_operations (md_APIs m))"
    "mt_APIOperations (md_Counts m) = int (length (all_operations (md_APIs m)))"
    "list_all (\<lambda>api. metadata_api_ok api \<and> list_all (metadata_operation_ok api) (ma_Operations api)) (md_APIs m)"
proof -
  obtain w where w: "indexed lower (md_APIs d) w" "md_APIs m = mw_APIs w" "md_byID m = mw_byID w" "md_operationByID m = mw_operationByID w"
    "mt_APIOperations (md_Counts m) = int (length (all_operations (md_APIs d)))"
    using assms by (auto simp: loaded_from_def)
  show apis: "md_APIs m = List.map (sorted_api lower) (md_APIs d)" using w(1,2) by (simp add: indexed_def)
  have ids: "List.map ma_RegistryAPIID (md_APIs m) = List.map ma_RegistryAPIID (md_APIs d)" by (simp add: apis o_def)
  show dist: "distinct (List.map ma_RegistryAPIID (md_APIs m))" using w(1) by (simp add: ids indexed_def)
  show byID: "md_byID m = zip (List.map ma_RegistryAPIID (md_APIs m)) [0..<length (md_APIs m)]"
    using w(1,3) unfolding ids by (simp add: indexed_def apis)
  show "gm_get (md_byID m) (ma_RegistryAPIID (md_APIs m ! i)) = Some i" if "i < length (md_APIs m)" for i
    using zip_get [OF dist, of i] that byID by simp
  have perm: "mset (all_operations (md_APIs m)) = mset (all_operations (md_APIs d))" by (simp add: apis)
  have dops: "distinct (List.map mp_RegistryOperationID (all_operations (md_APIs d)))"
    and mops: "mw_operationByID w = keyed mp_RegistryOperationID (all_operations (md_APIs d))"
    using w(1) by (simp_all add: indexed_def)
  show "distinct (List.map mp_RegistryOperationID (all_operations (md_APIs m)))"
    using dops perm by (metis mset_map mset_eq_imp_distinct_iff)
  show "gm_get (md_operationByID m) = gm_get (keyed mp_RegistryOperationID (all_operations (md_APIs m)))"
    using keyed_perm [OF dops perm] w(4) mops by simp
  have len: "length (all_operations (md_APIs m)) = length (all_operations (md_APIs d))" using perm by (rule mset_eq_length)
  then show "length (md_operationByID m) = length (all_operations (md_APIs m))" using w(4) mops by simp
  show "mt_APIOperations (md_Counts m) = int (length (all_operations (md_APIs m)))" using w(5) len by simp
  have "set (ma_Operations (sorted_api lower api)) = set (ma_Operations api)" for api
    by (metis sorted_api_simps(3) mset_sorted_operations mset_eq_setD)
  moreover have "metadata_operation_ok (sorted_api lower api) = metadata_operation_ok api" "metadata_api_ok (sorted_api lower api) = metadata_api_ok api" for api
    by (simp_all add: metadata_operation_ok_def [abs_def] metadata_api_ok_def sorted_api_def)
  ultimately show "list_all (\<lambda>api. metadata_api_ok api \<and> list_all (metadata_operation_ok api) (ma_Operations api)) (md_APIs m)"
    using w(1) by (simp add: apis indexed_def list_all_iff)
qed

end
