(* ===== verification/Operation_Gatus_Facts.thy ===== *)
theory Operation_Gatus_Facts
  imports Operation_Plan_Runtime Registry_Metadata_Facts Operation_Plan_Facts
begin

text \<open>
  The generation of the identity map, one canary and one record at a time: every endpoint key belongs to one
  identity, the endpoints are those of the active identities, and each record has the identity that the
  targets of the runtime are computed from.
\<close>

section \<open>The walk\<close>

definition identities_ok :: "gatus_walk \<Rightarrow> bool" where
  "identities_ok w \<longleftrightarrow> gm_wf (gw_entries w) \<and> gm_wf (gw_endpoints w) \<and>
     (\<forall>(k, e) \<in> set (gw_entries w). k = identity_key_of e \<and> operationSourceIDPattern (gi_SourceID e) \<and> gi_RegistryOperationID e \<noteq> '''' \<and>
       gi_GatusEndpointKey e \<noteq> '''' \<and> gm_get (gw_byKey w) (gi_GatusEndpointKey e) = Some k) \<and>
     (\<forall>(k, e) \<in> set (gw_endpoints w). k = gp_key e) \<and>
     set (gm_keys (gw_endpoints w)) = gi_GatusEndpointKey ` {e. (\<exists>k. (k, e) \<in> set (gw_entries w)) \<and> gi_Active e}"

text \<open>Apart from the records met so far, an identity is that of a canary.\<close>

definition legacy_rest :: "string set \<Rightarrow> gatus_walk \<Rightarrow> bool" where
  "legacy_rest met w \<longleftrightarrow> (\<forall>(k, e) \<in> set (gw_entries w). k \<notin> met \<longrightarrow> \<not> gi_PlanActive e \<and> gi_Active e \<and> gi_LegacyActive e)"

lemma register_facts:
  assumes "registerOperationGatusKey m gatusKey key = Some m'"
  shows "gm_get m' gatusKey = Some key" "gatusKey \<noteq> ''''" "\<And>k v. gm_get m k = Some v \<Longrightarrow> gm_get m' k = Some v"
  using assms by (auto simp: registerOperationGatusKey_def split: if_split_asm option.split_asm)

lemma put_entry_set: "gm_wf m \<Longrightarrow> set (gm_put k v m) = insert (k, v) {p \<in> set m. fst p \<noteq> k}"
proof (induction m)
  case Nil
  then show ?case by simp
next
  case (Cons p m)
  then show ?case by (cases p) (auto simp: image_iff)
qed

text \<open>Replacing or adding one identity, with the endpoint of an active one.\<close>

lemma identities_put:
  assumes ok: "identities_ok w" and key: "k = identity_key_of e" "operationSourceIDPattern (gi_SourceID e)" "gi_RegistryOperationID e \<noteq> ''''"
    and reg: "registerOperationGatusKey (gw_byKey w) (gi_GatusEndpointKey e) k = Some byKey"
    and old: "\<And>o'. gm_get (gw_entries w) k = Some o' \<Longrightarrow> gi_GatusEndpointKey o' = gi_GatusEndpointKey e \<and> (gi_Active o' \<longrightarrow> gi_Active e)"
    and w': "gw_entries w' = gm_put k e (gw_entries w)" "gw_byKey w' = byKey"
    and ends: "gw_endpoints w' = (if put then gm_put (gi_GatusEndpointKey e) endpoint (gw_endpoints w) else gw_endpoints w)"
      "put \<Longrightarrow> gi_Active e \<and> gp_key endpoint = gi_GatusEndpointKey e"
      "\<not> put \<Longrightarrow> gi_Active e \<Longrightarrow> \<exists>o'. gm_get (gw_entries w) k = Some o' \<and> gi_Active o'"
  shows "identities_ok w'"
proof -
  have wf: "gm_wf (gw_entries w)" "gm_wf (gw_endpoints w)" using ok by (simp_all add: identities_ok_def)
  note entries = put_entry_set [OF wf(1), of k e] and endpoints = put_entry_set [OF wf(2), of "gi_GatusEndpointKey e" endpoint]
  let ?act = "\<lambda>m. gi_GatusEndpointKey ` {e. (\<exists>k. (k, e) \<in> set m) \<and> gi_Active e}"
  have each: "\<forall>(k, e) \<in> set (gw_entries w'). k = identity_key_of e \<and> operationSourceIDPattern (gi_SourceID e) \<and> gi_RegistryOperationID e \<noteq> '''' \<and>
       gi_GatusEndpointKey e \<noteq> '''' \<and> gm_get (gw_byKey w') (gi_GatusEndpointKey e) = Some k"
    using ok key register_facts [OF reg] unfolding w' entries identities_ok_def by fastforce
  have others: "(k', e') \<in> set (gw_entries w) \<Longrightarrow> k' = k \<Longrightarrow> gi_GatusEndpointKey e' = gi_GatusEndpointKey e \<and> (gi_Active e' \<longrightarrow> gi_Active e)" for k' e'
    using old gm_in_get [OF wf(1)] by blast
  have keys: "set (gm_keys (gw_endpoints w)) = ?act (gw_entries w)" using ok by (simp add: identities_ok_def)
  have "?act (gw_entries w') = (if gi_Active e then insert (gi_GatusEndpointKey e) (?act (gw_entries w)) else ?act (gw_entries w))"
  proof -
    let ?rest = "{p \<in> set (gw_entries w). fst p \<noteq> k}" and ?A = "\<lambda>S. gi_GatusEndpointKey ` {e. (\<exists>k. (k, e) \<in> S) \<and> gi_Active e}"
    have "?A (insert (k, e) ?rest) = (if gi_Active e then insert (gi_GatusEndpointKey e) (?A ?rest) else ?A ?rest)" by auto
    moreover have "?A (set (gw_entries w)) = ?A ?rest \<union> ?A {p \<in> set (gw_entries w). fst p = k}" by auto
    moreover have "?A {p \<in> set (gw_entries w). fst p = k} \<subseteq> (if gi_Active e then {gi_GatusEndpointKey e} else {})"
      using others by auto
    ultimately show ?thesis unfolding w'(1) entries by (cases "gi_Active e") auto
  qed
  moreover have "gi_GatusEndpointKey e \<in> ?act (gw_entries w)" if "\<not> put" "gi_Active e"
  proof -
    from ends(3) [OF that] obtain o' where "gm_get (gw_entries w) k = Some o'" "gi_Active o'" by blast
    then show ?thesis using old map_of_SomeD by (fastforce simp: image_iff)
  qed
  ultimately have "set (gm_keys (gw_endpoints w')) = ?act (gw_entries w')"
    using keys ends(1,2) by (cases put) (auto simp: dom_update insert_absorb)
  moreover have "\<forall>(k, e) \<in> set (gw_endpoints w'). k = gp_key e"
    using ok ends(1,2) endpoints by (auto simp: identities_ok_def)
  moreover have "gm_wf (gw_entries w')" "gm_wf (gw_endpoints w')" using wf by (simp_all add: w'(1) ends(1) distinct_update)
  ultimately show ?thesis using each by (simp add: identities_ok_def)
qed

lemma data_go_kr_pattern: "operationSourceIDPattern ''data_go_kr''"
  by (simp add: operationSourceIDPattern_def source_char_def)

lemma gatus_canary_step:
  assumes "gatus_canary v canary w = Some w'" "identities_ok w" "legacy_rest {} w"
  shows "identities_ok w' \<and> legacy_rest {} w'"
proof -
  from assms(1) obtain link where l: "gm_get (vm_canaryLinksByHealthID v) (ca_OperationID canary) = Some link"
    by (auto simp: gatus_canary_def split: option.split_asm)
  let ?key = "operationReadModelIdentityKey ''data_go_kr'' (lk_RegistryOperationID link)"
  note a = assms(1) [unfolded gatus_canary_def l option.case Let_def]
  have link: "lk_RegistryOperationID link \<noteq> ''''" "gm_get (gw_entries w) ?key = None"
    using a by (simp_all split: if_split_asm)
  from a obtain g n byKey where split: "splitOperationGatusEndpointKey (ca_GatusEndpointKey canary) = Some (g, n)"
    and reg: "registerOperationGatusKey (gw_byKey w) (ca_GatusEndpointKey canary) ?key = Some byKey"
    by (auto split: if_split_asm option.split_asm)
  have w': "w' = w\<lparr>gw_byKey := byKey,
       gw_entries := gm_put ?key
         \<lparr>gi_SourceID = ''data_go_kr'', gi_RegistryOperationID = lk_RegistryOperationID link,
          gi_GatusEndpointKey = ca_GatusEndpointKey canary, gi_ResponseAssertionKind = ''legacy_canary'',
          gi_PlanAdmissionState = ''unknown'', gi_PlanActive = False, gi_LegacyActive = True,
          gi_LegacyHealthOperationID = ca_OperationID canary, gi_ObservationPeriodSecond = 0, gi_Active = True\<rparr> (gw_entries w),
       gw_endpoints := gm_put (ca_GatusEndpointKey canary) \<lparr>gp_key = ca_GatusEndpointKey canary, gp_group = g,
          gp_name = n, gp_heartbeat = ca_HeartbeatMinutes canary * minute, gp_observationOnly = False\<rparr> (gw_endpoints w)\<rparr>"
    using a by (simp add: split reg split: if_split_asm)
  have wf: "gm_wf (gw_entries w)" using assms(2) by (simp add: identities_ok_def)
  let ?entry = "\<lparr>gi_SourceID = ''data_go_kr'', gi_RegistryOperationID = lk_RegistryOperationID link,
          gi_GatusEndpointKey = ca_GatusEndpointKey canary, gi_ResponseAssertionKind = ''legacy_canary'',
          gi_PlanAdmissionState = ''unknown'', gi_PlanActive = False, gi_LegacyActive = True,
          gi_LegacyHealthOperationID = ca_OperationID canary, gi_ObservationPeriodSecond = 0, gi_Active = True\<rparr>"
  have "identities_ok w'"
    by (rule identities_put [where put = True and k = ?key and e = ?entry and byKey = byKey and
        endpoint = "\<lparr>gp_key = ca_GatusEndpointKey canary, gp_group = g, gp_name = n,
          gp_heartbeat = ca_HeartbeatMinutes canary * minute, gp_observationOnly = False\<rparr>", OF assms(2)])
      (use link reg in \<open>simp_all add: identity_key_of_def data_go_kr_pattern w'\<close>)
  moreover have "legacy_rest {} w'" using assms(3) unfolding legacy_rest_def w' by (simp add: put_entry_set [OF wf])
  ultimately show ?thesis ..
qed

lemma gatus_canaries_ok:
  "gatus_canaries v cs w = Some w' \<Longrightarrow> identities_ok w \<Longrightarrow> legacy_rest {} w \<Longrightarrow> identities_ok w' \<and> legacy_rest {} w'"
proof (induction cs arbitrary: w)
  case Nil
  then show ?case by simp
next
  case (Cons c cs)
  then obtain x where x: "gatus_canary v c w = Some x" "gatus_canaries v cs x = Some w'" by (auto split: option.split_asm)
  then show ?case using Cons.IH [OF x(2)] gatus_canary_step [OF x(1) Cons.prems(2,3)] by blast
qed

text \<open>What the identity of a record says of it.\<close>

definition speaks_for :: "string list \<Rightarrow> OperationObservationPlanRecord \<Rightarrow> OperationGatusIdentity \<Rightarrow> bool" where
  "speaks_for active r e \<longleftrightarrow> gi_PlanAdmissionState e = op_AdmissionStatus r \<and> gi_ResponseAssertionKind e = op_ResponseAssertionKind r \<and>
     gi_ObservationPeriodSecond e = op_ObservationPeriod r div second \<and> gi_PlanActive e = (record_key_of r \<in> set active) \<and>
     (gi_PlanActive e \<longrightarrow> gi_Active e \<and> \<not> gi_LegacyActive e \<and> may_activate r) \<and> (\<not> gi_PlanActive e \<longrightarrow> gi_Active e = gi_LegacyActive e)"

definition walked_gatus :: "string list \<Rightarrow> OperationObservationPlanRecord list \<Rightarrow> gatus_walk \<Rightarrow> bool" where
  "walked_gatus active rs w \<longleftrightarrow> identities_ok w \<and> legacy_rest (record_key_of ` set rs) w \<and>
     (\<forall>r\<in>set rs. \<exists>e. gm_get (gw_entries w) (record_key_of r) = Some e \<and> speaks_for active r e) \<and>
     gw_known w = int (length rs) \<and> gw_activated w = int (length (filter (\<lambda>r. record_key_of r \<in> set active) rs)) \<and>
     set (gw_seenActive w) = record_key_of ` {r \<in> set rs. record_key_of r \<in> set active} \<and> distinct (gw_seenActive w)"

definition record_fine :: "OperationObservationPlanRecord \<Rightarrow> bool" where
  "record_fine r \<longleftrightarrow> operationSourceIDPattern (op_SourceID r) \<and> op_OperationID r \<noteq> '''' \<and> 0 \<le> op_ObservationPeriod r"

lemma gatus_record_step:
  assumes "gatus_record v active r w = Some w'" "walked_gatus active rs w" "record_fine r" "record_key_of r \<notin> record_key_of ` set rs"
  shows "walked_gatus active (rs @ [r]) w'"
proof -
  let ?k = "record_key_of r"
  let ?old = "gm_get (gw_entries w) ?k"
  let ?sel = "?k \<in> set active"
  let ?e = "plan_identity r ?sel ?old"
  have key: "operationReadModelIdentityKey (op_SourceID r) (op_OperationID r) = ?k" by (simp add: record_key_of_def)
  note a = assms(1) [unfolded gatus_record_def Let_def key]
  have may: "?sel \<Longrightarrow> may_activate r" using a by (simp split: if_split_asm)
  from a obtain endpoint byKey where
    endpoint: "(if ?sel then map_option Some (plan_endpoint r (gi_GatusEndpointKey ?e)) else Some None) = Some endpoint" and
    reg: "registerOperationGatusKey (gw_byKey w) (gi_GatusEndpointKey ?e) ?k = Some byKey" and
    w': "w' = w\<lparr>gw_known := gw_known w + 1, gw_admitted := gw_admitted w + boolToInt (op_AdmissionStatus r = ''admitted''),
       gw_activated := gw_activated w + boolToInt ?sel,
       gw_seenActive := (if ?sel then List.insert ?k (gw_seenActive w) else gw_seenActive w),
       gw_suppressed := (case ?old of Some old \<Rightarrow> (if ?sel then gw_suppressed w @ [gi_LegacyHealthOperationID old] else gw_suppressed w)
         | None \<Rightarrow> gw_suppressed w),
       gw_endpoints := (case endpoint of None \<Rightarrow> gw_endpoints w | Some e \<Rightarrow> gm_put (gi_GatusEndpointKey ?e) e (gw_endpoints w)),
       gw_byKey := byKey, gw_entries := gm_put ?k ?e (gw_entries w)\<rparr>"
    by (simp only: split: if_split_asm option.split_asm prod.split_asm) simp_all
  have ok: "identities_ok w" and rest: "legacy_rest (record_key_of ` set rs) w" using assms(2) by (simp_all add: walked_gatus_def)
  have wf: "gm_wf (gw_entries w)" using ok by (simp add: identities_ok_def)
  have old: "\<not> gi_PlanActive o' \<and> gi_Active o' \<and> gi_LegacyActive o'" if "?old = Some o'" for o'
    using rest map_of_SomeD [OF that] assms(4) by (auto simp: legacy_rest_def)
  have e: "?k = identity_key_of ?e" "gi_SourceID ?e = op_SourceID r" "gi_RegistryOperationID ?e = op_OperationID r" "gi_PlanActive ?e = ?sel"
    "gi_PlanAdmissionState ?e = op_AdmissionStatus r" "gi_ResponseAssertionKind ?e = op_ResponseAssertionKind r"
    "gi_ObservationPeriodSecond ?e = (if op_ObservationPeriod r > 0 then op_ObservationPeriod r div second else 0)"
    "gi_Active ?e = (?sel \<or> ?old \<noteq> None)" "gi_LegacyActive ?e = (\<not> ?sel \<and> ?old \<noteq> None)"
    "\<And>o'. ?old = Some o' \<Longrightarrow> gi_GatusEndpointKey ?e = gi_GatusEndpointKey o'"
    by (auto simp: plan_identity_def Let_def identity_key_of_def record_key_of_def split: option.split)
  have speaks: "speaks_for active r ?e"
    unfolding speaks_for_def e(4-9) using may assms(3) by (auto simp: record_fine_def)
  have ident: "identities_ok w'"
  proof (rule identities_put [where put = "?sel" and endpoint = "the endpoint", OF ok e(1) _ _ reg])
    show "operationSourceIDPattern (gi_SourceID ?e)" "gi_RegistryOperationID ?e \<noteq> ''''" using assms(3) by (simp_all add: e(2,3) record_fine_def)
    show "gi_GatusEndpointKey o' = gi_GatusEndpointKey ?e \<and> (gi_Active o' \<longrightarrow> gi_Active ?e)" if "?old = Some o'" for o'
      using that e(8,10) by simp
    show "gw_entries w' = gm_put ?k ?e (gw_entries w)" "gw_byKey w' = byKey" by (simp_all add: w')
    show "gw_endpoints w' = (if ?sel then gm_put (gi_GatusEndpointKey ?e) (the endpoint) (gw_endpoints w) else gw_endpoints w)"
      using endpoint by (auto simp: w' split: if_split_asm)
    show "gi_Active ?e \<and> gp_key (the endpoint) = gi_GatusEndpointKey ?e" if ?sel
      using that endpoint e(8) by (auto simp: plan_endpoint_def)
    show "\<exists>o'. ?old = Some o' \<and> gi_Active o'" if "\<not> ?sel" "gi_Active ?e" using that e(8) old by auto
  qed
  have get: "gm_get (gw_entries w') k = (if k = ?k then Some ?e else gm_get (gw_entries w) k)" for k by (simp add: w')
  have rest': "legacy_rest (record_key_of ` set (rs @ [r])) w'"
    using rest unfolding legacy_rest_def w' by (auto simp: put_entry_set [OF wf])
  have "\<forall>x\<in>set (rs @ [r]). \<exists>e. gm_get (gw_entries w') (record_key_of x) = Some e \<and> speaks_for active x e"
  proof
    fix x assume x: "x \<in> set (rs @ [r])"
    show "\<exists>e. gm_get (gw_entries w') (record_key_of x) = Some e \<and> speaks_for active x e"
    proof (cases "x \<in> set rs")
      case True
      then have "record_key_of x \<noteq> ?k" using assms(4) by (metis image_eqI)
      then show ?thesis using assms(2) True unfolding walked_gatus_def get by auto
    next
      case False
      then have "x = r" using x by simp
      then show ?thesis using speaks unfolding get by simp
    qed
  qed
  moreover have "gw_known w' = int (length (rs @ [r]))" "gw_activated w' = int (length (filter (\<lambda>r. record_key_of r \<in> set active) (rs @ [r])))"
    using assms(2) by (simp_all add: w' walked_gatus_def boolToInt_def)
  moreover have "set (gw_seenActive w') = record_key_of ` {x \<in> set (rs @ [r]). record_key_of x \<in> set active}" "distinct (gw_seenActive w')"
    using assms(2) by (auto simp: w' walked_gatus_def)
  ultimately show ?thesis using ident rest' by (simp add: walked_gatus_def)
qed

lemma gatus_records_walk:
  "gatus_records v active new w = Some w' \<Longrightarrow> walked_gatus active rs w \<Longrightarrow> list_all record_fine new \<Longrightarrow>
    distinct (List.map record_key_of (rs @ new)) \<Longrightarrow> walked_gatus active (rs @ new) w'"
proof (induction new arbitrary: rs w)
  case Nil
  then show ?case by simp
next
  case (Cons r new)
  then obtain x where x: "gatus_record v active r w = Some x" "gatus_records v active new x = Some w'" by (auto split: option.split_asm)
  have "walked_gatus active (rs @ [r]) x" using Cons.prems by (intro gatus_record_step [OF x(1)]) auto
  from Cons.IH [OF x(2) this] Cons.prems show ?case by simp
qed

text \<open>The records of some shards, read one after the other.\<close>

definition read_shards :: "plan_codec \<Rightarrow> PinnedOperationObservationPlan \<Rightarrow> nat list \<Rightarrow> OperationObservationPlanRecord list list option" where
  "read_shards cd plan is = all_some (List.map (ReadShard cd plan) is)"

lemma gatus_shards_walk:
  "gatus_shards cd plan v active is w = Some w' \<Longrightarrow> read_shards cd plan is = Some shards \<Longrightarrow> walked_gatus active rs w \<Longrightarrow>
    list_all record_fine (concat shards) \<Longrightarrow> distinct (List.map record_key_of (rs @ concat shards)) \<Longrightarrow>
    walked_gatus active (rs @ concat shards) w'"
proof (induction "is" arbitrary: rs w shards)
  case Nil
  then show ?case by (simp add: read_shards_def)
next
  case (Cons i "is")
  then obtain new rest where new: "ReadShard cd plan i = Some new" "read_shards cd plan is = Some rest" "shards = new # rest"
    by (auto simp: read_shards_def split: option.split_asm)
  with Cons.prems(1) obtain x where x: "gatus_records v active new w = Some x" "gatus_shards cd plan v active is x = Some w'"
    by (auto split: option.split_asm)
  have "walked_gatus active (rs @ new) x"
    by (rule gatus_records_walk [OF x(1) Cons.prems(3)]) (use Cons.prems(4,5) new(3) in \<open>auto simp: Int_Un_distrib\<close>)
  from Cons.IH [OF x(2) new(2) this] Cons.prems(4,5) new(3) show ?case by simp
qed

section \<open>The targets\<close>

lemma mapping_identities_all:
  assumes "distinct (List.map identity_key_of es @ gm_keys m)"
    "list_all (\<lambda>e. operationSourceIDPattern (gi_SourceID e) \<and> gi_RegistryOperationID e \<noteq> '''' \<and> gi_GatusEndpointKey e \<noteq> '''') es"
  shows "mapping_identities es m = Some (m @ keyed identity_key_of es)"
  using assms
proof (induction es arbitrary: m)
  case Nil
  then show ?case by simp
next
  case (Cons e es)
  have "gm_get m (identity_key_of e) = None" using Cons.prems(1) by (auto simp: map_of_eq_None_iff)
  then show ?case using Cons.IH [of "m @ [(identity_key_of e, e)]"] Cons.prems by (simp add: gm_put_fresh)
qed

definition target_of :: "(string, OperationGatusIdentity) gomap \<Rightarrow> string \<Rightarrow> OperationObservationPlanRecord \<Rightarrow> OperationPlanWorkerTarget" where
  "target_of m sha r = \<lparr>tg_Record = r, tg_ShardSHA256 = sha, tg_GatusEndpointKey = gi_GatusEndpointKey (the (gm_get m (record_key_of r)))\<rparr>"

lemma target_records_all:
  assumes "\<forall>r\<in>set rs. \<exists>e. gm_get m (record_key_of r) = Some e \<and> speaks_for active r e"
    "distinct (List.map record_key_of rs @ seen)"
  shows "target_records m sha rs (seen, ts) =
    Some (rev (List.map record_key_of (filter (\<lambda>r. record_key_of r \<in> set active) rs)) @ seen,
      ts @ List.map (target_of m sha) (filter (\<lambda>r. record_key_of r \<in> set active) rs))"
  using assms
proof (induction rs arbitrary: seen ts)
  case Nil
  then show ?case by simp
next
  case (Cons r rs)
  from Cons.prems(1) obtain e where e: "gm_get m (record_key_of r) = Some e" "speaks_for active r e" by auto
  let ?sel = "record_key_of r \<in> set active"
  have "target_step m sha r (seen, ts) = Some (if ?sel then (record_key_of r # seen, ts @ [target_of m sha r]) else (seen, ts))"
    using e Cons.prems(2) by (auto simp: target_step_def speaks_for_def may_activate_def target_of_def)
  then show ?case using Cons.IH Cons.prems by (cases ?sel) simp_all
qed

text \<open>The targets of the shards \<open>is\<close>.\<close>

fun shard_targets ::
  "(string, OperationGatusIdentity) gomap \<Rightarrow> string list \<Rightarrow> PinnedOperationObservationPlan \<Rightarrow> nat list \<Rightarrow> OperationObservationPlanRecord list list
    \<Rightarrow> OperationPlanWorkerTarget list" where
  "shard_targets m active plan (i # is) (rs # shards) =
     List.map (target_of m (sf_SHA256 (ix_Shards (sx_index (pp_state plan)) ! i))) (filter (\<lambda>r. record_key_of r \<in> set active) rs) @
     shard_targets m active plan is shards"
| "shard_targets m active plan _ _ = []"

lemma target_shards_all:
  assumes "read_shards cd plan is = Some shards"
    "\<forall>r\<in>set (concat shards). \<exists>e. gm_get m (record_key_of r) = Some e \<and> speaks_for active r e"
    "distinct (List.map record_key_of (concat shards) @ seen)"
  shows "target_shards cd plan m is (seen, ts) =
    Some (rev (List.map record_key_of (filter (\<lambda>r. record_key_of r \<in> set active) (concat shards))) @ seen,
      ts @ shard_targets m active plan is shards)"
  using assms
proof (induction "is" arbitrary: shards seen ts)
  case Nil
  then show ?case by (simp add: read_shards_def)
next
  case (Cons i "is")
  then obtain new rest where new: "ReadShard cd plan i = Some new" "read_shards cd plan is = Some rest" "shards = new # rest"
    by (auto simp: read_shards_def split: option.split_asm)
  let ?sel = "filter (\<lambda>r. record_key_of r \<in> set active)"
  have here: "target_records m (sf_SHA256 (ix_Shards (sx_index (pp_state plan)) ! i)) new (seen, ts) =
      Some (rev (List.map record_key_of (?sel new)) @ seen,
        ts @ List.map (target_of m (sf_SHA256 (ix_Shards (sx_index (pp_state plan)) ! i))) (?sel new))"
    by (rule target_records_all) (use Cons.prems(2,3) new(3) in auto)
  have "distinct (List.map record_key_of (concat rest) @ rev (List.map record_key_of (?sel new)) @ seen)"
    using Cons.prems(3) new(3) by (auto simp: distinct_map_filter)
  then show ?case using Cons.IH [OF new(2)] Cons.prems(2) new here by simp
qed

lemma shard_targets_records:
  "length is = length shards \<Longrightarrow>
    List.map tg_Record (shard_targets m active plan is shards) = filter (\<lambda>r. record_key_of r \<in> set active) (concat shards)"
  by (induction m active plan "is" shards rule: shard_targets.induct) (simp_all add: o_def target_of_def)

lemma shard_targets_keys:
  "t \<in> set (shard_targets m active plan is shards) \<Longrightarrow>
    tg_GatusEndpointKey t = gi_GatusEndpointKey (the (gm_get m (record_key_of (tg_Record t))))"
  by (induction m active plan "is" shards rule: shard_targets.induct) (auto simp: target_of_def)

end
