(* ===== verification/Registry_Metadata_Properties.thy ===== *)
theory Registry_Metadata_Properties
  imports Registry_Metadata_Facts
begin

text \<open>
  The directory page by page, and the metadata that loads: it verifies, and the copy that is frozen for the
  handlers is the same metadata.
\<close>

section \<open>Pages\<close>

lemma page_items_eq:
  assumes "0 \<le> n" "0 \<le> start" "0 \<le> pageSize" "n < start \<longrightarrow> items = []"
  shows "page_items m needle start pageSize is items n =
    (items @ take (nat pageSize - length items) (drop (nat (start - n)) (List.map (\<lambda>i. md_APIs m ! i) (filter (page_matches m needle) is))),
     n + int (length (filter (page_matches m needle) is)))"
  using assms
proof (induction "is" arbitrary: items n)
  case Nil
  then show ?case by simp
next
  case (Cons i "is")
  let ?M = "List.map (\<lambda>i. md_APIs m ! i) (filter (page_matches m needle) is)"
  show ?case
  proof (cases "page_matches m needle i")
    case False
    then show ?thesis using Cons by simp
  next
    case True
    consider (before) "n < start" | (taken) "start \<le> n" "int (length items) < pageSize" | (full) "start \<le> n" "int (length items) \<ge> pageSize"
      by linarith
    then show ?thesis
    proof cases
      case before
      then have "nat (start - n) = Suc (nat (start - (n + 1)))" by simp
      then show ?thesis using True before Cons.IH [of "n + 1" items] Cons.prems by simp
    next
      case taken
      then have "nat pageSize - length items = Suc (nat pageSize - length (items @ [md_APIs m ! i]))" by simp
      then show ?thesis using True taken Cons.IH [of "n + 1" "items @ [md_APIs m ! i]"] Cons.prems by simp
    next
      case full
      then have "nat pageSize - length items = 0" by simp
      then show ?thesis using True full Cons.IH [of "n + 1" items] Cons.prems by simp
    qed
  qed
qed

text \<open>All the APIs that a query matches, in the order of the directory.\<close>

definition matching :: "(string \<Rightarrow> string) \<Rightarrow> RegistryAPIMetadata \<Rightarrow> string \<Rightarrow> (string, int) gomap \<Rightarrow> RegistryAPIMetadataAPI list" where
  "matching lower m query priorityByAPI =
     List.map (\<lambda>i. md_APIs m ! i) (filter (page_matches m (lower (trim_space query))) (page_order m priorityByAPI))"

lemma page_slice:
  assumes "1 \<le> page" "1 \<le> pageSize" "(page - 1) * pageSize < 2 ^ 63"
  shows "APIPagePrioritized lower m query page pageSize priorityByAPI =
    (take (nat pageSize) (drop (nat ((page - 1) * pageSize)) (matching lower m query priorityByAPI)),
     int (length (matching lower m query priorityByAPI)))"
proof -
  have "0 \<le> (page - 1) * pageSize" using assms(1,2) by simp
  then have "wrap64 ((page - 1) * pageSize) = (page - 1) * pageSize" using assms(3) by (intro wrap64_id) linarith+
  then show ?thesis using assms \<open>0 \<le> (page - 1) * pageSize\<close>
    by (simp add: APIPagePrioritized_def page_items_eq matching_def)
qed

lemma take_pages: "concat (List.map (\<lambda>k. take p (drop (k * p) xs)) [0..<n]) = take (n * p) xs"
proof (induction n)
  case 0
  then show ?case by simp
next
  case (Suc n)
  have "take (n * p) xs @ take p (drop (n * p) xs) = take (n * p + p) xs" by (rule take_add [symmetric])
  with Suc show ?case by (simp add: add.commute)
qed

lemma page_order_perm: "mset (page_order m priorityByAPI) = mset [0..<length (md_APIs m)]"
  if "md_orderedAPIIndices m = ordered_indices lower (md_APIs m)"
  using that by (simp add: page_order_def Let_def ordered_indices_def)

lemma matching_exact:
  assumes "loaded_from lower canaries d m"
  shows "distinct (List.map ma_RegistryAPIID (matching lower m query priorityByAPI))"
    "set (matching lower m query priorityByAPI) = {api. \<exists>i<length (md_APIs m). api = md_APIs m ! i \<and>
       (lower (trim_space query) = '''' \<or> contains_text (search_text lower api) (lower (trim_space query)))}"
proof -
  obtain w where w: "indexed lower (md_APIs d) w" "md_APIs m = mw_APIs w" "md_orderedAPIIndices m = ordered_indices lower (mw_APIs w)"
    "md_searchText m = mw_searchText w"
    using assms by (auto simp: loaded_from_def)
  have perm: "mset (page_order m priorityByAPI) = mset [0..<length (md_APIs m)]" by (rule page_order_perm) (simp add: w)
  then have order: "set (page_order m priorityByAPI) = {0..<length (md_APIs m)}" "distinct (page_order m priorityByAPI)"
    using mset_eq_setD [OF perm] mset_eq_imp_distinct_iff [OF perm] by simp_all
  have texts: "md_searchText m = List.map (search_text lower) (md_APIs m)"
    using w by (simp add: indexed_def)
  have "inj_on (\<lambda>i. ma_RegistryAPIID (md_APIs m ! i)) {0..<length (md_APIs m)}"
    using loaded_facts(4) [OF assms] by (intro inj_onI) (metis (no_types, lifting) atLeastLessThan_iff length_map nth_eq_iff_index_eq nth_map)
  then show "distinct (List.map ma_RegistryAPIID (matching lower m query priorityByAPI))"
    using order by (auto simp: matching_def distinct_map o_def intro: inj_on_subset)
  show "set (matching lower m query priorityByAPI) = {api. \<exists>i<length (md_APIs m). api = md_APIs m ! i \<and>
       (lower (trim_space query) = '''' \<or> contains_text (search_text lower api) (lower (trim_space query)))}"
    by (auto simp: matching_def order page_matches_def texts)
qed

text \<open>C40: The pages of the directory partition what a query matches.  For metadata that has been indexed and
  marked as loading does (\<open>loaded_metadata_marked\<close>), any query,
  page size and priorities (page number times page size below 2^63), the first n pages together are the first n page sizes of one list, every
  page reports the length of that list, and the list holds each API whose title, organization,
  description or operation names contain the query exactly once.
\<close>

theorem pages_partition_matches:
  assumes "indexAndValidate lower canaries d = Inr m'" "m = mark_verified canaries acceptedRegistryAPIMetadataSHA256 m'"
    "1 \<le> pageSize" "int n * pageSize < 2 ^ 63"
  shows "\<exists>apis. distinct (List.map ma_RegistryAPIID apis) \<and>
    set apis = {api \<in> set (md_APIs m). lower (trim_space query) = '''' \<or>
      contains_text (search_text lower api) (lower (trim_space query))} \<and>
    concat (List.map (\<lambda>k. fst (APIPagePrioritized lower m query (int k + 1) pageSize priorityByAPI)) [0..<n]) =
      take (n * nat pageSize) apis \<and>
    (\<forall>k\<in>{0..<n}. snd (APIPagePrioritized lower m query (int k + 1) pageSize priorityByAPI) = int (length apis))"
proof -
  have d: "loaded_from lower canaries d m" by (rule marked_metadata [OF assms(1,2)])
  let ?M = "matching lower m query priorityByAPI"
  have slice: "APIPagePrioritized lower m query (int k + 1) pageSize priorityByAPI =
      (take (nat pageSize) (drop (k * nat pageSize) ?M), int (length ?M))" if "k < n" for k
  proof -
    have "int k * pageSize \<le> int n * pageSize" using that assms(3) by (intro mult_right_mono) auto
    then have "(int k + 1 - 1) * pageSize < 2 ^ 63" using assms(4) by simp
    then show ?thesis using assms(3) by (subst page_slice) (simp_all add: nat_mult_distrib)
  qed
  have "concat (List.map (\<lambda>k. fst (APIPagePrioritized lower m query (int k + 1) pageSize priorityByAPI)) [0..<n]) =
      concat (List.map (\<lambda>k. take (nat pageSize) (drop (k * nat pageSize) ?M)) [0..<n])"
    by (intro arg_cong [where f = concat] map_cong) (simp_all add: slice)
  then have pages: "concat (List.map (\<lambda>k. fst (APIPagePrioritized lower m query (int k + 1) pageSize priorityByAPI)) [0..<n]) =
      take (n * nat pageSize) ?M"
    by (simp add: take_pages)
  have matches: "set ?M = {api \<in> set (md_APIs m). lower (trim_space query) = '''' \<or>
      contains_text (search_text lower api) (lower (trim_space query))}"
    unfolding matching_exact(2) [OF d] by (auto simp: in_set_conv_nth)
  show ?thesis
    by (intro exI [of _ ?M] conjI matching_exact(1) [OF d] matches pages) (simp add: slice)
qed

section \<open>A directory of one API\<close>

definition sample_entry_one :: CatalogEntry where
  "sample_entry_one = \<lparr>ce_OperationID = ''probe'', ce_Policy = \<lparr>po_Key = ''probe'', po_Version = 1, po_Authority = ''datapan-registry'',
     po_MaxLevel = ''L1''\<rparr>, ce_Aliases_DatasetID = ''d'', ce_Aliases_OperationName = ''n'', ce_Aliases_UpstreamOperationSeq = ''1'',
     ce_Aliases_CLIOperationKey = replicate 64 CHR ''b'', ce_Provider = ''p'', ce_Endpoint_Host = ''h'', ce_Endpoint_Path = ''/'',
     ce_Endpoint_DependencyClass = ''c'', ce_Eligibility_Status = ''eligible'', ce_TimeoutCeilingMS = 1000, ce_RequestBudget = 1,
     ce_SafeParameters = [''q'']\<rparr>"

definition sample_canaries :: CanaryConfig where
  "sample_canaries = \<lparr>cc_CatalogPath = ''c'', cc_CatalogSHA256 = replicate 64 CHR ''c'', cc_ConsumptionProvenance = acceptedCanaryProvenance,
     cc_GlobalConcurrency = 1, cc_JitterSeconds = 0,
     cc_Canaries = [\<lparr>ca_OperationID = ''probe'', ca_GatusEndpointKey = ''g_k'', ca_Tier = ''A'', ca_IntervalMinutes = 5,
       ca_HeartbeatMinutes = 10, ca_ConsecutiveFailuresBeforeIncident = 2, ca_MissedSchedulesBeforeHeartbeat = 2\<rparr>],
     cc_catalog = \<lparr>ct_SchemaVersion = '''', ct_Authority = '''', ct_SourceRegistry_SHA256 = '''', ct_Contract_Schema = '''',
       ct_Contract_OperationKeyAlgorithm = '''', ct_Contract_PolicyAuthority = '''', ct_Entries = [sample_entry_one],
       ct_byID = [(''probe'', sample_entry_one)]\<rparr>\<rparr>"

definition sample_operation :: RegistryAPIMetadataOperation where
  "sample_operation = \<lparr>mp_RegistryOperationID = replicate 64 CHR ''a'', mp_DatasetID = ''d'', mp_SourceSystem = ''s'',
     mp_UpstreamOperationKey = ''k'', mp_UpstreamOperationSeq = ''1'', mp_Name = ''n'', mp_NameState = ''present'', mp_Protocol = ''REST''\<rparr>"

definition sample_api :: RegistryAPIMetadataAPI where
  "sample_api = \<lparr>ma_RegistryAPIID = ''d'', ma_Provider = ''data.go.kr'', ma_Title = ''t'', ma_TitleState = ''present'',
     ma_Organization = '''', ma_OrganizationState = ''missing'', ma_Description = '''', ma_DescriptionState = ''missing'',
     ma_LinkOperationCount = 0, ma_Operations = [sample_operation]\<rparr>"

definition sample_link :: RegistryHealthCanaryLink where
  "sample_link = \<lparr>lk_HealthOperationID = ''probe'', lk_RegistryAPIID = ''d'', lk_RegistryOperationID = replicate 64 CHR ''a'',
     lk_DatasetID = ''d'', lk_UpstreamOperationSeq = ''1'', lk_OperationName = ''n'', lk_CLIOperationKey = replicate 64 CHR ''b''\<rparr>"

definition sample_metadata :: RegistryAPIMetadata where
  "sample_metadata = \<lparr>md_SchemaVersion = RegistryAPIMetadataSchemaVersion, md_RegistryRevision = ''r'',
     md_Scope = \<lparr>mz_Provider = ''data.go.kr'', mz_SourceSnapshotComplete = True, mz_RegistryWideMetadataComplete = False,
       mz_CoverageNote = ''Complete for the pinned data.go.kr source only; not a complete inventory of all Registry adapters.''\<rparr>,
     md_Source = \<lparr>mr_Path = ''data/data-go-kr.registry.json'', mr_SHA256 = replicate 64 CHR ''d'', mr_SizeBytes = 1\<rparr>,
     md_Catalog = \<lparr>ml_Path = ''config/registry/health-probe-catalog.json'', ml_SHA256 = replicate 64 CHR ''c'', ml_EntryCount = 1\<rparr>,
     md_Counts = \<lparr>mt_APIEntities = 1, mt_APIOperations = 1, mt_LinkOperations = 0, mt_OperationlessCatalogEntries = 0,
       mt_FiledataCatalogEntries = 0, mt_Institutions = 0, mt_MatchedHealthCanaries = 1\<rparr>,
     md_APIs = [sample_api], md_HealthCanaryLinks = [sample_link], md_healthCatalogRevision = '''', md_verifiedArtifactSHA256 = '''',
     md_verifiedSourceSHA256 = '''', md_verifiedProjectionSHA256 = '''', md_byID = [], md_operationByID = [], md_canaryByOpID = [],
     md_canaryByHealthID = [], md_canaryDisplays = [], md_orderedAPIIndices = [], md_searchText = []\<rparr>"

lemma sample_hex: "list_all is_lower_hex (replicate n CHR ''a'')" "list_all is_lower_hex (replicate n CHR ''b'')"
  by (simp_all add: list_all_length is_lower_hex_def)

lemma utf8_ascii:
  assumes "list_all (\<lambda>c. (of_char c :: nat) < 128) s"
  shows "utf8_valid s"
proof -
  have plain: "utf8_repair_bytes bs = bs" if "list_all (\<lambda>b. b < 128) bs" for bs
    using that by (induction bs) simp_all
  have "list_all (\<lambda>b. b < 128) (bytes_of s)" using assms by (simp add: bytes_of_def list_all_iff)
  then show ?thesis by (simp add: utf8_valid_def utf8_repair_def plain) (simp add: bytes_of_def comp_def map_idI)
qed

lemma sample_metadata_fields: "validMetadataField ''t'' ''present'' n" "validMetadataField ''n'' ''present'' n" "validMetadataField '''' ''missing'' m"
  if "1 \<le> n"
  using that by (simp_all add: validMetadataField_def registryMetadataStateValues_def utf8_ascii blank_def)

lemma sample_operation_ok: "metadata_operation_ok sample_api sample_operation"
  by (simp add: metadata_operation_ok_def sample_operation_def sample_api_def registryAPIIDPattern_def registryOperationKeyPattern_def
      registry_key_char_def alnum_def source_char_def registryOperationIDPattern_def hex_string_def sample_hex sample_metadata_fields)

lemma sample_api_ok: "metadata_api_ok sample_api" "metadata_fields_ok sample_api"
  using sample_metadata_fields(3) [of 1]
  by (simp_all add: metadata_api_ok_def metadata_fields_ok_def sample_api_def registryAPIIDPattern_def registry_key_char_def alnum_def source_char_def sample_metadata_fields)

lemma sample_link_ok: "canary_link_ok sample_link"
  by (simp add: canary_link_ok_def sample_link_def registryHealthIDPattern_def registryAPIIDPattern_def registryOperationKeyPattern_def
      registry_key_char_def alnum_def lower_alnum_def source_char_def registryOperationIDPattern_def hex_string_def sample_hex sample_metadata_fields)

lemma sample_link_entry: "link_entry_ok sample_canaries sample_link = None"
  by (simp add: link_entry_ok_def sample_canaries_def sample_link_def Entry_def ByID_def sample_entry_one_def)

lemma sample_displays:
  "canary_displays sample_canaries (cc_Canaries sample_canaries) = Inr [\<lparr>dy_HealthOperationID = ''probe'', dy_OperationName = ''n''\<rparr>]"
  by (simp add: sample_canaries_def Entry_def ByID_def sample_entry_one_def blank_def)

lemma sample_indexes: "\<exists>m. indexAndValidate (\<lambda>s. s) sample_canaries sample_metadata = Inr m \<and> mt_APIOperations (md_Counts m) = 1"
proof -
  let ?w = "\<lparr>mw_APIs = [sample_api], mw_byID = [(''d'', 0)], mw_operationByID = [(replicate 64 CHR ''a'', sample_operation)],
    mw_operations = 1, mw_links = 0, mw_institutions = [], mw_searchText = [search_text (\<lambda>s. s) sample_api]\<rparr>"
  have fields: "ma_RegistryAPIID sample_api = ''d''" "ma_Operations sample_api = [sample_operation]" "ma_LinkOperationCount sample_api = 0"
    "ma_OrganizationState sample_api = ''missing''" "mp_RegistryOperationID sample_operation = replicate 64 CHR ''a''"
    by (simp_all add: sample_api_def sample_operation_def)
  have same: "sample_api\<lparr>ma_Operations := sorted_operations (\<lambda>s. s) [sample_operation]\<rparr> = sample_api"
    by (simp add: sample_api_def sorted_operations_def)
  have walk: "index_apis (\<lambda>s. s) [sample_api] metadata_walk_start = Inr ?w"
    by (simp add: index_api_def sample_api_ok sample_operation_ok fields same metadata_walk_start_def Let_def)
  have link: "index_link sample_canaries ?w sample_link [] [] = None"
    using sample_link_ok sample_link_entry
    by (simp add: index_link_def) (simp add: sample_link_def sample_operation_def fields)
  have id: "metadata_identity_ok sample_metadata"
    by (simp add: metadata_identity_ok_def sample_metadata_def sha256Pattern_def hex_string_def list_all_length is_lower_hex_def)
  have parts: "md_APIs sample_metadata = [sample_api]" "md_HealthCanaryLinks sample_metadata = [sample_link]"
    "mt_APIOperations (md_Counts sample_metadata) = 1" "mt_LinkOperations (md_Counts sample_metadata) = 0"
    "mt_Institutions (md_Counts sample_metadata) = 0"
    by (simp_all add: sample_metadata_def)
  show ?thesis
    by (simp add: indexAndValidate_def id parts walk link sample_displays del: index_apis.simps) 
qed

lemma pages_partition_matches_witness:
  "\<exists>m apis. distinct (List.map ma_RegistryAPIID apis) \<and> fst (APIPagePrioritized (\<lambda>s. s) m ''t'' 1 1 []) = take 1 apis"
proof -
  obtain m' where m': "indexAndValidate (\<lambda>s. s) sample_canaries sample_metadata = Inr m'" using sample_indexes by blast
  obtain apis where "distinct (List.map ma_RegistryAPIID apis)"
    "concat (List.map (\<lambda>k. fst (APIPagePrioritized (\<lambda>s. s) (mark_verified sample_canaries acceptedRegistryAPIMetadataSHA256 m') ''t''
      (int k + 1) 1 [])) [0..<1]) = take (1 * nat 1) apis"
    using pages_partition_matches [OF m' refl, where n = 1 and pageSize = 1 and query = "''t''" and priorityByAPI = "[]"] by auto
  then show ?thesis by (intro exI [of _ "mark_verified sample_canaries acceptedRegistryAPIMetadataSHA256 m'"] exI [of _ apis]) simp
qed

section \<open>Verification and freezing\<close>

definition verified_of :: "RegistryAPIMetadata \<Rightarrow> VerifiedRegistryAPIMetadata" where
  "verified_of m = \<lparr>vm_verified = True,
     vm_pin = \<lparr>pm_RegistryRevision = md_RegistryRevision m, pm_SourceSHA256 = mr_SHA256 (md_Source m),
       pm_CatalogSHA256 = ml_SHA256 (md_Catalog m), pm_ArtifactSHA256 = md_verifiedArtifactSHA256 m,
       pm_APIEntityCount = mt_APIEntities (md_Counts m), pm_OperationCount = mt_APIOperations (md_Counts m)\<rparr>,
     vm_identitySetSHA256 = identity_set_digest (sort (List.map mp_RegistryOperationID (all_operations (md_APIs m)))),
     vm_operations = joined (md_APIs m), vm_canaryLinksByHealthID = cloneRegistryCanaryLinksByHealthID m\<rparr>"

text \<open>What the join needs; the copy has it too.\<close>

lemma joinable_verifies:
  assumes "metadata_marked m" "\<And>i. i < length (md_APIs m) \<Longrightarrow> gm_get (md_byID m) (ma_RegistryAPIID (md_APIs m ! i)) = Some i"
    "gm_get (md_operationByID m) = gm_get (keyed mp_RegistryOperationID (all_operations (md_APIs m)))"
    "distinct (List.map mp_RegistryOperationID (all_operations (md_APIs m)))"
    "mt_APIOperations (md_Counts m) = int (length (all_operations (md_APIs m)))"
    "list_all (\<lambda>api. metadata_api_ok api \<and> list_all (metadata_operation_ok api) (ma_Operations api)) (md_APIs m)"
  shows "NewVerifiedRegistryAPIMetadata m = Some (verified_of m)"
proof -
  have op: "gm_get (md_operationByID m) (mp_RegistryOperationID p) = Some p" if "api \<in> set (md_APIs m)" "p \<in> set (ma_Operations api)" for api p
    unfolding assms(3) using that by (intro gm_get_keyed assms(4)) (auto simp: all_operations_def)
  have "join_apis m 0 (md_APIs m) [] = Some ([] @ joined (md_APIs m))"
    by (rule join_apis_all) (use assms(2,4,6) op in \<open>auto simp: list_all_iff metadata_api_ok_def metadata_operation_ok_def\<close>)
  then show ?thesis using assms(1,5)
    by (simp add: NewVerifiedRegistryAPIMetadata_def verified_of_def joined_ids length_joined)
qed

lemma loaded_marked:
  assumes "loaded_from lower canaries d m" "mt_APIOperations (md_Counts m) \<noteq> 0"
  shows "metadata_marked m"
proof -
  have id: "metadata_identity_ok d" and same: "md_Scope m = md_Scope d" "md_Source m = md_Source d" "md_Counts m = md_Counts d"
    "md_verifiedArtifactSHA256 m = acceptedRegistryAPIMetadataSHA256" "md_verifiedSourceSHA256 m = mr_SHA256 (md_Source m)"
    "md_verifiedProjectionSHA256 m = metadataProjectionDigest m"
    using assms(1) by (auto simp: loaded_from_def)
  have lengths: "length (md_APIs m) = length (md_APIs d)" "length (md_byID m) = length (md_APIs m)"
    using loaded_facts(1,3) [OF assms(1)] by simp_all
  have "sha256Pattern (metadataProjectionDigest m)" by (simp add: metadataProjectionDigest_def)
  then have "metadataProjectionDigest m \<noteq> ''''" "mr_SHA256 (md_Source d) \<noteq> ''''"
    using id by (auto simp: sha256Pattern_def hex_string_def metadata_identity_ok_def)
  then show ?thesis using id same lengths loaded_facts(7,8) [OF assms(1)] assms(2)
    by (simp add: metadata_marked_def metadata_identity_ok_def)
qed

lemma clone_same:
  assumes "loaded_from lower canaries d m"
  shows "clone_of lower m = m\<lparr>md_operationByID := keyed mp_RegistryOperationID (all_operations (md_APIs m))\<rparr>"
proof -
  obtain w where w: "indexed lower (md_APIs d) w" "md_APIs m = mw_APIs w" "md_searchText m = mw_searchText w"
    "md_canaryByOpID m = keyed lk_RegistryOperationID (md_HealthCanaryLinks m)"
    "md_canaryByHealthID m = keyed lk_HealthOperationID (md_HealthCanaryLinks m)"
    "distinct (List.map lk_HealthOperationID (md_HealthCanaryLinks m))" "distinct (List.map lk_RegistryOperationID (md_HealthCanaryLinks m))"
    "md_orderedAPIIndices m = ordered_indices lower (md_APIs m)"
    using assms by (auto simp: loaded_from_def)
  have "List.map (\<lambda>i. ma_RegistryAPIID (md_APIs m ! i)) [0..<length (md_APIs m)] = List.map ma_RegistryAPIID (md_APIs m)"
    by (rule nth_equalityI) simp_all
  then have "foldl (\<lambda>acc i. gm_put (ma_RegistryAPIID (md_APIs m ! i)) i acc) [] [0..<length (md_APIs m)] =
      keyed (\<lambda>i. ma_RegistryAPIID (md_APIs m ! i)) [0..<length (md_APIs m)]"
    using loaded_facts(4) [OF assms] put_keyed [of "[]" "\<lambda>i. ma_RegistryAPIID (md_APIs m ! i)" "[0..<length (md_APIs m)]"] by simp
  also have "\<dots> = md_byID m" unfolding loaded_facts(3) [OF assms]
    by (rule nth_equalityI) (simp_all add: keyed_def)
  finally have byID: "foldl (\<lambda>acc i. gm_put (ma_RegistryAPIID (md_APIs m ! i)) i acc) [] [0..<length (md_APIs m)] = md_byID m" .
  have named: "mp_RegistryOperationID p \<noteq> ''''" if "metadata_operation_ok api p" for api p
    using that by (auto simp: metadata_operation_ok_def registryOperationIDPattern_def hex_string_def)
  have "\<forall>p\<in>set (all_operations (md_APIs m)). mp_RegistryOperationID p \<noteq> ''''"
    using loaded_facts(9) [OF assms] named by (fastforce simp: all_operations_def list_all_iff)
  then have "filter (\<lambda>p. mp_RegistryOperationID p \<noteq> '''') (concat (List.map ma_Operations (md_APIs m))) = all_operations (md_APIs m)"
    unfolding all_operations_def by (intro filter_True) simp
  then have ops: "clone_operations (md_APIs m) = keyed mp_RegistryOperationID (all_operations (md_APIs m))"
    using put_keyed [of "[]" mp_RegistryOperationID "all_operations (md_APIs m)"] loaded_facts(5) [OF assms]
    by (simp add: clone_operations_def)
  have texts: "List.map (search_text lower) (md_APIs m) = md_searchText m" using w(1-3) by (simp add: indexed_def)
  have links: "foldl (\<lambda>acc link. gm_put (lk_RegistryOperationID link) link acc) [] (md_HealthCanaryLinks m) = md_canaryByOpID m"
    "foldl (\<lambda>acc link. gm_put (lk_HealthOperationID link) link acc) [] (md_HealthCanaryLinks m) = md_canaryByHealthID m"
    using w(4-7) put_keyed [of "[]" lk_RegistryOperationID] put_keyed [of "[]" lk_HealthOperationID] by simp_all
  show ?thesis unfolding clone_of_def byID ops texts links w(8) [symmetric] by simp
qed

text \<open>C39: Metadata that loading has indexed and marked, with an operation, verifies, and its frozen copy, whose indexes are all built again,
  is the same: it differs at most in the order of the operation index, answers every lookup alike and
  verifies to the same join.  The join has each operation once, under the digest of all their
  identities, and every canary link names exactly one of its operations, of its own API, with the name
  and the catalog entry of the configured canary.
\<close>

theorem loaded_metadata_freezes:
  assumes "indexAndValidate lower canaries d = Inr m'" "m = mark_verified canaries acceptedRegistryAPIMetadataSHA256 m'"
    "mt_APIOperations (md_Counts m) \<noteq> 0"
  shows "\<exists>v clone. NewVerifiedRegistryAPIMetadata m = Some v \<and> cloneVerifiedRegistryAPIMetadata lower m = Some clone \<and>
    clone = m\<lparr>md_operationByID := md_operationByID clone\<rparr> \<and> gm_get (md_operationByID clone) = gm_get (md_operationByID m) \<and>
    NewVerifiedRegistryAPIMetadata clone = Some v \<and>
    distinct (List.map rp_RegistryOperationID (vm_operations v)) \<and> int (length (vm_operations v)) = mt_APIOperations (md_Counts m) \<and>
    vm_identitySetSHA256 v = identity_set_digest (sort (List.map rp_RegistryOperationID (vm_operations v))) \<and>
    (\<forall>link\<in>set (md_HealthCanaryLinks m). gm_get (vm_canaryLinksByHealthID v) (lk_HealthOperationID link) = Some link \<and>
      (\<exists>p\<in>set (vm_operations v). rp_RegistryOperationID p = lk_RegistryOperationID link \<and> rp_APIID p = lk_RegistryAPIID link \<and>
        rp_OperationName p = lk_OperationName link) \<and> link_entry_ok canaries link = None)"
proof -
  have d: "loaded_from lower canaries d m" by (rule marked_metadata [OF assms(1,2)])
  let ?clone = "m\<lparr>md_operationByID := keyed mp_RegistryOperationID (all_operations (md_APIs m))\<rparr>"
  have marked: "metadata_marked m" by (rule loaded_marked [OF d assms(3)])
  have v: "NewVerifiedRegistryAPIMetadata m = Some (verified_of m)"
    by (rule joinable_verifies [OF marked loaded_facts(2,6,5,8,9) [OF d]])
  have digest: "metadataProjectionDigest ?clone = metadataProjectionDigest m" by (simp add: metadataProjectionDigest_def metadata_json_def)
  have marked': "metadata_marked ?clone"
    using marked loaded_facts(7) [OF d] unfolding metadata_marked_def digest by auto
  have "NewVerifiedRegistryAPIMetadata ?clone = Some (verified_of ?clone)"
    by (rule joinable_verifies [OF marked']) (use loaded_facts(2,5,8,9) [OF d] in simp_all)
  then have v': "NewVerifiedRegistryAPIMetadata ?clone = Some (verified_of m)"
    by (simp add: verified_of_def cloneRegistryCanaryLinksByHealthID_def)
  have clone: "cloneVerifiedRegistryAPIMetadata lower m = Some ?clone"
    using marked digest v' unfolding cloneVerifiedRegistryAPIMetadata_def clone_same [OF d] Let_def
    by (simp add: metadata_marked_def)
  obtain w where w: "indexed lower (md_APIs d) w" "md_operationByID m = mw_operationByID w" "md_HealthCanaryLinks m = md_HealthCanaryLinks d"
    "distinct (List.map lk_HealthOperationID (md_HealthCanaryLinks m))" "list_all (link_joined canaries w) (md_HealthCanaryLinks m)"
    using d by (auto simp: loaded_from_def)
  have link: "gm_get (vm_canaryLinksByHealthID (verified_of m)) (lk_HealthOperationID link) = Some link \<and>
      (\<exists>p\<in>set (vm_operations (verified_of m)). rp_RegistryOperationID p = lk_RegistryOperationID link \<and> rp_APIID p = lk_RegistryAPIID link \<and>
        rp_OperationName p = lk_OperationName link) \<and> link_entry_ok canaries link = None" if "link \<in> set (md_HealthCanaryLinks m)" for link
  proof -
    have one: "link_joined canaries w link" using w(5) that by (simp add: list_all_iff)
    then obtain p where p: "gm_get (md_operationByID m) (lk_RegistryOperationID link) = Some p" "mp_DatasetID p = lk_RegistryAPIID link"
      "mp_Name p = lk_OperationName link" and entry: "link_entry_ok canaries link = None"
      by (auto simp: link_joined_def w(2))
    have in_keyed: "(lk_RegistryOperationID link, p) \<in> set (keyed mp_RegistryOperationID (all_operations (md_APIs m)))"
      using p(1) unfolding loaded_facts(6) [OF d] by (rule map_of_SomeD)
    then obtain api where api: "api \<in> set (md_APIs m)" "p \<in> set (ma_Operations api)" "mp_RegistryOperationID p = lk_RegistryOperationID link"
      by (auto simp: keyed_def all_operations_def)
    have "metadata_operation_ok api p" using loaded_facts(9) [OF d] api by (auto simp: list_all_iff)
    then have "mp_DatasetID p = ma_RegistryAPIID api" by (simp add: metadata_operation_ok_def)
    then have "joined_operation api p \<in> set (vm_operations (verified_of m)) \<and> rp_RegistryOperationID (joined_operation api p) = lk_RegistryOperationID link \<and>
        rp_APIID (joined_operation api p) = lk_RegistryAPIID link \<and> rp_OperationName (joined_operation api p) = lk_OperationName link"
      using api p by (auto simp: verified_of_def joined_def) (simp_all add: joined_operation_def)
    moreover have "gm_get (vm_canaryLinksByHealthID (verified_of m)) (lk_HealthOperationID link) = Some link"
      using put_keyed [of "[]" lk_HealthOperationID "md_HealthCanaryLinks m"] w(4) gm_get_keyed [OF w(4) that]
      by (simp add: verified_of_def cloneRegistryCanaryLinksByHealthID_def)
    ultimately show ?thesis using entry by blast
  qed
  have ids: "List.map rp_RegistryOperationID (vm_operations (verified_of m)) = List.map mp_RegistryOperationID (all_operations (md_APIs m))"
    by (simp add: verified_of_def joined_ids)
  show ?thesis
  proof (intro exI conjI)
    show "NewVerifiedRegistryAPIMetadata m = Some (verified_of m)" by (rule v)
    show "cloneVerifiedRegistryAPIMetadata lower m = Some ?clone" by (rule clone)
    show "?clone = m\<lparr>md_operationByID := md_operationByID ?clone\<rparr>" by simp
    show "gm_get (md_operationByID ?clone) = gm_get (md_operationByID m)" using loaded_facts(6) [OF d] by simp
    show "NewVerifiedRegistryAPIMetadata ?clone = Some (verified_of m)" by (rule v')
    show "distinct (List.map rp_RegistryOperationID (vm_operations (verified_of m)))" unfolding ids by (rule loaded_facts(5) [OF d])
    show "int (length (vm_operations (verified_of m))) = mt_APIOperations (md_Counts m)"
      using loaded_facts(8) [OF d] by (simp add: verified_of_def length_joined)
    show "vm_identitySetSHA256 (verified_of m) = identity_set_digest (sort (List.map rp_RegistryOperationID (vm_operations (verified_of m))))"
      unfolding ids by (simp add: verified_of_def)
  qed (use link in blast)
qed

lemma loaded_metadata_freezes_witness:
  "\<exists>m v. NewVerifiedRegistryAPIMetadata m = Some v \<and> length (vm_operations v) = 1"
proof -
  obtain m' where m': "indexAndValidate (\<lambda>s. s) sample_canaries sample_metadata = Inr m'" "mt_APIOperations (md_Counts m') = 1"
    using sample_indexes by blast
  then have "mt_APIOperations (md_Counts (mark_verified sample_canaries acceptedRegistryAPIMetadataSHA256 m')) = 1" by (simp add: mark_verified_def)
  then show ?thesis using loaded_metadata_freezes [OF m'(1) refl] by fastforce
qed

end
