(* ===== verification/Operation_Gatus_Properties.thy ===== *)
theory Operation_Gatus_Properties
  imports Operation_Gatus_Facts Operation_Plan_Samples Registry_Metadata_Properties
begin

text \<open>
  Generation and verification agree: what the generator writes down is what the runtime computes again.  And a
  consequence of how slices are copied for the worker's snapshot of the runtime.
\<close>

section \<open>Generation\<close>

lemma gatus_generated:
  assumes "gatus_generate cd base sha canaries v (Some plan) activation asha = Some (m, endpoints, config)"
  obtains legacy w digest where "gatus_canaries v (cc_Canaries canaries) gatus_walk_start = Some legacy"
    "gatus_plan cd v plan activation legacy = Some w" "int (length (gw_entries w)) \<le> maxOperationGatusTargets"
    "m = gatus_mapping base sha canaries v (Some plan) digest config w" "endpoints = ordered_endpoints (gw_endpoints w)"
proof -
  from assms obtain digest where digest: "activation_digest activation asha = Some digest"
    by (auto simp: gatus_generate_def split: if_split_asm option.split_asm)
  note a = assms [unfolded gatus_generate_def digest option.case]
  from a obtain legacy where legacy: "gatus_canaries v (cc_Canaries canaries) gatus_walk_start = Some legacy"
    by (auto split: if_split_asm option.split_asm)
  from a legacy obtain w where w: "gatus_plan cd v plan activation legacy = Some w"
    by (auto split: if_split_asm option.split_asm)
  from a have "int (length (gw_entries w)) \<le> maxOperationGatusTargets \<and>
      m = gatus_mapping base sha canaries v (Some plan) digest config w \<and> endpoints = ordered_endpoints (gw_endpoints w)"
    unfolding legacy w option.case by (auto split: if_split_asm option.split_asm)
  then show thesis using that legacy w by blast
qed

definition active_keys :: "OperationGatusActivation option \<Rightarrow> string list" where
  "active_keys activation = List.map activation_key (activationOperations activation)"

lemma gatus_plan_walked:
  assumes "gatus_plan cd v plan activation legacy = Some w" "identities_ok legacy" "legacy_rest {} legacy"
    "gw_known legacy = 0" "gw_activated legacy = 0" "gw_seenActive legacy = []"
    "read_shards cd plan [0..<ShardCount plan] = Some shards" "list_all record_fine (concat shards)"
    "distinct (List.map record_key_of (concat shards))"
  shows "walked_gatus (active_keys activation) (concat shards) w" "distinct (active_keys activation)"
    "set (active_keys activation) = record_key_of ` {r \<in> set (concat shards). record_key_of r \<in> set (active_keys activation)}"
    "gw_known w = pn_KnownOperations (Counts plan)" "gw_activated w = int (length (active_keys activation))" "sx_verified (pp_state plan)"
proof -
  have active: "(case activation of None \<Rightarrow> [] | Some a \<Rightarrow> List.map activation_key (ga_operations a)) = active_keys activation"
    by (simp add: active_keys_def activationOperations_def split: option.split)
  note a = assms(1) [unfolded gatus_plan_def active Let_def]
  show ver: "sx_verified (pp_state plan)" and dist: "distinct (active_keys activation)" using a by (simp_all split: if_split_asm)
  from a obtain x where x: "gatus_shards cd plan v (active_keys activation) [0..<ShardCount plan] legacy = Some x"
    by (auto split: if_split_asm option.split_asm)
  from a have w: "w = x" "length (gw_seenActive x) = length (active_keys activation)" "gw_known x = pn_KnownOperations (Counts plan)"
    "gw_activated x = int (length (active_keys activation))"
    unfolding x option.case by (simp_all split: if_split_asm)
  have "walked_gatus (active_keys activation) [] legacy" using assms(2-6) by (simp add: walked_gatus_def)
  from gatus_shards_walk [OF x assms(7) this assms(8)] assms(9)
  show walked: "walked_gatus (active_keys activation) (concat shards) w" by (simp add: w(1))
  then have seen: "set (gw_seenActive w) = record_key_of ` {r \<in> set (concat shards). record_key_of r \<in> set (active_keys activation)}"
    "distinct (gw_seenActive w)" by (simp_all add: walked_gatus_def)
  have "card (set (gw_seenActive w)) = card (set (active_keys activation))"
    using w(1,2) seen(2) dist by (simp add: distinct_card)
  moreover have "set (gw_seenActive w) \<subseteq> set (active_keys activation)" unfolding seen(1) by auto
  ultimately have "set (gw_seenActive w) = set (active_keys activation)" by (intro card_subset_eq) simp_all
  then show "set (active_keys activation) = record_key_of ` {r \<in> set (concat shards). record_key_of r \<in> set (active_keys activation)}"
    using seen(1) by simp
  show "gw_known w = pn_KnownOperations (Counts plan)" "gw_activated w = int (length (active_keys activation))" using w by simp_all
qed

lemma start_fields:
  "gatus_canaries v cs w = Some w' \<Longrightarrow> gw_known w' = gw_known w \<and> gw_activated w' = gw_activated w \<and> gw_seenActive w' = gw_seenActive w"
proof (induction cs arbitrary: w)
  case Nil
  then show ?case by simp
next
  case (Cons c cs)
  then obtain x where x: "gatus_canary v c w = Some x" "gatus_canaries v cs x = Some w'" by (auto split: option.split_asm)
  have "gw_known x = gw_known w \<and> gw_activated x = gw_activated w \<and> gw_seenActive x = gw_seenActive w"
    using x(1) by (auto simp: gatus_canary_def Let_def split: if_split_asm option.split_asm)
  then show ?case using Cons.IH [OF x(2)] by simp
qed

lemma ordered_entries_perm [simp]: "mset (ordered_entries entries) = mset (List.map snd entries)"
  by (simp add: ordered_entries_def)

lemma set_ordered_entries [simp]: "set (ordered_entries entries) = snd ` set entries"
  by (metis mset_eq_setD ordered_entries_perm set_map)

lemma wf_entries_keyed:
  assumes "identities_ok w"
  shows "gw_entries w = keyed identity_key_of (List.map snd (gw_entries w))"
    "distinct (List.map identity_key_of (List.map snd (gw_entries w)))"
    "distinct (List.map gi_GatusEndpointKey (ordered_entries (gw_entries w)))"
proof -
  have keys: "\<forall>(k, e) \<in> set (gw_entries w). k = identity_key_of e" using assms by (auto simp: identities_ok_def)
  show keyed: "gw_entries w = keyed identity_key_of (List.map snd (gw_entries w))"
    unfolding keyed_def using keys by (auto simp: o_def intro!: map_idI [symmetric])
  have "gm_wf (gw_entries w)" using assms by (simp add: identities_ok_def)
  then show dist: "distinct (List.map identity_key_of (List.map snd (gw_entries w)))"
    by (metis keyed keyed_simps(4))
  have "inj_on gi_GatusEndpointKey (set (List.map snd (gw_entries w)))"
  proof (rule inj_onI)
    fix x y assume "x \<in> set (List.map snd (gw_entries w))" "y \<in> set (List.map snd (gw_entries w))" and same: "gi_GatusEndpointKey x = gi_GatusEndpointKey y"
    then have "gm_get (gw_byKey w) (gi_GatusEndpointKey x) = Some (identity_key_of x)" "gm_get (gw_byKey w) (gi_GatusEndpointKey y) = Some (identity_key_of y)"
      and "x \<in> set (List.map snd (gw_entries w))" "y \<in> set (List.map snd (gw_entries w))"
      using assms by (auto simp: identities_ok_def)
    then show "x = y" using same dist by (metis distinct_map inj_onD option.inject)
  qed
  moreover have "distinct (List.map snd (gw_entries w))" using dist unfolding distinct_map [of identity_key_of] by blast
  ultimately have "distinct (List.map gi_GatusEndpointKey (List.map snd (gw_entries w)))"
    unfolding distinct_map [of gi_GatusEndpointKey] by blast
  then show "distinct (List.map gi_GatusEndpointKey (ordered_entries (gw_entries w)))"
    by (metis mset_map ordered_entries_perm mset_eq_imp_distinct_iff)
qed

lemma sorted_targets_perm [simp]: "mset (sorted_targets ts) = mset ts"
  by (simp add: sorted_targets_def)

text \<open>C37: What the generator writes, the runtime accepts, and it accepts exactly the activation.  If the Gatus
  documents are generated from a plan that lists no operation twice, then from the generated mapping
  the runtime computes as targets just the activated operations, each of them a record of the plan that
  may be executed, with the endpoint key of its identity; there are as many as the mapping says.  No two
  identities share an endpoint key, and the configured endpoints are those of the active identities.
\<close>

theorem generated_mapping_is_exact:
  assumes "gatus_generate cd base sha canaries v (Some plan) activation asha = Some (m, endpoints, config)"
    "read_shards cd plan [0..<ShardCount plan] = Some shards" "distinct (List.map record_key_of (concat shards))"
    "\<forall>r\<in>set (concat shards). record_fine r"
  shows "\<exists>targets. exactActivePlanTargets cd plan m = Some targets \<and>
    distinct (List.map (\<lambda>t. record_key_of (tg_Record t)) (elems targets)) \<and>
    record_key_of ` tg_Record ` set (elems targets) = set (active_keys activation) \<and>
    int (length (elems targets)) = gm_ActivatedPlanOperations m \<and>
    (\<forall>t\<in>set (elems targets). tg_Record t \<in> set (concat shards) \<and> may_activate (tg_Record t) \<and>
      (\<exists>i\<in>set (elems (gm_Operations m)). identity_key_of i = record_key_of (tg_Record t) \<and> gi_PlanActive i \<and>
        gi_GatusEndpointKey i = tg_GatusEndpointKey t)) \<and>
    distinct (List.map gi_GatusEndpointKey (elems (gm_Operations m))) \<and>
    gp_key ` set endpoints = gi_GatusEndpointKey ` {i \<in> set (elems (gm_Operations m)). gi_Active i}"
proof -
  obtain legacy w digest where g: "gatus_canaries v (cc_Canaries canaries) gatus_walk_start = Some legacy"
    "gatus_plan cd v plan activation legacy = Some w" "int (length (gw_entries w)) \<le> maxOperationGatusTargets"
    "m = gatus_mapping base sha canaries v (Some plan) digest config w" "endpoints = ordered_endpoints (gw_endpoints w)"
    by (rule gatus_generated [OF assms(1)])
  have "identities_ok gatus_walk_start" "legacy_rest {} gatus_walk_start"
    by (simp_all add: identities_ok_def legacy_rest_def gatus_walk_start_def)
  then have l: "identities_ok legacy" "legacy_rest {} legacy" using gatus_canaries_ok [OF g(1)] by simp_all
  have zero: "gw_known legacy = 0" "gw_activated legacy = 0" "gw_seenActive legacy = []"
    using start_fields [OF g(1)] by (simp_all add: gatus_walk_start_def)
  have fine: "list_all record_fine (concat shards)" using assms(4) by (simp add: list_all_iff)
  note p = gatus_plan_walked [OF g(2) l zero assms(2) fine assms(3)]
  let ?active = "active_keys activation" and ?rs = "concat shards" and ?es = "ordered_entries (gw_entries w)"
  let ?byIdentity = "keyed identity_key_of ?es"
  have ok: "identities_ok w" and rest: "legacy_rest (record_key_of ` set ?rs) w"
    and speaks: "\<forall>r\<in>set ?rs. \<exists>e. gm_get (gw_entries w) (record_key_of r) = Some e \<and> speaks_for ?active r e"
    using p(1) by (simp_all add: walked_gatus_def)
  note keyed = wf_entries_keyed [OF ok]
  have get: "gm_get ?byIdentity = gm_get (gw_entries w)"
    using keyed_perm [OF keyed(2), of ?es] keyed(1) by simp
  have dist: "distinct (List.map identity_key_of ?es)"
    using keyed(2) by (metis mset_map ordered_entries_perm mset_eq_imp_distinct_iff)
  have identities: "mapping_identities ?es [] = Some ?byIdentity"
  proof -
    have "list_all (\<lambda>e. operationSourceIDPattern (gi_SourceID e) \<and> gi_RegistryOperationID e \<noteq> '''' \<and> gi_GatusEndpointKey e \<noteq> '''') ?es"
      using ok by (auto simp: list_all_iff identities_ok_def)
    then show ?thesis using mapping_identities_all [of ?es "[]"] dist by simp
  qed
  let ?ts = "shard_targets ?byIdentity ?active plan [0..<ShardCount plan] shards"
  let ?seen = "rev (List.map record_key_of (filter (\<lambda>r. record_key_of r \<in> set ?active) ?rs))"
  have shards: "target_shards cd plan ?byIdentity [0..<ShardCount plan] ([], []) = Some (?seen, ?ts)"
    using target_shards_all [OF assms(2), of ?byIdentity ?active "[]" "[]"] speaks assms(3) by (simp add: get)
  have "gi_PlanActive e = (identity_key_of e \<in> set ?seen)" if "e \<in> set ?es" for e
  proof -
    from that obtain k where e: "(k, e) \<in> set (gw_entries w)" by force
    then have k: "k = identity_key_of e" using ok by (auto simp: identities_ok_def)
    have wf: "gm_wf (gw_entries w)" using ok by (simp add: identities_ok_def)
    show ?thesis
    proof (cases "k \<in> record_key_of ` set ?rs")
      case True
      then obtain r where r: "r \<in> set ?rs" "k = record_key_of r" by auto
      then have "speaks_for ?active r e" using bspec [OF speaks r(1)] gm_in_get [OF wf e] by simp
      then show ?thesis using r k by (auto simp: speaks_for_def)
    next
      case False
      then have "\<not> gi_PlanActive e" using rest e by (auto simp: legacy_rest_def)
      then show ?thesis using False k by auto
    qed
  qed
  then have agree: "list_all (\<lambda>(key, i). gi_PlanActive i = (key \<in> set ?seen)) ?byIdentity"
    by (auto simp: list_all_iff keyed_def)
  let ?targets = "if ?ts = [] then None else Some (sorted_targets ?ts)"
  have lens: "gw_known w = int (length ?rs)" "gw_activated w = int (length (filter (\<lambda>r. record_key_of r \<in> set ?active) ?rs))"
    using p(1) by (simp_all add: walked_gatus_def)
  have "length ?es = length (gw_entries w)" by (metis ordered_entries_perm length_map size_mset)
  then have small: "int (length ?es) \<le> maxOperationGatusTargets" using g(3) by simp
  have bound: "0 \<le> gw_activated w" "gw_activated w \<le> gw_known w" using lens by simp_all
  have fields: "gm_PlanState m = ''verified''" "gm_KnownPlanOperations m = pn_KnownOperations (Counts plan)"
    "gm_ActivatedPlanOperations m = gw_activated w" "elems (gm_Operations m) = ?es"
    using p(4) by (simp_all add: g(4) gatus_mapping_def)
  have exact: "exactActivePlanTargets cd plan m = Some ?targets"
    unfolding exactActivePlanTargets_def fields identities shards option.case prod.case eqTrueI [OF agree]
    using p(4,6) small bound by simp
  have len: "length [0..<ShardCount plan] = length shards"
    using assms(2) by (auto simp: read_shards_def all_some_iff dest: arg_cong [of _ _ length])
  have elems: "set (elems ?targets) = set ?ts" "length (elems ?targets) = length ?ts" "mset (elems ?targets) = mset ?ts"
    by (simp_all add: mset_eq_setD [OF sorted_targets_perm] mset_eq_length [OF sorted_targets_perm])
  have recs: "List.map tg_Record ?ts = filter (\<lambda>r. record_key_of r \<in> set ?active) ?rs"
    by (rule shard_targets_records [OF len])
  have keys: "List.map (\<lambda>t. record_key_of (tg_Record t)) ?ts = List.map record_key_of (filter (\<lambda>r. record_key_of r \<in> set ?active) ?rs)"
    using arg_cong [OF recs, of "List.map record_key_of"] by (simp only: list.map_comp o_def)
  have distinct: "distinct (List.map (\<lambda>t. record_key_of (tg_Record t)) (elems ?targets))"
  proof -
    have "distinct (List.map (\<lambda>t. record_key_of (tg_Record t)) ?ts)" unfolding keys by (rule distinct_map_filter [OF assms(3)])
    moreover have "mset (List.map (\<lambda>t. record_key_of (tg_Record t)) (elems ?targets)) = mset (List.map (\<lambda>t. record_key_of (tg_Record t)) ?ts)"
      unfolding mset_map elems(3) ..
    ultimately show ?thesis using mset_eq_imp_distinct_iff by blast
  qed
  have active: "record_key_of ` tg_Record ` set (elems ?targets) = set ?active"
  proof -
    have "tg_Record ` set ?ts = {r \<in> set ?rs. record_key_of r \<in> set ?active}" using recs by (metis set_filter set_map)
    then show ?thesis using p(3) elems(1) by simp
  qed
  have number: "int (length (elems ?targets)) = gm_ActivatedPlanOperations m"
    using lens(2) arg_cong [OF recs, of length] unfolding elems(2) fields(3) by (simp only: length_map)
  have each: "tg_Record t \<in> set ?rs \<and> may_activate (tg_Record t) \<and>
      (\<exists>i\<in>set (elems (gm_Operations m)). identity_key_of i = record_key_of (tg_Record t) \<and> gi_PlanActive i \<and>
        gi_GatusEndpointKey i = tg_GatusEndpointKey t)" if "t \<in> set (elems ?targets)" for t
  proof -
    have t: "t \<in> set ?ts" using that elems(1) by simp
    then have "tg_Record t \<in> set (List.map tg_Record ?ts)" by simp
    then have r: "tg_Record t \<in> set ?rs" "record_key_of (tg_Record t) \<in> set ?active" unfolding recs by simp_all
    obtain e where e: "gm_get (gw_entries w) (record_key_of (tg_Record t)) = Some e" "speaks_for ?active (tg_Record t) e"
      using speaks r(1) by blast
    then have "(record_key_of (tg_Record t), e) \<in> set (gw_entries w)" by (intro map_of_SomeD)
    then have "e \<in> set ?es" "identity_key_of e = record_key_of (tg_Record t)"
      using ok by (auto simp: identities_ok_def intro: rev_image_eqI)
    moreover have "tg_GatusEndpointKey t = gi_GatusEndpointKey e" using shard_targets_keys [OF t] e(1) by (simp add: get)
    ultimately show ?thesis using r e(2) by (auto simp: speaks_for_def g(4) gatus_mapping_def)
  qed
  have ends: "gp_key ` set endpoints = gi_GatusEndpointKey ` {i \<in> set (elems (gm_Operations m)). gi_Active i}"
  proof -
    have "set (ordered_endpoints (gw_endpoints w)) = snd ` set (gw_endpoints w)" by (simp add: ordered_endpoints_def)
    moreover have "gp_key ` snd ` set (gw_endpoints w) = set (gm_keys (gw_endpoints w))"
    proof -
      have "\<forall>(k, e) \<in> set (gw_endpoints w). k = gp_key e" using ok by (simp add: identities_ok_def)
      then have "gp_key (snd p) = fst p" if "p \<in> set (gw_endpoints w)" for p using that by (cases p) auto
      then show ?thesis unfolding image_image set_map by (intro image_cong) simp_all
    qed
    moreover have "{i \<in> set (elems (gm_Operations m)). gi_Active i} = {e. (\<exists>k. (k, e) \<in> set (gw_entries w)) \<and> gi_Active e}"
      by (simp add: g(4) gatus_mapping_def) force
    ultimately show ?thesis using ok by (simp add: g(5) identities_ok_def)
  qed
  have "distinct (List.map gi_GatusEndpointKey (elems (gm_Operations m)))" using keyed(3) by (simp add: g(4) gatus_mapping_def)
  then show ?thesis using exact distinct active number each ends by blast
qed

section \<open>The snapshot\<close>

lemma commas_snoc: "xs \<noteq> [] \<Longrightarrow> commas (xs @ [x]) = commas xs @ '','' @ x"
  by (induction xs rule: commas.induct) simp_all

lemma seal_text_end:
  "\<exists>front. json_text (runtime_seal_json r) = front @ json_text (jo_slice JO_str (gf_LegacySuppressedHealthIDs (vr_Artifacts r))) @ ''}''"
proof -
  obtain members where members: "runtime_seal_json r =
      JO_obj (members @ [(''artifact_suppressed'', jo_slice JO_str (gf_LegacySuppressedHealthIDs (vr_Artifacts r)))])" and "members \<noteq> []"
    unfolding runtime_seal_json_def Let_def by (metis append_Cons append_Nil list.distinct(1))
  then show ?thesis
    by (simp add: commas_snoc)
qed

text \<open>C38: The worker's snapshot of a runtime fails where no legacy canary is suppressed.  The generator leaves an
  empty slice of suppressed canaries, never nil; the copy makes it nil, \<^verbatim>\<open>encoding/json\<close> prints \<^verbatim>\<open>null\<close> for
  \<^verbatim>\<open>[]\<close>, and so the text that the seal digests is another.  Unless SHA-256 collides on just these
  two texts the copy is refused, and without it no worker is built.
\<close>

theorem snapshot_needs_suppression:
  assumes "gf_LegacySuppressedHealthIDs (vr_Artifacts r) = Some []"
  shows "json_text (runtime_seal_json (clone_runtime r)) \<noteq> json_text (runtime_seal_json r) \<and>
    (cloneVerifiedOperationPlanRuntime r = None \<or>
     sha256_hex (json_text (runtime_seal_json (clone_runtime r))) = sha256_hex (json_text (runtime_seal_json r)))"
proof -
  obtain a where a: "json_text (runtime_seal_json r) = a @ ''[]'' @ ''}''"
    using seal_text_end [of r] assms by (auto simp: jo_slice_def json_array_def)
  obtain b where b: "json_text (runtime_seal_json (clone_runtime r)) = b @ ''null'' @ ''}''"
    using seal_text_end [of "clone_runtime r"] assms by (auto simp: jo_slice_def clone_runtime_def copied_def)
  have "last (butlast (json_text (runtime_seal_json r))) \<noteq> last (butlast (json_text (runtime_seal_json (clone_runtime r))))"
    unfolding a b by (simp add: butlast_append)
  then have "json_text (runtime_seal_json (clone_runtime r)) \<noteq> json_text (runtime_seal_json r)" by metis
  moreover have "operationPlanRuntimeSeal r = operationPlanRuntimeSeal (clone_runtime r)"
    if "validVerifiedOperationPlanRuntime r" "validVerifiedOperationPlanRuntime (clone_runtime r)"
    using that by (simp add: validVerifiedOperationPlanRuntime_def clone_runtime_def)
  ultimately show ?thesis
    by (auto simp: cloneVerifiedOperationPlanRuntime_def operationPlanRuntimeSeal_def Let_def validVerifiedOperationPlanRuntime_def
        sha256Pattern_def hex_string_def split: if_split_asm)
qed

section \<open>A generated mapping\<close>

text \<open>The release of \<open>sample_loaded\<close>, its one operation linked to the one canary and activated.\<close>

definition sample_verified_metadata :: VerifiedRegistryAPIMetadata where
  "sample_verified_metadata = \<lparr>vm_verified = True,
     vm_pin = \<lparr>pm_RegistryRevision = ''r'', pm_SourceSHA256 = sha256_hex sample_source, pm_CatalogSHA256 = replicate 64 CHR ''c'',
       pm_ArtifactSHA256 = replicate 64 CHR ''a'', pm_APIEntityCount = 1, pm_OperationCount = 1\<rparr>,
     vm_identitySetSHA256 = identity_set_digest [''op''],
     vm_operations = [\<lparr>rp_RegistryOperationID = ''op'', rp_APIID = ''d'', rp_OperationName = ''n'', rp_OperationNameState = ''present'',
       rp_Title = ''t'', rp_TitleState = ''present'', rp_Organization = '''', rp_OrganizationState = ''missing'', rp_Purpose = '''',
       rp_PurposeState = ''missing''\<rparr>],
     vm_canaryLinksByHealthID = [(''probe'', sample_link\<lparr>lk_RegistryOperationID := ''op''\<rparr>)]\<rparr>"

definition sample_activation :: OperationGatusActivation where
  "sample_activation = (let a = \<lparr>ga_SchemaVersion = OperationGatusActivationSchemaVersion, ga_RegistryRevision = replicate 40 CHR ''a'',
       ga_IndexSHA256 = sha256_hex ''i'', ga_Operations = Some [\<lparr>ge_SourceID = ''data_go_kr'', ge_OperationID = ''op''\<rparr>],
       ga_verifiedRawSHA256 = replicate 64 CHR ''e'', ga_verifiedPayloadSHA256 = '''', ga_verifiedAbsent = False\<rparr>
     in a\<lparr>ga_verifiedPayloadSHA256 := sha256_hex (json_text (activation_json a))\<rparr>)"

definition sample_base :: string where
  "sample_base = ''endpoints:'' @ CHR 0x0A # ''  - a'' @ CHR 0x0A # ''external-endpoints:'' @ [CHR 0x0A]"

definition sample_key :: string where "sample_key = operationReadModelIdentityKey ''data_go_kr'' ''op''"

lemma sample_key_nonempty [simp]: "sample_key \<noteq> ''''"
  by (simp add: sample_key_def operationReadModelIdentityKey_def)

lemma sample_key_fold: "operationReadModelIdentityKey ''data_go_kr'' ''op'' = sample_key"
  by (simp add: sample_key_def)

definition sample_legacy :: gatus_walk where
  "sample_legacy = \<lparr>gw_entries = [(sample_key, \<lparr>gi_SourceID = ''data_go_kr'', gi_RegistryOperationID = ''op'', gi_GatusEndpointKey = ''g_k'',
       gi_ResponseAssertionKind = ''legacy_canary'', gi_PlanAdmissionState = ''unknown'', gi_PlanActive = False, gi_LegacyActive = True,
       gi_LegacyHealthOperationID = ''probe'', gi_ObservationPeriodSecond = 0, gi_Active = True\<rparr>)],
     gw_byKey = [(''g_k'', sample_key)],
     gw_endpoints = [(''g_k'', \<lparr>gp_key = ''g_k'', gp_group = ''g'', gp_name = ''k'', gp_heartbeat = 10 * minute, gp_observationOnly = False\<rparr>)],
     gw_suppressed = [], gw_known = 0, gw_admitted = 0, gw_activated = 0, gw_seenActive = []\<rparr>"

definition sample_walk_end :: gatus_walk where
  "sample_walk_end = \<lparr>gw_entries = [(sample_key, \<lparr>gi_SourceID = ''data_go_kr'', gi_RegistryOperationID = ''op'', gi_GatusEndpointKey = ''g_k'',
       gi_ResponseAssertionKind = ''http_status'', gi_PlanAdmissionState = ''admitted'', gi_PlanActive = True, gi_LegacyActive = False,
       gi_LegacyHealthOperationID = ''probe'', gi_ObservationPeriodSecond = 3600, gi_Active = True\<rparr>)],
     gw_byKey = [(''g_k'', sample_key)],
     gw_endpoints = [(''g_k'', \<lparr>gp_key = ''g_k'', gp_group = ''g'', gp_name = ''k'', gp_heartbeat = 7200 * second, gp_observationOnly = False\<rparr>)],
     gw_suppressed = [''probe''], gw_known = 1, gw_admitted = 1, gw_activated = 1, gw_seenActive = [sample_key]\<rparr>"

lemma sample_split: "splitOperationGatusEndpointKey ''g_k'' = Some (''g'', ''k'')"
  by (simp add: splitOperationGatusEndpointKey_def gatusKeyPattern_def gatus_char_def Let_def)

lemma sample_legacy_walk: "gatus_canaries sample_verified_metadata (cc_Canaries sample_canaries) gatus_walk_start = Some sample_legacy"
  by (simp add: sample_canaries_def gatus_canary_def sample_verified_metadata_def sample_link_def gatus_walk_start_def Let_def
      sample_key_fold registerOperationGatusKey_def sample_split sample_legacy_def)

lemma sample_shards: "ShardCount sample_loaded = 1"
  by (simp add: sample_loaded_def ShardCount_def sample_state_def sample_index_def)

lemma sample_read_shard: "ReadShard sample_codec sample_loaded 0 = Some [sample_record]"
  by (simp add: ReadShard_def sample_loaded_def sample_state_def sample_index_def sample_shard Let_def sample_plan_decoded)
    (simp add: sample_record_def)

lemma sample_record_walk: "gatus_record sample_verified_metadata [sample_key] sample_record sample_legacy = Some sample_walk_end"
proof -
  have r: "op_SourceID sample_record = ''data_go_kr''" "op_OperationID sample_record = ''op''" "op_AdmissionStatus sample_record = ''admitted''"
    "op_ResponseAssertionKind sample_record = ''http_status''" "op_ObservationPeriod sample_record = 3600 * second" "may_activate sample_record"
    by (simp_all add: sample_record_def may_activate_def second_def minute_def)
  show ?thesis
    by (simp add: gatus_record_def r sample_key_fold Let_def)
      (simp add: sample_legacy_def sample_verified_metadata_def plan_identity_def plan_endpoint_def sample_split operationGatusHeartbeat_def r
        registerOperationGatusKey_def boolToInt_def sample_walk_end_def second_def)
qed

lemma sample_binds: "bindsSourceInventory sample_loaded ''data_go_kr'' ''data.go.kr'' ''data/data-go-kr.registry.json''
    (pm_SourceSHA256 (vm_pin sample_verified_metadata)) (vm_identitySetSHA256 sample_verified_metadata)"
proof -
  have path: "''data/data-go-kr.registry.json'' = sample_source" by (simp add: sample_source_def)
  have nonempty: "sha256_hex s \<noteq> ''''" for s using sha256Pattern_sha256_hex [of s] by (auto simp: sha256Pattern_def hex_string_def)
  have "sp_SourceArtifacts sample_scope = [sample_ref sample_source]" "sp_Provider sample_scope = ''data.go.kr''"
    "sp_IdentitySetSHA256 sample_scope = identity_set_digest [''op'']" by (simp_all add: sample_scope_def)
  then show ?thesis unfolding path
    by (simp add: bindsSourceInventory_def bindsSourceArtifact_def sample_loaded_def sample_state_def sample_verified_metadata_def
        identity_set_digest_def nonempty sample_ref_def sample_manifest_entries(1))
qed

lemma sample_plan_walk:
  "gatus_plan sample_codec sample_verified_metadata sample_loaded (Some sample_activation) sample_legacy = Some sample_walk_end"
proof -
  have keys: "List.map activation_key (elems (ga_Operations sample_activation)) = [sample_key]"
    by (simp add: sample_activation_def Let_def activation_key_def sample_key_fold)
  have act: "ga_SchemaVersion sample_activation = OperationGatusActivationSchemaVersion" "ga_RegistryRevision sample_activation = RegistryRevision sample_loaded"
    "ga_IndexSHA256 sample_activation = IndexSHA256 sample_loaded"
    by (simp_all add: sample_activation_def Let_def RegistryRevision_def IndexSHA256_def sample_loaded_def sample_state_def sample_index_def sample_binding_def)
  have plan: "sx_verified (pp_state sample_loaded)" "pn_KnownOperations (Counts sample_loaded) = 1" "ShardCount sample_loaded = 1"
    by (simp_all add: sample_loaded_def Counts_def ShardCount_def sample_state_def sample_index_def)
  have walk: "gatus_shards sample_codec sample_loaded sample_verified_metadata [sample_key] [0..<ShardCount sample_loaded] sample_legacy = Some sample_walk_end"
    by (simp add: plan sample_read_shard sample_record_walk)
  have fin: "gw_seenActive sample_walk_end = [sample_key]" "gw_known sample_walk_end = 1" "gw_activated sample_walk_end = 1"
    by (simp_all add: sample_walk_end_def sample_legacy_def)
  show ?thesis
    by (simp add: gatus_plan_def sample_binds keys act plan(1,2) walk fin maxOperationGatusTargets_def)
      (simp add: sample_walk_end_def sample_legacy_def)
qed

lemma sample_trim: "trim_space ''endpoints:'' = ''endpoints:''" "trim_space ''external-endpoints:'' = ''external-endpoints:''"
    "trim_space ''  - a'' = ''- a''" "trim_space '''' = ''''"
  by code_simp+

lemma sample_target: "gatusBaseHasExecutionTarget sample_base"
  by (simp add: gatusBaseHasExecutionTarget_def sample_base_def gatusBaseHasExecutionTarget_step_def Let_def sample_trim has_prefix_def)

lemma sample_duration: "duration_text (7200 * second) = ''2h0m0s''"
proof -
  have d: "nat (7200 * second) = 7200 * 10 ^ 9" by (simp add: second_def)
  have digits: "nat_dec 2 = ''2''" "nat_dec 0 = ''0''" "fraction_text 0 = ''''" by code_simp+
  show ?thesis by (simp add: duration_text_def Let_def d digits)
qed

lemma sample_lines: "split_on CHR 0x0A sample_base = [''endpoints:'', ''  - a'', ''external-endpoints:'', '''']"
  by code_simp

lemma sample_render: "\<exists>config. renderOperationGatusConfig sample_base (ordered_endpoints (gw_endpoints sample_walk_end)) = Some config"
proof -
  let ?e = "\<lparr>gp_key = ''g_k'', gp_group = ''g'', gp_name = ''k'', gp_heartbeat = 7200 * second, gp_observationOnly = False\<rparr>"
  have e: "ordered_endpoints (gw_endpoints sample_walk_end) = [?e]" by (simp add: ordered_endpoints_def sample_walk_end_def)
  have r: "render_endpoint ?e = Some (endpoint_text ?e @ heartbeat_text (7200 * second))"
    by (simp add: render_endpoint_def sample_split second_def minute_def)
  have len: "length (endpoint_text ?e) + length (heartbeat_text (7200 * second)) \<le> 1000"
    by (simp add: endpoint_text_def heartbeat_text_def sample_duration)
  show ?thesis unfolding e
    using len by (simp add: renderOperationGatusConfig_def sample_lines external_marker_def Let_def r sample_trim maxOperationGatusConfigBytes_def)
qed

lemma sample_generated:
  "\<exists>m endpoints config. gatus_generate sample_codec sample_base (replicate 64 CHR ''a'') sample_canaries sample_verified_metadata
     (Some sample_loaded) (Some sample_activation) (replicate 64 CHR ''e'') = Some (m, endpoints, config)"
proof -
  have digest: "activation_digest (Some sample_activation) (replicate 64 CHR ''e'') = Some (replicate 64 CHR ''e'')"
    by (simp add: activation_digest_def sample_activation_def Let_def digestOperationGatusBytes_def activation_json_def)
  have verified: "verifiedGatusMetadata sample_verified_metadata sample_canaries"
    by (simp add: verifiedGatusMetadata_def sample_verified_metadata_def sample_canaries_def sha256Pattern_sha256_hex)
      (simp add: sha256Pattern_def hex_string_def list_all_length is_lower_hex_def)
  have hex: "sha256Pattern (replicate 64 CHR ''a'')" "sha256Pattern (replicate 64 CHR ''e'')"
    by (simp_all add: sha256Pattern_def hex_string_def list_all_length is_lower_hex_def)
  have small: "sample_base \<noteq> ''''" "int (length sample_base) \<le> maxOperationGatusConfigBytes"
    "length (gw_entries sample_walk_end) = 1" "length (gw_endpoints sample_walk_end) = 1"
    by (simp_all add: sample_base_def maxOperationGatusConfigBytes_def sample_walk_end_def)
  have short: "\<not> maxOperationGatusConfigBytes < int (length sample_base)" using small(2) by (simp only: not_less)
  obtain config where config: "renderOperationGatusConfig sample_base (ordered_endpoints (gw_endpoints sample_walk_end)) = Some config"
    using sample_render by blast
  show ?thesis
    by (simp add: gatus_generate_def digest verified hex short small(1,3,4) sample_target sample_legacy_walk sample_plan_walk config maxOperationGatusTargets_def)
qed

lemma generated_mapping_is_exact_witness:
  "\<exists>m targets. exactActivePlanTargets sample_codec sample_loaded m = Some targets \<and> record_key_of ` tg_Record ` set (elems targets) = {sample_key}"
proof -
  obtain m endpoints config where m: "gatus_generate sample_codec sample_base (replicate 64 CHR ''a'') sample_canaries sample_verified_metadata
     (Some sample_loaded) (Some sample_activation) (replicate 64 CHR ''e'') = Some (m, endpoints, config)"
    using sample_generated by blast
  have shards: "read_shards sample_codec sample_loaded [0..<ShardCount sample_loaded] = Some [[sample_record]]"
    by (simp add: read_shards_def sample_shards sample_read_shard)
  have fine: "record_fine sample_record" by (simp add: record_fine_def sample_record_def data_go_kr_pattern second_def)
  have "active_keys (Some sample_activation) = [sample_key]"
    by (simp add: active_keys_def activationOperations_def sample_activation_def Let_def activation_key_def sample_key_fold)
  then show ?thesis using generated_mapping_is_exact [OF m shards] fine by auto
qed

definition sample_runtime :: VerifiedOperationPlanRuntime where
  "sample_runtime = \<lparr>vr_Plan = sample_loaded, vr_Metadata = sample_verified_metadata, vr_Canaries = sample_canaries,
     vr_Artifacts = \<lparr>gf_Config = '''', gf_Mapping = '''', gf_RuntimePin = '''', gf_ConfigSHA256 = '''', gf_MappingSHA256 = '''',
       gf_RuntimePinSHA256 = '''', gf_LegacySuppressedHealthIDs = sortedUniqueStrings []\<rparr>,
     vr_IdentityMapping = gatus_mapping '''' '''' sample_canaries sample_verified_metadata (Some sample_loaded) '''' '''' sample_walk_end,
     vr_ActiveTargets = None, vr_SuppressedLegacy = None, vr_verified = True, vr_verificationSeal = ''''\<rparr>"

lemma snapshot_needs_suppression_witness:
  "json_text (runtime_seal_json (clone_runtime sample_runtime)) \<noteq> json_text (runtime_seal_json sample_runtime)"
  using snapshot_needs_suppression [of sample_runtime] by (simp add: sample_runtime_def sortedUniqueStrings_def)

end
