(* ===== verification/Go_Time.thy ===== *)
theory Go_Time
  imports Operation_Gatus
begin

text \<open>
  \<^verbatim>\<open>time.Parse\<close> with the layout \<^verbatim>\<open>time.RFC3339Nano\<close> (and \<^verbatim>\<open>time.RFC3339\<close>, which accepts the same texts), the
  inverse of the civil calendar, and \<^verbatim>\<open>filepath.Clean\<close> of an absolute path.
\<close>

section \<open>Dates\<close>

definition leap_year :: "int \<Rightarrow> bool" where
  "leap_year y \<longleftrightarrow> y mod 4 = 0 \<and> (y mod 100 \<noteq> 0 \<or> y mod 400 = 0)"

definition days_in :: "int \<Rightarrow> int \<Rightarrow> int" where
  "days_in y m = (if m = 2 then (if leap_year y then 29 else 28) else if m \<in> {4, 6, 9, 11} then 30 else 31)"

text \<open>Days since 0001-01-01; the year starts in March.\<close>

definition days_of :: "int \<Rightarrow> int \<Rightarrow> int \<Rightarrow> int" where
  "days_of y m d =
     (let z = (if m \<le> 2 then y - 1 else y); mp = (if m \<le> 2 then m + 9 else m - 3)
      in 365 * z + z div 4 - z div 100 + z div 400 + (153 * mp + 2) div 5 + d - 1 - 306)"

section \<open>Parsing\<close>

text \<open>\<^verbatim>\<open>getnum\<close>: two digits, or one where the layout does not ask for two.\<close>

definition digit_of :: "char \<Rightarrow> int" where "digit_of c = of_char c - 48"

fun getnum :: "bool \<Rightarrow> string \<Rightarrow> (int \<times> string) option" where
  "getnum fixed [] = None"
| "getnum fixed [a] = (if is_digit a \<and> \<not> fixed then Some (digit_of a, []) else None)"
| "getnum fixed (a # b # cs) =
     (if \<not> is_digit a then None
      else if is_digit b then Some (10 * digit_of a + digit_of b, cs)
      else if fixed then None else Some (digit_of a, b # cs))"

definition skip :: "string \<Rightarrow> string \<Rightarrow> string option" where
  "skip prefix s = (if take (length prefix) s = prefix then Some (drop (length prefix) s) else None)"

definition digits_value :: "string \<Rightarrow> int" where
  "digits_value ds = foldl (\<lambda>n c. 10 * n + digit_of c) 0 ds"

definition parse_year :: "string \<Rightarrow> (int \<times> string) option" where
  "parse_year s = (if length s \<ge> 4 \<and> list_all is_digit (take 4 s) then Some (digits_value (take 4 s), drop 4 s) else None)"

text \<open>A number of two digits (or one) with its range and what separates it from the next.\<close>

definition parse_part :: "bool \<Rightarrow> int \<Rightarrow> int \<Rightarrow> string \<Rightarrow> string \<Rightarrow> (int \<times> string) option" where
  "parse_part fixed low high separator s =
     (case getnum fixed s of
        None \<Rightarrow> None
      | Some (n, rest) \<Rightarrow>
          (if n < low \<or> n > high then None else map_option (Pair n) (skip separator rest)))"

text \<open>The fraction of a second: nine digits count, further ones are read and dropped.\<close>

definition parse_fraction :: "string \<Rightarrow> int \<times> string" where
  "parse_fraction s =
     (if length s \<ge> 2 \<and> (hd s = CHR ''.'' \<or> hd s = CHR '','') \<and> is_digit (s ! 1)
      then (let ds = takeWhile is_digit (tl s); kept = take 9 ds
            in (digits_value kept * 10 ^ (9 - length kept), drop (1 + length ds) s))
      else (0, s))"

text \<open>The zone: \<^verbatim>\<open>Z\<close> or an offset in seconds, of at most 24 hours and 60 minutes.\<close>

definition parse_zone :: "string \<Rightarrow> (int \<times> string) option" where
  "parse_zone s =
     (if s \<noteq> [] \<and> hd s = CHR ''Z'' then Some (0, tl s)
      else if length s < 6 \<or> s ! 3 \<noteq> CHR '':'' then None
      else case (getnum True (take 2 (drop 1 s)), getnum True (take 2 (drop 4 s))) of
        (Some (h, _), Some (m, _)) \<Rightarrow>
          (if h > 24 \<or> m > 60 then None
           else if hd s = CHR ''+'' then Some ((h * 60 + m) * 60, drop 6 s)
           else if hd s = CHR ''-'' then Some (- ((h * 60 + m) * 60), drop 6 s) else None)
      | _ \<Rightarrow> None)"

definition parse_date :: "string \<Rightarrow> (int \<times> string) option" where
  "parse_date s =
     (case parse_year s of
        None \<Rightarrow> None
      | Some (y, s) \<Rightarrow>
     (case skip ''-'' s of
        None \<Rightarrow> None
      | Some s \<Rightarrow>
     (case parse_part True 1 12 ''-'' s of
        None \<Rightarrow> None
      | Some (m, s) \<Rightarrow>
     (case getnum True s of
        None \<Rightarrow> None
      | Some (d, s) \<Rightarrow> (if d < 1 \<or> d > days_in y m then None else Some (days_of y m d, s))))))"

definition time_Parse :: "string \<Rightarrow> time option" where
  "time_Parse s =
     (case parse_date s of
        None \<Rightarrow> None
      | Some (days, s) \<Rightarrow>
     (case skip ''T'' s of
        None \<Rightarrow> None
      | Some s \<Rightarrow>
     (case parse_part False 0 23 '':'' s of
        None \<Rightarrow> None
      | Some (hour, s) \<Rightarrow>
     (case parse_part True 0 59 '':'' s of
        None \<Rightarrow> None
      | Some (minutes, s) \<Rightarrow>
     (case parse_part True 0 59 '''' s of
        None \<Rightarrow> None
      | Some (sec, s) \<Rightarrow>
     (case parse_fraction s of
        (ns, s) \<Rightarrow>
     (case parse_zone s of
        None \<Rightarrow> None
      | Some (offset, rest) \<Rightarrow>
          (if rest \<noteq> [] then None
           else Some ((days * 86400 + hour * 3600 + minutes * 60 + sec - offset) * second + ns)))))))))"

section \<open>Paths\<close>

text \<open>\<^verbatim>\<open>filepath.Clean\<close> of a path that starts with a slash.\<close>

fun clean_segments :: "string list \<Rightarrow> string list \<Rightarrow> string list" where
  "clean_segments kept [] = rev kept"
| "clean_segments kept (s # ss) =
     (if s = '''' \<or> s = ''.'' then clean_segments kept ss
      else if s = ''..'' then clean_segments (tl kept) ss
      else clean_segments (s # kept) ss)"

definition clean_path :: "string \<Rightarrow> string" where
  "clean_path p = CHR ''/'' # join_texts ''/'' (clean_segments [] (split_on CHR ''/'' p))"

end
