(* ===== verification/Operation_Plan_Probe.thy ===== *)
theory Operation_Plan_Probe
  imports Go_Time Operation_Plan_Runtime
begin

text \<open>
  The probe of one operation (\<^verbatim>\<open>operation_plan_probe.go\<close>): what a receipt of the child CLI must say to be
  accepted, the expectation built from the plan and the runtime lock (\<^verbatim>\<open>runtimebundle/bundle.go\<close>), and
  the run of the child.  The JSON decoder and the JSON Schema engine are a codec; the child, the clock and
  what the file system answers are the environment of a run.
\<close>

section \<open>Failures\<close>

text \<open>
  An error of Go is what \<^verbatim>\<open>errors.Is\<close> and \<^verbatim>\<open>errors.As\<close> find in it.
\<close>

datatype error_mark =
    Deadline_exceeded | Canceled | No_space | File_too_big | Path_error | Errno
  | Probe_unavailable
  | Quota_error quota_error
  | Attempt_error operation_attempt_error
  | History_error history_error

type_synonym cause = "error_mark list"

record operationPlanProbeFailure =
  pf_stage :: string
  pf_category :: string
  pf_cause :: cause

definition validOperationPlanProbeFailureStage :: "string \<Rightarrow> bool" where
  "validOperationPlanProbeFailureStage stage \<longleftrightarrow> stage \<in> {''preflight'', ''executable'', ''credential_binding'', ''receipt_directory'',
     ''child_start_or_wait'', ''output_limit'', ''receipt_read'', ''stdout_receipt_match'', ''clock'', ''receipt_validation'', ''unavailable''}"

definition validOperationPlanProbeFailureCategory :: "string \<Rightarrow> bool" where
  "validOperationPlanProbeFailureCategory category \<longleftrightarrow>
     category \<in> {''deadline'', ''canceled'', ''capacity'', ''io'', ''validation'', ''unavailable''}"

definition operationPlanProbeFailureCategory :: "cause \<Rightarrow> string" where
  "operationPlanProbeFailureCategory cause =
     (if Deadline_exceeded \<in> set cause then ''deadline''
      else if Canceled \<in> set cause then ''canceled''
      else if No_space \<in> set cause \<or> File_too_big \<in> set cause then ''capacity''
      else if Path_error \<in> set cause \<or> Errno \<in> set cause then ''io''
      else if Probe_unavailable \<in> set cause then ''validation''
      else ''unavailable'')"

definition newOperationPlanProbeFailureWithCategory :: "string \<Rightarrow> string \<Rightarrow> cause \<Rightarrow> operationPlanProbeFailure" where
  "newOperationPlanProbeFailureWithCategory stage category cause =
     \<lparr>pf_stage = (if validOperationPlanProbeFailureStage stage then stage else ''unavailable''),
      pf_category = (if validOperationPlanProbeFailureCategory category then category else ''unavailable''), pf_cause = cause\<rparr>"

definition newOperationPlanProbeFailure :: "string \<Rightarrow> cause \<Rightarrow> operationPlanProbeFailure" where
  "newOperationPlanProbeFailure stage cause =
     newOperationPlanProbeFailureWithCategory stage (operationPlanProbeFailureCategory cause) cause"

definition operationPlanProbeFailureDetails :: "operationPlanProbeFailure \<Rightarrow> string \<times> string" where
  "operationPlanProbeFailureDetails f =
     (if \<not> validOperationPlanProbeFailureStage (pf_stage f) \<or> \<not> validOperationPlanProbeFailureCategory (pf_category f)
      then (''unavailable'', ''unavailable'') else (pf_stage f, pf_category f))"

section \<open>The runtime lock\<close>

record Binary =
  bn_ArchiveSHA256 :: string
  bn_BinarySHA256 :: string

record Lock =
  lo_SchemaVersion :: string
  lo_CLI_SourceSHA :: string
  lo_CLI_Release :: string
  lo_CLI_Binaries :: "(string, Binary) gomap"
  lo_Registry_DatasetRevision :: string
  lo_Registry_DistributionRevision :: string
  lo_Registry_DistributionSHA256 :: string
  lo_Registry_SourceSHA :: string
  lo_Registry_SourceRegistrySHA256 :: string
  lo_Registry_ManifestSHA256 :: string
  lo_Registry_CatalogSHA256 :: string
  lo_Registry_ReleaseTag :: string
  lo_Registry_AcquiredAt :: string

definition releasePattern :: "string \<Rightarrow> bool" where
  "releasePattern s \<longleftrightarrow> s \<noteq> [] \<and> hd s = CHR ''v'' \<and> length (split_on CHR ''.'' (tl s)) = 3 \<and>
     list_all (\<lambda>part. part \<noteq> [] \<and> list_all is_digit part) (split_on CHR ''.'' (tl s))"

definition lock_Validate :: "Lock \<Rightarrow> bool" where
  "lock_Validate l \<longleftrightarrow> lo_SchemaVersion l = ''datapan.health-runtime-dependencies.v1'' \<and> commitPattern (lo_CLI_SourceSHA l) \<and>
     releasePattern (lo_CLI_Release l) \<and> length (lo_CLI_Binaries l) = 2 \<and> commitPattern (lo_Registry_DatasetRevision l) \<and>
     commitPattern (lo_Registry_DistributionRevision l) \<and> sha256Pattern (lo_Registry_DistributionSHA256 l) \<and>
     commitPattern (lo_Registry_SourceSHA l) \<and> sha256Pattern (lo_Registry_SourceRegistrySHA256 l) \<and>
     sha256Pattern (lo_Registry_ManifestSHA256 l) \<and> sha256Pattern (lo_Registry_CatalogSHA256 l) \<and>
     lo_Registry_ReleaseTag l = lo_Registry_DatasetRevision l \<and> time_Parse (lo_Registry_AcquiredAt l) \<noteq> None \<and>
     list_all (\<lambda>arch. case gm_get (lo_CLI_Binaries l) arch of None \<Rightarrow> False
       | Some b \<Rightarrow> sha256Pattern (bn_ArchiveSHA256 b) \<and> sha256Pattern (bn_BinarySHA256 b)) [''amd64'', ''arm64'']"

section \<open>Receipts\<close>

definition OperationPlanProbeReceiptSchemaVersion :: string where
  "OperationPlanProbeReceiptSchemaVersion = ''datapan.health-operation-plan-probe.v1''"
definition OperationPlanProbeReceiptSchemaURI :: string where
  "OperationPlanProbeReceiptSchemaURI = ''https://schemas.datapan.dev/datapan.health-operation-plan-probe.v1.schema.json''"
definition OperationPlanProbeReceiptSchemaSHA256 :: string where
  "OperationPlanProbeReceiptSchemaSHA256 = ''23fcac6ae7b47852f36e47fea24dd5d0dbeb795bef279529998233a835eefad9''"
definition maxOperationPlanProbeReceiptBytes :: nat where "maxOperationPlanProbeReceiptBytes = 64 * 1024"
definition maxOperationPlanProbeStderrBytes :: nat where "maxOperationPlanProbeStderrBytes = 8 * 1024"
definition maxOperationPlanProbeBinaryBytes :: int where "maxOperationPlanProbeBinaryBytes = 128 * 1024 * 1024"
definition maxOperationPlanProbeProcessOverhead :: duration where "maxOperationPlanProbeProcessOverhead = 5 * second"
definition maxOperationPlanProbeDeadline :: duration where "maxOperationPlanProbeDeadline = 30 * second"

record operationPlanProbeRegistry =
  pg_DatasetID :: string
  pg_RegistryRevision :: string
  pg_Distribution :: string
  pg_DistributionDatasetRevision :: string
  pg_RegistrySHA256 :: string
  pg_ManifestSHA256 :: string
  pg_OperationManifestSHA256 :: string
  pg_ProviderIndexSHA256 :: string
  pg_PlanSchemaSHA256 :: string
  pg_IndexSHA256 :: string
  pg_ShardSHA256 :: string
  pg_SourceIdentitySetSHA256 :: string

record operationPlanProbeOperation =
  po_OperationID :: string
  po_SourceID :: string
  po_Provider :: string
  po_AdapterID :: string
  po_Protocol :: string

record operationPlanProbeExecution =
  px_RequestStarted :: bool
  px_RequestBudget :: int
  px_TimeoutMS :: int
  px_DurationMS :: int

record operationPlanProbeObservation =
  pb_ResponseObserved :: bool
  pb_ObservedAt :: string
  pb_HTTPStatus :: int
  pb_Outcome :: string
  pb_ReasonCode :: string
  pb_AssertionKind :: string
  pb_AssertionStatus :: string

record operationPlanProbeRedaction =
  pd_CredentialValuesRemoved :: bool
  pd_CredentialReferencesRemoved :: bool
  pd_CredentialEnvNamesRemoved :: bool
  pd_QueryValuesRemoved :: bool
  pd_RequestBodyRemoved :: bool
  pd_ResponseBodyRemoved :: bool
  pd_ResponseRowsRemoved :: bool
  pd_EndpointDetailsRemoved :: bool
  pd_QuotaDetailsRemoved :: bool

record operationPlanProbeReceipt =
  xr_SchemaVersion :: string
  xr_AttemptID :: string
  xr_CLI_Version :: string
  xr_CLI_BinarySHA256 :: string
  xr_Registry :: operationPlanProbeRegistry
  xr_Operation :: operationPlanProbeOperation
  xr_Execution :: operationPlanProbeExecution
  xr_Observation :: operationPlanProbeObservation
  xr_Redaction :: operationPlanProbeRedaction

text \<open>\<^verbatim>\<open>json.Marshal\<close> of a receipt.\<close>

definition probe_registry_json :: "operationPlanProbeRegistry \<Rightarrow> jout" where
  "probe_registry_json g = JO_obj
     ([(''dataset_id'', JO_str (pg_DatasetID g)), (''registry_revision'', JO_str (pg_RegistryRevision g)),
       (''distribution'', JO_str (pg_Distribution g))] @
      omit_empty ''distribution_dataset_revision'' (JO_str (pg_DistributionDatasetRevision g)) @
      [(''registry_sha256'', JO_str (pg_RegistrySHA256 g)), (''manifest_sha256'', JO_str (pg_ManifestSHA256 g)),
       (''operation_manifest_sha256'', JO_str (pg_OperationManifestSHA256 g)),
       (''provider_index_sha256'', JO_str (pg_ProviderIndexSHA256 g)), (''plan_schema_sha256'', JO_str (pg_PlanSchemaSHA256 g)),
       (''index_sha256'', JO_str (pg_IndexSHA256 g)), (''shard_sha256'', JO_str (pg_ShardSHA256 g)),
       (''source_identity_set_sha256'', JO_str (pg_SourceIdentitySetSHA256 g))])"

definition probe_observation_json :: "operationPlanProbeObservation \<Rightarrow> jout" where
  "probe_observation_json b = JO_obj
     ([(''response_observed'', JO_bool (pb_ResponseObserved b))] @ omit_empty ''observed_at'' (JO_str (pb_ObservedAt b)) @
      omit_empty ''http_status'' (JO_int (pb_HTTPStatus b)) @
      [(''outcome'', JO_str (pb_Outcome b)), (''reason_code'', JO_str (pb_ReasonCode b)),
       (''assertion_kind'', JO_str (pb_AssertionKind b)), (''assertion_status'', JO_str (pb_AssertionStatus b))])"

definition probe_redaction_json :: "operationPlanProbeRedaction \<Rightarrow> jout" where
  "probe_redaction_json d = JO_obj
     [(''credential_values_removed'', JO_bool (pd_CredentialValuesRemoved d)),
      (''credential_references_removed'', JO_bool (pd_CredentialReferencesRemoved d)),
      (''credential_env_names_removed'', JO_bool (pd_CredentialEnvNamesRemoved d)),
      (''query_values_removed'', JO_bool (pd_QueryValuesRemoved d)), (''request_body_removed'', JO_bool (pd_RequestBodyRemoved d)),
      (''response_body_removed'', JO_bool (pd_ResponseBodyRemoved d)), (''response_rows_removed'', JO_bool (pd_ResponseRowsRemoved d)),
      (''endpoint_details_removed'', JO_bool (pd_EndpointDetailsRemoved d)), (''quota_details_removed'', JO_bool (pd_QuotaDetailsRemoved d))]"

definition probe_receipt_json :: "operationPlanProbeReceipt \<Rightarrow> jout" where
  "probe_receipt_json r = JO_obj
     [(''schema_version'', JO_str (xr_SchemaVersion r)), (''attempt_id'', JO_str (xr_AttemptID r)),
      (''cli'', JO_obj [(''version'', JO_str (xr_CLI_Version r)), (''binary_sha256'', JO_str (xr_CLI_BinarySHA256 r))]),
      (''registry'', probe_registry_json (xr_Registry r)),
      (''operation'', JO_obj
         [(''operation_id'', JO_str (po_OperationID (xr_Operation r))), (''source_id'', JO_str (po_SourceID (xr_Operation r))),
          (''provider'', JO_str (po_Provider (xr_Operation r))), (''adapter_id'', JO_str (po_AdapterID (xr_Operation r))),
          (''protocol'', JO_str (po_Protocol (xr_Operation r)))]),
      (''execution'', JO_obj
         [(''request_started'', JO_bool (px_RequestStarted (xr_Execution r))),
          (''request_budget'', JO_int (px_RequestBudget (xr_Execution r))),
          (''timeout_ms'', JO_int (px_TimeoutMS (xr_Execution r))), (''duration_ms'', JO_int (px_DurationMS (xr_Execution r)))]),
      (''observation'', probe_observation_json (xr_Observation r)), (''redaction'', probe_redaction_json (xr_Redaction r))]"

definition canonical_receipt :: "operationPlanProbeReceipt \<Rightarrow> string" where
  "canonical_receipt r = json_text (probe_receipt_json r) @ [CHR 0x0A]"

record probe_codec =
  pc_schema_ok :: "string \<Rightarrow> bool"
  pc_schema_sha :: string
  pc_receipt :: "string \<Rightarrow> operationPlanProbeReceipt option"

section \<open>Expectations\<close>

record OperationPlanProbeExpectation =
  pe_AttemptID :: string
  pe_CLIVersion :: string
  pe_CLIBinarySHA256 :: string
  pe_DatasetID :: string
  pe_Distribution :: string
  pe_DistributionDatasetRevision :: string
  pe_RegistrySHA256 :: string
  pe_RegistryRevision :: string
  pe_ReleaseManifestSHA256 :: string
  pe_OperationManifestSHA256 :: string
  pe_ProviderIndexSHA256 :: string
  pe_PlanSchemaSHA256 :: string
  pe_IndexSHA256 :: string
  pe_ShardSHA256 :: string
  pe_SourceIdentitySetSHA256 :: string
  pe_SourceID :: string
  pe_OperationID :: string
  pe_Provider :: string
  pe_AdapterID :: string
  pe_Protocol :: string
  pe_ResponseAssertionKind :: string
  pe_RequestTimeout :: duration
  pe_StartedAt :: time

record OperationPlanProbeConfig =
  xf_ExecutablePath :: string
  xf_ExecutableSHA256 :: string
  xf_CLIVersion :: string
  xf_RegistryIndexPath :: string
  xf_CredentialBindings :: string
  xf_ReceiptDirectory :: string
  xf_EnvironmentNames :: "string list"

definition validOperationProbeAssertionKind :: "string \<Rightarrow> string \<Rightarrow> bool" where
  "validOperationProbeAssertionKind protocol kind \<longleftrightarrow>
     (if protocol = ''REST'' then kind \<in> {''http_status'', ''json_contract'', ''observation_only''}
      else if protocol = ''SOAP'' then kind \<in> {''http_status'', ''soap_fault_free'', ''xml_contract'', ''observation_only''}
      else False)"

definition validOperationProbeExpectation :: "OperationPlanProbeExpectation \<Rightarrow> string \<Rightarrow> string \<Rightarrow> bool" where
  "validOperationProbeExpectation e version sha \<longleftrightarrow> quotaAttemptIDPattern (pe_AttemptID e) \<and> pe_CLIVersion e = version \<and>
     pe_CLIBinarySHA256 e = sha \<and> pe_DatasetID e = ''StatPan/datapan-registry'' \<and> pe_Distribution e = ''huggingface_dataset'' \<and>
     commitPattern (pe_DistributionDatasetRevision e) \<and> sha256Pattern (pe_RegistrySHA256 e) \<and> commitPattern (pe_RegistryRevision e) \<and>
     sha256Pattern (pe_ReleaseManifestSHA256 e) \<and> sha256Pattern (pe_OperationManifestSHA256 e) \<and>
     sha256Pattern (pe_ProviderIndexSHA256 e) \<and> sha256Pattern (pe_PlanSchemaSHA256 e) \<and> sha256Pattern (pe_IndexSHA256 e) \<and>
     sha256Pattern (pe_ShardSHA256 e) \<and> sha256Pattern (pe_SourceIdentitySetSHA256 e) \<and> operationSourceIDPattern (pe_SourceID e) \<and>
     pe_OperationID e \<noteq> '''' \<and> length (pe_OperationID e) \<le> 256 \<and> pe_Provider e \<noteq> '''' \<and> pe_AdapterID e \<noteq> '''' \<and>
     (pe_Protocol e = ''REST'' \<or> pe_Protocol e = ''SOAP'') \<and>
     validOperationProbeAssertionKind (pe_Protocol e) (pe_ResponseAssertionKind e) \<and> pe_RequestTimeout e > 0 \<and>
     pe_RequestTimeout e \<le> maxOperationPlanProbeDeadline - maxOperationPlanProbeProcessOverhead \<and> \<not> IsZero (pe_StartedAt e)"

definition validOperationPlanProbeGenerationInputPins :: "operationPlanIndexState \<Rightarrow> bool" where
  "validOperationPlanProbeGenerationInputPins state \<longleftrightarrow> sx_verified state \<and>
     (let m = sx_operationManifestRef state in releaseManifestBinds (sx_manifest state) (ar_Path m) (ar_Bytes m) (ar_SHA256 m)) \<and>
     (case sx_providerIndexRef state of None \<Rightarrow> True
      | Some p \<Rightarrow> releaseManifestBinds (sx_manifest state) (ar_Path p) (ar_Bytes p) (ar_SHA256 p))"

definition operationPlanProbeExpected ::
  "PinnedOperationObservationPlan \<Rightarrow> OperationObservationPlanRecord \<Rightarrow> string \<Rightarrow> string \<Rightarrow> Lock \<Rightarrow> string \<Rightarrow> time
    \<Rightarrow> OperationPlanProbeExpectation option" where
  "operationPlanProbeExpected plan r shardSHA attemptID lock arch startedAt =
     (if \<not> sx_verified (pp_state plan) \<or> \<not> op_ExecutionEligible r \<or> \<not> sha256Pattern shardSHA \<or> \<not> lock_Validate lock then None
      else case gm_get (sx_byScope (pp_state plan)) (op_SourceID r) of
        None \<Rightarrow> None
      | Some scope \<Rightarrow>
          (if sp_Provider scope \<noteq> op_Provider r \<or> sp_AdapterID scope \<noteq> op_AdapterID r \<or>
              \<not> sha256Pattern (sp_IdentitySetSHA256 scope) \<or> \<not> validOperationPlanProbeGenerationInputPins (pp_state plan) then None
           else case (sx_providerIndexRef (pp_state plan), gm_get (lo_CLI_Binaries lock) arch) of
             (Some provider, Some binary) \<Rightarrow>
               Some \<lparr>pe_AttemptID = attemptID, pe_CLIVersion = lo_CLI_Release lock, pe_CLIBinarySHA256 = bn_BinarySHA256 binary,
                 pe_DatasetID = ''StatPan/datapan-registry'', pe_Distribution = ''huggingface_dataset'',
                 pe_DistributionDatasetRevision = lo_Registry_DatasetRevision lock,
                 pe_RegistrySHA256 = lo_Registry_SourceRegistrySHA256 lock, pe_RegistryRevision = RegistryRevision plan,
                 pe_ReleaseManifestSHA256 = bi_ReleaseManifestSHA256 (pp_binding plan),
                 pe_OperationManifestSHA256 = ar_SHA256 (sx_operationManifestRef (pp_state plan)),
                 pe_ProviderIndexSHA256 = ar_SHA256 provider, pe_PlanSchemaSHA256 = bi_SchemaSHA256 (pp_binding plan),
                 pe_IndexSHA256 = IndexSHA256 plan, pe_ShardSHA256 = shardSHA,
                 pe_SourceIdentitySetSHA256 = sp_IdentitySetSHA256 scope, pe_SourceID = op_SourceID r,
                 pe_OperationID = op_OperationID r, pe_Provider = op_Provider r, pe_AdapterID = op_AdapterID r,
                 pe_Protocol = op_Protocol r, pe_ResponseAssertionKind = op_ResponseAssertionKind r,
                 pe_RequestTimeout = op_RequestTimeout r, pe_StartedAt = startedAt\<rparr>
           | _ \<Rightarrow> None))"

section \<open>Receipts against their expectation\<close>

text \<open>The identity of the receipt, its bounds and its redaction.\<close>

definition receipt_bound :: "operationPlanProbeReceipt \<Rightarrow> OperationPlanProbeExpectation \<Rightarrow> bool" where
  "receipt_bound r e \<longleftrightarrow> (let g = xr_Registry r; p = xr_Operation r in
     xr_SchemaVersion r = OperationPlanProbeReceiptSchemaVersion \<and> xr_AttemptID r = pe_AttemptID e \<and>
     xr_CLI_Version r = pe_CLIVersion e \<and> xr_CLI_BinarySHA256 r = pe_CLIBinarySHA256 e \<and>
     pg_DatasetID g = pe_DatasetID e \<and> pg_RegistryRevision g = pe_RegistryRevision e \<and> pg_Distribution g = pe_Distribution e \<and>
     pg_DistributionDatasetRevision g = pe_DistributionDatasetRevision e \<and> pg_RegistrySHA256 g = pe_RegistrySHA256 e \<and>
     pg_ManifestSHA256 g = pe_ReleaseManifestSHA256 e \<and> pg_OperationManifestSHA256 g = pe_OperationManifestSHA256 e \<and>
     pg_ProviderIndexSHA256 g = pe_ProviderIndexSHA256 e \<and> pg_PlanSchemaSHA256 g = pe_PlanSchemaSHA256 e \<and>
     pg_IndexSHA256 g = pe_IndexSHA256 e \<and> pg_ShardSHA256 g = pe_ShardSHA256 e \<and>
     pg_SourceIdentitySetSHA256 g = pe_SourceIdentitySetSHA256 e \<and> po_OperationID p = pe_OperationID e \<and>
     po_SourceID p = pe_SourceID e \<and> po_Provider p = pe_Provider e \<and> po_AdapterID p = pe_AdapterID e \<and>
     po_Protocol p = pe_Protocol e \<and> pb_AssertionKind (xr_Observation r) = pe_ResponseAssertionKind e)"

definition receipt_redacted :: "operationPlanProbeRedaction \<Rightarrow> bool" where
  "receipt_redacted d \<longleftrightarrow> pd_CredentialValuesRemoved d \<and> pd_CredentialReferencesRemoved d \<and> pd_CredentialEnvNamesRemoved d \<and>
     pd_QueryValuesRemoved d \<and> pd_RequestBodyRemoved d \<and> pd_ResponseBodyRemoved d \<and> pd_ResponseRowsRemoved d \<and>
     pd_EndpointDetailsRemoved d \<and> pd_QuotaDetailsRemoved d"

text \<open>The sum with the second may leave the 64 bits of a duration.\<close>

definition receipt_timed :: "operationPlanProbeExecution \<Rightarrow> OperationPlanProbeExpectation \<Rightarrow> time \<Rightarrow> time \<Rightarrow> bool" where
  "receipt_timed x e startedAt receivedAt \<longleftrightarrow> px_TimeoutMS x = milliseconds (pe_RequestTimeout e) \<and> px_DurationMS x \<ge> 0 \<and>
     px_DurationMS x \<le> milliseconds (wrap64 (time_Sub receivedAt startedAt + second))"

definition receipt_request_ok :: "operationPlanProbeReceipt \<Rightarrow> bool" where
  "receipt_request_ok r \<longleftrightarrow> (let x = xr_Execution r; b = xr_Observation r in
     if px_RequestStarted x then px_RequestBudget x = 1
     else px_RequestBudget x = 0 \<and> \<not> pb_ResponseObserved b \<and> pb_ObservedAt b = '''' \<and> pb_HTTPStatus b = 0)"

definition receipt_response_ok :: "operationPlanProbeObservation \<Rightarrow> time \<Rightarrow> time \<Rightarrow> bool" where
  "receipt_response_ok b startedAt receivedAt \<longleftrightarrow>
     (if pb_ResponseObserved b
      then 100 \<le> pb_HTTPStatus b \<and> pb_HTTPStatus b \<le> 599 \<and> pb_ObservedAt b \<noteq> '''' \<and>
        (case time_Parse (pb_ObservedAt b) of None \<Rightarrow> False
         | Some observedAt \<Rightarrow> \<not> observedAt < startedAt - second \<and> \<not> observedAt > receivedAt + second)
      else pb_HTTPStatus b = 0 \<and> pb_ObservedAt b = '''')"

definition receipt_outcome_ok :: "operationPlanProbeReceipt \<Rightarrow> string \<Rightarrow> int \<Rightarrow> bool" where
  "receipt_outcome_ok r kind exitCode \<longleftrightarrow>
     (let b = xr_Observation r; started = px_RequestStarted (xr_Execution r); observed = pb_ResponseObserved b; reason = pb_ReasonCode b
      in if pb_Outcome b = ''healthy''
         then kind \<noteq> ''observation_only'' \<and> exitCode = 0 \<and> started \<and> observed \<and> pb_AssertionStatus b = ''passed'' \<and>
           reason = ''response_assertion_passed''
         else if pb_Outcome b = ''unhealthy''
         then exitCode = 4 \<and> started \<and> observed \<and> pb_AssertionStatus b = ''failed'' \<and>
           (if kind = ''observation_only'' then reason = ''response_http_failure'' \<and> (pb_HTTPStatus b < 200 \<or> pb_HTTPStatus b \<ge> 300)
            else reason = ''response_assertion_failed'' \<or> reason = ''response_assertion_invalid'')
         else if pb_Outcome b = ''blocked''
         then exitCode = 3 \<and> \<not> started \<and> \<not> observed \<and> pb_AssertionStatus b = ''not_run'' \<and>
           reason \<in> {''credential_binding_unavailable'', ''credential_binding_mismatch'', ''credential_source_unavailable'',
             ''operation_plan_unsupported'', ''deadline_expired_before_request'', ''request_limit_exceeded''}
         else if pb_Outcome b = ''indeterminate''
         then exitCode = 4 \<and> started \<and> pb_AssertionStatus b = ''not_run'' \<and>
           (if reason = ''response_semantics_unestablished''
            then kind = ''observation_only'' \<and> observed \<and> 200 \<le> pb_HTTPStatus b \<and> pb_HTTPStatus b < 300
            else reason \<in> {''request_deadline_exceeded'', ''request_limit_exceeded'', ''response_limit_exceeded'',
              ''request_transport_failed'', ''response_read_failed'', ''response_invalid''})
         else False)"

definition validOperationProbeReceiptSemantics ::
  "operationPlanProbeReceipt \<Rightarrow> OperationPlanProbeExpectation \<Rightarrow> time \<Rightarrow> time \<Rightarrow> int \<Rightarrow> bool" where
  "validOperationProbeReceiptSemantics r e startedAt receivedAt exitCode \<longleftrightarrow>
     receipt_bound r e \<and> receipt_timed (xr_Execution r) e startedAt receivedAt \<and> receipt_redacted (xr_Redaction r) \<and>
     receipt_request_ok r \<and> receipt_response_ok (xr_Observation r) startedAt receivedAt \<and>
     receipt_outcome_ok r (pe_ResponseAssertionKind e) exitCode"

text \<open>The result the durable stores see, with the receipt itself.\<close>

record probe_result = OperationPlanProbeResult +
  pr_Receipt :: operationPlanProbeReceipt
  pr_ReceiptBytes :: string
  pr_ReceivedAt :: time

text \<open>\<^verbatim>\<open>time.Duration(n) * time.Millisecond\<close>\<close>

definition receipt_latency :: "operationPlanProbeReceipt \<Rightarrow> duration" where
  "receipt_latency r = wrap64 (px_DurationMS (xr_Execution r) * 1000000)"

definition accepted_result :: "operationPlanProbeReceipt \<Rightarrow> string \<Rightarrow> time \<Rightarrow> time \<Rightarrow> probe_result" where
  "accepted_result r raw receivedAt observedAt =
     \<lparr>pr_ReceiptSHA256 = sha256_hex raw, pr_ObservedAt = observedAt, pr_Outcome = pb_Outcome (xr_Observation r),
      pr_ReasonCode = pb_ReasonCode (xr_Observation r), pr_RequestStarted = px_RequestStarted (xr_Execution r),
      pr_HTTPStatus = pb_HTTPStatus (xr_Observation r), pr_Latency = receipt_latency r, pr_Receipt = r, pr_ReceiptBytes = raw,
      pr_ReceivedAt = receivedAt\<rparr>"

definition observed_time :: "operationPlanProbeReceipt \<Rightarrow> time option" where
  "observed_time r = (if pb_ObservedAt (xr_Observation r) = '''' then Some time_zero else time_Parse (pb_ObservedAt (xr_Observation r)))"

definition ValidateOperationPlanProbeReceipt ::
  "probe_codec \<Rightarrow> string \<Rightarrow> OperationPlanProbeExpectation \<Rightarrow> time \<Rightarrow> time \<Rightarrow> int \<Rightarrow> probe_result option" where
  "ValidateOperationPlanProbeReceipt pc raw e startedAt receivedAt exitCode =
     (if raw = '''' \<or> length raw > maxOperationPlanProbeReceiptBytes \<or> pc_schema_sha pc \<noteq> OperationPlanProbeReceiptSchemaSHA256 \<or>
         \<not> pc_schema_ok pc raw \<or> \<not> validOperationProbeExpectation e (pe_CLIVersion e) (pe_CLIBinarySHA256 e) \<or>
         IsZero startedAt \<or> startedAt \<noteq> pe_StartedAt e \<or> receivedAt < startedAt
      then None
      else case pc_receipt pc raw of
        None \<Rightarrow> None
      | Some r \<Rightarrow>
          (if canonical_receipt r \<noteq> raw \<or> \<not> validOperationProbeReceiptSemantics r e startedAt receivedAt exitCode then None
           else case observed_time r of
             None \<Rightarrow> None
           | Some observedAt \<Rightarrow>
               (if receipt_latency r < 0 \<or> receipt_latency r > maxOperationPlanProbeDeadline then None
                else Some (accepted_result r raw receivedAt observedAt))))"

section \<open>The child\<close>

text \<open>What \<^verbatim>\<open>Lstat\<close> says of a path, and what opening it without following a link gives.\<close>

datatype file_kind = Regular_file | Directory_file | Other_file

record file_info =
  fi_kind :: file_kind
  fi_perm :: nat
  fi_size :: int

text \<open>No permission for group and others: \<^verbatim>\<open>perm & 0o077 == 0\<close>.\<close>

definition private_perm :: "nat \<Rightarrow> bool" where "private_perm perm \<longleftrightarrow> perm mod 64 = 0"

definition executable_perm :: "nat \<Rightarrow> bool" where "executable_perm perm \<longleftrightarrow> odd perm \<or> odd (perm div 8) \<or> odd (perm div 64)"

text \<open>How the child ended: with an exit code, or it could not be started or waited for.\<close>

datatype child_end = Exited int | Not_run cause

record child_outcome =
  co_stdout :: "string list"
  co_stderr :: "string list"
  co_end :: child_end
  co_receipt :: "(file_info \<times> string) option"

record probe_env =
  en_clock_after :: time
  en_clock_sub :: time
  en_clock_started :: time
  en_clock_received :: time
  en_open :: "string \<Rightarrow> (file_info \<times> string) option"
  en_lstat :: "string \<Rightarrow> file_info option"
  en_mkdir :: "cause option"
  en_mkdirTemp :: "cause + string"
  en_chmod :: "cause option"
  en_child :: "string list \<Rightarrow> child_outcome"

text \<open>\<^verbatim>\<open>boundedOperationOutput\<close>: the bytes kept and whether more came.\<close>

definition output_Write :: "nat \<Rightarrow> string \<Rightarrow> string \<times> bool \<Rightarrow> string \<times> bool" where
  "output_Write limit chunk = (\<lambda>(kept, exceeded).
     let remaining = int limit - int (length kept)
     in (if remaining > 0 then kept @ take (nat remaining) chunk else kept, exceeded \<or> int (length chunk) > remaining))"

definition bounded_output :: "nat \<Rightarrow> string list \<Rightarrow> string \<times> bool" where
  "bounded_output limit chunks = fold (output_Write limit) chunks ('''', False)"

definition openVerifiedExecutable :: "probe_env \<Rightarrow> OperationPlanProbeConfig \<Rightarrow> bool" where
  "openVerifiedExecutable env c \<longleftrightarrow> xf_ExecutablePath c \<noteq> '''' \<and>
     (case en_open env (xf_ExecutablePath c) of
        None \<Rightarrow> False
      | Some (info, bytes) \<Rightarrow> fi_kind info = Regular_file \<and> executable_perm (fi_perm info) \<and> fi_size info \<ge> 1 \<and>
          fi_size info \<le> maxOperationPlanProbeBinaryBytes \<and>
          sha256_hex (take (nat (maxOperationPlanProbeBinaryBytes + 1)) bytes) = xf_ExecutableSHA256 c)"

definition VerifyExecutable :: "probe_env \<Rightarrow> OperationPlanProbeConfig \<Rightarrow> bool" where
  "VerifyExecutable env c \<longleftrightarrow> xf_ExecutablePath c \<noteq> '''' \<and> openVerifiedExecutable env c"

definition operationPlanInstallRootFromIndex :: "string \<Rightarrow> string option" where
  "operationPlanInstallRootFromIndex indexPath =
     (let suffix = ''/reports/operation-observation-plan/index.json''; clean = clean_path indexPath
      in if \<not> is_abs indexPath \<or> \<not> has_suffix clean suffix then None
         else let whole = take (length clean - length suffix) clean in Some (if whole = '''' then ''/'' else whole))"

text \<open>A runner is its configuration with its working directory.\<close>

definition NewOperationPlanProbeRunner :: "probe_env \<Rightarrow> OperationPlanProbeConfig \<Rightarrow> (OperationPlanProbeConfig \<times> string) option" where
  "NewOperationPlanProbeRunner env c =
     (if \<not> is_abs (xf_ExecutablePath c) \<or> \<not> is_abs (xf_RegistryIndexPath c) \<or> \<not> is_abs (xf_CredentialBindings c) \<or>
         \<not> is_abs (xf_ReceiptDirectory c) \<or> \<not> sha256Pattern (xf_ExecutableSHA256 c) \<or> blank (xf_CLIVersion c) \<or>
         length (xf_CLIVersion c) > 64
      then None
      else case operationPlanInstallRootFromIndex (xf_RegistryIndexPath c) of
        None \<Rightarrow> None
      | Some directory \<Rightarrow> (if VerifyExecutable env c then Some (c, directory) else None))"

definition OperationPlanProbeConfigFromRuntimeLock ::
  "Lock \<Rightarrow> string \<Rightarrow> string \<Rightarrow> string \<Rightarrow> string \<Rightarrow> string \<Rightarrow> string list \<Rightarrow> OperationPlanProbeConfig option" where
  "OperationPlanProbeConfigFromRuntimeLock lock arch cliPath indexPath credentialBindings receiptDirectory environmentNames =
     (if \<not> lock_Validate lock then None
      else case gm_get (lo_CLI_Binaries lock) arch of
        None \<Rightarrow> None
      | Some binary \<Rightarrow>
          Some \<lparr>xf_ExecutablePath = cliPath, xf_ExecutableSHA256 = bn_BinarySHA256 binary, xf_CLIVersion = lo_CLI_Release lock,
            xf_RegistryIndexPath = indexPath, xf_CredentialBindings = credentialBindings, xf_ReceiptDirectory = receiptDirectory,
            xf_EnvironmentNames = environmentNames\<rparr>)"

definition checkOperationCredentialBindingFile :: "probe_env \<Rightarrow> string \<Rightarrow> bool" where
  "checkOperationCredentialBindingFile env path \<longleftrightarrow>
     (case en_lstat env path of
        None \<Rightarrow> False
      | Some info \<Rightarrow> fi_kind info = Regular_file \<and> fi_size info \<ge> 1 \<and> fi_size info \<le> 256 * 1024 \<and> private_perm (fi_perm info))"

definition checkPrivateOperationDirectory :: "probe_env \<Rightarrow> string \<Rightarrow> bool" where
  "checkPrivateOperationDirectory env path \<longleftrightarrow>
     (case en_lstat env path of None \<Rightarrow> False | Some info \<Rightarrow> fi_kind info = Directory_file \<and> private_perm (fi_perm info))"

definition readOperationProbeReceiptFile :: "(file_info \<times> string) option \<Rightarrow> string option" where
  "readOperationProbeReceiptFile file =
     (case file of
        None \<Rightarrow> None
      | Some (info, bytes) \<Rightarrow>
          (if fi_kind info \<noteq> Regular_file \<or> fi_perm info \<noteq> 384 \<or> fi_size info < 1 \<or>
              fi_size info > int maxOperationPlanProbeReceiptBytes \<or> bytes = '''' \<or> length bytes > maxOperationPlanProbeReceiptBytes
           then None else Some bytes))"

definition child_arguments :: "OperationPlanProbeConfig \<Rightarrow> OperationPlanProbeExpectation \<Rightarrow> time \<Rightarrow> string \<Rightarrow> string list" where
  "child_arguments c e deadline outputPath =
     [''verify'', ''--health'', ''--json'', ''--health-plan-index'', xf_RegistryIndexPath c, ''--health-source-id'', pe_SourceID e,
      ''--health-operation-id'', pe_OperationID e, ''--health-registry-revision'', pe_RegistryRevision e,
      ''--health-credential-bindings'', xf_CredentialBindings c, ''--health-attempt-id'', pe_AttemptID e,
      ''--health-cli-version'', xf_CLIVersion c, ''--health-deadline'', time_text deadline, ''--output'', outputPath]"

text \<open>What has to hold before the child is started: the directory its receipt goes to, or the failure.\<close>

definition prepare_run ::
  "probe_env \<Rightarrow> OperationPlanProbeConfig \<Rightarrow> OperationPlanProbeExpectation \<Rightarrow> time \<Rightarrow> operationPlanProbeFailure + string" where
  "prepare_run env c e deadline =
     (let refuse = (\<lambda>stage. Inl (newOperationPlanProbeFailure stage [Probe_unavailable]))
      in if \<not> validOperationProbeExpectation e (xf_CLIVersion c) (xf_ExecutableSHA256 c) \<or> IsZero deadline \<or>
            \<not> deadline > en_clock_after env \<or> time_Sub deadline (en_clock_sub env) > maxOperationPlanProbeDeadline
         then refuse ''preflight''
         else if \<not> openVerifiedExecutable env c then refuse ''executable''
         else if \<not> checkOperationCredentialBindingFile env (xf_CredentialBindings c) then refuse ''credential_binding''
         else case en_mkdir env of
           Some cause \<Rightarrow> Inl (newOperationPlanProbeFailure ''receipt_directory'' cause)
         | None \<Rightarrow>
             (if \<not> checkPrivateOperationDirectory env (xf_ReceiptDirectory c) then refuse ''receipt_directory''
              else case en_mkdirTemp env of
                Inl cause \<Rightarrow> Inl (newOperationPlanProbeFailure ''receipt_directory'' cause)
              | Inr directory \<Rightarrow>
                  (case en_chmod env of
                     Some cause \<Rightarrow> Inl (newOperationPlanProbeFailure ''receipt_directory'' cause)
                   | None \<Rightarrow> Inr directory)))"

text \<open>What the child leaves, judged.\<close>

definition judge_child ::
  "probe_codec \<Rightarrow> probe_env \<Rightarrow> OperationPlanProbeExpectation \<Rightarrow> child_outcome
    \<Rightarrow> (operationPlanProbeFailure + probe_result) \<times> int" where
  "judge_child pc env e child =
     (case co_end child of
        Not_run cause \<Rightarrow> (Inl (newOperationPlanProbeFailure ''child_start_or_wait'' cause), - 1)
      | Exited exitCode \<Rightarrow>
          (let stdout = bounded_output maxOperationPlanProbeReceiptBytes (co_stdout child);
               stderr = bounded_output maxOperationPlanProbeStderrBytes (co_stderr child);
               refuse = (\<lambda>stage. (Inl (newOperationPlanProbeFailure stage [Probe_unavailable]), exitCode))
           in if snd stdout \<or> snd stderr
              then (Inl (newOperationPlanProbeFailureWithCategory ''output_limit'' ''capacity'' [Probe_unavailable]), exitCode)
              else case readOperationProbeReceiptFile (co_receipt child) of
                None \<Rightarrow> refuse ''receipt_read''
              | Some receiptBytes \<Rightarrow>
                  (if fst stdout \<noteq> receiptBytes then refuse ''stdout_receipt_match''
                   else if en_clock_started env < pe_StartedAt e - second then refuse ''clock''
                   else case ValidateOperationPlanProbeReceipt pc receiptBytes e (pe_StartedAt e) (en_clock_received env) exitCode of
                     None \<Rightarrow> refuse ''receipt_validation''
                   | Some result \<Rightarrow> (Inr result, exitCode))))"

definition probe_Run ::
  "probe_codec \<Rightarrow> probe_env \<Rightarrow> OperationPlanProbeConfig \<Rightarrow> OperationPlanProbeExpectation \<Rightarrow> time
    \<Rightarrow> (operationPlanProbeFailure + probe_result) \<times> int" where
  "probe_Run pc env c e deadline =
     (case prepare_run env c e deadline of
        Inl failure \<Rightarrow> (Inl failure, - 1)
      | Inr directory \<Rightarrow> judge_child pc env e (en_child env (child_arguments c e deadline (directory @ ''/receipt.json''))))"

text \<open>A random identity: a version 4 UUID.\<close>

definition NewOperationPlanProbeAttemptID :: "nat list option \<Rightarrow> string option" where
  "NewOperationPlanProbeAttemptID random =
     map_option (\<lambda>bytes.
       let encoded = hex_encode (bytes[6 := bytes ! 6 mod 16 + 64, 8 := bytes ! 8 mod 64 + 128])
       in take 8 encoded @ ''-'' @ take 4 (drop 8 encoded) @ ''-'' @ take 4 (drop 12 encoded) @ ''-'' @
          take 4 (drop 16 encoded) @ ''-'' @ drop 20 encoded) random"

end
