(* ===== verification/Operation_Plan_Probe_History.thy ===== *)
theory Operation_Plan_Probe_History
  imports Operation_Plan_Probe
begin

text \<open>
  Receipts as records of the archive (\<^verbatim>\<open>operation_plan_probe_history.go\<close>): a record is made from an accepted
  receipt, and validated again whenever it is read, against an expectation that is derived from the
  pinned plan and the runtime lock and not from the record.
\<close>

definition operationPlanProbeHistoryValidatorIdentity :: string where
  "operationPlanProbeHistoryValidatorIdentity = ''datapan-health-operation-plan-probe''"

text \<open>The resolver is an interface; its context is the first argument.\<close>

type_synonym expectation_resolver = "bool \<Rightarrow> OperationHistoryIdentity \<Rightarrow> time \<Rightarrow> OperationPlanProbeExpectation option"

record OperationPlanProbeHistoryValidator =
  hv_ValidatorRevision :: string
  hv_Expectations :: expectation_resolver

definition NewOperationPlanProbeHistoryValidator ::
  "string \<Rightarrow> expectation_resolver option \<Rightarrow> OperationPlanProbeHistoryValidator option" where
  "NewOperationPlanProbeHistoryValidator revision expectations =
     (case expectations of
        None \<Rightarrow> None
      | Some resolve \<Rightarrow>
          (if \<not> commitPattern revision then None
           else Some \<lparr>hv_ValidatorRevision = revision, hv_Expectations = resolve\<rparr>))"

definition operationPlanProbeExitCode :: "string \<Rightarrow> int" where
  "operationPlanProbeExitCode outcome =
     (if outcome = ''healthy'' then 0 else if outcome = ''blocked'' then 3
      else if outcome = ''unhealthy'' \<or> outcome = ''indeterminate'' then 4 else - 1)"

definition futureOperationHistoryTime :: "time \<Rightarrow> time \<Rightarrow> bool" where
  "futureOperationHistoryTime candidate now \<longleftrightarrow> candidate > now + second"

definition operationPlanProbeExpectationMatchesIdentity ::
  "OperationPlanProbeExpectation \<Rightarrow> OperationHistoryIdentity \<Rightarrow> time \<Rightarrow> bool" where
  "operationPlanProbeExpectationMatchesIdentity e i startedAt \<longleftrightarrow> pe_AttemptID e = hi_AttemptID i \<and> pe_SourceID e = hi_SourceID i \<and>
     pe_OperationID e = hi_OperationID i \<and> pe_RegistryRevision e = hi_RegistryRevision i \<and>
     pe_ReleaseManifestSHA256 e = hi_ReleaseManifestSHA256 i \<and> pe_IndexSHA256 e = hi_IndexSHA256 i \<and>
     pe_ShardSHA256 e = hi_ShardSHA256 i \<and> pe_StartedAt e = startedAt \<and>
     validOperationProbeExpectation e (pe_CLIVersion e) (pe_CLIBinarySHA256 e)"

text \<open>\<^verbatim>\<open>operationPlanProbeExpectationsEqual\<close> compares every field.\<close>

definition operationPlanProbeExpectationsEqual :: "OperationPlanProbeExpectation \<Rightarrow> OperationPlanProbeExpectation \<Rightarrow> bool" where
  "operationPlanProbeExpectationsEqual left right \<longleftrightarrow> left = right"

definition resolveExpectation ::
  "OperationPlanProbeHistoryValidator \<Rightarrow> bool \<Rightarrow> OperationHistoryIdentity \<Rightarrow> time \<Rightarrow> OperationPlanProbeExpectation option" where
  "resolveExpectation v ctx i startedAt =
     (if \<not> ctx \<or> \<not> validateOperationHistoryIdentity i \<or> \<not> utcNormalized startedAt then None
      else case hv_Expectations v ctx i startedAt of
        None \<Rightarrow> None
      | Some e \<Rightarrow> (if operationPlanProbeExpectationMatchesIdentity e i startedAt then Some e else None))"

definition candidate_ok :: "OperationPlanProbeHistoryValidator \<Rightarrow> OperationHistoryRecord \<Rightarrow> time \<Rightarrow> bool" where
  "candidate_ok v candidate now \<longleftrightarrow> commitPattern (hv_ValidatorRevision v) \<and>
     hr_ValidatorIdentity candidate = operationPlanProbeHistoryValidatorIdentity \<and> commitPattern (hr_ValidatorRevision candidate) \<and>
     hr_ReceiptSchemaURI candidate = OperationPlanProbeReceiptSchemaURI \<and>
     hr_ReceiptSchemaVersion candidate = OperationPlanProbeReceiptSchemaVersion \<and>
     hr_ReceiptSchemaSHA256 candidate = OperationPlanProbeReceiptSchemaSHA256 \<and>
     validateOperationHistoryRecordFields candidate \<and>
     length (hr_ReceiptBytes candidate) \<le> maxOperationPlanProbeReceiptBytes \<and>
     \<not> futureOperationHistoryTime (hr_ValidatedAt candidate) now"

text \<open>\<open>now\<close> is the clock of this call.\<close>

definition ValidateStoredOperationPlanProbeRecord ::
  "probe_codec \<Rightarrow> OperationPlanProbeHistoryValidator \<Rightarrow> bool \<Rightarrow> time \<Rightarrow> OperationHistoryRecord
    \<Rightarrow> (OperationHistoryRecord \<times> probe_result) option" where
  "ValidateStoredOperationPlanProbeRecord pc v ctx now candidate =
     (if \<not> ctx \<or> \<not> candidate_ok v candidate now \<or> pc_schema_sha pc \<noteq> OperationPlanProbeReceiptSchemaSHA256 then None
      else case pc_receipt pc (hr_ReceiptBytes candidate) of
        None \<Rightarrow> None
      | Some receipt \<Rightarrow>
          (if canonical_receipt receipt \<noteq> hr_ReceiptBytes candidate then None
           else case resolveExpectation v ctx (hr_Identity candidate) (hr_AttemptStartedAt candidate) of
             None \<Rightarrow> None
           | Some e \<Rightarrow>
               (case ValidateOperationPlanProbeReceipt pc (hr_ReceiptBytes candidate) e (hr_AttemptStartedAt candidate)
                   (hr_ValidatedAt candidate) (operationPlanProbeExitCode (pb_Outcome (xr_Observation receipt))) of
                  None \<Rightarrow> None
                | Some result \<Rightarrow>
                    (if pr_ReceiptSHA256 result \<noteq> hr_ReceiptSHA256 candidate then None
                     else case newValidatedOperationHistoryRecord candidate of
                       Inl _ \<Rightarrow> None
                     | Inr sealed \<Rightarrow> Some (sealed, result)))))"

definition ValidateStoredOperationHistoryRecord ::
  "probe_codec \<Rightarrow> OperationPlanProbeHistoryValidator \<Rightarrow> bool \<Rightarrow> time \<Rightarrow> OperationHistoryRecord \<Rightarrow> OperationHistoryRecord option" where
  "ValidateStoredOperationHistoryRecord pc v ctx now candidate =
     map_option fst (ValidateStoredOperationPlanProbeRecord pc v ctx now candidate)"

definition same_result :: "probe_result \<Rightarrow> probe_result \<Rightarrow> bool" where
  "same_result checked result \<longleftrightarrow> pr_ReceiptSHA256 checked = pr_ReceiptSHA256 result \<and> pr_Outcome checked = pr_Outcome result \<and>
     pr_ObservedAt checked = pr_ObservedAt result \<and> pr_RequestStarted checked = pr_RequestStarted result \<and>
     pr_HTTPStatus checked = pr_HTTPStatus result \<and> pr_Latency checked = pr_Latency result"

definition record_of_result ::
  "OperationPlanProbeHistoryValidator \<Rightarrow> OperationHistoryIdentity \<Rightarrow> probe_result \<Rightarrow> time \<Rightarrow> OperationHistoryRecord" where
  "record_of_result v i result startedAt =
     \<lparr>hr_SchemaVersion = OperationHistoryRecordSchemaVersion, hr_Identity = i, hr_ReceiptSchemaURI = OperationPlanProbeReceiptSchemaURI,
      hr_ReceiptSchemaVersion = OperationPlanProbeReceiptSchemaVersion, hr_ReceiptSchemaSHA256 = OperationPlanProbeReceiptSchemaSHA256,
      hr_ReceiptSHA256 = pr_ReceiptSHA256 result, hr_ReceiptBytes = pr_ReceiptBytes result,
      hr_ValidatorIdentity = operationPlanProbeHistoryValidatorIdentity, hr_ValidatorRevision = hv_ValidatorRevision v,
      hr_AttemptStartedAt = startedAt, hr_ValidatedAt = pr_ReceivedAt result, hr_validatedByWorker = False, hr_sealedRecordSHA256 = ''''\<rparr>"

definition newRecord ::
  "probe_codec \<Rightarrow> OperationPlanProbeHistoryValidator \<Rightarrow> OperationHistoryIdentity \<Rightarrow> probe_result \<Rightarrow> OperationPlanProbeExpectation \<Rightarrow> time
    \<Rightarrow> time \<Rightarrow> OperationHistoryRecord option" where
  "newRecord pc v i result expected startedAt now =
     (if \<not> commitPattern (hv_ValidatorRevision v) \<or> \<not> validateOperationHistoryIdentity i \<or> \<not> utcNormalized startedAt then None
      else case resolveExpectation v True i startedAt of
        None \<Rightarrow> None
      | Some resolved \<Rightarrow>
          (if \<not> operationPlanProbeExpectationsEqual resolved expected then None
           else case ValidateOperationPlanProbeReceipt pc (pr_ReceiptBytes result) expected startedAt (pr_ReceivedAt result)
               (operationPlanProbeExitCode (pb_Outcome (xr_Observation (pr_Receipt result)))) of
             None \<Rightarrow> None
           | Some checked \<Rightarrow>
               (if \<not> same_result checked result then None
                else map_option fst
                  (ValidateStoredOperationPlanProbeRecord pc v True now (record_of_result v i result startedAt)))))"

section \<open>The pinned resolver\<close>

record PinnedOperationPlanProbeExpectationResolver =
  re_plan :: PinnedOperationObservationPlan
  re_lock :: Lock
  re_arch :: string
  re_templates :: "(string, OperationPlanProbeExpectation) gomap"

definition operationPlanProbeGenerationInputPinsMatchSource :: "plan_codec \<Rightarrow> operationPlanIndexState \<Rightarrow> bool" where
  "operationPlanProbeGenerationInputPinsMatchSource cd state \<longleftrightarrow> sx_verified state \<and> ix_GenerationInputs (sx_index state) \<noteq> '''' \<and>
     (case cd_generation cd (ix_GenerationInputs (sx_index state)) of
        None \<Rightarrow> False
      | Some inputs \<Rightarrow> validOperationPlanGenerationInputs inputs (sx_manifest state) \<and>
          gi_OperationManifest inputs = sx_operationManifestRef state \<and> gi_ProviderIndex inputs = sx_providerIndexRef state)"

definition templateAttemptID :: string where "templateAttemptID = ''00000000-0000-4000-8000-000000000000''"

definition template_step ::
  "PinnedOperationObservationPlan \<Rightarrow> Lock \<Rightarrow> string \<Rightarrow> string \<Rightarrow> OperationObservationPlanRecord
    \<Rightarrow> (string, OperationPlanProbeExpectation) gomap \<Rightarrow> (string, OperationPlanProbeExpectation) gomap option" where
  "template_step plan lock arch shardSHA r templates =
     (if \<not> op_ExecutionEligible r then Some templates
      else case operationPlanProbeExpected plan r shardSHA templateAttemptID lock arch (from_Unix 1) of
        None \<Rightarrow> None
      | Some e \<Rightarrow>
          (let key = operationReadModelIdentityKey (op_SourceID r) (op_OperationID r)
           in if gm_get templates key \<noteq> None then None else Some (gm_put key e templates)))"

fun template_records ::
  "PinnedOperationObservationPlan \<Rightarrow> Lock \<Rightarrow> string \<Rightarrow> string \<Rightarrow> OperationObservationPlanRecord list
    \<Rightarrow> (string, OperationPlanProbeExpectation) gomap \<Rightarrow> (string, OperationPlanProbeExpectation) gomap option" where
  "template_records plan lock arch shardSHA [] templates = Some templates"
| "template_records plan lock arch shardSHA (r # rs) templates =
     (case template_step plan lock arch shardSHA r templates of
        None \<Rightarrow> None | Some templates' \<Rightarrow> template_records plan lock arch shardSHA rs templates')"

fun template_shards ::
  "plan_codec \<Rightarrow> PinnedOperationObservationPlan \<Rightarrow> Lock \<Rightarrow> string \<Rightarrow> nat list
    \<Rightarrow> (string, OperationPlanProbeExpectation) gomap \<Rightarrow> (string, OperationPlanProbeExpectation) gomap option" where
  "template_shards cd plan lock arch [] templates = Some templates"
| "template_shards cd plan lock arch (i # is) templates =
     (case ReadShard cd plan i of
        None \<Rightarrow> None
      | Some records \<Rightarrow>
          (case template_records plan lock arch (sf_SHA256 (ix_Shards (sx_index (pp_state plan)) ! i)) records templates of
             None \<Rightarrow> None | Some templates' \<Rightarrow> template_shards cd plan lock arch is templates'))"

definition NewPinnedOperationPlanProbeExpectationResolver ::
  "plan_codec \<Rightarrow> PinnedOperationObservationPlan \<Rightarrow> Lock \<Rightarrow> string \<Rightarrow> PinnedOperationPlanProbeExpectationResolver option" where
  "NewPinnedOperationPlanProbeExpectationResolver cd plan lock arch =
     (if \<not> sx_verified (pp_state plan) \<or> \<not> lock_Validate lock \<or> arch = '''' \<or> pn_KnownOperations (Counts plan) < 0 \<or>
         pn_KnownOperations (Counts plan) > maxOperationGatusTargets \<or>
         \<not> operationPlanProbeGenerationInputPinsMatchSource cd (pp_state plan)
      then None
      else map_option (\<lambda>templates. \<lparr>re_plan = plan, re_lock = lock, re_arch = arch, re_templates = templates\<rparr>)
        (template_shards cd plan lock arch [0..<ShardCount plan] []))"

definition ResolveOperationPlanProbeExpectation :: "PinnedOperationPlanProbeExpectationResolver \<Rightarrow> expectation_resolver" where
  "ResolveOperationPlanProbeExpectation rv ctx i startedAt =
     (if \<not> ctx \<or> \<not> validateOperationHistoryIdentity i \<or> \<not> utcNormalized startedAt \<or>
         hi_RegistryRevision i \<noteq> RegistryRevision (re_plan rv) \<or>
         hi_ReleaseManifestSHA256 i \<noteq> bi_ReleaseManifestSHA256 (pp_binding (re_plan rv)) \<or>
         hi_IndexSHA256 i \<noteq> IndexSHA256 (re_plan rv)
      then None
      else case gm_get (re_templates rv) (operationReadModelIdentityKey (hi_SourceID i) (hi_OperationID i)) of
        None \<Rightarrow> None
      | Some e \<Rightarrow>
          (if pe_ShardSHA256 e \<noteq> hi_ShardSHA256 i then None
           else Some (e\<lparr>pe_AttemptID := hi_AttemptID i, pe_StartedAt := startedAt\<rparr>)))"

end
