(* ===== verification/Operation_Plan_Probe_Properties.thy ===== *)
theory Operation_Plan_Probe_Properties
  imports Operation_Plan_Probe_History Operation_Plan_Samples Operation_History_Sizes
begin

text \<open>
  What the result of a probe is good for: it rests on a genuine run of the pinned binary and ends its
  attempt in exactly one way.
\<close>

section \<open>Accepted receipts\<close>



lemma accepted_result_simps [simp]:
  "pr_ReceiptSHA256 (accepted_result r raw t t') = sha256_hex raw" "pr_ObservedAt (accepted_result r raw t t') = t'"
  "pr_Outcome (accepted_result r raw t t') = pb_Outcome (xr_Observation r)"
  "pr_ReasonCode (accepted_result r raw t t') = pb_ReasonCode (xr_Observation r)"
  "pr_RequestStarted (accepted_result r raw t t') = px_RequestStarted (xr_Execution r)"
  "pr_HTTPStatus (accepted_result r raw t t') = pb_HTTPStatus (xr_Observation r)"
  "pr_Latency (accepted_result r raw t t') = receipt_latency r" "pr_Receipt (accepted_result r raw t t') = r"
  "pr_ReceiptBytes (accepted_result r raw t t') = raw" "pr_ReceivedAt (accepted_result r raw t t') = t"
  by (simp_all add: accepted_result_def)






abbreviation durable :: "probe_result \<Rightarrow> OperationPlanProbeResult" where "durable p \<equiv> OperationPlanProbeResult.truncate p"

lemma durable_simps [simp]:
  "pr_ReceiptSHA256 (durable p) = pr_ReceiptSHA256 p" "pr_ObservedAt (durable p) = pr_ObservedAt p"
  "pr_Outcome (durable p) = pr_Outcome p" "pr_ReasonCode (durable p) = pr_ReasonCode p"
  "pr_RequestStarted (durable p) = pr_RequestStarted p" "pr_HTTPStatus (durable p) = pr_HTTPStatus p"
  "pr_Latency (durable p) = pr_Latency p"
  by (simp_all add: OperationPlanProbeResult.truncate_def)





lemma sha256_hex_ok [simp]: "sha256Pattern (sha256_hex s)"
  by (rule sha256Pattern_sha256_hex)


section \<open>Runs of the child\<close>








section \<open>A concrete run\<close>


















end
