(* ===== verification/Spec2Isabelle.thy ===== *)
theory Spec2Isabelle
  imports Operation_Quota_History Canary_Properties Operation_History_Archive_Properties
    Operation_Plan_Properties Operation_Gatus_Properties Operation_Plan_Probe_Properties
begin

text \<open>
  Datapan Health: a verification development of the core under \<^verbatim>\<open>internal/health\<close>.

  \<^bold>\<open>The program.\<close>  Datapan Health observes public data operations.  A pinned manifest lists them.
  Every ten minutes the coverage scheduler plans all of them over shards and hands them out as
  leased, fenced work items (\<^verbatim>\<open>schedule_coverage.go\<close>), kept in one durable state file that
  several processes share (\<^verbatim>\<open>schedule_authority.go\<close>, \<^verbatim>\<open>schedule_lifecycle.go\<close>).  A second scheduler
  runs a few canaries at fixed slots and admits their receipts (\<^verbatim>\<open>canary.go\<close>, \<^verbatim>\<open>canary_admission.go\<close>,
  \<^verbatim>\<open>scheduler.go\<close>, \<^verbatim>\<open>scheduler_readiness.go\<close>).  Before a provider is called, request quotas are
  reserved across scopes (\<^verbatim>\<open>operation_quota.go\<close>); the attempt and the delivery of its result are
  recorded per operation (\<^verbatim>\<open>operation_attempt_store.go\<close>), resting on sealed, archived evidence
  (\<^verbatim>\<open>operation_history.go\<close>), and are projected for the public pages (\<^verbatim>\<open>operation_read_model.go\<close>).
  Which operations may be asked at all is the content of a pinned observation plan of a Registry
  release (\<^verbatim>\<open>operation_observation_plan.go\<close>); together with pinned display metadata
  (\<^verbatim>\<open>registry_api_metadata.go\<close>, \<^verbatim>\<open>verified_registry_metadata.go\<close>) and an activation it determines
  the configuration of Gatus and the private identity mapping (\<^verbatim>\<open>operation_gatus_config.go\<close>), which the
  process generates again and compares before it starts (\<^verbatim>\<open>operation_plan_runtime.go\<close>).
  The archive of evidence is a directory of bounded size (\<^verbatim>\<open>operation_history_store.go\<close>): space is
  reserved before a provider is asked, evidence is appended under the reservation, and batches of it
  are frozen, published and, once read back, acknowledged (\<^verbatim>\<open>operation_history_publication.go\<close>).
  An operation is asked by a child process, the CLI of the release: its receipt is checked against what
  the plan and the runtime lock (\<^verbatim>\<open>internal/runtimebundle/bundle.go\<close>) let expect
  (\<^verbatim>\<open>operation_plan_probe.go\<close>), becomes a record of the archive and is validated again whenever it is
  read (\<^verbatim>\<open>operation_plan_probe_history.go\<close>).

  \<^bold>\<open>The theories.\<close>
  \<^item> \<^verbatim>\<open>Prelude\<close>, \<^verbatim>\<open>Encoding\<close>, \<^verbatim>\<open>Sha256\<close>: Go's times as integers of nanoseconds, the receipt patterns,
    Go maps as association lists, sorting, files as documents; decimal and length-prefixed text;
    SHA-256 on words, executable.
  \<^item> \<^verbatim>\<open>Interfaces\<close>: the contracts as locales: steps that keep an invariant (\<^verbatim>\<open>invariant_steps\<close>), steps
    that respect an order, fencing tokens, compare-and-swap stores.  Each is interpreted on the
    definitions of the components that provide it.
  \<^item> \<^verbatim>\<open>Operation_Manifest\<close>: \<^verbatim>\<open>operation_manifest.go\<close>.
  \<^item> \<^verbatim>\<open>Schedule_Coverage\<close>, \<^verbatim>\<open>Schedule_Plan_Facts\<close>, \<^verbatim>\<open>Schedule_Ledger\<close>: \<^verbatim>\<open>schedule_coverage.go\<close>; the plan
    covers the manifest, and every operation of the ledger refines a machine of work items.
  \<^item> \<^verbatim>\<open>Schedule_Authority\<close>, \<^verbatim>\<open>Schedule_Authority_Facts\<close>: \<^verbatim>\<open>schedule_authority.go\<close> and
    \<^verbatim>\<open>schedule_lifecycle.go\<close>; many processes over one file refine the ledger in memory.
  \<^item> \<^verbatim>\<open>Operation_Quota\<close>, \<^verbatim>\<open>Operation_Quota_Facts\<close>, \<^verbatim>\<open>Operation_Quota_History\<close>: \<^verbatim>\<open>operation_quota.go\<close>; its
    transactions are atomic under crashes, and over any history the budgets hold.
  \<^item> \<^verbatim>\<open>Canary\<close>, \<^verbatim>\<open>Canary_Scheduler\<close>, \<^verbatim>\<open>Canary_Scheduler_Facts\<close>, \<^verbatim>\<open>Canary_Properties\<close>: configuration,
    admission, the slot scheduler with its probes as interleaved lists of effects.
  \<^item> \<^verbatim>\<open>Operation_Attempts\<close>, \<^verbatim>\<open>Operation_Attempt_Views\<close>: \<^verbatim>\<open>operation_attempt_store.go\<close> and the check of
    an attempt in \<^verbatim>\<open>operation_read_model.go\<close>.  \<^verbatim>\<open>Operation_Attempt_Facts\<close>: what one operation may do
    to a file, and the invariant of the directory.  \<^verbatim>\<open>Operation_Attempt_Samples\<close>: sizes of JSON texts
    and a concrete run.  \<^verbatim>\<open>Operation_Attempt_Properties\<close>: the theorems.
  \<^item> \<^verbatim>\<open>Operation_History\<close>, \<^verbatim>\<open>Operation_History_Properties\<close>: \<^verbatim>\<open>operation_history.go\<close>, with the JSON
    texts that are hashed, and the transitions that rest on archived evidence.
  \<^item> \<^verbatim>\<open>Operation_History_Files\<close>: the files of the archive with their texts, digests and checks.
    \<^verbatim>\<open>Operation_History_Store\<close>: reads, atomic writes, the replay of a publication, the rebuild of the
    usage account.  \<^verbatim>\<open>Operation_History_Archive\<close>: reservation, append, cancellation, freezing,
    acknowledgement, publication.
  \<^item> \<^verbatim>\<open>Operation_History_Frame\<close>: what each operation leaves alone.  \<^verbatim>\<open>Operation_History_Sizes\<close>: a record
    fits its reservation.  \<^verbatim>\<open>Operation_History_Accounting\<close>, \<^verbatim>\<open>Operation_History_Exact\<close>: an orderly
    directory and its account.  \<^verbatim>\<open>Operation_History_Append\<close>, \<^verbatim>\<open>Operation_History_Freeze\<close>,
    \<^verbatim>\<open>Operation_History_Recovery\<close>, \<^verbatim>\<open>Operation_History_Runs\<close>: every operation, and the rebuild after it
    was interrupted, keep the directory orderly or mendable.
    \<^verbatim>\<open>Operation_History_Archive_Properties\<close>: the theorems.
  \<^item> \<^verbatim>\<open>Texts\<close>: trimming, UTF-8, substrings, slices that may be nil, 64-bit sums.  \<^verbatim>\<open>Operation_Plan\<close>:
    \<^verbatim>\<open>operation_observation_plan.go\<close>, from the files of a release to one decided record;
    \<^verbatim>\<open>Operation_Plan_Facts\<close>: the walk over the shards; \<^verbatim>\<open>Operation_Plan_Samples\<close>: a release that
    loads; \<^verbatim>\<open>Operation_Plan_Properties\<close>: the theorems.
  \<^item> \<^verbatim>\<open>Registry_Metadata\<close>: \<^verbatim>\<open>registry_api_metadata.go\<close> and \<^verbatim>\<open>verified_registry_metadata.go\<close>;
    \<^verbatim>\<open>Registry_Metadata_Facts\<close>, \<^verbatim>\<open>Registry_Metadata_Properties\<close>: indexes, pages, the frozen copy.
  \<^item> \<^verbatim>\<open>Operation_Gatus\<close>: \<^verbatim>\<open>operation_gatus_config.go\<close>, its JSON and YAML as texts;
    \<^verbatim>\<open>Operation_Plan_Runtime\<close>: \<^verbatim>\<open>operation_plan_runtime.go\<close> and the pin of
    \<^verbatim>\<open>operation_read_model_runtime.go\<close>; \<^verbatim>\<open>Operation_Gatus_Facts\<close>: what the walk over canaries and
    plan keeps; \<^verbatim>\<open>Operation_Gatus_Properties\<close>: what is generated, the runtime accepts.
  \<^item> \<^verbatim>\<open>Go_Time\<close>: \<^verbatim>\<open>time.Parse\<close> and \<^verbatim>\<open>filepath.Clean\<close>.  \<^verbatim>\<open>Operation_Plan_Probe\<close>: \<^verbatim>\<open>operation_plan_probe.go\<close>
    and the lock of \<^verbatim>\<open>bundle.go\<close>; \<^verbatim>\<open>Operation_Plan_Probe_History\<close>: \<^verbatim>\<open>operation_plan_probe_history.go\<close>;
    \<^verbatim>\<open>Operation_Plan_Probe_Properties\<close>: a run that gives a result ends its attempt in one way.

  \<^bold>\<open>How the code is modelled.\<close>  A struct is a record whose fields carry a short prefix, an error
  variable a constructor of a datatype, a method a function from the state to its result and the
  new state.  A method that a shorter name would hide keeps its receiver in front (\<^verbatim>\<open>authority_Claim\<close>,
  \<^verbatim>\<open>manifest_Validate\<close>).  64-bit generations are words and wrap; Go's \<^verbatim>\<open>int\<close> and \<^verbatim>\<open>int64\<close> are integers where
  the code bounds them.  Strings are lists of bytes.  A time is in UTC and has no monotonic
  reading.  A file is absent, holds something that does not decode, or holds the value it
  encodes; a directory maps paths to files.  What the environment decides is an argument: the
  clock, whether a lock is obtained, whether the context is done, and the outcome of each write
  (replaced, not replaced, replaced but the directory not synced; for the quota store a list of
  outcomes that, where it ends, is a crash).  Where a whole process is modelled, any
  interleaving of operations with any such outcomes is a run, and the theorems quantify over
  runs.  The files of a release are an image: a path holds bytes or nothing, and does not change.
  A slice is a list, and a list that may be nil only where its JSON tells the two apart.
  \<^verbatim>\<open>strings.ToLower\<close> beyond ASCII is a parameter.  JSON decoders, the JSON Schema engine and validators given as Go interfaces are
  parameters.

  \<^bold>\<open>The lemmas.\<close>  For each store: one lemma per operation on its effect, one summary over all
  operations (\<^verbatim>\<open>run_effect\<close>, \<^verbatim>\<open>ledger_step_cases\<close>, \<^verbatim>\<open>authority_run_cases\<close>, \<^verbatim>\<open>acquire_cases\<close>), an invariant
  lifted to runs by \<^verbatim>\<open>invariant_steps\<close>, and the properties on top.  The archive is a program in an
  error monad over its directory; \<^verbatim>\<open>reads\<close> marks the parts that only read, \<^verbatim>\<open>leads\<close> is a Hoare triple
  that also counts the writes a part needs, and \<^verbatim>\<open>ends_in\<close> holds of every directory a part can stop in.  A property is introduced by a
  text with its number; its witness, where it has hypotheses, applies it to a concrete run.

  \<^bold>\<open>Bounds.\<close>  No loop needs fuel: recursion is structural or has a measure.  Byte limits are those of
  the code: 64 KiB and 2 MiB always suffice for quota files (\<^verbatim>\<open>quota_sizes_suffice\<close>), while 32 KiB
  does not suffice for an attempt file (\<^verbatim>\<open>full_file_is_stuck\<close>).  The space of a reservation suffices
  for every record whose receipt schema version has at most 1,024 bytes (\<^verbatim>\<open>reserved_evidence_is_archived\<close>).
  The checks of the archive keep the 5 MiB headroom of a publication free until a batch is frozen, and
  its 4 MiB tailroom from then on (\<^verbatim>\<open>roomy\<close>); a recount insists on the headroom, so only a frozen batch
  can keep the archive from recovering (\<^verbatim>\<open>archive_recovers\<close>).

  \<^bold>\<open>Not modelled.\<close>  The temporary files of the archive and their cleanup, the modes of its files; the
  order in which a directory is listed is the order of the list.  Theorems on the archive's recovery
  are for runs without acknowledgements.  A loss of power may undo the last step of a quota transaction
  whose directory was not synced; its replay is not modelled, nor is the panic of \<^verbatim>\<open>make\<close> for a huge page
  size, which no caller passes.  A probe goroutine of the canaries is its list of effects: the deadline that
  ends a child is the environment's.  The environment variables of a child are not modelled.  The worker that composes quota, attempts and history around
  one request, the caches of the read model, and
  delivery over HTTP are the next parts of the plan.  HTML pages, diagnosis and compatibility
  reports, the container bundle, dataset uploads and the commands are presentation, offline
  tools or pure I/O.  Opening a store, file modes and \<^verbatim>\<open>flock\<close> are left to their outcomes.
\<close>

end
